(* ===== verification/Prelude.thy ===== *)
theory Prelude
  imports Main "HOL-Library.Word"
begin

text \<open>
  Shared base of the development: the machine integers of the C code as words of fixed
  width, byte buffers as lists of octets with the reads and writes the code performs on
  them (\<^verbatim>\<open>memcpy\<close>, \<^verbatim>\<open>memmove\<close>, \<^verbatim>\<open>get_unaligned_*\<close>, \<^verbatim>\<open>put_unaligned_*\<close>,
  \<^verbatim>\<open>memcmp\<close>), the rotations of \<^verbatim>\<open>linux/bitops.h\<close>, and the generic lemmas on them.
  Multi-octet values are read and written in an explicit byte order, so nothing here
  depends on the byte order of the host.
\<close>

unbundle bit_operations_syntax

type_synonym u8 = "8 word"
type_synonym u16 = "16 word"
type_synonym u32 = "32 word"
type_synonym u64 = "64 word"

lemma bit_u8_ge: "8 \<le> n \<Longrightarrow> \<not> bit (a :: u8) n"
  by (auto dest: bit_imp_le_length)

named_theorems buf_simps \<open>reads of and writes to byte buffers\<close>
named_theorems codec_simps \<open>encoders and decoders of multi-octet fields\<close>

subsection \<open>Reading and writing octets\<close>

text \<open>
  \<open>mem_read b off n\<close> is the \<open>n\<close> octets at offset \<open>off\<close>; \<open>mem_write b off ys\<close> overwrites
  the octets from \<open>off\<close> on by \<open>ys\<close>.
\<close>

definition mem_read :: "'a list \<Rightarrow> nat \<Rightarrow> nat \<Rightarrow> 'a list" where
  "mem_read b off n = take n (drop off b)"

definition mem_write :: "'a list \<Rightarrow> nat \<Rightarrow> 'a list \<Rightarrow> 'a list" where
  "mem_write b off ys = take off b @ ys @ drop (off + length ys) b"

text \<open>\<^verbatim>\<open>memmove(b + dst, b + src, n)\<close>: the source octets are read before any is written.\<close>

definition mem_move :: "'a list \<Rightarrow> nat \<Rightarrow> nat \<Rightarrow> nat \<Rightarrow> 'a list" where
  "mem_move b dst src n = mem_write b dst (mem_read b src n)"

lemma length_mem_read [buf_simps]:
  "off + n \<le> length b \<Longrightarrow> length (mem_read b off n) = n"
  by (simp add: mem_read_def)

lemma length_mem_write [buf_simps]:
  "off + length ys \<le> length b \<Longrightarrow> length (mem_write b off ys) = length b"
  by (simp add: mem_write_def)

lemma mem_write_append_left [buf_simps]:
  "off + length ys \<le> length a \<Longrightarrow> mem_write (a @ b) off ys = mem_write a off ys @ b"
  by (simp add: mem_write_def)

lemma mem_write_append_right [buf_simps]:
  "length a \<le> off \<Longrightarrow> mem_write (a @ b) off ys = a @ mem_write b (off - length a) ys"
  by (simp add: mem_write_def)

lemma mem_write_all [buf_simps]: "length ys = length b \<Longrightarrow> mem_write b 0 ys = ys"
  by (simp add: mem_write_def)

lemma mem_write_prefix [buf_simps]:
  "length ys = length a \<Longrightarrow> mem_write (a @ b) 0 ys = ys @ b"
  by (simp add: mem_write_def)

lemma mem_read_append_left [buf_simps]:
  "off + n \<le> length a \<Longrightarrow> mem_read (a @ b) off n = mem_read a off n"
  by (simp add: mem_read_def)

lemma mem_read_append_right [buf_simps]:
  "length a \<le> off \<Longrightarrow> mem_read (a @ b) off n = mem_read b (off - length a) n"
  by (simp add: mem_read_def)

lemma mem_read_all [buf_simps]: "length b = n \<Longrightarrow> mem_read b 0 n = b"
  by (simp add: mem_read_def)

lemma mem_read_prefix [buf_simps]: "length a = n \<Longrightarrow> mem_read (a @ b) 0 n = a"
  by (simp add: mem_read_def)

lemma nth_mem_write:
  "off + length ys \<le> length b \<Longrightarrow> i < length b \<Longrightarrow>
   mem_write b off ys ! i =
     (if i < off then b ! i else if i < off + length ys then ys ! (i - off) else b ! i)"
  by (auto simp: mem_write_def nth_append min_def)

lemma nth_mem_read: "i < n \<Longrightarrow> off + n \<le> length b \<Longrightarrow> mem_read b off n ! i = b ! (off + i)"
  by (simp add: mem_read_def)

lemma mem_read_cong_nth:
  assumes "off + n \<le> length a" "off + n \<le> length b"
    and "\<And>i. off \<le> i \<Longrightarrow> i < off + n \<Longrightarrow> a ! i = b ! i"
  shows "mem_read a off n = mem_read b off n"
  using assms by (intro nth_equalityI) (auto simp: nth_mem_read length_mem_read)

lemma mem_read_split: "mem_read b off (n + m) = mem_read b off n @ mem_read b (off + n) m"
  by (simp add: mem_read_def take_add) (simp add: add.commute)

lemma mem_read_take: "off + n \<le> k \<Longrightarrow> mem_read (take k b) off n = mem_read b off n"
  by (simp add: mem_read_def drop_take take_take min_def)

subsection \<open>Multi-octet fields\<close>

definition get_unaligned_le16 :: "u8 list \<Rightarrow> nat \<Rightarrow> u16" where
  "get_unaligned_le16 b off = ucast (b ! off) OR push_bit 8 (ucast (b ! (off + 1)))"

definition get_unaligned_le32 :: "u8 list \<Rightarrow> nat \<Rightarrow> u32" where
  "get_unaligned_le32 b off =
     ucast (b ! off) OR push_bit 8 (ucast (b ! (off + 1)))
     OR push_bit 16 (ucast (b ! (off + 2))) OR push_bit 24 (ucast (b ! (off + 3)))"

definition get_unaligned_be16 :: "u8 list \<Rightarrow> nat \<Rightarrow> u16" where
  "get_unaligned_be16 b off = push_bit 8 (ucast (b ! off)) OR ucast (b ! (off + 1))"

definition le16_bytes :: "u16 \<Rightarrow> u8 list" where
  "le16_bytes w = [ucast w, ucast (drop_bit 8 w)]"

definition le32_bytes :: "u32 \<Rightarrow> u8 list" where
  "le32_bytes w = [ucast w, ucast (drop_bit 8 w), ucast (drop_bit 16 w), ucast (drop_bit 24 w)]"

definition be16_bytes :: "u16 \<Rightarrow> u8 list" where
  "be16_bytes w = [ucast (drop_bit 8 w), ucast w]"

lemma length_le16_bytes [simp]: "length (le16_bytes w) = 2"
  by (simp add: le16_bytes_def)

lemma length_le32_bytes [simp]: "length (le32_bytes w) = 4"
  by (simp add: le32_bytes_def)

lemma length_be16_bytes [simp]: "length (be16_bytes w) = 2"
  by (simp add: be16_bytes_def)

lemma get_le16_bytes [codec_simps]: "get_unaligned_le16 (le16_bytes w @ r) 0 = w"
  unfolding get_unaligned_le16_def le16_bytes_def
  by (rule bit_word_eqI) (auto simp: bit_simps)

lemma get_le32_bytes [codec_simps]: "get_unaligned_le32 (le32_bytes w @ r) 0 = w"
proof (rule bit_word_eqI)
  fix n
  assume "n < LENGTH(32)"
  then consider "n < 8" | "8 \<le> n" "n < 16" | "16 \<le> n" "n < 24" | "24 \<le> n" "n < 32"
    by fastforce
  then show "bit (get_unaligned_le32 (le32_bytes w @ r) 0) n = bit w n"
    by cases (auto simp: get_unaligned_le32_def le32_bytes_def bit_simps)
qed

lemma get_be16_bytes [codec_simps]: "get_unaligned_be16 (be16_bytes w @ r) 0 = w"
  unfolding get_unaligned_be16_def be16_bytes_def
  by (rule bit_word_eqI) (auto simp: bit_simps)

lemma get_le32_append_right [buf_simps]:
  "length a = off \<Longrightarrow> get_unaligned_le32 (a @ b) off = get_unaligned_le32 b 0"
  by (simp add: get_unaligned_le32_def nth_append numeral_2_eq_2)

lemma get_le32_bytes_all [codec_simps]: "get_unaligned_le32 (le32_bytes w) 0 = w"
  using get_le32_bytes [of w "[]"] by simp

lemma get_le16_append_right [buf_simps]:
  "length a = off \<Longrightarrow> get_unaligned_le16 (a @ b) off = get_unaligned_le16 b 0"
  by (simp add: get_unaligned_le16_def nth_append)

subsection \<open>Rotations and byte swaps\<close>

definition rol32 :: "u32 \<Rightarrow> nat \<Rightarrow> u32" where
  "rol32 w n = word_rotl n w"

definition ror32 :: "u32 \<Rightarrow> nat \<Rightarrow> u32" where
  "ror32 w n = word_rotr n w"

definition ror16 :: "u16 \<Rightarrow> nat \<Rightarrow> u16" where
  "ror16 w n = word_rotr n w"

definition swab16 :: "u16 \<Rightarrow> u16" where
  "swab16 w = push_bit 8 (w AND 0xff) OR drop_bit 8 (w AND 0xff00)"

lemma u16_byte_masks: "(0xff :: u16) = mask 8" "(0xff00 :: u16) = push_bit 8 (mask 8)"
  by (simp_all add: mask_eq_exp_minus_1 push_bit_eq_mult)

lemma bit_swab16: "n < 16 \<Longrightarrow> bit (swab16 w) n = (if n < 8 then bit w (n + 8) else bit w (n - 8))"
  unfolding swab16_def u16_byte_masks
  by (simp only: bit_or_iff bit_push_bit_iff bit_drop_bit_eq bit_and_iff bit_mask_iff o_apply)
    (auto simp: add.commute dest: bit_imp_le_length)

lemma swab16_swab16: "swab16 (swab16 w) = w"
  by (rule bit_word_eqI) (auto simp: bit_swab16)

subsection \<open>\<^verbatim>\<open>memcmp\<close> and the big-endian value of a buffer\<close>

text \<open>
  The sign of \<^verbatim>\<open>memcmp\<close> over two buffers of the same length: the code only tests
  \<open>res < 0\<close>, \<open>res <= 0\<close> and \<open>!res\<close>.
\<close>

fun memcmp :: "u8 list \<Rightarrow> u8 list \<Rightarrow> int" where
  "memcmp (x # xs) (y # ys) = (if x < y then - 1 else if y < x then 1 else memcmp xs ys)"
| "memcmp _ _ = 0"

fun be_nat :: "u8 list \<Rightarrow> nat" where
  "be_nat [] = 0"
| "be_nat (x # xs) = unat x * 256 ^ length xs + be_nat xs"

lemma unat_u8_lt: "unat (x :: u8) < 256"
  using unsigned_less [of x, where ?'a = nat] by simp

lemma be_nat_lt: "be_nat xs < 256 ^ length xs"
proof (induction xs)
  case Nil
  then show ?case by simp
next
  case (Cons x xs)
  have "unat x * 256 ^ length xs \<le> 255 * 256 ^ length xs"
    using unat_u8_lt [of x] by (intro mult_right_mono) auto
  with Cons.IH show ?case
    by (simp only: be_nat.simps list.size power_Suc add_Suc_right add_0_right)
qed

lemma be_nat_replicate_zero [simp]: "be_nat (replicate n 0) = 0"
  by (induction n) simp_all

lemma be_nat_cons_less:
  assumes "x < (y :: u8)" and "length xs = length ys"
  shows "be_nat (x # xs) < be_nat (y # ys)"
proof -
  have "unat x + 1 \<le> unat y"
    using assms(1) by (simp add: word_less_nat_alt)
  then have "(unat x + 1) * 256 ^ length xs \<le> unat y * 256 ^ length ys"
    using assms(2) by (simp only: mult_le_mono1)
  then have "unat x * 256 ^ length xs + 256 ^ length xs \<le> unat y * 256 ^ length ys"
    by (simp only: distrib_right mult_1)
  then show ?thesis
    using be_nat_lt [of xs] by (simp only: be_nat.simps)
qed

lemma memcmp_be_nat:
  "length xs = length ys \<Longrightarrow>
   (memcmp xs ys < 0 \<longleftrightarrow> be_nat xs < be_nat ys) \<and> (memcmp xs ys = 0 \<longleftrightarrow> be_nat xs = be_nat ys)"
proof (induction xs ys rule: memcmp.induct)
  case (1 x xs y ys)
  consider "x < y" | "y < x" | "x = y" by fastforce
  then show ?case
    using 1 be_nat_cons_less [of x y xs ys] be_nat_cons_less [of y x ys xs]
    by cases auto
qed (simp_all)

lemma memcmp_neg_iff: "length xs = length ys \<Longrightarrow> memcmp xs ys < 0 \<longleftrightarrow> be_nat xs < be_nat ys"
  by (simp add: memcmp_be_nat)

lemma memcmp_zero_iff: "length xs = length ys \<Longrightarrow> memcmp xs ys = 0 \<longleftrightarrow> be_nat xs = be_nat ys"
  by (simp add: memcmp_be_nat)

lemma memcmp_le_iff: "length xs = length ys \<Longrightarrow> memcmp xs ys \<le> 0 \<longleftrightarrow> be_nat xs \<le> be_nat ys"
  using memcmp_be_nat [of xs ys] by linarith

lemma be_nat_inject: "length xs = length ys \<Longrightarrow> be_nat xs = be_nat ys \<longleftrightarrow> xs = ys"
proof (induction xs ys rule: list_induct2)
  case Nil
  then show ?case by simp
next
  case (Cons x xs y ys)
  show ?case
  proof (cases "x = y")
    case True
    with Cons show ?thesis by simp
  next
    case False
    then have "x < y \<or> y < x" by (simp add: neq_iff)
    then show ?thesis
      using be_nat_cons_less [of x y xs ys] be_nat_cons_less [of y x ys xs] Cons.hyps False by auto
  qed
qed

subsection \<open>Arithmetic\<close>

text \<open>The difference of two lengths in C, an \<^verbatim>\<open>unsigned int\<close> that wraps below zero.\<close>

definition sub_u32 :: "nat \<Rightarrow> nat \<Rightarrow> nat" where
  "sub_u32 a b = unat (word_of_nat a - word_of_nat b :: u32)"

lemma unat_of_nat_u32: "n < 2 ^ 32 \<Longrightarrow> unat (word_of_nat n :: u32) = n"
  by (simp add: unat_of_nat take_bit_nat_eq_self)

lemma sub_u32_eq: "b \<le> a \<Longrightarrow> a < 2 ^ 32 \<Longrightarrow> sub_u32 a b = a - b"
proof -
  assume "b \<le> a" "a < 2 ^ 32"
  then have "(word_of_nat a - word_of_nat b :: u32) = word_of_nat (a - b)"
    by (simp add: of_nat_diff)
  with \<open>a < 2 ^ 32\<close> show ?thesis
    unfolding sub_u32_def by (simp only: unat_of_nat_u32 less_imp_diff_less)
qed

text \<open>A difference below zero wraps to at least \<open>2 ^ 32\<close> less the subtrahend.\<close>

lemma sub_u32_wrap: "a < b \<Longrightarrow> b < 2 ^ 32 \<Longrightarrow> sub_u32 a b = 2 ^ 32 - (b - a)"
proof -
  assume le: "a < b" and b: "b < 2 ^ 32"
  have "(word_of_nat a - word_of_nat b :: u32) = word_of_nat (a + 2 ^ 32 - b)"
    using le b by (simp add: of_nat_diff)
  moreover have "a + 2 ^ 32 - b < 2 ^ 32" using le b by simp
  ultimately have "sub_u32 a b = a + 2 ^ 32 - b"
    unfolding sub_u32_def by (simp only: unat_of_nat_u32)
  with le b show ?thesis by simp
qed

lemma mod_mult_div_int:
  assumes "0 < (b :: int)" "0 < c"
  shows "a mod (b * c) div b = a div b mod c"
proof -
  have "a mod (b * c) = b * (a div b mod c) + a mod b"
    using assms by (intro zmod_zmult2_eq) simp
  then show ?thesis
    using assms by simp
qed

text \<open>The C test \<open>w & m\<close> used as a condition.\<close>

definition has_flag :: "'a::len word \<Rightarrow> 'a word \<Rightarrow> bool" where
  "has_flag w m \<longleftrightarrow> w AND m \<noteq> 0"

lemma has_flag_zero [simp]: "\<not> has_flag 0 m"
  by (simp add: has_flag_def)

lemma word_and_not_disjoint: "(a :: 'a::len word) AND b = 0 \<Longrightarrow> a AND NOT b = a"
  by (rule bit_word_eqI) (auto simp: bit_and_iff bit_not_iff dest: arg_cong [where f = "\<lambda>w. bit w _"])

subsection \<open>Bit fields\<close>

text \<open>The macros of the kernel's \<^verbatim>\<open>bitfield.h\<close>: the multiplier is the lowest bit of the field.\<close>

definition field_multiplier :: "'a::len word \<Rightarrow> 'a word" where
  "field_multiplier field = field AND - field"

definition encode_bits :: "'a::len word \<Rightarrow> 'a word \<Rightarrow> 'a word" where
  "encode_bits v field = (v AND (field div field_multiplier field)) * field_multiplier field"

definition get_bits :: "'a::len word \<Rightarrow> 'a word \<Rightarrow> 'a word" where
  "get_bits v field = (v AND field) div field_multiplier field"

end
