(* ===== verification/Ieee80211.thy ===== *)
theory Ieee80211
  imports Prelude
begin

text \<open>
  The 802.11 frame header as \<^verbatim>\<open>hdrs/linux/ieee80211.h\<close> reads it: the packed
  \<^verbatim>\<open>struct ieee80211_hdr\<close> laid over the first octets of a frame, the frame-control
  predicates, the QoS-control and address accessors, and the modulo-4096 arithmetic of
  sequence numbers. A header pointer is the list of octets it points to. \<^verbatim>\<open>__le16\<close>
  fields are read as their numeric value; every test of the source compares them with
  \<^verbatim>\<open>cpu_to_le16\<close> of a constant, which is the same test on the value.
\<close>

subsection \<open>Header fields\<close>

definition ETH_ALEN :: nat where "ETH_ALEN = 6"

definition frame_control :: "u8 list \<Rightarrow> u16" where
  "frame_control hdr = get_unaligned_le16 hdr 0"

definition addr1 :: "u8 list \<Rightarrow> u8 list" where
  "addr1 hdr = mem_read hdr 4 ETH_ALEN"

definition addr2 :: "u8 list \<Rightarrow> u8 list" where
  "addr2 hdr = mem_read hdr 10 ETH_ALEN"

definition addr3 :: "u8 list \<Rightarrow> u8 list" where
  "addr3 hdr = mem_read hdr 16 ETH_ALEN"

definition addrs :: "u8 list \<Rightarrow> u8 list" where
  "addrs hdr = mem_read hdr 4 (3 * ETH_ALEN)"

definition seq_ctrl :: "u8 list \<Rightarrow> u16" where
  "seq_ctrl hdr = get_unaligned_le16 hdr 22"

definition addr4 :: "u8 list \<Rightarrow> u8 list" where
  "addr4 hdr = mem_read hdr 24 ETH_ALEN"

text \<open>Writing the frame control: \<^verbatim>\<open>hdr->frame_control |= cpu_to_le16(m)\<close>.\<close>

definition or_frame_control :: "u8 list \<Rightarrow> u16 \<Rightarrow> u8 list" where
  "or_frame_control hdr m = mem_write hdr 0 (le16_bytes (frame_control hdr OR m))"

text \<open>
  \<^verbatim>\<open>is_multicast_ether_addr\<close> of \<^verbatim>\<open>linux/etherdevice.h\<close>: the group bit of the first octet.
\<close>

definition is_multicast_ether_addr :: "u8 list \<Rightarrow> bool" where
  "is_multicast_ether_addr a \<longleftrightarrow> has_flag (a ! 0) 0x01"

subsection \<open>Frame control constants\<close>

abbreviation (input) IEEE80211_FCTL_FTYPE :: u16 where "IEEE80211_FCTL_FTYPE \<equiv> 0x000c"
abbreviation (input) IEEE80211_FCTL_STYPE :: u16 where "IEEE80211_FCTL_STYPE \<equiv> 0x00f0"
abbreviation (input) IEEE80211_FCTL_TODS :: u16 where "IEEE80211_FCTL_TODS \<equiv> 0x0100"
abbreviation (input) IEEE80211_FCTL_FROMDS :: u16 where "IEEE80211_FCTL_FROMDS \<equiv> 0x0200"
abbreviation (input) IEEE80211_FCTL_MOREFRAGS :: u16 where "IEEE80211_FCTL_MOREFRAGS \<equiv> 0x0400"
abbreviation (input) IEEE80211_FCTL_RETRY :: u16 where "IEEE80211_FCTL_RETRY \<equiv> 0x0800"
abbreviation (input) IEEE80211_FCTL_PM :: u16 where "IEEE80211_FCTL_PM \<equiv> 0x1000"
abbreviation (input) IEEE80211_FCTL_MOREDATA :: u16 where "IEEE80211_FCTL_MOREDATA \<equiv> 0x2000"
abbreviation (input) IEEE80211_FCTL_PROTECTED :: u16 where "IEEE80211_FCTL_PROTECTED \<equiv> 0x4000"
abbreviation (input) IEEE80211_FCTL_ORDER :: u16 where "IEEE80211_FCTL_ORDER \<equiv> 0x8000"

abbreviation (input) IEEE80211_SCTL_FRAG :: u16 where "IEEE80211_SCTL_FRAG \<equiv> 0x000F"
abbreviation (input) IEEE80211_SCTL_SEQ :: u16 where "IEEE80211_SCTL_SEQ \<equiv> 0xFFF0"

abbreviation (input) IEEE80211_FTYPE_MGMT :: u16 where "IEEE80211_FTYPE_MGMT \<equiv> 0x0000"
abbreviation (input) IEEE80211_FTYPE_CTL :: u16 where "IEEE80211_FTYPE_CTL \<equiv> 0x0004"
abbreviation (input) IEEE80211_FTYPE_DATA :: u16 where "IEEE80211_FTYPE_DATA \<equiv> 0x0008"
abbreviation (input) IEEE80211_FTYPE_EXT :: u16 where "IEEE80211_FTYPE_EXT \<equiv> 0x000c"

abbreviation (input) IEEE80211_STYPE_ASSOC_REQ :: u16 where "IEEE80211_STYPE_ASSOC_REQ \<equiv> 0x0000"
abbreviation (input) IEEE80211_STYPE_ASSOC_RESP :: u16 where "IEEE80211_STYPE_ASSOC_RESP \<equiv> 0x0010"
abbreviation (input) IEEE80211_STYPE_REASSOC_REQ :: u16 where "IEEE80211_STYPE_REASSOC_REQ \<equiv> 0x0020"
abbreviation (input) IEEE80211_STYPE_REASSOC_RESP :: u16 where "IEEE80211_STYPE_REASSOC_RESP \<equiv> 0x0030"
abbreviation (input) IEEE80211_STYPE_PROBE_REQ :: u16 where "IEEE80211_STYPE_PROBE_REQ \<equiv> 0x0040"
abbreviation (input) IEEE80211_STYPE_PROBE_RESP :: u16 where "IEEE80211_STYPE_PROBE_RESP \<equiv> 0x0050"
abbreviation (input) IEEE80211_STYPE_BEACON :: u16 where "IEEE80211_STYPE_BEACON \<equiv> 0x0080"
abbreviation (input) IEEE80211_STYPE_DISASSOC :: u16 where "IEEE80211_STYPE_DISASSOC \<equiv> 0x00A0"
abbreviation (input) IEEE80211_STYPE_AUTH :: u16 where "IEEE80211_STYPE_AUTH \<equiv> 0x00B0"
abbreviation (input) IEEE80211_STYPE_DEAUTH :: u16 where "IEEE80211_STYPE_DEAUTH \<equiv> 0x00C0"
abbreviation (input) IEEE80211_STYPE_ACTION :: u16 where "IEEE80211_STYPE_ACTION \<equiv> 0x00D0"
abbreviation (input) IEEE80211_STYPE_NULLFUNC :: u16 where "IEEE80211_STYPE_NULLFUNC \<equiv> 0x0040"
abbreviation (input) IEEE80211_STYPE_QOS_DATA :: u16 where "IEEE80211_STYPE_QOS_DATA \<equiv> 0x0080"
abbreviation (input) IEEE80211_STYPE_QOS_NULLFUNC :: u16 where "IEEE80211_STYPE_QOS_NULLFUNC \<equiv> 0x00C0"
abbreviation (input) IEEE80211_STYPE_S1G_BEACON :: u16 where "IEEE80211_STYPE_S1G_BEACON \<equiv> 0x0010"

subsection \<open>Frame control predicates\<close>

definition ieee80211_has_tods :: "u16 \<Rightarrow> bool" where
  "ieee80211_has_tods fc \<longleftrightarrow> fc AND IEEE80211_FCTL_TODS \<noteq> 0"

definition ieee80211_has_fromds :: "u16 \<Rightarrow> bool" where
  "ieee80211_has_fromds fc \<longleftrightarrow> fc AND IEEE80211_FCTL_FROMDS \<noteq> 0"

definition ieee80211_has_a4 :: "u16 \<Rightarrow> bool" where
  "ieee80211_has_a4 fc \<longleftrightarrow>
     (let tmp = IEEE80211_FCTL_TODS OR IEEE80211_FCTL_FROMDS in fc AND tmp = tmp)"

definition ieee80211_has_morefrags :: "u16 \<Rightarrow> bool" where
  "ieee80211_has_morefrags fc \<longleftrightarrow> fc AND IEEE80211_FCTL_MOREFRAGS \<noteq> 0"

definition ieee80211_has_retry :: "u16 \<Rightarrow> bool" where
  "ieee80211_has_retry fc \<longleftrightarrow> fc AND IEEE80211_FCTL_RETRY \<noteq> 0"

definition ieee80211_has_protected :: "u16 \<Rightarrow> bool" where
  "ieee80211_has_protected fc \<longleftrightarrow> fc AND IEEE80211_FCTL_PROTECTED \<noteq> 0"

definition ieee80211_is_mgmt :: "u16 \<Rightarrow> bool" where
  "ieee80211_is_mgmt fc \<longleftrightarrow> fc AND IEEE80211_FCTL_FTYPE = IEEE80211_FTYPE_MGMT"

definition ieee80211_is_ctl :: "u16 \<Rightarrow> bool" where
  "ieee80211_is_ctl fc \<longleftrightarrow> fc AND IEEE80211_FCTL_FTYPE = IEEE80211_FTYPE_CTL"

definition ieee80211_is_data :: "u16 \<Rightarrow> bool" where
  "ieee80211_is_data fc \<longleftrightarrow> fc AND IEEE80211_FCTL_FTYPE = IEEE80211_FTYPE_DATA"

definition ieee80211_is_data_qos :: "u16 \<Rightarrow> bool" where
  "ieee80211_is_data_qos fc \<longleftrightarrow>
     fc AND (IEEE80211_FCTL_FTYPE OR IEEE80211_STYPE_QOS_DATA)
       = IEEE80211_FTYPE_DATA OR IEEE80211_STYPE_QOS_DATA"

definition ieee80211_is_data_present :: "u16 \<Rightarrow> bool" where
  "ieee80211_is_data_present fc \<longleftrightarrow> fc AND (IEEE80211_FCTL_FTYPE OR 0x40) = IEEE80211_FTYPE_DATA"

definition fc_is :: "u16 \<Rightarrow> u16 \<Rightarrow> u16 \<Rightarrow> bool" where
  "fc_is ftype stype fc \<longleftrightarrow> fc AND (IEEE80211_FCTL_FTYPE OR IEEE80211_FCTL_STYPE) = ftype OR stype"

definition ieee80211_is_beacon :: "u16 \<Rightarrow> bool" where
  "ieee80211_is_beacon = fc_is IEEE80211_FTYPE_MGMT IEEE80211_STYPE_BEACON"

definition ieee80211_is_disassoc :: "u16 \<Rightarrow> bool" where
  "ieee80211_is_disassoc = fc_is IEEE80211_FTYPE_MGMT IEEE80211_STYPE_DISASSOC"

definition ieee80211_is_auth :: "u16 \<Rightarrow> bool" where
  "ieee80211_is_auth = fc_is IEEE80211_FTYPE_MGMT IEEE80211_STYPE_AUTH"

definition ieee80211_is_deauth :: "u16 \<Rightarrow> bool" where
  "ieee80211_is_deauth = fc_is IEEE80211_FTYPE_MGMT IEEE80211_STYPE_DEAUTH"

definition ieee80211_is_action :: "u16 \<Rightarrow> bool" where
  "ieee80211_is_action = fc_is IEEE80211_FTYPE_MGMT IEEE80211_STYPE_ACTION"

definition ieee80211_is_nullfunc :: "u16 \<Rightarrow> bool" where
  "ieee80211_is_nullfunc = fc_is IEEE80211_FTYPE_DATA IEEE80211_STYPE_NULLFUNC"

definition ieee80211_is_qos_nullfunc :: "u16 \<Rightarrow> bool" where
  "ieee80211_is_qos_nullfunc = fc_is IEEE80211_FTYPE_DATA IEEE80211_STYPE_QOS_NULLFUNC"

definition ieee80211_is_any_nullfunc :: "u16 \<Rightarrow> bool" where
  "ieee80211_is_any_nullfunc fc \<longleftrightarrow> ieee80211_is_nullfunc fc \<or> ieee80211_is_qos_nullfunc fc"

definition ieee80211_is_frag :: "u8 list \<Rightarrow> bool" where
  "ieee80211_is_frag hdr \<longleftrightarrow>
     ieee80211_has_morefrags (frame_control hdr) \<or> seq_ctrl hdr AND IEEE80211_SCTL_FRAG \<noteq> 0"

text \<open>\<^verbatim>\<open>le16_get_bits(hdr->seq_ctrl, IEEE80211_SCTL_SEQ)\<close>: mask, then shift by the mask's low bit.\<close>

definition ieee80211_get_sn :: "u8 list \<Rightarrow> u16" where
  "ieee80211_get_sn hdr = drop_bit 4 (seq_ctrl hdr AND IEEE80211_SCTL_SEQ)"

lemmas fc_defs = ieee80211_has_tods_def ieee80211_has_fromds_def ieee80211_has_a4_def
  ieee80211_has_morefrags_def ieee80211_has_retry_def ieee80211_has_protected_def
  ieee80211_is_mgmt_def ieee80211_is_ctl_def ieee80211_is_data_def ieee80211_is_data_qos_def
  ieee80211_is_data_present_def fc_is_def ieee80211_is_beacon_def ieee80211_is_disassoc_def
  ieee80211_is_auth_def ieee80211_is_deauth_def ieee80211_is_action_def
  ieee80211_is_nullfunc_def ieee80211_is_qos_nullfunc_def ieee80211_is_any_nullfunc_def

subsection \<open>QoS control and addresses\<close>

definition qos_ctl_off :: "u8 list \<Rightarrow> nat" where
  "qos_ctl_off hdr = (if ieee80211_has_a4 (frame_control hdr) then 30 else 24)"

definition ieee80211_get_qos_ctl :: "u8 list \<Rightarrow> u8" where
  "ieee80211_get_qos_ctl hdr = hdr ! qos_ctl_off hdr"

abbreviation (input) IEEE80211_QOS_CTL_TID_MASK :: u8 where "IEEE80211_QOS_CTL_TID_MASK \<equiv> 0x0f"
abbreviation (input) IEEE80211_QOS_CTL_TAG1D_MASK :: u8 where "IEEE80211_QOS_CTL_TAG1D_MASK \<equiv> 0x07"
abbreviation (input) IEEE80211_QOS_CTL_ACK_POLICY_NOACK :: u8
  where "IEEE80211_QOS_CTL_ACK_POLICY_NOACK \<equiv> 0x20"
abbreviation (input) IEEE80211_QOS_CTL_ACK_POLICY_BLOCKACK :: u8
  where "IEEE80211_QOS_CTL_ACK_POLICY_BLOCKACK \<equiv> 0x60"
abbreviation (input) IEEE80211_QOS_CTL_ACK_POLICY_MASK :: u8
  where "IEEE80211_QOS_CTL_ACK_POLICY_MASK \<equiv> 0x60"
abbreviation (input) IEEE80211_QOS_CTL_A_MSDU_PRESENT :: u8
  where "IEEE80211_QOS_CTL_A_MSDU_PRESENT \<equiv> 0x80"

definition ieee80211_get_tid :: "u8 list \<Rightarrow> u8" where
  "ieee80211_get_tid hdr = ieee80211_get_qos_ctl hdr AND IEEE80211_QOS_CTL_TID_MASK"

definition ieee80211_get_SA :: "u8 list \<Rightarrow> u8 list" where
  "ieee80211_get_SA hdr =
     (if ieee80211_has_a4 (frame_control hdr) then addr4 hdr
      else if ieee80211_has_fromds (frame_control hdr) then addr3 hdr
      else addr2 hdr)"

definition ieee80211_get_DA :: "u8 list \<Rightarrow> u8 list" where
  "ieee80211_get_DA hdr =
     (if ieee80211_has_tods (frame_control hdr) then addr3 hdr else addr1 hdr)"

text \<open>
  Robust management frames. \<^verbatim>\<open>IEEE80211_MIN_ACTION_SIZE\<close> is the offset of the action's
  payload, 24 octets of header and the category octet. The categories are those of
  \<^verbatim>\<open>enum ieee80211_category\<close>.
\<close>

definition IEEE80211_MIN_ACTION_SIZE :: nat where "IEEE80211_MIN_ACTION_SIZE = 25"

abbreviation (input) WLAN_CATEGORY_PUBLIC :: u8 where "WLAN_CATEGORY_PUBLIC \<equiv> 4"
abbreviation (input) WLAN_CATEGORY_HT :: u8 where "WLAN_CATEGORY_HT \<equiv> 7"
abbreviation (input) WLAN_CATEGORY_WNM_UNPROTECTED :: u8 where "WLAN_CATEGORY_WNM_UNPROTECTED \<equiv> 11"
abbreviation (input) WLAN_CATEGORY_MESH_ACTION :: u8 where "WLAN_CATEGORY_MESH_ACTION \<equiv> 13"
abbreviation (input) WLAN_CATEGORY_SELF_PROTECTED :: u8 where "WLAN_CATEGORY_SELF_PROTECTED \<equiv> 15"
abbreviation (input) WLAN_CATEGORY_UNPROT_DMG :: u8 where "WLAN_CATEGORY_UNPROT_DMG \<equiv> 20"
abbreviation (input) WLAN_CATEGORY_VHT :: u8 where "WLAN_CATEGORY_VHT \<equiv> 21"
abbreviation (input) WLAN_CATEGORY_S1G :: u8 where "WLAN_CATEGORY_S1G \<equiv> 22"
abbreviation (input) WLAN_CATEGORY_VENDOR_SPECIFIC :: u8 where "WLAN_CATEGORY_VENDOR_SPECIFIC \<equiv> 127"

definition is_robust_mgmt_hdr :: "u8 list \<Rightarrow> bool" where
  "is_robust_mgmt_hdr hdr \<longleftrightarrow>
     (let fc = frame_control hdr in
      if ieee80211_is_disassoc fc \<or> ieee80211_is_deauth fc then True
      else if ieee80211_is_action fc then
        (if ieee80211_has_protected fc then True
         else
           (let category = hdr ! 24 in
            category \<noteq> WLAN_CATEGORY_PUBLIC \<and> category \<noteq> WLAN_CATEGORY_HT \<and>
            category \<noteq> WLAN_CATEGORY_WNM_UNPROTECTED \<and>
            category \<noteq> WLAN_CATEGORY_SELF_PROTECTED \<and>
            category \<noteq> WLAN_CATEGORY_UNPROT_DMG \<and> category \<noteq> WLAN_CATEGORY_VHT \<and>
            category \<noteq> WLAN_CATEGORY_S1G \<and> category \<noteq> WLAN_CATEGORY_VENDOR_SPECIFIC))
      else False)"

definition ieee80211_is_robust_mgmt_frame :: "u8 list \<Rightarrow> bool" where
  "ieee80211_is_robust_mgmt_frame data \<longleftrightarrow>
     (if length data < IEEE80211_MIN_ACTION_SIZE then False else is_robust_mgmt_hdr data)"

subsection \<open>Sequence numbers\<close>

text \<open>
  Twelve-bit sequence numbers in \<^verbatim>\<open>u16\<close>: C promotes the operands to \<^verbatim>\<open>int\<close> and masks the
  result to twelve bits, which agrees with the subtraction and addition of 16-bit words.
\<close>

abbreviation (input) IEEE80211_SN_MASK :: u16 where "IEEE80211_SN_MASK \<equiv> 0x0FFF"
abbreviation (input) IEEE80211_SN_MODULO :: u16 where "IEEE80211_SN_MODULO \<equiv> 0x1000"

definition ieee80211_sn_less :: "u16 \<Rightarrow> u16 \<Rightarrow> bool" where
  "ieee80211_sn_less sn1 sn2 \<longleftrightarrow> (sn1 - sn2) AND IEEE80211_SN_MASK > drop_bit 1 IEEE80211_SN_MODULO"

definition ieee80211_sn_less_eq :: "u16 \<Rightarrow> u16 \<Rightarrow> bool" where
  "ieee80211_sn_less_eq sn1 sn2 \<longleftrightarrow> (sn2 - sn1) AND IEEE80211_SN_MASK \<le> drop_bit 1 IEEE80211_SN_MODULO"

definition ieee80211_sn_add :: "u16 \<Rightarrow> u16 \<Rightarrow> u16" where
  "ieee80211_sn_add sn1 sn2 = (sn1 + sn2) AND IEEE80211_SN_MASK"

definition ieee80211_sn_inc :: "u16 \<Rightarrow> u16" where
  "ieee80211_sn_inc sn = ieee80211_sn_add sn 1"

definition ieee80211_sn_sub :: "u16 \<Rightarrow> u16 \<Rightarrow> u16" where
  "ieee80211_sn_sub sn1 sn2 = (sn1 - sn2) AND IEEE80211_SN_MASK"

text \<open>The distance from one number forward to another, the measure of all window lemmas.\<close>

definition sn_dist :: "u16 \<Rightarrow> u16 \<Rightarrow> nat" where
  "sn_dist a b = unat (ieee80211_sn_sub b a)"

lemma unat_sn_mask: "unat (w AND IEEE80211_SN_MASK) = unat w mod 4096"
proof -
  have "w AND IEEE80211_SN_MASK = take_bit 12 w"
    by (simp only: take_bit_eq_mask mask_eq_exp_minus_1) simp
  then show ?thesis
    by (simp only: unsigned_take_bit_eq) (simp add: take_bit_eq_mod)
qed

lemma uint_sn_mask: "uint (w AND IEEE80211_SN_MASK) = uint w mod 4096"
  by (simp only: uint_nat unat_sn_mask zmod_int) simp

lemma sn_mask_id: "unat w < 4096 \<Longrightarrow> w AND IEEE80211_SN_MASK = w"
  by (simp only: word_unat_eq_iff unat_sn_mask mod_less)

lemma uint_sn_diff: "uint ((a - b) AND IEEE80211_SN_MASK) = (uint a - uint b) mod 4096"
proof -
  have "uint ((a - b) AND IEEE80211_SN_MASK) = ((uint a - uint b) mod 2 ^ 16) mod 4096"
    by (simp add: uint_sn_mask uint_word_ariths)
  also have "\<dots> = (uint a - uint b) mod 4096"
    by (rule mod_mod_cancel) simp
  finally show ?thesis .
qed

lemma unat_sn_sum: "unat ((a + b) AND IEEE80211_SN_MASK) = (unat a + unat b) mod 4096"
proof -
  have "unat ((a + b) AND IEEE80211_SN_MASK) = ((unat a + unat b) mod 2 ^ 16) mod 4096"
    by (simp add: unat_sn_mask unat_word_ariths)
  also have "\<dots> = (unat a + unat b) mod 4096"
    by (rule mod_mod_cancel) simp
  finally show ?thesis .
qed

lemma int_sn_dist: "int (sn_dist a b) = (uint b - uint a) mod 4096"
  by (simp only: sn_dist_def ieee80211_sn_sub_def uint_nat [symmetric] uint_sn_diff)

lemma sn_dist_lt [simp]: "sn_dist a b < 4096"
  by (simp only: sn_dist_def ieee80211_sn_sub_def unat_sn_mask mod_less_divisor zero_less_numeral)

lemma sn_dist_self [simp]: "sn_dist a a = 0"
  using int_sn_dist [of a a] by simp

lemma uint_lt_unat: "unat (a :: u16) < 4096 \<longleftrightarrow> uint a < 4096"
  by (simp only: uint_nat) linarith

lemma sn_dist_zero_iff:
  assumes "unat a < 4096" and "unat b < 4096"
  shows "sn_dist a b = 0 \<longleftrightarrow> a = b"
proof
  assume "sn_dist a b = 0"
  then have "4096 dvd uint b - uint a"
    using int_sn_dist [of a b] by (simp add: dvd_eq_mod_eq_0)
  then have "uint b mod 4096 = uint a mod 4096"
    by (simp only: mod_eq_dvd_iff)
  then have "uint b = uint a"
    using assms uint_lt_unat [of a] uint_lt_unat [of b] by (simp add: mod_pos_pos_trivial)
  then show "a = b" by (simp add: word_uint_eq_iff)
qed simp

text \<open>\<open>sn_less a b\<close>: \<open>b\<close> lies less than half the space ahead of \<open>a\<close>.\<close>

lemma mod_opposite: "2048 < (x - y) mod 4096 \<longleftrightarrow> 0 < (y - x) mod 4096 \<and> (y - x) mod 4096 < (2048 :: int)"
proof -
  have "(x - y) mod 4096 = (if (y - x) mod 4096 = 0 then 0 else 4096 - (y - x) mod 4096)"
    using zmod_zminus1_eq_if [of "y - x" 4096] by simp
  then show ?thesis
    using pos_mod_bound [of 4096 "y - x"] pos_mod_sign [of 4096 "y - x"] by auto
qed

lemma sn_less_iff: "ieee80211_sn_less a b \<longleftrightarrow> 0 < sn_dist a b \<and> sn_dist a b < 2048"
proof -
  have "ieee80211_sn_less a b \<longleftrightarrow> 2048 < (uint a - uint b) mod 4096"
    by (simp add: ieee80211_sn_less_def word_less_def uint_sn_diff del: uint_sn_mask)
  also have "\<dots> \<longleftrightarrow> 0 < sn_dist a b \<and> sn_dist a b < 2048"
    using int_sn_dist [of a b] by (simp only: mod_opposite) linarith
  finally show ?thesis .
qed

lemma sn_less_eq_iff: "ieee80211_sn_less_eq a b \<longleftrightarrow> sn_dist a b \<le> 2048"
  by (simp add: ieee80211_sn_less_eq_def sn_dist_def ieee80211_sn_sub_def word_le_nat_alt)

lemma unat_sn_inc: "unat (ieee80211_sn_inc a) = (unat a + 1) mod 4096"
  by (simp only: ieee80211_sn_inc_def ieee80211_sn_add_def unat_sn_sum) simp

lemma uint_sn_inc: "uint (ieee80211_sn_inc a) = (uint a + 1) mod 4096"
  using arg_cong [OF unat_sn_inc [of a], of int] by (simp add: zmod_int add.commute)

lemma sn_inc_lt: "unat (ieee80211_sn_inc a) < 4096"
  by (simp add: unat_sn_inc)

lemma sn_dist_inc:
  assumes "0 < sn_dist a b"
  shows "sn_dist (ieee80211_sn_inc a) b = sn_dist a b - 1"
proof -
  have pos: "0 < (uint b - uint a) mod 4096"
    using assms int_sn_dist [of a b] by linarith
  have "int (sn_dist (ieee80211_sn_inc a) b) = (uint b - (uint a + 1) mod 4096) mod 4096"
    by (simp only: int_sn_dist uint_sn_inc)
  also have "\<dots> = (uint b - uint a - 1) mod 4096"
    by (simp only: mod_diff_right_eq diff_diff_eq)
  also have "\<dots> = ((uint b - uint a) mod 4096 - 1) mod 4096"
    by (simp only: mod_diff_left_eq)
  also have "\<dots> = (uint b - uint a) mod 4096 - 1"
    using pos pos_mod_bound [of 4096 "uint b - uint a"] by (intro mod_pos_pos_trivial) linarith+
  finally show ?thesis using assms int_sn_dist [of a b] by linarith
qed

lemma ieee80211_get_sn_lt: "unat (ieee80211_get_sn hdr) < 4096"
proof -
  have "unat (ieee80211_get_sn hdr) = unat (seq_ctrl hdr AND IEEE80211_SCTL_SEQ) div 2 ^ 4"
    by (simp only: ieee80211_get_sn_def unsigned_drop_bit_eq drop_bit_eq_div unat_div of_nat_power
        of_nat_numeral) (simp add: unat_div)
  then show ?thesis
    using unsigned_less [of "seq_ctrl hdr AND IEEE80211_SCTL_SEQ", where ?'a = nat]
    by (simp only:) simp
qed

subsection \<open>Reading a header out of a longer buffer\<close>

lemma frame_control_cong:
  "2 \<le> length a \<Longrightarrow> frame_control (a @ b) = frame_control a"
  by (cases a; cases "tl a") (simp_all add: frame_control_def get_unaligned_le16_def)

lemma frame_control_take_cong:
  assumes "take 2 a = take 2 b" "2 \<le> length a" "2 \<le> length b"
  shows "frame_control a = frame_control b"
proof -
  have "a ! i = b ! i" if "i < 2" for i
    using assms that nth_take [of i 2 a] nth_take [of i 2 b] by simp
  then show ?thesis by (simp add: frame_control_def get_unaligned_le16_def)
qed

lemma length_addrs_read:
  "24 \<le> length hdr \<Longrightarrow> length (addr1 hdr) = 6"
  "24 \<le> length hdr \<Longrightarrow> length (addr2 hdr) = 6"
  "24 \<le> length hdr \<Longrightarrow> length (addr3 hdr) = 6"
  "30 \<le> length hdr \<Longrightarrow> length (addr4 hdr) = 6"
  by (simp_all add: addr1_def addr2_def addr3_def addr4_def ETH_ALEN_def length_mem_read)

text \<open>A buffer that holds the header its frame control announces.\<close>

definition hdr_present :: "u8 list \<Rightarrow> bool" where
  "hdr_present hdr \<longleftrightarrow>
     24 \<le> length hdr \<and> (ieee80211_has_a4 (frame_control hdr) \<longrightarrow> 30 \<le> length hdr)"

lemma length_DA_SA:
  assumes "hdr_present hdr"
  shows "length (ieee80211_get_DA hdr) = 6" "length (ieee80211_get_SA hdr) = 6"
  using assms
  by (auto simp: hdr_present_def ieee80211_get_DA_def ieee80211_get_SA_def length_addrs_read)

lemma length_or_frame_control [simp]:
  "2 \<le> length hdr \<Longrightarrow> length (or_frame_control hdr m) = length hdr"
  by (simp add: or_frame_control_def buf_simps)

lemma frame_control_or [simp]: "frame_control (or_frame_control hdr m) = frame_control hdr OR m"
  by (simp add: frame_control_def or_frame_control_def mem_write_def codec_simps)

lemma has_protected_or [simp]: "ieee80211_has_protected (fc OR IEEE80211_FCTL_PROTECTED)"
proof -
  have "(fc OR m) AND m = m" for m :: u16
    by (rule bit_word_eqI) (auto simp: bit_simps)
  then show ?thesis by (simp add: ieee80211_has_protected_def)
qed

lemma or_frame_control_append [buf_simps]:
  "2 \<le> length a \<Longrightarrow> or_frame_control (a @ b) m = or_frame_control a m @ b"
  by (simp add: or_frame_control_def frame_control_cong buf_simps)

lemma drop_or_frame_control:
  "2 \<le> length hdr \<Longrightarrow> 2 \<le> n \<Longrightarrow> drop n (or_frame_control hdr m) = drop n hdr"
  by (simp add: or_frame_control_def mem_write_def del: drop_drop)
    (simp add: drop_drop numeral_2_eq_2 flip: Suc_diff_le)

text \<open>Setting the Protected bit changes nothing else that is read from a header.\<close>

lemma and_or_protected: "(fc OR IEEE80211_FCTL_PROTECTED) AND m = (fc AND m) OR (IEEE80211_FCTL_PROTECTED AND m)"
  by (rule bit_word_eqI) (auto simp: bit_simps)

lemma fc_or_protected [simp]:
  "ieee80211_has_tods (fc OR IEEE80211_FCTL_PROTECTED) = ieee80211_has_tods fc"
  "ieee80211_has_fromds (fc OR IEEE80211_FCTL_PROTECTED) = ieee80211_has_fromds fc"
  "ieee80211_has_a4 (fc OR IEEE80211_FCTL_PROTECTED) = ieee80211_has_a4 fc"
  "ieee80211_is_mgmt (fc OR IEEE80211_FCTL_PROTECTED) = ieee80211_is_mgmt fc"
  "ieee80211_is_data (fc OR IEEE80211_FCTL_PROTECTED) = ieee80211_is_data fc"
  "ieee80211_is_data_qos (fc OR IEEE80211_FCTL_PROTECTED) = ieee80211_is_data_qos fc"
  "ieee80211_is_data_present (fc OR IEEE80211_FCTL_PROTECTED) = ieee80211_is_data_present fc"
  by (simp_all add: fc_defs and_or_protected Let_def)

lemma mem_read_or_frame_control:
  assumes "2 \<le> off" "off + n \<le> length hdr"
  shows "mem_read (or_frame_control hdr m) off n = mem_read hdr off n"
  using assms by (intro mem_read_cong_nth) (simp_all add: or_frame_control_def nth_mem_write buf_simps)

lemma nth_or_frame_control: "2 \<le> i \<Longrightarrow> i < length hdr \<Longrightarrow> or_frame_control hdr m ! i = hdr ! i"
  by (simp add: or_frame_control_def nth_mem_write)

lemma addrs_or_frame_control:
  assumes "hdr_present hdr"
  shows "ieee80211_get_DA (or_frame_control hdr IEEE80211_FCTL_PROTECTED) = ieee80211_get_DA hdr"
    and "ieee80211_get_SA (or_frame_control hdr IEEE80211_FCTL_PROTECTED) = ieee80211_get_SA hdr"
  using assms by (auto simp: hdr_present_def ieee80211_get_DA_def ieee80211_get_SA_def addr1_def addr2_def
      addr3_def addr4_def ETH_ALEN_def mem_read_or_frame_control)

text \<open>A buffer that also holds the QoS control field, if the header has one.\<close>

definition hdr_complete :: "u8 list \<Rightarrow> bool" where
  "hdr_complete hdr \<longleftrightarrow>
     hdr_present hdr \<and>
     (ieee80211_is_data_qos (frame_control hdr) \<longrightarrow> qos_ctl_off hdr < length hdr)"

lemma addrs_append:
  "24 \<le> length hdr \<Longrightarrow> addr1 (hdr @ r) = addr1 hdr"
  "24 \<le> length hdr \<Longrightarrow> addr2 (hdr @ r) = addr2 hdr"
  "24 \<le> length hdr \<Longrightarrow> addr3 (hdr @ r) = addr3 hdr"
  "24 \<le> length hdr \<Longrightarrow> addrs (hdr @ r) = addrs hdr"
  "30 \<le> length hdr \<Longrightarrow> addr4 (hdr @ r) = addr4 hdr"
  by (simp_all add: addr1_def addr2_def addr3_def addr4_def addrs_def ETH_ALEN_def buf_simps)

lemma qos_ctl_append:
  assumes "hdr_complete hdr" "ieee80211_is_data_qos (frame_control hdr)"
  shows "ieee80211_get_qos_ctl (hdr @ r) = ieee80211_get_qos_ctl hdr"
  using assms by (auto simp: hdr_complete_def hdr_present_def ieee80211_get_qos_ctl_def
      qos_ctl_off_def frame_control_cong nth_append)

lemma hdr_complete_24: "hdr_complete hdr \<Longrightarrow> 24 \<le> length hdr"
  by (simp add: hdr_complete_def hdr_present_def)

end
