(* ===== verification/Mac80211.thy ===== *)
theory Mac80211
  imports Ieee80211
begin

text \<open>
  The data the frame handlers of \<^verbatim>\<open>mac80211\<close> share: the socket buffer with its headroom
  and tailroom, the two views of its control block, keys, the per-device state and the
  per-frame \<^verbatim>\<open>ieee80211_rx_data\<close>, and the functions of other kernel parts the handlers call.
\<close>

subsection \<open>Functions the code calls and does not define\<close>

text \<open>
  \<^verbatim>\<open>ieee80211_hdrlen\<close> is cfg80211's, \<^verbatim>\<open>crc32_le\<close> and ARC4 are the kernel's library, the
  AEAD and hash transforms are the kernel's crypto API, and the three offsets into a TKIP
  key are constants of the nl80211 header. They are parameters of the model. \<open>x_arc4 k d\<close>
  is \<^verbatim>\<open>arc4_setkey\<close> with key \<open>k\<close> followed by one \<^verbatim>\<open>arc4_crypt\<close> of \<open>d\<close>; an AEAD call returns
  its status with the octets it leaves in the data (and, encrypting, the tag) buffer;
  \<open>x_shash\<close> is the digest of the concatenated updates.
\<close>

type_synonym tfm = nat

record extern =
  x_hdrlen :: "u16 \<Rightarrow> nat"
  x_crc32_le :: "u32 \<Rightarrow> u8 list \<Rightarrow> u32"
  x_arc4 :: "u8 list \<Rightarrow> u8 list \<Rightarrow> u8 list"
  x_aead_encrypt :: "tfm \<Rightarrow> u8 list \<Rightarrow> u8 list \<Rightarrow> u8 list \<Rightarrow> int \<times> u8 list \<times> u8 list"
  x_aead_decrypt :: "tfm \<Rightarrow> u8 list \<Rightarrow> u8 list \<Rightarrow> u8 list \<Rightarrow> u8 list \<Rightarrow> int \<times> u8 list"
  x_aead_authsize :: "tfm \<Rightarrow> nat"
  x_shash :: "tfm \<Rightarrow> u8 list \<Rightarrow> u8 list"
  x_tkip_encr_key :: nat
  x_tkip_tx_mic_key :: nat
  x_tkip_rx_mic_key :: nat

text \<open>The transforms keep the lengths the crypto API documents.\<close>

definition aead_lengths :: "extern \<Rightarrow> tfm \<Rightarrow> bool" where
  "aead_lengths x t \<longleftrightarrow>
     (\<forall>iv ad p r c m. x_aead_encrypt x t iv ad p = (r, c, m) \<longrightarrow>
        length c = length p \<and> length m = x_aead_authsize x t) \<and>
     (\<forall>iv ad c m r p. x_aead_decrypt x t iv ad c m = (r, p) \<longrightarrow> length p = length c)"

lemma aead_lengthsD:
  "aead_lengths x t \<Longrightarrow> x_aead_encrypt x t iv ad p = (r, c, m) \<Longrightarrow> length c = length p"
  "aead_lengths x t \<Longrightarrow> x_aead_encrypt x t iv ad p = (r, c, m) \<Longrightarrow> length m = x_aead_authsize x t"
  "aead_lengths x t \<Longrightarrow> x_aead_decrypt x t iv ad c m = (r, p) \<Longrightarrow> length p = length c"
  unfolding aead_lengths_def by blast+

text \<open>Decryption under the same nonce and associated data inverts encryption.\<close>

definition aead_inverse :: "extern \<Rightarrow> tfm \<Rightarrow> bool" where
  "aead_inverse x t \<longleftrightarrow>
     (\<forall>iv ad p c m. x_aead_encrypt x t iv ad p = (0, c, m) \<longrightarrow>
        x_aead_decrypt x t iv ad c m = (0, p))"

definition arc4_lengths :: "extern \<Rightarrow> bool" where
  "arc4_lengths x \<longleftrightarrow> (\<forall>k d. length (x_arc4 x k d) = length d)"

text \<open>A stream cipher: the same key restores the data.\<close>

definition arc4_inverse :: "extern \<Rightarrow> bool" where
  "arc4_inverse x \<longleftrightarrow> (\<forall>k d. x_arc4 x k (x_arc4 x k d) = d)"

subsection \<open>Socket buffers\<close>

text \<open>
  A linear buffer: the octets in front of \<^verbatim>\<open>skb->data\<close>, the frame, and the octets after
  it. \<open>skb_oom\<close> tells which of the memory allocations made while the frame is handled fail.
  \<open>hw_key\<close> of the transmit control block is the flags word of the key configuration it
  points to, the only field the handlers read through it; \<open>None\<close> is a null pointer.
\<close>

datatype alloc_site = Alloc_Linearize | Alloc_Pull | Alloc_Trim | Alloc_Request | Alloc_Mic
  | Alloc_Expand

record tx_info =
  ti_flags :: u32
  ti_control_flags :: u32
  hw_key :: "u16 option"

record rx_status =
  rs_flag :: u32
  rs_rx_flags :: u32

record sk_buff =
  skb_head :: "u8 list"
  skb_data :: "u8 list"
  skb_tail :: "u8 list"
  skb_priority :: u32
  skb_protocol :: u16
  skb_tx :: tx_info
  skb_rx :: rx_status
  skb_oom :: "alloc_site \<Rightarrow> bool"

abbreviation (input) skb_len :: "sk_buff \<Rightarrow> nat" where
  "skb_len skb \<equiv> length (skb_data skb)"

definition skb_headroom :: "sk_buff \<Rightarrow> nat" where
  "skb_headroom skb = length (skb_head skb)"

definition skb_tailroom :: "sk_buff \<Rightarrow> nat" where
  "skb_tailroom skb = length (skb_tail skb)"

definition skb_push :: "nat \<Rightarrow> sk_buff \<Rightarrow> sk_buff" where
  "skb_push n skb =
     (let k = length (skb_head skb) - n in
      skb\<lparr>skb_head := take k (skb_head skb), skb_data := drop k (skb_head skb) @ skb_data skb\<rparr>)"

definition skb_pull :: "nat \<Rightarrow> sk_buff \<Rightarrow> sk_buff" where
  "skb_pull n skb =
     skb\<lparr>skb_head := skb_head skb @ take n (skb_data skb), skb_data := drop n (skb_data skb)\<rparr>"

definition skb_put :: "nat \<Rightarrow> sk_buff \<Rightarrow> sk_buff" where
  "skb_put n skb =
     skb\<lparr>skb_data := skb_data skb @ take n (skb_tail skb), skb_tail := drop n (skb_tail skb)\<rparr>"

definition skb_trim :: "sk_buff \<Rightarrow> nat \<Rightarrow> sk_buff" where
  "skb_trim skb n =
     (if n < length (skb_data skb)
      then skb\<lparr>skb_data := take n (skb_data skb), skb_tail := drop n (skb_data skb) @ skb_tail skb\<rparr>
      else skb)"

definition pskb_may_pull :: "sk_buff \<Rightarrow> nat \<Rightarrow> bool" where
  "pskb_may_pull skb n \<longleftrightarrow> \<not> skb_oom skb Alloc_Pull \<and> n \<le> length (skb_data skb)"

text \<open>
  \<^verbatim>\<open>skb_linearize\<close> and \<^verbatim>\<open>pskb_trim\<close> return nonzero when an allocation they need fails.
\<close>

definition skb_linearize_fails :: "sk_buff \<Rightarrow> bool" where
  "skb_linearize_fails skb = skb_oom skb Alloc_Linearize"

definition pskb_trim_fails :: "sk_buff \<Rightarrow> bool" where
  "pskb_trim_fails skb = skb_oom skb Alloc_Trim"

definition skb_write :: "nat \<Rightarrow> u8 list \<Rightarrow> sk_buff \<Rightarrow> sk_buff" where
  "skb_write off ys skb = skb\<lparr>skb_data := mem_write (skb_data skb) off ys\<rparr>"

definition skb_memmove :: "nat \<Rightarrow> nat \<Rightarrow> nat \<Rightarrow> sk_buff \<Rightarrow> sk_buff" where
  "skb_memmove dst src n skb = skb\<lparr>skb_data := mem_move (skb_data skb) dst src n\<rparr>"

text \<open>
  Opening a gap of \<open>n\<close> octets after the first \<open>h\<close>: \<^verbatim>\<open>skb_push\<close> followed by the \<^verbatim>\<open>memmove\<close> of
  the header, as every encryption routine does; and closing it, as decryption does.
\<close>

lemma skb_push_move:
  assumes "n \<le> skb_headroom skb" and "h \<le> length (skb_data skb)"
  shows "\<exists>gap. length gap = n \<and>
    skb_data (skb_memmove 0 n h (skb_push n skb)) =
      take h (skb_data skb) @ gap @ drop h (skb_data skb)"
proof -
  let ?d = "skb_data skb"
  let ?f = "drop (length (skb_head skb) - n) (skb_head skb)"
  have f: "length ?f = n" using assms(1) by (simp add: skb_headroom_def)
  have src: "mem_read (?f @ ?d) n h = take h ?d"
    using f by (simp add: mem_read_def)
  have "skb_data (skb_memmove 0 n h (skb_push n skb)) = take h ?d @ drop h (?f @ ?d)"
    using assms(2) by (simp add: skb_memmove_def skb_push_def Let_def mem_move_def src mem_write_def)
  also have "drop h (?f @ ?d) = take n (drop h (?f @ ?d)) @ drop n (drop h (?f @ ?d))"
    by (simp only: append_take_drop_id)
  also have "drop n (drop h (?f @ ?d)) = drop h ?d"
  proof -
    have "drop n (drop h (?f @ ?d)) = drop h (drop n (?f @ ?d))"
      by (simp only: drop_drop add.commute)
    also have "drop n (?f @ ?d) = ?d"
      using f by (simp only: drop_append) simp
    finally show ?thesis .
  qed
  finally show ?thesis
    using f assms(2) by (intro exI [of _ "take n (drop h (?f @ ?d))"]) simp
qed

lemma skb_data_pull_move:
  assumes "h + n \<le> length (skb_data skb)"
  shows "skb_data (skb_pull n (skb_memmove n 0 h skb)) =
    take h (skb_data skb) @ drop (h + n) (skb_data skb)"
proof -
  have "length (mem_read (skb_data skb) 0 h) = h"
    using assms by (simp add: mem_read_def)
  then show ?thesis
    using assms by (simp add: skb_pull_def skb_memmove_def mem_move_def mem_write_def)
      (simp add: mem_read_def add.commute)
qed

lemma skb_data_put: "n \<le> skb_tailroom skb \<Longrightarrow>
  \<exists>fill. length fill = n \<and> skb_data (skb_put n skb) = skb_data skb @ fill"
  by (rule exI [of _ "take n (skb_tail skb)"]) (simp add: skb_put_def skb_tailroom_def)

lemma skb_data_trim: "skb_data (skb_trim skb n) = take n (skb_data skb)"
  by (simp add: skb_trim_def)

text \<open>Buffer operations leave the control block and the flags of the buffer alone.\<close>

lemma skb_frame [simp]:
  "skb_tx (skb_push n skb) = skb_tx skb" "skb_rx (skb_push n skb) = skb_rx skb"
  "skb_tx (skb_pull n skb) = skb_tx skb" "skb_rx (skb_pull n skb) = skb_rx skb"
  "skb_tx (skb_put n skb) = skb_tx skb" "skb_rx (skb_put n skb) = skb_rx skb"
  "skb_tx (skb_trim skb n) = skb_tx skb" "skb_rx (skb_trim skb n) = skb_rx skb"
  "skb_tx (skb_write off ys skb) = skb_tx skb" "skb_rx (skb_write off ys skb) = skb_rx skb"
  "skb_tx (skb_memmove d s n skb) = skb_tx skb" "skb_rx (skb_memmove d s n skb) = skb_rx skb"
  by (simp_all add: skb_push_def skb_pull_def skb_put_def skb_trim_def skb_write_def
      skb_memmove_def Let_def)

lemma skb_tail_frame [simp]:
  "skb_tail (skb_push n skb) = skb_tail skb"
  "skb_tail (skb_write off ys skb) = skb_tail skb"
  "skb_tail (skb_memmove d s n skb) = skb_tail skb"
  "skb_data (skb_write off ys skb) = mem_write (skb_data skb) off ys"
  by (simp_all add: skb_push_def skb_write_def skb_memmove_def Let_def)

subsection \<open>Flags\<close>

abbreviation (input) IEEE80211_TX_CTL_NO_ACK :: u32 where "IEEE80211_TX_CTL_NO_ACK \<equiv> 0x4"
abbreviation (input) IEEE80211_TX_CTL_INJECTED :: u32 where "IEEE80211_TX_CTL_INJECTED \<equiv> 0x80"
abbreviation (input) IEEE80211_TX_INTFL_TKIP_MIC_FAILURE :: u32
  where "IEEE80211_TX_INTFL_TKIP_MIC_FAILURE \<equiv> 0x4000000"
abbreviation (input) IEEE80211_TX_CTL_DONTFRAG :: u32 where "IEEE80211_TX_CTL_DONTFRAG \<equiv> 0x40000000"

abbreviation (input) RX_FLAG_MMIC_ERROR :: u32 where "RX_FLAG_MMIC_ERROR \<equiv> 0x1"
abbreviation (input) RX_FLAG_DECRYPTED :: u32 where "RX_FLAG_DECRYPTED \<equiv> 0x2"
abbreviation (input) RX_FLAG_MMIC_STRIPPED :: u32 where "RX_FLAG_MMIC_STRIPPED \<equiv> 0x8"
abbreviation (input) RX_FLAG_IV_STRIPPED :: u32 where "RX_FLAG_IV_STRIPPED \<equiv> 0x10"
abbreviation (input) RX_FLAG_PN_VALIDATED :: u32 where "RX_FLAG_PN_VALIDATED \<equiv> 0x400"
abbreviation (input) RX_FLAG_DUP_VALIDATED :: u32 where "RX_FLAG_DUP_VALIDATED \<equiv> 0x800"
abbreviation (input) RX_FLAG_AMSDU_MORE :: u32 where "RX_FLAG_AMSDU_MORE \<equiv> 0x80000"
abbreviation (input) RX_FLAG_MIC_STRIPPED :: u32 where "RX_FLAG_MIC_STRIPPED \<equiv> 0x200000"
abbreviation (input) RX_FLAG_ALLOW_SAME_PN :: u32 where "RX_FLAG_ALLOW_SAME_PN \<equiv> 0x400000"
abbreviation (input) RX_FLAG_ICV_STRIPPED :: u32 where "RX_FLAG_ICV_STRIPPED \<equiv> 0x800000"

abbreviation (input) IEEE80211_KEY_FLAG_GENERATE_IV_MGMT :: u16
  where "IEEE80211_KEY_FLAG_GENERATE_IV_MGMT \<equiv> 0x1"
abbreviation (input) IEEE80211_KEY_FLAG_GENERATE_IV :: u16
  where "IEEE80211_KEY_FLAG_GENERATE_IV \<equiv> 0x2"
abbreviation (input) IEEE80211_KEY_FLAG_GENERATE_MMIC :: u16
  where "IEEE80211_KEY_FLAG_GENERATE_MMIC \<equiv> 0x4"
abbreviation (input) IEEE80211_KEY_FLAG_PUT_IV_SPACE :: u16
  where "IEEE80211_KEY_FLAG_PUT_IV_SPACE \<equiv> 0x20"
abbreviation (input) IEEE80211_KEY_FLAG_PUT_MIC_SPACE :: u16
  where "IEEE80211_KEY_FLAG_PUT_MIC_SPACE \<equiv> 0x100"
abbreviation (input) IEEE80211_KEY_FLAG_GENERATE_MMIE :: u16
  where "IEEE80211_KEY_FLAG_GENERATE_MMIE \<equiv> 0x400"
abbreviation (input) IEEE80211_KEY_FLAG_SPP_AMSDU :: u16
  where "IEEE80211_KEY_FLAG_SPP_AMSDU \<equiv> 0x800"

abbreviation (input) KEY_FLAG_UPLOADED_TO_HARDWARE :: u32
  where "KEY_FLAG_UPLOADED_TO_HARDWARE \<equiv> 0x1"
abbreviation (input) KEY_FLAG_TAINTED :: u32 where "KEY_FLAG_TAINTED \<equiv> 0x2"

abbreviation (input) WLAN_CIPHER_SUITE_WEP40 :: u32 where "WLAN_CIPHER_SUITE_WEP40 \<equiv> 0x000FAC01"
abbreviation (input) WLAN_CIPHER_SUITE_TKIP :: u32 where "WLAN_CIPHER_SUITE_TKIP \<equiv> 0x000FAC02"
abbreviation (input) WLAN_CIPHER_SUITE_CCMP :: u32 where "WLAN_CIPHER_SUITE_CCMP \<equiv> 0x000FAC04"
abbreviation (input) WLAN_CIPHER_SUITE_WEP104 :: u32 where "WLAN_CIPHER_SUITE_WEP104 \<equiv> 0x000FAC05"
abbreviation (input) WLAN_CIPHER_SUITE_AES_CMAC :: u32 where "WLAN_CIPHER_SUITE_AES_CMAC \<equiv> 0x000FAC06"
abbreviation (input) WLAN_CIPHER_SUITE_GCMP :: u32 where "WLAN_CIPHER_SUITE_GCMP \<equiv> 0x000FAC08"
abbreviation (input) WLAN_CIPHER_SUITE_GCMP_256 :: u32 where "WLAN_CIPHER_SUITE_GCMP_256 \<equiv> 0x000FAC09"
abbreviation (input) WLAN_CIPHER_SUITE_CCMP_256 :: u32 where "WLAN_CIPHER_SUITE_CCMP_256 \<equiv> 0x000FAC0A"
abbreviation (input) WLAN_CIPHER_SUITE_BIP_GMAC_128 :: u32 where "WLAN_CIPHER_SUITE_BIP_GMAC_128 \<equiv> 0x000FAC0B"
abbreviation (input) WLAN_CIPHER_SUITE_BIP_GMAC_256 :: u32 where "WLAN_CIPHER_SUITE_BIP_GMAC_256 \<equiv> 0x000FAC0C"
abbreviation (input) WLAN_CIPHER_SUITE_BIP_CMAC_256 :: u32 where "WLAN_CIPHER_SUITE_BIP_CMAC_256 \<equiv> 0x000FAC0D"

subsection \<open>Keys\<close>

text \<open>
  \<^verbatim>\<open>struct ieee80211_key_conf\<close> with the fields the handlers use. The union \<^verbatim>\<open>u\<close> of
  \<^verbatim>\<open>struct ieee80211_key\<close> is a record of its members: the code uses the one member that
  belongs to the key's cipher.
\<close>

record ieee80211_key_conf =
  kc_tx_pn :: u64
  kc_cipher :: u32
  kc_keyidx :: int
  kc_flags :: u16
  kc_keylen :: nat
  kc_key :: "u8 list"

datatype tkip_state = TKIP_STATE_NOT_INIT | TKIP_STATE_PHASE1_DONE | TKIP_STATE_PHASE1_HW_UPLOADED

record tkip_ctx =
  ctx_p1k :: "u16 list"
  ctx_p1k_iv32 :: u32
  ctx_state :: tkip_state

record tkip_ctx_rx =
  rx_ctx :: tkip_ctx
  rx_iv32 :: u32
  rx_iv16 :: u16

record key_u_tkip =
  tk_tx :: tkip_ctx
  tk_rx :: "tkip_ctx_rx list"
  mic_failures :: u32

record key_u_aead =
  aead_rx_pn :: "u8 list list"
  aead_tfm :: tfm
  aead_replays :: u32

record key_u_bip =
  bip_rx_pn :: "u8 list"
  bip_tfm :: tfm
  bip_replays :: u32
  bip_icverrors :: u32

datatype iftype = IFTYPE_ADHOC | IFTYPE_STATION | IFTYPE_AP | IFTYPE_AP_VLAN | IFTYPE_MESH_POINT
  | IFTYPE_OCB | IFTYPE_OTHER

record ieee80211_key =
  conf :: ieee80211_key_conf
  key_flags :: u32
  key_vif_addr :: "u8 list"
  u_tkip :: key_u_tkip
  u_ccmp :: key_u_aead
  u_gcmp :: key_u_aead
  u_aes_cmac :: key_u_bip
  u_aes_gmac :: key_u_bip
  color :: u32

text \<open>
  \<^verbatim>\<open>atomic64_inc_return(&key->conf.tx_pn)\<close>: the key with the counter advanced; the value
  returned is the new counter.
\<close>

definition inc_tx_pn :: "ieee80211_key \<Rightarrow> ieee80211_key" where
  "inc_tx_pn k = k\<lparr>conf := (conf k)\<lparr>kc_tx_pn := kc_tx_pn (conf k) + 1\<rparr>\<rparr>"

lemma inc_tx_pn_simps [simp]:
  "kc_tx_pn (conf (inc_tx_pn k)) = kc_tx_pn (conf k) + 1"
  "kc_keyidx (conf (inc_tx_pn k)) = kc_keyidx (conf k)"
  "kc_flags (conf (inc_tx_pn k)) = kc_flags (conf k)"
  "kc_cipher (conf (inc_tx_pn k)) = kc_cipher (conf k)"
  "kc_key (conf (inc_tx_pn k)) = kc_key (conf k)"
  "u_ccmp (inc_tx_pn k) = u_ccmp k" "u_gcmp (inc_tx_pn k) = u_gcmp k"
  "u_aes_cmac (inc_tx_pn k) = u_aes_cmac k" "u_aes_gmac (inc_tx_pn k) = u_aes_gmac k"
  "u_tkip (inc_tx_pn k) = u_tkip k" "key_vif_addr (inc_tx_pn k) = key_vif_addr k"
  by (simp_all add: inc_tx_pn_def)

subsection \<open>Per-device and per-frame state, results\<close>

record ieee80211_local =
  wep_iv :: u32
  hw_queues :: nat
  supports_tx_frag :: bool
  ops_update_tkip_key :: bool
  tx_handlers_drop_wep :: nat

datatype tx_result = TX_CONTINUE | TX_DROP | TX_QUEUED

datatype rx_result = RX_CONTINUE | RX_QUEUED | RX_DROP
  | RX_DROP_U_MIC_FAIL | RX_DROP_U_REPLAY | RX_DROP_U_BAD_MMIE | RX_DROP_U_DUP
  | RX_DROP_U_OOM | RX_DROP_U_WEP_DEC_FAIL | RX_DROP_U_NO_IV | RX_DROP_U_NO_ICV
  | RX_DROP_U_AP_RX_GROUPCAST | RX_DROP_U_SHORT_MMIC | RX_DROP_U_MMIC_FAIL
  | RX_DROP_U_SHORT_TKIP | RX_DROP_U_TKIP_FAIL | RX_DROP_U_SHORT_CCMP
  | RX_DROP_U_SHORT_CCMP_MIC | RX_DROP_U_SHORT_GCMP | RX_DROP_U_SHORT_GCMP_MIC
  | RX_DROP_U_SHORT_CMAC | RX_DROP_U_SHORT_CMAC256 | RX_DROP_U_SHORT_GMAC
  | RX_DROP_U_DECRYPT_FAIL | RX_DROP_U_NO_KEY_ID | RX_DROP_U_BAD_CIPHER | RX_DROP_U_NONSEQ_PN
  | RX_DROP_U_BAD_KEY_COLOR | RX_DROP_U_EXPECT_DEFRAG_PROT | RX_DROP_U_UNPROT_ACTION
  | RX_DROP_U_UNPROT_DUAL | RX_DROP_U_UNPROT_UCAST_MGMT | RX_DROP_U_UNPROT_MCAST_MGMT
  | RX_DROP_U_UNPROT_BEACON | RX_DROP_U_UNPROT_UNICAST_PUB_ACTION | RX_DROP_U_UNPROT_ROBUST_ACTION
  | RX_DROP_U_BAD_BCN_KEYIDX | RX_DROP_U_BAD_MGMT_KEYIDX | RX_DROP_U_RUNT_ACTION

text \<open>
  Calls out of the handlers with an effect elsewhere: the Michael failure report of
  cfg80211 (transmitter address, group key, key index), its report of an unprotected
  management frame, and the driver's \<^verbatim>\<open>update_tkip_key\<close> (\<^verbatim>\<open>iv32\<close>, phase-1 key).
\<close>

datatype rx_event = Michael_mic_failure "u8 list" bool int | Update_tkip_key u32 "u16 list"
  | Rx_unprot_mlme_mgmt "u8 list"

record ieee80211_rx_data =
  rx_skb :: sk_buff
  rx_local :: ieee80211_local
  rx_vif_type :: iftype
  rx_sta :: "u8 list option"
  rx_key :: "ieee80211_key option"
  seqno_idx :: nat
  security_idx :: nat
  tkip_iv32 :: u32
  tkip_iv16 :: u16
  ccm_gcm_pn :: "u8 list"
  rx_events :: "rx_event list"

abbreviation (input) rx_flag :: "ieee80211_rx_data \<Rightarrow> u32" where
  "rx_flag rx \<equiv> rs_flag (skb_rx (rx_skb rx))"

text \<open>
  A receive handler as a step of the key: whether it lets the frame through, and the key it
  leaves. And a transmit step as an emission: the header octets it wrote, if it numbered the
  frame and did not fail, and the key it leaves.
\<close>

definition recv_of ::
  "(ieee80211_key \<Rightarrow> ieee80211_rx_data \<Rightarrow> rx_result \<times> ieee80211_rx_data) \<Rightarrow>
     ieee80211_key \<Rightarrow> ieee80211_rx_data \<Rightarrow> bool \<times> ieee80211_key" where
  "recv_of handler k rx =
     (case handler k (rx\<lparr>rx_key := Some k\<rparr>) of
        (r, rx') \<Rightarrow> (r = RX_CONTINUE, case rx_key rx' of Some k' \<Rightarrow> k' | None \<Rightarrow> k))"

definition send_of ::
  "(ieee80211_key \<Rightarrow> sk_buff \<Rightarrow> int \<times> ieee80211_key \<times> sk_buff) \<Rightarrow> (u8 list \<Rightarrow> u8 list) \<Rightarrow>
     ieee80211_key \<Rightarrow> sk_buff \<Rightarrow> u8 list option \<times> ieee80211_key" where
  "send_of handler field k skb =
     (case handler k skb of
        (r, k', skb') \<Rightarrow>
          (if r < 0 \<or> kc_tx_pn (conf k') = kc_tx_pn (conf k) then None else Some (field (skb_data skb')),
           k'))"

text \<open>\<^verbatim>\<open>ieee80211_tx_set_protected\<close> of \<^verbatim>\<open>util.c\<close> over the queue of frames.\<close>

definition set_protected :: "sk_buff \<Rightarrow> sk_buff" where
  "set_protected skb = skb\<lparr>skb_data := or_frame_control (skb_data skb) IEEE80211_FCTL_PROTECTED\<rparr>"

definition ieee80211_tx_set_protected :: "sk_buff list \<Rightarrow> sk_buff list" where
  "ieee80211_tx_set_protected skbs = map set_protected skbs"

text \<open>
  The loop of every encrypting handler: apply a step that returns a status to each frame of
  the queue in turn, threading the state, and stop at the first negative status.
\<close>

fun walk_skbs :: "('s \<Rightarrow> sk_buff \<Rightarrow> int \<times> 's \<times> sk_buff) \<Rightarrow> 's \<Rightarrow> sk_buff list \<Rightarrow> bool \<times> 's \<times> sk_buff list"
where
  "walk_skbs f s [] = (True, s, [])"
| "walk_skbs f s (skb # skbs) =
     (case f s skb of (r, s', skb') \<Rightarrow>
        if r < 0 then (False, s', skb' # skbs)
        else (case walk_skbs f s' skbs of (ok, s'', skbs') \<Rightarrow> (ok, s'', skb' # skbs')))"

lemma walk_skbs_inv:
  assumes "\<And>s skb r s' skb'. I s \<Longrightarrow> f s skb = (r, s', skb') \<Longrightarrow> I s'"
  shows "I s \<Longrightarrow> walk_skbs f s skbs = (ok, s', skbs') \<Longrightarrow> I s'"
proof (induction skbs arbitrary: s s' skbs' ok)
  case Nil
  then show ?case by simp
next
  case (Cons skb skbs)
  obtain r s1 skb1 where f: "f s skb = (r, s1, skb1)" by (metis prod_cases3)
  have s1: "I s1" using assms [OF Cons.prems(1) f] .
  show ?case
  proof (cases "r < 0")
    case True
    with Cons.prems(2) f s1 show ?thesis by simp
  next
    case False
    obtain ok2 s2 skbs2 where w: "walk_skbs f s1 skbs = (ok2, s2, skbs2)" by (metis prod_cases3)
    with Cons.prems(2) f False Cons.IH [OF s1 w] show ?thesis by simp
  qed
qed

lemma walk_skbs_length: "walk_skbs f s skbs = (ok, s', skbs') \<Longrightarrow> length skbs' = length skbs"
  by (induction f s skbs arbitrary: ok s' skbs' rule: walk_skbs.induct)
    (auto split: prod.splits if_splits)

subsection \<open>A concrete instance of the parameters\<close>

text \<open>
  The parameters instantiated by simple functions that keep the documented laws, with a key
  and a frame: the input at which the properties are evaluated. The cipher of the instance
  flips the bits of every octet, its tag repeats the sum of the plain text, and a transform
  is identified by the length of its tag.
\<close>

definition ex_flip :: "u8 list \<Rightarrow> u8 list" where
  "ex_flip d = map (\<lambda>b. NOT b) d"

definition ex_tag :: "nat \<Rightarrow> u8 list \<Rightarrow> u8 list" where
  "ex_tag n p = replicate n (sum_list p)"

definition ex_extern :: extern where
  "ex_extern = \<lparr>x_hdrlen = \<lambda>fc. 24, x_crc32_le = \<lambda>c d. c + sum_list (map ucast d),
     x_arc4 = \<lambda>k d. ex_flip d,
     x_aead_encrypt = \<lambda>t iv ad p. (0, ex_flip p, ex_tag t p),
     x_aead_decrypt = \<lambda>t iv ad c m. (if m = ex_tag t (ex_flip c) then 0 else - 74, ex_flip c),
     x_aead_authsize = \<lambda>t. t,
     x_shash = \<lambda>t d. ex_tag 16 d,
     x_tkip_encr_key = 0, x_tkip_tx_mic_key = 16, x_tkip_rx_mic_key = 24\<rparr>"

lemma length_ex_flip [simp]: "length (ex_flip d) = length d"
  by (simp add: ex_flip_def)

lemma ex_flip_flip [simp]: "ex_flip (ex_flip d) = d"
  by (simp add: ex_flip_def comp_def)

lemma length_ex_tag [simp]: "length (ex_tag n p) = n"
  by (simp add: ex_tag_def)

lemma ex_extern_laws [simp]:
  "aead_lengths ex_extern t" "aead_inverse ex_extern t"
  "arc4_lengths ex_extern" "arc4_inverse ex_extern"
  by (auto simp: aead_lengths_def aead_inverse_def arc4_lengths_def arc4_inverse_def ex_extern_def)

definition ex_conf :: "u32 \<Rightarrow> nat \<Rightarrow> ieee80211_key_conf" where
  "ex_conf cipher keylen = \<lparr>kc_tx_pn = 7, kc_cipher = cipher, kc_keyidx = 1, kc_flags = 0,
     kc_keylen = keylen, kc_key = map word_of_nat [1..<33]\<rparr>"

definition ex_aead :: "nat \<Rightarrow> key_u_aead" where
  "ex_aead t = \<lparr>aead_rx_pn = replicate 17 (replicate 6 0), aead_tfm = t, aead_replays = 0\<rparr>"

definition ex_bip :: key_u_bip where
  "ex_bip = \<lparr>bip_rx_pn = replicate 6 0, bip_tfm = 16, bip_replays = 0, bip_icverrors = 0\<rparr>"

definition ex_tkip_ctx :: tkip_ctx where
  "ex_tkip_ctx = \<lparr>ctx_p1k = replicate 5 0, ctx_p1k_iv32 = 0, ctx_state = TKIP_STATE_NOT_INIT\<rparr>"

definition ex_tkip :: key_u_tkip where
  "ex_tkip = \<lparr>tk_tx = ex_tkip_ctx,
     tk_rx = replicate 16 \<lparr>rx_ctx = ex_tkip_ctx, rx_iv32 = 0, rx_iv16 = 0\<rparr>, mic_failures = 0\<rparr>"

definition ex_key :: "u32 \<Rightarrow> nat \<Rightarrow> ieee80211_key" where
  "ex_key cipher keylen = \<lparr>conf = ex_conf cipher keylen, key_flags = 0, key_vif_addr = replicate 6 2,
     u_tkip = ex_tkip, u_ccmp = ex_aead 8, u_gcmp = ex_aead 16, u_aes_cmac = ex_bip, u_aes_gmac = ex_bip,
     color = 1\<rparr>"

definition ex_local :: ieee80211_local where
  "ex_local = \<lparr>wep_iv = 0x03feff, hw_queues = 4, supports_tx_frag = False,
     ops_update_tkip_key = False, tx_handlers_drop_wep = 0\<rparr>"

text \<open>A data frame to the access point, or the header octets given, with a payload.\<close>

definition ex_hdr :: "u8 list" where
  "ex_hdr = [0x08, 0x01, 0, 0] @ replicate 6 2 @ replicate 6 4 @ replicate 6 6 @ [0x10, 0]"

definition ex_skb :: "u8 list \<Rightarrow> sk_buff" where
  "ex_skb d = \<lparr>skb_head = replicate 32 0, skb_data = d, skb_tail = replicate 32 0,
     skb_priority = 0, skb_protocol = 0,
     skb_tx = \<lparr>ti_flags = 0, ti_control_flags = 0, hw_key = None\<rparr>,
     skb_rx = \<lparr>rs_flag = 0, rs_rx_flags = 0\<rparr>, skb_oom = \<lambda>_. False\<rparr>"

definition ex_rx :: "u8 list \<Rightarrow> ieee80211_key \<Rightarrow> ieee80211_rx_data" where
  "ex_rx d k = \<lparr>rx_skb = ex_skb d, rx_local = ex_local, rx_vif_type = IFTYPE_STATION,
     rx_sta = Some (replicate 6 4), rx_key = Some k, seqno_idx = 0, security_idx = 0, tkip_iv32 = 0, tkip_iv16 = 0,
     ccm_gcm_pn = replicate 6 0, rx_events = []\<rparr>"

lemmas ex_defs = ex_extern_def ex_conf_def ex_aead_def ex_bip_def ex_tkip_ctx_def ex_tkip_def ex_key_def
  ex_local_def ex_hdr_def ex_skb_def ex_rx_def skb_headroom_def skb_tailroom_def
  skb_linearize_fails_def pskb_trim_fails_def

end
