(* ===== verification/Wep.thy ===== *)
theory Wep
  imports Mac80211
begin

text \<open>
  Software WEP, \<^verbatim>\<open>mac80211/wep.c\<close>: the initialisation vector and its weak values, the RC4
  and CRC-32 processing of a payload, and the transmit and receive handlers that add and
  remove the IV and the ICV. A pointer into the frame is an offset into its octets; the
  RC4 context, zeroed after use, is not part of the state. The lemmas show the layout of an
  encrypted frame and that decryption restores it.
\<close>

definition IEEE80211_WEP_IV_LEN :: nat where "IEEE80211_WEP_IV_LEN = 4"
definition IEEE80211_WEP_ICV_LEN :: nat where "IEEE80211_WEP_ICV_LEN = 4"

definition ieee80211_wep_weak_iv :: "u32 \<Rightarrow> nat \<Rightarrow> bool" where
  "ieee80211_wep_weak_iv iv keylen \<longleftrightarrow>
     (if iv AND 0xff00 = 0xff00 then
        (let B = ucast (drop_bit 16 iv AND 0xff) :: u8
         in 3 \<le> unat B \<and> unat B < 3 + keylen)
      else False)"

text \<open>The device state after taking an IV, and the four octets written to the frame.\<close>

definition ieee80211_wep_get_iv ::
  "ieee80211_local \<Rightarrow> nat \<Rightarrow> int \<Rightarrow> ieee80211_local \<times> u8 list" where
  "ieee80211_wep_get_iv local keylen keyidx =
     (let iv = wep_iv local + 1;
          iv = (if ieee80211_wep_weak_iv iv keylen then iv + 0x0100 else iv)
      in (local\<lparr>wep_iv := iv\<rparr>,
          [ucast (drop_bit 16 iv AND 0xff), ucast (drop_bit 8 iv AND 0xff), ucast (iv AND 0xff),
           push_bit 6 (word_of_int keyidx)]))"

text \<open>
  The result is the offset of the IV in the frame, \<open>None\<close> for a null pointer.
\<close>

definition ieee80211_wep_add_iv ::
  "extern \<Rightarrow> ieee80211_local \<Rightarrow> sk_buff \<Rightarrow> nat \<Rightarrow> int \<Rightarrow> nat option \<times> ieee80211_local \<times> sk_buff" where
  "ieee80211_wep_add_iv x local skb keylen keyidx =
     (let skb = skb\<lparr>skb_data := or_frame_control (skb_data skb) IEEE80211_FCTL_PROTECTED\<rparr> in
      if skb_headroom skb < IEEE80211_WEP_IV_LEN then (None, local, skb)
      else
        (let hdrlen = x_hdrlen x (frame_control (skb_data skb));
             skb = skb_memmove 0 IEEE80211_WEP_IV_LEN hdrlen (skb_push IEEE80211_WEP_IV_LEN skb)
         in if (case hw_key (skb_tx skb) of None \<Rightarrow> False
                | Some fl \<Rightarrow> has_flag fl IEEE80211_KEY_FLAG_PUT_IV_SPACE)
            then (Some hdrlen, local, skb)
            else
              (let (local, iv) = ieee80211_wep_get_iv local keylen keyidx
               in (Some hdrlen, local, skb_write hdrlen iv skb))))"

definition ieee80211_wep_remove_iv :: "extern \<Rightarrow> sk_buff \<Rightarrow> sk_buff" where
  "ieee80211_wep_remove_iv x skb =
     (let hdrlen = x_hdrlen x (frame_control (skb_data skb))
      in skb_pull IEEE80211_WEP_IV_LEN (skb_memmove IEEE80211_WEP_IV_LEN 0 hdrlen skb))"

text \<open>The ICV over the octets, as the four octets in the frame.\<close>

definition wep_icv :: "extern \<Rightarrow> u8 list \<Rightarrow> u8 list" where
  "wep_icv x d = le32_bytes (NOT (x_crc32_le x (NOT 0) d))"

definition ieee80211_wep_encrypt_data ::
  "extern \<Rightarrow> u8 list \<Rightarrow> u8 list \<Rightarrow> nat \<Rightarrow> nat \<Rightarrow> int \<times> u8 list" where
  "ieee80211_wep_encrypt_data x rc4key buf data data_len =
     (let icv = wep_icv x (mem_read buf data data_len);
          buf = mem_write buf (data + data_len) icv;
          buf = mem_write buf data
                  (x_arc4 x rc4key (mem_read buf data (data_len + IEEE80211_WEP_ICV_LEN)))
      in (0, buf))"

definition ieee80211_wep_encrypt ::
  "extern \<Rightarrow> ieee80211_local \<Rightarrow> sk_buff \<Rightarrow> u8 list \<Rightarrow> nat \<Rightarrow> int \<Rightarrow> int \<times> ieee80211_local \<times> sk_buff" where
  "ieee80211_wep_encrypt x local skb key keylen keyidx =
     (if skb_tailroom skb < IEEE80211_WEP_ICV_LEN then (- 1, local, skb)
      else
        (case ieee80211_wep_add_iv x local skb keylen keyidx of
           (None, local, skb) \<Rightarrow> (- 1, local, skb)
         | (Some iv, local, skb) \<Rightarrow>
             (let len = skb_len skb - (iv + IEEE80211_WEP_IV_LEN);
                  rc4key = mem_read (skb_data skb) iv 3 @ mem_read key 0 keylen;
                  skb = skb_put IEEE80211_WEP_ICV_LEN skb;
                  (r, buf) = ieee80211_wep_encrypt_data x rc4key (skb_data skb)
                               (iv + IEEE80211_WEP_IV_LEN) len
              in (r, local, skb\<lparr>skb_data := buf\<rparr>))))"

definition ieee80211_wep_decrypt_data ::
  "extern \<Rightarrow> u8 list \<Rightarrow> u8 list \<Rightarrow> nat \<Rightarrow> nat \<Rightarrow> int \<times> u8 list" where
  "ieee80211_wep_decrypt_data x rc4key buf data data_len =
     (let buf = mem_write buf data
                  (x_arc4 x rc4key (mem_read buf data (data_len + IEEE80211_WEP_ICV_LEN)));
          crc = wep_icv x (mem_read buf data data_len)
      in if memcmp crc (mem_read buf (data + data_len) IEEE80211_WEP_ICV_LEN) \<noteq> 0
         then (- 1, buf) else (0, buf))"

definition ieee80211_wep_decrypt ::
  "extern \<Rightarrow> sk_buff \<Rightarrow> ieee80211_key option \<Rightarrow> int \<times> sk_buff" where
  "ieee80211_wep_decrypt x skb k =
     (let fc = frame_control (skb_data skb) in
      if \<not> ieee80211_has_protected fc then (- 1, skb)
      else
        (let hdrlen = x_hdrlen x fc in
         if skb_len skb < hdrlen + IEEE80211_WEP_IV_LEN + IEEE80211_WEP_ICV_LEN then (- 1, skb)
         else
           (let len = skb_len skb - hdrlen - IEEE80211_WEP_IV_LEN - IEEE80211_WEP_ICV_LEN;
                idx = drop_bit 6 (skb_data skb ! (hdrlen + 3))
            in case k of
                 None \<Rightarrow> (- 1, skb)
               | Some k \<Rightarrow>
                   if uint idx \<noteq> kc_keyidx (conf k) then (- 1, skb)
                   else
                     (let rc4key = mem_read (skb_data skb) hdrlen 3 @
                                   mem_read (kc_key (conf k)) 0 (kc_keylen (conf k));
                          (r, buf) = ieee80211_wep_decrypt_data x rc4key (skb_data skb)
                                       (hdrlen + IEEE80211_WEP_IV_LEN) len;
                          ret = (if r \<noteq> 0 then - 1 else 0);
                          skb = skb\<lparr>skb_data := buf\<rparr>;
                          skb = skb_trim skb (skb_len skb - IEEE80211_WEP_ICV_LEN);
                          skb = skb_memmove IEEE80211_WEP_IV_LEN 0 hdrlen skb;
                          skb = skb_pull IEEE80211_WEP_IV_LEN skb
                      in (ret, skb)))))"

definition ieee80211_crypto_wep_decrypt ::
  "extern \<Rightarrow> ieee80211_rx_data \<Rightarrow> rx_result \<times> ieee80211_rx_data" where
  "ieee80211_crypto_wep_decrypt x rx =
     (let skb = rx_skb rx; fc = frame_control (skb_data skb); flag = rs_flag (skb_rx skb) in
      if \<not> ieee80211_is_data fc \<and> \<not> ieee80211_is_auth fc then (RX_CONTINUE, rx)
      else if \<not> has_flag flag RX_FLAG_DECRYPTED then
        (if skb_linearize_fails skb then (RX_DROP_U_OOM, rx)
         else
           (let (r, skb) = ieee80211_wep_decrypt x skb (rx_key rx); rx = rx\<lparr>rx_skb := skb\<rparr>
            in if r \<noteq> 0 then (RX_DROP_U_WEP_DEC_FAIL, rx) else (RX_CONTINUE, rx)))
      else if \<not> has_flag flag RX_FLAG_IV_STRIPPED then
        (if \<not> pskb_may_pull skb (x_hdrlen x fc + IEEE80211_WEP_IV_LEN) then (RX_DROP_U_NO_IV, rx)
         else
           (let skb = ieee80211_wep_remove_iv x skb in
            if has_flag flag RX_FLAG_ICV_STRIPPED then (RX_CONTINUE, rx\<lparr>rx_skb := skb\<rparr>)
            else if pskb_trim_fails skb then (RX_DROP_U_NO_ICV, rx\<lparr>rx_skb := skb\<rparr>)
            else (RX_CONTINUE, rx\<lparr>rx_skb := skb_trim skb (sub_u32 (skb_len skb) IEEE80211_WEP_ICV_LEN)\<rparr>)))
      else (RX_CONTINUE, rx))"

definition wep_encrypt_skb ::
  "extern \<Rightarrow> ieee80211_key \<Rightarrow> ieee80211_local \<Rightarrow> sk_buff \<Rightarrow> int \<times> ieee80211_local \<times> sk_buff" where
  "wep_encrypt_skb x k local skb =
     (case hw_key (skb_tx skb) of
        None \<Rightarrow>
          (case ieee80211_wep_encrypt x local skb (kc_key (conf k)) (kc_keylen (conf k)) (kc_keyidx (conf k)) of
             (r, local, skb) \<Rightarrow> if r \<noteq> 0 then (- 1, local, skb) else (0, local, skb))
      | Some fl \<Rightarrow>
          if has_flag fl IEEE80211_KEY_FLAG_GENERATE_IV \<or> has_flag fl IEEE80211_KEY_FLAG_PUT_IV_SPACE
          then
            (case ieee80211_wep_add_iv x local skb (kc_keylen (conf k)) (kc_keyidx (conf k)) of
               (None, local, skb) \<Rightarrow> (- 1, local, skb)
             | (Some _, local, skb) \<Rightarrow> (0, local, skb))
          else (0, local, skb))"

definition ieee80211_crypto_wep_encrypt ::
  "extern \<Rightarrow> ieee80211_key \<Rightarrow> ieee80211_local \<Rightarrow> sk_buff list \<Rightarrow>
     tx_result \<times> ieee80211_local \<times> sk_buff list" where
  "ieee80211_crypto_wep_encrypt x k local skbs =
     (case walk_skbs (wep_encrypt_skb x k) local (ieee80211_tx_set_protected skbs) of
        (True, local, skbs) \<Rightarrow> (TX_CONTINUE, local, skbs)
      | (False, local, skbs) \<Rightarrow>
          (TX_DROP, local\<lparr>tx_handlers_drop_wep := tx_handlers_drop_wep local + 1\<rparr>, skbs))"

subsection \<open>Weak vectors\<close>

lemma weak_iv_second_byte: "ieee80211_wep_weak_iv iv keylen \<Longrightarrow> iv AND 0xff00 = 0xff00"
  by (simp add: ieee80211_wep_weak_iv_def split: if_splits)

lemma add_0x100_second_byte:
  assumes "(iv :: u32) AND 0xff00 = 0xff00"
  shows "(iv + 0x100) AND 0xff00 = 0"
proof -
  have m: "(0xff00 :: u32) = push_bit 8 (mask 8)"
    by (simp add: mask_eq_exp_minus_1 push_bit_eq_mult)
  have byte: "uint (drop_bit 8 (w AND 0xff00)) = uint w div 256 mod 256" for w :: u32
  proof -
    have "drop_bit 8 (w AND 0xff00) = drop_bit 8 w AND mask 8"
      unfolding m by (rule bit_word_eqI) (auto simp: bit_simps)
    then show ?thesis
      by (simp only: take_bit_eq_mask [symmetric] unsigned_take_bit_eq unsigned_drop_bit_eq
          take_bit_eq_mod drop_bit_eq_div) (simp add: uint_div uint_mod)
  qed
  have "uint iv div 256 mod 256 = 255"
    using byte [of iv] assms by simp
  moreover have "uint (iv + 0x100) div 256 mod 256 = (uint iv div 256 + 1) mod 256"
  proof -
    have "uint (iv + 0x100) = (uint iv + 256) mod 2 ^ 32"
      by (simp add: uint_word_ariths)
    also have "\<dots> div 256 mod 256 = (uint iv + 256) div 256 mod 256"
    proof -
      have "((uint iv + 256) mod (256 * 16777216)) div 256 = (uint iv + 256) div 256 mod 16777216"
        by (rule mod_mult_div_int) simp_all
      then have "((uint iv + 256) mod 2 ^ 32) div 256 mod 256 = (uint iv + 256) div 256 mod 16777216 mod 256"
        by simp
      also have "\<dots> = (uint iv + 256) div 256 mod 256"
        by (rule mod_mod_cancel) simp
      finally show ?thesis .
    qed
    also have "(uint iv + 256) div 256 = uint iv div 256 + 1"
      by (rule div_add_self2) simp
    finally show ?thesis .
  qed
  ultimately have "uint (iv + 0x100) div 256 mod 256 = 0"
    by (simp add: mod_add_left_eq [symmetric])
  then have z: "drop_bit 8 ((iv + 0x100) AND 0xff00) = 0"
    using byte [of "iv + 0x100"] by (simp add: word_uint_eq_iff)
  show ?thesis
  proof (rule bit_word_eqI)
    fix n
    have "bit ((iv + 0x100) AND push_bit 8 (mask 8)) n \<Longrightarrow> bit (drop_bit 8 ((iv + 0x100) AND push_bit 8 (mask 8))) (n - 8)"
      by (auto simp: bit_simps)
    then show "bit ((iv + 0x100) AND 0xff00) n = bit (0 :: u32) n"
      using z unfolding m by auto
  qed
qed

lemma wep_get_iv_not_weak:
  assumes "n \<le> keylen"
  shows "\<not> ieee80211_wep_weak_iv (wep_iv (fst (ieee80211_wep_get_iv local keylen keyidx))) n"
proof (cases "ieee80211_wep_weak_iv (wep_iv local + 1) keylen")
  case True
  then have "wep_iv (fst (ieee80211_wep_get_iv local keylen keyidx)) = wep_iv local + 1 + 0x100"
    by (simp add: ieee80211_wep_get_iv_def Let_def)
  moreover have "(wep_iv local + 1 + 0x100) AND 0xff00 = 0"
    using True by (intro add_0x100_second_byte weak_iv_second_byte)
  ultimately show ?thesis
    by (simp only: ieee80211_wep_weak_iv_def) simp
next
  case False
  then show ?thesis
    using assms by (auto simp: ieee80211_wep_get_iv_def Let_def ieee80211_wep_weak_iv_def)
qed

subsection \<open>Layout of an encrypted frame, and decryption\<close>

lemma length_wep_icv [simp]: "length (wep_icv x d) = 4"
  by (simp add: wep_icv_def)

lemma wep_lens [simp]: "IEEE80211_WEP_IV_LEN = 4" "IEEE80211_WEP_ICV_LEN = 4"
  by (simp_all add: IEEE80211_WEP_IV_LEN_def IEEE80211_WEP_ICV_LEN_def)

lemma wep_get_iv_layout:
  "\<exists>local' iv. ieee80211_wep_get_iv local keylen keyidx = (local', iv @ [push_bit 6 (word_of_int keyidx)])
     \<and> length iv = 3"
  by (simp add: ieee80211_wep_get_iv_def Let_def)

lemma wep_add_iv_layout:
  fixes x :: extern and skb :: sk_buff
  defines "d \<equiv> or_frame_control (skb_data skb) IEEE80211_FCTL_PROTECTED"
  defines "h \<equiv> x_hdrlen x (frame_control d)"
  assumes "hw_key (skb_tx skb) = None" and "4 \<le> skb_headroom skb" and "h \<le> length d"
  shows "\<exists>local' skb' iv. ieee80211_wep_add_iv x local skb keylen keyidx = (Some h, local', skb') \<and>
    length iv = 3 \<and> skb_tail skb' = skb_tail skb \<and>
    skb_data skb' = take h d @ iv @ [push_bit 6 (word_of_int keyidx)] @ drop h d"
proof -
  define skb1 where "skb1 = skb\<lparr>skb_data := d\<rparr>"
  have hr: "4 \<le> skb_headroom skb1" and hl: "h \<le> length (skb_data skb1)"
    using assms(4,5) by (simp_all add: skb1_def skb_headroom_def)
  obtain gap where gap: "length gap = 4"
      "skb_data (skb_memmove 0 4 h (skb_push 4 skb1)) = take h d @ gap @ drop h d"
    using skb_push_move [OF hr hl] by (auto simp: skb1_def)
  obtain local' iv where iv: "length iv = 3"
      "ieee80211_wep_get_iv local keylen keyidx = (local', iv @ [push_bit 6 (word_of_int keyidx)])"
    using wep_get_iv_layout [of local keylen keyidx] by auto
  have "length (take h d) = h" using assms(5) by simp
  then have w: "mem_write (take h d @ gap @ drop h d) h (iv @ [b]) = take h d @ iv @ [b] @ drop h d" for b
    using gap(1) iv(1) by (simp add: buf_simps)
  have "ieee80211_wep_add_iv x local skb keylen keyidx =
      (Some h, local', skb_write h (iv @ [push_bit 6 (word_of_int keyidx)])
        (skb_memmove 0 4 h (skb_push 4 skb1)))"
    using assms(3) hr iv(2)
    by (simp add: ieee80211_wep_add_iv_def Let_def d_def [symmetric] skb1_def [symmetric])
      (simp add: skb1_def h_def)
  then show ?thesis
    using iv(1) gap(2) w by - (rule exI, rule exI, rule exI, rule conjI, assumption, auto simp: skb1_def)
qed

lemma wep_encrypt_layout:
  fixes x :: extern and skb :: sk_buff
  defines "d \<equiv> or_frame_control (skb_data skb) IEEE80211_FCTL_PROTECTED"
  defines "h \<equiv> x_hdrlen x (frame_control d)"
  assumes "hw_key (skb_tx skb) = None" "4 \<le> skb_headroom skb" "4 \<le> skb_tailroom skb"
    and "h \<le> length d" and "arc4_lengths x"
  shows "\<exists>local' skb' iv. ieee80211_wep_encrypt x local skb key keylen keyidx = (0, local', skb') \<and>
    length iv = 3 \<and>
    skb_data skb' = take h d @ iv @ [push_bit 6 (word_of_int keyidx)] @
      x_arc4 x (iv @ mem_read key 0 keylen) (drop h d @ wep_icv x (drop h d))"
proof -
  obtain local' skb1 iv where add: "ieee80211_wep_add_iv x local skb keylen keyidx = (Some h, local', skb1)"
      and iv: "length iv = 3" and tail: "skb_tail skb1 = skb_tail skb"
      and dat: "skb_data skb1 = take h d @ iv @ [push_bit 6 (word_of_int keyidx)] @ drop h d"
    using wep_add_iv_layout [of skb x local keylen keyidx, folded d_def, folded h_def] assms(3,4,6)
    by blast
  let ?p = "drop h d"
  define ky where "ky = iv @ mem_read key 0 keylen"
  define hdr where "hdr = take h d @ iv @ [push_bit 6 (word_of_int keyidx)]"
  have hdr: "length hdr = h + 4" "skb_data skb1 = hdr @ ?p"
    using assms(6) iv dat by (simp_all add: hdr_def)
  have tr: "4 \<le> skb_tailroom skb1" using assms(5) tail by (simp add: skb_tailroom_def)
  obtain fill where fill: "length fill = 4" "skb_data (skb_put 4 skb1) = hdr @ ?p @ fill"
    using skb_data_put [OF tr] hdr(2) by auto
  have rk: "mem_read (skb_data skb1) h 3 = iv"
    using assms(6) iv dat by (simp add: buf_simps)
  have la: "length (x_arc4 x k e) = length e" for k e
    using assms(7) by (simp add: arc4_lengths_def)
  have lp: "length ?p = length d - h" by simp
  have enc: "ieee80211_wep_encrypt_data x ky (hdr @ ?p @ fill) (h + 4) (length d - h) =
      (0, hdr @ x_arc4 x ky (?p @ wep_icv x ?p))"
    using hdr(1) fill(1) lp unfolding ieee80211_wep_encrypt_data_def Let_def
    by (simp add: buf_simps la del: length_drop)
  have "ieee80211_wep_encrypt x local skb key keylen keyidx =
      (0, local', (skb_put 4 skb1)\<lparr>skb_data := hdr @ x_arc4 x ky (?p @ wep_icv x ?p)\<rparr>)"
    using add assms(5) rk fill hdr enc lp
    by (simp add: ieee80211_wep_encrypt_def Let_def ky_def)
  then show ?thesis
    using iv by - (rule exI, rule exI, rule exI, rule conjI, assumption, simp add: hdr_def ky_def)
qed

lemma wep_decrypt_layout:
  assumes "length hdr = h" "2 \<le> h" "x_hdrlen x (frame_control hdr) = h"
    and "ieee80211_has_protected (frame_control hdr)" "length iv = 3"
    and "uint (drop_bit 6 b) = kc_keyidx (conf k)"
    and "arc4_lengths x" "arc4_inverse x"
    and "skb_data skb = hdr @ iv @ [b] @ x_arc4 x (iv @ mem_read (kc_key (conf k)) 0 (kc_keylen (conf k)))
           (p @ wep_icv x p)"
  shows "\<exists>skb'. ieee80211_wep_decrypt x skb (Some k) = (0, skb') \<and> skb_data skb' = hdr @ p"
proof -
  define ky where "ky = iv @ mem_read (kc_key (conf k)) 0 (kc_keylen (conf k))"
  define c where "c = x_arc4 x ky (p @ wep_icv x p)"
  have la: "length (x_arc4 x k e) = length e" and inv: "x_arc4 x k (x_arc4 x k e) = e" for k e
    using assms(7,8) by (simp_all add: arc4_lengths_def arc4_inverse_def)
  have lc: "length c = length p + 4" by (simp add: c_def la)
  have dat: "skb_data skb = hdr @ iv @ b # c" using assms(9) by (simp add: c_def ky_def)
  have fc: "frame_control (hdr @ r) = frame_control hdr" for r
    using assms(1,2) by (simp add: frame_control_cong)
  have len: "length (skb_data skb) = h + 8 + length p"
    using assms(1,5) dat lc by simp
  have rk: "mem_read (skb_data skb) h 3 = iv"
    using assms(1,5) dat by (simp add: buf_simps)
  have idx: "skb_data skb ! (h + 3) = b"
    using assms(1,5) dat by (simp add: nth_append)
  define hdr4 where "hdr4 = hdr @ iv @ [b]"
  have hdr4: "length hdr4 = h + 4" "skb_data skb = hdr4 @ c"
    using assms(1,5) dat by (simp_all add: hdr4_def)
  have dec: "ieee80211_wep_decrypt_data x ky (skb_data skb) (h + 4) (length p) =
      (0, hdr4 @ p @ wep_icv x p)"
    using hdr4 lc unfolding ieee80211_wep_decrypt_data_def Let_def
    by (simp add: buf_simps c_def inv memcmp_zero_iff)
  define skb1 where "skb1 = skb_trim (skb\<lparr>skb_data := hdr4 @ p @ wep_icv x p\<rparr>) (h + 4 + length p)"
  have d1: "skb_data skb1 = hdr @ iv @ [b] @ p"
    using hdr4(1) by (simp add: skb1_def skb_data_trim hdr4_def)
  have "skb_data (skb_pull 4 (skb_memmove 4 0 h skb1)) = hdr @ p"
    using assms(1,5) d1 by (subst skb_data_pull_move) simp_all
  moreover have "ieee80211_wep_decrypt x skb (Some k) = (0, skb_pull 4 (skb_memmove 4 0 h skb1))"
    using assms(3,4,6) fc len rk idx dec
    unfolding ieee80211_wep_decrypt_def Let_def
    by (simp add: hdr4 hdr4_def ky_def [symmetric] skb1_def)
      (simp add: dat skb1_def hdr4_def assms(1,5) ac_simps)
  ultimately show ?thesis by blast
qed

subsection \<open>Properties\<close>

lemma or_frame_control_idem: "2 \<le> length d \<Longrightarrow> or_frame_control (or_frame_control d m) m = or_frame_control d m"
  by (simp add: or_frame_control_def frame_control_def mem_write_def codec_simps or.assoc)

text \<open>The IV the transmit path takes is never one of the weak Fluhrer-Mantin-Shamir
  vectors of the key, whatever the counter was, and the octets in the frame are the low 24
  bits of the counter, most significant first, with the key index in the top bits of the fourth.\<close>

theorem wep_get_iv_strong:
  "case ieee80211_wep_get_iv local keylen keyidx of (local', iv) \<Rightarrow>
     \<not> ieee80211_wep_weak_iv (wep_iv local') keylen \<and>
     iv = [ucast (drop_bit 16 (wep_iv local')), ucast (drop_bit 8 (wep_iv local')),
           ucast (wep_iv local'), push_bit 6 (word_of_int keyidx)]"
proof -
  have m: "ucast (w AND 0xff) = (ucast w :: u8)" for w :: u32
  proof -
    have "(0xff :: u32) = mask 8" by (simp add: mask_eq_exp_minus_1)
    show ?thesis unfolding \<open>0xff = mask 8\<close> by (rule bit_word_eqI) (auto simp: bit_simps)
  qed
  show ?thesis
    using wep_get_iv_not_weak [of keylen keylen local keyidx]
    by (simp only: ieee80211_wep_get_iv_def Let_def m split: prod.split) simp
qed

text \<open>C34: A frame encrypted by the WEP transmit handler, received unchanged by a station with
  the same key, passes the receive handler, which restores the frame: header with the
  Protected bit set, and the plain payload without IV and ICV.\<close>

theorem wep_roundtrip:
  assumes "arc4_lengths x" "arc4_inverse x"
    and "hw_key (skb_tx skb) = None" "4 \<le> skb_headroom skb" "4 \<le> skb_tailroom skb"
    and "0 \<le> kc_keyidx (conf k)" "kc_keyidx (conf k) < 4"
    and "d = or_frame_control (skb_data skb) IEEE80211_FCTL_PROTECTED"
    and "2 \<le> x_hdrlen x (frame_control d)" "x_hdrlen x (frame_control d) \<le> length (skb_data skb)"
    and "ieee80211_is_data (frame_control d) \<or> ieee80211_is_auth (frame_control d)"
    and "skb_data (rx_skb rx) = skb_data (hd (snd (snd (ieee80211_crypto_wep_encrypt x k local [skb]))))"
    and "rx_key rx = Some k" "\<not> has_flag (rx_flag rx) RX_FLAG_DECRYPTED" "\<not> skb_linearize_fails (rx_skb rx)"
  shows "fst (ieee80211_crypto_wep_encrypt x k local [skb]) = TX_CONTINUE \<and>
    fst (ieee80211_crypto_wep_decrypt x rx) = RX_CONTINUE \<and>
    skb_data (rx_skb (snd (ieee80211_crypto_wep_decrypt x rx))) = d"
proof -
  define h where "h = x_hdrlen x (frame_control d)"
  have len2: "2 \<le> length (skb_data skb)" using assms(9,10) by simp
  have ld: "length d = length (skb_data skb)" using len2 assms(8) by simp
  have prot: "or_frame_control (skb_data (set_protected skb)) IEEE80211_FCTL_PROTECTED = d"
    using assms(8) len2 by (simp add: set_protected_def or_frame_control_idem)
  have sp: "hw_key (skb_tx (set_protected skb)) = None" "4 \<le> skb_headroom (set_protected skb)"
      "4 \<le> skb_tailroom (set_protected skb)"
    using assms(3-5) by (simp_all add: set_protected_def skb_headroom_def skb_tailroom_def)
  obtain local' skb' iv where enc:
      "ieee80211_wep_encrypt x local (set_protected skb) (kc_key (conf k)) (kc_keylen (conf k)) (kc_keyidx (conf k))
        = (0, local', skb')"
    and iv: "length iv = 3"
    and dat: "skb_data skb' = take h d @ iv @ [push_bit 6 (word_of_int (kc_keyidx (conf k)))] @
      x_arc4 x (iv @ mem_read (kc_key (conf k)) 0 (kc_keylen (conf k))) (drop h d @ wep_icv x (drop h d))"
    using wep_encrypt_layout [of "set_protected skb" x local "kc_key (conf k)" "kc_keylen (conf k)"
        "kc_keyidx (conf k)"] sp assms(1,10) ld unfolding prot h_def [symmetric] by auto
  have tx: "ieee80211_crypto_wep_encrypt x k local [skb] = (TX_CONTINUE, local', [skb'])"
    using enc sp(1) by (simp add: ieee80211_crypto_wep_encrypt_def ieee80211_tx_set_protected_def
        wep_encrypt_skb_def)
  have fcd: "frame_control (take h d) = frame_control d"
    using frame_control_cong [of "take h d" "drop h d"] assms(9,10) ld by (simp add: h_def)
  have idx: "uint (drop_bit 6 (push_bit 6 (word_of_int i) :: u8)) = i" if i: "0 \<le> i" "i < 4" for i
  proof -
    have "i = 0 \<or> i = 1 \<or> i = 2 \<or> i = 3" using i by linarith
    then show ?thesis by (elim disjE) simp_all
  qed
  have fcp: "ieee80211_has_protected (frame_control d)"
    using assms(8) by (simp add: has_protected_or)
  obtain skb'' where dec: "ieee80211_wep_decrypt x (rx_skb rx) (Some k) = (0, skb'')" "skb_data skb'' = d"
    using wep_decrypt_layout [of "take h d" h x iv "push_bit 6 (word_of_int (kc_keyidx (conf k)))" k
        "rx_skb rx" "drop h d"] assms ld iv dat tx fcd fcp idx by (auto simp: h_def)
  have fcr: "frame_control (skb_data (rx_skb rx)) = frame_control d"
    using assms(9,10,12) tx dat fcd ld by (simp add: frame_control_cong h_def)
  have "ieee80211_crypto_wep_decrypt x rx = (RX_CONTINUE, rx\<lparr>rx_skb := skb''\<rparr>)"
    using dec(1) assms(11,13-15) by (auto simp: ieee80211_crypto_wep_decrypt_def fcr)
  then show ?thesis using tx dec(2) by simp
qed

lemma wep_roundtrip_witness:
  "let k = ex_key 0x000FAC01 5; skb = ex_skb (ex_hdr @ [1, 2, 3]);
       rx = ex_rx (skb_data (hd (snd (snd (ieee80211_crypto_wep_encrypt ex_extern k ex_local [skb]))))) k
   in fst (ieee80211_crypto_wep_encrypt ex_extern k ex_local [skb]) = TX_CONTINUE \<and>
      fst (ieee80211_crypto_wep_decrypt ex_extern rx) = RX_CONTINUE \<and>
      skb_data (rx_skb (snd (ieee80211_crypto_wep_decrypt ex_extern rx)))
        = or_frame_control (ex_hdr @ [1, 2, 3]) IEEE80211_FCTL_PROTECTED"
  unfolding Let_def
  by (rule wep_roundtrip [where d = "or_frame_control (ex_hdr @ [1, 2, 3]) IEEE80211_FCTL_PROTECTED"])
    (((simp; fail) | (simp add: ex_defs; fail) | code_simp)+)

end
