(* ===== verification/Tkip.thy ===== *)
theory Tkip
  imports Wep
begin

text \<open>
  TKIP key mixing and the processing of one frame, \<^verbatim>\<open>mac80211/tkip.c\<close>: the two mixing phases,
  the cached phase-1 keys of the transmit and receive contexts, the IV, and decryption with
  the check of the sequence counter. The lemmas show the substitution table to be the AES one,
  the IV to carry the sequence counter, and decryption to accept exactly newer counters.
\<close>

subsection \<open>The mixing functions\<close>

abbreviation (input) PHASE1_LOOP_COUNT :: nat where "PHASE1_LOOP_COUNT \<equiv> 8"

definition tkip_sbox :: "u16 list" where
  "tkip_sbox = [
   0xC6A5, 0xF884, 0xEE99, 0xF68D, 0xFF0D, 0xD6BD, 0xDEB1, 0x9154,
   0x6050, 0x0203, 0xCEA9, 0x567D, 0xE719, 0xB562, 0x4DE6, 0xEC9A,
   0x8F45, 0x1F9D, 0x8940, 0xFA87, 0xEF15, 0xB2EB, 0x8EC9, 0xFB0B,
   0x41EC, 0xB367, 0x5FFD, 0x45EA, 0x23BF, 0x53F7, 0xE496, 0x9B5B,
   0x75C2, 0xE11C, 0x3DAE, 0x4C6A, 0x6C5A, 0x7E41, 0xF502, 0x834F,
   0x685C, 0x51F4, 0xD134, 0xF908, 0xE293, 0xAB73, 0x6253, 0x2A3F,
   0x080C, 0x9552, 0x4665, 0x9D5E, 0x3028, 0x37A1, 0x0A0F, 0x2FB5,
   0x0E09, 0x2436, 0x1B9B, 0xDF3D, 0xCD26, 0x4E69, 0x7FCD, 0xEA9F,
   0x121B, 0x1D9E, 0x5874, 0x342E, 0x362D, 0xDCB2, 0xB4EE, 0x5BFB,
   0xA4F6, 0x764D, 0xB761, 0x7DCE, 0x527B, 0xDD3E, 0x5E71, 0x1397,
   0xA6F5, 0xB968, 0x0000, 0xC12C, 0x4060, 0xE31F, 0x79C8, 0xB6ED,
   0xD4BE, 0x8D46, 0x67D9, 0x724B, 0x94DE, 0x98D4, 0xB0E8, 0x854A,
   0xBB6B, 0xC52A, 0x4FE5, 0xED16, 0x86C5, 0x9AD7, 0x6655, 0x1194,
   0x8ACF, 0xE910, 0x0406, 0xFE81, 0xA0F0, 0x7844, 0x25BA, 0x4BE3,
   0xA2F3, 0x5DFE, 0x80C0, 0x058A, 0x3FAD, 0x21BC, 0x7048, 0xF104,
   0x63DF, 0x77C1, 0xAF75, 0x4263, 0x2030, 0xE51A, 0xFD0E, 0xBF6D,
   0x814C, 0x1814, 0x2635, 0xC32F, 0xBEE1, 0x35A2, 0x88CC, 0x2E39,
   0x9357, 0x55F2, 0xFC82, 0x7A47, 0xC8AC, 0xBAE7, 0x322B, 0xE695,
   0xC0A0, 0x1998, 0x9ED1, 0xA37F, 0x4466, 0x547E, 0x3BAB, 0x0B83,
   0x8CCA, 0xC729, 0x6BD3, 0x283C, 0xA779, 0xBCE2, 0x161D, 0xAD76,
   0xDB3B, 0x6456, 0x744E, 0x141E, 0x92DB, 0x0C0A, 0x486C, 0xB8E4,
   0x9F5D, 0xBD6E, 0x43EF, 0xC4A6, 0x39A8, 0x31A4, 0xD337, 0xF28B,
   0xD532, 0x8B43, 0x6E59, 0xDAB7, 0x018C, 0xB164, 0x9CD2, 0x49E0,
   0xD8B4, 0xACFA, 0xF307, 0xCF25, 0xCAAF, 0xF48E, 0x47E9, 0x1018,
   0x6FD5, 0xF088, 0x4A6F, 0x5C72, 0x3824, 0x57F1, 0x73C7, 0x9751,
   0xCB23, 0xA17C, 0xE89C, 0x3E21, 0x96DD, 0x61DC, 0x0D86, 0x0F85,
   0xE090, 0x7C42, 0x71C4, 0xCCAA, 0x90D8, 0x0605, 0xF701, 0x1C12,
   0xC2A3, 0x6A5F, 0xAEF9, 0x69D0, 0x1791, 0x9958, 0x3A27, 0x27B9,
   0xD938, 0xEB13, 0x2BB3, 0x2233, 0xD2BB, 0xA970, 0x0789, 0x33A7,
   0x2DB6, 0x3C22, 0x1592, 0xC920, 0x8749, 0xAAFF, 0x5078, 0xA57A,
   0x038F, 0x59F8, 0x0980, 0x1A17, 0x65DA, 0xD731, 0x84C6, 0xD0B8,
   0x82C3, 0x29B0, 0x5A77, 0x1E11, 0x7BCB, 0xA8FC, 0x6DD6, 0x2C3A
   ]"

definition tkipS :: "u16 \<Rightarrow> u16" where
  "tkipS val = tkip_sbox ! unat (val AND 0xff) XOR swab16 (tkip_sbox ! unat (drop_bit 8 val))"

definition write_tkip_iv :: "u16 \<Rightarrow> u8 list" where
  "write_tkip_iv iv16 =
     [ucast (drop_bit 8 iv16), ucast ((drop_bit 8 iv16 OR 0x20) AND 0x7f), ucast (iv16 AND 0xff)]"

text \<open>One pass of the loop of \<^verbatim>\<open>tkip_mixing_phase1\<close>, and the whole of it.\<close>

definition tkip_phase1_round :: "u8 list \<Rightarrow> nat \<Rightarrow> u16 list \<Rightarrow> u16 list" where
  "tkip_phase1_round tk i p1k =
     (let j = 2 * (i mod 2);
          p0 = p1k ! 0 + tkipS (p1k ! 4 XOR get_unaligned_le16 tk (0 + j));
          p1 = p1k ! 1 + tkipS (p0 XOR get_unaligned_le16 tk (4 + j));
          p2 = p1k ! 2 + tkipS (p1 XOR get_unaligned_le16 tk (8 + j));
          p3 = p1k ! 3 + tkipS (p2 XOR get_unaligned_le16 tk (12 + j));
          p4 = p1k ! 4 + (tkipS (p3 XOR get_unaligned_le16 tk (0 + j)) + word_of_nat i)
      in [p0, p1, p2, p3, p4])"

definition tkip_phase1 :: "u8 list \<Rightarrow> u8 list \<Rightarrow> u32 \<Rightarrow> u16 list" where
  "tkip_phase1 tk ta tsc_IV32 =
     fold (tkip_phase1_round tk) [0..<PHASE1_LOOP_COUNT]
       [ucast (tsc_IV32 AND 0xFFFF), ucast (drop_bit 16 tsc_IV32),
        get_unaligned_le16 ta 0, get_unaligned_le16 ta 2, get_unaligned_le16 ta 4]"

definition tkip_mixing_phase1 :: "u8 list \<Rightarrow> tkip_ctx \<Rightarrow> u8 list \<Rightarrow> u32 \<Rightarrow> tkip_ctx" where
  "tkip_mixing_phase1 tk ctx ta tsc_IV32 =
     ctx\<lparr>ctx_p1k := tkip_phase1 tk ta tsc_IV32, ctx_state := TKIP_STATE_PHASE1_DONE,
         ctx_p1k_iv32 := tsc_IV32\<rparr>"

definition tkip_ppk :: "u8 list \<Rightarrow> u16 list \<Rightarrow> u16 \<Rightarrow> u16 list" where
  "tkip_ppk tk p1k tsc_IV16 =
     (let p5 = p1k ! 4 + tsc_IV16;
          p0 = p1k ! 0 + tkipS (p5 XOR get_unaligned_le16 tk 0);
          p1 = p1k ! 1 + tkipS (p0 XOR get_unaligned_le16 tk 2);
          p2 = p1k ! 2 + tkipS (p1 XOR get_unaligned_le16 tk 4);
          p3 = p1k ! 3 + tkipS (p2 XOR get_unaligned_le16 tk 6);
          p4 = p1k ! 4 + tkipS (p3 XOR get_unaligned_le16 tk 8);
          p5 = p5 + tkipS (p4 XOR get_unaligned_le16 tk 10);
          p0 = p0 + ror16 (p5 XOR get_unaligned_le16 tk 12) 1;
          p1 = p1 + ror16 (p0 XOR get_unaligned_le16 tk 14) 1;
          p2 = p2 + ror16 p1 1;
          p3 = p3 + ror16 p2 1;
          p4 = p4 + ror16 p3 1;
          p5 = p5 + ror16 p4 1
      in [p0, p1, p2, p3, p4, p5])"

definition tkip_mixing_phase2 :: "u8 list \<Rightarrow> tkip_ctx \<Rightarrow> u16 \<Rightarrow> u8 list" where
  "tkip_mixing_phase2 tk ctx tsc_IV16 =
     (let ppk = tkip_ppk tk (ctx_p1k ctx) tsc_IV16
      in write_tkip_iv tsc_IV16
         @ [ucast (drop_bit 1 (ppk ! 5 XOR get_unaligned_le16 tk 0) AND 0xFF)]
         @ le16_bytes (ppk ! 0) @ le16_bytes (ppk ! 1) @ le16_bytes (ppk ! 2)
         @ le16_bytes (ppk ! 3) @ le16_bytes (ppk ! 4) @ le16_bytes (ppk ! 5))"

subsection \<open>The IV and the cached phase-1 key\<close>

text \<open>\<^verbatim>\<open>TKIP_PN_TO_IV16\<close> and \<^verbatim>\<open>TKIP_PN_TO_IV32\<close> of \<^verbatim>\<open>net/mac80211.h\<close>.\<close>

definition TKIP_PN_TO_IV16 :: "u64 \<Rightarrow> u16" where
  "TKIP_PN_TO_IV16 pn = ucast (pn AND 0xffff)"

definition TKIP_PN_TO_IV32 :: "u64 \<Rightarrow> u32" where
  "TKIP_PN_TO_IV32 pn = ucast (drop_bit 16 pn AND 0xffffffff)"

text \<open>The eight octets written at \<^verbatim>\<open>pos\<close>.\<close>

definition ieee80211_tkip_add_iv :: "ieee80211_key_conf \<Rightarrow> u64 \<Rightarrow> u8 list" where
  "ieee80211_tkip_add_iv keyconf pn =
     write_tkip_iv (TKIP_PN_TO_IV16 pn)
     @ [push_bit 6 (word_of_int (kc_keyidx keyconf)) OR push_bit 5 1]
     @ le32_bytes (TKIP_PN_TO_IV32 pn)"

definition tkip_tk :: "extern \<Rightarrow> ieee80211_key_conf \<Rightarrow> u8 list" where
  "tkip_tk x keyconf = drop (x_tkip_encr_key x) (kc_key keyconf)"

definition ieee80211_compute_tkip_p1k :: "extern \<Rightarrow> ieee80211_key \<Rightarrow> u32 \<Rightarrow> ieee80211_key" where
  "ieee80211_compute_tkip_p1k x k iv32 =
     (let ctx = tk_tx (u_tkip k) in
      if ctx_p1k_iv32 ctx \<noteq> iv32 \<or> ctx_state ctx = TKIP_STATE_NOT_INIT
      then k\<lparr>u_tkip := (u_tkip k)\<lparr>tk_tx :=
             tkip_mixing_phase1 (tkip_tk x (conf k)) ctx (key_vif_addr k) iv32\<rparr>\<rparr>
      else k)"

definition ieee80211_get_tkip_p1k_iv :: "extern \<Rightarrow> ieee80211_key \<Rightarrow> u32 \<Rightarrow> ieee80211_key \<times> u16 list" where
  "ieee80211_get_tkip_p1k_iv x k iv32 =
     (let k = ieee80211_compute_tkip_p1k x k iv32 in (k, ctx_p1k (tk_tx (u_tkip k))))"

definition ieee80211_get_tkip_rx_p1k :: "extern \<Rightarrow> ieee80211_key_conf \<Rightarrow> u8 list \<Rightarrow> u32 \<Rightarrow> u16 list" where
  "ieee80211_get_tkip_rx_p1k x keyconf ta iv32 =
     ctx_p1k (tkip_mixing_phase1 (tkip_tk x keyconf)
       \<lparr>ctx_p1k = [], ctx_p1k_iv32 = 0, ctx_state = TKIP_STATE_NOT_INIT\<rparr> ta iv32)"

definition ieee80211_get_tkip_p2k :: "extern \<Rightarrow> ieee80211_key \<Rightarrow> u8 list \<Rightarrow> ieee80211_key \<times> u8 list" where
  "ieee80211_get_tkip_p2k x k frame =
     (let data = drop (x_hdrlen x (frame_control frame)) frame;
          iv32 = get_unaligned_le32 data 4;
          iv16 = ucast (data ! 2) OR push_bit 8 (ucast (data ! 0));
          k = ieee80211_compute_tkip_p1k x k iv32
      in (k, tkip_mixing_phase2 (tkip_tk x (conf k)) (tk_tx (u_tkip k)) iv16))"

subsection \<open>One frame\<close>

definition ieee80211_tkip_encrypt_data ::
  "extern \<Rightarrow> ieee80211_key \<Rightarrow> sk_buff \<Rightarrow> nat \<Rightarrow> nat \<Rightarrow> int \<times> ieee80211_key \<times> sk_buff" where
  "ieee80211_tkip_encrypt_data x k skb payload payload_len =
     (let (k, rc4key) = ieee80211_get_tkip_p2k x k (skb_data skb);
          (r, buf) = ieee80211_wep_encrypt_data x rc4key (skb_data skb) payload payload_len
      in (r, k, skb\<lparr>skb_data := buf\<rparr>))"

abbreviation (input) TKIP_DECRYPT_OK :: int where "TKIP_DECRYPT_OK \<equiv> 0"
abbreviation (input) TKIP_DECRYPT_NO_EXT_IV :: int where "TKIP_DECRYPT_NO_EXT_IV \<equiv> - 1"
abbreviation (input) TKIP_DECRYPT_INVALID_KEYIDX :: int where "TKIP_DECRYPT_INVALID_KEYIDX \<equiv> - 2"
abbreviation (input) TKIP_DECRYPT_REPLAY :: int where "TKIP_DECRYPT_REPLAY \<equiv> - 3"

text \<open>The test of the received sequence counter against the receive context.\<close>

definition tkip_is_replay :: "tkip_ctx_rx \<Rightarrow> u32 \<Rightarrow> u16 \<Rightarrow> bool" where
  "tkip_is_replay rxc iv32 iv16 \<longleftrightarrow>
     iv32 < rx_iv32 rxc \<or>
     (iv32 = rx_iv32 rxc \<and>
      (iv16 < rx_iv16 rxc \<or>
       (iv16 = rx_iv16 rxc \<and>
        (rx_iv32 rxc \<noteq> 0 \<or> rx_iv16 rxc \<noteq> 0 \<or> ctx_state (rx_ctx rxc) \<noteq> TKIP_STATE_NOT_INIT))))"

text \<open>
  The phase-1 key for a received \<open>iv32\<close>, and its upload to a driver that asked for it.
\<close>

definition tkip_rx_p1k ::
  "extern \<Rightarrow> ieee80211_local \<Rightarrow> ieee80211_key \<Rightarrow> tkip_ctx_rx \<Rightarrow> u8 list \<Rightarrow> u32 \<Rightarrow>
     tkip_ctx_rx \<times> rx_event list" where
  "tkip_rx_p1k x local k rxc ta iv32 =
     (let rxc = (if ctx_state (rx_ctx rxc) = TKIP_STATE_NOT_INIT \<or> rx_iv32 rxc \<noteq> iv32
                 then rxc\<lparr>rx_ctx := tkip_mixing_phase1 (tkip_tk x (conf k)) (rx_ctx rxc) ta iv32\<rparr>
                 else rxc)
      in if ops_update_tkip_key local \<and> has_flag (key_flags k) KEY_FLAG_UPLOADED_TO_HARDWARE \<and>
            ctx_state (rx_ctx rxc) \<noteq> TKIP_STATE_PHASE1_HW_UPLOADED
         then (rxc\<lparr>rx_ctx := (rx_ctx rxc)\<lparr>ctx_state := TKIP_STATE_PHASE1_HW_UPLOADED\<rparr>\<rparr>,
               [Update_tkip_key iv32 (ctx_p1k (rx_ctx rxc))])
         else (rxc, []))"

definition set_tkip_rx :: "ieee80211_key \<Rightarrow> nat \<Rightarrow> tkip_ctx_rx \<Rightarrow> ieee80211_key" where
  "set_tkip_rx k queue rxc = k\<lparr>u_tkip := (u_tkip k)\<lparr>tk_rx := (tk_rx (u_tkip k))[queue := rxc]\<rparr>\<rparr>"

text \<open>
  The result: status, key with the receive context updated, calls to the driver, buffer, and
  the counter written through the output pointers, if it is. \<open>payload\<close> is the offset in the
  buffer of the octet after the header.
\<close>

definition ieee80211_tkip_decrypt_data ::
  "extern \<Rightarrow> ieee80211_local \<Rightarrow> ieee80211_key \<Rightarrow> u8 list \<Rightarrow> nat \<Rightarrow> nat \<Rightarrow> u8 list \<Rightarrow> bool \<Rightarrow> nat \<Rightarrow>
     int \<times> ieee80211_key \<times> rx_event list \<times> u8 list \<times> (u32 \<times> u16) option" where
  "ieee80211_tkip_decrypt_data x local k buf payload payload_len ta only_iv queue =
     (let rxc = tk_rx (u_tkip k) ! queue in
      if payload_len < 12 then (- 1, k, [], buf, None)
      else
        (let iv16 = push_bit 8 (ucast (buf ! payload)) OR ucast (buf ! (payload + 2));
             keyid = buf ! (payload + 3);
             iv32 = get_unaligned_le32 buf (payload + 4)
         in if \<not> has_flag keyid (push_bit 5 1) then (TKIP_DECRYPT_NO_EXT_IV, k, [], buf, None)
            else if uint (drop_bit 6 keyid) \<noteq> kc_keyidx (conf k)
            then (TKIP_DECRYPT_INVALID_KEYIDX, k, [], buf, None)
            else if tkip_is_replay rxc iv32 iv16 then (TKIP_DECRYPT_REPLAY, k, [], buf, None)
            else if only_iv then
              (TKIP_DECRYPT_OK,
               set_tkip_rx k queue
                 (rxc\<lparr>rx_ctx := (rx_ctx rxc)\<lparr>ctx_state := TKIP_STATE_PHASE1_HW_UPLOADED\<rparr>\<rparr>),
               [], buf, Some (iv32, iv16))
            else
              (let (rxc, ev) = tkip_rx_p1k x local k rxc ta iv32;
                   k = set_tkip_rx k queue rxc;
                   rc4key = tkip_mixing_phase2 (tkip_tk x (conf k)) (rx_ctx rxc) iv16;
                   (res, buf) = ieee80211_wep_decrypt_data x rc4key buf (payload + 8) (payload_len - 12)
               in (res, k, ev, buf, if res = TKIP_DECRYPT_OK then Some (iv32, iv16) else None))))"

subsection \<open>The IV carries the sequence counter\<close>

lemma length_write_tkip_iv [simp]: "length (write_tkip_iv iv16) = 3"
  by (simp add: write_tkip_iv_def)

lemma length_tkip_add_iv [simp]: "length (ieee80211_tkip_add_iv kc pn) = 8"
  by (simp add: ieee80211_tkip_add_iv_def)

lemma length_tkip_mixing_phase2 [simp]: "length (tkip_mixing_phase2 tk ctx iv16) = 16"
  by (simp add: tkip_mixing_phase2_def Let_def)

lemma u16_ff: "(0xff :: u16) = mask 8"
  by (simp add: mask_eq_exp_minus_1)

lemma tkip_iv16_bytes:
  "push_bit 8 (ucast (ucast (drop_bit 8 w) :: u8)) OR ucast (ucast (w AND 0xff) :: u8) = (w :: u16)"
  unfolding u16_ff
proof (rule bit_word_eqI)
  fix n
  assume "n < LENGTH(16)"
  then consider "n < 8" | "8 \<le> n" "n < 16" by fastforce
  then show "bit (push_bit 8 (ucast (ucast (drop_bit 8 w) :: u8)) OR ucast (ucast (w AND mask 8) :: u8) :: u16) n = bit w n"
    by cases (auto simp: bit_simps)
qed

text \<open>The octets of the IV, as the receiver takes them apart.\<close>

lemma tkip_add_iv_fields:
  assumes "0 \<le> kc_keyidx kc" "kc_keyidx kc < 4"
  shows "push_bit 8 (ucast (ieee80211_tkip_add_iv kc pn ! 0)) OR ucast (ieee80211_tkip_add_iv kc pn ! 2)
      = TKIP_PN_TO_IV16 pn"
    and "get_unaligned_le32 (ieee80211_tkip_add_iv kc pn) 4 = TKIP_PN_TO_IV32 pn"
    and "has_flag (ieee80211_tkip_add_iv kc pn ! 3) (push_bit 5 1)"
    and "uint (drop_bit 6 (ieee80211_tkip_add_iv kc pn ! 3)) = kc_keyidx kc"
proof -
  show "push_bit 8 (ucast (ieee80211_tkip_add_iv kc pn ! 0)) OR ucast (ieee80211_tkip_add_iv kc pn ! 2)
      = TKIP_PN_TO_IV16 pn"
    by (simp add: ieee80211_tkip_add_iv_def write_tkip_iv_def tkip_iv16_bytes)
  show "get_unaligned_le32 (ieee80211_tkip_add_iv kc pn) 4 = TKIP_PN_TO_IV32 pn"
    unfolding ieee80211_tkip_add_iv_def append_assoc [symmetric]
    by (subst get_le32_append_right) (simp_all add: codec_simps)
  have "kc_keyidx kc = 0 \<or> kc_keyidx kc = 1 \<or> kc_keyidx kc = 2 \<or> kc_keyidx kc = 3"
    using assms by linarith
  then show "has_flag (ieee80211_tkip_add_iv kc pn ! 3) (push_bit 5 1)"
    and "uint (drop_bit 6 (ieee80211_tkip_add_iv kc pn ! 3)) = kc_keyidx kc"
    by (auto simp: ieee80211_tkip_add_iv_def write_tkip_iv_def has_flag_def)
qed

text \<open>The 48 bits of the counter are the two fields.\<close>

lemma tkip_pn_split:
  assumes "pn < 2 ^ 48"
  shows "push_bit 16 (ucast (TKIP_PN_TO_IV32 pn)) OR ucast (TKIP_PN_TO_IV16 pn) = pn"
proof -
  have m: "(0xffff :: u64) = mask 16" "(0xffffffff :: u64) = mask 32"
    by (simp_all add: mask_eq_exp_minus_1)
  have pn: "take_bit 48 pn = pn"
    using assms by (simp add: word_unat_eq_iff unsigned_take_bit_eq take_bit_nat_eq_self word_less_nat_alt)
  have "push_bit 16 (ucast (TKIP_PN_TO_IV32 pn)) OR ucast (TKIP_PN_TO_IV16 pn) = take_bit 48 pn"
  proof (rule bit_word_eqI)
    fix n
    assume "n < LENGTH(64)"
    then consider "n < 16" | "16 \<le> n" "n < 48" | "48 \<le> n" "n < 64" by fastforce
    then show "bit (push_bit 16 (ucast (TKIP_PN_TO_IV32 pn)) OR ucast (TKIP_PN_TO_IV16 pn) :: u64) n
        = bit (take_bit 48 pn) n"
      unfolding TKIP_PN_TO_IV32_def TKIP_PN_TO_IV16_def m by cases (auto simp: bit_simps)
  qed
  with pn show ?thesis by simp
qed

lemma tkip_pn_inject:
  assumes "pn < 2 ^ 48" "pn' < 2 ^ 48"
    and "TKIP_PN_TO_IV32 pn = TKIP_PN_TO_IV32 pn'" "TKIP_PN_TO_IV16 pn = TKIP_PN_TO_IV16 pn'"
  shows "pn = pn'"
  by (metis tkip_pn_split assms)

subsection \<open>The cached phase-1 keys\<close>

text \<open>A transmit context holds the phase-1 key of the counter it names.\<close>

definition tkip_tx_ok :: "extern \<Rightarrow> ieee80211_key \<Rightarrow> bool" where
  "tkip_tx_ok x k \<longleftrightarrow>
     (let ctx = tk_tx (u_tkip k) in
      ctx_state ctx \<noteq> TKIP_STATE_NOT_INIT \<longrightarrow>
        ctx_p1k ctx = tkip_phase1 (tkip_tk x (conf k)) (key_vif_addr k) (ctx_p1k_iv32 ctx))"

lemma compute_tkip_p1k_frame [simp]:
  "conf (ieee80211_compute_tkip_p1k x k iv32) = conf k"
  "key_vif_addr (ieee80211_compute_tkip_p1k x k iv32) = key_vif_addr k"
  "tk_rx (u_tkip (ieee80211_compute_tkip_p1k x k iv32)) = tk_rx (u_tkip k)"
  by (simp_all add: ieee80211_compute_tkip_p1k_def Let_def)

lemma compute_tkip_p1k:
  assumes "tkip_tx_ok x k"
  shows "ctx_p1k (tk_tx (u_tkip (ieee80211_compute_tkip_p1k x k iv32)))
      = tkip_phase1 (tkip_tk x (conf k)) (key_vif_addr k) iv32"
    and "tkip_tx_ok x (ieee80211_compute_tkip_p1k x k iv32)"
  using assms
  by (auto simp: tkip_tx_ok_def ieee80211_compute_tkip_p1k_def Let_def tkip_mixing_phase1_def)

lemma tkip_mixing_phase2_cong:
  "ctx_p1k ctx = ctx_p1k ctx' \<Longrightarrow> tkip_mixing_phase2 tk ctx iv16 = tkip_mixing_phase2 tk ctx' iv16"
  by (simp add: tkip_mixing_phase2_def)

text \<open>The per-frame key of a transmitter address and counter, computed without any cache.\<close>

definition tkip_rc4_key :: "u8 list \<Rightarrow> u8 list \<Rightarrow> u32 \<Rightarrow> u16 \<Rightarrow> u8 list" where
  "tkip_rc4_key tk ta iv32 iv16 =
     tkip_mixing_phase2 tk
       \<lparr>ctx_p1k = tkip_phase1 tk ta iv32, ctx_p1k_iv32 = iv32, ctx_state = TKIP_STATE_PHASE1_DONE\<rparr> iv16"

lemma tkip_rc4_keyI:
  "ctx_p1k ctx = tkip_phase1 tk ta iv32 \<Longrightarrow> tkip_mixing_phase2 tk ctx iv16 = tkip_rc4_key tk ta iv32 iv16"
  by (simp add: tkip_rc4_key_def tkip_mixing_phase2_cong)

text \<open>
  The receive context has no such guarantee: what is cached belongs to \<open>rx_iv32\<close> only if the
  last frame that reached decryption also passed its integrity checks.
\<close>

definition tkip_rx_ok :: "extern \<Rightarrow> ieee80211_key_conf \<Rightarrow> u8 list \<Rightarrow> tkip_ctx_rx \<Rightarrow> bool" where
  "tkip_rx_ok x kc ta rxc \<longleftrightarrow>
     (ctx_state (rx_ctx rxc) \<noteq> TKIP_STATE_NOT_INIT \<longrightarrow>
        ctx_p1k (rx_ctx rxc) = tkip_phase1 (tkip_tk x kc) ta (rx_iv32 rxc))"

lemma tkip_rx_p1k_key:
  assumes "tkip_rx_ok x (conf k) ta rxc"
  shows "ctx_p1k (rx_ctx (fst (tkip_rx_p1k x local k rxc ta iv32)))
    = tkip_phase1 (tkip_tk x (conf k)) ta iv32"
  using assms by (auto simp: tkip_rx_p1k_def tkip_rx_ok_def Let_def tkip_mixing_phase1_def)

lemma tkip_rx_p1k_fields [simp]:
  "rx_iv32 (fst (tkip_rx_p1k x local k rxc ta iv32)) = rx_iv32 rxc"
  "rx_iv16 (fst (tkip_rx_p1k x local k rxc ta iv32)) = rx_iv16 rxc"
  "ctx_state (rx_ctx (fst (tkip_rx_p1k x local k rxc ta iv32))) \<noteq> TKIP_STATE_NOT_INIT"
  by (auto simp: tkip_rx_p1k_def Let_def tkip_mixing_phase1_def)

subsection \<open>Accepting a sequence counter\<close>

definition tkip_tsc :: "u32 \<Rightarrow> u16 \<Rightarrow> nat" where
  "tkip_tsc iv32 iv16 = unat iv32 * 65536 + unat iv16"

lemma tkip_tsc_lt_iff: "tkip_tsc a b < tkip_tsc c d \<longleftrightarrow> a < c \<or> a = c \<and> b < d"
proof -
  have "unat b < 65536" and "unat d < 65536"
    using unsigned_less [of b, where ?'a = nat] unsigned_less [of d, where ?'a = nat] by simp_all
  then show ?thesis
    unfolding tkip_tsc_def word_less_nat_alt word_unat_eq_iff by linarith
qed

lemma tkip_tsc_eq_iff: "tkip_tsc a b = tkip_tsc c d \<longleftrightarrow> a = c \<and> b = d"
  using tkip_tsc_lt_iff [of a b c d] tkip_tsc_lt_iff [of c d a b]
  by (metis less_irrefl linorder_neqE)

lemma tkip_tsc_zero: "tkip_tsc a b = 0 \<longleftrightarrow> a = 0 \<and> b = 0"
  using tkip_tsc_eq_iff [of a b 0 0] by (simp add: tkip_tsc_def)

lemma tkip_is_replay_iff:
  "tkip_is_replay rxc iv32 iv16 \<longleftrightarrow>
     tkip_tsc iv32 iv16 < tkip_tsc (rx_iv32 rxc) (rx_iv16 rxc) \<or>
     tkip_tsc iv32 iv16 = tkip_tsc (rx_iv32 rxc) (rx_iv16 rxc) \<and>
       (tkip_tsc iv32 iv16 \<noteq> 0 \<or> ctx_state (rx_ctx rxc) \<noteq> TKIP_STATE_NOT_INIT)"
  unfolding tkip_is_replay_def tkip_tsc_lt_iff tkip_tsc_eq_iff tkip_tsc_zero by auto

lemma set_tkip_rx_simps [simp]:
  "conf (set_tkip_rx k q r) = conf k" "key_vif_addr (set_tkip_rx k q r) = key_vif_addr k"
  "key_flags (set_tkip_rx k q r) = key_flags k"
  "tk_tx (u_tkip (set_tkip_rx k q r)) = tk_tx (u_tkip k)"
  "tk_rx (u_tkip (set_tkip_rx k q r)) = (tk_rx (u_tkip k))[q := r]"
  by (simp_all add: set_tkip_rx_def)

text \<open>Decryption keeps the counter of the receive context; every accepted frame initialises it.\<close>

lemma tkip_decrypt_data_key:
  assumes "ieee80211_tkip_decrypt_data x local k buf payload payload_len ta only_iv q
      = (res, k', ev, buf', out)"
    and "q < length (tk_rx (u_tkip k))"
  shows "conf k' = conf k"
    and "rx_iv32 (tk_rx (u_tkip k') ! q) = rx_iv32 (tk_rx (u_tkip k) ! q)"
    and "rx_iv16 (tk_rx (u_tkip k') ! q) = rx_iv16 (tk_rx (u_tkip k) ! q)"
    and "length (tk_rx (u_tkip k')) = length (tk_rx (u_tkip k))"
    and "res = 0 \<Longrightarrow> ctx_state (rx_ctx (tk_rx (u_tkip k') ! q)) \<noteq> TKIP_STATE_NOT_INIT"
    and "res = 0 \<Longrightarrow> out = Some (get_unaligned_le32 buf (payload + 4),
      push_bit 8 (ucast (buf ! payload)) OR ucast (buf ! (payload + 2))) \<and> 12 \<le> payload_len \<and>
      \<not> tkip_is_replay (tk_rx (u_tkip k) ! q) (get_unaligned_le32 buf (payload + 4))
          (push_bit 8 (ucast (buf ! payload)) OR ucast (buf ! (payload + 2)))"
    and "length buf' = length buf \<or> res = 0 \<or> res = - 1"
proof -
  obtain rxc ev0 where p1: "tkip_rx_p1k x local k (tk_rx (u_tkip k) ! q) ta
      (get_unaligned_le32 buf (payload + 4)) = (rxc, ev0)"
    by (metis surj_pair)
  have f: "rx_iv32 rxc = rx_iv32 (tk_rx (u_tkip k) ! q)" "rx_iv16 rxc = rx_iv16 (tk_rx (u_tkip k) ! q)"
      "ctx_state (rx_ctx rxc) \<noteq> TKIP_STATE_NOT_INIT"
    using tkip_rx_p1k_fields [of x local k "tk_rx (u_tkip k) ! q" ta "get_unaligned_le32 buf (payload + 4)"] p1
    by simp_all
  note d = assms(1) [unfolded ieee80211_tkip_decrypt_data_def Let_def p1 prod.case]
  show "conf k' = conf k"
    and "rx_iv32 (tk_rx (u_tkip k') ! q) = rx_iv32 (tk_rx (u_tkip k) ! q)"
    and "rx_iv16 (tk_rx (u_tkip k') ! q) = rx_iv16 (tk_rx (u_tkip k) ! q)"
    and "length (tk_rx (u_tkip k')) = length (tk_rx (u_tkip k))"
    using d assms(2) f by (auto split: if_splits prod.splits)
  show "res = 0 \<Longrightarrow> ctx_state (rx_ctx (tk_rx (u_tkip k') ! q)) \<noteq> TKIP_STATE_NOT_INIT"
    and "res = 0 \<Longrightarrow> out = Some (get_unaligned_le32 buf (payload + 4),
      push_bit 8 (ucast (buf ! payload)) OR ucast (buf ! (payload + 2))) \<and> 12 \<le> payload_len \<and>
      \<not> tkip_is_replay (tk_rx (u_tkip k) ! q) (get_unaligned_le32 buf (payload + 4))
          (push_bit 8 (ucast (buf ! payload)) OR ucast (buf ! (payload + 2)))"
    using d assms(2) f by (auto split: if_splits prod.splits)
  show "length buf' = length buf \<or> res = 0 \<or> res = - 1"
    using d by (auto simp: ieee80211_wep_decrypt_data_def Let_def split: if_splits prod.splits)
qed

subsection \<open>A frame through encryption and decryption\<close>

lemma tkip_get_p2k_layout:
  assumes "tkip_tx_ok x k" "length hdr = x_hdrlen x (frame_control hdr)" "2 \<le> length hdr"
    and "0 \<le> kc_keyidx (conf k)" "kc_keyidx (conf k) < 4"
  shows "\<exists>k'. ieee80211_get_tkip_p2k x k (hdr @ ieee80211_tkip_add_iv (conf k) pn @ r) =
      (k', tkip_rc4_key (tkip_tk x (conf k)) (key_vif_addr k) (TKIP_PN_TO_IV32 pn) (TKIP_PN_TO_IV16 pn)) \<and>
    k' = ieee80211_compute_tkip_p1k x k (TKIP_PN_TO_IV32 pn)"
proof -
  let ?iv = "ieee80211_tkip_add_iv (conf k) pn"
  have dat: "drop (x_hdrlen x (frame_control (hdr @ ?iv @ r))) (hdr @ ?iv @ r) = ?iv @ r"
    using assms(2,3) by (simp add: frame_control_cong)
  have iv32: "get_unaligned_le32 (?iv @ r) 4 = TKIP_PN_TO_IV32 pn"
    using tkip_add_iv_fields(2) [OF assms(4,5)] by (simp add: get_unaligned_le32_def nth_append)
  have iv16: "ucast ((?iv @ r) ! 2) OR push_bit 8 (ucast ((?iv @ r) ! 0)) = TKIP_PN_TO_IV16 pn"
    using tkip_add_iv_fields(1) [OF assms(4,5), of pn] by (simp add: nth_append or.commute)
  show ?thesis
    unfolding ieee80211_get_tkip_p2k_def Let_def dat iv32 iv16
    using compute_tkip_p1k(1) [OF assms(1), of "TKIP_PN_TO_IV32 pn"] by (auto intro: tkip_rc4_keyI)
qed

lemma tkip_decrypt_data_layout:
  fixes x local k pn p hdr ta
  defines "iv32 \<equiv> TKIP_PN_TO_IV32 pn" and "iv16 \<equiv> TKIP_PN_TO_IV16 pn"
  assumes "arc4_lengths x" "arc4_inverse x"
    and "kc_keyidx kt = kc_keyidx (conf k)" "0 \<le> kc_keyidx kt" "kc_keyidx kt < 4"
    and "\<not> tkip_is_replay (tk_rx (u_tkip k) ! q) iv32 iv16"
    and "tkip_rx_ok x (conf k) ta (tk_rx (u_tkip k) ! q)"
    and "buf = hdr @ ieee80211_tkip_add_iv kt pn @
      x_arc4 x (tkip_rc4_key (tkip_tk x (conf k)) ta iv32 iv16) (p @ wep_icv x p)"
  shows "\<exists>k' ev. ieee80211_tkip_decrypt_data x local k buf (length hdr) (length p + 12) ta False q =
    (0, k', ev, hdr @ ieee80211_tkip_add_iv kt pn @ p @ wep_icv x p, Some (iv32, iv16)) \<and>
    k' = set_tkip_rx k q (fst (tkip_rx_p1k x local k (tk_rx (u_tkip k) ! q) ta iv32))"
proof -
  let ?iv = "ieee80211_tkip_add_iv kt pn" and ?h = "length hdr"
  define ky where "ky = tkip_rc4_key (tkip_tk x (conf k)) ta iv32 iv16"
  define c where "c = x_arc4 x ky (p @ wep_icv x p)"
  have la: "length (x_arc4 x k e) = length e" and inv: "x_arc4 x k (x_arc4 x k e) = e" for k e
    using assms(3,4) by (simp_all add: arc4_lengths_def arc4_inverse_def)
  have lc: "length c = length p + 4" by (simp add: c_def la)
  have buf: "buf = hdr @ ?iv @ c" using assms(10) by (simp add: c_def ky_def)
  note fl = tkip_add_iv_fields [OF assms(6,7), of pn]
  have b: "buf ! ?h = ?iv ! 0" "buf ! (?h + 2) = ?iv ! 2" "buf ! (?h + 3) = ?iv ! 3"
    by (simp_all add: buf nth_append)
  have b4: "get_unaligned_le32 buf (?h + 4) = iv32"
    using fl(2) by (simp add: buf get_unaligned_le32_def nth_append iv32_def)
  obtain rxc ev where p1: "tkip_rx_p1k x local k (tk_rx (u_tkip k) ! q) ta iv32 = (rxc, ev)"
    by (metis surj_pair)
  have k2: "tkip_mixing_phase2 (tkip_tk x (conf k)) (rx_ctx rxc) iv16 = ky"
    using tkip_rx_p1k_key [OF assms(9), of local iv32] p1 by (simp add: ky_def tkip_rc4_keyI)
  have dec: "ieee80211_wep_decrypt_data x ky buf (?h + 8) (length p) = (0, hdr @ ?iv @ p @ wep_icv x p)"
    using lc unfolding ieee80211_wep_decrypt_data_def Let_def buf append_assoc [symmetric]
    by (simp add: buf_simps c_def inv memcmp_zero_iff)
  show ?thesis
    unfolding ieee80211_tkip_decrypt_data_def Let_def b b4
    using fl(1,3,4) assms(5,8) p1 k2 dec by (simp add: iv16_def [symmetric])
qed

subsection \<open>Properties\<close>

text \<open>A frame passes TKIP decryption only if it is long enough to hold IV and ICV and its
  sequence counter is greater than the last verified one of its queue; the one exception is
  counter zero against a receive context that has never been used. The counter handed on is the
  one in the frame, and the stored counter is untouched until the Michael code is verified.\<close>

theorem tkip_decrypt_newer:
  assumes "ieee80211_tkip_decrypt_data x local k buf payload payload_len ta only_iv q
      = (0, k', ev, buf', out)"
    and "q < length (tk_rx (u_tkip k))"
    and "rxc = tk_rx (u_tkip k) ! q" "rxc' = tk_rx (u_tkip k') ! q"
  shows "\<exists>iv32 iv16. out = Some (iv32, iv16) \<and> 12 \<le> payload_len \<and>
    iv32 = get_unaligned_le32 buf (payload + 4) \<and>
    (tkip_tsc (rx_iv32 rxc) (rx_iv16 rxc) < tkip_tsc iv32 iv16 \<or>
     tkip_tsc iv32 iv16 = 0 \<and> tkip_tsc (rx_iv32 rxc) (rx_iv16 rxc) = 0 \<and>
       ctx_state (rx_ctx rxc) = TKIP_STATE_NOT_INIT) \<and>
    tkip_tsc (rx_iv32 rxc') (rx_iv16 rxc') = tkip_tsc (rx_iv32 rxc) (rx_iv16 rxc) \<and>
    ctx_state (rx_ctx rxc') \<noteq> TKIP_STATE_NOT_INIT"
  using tkip_decrypt_data_key [OF assms(1,2)] unfolding assms(3,4) tkip_is_replay_iff
  by auto

definition ex_tkip_frame :: "u8 list" where
  "ex_tkip_frame = ex_hdr @ [0, 0x20, 9, 0x60, 5, 0, 0, 0] @ [1, 2, 3, 4, 5, 6]"

lemma tkip_decrypt_newer_witness:
  defines "k \<equiv> ex_key WLAN_CIPHER_SUITE_TKIP 32"
  shows "case ieee80211_tkip_decrypt_data ex_extern ex_local k ex_tkip_frame 24 14 (replicate 6 4) True 0 of
    (r, k', ev, buf', out) \<Rightarrow> \<exists>iv32 iv16. out = Some (iv32, iv16) \<and>
      0 < tkip_tsc iv32 iv16 \<and> ctx_state (rx_ctx (tk_rx (u_tkip k') ! 0)) \<noteq> TKIP_STATE_NOT_INIT"
proof -
  obtain r k' ev buf' out where d: "ieee80211_tkip_decrypt_data ex_extern ex_local k ex_tkip_frame 24 14
      (replicate 6 4) True 0 = (r, k', ev, buf', out)"
    using prod_cases5 by blast
  have "fst (ieee80211_tkip_decrypt_data ex_extern ex_local k ex_tkip_frame 24 14 (replicate 6 4) True 0) = 0"
    unfolding k_def by code_simp
  then have r: "r = 0" using d by simp
  have q: "0 < length (tk_rx (u_tkip k))" by (simp add: k_def ex_key_def ex_tkip_def)
  have "tkip_tsc 5 0 \<le> tkip_tsc (get_unaligned_le32 ex_tkip_frame (24 + 4)) iv16" for iv16
  proof -
    have "get_unaligned_le32 ex_tkip_frame (24 + 4) = 5" by code_simp
    then show ?thesis by (simp add: tkip_tsc_def)
  qed
  moreover have "0 < tkip_tsc 5 0" by (simp add: tkip_tsc_def)
  ultimately have "0 < tkip_tsc (get_unaligned_le32 ex_tkip_frame (24 + 4)) iv16" for iv16
    by (metis less_le_trans)
  then show ?thesis
    using tkip_decrypt_newer [OF d [unfolded r] q refl refl] d by auto
qed

text \<open>A frame that names another IV32 and fails its ICV check still replaces the cached
  phase-1 key, while the stored IV32 stays: the next frame under the stored IV32 is decrypted
  with the phase-1 key of the rejected frame, whatever its own address and counter.\<close>

theorem tkip_bad_frame_p1k_reused:
  assumes "ieee80211_tkip_decrypt_data x local k buf payload payload_len ta False q
      = (- 1, k', ev, buf', out)"
    and "12 \<le> payload_len" "has_flag (buf ! (payload + 3)) (push_bit 5 1)"
    and "q < length (tk_rx (u_tkip k))"
    and "iv32 = get_unaligned_le32 buf (payload + 4)" "rxc = tk_rx (u_tkip k) ! q"
    and "iv32 \<noteq> rx_iv32 rxc"
  shows "ctx_p1k (rx_ctx (fst (tkip_rx_p1k x local' k' (tk_rx (u_tkip k') ! q) ta' (rx_iv32 rxc))))
    = tkip_phase1 (tkip_tk x (conf k)) ta iv32"
proof -
  obtain rxc' ev0 where p1: "tkip_rx_p1k x local k rxc ta iv32 = (rxc', ev0)"
    by (metis surj_pair)
  have f: "rx_iv32 rxc' = rx_iv32 rxc" "ctx_state (rx_ctx rxc') \<noteq> TKIP_STATE_NOT_INIT"
    using tkip_rx_p1k_fields [of x local k rxc ta iv32] p1 by simp_all
  have key: "ctx_p1k (rx_ctx rxc') = tkip_phase1 (tkip_tk x (conf k)) ta iv32"
    using p1 assms(7) by (auto simp: tkip_rx_p1k_def Let_def tkip_mixing_phase1_def split: if_splits)
  have k': "k' = set_tkip_rx k q rxc'"
    using assms(1-3,7) p1 unfolding ieee80211_tkip_decrypt_data_def Let_def assms(5,6) [symmetric]
    by (auto split: if_splits prod.splits)
  show ?thesis
    using f key assms(4) unfolding k' by (auto simp: tkip_rx_p1k_def Let_def)
qed

lemma tkip_bad_frame_p1k_reused_witness:
  defines "k \<equiv> ex_key WLAN_CIPHER_SUITE_TKIP 32"
  shows "case ieee80211_tkip_decrypt_data ex_extern ex_local k ex_tkip_frame 24 14 (replicate 6 4) False 0 of
    (r, k', ev, buf', out) \<Rightarrow>
      ctx_p1k (rx_ctx (fst (tkip_rx_p1k ex_extern ex_local k' (tk_rx (u_tkip k') ! 0) (replicate 6 8) 0)))
        = tkip_phase1 (tkip_tk ex_extern (conf k)) (replicate 6 4) 5"
proof -
  obtain r k' ev buf' out where d: "ieee80211_tkip_decrypt_data ex_extern ex_local k ex_tkip_frame 24 14
      (replicate 6 4) False 0 = (r, k', ev, buf', out)"
    using prod_cases5 by blast
  have "fst (ieee80211_tkip_decrypt_data ex_extern ex_local k ex_tkip_frame 24 14 (replicate 6 4) False 0) = - 1"
    unfolding k_def by code_simp
  then have r: "r = - 1" using d by simp
  have "ctx_p1k (rx_ctx (fst (tkip_rx_p1k ex_extern ex_local k' (tk_rx (u_tkip k') ! 0) (replicate 6 8)
      (rx_iv32 \<lparr>rx_ctx = ex_tkip_ctx, rx_iv32 = 0, rx_iv16 = 0\<rparr>))))
        = tkip_phase1 (tkip_tk ex_extern (conf k)) (replicate 6 4) 5"
    by (rule tkip_bad_frame_p1k_reused [OF d [unfolded r]])
      (simp, code_simp, simp add: k_def ex_key_def ex_tkip_def, code_simp,
        simp add: k_def ex_key_def ex_tkip_def, simp)
  then show ?thesis using d by simp
qed

end
