(* ===== verification/Michael.thy ===== *)
theory Michael
  imports Ieee80211
begin

text \<open>
  The Michael message integrity code of TKIP, \<^verbatim>\<open>mac80211/michael.c\<close>: the block function,
  the pseudo header, and the code itself over a frame's payload. The lemmas show that the
  block loop and the partial-block loop compute the code of the standard (one fold over the
  little-endian words of header, data and padding), that the block function is a bijection
  of the state, and hence that a change confined to one word of the data changes the code.
\<close>

record michael_mic_ctx =
  mctx_l :: u32
  mctx_r :: u32

definition michael_block :: "michael_mic_ctx \<Rightarrow> u32 \<Rightarrow> michael_mic_ctx" where
  "michael_block mctx val =
     (let l = mctx_l mctx XOR val;
          r = mctx_r mctx XOR rol32 l 17;
          l = l + r;
          r = r XOR (drop_bit 8 (l AND 0xff00ff00) OR push_bit 8 (l AND 0x00ff00ff));
          l = l + r;
          r = r XOR rol32 l 3;
          l = l + r;
          r = r XOR ror32 l 2;
          l = l + r
      in \<lparr>mctx_l = l, mctx_r = r\<rparr>)"

definition michael_mic_hdr :: "u8 list \<Rightarrow> u8 list \<Rightarrow> michael_mic_ctx" where
  "michael_mic_hdr key hdr =
     (let da = ieee80211_get_DA hdr;
          sa = ieee80211_get_SA hdr;
          tid = (if ieee80211_is_data_qos (frame_control hdr) then ieee80211_get_tid hdr else 0);
          mctx = \<lparr>mctx_l = get_unaligned_le32 key 0, mctx_r = get_unaligned_le32 key 4\<rparr>;
          mctx = michael_block mctx (get_unaligned_le32 da 0);
          mctx = michael_block mctx
            (ucast (get_unaligned_le16 da 4) OR push_bit 16 (ucast (get_unaligned_le16 sa 0)));
          mctx = michael_block mctx (get_unaligned_le32 sa 2)
      in michael_block mctx (ucast tid))"

text \<open>The loop over the one to three octets left after the last whole block.\<close>

fun michael_left :: "u8 list \<Rightarrow> nat \<Rightarrow> u32 \<Rightarrow> nat \<Rightarrow> u32" where
  "michael_left data base val 0 = val"
| "michael_left data base val (Suc left) =
     michael_left data base (push_bit 8 val OR ucast (data ! (base + left))) left"

definition michael_mic_ctx_of :: "u8 list \<Rightarrow> u8 list \<Rightarrow> u8 list \<Rightarrow> michael_mic_ctx" where
  "michael_mic_ctx_of key hdr data =
     (let mctx = michael_mic_hdr key hdr;
          blocks = length data div 4;
          left = length data mod 4;
          mctx = foldl (\<lambda>m block. michael_block m (get_unaligned_le32 data (block * 4))) mctx
                   [0..<blocks];
          val = michael_left data (blocks * 4) 0x5a left;
          mctx = michael_block mctx val
      in michael_block mctx 0)"

definition michael_mic :: "u8 list \<Rightarrow> u8 list \<Rightarrow> u8 list \<Rightarrow> u8 list" where
  "michael_mic key hdr data =
     (let mctx = michael_mic_ctx_of key hdr data
      in le32_bytes (mctx_l mctx) @ le32_bytes (mctx_r mctx))"

lemma length_michael_mic [simp]: "length (michael_mic key hdr data) = 8"
  by (simp add: michael_mic_def Let_def)

subsection \<open>The reference: a fold over little-endian words\<close>

fun le_words :: "u8 list \<Rightarrow> u32 list" where
  "le_words (a # b # c # d # rest) = get_unaligned_le32 [a, b, c, d] 0 # le_words rest"
| "le_words _ = []"

definition michael_pad :: "nat \<Rightarrow> u8 list" where
  "michael_pad n = 0x5a # replicate (7 - n mod 4) 0"

definition michael_pseudo_hdr :: "u8 list \<Rightarrow> u8 list" where
  "michael_pseudo_hdr hdr =
     ieee80211_get_DA hdr @ ieee80211_get_SA hdr @
     [if ieee80211_is_data_qos (frame_control hdr) then ieee80211_get_tid hdr else 0, 0, 0, 0]"

definition michael_ref :: "u8 list \<Rightarrow> u8 list \<Rightarrow> michael_mic_ctx" where
  "michael_ref key msg =
     foldl michael_block \<lparr>mctx_l = get_unaligned_le32 key 0, mctx_r = get_unaligned_le32 key 4\<rparr>
       (le_words msg)"

lemma le_words_append:
  "length xs mod 4 = 0 \<Longrightarrow> le_words (xs @ ys) = le_words xs @ le_words ys"
  by (induction xs rule: le_words.induct)
    (simp_all add: numeral_2_eq_2 [symmetric] numeral_3_eq_3 [symmetric])

lemma get_le32_drop: "get_unaligned_le32 data off = get_unaligned_le32 (drop off data) 0"
  if "off + 4 \<le> length data"
  using that by (simp add: get_unaligned_le32_def)

lemma le_words_upt:
  "length data = 4 * n \<Longrightarrow>
   le_words data = map (\<lambda>block. get_unaligned_le32 data (block * 4)) [0..<n]"
proof (induction data arbitrary: n rule: le_words.induct)
  case (1 a b c d rest)
  then obtain m where n: "n = Suc m" and m: "length rest = 4 * m" by (cases n) auto
  have "map (\<lambda>block. get_unaligned_le32 (a # b # c # d # rest) (block * 4)) [0..<Suc m]
      = get_unaligned_le32 [a, b, c, d] 0 #
        map (\<lambda>block. get_unaligned_le32 (a # b # c # d # rest) (Suc block * 4)) [0..<m]"
    by (simp only: map_upt_Suc) (simp add: get_unaligned_le32_def)
  also have "map (\<lambda>block. get_unaligned_le32 (a # b # c # d # rest) (Suc block * 4)) [0..<m]
      = map (\<lambda>block. get_unaligned_le32 rest (block * 4)) [0..<m]"
    by (simp add: get_unaligned_le32_def add.commute)
  finally show ?case using 1 m n by simp
qed (simp, (drule arg_cong [where f = "\<lambda>m. m mod 4"], simp)+)

text \<open>The four-octet block that the partial-block loop builds.\<close>

lemma michael_pad_cases:
  "michael_pad 0 = [0x5a, 0, 0, 0, 0, 0, 0, 0]"
  "michael_pad 1 = [0x5a, 0, 0, 0, 0, 0, 0]"
  "michael_pad 2 = [0x5a, 0, 0, 0, 0, 0]"
  "michael_pad 3 = [0x5a, 0, 0, 0, 0]"
  by code_simp+

lemma michael_left_cases:
  "michael_left data base v 1 = push_bit 8 v OR ucast (data ! base)"
  "michael_left data base v 2 =
     push_bit 8 (push_bit 8 v OR ucast (data ! (base + 1))) OR ucast (data ! base)"
  "michael_left data base v 3 =
     push_bit 8 (push_bit 8 (push_bit 8 v OR ucast (data ! (base + 2)))
       OR ucast (data ! (base + 1))) OR ucast (data ! base)"
  by (simp_all only: One_nat_def numeral_2_eq_2 numeral_3_eq_3 michael_left.simps add_Suc_right
      add_0_right)

lemma michael_left_word:
  assumes "left < 4" and "base + left = length data"
  shows "[michael_left data base 0x5a left, 0] =
    le_words (drop base data @ michael_pad left)"
proof -
  have d: "length (drop base data) = left" using assms(2) by simp
  have i: "data ! (base + i) = drop base data ! i" if "i < left" for i
    using that assms(2) by simp
  consider "left = 0" | "left = 1" | "left = 2" | "left = 3" using assms(1) by linarith
  then show ?thesis
  proof cases
    case 1
    with d show ?thesis
      by (simp add: michael_pad_cases get_unaligned_le32_def)
  next
    case 2
    with d obtain a where a: "drop base data = [a]" by (cases "drop base data") auto
    with 2 i [of 0] show ?thesis
      by (simp add: michael_pad_cases michael_left_cases get_unaligned_le32_def or.commute
          del: One_nat_def)
  next
    case 3
    with d obtain a b where ab: "drop base data = [a, b]"
      by (cases "drop base data"; cases "tl (drop base data)") auto
    with 3 i [of 0] i [of 1] show ?thesis
      by (simp add: michael_pad_cases michael_left_cases get_unaligned_le32_def push_bit_or
          or.assoc or.commute or.left_commute)
  next
    case 4
    with d obtain a b c where abc: "drop base data = [a, b, c]"
      by (cases "drop base data"; cases "tl (drop base data)"; cases "tl (tl (drop base data))") auto
    with 4 i [of 0] i [of 1] i [of 2] show ?thesis
      by (simp add: michael_pad_cases michael_left_cases get_unaligned_le32_def push_bit_or
          or.assoc or.commute or.left_commute)
  qed
qed

lemma michael_hdr_ref:
  assumes "length (ieee80211_get_DA hdr) = 6" and "length (ieee80211_get_SA hdr) = 6"
  shows "michael_mic_hdr key hdr = michael_ref key (michael_pseudo_hdr hdr)"
proof -
  obtain d0 d1 d2 d3 d4 d5 where da: "ieee80211_get_DA hdr = [d0, d1, d2, d3, d4, d5]"
    using assms(1) by (auto simp: length_Suc_conv eval_nat_numeral)
  obtain s0 s1 s2 s3 s4 s5 where sa: "ieee80211_get_SA hdr = [s0, s1, s2, s3, s4, s5]"
    using assms(2) by (auto simp: length_Suc_conv eval_nat_numeral)
  have mid: "ucast (get_unaligned_le16 [d0, d1, d2, d3, d4, d5] 4) OR
      push_bit 16 (ucast (get_unaligned_le16 [s0, s1, s2, s3, s4, s5] 0)) =
      get_unaligned_le32 [d4, d5, s0, s1] 0"
    unfolding get_unaligned_le16_def get_unaligned_le32_def
    by (rule bit_word_eqI) (auto simp: bit_simps bit_u8_ge)
  show ?thesis
    unfolding michael_mic_hdr_def michael_ref_def michael_pseudo_hdr_def da sa Let_def mid
    by (simp add: get_unaligned_le32_def)
qed

text \<open>
  The optimised routine computes the reference over pseudo header, data and padding.
\<close>

lemma michael_ctx_ref:
  assumes "length (ieee80211_get_DA hdr) = 6" and "length (ieee80211_get_SA hdr) = 6"
  shows "michael_mic_ctx_of key hdr data =
    michael_ref key (michael_pseudo_hdr hdr @ data @ michael_pad (length data))"
proof -
  let ?b = "length data div 4" and ?l = "length data mod 4"
  let ?pre = "take (?b * 4) data"
  have len: "length ?pre = 4 * ?b" by simp
  have hdr: "length (michael_pseudo_hdr hdr) mod 4 = 0"
    using assms by (simp add: michael_pseudo_hdr_def)
  have pad: "michael_pad (length data) = michael_pad ?l"
    by (simp add: michael_pad_def)
  have "le_words (data @ michael_pad (length data)) =
      le_words (?pre @ drop (?b * 4) data @ michael_pad ?l)"
    by (simp only: pad append_take_drop_id append.assoc [symmetric])
  also have "\<dots> = le_words ?pre @ [michael_left data (?b * 4) 0x5a ?l, 0]"
    using len michael_left_word [of ?l "?b * 4" data] by (simp add: le_words_append)
  finally have w: "le_words (data @ michael_pad (length data)) =
      le_words ?pre @ [michael_left data (?b * 4) 0x5a ?l, 0]" .
  have "le_words ?pre = map (\<lambda>block. get_unaligned_le32 ?pre (block * 4)) [0..<?b]"
    using len by (rule le_words_upt)
  also have "\<dots> = map (\<lambda>block. get_unaligned_le32 data (block * 4)) [0..<?b]"
    by (rule map_cong) (auto simp: get_unaligned_le32_def)
  finally have p: "le_words ?pre = map (\<lambda>block. get_unaligned_le32 data (block * 4)) [0..<?b]" .
  show ?thesis
    unfolding michael_mic_ctx_of_def Let_def michael_hdr_ref [OF assms] michael_ref_def
    by (simp add: le_words_append [OF hdr] w p foldl_map)
qed

subsection \<open>The block function is a bijection\<close>

definition michael_unblock :: "michael_mic_ctx \<Rightarrow> u32 \<Rightarrow> michael_mic_ctx" where
  "michael_unblock mctx val =
     (let r = mctx_r mctx;
          l = mctx_l mctx - r;
          r = r XOR ror32 l 2;
          l = l - r;
          r = r XOR rol32 l 3;
          l = l - r;
          r = r XOR (drop_bit 8 (l AND 0xff00ff00) OR push_bit 8 (l AND 0x00ff00ff));
          l = l - r;
          r = r XOR rol32 l 17
      in \<lparr>mctx_l = l XOR val, mctx_r = r\<rparr>)"

lemma xor_cancel: "(a XOR b) XOR b = (a :: 'a::len word)"
  by (simp add: xor.assoc)

lemma michael_unblock_block: "michael_unblock (michael_block mctx val) val = mctx"
  by (cases mctx) (simp add: michael_unblock_def michael_block_def Let_def xor_cancel)

lemma michael_block_inject: "michael_block m v = michael_block m' v \<longleftrightarrow> m = m'"
  by (metis michael_unblock_block)

lemma michael_block_val_inject: "michael_block m u = michael_block m v \<longleftrightarrow> u = v"
proof
  assume "michael_block m u = michael_block m v"
  then have "michael_unblock (michael_block m u) 0 = michael_unblock (michael_block m v) 0"
    by simp
  then have "mctx_l m XOR u = mctx_l m XOR v"
    by (cases m) (simp add: michael_unblock_def michael_block_def Let_def xor_cancel)
  then show "u = v" by (metis xor.left_commute xor.right_neutral xor_self_eq)
qed simp

lemma foldl_michael_inject:
  "foldl michael_block m ws = foldl michael_block m' ws \<longleftrightarrow> m = m'"
  by (induction ws arbitrary: m m') (simp_all add: michael_block_inject)

lemma michael_ref_one_word:
  assumes "u \<noteq> v" and "le_words msg = pre @ u # post" and "le_words msg' = pre @ v # post"
  shows "michael_ref key msg \<noteq> michael_ref key msg'"
  using assms by (simp add: michael_ref_def foldl_michael_inject michael_block_val_inject)

lemma get_le32_inject:
  "get_unaligned_le32 [a, b, c, d] 0 = get_unaligned_le32 [a', b', c', d'] 0 \<longleftrightarrow>
   a = a' \<and> b = b' \<and> c = c' \<and> d = d'"
proof -
  have "le32_bytes (get_unaligned_le32 [a, b, c, d] 0) = [a, b, c, d]" for a b c d
    unfolding le32_bytes_def get_unaligned_le32_def list.inject
    by (intro conjI; (rule bit_word_eqI)?) (auto simp: bit_simps bit_u8_ge)
  then show ?thesis by (metis list.inject)
qed

lemma le32_bytes_inject: "le32_bytes x = le32_bytes y \<longleftrightarrow> x = y"
  by (metis append_Nil2 get_le32_bytes)

lemma michael_mic_inject:
  "michael_mic key hdr data = michael_mic key hdr' data' \<longleftrightarrow>
   michael_mic_ctx_of key hdr data = michael_mic_ctx_of key hdr' data'"
  by (auto simp: michael_mic_def Let_def le32_bytes_inject)

text \<open>
  Two payloads that agree but for the octets of one word (a whole one, or the partial one at
  the end) differ in exactly one word of the padded message.
\<close>

lemma le_words_one_change:
  assumes "length a mod 4 = 0" and "length w = length w'" and "w \<noteq> w'"
    and "length w = 4 \<or> length w < 4 \<and> b = []"
  shows "\<exists>pre post u v. u \<noteq> v \<and>
    le_words ((a @ w @ b) @ michael_pad (length (a @ w @ b))) = pre @ u # post \<and>
    le_words ((a @ w' @ b) @ michael_pad (length (a @ w' @ b))) = pre @ v # post"
proof -
  define n where "n = length (a @ w @ b)"
  define k where "k = 4 - length w"
  define x where "x = w @ take k (b @ michael_pad n)"
  define x' where "x' = w' @ take k (b @ michael_pad n)"
  define t where "t = drop k (b @ michael_pad n)"
  have "length (take k (b @ michael_pad n)) = k"
    using assms(4) by (auto simp: k_def michael_pad_def)
  then have x: "length x = 4" "length x' = 4" "x \<noteq> x'"
    using assms(2-4) by (auto simp: x_def x'_def k_def)
  have wx: "w @ b @ michael_pad n = x @ t" and wx': "w' @ b @ michael_pad n = x' @ t"
    by (simp_all only: x_def x'_def t_def append.assoc append_take_drop_id)
  obtain p q r s where px: "x = [p, q, r, s]" using x(1) by (auto simp: length_Suc_conv eval_nat_numeral)
  obtain p' q' r' s' where px': "x' = [p', q', r', s']"
    using x(2) by (auto simp: length_Suc_conv eval_nat_numeral)
  have "get_unaligned_le32 x 0 \<noteq> get_unaligned_le32 x' 0"
    using x(3) by (auto simp: px px' get_le32_inject)
  moreover have "le_words (a @ w @ b @ michael_pad n) = le_words a @ get_unaligned_le32 x 0 # le_words t"
    using assms(1) by (simp add: le_words_append wx px)
  moreover have "le_words (a @ w' @ b @ michael_pad n) = le_words a @ get_unaligned_le32 x' 0 # le_words t"
    using assms(1) by (simp add: le_words_append wx' px')
  moreover have "n = length (a @ w' @ b)" using assms(2) by (simp add: n_def)
  ultimately show ?thesis
    unfolding append.assoc n_def [symmetric] by (metis append.assoc)
qed

subsection \<open>Properties\<close>

text \<open>The published vector for the empty message under the zero key.\<close>

lemma michael_vector_empty:
  "michael_ref (replicate 8 0) (michael_pad 0) = \<lparr>mctx_l = 0x1c5c9282, mctx_r = 0xb830d1a1\<rparr>"
  by code_simp

text \<open>C35: on every frame whose header is present, the MIC computed block by block, with
  the partial last block assembled octet by octet, is the one the standard defines: the
  fold of the block function over the little-endian words of the pseudo header (DA, SA,
  priority, three zeros), the data, the octet 0x5a and four to seven zero octets.\<close>

theorem michael_mic_reference:
  assumes "hdr_present hdr"
  shows "michael_mic key hdr data =
    (let m = michael_ref key (michael_pseudo_hdr hdr @ data @ michael_pad (length data))
     in le32_bytes (mctx_l m) @ le32_bytes (mctx_r m))"
  using length_DA_SA [OF assms] by (simp add: michael_mic_def michael_ctx_ref)

lemma michael_mic_reference_witness:
  "hdr_present (replicate 24 0) \<and>
   michael_mic [1, 2, 3, 4, 5, 6, 7, 8] (replicate 24 0) [1, 2, 3, 4, 5] =
    (let m = michael_ref [1, 2, 3, 4, 5, 6, 7, 8]
       (michael_pseudo_hdr (replicate 24 0) @ [1, 2, 3, 4, 5] @ michael_pad (length [1, 2, 3, 4, 5 :: u8]))
     in le32_bytes (mctx_l m) @ le32_bytes (mctx_r m))"
proof -
  have h: "hdr_present (replicate 24 0)" by code_simp
  show ?thesis
    using h michael_mic_reference [OF h, of "[1, 2, 3, 4, 5, 6, 7, 8]" "[1, 2, 3, 4, 5]"] by blast
qed

text \<open>Changing the octets of one aligned word of the payload (or of the partial word at
  its end) in any way changes the MIC, whatever the key, the header and the rest of the
  payload.\<close>

theorem michael_mic_detects_word_change:
  assumes "hdr_present hdr"
    and "length a mod 4 = 0" and "length w = length w'" and "w \<noteq> w'"
    and "length w = 4 \<or> length w < 4 \<and> b = []"
  shows "michael_mic key hdr (a @ w @ b) \<noteq> michael_mic key hdr (a @ w' @ b)"
proof -
  obtain pre post u v where uv: "u \<noteq> v"
    and "le_words ((a @ w @ b) @ michael_pad (length (a @ w @ b))) = pre @ u # post"
    and "le_words ((a @ w' @ b) @ michael_pad (length (a @ w' @ b))) = pre @ v # post"
    using le_words_one_change [OF assms(2-5)] by blast
  moreover have "length (michael_pseudo_hdr hdr) mod 4 = 0"
    using length_DA_SA [OF assms(1)] by (simp add: michael_pseudo_hdr_def)
  ultimately have
    "le_words (michael_pseudo_hdr hdr @ (a @ w @ b) @ michael_pad (length (a @ w @ b))) =
       (le_words (michael_pseudo_hdr hdr) @ pre) @ u # post"
    "le_words (michael_pseudo_hdr hdr @ (a @ w' @ b) @ michael_pad (length (a @ w' @ b))) =
       (le_words (michael_pseudo_hdr hdr) @ pre) @ v # post"
    by (simp_all only: le_words_append append.assoc)
  from michael_ref_one_word [OF uv this] show ?thesis
    by (simp only: michael_mic_inject michael_ctx_ref [OF length_DA_SA [OF assms(1)]])
      blast
qed

lemma michael_mic_detects_word_change_witness:
  "michael_mic (replicate 8 0) (replicate 24 0) ([1, 2, 3, 4] @ [5, 6] @ []) \<noteq>
   michael_mic (replicate 8 0) (replicate 24 0) ([1, 2, 3, 4] @ [5, 7] @ [])"
  by (rule michael_mic_detects_word_change) (code_simp | simp)+

end
