(* ===== verification/Wpa_Tkip.thy ===== *)
theory Wpa_Tkip
  imports Tkip Michael
begin

text \<open>
  The TKIP handlers of \<^verbatim>\<open>mac80211/wpa.c\<close>: adding and verifying the Michael code of a frame,
  and its encryption and decryption. The lemmas show each pair to be inverse and a counter to be
  accepted once.
\<close>

definition MICHAEL_MIC_LEN :: nat where "MICHAEL_MIC_LEN = 8"
definition IEEE80211_TKIP_IV_LEN :: nat where "IEEE80211_TKIP_IV_LEN = 8"
definition IEEE80211_TKIP_ICV_LEN :: nat where "IEEE80211_TKIP_ICV_LEN = 4"

subsection \<open>The Michael code\<close>

definition ieee80211_tx_h_michael_mic_add ::
  "extern \<Rightarrow> ieee80211_local \<Rightarrow> ieee80211_key option \<Rightarrow> sk_buff \<Rightarrow> tx_result \<times> sk_buff" where
  "ieee80211_tx_h_michael_mic_add x local key skb =
     (case key of
        None \<Rightarrow> (TX_CONTINUE, skb)
      | Some k \<Rightarrow>
          (let hdr = skb_data skb; fc = frame_control hdr in
           if kc_cipher (conf k) \<noteq> WLAN_CIPHER_SUITE_TKIP \<or> skb_len skb < 24 \<or>
              \<not> ieee80211_is_data_present fc
           then (TX_CONTINUE, skb)
           else
             (let hdrlen = x_hdrlen x fc in
              if skb_len skb < hdrlen then (TX_DROP, skb)
              else
                (let data = drop hdrlen (skb_data skb);
                     mic_failure = has_flag (ti_flags (skb_tx skb)) IEEE80211_TX_INTFL_TKIP_MIC_FAILURE;
                     skb = (if mic_failure then skb\<lparr>skb_tx := (skb_tx skb)\<lparr>hw_key := None\<rparr>\<rparr> else skb);
                     hw = hw_key (skb_tx skb)
                 in if hw \<noteq> None \<and>
                       (has_flag (ti_flags (skb_tx skb)) IEEE80211_TX_CTL_DONTFRAG \<or> supports_tx_frag local) \<and>
                       \<not> has_flag (kc_flags (conf k))
                           (IEEE80211_KEY_FLAG_GENERATE_MMIC OR IEEE80211_KEY_FLAG_PUT_MIC_SPACE)
                    then (TX_CONTINUE, skb)
                    else
                      (let tail = (if hw = None then MICHAEL_MIC_LEN + IEEE80211_TKIP_ICV_LEN
                                   else MICHAEL_MIC_LEN)
                       in if skb_tailroom skb < tail \<or> skb_headroom skb < IEEE80211_TKIP_IV_LEN
                          then (TX_DROP, skb)
                          else
                            (let mic = skb_len skb; skb = skb_put MICHAEL_MIC_LEN skb in
                             if has_flag (kc_flags (conf k)) IEEE80211_KEY_FLAG_PUT_MIC_SPACE
                             then (TX_CONTINUE, skb_write mic (replicate MICHAEL_MIC_LEN 0) skb)
                             else
                               (let code = michael_mic (drop (x_tkip_tx_mic_key x) (kc_key (conf k))) hdr data;
                                    code = (if mic_failure then code[0 := code ! 0 + 1] else code)
                                in (TX_CONTINUE, skb_write mic code skb))))))))"

text \<open>The exits of the verification: a failure report, and the update of the replay counter.\<close>

definition mic_fail_no_key :: "ieee80211_rx_data \<Rightarrow> rx_result \<times> ieee80211_rx_data" where
  "mic_fail_no_key rx =
     (let hdr = skb_data (rx_skb rx)
      in (RX_DROP_U_MMIC_FAIL,
          rx\<lparr>rx_events := rx_events rx @
               [Michael_mic_failure (addr2 hdr) (is_multicast_ether_addr (addr1 hdr))
                  (case rx_key rx of Some k \<Rightarrow> kc_keyidx (conf k) | None \<Rightarrow> - 1)]\<rparr>))"

definition mic_fail :: "ieee80211_key \<Rightarrow> ieee80211_rx_data \<Rightarrow> rx_result \<times> ieee80211_rx_data" where
  "mic_fail k rx =
     mic_fail_no_key
       (rx\<lparr>rx_key := Some (k\<lparr>u_tkip := (u_tkip k)\<lparr>mic_failures := mic_failures (u_tkip k) + 1\<rparr>\<rparr>)\<rparr>)"

definition mic_update_iv :: "ieee80211_key \<Rightarrow> ieee80211_rx_data \<Rightarrow> rx_result \<times> ieee80211_rx_data" where
  "mic_update_iv k rx =
     (let q = security_idx rx;
          rxc = (tk_rx (u_tkip k) ! q)\<lparr>rx_iv32 := tkip_iv32 rx, rx_iv16 := tkip_iv16 rx\<rparr>
      in (RX_CONTINUE, rx\<lparr>rx_key := Some (set_tkip_rx k q rxc)\<rparr>))"

definition ieee80211_rx_h_michael_mic_verify ::
  "extern \<Rightarrow> ieee80211_rx_data \<Rightarrow> rx_result \<times> ieee80211_rx_data" where
  "ieee80211_rx_h_michael_mic_verify x rx =
     (let skb = rx_skb rx; hdr = skb_data skb; flag = rx_flag rx;
          tkip_key = (case rx_key rx of Some k \<Rightarrow>
                        if kc_cipher (conf k) = WLAN_CIPHER_SUITE_TKIP then Some k else None
                      | None \<Rightarrow> None)
      in if \<not> ieee80211_is_data_present (frame_control hdr) then (RX_CONTINUE, rx)
         else if has_flag flag (RX_FLAG_MMIC_STRIPPED OR RX_FLAG_IV_STRIPPED) then
           (if has_flag flag RX_FLAG_MMIC_ERROR then mic_fail_no_key rx
            else
              (case tkip_key of
                 Some k \<Rightarrow> if \<not> has_flag flag RX_FLAG_IV_STRIPPED then mic_update_iv k rx
                           else (RX_CONTINUE, rx)
               | None \<Rightarrow> (RX_CONTINUE, rx)))
         else
           (case tkip_key of
              None \<Rightarrow> (RX_CONTINUE, rx)
            | Some k \<Rightarrow>
                if \<not> has_flag flag RX_FLAG_DECRYPTED then (RX_CONTINUE, rx)
                else if rx_vif_type rx = IFTYPE_AP \<and> kc_keyidx (conf k) \<noteq> 0
                then (RX_DROP_U_AP_RX_GROUPCAST, rx)
                else if has_flag flag RX_FLAG_MMIC_ERROR then mic_fail k rx
                else
                  (let hdrlen = x_hdrlen x (frame_control hdr) in
                   if skb_len skb < hdrlen + MICHAEL_MIC_LEN then (RX_DROP_U_SHORT_MMIC, rx)
                   else if skb_linearize_fails skb then (RX_DROP_U_OOM, rx)
                   else
                     (let data_len = skb_len skb - hdrlen - MICHAEL_MIC_LEN;
                          mic = michael_mic (drop (x_tkip_rx_mic_key x) (kc_key (conf k))) hdr
                                  (mem_read hdr hdrlen data_len)
                      in if mic \<noteq> mem_read hdr (hdrlen + data_len) MICHAEL_MIC_LEN then mic_fail k rx
                         else mic_update_iv k
                                (rx\<lparr>rx_skb := skb_trim skb (skb_len skb - MICHAEL_MIC_LEN)\<rparr>)))))"

subsection \<open>Encryption and decryption\<close>

text \<open>
  The frame holds its header, so the payload length is not negative.
\<close>

definition tkip_encrypt_skb ::
  "extern \<Rightarrow> ieee80211_key \<Rightarrow> sk_buff \<Rightarrow> int \<times> ieee80211_key \<times> sk_buff" where
  "tkip_encrypt_skb x key skb =
     (let hw = hw_key (skb_tx skb);
          put_space = (case hw of Some fl \<Rightarrow> has_flag fl IEEE80211_KEY_FLAG_PUT_IV_SPACE | None \<Rightarrow> False)
      in if (case hw of None \<Rightarrow> False
             | Some fl \<Rightarrow> \<not> has_flag fl IEEE80211_KEY_FLAG_GENERATE_IV \<and>
                          \<not> has_flag fl IEEE80211_KEY_FLAG_PUT_IV_SPACE)
         then (0, key, skb)
         else
           (let hdrlen = x_hdrlen x (frame_control (skb_data skb));
                len = skb_len skb - hdrlen;
                tail = (if hw \<noteq> None then 0 else IEEE80211_TKIP_ICV_LEN)
            in if skb_tailroom skb < tail \<or> skb_headroom skb < IEEE80211_TKIP_IV_LEN then (- 1, key, skb)
               else
                 (let skb = skb_memmove 0 IEEE80211_TKIP_IV_LEN hdrlen (skb_push IEEE80211_TKIP_IV_LEN skb)
                  in if put_space then (0, key, skb)
                     else
                       (let key = inc_tx_pn key;
                            pn = kc_tx_pn (conf key);
                            skb = skb_write hdrlen (ieee80211_tkip_add_iv (conf key) pn) skb;
                            pos = hdrlen + 8
                        in if hw \<noteq> None then (0, key, skb)
                           else
                             ieee80211_tkip_encrypt_data x key (skb_put IEEE80211_TKIP_ICV_LEN skb) pos len))))"

definition ieee80211_crypto_tkip_encrypt ::
  "extern \<Rightarrow> ieee80211_key \<Rightarrow> sk_buff list \<Rightarrow> tx_result \<times> ieee80211_key \<times> sk_buff list" where
  "ieee80211_crypto_tkip_encrypt x key skbs =
     (case walk_skbs (tkip_encrypt_skb x) key (ieee80211_tx_set_protected skbs) of
        (ok, key, skbs) \<Rightarrow> (if ok then TX_CONTINUE else TX_DROP, key, skbs))"

definition ieee80211_crypto_tkip_decrypt ::
  "extern \<Rightarrow> ieee80211_key \<Rightarrow> ieee80211_rx_data \<Rightarrow> rx_result \<times> ieee80211_rx_data" where
  "ieee80211_crypto_tkip_decrypt x key rx =
     (let skb = rx_skb rx; fc = frame_control (skb_data skb); hdrlen = x_hdrlen x fc in
      if \<not> ieee80211_is_data fc then (RX_CONTINUE, rx)
      else
        (case rx_sta rx of
           None \<Rightarrow> (RX_DROP_U_SHORT_TKIP, rx)
         | Some sta_addr \<Rightarrow>
             if sub_u32 (skb_len skb) hdrlen < 12 then (RX_DROP_U_SHORT_TKIP, rx)
             else if skb_linearize_fails skb then (RX_DROP_U_OOM, rx)
             else
               (let hwaccel = has_flag (rx_flag rx) RX_FLAG_DECRYPTED in
                case ieee80211_tkip_decrypt_data x (rx_local rx) key (skb_data skb) hdrlen
                       (sub_u32 (skb_len skb) hdrlen) sta_addr hwaccel (security_idx rx) of
                  (res, key, ev, buf, out) \<Rightarrow>
                    (let skb = skb\<lparr>skb_data := buf\<rparr>;
                         rx = rx\<lparr>rx_key := Some key, rx_events := rx_events rx @ ev, rx_skb := skb,
                                 tkip_iv32 := (case out of Some (iv32, iv16) \<Rightarrow> iv32 | None \<Rightarrow> tkip_iv32 rx),
                                 tkip_iv16 := (case out of Some (iv32, iv16) \<Rightarrow> iv16 | None \<Rightarrow> tkip_iv16 rx)\<rparr>
                     in if res \<noteq> TKIP_DECRYPT_OK then (RX_DROP_U_TKIP_FAIL, rx)
                        else
                          (let skb = (if \<not> has_flag (rx_flag rx) RX_FLAG_ICV_STRIPPED
                                      then skb_trim skb (skb_len skb - IEEE80211_TKIP_ICV_LEN) else skb);
                               skb = skb_memmove IEEE80211_TKIP_IV_LEN 0 hdrlen skb;
                               skb = skb_pull IEEE80211_TKIP_IV_LEN skb
                           in (RX_CONTINUE, rx\<lparr>rx_skb := skb\<rparr>))))))"

lemma tkip_lens [simp]:
  "MICHAEL_MIC_LEN = 8" "IEEE80211_TKIP_IV_LEN = 8" "IEEE80211_TKIP_ICV_LEN = 4"
  by (simp_all add: MICHAEL_MIC_LEN_def IEEE80211_TKIP_IV_LEN_def IEEE80211_TKIP_ICV_LEN_def)

subsection \<open>Layout of an encrypted frame\<close>

lemma tkip_tk_inc [simp]: "tkip_tk x (conf (inc_tx_pn k)) = tkip_tk x (conf k)"
  by (simp add: tkip_tk_def)

lemma tkip_add_iv_inc [simp]: "ieee80211_tkip_add_iv (conf (inc_tx_pn k)) pn = ieee80211_tkip_add_iv (conf k) pn"
  by (simp add: ieee80211_tkip_add_iv_def)

lemma tkip_tx_ok_inc: "tkip_tx_ok x k \<Longrightarrow> tkip_tx_ok x (inc_tx_pn k)"
  by (simp add: tkip_tx_ok_def Let_def)

lemma tkip_encrypt_layout:
  fixes x :: extern and skb :: sk_buff and k :: ieee80211_key
  defines "d \<equiv> skb_data skb" and "pn \<equiv> kc_tx_pn (conf k) + 1"
  defines "h \<equiv> x_hdrlen x (frame_control d)"
  assumes "hw_key (skb_tx skb) = None" "8 \<le> skb_headroom skb" "4 \<le> skb_tailroom skb"
    and "2 \<le> h" "h \<le> length d" and "arc4_lengths x" "tkip_tx_ok x k"
    and "0 \<le> kc_keyidx (conf k)" "kc_keyidx (conf k) < 4"
  shows "\<exists>k' skb'. tkip_encrypt_skb x k skb = (0, k', skb') \<and>
    tkip_tx_ok x k' \<and> kc_tx_pn (conf k') = pn \<and>
    skb_data skb' = take h d @ ieee80211_tkip_add_iv (conf k) pn @
      x_arc4 x (tkip_rc4_key (tkip_tk x (conf k)) (key_vif_addr k) (TKIP_PN_TO_IV32 pn) (TKIP_PN_TO_IV16 pn))
        (drop h d @ wep_icv x (drop h d))"
proof -
  let ?iv = "ieee80211_tkip_add_iv (conf k) pn" and ?p = "drop h d" and ?k = "inc_tx_pn k"
  obtain gap where gap: "length gap = 8"
      "skb_data (skb_memmove 0 8 h (skb_push 8 skb)) = take h d @ gap @ ?p"
    using skb_push_move [OF assms(5)] assms(8) by (auto simp: d_def)
  define skb1 where "skb1 = skb_write h ?iv (skb_memmove 0 8 h (skb_push 8 skb))"
  have lh: "length (take h d) = h" using assms(8) by simp
  have d1: "skb_data skb1 = take h d @ ?iv @ ?p"
    using gap lh by (simp add: skb1_def buf_simps)
  have tr: "4 \<le> skb_tailroom skb1" using assms(6) by (simp add: skb1_def skb_tailroom_def)
  obtain fill where fill: "length fill = 4" "skb_data (skb_put 4 skb1) = take h d @ ?iv @ ?p @ fill"
    using skb_data_put [OF tr] d1 by auto
  have fc: "frame_control (take h d) = frame_control d"
    using frame_control_cong [of "take h d" ?p] assms(7,8) by simp
  define ky where "ky = tkip_rc4_key (tkip_tk x (conf k)) (key_vif_addr k) (TKIP_PN_TO_IV32 pn) (TKIP_PN_TO_IV16 pn)"
  define k' where "k' = ieee80211_compute_tkip_p1k x ?k (TKIP_PN_TO_IV32 pn)"
  have p2k: "ieee80211_get_tkip_p2k x ?k (take h d @ ?iv @ ?p @ fill) = (k', ky)"
    using tkip_get_p2k_layout [OF tkip_tx_ok_inc [OF assms(10)], of "take h d" pn "?p @ fill"]
      assms(7,8,11,12) lh fc by (simp add: h_def k'_def ky_def)
  have la: "length (x_arc4 x k e) = length e" for k e
    using assms(9) by (simp add: arc4_lengths_def)
  have enc: "ieee80211_wep_encrypt_data x ky (take h d @ ?iv @ ?p @ fill) (h + 8) (length d - h) =
      (0, take h d @ ?iv @ x_arc4 x ky (?p @ wep_icv x ?p))"
  proof -
    have lp: "length ?p = length d - h" by simp
    have "ieee80211_wep_encrypt_data x ky ((take h d @ ?iv) @ ?p @ fill) (h + 8) (length ?p) =
      (0, (take h d @ ?iv) @ x_arc4 x ky (?p @ wep_icv x ?p))"
      using fill(1) lh unfolding ieee80211_wep_encrypt_data_def Let_def
      by (simp add: buf_simps la del: length_drop append_assoc)
    then show ?thesis by simp
  qed
  have ss: "?iv = ieee80211_tkip_add_iv (conf ?k) (kc_tx_pn (conf ?k))"
    by (simp add: pn_def)
  have "tkip_encrypt_skb x k skb =
      (0, k', (skb_put 4 skb1)\<lparr>skb_data := take h d @ ?iv @ x_arc4 x ky (?p @ wep_icv x ?p)\<rparr>)"
    using assms(4-6) fill(2) p2k enc unfolding tkip_encrypt_skb_def ieee80211_tkip_encrypt_data_def
    by (simp add: Let_def d_def [symmetric] h_def [symmetric] pn_def [symmetric] skb1_def [symmetric])
  then show ?thesis
    using compute_tkip_p1k(2) [OF tkip_tx_ok_inc [OF assms(10)]]
    by - (rule exI, rule exI, rule conjI, assumption, simp add: k'_def ky_def pn_def)
qed

lemma tkip_decrypt_layout:
  fixes pn :: u64
  defines "iv32 \<equiv> TKIP_PN_TO_IV32 pn" and "iv16 \<equiv> TKIP_PN_TO_IV16 pn"
  assumes "arc4_lengths x" "arc4_inverse x"
    and "kc_keyidx kt = kc_keyidx (conf k)" "0 \<le> kc_keyidx kt" "kc_keyidx kt < 4"
    and "\<not> tkip_is_replay (tk_rx (u_tkip k) ! security_idx rx) iv32 iv16"
    and "tkip_rx_ok x (conf k) ta (tk_rx (u_tkip k) ! security_idx rx)"
    and "length hdr = h" "x_hdrlen x (frame_control hdr) = h" "2 \<le> h"
    and "ieee80211_is_data (frame_control hdr)" "h + length p + 12 < 2 ^ 32"
    and "skb_data (rx_skb rx) = hdr @ ieee80211_tkip_add_iv kt pn @
      x_arc4 x (tkip_rc4_key (tkip_tk x (conf k)) ta iv32 iv16) (p @ wep_icv x p)"
    and "rx_sta rx = Some ta" "\<not> has_flag (rx_flag rx) RX_FLAG_DECRYPTED"
    and "\<not> has_flag (rx_flag rx) RX_FLAG_ICV_STRIPPED" "\<not> skb_linearize_fails (rx_skb rx)"
  shows "\<exists>rx'. ieee80211_crypto_tkip_decrypt x k rx = (RX_CONTINUE, rx') \<and>
    skb_data (rx_skb rx') = hdr @ p \<and> tkip_iv32 rx' = iv32 \<and> tkip_iv16 rx' = iv16 \<and>
    security_idx rx' = security_idx rx"
proof -
  let ?iv = "ieee80211_tkip_add_iv kt pn" and ?d = "skb_data (rx_skb rx)"
  obtain k' ev where dec: "ieee80211_tkip_decrypt_data x (rx_local rx) k ?d h (length p + 12) ta False (security_idx rx) =
      (0, k', ev, hdr @ ?iv @ p @ wep_icv x p, Some (iv32, iv16))"
    using tkip_decrypt_data_layout [OF assms(3-9) [unfolded iv32_def iv16_def] assms(15) [unfolded iv32_def iv16_def],
        where local = "rx_local rx"] assms(10) iv32_def iv16_def by auto
  have "length (x_arc4 x k e) = length e" for k e
    using assms(3) by (simp add: arc4_lengths_def)
  then have len: "length ?d = h + length p + 12"
    using assms(10,15) by simp
  have fc: "frame_control ?d = frame_control hdr"
    using assms(10,12,15) by (simp add: frame_control_cong)
  have sub: "sub_u32 (length ?d) h = length p + 12"
    using assms(14) len by (simp add: sub_u32_eq)
  define b where "b = hdr @ ?iv @ p @ wep_icv x p"
  define skb1 where "skb1 = skb_trim ((rx_skb rx)\<lparr>skb_data := b\<rparr>) (length b - 4)"
  have d1: "skb_data skb1 = hdr @ ?iv @ p"
    using assms(10) by (simp add: skb1_def b_def skb_data_trim)
  have fin: "skb_data (skb_pull 8 (skb_memmove 8 0 h skb1)) = hdr @ p"
    using assms(10) d1 by (subst skb_data_pull_move) simp_all
  show ?thesis
    unfolding ieee80211_crypto_tkip_decrypt_def Let_def fc assms(11) sub
    using assms(13,16-19) fin dec [folded b_def]
    by (simp add: skb1_def [symmetric])
qed

subsection \<open>Properties\<close>

text \<open>A frame encrypted by the TKIP transmit handler and received unchanged under the same
  key, with a counter the receive context has not passed and a phase-1 key that belongs to it,
  passes the receive handler, which restores header and payload and hands on the counter; the
  transmit counter has advanced by one.\<close>

theorem tkip_roundtrip:
  assumes "arc4_lengths x" "arc4_inverse x"
    and "hw_key (skb_tx skb) = None" "8 \<le> skb_headroom skb" "4 \<le> skb_tailroom skb"
    and "0 \<le> kc_keyidx (conf k)" "kc_keyidx (conf k) < 4" "tkip_tx_ok x k"
    and "d = or_frame_control (skb_data skb) IEEE80211_FCTL_PROTECTED"
    and "2 \<le> x_hdrlen x (frame_control d)" "x_hdrlen x (frame_control d) \<le> length (skb_data skb)"
    and "ieee80211_is_data (frame_control d)" "length (skb_data skb) + 12 < 2 ^ 32"
    and "pn = kc_tx_pn (conf k) + 1"
    and "skb_data (rx_skb rx) = skb_data (hd (snd (snd (ieee80211_crypto_tkip_encrypt x k [skb]))))"
    and "rx_sta rx = Some (key_vif_addr k)" "\<not> has_flag (rx_flag rx) RX_FLAG_DECRYPTED"
    and "\<not> has_flag (rx_flag rx) RX_FLAG_ICV_STRIPPED" "\<not> skb_linearize_fails (rx_skb rx)"
    and "tkip_tk x (conf kr) = tkip_tk x (conf k)" "kc_keyidx (conf k) = kc_keyidx (conf kr)"
    and "\<not> tkip_is_replay (tk_rx (u_tkip kr) ! security_idx rx) (TKIP_PN_TO_IV32 pn) (TKIP_PN_TO_IV16 pn)"
    and "tkip_rx_ok x (conf kr) (key_vif_addr k) (tk_rx (u_tkip kr) ! security_idx rx)"
  shows "fst (ieee80211_crypto_tkip_encrypt x k [skb]) = TX_CONTINUE \<and>
    kc_tx_pn (conf (fst (snd (ieee80211_crypto_tkip_encrypt x k [skb])))) = pn \<and>
    (case ieee80211_crypto_tkip_decrypt x kr rx of (r, rx') \<Rightarrow>
       r = RX_CONTINUE \<and> skb_data (rx_skb rx') = d \<and>
       tkip_iv32 rx' = TKIP_PN_TO_IV32 pn \<and> tkip_iv16 rx' = TKIP_PN_TO_IV16 pn)"
proof -
  let ?h = "x_hdrlen x (frame_control d)" and ?s = "set_protected skb"
  have sp: "hw_key (skb_tx ?s) = None" "8 \<le> skb_headroom ?s" "4 \<le> skb_tailroom ?s" "skb_data ?s = d"
    using assms(3-5,9) by (simp_all add: set_protected_def skb_headroom_def skb_tailroom_def)
  have ld: "length d = length (skb_data skb)" using assms(9-11) by simp
  obtain k' skb' where enc: "tkip_encrypt_skb x k ?s = (0, k', skb')" "kc_tx_pn (conf k') = pn"
    and dat: "skb_data skb' = take ?h d @ ieee80211_tkip_add_iv (conf k) pn @
      x_arc4 x (tkip_rc4_key (tkip_tk x (conf k)) (key_vif_addr k) (TKIP_PN_TO_IV32 pn) (TKIP_PN_TO_IV16 pn))
        (drop ?h d @ wep_icv x (drop ?h d))"
    using tkip_encrypt_layout [of ?s x k] sp assms(1,6-8,10,11,14) ld by auto
  have tx: "ieee80211_crypto_tkip_encrypt x k [skb] = (TX_CONTINUE, k', [skb'])"
    using enc by (simp add: ieee80211_crypto_tkip_encrypt_def ieee80211_tx_set_protected_def)
  have fc: "frame_control (take ?h d) = frame_control d"
    using frame_control_cong [of "take ?h d" "drop ?h d"] assms(10,11) ld by simp
  obtain rx' where "ieee80211_crypto_tkip_decrypt x kr rx = (RX_CONTINUE, rx')"
      "skb_data (rx_skb rx') = take ?h d @ drop ?h d"
      "tkip_iv32 rx' = TKIP_PN_TO_IV32 pn" "tkip_iv16 rx' = TKIP_PN_TO_IV16 pn"
    using tkip_decrypt_layout [OF assms(1,2,21,6,7,22,23), of "take ?h d" ?h "drop ?h d"]
      assms(10-13,15-20) ld tx dat fc by auto
  then show ?thesis using tx enc(2) by simp
qed

lemma tkip_roundtrip_witness:
  "let k = ex_key WLAN_CIPHER_SUITE_TKIP 32; skb = ex_skb (ex_hdr @ [1, 2, 3]);
       rx = (ex_rx (skb_data (hd (snd (snd (ieee80211_crypto_tkip_encrypt ex_extern k [skb]))))) k)
              \<lparr>rx_sta := Some (replicate 6 2)\<rparr>
   in fst (ieee80211_crypto_tkip_encrypt ex_extern k [skb]) = TX_CONTINUE \<and>
      kc_tx_pn (conf (fst (snd (ieee80211_crypto_tkip_encrypt ex_extern k [skb])))) = 8 \<and>
      (case ieee80211_crypto_tkip_decrypt ex_extern k rx of (r, rx') \<Rightarrow>
         r = RX_CONTINUE \<and>
         skb_data (rx_skb rx') = or_frame_control (ex_hdr @ [1, 2, 3]) IEEE80211_FCTL_PROTECTED \<and>
         tkip_iv32 rx' = TKIP_PN_TO_IV32 8 \<and> tkip_iv16 rx' = TKIP_PN_TO_IV16 8)"
  unfolding Let_def
  by (rule tkip_roundtrip [where d = "or_frame_control (ex_hdr @ [1, 2, 3]) IEEE80211_FCTL_PROTECTED"])
    (((simp; fail) | (simp add: ex_defs tkip_tx_ok_def tkip_rx_ok_def; fail) | code_simp)+)

lemma michael_mic_protected:
  assumes "hdr_present hdr" "ieee80211_is_data_qos (frame_control hdr) \<longrightarrow> qos_ctl_off hdr < length hdr"
    and "take 8 key' = take 8 key" "8 \<le> length key" "8 \<le> length key'"
  shows "michael_mic key' (or_frame_control hdr IEEE80211_FCTL_PROTECTED) data = michael_mic key hdr data"
proof -
  have "key' ! i = key ! i" if "i < 8" for i
    using assms(3-5) that by (metis nth_take)
  then have k: "get_unaligned_le32 key' 0 = get_unaligned_le32 key 0"
      "get_unaligned_le32 key' 4 = get_unaligned_le32 key 4"
    by (simp_all add: get_unaligned_le32_def)
  have q: "ieee80211_is_data_qos (frame_control hdr) \<Longrightarrow>
      ieee80211_get_tid (or_frame_control hdr IEEE80211_FCTL_PROTECTED) = ieee80211_get_tid hdr"
    using assms(2) by (auto simp: ieee80211_get_tid_def ieee80211_get_qos_ctl_def qos_ctl_off_def
        nth_or_frame_control)
  have "michael_mic_hdr key' (or_frame_control hdr IEEE80211_FCTL_PROTECTED) = michael_mic_hdr key hdr"
    unfolding michael_mic_hdr_def addrs_or_frame_control [OF assms(1)] k using q by simp
  then show ?thesis by (simp add: michael_mic_def michael_mic_ctx_of_def)
qed

lemma mic_add_layout:
  fixes x :: extern and skb :: sk_buff and k :: ieee80211_key
  defines "d \<equiv> skb_data skb"
  defines "h \<equiv> x_hdrlen x (frame_control d)"
  assumes "kc_cipher (conf k) = WLAN_CIPHER_SUITE_TKIP" "24 \<le> length d"
    and "ieee80211_is_data_present (frame_control d)" "h \<le> length d"
    and "hw_key (skb_tx skb) = None" "12 \<le> skb_tailroom skb" "8 \<le> skb_headroom skb"
    and "\<not> has_flag (ti_flags (skb_tx skb)) IEEE80211_TX_INTFL_TKIP_MIC_FAILURE"
    and "\<not> has_flag (kc_flags (conf k)) IEEE80211_KEY_FLAG_PUT_MIC_SPACE"
  shows "\<exists>skb'. ieee80211_tx_h_michael_mic_add x local (Some k) skb = (TX_CONTINUE, skb') \<and>
    skb_data skb' = d @ michael_mic (drop (x_tkip_tx_mic_key x) (kc_key (conf k))) d (drop h d)"
proof -
  have tr: "8 \<le> skb_tailroom skb" using assms(8) by simp
  obtain fill where fill: "length fill = 8" "skb_data (skb_put 8 skb) = d @ fill"
    using skb_data_put [OF tr] by (auto simp: d_def)
  have "ieee80211_tx_h_michael_mic_add x local (Some k) skb = (TX_CONTINUE, skb_write (length d)
      (michael_mic (drop (x_tkip_tx_mic_key x) (kc_key (conf k))) d (drop h d)) (skb_put 8 skb))"
    using assms unfolding ieee80211_tx_h_michael_mic_add_def Let_def
    by (simp add: d_def [symmetric] h_def [symmetric])
  then show ?thesis using fill by (simp add: buf_simps)
qed

text \<open>The Michael code the transmit handler appends is the one the receive handler expects:
  the frame with the Protected bit set, received under a key with the same Michael key, is
  accepted, its code is removed, and the received counter becomes the stored one.\<close>

theorem michael_roundtrip:
  assumes "kc_cipher (conf k) = WLAN_CIPHER_SUITE_TKIP" "d = skb_data skb" "hdr_present d"
    and "ieee80211_is_data_present (frame_control d)"
    and "ieee80211_is_data_qos (frame_control d) \<longrightarrow> qos_ctl_off d < length d"
    and "x_hdrlen x (frame_control d) \<le> length d" "2 \<le> x_hdrlen x (frame_control d)"
    and "hw_key (skb_tx skb) = None" "12 \<le> skb_tailroom skb" "8 \<le> skb_headroom skb"
    and "\<not> has_flag (ti_flags (skb_tx skb)) IEEE80211_TX_INTFL_TKIP_MIC_FAILURE"
    and "\<not> has_flag (kc_flags (conf k)) IEEE80211_KEY_FLAG_PUT_MIC_SPACE"
    and "skb_data (rx_skb rx) = or_frame_control
           (skb_data (snd (ieee80211_tx_h_michael_mic_add x local (Some k) skb))) IEEE80211_FCTL_PROTECTED"
    and "x_hdrlen x (frame_control (skb_data (rx_skb rx))) = x_hdrlen x (frame_control d)"
    and "rx_key rx = Some kr" "kc_cipher (conf kr) = WLAN_CIPHER_SUITE_TKIP"
    and "has_flag (rx_flag rx) RX_FLAG_DECRYPTED" "\<not> has_flag (rx_flag rx) RX_FLAG_MMIC_ERROR"
    and "\<not> has_flag (rx_flag rx) (RX_FLAG_MMIC_STRIPPED OR RX_FLAG_IV_STRIPPED)"
    and "rx_vif_type rx \<noteq> IFTYPE_AP \<or> kc_keyidx (conf kr) = 0" "\<not> skb_linearize_fails (rx_skb rx)"
    and "tkey = drop (x_tkip_tx_mic_key x) (kc_key (conf k))"
    and "rkey = drop (x_tkip_rx_mic_key x) (kc_key (conf kr))"
    and "take 8 rkey = take 8 tkey" "8 \<le> length rkey" "8 \<le> length tkey"
  shows "fst (ieee80211_tx_h_michael_mic_add x local (Some k) skb) = TX_CONTINUE \<and>
    (case ieee80211_rx_h_michael_mic_verify x rx of (r, rx') \<Rightarrow>
       r = RX_CONTINUE \<and> skb_data (rx_skb rx') = or_frame_control d IEEE80211_FCTL_PROTECTED \<and>
       rx_key rx' = Some (set_tkip_rx kr (security_idx rx)
         ((tk_rx (u_tkip kr) ! security_idx rx)\<lparr>rx_iv32 := tkip_iv32 rx, rx_iv16 := tkip_iv16 rx\<rparr>)))"
proof -
  let ?d' = "or_frame_control d IEEE80211_FCTL_PROTECTED" and ?h = "x_hdrlen x (frame_control d)"
  define m where "m = michael_mic tkey d (drop ?h d)"
  have l2: "24 \<le> length d" using assms(3) by (simp add: hdr_present_def)
  obtain skb' where add: "ieee80211_tx_h_michael_mic_add x local (Some k) skb = (TX_CONTINUE, skb')"
      "skb_data skb' = d @ m"
    using mic_add_layout [of k skb x local] assms(1,2,4,6,8-12) l2
    by (auto simp: m_def assms(22))
  let ?r = "skb_data (rx_skb rx)"
  have rd: "?r = ?d' @ m" using assms(13) add l2 by (simp add: or_frame_control_append)
  have ld': "length ?d' = length d" and lm: "length m = 8" using l2 by (simp_all add: m_def)
  have fcr: "frame_control ?r = frame_control ?d'" using l2 ld' by (simp add: rd frame_control_cong)
  have pay: "mem_read ?r ?h (length d - ?h) = drop ?h d"
    using assms(6,7) l2 ld' by (simp add: rd buf_simps) (simp add: mem_read_def drop_or_frame_control)
  have mic: "michael_mic rkey ?r (drop ?h d) = m"
  proof -
    have "michael_mic rkey ?d' (drop ?h d) = m"
      unfolding m_def by (rule michael_mic_protected) (use assms(3,5,24-26) in auto)
    moreover have "michael_mic_hdr rkey ?r = michael_mic_hdr rkey ?d'"
      using assms(3,5) ld'
      by (auto simp: michael_mic_hdr_def rd frame_control_cong hdr_present_def ieee80211_get_DA_def
          ieee80211_get_SA_def addr1_def addr2_def addr3_def addr4_def ETH_ALEN_def buf_simps
          ieee80211_get_tid_def ieee80211_get_qos_ctl_def qos_ctl_off_def nth_append)
    ultimately show ?thesis by (simp add: michael_mic_def michael_mic_ctx_of_def)
  qed
  have tl: "mem_read ?r (length d) 8 = m"
    using ld' lm by (simp add: rd buf_simps)
  have ind: "ieee80211_is_data_present (frame_control ?r)"
    using assms(4) by (simp add: fcr)
  have tr: "skb_data (skb_trim (rx_skb rx) (length d)) = ?d'"
    using ld' by (simp add: skb_data_trim rd)
  have ap: "(rx_vif_type rx = IFTYPE_AP \<and> kc_keyidx (conf kr) \<noteq> 0) = False"
    using assms(20) by blast
  have lr: "length ?r = length d + 8" using ld' lm by (simp add: rd)
  have "ieee80211_rx_h_michael_mic_verify x rx =
      mic_update_iv kr (rx\<lparr>rx_skb := skb_trim (rx_skb rx) (length d)\<rparr>)"
    using assms(6,15-19,21) ap ind pay mic [unfolded assms(23)] tl lr
    unfolding ieee80211_rx_h_michael_mic_verify_def Let_def assms(14)
    by auto
  then show ?thesis
    using add(1) tr by (simp add: mic_update_iv_def Let_def)
qed

lemma michael_roundtrip_witness:
  "let k = ex_key WLAN_CIPHER_SUITE_TKIP 32; skb = ex_skb (ex_hdr @ [1, 2, 3]); x = ex_extern\<lparr>x_tkip_rx_mic_key := 16\<rparr>;
       rx = (ex_rx (or_frame_control (skb_data (snd (ieee80211_tx_h_michael_mic_add x ex_local (Some k) skb)))
              IEEE80211_FCTL_PROTECTED) k)\<lparr>tkip_iv32 := 3\<rparr>;
       rx = rx\<lparr>rx_skb := (rx_skb rx)\<lparr>skb_rx := \<lparr>rs_flag = RX_FLAG_DECRYPTED, rs_rx_flags = 0\<rparr>\<rparr>\<rparr>
   in fst (ieee80211_tx_h_michael_mic_add x ex_local (Some k) skb) = TX_CONTINUE \<and>
      (case ieee80211_rx_h_michael_mic_verify x rx of (r, rx') \<Rightarrow>
         r = RX_CONTINUE \<and>
         skb_data (rx_skb rx') = or_frame_control (ex_hdr @ [1, 2, 3]) IEEE80211_FCTL_PROTECTED \<and>
         rx_key rx' = Some (set_tkip_rx k (security_idx rx)
           ((tk_rx (u_tkip k) ! security_idx rx)\<lparr>rx_iv32 := tkip_iv32 rx, rx_iv16 := tkip_iv16 rx\<rparr>)))"
  unfolding Let_def
  by (rule michael_roundtrip [where d = "ex_hdr @ [1, 2, 3]" and
        tkey = "drop 16 (kc_key (conf (ex_key WLAN_CIPHER_SUITE_TKIP 32)))" and
        rkey = "drop 16 (kc_key (conf (ex_key WLAN_CIPHER_SUITE_TKIP 32)))"])
    (((simp; fail) | (simp add: ex_defs has_flag_def; fail) | code_simp)+)

text \<open>For a frame whose Michael code is checked in software, the check is exact: the frame
  is accepted if and only if its last eight octets are the code of its header and payload;
  otherwise it is dropped, the failure is counted and reported with the transmitter address and
  the key index, and the stored counters stay.\<close>

theorem michael_verify_exact:
  assumes "ieee80211_is_data_present (frame_control (skb_data (rx_skb rx)))"
    and "rx_key rx = Some k" "kc_cipher (conf k) = WLAN_CIPHER_SUITE_TKIP"
    and "has_flag (rx_flag rx) RX_FLAG_DECRYPTED" "\<not> has_flag (rx_flag rx) RX_FLAG_MMIC_ERROR"
    and "\<not> has_flag (rx_flag rx) (RX_FLAG_MMIC_STRIPPED OR RX_FLAG_IV_STRIPPED)"
    and "rx_vif_type rx \<noteq> IFTYPE_AP \<or> kc_keyidx (conf k) = 0" "\<not> skb_linearize_fails (rx_skb rx)"
    and "f = skb_data (rx_skb rx)" "h = x_hdrlen x (frame_control f)" "h + 8 \<le> length f"
  shows "case ieee80211_rx_h_michael_mic_verify x rx of (r, rx') \<Rightarrow>
    if drop (length f - 8) f =
         michael_mic (drop (x_tkip_rx_mic_key x) (kc_key (conf k))) f (take (length f - h - 8) (drop h f))
    then r = RX_CONTINUE \<and> skb_data (rx_skb rx') = take (length f - 8) f
    else r = RX_DROP_U_MMIC_FAIL \<and>
      rx_events rx' = rx_events rx @
        [Michael_mic_failure (addr2 f) (is_multicast_ether_addr (addr1 f)) (kc_keyidx (conf k))] \<and>
      (case rx_key rx' of None \<Rightarrow> False
       | Some k' \<Rightarrow> mic_failures (u_tkip k') = mic_failures (u_tkip k) + 1 \<and>
                   tk_rx (u_tkip k') = tk_rx (u_tkip k))"
proof -
  have tl: "mem_read f (length f - 8) 8 = drop (length f - 8) f"
    using assms(11) by (simp add: mem_read_def)
  have off: "h + (length f - h - 8) = length f - 8" using assms(11) by simp
  show ?thesis
    using assms(1-8,11)
    unfolding ieee80211_rx_h_michael_mic_verify_def Let_def assms(9) [symmetric] assms(10) [symmetric]
    by (auto simp: assms(9) [symmetric] off tl mem_read_def [of f h] mic_fail_def mic_fail_no_key_def
        mic_update_iv_def Let_def skb_data_trim)
qed

lemma michael_verify_exact_witness:
  "let k = ex_key WLAN_CIPHER_SUITE_TKIP 32; f = ex_hdr @ replicate 12 9;
       rx = ex_rx f k;
       rx = rx\<lparr>rx_skb := (rx_skb rx)\<lparr>skb_rx := \<lparr>rs_flag = RX_FLAG_DECRYPTED, rs_rx_flags = 0\<rparr>\<rparr>\<rparr>
   in case ieee80211_rx_h_michael_mic_verify ex_extern rx of (r, rx') \<Rightarrow>
    if drop (length f - 8) f =
         michael_mic (drop (x_tkip_rx_mic_key ex_extern) (kc_key (conf k))) f (take (length f - 24 - 8) (drop 24 f))
    then r = RX_CONTINUE \<and> skb_data (rx_skb rx') = take (length f - 8) f
    else r = RX_DROP_U_MMIC_FAIL \<and>
      rx_events rx' = rx_events rx @
        [Michael_mic_failure (addr2 f) (is_multicast_ether_addr (addr1 f)) (kc_keyidx (conf k))] \<and>
      (case rx_key rx' of None \<Rightarrow> False
       | Some k' \<Rightarrow> mic_failures (u_tkip k') = mic_failures (u_tkip k) + 1 \<and>
                   tk_rx (u_tkip k') = tk_rx (u_tkip k))"
  unfolding Let_def
  by (rule michael_verify_exact) (((simp; fail) | (simp add: ex_defs has_flag_def; fail) | code_simp)+)

text \<open>The counter in a frame, and what a frame that passes both handlers leaves behind.\<close>

definition tkip_frame_tsc :: "extern \<Rightarrow> u8 list \<Rightarrow> nat" where
  "tkip_frame_tsc x f =
     (let h = x_hdrlen x (frame_control f)
      in tkip_tsc (get_unaligned_le32 f (h + 4)) (push_bit 8 (ucast (f ! h)) OR ucast (f ! (h + 2))))"

definition tkip_stored_tsc :: "ieee80211_key \<Rightarrow> nat \<Rightarrow> nat" where
  "tkip_stored_tsc k q = tkip_tsc (rx_iv32 (tk_rx (u_tkip k) ! q)) (rx_iv16 (tk_rx (u_tkip k) ! q))"

lemma tkip_decrypt_continue:
  assumes "ieee80211_crypto_tkip_decrypt x k rx = (RX_CONTINUE, rx')"
    and "ieee80211_is_data (frame_control (skb_data (rx_skb rx)))"
    and "security_idx rx < length (tk_rx (u_tkip k))"
  shows "tkip_tsc (tkip_iv32 rx') (tkip_iv16 rx') = tkip_frame_tsc x (skb_data (rx_skb rx))"
    and "\<exists>k'. rx_key rx' = Some k' \<and> conf k' = conf k \<and>
      length (tk_rx (u_tkip k')) = length (tk_rx (u_tkip k)) \<and>
      ctx_state (rx_ctx (tk_rx (u_tkip k') ! security_idx rx)) \<noteq> TKIP_STATE_NOT_INIT"
    and "tkip_stored_tsc k (security_idx rx) < tkip_frame_tsc x (skb_data (rx_skb rx)) \<or>
      tkip_frame_tsc x (skb_data (rx_skb rx)) = 0 \<and>
      ctx_state (rx_ctx (tk_rx (u_tkip k) ! security_idx rx)) = TKIP_STATE_NOT_INIT"
proof -
  let ?f = "skb_data (rx_skb rx)" let ?h = "x_hdrlen x (frame_control ?f)"
  obtain sta where sta: "rx_sta rx = Some sta"
    using assms(1,2) by (cases "rx_sta rx") (auto simp: ieee80211_crypto_tkip_decrypt_def Let_def)
  obtain res k' ev buf out where dec: "ieee80211_tkip_decrypt_data x (rx_local rx) k ?f ?h
      (sub_u32 (length ?f) ?h) sta (has_flag (rx_flag rx) RX_FLAG_DECRYPTED) (security_idx rx) = (res, k', ev, buf, out)"
    using prod_cases5 by blast
  note u = assms(1) [unfolded ieee80211_crypto_tkip_decrypt_def Let_def sta option.case dec prod.case]
  have res: "res = 0" using u assms(2) by (auto split: if_splits)
  note d = tkip_decrypt_data_key [OF dec assms(3)]
  have rx': "tkip_iv32 rx' = get_unaligned_le32 ?f (?h + 4)"
      "tkip_iv16 rx' = push_bit 8 (ucast (?f ! ?h)) OR ucast (?f ! (?h + 2))" "rx_key rx' = Some k'"
    using u assms(2) res d(6) by (auto split: if_splits)
  show "tkip_tsc (tkip_iv32 rx') (tkip_iv16 rx') = tkip_frame_tsc x ?f"
    using rx' by (simp add: tkip_frame_tsc_def Let_def)
  show "\<exists>k'. rx_key rx' = Some k' \<and> conf k' = conf k \<and>
      length (tk_rx (u_tkip k')) = length (tk_rx (u_tkip k)) \<and>
      ctx_state (rx_ctx (tk_rx (u_tkip k') ! security_idx rx)) \<noteq> TKIP_STATE_NOT_INIT"
    using rx'(3) d(1,4,5) res by auto
  show "tkip_stored_tsc k (security_idx rx) < tkip_frame_tsc x ?f \<or> tkip_frame_tsc x ?f = 0 \<and>
      ctx_state (rx_ctx (tk_rx (u_tkip k) ! security_idx rx)) = TKIP_STATE_NOT_INIT"
    using d(6) res unfolding tkip_stored_tsc_def tkip_frame_tsc_def Let_def tkip_is_replay_iff by linarith
qed

lemma mic_verify_stores:
  assumes "ieee80211_rx_h_michael_mic_verify x rx = (RX_CONTINUE, rx')"
    and "rx_key rx = Some k" "kc_cipher (conf k) = WLAN_CIPHER_SUITE_TKIP"
    and "ieee80211_is_data_present (frame_control (skb_data (rx_skb rx)))"
    and "\<not> has_flag (rx_flag rx) RX_FLAG_IV_STRIPPED" "has_flag (rx_flag rx) RX_FLAG_DECRYPTED"
  shows "\<exists>s. mic_update_iv k s = (RX_CONTINUE, rx') \<and> tkip_iv32 s = tkip_iv32 rx \<and>
    tkip_iv16 s = tkip_iv16 rx \<and> security_idx s = security_idx rx"
  using assms unfolding ieee80211_rx_h_michael_mic_verify_def Let_def
  by (auto split: if_splits simp: mic_fail_def mic_fail_no_key_def Let_def
      intro: exI [of _ "rx\<lparr>rx_skb := s\<rparr>" for s])

text \<open>C32: Once a TKIP frame has passed decryption and the Michael check, its counter is the
  stored one, and no data frame of the same queue with the same or an older counter passes
  decryption again.\<close>

theorem tkip_replay_rejected:
  assumes "ieee80211_crypto_tkip_decrypt x k rx = (RX_CONTINUE, rx1)"
    and "ieee80211_is_data (frame_control (skb_data (rx_skb rx)))"
    and "q = security_idx rx" "q < length (tk_rx (u_tkip k))"
    and "kc_cipher (conf k) = WLAN_CIPHER_SUITE_TKIP"
    and "rx_key rx2 = rx_key rx1" "security_idx rx2 = q"
    and "tkip_iv32 rx2 = tkip_iv32 rx1" "tkip_iv16 rx2 = tkip_iv16 rx1"
    and "ieee80211_is_data_present (frame_control (skb_data (rx_skb rx2)))"
    and "\<not> has_flag (rx_flag rx2) RX_FLAG_IV_STRIPPED" "has_flag (rx_flag rx2) RX_FLAG_DECRYPTED"
    and "ieee80211_rx_h_michael_mic_verify x rx2 = (RX_CONTINUE, rx3)"
    and "rx_key rx3 = Some k3" "security_idx rx4 = q"
    and "ieee80211_is_data (frame_control (skb_data (rx_skb rx4)))"
    and "tkip_frame_tsc x (skb_data (rx_skb rx4)) \<le> tkip_frame_tsc x (skb_data (rx_skb rx))"
  shows "tkip_stored_tsc k3 q = tkip_frame_tsc x (skb_data (rx_skb rx)) \<and>
    fst (ieee80211_crypto_tkip_decrypt x k3 rx4) \<noteq> RX_CONTINUE"
proof -
  obtain k1 where k1: "rx_key rx1 = Some k1" "conf k1 = conf k"
      "length (tk_rx (u_tkip k1)) = length (tk_rx (u_tkip k))"
      "ctx_state (rx_ctx (tk_rx (u_tkip k1) ! q)) \<noteq> TKIP_STATE_NOT_INIT"
    using tkip_decrypt_continue(2) [OF assms(1,2)] assms(3,4) by auto
  obtain s where s: "mic_update_iv k1 s = (RX_CONTINUE, rx3)" "tkip_iv32 s = tkip_iv32 rx2"
      "tkip_iv16 s = tkip_iv16 rx2" "security_idx s = q"
    using mic_verify_stores [OF assms(13)] k1 assms(5-7,10-12) by auto
  have k3: "tk_rx (u_tkip k3) ! q =
      (tk_rx (u_tkip k1) ! q)\<lparr>rx_iv32 := tkip_iv32 rx1, rx_iv16 := tkip_iv16 rx1\<rparr>"
      "length (tk_rx (u_tkip k3)) = length (tk_rx (u_tkip k))"
    using s assms(4,8,9,14) k1(3) by (auto simp: mic_update_iv_def Let_def)
  have stored: "tkip_stored_tsc k3 q = tkip_frame_tsc x (skb_data (rx_skb rx))"
    using tkip_decrypt_continue(1) [OF assms(1,2)] assms(3,4) k3(1) by (simp add: tkip_stored_tsc_def)
  have "fst (ieee80211_crypto_tkip_decrypt x k3 rx4) \<noteq> RX_CONTINUE"
  proof
    assume "fst (ieee80211_crypto_tkip_decrypt x k3 rx4) = RX_CONTINUE"
    then obtain rx5 where "ieee80211_crypto_tkip_decrypt x k3 rx4 = (RX_CONTINUE, rx5)"
      by (metis prod.collapse)
    from tkip_decrypt_continue(3) [OF this assms(16)] show False
      using assms(4,15,17) stored k1(4) k3 by simp
  qed
  with stored show ?thesis by simp
qed

text \<open>
  The instance of the replay property: a frame decrypted by hardware, whose Michael code was
  also checked there, and the same frame again.
\<close>

definition ex_tkip_rx :: ieee80211_rx_data where
  "ex_tkip_rx =
     (let rx = ex_rx ex_tkip_frame (ex_key WLAN_CIPHER_SUITE_TKIP 32)
      in rx\<lparr>rx_skb := (rx_skb rx)\<lparr>skb_rx :=
             \<lparr>rs_flag = RX_FLAG_DECRYPTED OR RX_FLAG_MMIC_STRIPPED, rs_rx_flags = 0\<rparr>\<rparr>\<rparr>)"

lemma tkip_replay_rejected_witness:
  defines "k \<equiv> ex_key WLAN_CIPHER_SUITE_TKIP 32"
  defines "rx1 \<equiv> snd (ieee80211_crypto_tkip_decrypt ex_extern k ex_tkip_rx)"
  defines "rx3 \<equiv> snd (ieee80211_rx_h_michael_mic_verify ex_extern rx1)"
  shows "tkip_stored_tsc (the (rx_key rx3)) 0 = tkip_frame_tsc ex_extern (skb_data (rx_skb ex_tkip_rx)) \<and>
    fst (ieee80211_crypto_tkip_decrypt ex_extern (the (rx_key rx3)) ex_tkip_rx) \<noteq> RX_CONTINUE"
proof -
  have 1: "ieee80211_crypto_tkip_decrypt ex_extern k ex_tkip_rx = (RX_CONTINUE, rx1)"
  proof -
    have "fst (ieee80211_crypto_tkip_decrypt ex_extern k ex_tkip_rx) = RX_CONTINUE"
      unfolding k_def by code_simp
    then show ?thesis unfolding rx1_def by (metis prod.collapse)
  qed
  have 3: "ieee80211_rx_h_michael_mic_verify ex_extern rx1 = (RX_CONTINUE, rx3)"
  proof -
    have "fst (ieee80211_rx_h_michael_mic_verify ex_extern rx1) = RX_CONTINUE"
      unfolding rx1_def k_def by code_simp
    then show ?thesis unfolding rx3_def by (metis prod.collapse)
  qed
  have k3: "rx_key rx3 = Some (the (rx_key rx3))"
  proof -
    have "rx_key rx3 \<noteq> None" unfolding rx3_def rx1_def k_def by code_simp
    then show ?thesis by simp
  qed
  show ?thesis
  proof (rule tkip_replay_rejected [OF 1 _ _ _ _ refl _ refl refl _ _ _ 3 k3])
    show "ieee80211_is_data (frame_control (skb_data (rx_skb ex_tkip_rx)))" by code_simp
    show "0 = security_idx ex_tkip_rx" by code_simp
    show "0 < length (tk_rx (u_tkip k))" by (simp add: k_def ex_defs)
    show "kc_cipher (conf k) = WLAN_CIPHER_SUITE_TKIP" by (simp add: k_def ex_defs)
    show "security_idx rx1 = 0" unfolding rx1_def k_def by code_simp
    show "ieee80211_is_data_present (frame_control (skb_data (rx_skb rx1)))"
      unfolding rx1_def k_def by code_simp
    show "\<not> has_flag (rx_flag rx1) RX_FLAG_IV_STRIPPED" unfolding rx1_def k_def by code_simp
    show "has_flag (rx_flag rx1) RX_FLAG_DECRYPTED" unfolding rx1_def k_def by code_simp
    show "security_idx ex_tkip_rx = 0" by code_simp
  qed (code_simp, simp)
qed

end
