(* ===== verification/Replay.thy ===== *)
theory Replay
  imports Prelude
begin

text \<open>
  The two contracts packet numbers live by. \<open>replay_window\<close>: a receiver that accepts a frame
  only if its number is beyond the stored one, and then stores it; a client of the contract
  never accepts two frames with the same number, and accepts them in the order of their numbers.
  \<open>pn_source\<close>: a sender that advances a counter for every frame it numbers; a client never
  emits the same number twice before the counter reaches its limit. The handlers of TKIP, CCMP,
  GCMP and BIP interpret them.
\<close>

subsection \<open>Receivers\<close>

text \<open>The frames accepted out of a sequence, with the key afterwards.\<close>

fun accept_run :: "('k \<Rightarrow> 'f \<Rightarrow> bool \<times> 'k) \<Rightarrow> 'k \<Rightarrow> 'f list \<Rightarrow> 'f list \<times> 'k" where
  "accept_run recv k [] = ([], k)"
| "accept_run recv k (f # fs) =
     (case recv k f of (b, k') \<Rightarrow>
        (case accept_run recv k' fs of (acc, k'') \<Rightarrow> (if b then f # acc else acc, k'')))"

locale replay_window =
  fixes recv :: "'k \<Rightarrow> 'f \<Rightarrow> bool \<times> 'k"
    and stored :: "'k \<Rightarrow> nat"
    and pn :: "'f \<Rightarrow> nat"
    and ok :: "'k \<Rightarrow> bool"
    and fok :: "'f \<Rightarrow> bool"
  assumes recv_ok: "ok k \<Longrightarrow> fok f \<Longrightarrow> recv k f = (b, k') \<Longrightarrow> ok k'"
    and recv_accept: "ok k \<Longrightarrow> fok f \<Longrightarrow> recv k f = (True, k') \<Longrightarrow> stored k < pn f \<and> stored k' = pn f"
    and recv_reject: "ok k \<Longrightarrow> fok f \<Longrightarrow> recv k f = (False, k') \<Longrightarrow> stored k \<le> stored k'"
begin

lemma recv_mono: "ok k \<Longrightarrow> fok f \<Longrightarrow> recv k f = (b, k') \<Longrightarrow> stored k \<le> stored k'"
  using recv_accept [of k f k'] recv_reject [of k f k'] by (cases b) auto

lemma run_inv:
  assumes "ok k" "\<forall>f\<in>set fs. fok f" "accept_run recv k fs = (acc, k')"
  shows "ok k' \<and> stored k \<le> stored k' \<and> sorted_wrt (<) (map pn acc) \<and>
    (\<forall>f\<in>set acc. stored k < pn f \<and> pn f \<le> stored k') \<and> set acc \<subseteq> set fs"
  using assms
proof (induction fs arbitrary: k acc k')
  case Nil
  then show ?case by simp
next
  case (Cons f fs)
  obtain b k1 where r: "recv k f = (b, k1)" by (metis surj_pair)
  obtain acc1 k2 where w: "accept_run recv k1 fs = (acc1, k2)" by (metis surj_pair)
  have ok1: "ok k1" and fok: "fok f" and m: "stored k \<le> stored k1"
    using Cons.prems r recv_ok [of k f b k1] recv_mono [of k f b k1] by auto
  have fs: "\<forall>f\<in>set fs. fok f" using Cons.prems(2) by simp
  note ih = Cons.IH [OF ok1 fs w]
  show ?case
  proof (cases b)
    case True
    then have "stored k < pn f \<and> stored k1 = pn f"
      using recv_accept [of k f k1] Cons.prems(1) fok r by simp
    moreover from this ih have "\<forall>f'\<in>set acc1. stored k < pn f'" by (metis less_trans)
    ultimately show ?thesis using True ih r w Cons.prems(3) by auto
  next
    case False
    moreover from ih m have "\<forall>f'\<in>set acc1. stored k < pn f'" by (metis le_less_trans)
    ultimately show ?thesis using ih r w m Cons.prems(3) by auto
  qed
qed

lemma accepted_increasing:
  assumes "ok k" "\<forall>f\<in>set fs. fok f"
  shows "sorted_wrt (<) (map pn (fst (accept_run recv k fs)))" and "\<forall>f\<in>set (fst (accept_run recv k fs)). stored k < pn f"
  using run_inv [OF assms, of "fst (accept_run recv k fs)" "snd (accept_run recv k fs)"] by auto

lemma accepted_distinct:
  assumes "ok k" "\<forall>f\<in>set fs. fok f"
  shows "distinct (map pn (fst (accept_run recv k fs)))"
  using accepted_increasing(1) [OF assms] strict_sorted_iff by blast

text \<open>After a frame was accepted no frame with its number or an older one is, ever.\<close>

lemma replay_rejected:
  assumes "ok k" "fok f" "recv k f = (True, k1)" "\<forall>f\<in>set fs. fok f" "accept_run recv k1 fs = (acc, k2)"
    and "fok f'" "pn f' \<le> pn f"
  shows "\<not> fst (recv k2 f')"
proof
  assume a: "fst (recv k2 f')"
  have k1: "ok k1" "stored k1 = pn f"
    using assms(1-3) recv_ok recv_accept by blast+
  with run_inv [OF k1(1) assms(4,5)] have "ok k2" "pn f \<le> stored k2" by auto
  moreover have "recv k2 f' = (True, snd (recv k2 f'))" using a by (metis prod.collapse)
  ultimately have "stored k2 < pn f'" using recv_accept assms(6) by blast
  with assms(7) \<open>pn f \<le> stored k2\<close> show False by simp
qed

end

subsection \<open>Senders\<close>

text \<open>The headers emitted for a sequence of frames.\<close>

fun emitted :: "('k \<Rightarrow> 'f \<Rightarrow> 'h option \<times> 'k) \<Rightarrow> 'k \<Rightarrow> 'f list \<Rightarrow> 'h list" where
  "emitted send k [] = []"
| "emitted send k (f # fs) =
     (case send k f of (h, k') \<Rightarrow>
        (case h of None \<Rightarrow> emitted send k' fs | Some h \<Rightarrow> h # emitted send k' fs))"

locale pn_source =
  fixes send :: "'k \<Rightarrow> 'f \<Rightarrow> 'h option \<times> 'k"
    and counter :: "'k \<Rightarrow> nat"
    and code :: "nat \<Rightarrow> 'h"
    and ok :: "'k \<Rightarrow> bool"
    and fok :: "'f \<Rightarrow> bool"
    and limit :: nat
  assumes send_ok: "ok k \<Longrightarrow> fok f \<Longrightarrow> send k f = (h, k') \<Longrightarrow> ok k'"
    and send_step: "ok k \<Longrightarrow> fok f \<Longrightarrow> counter k + 1 < limit \<Longrightarrow> send k f = (h, k') \<Longrightarrow>
      h = None \<and> counter k' \<in> {counter k, counter k + 1} \<or>
      h = Some (code (counter k + 1)) \<and> counter k' = counter k + 1"
    and code_inj: "inj_on code {..<limit}"
begin

lemma sent_codes:
  "ok k \<Longrightarrow> \<forall>f\<in>set fs. fok f \<Longrightarrow> counter k + length fs < limit \<Longrightarrow>
   \<exists>ns. emitted send k fs = map code ns \<and> sorted_wrt (<) ns \<and>
     (\<forall>n\<in>set ns. counter k < n \<and> n \<le> counter k + length fs)"
proof (induction fs arbitrary: k)
  case Nil
  then show ?case by simp
next
  case (Cons f fs)
  obtain h k' where s: "send k f = (h, k')" by (metis surj_pair)
  have k': "ok k'" using send_ok Cons.prems s by auto
  have st: "h = None \<and> counter k' \<in> {counter k, counter k + 1} \<or>
      h = Some (code (counter k + 1)) \<and> counter k' = counter k + 1"
    using send_step [OF _ _ _ s] Cons.prems by simp
  have "counter k' + length fs < limit" using st Cons.prems(3) by auto
  then obtain ns where ns: "emitted send k' fs = map code ns" "sorted_wrt (<) ns"
      "\<forall>n\<in>set ns. counter k' < n \<and> n \<le> counter k' + length fs"
    using Cons.IH [OF k'] Cons.prems(2) by auto
  show ?case
  proof (cases h)
    case None
    with s ns st show ?thesis by (intro exI [of _ ns]) auto
  next
    case (Some a)
    with s ns st show ?thesis by (intro exI [of _ "(counter k + 1) # ns"]) auto
  qed
qed

lemma sent_distinct:
  assumes "ok k" "\<forall>f\<in>set fs. fok f" "counter k + length fs < limit"
  shows "distinct (emitted send k fs)"
proof -
  obtain ns where ns: "emitted send k fs = map code ns" "sorted_wrt (<) ns"
      "\<forall>n\<in>set ns. counter k < n \<and> n \<le> counter k + length fs"
    using sent_codes [OF assms] by blast
  have "set ns \<subseteq> {..<limit}" using ns(3) assms(3) by auto
  then have "inj_on code (set ns)" using code_inj inj_on_subset by blast
  with ns show ?thesis by (simp add: distinct_map strict_sorted_iff)
qed

end

end
