(* ===== verification/Ccm_Gcm.thy ===== *)
theory Ccm_Gcm
  imports Mac80211 Replay
begin

text \<open>
  What CCMP and GCMP share: the calls of the AEAD transform (\<^verbatim>\<open>aead_api.c\<close>, \<^verbatim>\<open>aes_ccm.h\<close>,
  \<^verbatim>\<open>aes_gcm.h\<close>), the additional authenticated data built from the frame header, and the
  packet number with its header field (\<^verbatim>\<open>wpa.c\<close>).
\<close>

subsection \<open>The AEAD calls\<close>

abbreviation (input) ENOMEM :: int where "ENOMEM \<equiv> 12"
abbreviation (input) EINVAL :: int where "EINVAL \<equiv> 22"

text \<open>
  The buffers are the octets the pointers and lengths denote; the result is the status, the
  data buffer and, encrypting, the tag buffer. \<open>oom\<close> tells that the request is not allocated.
\<close>

definition aead_encrypt ::
  "extern \<Rightarrow> bool \<Rightarrow> tfm \<Rightarrow> u8 list \<Rightarrow> u8 list \<Rightarrow> u8 list \<Rightarrow> u8 list \<Rightarrow> int \<times> u8 list \<times> u8 list" where
  "aead_encrypt x oom t b_0 aad data mic =
     (if oom then (- ENOMEM, data, mic) else x_aead_encrypt x t b_0 aad data)"

definition aead_decrypt ::
  "extern \<Rightarrow> bool \<Rightarrow> tfm \<Rightarrow> u8 list \<Rightarrow> u8 list \<Rightarrow> u8 list \<Rightarrow> u8 list \<Rightarrow> int \<times> u8 list" where
  "aead_decrypt x oom t b_0 aad data mic =
     (if length data = 0 then (- EINVAL, data)
      else if oom then (- ENOMEM, data)
      else x_aead_decrypt x t b_0 aad data mic)"

text \<open>The additional data is preceded by its length, sixteen bits big-endian.\<close>

definition aad_octets :: "u8 list \<Rightarrow> u8 list" where
  "aad_octets aad = mem_read aad 2 (unat (get_unaligned_be16 aad 0))"

text \<open>
  Encryption of the \<open>len\<close> octets at \<open>pos\<close> of a frame with the tag at \<open>mic\<close>, in place.
\<close>

definition ieee80211_aes_ccm_encrypt ::
  "extern \<Rightarrow> bool \<Rightarrow> tfm \<Rightarrow> u8 list \<Rightarrow> u8 list \<Rightarrow> u8 list \<Rightarrow> nat \<Rightarrow> nat \<Rightarrow> nat \<Rightarrow> int \<times> u8 list" where
  "ieee80211_aes_ccm_encrypt x oom t b_0 aad buf pos len mic =
     (case aead_encrypt x oom t b_0 (aad_octets aad) (mem_read buf pos len)
             (mem_read buf mic (x_aead_authsize x t)) of
        (r, c, m) \<Rightarrow> (r, mem_write (mem_write buf pos c) mic m))"

definition ieee80211_aes_ccm_decrypt ::
  "extern \<Rightarrow> bool \<Rightarrow> tfm \<Rightarrow> u8 list \<Rightarrow> u8 list \<Rightarrow> u8 list \<Rightarrow> nat \<Rightarrow> nat \<Rightarrow> nat \<Rightarrow> int \<times> u8 list" where
  "ieee80211_aes_ccm_decrypt x oom t b_0 aad buf pos len mic =
     (case aead_decrypt x oom t b_0 (aad_octets aad) (mem_read buf pos len)
             (mem_read buf mic (x_aead_authsize x t)) of
        (r, p) \<Rightarrow> (r, mem_write buf pos p))"

definition ieee80211_aes_gcm_encrypt ::
  "extern \<Rightarrow> bool \<Rightarrow> tfm \<Rightarrow> u8 list \<Rightarrow> u8 list \<Rightarrow> u8 list \<Rightarrow> nat \<Rightarrow> nat \<Rightarrow> nat \<Rightarrow> int \<times> u8 list" where
  "ieee80211_aes_gcm_encrypt x oom t j_0 aad buf pos len mic =
     (case aead_encrypt x oom t j_0 (aad_octets aad) (mem_read buf pos len)
             (mem_read buf mic (x_aead_authsize x t)) of
        (r, c, m) \<Rightarrow> (r, mem_write (mem_write buf pos c) mic m))"

definition ieee80211_aes_gcm_decrypt ::
  "extern \<Rightarrow> bool \<Rightarrow> tfm \<Rightarrow> u8 list \<Rightarrow> u8 list \<Rightarrow> u8 list \<Rightarrow> nat \<Rightarrow> nat \<Rightarrow> nat \<Rightarrow> int \<times> u8 list" where
  "ieee80211_aes_gcm_decrypt x oom t j_0 aad buf pos len mic =
     (case aead_decrypt x oom t j_0 (aad_octets aad) (mem_read buf pos len)
             (mem_read buf mic (x_aead_authsize x t)) of
        (r, p) \<Rightarrow> (r, mem_write buf pos p))"

subsection \<open>Additional authenticated data\<close>

text \<open>The priority octet returned, and the 32 octets written.\<close>

definition ccmp_gcmp_aad :: "u8 list \<Rightarrow> bool \<Rightarrow> u8 \<times> u8 list" where
  "ccmp_gcmp_aad hdr spp_amsdu =
     (let fc = frame_control hdr;
          mgmt = ieee80211_is_mgmt fc;
          mask_fc = fc AND NOT (IEEE80211_FCTL_RETRY OR IEEE80211_FCTL_PM OR IEEE80211_FCTL_MOREDATA);
          mask_fc = (if \<not> mgmt then mask_fc AND NOT 0x0070 else mask_fc);
          mask_fc = mask_fc OR IEEE80211_FCTL_PROTECTED;
          a4_included = ieee80211_has_a4 fc;
          len_a = (if a4_included then 28 else 22);
          qos = ieee80211_is_data_qos fc;
          qos_tid = (if qos
                     then (if spp_amsdu
                           then ieee80211_get_qos_ctl hdr AND
                                  (IEEE80211_QOS_CTL_TID_MASK OR IEEE80211_QOS_CTL_A_MSDU_PRESENT)
                           else ieee80211_get_qos_ctl hdr AND IEEE80211_QOS_CTL_TID_MASK)
                     else 0);
          mask_fc = (if qos then mask_fc AND NOT IEEE80211_FCTL_ORDER else mask_fc);
          len_a = (if qos then len_a + 2 else len_a)
      in (qos_tid,
          be16_bytes len_a @ le16_bytes mask_fc @ addrs hdr @ [hdr ! 22 AND 0x0f, 0]
          @ (if a4_included then addr4 hdr @ [qos_tid, 0] else [qos_tid] @ replicate 7 0)))"

subsection \<open>Packet numbers\<close>

text \<open>The six octets of the packet number taken off the 64-bit counter, most significant first.\<close>

definition pn_octets :: "u64 \<Rightarrow> u8 list" where
  "pn_octets pn64 = [ucast (drop_bit 40 pn64), ucast (drop_bit 32 pn64), ucast (drop_bit 24 pn64),
     ucast (drop_bit 16 pn64), ucast (drop_bit 8 pn64), ucast pn64]"

definition ccmp_pn2hdr :: "u8 list \<Rightarrow> int \<Rightarrow> u8 list" where
  "ccmp_pn2hdr pn key_id = [pn ! 5, pn ! 4, 0, 0x20 OR push_bit 6 (word_of_int key_id),
     pn ! 3, pn ! 2, pn ! 1, pn ! 0]"

definition ccmp_hdr2pn :: "u8 list \<Rightarrow> u8 list" where
  "ccmp_hdr2pn hdr = [hdr ! 7, hdr ! 6, hdr ! 5, hdr ! 4, hdr ! 1, hdr ! 0]"

definition gcmp_pn2hdr :: "u8 list \<Rightarrow> int \<Rightarrow> u8 list" where
  "gcmp_pn2hdr pn key_id = [pn ! 5, pn ! 4, 0, 0x20 OR push_bit 6 (word_of_int key_id),
     pn ! 3, pn ! 2, pn ! 1, pn ! 0]"

definition gcmp_hdr2pn :: "u8 list \<Rightarrow> u8 list" where
  "gcmp_hdr2pn hdr = [hdr ! 7, hdr ! 6, hdr ! 5, hdr ! 4, hdr ! 1, hdr ! 0]"

lemma length_pn [simp]:
  "length (pn_octets n) = 6" "length (ccmp_pn2hdr p i) = 8" "length (ccmp_hdr2pn h) = 6"
  "length (gcmp_pn2hdr p i) = 8" "length (gcmp_hdr2pn h) = 6"
  by (simp_all add: pn_octets_def ccmp_pn2hdr_def ccmp_hdr2pn_def gcmp_pn2hdr_def gcmp_hdr2pn_def)

lemma six_octets: "length p = 6 \<Longrightarrow> [p ! 0, p ! 1, p ! 2, p ! 3, p ! 4, p ! 5] = p"
  by (auto simp: list_eq_iff_nth_eq less_Suc_eq numeral_eq_Suc)

lemma hdr2pn_pn2hdr:
  "length p = 6 \<Longrightarrow> ccmp_hdr2pn (ccmp_pn2hdr p i @ r) = p"
  "length p = 6 \<Longrightarrow> gcmp_hdr2pn (gcmp_pn2hdr p i @ r) = p"
  using six_octets [of p]
  by (simp_all add: ccmp_hdr2pn_def ccmp_pn2hdr_def gcmp_hdr2pn_def gcmp_pn2hdr_def)

lemma gcmp_pn_eq_ccmp: "gcmp_pn2hdr = ccmp_pn2hdr" "gcmp_hdr2pn = ccmp_hdr2pn"
  by (simp_all add: fun_eq_iff ccmp_hdr2pn_def ccmp_pn2hdr_def gcmp_hdr2pn_def gcmp_pn2hdr_def)

text \<open>The number the octets stand for.\<close>

lemma unat_ucast_u8: "unat (ucast (w :: u64) :: u8) = unat w mod 256"
  by (simp only: unsigned_ucast_eq take_bit_eq_mod) simp

lemma unat_drop_u64: "unat (drop_bit n (w :: u64)) = unat w div 2 ^ n"
  by (simp only: unat_drop_bit_eq) (simp only: drop_bit_eq_div)

lemma be_nat_pn_octets: "be_nat (pn_octets n) = unat n mod 2 ^ 48"
proof -
  let ?m = "unat n"
  have s: "?m mod (2 ^ k * 256) = 2 ^ k * (?m div 2 ^ k mod 256) + ?m mod 2 ^ k" for k
    by (rule mod_mult2_eq)
  have "be_nat (pn_octets n) =
      ?m div 2 ^ 40 mod 256 * 256 ^ 5 + (?m div 2 ^ 32 mod 256 * 256 ^ 4 + (?m div 2 ^ 24 mod 256 * 256 ^ 3 +
      (?m div 2 ^ 16 mod 256 * 256 ^ 2 + (?m div 2 ^ 8 mod 256 * 256 + ?m mod 256))))"
    by (simp add: pn_octets_def unat_ucast_u8 unat_drop_u64)
  also have "\<dots> = ?m mod 2 ^ 48"
    using s [of 40] s [of 32] s [of 24] s [of 16] s [of 8] by simp
  finally show ?thesis .
qed

lemma pn_octets_inj: "inj_on (\<lambda>n. pn_octets (word_of_nat n)) {..<2 ^ 48}"
proof (rule inj_onI)
  fix a b :: nat
  assume "a \<in> {..<2 ^ 48}" "b \<in> {..<2 ^ 48}" "pn_octets (word_of_nat a) = pn_octets (word_of_nat b)"
  moreover have "unat (word_of_nat n :: u64) mod 2 ^ 48 = n" if "n < 2 ^ 48" for n
    using that by (simp add: unat_of_nat take_bit_nat_eq_self)
  ultimately show "a = b"
    by (metis be_nat_pn_octets lessThan_iff)
qed

subsection \<open>The additional data is a function of the header\<close>

lemma ccmp_gcmp_aad_append:
  assumes "hdr_complete hdr"
  shows "ccmp_gcmp_aad (hdr @ r) spp = ccmp_gcmp_aad hdr spp"
proof -
  have fc: "frame_control (hdr @ r) = frame_control hdr"
    using hdr_complete_24 [OF assms] by (simp add: frame_control_cong)
  have a4: "ieee80211_has_a4 (frame_control hdr) \<Longrightarrow> addr4 (hdr @ r) = addr4 hdr"
    using assms by (simp add: hdr_complete_def hdr_present_def addrs_append)
  have n: "(hdr @ r) ! 22 = hdr ! 22" and ad: "addrs (hdr @ r) = addrs hdr"
    using hdr_complete_24 [OF assms] by (simp_all add: nth_append addrs_append)
  show ?thesis
    unfolding ccmp_gcmp_aad_def Let_def fc n ad
    by (simp add: a4 qos_ctl_append [OF assms] cong: if_cong)
qed

end
