(* ===== verification/Ccmp_Gcmp.thy ===== *)
theory Ccmp_Gcmp
  imports Ccm_Gcm
begin

text \<open>
  The CCMP and GCMP handlers of \<^verbatim>\<open>mac80211/wpa.c\<close>: the nonce and additional data of a frame,
  encryption of a queue of frames, and decryption with the replay check. The two are written
  out as the code writes them; \<open>Aead_Suite\<close> proves their properties once for both.
\<close>

definition IEEE80211_CCMP_HDR_LEN :: nat where "IEEE80211_CCMP_HDR_LEN = 8"
definition IEEE80211_GCMP_HDR_LEN :: nat where "IEEE80211_GCMP_HDR_LEN = 8"
definition IEEE80211_GCMP_MIC_LEN :: nat where "IEEE80211_GCMP_MIC_LEN = 16"

subsection \<open>CCMP\<close>

text \<open>
  The nonce block and the additional data. The last two octets of the block are the counter,
  which the transform fills in, and are not modelled.
\<close>

definition ccmp_special_blocks :: "u8 list \<Rightarrow> u8 list \<Rightarrow> bool \<Rightarrow> u8 list \<times> u8 list" where
  "ccmp_special_blocks hdr pn spp_amsdu =
     (let (qos_tid, aad) = ccmp_gcmp_aad hdr spp_amsdu
      in ([0x1, qos_tid OR push_bit 4 (if ieee80211_is_mgmt (frame_control hdr) then 1 else 0)]
            @ addr2 hdr @ pn,
          aad))"

definition ccmp_encrypt_skb ::
  "extern \<Rightarrow> nat \<Rightarrow> ieee80211_key \<Rightarrow> sk_buff \<Rightarrow> int \<times> ieee80211_key \<times> sk_buff" where
  "ccmp_encrypt_skb x mic_len key skb =
     (let hdr = skb_data skb; fc = frame_control hdr; hw = hw_key (skb_tx skb) in
      if (case hw of None \<Rightarrow> False
          | Some fl \<Rightarrow> \<not> has_flag fl IEEE80211_KEY_FLAG_GENERATE_IV \<and>
                       \<not> has_flag fl IEEE80211_KEY_FLAG_PUT_IV_SPACE \<and>
                       \<not> (has_flag fl IEEE80211_KEY_FLAG_GENERATE_IV_MGMT \<and> ieee80211_is_mgmt fc))
      then (0, key, skb)
      else
        (let hdrlen = x_hdrlen x fc;
             len = skb_len skb - hdrlen;
             tail = (if hw \<noteq> None then 0 else mic_len)
         in if skb_tailroom skb < tail \<or> skb_headroom skb < IEEE80211_CCMP_HDR_LEN then (- 1, key, skb)
            else
              (let skb = skb_memmove 0 IEEE80211_CCMP_HDR_LEN hdrlen (skb_push IEEE80211_CCMP_HDR_LEN skb) in
               if (case hw of None \<Rightarrow> False | Some fl \<Rightarrow> has_flag fl IEEE80211_KEY_FLAG_PUT_IV_SPACE)
               then (0, key, skb)
               else
                 (let key = inc_tx_pn key;
                      pn = pn_octets (kc_tx_pn (conf key));
                      skb = skb_write hdrlen (ccmp_pn2hdr pn (kc_keyidx (conf key))) skb
                  in if hw \<noteq> None then (0, key, skb)
                     else
                       (let pos = hdrlen + IEEE80211_CCMP_HDR_LEN;
                            (iv, aad) = ccmp_special_blocks (skb_data skb) pn
                                          (has_flag (kc_flags (conf key)) IEEE80211_KEY_FLAG_SPP_AMSDU);
                            mic = skb_len skb;
                            skb = skb_put mic_len skb;
                            (r, buf) = ieee80211_aes_ccm_encrypt x (skb_oom skb Alloc_Request)
                                         (aead_tfm (u_ccmp key)) iv aad (skb_data skb) pos len mic
                        in (r, key, skb\<lparr>skb_data := buf\<rparr>))))))"

definition ieee80211_crypto_ccmp_encrypt ::
  "extern \<Rightarrow> nat \<Rightarrow> ieee80211_key \<Rightarrow> sk_buff list \<Rightarrow> tx_result \<times> ieee80211_key \<times> sk_buff list" where
  "ieee80211_crypto_ccmp_encrypt x mic_len key skbs =
     (case walk_skbs (ccmp_encrypt_skb x mic_len) key (ieee80211_tx_set_protected skbs) of
        (ok, key, skbs) \<Rightarrow> (if ok then TX_CONTINUE else TX_DROP, key, skbs))"

text \<open>The common end of the receive handler: remove the CCMP header and the MIC.\<close>

definition ccmp_strip :: "nat \<Rightarrow> nat \<Rightarrow> ieee80211_rx_data \<Rightarrow> rx_result \<times> ieee80211_rx_data" where
  "ccmp_strip hdrlen mic_len rx =
     (let skb = rx_skb rx in
      if pskb_trim_fails skb then (RX_DROP_U_SHORT_CCMP_MIC, rx)
      else
        (let skb = skb_trim skb (skb_len skb - mic_len);
             skb = skb_memmove IEEE80211_CCMP_HDR_LEN 0 hdrlen skb;
             skb = skb_pull IEEE80211_CCMP_HDR_LEN skb
         in (RX_CONTINUE, rx\<lparr>rx_skb := skb\<rparr>)))"

definition ieee80211_crypto_ccmp_decrypt ::
  "extern \<Rightarrow> nat \<Rightarrow> ieee80211_key \<Rightarrow> ieee80211_rx_data \<Rightarrow> rx_result \<times> ieee80211_rx_data" where
  "ieee80211_crypto_ccmp_decrypt x mic_len key rx =
     (let skb = rx_skb rx; hdr = skb_data skb; fc = frame_control hdr; hdrlen = x_hdrlen x fc;
          flag = rx_flag rx; decrypted = has_flag flag RX_FLAG_DECRYPTED in
      if \<not> ieee80211_is_data fc \<and> \<not> ieee80211_is_robust_mgmt_frame hdr then (RX_CONTINUE, rx)
      else if decrypted \<and> \<not> pskb_may_pull skb (hdrlen + IEEE80211_CCMP_HDR_LEN)
      then (RX_DROP_U_SHORT_CCMP, rx)
      else if \<not> decrypted \<and> skb_linearize_fails skb then (RX_DROP_U_OOM, rx)
      else
        (let mic_len = (if decrypted \<and> has_flag flag RX_FLAG_MIC_STRIPPED then 0 else mic_len);
             data_len = int (skb_len skb) - int hdrlen - int IEEE80211_CCMP_HDR_LEN - int mic_len
         in if rx_sta rx = None \<or> data_len < 0 then (RX_DROP_U_SHORT_CCMP, rx)
            else if has_flag flag RX_FLAG_PN_VALIDATED then ccmp_strip hdrlen mic_len rx
            else
              (let pn = ccmp_hdr2pn (mem_read hdr hdrlen IEEE80211_CCMP_HDR_LEN);
                   queue = security_idx rx;
                   u = u_ccmp key;
                   res = memcmp pn (aead_rx_pn u ! queue)
               in if res < 0 \<or> (res = 0 \<and> \<not> has_flag flag RX_FLAG_ALLOW_SAME_PN)
                  then (RX_DROP_U_REPLAY,
                        rx\<lparr>rx_key := Some (key\<lparr>u_ccmp := u\<lparr>aead_replays := aead_replays u + 1\<rparr>\<rparr>)\<rparr>)
                  else
                    (let (r, buf) =
                           (if decrypted then (0, hdr)
                            else
                              (let (iv, aad) = ccmp_special_blocks hdr pn
                                     (has_flag (kc_flags (conf key)) IEEE80211_KEY_FLAG_SPP_AMSDU)
                               in ieee80211_aes_ccm_decrypt x (skb_oom skb Alloc_Request) (aead_tfm u) iv aad
                                    hdr (hdrlen + IEEE80211_CCMP_HDR_LEN) (nat data_len)
                                    (skb_len skb - mic_len)));
                         rx = rx\<lparr>rx_skb := skb\<lparr>skb_data := buf\<rparr>\<rparr>
                     in if r \<noteq> 0 then (RX_DROP_U_MIC_FAIL, rx)
                        else
                          ccmp_strip hdrlen mic_len
                            (rx\<lparr>rx_key := Some (key\<lparr>u_ccmp := u\<lparr>aead_rx_pn := (aead_rx_pn u)[queue := pn]\<rparr>\<rparr>),
                                ccm_gcm_pn := (if ieee80211_is_frag buf then pn else ccm_gcm_pn rx)\<rparr>)))))"

subsection \<open>GCMP\<close>

definition gcmp_special_blocks :: "u8 list \<Rightarrow> u8 list \<Rightarrow> bool \<Rightarrow> u8 list \<times> u8 list" where
  "gcmp_special_blocks hdr pn spp_amsdu = (addr2 hdr @ pn, snd (ccmp_gcmp_aad hdr spp_amsdu))"

definition gcmp_encrypt_skb ::
  "extern \<Rightarrow> ieee80211_key \<Rightarrow> sk_buff \<Rightarrow> int \<times> ieee80211_key \<times> sk_buff" where
  "gcmp_encrypt_skb x key skb =
     (let hdr = skb_data skb; fc = frame_control hdr; hw = hw_key (skb_tx skb) in
      if (case hw of None \<Rightarrow> False
          | Some fl \<Rightarrow> \<not> has_flag fl IEEE80211_KEY_FLAG_GENERATE_IV \<and>
                       \<not> has_flag fl IEEE80211_KEY_FLAG_PUT_IV_SPACE \<and>
                       \<not> (has_flag fl IEEE80211_KEY_FLAG_GENERATE_IV_MGMT \<and> ieee80211_is_mgmt fc))
      then (0, key, skb)
      else
        (let hdrlen = x_hdrlen x fc;
             len = skb_len skb - hdrlen;
             tail = (if hw \<noteq> None then 0 else IEEE80211_GCMP_MIC_LEN)
         in if skb_tailroom skb < tail \<or> skb_headroom skb < IEEE80211_GCMP_HDR_LEN then (- 1, key, skb)
            else
              (let skb = skb_memmove 0 IEEE80211_GCMP_HDR_LEN hdrlen (skb_push IEEE80211_GCMP_HDR_LEN skb) in
               if (case hw of None \<Rightarrow> False | Some fl \<Rightarrow> has_flag fl IEEE80211_KEY_FLAG_PUT_IV_SPACE)
               then (0, key, skb)
               else
                 (let key = inc_tx_pn key;
                      pn = pn_octets (kc_tx_pn (conf key));
                      skb = skb_write hdrlen (gcmp_pn2hdr pn (kc_keyidx (conf key))) skb
                  in if hw \<noteq> None then (0, key, skb)
                     else
                       (let pos = hdrlen + IEEE80211_GCMP_HDR_LEN;
                            (iv, aad) = gcmp_special_blocks (skb_data skb) pn
                                          (has_flag (kc_flags (conf key)) IEEE80211_KEY_FLAG_SPP_AMSDU);
                            mic = skb_len skb;
                            skb = skb_put IEEE80211_GCMP_MIC_LEN skb;
                            (r, buf) = ieee80211_aes_gcm_encrypt x (skb_oom skb Alloc_Request)
                                         (aead_tfm (u_gcmp key)) iv aad (skb_data skb) pos len mic
                        in (r, key, skb\<lparr>skb_data := buf\<rparr>))))))"

definition ieee80211_crypto_gcmp_encrypt ::
  "extern \<Rightarrow> ieee80211_key \<Rightarrow> sk_buff list \<Rightarrow> tx_result \<times> ieee80211_key \<times> sk_buff list" where
  "ieee80211_crypto_gcmp_encrypt x key skbs =
     (case walk_skbs (gcmp_encrypt_skb x) key (ieee80211_tx_set_protected skbs) of
        (ok, key, skbs) \<Rightarrow> (if ok then TX_CONTINUE else TX_DROP, key, skbs))"

text \<open>The common end of the receive handler: remove the GCMP header and the MIC.\<close>

definition gcmp_strip :: "nat \<Rightarrow> nat \<Rightarrow> ieee80211_rx_data \<Rightarrow> rx_result \<times> ieee80211_rx_data" where
  "gcmp_strip hdrlen mic_len rx =
     (let skb = rx_skb rx in
      if pskb_trim_fails skb then (RX_DROP_U_SHORT_GCMP_MIC, rx)
      else
        (let skb = skb_trim skb (skb_len skb - mic_len);
             skb = skb_memmove IEEE80211_GCMP_HDR_LEN 0 hdrlen skb;
             skb = skb_pull IEEE80211_GCMP_HDR_LEN skb
         in (RX_CONTINUE, rx\<lparr>rx_skb := skb\<rparr>)))"

definition ieee80211_crypto_gcmp_decrypt ::
  "extern \<Rightarrow> ieee80211_key \<Rightarrow> ieee80211_rx_data \<Rightarrow> rx_result \<times> ieee80211_rx_data" where
  "ieee80211_crypto_gcmp_decrypt x key rx =
     (let skb = rx_skb rx; hdr = skb_data skb; fc = frame_control hdr; hdrlen = x_hdrlen x fc;
          flag = rx_flag rx; mic_len = IEEE80211_GCMP_MIC_LEN; decrypted = has_flag flag RX_FLAG_DECRYPTED in
      if \<not> ieee80211_is_data fc \<and> \<not> ieee80211_is_robust_mgmt_frame hdr then (RX_CONTINUE, rx)
      else if decrypted \<and> \<not> pskb_may_pull skb (hdrlen + IEEE80211_GCMP_HDR_LEN)
      then (RX_DROP_U_SHORT_GCMP, rx)
      else if \<not> decrypted \<and> skb_linearize_fails skb then (RX_DROP_U_OOM, rx)
      else
        (let mic_len = (if decrypted \<and> has_flag flag RX_FLAG_MIC_STRIPPED then 0 else mic_len);
             data_len = int (skb_len skb) - int hdrlen - int IEEE80211_GCMP_HDR_LEN - int mic_len
         in if rx_sta rx = None \<or> data_len < 0 then (RX_DROP_U_SHORT_GCMP, rx)
            else if has_flag flag RX_FLAG_PN_VALIDATED then gcmp_strip hdrlen mic_len rx
            else
              (let pn = gcmp_hdr2pn (mem_read hdr hdrlen IEEE80211_GCMP_HDR_LEN);
                   queue = security_idx rx;
                   u = u_gcmp key;
                   res = memcmp pn (aead_rx_pn u ! queue)
               in if res < 0 \<or> (res = 0 \<and> \<not> has_flag flag RX_FLAG_ALLOW_SAME_PN)
                  then (RX_DROP_U_REPLAY,
                        rx\<lparr>rx_key := Some (key\<lparr>u_gcmp := u\<lparr>aead_replays := aead_replays u + 1\<rparr>\<rparr>)\<rparr>)
                  else
                    (let (r, buf) =
                           (if decrypted then (0, hdr)
                            else
                              (let (iv, aad) = gcmp_special_blocks hdr pn
                                     (has_flag (kc_flags (conf key)) IEEE80211_KEY_FLAG_SPP_AMSDU)
                               in ieee80211_aes_gcm_decrypt x (skb_oom skb Alloc_Request) (aead_tfm u) iv aad
                                    hdr (hdrlen + IEEE80211_GCMP_HDR_LEN) (nat data_len)
                                    (skb_len skb - IEEE80211_GCMP_MIC_LEN)));
                         rx = rx\<lparr>rx_skb := skb\<lparr>skb_data := buf\<rparr>\<rparr>
                     in if r \<noteq> 0 then (RX_DROP_U_MIC_FAIL, rx)
                        else
                          gcmp_strip hdrlen mic_len
                            (rx\<lparr>rx_key := Some (key\<lparr>u_gcmp := u\<lparr>aead_rx_pn := (aead_rx_pn u)[queue := pn]\<rparr>\<rparr>),
                                ccm_gcm_pn := (if ieee80211_is_frag buf then pn else ccm_gcm_pn rx)\<rparr>)))))"

lemma ccmp_gcmp_lens [simp]:
  "IEEE80211_CCMP_HDR_LEN = 8" "IEEE80211_GCMP_HDR_LEN = 8" "IEEE80211_GCMP_MIC_LEN = 16"
  by (simp_all add: IEEE80211_CCMP_HDR_LEN_def IEEE80211_GCMP_HDR_LEN_def IEEE80211_GCMP_MIC_LEN_def)

end
