(* ===== verification/Aead_Suite.thy ===== *)
theory Aead_Suite
  imports Ccmp_Gcmp
begin

text \<open>
  CCMP and GCMP as two instances of one contract: a suite is the nonce and additional data of a
  frame, the member of the key it uses, and handlers of a given shape. The lemmas of the locale
  (layout of an encrypted frame, what decryption restores, when it accepts, what numbering does
  to the counter) are proved once and hold for both.
\<close>

subsection \<open>The shape of the handlers\<close>

definition suite_tx ::
  "(u8 list \<Rightarrow> u8 list \<Rightarrow> bool \<Rightarrow> u8 list \<times> u8 list) \<Rightarrow> (ieee80211_key \<Rightarrow> key_u_aead) \<Rightarrow> nat \<Rightarrow>
     extern \<Rightarrow> ieee80211_key \<Rightarrow> sk_buff \<Rightarrow> int \<times> ieee80211_key \<times> sk_buff" where
  "suite_tx special get mic_len x key skb =
     (let hdr = skb_data skb; fc = frame_control hdr; hw = hw_key (skb_tx skb) in
      if (case hw of None \<Rightarrow> False
          | Some fl \<Rightarrow> \<not> has_flag fl IEEE80211_KEY_FLAG_GENERATE_IV \<and>
                       \<not> has_flag fl IEEE80211_KEY_FLAG_PUT_IV_SPACE \<and>
                       \<not> (has_flag fl IEEE80211_KEY_FLAG_GENERATE_IV_MGMT \<and> ieee80211_is_mgmt fc))
      then (0, key, skb)
      else
        (let hdrlen = x_hdrlen x fc;
             len = skb_len skb - hdrlen;
             tail = (if hw \<noteq> None then 0 else mic_len)
         in if skb_tailroom skb < tail \<or> skb_headroom skb < 8 then (- 1, key, skb)
            else
              (let skb = skb_memmove 0 8 hdrlen (skb_push 8 skb) in
               if (case hw of None \<Rightarrow> False | Some fl \<Rightarrow> has_flag fl IEEE80211_KEY_FLAG_PUT_IV_SPACE)
               then (0, key, skb)
               else
                 (let key = inc_tx_pn key;
                      pn = pn_octets (kc_tx_pn (conf key));
                      skb = skb_write hdrlen (ccmp_pn2hdr pn (kc_keyidx (conf key))) skb
                  in if hw \<noteq> None then (0, key, skb)
                     else
                       (let pos = hdrlen + 8;
                            (iv, aad) = special (skb_data skb) pn
                                          (has_flag (kc_flags (conf key)) IEEE80211_KEY_FLAG_SPP_AMSDU);
                            mic = skb_len skb;
                            skb = skb_put mic_len skb;
                            (r, buf) = ieee80211_aes_ccm_encrypt x (skb_oom skb Alloc_Request)
                                         (aead_tfm (get key)) iv aad (skb_data skb) pos len mic
                        in (r, key, skb\<lparr>skb_data := buf\<rparr>))))))"

definition suite_strip ::
  "rx_result \<Rightarrow> nat \<Rightarrow> nat \<Rightarrow> ieee80211_rx_data \<Rightarrow> rx_result \<times> ieee80211_rx_data" where
  "suite_strip short_mic hdrlen mic_len rx =
     (let skb = rx_skb rx in
      if pskb_trim_fails skb then (short_mic, rx)
      else
        (let skb = skb_trim skb (skb_len skb - mic_len);
             skb = skb_memmove 8 0 hdrlen skb;
             skb = skb_pull 8 skb
         in (RX_CONTINUE, rx\<lparr>rx_skb := skb\<rparr>)))"

text \<open>The octets of the data after decryption, or before it where the device has decrypted.\<close>

definition suite_open ::
  "(u8 list \<Rightarrow> u8 list \<Rightarrow> bool \<Rightarrow> u8 list \<times> u8 list) \<Rightarrow> extern \<Rightarrow> ieee80211_key \<Rightarrow> key_u_aead \<Rightarrow> sk_buff \<Rightarrow>
     bool \<Rightarrow> nat \<Rightarrow> nat \<Rightarrow> nat \<Rightarrow> u8 list \<Rightarrow> int \<times> u8 list" where
  "suite_open special x key u skb decrypted hdrlen data_len mic_len pn =
     (let hdr = skb_data skb in
      if decrypted then (0, hdr)
      else
        (let (iv, aad) = special hdr pn
               (has_flag (kc_flags (conf key)) IEEE80211_KEY_FLAG_SPP_AMSDU)
         in ieee80211_aes_ccm_decrypt x (skb_oom skb Alloc_Request) (aead_tfm u) iv aad
              hdr (hdrlen + 8) data_len (skb_len skb - mic_len)))"

text \<open>The replay check, decryption and the update of the stored number.\<close>

definition suite_check ::
  "(u8 list \<Rightarrow> u8 list \<Rightarrow> bool \<Rightarrow> u8 list \<times> u8 list) \<Rightarrow> (ieee80211_key \<Rightarrow> key_u_aead) \<Rightarrow>
     (key_u_aead \<Rightarrow> ieee80211_key \<Rightarrow> ieee80211_key) \<Rightarrow> nat \<Rightarrow> rx_result \<Rightarrow>
     extern \<Rightarrow> ieee80211_key \<Rightarrow> nat \<Rightarrow> nat \<Rightarrow> ieee80211_rx_data \<Rightarrow> rx_result \<times> ieee80211_rx_data" where
  "suite_check special get upd mic short_mic x key mic_len data_len rx =
     (let skb = rx_skb rx; hdr = skb_data skb; hdrlen = x_hdrlen x (frame_control hdr);
          pn = ccmp_hdr2pn (mem_read hdr hdrlen 8);
          queue = security_idx rx;
          u = get key;
          res = memcmp pn (aead_rx_pn u ! queue)
      in if res < 0 \<or> (res = 0 \<and> \<not> has_flag (rx_flag rx) RX_FLAG_ALLOW_SAME_PN)
         then (RX_DROP_U_REPLAY,
               rx\<lparr>rx_key := Some (upd (u\<lparr>aead_replays := aead_replays u + 1\<rparr>) key)\<rparr>)
         else
           (let (r, buf) = suite_open special x key u skb (has_flag (rx_flag rx) RX_FLAG_DECRYPTED)
                             hdrlen data_len mic pn;
                rx = rx\<lparr>rx_skb := skb\<lparr>skb_data := buf\<rparr>\<rparr>
            in if r \<noteq> 0 then (RX_DROP_U_MIC_FAIL, rx)
               else
                 suite_strip short_mic hdrlen mic_len
                   (rx\<lparr>rx_key := Some (upd (u\<lparr>aead_rx_pn := (aead_rx_pn u)[queue := pn]\<rparr>) key),
                       ccm_gcm_pn := (if ieee80211_is_frag buf then pn else ccm_gcm_pn rx)\<rparr>)))"

definition suite_rx ::
  "(u8 list \<Rightarrow> u8 list \<Rightarrow> bool \<Rightarrow> u8 list \<times> u8 list) \<Rightarrow> (ieee80211_key \<Rightarrow> key_u_aead) \<Rightarrow>
     (key_u_aead \<Rightarrow> ieee80211_key \<Rightarrow> ieee80211_key) \<Rightarrow> nat \<Rightarrow> rx_result \<Rightarrow> rx_result \<Rightarrow>
     extern \<Rightarrow> ieee80211_key \<Rightarrow> ieee80211_rx_data \<Rightarrow> rx_result \<times> ieee80211_rx_data" where
  "suite_rx special get upd mic short short_mic x key rx =
     (let skb = rx_skb rx; hdr = skb_data skb; fc = frame_control hdr; hdrlen = x_hdrlen x fc;
          flag = rx_flag rx; decrypted = has_flag flag RX_FLAG_DECRYPTED in
      if \<not> ieee80211_is_data fc \<and> \<not> ieee80211_is_robust_mgmt_frame hdr then (RX_CONTINUE, rx)
      else if decrypted \<and> \<not> pskb_may_pull skb (hdrlen + 8) then (short, rx)
      else if \<not> decrypted \<and> skb_linearize_fails skb then (RX_DROP_U_OOM, rx)
      else
        (let mic_len = (if decrypted \<and> has_flag flag RX_FLAG_MIC_STRIPPED then 0 else mic);
             data_len = int (skb_len skb) - int hdrlen - 8 - int mic_len
         in if rx_sta rx = None \<or> data_len < 0 then (short, rx)
            else if has_flag flag RX_FLAG_PN_VALIDATED then suite_strip short_mic hdrlen mic_len rx
            else suite_check special get upd mic short_mic x key mic_len (nat data_len) rx))"

lemma aes_gcm_eq_ccm:
  "ieee80211_aes_gcm_encrypt = ieee80211_aes_ccm_encrypt"
  "ieee80211_aes_gcm_decrypt = ieee80211_aes_ccm_decrypt"
  by (simp_all add: fun_eq_iff ieee80211_aes_gcm_encrypt_def ieee80211_aes_ccm_encrypt_def
      ieee80211_aes_gcm_decrypt_def ieee80211_aes_ccm_decrypt_def)

lemma ccmp_strip_eq: "ccmp_strip = suite_strip RX_DROP_U_SHORT_CCMP_MIC"
  by (intro ext) (simp add: ccmp_strip_def suite_strip_def Let_def)

lemma gcmp_strip_eq: "gcmp_strip = suite_strip RX_DROP_U_SHORT_GCMP_MIC"
  by (intro ext) (simp add: gcmp_strip_def suite_strip_def Let_def)

lemma ccmp_encrypt_suite: "ccmp_encrypt_skb x mic = suite_tx ccmp_special_blocks u_ccmp mic x"
  by (intro ext) (simp only: ccmp_encrypt_skb_def suite_tx_def ccmp_gcmp_lens Let_def)

lemma gcmp_encrypt_suite: "gcmp_encrypt_skb x = suite_tx gcmp_special_blocks u_gcmp 16 x"
  by (intro ext) (simp only: gcmp_encrypt_skb_def suite_tx_def ccmp_gcmp_lens gcmp_pn_eq_ccmp
      aes_gcm_eq_ccm Let_def)

lemma ccmp_decrypt_suite:
  "ieee80211_crypto_ccmp_decrypt x mic = suite_rx ccmp_special_blocks u_ccmp (\<lambda>u k. k\<lparr>u_ccmp := u\<rparr>) mic
     RX_DROP_U_SHORT_CCMP RX_DROP_U_SHORT_CCMP_MIC x"
  by (intro ext) (simp add: ieee80211_crypto_ccmp_decrypt_def suite_rx_def suite_check_def suite_open_def
      ccmp_strip_eq Let_def cong: if_cong)

lemma gcmp_decrypt_suite:
  "ieee80211_crypto_gcmp_decrypt x = suite_rx gcmp_special_blocks u_gcmp (\<lambda>u k. k\<lparr>u_gcmp := u\<rparr>) 16
     RX_DROP_U_SHORT_GCMP RX_DROP_U_SHORT_GCMP_MIC x"
  by (intro ext) (simp add: ieee80211_crypto_gcmp_decrypt_def suite_rx_def suite_check_def suite_open_def
      gcmp_strip_eq gcmp_pn_eq_ccmp aes_gcm_eq_ccm Let_def cong: if_cong)

subsection \<open>The contract and its lemmas\<close>

text \<open>The number in the header field of a received frame, and the keys the receive path keeps.\<close>

definition frame_pn :: "extern \<Rightarrow> ieee80211_rx_data \<Rightarrow> nat" where
  "frame_pn x rx =
     (let f = skb_data (rx_skb rx)
      in be_nat (ccmp_hdr2pn (mem_read f (x_hdrlen x (frame_control f)) 8)))"

definition rx_pn_ok :: "nat \<Rightarrow> key_u_aead \<Rightarrow> bool" where
  "rx_pn_ok q u \<longleftrightarrow> q < length (aead_rx_pn u) \<and> (\<forall>p\<in>set (aead_rx_pn u). length p = 6)"

definition stored_pn :: "nat \<Rightarrow> key_u_aead \<Rightarrow> nat" where
  "stored_pn q u = be_nat (aead_rx_pn u ! q)"

text \<open>A protected frame of queue \<open>q\<close> whose number the handler checks.\<close>

definition pn_checked :: "nat \<Rightarrow> ieee80211_rx_data \<Rightarrow> bool" where
  "pn_checked q rx \<longleftrightarrow>
     (let f = skb_data (rx_skb rx)
      in (ieee80211_is_data (frame_control f) \<or> ieee80211_is_robust_mgmt_frame f) \<and>
         security_idx rx = q \<and> \<not> has_flag (rx_flag rx) RX_FLAG_PN_VALIDATED \<and>
         \<not> has_flag (rx_flag rx) RX_FLAG_ALLOW_SAME_PN)"

lemma suite_strip_key:
  "suite_strip sm h m rx = (r, rx') \<Longrightarrow>
     rx_key rx' = rx_key rx \<and> (r = RX_CONTINUE \<or> r = sm)"
  by (auto simp: suite_strip_def Let_def split: if_splits)

text \<open>The header field of a protected frame; frames long enough to hold their header.\<close>

definition hdr_field :: "extern \<Rightarrow> u8 list \<Rightarrow> u8 list" where
  "hdr_field x f = mem_read f (x_hdrlen x (frame_control f)) 8"

definition hdr_fits :: "extern \<Rightarrow> sk_buff \<Rightarrow> bool" where
  "hdr_fits x skb \<longleftrightarrow>
     2 \<le> x_hdrlen x (frame_control (skb_data skb)) \<and>
     x_hdrlen x (frame_control (skb_data skb)) \<le> length (skb_data skb)"

lemma take_mem_write: "n \<le> off \<Longrightarrow> n \<le> length b \<Longrightarrow> take n (mem_write b off ys) = take n b"
  by (simp add: mem_write_def min_def)

lemma hdr_field_take:
  assumes "take (h + 8) f = a @ b" "length a = h" "length b = 8" "2 \<le> h" "x_hdrlen x (frame_control a) = h"
  shows "hdr_field x f = b"
proof -
  have "f = (a @ b) @ drop (h + 8) f" using assms(1) append_take_drop_id [of "h + 8" f] by simp
  then obtain r where f: "f = a @ b @ r" by simp
  then show ?thesis
    using assms(2-5) by (simp add: hdr_field_def frame_control_cong buf_simps)
qed

locale aead_suite =
  fixes special :: "u8 list \<Rightarrow> u8 list \<Rightarrow> bool \<Rightarrow> u8 list \<times> u8 list"
    and get :: "ieee80211_key \<Rightarrow> key_u_aead"
    and upd :: "key_u_aead \<Rightarrow> ieee80211_key \<Rightarrow> ieee80211_key"
    and mic :: nat
    and short short_mic :: rx_result
    and encrypt :: "extern \<Rightarrow> ieee80211_key \<Rightarrow> sk_buff \<Rightarrow> int \<times> ieee80211_key \<times> sk_buff"
    and decrypt :: "extern \<Rightarrow> ieee80211_key \<Rightarrow> ieee80211_rx_data \<Rightarrow> rx_result \<times> ieee80211_rx_data"
  assumes get_upd [simp]: "get (upd u k) = u"
    and conf_upd [simp]: "conf (upd u k) = conf k"
    and get_inc [simp]: "get (inc_tx_pn k) = get k"
    and special_header: "hdr_complete h \<Longrightarrow> special (h @ r) pn spp = special h pn spp"
    and short_drops: "short \<noteq> RX_CONTINUE" "short_mic \<noteq> RX_CONTINUE"
    and encrypt_eq: "encrypt = suite_tx special get mic"
    and decrypt_eq: "decrypt = suite_rx special get upd mic short short_mic"
begin

lemma check_cases:
  assumes "suite_check special get upd mic short_mic x k m n rx = (r, rx')" "rx_key rx = Some k"
    and "\<not> has_flag (rx_flag rx) RX_FLAG_ALLOW_SAME_PN"
  shows "r \<noteq> RX_CONTINUE \<and> (rx_key rx' = Some k \<or> (\<exists>n. rx_key rx' = Some (upd ((get k)\<lparr>aead_replays := n\<rparr>) k))) \<or>
    (\<exists>pn. memcmp pn (aead_rx_pn (get k) ! security_idx rx) > 0 \<and> length pn = 6 \<and> be_nat pn = frame_pn x rx \<and>
       rx_key rx' = Some (upd ((get k)\<lparr>aead_rx_pn := (aead_rx_pn (get k))[security_idx rx := pn]\<rparr>) k))"
proof -
  define pn where "pn = ccmp_hdr2pn (mem_read (skb_data (rx_skb rx))
    (x_hdrlen x (frame_control (skb_data (rx_skb rx)))) 8)"
  have pn: "length pn = 6" "be_nat pn = frame_pn x rx" by (simp_all add: pn_def frame_pn_def Let_def)
  let ?res = "memcmp pn (aead_rx_pn (get k) ! security_idx rx)"
  obtain rr buf where o: "suite_open special x k (get k) (rx_skb rx) (has_flag (rx_flag rx) RX_FLAG_DECRYPTED)
      (x_hdrlen x (frame_control (skb_data (rx_skb rx)))) n mic pn = (rr, buf)"
    by (metis surj_pair)
  note d = assms(1) [unfolded suite_check_def Let_def, folded pn_def, unfolded o prod.case]
  show ?thesis
  proof (cases "?res \<le> 0")
    case True
    then have "rx_key rx' = Some (upd ((get k)\<lparr>aead_replays := aead_replays (get k) + 1\<rparr>) k)"
        "r = RX_DROP_U_REPLAY"
      using d assms(3) by (auto split: if_splits)
    then show ?thesis by blast
  next
    case False
    then have n: "(?res < 0 \<or> ?res = 0 \<and> \<not> has_flag (rx_flag rx) RX_FLAG_ALLOW_SAME_PN) = False" by auto
    show ?thesis
    proof (cases "rr = 0")
      case True
      with d n have "rx_key rx' = Some (upd ((get k)\<lparr>aead_rx_pn := (aead_rx_pn (get k))[security_idx rx := pn]\<rparr>) k)"
        by (auto dest!: suite_strip_key)
      with pn False show ?thesis by (intro disjI2 exI [of _ pn]) simp
    next
      case rr: False
      with d n assms(2) show ?thesis by (intro disjI1) auto
    qed
  qed
qed

lemma recv_checked:
  assumes "pn_checked q rx" "recv_of (decrypt x) k rx = (b, k')"
  shows "\<not> b \<and> (k' = k \<or> (\<exists>n. k' = upd ((get k)\<lparr>aead_replays := n\<rparr>) k)) \<or>
    (\<exists>pn. memcmp pn (aead_rx_pn (get k) ! q) > 0 \<and> length pn = 6 \<and> be_nat pn = frame_pn x rx \<and>
       k' = upd ((get k)\<lparr>aead_rx_pn := (aead_rx_pn (get k))[q := pn]\<rparr>) k)"
proof -
  define rx0 where "rx0 = rx\<lparr>rx_key := Some k\<rparr>"
  obtain r rx' where d: "decrypt x k rx0 = (r, rx')" by (metis surj_pair)
  have b: "b = (r = RX_CONTINUE)" "k' = (case rx_key rx' of Some k' \<Rightarrow> k' | None \<Rightarrow> k)"
    using assms(2) d by (auto simp: recv_of_def rx0_def)
  have c: "\<not> has_flag (rx_flag rx0) RX_FLAG_PN_VALIDATED" "\<not> has_flag (rx_flag rx0) RX_FLAG_ALLOW_SAME_PN"
      "security_idx rx0 = q" "rx_key rx0 = Some k" "frame_pn x rx0 = frame_pn x rx"
      "ieee80211_is_data (frame_control (skb_data (rx_skb rx0))) \<or>
       ieee80211_is_robust_mgmt_frame (skb_data (rx_skb rx0))"
    using assms(1) by (auto simp: pn_checked_def Let_def rx0_def frame_pn_def)
  have "r \<noteq> RX_CONTINUE \<and> rx' = rx0 \<or>
      (\<exists>m n. suite_check special get upd mic short_mic x k m n rx0 = (r, rx'))"
    using d [unfolded decrypt_eq suite_rx_def Let_def] c(1,6) short_drops by (auto split: if_splits)
  then consider "r \<noteq> RX_CONTINUE" "rx' = rx0"
    | m n where "suite_check special get upd mic short_mic x k m n rx0 = (r, rx')" by blast
  then show ?thesis
  proof cases
    case 1
    with b c(4) show ?thesis by simp
  next
    case (2 m n)
    from check_cases [OF 2 c(4,2)] show ?thesis
      unfolding c(3,5) b by (elim disjE exE conjE) auto
  qed
qed

lemma recv_ok:
  assumes "rx_pn_ok q (get k)" "pn_checked q rx" "recv_of (decrypt x) k rx = (b, k')"
  shows "rx_pn_ok q (get k')"
  using recv_checked [OF assms(2,3)] assms(1)
  by (auto simp: rx_pn_ok_def dest!: subsetD [OF set_update_subset_insert])

lemma recv_step:
  assumes "rx_pn_ok q (get k)" "pn_checked q rx" "recv_of (decrypt x) k rx = (b, k')"
  shows "stored_pn q (get k) < frame_pn x rx \<and> stored_pn q (get k') = frame_pn x rx \<or>
    \<not> b \<and> stored_pn q (get k') = stored_pn q (get k)"
proof -
  have l: "length (aead_rx_pn (get k) ! q) = 6" "q < length (aead_rx_pn (get k))"
    using assms(1) by (auto simp: rx_pn_ok_def)
  have "be_nat (aead_rx_pn (get k) ! q) < be_nat pn"
    if "memcmp pn (aead_rx_pn (get k) ! q) > 0" "length pn = 6" for pn
    using memcmp_le_iff [of pn "aead_rx_pn (get k) ! q"] that l by simp
  then show ?thesis
    using recv_checked [OF assms(2,3)] l(2) by (auto simp: stored_pn_def) (metis, metis)
qed

text \<open>A frame encrypted in software: header, header field with the next number, data and tag.\<close>

lemma tx_layout:
  fixes x :: extern and skb :: sk_buff and k :: ieee80211_key
  defines "d \<equiv> skb_data skb"
  defines "h \<equiv> x_hdrlen x (frame_control d)" and "pn \<equiv> pn_octets (kc_tx_pn (conf k) + 1)"
    and "spp \<equiv> has_flag (kc_flags (conf k)) IEEE80211_KEY_FLAG_SPP_AMSDU"
  assumes "hw_key (skb_tx skb) = None" "8 \<le> skb_headroom skb" "mic \<le> skb_tailroom skb"
    and "h \<le> length d" "hdr_complete (take h d)" "\<not> skb_oom skb Alloc_Request"
    and "aead_lengths x (aead_tfm (get k))" "x_aead_authsize x (aead_tfm (get k)) = mic"
    and "x_aead_encrypt x (aead_tfm (get k)) (fst (special (take h d) pn spp))
           (aad_octets (snd (special (take h d) pn spp))) (drop h d) = (r, c, m)"
  shows "\<exists>skb'. encrypt x k skb = (r, inc_tx_pn k, skb') \<and>
    skb_data skb' = take h d @ ccmp_pn2hdr pn (kc_keyidx (conf k)) @ c @ m"
proof -
  let ?p = "drop h d" and ?f = "ccmp_pn2hdr pn (kc_keyidx (conf k))" and ?t = "aead_tfm (get k)"
  obtain gap where gap: "length gap = 8"
      "skb_data (skb_memmove 0 8 h (skb_push 8 skb)) = take h d @ gap @ ?p"
    using skb_push_move [OF assms(6)] assms(8) by (auto simp: d_def)
  define skb1 where "skb1 = skb_write h ?f (skb_memmove 0 8 h (skb_push 8 skb))"
  have lh: "length (take h d) = h" using assms(8) by simp
  have d1: "skb_data skb1 = take h d @ ?f @ ?p"
    using gap lh by (simp add: skb1_def buf_simps)
  have tr: "mic \<le> skb_tailroom skb1" using assms(7) by (simp add: skb1_def skb_tailroom_def)
  obtain fill where fill: "length fill = mic" "skb_data (skb_put mic skb1) = take h d @ ?f @ ?p @ fill"
    using skb_data_put [OF tr] d1 by auto
  obtain iv aad where sp: "special (take h d) pn spp = (iv, aad)" by (metis surj_pair)
  have sp1: "special (skb_data skb1) pn spp = (iv, aad)"
    unfolding d1 special_header [OF assms(9)] by (rule sp)
  have len: "length c = length d - h" "length m = mic"
    using assms(11,12,13) by (auto simp: aead_lengths_def)
  have oom: "\<not> skb_oom (skb_put mic skb1) Alloc_Request" "\<not> skb_oom skb1 Alloc_Request"
    using assms(10) by (simp_all add: skb1_def skb_put_def skb_write_def skb_memmove_def skb_push_def Let_def)
  have enc: "ieee80211_aes_ccm_encrypt x False ?t iv aad (take h d @ ?f @ ?p @ fill) (h + 8) (length d - h)
      (h + 8 + (length d - h)) = (r, take h d @ ?f @ c @ m)"
  proof -
    have lc: "length ?p = length c" using len by simp
    have w: "mem_read ((take h d @ ?f) @ ?p @ fill) (h + 8) (length d - h) = ?p"
      using lh by (simp add: buf_simps del: append_assoc)
    have "ieee80211_aes_ccm_encrypt x False ?t iv aad ((take h d @ ?f) @ ?p @ fill) (h + 8) (length d - h)
      (h + 8 + (length d - h)) = (r, (take h d @ ?f) @ c @ m)"
      using lh len lc fill(1) assms(13) sp unfolding ieee80211_aes_ccm_encrypt_def aead_encrypt_def w
      by (simp add: buf_simps del: append_assoc length_drop)
    then show ?thesis by simp
  qed
  have lenskb1: "length (skb_data skb1) = h + 8 + (length d - h)" using d1 lh by simp
  have "encrypt x k skb = (r, inc_tx_pn k, (skb_put mic skb1)\<lparr>skb_data := take h d @ ?f @ c @ m\<rparr>)"
    using assms(5-7) fill(2) enc sp1 oom
    unfolding encrypt_eq suite_tx_def Let_def d_def [symmetric] h_def [symmetric]
    by (simp add: pn_def [symmetric] spp_def [symmetric] skb1_def [symmetric] lenskb1)
  then show ?thesis by - (rule exI, rule conjI, assumption, simp)
qed

text \<open>What the receiver makes of such a frame.\<close>

lemma rx_layout:
  fixes x :: extern and rx :: ieee80211_rx_data and k :: ieee80211_key and idx :: int
  defines "q \<equiv> security_idx rx" and "spp \<equiv> has_flag (kc_flags (conf k)) IEEE80211_KEY_FLAG_SPP_AMSDU"
  assumes "skb_data (rx_skb rx) = hdr @ ccmp_pn2hdr pn idx @ c @ m" "length pn = 6"
    and "length hdr = h" "x_hdrlen x (frame_control hdr) = h" "hdr_complete hdr"
    and "ieee80211_is_data (frame_control hdr) \<or> ieee80211_is_robust_mgmt_frame (skb_data (rx_skb rx))"
    and "\<not> has_flag (rx_flag rx) RX_FLAG_DECRYPTED" "\<not> has_flag (rx_flag rx) RX_FLAG_PN_VALIDATED"
    and "rx_sta rx \<noteq> None" "\<not> skb_linearize_fails (rx_skb rx)" "\<not> pskb_trim_fails (rx_skb rx)"
    and "\<not> skb_oom (rx_skb rx) Alloc_Request" "rx_pn_ok q (get k)"
    and "stored_pn q (get k) < be_nat pn"
    and "aead_lengths x (aead_tfm (get k))" "x_aead_authsize x (aead_tfm (get k)) = mic" "length m = mic"
    and "c \<noteq> []"
    and "x_aead_decrypt x (aead_tfm (get k)) (fst (special hdr pn spp))
           (aad_octets (snd (special hdr pn spp))) c m = (0, p)"
  shows "\<exists>rx'. decrypt x k rx = (RX_CONTINUE, rx') \<and> skb_data (rx_skb rx') = hdr @ p \<and>
    rx_key rx' = Some (upd ((get k)\<lparr>aead_rx_pn := (aead_rx_pn (get k))[q := pn]\<rparr>) k)"
proof -
  let ?d = "skb_data (rx_skb rx)" and ?f = "ccmp_pn2hdr pn idx" and ?t = "aead_tfm (get k)"
  have h24: "24 \<le> h" using hdr_complete_24 [OF assms(7)] assms(5) by simp
  have fc: "frame_control ?d = frame_control hdr"
    using h24 assms(3,5) by (simp add: frame_control_cong)
  have lp: "length p = length c" using assms(17,21) by (auto simp: aead_lengths_def)
  have len: "length ?d = h + 8 + length c + mic" using assms(3,5,19) by simp
  have rp: "ccmp_hdr2pn (mem_read ?d h 8) = pn"
  proof -
    have "mem_read ?d h 8 = ?f" using assms(3,5) by (simp add: buf_simps)
    then show ?thesis using hdr2pn_pn2hdr(1) [OF assms(4), of idx "[]"] by simp
  qed
  have l6: "length (aead_rx_pn (get k) ! q) = 6" using assms(15) by (auto simp: rx_pn_ok_def)
  have fresh: "(memcmp pn (aead_rx_pn (get k) ! q) < 0 \<or> memcmp pn (aead_rx_pn (get k) ! q) = 0 \<and>
      \<not> has_flag (rx_flag rx) RX_FLAG_ALLOW_SAME_PN) = False"
    using memcmp_le_iff [of pn "aead_rx_pn (get k) ! q"] l6 assms(4,16) by (auto simp: stored_pn_def)
  obtain iv aad where sp: "special hdr pn spp = (iv, aad)" by (metis surj_pair)
  have sp1: "special ?d pn spp = (iv, aad)"
    unfolding assms(3) special_header [OF assms(7)] by (rule sp)
  have dec: "suite_open special x k (get k) (rx_skb rx) False h (length c) mic pn = (0, hdr @ ?f @ p @ m)"
  proof -
    have "mem_read ?d (h + 8) (length c) = c" "mem_read ?d (length ?d - mic) mic = m"
      using len assms(3,5,19) by (simp_all add: buf_simps)
    moreover have "mem_write ?d (h + 8) p = hdr @ ?f @ p @ m"
      using assms(3,5) lp by (simp add: buf_simps)
    ultimately show ?thesis
      using assms(14,18,20,21) sp len unfolding suite_open_def Let_def spp_def [symmetric] sp1
      by (simp add: ieee80211_aes_ccm_decrypt_def aead_decrypt_def)
  qed
  define rx1 where "rx1 = rx\<lparr>rx_skb := (rx_skb rx)\<lparr>skb_data := hdr @ ?f @ p @ m\<rparr>,
    rx_key := Some (upd ((get k)\<lparr>aead_rx_pn := (aead_rx_pn (get k))[q := pn]\<rparr>) k),
    ccm_gcm_pn := (if ieee80211_is_frag (hdr @ ?f @ p @ m) then pn else ccm_gcm_pn rx)\<rparr>"
  have nd: "nat (int (length ?d) - int h - 8 - int mic) = length c" using len by simp
  have "decrypt x k rx = suite_strip short_mic h mic rx1"
    unfolding decrypt_eq suite_rx_def suite_check_def Let_def fc assms(6) q_def [symmetric] rp fresh nd
    using assms(8-12) dec len by (auto simp: rx1_def fc)
  moreover have "skb_data (skb_trim (rx_skb rx1) (length (skb_data (rx_skb rx1)) - mic)) = hdr @ ?f @ p"
    using assms(19) by (simp add: rx1_def skb_data_trim)
  then have "skb_data (skb_pull 8 (skb_memmove 8 0 h
      (skb_trim (rx_skb rx1) (length (skb_data (rx_skb rx1)) - mic)))) = hdr @ p"
    using assms(5) by (subst skb_data_pull_move) simp_all
  moreover have "\<not> pskb_trim_fails (rx_skb rx1)" "rx_key rx1 =
      Some (upd ((get k)\<lparr>aead_rx_pn := (aead_rx_pn (get k))[q := pn]\<rparr>) k)"
    using assms(13) by (simp_all add: rx1_def pskb_trim_fails_def)
  ultimately show ?thesis by (simp add: suite_strip_def Let_def)
qed

text \<open>Numbering: either the key is untouched, or the next number is in the header field.\<close>

lemma tx_numbers:
  assumes "encrypt x k skb = (r, k', skb')" "hdr_fits x skb"
  shows "k' = k \<or> k' = inc_tx_pn k \<and>
    hdr_field x (skb_data skb') = ccmp_pn2hdr (pn_octets (kc_tx_pn (conf k) + 1)) (kc_keyidx (conf k))"
proof -
  define d where "d = skb_data skb"
  define h where "h = x_hdrlen x (frame_control d)"
  define f where "f = ccmp_pn2hdr (pn_octets (kc_tx_pn (conf k) + 1)) (kc_keyidx (conf k))"
  have h: "2 \<le> h" "h \<le> length d" using assms(2) by (auto simp: hdr_fits_def h_def d_def)
  have fc: "frame_control (take h d) = frame_control d"
    using frame_control_cong [of "take h d" "drop h d"] h by simp
  define skb1 where "skb1 = skb_write h f (skb_memmove 0 8 h (skb_push 8 skb))"
  have field: "hdr_field x b = f" if bt: "take (h + 8) b = take (h + 8) (skb_data skb1)" "8 \<le> skb_headroom skb" for b
  proof -
    obtain gap where gap: "length gap = 8"
        "skb_data (skb_memmove 0 8 h (skb_push 8 skb)) = take h d @ gap @ drop h d"
      using skb_push_move [OF bt(2)] h by (auto simp: d_def)
    have "take (h + 8) (skb_data skb1) = take h d @ f"
      using gap h by (simp add: skb1_def buf_simps f_def)
    with bt(1) show ?thesis
      using h fc by (intro hdr_field_take [of h b "take h d" f x]) (auto simp: f_def h_def)
  qed
  have len1: "h + 8 \<le> length (skb_data skb1)" if hr: "8 \<le> skb_headroom skb"
  proof -
    obtain gap where gap: "length gap = 8"
        "skb_data (skb_memmove 0 8 h (skb_push 8 skb)) = take h d @ gap @ drop h d"
      using skb_push_move [OF hr] h by (auto simp: d_def)
    then show ?thesis using h by (simp add: skb1_def buf_simps f_def)
  qed
  obtain iv aad where sp: "special (skb_data skb1) (pn_octets (kc_tx_pn (conf k) + 1))
      (has_flag (kc_flags (conf k)) IEEE80211_KEY_FLAG_SPP_AMSDU) = (iv, aad)"
    by (metis surj_pair)
  obtain r2 buf where e: "ieee80211_aes_ccm_encrypt x (skb_oom (skb_put mic skb1) Alloc_Request)
      (aead_tfm (get k)) iv aad (skb_data (skb_put mic skb1)) (h + 8) (length d - h)
      (length (skb_data skb1)) = (r2, buf)"
    by (metis surj_pair)
  have tb: "take (h + 8) buf = take (h + 8) (skb_data skb1)" if hr: "8 \<le> skb_headroom skb"
  proof -
    have "h + 8 \<le> length (skb_data skb1)" by (rule len1 [OF hr])
    moreover from this have "h + 8 \<le> length (mem_write (skb_data skb1 @ t) (h + 8) c)" for t c
      by (simp add: mem_write_def)
    ultimately show ?thesis
      using e by (auto simp: ieee80211_aes_ccm_encrypt_def take_mem_write skb_put_def split: prod.splits)
  qed
  show ?thesis
  proof (cases "8 \<le> skb_headroom skb")
    case False
    then show ?thesis
      using assms(1) unfolding encrypt_eq suite_tx_def Let_def by (auto split: if_splits option.splits)
  next
    case True
    note fields = field [OF refl True] field [OF tb [OF True] True]
    show ?thesis
      using assms(1) fields unfolding encrypt_eq suite_tx_def Let_def d_def [symmetric] h_def [symmetric]
      by (auto split: if_splits option.splits simp: f_def [symmetric] skb1_def [symmetric] sp e)
  qed
qed

text \<open>What a sender emits, in the terms of \<open>pn_source\<close>.\<close>

lemma send_ok:
  assumes "kc_keyidx (conf k) = i" "hdr_fits x skb" "send_of (encrypt x) (hdr_field x) k skb = (f, k')"
  shows "kc_keyidx (conf k') = i"
proof -
  obtain r k1 skb1 where e: "encrypt x k skb = (r, k1, skb1)" by (metis prod_cases3)
  with tx_numbers [OF e assms(2)] assms(1,3) show ?thesis by (auto simp: send_of_def)
qed

lemma send_step:
  assumes "kc_keyidx (conf k) = i" "hdr_fits x skb" "unat (kc_tx_pn (conf k)) + 1 < 2 ^ 48"
    and "send_of (encrypt x) (hdr_field x) k skb = (f, k')"
  shows "f = None \<and> unat (kc_tx_pn (conf k')) \<in> {unat (kc_tx_pn (conf k)), unat (kc_tx_pn (conf k)) + 1} \<or>
    f = Some (ccmp_pn2hdr (pn_octets (word_of_nat (unat (kc_tx_pn (conf k)) + 1))) i) \<and>
    unat (kc_tx_pn (conf k')) = unat (kc_tx_pn (conf k)) + 1"
proof -
  obtain r k1 skb1 where e: "encrypt x k skb = (r, k1, skb1)" by (metis prod_cases3)
  have n: "unat (kc_tx_pn (conf k) + 1) = unat (kc_tx_pn (conf k)) + 1"
    using assms(3) by (simp add: unat_word_ariths)
  have w: "word_of_nat (unat (kc_tx_pn (conf k)) + 1) = kc_tx_pn (conf k) + 1" by simp
  show ?thesis
    using tx_numbers [OF e assms(2)] assms(1,4) e n unfolding w
    by (auto simp: send_of_def split: if_splits)
qed

end

lemma ccmp_hdr_inj: "inj_on (\<lambda>n. ccmp_pn2hdr (pn_octets (word_of_nat n)) i) {..<2 ^ 48}"
proof (rule inj_onI)
  fix a b :: nat
  assume ab: "a \<in> {..<2 ^ 48}" "b \<in> {..<2 ^ 48}"
    and "ccmp_pn2hdr (pn_octets (word_of_nat a)) i = ccmp_pn2hdr (pn_octets (word_of_nat b)) i"
  then have "ccmp_hdr2pn (ccmp_pn2hdr (pn_octets (word_of_nat a)) i @ []) =
      ccmp_hdr2pn (ccmp_pn2hdr (pn_octets (word_of_nat b)) i @ [])" by simp
  then have "pn_octets (word_of_nat a) = pn_octets (word_of_nat b)" by (simp only: hdr2pn_pn2hdr length_pn)
  with ab show "a = b" using pn_octets_inj by (auto dest: inj_onD)
qed

end
