(* ===== verification/Wpa_Aead.thy ===== *)
theory Wpa_Aead
  imports Aead_Suite
begin

text \<open>
  The properties of the CCMP and GCMP handlers: the suite, receiver and sender contracts
  interpreted on them, and the round trip, the acceptance of numbers, the uniqueness of the
  numbers sent, and the binding of the header by the additional data.
\<close>

subsection \<open>CCMP and GCMP are suites\<close>

lemma ccmp_special_append:
  assumes "hdr_complete h"
  shows "ccmp_special_blocks (h @ r) pn spp = ccmp_special_blocks h pn spp"
  using hdr_complete_24 [OF assms]
  by (simp add: ccmp_special_blocks_def ccmp_gcmp_aad_append [OF assms] frame_control_cong addrs_append)

lemma gcmp_special_append:
  assumes "hdr_complete h"
  shows "gcmp_special_blocks (h @ r) pn spp = gcmp_special_blocks h pn spp"
  using hdr_complete_24 [OF assms]
  by (simp add: gcmp_special_blocks_def ccmp_gcmp_aad_append [OF assms] addrs_append)

interpretation ccmp: aead_suite ccmp_special_blocks u_ccmp "\<lambda>u k. k\<lparr>u_ccmp := u\<rparr>" mic
    RX_DROP_U_SHORT_CCMP RX_DROP_U_SHORT_CCMP_MIC
    "\<lambda>x. ccmp_encrypt_skb x mic" "\<lambda>x. ieee80211_crypto_ccmp_decrypt x mic"
  for mic
  by unfold_locales (simp_all add: ccmp_special_append fun_eq_iff ccmp_encrypt_suite ccmp_decrypt_suite)

interpretation gcmp: aead_suite gcmp_special_blocks u_gcmp "\<lambda>u k. k\<lparr>u_gcmp := u\<rparr>" 16
    RX_DROP_U_SHORT_GCMP RX_DROP_U_SHORT_GCMP_MIC gcmp_encrypt_skb ieee80211_crypto_gcmp_decrypt
  by unfold_locales (simp_all add: gcmp_special_append fun_eq_iff gcmp_encrypt_suite gcmp_decrypt_suite)

interpretation ccmp_rx: replay_window "recv_of (ieee80211_crypto_ccmp_decrypt x mic)"
    "\<lambda>k. stored_pn q (u_ccmp k)" "frame_pn x" "\<lambda>k. rx_pn_ok q (u_ccmp k)" "pn_checked q"
  for x mic q
proof unfold_locales
  fix k :: ieee80211_key and f b k'
  assume a: "rx_pn_ok q (u_ccmp k)" "pn_checked q f"
  show "recv_of (ieee80211_crypto_ccmp_decrypt x mic) k f = (b, k') \<Longrightarrow> rx_pn_ok q (u_ccmp k')"
    by (rule ccmp.recv_ok [OF a])
  show "recv_of (ieee80211_crypto_ccmp_decrypt x mic) k f = (True, k') \<Longrightarrow>
      stored_pn q (u_ccmp k) < frame_pn x f \<and> stored_pn q (u_ccmp k') = frame_pn x f"
    using ccmp.recv_step [OF a] by blast
  show "recv_of (ieee80211_crypto_ccmp_decrypt x mic) k f = (False, k') \<Longrightarrow>
      stored_pn q (u_ccmp k) \<le> stored_pn q (u_ccmp k')"
    using ccmp.recv_step [OF a] by fastforce
qed

interpretation gcmp_rx: replay_window "recv_of (ieee80211_crypto_gcmp_decrypt x)"
    "\<lambda>k. stored_pn q (u_gcmp k)" "frame_pn x" "\<lambda>k. rx_pn_ok q (u_gcmp k)" "pn_checked q"
  for x q
proof unfold_locales
  fix k :: ieee80211_key and f b k'
  assume a: "rx_pn_ok q (u_gcmp k)" "pn_checked q f"
  show "recv_of (ieee80211_crypto_gcmp_decrypt x) k f = (b, k') \<Longrightarrow> rx_pn_ok q (u_gcmp k')"
    by (rule gcmp.recv_ok [OF a])
  show "recv_of (ieee80211_crypto_gcmp_decrypt x) k f = (True, k') \<Longrightarrow>
      stored_pn q (u_gcmp k) < frame_pn x f \<and> stored_pn q (u_gcmp k') = frame_pn x f"
    using gcmp.recv_step [OF a] by blast
  show "recv_of (ieee80211_crypto_gcmp_decrypt x) k f = (False, k') \<Longrightarrow>
      stored_pn q (u_gcmp k) \<le> stored_pn q (u_gcmp k')"
    using gcmp.recv_step [OF a] by fastforce
qed

interpretation ccmp_tx: pn_source "send_of (ccmp_encrypt_skb x mic) (hdr_field x)"
    "\<lambda>k. unat (kc_tx_pn (conf k))" "\<lambda>n. ccmp_pn2hdr (pn_octets (word_of_nat n)) i"
    "\<lambda>k. kc_keyidx (conf k) = i" "hdr_fits x" "2 ^ 48"
  for x mic i
  by unfold_locales (fact ccmp.send_ok, fact ccmp.send_step, rule ccmp_hdr_inj)

interpretation gcmp_tx: pn_source "send_of (gcmp_encrypt_skb x) (hdr_field x)"
    "\<lambda>k. unat (kc_tx_pn (conf k))" "\<lambda>n. ccmp_pn2hdr (pn_octets (word_of_nat n)) i"
    "\<lambda>k. kc_keyidx (conf k) = i" "hdr_fits x" "2 ^ 48"
  for x i
  by unfold_locales (fact gcmp.send_ok, fact gcmp.send_step, rule ccmp_hdr_inj)

subsection \<open>Properties\<close>

text \<open>C2: A frame encrypted by the CCMP transmit handler (the transform reporting success) and
  received unchanged under a key with the same transform, by a receiver whose stored number is
  older, passes the receive handler: header (with the Protected bit) and payload are restored,
  and the number sent becomes the stored number of its queue. The payload must not be empty:
  the receive path refuses to decrypt no octets.\<close>

theorem ccmp_roundtrip:
  assumes "d = or_frame_control (skb_data skb) IEEE80211_FCTL_PROTECTED"
    and "h = x_hdrlen x (frame_control d)" "hdr_complete (take h d)" "h < length d"
    and "hw_key (skb_tx skb) = None" "8 \<le> skb_headroom skb" "mic \<le> skb_tailroom skb"
    and "\<not> skb_oom skb Alloc_Request"
    and "aead_lengths x (aead_tfm (u_ccmp k))" "aead_inverse x (aead_tfm (u_ccmp k))"
    and "x_aead_authsize x (aead_tfm (u_ccmp k)) = mic"
    and "spp = has_flag (kc_flags (conf k)) IEEE80211_KEY_FLAG_SPP_AMSDU"
    and "pn = pn_octets (kc_tx_pn (conf k) + 1)"
    and "fst (x_aead_encrypt x (aead_tfm (u_ccmp k)) (fst (ccmp_special_blocks (take h d) pn spp))
           (aad_octets (snd (ccmp_special_blocks (take h d) pn spp))) (drop h d)) = 0"
    and "skb_data (rx_skb rx) = skb_data (hd (snd (snd (ieee80211_crypto_ccmp_encrypt x mic k [skb]))))"
    and "ieee80211_is_data (frame_control d) \<or> ieee80211_is_robust_mgmt_frame (skb_data (rx_skb rx))"
    and "\<not> has_flag (rx_flag rx) RX_FLAG_DECRYPTED" "\<not> has_flag (rx_flag rx) RX_FLAG_PN_VALIDATED"
    and "rx_sta rx \<noteq> None" "\<not> skb_linearize_fails (rx_skb rx)" "\<not> pskb_trim_fails (rx_skb rx)"
    and "\<not> skb_oom (rx_skb rx) Alloc_Request"
    and "aead_tfm (u_ccmp kr) = aead_tfm (u_ccmp k)"
    and "has_flag (kc_flags (conf kr)) IEEE80211_KEY_FLAG_SPP_AMSDU = spp"
    and "rx_pn_ok (security_idx rx) (u_ccmp kr)" "stored_pn (security_idx rx) (u_ccmp kr) < be_nat pn"
  shows "fst (ieee80211_crypto_ccmp_encrypt x mic k [skb]) = TX_CONTINUE \<and>
    (case ieee80211_crypto_ccmp_decrypt x mic kr rx of (r, rx') \<Rightarrow>
       r = RX_CONTINUE \<and> skb_data (rx_skb rx') = d \<and>
       (case rx_key rx' of None \<Rightarrow> False
        | Some k' \<Rightarrow> stored_pn (security_idx rx) (u_ccmp k') = be_nat pn))"
proof -
  let ?s = "set_protected skb" and ?t = "aead_tfm (u_ccmp k)" and ?hdr = "take h d" and ?p = "drop h d"
  have sp: "hw_key (skb_tx ?s) = None" "8 \<le> skb_headroom ?s" "mic \<le> skb_tailroom ?s" "skb_data ?s = d"
      "\<not> skb_oom ?s Alloc_Request"
    using assms(1,5-8) by (simp_all add: set_protected_def skb_headroom_def skb_tailroom_def)
  obtain c m where e: "x_aead_encrypt x ?t (fst (ccmp_special_blocks ?hdr pn spp))
      (aad_octets (snd (ccmp_special_blocks ?hdr pn spp))) ?p = (0, c, m)"
    using assms(14) by (metis prod.collapse)
  obtain skb' where enc: "ccmp_encrypt_skb x mic k ?s = (0, inc_tx_pn k, skb')"
    and dat: "skb_data skb' = ?hdr @ ccmp_pn2hdr pn (kc_keyidx (conf k)) @ c @ m"
    using ccmp.tx_layout [of ?s mic x k] sp assms(2-4,9,11-13) e by auto
  have tx: "ieee80211_crypto_ccmp_encrypt x mic k [skb] = (TX_CONTINUE, inc_tx_pn k, [skb'])"
    using enc by (simp add: ieee80211_crypto_ccmp_encrypt_def ieee80211_tx_set_protected_def)
  have lh: "length ?hdr = h" using assms(4) by simp
  have fc: "frame_control ?hdr = frame_control d"
    using frame_control_cong [of ?hdr ?p] hdr_complete_24 [OF assms(3)] by simp
  have len: "length m = mic" "length c = length ?p"
    using aead_lengthsD(1,2) [OF assms(9) e] assms(11) by simp_all
  then have c: "c \<noteq> []" using assms(4) by auto
  have p6: "length pn = 6" using assms(13) by simp
  have inv: "x_aead_decrypt x ?t (fst (ccmp_special_blocks ?hdr pn spp))
      (aad_octets (snd (ccmp_special_blocks ?hdr pn spp))) c m = (0, ?p)"
    using e assms(10) unfolding aead_inverse_def by blast
  obtain rx' where "ieee80211_crypto_ccmp_decrypt x mic kr rx = (RX_CONTINUE, rx')"
      "skb_data (rx_skb rx') = ?hdr @ ?p"
      "rx_key rx' = Some (kr\<lparr>u_ccmp := (u_ccmp kr)\<lparr>aead_rx_pn := (aead_rx_pn (u_ccmp kr))[security_idx rx := pn]\<rparr>\<rparr>)"
    using ccmp.rx_layout [of rx ?hdr pn "kc_keyidx (conf k)" c m h x kr mic ?p] tx dat lh fc p6 c len inv
      assms(2,3,9,11,15-26) by auto
  then show ?thesis
    using tx assms(25) by (simp add: stored_pn_def rx_pn_ok_def)
qed

lemma ccmp_roundtrip_witness:
  "let k = ex_key 0x000FAC04 16; skb = ex_skb (ex_hdr @ [1, 2, 3]);
       rx = ex_rx (skb_data (hd (snd (snd (ieee80211_crypto_ccmp_encrypt ex_extern 8 k [skb]))))) k
   in fst (ieee80211_crypto_ccmp_encrypt ex_extern 8 k [skb]) = TX_CONTINUE \<and>
      (case ieee80211_crypto_ccmp_decrypt ex_extern 8 k rx of (r, rx') \<Rightarrow>
         r = RX_CONTINUE \<and>
         skb_data (rx_skb rx') = or_frame_control (ex_hdr @ [1, 2, 3]) IEEE80211_FCTL_PROTECTED \<and>
         (case rx_key rx' of None \<Rightarrow> False
          | Some k' \<Rightarrow> stored_pn (security_idx rx) (u_ccmp k') = be_nat (pn_octets (7 + 1))))"
  unfolding Let_def
  by (rule ccmp_roundtrip [where h = 24 and spp = False and
        d = "or_frame_control (ex_hdr @ [1, 2, 3]) IEEE80211_FCTL_PROTECTED"])
    (((simp; fail) | (simp add: ex_defs has_flag_def rx_pn_ok_def stored_pn_def be_nat_pn_octets; fail) | code_simp)+)

text \<open>A frame encrypted by the GCMP transmit handler (the transform reporting success) and
  received unchanged under a key with the same transform, by a receiver whose stored number is
  older, passes the receive handler: header (with the Protected bit) and payload are restored,
  and the number sent becomes the stored number of its queue. The payload must not be empty:
  the receive path refuses to decrypt no octets.\<close>

theorem gcmp_roundtrip:
  assumes "d = or_frame_control (skb_data skb) IEEE80211_FCTL_PROTECTED"
    and "h = x_hdrlen x (frame_control d)" "hdr_complete (take h d)" "h < length d"
    and "hw_key (skb_tx skb) = None" "8 \<le> skb_headroom skb" "16 \<le> skb_tailroom skb"
    and "\<not> skb_oom skb Alloc_Request"
    and "aead_lengths x (aead_tfm (u_gcmp k))" "aead_inverse x (aead_tfm (u_gcmp k))"
    and "x_aead_authsize x (aead_tfm (u_gcmp k)) = 16"
    and "spp = has_flag (kc_flags (conf k)) IEEE80211_KEY_FLAG_SPP_AMSDU"
    and "pn = pn_octets (kc_tx_pn (conf k) + 1)"
    and "fst (x_aead_encrypt x (aead_tfm (u_gcmp k)) (fst (gcmp_special_blocks (take h d) pn spp))
           (aad_octets (snd (gcmp_special_blocks (take h d) pn spp))) (drop h d)) = 0"
    and "skb_data (rx_skb rx) = skb_data (hd (snd (snd (ieee80211_crypto_gcmp_encrypt x k [skb]))))"
    and "ieee80211_is_data (frame_control d) \<or> ieee80211_is_robust_mgmt_frame (skb_data (rx_skb rx))"
    and "\<not> has_flag (rx_flag rx) RX_FLAG_DECRYPTED" "\<not> has_flag (rx_flag rx) RX_FLAG_PN_VALIDATED"
    and "rx_sta rx \<noteq> None" "\<not> skb_linearize_fails (rx_skb rx)" "\<not> pskb_trim_fails (rx_skb rx)"
    and "\<not> skb_oom (rx_skb rx) Alloc_Request"
    and "aead_tfm (u_gcmp kr) = aead_tfm (u_gcmp k)"
    and "has_flag (kc_flags (conf kr)) IEEE80211_KEY_FLAG_SPP_AMSDU = spp"
    and "rx_pn_ok (security_idx rx) (u_gcmp kr)" "stored_pn (security_idx rx) (u_gcmp kr) < be_nat pn"
  shows "fst (ieee80211_crypto_gcmp_encrypt x k [skb]) = TX_CONTINUE \<and>
    (case ieee80211_crypto_gcmp_decrypt x kr rx of (r, rx') \<Rightarrow>
       r = RX_CONTINUE \<and> skb_data (rx_skb rx') = d \<and>
       (case rx_key rx' of None \<Rightarrow> False
        | Some k' \<Rightarrow> stored_pn (security_idx rx) (u_gcmp k') = be_nat pn))"
proof -
  let ?s = "set_protected skb" and ?t = "aead_tfm (u_gcmp k)" and ?hdr = "take h d" and ?p = "drop h d"
  have sp: "hw_key (skb_tx ?s) = None" "8 \<le> skb_headroom ?s" "16 \<le> skb_tailroom ?s" "skb_data ?s = d"
      "\<not> skb_oom ?s Alloc_Request"
    using assms(1,5-8) by (simp_all add: set_protected_def skb_headroom_def skb_tailroom_def)
  obtain c m where e: "x_aead_encrypt x ?t (fst (gcmp_special_blocks ?hdr pn spp))
      (aad_octets (snd (gcmp_special_blocks ?hdr pn spp))) ?p = (0, c, m)"
    using assms(14) by (metis prod.collapse)
  obtain skb' where enc: "gcmp_encrypt_skb x k ?s = (0, inc_tx_pn k, skb')"
    and dat: "skb_data skb' = ?hdr @ ccmp_pn2hdr pn (kc_keyidx (conf k)) @ c @ m"
    using gcmp.tx_layout [of ?s x k] sp assms(2-4,9,11-13) e by auto
  have tx: "ieee80211_crypto_gcmp_encrypt x k [skb] = (TX_CONTINUE, inc_tx_pn k, [skb'])"
    using enc by (simp add: ieee80211_crypto_gcmp_encrypt_def ieee80211_tx_set_protected_def)
  have lh: "length ?hdr = h" using assms(4) by simp
  have fc: "frame_control ?hdr = frame_control d"
    using frame_control_cong [of ?hdr ?p] hdr_complete_24 [OF assms(3)] by simp
  have len: "length m = 16" "length c = length ?p"
    using aead_lengthsD(1,2) [OF assms(9) e] assms(11) by simp_all
  then have c: "c \<noteq> []" using assms(4) by auto
  have p6: "length pn = 6" using assms(13) by simp
  have inv: "x_aead_decrypt x ?t (fst (gcmp_special_blocks ?hdr pn spp))
      (aad_octets (snd (gcmp_special_blocks ?hdr pn spp))) c m = (0, ?p)"
    using e assms(10) unfolding aead_inverse_def by blast
  obtain rx' where "ieee80211_crypto_gcmp_decrypt x kr rx = (RX_CONTINUE, rx')"
      "skb_data (rx_skb rx') = ?hdr @ ?p"
      "rx_key rx' = Some (kr\<lparr>u_gcmp := (u_gcmp kr)\<lparr>aead_rx_pn := (aead_rx_pn (u_gcmp kr))[security_idx rx := pn]\<rparr>\<rparr>)"
    using gcmp.rx_layout [of rx ?hdr pn "kc_keyidx (conf k)" c m h x kr ?p] tx dat lh fc p6 c len inv
      assms(2,3,9,11,15-26) by auto
  then show ?thesis
    using tx assms(25) by (simp add: stored_pn_def rx_pn_ok_def)
qed

lemma gcmp_roundtrip_witness:
  "let k = ex_key 0x000FAC04 16; skb = ex_skb (ex_hdr @ [1, 2, 3]);
       rx = ex_rx (skb_data (hd (snd (snd (ieee80211_crypto_gcmp_encrypt ex_extern k [skb]))))) k
   in fst (ieee80211_crypto_gcmp_encrypt ex_extern k [skb]) = TX_CONTINUE \<and>
      (case ieee80211_crypto_gcmp_decrypt ex_extern k rx of (r, rx') \<Rightarrow>
         r = RX_CONTINUE \<and>
         skb_data (rx_skb rx') = or_frame_control (ex_hdr @ [1, 2, 3]) IEEE80211_FCTL_PROTECTED \<and>
         (case rx_key rx' of None \<Rightarrow> False
          | Some k' \<Rightarrow> stored_pn (security_idx rx) (u_gcmp k') = be_nat (pn_octets (7 + 1))))"
  unfolding Let_def
  by (rule gcmp_roundtrip [where h = 24 and spp = False and
        d = "or_frame_control (ex_hdr @ [1, 2, 3]) IEEE80211_FCTL_PROTECTED"])
    (((simp; fail) | (simp add: ex_defs has_flag_def rx_pn_ok_def stored_pn_def be_nat_pn_octets; fail) | code_simp)+)

text \<open>C1: Out of any sequence of CCMP frames of one queue, the frames accepted have strictly
  increasing packet numbers, all beyond the number stored before: none is accepted twice, and
  none is accepted after a newer one. This holds whether hardware or software decrypts.\<close>

theorem ccmp_accepts_increasing:
  assumes "rx_pn_ok q (u_ccmp k)" "\<forall>f\<in>set fs. pn_checked q f"
    and "acc = fst (accept_run (recv_of (ieee80211_crypto_ccmp_decrypt x mic)) k fs)"
  shows "sorted_wrt (<) (map (frame_pn x) acc) \<and> distinct (map (frame_pn x) acc) \<and>
    (\<forall>f\<in>set acc. stored_pn q (u_ccmp k) < frame_pn x f)"
  unfolding assms(3)
  using ccmp_rx.accepted_increasing [OF assms(1,2)] ccmp_rx.accepted_distinct [OF assms(1,2)] by blast

lemma ccmp_accepts_increasing_witness:
  "let fs = map (\<lambda>n. (ex_rx (ex_hdr @ ccmp_pn2hdr (pn_octets n) 1 @ [1, 2, 3]) (ex_key 0x000FAC04 16))
        \<lparr>rx_skb := (ex_skb (ex_hdr @ ccmp_pn2hdr (pn_octets n) 1 @ [1, 2, 3]))
           \<lparr>skb_rx := \<lparr>rs_flag = RX_FLAG_DECRYPTED OR RX_FLAG_MIC_STRIPPED, rs_rx_flags = 0\<rparr>\<rparr>\<rparr>) [1, 3, 2, 3, 4];
       acc = fst (accept_run (recv_of (ieee80211_crypto_ccmp_decrypt ex_extern 8)) (ex_key 0x000FAC04 16) fs)
   in length acc = 3 \<and> sorted_wrt (<) (map (frame_pn ex_extern) acc) \<and> distinct (map (frame_pn ex_extern) acc) \<and>
      (\<forall>f\<in>set acc. stored_pn 0 (u_ccmp (ex_key 0x000FAC04 16)) < frame_pn ex_extern f)"
proof -
  define fs where "fs = map (\<lambda>n. (ex_rx (ex_hdr @ ccmp_pn2hdr (pn_octets n) 1 @ [1, 2, 3]) (ex_key 0x000FAC04 16))
        \<lparr>rx_skb := (ex_skb (ex_hdr @ ccmp_pn2hdr (pn_octets n) 1 @ [1, 2, 3]))
           \<lparr>skb_rx := \<lparr>rs_flag = RX_FLAG_DECRYPTED OR RX_FLAG_MIC_STRIPPED, rs_rx_flags = 0\<rparr>\<rparr>\<rparr>)
      [1, 3, 2, 3, 4 :: u64]"
  have "length (fst (accept_run (recv_of (ieee80211_crypto_ccmp_decrypt ex_extern 8)) (ex_key 0x000FAC04 16) fs)) = 3"
    unfolding fs_def by code_simp
  moreover have "rx_pn_ok 0 (u_ccmp (ex_key 0x000FAC04 16))"
    by (simp add: rx_pn_ok_def ex_defs)
  moreover have "\<forall>f\<in>set fs. pn_checked 0 f" unfolding fs_def by code_simp
  ultimately show ?thesis
    using ccmp_accepts_increasing [where q = 0 and k = "ex_key 0x000FAC04 16" and fs = fs and x = ex_extern and mic = 8, OF _ _ refl]
    unfolding fs_def [symmetric] Let_def by blast
qed

text \<open>Out of any sequence of GCMP frames of one queue, the frames accepted have strictly
  increasing packet numbers, all beyond the number stored before: none is accepted twice, and
  none is accepted after a newer one. This holds whether hardware or software decrypts.\<close>

theorem gcmp_accepts_increasing:
  assumes "rx_pn_ok q (u_gcmp k)" "\<forall>f\<in>set fs. pn_checked q f"
    and "acc = fst (accept_run (recv_of (ieee80211_crypto_gcmp_decrypt x)) k fs)"
  shows "sorted_wrt (<) (map (frame_pn x) acc) \<and> distinct (map (frame_pn x) acc) \<and>
    (\<forall>f\<in>set acc. stored_pn q (u_gcmp k) < frame_pn x f)"
  unfolding assms(3)
  using gcmp_rx.accepted_increasing [OF assms(1,2)] gcmp_rx.accepted_distinct [OF assms(1,2)] by blast

lemma gcmp_accepts_increasing_witness:
  "let fs = map (\<lambda>n. (ex_rx (ex_hdr @ ccmp_pn2hdr (pn_octets n) 1 @ [1, 2, 3]) (ex_key 0x000FAC04 16))
        \<lparr>rx_skb := (ex_skb (ex_hdr @ ccmp_pn2hdr (pn_octets n) 1 @ [1, 2, 3]))
           \<lparr>skb_rx := \<lparr>rs_flag = RX_FLAG_DECRYPTED OR RX_FLAG_MIC_STRIPPED, rs_rx_flags = 0\<rparr>\<rparr>\<rparr>) [1, 3, 2, 3, 4];
       acc = fst (accept_run (recv_of (ieee80211_crypto_gcmp_decrypt ex_extern)) (ex_key 0x000FAC04 16) fs)
   in length acc = 3 \<and> sorted_wrt (<) (map (frame_pn ex_extern) acc) \<and> distinct (map (frame_pn ex_extern) acc) \<and>
      (\<forall>f\<in>set acc. stored_pn 0 (u_gcmp (ex_key 0x000FAC04 16)) < frame_pn ex_extern f)"
proof -
  define fs where "fs = map (\<lambda>n. (ex_rx (ex_hdr @ ccmp_pn2hdr (pn_octets n) 1 @ [1, 2, 3]) (ex_key 0x000FAC04 16))
        \<lparr>rx_skb := (ex_skb (ex_hdr @ ccmp_pn2hdr (pn_octets n) 1 @ [1, 2, 3]))
           \<lparr>skb_rx := \<lparr>rs_flag = RX_FLAG_DECRYPTED OR RX_FLAG_MIC_STRIPPED, rs_rx_flags = 0\<rparr>\<rparr>\<rparr>)
      [1, 3, 2, 3, 4 :: u64]"
  have "length (fst (accept_run (recv_of (ieee80211_crypto_gcmp_decrypt ex_extern)) (ex_key 0x000FAC04 16) fs)) = 3"
    unfolding fs_def by code_simp
  moreover have "rx_pn_ok 0 (u_gcmp (ex_key 0x000FAC04 16))"
    by (simp add: rx_pn_ok_def ex_defs)
  moreover have "\<forall>f\<in>set fs. pn_checked 0 f" unfolding fs_def by code_simp
  ultimately show ?thesis
    using gcmp_accepts_increasing [where q = 0 and k = "ex_key 0x000FAC04 16" and fs = fs and x = ex_extern, OF _ _ refl]
    unfolding fs_def [symmetric] Let_def by blast
qed

text \<open>C31: As long as the transmit counter stays below 2 to the 48, no two frames encrypted
  under one CCMP key carry the same packet number, whichever frames fail or are left to the
  hardware in between.\<close>

theorem ccmp_numbers_distinct:
  assumes "\<forall>skb\<in>set skbs. hdr_fits x skb" "unat (kc_tx_pn (conf k)) + length skbs < 2 ^ 48"
  shows "distinct (emitted (send_of (ccmp_encrypt_skb x mic) (hdr_field x)) k skbs)"
  using ccmp_tx.sent_distinct [OF refl assms] .

lemma ccmp_numbers_distinct_witness:
  "length (emitted (send_of (ccmp_encrypt_skb ex_extern 8) (hdr_field ex_extern)) (ex_key 0x000FAC04 16)
      [ex_skb (ex_hdr @ [1, 2]), ex_skb (ex_hdr @ [1, 2])]) = 2 \<and>
   distinct (emitted (send_of (ccmp_encrypt_skb ex_extern 8) (hdr_field ex_extern)) (ex_key 0x000FAC04 16)
      [ex_skb (ex_hdr @ [1, 2]), ex_skb (ex_hdr @ [1, 2])])"
proof (rule conjI)
  show "length (emitted (send_of (ccmp_encrypt_skb ex_extern 8) (hdr_field ex_extern)) (ex_key 0x000FAC04 16)
      [ex_skb (ex_hdr @ [1, 2]), ex_skb (ex_hdr @ [1, 2])]) = 2" by code_simp
qed (rule ccmp_numbers_distinct, code_simp, simp add: ex_defs)

text \<open>As long as the transmit counter stays below 2 to the 48, no two frames encrypted
  under one GCMP key carry the same packet number, whichever frames fail or are left to the
  hardware in between.\<close>

theorem gcmp_numbers_distinct:
  assumes "\<forall>skb\<in>set skbs. hdr_fits x skb" "unat (kc_tx_pn (conf k)) + length skbs < 2 ^ 48"
  shows "distinct (emitted (send_of (gcmp_encrypt_skb x) (hdr_field x)) k skbs)"
  using gcmp_tx.sent_distinct [OF refl assms] .

lemma gcmp_numbers_distinct_witness:
  "length (emitted (send_of (gcmp_encrypt_skb ex_extern) (hdr_field ex_extern)) (ex_key 0x000FAC04 16)
      [ex_skb (ex_hdr @ [1, 2]), ex_skb (ex_hdr @ [1, 2])]) = 2 \<and>
   distinct (emitted (send_of (gcmp_encrypt_skb ex_extern) (hdr_field ex_extern)) (ex_key 0x000FAC04 16)
      [ex_skb (ex_hdr @ [1, 2]), ex_skb (ex_hdr @ [1, 2])])"
proof (rule conjI)
  show "length (emitted (send_of (gcmp_encrypt_skb ex_extern) (hdr_field ex_extern)) (ex_key 0x000FAC04 16)
      [ex_skb (ex_hdr @ [1, 2]), ex_skb (ex_hdr @ [1, 2])]) = 2" by code_simp
qed (rule gcmp_numbers_distinct, code_simp, simp add: ex_defs)

lemma u16_mask_kept:
  fixes fc :: u16
  shows "((if b then (fc AND NOT 0x3800) AND NOT 0x0070 else fc AND NOT 0x3800) OR 0x4000) AND 0x078F = fc AND 0x078F"
    and "(((if b then (fc AND NOT 0x3800) AND NOT 0x0070 else fc AND NOT 0x3800) OR 0x4000) AND NOT 0x8000) AND 0x078F
      = fc AND 0x078F"
proof -
  have d: "(a OR b) AND m = (a AND m) OR (b AND m)" for a b m :: u16
    by (rule bit_word_eqI) (auto simp: bit_simps)
  have m: "NOT (0x3800 :: u16) AND 0x078F = 0x078F" "NOT (0x0070 :: u16) AND 0x078F = 0x078F"
    "(0x4000 :: u16) AND 0x078F = 0" "NOT (0x8000 :: u16) AND 0x078F = 0x078F"
    by simp_all
  show "((if b then (fc AND NOT 0x3800) AND NOT 0x0070 else fc AND NOT 0x3800) OR 0x4000) AND 0x078F = fc AND 0x078F"
    by (cases b) (simp_all only: if_True if_False d and.assoc m or.right_neutral)
  show "(((if b then (fc AND NOT 0x3800) AND NOT 0x0070 else fc AND NOT 0x3800) OR 0x4000) AND NOT 0x8000) AND 0x078F
      = fc AND 0x078F"
    by (cases b) (simp_all only: if_True if_False and.assoc m, simp_all only: d and.assoc m or.right_neutral)
qed

text \<open>The additional data binds the header: two frames with the same additional data agree
  in their three addresses, the fourth address if there is one, the fragment number, the
  priority, and in the frame control bits that are not masked (version, type, the QoS bit, the
  direction bits, More Fragments); a change of any of them changes the authenticated octets.\<close>

theorem aad_binds_header:
  assumes "hdr_complete h1" "hdr_complete h2"
    and "snd (ccmp_gcmp_aad h1 spp) = snd (ccmp_gcmp_aad h2 spp)"
    and "fc1 = frame_control h1" "fc2 = frame_control h2"
  shows "addrs h1 = addrs h2 \<and> h1 ! 22 AND 0x0f = h2 ! 22 AND 0x0f \<and>
    fst (ccmp_gcmp_aad h1 spp) = fst (ccmp_gcmp_aad h2 spp) \<and>
    ieee80211_has_a4 fc1 = ieee80211_has_a4 fc2 \<and> ieee80211_is_data_qos fc1 = ieee80211_is_data_qos fc2 \<and>
    (ieee80211_has_a4 fc1 \<longrightarrow> addr4 h1 = addr4 h2) \<and> fc1 AND 0x078F = fc2 AND 0x078F"
proof -
  have la: "length (addrs h) = 18" if "hdr_complete h" for h
    using hdr_complete_24 [OF that] by (simp add: addrs_def ETH_ALEN_def length_mem_read)
  have l4: "length (addr4 h) = 6" if "hdr_complete h" "ieee80211_has_a4 (frame_control h)" for h
    using that by (simp add: hdr_complete_def hdr_present_def length_addrs_read)
  have be: "be16_bytes a = be16_bytes b \<longleftrightarrow> a = b" for a b
    using get_be16_bytes [of a "[]"] get_be16_bytes [of b "[]"] by metis
  have le: "le16_bytes a = le16_bytes b \<longleftrightarrow> a = b" for a b
    using get_le16_bytes [of a "[]"] get_le16_bytes [of b "[]"] by metis
  define f where "f h = (let fc = frame_control h;
      m = fc AND NOT (IEEE80211_FCTL_RETRY OR IEEE80211_FCTL_PM OR IEEE80211_FCTL_MOREDATA);
      m = (if \<not> ieee80211_is_mgmt fc then m AND NOT 0x0070 else m) OR IEEE80211_FCTL_PROTECTED
    in if ieee80211_is_data_qos fc then m AND NOT IEEE80211_FCTL_ORDER else m)" for h
  define l where "l h = (let fc = frame_control h; n = (if ieee80211_has_a4 fc then 28 else 22 :: u16)
    in if ieee80211_is_data_qos fc then n + 2 else n)" for h
  define t where "t h = fst (ccmp_gcmp_aad h spp)" for h
  define r where "r h = (if ieee80211_has_a4 (frame_control h) then addr4 h @ [t h, 0] else [t h] @ replicate 7 0)" for h
  have aad: "snd (ccmp_gcmp_aad h spp) = be16_bytes (l h) @ le16_bytes (f h) @ addrs h @ [h ! 22 AND 0x0f, 0] @ r h" for h
    unfolding l_def f_def r_def t_def ccmp_gcmp_aad_def Let_def by (simp only: fst_conv snd_conv)
  have e: "l h1 = l h2" "f h1 = f h2" "addrs h1 = addrs h2" "h1 ! 22 AND 0x0f = h2 ! 22 AND 0x0f" "r h1 = r h2"
    using assms(3) la [OF assms(1)] la [OF assms(2)] unfolding aad by (auto simp: be le)
  have a4: "ieee80211_has_a4 fc1 = ieee80211_has_a4 fc2" "ieee80211_is_data_qos fc1 = ieee80211_is_data_qos fc2"
    using e(1) unfolding l_def Let_def assms(4,5) by (auto split: if_splits)
  have k: "f h AND 0x078F = frame_control h AND 0x078F" for h
  proof -
    have "(IEEE80211_FCTL_RETRY OR IEEE80211_FCTL_PM OR IEEE80211_FCTL_MOREDATA) = 0x3800" by simp
    then show ?thesis unfolding f_def Let_def by (simp only: if_distrib [of "\<lambda>w. w AND _"]) (simp only: u16_mask_kept if_cancel)
  qed
  have fc: "fc1 AND 0x078F = fc2 AND 0x078F"
    using k [of h1] k [of h2] e(2) assms(4,5) by simp
  have t: "t h1 = t h2 \<and> (ieee80211_has_a4 fc1 \<longrightarrow> addr4 h1 = addr4 h2)"
    using e(5) a4(1) l4 [OF assms(1)] l4 [OF assms(2)] unfolding r_def assms(4,5) by (auto split: if_splits)
  show ?thesis using e a4 t fc unfolding t_def by blast
qed

lemma aad_binds_header_witness:
  "let h1 = ex_hdr; h2 = or_frame_control ex_hdr IEEE80211_FCTL_RETRY in
   addrs h1 = addrs h2 \<and> h1 ! 22 AND 0x0f = h2 ! 22 AND 0x0f \<and>
   fst (ccmp_gcmp_aad h1 False) = fst (ccmp_gcmp_aad h2 False) \<and>
   ieee80211_has_a4 (frame_control h1) = ieee80211_has_a4 (frame_control h2) \<and>
   ieee80211_is_data_qos (frame_control h1) = ieee80211_is_data_qos (frame_control h2) \<and>
   (ieee80211_has_a4 (frame_control h1) \<longrightarrow> addr4 h1 = addr4 h2) \<and>
   frame_control h1 AND 0x078F = frame_control h2 AND 0x078F"
  unfolding Let_def
  by (rule aad_binds_header [OF _ _ _ refl refl]) (code_simp, code_simp, code_simp)

end
