(* ===== verification/Bip.thy ===== *)
theory Bip
  imports Ccm_Gcm
begin

text \<open>
  The broadcast integrity protocol: the message authentication codes of \<^verbatim>\<open>aes_cmac.c\<close> and
  \<^verbatim>\<open>aes_gmac.c\<close>, and the handlers of \<^verbatim>\<open>wpa.c\<close> that append the management MIC element
  (MMIE) to a group-addressed management frame and check and remove it.
\<close>

subsection \<open>Message authentication codes\<close>

abbreviation (input) CMAC_TLEN :: nat where "CMAC_TLEN \<equiv> 8"
abbreviation (input) CMAC_TLEN_256 :: nat where "CMAC_TLEN_256 \<equiv> 16"
abbreviation (input) GMAC_MIC_LEN :: nat where "GMAC_MIC_LEN \<equiv> 16"

text \<open>
  The octets hashed: the additional data, the frame body with the timestamp of a beacon masked,
  and zeros for the code itself. The data ends in the code's own octets, so it is no shorter
  than the code (and eight octets more in a beacon).
\<close>

definition ieee80211_aes_cmac :: "extern \<Rightarrow> tfm \<Rightarrow> u8 list \<Rightarrow> u8 list \<Rightarrow> u8 list" where
  "ieee80211_aes_cmac x t aad data =
     (let body = (if ieee80211_is_beacon (get_unaligned_le16 aad 0)
                  then replicate 8 0 @ mem_read data 8 (length data - 8 - CMAC_TLEN)
                  else mem_read data 0 (length data - CMAC_TLEN));
          out = x_shash x t (aad @ body @ replicate CMAC_TLEN 0)
      in take CMAC_TLEN out)"

definition ieee80211_aes_cmac_256 :: "extern \<Rightarrow> tfm \<Rightarrow> u8 list \<Rightarrow> u8 list \<Rightarrow> u8 list" where
  "ieee80211_aes_cmac_256 x t aad data =
     (let body = (if ieee80211_is_beacon (get_unaligned_le16 aad 0)
                  then replicate 8 0 @ mem_read data 8 (length data - 8 - CMAC_TLEN_256)
                  else mem_read data 0 (length data - CMAC_TLEN_256))
      in x_shash x t (aad @ body @ replicate CMAC_TLEN_256 0))"

text \<open>GMAC is GCM with no data, all octets additional; the status and the code buffer.\<close>

definition ieee80211_aes_gmac ::
  "extern \<Rightarrow> bool \<Rightarrow> tfm \<Rightarrow> u8 list \<Rightarrow> u8 list \<Rightarrow> u8 list \<Rightarrow> u8 list \<Rightarrow> int \<times> u8 list" where
  "ieee80211_aes_gmac x oom t aad nonce data mic =
     (if length data < GMAC_MIC_LEN then (- EINVAL, mic)
      else if oom then (- ENOMEM, mic)
      else
        (let body = (if ieee80211_is_beacon (get_unaligned_le16 aad 0)
                     then replicate 8 0 @ mem_read data 8 (length data - 8 - GMAC_MIC_LEN)
                     else mem_read data 0 (length data - GMAC_MIC_LEN));
             iv = nonce @ replicate 3 0 @ [0x01]
         in case x_aead_encrypt x t iv (aad @ body @ replicate GMAC_MIC_LEN 0) [] of
              (r, _, m) \<Rightarrow> (r, m)))"

subsection \<open>Additional data and packet number\<close>

definition bip_aad :: "u8 list \<Rightarrow> u8 list" where
  "bip_aad hdr =
     le16_bytes (frame_control hdr AND
       NOT (IEEE80211_FCTL_RETRY OR IEEE80211_FCTL_PM OR IEEE80211_FCTL_MOREDATA))
     @ addrs hdr"

definition bip_ipn_set64 :: "u64 \<Rightarrow> u8 list" where
  "bip_ipn_set64 pn = [ucast pn, ucast (drop_bit 8 pn), ucast (drop_bit 16 pn),
     ucast (drop_bit 24 pn), ucast (drop_bit 32 pn), ucast (drop_bit 40 pn)]"

definition bip_ipn_swap :: "u8 list \<Rightarrow> u8 list" where
  "bip_ipn_swap s = [s ! 5, s ! 4, s ! 3, s ! 2, s ! 1, s ! 0]"

text \<open>
  \<^verbatim>\<open>struct ieee80211_mmie\<close> and \<^verbatim>\<open>struct ieee80211_mmie_16\<close>: element id, length, key id in
  two octets, packet number in six, code in eight or sixteen.
\<close>

abbreviation (input) WLAN_EID_MMIE :: u8 where "WLAN_EID_MMIE \<equiv> 76"

definition sizeof_mmie :: nat where "sizeof_mmie = 18"
definition sizeof_mmie_16 :: nat where "sizeof_mmie_16 = 26"

subsection \<open>CMAC\<close>

definition ieee80211_crypto_aes_cmac_encrypt ::
  "extern \<Rightarrow> ieee80211_key \<Rightarrow> sk_buff list \<Rightarrow> tx_result \<times> ieee80211_key \<times> sk_buff list" where
  "ieee80211_crypto_aes_cmac_encrypt x key skbs =
     (case skbs of
        [skb] \<Rightarrow>
          (let hw = hw_key (skb_tx skb) in
           if hw \<noteq> None \<and> \<not> has_flag (kc_flags (conf key)) IEEE80211_KEY_FLAG_GENERATE_MMIE
           then (TX_CONTINUE, key, [skb])
           else if skb_tailroom skb < sizeof_mmie then (TX_DROP, key, [skb])
           else
             (let mmie = skb_len skb;
                  skb = skb_put sizeof_mmie skb;
                  key = inc_tx_pn key;
                  ipn = bip_ipn_set64 (kc_tx_pn (conf key));
                  skb = skb_write mmie
                          ([WLAN_EID_MMIE, word_of_nat (sizeof_mmie - 2)]
                           @ le16_bytes (word_of_int (kc_keyidx (conf key))) @ ipn) skb
              in if hw \<noteq> None then (TX_CONTINUE, key, [skb])
                 else
                   (let aad = bip_aad (skb_data skb);
                        mic = ieee80211_aes_cmac x (bip_tfm (u_aes_cmac key)) aad
                                (mem_read (skb_data skb) 24 (skb_len skb - 24))
                    in (TX_CONTINUE, key, [skb_write (mmie + 10) mic skb]))))
      | _ \<Rightarrow> (TX_DROP, key, skbs))"

definition ieee80211_crypto_aes_cmac_decrypt ::
  "extern \<Rightarrow> ieee80211_key \<Rightarrow> ieee80211_rx_data \<Rightarrow> rx_result \<times> ieee80211_rx_data" where
  "ieee80211_crypto_aes_cmac_decrypt x key rx =
     (let skb = rx_skb rx; hdr = skb_data skb in
      if \<not> ieee80211_is_mgmt (frame_control hdr) then (RX_CONTINUE, rx)
      else if skb_len skb < 24 + sizeof_mmie then (RX_DROP_U_SHORT_CMAC, rx)
      else
        (let mmie = drop (skb_len skb - sizeof_mmie) hdr; u = u_aes_cmac key in
         if mmie ! 0 \<noteq> WLAN_EID_MMIE \<or> mmie ! 1 \<noteq> word_of_nat (sizeof_mmie - 2)
         then (RX_DROP_U_BAD_MMIE, rx)
         else
           (let ipn = bip_ipn_swap (mem_read mmie 4 6) in
            if memcmp ipn (bip_rx_pn u) \<le> 0
            then (RX_DROP_U_REPLAY,
                  rx\<lparr>rx_key := Some (key\<lparr>u_aes_cmac := u\<lparr>bip_replays := bip_replays u + 1\<rparr>\<rparr>)\<rparr>)
            else
              (let checked = \<not> has_flag (rx_flag rx) RX_FLAG_DECRYPTED in
               if checked \<and>
                  ieee80211_aes_cmac x (bip_tfm u) (bip_aad hdr) (mem_read hdr 24 (skb_len skb - 24))
                    \<noteq> mem_read mmie 10 8
               then (RX_DROP_U_MIC_FAIL,
                     rx\<lparr>rx_key := Some (key\<lparr>u_aes_cmac := u\<lparr>bip_icverrors := bip_icverrors u + 1\<rparr>\<rparr>)\<rparr>)
               else
                 (RX_CONTINUE,
                  rx\<lparr>rx_key := Some (key\<lparr>u_aes_cmac := u\<lparr>bip_rx_pn := ipn\<rparr>\<rparr>),
                     rx_skb := skb_trim skb (skb_len skb - sizeof_mmie)\<rparr>)))))"

subsection \<open>CMAC-256\<close>

definition ieee80211_crypto_aes_cmac_256_encrypt ::
  "extern \<Rightarrow> ieee80211_key \<Rightarrow> sk_buff list \<Rightarrow> tx_result \<times> ieee80211_key \<times> sk_buff list" where
  "ieee80211_crypto_aes_cmac_256_encrypt x key skbs =
     (case skbs of
        [skb] \<Rightarrow>
          (let hw = hw_key (skb_tx skb) in
           if hw \<noteq> None \<and> \<not> has_flag (kc_flags (conf key)) IEEE80211_KEY_FLAG_GENERATE_MMIE
           then (TX_CONTINUE, key, [skb])
           else if skb_tailroom skb < sizeof_mmie_16 then (TX_DROP, key, [skb])
           else
             (let mmie = skb_len skb;
                  skb = skb_put sizeof_mmie_16 skb;
                  key = inc_tx_pn key;
                  ipn = bip_ipn_set64 (kc_tx_pn (conf key));
                  skb = skb_write mmie
                          ([WLAN_EID_MMIE, word_of_nat (sizeof_mmie_16 - 2)]
                           @ le16_bytes (word_of_int (kc_keyidx (conf key))) @ ipn) skb
              in if hw \<noteq> None then (TX_CONTINUE, key, [skb])
                 else
                   (let aad = bip_aad (skb_data skb);
                        mic = ieee80211_aes_cmac_256 x (bip_tfm (u_aes_cmac key)) aad
                                (mem_read (skb_data skb) 24 (skb_len skb - 24))
                    in (TX_CONTINUE, key, [skb_write (mmie + 10) mic skb]))))
      | _ \<Rightarrow> (TX_DROP, key, skbs))"

definition ieee80211_crypto_aes_cmac_256_decrypt ::
  "extern \<Rightarrow> ieee80211_key \<Rightarrow> ieee80211_rx_data \<Rightarrow> rx_result \<times> ieee80211_rx_data" where
  "ieee80211_crypto_aes_cmac_256_decrypt x key rx =
     (let skb = rx_skb rx; hdr = skb_data skb in
      if \<not> ieee80211_is_mgmt (frame_control hdr) then (RX_CONTINUE, rx)
      else if skb_len skb < 24 + sizeof_mmie_16 then (RX_DROP_U_SHORT_CMAC256, rx)
      else
        (let mmie = drop (skb_len skb - sizeof_mmie_16) hdr; u = u_aes_cmac key in
         if mmie ! 0 \<noteq> WLAN_EID_MMIE \<or> mmie ! 1 \<noteq> word_of_nat (sizeof_mmie_16 - 2)
         then (RX_DROP_U_BAD_MMIE, rx)
         else
           (let ipn = bip_ipn_swap (mem_read mmie 4 6) in
            if memcmp ipn (bip_rx_pn u) \<le> 0
            then (RX_DROP_U_REPLAY,
                  rx\<lparr>rx_key := Some (key\<lparr>u_aes_cmac := u\<lparr>bip_replays := bip_replays u + 1\<rparr>\<rparr>)\<rparr>)
            else
              (let checked = \<not> has_flag (rx_flag rx) RX_FLAG_DECRYPTED in
               if checked \<and>
                  ieee80211_aes_cmac_256 x (bip_tfm u) (bip_aad hdr) (mem_read hdr 24 (skb_len skb - 24))
                    \<noteq> mem_read mmie 10 16
               then (RX_DROP_U_MIC_FAIL,
                     rx\<lparr>rx_key := Some (key\<lparr>u_aes_cmac := u\<lparr>bip_icverrors := bip_icverrors u + 1\<rparr>\<rparr>)\<rparr>)
               else
                 (RX_CONTINUE,
                  rx\<lparr>rx_key := Some (key\<lparr>u_aes_cmac := u\<lparr>bip_rx_pn := ipn\<rparr>\<rparr>),
                     rx_skb := skb_trim skb (skb_len skb - sizeof_mmie_16)\<rparr>)))))"

subsection \<open>GMAC\<close>

definition ieee80211_crypto_aes_gmac_encrypt ::
  "extern \<Rightarrow> ieee80211_key \<Rightarrow> sk_buff list \<Rightarrow> tx_result \<times> ieee80211_key \<times> sk_buff list" where
  "ieee80211_crypto_aes_gmac_encrypt x key skbs =
     (case skbs of
        [skb] \<Rightarrow>
          (let hw = hw_key (skb_tx skb) in
           if hw \<noteq> None \<and> \<not> has_flag (kc_flags (conf key)) IEEE80211_KEY_FLAG_GENERATE_MMIE
           then (TX_CONTINUE, key, [skb])
           else if skb_tailroom skb < sizeof_mmie_16 then (TX_DROP, key, [skb])
           else
             (let mmie = skb_len skb;
                  skb = skb_put sizeof_mmie_16 skb;
                  key = inc_tx_pn key;
                  ipn = bip_ipn_set64 (kc_tx_pn (conf key));
                  skb = skb_write mmie
                          ([WLAN_EID_MMIE, word_of_nat (sizeof_mmie_16 - 2)]
                           @ le16_bytes (word_of_int (kc_keyidx (conf key))) @ ipn) skb
              in if hw \<noteq> None then (TX_CONTINUE, key, [skb])
                 else
                   (let aad = bip_aad (skb_data skb);
                        nonce = addr2 (skb_data skb) @ bip_ipn_swap ipn;
                        (r, mic) = ieee80211_aes_gmac x (skb_oom skb Alloc_Request) (bip_tfm (u_aes_gmac key)) aad nonce
                                     (mem_read (skb_data skb) 24 (skb_len skb - 24))
                                     (mem_read (skb_data skb) (mmie + 10) GMAC_MIC_LEN);
                        skb = skb_write (mmie + 10) mic skb
                    in (if r < 0 then TX_DROP else TX_CONTINUE, key, [skb]))))
      | _ \<Rightarrow> (TX_DROP, key, skbs))"

definition ieee80211_crypto_aes_gmac_decrypt ::
  "extern \<Rightarrow> ieee80211_key \<Rightarrow> ieee80211_rx_data \<Rightarrow> rx_result \<times> ieee80211_rx_data" where
  "ieee80211_crypto_aes_gmac_decrypt x key rx =
     (let skb = rx_skb rx; hdr = skb_data skb in
      if \<not> ieee80211_is_mgmt (frame_control hdr) then (RX_CONTINUE, rx)
      else if skb_len skb < 24 + sizeof_mmie_16 then (RX_DROP_U_SHORT_GMAC, rx)
      else
        (let mmie = drop (skb_len skb - sizeof_mmie_16) hdr; u = u_aes_gmac key in
         if mmie ! 0 \<noteq> WLAN_EID_MMIE \<or> mmie ! 1 \<noteq> word_of_nat (sizeof_mmie_16 - 2)
         then (RX_DROP_U_BAD_MMIE, rx)
         else
           (let ipn = bip_ipn_swap (mem_read mmie 4 6) in
            if memcmp ipn (bip_rx_pn u) \<le> 0
            then (RX_DROP_U_REPLAY,
                  rx\<lparr>rx_key := Some (key\<lparr>u_aes_gmac := u\<lparr>bip_replays := bip_replays u + 1\<rparr>\<rparr>)\<rparr>)
            else
              (let checked = \<not> has_flag (rx_flag rx) RX_FLAG_DECRYPTED in
               if checked \<and> skb_oom skb Alloc_Mic then (RX_DROP_U_OOM, rx)
               else if checked \<and>
                 (case ieee80211_aes_gmac x (skb_oom skb Alloc_Request) (bip_tfm u) (bip_aad hdr) (addr2 hdr @ ipn)
                         (mem_read hdr 24 (skb_len skb - 24)) (replicate GMAC_MIC_LEN 0) of
                    (r, mic) \<Rightarrow> r < 0 \<or> mic \<noteq> mem_read mmie 10 16)
               then (RX_DROP_U_MIC_FAIL,
                     rx\<lparr>rx_key := Some (key\<lparr>u_aes_gmac := u\<lparr>bip_icverrors := bip_icverrors u + 1\<rparr>\<rparr>)\<rparr>)
               else
                 (RX_CONTINUE,
                  rx\<lparr>rx_key := Some (key\<lparr>u_aes_gmac := u\<lparr>bip_rx_pn := ipn\<rparr>\<rparr>),
                     rx_skb := skb_trim skb (skb_len skb - sizeof_mmie_16)\<rparr>)))))"

lemma sizeof_mmies [simp]: "sizeof_mmie = 18" "sizeof_mmie_16 = 26"
  by (simp_all add: sizeof_mmie_def sizeof_mmie_16_def)

end
