(* ===== verification/Bip_Suite.thy ===== *)
theory Bip_Suite
  imports Bip
begin

text \<open>
  CMAC, CMAC-256 and GMAC as instances of one contract: a code over the frame without its own
  octets, the member of the key it uses, and handlers of a given shape. The round trip and the
  replay check are proved once; the three handlers interpret the contract and the receiver
  contract, and the properties follow.
\<close>

type_synonym mac_fun =
  "extern \<Rightarrow> bool \<Rightarrow> tfm \<Rightarrow> u8 list \<Rightarrow> u8 list \<Rightarrow> u8 list \<Rightarrow> u8 list \<Rightarrow> int \<times> u8 list"

subsection \<open>The shape of the handlers\<close>

definition bip_tx ::
  "(ieee80211_key \<Rightarrow> key_u_bip) \<Rightarrow> nat \<Rightarrow> mac_fun \<Rightarrow>
     extern \<Rightarrow> ieee80211_key \<Rightarrow> sk_buff list \<Rightarrow> tx_result \<times> ieee80211_key \<times> sk_buff list" where
  "bip_tx get n mac x key skbs =
     (case skbs of
        [skb] \<Rightarrow>
          (let hw = hw_key (skb_tx skb) in
           if hw \<noteq> None \<and> \<not> has_flag (kc_flags (conf key)) IEEE80211_KEY_FLAG_GENERATE_MMIE
           then (TX_CONTINUE, key, [skb])
           else if skb_tailroom skb < n + 10 then (TX_DROP, key, [skb])
           else
             (let mmie = skb_len skb;
                  skb = skb_put (n + 10) skb;
                  key = inc_tx_pn key;
                  ipn = bip_ipn_set64 (kc_tx_pn (conf key));
                  skb = skb_write mmie
                          ([WLAN_EID_MMIE, word_of_nat (n + 8)]
                           @ le16_bytes (word_of_int (kc_keyidx (conf key))) @ ipn) skb
              in if hw \<noteq> None then (TX_CONTINUE, key, [skb])
                 else
                   (let (r, mic) = mac x (skb_oom skb Alloc_Request) (bip_tfm (get key)) (bip_aad (skb_data skb))
                                     (addr2 (skb_data skb) @ bip_ipn_swap ipn)
                                     (mem_read (skb_data skb) 24 (skb_len skb - 24))
                                     (mem_read (skb_data skb) (mmie + 10) n);
                        skb = skb_write (mmie + 10) mic skb
                    in (if r < 0 then TX_DROP else TX_CONTINUE, key, [skb]))))
      | _ \<Rightarrow> (TX_DROP, key, skbs))"

definition bip_rx ::
  "(ieee80211_key \<Rightarrow> key_u_bip) \<Rightarrow> (key_u_bip \<Rightarrow> ieee80211_key \<Rightarrow> ieee80211_key) \<Rightarrow> nat \<Rightarrow> rx_result \<Rightarrow>
     bool \<Rightarrow> mac_fun \<Rightarrow> extern \<Rightarrow> ieee80211_key \<Rightarrow> ieee80211_rx_data \<Rightarrow> rx_result \<times> ieee80211_rx_data" where
  "bip_rx get upd n short alloc mac x key rx =
     (let skb = rx_skb rx; hdr = skb_data skb in
      if \<not> ieee80211_is_mgmt (frame_control hdr) then (RX_CONTINUE, rx)
      else if skb_len skb < 24 + (n + 10) then (short, rx)
      else
        (let mmie = drop (skb_len skb - (n + 10)) hdr; u = get key in
         if mmie ! 0 \<noteq> WLAN_EID_MMIE \<or> mmie ! 1 \<noteq> word_of_nat (n + 8)
         then (RX_DROP_U_BAD_MMIE, rx)
         else
           (let ipn = bip_ipn_swap (mem_read mmie 4 6) in
            if memcmp ipn (bip_rx_pn u) \<le> 0
            then (RX_DROP_U_REPLAY, rx\<lparr>rx_key := Some (upd (u\<lparr>bip_replays := bip_replays u + 1\<rparr>) key)\<rparr>)
            else
              (let checked = \<not> has_flag (rx_flag rx) RX_FLAG_DECRYPTED in
               if checked \<and> alloc \<and> skb_oom skb Alloc_Mic then (RX_DROP_U_OOM, rx)
               else if checked \<and>
                 (case mac x (skb_oom skb Alloc_Request) (bip_tfm u) (bip_aad hdr) (addr2 hdr @ ipn)
                         (mem_read hdr 24 (skb_len skb - 24)) (replicate n 0) of
                    (r, mic) \<Rightarrow> r < 0 \<or> mic \<noteq> mem_read mmie 10 n)
               then (RX_DROP_U_MIC_FAIL, rx\<lparr>rx_key := Some (upd (u\<lparr>bip_icverrors := bip_icverrors u + 1\<rparr>) key)\<rparr>)
               else
                 (RX_CONTINUE,
                  rx\<lparr>rx_key := Some (upd (u\<lparr>bip_rx_pn := ipn\<rparr>) key),
                     rx_skb := skb_trim skb (skb_len skb - (n + 10))\<rparr>)))))"

definition cmac_fun :: mac_fun where
  "cmac_fun x oom t aad nonce data mic = (0, ieee80211_aes_cmac x t aad data)"

definition cmac_256_fun :: mac_fun where
  "cmac_256_fun x oom t aad nonce data mic = (0, ieee80211_aes_cmac_256 x t aad data)"

lemma bip_tx_eqs:
  "ieee80211_crypto_aes_cmac_encrypt = bip_tx u_aes_cmac 8 cmac_fun"
  "ieee80211_crypto_aes_cmac_256_encrypt = bip_tx u_aes_cmac 16 cmac_256_fun"
  "ieee80211_crypto_aes_gmac_encrypt = bip_tx u_aes_gmac 16 ieee80211_aes_gmac"
  by (intro ext, simp add: ieee80211_crypto_aes_cmac_encrypt_def ieee80211_crypto_aes_cmac_256_encrypt_def
      ieee80211_crypto_aes_gmac_encrypt_def bip_tx_def cmac_fun_def cmac_256_fun_def Let_def
      split: list.split)+

lemma bip_rx_eqs:
  "ieee80211_crypto_aes_cmac_decrypt = bip_rx u_aes_cmac (\<lambda>u k. k\<lparr>u_aes_cmac := u\<rparr>) 8
     RX_DROP_U_SHORT_CMAC False cmac_fun"
  "ieee80211_crypto_aes_cmac_256_decrypt = bip_rx u_aes_cmac (\<lambda>u k. k\<lparr>u_aes_cmac := u\<rparr>) 16
     RX_DROP_U_SHORT_CMAC256 False cmac_256_fun"
  "ieee80211_crypto_aes_gmac_decrypt = bip_rx u_aes_gmac (\<lambda>u k. k\<lparr>u_aes_gmac := u\<rparr>) 16
     RX_DROP_U_SHORT_GMAC True ieee80211_aes_gmac"
  by (intro ext, simp add: ieee80211_crypto_aes_cmac_decrypt_def ieee80211_crypto_aes_cmac_256_decrypt_def
      ieee80211_crypto_aes_gmac_decrypt_def bip_rx_def cmac_fun_def cmac_256_fun_def Let_def)+

subsection \<open>The contract\<close>

definition bip_frame_pn :: "nat \<Rightarrow> ieee80211_rx_data \<Rightarrow> nat" where
  "bip_frame_pn n rx =
     (let f = skb_data (rx_skb rx)
      in be_nat (bip_ipn_swap (mem_read (drop (length f - (n + 10)) f) 4 6)))"

definition is_mgmt_rx :: "ieee80211_rx_data \<Rightarrow> bool" where
  "is_mgmt_rx rx \<longleftrightarrow> ieee80211_is_mgmt (frame_control (skb_data (rx_skb rx)))"

lemma length_bip_ipn [simp]: "length (bip_ipn_swap s) = 6" "length (bip_ipn_set64 pn) = 6"
  by (simp_all add: bip_ipn_swap_def bip_ipn_set64_def)

lemma bip_ipn_swap_set: "bip_ipn_swap (bip_ipn_set64 pn) = pn_octets pn"
  by (simp add: bip_ipn_swap_def bip_ipn_set64_def pn_octets_def)

lemma length_bip_aad: "24 \<le> length hdr \<Longrightarrow> length (bip_aad hdr) = 20"
  by (simp add: bip_aad_def addrs_def ETH_ALEN_def length_mem_read)

lemma bip_aad_append: "24 \<le> length hdr \<Longrightarrow> bip_aad (hdr @ r) = bip_aad hdr"
  by (simp add: bip_aad_def addrs_append frame_control_cong)

locale bip_suite =
  fixes get :: "ieee80211_key \<Rightarrow> key_u_bip"
    and upd :: "key_u_bip \<Rightarrow> ieee80211_key \<Rightarrow> ieee80211_key"
    and n :: nat
    and short :: rx_result
    and alloc :: bool
    and mac :: mac_fun
    and ext_ok :: "extern \<Rightarrow> tfm \<Rightarrow> bool"
    and encrypt :: "extern \<Rightarrow> ieee80211_key \<Rightarrow> sk_buff list \<Rightarrow> tx_result \<times> ieee80211_key \<times> sk_buff list"
    and decrypt :: "extern \<Rightarrow> ieee80211_key \<Rightarrow> ieee80211_rx_data \<Rightarrow> rx_result \<times> ieee80211_rx_data"
  assumes get_upd [simp]: "get (upd u k) = u"
    and get_inc [simp]: "get (inc_tx_pn k) = get k"
    and short_drops: "short \<noteq> RX_CONTINUE"
    and mac_own: "length m = n \<Longrightarrow> length m' = n \<Longrightarrow> length b \<ge> 8 \<Longrightarrow>
      mac x oom t aad nonce (b @ m) old = (r, c) \<Longrightarrow> 0 \<le> r \<Longrightarrow>
      mac x False t aad nonce (b @ m') old' = (r, c)"
    and mac_length: "ext_ok x t \<Longrightarrow> mac x oom t aad nonce d old = (r, c) \<Longrightarrow> 0 \<le> r \<Longrightarrow> length c = n"
    and encrypt_eq: "encrypt = bip_tx get n mac"
    and decrypt_eq: "decrypt = bip_rx get upd n short alloc mac"
begin

lemma recv_checked:
  assumes "is_mgmt_rx rx" "recv_of (decrypt x) k rx = (b, k')"
  shows "\<not> b \<and> bip_rx_pn (get k') = bip_rx_pn (get k) \<or>
    (\<exists>pn. b \<and> memcmp pn (bip_rx_pn (get k)) > 0 \<and> length pn = 6 \<and> be_nat pn = bip_frame_pn n rx \<and>
       bip_rx_pn (get k') = pn)"
proof -
  define rx0 where "rx0 = rx\<lparr>rx_key := Some k\<rparr>"
  obtain r rx' where d: "decrypt x k rx0 = (r, rx')" by (metis surj_pair)
  have b: "b = (r = RX_CONTINUE)" "k' = (case rx_key rx' of Some k' \<Rightarrow> k' | None \<Rightarrow> k)"
    using assms(2) d by (auto simp: recv_of_def rx0_def)
  define f where "f = skb_data (rx_skb rx)"
  define ipn where "ipn = bip_ipn_swap (mem_read (drop (length f - (n + 10)) f) 4 6)"
  have i: "length ipn = 6" "be_nat ipn = bip_frame_pn n rx"
    by (simp_all add: ipn_def bip_frame_pn_def f_def Let_def)
  have m: "ieee80211_is_mgmt (frame_control f)" using assms(1) by (simp add: is_mgmt_rx_def f_def)
  have e: "skb_data (rx_skb rx0) = f" "rx_key rx0 = Some k" by (simp_all add: rx0_def f_def)
  show ?thesis
    using d [unfolded decrypt_eq bip_rx_def Let_def e, folded ipn_def] b i m short_drops e(2)
    by (auto split: if_splits simp: not_le)
qed

lemma recv_ok:
  assumes "length (bip_rx_pn (get k)) = 6" "is_mgmt_rx rx" "recv_of (decrypt x) k rx = (b, k')"
  shows "length (bip_rx_pn (get k')) = 6"
  using recv_checked [OF assms(2,3)] assms(1) by auto

lemma recv_step:
  assumes "length (bip_rx_pn (get k)) = 6" "is_mgmt_rx rx" "recv_of (decrypt x) k rx = (b, k')"
  shows "if b then be_nat (bip_rx_pn (get k)) < bip_frame_pn n rx \<and>
      be_nat (bip_rx_pn (get k')) = bip_frame_pn n rx
    else bip_rx_pn (get k') = bip_rx_pn (get k)"
proof -
  have "be_nat (bip_rx_pn (get k)) < be_nat pn"
    if "memcmp pn (bip_rx_pn (get k)) > 0" "length pn = 6" for pn
    using memcmp_le_iff [of pn "bip_rx_pn (get k)"] that assms(1) by simp
  then show ?thesis using recv_checked [OF assms(2,3)] by metis
qed

text \<open>A management frame protected in software, and what the receiver makes of it.\<close>

lemma roundtrip:
  fixes x :: extern and k kr :: ieee80211_key
  defines "pn \<equiv> pn_octets (kc_tx_pn (conf k) + 1)"
  assumes "n \<le> 16" "d = skb_data skb" "32 \<le> length d" "ieee80211_is_mgmt (frame_control d)"
    and "hw_key (skb_tx skb) = None" "n + 10 \<le> skb_tailroom skb" "ext_ok x (bip_tfm (get k))"
    and "encrypt x k [skb] = (TX_CONTINUE, k', [skb'])"
    and "skb_data (rx_skb rx) = skb_data skb'"
    and "\<not> skb_oom (rx_skb rx) Alloc_Mic" "\<not> skb_oom (rx_skb rx) Alloc_Request"
    and "bip_tfm (get kr) = bip_tfm (get k)" "length (bip_rx_pn (get kr)) = 6"
    and "be_nat (bip_rx_pn (get kr)) < be_nat pn"
  shows "k' = inc_tx_pn k \<and> (\<exists>rx'. decrypt x kr rx = (RX_CONTINUE, rx') \<and> skb_data (rx_skb rx') = d \<and>
    rx_key rx' = Some (upd ((get kr)\<lparr>bip_rx_pn := pn\<rparr>) kr))"
proof -
  let ?t = "bip_tfm (get k)" and ?ipn = "bip_ipn_set64 (kc_tx_pn (conf k) + 1)"
  define e where "e = [WLAN_EID_MMIE, word_of_nat (n + 8)]
    @ le16_bytes (word_of_int (kc_keyidx (conf k))) @ ?ipn"
  have le: "length e = 10" by (simp add: e_def)
  obtain fill where fill: "length fill = n + 10" "skb_data (skb_put (n + 10) skb) = d @ fill"
    using skb_data_put [OF assms(7)] assms(3) by auto
  define g where "g = drop 10 fill"
  have lg: "length g = n" using fill(1) by (simp add: g_def)
  define skb1 where "skb1 = skb_write (length d) e (skb_put (n + 10) skb)"
  have d1: "skb_data skb1 = d @ e @ g"
    using fill le by (simp add: skb1_def buf_simps g_def mem_write_def)
  have ad: "addr2 (d @ r) = addr2 d" "bip_aad (d @ r) = bip_aad d" for r
    using assms(4) by (simp_all add: addrs_append bip_aad_append)
  define nonce where "nonce = addr2 d @ pn"
  have body: "mem_read (d @ e @ m) 24 (length (d @ e @ m) - 24) = (drop 24 d @ e) @ m" for m
    using assms(4) by (simp add: mem_read_def)
  have old: "mem_read (d @ e @ g) (length d + 10) n = g"
    using le lg by (simp add: buf_simps)
  obtain r mic where mc: "mac x (skb_oom skb1 Alloc_Request) ?t (bip_aad d) nonce ((drop 24 d @ e) @ g) g = (r, mic)"
    by (metis surj_pair)
  have sw: "bip_ipn_swap ?ipn = pn" by (simp add: bip_ipn_swap_set pn_def)
  have hw: "(hw_key (skb_tx skb) \<noteq> None) = False" and tr: "(skb_tailroom skb < n + 10) = False"
    using assms(6,7) by simp_all
  have ex: "encrypt x k [skb] = (if r < 0 then TX_DROP else TX_CONTINUE, inc_tx_pn k,
      [skb_write (length d + 10) mic skb1])"
    unfolding encrypt_eq bip_tx_def list.case Let_def hw tr simp_thms if_False assms(3) [symmetric]
      inc_tx_pn_simps e_def [symmetric] skb1_def [symmetric] get_inc d1 ad sw nonce_def [symmetric] body old mc
      prod.case ..
  have r0: "0 \<le> r" and k': "k' = inc_tx_pn k" and s': "skb' = skb_write (length d + 10) mic skb1"
    using ex assms(9) by (auto split: if_splits)
  have lm: "length mic = n" by (rule mac_length [OF assms(8) mc r0])
  have f: "skb_data (rx_skb rx) = d @ e @ mic"
    using assms(10) s' d1 le lg lm by (simp add: buf_simps)
  have mc2: "mac x False ?t (bip_aad d) nonce ((drop 24 d @ e) @ mic) (replicate n 0) = (r, mic)"
    by (rule mac_own [OF lg lm _ mc r0]) (use assms(4) in simp)
  have fc: "frame_control (d @ q) = frame_control d" for q
    using assms(4) by (simp add: frame_control_cong)
  have mm: "drop (length (d @ e @ mic) - (n + 10)) (d @ e @ mic) = e @ mic"
    using le lm by simp
  have e0: "(e @ mic) ! 0 = WLAN_EID_MMIE" "(e @ mic) ! 1 = word_of_nat (n + 8)"
      "bip_ipn_swap (mem_read (e @ mic) 4 6) = pn" "mem_read (e @ mic) 10 n = mic"
    using le lm sw by (simp_all add: e_def buf_simps mem_read_def)
  have fresh: "(memcmp pn (bip_rx_pn (get kr)) \<le> 0) = False"
    using memcmp_le_iff [of pn "bip_rx_pn (get kr)"] assms(14,15) by (simp add: pn_def)
  have len: "(length (d @ e @ mic) < 24 + (n + 10)) = False" using assms(4) le lm by simp
  have oom: "skb_oom (rx_skb rx) Alloc_Mic = False" "skb_oom (rx_skb rx) Alloc_Request = False"
    using assms(11,12) by simp_all
  have "decrypt x kr rx = (RX_CONTINUE, rx\<lparr>rx_key := Some (upd ((get kr)\<lparr>bip_rx_pn := pn\<rparr>) kr),
      rx_skb := skb_trim (rx_skb rx) (length (d @ e @ mic) - (n + 10))\<rparr>)"
    unfolding decrypt_eq bip_rx_def Let_def f fc mm e0 fresh len oom assms(13) ad nonce_def [symmetric] body mc2 prod.case
    using assms(5) r0 by simp
  then show ?thesis
    using k' f le lm by (simp add: skb_data_trim)
qed

end

end
