(* ===== verification/Wpa_Bip.thy ===== *)
theory Wpa_Bip
  imports Bip_Suite
begin

text \<open>
  The properties of the BIP handlers: the code contract and the receiver contract interpreted
  on CMAC, CMAC-256 and GMAC, the round trips, the acceptance of numbers, and the masking of
  what a beacon may change in the air.
\<close>

subsection \<open>The three codes keep the contract\<close>

definition shash_16 :: "extern \<Rightarrow> tfm \<Rightarrow> bool" where
  "shash_16 x t \<longleftrightarrow> (\<forall>d. length (x_shash x t d) = 16)"

definition gmac_16 :: "extern \<Rightarrow> tfm \<Rightarrow> bool" where
  "gmac_16 x t \<longleftrightarrow> aead_lengths x t \<and> x_aead_authsize x t = 16"

lemma mem_read_own: "8 \<le> length b \<Longrightarrow> mem_read (b @ m) 8 (length b - 8) = drop 8 b"
  "mem_read (b @ m) 0 (length b) = b"
  by (simp_all add: mem_read_def)

interpretation cmac: bip_suite u_aes_cmac "\<lambda>u k. k\<lparr>u_aes_cmac := u\<rparr>" 8 RX_DROP_U_SHORT_CMAC False cmac_fun
    shash_16 ieee80211_crypto_aes_cmac_encrypt ieee80211_crypto_aes_cmac_decrypt
  by unfold_locales (auto simp: bip_tx_eqs bip_rx_eqs cmac_fun_def ieee80211_aes_cmac_def shash_16_def
      mem_read_own Let_def)

interpretation cmac_256: bip_suite u_aes_cmac "\<lambda>u k. k\<lparr>u_aes_cmac := u\<rparr>" 16 RX_DROP_U_SHORT_CMAC256 False
    cmac_256_fun shash_16 ieee80211_crypto_aes_cmac_256_encrypt ieee80211_crypto_aes_cmac_256_decrypt
  by unfold_locales (auto simp: bip_tx_eqs bip_rx_eqs cmac_256_fun_def ieee80211_aes_cmac_256_def shash_16_def
      mem_read_own Let_def)

interpretation gmac: bip_suite u_aes_gmac "\<lambda>u k. k\<lparr>u_aes_gmac := u\<rparr>" 16 RX_DROP_U_SHORT_GMAC True
    ieee80211_aes_gmac gmac_16 ieee80211_crypto_aes_gmac_encrypt ieee80211_crypto_aes_gmac_decrypt
  by unfold_locales (auto simp: bip_tx_eqs bip_rx_eqs ieee80211_aes_gmac_def gmac_16_def
      mem_read_own Let_def dest: aead_lengthsD split: if_splits prod.splits)

interpretation cmac_rx: replay_window "recv_of (ieee80211_crypto_aes_cmac_decrypt x)"
    "\<lambda>k. be_nat (bip_rx_pn (u_aes_cmac k))" "bip_frame_pn 8" "\<lambda>k. length (bip_rx_pn (u_aes_cmac k)) = 6" is_mgmt_rx
  for x
  by unfold_locales (blast intro: cmac.recv_ok, auto dest: cmac.recv_step)

interpretation cmac_256_rx: replay_window "recv_of (ieee80211_crypto_aes_cmac_256_decrypt x)"
    "\<lambda>k. be_nat (bip_rx_pn (u_aes_cmac k))" "bip_frame_pn 16" "\<lambda>k. length (bip_rx_pn (u_aes_cmac k)) = 6" is_mgmt_rx
  for x
  by unfold_locales (blast intro: cmac_256.recv_ok, auto dest: cmac_256.recv_step)

interpretation gmac_rx: replay_window "recv_of (ieee80211_crypto_aes_gmac_decrypt x)"
    "\<lambda>k. be_nat (bip_rx_pn (u_aes_gmac k))" "bip_frame_pn 16" "\<lambda>k. length (bip_rx_pn (u_aes_gmac k)) = 6" is_mgmt_rx
  for x
  by unfold_locales (blast intro: gmac.recv_ok, auto dest: gmac.recv_step)

subsection \<open>Properties\<close>

text \<open>A disassociation to the broadcast address.\<close>

definition ex_mgmt :: "u8 list" where
  "ex_mgmt = [0xA0, 0x00, 0, 0] @ replicate 6 0xff @ replicate 6 4 @ replicate 6 4 @ [0x10, 0] @ replicate 8 5"

lemma ex_mac_ok [simp]:
  "shash_16 ex_extern t" "gmac_16 ex_extern (bip_tfm (u_aes_gmac (ex_key c n)))"
  "kc_tx_pn (conf (ex_key c n)) = 7"
  by (simp_all add: shash_16_def gmac_16_def) (simp_all add: ex_defs)

text \<open>A group-addressed management frame protected by the CMAC transmit handler, received
  unchanged under a key with the same transform by a receiver whose stored number is older, is
  accepted: the MMIE is removed, the frame is the one given to the transmitter, and its packet
  number is stored.\<close>

theorem cmac_roundtrip:
  assumes "d = skb_data skb" "32 \<le> length d" "ieee80211_is_mgmt (frame_control d)"
    and "hw_key (skb_tx skb) = None" "18 \<le> skb_tailroom skb" "shash_16 x (bip_tfm (u_aes_cmac k))"
    and "pn = pn_octets (kc_tx_pn (conf k) + 1)"
    and "ieee80211_crypto_aes_cmac_encrypt x k [skb] = (TX_CONTINUE, k', [skb'])"
    and "skb_data (rx_skb rx) = skb_data skb'"
    and "\<not> skb_oom (rx_skb rx) Alloc_Mic" "\<not> skb_oom (rx_skb rx) Alloc_Request"
    and "bip_tfm (u_aes_cmac kr) = bip_tfm (u_aes_cmac k)" "length (bip_rx_pn (u_aes_cmac kr)) = 6"
    and "be_nat (bip_rx_pn (u_aes_cmac kr)) < be_nat pn"
  shows "kc_tx_pn (conf k') = kc_tx_pn (conf k) + 1 \<and>
    (case ieee80211_crypto_aes_cmac_decrypt x kr rx of (r, rx') \<Rightarrow>
       r = RX_CONTINUE \<and> skb_data (rx_skb rx') = d \<and>
       (case rx_key rx' of None \<Rightarrow> False | Some kr' \<Rightarrow> bip_rx_pn (u_aes_cmac kr') = pn))"
  using cmac.roundtrip [OF _ assms(1-4) _ assms(6,8-13), simplified, OF assms(5) assms(14) [unfolded assms(7)]]
  by (auto simp: assms(7))

lemma cmac_roundtrip_witness:
  "let k = ex_key 0x000FAC06 16; skb = ex_skb ex_mgmt in
   case ieee80211_crypto_aes_cmac_encrypt ex_extern k [skb] of
     (t, k', skbs) \<Rightarrow>
       t = TX_CONTINUE \<and> kc_tx_pn (conf k') = kc_tx_pn (conf k) + 1 \<and>
       (case ieee80211_crypto_aes_cmac_decrypt ex_extern k (ex_rx (skb_data (hd skbs)) k) of (r, rx') \<Rightarrow>
         r = RX_CONTINUE \<and> skb_data (rx_skb rx') = ex_mgmt \<and>
         (case rx_key rx' of None \<Rightarrow> False | Some kr' \<Rightarrow> bip_rx_pn (u_aes_cmac kr') = pn_octets 8))"
proof -
  obtain t k' skbs where e: "ieee80211_crypto_aes_cmac_encrypt ex_extern (ex_key 0x000FAC06 16) [ex_skb ex_mgmt] = (t, k', skbs)"
    by (metis prod_cases3)
  have "fst (ieee80211_crypto_aes_cmac_encrypt ex_extern (ex_key 0x000FAC06 16) [ex_skb ex_mgmt]) = TX_CONTINUE"
    by code_simp
  moreover have "length (snd (snd (ieee80211_crypto_aes_cmac_encrypt ex_extern (ex_key 0x000FAC06 16) [ex_skb ex_mgmt]))) = 1"
    by code_simp
  ultimately obtain skb' where s: "t = TX_CONTINUE" "skbs = [skb']"
    using e by (auto simp: length_Suc_conv)
  note rt = cmac_roundtrip [where d = ex_mgmt and rx = "ex_rx (skb_data skb') (ex_key 0x000FAC06 16)" and
      kr = "ex_key 0x000FAC06 16", OF _ _ _ _ _ _ _ e [unfolded s]]
  have "kc_tx_pn (conf k') = kc_tx_pn (conf (ex_key 0x000FAC06 16)) + 1 \<and>
    (case ieee80211_crypto_aes_cmac_decrypt ex_extern (ex_key 0x000FAC06 16)
        (ex_rx (skb_data skb') (ex_key 0x000FAC06 16)) of (r, rx') \<Rightarrow>
       r = RX_CONTINUE \<and> skb_data (rx_skb rx') = ex_mgmt \<and>
       (case rx_key rx' of None \<Rightarrow> False
        | Some kr' \<Rightarrow> bip_rx_pn (u_aes_cmac kr') = pn_octets 8))"
    by (rule rt) (((simp; fail) | (simp add: ex_defs ex_mgmt_def be_nat_pn_octets; fail) | code_simp)+)
  then show ?thesis unfolding Let_def using e s by simp
qed

text \<open>A group-addressed management frame protected by the CMAC-256 transmit handler, received
  unchanged under a key with the same transform by a receiver whose stored number is older, is
  accepted: the MMIE is removed, the frame is the one given to the transmitter, and its packet
  number is stored.\<close>

theorem cmac_256_roundtrip:
  assumes "d = skb_data skb" "32 \<le> length d" "ieee80211_is_mgmt (frame_control d)"
    and "hw_key (skb_tx skb) = None" "26 \<le> skb_tailroom skb" "shash_16 x (bip_tfm (u_aes_cmac k))"
    and "pn = pn_octets (kc_tx_pn (conf k) + 1)"
    and "ieee80211_crypto_aes_cmac_256_encrypt x k [skb] = (TX_CONTINUE, k', [skb'])"
    and "skb_data (rx_skb rx) = skb_data skb'"
    and "\<not> skb_oom (rx_skb rx) Alloc_Mic" "\<not> skb_oom (rx_skb rx) Alloc_Request"
    and "bip_tfm (u_aes_cmac kr) = bip_tfm (u_aes_cmac k)" "length (bip_rx_pn (u_aes_cmac kr)) = 6"
    and "be_nat (bip_rx_pn (u_aes_cmac kr)) < be_nat pn"
  shows "kc_tx_pn (conf k') = kc_tx_pn (conf k) + 1 \<and>
    (case ieee80211_crypto_aes_cmac_256_decrypt x kr rx of (r, rx') \<Rightarrow>
       r = RX_CONTINUE \<and> skb_data (rx_skb rx') = d \<and>
       (case rx_key rx' of None \<Rightarrow> False | Some kr' \<Rightarrow> bip_rx_pn (u_aes_cmac kr') = pn))"
  using cmac_256.roundtrip [OF _ assms(1-4) _ assms(6,8-13), simplified, OF assms(5) assms(14) [unfolded assms(7)]]
  by (auto simp: assms(7))

lemma cmac_256_roundtrip_witness:
  "let k = ex_key 0x000FAC06 16; skb = ex_skb ex_mgmt in
   case ieee80211_crypto_aes_cmac_256_encrypt ex_extern k [skb] of
     (t, k', skbs) \<Rightarrow>
       t = TX_CONTINUE \<and> kc_tx_pn (conf k') = kc_tx_pn (conf k) + 1 \<and>
       (case ieee80211_crypto_aes_cmac_256_decrypt ex_extern k (ex_rx (skb_data (hd skbs)) k) of (r, rx') \<Rightarrow>
         r = RX_CONTINUE \<and> skb_data (rx_skb rx') = ex_mgmt \<and>
         (case rx_key rx' of None \<Rightarrow> False | Some kr' \<Rightarrow> bip_rx_pn (u_aes_cmac kr') = pn_octets 8))"
proof -
  obtain t k' skbs where e: "ieee80211_crypto_aes_cmac_256_encrypt ex_extern (ex_key 0x000FAC06 16) [ex_skb ex_mgmt] = (t, k', skbs)"
    by (metis prod_cases3)
  have "fst (ieee80211_crypto_aes_cmac_256_encrypt ex_extern (ex_key 0x000FAC06 16) [ex_skb ex_mgmt]) = TX_CONTINUE"
    by code_simp
  moreover have "length (snd (snd (ieee80211_crypto_aes_cmac_256_encrypt ex_extern (ex_key 0x000FAC06 16) [ex_skb ex_mgmt]))) = 1"
    by code_simp
  ultimately obtain skb' where s: "t = TX_CONTINUE" "skbs = [skb']"
    using e by (auto simp: length_Suc_conv)
  note rt = cmac_256_roundtrip [where d = ex_mgmt and rx = "ex_rx (skb_data skb') (ex_key 0x000FAC06 16)" and
      kr = "ex_key 0x000FAC06 16", OF _ _ _ _ _ _ _ e [unfolded s]]
  have "kc_tx_pn (conf k') = kc_tx_pn (conf (ex_key 0x000FAC06 16)) + 1 \<and>
    (case ieee80211_crypto_aes_cmac_256_decrypt ex_extern (ex_key 0x000FAC06 16)
        (ex_rx (skb_data skb') (ex_key 0x000FAC06 16)) of (r, rx') \<Rightarrow>
       r = RX_CONTINUE \<and> skb_data (rx_skb rx') = ex_mgmt \<and>
       (case rx_key rx' of None \<Rightarrow> False
        | Some kr' \<Rightarrow> bip_rx_pn (u_aes_cmac kr') = pn_octets 8))"
    by (rule rt) (((simp; fail) | (simp add: ex_defs ex_mgmt_def be_nat_pn_octets; fail) | code_simp)+)
  then show ?thesis unfolding Let_def using e s by simp
qed

text \<open>A group-addressed management frame protected by the GMAC transmit handler, received
  unchanged under a key with the same transform by a receiver whose stored number is older, is
  accepted: the MMIE is removed, the frame is the one given to the transmitter, and its packet
  number is stored.\<close>

theorem gmac_roundtrip:
  assumes "d = skb_data skb" "32 \<le> length d" "ieee80211_is_mgmt (frame_control d)"
    and "hw_key (skb_tx skb) = None" "26 \<le> skb_tailroom skb" "gmac_16 x (bip_tfm (u_aes_gmac k))"
    and "pn = pn_octets (kc_tx_pn (conf k) + 1)"
    and "ieee80211_crypto_aes_gmac_encrypt x k [skb] = (TX_CONTINUE, k', [skb'])"
    and "skb_data (rx_skb rx) = skb_data skb'"
    and "\<not> skb_oom (rx_skb rx) Alloc_Mic" "\<not> skb_oom (rx_skb rx) Alloc_Request"
    and "bip_tfm (u_aes_gmac kr) = bip_tfm (u_aes_gmac k)" "length (bip_rx_pn (u_aes_gmac kr)) = 6"
    and "be_nat (bip_rx_pn (u_aes_gmac kr)) < be_nat pn"
  shows "kc_tx_pn (conf k') = kc_tx_pn (conf k) + 1 \<and>
    (case ieee80211_crypto_aes_gmac_decrypt x kr rx of (r, rx') \<Rightarrow>
       r = RX_CONTINUE \<and> skb_data (rx_skb rx') = d \<and>
       (case rx_key rx' of None \<Rightarrow> False | Some kr' \<Rightarrow> bip_rx_pn (u_aes_gmac kr') = pn))"
  using gmac.roundtrip [OF _ assms(1-4) _ assms(6,8-13), simplified, OF assms(5) assms(14) [unfolded assms(7)]]
  by (auto simp: assms(7))

lemma gmac_roundtrip_witness:
  "let k = ex_key 0x000FAC06 16; skb = ex_skb ex_mgmt in
   case ieee80211_crypto_aes_gmac_encrypt ex_extern k [skb] of
     (t, k', skbs) \<Rightarrow>
       t = TX_CONTINUE \<and> kc_tx_pn (conf k') = kc_tx_pn (conf k) + 1 \<and>
       (case ieee80211_crypto_aes_gmac_decrypt ex_extern k (ex_rx (skb_data (hd skbs)) k) of (r, rx') \<Rightarrow>
         r = RX_CONTINUE \<and> skb_data (rx_skb rx') = ex_mgmt \<and>
         (case rx_key rx' of None \<Rightarrow> False | Some kr' \<Rightarrow> bip_rx_pn (u_aes_gmac kr') = pn_octets 8))"
proof -
  obtain t k' skbs where e: "ieee80211_crypto_aes_gmac_encrypt ex_extern (ex_key 0x000FAC06 16) [ex_skb ex_mgmt] = (t, k', skbs)"
    by (metis prod_cases3)
  have "fst (ieee80211_crypto_aes_gmac_encrypt ex_extern (ex_key 0x000FAC06 16) [ex_skb ex_mgmt]) = TX_CONTINUE"
    by code_simp
  moreover have "length (snd (snd (ieee80211_crypto_aes_gmac_encrypt ex_extern (ex_key 0x000FAC06 16) [ex_skb ex_mgmt]))) = 1"
    by code_simp
  ultimately obtain skb' where s: "t = TX_CONTINUE" "skbs = [skb']"
    using e by (auto simp: length_Suc_conv)
  note rt = gmac_roundtrip [where d = ex_mgmt and rx = "ex_rx (skb_data skb') (ex_key 0x000FAC06 16)" and
      kr = "ex_key 0x000FAC06 16", OF _ _ _ _ _ _ _ e [unfolded s]]
  have "kc_tx_pn (conf k') = kc_tx_pn (conf (ex_key 0x000FAC06 16)) + 1 \<and>
    (case ieee80211_crypto_aes_gmac_decrypt ex_extern (ex_key 0x000FAC06 16)
        (ex_rx (skb_data skb') (ex_key 0x000FAC06 16)) of (r, rx') \<Rightarrow>
       r = RX_CONTINUE \<and> skb_data (rx_skb rx') = ex_mgmt \<and>
       (case rx_key rx' of None \<Rightarrow> False
        | Some kr' \<Rightarrow> bip_rx_pn (u_aes_gmac kr') = pn_octets 8))"
    by (rule rt) (((simp; fail) | (simp add: ex_defs ex_mgmt_def be_nat_pn_octets; fail) | code_simp)+)
  then show ?thesis unfolding Let_def using e s by simp
qed


text \<open>C33: Out of any sequence of management frames, the frames each of the three handlers
  accepts have strictly increasing packet numbers, all beyond the number stored before.\<close>

theorem bip_accepts_increasing:
  assumes "\<forall>f\<in>set fs. is_mgmt_rx f"
    and "length (bip_rx_pn (u_aes_cmac k)) = 6" "length (bip_rx_pn (u_aes_gmac k)) = 6"
    and "a = fst (accept_run (recv_of (ieee80211_crypto_aes_cmac_decrypt x)) k fs)"
    and "b = fst (accept_run (recv_of (ieee80211_crypto_aes_cmac_256_decrypt x)) k fs)"
    and "c = fst (accept_run (recv_of (ieee80211_crypto_aes_gmac_decrypt x)) k fs)"
  shows "sorted_wrt (<) (map (bip_frame_pn 8) a) \<and> (\<forall>f\<in>set a. be_nat (bip_rx_pn (u_aes_cmac k)) < bip_frame_pn 8 f) \<and>
    sorted_wrt (<) (map (bip_frame_pn 16) b) \<and> (\<forall>f\<in>set b. be_nat (bip_rx_pn (u_aes_cmac k)) < bip_frame_pn 16 f) \<and>
    sorted_wrt (<) (map (bip_frame_pn 16) c) \<and> (\<forall>f\<in>set c. be_nat (bip_rx_pn (u_aes_gmac k)) < bip_frame_pn 16 f)"
  unfolding assms(4-6)
  using cmac_rx.accepted_increasing [OF assms(2,1)] cmac_256_rx.accepted_increasing [OF assms(2,1)]
    gmac_rx.accepted_increasing [OF assms(3,1)]
  by blast

definition ex_bip_rx :: "nat \<Rightarrow> u64 \<Rightarrow> ieee80211_rx_data" where
  "ex_bip_rx n pn =
     (let f = ex_mgmt @ [76, word_of_nat (n + 8), 4, 0] @ bip_ipn_set64 pn @ replicate n 0
      in (ex_rx f (ex_key 0x000FAC06 16))\<lparr>rx_skb := (ex_skb f)\<lparr>skb_rx :=
             \<lparr>rs_flag = RX_FLAG_DECRYPTED, rs_rx_flags = 0\<rparr>\<rparr>\<rparr>)"

lemma bip_accepts_increasing_witness:
  "let fs = map (ex_bip_rx 16) [1, 3, 2, 3, 4]; k = ex_key 0x000FAC06 16;
       b = fst (accept_run (recv_of (ieee80211_crypto_aes_cmac_256_decrypt ex_extern)) k fs);
       c = fst (accept_run (recv_of (ieee80211_crypto_aes_gmac_decrypt ex_extern)) k fs)
   in length b = 3 \<and> length c = 3 \<and> sorted_wrt (<) (map (bip_frame_pn 16) b) \<and>
      sorted_wrt (<) (map (bip_frame_pn 16) c)"
proof -
  have "\<forall>f\<in>set (map (ex_bip_rx 16) [1, 3, 2, 3, 4]). is_mgmt_rx f" by code_simp
  moreover have "length (bip_rx_pn (u_aes_cmac (ex_key 0x000FAC06 16))) = 6"
    "length (bip_rx_pn (u_aes_gmac (ex_key 0x000FAC06 16))) = 6" by (simp_all add: ex_defs)
  moreover have "length (fst (accept_run (recv_of (ieee80211_crypto_aes_cmac_256_decrypt ex_extern))
      (ex_key 0x000FAC06 16) (map (ex_bip_rx 16) [1, 3, 2, 3, 4]))) = 3" by code_simp
  moreover have "length (fst (accept_run (recv_of (ieee80211_crypto_aes_gmac_decrypt ex_extern))
      (ex_key 0x000FAC06 16) (map (ex_bip_rx 16) [1, 3, 2, 3, 4]))) = 3" by code_simp
  ultimately show ?thesis
    unfolding Let_def using bip_accepts_increasing [OF _ _ _ refl refl refl] by blast
qed

text \<open>What changes in a beacon in the air is not protected: two beacons that differ only in
  the timestamp and in the Retry, Power Management and More Data bits have the same code, in
  all three handlers. The CMAC of a beacon is the digest of its masked header, eight zeros in
  place of the timestamp, the rest of the body, and zeros in place of the code.\<close>

theorem bip_beacon_masking:
  assumes "24 \<le> length h1" "24 \<le> length h2" "length t1 = 8" "length t2 = 8"
    and "m = NOT (IEEE80211_FCTL_RETRY OR IEEE80211_FCTL_PM OR IEEE80211_FCTL_MOREDATA)"
    and "frame_control h1 AND m = frame_control h2 AND m" "addrs h1 = addrs h2"
    and "ieee80211_is_beacon (frame_control h1 AND m)" "length c = 8" "length c16 = 16"
  shows "ieee80211_aes_cmac x t (bip_aad h1) (t1 @ body @ c) = ieee80211_aes_cmac x t (bip_aad h2) (t2 @ body @ c) \<and>
    ieee80211_aes_cmac_256 x t (bip_aad h1) (t1 @ body @ c16) = ieee80211_aes_cmac_256 x t (bip_aad h2) (t2 @ body @ c16) \<and>
    ieee80211_aes_gmac x oom t (bip_aad h1) n (t1 @ body @ c16) old
      = ieee80211_aes_gmac x oom t (bip_aad h2) n (t2 @ body @ c16) old \<and>
    ieee80211_aes_cmac x t (bip_aad h1) (t1 @ body @ c)
      = take 8 (x_shash x t (bip_aad h1 @ replicate 8 0 @ body @ replicate 8 0))"
proof -
  have aad: "bip_aad h1 = bip_aad h2" using assms(5-7) by (simp add: bip_aad_def)
  have bc: "ieee80211_is_beacon (get_unaligned_le16 (bip_aad h1) 0)"
    unfolding bip_aad_def assms(5) [symmetric] get_le16_bytes by (rule assms(8))
  have r: "mem_read (u @ body @ v) 8 (length (u @ body @ v) - 8 - length v) = body" if "length u = 8" for u v :: "u8 list"
    using that by (simp add: mem_read_def)
  have a: "mem_read (u @ body @ c) 8 (length (u @ body @ c) - 8 - 8) = body"
    "mem_read (u @ body @ c16) 8 (length (u @ body @ c16) - 8 - 16) = body" if "length u = 8" for u
    using r [OF that, of c] r [OF that, of c16] assms(9,10) by simp_all
  have len: "(length (t1 @ body @ c16) < 16) = False" "(length (t2 @ body @ c16) < 16) = False"
    using assms(3,4,10) by simp_all
  show ?thesis
    unfolding ieee80211_aes_cmac_def ieee80211_aes_cmac_256_def ieee80211_aes_gmac_def aad [symmetric] Let_def
      if_P [OF bc] a [OF assms(3)] a [OF assms(4)] len by simp
qed

lemma bip_beacon_masking_witness:
  "let h1 = [0x80, 0, 0, 0] @ replicate 20 1; h2 = [0x80, 0x10, 0, 0] @ replicate 20 1;
       b1 = replicate 8 1 @ [5, 6] @ replicate 8 0; b2 = replicate 8 2 @ [5, 6] @ replicate 8 0
   in ieee80211_aes_cmac ex_extern 16 (bip_aad h1) b1 = ieee80211_aes_cmac ex_extern 16 (bip_aad h2) b2"
proof -
  have "frame_control ([0x80, 0, 0, 0] @ replicate 20 1) AND
      NOT (IEEE80211_FCTL_RETRY OR IEEE80211_FCTL_PM OR IEEE80211_FCTL_MOREDATA) =
    frame_control ([0x80, 0x10, 0, 0] @ replicate 20 1) AND
      NOT (IEEE80211_FCTL_RETRY OR IEEE80211_FCTL_PM OR IEEE80211_FCTL_MOREDATA)"
    and "addrs ([0x80, 0, 0, 0] @ replicate 20 1) = addrs ([0x80, 0x10, 0, 0] @ replicate 20 1)"
    and "ieee80211_is_beacon (frame_control ([0x80, 0, 0, 0] @ replicate 20 1) AND
      NOT (IEEE80211_FCTL_RETRY OR IEEE80211_FCTL_PM OR IEEE80211_FCTL_MOREDATA))"
    by code_simp+
  from bip_beacon_masking [OF _ _ _ _ refl this, of "replicate 8 1" "replicate 8 2" "replicate 8 0"
      "replicate 16 0" ex_extern 16 "[5, 6]"]
  show ?thesis by simp
qed

end
