(* ===== verification/Airtime_Table.thy ===== *)
theory Airtime_Table
  imports Prelude "HOL-Library.Signed_Division"
begin

text \<open>
  The table of packet durations per rate group that the airtime estimator
  \<^verbatim>\<open>mac80211/airtime.c\<close> builds with macros: the duration and index macros, one
  definition each, and the array \<^verbatim>\<open>airtime_mcs_groups\<close> from its initialisers.  The constants
  of the macros are natural numbers, as large as the compiler needs them; what the table
  stores is a word of the width of its field.  The lemmas show that no store loses a bit and
  that the index macros address the group they name.
\<close>

subsection \<open>Durations of an average sized packet\<close>

abbreviation (input) AVG_PKT_SIZE :: nat where "AVG_PKT_SIZE \<equiv> 1024"
abbreviation (input) MCS_GROUP_RATES :: nat where "MCS_GROUP_RATES \<equiv> 14"
abbreviation (input) BW_20 :: nat where "BW_20 \<equiv> 0"
abbreviation (input) BW_40 :: nat where "BW_40 \<equiv> 1"
abbreviation (input) BW_80 :: nat where "BW_80 \<equiv> 2"
abbreviation (input) BW_160 :: nat where "BW_160 \<equiv> 3"
abbreviation (input) BW_320 :: nat where "BW_320 \<equiv> 4"

definition MCS_NBITS :: nat where
  "MCS_NBITS = AVG_PKT_SIZE * 8"

definition MCS_N_KSYMS :: "nat \<Rightarrow> nat" where
  "MCS_N_KSYMS bps = (MCS_NBITS * 1024 + bps - 1) div bps"

definition MCS_SYMBOL_TIME :: "bool \<Rightarrow> nat \<Rightarrow> nat" where
  "MCS_SYMBOL_TIME sgi ksyms = (if sgi then ksyms * 4 * 18 div 20 else ksyms * 4)"

definition HE_SYMBOL_TIME :: "nat \<Rightarrow> nat \<Rightarrow> nat" where
  "HE_SYMBOL_TIME gi ksyms =
     (if gi = 0 then ksyms * 16 * 17 div 20
      else if gi = 1 then ksyms * 16 * 18 div 20
      else ksyms * 16)"

definition MCS_DURATION :: "nat \<Rightarrow> bool \<Rightarrow> nat \<Rightarrow> u32" where
  "MCS_DURATION streams sgi bps = of_nat (MCS_SYMBOL_TIME sgi (MCS_N_KSYMS (streams * bps)))"

definition HE_DURATION :: "nat \<Rightarrow> nat \<Rightarrow> nat \<Rightarrow> u32" where
  "HE_DURATION streams gi bps = of_nat (HE_SYMBOL_TIME gi (MCS_N_KSYMS (streams * bps)))"

text \<open>
  \<^verbatim>\<open>MCS_DURATION_S\<close> casts the shifted duration to \<^verbatim>\<open>u16\<close>, \<^verbatim>\<open>HE_DURATION_S\<close> leaves that
  to the initialiser of the \<^verbatim>\<open>u16\<close> array element.
\<close>

definition MCS_DURATION_S :: "nat \<Rightarrow> nat \<Rightarrow> bool \<Rightarrow> nat \<Rightarrow> u16" where
  "MCS_DURATION_S shift streams sgi bps = ucast (drop_bit shift (MCS_DURATION streams sgi bps))"

definition HE_DURATION_S :: "nat \<Rightarrow> nat \<Rightarrow> nat \<Rightarrow> nat \<Rightarrow> u16" where
  "HE_DURATION_S shift streams gi bps = ucast (drop_bit shift (HE_DURATION streams gi bps))"

text \<open>\<open>bitlen n\<close> is the position after the highest bit of \<open>n\<close>; \<^verbatim>\<open>__builtin_clz\<close> counts from the top.\<close>

fun bitlen :: "nat \<Rightarrow> nat" where
  "bitlen n = (if n = 0 then 0 else Suc (bitlen (n div 2)))"

declare bitlen.simps [simp del]

definition builtin_clz :: "u32 \<Rightarrow> int" where
  "builtin_clz d = 32 - int (bitlen (unat d))"

definition GROUP_SHIFT :: "u32 \<Rightarrow> nat" where
  "GROUP_SHIFT duration = nat (max 0 (16 - builtin_clz duration))"

subsection \<open>The table of rate groups\<close>

record mcs_group =
  shift :: u8
  duration :: "u16 list"

text \<open>An initialiser lists the first durations; C sets the rest of the array to zero.\<close>

definition rates_init :: "u16 list \<Rightarrow> u16 list" where
  "rates_init ds = ds @ replicate (MCS_GROUP_RATES - length ds) 0"

definition HT_GROUP_IDX :: "nat \<Rightarrow> bool \<Rightarrow> nat \<Rightarrow> nat" where
  "HT_GROUP_IDX streams sgi ht40 = 0 + 4 * 2 * ht40 + 4 * of_bool sgi + streams - 1"

definition VHT_GROUP_IDX :: "nat \<Rightarrow> bool \<Rightarrow> nat \<Rightarrow> nat" where
  "VHT_GROUP_IDX streams sgi bw = 16 + 4 * 2 * bw + 4 * of_bool sgi + streams - 1"

definition HE_GROUP_IDX :: "nat \<Rightarrow> nat \<Rightarrow> nat \<Rightarrow> nat" where
  "HE_GROUP_IDX streams gi bw = 48 + 8 * 3 * bw + 8 * gi + streams - 1"

definition EHT_GROUP_IDX :: "nat \<Rightarrow> nat \<Rightarrow> nat \<Rightarrow> nat" where
  "EHT_GROUP_IDX streams gi bw = 144 + 8 * 3 * bw + 8 * gi + streams - 1"

definition BW2VBPS :: "nat \<Rightarrow> nat \<Rightarrow> nat \<Rightarrow> nat \<Rightarrow> nat \<Rightarrow> nat" where
  "BW2VBPS bw r4 r3 r2 r1 = (if bw = BW_160 then r4 else if bw = BW_80 then r3 else if bw = BW_40 then r2 else r1)"

definition EHT_BW2VBPS :: "nat \<Rightarrow> nat \<Rightarrow> nat \<Rightarrow> nat \<Rightarrow> nat \<Rightarrow> nat \<Rightarrow> nat" where
  "EHT_BW2VBPS bw r5 r4 r3 r2 r1 = (if bw = BW_320 then r5 else BW2VBPS bw r4 r3 r2 r1)"

text \<open>
  The data bits per symbol of one stream, for each rate of a group: the columns of the
  macros \<^verbatim>\<open>__MCS_GROUP\<close>, \<^verbatim>\<open>__VHT_GROUP\<close>, \<^verbatim>\<open>__HE_GROUP\<close> and \<^verbatim>\<open>__EHT_GROUP\<close>.
\<close>

definition ht_bps :: "nat \<Rightarrow> nat list" where
  "ht_bps ht40 =
     [if ht40 \<noteq> 0 then 54 else 26, if ht40 \<noteq> 0 then 108 else 52,
      if ht40 \<noteq> 0 then 162 else 78, if ht40 \<noteq> 0 then 216 else 104,
      if ht40 \<noteq> 0 then 324 else 156, if ht40 \<noteq> 0 then 432 else 208,
      if ht40 \<noteq> 0 then 486 else 234, if ht40 \<noteq> 0 then 540 else 260]"

definition vht_bps :: "nat \<Rightarrow> nat list" where
  "vht_bps bw =
     [BW2VBPS bw 234 117 54 26, BW2VBPS bw 468 234 108 52,
      BW2VBPS bw 702 351 162 78, BW2VBPS bw 936 468 216 104,
      BW2VBPS bw 1404 702 324 156, BW2VBPS bw 1872 936 432 208,
      BW2VBPS bw 2106 1053 486 234, BW2VBPS bw 2340 1170 540 260,
      BW2VBPS bw 2808 1404 648 312, BW2VBPS bw 3120 1560 720 346]"

definition he_bps :: "nat \<Rightarrow> nat list" where
  "he_bps bw =
     [BW2VBPS bw 979 489 230 115, BW2VBPS bw 1958 979 475 230,
      BW2VBPS bw 2937 1468 705 345, BW2VBPS bw 3916 1958 936 475,
      BW2VBPS bw 5875 2937 1411 705, BW2VBPS bw 7833 3916 1872 936,
      BW2VBPS bw 8827 4406 2102 1051, BW2VBPS bw 9806 4896 2347 1166,
      BW2VBPS bw 11764 5875 2808 1411, BW2VBPS bw 13060 6523 3124 1555,
      BW2VBPS bw 14702 7344 3513 1756, BW2VBPS bw 16329 8164 3902 1944]"

definition eht_bps :: "nat \<Rightarrow> nat list" where
  "eht_bps bw =
     [EHT_BW2VBPS bw 1960 980 490 234 117, EHT_BW2VBPS bw 3920 1960 980 468 234,
      EHT_BW2VBPS bw 5880 2937 1470 702 351, EHT_BW2VBPS bw 7840 3920 1960 936 468,
      EHT_BW2VBPS bw 11760 5880 2940 1404 702, EHT_BW2VBPS bw 15680 7840 3920 1872 936,
      EHT_BW2VBPS bw 17640 8820 4410 2106 1053, EHT_BW2VBPS bw 19600 9800 4900 2340 1170,
      EHT_BW2VBPS bw 23520 11760 5880 2808 1404, EHT_BW2VBPS bw 26133 13066 6533 3120 1560,
      EHT_BW2VBPS bw 29400 14700 7350 3510 1755, EHT_BW2VBPS bw 32666 16333 8166 3900 1950,
      EHT_BW2VBPS bw 35280 17640 8820 4212 2106, EHT_BW2VBPS bw 39200 19600 9800 4680 2340]"

text \<open>
  The shift of a group, chosen from the duration of its slowest rate.  \<^verbatim>\<open>VHT_GROUP_SHIFT\<close>
  has 243 where the rate is 234.
\<close>

definition MCS_GROUP_SHIFT :: "nat \<Rightarrow> bool \<Rightarrow> nat \<Rightarrow> nat" where
  "MCS_GROUP_SHIFT streams sgi ht40 =
     GROUP_SHIFT (MCS_DURATION streams sgi (if ht40 \<noteq> 0 then 54 else 26))"

definition VHT_GROUP_SHIFT :: "nat \<Rightarrow> bool \<Rightarrow> nat \<Rightarrow> nat" where
  "VHT_GROUP_SHIFT streams sgi bw = GROUP_SHIFT (MCS_DURATION streams sgi (BW2VBPS bw 243 117 54 26))"

definition HE_GROUP_SHIFT :: "nat \<Rightarrow> nat \<Rightarrow> nat \<Rightarrow> nat" where
  "HE_GROUP_SHIFT streams gi bw = GROUP_SHIFT (HE_DURATION streams gi (BW2VBPS bw 979 489 230 115))"

definition EHT_GROUP_SHIFT :: "nat \<Rightarrow> nat \<Rightarrow> nat \<Rightarrow> nat" where
  "EHT_GROUP_SHIFT streams gi bw =
     GROUP_SHIFT (HE_DURATION streams gi (EHT_BW2VBPS bw 1960 980 490 234 117))"

definition MCS_GROUP :: "nat \<Rightarrow> bool \<Rightarrow> nat \<Rightarrow> mcs_group" where
  "MCS_GROUP streams sgi ht40 =
     (let s = MCS_GROUP_SHIFT streams sgi ht40 in
      \<lparr> shift = of_nat s, duration = rates_init (map (MCS_DURATION_S s streams sgi) (ht_bps ht40)) \<rparr>)"

definition VHT_GROUP :: "nat \<Rightarrow> bool \<Rightarrow> nat \<Rightarrow> mcs_group" where
  "VHT_GROUP streams sgi bw =
     (let s = VHT_GROUP_SHIFT streams sgi bw in
      \<lparr> shift = of_nat s, duration = rates_init (map (MCS_DURATION_S s streams sgi) (vht_bps bw)) \<rparr>)"

definition HE_GROUP :: "nat \<Rightarrow> nat \<Rightarrow> nat \<Rightarrow> mcs_group" where
  "HE_GROUP streams gi bw =
     (let s = HE_GROUP_SHIFT streams gi bw in
      \<lparr> shift = of_nat s, duration = rates_init (map (HE_DURATION_S s streams gi) (he_bps bw)) \<rparr>)"

definition EHT_GROUP :: "nat \<Rightarrow> nat \<Rightarrow> nat \<Rightarrow> mcs_group" where
  "EHT_GROUP streams gi bw =
     (let s = EHT_GROUP_SHIFT streams gi bw in
      \<lparr> shift = of_nat s, duration = rates_init (map (HE_DURATION_S s streams gi) (eht_bps bw)) \<rparr>)"

text \<open>
  The initialisers of \<^verbatim>\<open>airtime_mcs_groups\<close> in the order of the file, each with its
  designator \<^verbatim>\<open>[...GROUP_IDX(...)]\<close>.
\<close>

definition ht_initializers :: "(nat \<times> mcs_group) list" where
  "ht_initializers =
     [(HT_GROUP_IDX n sgi bw, MCS_GROUP n sgi bw).
        bw \<leftarrow> [BW_20, BW_40], sgi \<leftarrow> [False, True], n \<leftarrow> [1, 2, 3, 4]]"

definition vht_initializers :: "(nat \<times> mcs_group) list" where
  "vht_initializers =
     [(VHT_GROUP_IDX n sgi bw, VHT_GROUP n sgi bw).
        bw \<leftarrow> [BW_20, BW_40, BW_80, BW_160], sgi \<leftarrow> [False, True], n \<leftarrow> [1, 2, 3, 4]]"

definition he_initializers :: "(nat \<times> mcs_group) list" where
  "he_initializers =
     [(HE_GROUP_IDX n gi bw, HE_GROUP n gi bw).
        bw \<leftarrow> [BW_20, BW_40, BW_80, BW_160], gi \<leftarrow> [0, 1, 2], n \<leftarrow> [1, 2, 3, 4, 5, 6, 7, 8]]"

definition eht_initializers :: "(nat \<times> mcs_group) list" where
  "eht_initializers =
     [(EHT_GROUP_IDX n gi bw, EHT_GROUP n gi bw).
        bw \<leftarrow> [BW_20, BW_40, BW_80, BW_160, BW_320], gi \<leftarrow> [0, 1, 2], n \<leftarrow> [1, 2, 3, 4, 5, 6, 7, 8]]"

text \<open>
  What a C array with designated initialisers holds: its size is one more than the largest
  designator, a later initialiser of an element overrides an earlier one, and an element
  without one is zero.
\<close>

definition designated :: "'a \<Rightarrow> (nat \<times> 'a) list \<Rightarrow> 'a list" where
  "designated z ds =
     fold (\<lambda>(i, x) a. a[i := x]) ds (replicate (Suc (fold (\<lambda>d m. max (fst d) m) ds 0)) z)"

definition airtime_mcs_groups :: "mcs_group list" where
  "airtime_mcs_groups =
     designated \<lparr> shift = 0, duration = replicate MCS_GROUP_RATES 0 \<rparr>
       (ht_initializers @ vht_initializers @ he_initializers @ eht_initializers)"

subsection \<open>Shifts\<close>

lemma bitlen_bound: "n < 2 ^ bitlen n"
proof (induction n rule: bitlen.induct)
  case (1 n)
  show ?case
  proof (cases "n = 0")
    case False
    with 1 have "n div 2 < 2 ^ bitlen (n div 2)" by simp
    then have "n < 2 * 2 ^ bitlen (n div 2)" by linarith
    with False show ?thesis by (subst bitlen.simps) simp
  qed (simp add: bitlen.simps)
qed

lemma bitlen_le: "n < 2 ^ k \<Longrightarrow> bitlen n \<le> k"
proof (induction k arbitrary: n)
  case (Suc k)
  show ?case
  proof (cases "n = 0")
    case False
    from Suc.prems have "n div 2 < 2 ^ k" by simp
    with Suc.IH False show ?thesis by (subst bitlen.simps) simp
  qed (simp add: bitlen.simps)
qed (simp add: bitlen.simps)

lemma bitlen_mono: "m \<le> n \<Longrightarrow> bitlen m \<le> bitlen n"
  by (rule bitlen_le) (meson bitlen_bound le_less_trans)

lemma GROUP_SHIFT_eq: "GROUP_SHIFT d = bitlen (unat d) - 16"
  by (simp add: GROUP_SHIFT_def builtin_clz_def)

lemma GROUP_SHIFT_le: "unat d < 2 ^ 21 \<Longrightarrow> GROUP_SHIFT d \<le> 5"
  using bitlen_le [of "unat d" 21] by (simp add: GROUP_SHIFT_eq)

lemma GROUP_SHIFT_fits:
  assumes "unat x \<le> unat y"
  shows "unat x div 2 ^ GROUP_SHIFT y < 2 ^ 16"
proof -
  have "unat x < 2 ^ bitlen (unat y)"
    using bitlen_bound [of "unat y"] assms by linarith
  also have "\<dots> \<le> 2 ^ (16 + GROUP_SHIFT y)"
    by (rule power_increasing) (simp_all add: GROUP_SHIFT_eq)
  also have "\<dots> = 2 ^ 16 * 2 ^ GROUP_SHIFT y" by (rule power_add)
  finally show ?thesis by (subst div_less_iff_less_mult) simp_all
qed

lemma unat_shifted_u16:
  fixes x :: u32
  assumes "unat x div 2 ^ s < 2 ^ 16"
  shows "unat (ucast (drop_bit s x) :: u16) = unat x div 2 ^ s"
  using assms by (simp only: unsigned_ucast_eq unat_drop_bit_eq) (simp add: drop_bit_eq_div take_bit_nat_eq_self)

subsection \<open>Durations fall with the rate\<close>

lemma MCS_N_KSYMS_eq: "0 < b \<Longrightarrow> MCS_N_KSYMS b = 8388607 div b + 1"
proof -
  assume b: "0 < b"
  have "MCS_N_KSYMS b = (8388607 + b) div b" by (simp add: MCS_N_KSYMS_def MCS_NBITS_def)
  also have "\<dots> = 8388607 div b + 1" using b by (subst div_add_self2) simp_all
  finally show ?thesis .
qed

lemma MCS_N_KSYMS_antimono:
  assumes "0 < b" "b \<le> c"
  shows "MCS_N_KSYMS c \<le> MCS_N_KSYMS b"
  using assms by (simp add: MCS_N_KSYMS_eq div_le_mono2)

lemma MCS_SYMBOL_TIME_mono: "k \<le> l \<Longrightarrow> MCS_SYMBOL_TIME sgi k \<le> MCS_SYMBOL_TIME sgi l"
  by (simp add: MCS_SYMBOL_TIME_def div_le_mono)

lemma HE_SYMBOL_TIME_mono: "k \<le> l \<Longrightarrow> HE_SYMBOL_TIME gi k \<le> HE_SYMBOL_TIME gi l"
  by (simp add: HE_SYMBOL_TIME_def div_le_mono)

lemma MCS_SYMBOL_TIME_le: "MCS_SYMBOL_TIME sgi k \<le> k * 4"
  by (cases sgi; simp add: MCS_SYMBOL_TIME_def; linarith)

lemma HE_SYMBOL_TIME_le: "HE_SYMBOL_TIME gi k \<le> k * 16"
  unfolding HE_SYMBOL_TIME_def by (cases "gi = 0"; cases "gi = 1"; simp; linarith)

text \<open>\<open>mcs_time\<close> and \<open>he_time\<close> are the durations before any rounding to the table's fields.\<close>

definition mcs_time :: "nat \<Rightarrow> bool \<Rightarrow> nat \<Rightarrow> nat" where
  "mcs_time streams sgi bps = MCS_SYMBOL_TIME sgi (MCS_N_KSYMS (streams * bps))"

definition he_time :: "nat \<Rightarrow> nat \<Rightarrow> nat \<Rightarrow> nat" where
  "he_time streams gi bps = HE_SYMBOL_TIME gi (MCS_N_KSYMS (streams * bps))"

lemma KSYMS_le:
  assumes "0 < b" "b \<le> bps" "0 < streams"
  shows "MCS_N_KSYMS (streams * bps) \<le> MCS_N_KSYMS b"
proof (rule MCS_N_KSYMS_antimono)
  have "b \<le> 1 * bps" using assms by simp
  also have "\<dots> \<le> streams * bps" using assms by (intro mult_le_mono) simp_all
  finally show "b \<le> streams * bps" .
qed (use assms in simp)

lemma mcs_time_le:
  assumes "26 \<le> bps" "0 < streams"
  shows "mcs_time streams sgi bps \<le> 1290556"
proof -
  have "MCS_N_KSYMS (streams * bps) \<le> MCS_N_KSYMS 26" using assms by (intro KSYMS_le) simp_all
  then have "MCS_N_KSYMS (streams * bps) \<le> 322639" by (simp add: MCS_N_KSYMS_eq)
  then show ?thesis
    using MCS_SYMBOL_TIME_le [of sgi "MCS_N_KSYMS (streams * bps)"] by (simp add: mcs_time_def)
qed

lemma he_time_le:
  assumes "115 \<le> bps" "0 < streams"
  shows "he_time streams gi bps \<le> 1167120"
proof -
  have "MCS_N_KSYMS (streams * bps) \<le> MCS_N_KSYMS 115" using assms by (intro KSYMS_le) simp_all
  then have "MCS_N_KSYMS (streams * bps) \<le> 72945" by (simp add: MCS_N_KSYMS_eq)
  then show ?thesis
    using HE_SYMBOL_TIME_le [of gi "MCS_N_KSYMS (streams * bps)"] by (simp add: he_time_def)
qed

lemma mcs_time_antimono:
  "0 < streams \<Longrightarrow> 0 < b \<Longrightarrow> b \<le> c \<Longrightarrow> mcs_time streams sgi c \<le> mcs_time streams sgi b"
  by (simp add: mcs_time_def MCS_SYMBOL_TIME_mono MCS_N_KSYMS_antimono)

lemma he_time_antimono:
  "0 < streams \<Longrightarrow> 0 < b \<Longrightarrow> b \<le> c \<Longrightarrow> he_time streams gi c \<le> he_time streams gi b"
  by (simp add: he_time_def HE_SYMBOL_TIME_mono MCS_N_KSYMS_antimono)

lemma unat_MCS_DURATION:
  assumes "26 \<le> bps" "0 < streams"
  shows "unat (MCS_DURATION streams sgi bps) = mcs_time streams sgi bps"
  using mcs_time_le [OF assms, of sgi]
  by (simp add: MCS_DURATION_def unat_of_nat_u32 flip: mcs_time_def)

lemma unat_HE_DURATION:
  assumes "115 \<le> bps" "0 < streams"
  shows "unat (HE_DURATION streams gi bps) = he_time streams gi bps"
  using he_time_le [OF assms, of gi]
  by (simp add: HE_DURATION_def unat_of_nat_u32 flip: he_time_def)

lemma GROUP_SHIFT_MCS: "26 \<le> bps \<Longrightarrow> 0 < streams \<Longrightarrow> GROUP_SHIFT (MCS_DURATION streams sgi bps) \<le> 5"
  by (rule GROUP_SHIFT_le) (use mcs_time_le [of bps streams sgi] in \<open>simp add: unat_MCS_DURATION\<close>)

lemma GROUP_SHIFT_HE: "115 \<le> bps \<Longrightarrow> 0 < streams \<Longrightarrow> GROUP_SHIFT (HE_DURATION streams gi bps) \<le> 5"
  by (rule GROUP_SHIFT_le) (use he_time_le [of bps streams gi] in \<open>simp add: unat_HE_DURATION\<close>)

lemma KSYMS_ge: "0 < b \<Longrightarrow> b \<le> 313600 \<Longrightarrow> 27 \<le> MCS_N_KSYMS b"
  using MCS_N_KSYMS_antimono [of b 313600] by (simp add: MCS_N_KSYMS_eq)

lemma mcs_time_ge:
  assumes "0 < streams * bps" "streams * bps \<le> 313600"
  shows "32 \<le> mcs_time streams sgi bps"
  using MCS_SYMBOL_TIME_mono [OF KSYMS_ge [OF assms], of sgi]
  by (cases sgi) (simp_all add: mcs_time_def MCS_SYMBOL_TIME_def)

lemma he_time_ge:
  assumes "0 < streams * bps" "streams * bps \<le> 313600"
  shows "32 \<le> he_time streams gi bps"
  using HE_SYMBOL_TIME_mono [OF KSYMS_ge [OF assms], of gi]
  by (simp add: he_time_def HE_SYMBOL_TIME_def split: if_splits)

subsection \<open>What the table holds\<close>

text \<open>
  \<open>holds_durations g ts\<close>: the group stores the durations \<open>ts\<close>, each rounded down to a
  multiple of the group's power of two and none truncated, and zero after them.
\<close>

definition holds_durations :: "mcs_group \<Rightarrow> nat list \<Rightarrow> bool" where
  "holds_durations g ts \<longleftrightarrow>
     length (duration g) = MCS_GROUP_RATES \<and> unat (shift g) \<le> 5 \<and>
     (\<forall>i<MCS_GROUP_RATES. unat (duration g ! i) = (if i < length ts then ts ! i div 2 ^ unat (shift g) else 0))"

lemma holds_durationsI:
  assumes "length ts \<le> MCS_GROUP_RATES" "s \<le> 5" "length ds = length ts"
    and "\<And>i. i < length ts \<Longrightarrow> unat (ds ! i) = ts ! i div 2 ^ s"
  shows "holds_durations \<lparr> shift = of_nat s, duration = rates_init ds \<rparr> ts"
proof -
  have "unat (of_nat s :: u8) = s" using assms(2) by (simp add: unat_of_nat take_bit_nat_eq_self)
  then show ?thesis
    using assms by (auto simp: holds_durations_def rates_init_def nth_append)
qed

lemma MCS_DURATION_S_exact:
  assumes "26 \<le> b0" "b0 \<le> bps" "0 < streams"
  shows "unat (MCS_DURATION_S (GROUP_SHIFT (MCS_DURATION streams sgi b0)) streams sgi bps) =
         mcs_time streams sgi bps div 2 ^ GROUP_SHIFT (MCS_DURATION streams sgi b0)"
proof -
  have le: "unat (MCS_DURATION streams sgi bps) \<le> unat (MCS_DURATION streams sgi b0)"
    using assms by (simp add: unat_MCS_DURATION mcs_time_antimono)
  show ?thesis
    unfolding MCS_DURATION_S_def
    by (subst unat_shifted_u16 [OF GROUP_SHIFT_fits [OF le]]) (use assms in \<open>simp add: unat_MCS_DURATION\<close>)
qed

lemma HE_DURATION_S_exact:
  assumes "115 \<le> b0" "b0 \<le> bps" "0 < streams"
  shows "unat (HE_DURATION_S (GROUP_SHIFT (HE_DURATION streams gi b0)) streams gi bps) =
         he_time streams gi bps div 2 ^ GROUP_SHIFT (HE_DURATION streams gi b0)"
proof -
  have le: "unat (HE_DURATION streams gi bps) \<le> unat (HE_DURATION streams gi b0)"
    using assms by (simp add: unat_HE_DURATION he_time_antimono)
  show ?thesis
    unfolding HE_DURATION_S_def
    by (subst unat_shifted_u16 [OF GROUP_SHIFT_fits [OF le]]) (use assms in \<open>simp add: unat_HE_DURATION\<close>)
qed

text \<open>The 243 in \<^verbatim>\<open>VHT_GROUP_SHIFT\<close> gives the same shift as the group's slowest rate, 234.\<close>

lemma one_to_four: "0 < n \<Longrightarrow> n \<le> 4 \<Longrightarrow> n = 1 \<or> n = 2 \<or> n = 3 \<or> n = (4 :: nat)"
  by linarith

lemma VHT_GROUP_SHIFT_eq:
  assumes "0 < n" "n \<le> 4"
  shows "VHT_GROUP_SHIFT n sgi bw = GROUP_SHIFT (MCS_DURATION n sgi (BW2VBPS bw 234 117 54 26))"
proof -
  have "GROUP_SHIFT (MCS_DURATION n sgi 243) = GROUP_SHIFT (MCS_DURATION n sgi 234)"
    using one_to_four [OF assms]
    by (cases sgi; elim disjE; hypsubst)
      (simp_all add: GROUP_SHIFT_eq unat_MCS_DURATION mcs_time_def MCS_SYMBOL_TIME_def
        MCS_N_KSYMS_def MCS_NBITS_def bitlen.simps)
  then show ?thesis by (simp add: VHT_GROUP_SHIFT_def BW2VBPS_def)
qed

lemma MCS_GROUP_holds:
  assumes "0 < n"
  shows "holds_durations (MCS_GROUP n sgi bw) (map (mcs_time n sgi) (ht_bps bw))"
proof -
  have "\<forall>b\<in>set (ht_bps bw). (if bw \<noteq> 0 then 54 else 26) \<le> b" by (simp add: ht_bps_def)
  then show ?thesis
    unfolding MCS_GROUP_def Let_def MCS_GROUP_SHIFT_def using assms
    by (intro holds_durationsI)
      (simp_all add: GROUP_SHIFT_MCS MCS_DURATION_S_exact del: if_split, simp add: ht_bps_def)
qed

lemma VHT_GROUP_holds:
  assumes "0 < n" "n \<le> 4"
  shows "holds_durations (VHT_GROUP n sgi bw) (map (mcs_time n sgi) (vht_bps bw))"
proof -
  have "\<forall>b\<in>set (vht_bps bw). BW2VBPS bw 234 117 54 26 \<le> b" "26 \<le> BW2VBPS bw 234 117 54 26"
    by (simp_all add: vht_bps_def BW2VBPS_def)
  then show ?thesis
    unfolding VHT_GROUP_def Let_def VHT_GROUP_SHIFT_eq [OF assms] using assms(1)
    by (intro holds_durationsI)
      (simp_all add: GROUP_SHIFT_MCS MCS_DURATION_S_exact, simp add: vht_bps_def)
qed

lemma HE_GROUP_holds:
  assumes "0 < n"
  shows "holds_durations (HE_GROUP n gi bw) (map (he_time n gi) (he_bps bw))"
proof -
  have "\<forall>b\<in>set (he_bps bw). BW2VBPS bw 979 489 230 115 \<le> b" "115 \<le> BW2VBPS bw 979 489 230 115"
    by (simp_all add: he_bps_def BW2VBPS_def)
  then show ?thesis
    unfolding HE_GROUP_def Let_def HE_GROUP_SHIFT_def using assms
    by (intro holds_durationsI)
      (simp_all add: GROUP_SHIFT_HE HE_DURATION_S_exact, simp add: he_bps_def)
qed

lemma EHT_GROUP_holds:
  assumes "0 < n"
  shows "holds_durations (EHT_GROUP n gi bw) (map (he_time n gi) (eht_bps bw))"
proof -
  have "\<forall>b\<in>set (eht_bps bw). EHT_BW2VBPS bw 1960 980 490 234 117 \<le> b"
    "115 \<le> EHT_BW2VBPS bw 1960 980 490 234 117"
    by (simp_all add: eht_bps_def BW2VBPS_def EHT_BW2VBPS_def)
  then show ?thesis
    unfolding EHT_GROUP_def Let_def EHT_GROUP_SHIFT_def using assms
    by (intro holds_durationsI)
      (simp_all add: GROUP_SHIFT_HE HE_DURATION_S_exact, simp add: eht_bps_def)
qed

subsection \<open>Where the index macros point\<close>

lemma fst_upt_ConsD:
  assumes "map fst (d # ds) = [k..<k + length (d # ds)]"
  shows "fst d = k" "map fst ds = [Suc k..<Suc k + length ds]"
proof -
  have "[k..<k + Suc (length ds)] = k # [Suc k..<Suc k + length ds]"
    by (simp add: upt_rec [of k] del: upt_Suc)
  with assms show "fst d = k" "map fst ds = [Suc k..<Suc k + length ds]" by simp_all
qed

lemma fold_assign:
  assumes "map fst ds = [k..<k + length ds]" "k + length ds \<le> length a"
  shows "fold (\<lambda>(i, x) a. a[i := x]) ds a = take k a @ map snd ds @ drop (k + length ds) a"
  using assms
proof (induction ds arbitrary: k a)
  case (Cons d ds)
  obtain i x where d: "d = (i, x)" by (cases d)
  have i: "i = k" and ds: "map fst ds = [Suc k..<Suc k + length ds]"
    using fst_upt_ConsD [OF Cons.prems(1)] d by simp_all
  have "fold (\<lambda>(i, x) a. a[i := x]) ds (a[k := x]) =
        take (Suc k) (a[k := x]) @ map snd ds @ drop (Suc k + length ds) (a[k := x])"
    using Cons.IH [OF ds, of "a[k := x]"] Cons.prems(2) by simp
  moreover have "take (Suc k) (a[k := x]) = take k a @ [x]"
    using Cons.prems(2) by (simp add: take_Suc_conv_app_nth)
  ultimately show ?case using d i by simp
qed simp

lemma fold_max_upt:
  "map fst ds = [k..<k + length ds] \<Longrightarrow> ds \<noteq> [] \<Longrightarrow> m \<le> k \<Longrightarrow>
   Suc (fold (\<lambda>d m. max (fst d) m) ds m) = k + length ds"
proof (induction ds arbitrary: k m)
  case (Cons d ds)
  have d: "fst d = k" and ds: "map fst ds = [Suc k..<Suc k + length ds]"
    by (rule fst_upt_ConsD [OF Cons.prems(1)])+
  show ?case
  proof (cases "ds = []")
    case True then show ?thesis using d Cons.prems by simp
  next
    case False
    then show ?thesis using Cons.IH [OF ds False, of "max k m"] d Cons.prems(3) by simp
  qed
qed simp

lemma designated_in_order:
  assumes "map fst ds = [0..<length ds]" "ds \<noteq> []"
  shows "designated z ds = map snd ds"
  using assms fold_assign [of ds 0 "replicate (length ds) z"] fold_max_upt [of ds 0 0]
  by (simp add: designated_def)

lemma lookup_in_order:
  assumes "map fst ds = [0..<length ds]" "(i, x) \<in> set ds"
  shows "map snd ds ! i = x \<and> i < length ds"
proof -
  from assms(2) obtain j where j: "j < length ds" "ds ! j = (i, x)" by (metis in_set_conv_nth)
  then have "fst (ds ! j) = j" using assms(1) by (metis add_0 nth_map nth_upt)
  with j show ?thesis by simp
qed

lemma designators_in_order:
  "map fst (ht_initializers @ vht_initializers @ he_initializers @ eht_initializers) = [0..<264]"
  by (simp add: ht_initializers_def vht_initializers_def he_initializers_def eht_initializers_def
      HT_GROUP_IDX_def VHT_GROUP_IDX_def HE_GROUP_IDX_def EHT_GROUP_IDX_def upt_conv_Cons)

lemma length_initializers:
  "length (ht_initializers @ vht_initializers @ he_initializers @ eht_initializers) = 264"
  using arg_cong [OF designators_in_order, of length] by simp

lemma airtime_mcs_groups_eq:
  "airtime_mcs_groups = map snd (ht_initializers @ vht_initializers @ he_initializers @ eht_initializers)"
  unfolding airtime_mcs_groups_def
proof (rule designated_in_order)
  show "map fst (ht_initializers @ vht_initializers @ he_initializers @ eht_initializers) =
    [0..<length (ht_initializers @ vht_initializers @ he_initializers @ eht_initializers)]"
    by (simp only: designators_in_order length_initializers)
  show "ht_initializers @ vht_initializers @ he_initializers @ eht_initializers \<noteq> []"
    by (simp add: ht_initializers_def)
qed

lemma length_airtime_mcs_groups: "length airtime_mcs_groups = 264"
  unfolding airtime_mcs_groups_eq length_map by (rule length_initializers)

lemma table_lookup:
  assumes "(i, g) \<in> set (ht_initializers @ vht_initializers @ he_initializers @ eht_initializers)"
  shows "airtime_mcs_groups ! i = g" "i < 264"
proof -
  have "map fst (ht_initializers @ vht_initializers @ he_initializers @ eht_initializers) =
    [0..<length (ht_initializers @ vht_initializers @ he_initializers @ eht_initializers)]"
    by (simp only: designators_in_order length_initializers)
  from lookup_in_order [OF this assms] show "airtime_mcs_groups ! i = g" "i < 264"
    unfolding airtime_mcs_groups_eq length_initializers by simp_all
qed

lemma in_nested_map:
  "x \<in> set xs \<Longrightarrow> y \<in> set ys \<Longrightarrow> z \<in> set zs \<Longrightarrow>
   f x y z \<in> set (concat (map (\<lambda>x. concat (map (\<lambda>y. map (f x y) zs) ys)) xs))"
  by auto

lemma ht_in_table:
  "0 < n \<Longrightarrow> n \<le> 4 \<Longrightarrow> bw \<le> 1 \<Longrightarrow> (HT_GROUP_IDX n sgi bw, MCS_GROUP n sgi bw) \<in> set ht_initializers"
  unfolding ht_initializers_def
  by (rule in_nested_map [where f = "\<lambda>bw sgi n. (HT_GROUP_IDX n sgi bw, MCS_GROUP n sgi bw)"]) auto

lemma vht_in_table:
  "0 < n \<Longrightarrow> n \<le> 4 \<Longrightarrow> bw \<le> 3 \<Longrightarrow> (VHT_GROUP_IDX n sgi bw, VHT_GROUP n sgi bw) \<in> set vht_initializers"
  unfolding vht_initializers_def
  by (rule in_nested_map [where f = "\<lambda>bw sgi n. (VHT_GROUP_IDX n sgi bw, VHT_GROUP n sgi bw)"]) auto

lemma he_in_table:
  "0 < n \<Longrightarrow> n \<le> 8 \<Longrightarrow> gi \<le> 2 \<Longrightarrow> bw \<le> 3 \<Longrightarrow> (HE_GROUP_IDX n gi bw, HE_GROUP n gi bw) \<in> set he_initializers"
  unfolding he_initializers_def
  by (rule in_nested_map [where f = "\<lambda>bw gi n. (HE_GROUP_IDX n gi bw, HE_GROUP n gi bw)"]) auto

lemma eht_in_table:
  "0 < n \<Longrightarrow> n \<le> 8 \<Longrightarrow> gi \<le> 2 \<Longrightarrow> bw \<le> 4 \<Longrightarrow> (EHT_GROUP_IDX n gi bw, EHT_GROUP n gi bw) \<in> set eht_initializers"
  unfolding eht_initializers_def
  by (rule in_nested_map [where f = "\<lambda>bw gi n. (EHT_GROUP_IDX n gi bw, EHT_GROUP n gi bw)"]) auto

lemma ht_lookup: "0 < n \<Longrightarrow> n \<le> 4 \<Longrightarrow> bw \<le> 1 \<Longrightarrow> airtime_mcs_groups ! HT_GROUP_IDX n sgi bw = MCS_GROUP n sgi bw"
  by (rule table_lookup) (simp add: ht_in_table)

lemma vht_lookup: "0 < n \<Longrightarrow> n \<le> 4 \<Longrightarrow> bw \<le> 3 \<Longrightarrow> airtime_mcs_groups ! VHT_GROUP_IDX n sgi bw = VHT_GROUP n sgi bw"
  by (rule table_lookup) (simp add: vht_in_table)

lemma he_lookup:
  "0 < n \<Longrightarrow> n \<le> 8 \<Longrightarrow> gi \<le> 2 \<Longrightarrow> bw \<le> 3 \<Longrightarrow> airtime_mcs_groups ! HE_GROUP_IDX n gi bw = HE_GROUP n gi bw"
  by (rule table_lookup) (simp add: he_in_table)

lemma eht_lookup:
  "0 < n \<Longrightarrow> n \<le> 8 \<Longrightarrow> gi \<le> 2 \<Longrightarrow> bw \<le> 4 \<Longrightarrow> airtime_mcs_groups ! EHT_GROUP_IDX n gi bw = EHT_GROUP n gi bw"
  by (rule table_lookup) (simp add: eht_in_table)

lemmas group_lookups = ht_lookup vht_lookup he_lookup eht_lookup
lemmas groups_hold = MCS_GROUP_holds VHT_GROUP_holds HE_GROUP_holds EHT_GROUP_holds

text \<open>C36: the table is right.  For every stream count, guard interval and bandwidth of a
  modulation, the index macro addresses the group that holds its durations, each rate's
  duration stored in 16 bits without loss of a high bit, rounded down to the group's power
  of two.\<close>

theorem airtime_table_exact:
  "(\<forall>n\<in>{1..4}. \<forall>sgi. \<forall>bw\<le>BW_40. holds_durations (airtime_mcs_groups ! HT_GROUP_IDX n sgi bw) (map (mcs_time n sgi) (ht_bps bw))) \<and>
   (\<forall>n\<in>{1..4}. \<forall>sgi. \<forall>bw\<le>BW_160. holds_durations (airtime_mcs_groups ! VHT_GROUP_IDX n sgi bw) (map (mcs_time n sgi) (vht_bps bw))) \<and>
   (\<forall>n\<in>{1..8}. \<forall>gi\<le>2. \<forall>bw\<le>BW_160. holds_durations (airtime_mcs_groups ! HE_GROUP_IDX n gi bw) (map (he_time n gi) (he_bps bw))) \<and>
   (\<forall>n\<in>{1..8}. \<forall>gi\<le>2. \<forall>bw\<le>BW_320. holds_durations (airtime_mcs_groups ! EHT_GROUP_IDX n gi bw) (map (he_time n gi) (eht_bps bw)))"
  by (simp add: group_lookups groups_hold)

lemma airtime_table_exact_witness:
  "holds_durations (airtime_mcs_groups ! VHT_GROUP_IDX 3 True BW_160) (map (mcs_time 3 True) (vht_bps BW_160))"
  using airtime_table_exact by simp

end
