(* ===== verification/Airtime.thy ===== *)
theory Airtime
  imports Airtime_Table
begin

text \<open>
  The airtime estimator \<^verbatim>\<open>mac80211/airtime.c\<close> on top of its table: the duration of an
  average packet at a rate, the airtime of received frames, of transmitted frames over their
  retry chain, and of frames about to be queued.

  Results are \<open>option\<close> values: \<open>None\<close> stands for a step C leaves undefined (a read outside
  an array, a division by zero, a null band), so that a theorem with \<open>Some\<close> also says the
  code reaches none of them.  A bit-field or union member of \<^verbatim>\<open>struct ieee80211_rx_status\<close>
  is a field of its own: each encoding reads the guard interval only through the member it
  was written through.
\<close>

subsection \<open>Rates and receive status\<close>

text \<open>The constants of \<^verbatim>\<open>enum rate_info_bw\<close> that the file distinguishes, and all others.\<close>

datatype rate_info_bw = RATE_INFO_BW_20 | RATE_INFO_BW_40 | RATE_INFO_BW_80 | RATE_INFO_BW_160
  | RATE_INFO_BW_320 | RATE_INFO_BW_other

datatype mac80211_rx_encoding = RX_ENC_LEGACY | RX_ENC_HT | RX_ENC_VHT | RX_ENC_HE | RX_ENC_EHT | RX_ENC_UHR

abbreviation (input) RX_ENC_FLAG_SHORTPRE :: u8 where "RX_ENC_FLAG_SHORTPRE \<equiv> 0x01"
abbreviation (input) RX_ENC_FLAG_SHORT_GI :: u8 where "RX_ENC_FLAG_SHORT_GI \<equiv> 0x04"

text \<open>\<^verbatim>\<open>enum nl80211_band\<close>; the code's zero is \<^verbatim>\<open>NL80211_BAND_2GHZ\<close>.\<close>

datatype nl80211_band = NL80211_BAND_2GHZ | NL80211_BAND_5GHZ | NL80211_BAND_60GHZ | NL80211_BAND_6GHZ
  | NL80211_BAND_S1GHZ | NL80211_BAND_LC

record ieee80211_rx_status =
  enc_flags :: u8
  encoding :: mac80211_rx_encoding
  bw :: rate_info_bw
  he_gi :: nat
  eht_gi :: nat
  rate_idx :: u8
  nss :: u8
  band :: nl80211_band

text \<open>\<^verbatim>\<open>struct ieee80211_rate\<close>, \<^verbatim>\<open>struct ieee80211_supported_band\<close> and the bands of the hardware.\<close>

record ieee80211_rate =
  bitrate :: u16
  mandatory_b :: bool

type_synonym ieee80211_supported_band = "ieee80211_rate list"

record ieee80211_hw =
  hw_bands :: "nl80211_band \<Rightarrow> ieee80211_supported_band option"

text \<open>
  A division of C \<^verbatim>\<open>int\<close>s, with the arguments and the result as their 32 bit patterns, and
  \<open>None\<close> for a zero divisor.
\<close>

definition s32_div :: "u32 \<Rightarrow> u32 \<Rightarrow> u32 option" where
  "s32_div a b = (if b = 0 then None else Some (word_of_int (sint a sdiv sint b)))"

subsection \<open>Durations and receive airtime\<close>

definition ieee80211_calc_legacy_rate_duration :: "u16 \<Rightarrow> bool \<Rightarrow> bool \<Rightarrow> u32 \<Rightarrow> u32 option" where
  "ieee80211_calc_legacy_rate_duration br short_pre cck len =
     (let dur :: u32 =
            (if cck
             then (if short_pre then drop_bit 1 (144 + 48) else 144 + 48) + 10
             else 20 + 16);
          len = push_bit 3 len
      in map_option (\<lambda>t. dur + t) (s32_div (len * 10) (ucast br)))"

definition bw_index :: "rate_info_bw \<Rightarrow> nat option" where
  "bw_index b = (case b of
       RATE_INFO_BW_20 \<Rightarrow> Some BW_20
     | RATE_INFO_BW_40 \<Rightarrow> Some BW_40
     | RATE_INFO_BW_80 \<Rightarrow> Some BW_80
     | RATE_INFO_BW_160 \<Rightarrow> Some BW_160
     | RATE_INFO_BW_320 \<Rightarrow> Some BW_320
     | RATE_INFO_BW_other \<Rightarrow> None)"

text \<open>The streams, the rate within its group, and the group, of an encoding that has them.\<close>

definition rate_group :: "ieee80211_rx_status \<Rightarrow> nat \<Rightarrow> (nat \<times> nat \<times> nat) option" where
  "rate_group st b =
     (let sgi = (enc_flags st AND RX_ENC_FLAG_SHORT_GI \<noteq> 0) in
      case encoding st of
        RX_ENC_VHT \<Rightarrow> Some (unat (nss st), unat (rate_idx st), VHT_GROUP_IDX (unat (nss st)) sgi b)
      | RX_ENC_HT \<Rightarrow>
          (let streams = unat (drop_bit 3 (rate_idx st) AND 3) + 1 in
           Some (streams, unat (rate_idx st AND 7), HT_GROUP_IDX streams sgi b))
      | RX_ENC_HE \<Rightarrow> Some (unat (nss st), unat (rate_idx st), HE_GROUP_IDX (unat (nss st)) (he_gi st) b)
      | RX_ENC_EHT \<Rightarrow> Some (unat (nss st), unat (rate_idx st), EHT_GROUP_IDX (unat (nss st)) (eht_gi st) b)
      | _ \<Rightarrow> None)"

text \<open>
  The second component of the result is what \<^verbatim>\<open>*overhead\<close> holds on return: the early
  returns leave the caller's value in it.
\<close>

definition ieee80211_get_rate_duration :: "ieee80211_rx_status \<Rightarrow> u32 \<Rightarrow> (u32 \<times> u32) option" where
  "ieee80211_get_rate_duration st overhead =
     (case bw_index (bw st) of
        None \<Rightarrow> Some (0, overhead)
      | Some b \<Rightarrow>
        (case rate_group st b of
           None \<Rightarrow> Some (0, overhead)
         | Some (streams, i, grp) \<Rightarrow>
             if streams > (if encoding st = RX_ENC_EHT \<or> encoding st = RX_ENC_HE then 8 else 4)
             then Some (0, overhead)
             else if i \<ge> MCS_GROUP_RATES then Some (0, overhead)
             else if grp \<ge> length airtime_mcs_groups then None
             else Some (push_bit (unat (shift (airtime_mcs_groups ! grp)))
                          (ucast (duration (airtime_mcs_groups ! grp) ! i)),
                        of_nat (36 + streams * 4))))"

definition ieee80211_calc_rx_airtime :: "ieee80211_hw \<Rightarrow> ieee80211_rx_status \<Rightarrow> u32 \<Rightarrow> u32 option" where
  "ieee80211_calc_rx_airtime hw st len =
     (if encoding st = RX_ENC_LEGACY then
        (if band st = NL80211_BAND_60GHZ \<or> band st = NL80211_BAND_S1GHZ then Some 0
         else (case hw_bands hw (band st) of
             None \<Rightarrow> Some 0
           | Some sband \<Rightarrow>
               if unat (rate_idx st) \<ge> length sband then Some 0
               else (let rate = sband ! unat (rate_idx st) in
                     ieee80211_calc_legacy_rate_duration (bitrate rate)
                       (enc_flags st AND RX_ENC_FLAG_SHORTPRE \<noteq> 0) (mandatory_b rate) len)))
      else (case ieee80211_get_rate_duration st 0 of
          None \<Rightarrow> None
        | Some (dur, overhead) \<Rightarrow>
            if dur = 0 then Some 0
            else Some (dur * len div of_nat AVG_PKT_SIZE div 1024 + overhead)))"

subsection \<open>The rate of a transmitted frame\<close>

text \<open>\<^verbatim>\<open>struct rate_info\<close>: the flags are named after its \<^verbatim>\<open>RATE_INFO_FLAGS_*\<close> bits.\<close>

record rate_info =
  ri_eht_mcs :: bool
  ri_he_mcs :: bool
  ri_vht_mcs :: bool
  ri_mcs_flag :: bool
  ri_short_gi :: bool
  ri_mcs :: u8
  ri_legacy :: u16
  ri_nss :: u8
  ri_bw :: rate_info_bw
  ri_he_gi :: nat
  ri_eht_gi :: nat

abbreviation (input) IEEE80211_TX_RC_USE_SHORT_PREAMBLE :: u16 where "IEEE80211_TX_RC_USE_SHORT_PREAMBLE \<equiv> 0x004"
abbreviation (input) IEEE80211_TX_RC_MCS :: u16 where "IEEE80211_TX_RC_MCS \<equiv> 0x008"
abbreviation (input) IEEE80211_TX_RC_40_MHZ_WIDTH :: u16 where "IEEE80211_TX_RC_40_MHZ_WIDTH \<equiv> 0x020"
abbreviation (input) IEEE80211_TX_RC_SHORT_GI :: u16 where "IEEE80211_TX_RC_SHORT_GI \<equiv> 0x080"
abbreviation (input) IEEE80211_TX_RC_VHT_MCS :: u16 where "IEEE80211_TX_RC_VHT_MCS \<equiv> 0x100"
abbreviation (input) IEEE80211_TX_RC_80_MHZ_WIDTH :: u16 where "IEEE80211_TX_RC_80_MHZ_WIDTH \<equiv> 0x200"
abbreviation (input) IEEE80211_TX_RC_160_MHZ_WIDTH :: u16 where "IEEE80211_TX_RC_160_MHZ_WIDTH \<equiv> 0x400"

record ieee80211_tx_rate =
  idx :: int
  count :: nat
  flags :: u16

definition ieee80211_rate_valid :: "ieee80211_tx_rate \<Rightarrow> bool" where
  "ieee80211_rate_valid rate \<longleftrightarrow> idx rate \<ge> 0 \<and> count rate > 0"

definition ieee80211_rate_get_vht_mcs :: "ieee80211_tx_rate \<Rightarrow> u8" where
  "ieee80211_rate_get_vht_mcs rate = word_of_int (idx rate) AND 0xF"

definition ieee80211_rate_get_vht_nss :: "ieee80211_tx_rate \<Rightarrow> u8" where
  "ieee80211_rate_get_vht_nss rate = word_of_int (idx rate div 16 + 1)"

text \<open>
  \<open>legacy_rate_index br rates i\<close> is the loop over the bitrates of the band from index \<open>i\<close> on.
\<close>

primrec legacy_rate_index :: "u16 \<Rightarrow> ieee80211_rate list \<Rightarrow> nat \<Rightarrow> nat option" where
  "legacy_rate_index br [] i = None"
| "legacy_rate_index br (r # rs) i = (if br \<noteq> bitrate r then legacy_rate_index br rs (i + 1) else Some i)"

definition ieee80211_fill_rate_info ::
    "ieee80211_hw \<Rightarrow> ieee80211_rx_status \<Rightarrow> nl80211_band \<Rightarrow> rate_info option \<Rightarrow> bool \<times> ieee80211_rx_status" where
  "ieee80211_fill_rate_info hw stat b ri =
     (case (ri, hw_bands hw b) of
        (Some ri, Some sband) \<Rightarrow>
          (let enc = (if ri_eht_mcs ri then RX_ENC_EHT
                      else if ri_he_mcs ri then RX_ENC_HE
                      else if ri_vht_mcs ri then RX_ENC_VHT
                      else if ri_mcs_flag ri then RX_ENC_HT
                      else RX_ENC_LEGACY);
               stat = stat\<lparr> bw := ri_bw ri, nss := ri_nss ri, rate_idx := ri_mcs ri, encoding := enc,
                             enc_flags := (if ri_short_gi ri then enc_flags stat OR RX_ENC_FLAG_SHORT_GI
                                           else enc_flags stat) \<rparr>;
               stat = (if enc = RX_ENC_EHT then stat\<lparr> eht_gi := ri_eht_gi ri mod 4 \<rparr>
                       else stat\<lparr> he_gi := ri_he_gi ri mod 4 \<rparr>)
           in if enc \<noteq> RX_ENC_LEGACY then (True, stat)
              else (case legacy_rate_index (ri_legacy ri) sband 0 of
                  Some i \<Rightarrow> (True, stat\<lparr> rate_idx := of_nat i \<rparr>)
                | None \<Rightarrow> (False, stat\<lparr> rate_idx := 0 \<rparr>)))
      | _ \<Rightarrow> (False, stat))"

text \<open>The status after \<^verbatim>\<open>memset(stat, 0, sizeof(*stat))\<close>.\<close>

definition zero_rx_status :: ieee80211_rx_status where
  "zero_rx_status = \<lparr> enc_flags = 0, encoding = RX_ENC_LEGACY, bw = RATE_INFO_BW_20, he_gi = 0, eht_gi = 0,
     rate_idx = 0, nss = 0, band = NL80211_BAND_2GHZ \<rparr>"

text \<open>\<open>None\<close> is the return value -1, where the caller ignores the status.\<close>

definition ieee80211_fill_rx_status ::
    "ieee80211_hw \<Rightarrow> ieee80211_tx_rate \<Rightarrow> rate_info option \<Rightarrow> nl80211_band \<Rightarrow> ieee80211_rx_status option" where
  "ieee80211_fill_rx_status hw rate ri b =
     (let (done, stat) = ieee80211_fill_rate_info hw (zero_rx_status\<lparr> band := b \<rparr>) b ri in
      if done then Some stat
      else if \<not> ieee80211_rate_valid rate then None
      else
        (let has = (\<lambda>f. flags rate AND f \<noteq> 0);
             stat = stat\<lparr> bw := (if has IEEE80211_TX_RC_160_MHZ_WIDTH then RATE_INFO_BW_160
                                else if has IEEE80211_TX_RC_80_MHZ_WIDTH then RATE_INFO_BW_80
                                else if has IEEE80211_TX_RC_40_MHZ_WIDTH then RATE_INFO_BW_40
                                else RATE_INFO_BW_20),
                          enc_flags := (if has IEEE80211_TX_RC_USE_SHORT_PREAMBLE then RX_ENC_FLAG_SHORTPRE else 0)
                                OR (if has IEEE80211_TX_RC_SHORT_GI then RX_ENC_FLAG_SHORT_GI else 0),
                          rate_idx := word_of_int (idx rate) \<rparr>
         in if has IEEE80211_TX_RC_VHT_MCS
            then Some (stat\<lparr> encoding := RX_ENC_VHT, rate_idx := ieee80211_rate_get_vht_mcs rate,
                            nss := ieee80211_rate_get_vht_nss rate \<rparr>)
            else if has IEEE80211_TX_RC_MCS then Some (stat\<lparr> encoding := RX_ENC_HT \<rparr>)
            else Some (stat\<lparr> encoding := RX_ENC_LEGACY \<rparr>)))"

definition ieee80211_calc_tx_airtime_rate ::
    "ieee80211_hw \<Rightarrow> ieee80211_tx_rate \<Rightarrow> rate_info option \<Rightarrow> nl80211_band \<Rightarrow> u32 \<Rightarrow> u32 option" where
  "ieee80211_calc_tx_airtime_rate hw rate ri b len =
     (case ieee80211_fill_rx_status hw rate ri b of
        None \<Rightarrow> Some 0
      | Some stat \<Rightarrow> ieee80211_calc_rx_airtime hw stat len)"

text \<open>
  The loop over the rates of the transmit status (\<^verbatim>\<open>IEEE80211_TX_MAX_RATES\<close> of them), which
  ends at the first rate without an airtime.
\<close>

fun tx_airtime_loop :: "ieee80211_hw \<Rightarrow> nl80211_band \<Rightarrow> u32 \<Rightarrow> ieee80211_tx_rate list \<Rightarrow> u32 \<Rightarrow> u32 option" where
  "tx_airtime_loop hw b len [] dur = Some dur"
| "tx_airtime_loop hw b len (rate # rates) dur =
     (case ieee80211_calc_tx_airtime_rate hw rate None b len of
        None \<Rightarrow> None
      | Some cur \<Rightarrow>
          if cur = 0 then Some dur
          else tx_airtime_loop hw b len rates (dur + cur * of_nat (count rate)))"

definition ieee80211_calc_tx_airtime ::
    "ieee80211_hw \<Rightarrow> nl80211_band \<Rightarrow> ieee80211_tx_rate list \<Rightarrow> u32 \<Rightarrow> u32 option" where
  "ieee80211_calc_tx_airtime hw b rates len = tx_airtime_loop hw b len rates 0"

subsection \<open>The airtime expected of a frame to be queued\<close>

text \<open>What the estimate reads of the interface: its channel context's band, if it has one, the basic rates and the preamble.\<close>

record bss_conf =
  chanctx_band :: "nl80211_band option"
  basic_rates :: u32
  use_short_preamble :: bool

record tx_stats =
  last_rate :: ieee80211_tx_rate
  last_rate_info :: rate_info

text \<open>\<open>ffs n\<close> is one more than the position of the lowest bit set in a non-zero word.\<close>

definition ffs :: "u32 \<Rightarrow> nat" where
  "ffs w = (if w = 0 then 0 else Suc (length (takeWhile (\<lambda>i. \<not> bit w i) [0..<32])))"

definition agg_shift :: "u32 \<Rightarrow> mac80211_rx_encoding \<Rightarrow> nat" where
  "agg_shift dur enc =
     (if dur > 400 * 1024 then 1
      else if dur > 250 * 1024 then 2
      else if dur > 150 * 1024 then 3
      else if dur > 70 * 1024 then 4
      else if enc \<noteq> RX_ENC_HE \<or> dur > 20 * 1024 then 5
      else 6)"

text \<open>
  \<open>junk\<close> is the value of the local variable \<^verbatim>\<open>overhead\<close>, which this function, unlike
  \<^verbatim>\<open>ieee80211_calc_rx_airtime\<close>, does not initialise.
\<close>

definition ieee80211_calc_expected_tx_airtime ::
    "ieee80211_hw \<Rightarrow> bss_conf \<Rightarrow> tx_stats option \<Rightarrow> u32 \<Rightarrow> bool \<Rightarrow> u32 \<Rightarrow> u32 option" where
  "ieee80211_calc_expected_tx_airtime hw conf sta len ampdu junk =
     (let len = len + 38;
          b = (case chanctx_band conf of Some b \<Rightarrow> b | None \<Rightarrow> NL80211_BAND_2GHZ)
      in case sta of
        Some tx \<Rightarrow>
          (case ieee80211_fill_rx_status hw (last_rate tx) (Some (last_rate_info tx)) b of
             None \<Rightarrow> Some 0
           | Some stat \<Rightarrow>
               if encoding stat = RX_ENC_LEGACY \<or> \<not> ampdu then ieee80211_calc_rx_airtime hw stat len
               else (case ieee80211_get_rate_duration stat junk of
                   None \<Rightarrow> None
                 | Some (dur, overhead) \<Rightarrow>
                     Some (max (dur * len div of_nat AVG_PKT_SIZE div 1024
                                + drop_bit (agg_shift dur (encoding stat)) overhead) 4)))
      | None \<Rightarrow>
          (if chanctx_band conf = None then Some 0
           else (case hw_bands hw b of
               None \<Rightarrow> None
             | Some sband \<Rightarrow>
                 (let rateidx = (if basic_rates conf \<noteq> 0 then ffs (basic_rates conf) - 1 else 0) in
                  if rateidx \<ge> length sband then None
                  else ieee80211_calc_legacy_rate_duration (bitrate (sband ! rateidx))
                         (use_short_preamble conf) (mandatory_b (sband ! rateidx)) len))))"

subsection \<open>Durations are exact to the table's resolution\<close>

text \<open>
  \<open>modulated st\<close>: the status names a rate of the 802.11 tables, with the bandwidths each
  modulation has.  \<open>streams_of\<close> and \<open>exact_time\<close> are its stream count and the duration, in
  1/1024 of a microsecond, that the macros compute before the table rounds it.
\<close>

definition modulated :: "ieee80211_rx_status \<Rightarrow> bool" where
  "modulated st =
     (case bw_index (bw st) of
        None \<Rightarrow> False
      | Some b \<Rightarrow>
        (case encoding st of
           RX_ENC_HT \<Rightarrow> b \<le> BW_40
         | RX_ENC_VHT \<Rightarrow> b \<le> BW_160 \<and> 1 \<le> unat (nss st) \<and> unat (nss st) \<le> 4 \<and> unat (rate_idx st) < 10
         | RX_ENC_HE \<Rightarrow> b \<le> BW_160 \<and> 1 \<le> unat (nss st) \<and> unat (nss st) \<le> 8 \<and> unat (rate_idx st) < 12 \<and> he_gi st \<le> 2
         | RX_ENC_EHT \<Rightarrow> 1 \<le> unat (nss st) \<and> unat (nss st) \<le> 8 \<and> unat (rate_idx st) < 14 \<and> eht_gi st \<le> 2
         | _ \<Rightarrow> False))"

definition streams_of :: "ieee80211_rx_status \<Rightarrow> nat" where
  "streams_of st = (if encoding st = RX_ENC_HT then unat (drop_bit 3 (rate_idx st) AND 3) + 1 else unat (nss st))"

definition exact_time :: "ieee80211_rx_status \<Rightarrow> nat" where
  "exact_time st =
     (let sgi = (enc_flags st AND RX_ENC_FLAG_SHORT_GI \<noteq> 0); b = the (bw_index (bw st)); n = streams_of st in
      case encoding st of
        RX_ENC_HT \<Rightarrow> mcs_time n sgi (ht_bps b ! unat (rate_idx st AND 7))
      | RX_ENC_VHT \<Rightarrow> mcs_time n sgi (vht_bps b ! unat (rate_idx st))
      | RX_ENC_HE \<Rightarrow> he_time n (he_gi st) (he_bps b ! unat (rate_idx st))
      | _ \<Rightarrow> he_time n (eht_gi st) (eht_bps b ! unat (rate_idx st)))"

lemma unat_ucast_u16_u32: "unat (ucast v :: u32) = unat (v :: u16)"
proof -
  have "unat v < 2 ^ 16" using unsigned_less [where w = v and 'a = nat] by simp
  then have "unat v < 2 ^ 32" by simp
  then show ?thesis by (simp only: unsigned_ucast_eq) (simp add: take_bit_nat_eq_self)
qed

lemma unat_push_bit_u32:
  fixes v :: u16
  assumes "unat v * 2 ^ s < 2 ^ 32"
  shows "unat (push_bit s (ucast v) :: u32) = unat v * 2 ^ s"
  using assms
  by (simp only: unsigned_push_bit_eq) (simp add: push_bit_eq_mult take_bit_nat_eq_self unat_ucast_u16_u32)

text \<open>\<open>rounded t d\<close>: the word \<open>d\<close> is the duration \<open>t\<close> less at most 31, and not zero;
  \<open>t\<close> is at most the duration at the slowest rate.\<close>

definition rounded :: "nat \<Rightarrow> u32 \<Rightarrow> bool" where
  "rounded t d \<longleftrightarrow> unat d \<le> t \<and> t < unat d + 32 \<and> d \<noteq> 0 \<and> t \<le> 1290556"

lemma roundedI:
  assumes "holds_durations g ts" "i < length ts" "length ts \<le> MCS_GROUP_RATES" "32 \<le> ts ! i" "ts ! i \<le> 1290556"
  shows "rounded (ts ! i) (push_bit (unat (shift g)) (ucast (duration g ! i)))"
proof -
  let ?s = "unat (shift g)"
  from assms(1-3) have v: "unat (duration g ! i) = ts ! i div 2 ^ ?s" and s: "?s \<le> 5"
    by (auto simp: holds_durations_def)
  have eq: "unat (duration g ! i) * 2 ^ ?s + ts ! i mod 2 ^ ?s = ts ! i"
    unfolding v by (rule div_mult_mod_eq)
  have "(2 :: nat) ^ ?s \<le> 2 ^ 5" using s by (rule power_increasing) simp
  then have m: "ts ! i mod 2 ^ ?s < 32" by (simp add: order_less_le_trans [OF mod_less_divisor])
  from eq assms(5) have "unat (push_bit ?s (ucast (duration g ! i)) :: u32) = unat (duration g ! i) * 2 ^ ?s"
    by (intro unat_push_bit_u32) simp
  moreover from this eq m assms(4) have "unat (push_bit ?s (ucast (duration g ! i)) :: u32) \<noteq> 0" by linarith
  ultimately show ?thesis using eq m assms(5) by (auto simp: rounded_def unat_eq_zero)
qed

lemma time_bounds_mcs:
  assumes "26 \<le> bps" "0 < n" "n * bps \<le> 313600"
  shows "32 \<le> mcs_time n sgi bps \<and> mcs_time n sgi bps \<le> 1290556"
  using mcs_time_le [of bps n sgi] mcs_time_ge [of n bps sgi] assms by simp

lemma time_bounds_he:
  assumes "115 \<le> bps" "0 < n" "n * bps \<le> 313600"
  shows "32 \<le> he_time n gi bps \<and> he_time n gi bps \<le> 1290556"
  using he_time_le [of bps n gi] he_time_ge [of n bps gi] assms by simp

lemma bps_product: "n \<le> a \<Longrightarrow> bps \<le> (b :: nat) \<Longrightarrow> a * b \<le> 313600 \<Longrightarrow> n * bps \<le> 313600"
  by (meson le_trans mult_le_mono)

lemma ht_bps_range: "\<forall>x\<in>set (ht_bps b). 26 \<le> x \<and> x \<le> 540" by (simp add: ht_bps_def)
lemma vht_bps_range: "\<forall>x\<in>set (vht_bps b). 26 \<le> x \<and> x \<le> 3120" by (simp add: vht_bps_def BW2VBPS_def)
lemma he_bps_range: "\<forall>x\<in>set (he_bps b). 115 \<le> x \<and> x \<le> 16329" by (simp add: he_bps_def BW2VBPS_def)
lemma eht_bps_range: "\<forall>x\<in>set (eht_bps b). 115 \<le> x \<and> x \<le> 39200"
  by (simp add: eht_bps_def EHT_BW2VBPS_def BW2VBPS_def)

lemma bps_lengths: "length (ht_bps b) = 8" "length (vht_bps b) = 10" "length (he_bps b) = 12" "length (eht_bps b) = 14"
  by (simp_all add: ht_bps_def vht_bps_def he_bps_def eht_bps_def)

lemma rounded_mcs:
  assumes "holds_durations g (map (mcs_time n sgi) bs)" "\<forall>x\<in>set bs. 26 \<le> x \<and> x \<le> m" "length bs \<le> MCS_GROUP_RATES"
    "0 < n" "n \<le> a" "a * m \<le> 313600" "i < length bs"
  shows "rounded (mcs_time n sgi (bs ! i)) (push_bit (unat (shift g)) (ucast (duration g ! i)))"
proof -
  have b: "26 \<le> bs ! i" "bs ! i \<le> m" using assms(2,7) by simp_all
  have "32 \<le> mcs_time n sgi (bs ! i) \<and> mcs_time n sgi (bs ! i) \<le> 1290556"
    by (rule time_bounds_mcs [OF b(1) assms(4) bps_product [OF assms(5) b(2) assms(6)]])
  then show ?thesis using roundedI [OF assms(1), of i] assms(3,7) by simp
qed

lemma rounded_he:
  assumes "holds_durations g (map (he_time n gi) bs)" "\<forall>x\<in>set bs. 115 \<le> x \<and> x \<le> m" "length bs \<le> MCS_GROUP_RATES"
    "0 < n" "n \<le> a" "a * m \<le> 313600" "i < length bs"
  shows "rounded (he_time n gi (bs ! i)) (push_bit (unat (shift g)) (ucast (duration g ! i)))"
proof -
  have b: "115 \<le> bs ! i" "bs ! i \<le> m" using assms(2,7) by simp_all
  have "32 \<le> he_time n gi (bs ! i) \<and> he_time n gi (bs ! i) \<le> 1290556"
    by (rule time_bounds_he [OF b(1) assms(4) bps_product [OF assms(5) b(2) assms(6)]])
  then show ?thesis using roundedI [OF assms(1), of i] assms(3,7) by simp
qed

lemma and_7_less: "unat (x AND 7 :: u8) < 8"
proof -
  have "x AND 7 \<le> (7 :: u8)" by (rule word_and_le1)
  then show ?thesis by (simp add: word_le_nat_alt)
qed

lemma and_3_less: "unat (x AND 3 :: u8) < 4"
proof -
  have "x AND 3 \<le> (3 :: u8)" by (rule word_and_le1)
  then show ?thesis by (simp add: word_le_nat_alt)
qed

lemmas group_index_defs = HT_GROUP_IDX_def VHT_GROUP_IDX_def HE_GROUP_IDX_def EHT_GROUP_IDX_def

lemma rate_duration_modulated:
  assumes "modulated st"
  shows "\<exists>d. ieee80211_get_rate_duration st overhead = Some (d, of_nat (36 + streams_of st * 4)) \<and>
             rounded (exact_time st) d"
proof -
  obtain b where b: "bw_index (bw st) = Some b" and le: "b \<le> 4"
    using assms by (auto simp: modulated_def bw_index_def split: rate_info_bw.splits)
  define sgi where "sgi \<longleftrightarrow> enc_flags st AND RX_ENC_FLAG_SHORT_GI \<noteq> 0"
  note defs = ieee80211_get_rate_duration_def rate_group_def exact_time_def streams_of_def b
    length_airtime_mcs_groups Let_def sgi_def [symmetric]
  show ?thesis
  proof (cases "encoding st")
    case RX_ENC_HT
    let ?n = "unat (drop_bit 3 (rate_idx st) AND 3) + 1"
    have n: "0 < ?n" "?n \<le> 4" using and_3_less [of "drop_bit 3 (rate_idx st)"] by linarith+
    have bw: "b \<le> 1" using assms RX_ENC_HT b by (simp add: modulated_def)
    have "HT_GROUP_IDX ?n sgi b < 264" using n bw by (simp add: group_index_defs)
    moreover have "rounded (mcs_time ?n sgi (ht_bps b ! unat (rate_idx st AND 7)))
        (push_bit (unat (shift (MCS_GROUP ?n sgi b))) (ucast (duration (MCS_GROUP ?n sgi b) ! unat (rate_idx st AND 7))))"
      by (rule rounded_mcs [OF MCS_GROUP_holds [OF n(1)] ht_bps_range _ n])
        (use and_7_less [of "rate_idx st"] in \<open>simp_all add: bps_lengths\<close>)
    ultimately show ?thesis
      using RX_ENC_HT n bw and_7_less [of "rate_idx st"] by (simp add: defs ht_lookup)
  next
    case RX_ENC_VHT
    let ?n = "unat (nss st)"
    have n: "0 < ?n" "?n \<le> 4" and bw: "b \<le> 3" and i: "unat (rate_idx st) < 10"
      using assms RX_ENC_VHT b by (simp_all add: modulated_def)
    have "VHT_GROUP_IDX ?n sgi b < 264" using n bw by (simp add: group_index_defs)
    moreover have "rounded (mcs_time ?n sgi (vht_bps b ! unat (rate_idx st)))
        (push_bit (unat (shift (VHT_GROUP ?n sgi b))) (ucast (duration (VHT_GROUP ?n sgi b) ! unat (rate_idx st))))"
      by (rule rounded_mcs [OF VHT_GROUP_holds [OF n] vht_bps_range _ n]) (use i in \<open>simp_all add: bps_lengths\<close>)
    ultimately show ?thesis
      using RX_ENC_VHT n i by (simp add: defs vht_lookup [OF n bw])
  next
    case RX_ENC_HE
    let ?n = "unat (nss st)"
    have n: "0 < ?n" "?n \<le> 8" and bw: "b \<le> 3" and i: "unat (rate_idx st) < 12" and gi: "he_gi st \<le> 2"
      using assms RX_ENC_HE b by (simp_all add: modulated_def)
    have "HE_GROUP_IDX ?n (he_gi st) b < 264" using n bw gi by (simp add: group_index_defs)
    moreover have "rounded (he_time ?n (he_gi st) (he_bps b ! unat (rate_idx st)))
        (push_bit (unat (shift (HE_GROUP ?n (he_gi st) b))) (ucast (duration (HE_GROUP ?n (he_gi st) b) ! unat (rate_idx st))))"
      by (rule rounded_he [OF HE_GROUP_holds [OF n(1)] he_bps_range _ n]) (use i in \<open>simp_all add: bps_lengths\<close>)
    ultimately show ?thesis
      using RX_ENC_HE n i by (simp add: defs he_lookup [OF n gi bw])
  next
    case RX_ENC_EHT
    let ?n = "unat (nss st)"
    have n: "0 < ?n" "?n \<le> 8" and i: "unat (rate_idx st) < 14" and gi: "eht_gi st \<le> 2"
      using assms RX_ENC_EHT b by (simp_all add: modulated_def)
    have "EHT_GROUP_IDX ?n (eht_gi st) b < 264" using n le gi by (simp add: group_index_defs)
    moreover have "rounded (he_time ?n (eht_gi st) (eht_bps b ! unat (rate_idx st)))
        (push_bit (unat (shift (EHT_GROUP ?n (eht_gi st) b))) (ucast (duration (EHT_GROUP ?n (eht_gi st) b) ! unat (rate_idx st))))"
      by (rule rounded_he [OF EHT_GROUP_holds [OF n(1)] eht_bps_range _ n]) (use i in \<open>simp_all add: bps_lengths\<close>)
    ultimately show ?thesis
      using RX_ENC_EHT n i by (simp add: defs eht_lookup [OF n gi le])
  qed (use assms b in \<open>simp_all add: modulated_def\<close>)
qed

lemma rx_airtime_product:
  assumes "rounded t d" "unat len \<le> 3327" "n \<le> 8"
  shows "d \<noteq> 0"
    and "unat (d * len div of_nat AVG_PKT_SIZE div 1024 + of_nat (36 + n * 4)) =
         unat d * unat len div 2 ^ 20 + (36 + n * 4)"
proof -
  from assms(1) have d: "unat d \<le> 1290556" "d \<noteq> 0" by (simp_all add: rounded_def)
  then show "d \<noteq> 0" by simp
  have p: "unat d * unat len \<le> 1290556 * 3327" using d(1) assms(2) by (rule mult_le_mono)
  then have m: "unat (d * len) = unat d * unat len"
    by (simp add: unat_word_ariths)
  have q: "unat (d * len div of_nat AVG_PKT_SIZE div 1024) = unat d * unat len div 2 ^ 20"
    by (simp add: unat_div m flip: div_mult2_eq)
  have "unat d * unat len div 2 ^ 20 \<le> 1290556 * 3327 div 2 ^ 20" using p by (rule div_le_mono)
  then have "unat d * unat len div 2 ^ 20 + (36 + n * 4) < 2 ^ 32" using assms(3) by simp
  moreover have "unat (of_nat (36 + n * 4) :: u32) = 36 + n * 4"
    using assms(3) by (intro unat_of_nat_u32) simp
  ultimately show "unat (d * len div of_nat AVG_PKT_SIZE div 1024 + of_nat (36 + n * 4)) =
      unat d * unat len div 2 ^ 20 + (36 + n * 4)"
    using q by (simp only: unat_word_ariths(1) [of "d * len div of_nat AVG_PKT_SIZE div 1024" "of_nat (36 + n * 4)"]) simp
qed

lemma div_pow20_close:
  fixes t d l :: nat
  assumes "d \<le> t" "t < d + 32" "l \<le> 3327"
  shows "d * l div 2 ^ 20 \<le> t * l div 2 ^ 20" "t * l div 2 ^ 20 \<le> d * l div 2 ^ 20 + 1"
proof -
  show "d * l div 2 ^ 20 \<le> t * l div 2 ^ 20" using assms(1) by (intro div_le_mono mult_le_mono1)
  have "t * l \<le> (d + 32) * l" using assms(2) by (intro mult_le_mono1) simp
  also have "\<dots> = d * l + 32 * l" by (simp add: algebra_simps)
  also have "\<dots> \<le> d * l + 2 ^ 20" using assms(3) by simp
  finally have "t * l div 2 ^ 20 \<le> (d * l + 2 ^ 20) div 2 ^ 20" by (rule div_le_mono)
  then show "t * l div 2 ^ 20 \<le> d * l div 2 ^ 20 + 1" by simp
qed

lemma streams_of_le: "modulated st \<Longrightarrow> streams_of st \<le> 8"
  using and_3_less [of "drop_bit 3 (rate_idx st)"]
  by (auto simp: modulated_def streams_of_def split: option.splits mac80211_rx_encoding.splits)

lemma modulated_not_legacy: "modulated st \<Longrightarrow> encoding st \<noteq> RX_ENC_LEGACY"
  by (auto simp: modulated_def split: option.splits)

lemma rx_airtime_modulated:
  assumes "modulated st"
  shows "\<exists>d. rounded (exact_time st) d \<and>
    ieee80211_calc_rx_airtime hw st len =
      Some (d * len div of_nat AVG_PKT_SIZE div 1024 + of_nat (36 + streams_of st * 4))"
proof -
  obtain d where "ieee80211_get_rate_duration st 0 = Some (d, of_nat (36 + streams_of st * 4))"
    and "rounded (exact_time st) d"
    using rate_duration_modulated [OF assms] by blast
  then show ?thesis
    using modulated_not_legacy [OF assms] by (auto simp: ieee80211_calc_rx_airtime_def rounded_def)
qed

lemma rate_duration_total:
  assumes "he_gi st \<le> 3" "eht_gi st \<le> 2"
  shows "ieee80211_get_rate_duration st overhead \<noteq> None"
proof (cases "bw_index (bw st)")
  case (Some b)
  then have "b \<le> 4" by (auto simp: bw_index_def split: rate_info_bw.splits)
  then show ?thesis
    using assms Some and_3_less [of "drop_bit 3 (rate_idx st)"]
    by (cases "encoding st")
      (simp_all add: ieee80211_get_rate_duration_def rate_group_def length_airtime_mcs_groups
        group_index_defs Let_def of_bool_def)
qed (simp add: ieee80211_get_rate_duration_def)

text \<open>\<open>rates_nonzero hw\<close>: no band of the hardware lists a bitrate of zero.\<close>

definition rates_nonzero :: "ieee80211_hw \<Rightarrow> bool" where
  "rates_nonzero hw \<longleftrightarrow> (\<forall>b sband. hw_bands hw b = Some sband \<longrightarrow> (\<forall>r\<in>set sband. bitrate r \<noteq> 0))"

lemma legacy_total:
  assumes "br \<noteq> 0"
  shows "ieee80211_calc_legacy_rate_duration br sp cck len \<noteq> None"
proof -
  have "(ucast br :: u32) \<noteq> 0"
    using assms by (metis unat_eq_zero unat_ucast_u16_u32)
  then show ?thesis by (simp add: ieee80211_calc_legacy_rate_duration_def s32_div_def Let_def)
qed

lemma rx_airtime_not_none:
  assumes "rates_nonzero hw" "he_gi st \<le> 3" "eht_gi st \<le> 2"
  shows "ieee80211_calc_rx_airtime hw st len \<noteq> None"
proof (cases "encoding st = RX_ENC_LEGACY")
  case True
  have "ieee80211_calc_legacy_rate_duration (bitrate (sband ! unat (rate_idx st))) sp cck len \<noteq> None"
    if "hw_bands hw (band st) = Some sband" "unat (rate_idx st) < length sband" for sband sp cck
    using that assms(1) by (intro legacy_total) (auto simp: rates_nonzero_def)
  with True show ?thesis
    by (simp add: ieee80211_calc_rx_airtime_def Let_def split: option.split)
next
  case False
  with rate_duration_total [OF assms(2,3), of 0] show ?thesis
    by (auto simp: ieee80211_calc_rx_airtime_def)
qed

lemma tx_status_gi:
  assumes "ieee80211_fill_rx_status hw rate None b = Some stat"
  shows "he_gi stat = 0 \<and> eht_gi stat = 0"
  using assms
  by (auto simp: ieee80211_fill_rx_status_def ieee80211_fill_rate_info_def zero_rx_status_def Let_def split: if_splits)

lemma tx_airtime_rate_not_none:
  assumes "rates_nonzero hw"
  shows "ieee80211_calc_tx_airtime_rate hw rate None b len \<noteq> None"
proof (cases "ieee80211_fill_rx_status hw rate None b")
  case (Some stat)
  then show ?thesis
    using rx_airtime_not_none [OF assms, of stat len] tx_status_gi [OF Some]
    by (simp add: ieee80211_calc_tx_airtime_rate_def)
qed (simp add: ieee80211_calc_tx_airtime_rate_def)

definition rate_airtime :: "ieee80211_hw \<Rightarrow> nl80211_band \<Rightarrow> u32 \<Rightarrow> ieee80211_tx_rate \<Rightarrow> u32" where
  "rate_airtime hw b len rate = the (ieee80211_calc_tx_airtime_rate hw rate None b len)"

lemma tx_airtime_loop_sum:
  assumes "rates_nonzero hw"
  shows "tx_airtime_loop hw b len rates acc =
    Some (acc + sum_list (map (\<lambda>r. rate_airtime hw b len r * of_nat (count r))
                            (takeWhile (\<lambda>r. rate_airtime hw b len r \<noteq> 0) rates)))"
proof (induction rates arbitrary: acc)
  case (Cons r rates)
  obtain c where "ieee80211_calc_tx_airtime_rate hw r None b len = Some c"
    using tx_airtime_rate_not_none [OF assms, of r b len] by blast
  moreover from this have "rate_airtime hw b len r = c" by (simp add: rate_airtime_def)
  ultimately show ?case using Cons.IH by (simp add: add.assoc)
qed simp

subsection \<open>Properties\<close>

text \<open>The receive airtime is right.  For a status that names a rate of its modulation
  and a frame of at most 3327 octets, the 32 bit computation returns the duration of the
  frame's symbols plus the preamble of 36 + 4 * streams microseconds, short by at most one
  microsecond.\<close>

theorem rx_airtime_exact:
  assumes "modulated st" "unat len \<le> 3327"
  shows "\<exists>a. ieee80211_calc_rx_airtime hw st len = Some a \<and>
    unat a \<le> exact_time st * unat len div 2 ^ 20 + (36 + streams_of st * 4) \<and>
    exact_time st * unat len div 2 ^ 20 + (36 + streams_of st * 4) \<le> unat a + 1"
proof -
  obtain d where d: "rounded (exact_time st) d"
    and a: "ieee80211_calc_rx_airtime hw st len =
      Some (d * len div of_nat AVG_PKT_SIZE div 1024 + of_nat (36 + streams_of st * 4))"
    using rx_airtime_modulated [OF assms(1)] by blast
  have "unat d \<le> exact_time st" "exact_time st < unat d + 32" using d by (simp_all add: rounded_def)
  note close = div_pow20_close [OF this assms(2)]
  show ?thesis
    unfolding a option.inject ex_simps(1)
    using rx_airtime_product(2) [OF d assms(2) streams_of_le [OF assms(1)]] close by auto
qed

definition ex_ht_status :: ieee80211_rx_status where
  "ex_ht_status = zero_rx_status\<lparr> encoding := RX_ENC_HT \<rparr>"

definition ex_hw :: ieee80211_hw where
  "ex_hw = \<lparr> hw_bands = (\<lambda>b. if b = NL80211_BAND_2GHZ
     then Some [\<lparr> bitrate = 10, mandatory_b = True \<rparr>, \<lparr> bitrate = 60, mandatory_b = False \<rparr>] else None) \<rparr>"

lemmas ex_air_defs = ex_ht_status_def ex_hw_def zero_rx_status_def

lemma ex_ht_modulated: "modulated ex_ht_status" "streams_of ex_ht_status = 1" "exact_time ex_ht_status = 1290556"
  by (simp_all add: modulated_def streams_of_def exact_time_def ex_air_defs bw_index_def ht_bps_def
      mcs_time_def MCS_SYMBOL_TIME_def MCS_N_KSYMS_def MCS_NBITS_def)

lemma rx_airtime_exact_witness:
  "\<exists>a. ieee80211_calc_rx_airtime ex_hw ex_ht_status 1500 = Some a \<and> unat a \<le> 1886 \<and> 1885 \<le> unat a"
  using rx_airtime_exact [of ex_ht_status 1500 ex_hw] by (auto simp: ex_ht_modulated)

lemma ht_rate_duration: "ieee80211_get_rate_duration ex_ht_status overhead = Some (1290528, 40)"
proof -
  have d: "MCS_DURATION 1 False 26 = 1290556"
    by (simp add: MCS_DURATION_def MCS_SYMBOL_TIME_def MCS_N_KSYMS_def MCS_NBITS_def)
  have s: "MCS_GROUP_SHIFT 1 False 0 = 5"
    by (simp only: MCS_GROUP_SHIFT_def if_False simp_thms d GROUP_SHIFT_eq) (simp add: bitlen.simps)
  have g: "airtime_mcs_groups ! HT_GROUP_IDX 1 False 0 = MCS_GROUP 1 False 0" by (rule ht_lookup) simp_all
  have i: "HT_GROUP_IDX 1 False 0 < 264" by (simp add: HT_GROUP_IDX_def)
  have m: "MCS_DURATION_S 5 1 False 26 = 40329" by (simp only: MCS_DURATION_S_def d) code_simp
  have "shift (MCS_GROUP 1 False 0) = 5" "duration (MCS_GROUP 1 False 0) ! 0 = 40329"
    by (simp_all add: MCS_GROUP_def s [simplified] Let_def rates_init_def ht_bps_def m [simplified])
  then show ?thesis
    using g i by (simp add: ieee80211_get_rate_duration_def rate_group_def ex_air_defs bw_index_def length_airtime_mcs_groups Let_def)
qed

text \<open>The 32 bit product wraps for longer frames: at 6.5 Mbit/s (HT, MCS 0) the estimate
  of a frame of 3328 octets is 4135 microseconds, that of a frame one octet longer is 41.\<close>

theorem rx_airtime_wraps:
  "ieee80211_calc_rx_airtime hw ex_ht_status 3328 = Some 4135 \<and>
   ieee80211_calc_rx_airtime hw ex_ht_status 3329 = Some 41"
  by (simp add: ieee80211_calc_rx_airtime_def ht_rate_duration) (simp add: ex_air_defs)

text \<open>The estimate is total: with non-zero bitrates and the guard intervals the standard
  defines, no status, whatever its encoding, bandwidth, stream count and rate, makes the code
  read outside the table or a band or divide by zero.\<close>

theorem rx_airtime_total:
  assumes "rates_nonzero hw" "he_gi st \<le> 3" "eht_gi st \<le> 2"
  shows "ieee80211_calc_rx_airtime hw st len \<noteq> None"
  by (rule rx_airtime_not_none [OF assms])

lemma ex_hw_nonzero: "rates_nonzero ex_hw"
  by (auto simp: rates_nonzero_def ex_hw_def split: if_splits)

lemma rx_airtime_total_witness:
  "ieee80211_calc_rx_airtime ex_hw (ex_ht_status\<lparr> encoding := RX_ENC_EHT, bw := RATE_INFO_BW_320, nss := 8, eht_gi := 2, rate_idx := 13 \<rparr>) 3000 \<noteq> None"
  by (rule rx_airtime_total [OF ex_hw_nonzero]) (simp_all add: ex_air_defs)

text \<open>The airtime of a transmitted frame is the sum over its retry chain, each rate's
  airtime times the attempts at it, up to the first rate without an airtime.\<close>

theorem tx_airtime_sum:
  assumes "rates_nonzero hw"
  shows "ieee80211_calc_tx_airtime hw b rates len =
    Some (sum_list (map (\<lambda>r. rate_airtime hw b len r * of_nat (count r))
                      (takeWhile (\<lambda>r. rate_airtime hw b len r \<noteq> 0) rates)))"
  using tx_airtime_loop_sum [OF assms, of b len rates 0] by (simp add: ieee80211_calc_tx_airtime_def)

definition ex_rates :: "ieee80211_tx_rate list" where
  "ex_rates = [\<lparr> idx = 1, count = 2, flags = 0 \<rparr>, \<lparr> idx = -1, count = 0, flags = 0 \<rparr>, \<lparr> idx = 0, count = 4, flags = 0 \<rparr>]"

lemma tx_airtime_sum_witness:
  "ieee80211_calc_tx_airtime ex_hw NL80211_BAND_2GHZ ex_rates 1500 = Some 4072"
proof -
  have "rate_airtime ex_hw NL80211_BAND_2GHZ 1500 \<lparr> idx = 1, count = 2, flags = 0 \<rparr> = 2036"
    "rate_airtime ex_hw NL80211_BAND_2GHZ 1500 \<lparr> idx = -1, count = 0, flags = 0 \<rparr> = 0"
    by code_simp+
  then show ?thesis by (simp add: tx_airtime_sum [OF ex_hw_nonzero] ex_rates_def)
qed

text \<open>
  The band of the estimate for a queued frame and the status it derives from the last rate
  used to the station.
\<close>

definition expected_status :: "ieee80211_hw \<Rightarrow> bss_conf \<Rightarrow> tx_stats \<Rightarrow> ieee80211_rx_status option" where
  "expected_status hw conf tx =
     ieee80211_fill_rx_status hw (last_rate tx) (Some (last_rate_info tx))
       (case chanctx_band conf of Some b \<Rightarrow> b | None \<Rightarrow> NL80211_BAND_2GHZ)"

lemma expected_airtime_unfold:
  assumes "expected_status hw conf tx = Some stat" "encoding stat \<noteq> RX_ENC_LEGACY"
    "ieee80211_get_rate_duration stat junk = Some (d, ov)"
  shows "ieee80211_calc_expected_tx_airtime hw conf (Some tx) len True junk =
    Some (max (d * (len + 38) div of_nat AVG_PKT_SIZE div 1024 + drop_bit (agg_shift d (encoding stat)) ov) 4)"
  using assms by (simp add: ieee80211_calc_expected_tx_airtime_def expected_status_def Let_def)

text \<open>When the last rate used to the station is a rate of its modulation, the estimate of
  an aggregated frame is at least 4 microseconds and does not depend on what the
  uninitialised local variable \<^verbatim>\<open>overhead\<close> holds.\<close>

theorem expected_airtime_defined:
  assumes "expected_status hw conf tx = Some stat" "modulated stat"
  shows "\<exists>a. 4 \<le> unat a \<and> (\<forall>junk. ieee80211_calc_expected_tx_airtime hw conf (Some tx) len True junk = Some a)"
proof -
  obtain d where d: "\<And>junk. ieee80211_get_rate_duration stat junk = Some (d, of_nat (36 + streams_of stat * 4))"
  proof -
    obtain d where d: "ieee80211_get_rate_duration stat 0 = Some (d, of_nat (36 + streams_of stat * 4))" "rounded (exact_time stat) d"
      using rate_duration_modulated [OF assms(2)] by blast
    have "ieee80211_get_rate_duration stat junk = ieee80211_get_rate_duration stat 0" for junk
    proof -
      obtain e where e: "ieee80211_get_rate_duration stat junk = Some (e, of_nat (36 + streams_of stat * 4))" "rounded (exact_time stat) e"
        using rate_duration_modulated [OF assms(2)] by blast
      from d e show ?thesis
        by (auto simp: ieee80211_get_rate_duration_def rounded_def split: option.splits if_splits)
    qed
    with d(1) that show ?thesis by simp
  qed
  show ?thesis
    by (rule exI, rule conjI [OF _ allI [OF expected_airtime_unfold [OF assms(1) modulated_not_legacy [OF assms(2)] d]]])
      (simp add: max_def word_le_nat_alt)
qed

definition ex_rate_info :: rate_info where
  "ex_rate_info = \<lparr> ri_eht_mcs = False, ri_he_mcs = True, ri_vht_mcs = False, ri_mcs_flag = False,
     ri_short_gi = False, ri_mcs = 7, ri_legacy = 0, ri_nss = 2, ri_bw = RATE_INFO_BW_80, ri_he_gi = 0, ri_eht_gi = 0 \<rparr>"

definition ex_stats :: "rate_info_bw \<Rightarrow> tx_stats" where
  "ex_stats b = \<lparr> last_rate = \<lparr> idx = -1, count = 0, flags = 0 \<rparr>, last_rate_info = ex_rate_info\<lparr> ri_bw := b \<rparr> \<rparr>"

definition ex_bss :: bss_conf where
  "ex_bss = \<lparr> chanctx_band = Some NL80211_BAND_2GHZ, basic_rates = 1, use_short_preamble = False \<rparr>"

lemma ex_expected_status:
  "expected_status ex_hw ex_bss (ex_stats b) =
   Some (zero_rx_status\<lparr> encoding := RX_ENC_HE, bw := b, nss := 2, rate_idx := 7 \<rparr>)"
  by (simp add: expected_status_def ieee80211_fill_rx_status_def ieee80211_fill_rate_info_def Let_def
      ex_air_defs ex_bss_def ex_stats_def ex_rate_info_def)

lemma expected_airtime_defined_witness:
  "\<exists>a. 4 \<le> unat a \<and> (\<forall>junk. ieee80211_calc_expected_tx_airtime ex_hw ex_bss (Some (ex_stats RATE_INFO_BW_80)) 1500 True junk = Some a)"
  by (rule expected_airtime_defined [OF ex_expected_status])
    (simp add: modulated_def zero_rx_status_def bw_index_def)

text \<open>When the last rate has a bandwidth the table does not cover (a resource unit of an
  OFDMA transmission), the estimate is made of whatever the uninitialised variable holds:
  the callee returns before it writes \<^verbatim>\<open>*overhead\<close>.\<close>

theorem expected_airtime_uninitialised:
  "ieee80211_calc_expected_tx_airtime ex_hw ex_bss (Some (ex_stats RATE_INFO_BW_other)) len True junk =
   Some (max (drop_bit 6 junk) 4)"
proof -
  have "ieee80211_get_rate_duration (zero_rx_status\<lparr> encoding := RX_ENC_HE, bw := RATE_INFO_BW_other, nss := 2, rate_idx := 7 \<rparr>) junk
    = Some (0, junk)"
    by (simp add: ieee80211_get_rate_duration_def bw_index_def)
  then show ?thesis
    by (simp add: expected_airtime_unfold [OF ex_expected_status] agg_shift_def)
qed

end
