(* ===== verification/Reorder.thy ===== *)
theory Reorder
  imports Mac80211 "HOL-Library.Signed_Division"
begin

text \<open>
  The receive reorder buffer of an A-MPDU session, \<^verbatim>\<open>struct tid_ampdu_rx\<close> of
  \<^verbatim>\<open>mac80211/sta_info.h\<close> and the functions of \<^verbatim>\<open>mac80211/rx.c\<close> that work on it.  The
  buffer is a ring of \<open>buf_size\<close> queues; the frames of sequence number \<open>sn\<close> wait in queue
  \<open>sn mod buf_size\<close>.

  A function returns the session, with the queue \<open>frames\<close> of released frames, as the C code
  updates both through pointers.  \<^verbatim>\<open>jiffies\<close> is an argument.  A kernel timer is a
  field (\<open>session_timer\<close>, \<open>reorder_timer\<close>), its expiry when it is pending.  The only loop that may not end, the
  search for the next stored frame, is a \<open>partial_function\<close>: \<open>None\<close> is a call that never
  returns.
\<close>

record tid_ampdu_rx =
  reorder_buf_filtered :: u64
  reorder_buf :: "sk_buff list list"
  reorder_time :: "u64 list"
  session_timer :: "u64 option"
  reorder_timer :: "u64 option"
  last_rx :: u64
  head_seq_num :: u16
  stored_mpdu_num :: u16
  ssn :: u16
  buf_size :: u16
  timeout :: u16
  tid :: u8
  auto_seq :: bool
  removed :: bool
  started :: bool

abbreviation (input) IEEE80211_RX_DEFERRED_RELEASE :: u32 where "IEEE80211_RX_DEFERRED_RELEASE \<equiv> 0x20"

type_synonym release = "tid_ampdu_rx \<times> sk_buff list"

text \<open>\<^verbatim>\<open>ring\<close> arithmetic: the queue of a sequence number.\<close>

abbreviation bufsz :: "tid_ampdu_rx \<Rightarrow> nat" where
  "bufsz rx \<equiv> unat (buf_size rx)"

definition slot :: "tid_ampdu_rx \<Rightarrow> u16 \<Rightarrow> nat" where
  "slot rx sn = unat sn mod bufsz rx"

lemma slot_word [code]: "slot rx sn = unat (sn mod buf_size rx)"
  by (simp add: slot_def unat_mod)

definition BIT_ULL :: "nat \<Rightarrow> u64" where
  "BIT_ULL n = push_bit n 1"

definition amsdu_more :: "sk_buff \<Rightarrow> bool" where
  "amsdu_more skb \<longleftrightarrow> rs_flag (skb_rx skb) AND RX_FLAG_AMSDU_MORE \<noteq> 0"

text \<open>The last queue element decides whether all subframes of the A-MSDU have arrived.\<close>

definition ieee80211_rx_reorder_ready :: "tid_ampdu_rx \<Rightarrow> nat \<Rightarrow> bool" where
  "ieee80211_rx_reorder_ready rx index \<longleftrightarrow>
     (if reorder_buf_filtered rx \<noteq> 0 \<and> reorder_buf_filtered rx AND BIT_ULL index \<noteq> 0 then True
      else if reorder_buf rx ! index = [] then False
      else \<not> amsdu_more (last (reorder_buf rx ! index)))"

definition defer_release :: "sk_buff \<Rightarrow> sk_buff" where
  "defer_release skb = skb\<lparr> skb_rx := (skb_rx skb)\<lparr> rs_rx_flags := rs_rx_flags (skb_rx skb) OR IEEE80211_RX_DEFERRED_RELEASE \<rparr> \<rparr>"

definition ieee80211_release_reorder_frame :: "nat \<Rightarrow> release \<Rightarrow> release" where
  "ieee80211_release_reorder_frame index = (\<lambda>(rx, frames).
     (let skb_list = reorder_buf rx ! index;
          (rx, frames) =
            (if skb_list = [] then (rx, frames)
             else if \<not> ieee80211_rx_reorder_ready rx index
             then (rx\<lparr> reorder_buf := (reorder_buf rx)[index := []] \<rparr>, frames)
             else (rx\<lparr> stored_mpdu_num := stored_mpdu_num rx - 1,
                       reorder_buf := (reorder_buf rx)[index := []] \<rparr>,
                   frames @ map defer_release skb_list))
      in (rx\<lparr> reorder_buf_filtered :=
                (if reorder_buf_filtered rx \<noteq> 0
                 then reorder_buf_filtered rx AND NOT (BIT_ULL index) else reorder_buf_filtered rx),
              head_seq_num := ieee80211_sn_inc (head_seq_num rx) \<rparr>, frames)))"

lemma head_release_frame [simp]:
  "head_seq_num (fst (ieee80211_release_reorder_frame i r)) = ieee80211_sn_inc (head_seq_num (fst r))"
  by (cases r) (simp add: ieee80211_release_reorder_frame_def Let_def)

function ieee80211_release_reorder_frames :: "u16 \<Rightarrow> release \<Rightarrow> release" where
  "ieee80211_release_reorder_frames head r =
     (if ieee80211_sn_less (head_seq_num (fst r)) head
      then ieee80211_release_reorder_frames head
             (ieee80211_release_reorder_frame (slot (fst r) (head_seq_num (fst r))) r)
      else r)"
  by auto
termination
  by (relation "measure (\<lambda>(head, r). sn_dist (head_seq_num (fst r)) head)")
    (auto simp: sn_less_iff sn_dist_inc)

declare ieee80211_release_reorder_frames.simps [simp del]

subsection \<open>Release after an insertion or a timeout\<close>

text \<open>\<^verbatim>\<open>HT_RX_REORDER_BUF_TIMEOUT\<close> is a tenth of a second; \<open>HZ\<close> is the configuration's tick rate.\<close>

definition HT_RX_REORDER_BUF_TIMEOUT :: "nat \<Rightarrow> u64" where
  "HT_RX_REORDER_BUF_TIMEOUT hz = of_nat (hz div 10)"

text \<open>\<^verbatim>\<open>time_after(a, b)\<close>: the difference \<open>b - a\<close> is negative as a signed long.\<close>

definition time_after :: "u64 \<Rightarrow> u64 \<Rightarrow> bool" where
  "time_after a b \<longleftrightarrow> bit (b - a) 63"

text \<open>
  The values the C loop \<^verbatim>\<open>for (j = (index + 1) % n; j != index; j = (j + 1) % n)\<close> visits.
\<close>

definition ring_after :: "nat \<Rightarrow> nat \<Rightarrow> nat list" where
  "ring_after index n = map (\<lambda>k. (index + k) mod n) [1..<n]"

text \<open>
  \<open>purge_upto index j rx\<close> empties the queues from \<open>index + 1\<close> up to and without \<open>j\<close>.
\<close>

definition purge_upto :: "nat \<Rightarrow> nat \<Rightarrow> tid_ampdu_rx \<Rightarrow> tid_ampdu_rx" where
  "purge_upto index j rx =
     rx\<lparr> reorder_buf := fold (\<lambda>i b. b[i := []]) (takeWhile (\<lambda>i. i \<noteq> j) (ring_after index (bufsz rx))) (reorder_buf rx) \<rparr>"

text \<open>
  The loop over the queues when none can be released in order.  The result's first component
  is the queue whose time sets the timer when the loop left with \<^verbatim>\<open>goto set_release_timer\<close>.
\<close>

fun reorder_timeout_loop :: "u64 \<Rightarrow> u64 \<Rightarrow> nat \<Rightarrow> nat list \<Rightarrow> nat \<Rightarrow> release \<Rightarrow> nat option \<times> release" where
  "reorder_timeout_loop jiffies tmo index [] skipped r = (None, r)"
| "reorder_timeout_loop jiffies tmo index (j # js) skipped (rx, frames) =
     (if \<not> ieee80211_rx_reorder_ready rx j
      then reorder_timeout_loop jiffies tmo index js (skipped + 1) (rx, frames)
      else if skipped \<noteq> 0 \<and> \<not> time_after jiffies (reorder_time rx ! j + tmo) then (Some j, (rx, frames))
      else (let (rx, frames) = ieee80211_release_reorder_frame j (purge_upto index j rx, frames) in
            reorder_timeout_loop jiffies tmo index js 0
              (rx\<lparr> head_seq_num := (head_seq_num rx + of_nat skipped) AND IEEE80211_SN_MASK \<rparr>, frames)))"

text \<open>
  The \<^verbatim>\<open>while\<close> loop that releases in order.  A release empties the head's queue and clears
  its filter bit, so at most one turn of the ring is made; the first argument counts it.
\<close>

fun release_in_order :: "nat \<Rightarrow> release \<Rightarrow> release" where
  "release_in_order 0 r = r"
| "release_in_order (Suc n) (rx, frames) =
     (let index = slot rx (head_seq_num rx) in
      if ieee80211_rx_reorder_ready rx index
      then release_in_order n (ieee80211_release_reorder_frame index (rx, frames))
      else (rx, frames))"

text \<open>
  The search for the next stored frame.  \<open>stop\<close> is \<^verbatim>\<open>(index - 1) % buf_size\<close> with the
  remainder of C, which is -1, and so no queue at all, when \<open>index\<close> is zero.
\<close>

partial_function (option) next_ready :: "tid_ampdu_rx \<Rightarrow> int \<Rightarrow> nat \<Rightarrow> nat option" where
  [code]: "next_ready rx stop j =
     (if int j = stop then Some j
      else if ieee80211_rx_reorder_ready rx j then Some j
      else next_ready rx stop ((j + 1) mod bufsz rx))"

definition set_release_timer :: "u64 \<Rightarrow> nat \<Rightarrow> release \<Rightarrow> release" where
  "set_release_timer tmo j = (\<lambda>(rx, frames).
     (if removed rx then rx else rx\<lparr> reorder_timer := Some (reorder_time rx ! j + 1 + tmo) \<rparr>, frames))"

definition ieee80211_sta_reorder_release :: "u64 \<Rightarrow> u64 \<Rightarrow> release \<Rightarrow> release option" where
  "ieee80211_sta_reorder_release jiffies tmo r =
     (let rx = fst r;
          index = slot rx (head_seq_num rx);
          (out, r) =
            (if \<not> ieee80211_rx_reorder_ready rx index \<and> stored_mpdu_num rx \<noteq> 0
             then reorder_timeout_loop jiffies tmo index (ring_after index (bufsz rx)) 1 r
             else (None, release_in_order (bufsz rx) r))
      in case out of
           Some j \<Rightarrow> Some (set_release_timer tmo j r)
         | None \<Rightarrow>
             if stored_mpdu_num (fst r) \<noteq> 0
             then (let index = slot (fst r) (head_seq_num (fst r)) in
                   map_option (\<lambda>j. set_release_timer tmo j r)
                     (next_ready (fst r) ((int index - 1) smod int (bufsz (fst r))) index))
             else Some ((fst r)\<lparr> reorder_timer := None \<rparr>, snd r))"

subsection \<open>Receiving a frame\<close>

text \<open>
  The body of \<^verbatim>\<open>ieee80211_sta_manage_reorder_buf\<close> in three parts, each from one early exit
  to the next: the start of a session, the window, and the queue.  A result \<open>(True, _)\<close> means
  that the frame was consumed (stored or freed), \<open>(False, _)\<close> that the caller processes it.
\<close>

definition reorder_queue :: "u64 \<Rightarrow> u64 \<Rightarrow> sk_buff \<Rightarrow> release \<Rightarrow> (bool \<times> release) option" where
  "reorder_queue jiffies tmo skb = (\<lambda>(rx, frames).
     (let sn = ieee80211_get_sn (skb_data skb);
          index = slot rx sn
      in if ieee80211_rx_reorder_ready rx index then Some (True, (rx, frames))
         else if sn = head_seq_num rx \<and> stored_mpdu_num rx = 0
         then Some (False, (if amsdu_more skb then rx
                            else rx\<lparr> head_seq_num := ieee80211_sn_inc (head_seq_num rx) \<rparr>, frames))
         else
           (let rx = rx\<lparr> reorder_buf := (reorder_buf rx)[index := reorder_buf rx ! index @ [skb]] \<rparr> in
            if amsdu_more skb then Some (True, (rx, frames))
            else map_option (Pair True)
                   (ieee80211_sta_reorder_release jiffies tmo
                      (rx\<lparr> reorder_time := (reorder_time rx)[index := jiffies],
                           stored_mpdu_num := stored_mpdu_num rx + 1 \<rparr>, frames)))))"

definition reorder_window :: "sk_buff \<Rightarrow> release \<Rightarrow> release" where
  "reorder_window skb r =
     (let sn = ieee80211_get_sn (skb_data skb); rx = fst r in
      if \<not> ieee80211_sn_less sn (head_seq_num rx + buf_size rx)
      then ieee80211_release_reorder_frames (ieee80211_sn_inc (ieee80211_sn_sub sn (buf_size rx))) r
      else r)"

definition reorder_auto_seq :: "sk_buff \<Rightarrow> tid_ampdu_rx \<Rightarrow> tid_ampdu_rx" where
  "reorder_auto_seq skb rx =
     (let sn = ieee80211_get_sn (skb_data skb) in
      if auto_seq rx then rx\<lparr> auto_seq := False, ssn := sn, head_seq_num := sn \<rparr> else rx)"

definition ieee80211_sta_manage_reorder_buf ::
    "u64 \<Rightarrow> u64 \<Rightarrow> sk_buff \<Rightarrow> release \<Rightarrow> (bool \<times> release) option" where
  "ieee80211_sta_manage_reorder_buf jiffies tmo skb = (\<lambda>(rx, frames).
     (let rx = reorder_auto_seq skb rx;
          old = ieee80211_sn_less (ieee80211_get_sn (skb_data skb)) (head_seq_num rx)
      in if \<not> started rx \<and> old then Some (False, (rx, frames))
         else (let rx = rx\<lparr> started := True \<rparr> in
           if old then Some (True, (rx, frames))
           else reorder_queue jiffies tmo skb (reorder_window skb (rx, frames)))))"

text \<open>
  The aggregation state of a station, one entry per TID, and what the receive path sends or
  queues besides the frames it hands on.
\<close>

record sta_ampdu_mlme =
  tid_rx :: "u8 \<Rightarrow> tid_ampdu_rx option"
  tid_rx_token :: "u8 \<Rightarrow> u8"
  tid_rx_timer_expired :: "u8 \<Rightarrow> bool"
  tid_rx_stop_requested :: "u8 \<Rightarrow> bool"
  tid_rx_manage_offl :: "u8 \<Rightarrow> bool"
  agg_session_valid :: "u8 \<Rightarrow> bool"
  unexpected_agg :: "u8 \<Rightarrow> bool"

datatype agg_event = Send_delba u8 | Queue_to_iface sk_buff

definition ieee80211_rx_reorder_ampdu ::
    "u64 \<Rightarrow> u64 \<Rightarrow> sta_ampdu_mlme option \<Rightarrow> sk_buff \<Rightarrow> sk_buff list \<Rightarrow>
     (sta_ampdu_mlme option \<times> sk_buff list \<times> agg_event list) option" where
  "ieee80211_rx_reorder_ampdu jiffies tmo sta skb frames =
     (let hdr = skb_data skb; dont_reorder = Some (sta, frames @ [skb], []) in
      if \<not> ieee80211_is_data_qos (frame_control hdr) \<or> is_multicast_ether_addr (addr1 hdr) then dont_reorder
      else (case sta of
        None \<Rightarrow> dont_reorder
      | Some mlme \<Rightarrow>
        (let ack_policy = ieee80211_get_qos_ctl hdr AND IEEE80211_QOS_CTL_ACK_POLICY_MASK;
             t = ieee80211_get_tid hdr
         in case tid_rx mlme t of
           None \<Rightarrow>
             if ack_policy = IEEE80211_QOS_CTL_ACK_POLICY_BLOCKACK \<and> \<not> agg_session_valid mlme t
             then Some (Some (mlme\<lparr> unexpected_agg := (unexpected_agg mlme)(t := True) \<rparr>), frames @ [skb],
                        (if unexpected_agg mlme t then [] else [Send_delba t]))
             else dont_reorder
         | Some rx \<Rightarrow>
             if frame_control hdr AND IEEE80211_STYPE_NULLFUNC \<noteq> 0 then dont_reorder
             else if ack_policy = IEEE80211_QOS_CTL_ACK_POLICY_NOACK then dont_reorder
             else
               (let rx = (if timeout rx \<noteq> 0 then rx\<lparr> last_rx := jiffies \<rparr> else rx);
                    put = (\<lambda>rx. Some (mlme\<lparr> tid_rx := (tid_rx mlme)(t := Some rx) \<rparr>))
                in if seq_ctrl hdr AND IEEE80211_SCTL_FRAG \<noteq> 0
                   then Some (put rx, frames, [Queue_to_iface skb])
                   else map_option
                     (\<lambda>(consumed, rx, frames). (put rx, if consumed then frames else frames @ [skb], []))
                     (ieee80211_sta_manage_reorder_buf jiffies tmo skb (rx, frames))))))"

text \<open>The timer handler: the released frames go to the receive handlers.\<close>

definition ieee80211_release_reorder_timeout :: "u64 \<Rightarrow> u64 \<Rightarrow> tid_ampdu_rx \<Rightarrow> release option" where
  "ieee80211_release_reorder_timeout jiffies tmo rx = ieee80211_sta_reorder_release jiffies tmo (rx, [])"

subsection \<open>Frames the hardware filtered\<close>

text \<open>One step of the loop that copies the driver's bitmap of filtered frames into the session.\<close>

definition filtered_bit :: "u64 \<Rightarrow> nat \<Rightarrow> nat \<Rightarrow> u64 \<Rightarrow> u64" where
  "filtered_bit filtered index i f =
     (let f = f AND NOT (BIT_ULL index) in
      if filtered AND BIT_ULL i \<noteq> 0 then f OR BIT_ULL index else f)"

definition ieee80211_mark_rx_ba_filtered_frames ::
    "u64 \<Rightarrow> u64 \<Rightarrow> u16 \<Rightarrow> u64 \<Rightarrow> u16 \<Rightarrow> tid_ampdu_rx \<Rightarrow> release option" where
  "ieee80211_mark_rx_ba_filtered_frames jiffies tmo start_sn filtered received_mpdus rx =
     (let (rx, frames) =
            (if received_mpdus \<ge> drop_bit 1 IEEE80211_SN_MODULO
             then (let r = ieee80211_release_reorder_frames
                         ((head_seq_num rx + buf_size rx) mod IEEE80211_SN_MODULO) (rx, [])
                   in ((fst r)\<lparr> head_seq_num := start_sn \<rparr>, snd r))
             else ieee80211_release_reorder_frames start_sn (rx, []));
          diff = ieee80211_sn_sub (head_seq_num rx) start_sn
      in if diff \<ge> buf_size rx then Some (rx\<lparr> reorder_buf_filtered := 0 \<rparr>, frames)
         else
           (let filtered = drop_bit (unat diff) filtered;
                start_sn = start_sn + diff;
                bits = fold (\<lambda>i. filtered_bit filtered ((unat start_sn + i) mod bufsz rx) i) [0..<bufsz rx]
                         (reorder_buf_filtered rx)
            in ieee80211_sta_reorder_release jiffies tmo (rx\<lparr> reorder_buf_filtered := bits \<rparr>, frames)))"

end
