(* ===== verification/Wme.thy ===== *)
theory Wme
  imports Mac80211
begin

text \<open>
  Queue selection and the QoS control field of transmitted frames, \<^verbatim>\<open>mac80211/wme.c\<close>: the map
  from 802.1d priorities to access categories, the downgrade of frames to categories without
  admission control, and the QoS header.  \<^verbatim>\<open>cfg80211_classify8021d\<close> is a parameter.

  A priority above seven would index the category table out of range; \<open>None\<close> is that case.
  The lemmas show that it does not arise, that the downgrade ends and where, and what the QoS
  header of a frame becomes.
\<close>

abbreviation (input) IEEE80211_AC_VO :: u16 where "IEEE80211_AC_VO \<equiv> 0"
abbreviation (input) IEEE80211_AC_VI :: u16 where "IEEE80211_AC_VI \<equiv> 1"
abbreviation (input) IEEE80211_AC_BE :: u16 where "IEEE80211_AC_BE \<equiv> 2"
abbreviation (input) IEEE80211_AC_BK :: u16 where "IEEE80211_AC_BK \<equiv> 3"
abbreviation (input) IEEE80211_NUM_ACS :: nat where "IEEE80211_NUM_ACS \<equiv> 4"
abbreviation (input) IEEE80211_TX_CTRL_DONT_REORDER :: u32 where "IEEE80211_TX_CTRL_DONT_REORDER \<equiv> 0x100"

definition ieee802_1d_to_ac :: "u16 list" where
  "ieee802_1d_to_ac =
     [IEEE80211_AC_BE, IEEE80211_AC_BK, IEEE80211_AC_BK, IEEE80211_AC_BE,
      IEEE80211_AC_VI, IEEE80211_AC_VI, IEEE80211_AC_VO, IEEE80211_AC_VO]"

definition ac_of :: "u32 \<Rightarrow> u16 option" where
  "ac_of prio = (if unat prio < length ieee802_1d_to_ac then Some (ieee802_1d_to_ac ! unat prio) else None)"

text \<open>\<open>None\<close> is the return value -1: there is no lower category.\<close>

definition wme_downgrade_ac :: "u32 \<Rightarrow> u32 option" where
  "wme_downgrade_ac prio =
     (if prio = 6 \<or> prio = 7 then Some 5
      else if prio = 4 \<or> prio = 5 then Some 3
      else if prio = 0 \<or> prio = 3 then Some 2
      else None)"

definition ieee80211_fix_reserved_tid :: "u8 \<Rightarrow> u8" where
  "ieee80211_fix_reserved_tid tid =
     (if tid = 0 then 3 else if tid = 1 then 2 else if tid = 2 then 1 else if tid = 3 then 0
      else if tid = 4 then 5 else if tid = 5 then 4 else if tid = 6 then 7 else if tid = 7 then 6
      else 0)"

text \<open>
  The interface: the bitmap of priorities under admission control, the traffic stream admitted
  per category, and the fields the selection and the header read.
\<close>

record tx_tspec =
  admitted_time :: u32
  up :: int

record ieee80211_sub_if_data =
  wmm_acm :: u8
  mgd_tx_tspec :: "tx_tspec list"
  noack_map :: u16
  vif_type :: iftype
  control_port_protocol :: u16
  sdata_queues :: nat

record wme_sta =
  sta_wme :: bool
  reserved_tid :: u8

text \<open>
  The loop that leaves categories under admission control.  \<open>Inl ac\<close> is the return from inside
  the loop for a frame of an admitted stream; \<open>Inr\<close> is the end of the loop.  Every downgrade
  moves to a lower category, which bounds the loop; only the priorities 1 and 2 have none.
\<close>

definition under_acm :: "ieee80211_sub_if_data \<Rightarrow> u32 \<Rightarrow> bool" where
  "under_acm sdata prio \<longleftrightarrow> bit (wmm_acm sdata) (unat prio)"

definition ac_rank :: "u32 \<Rightarrow> nat" where
  "ac_rank prio = (if prio = 6 \<or> prio = 7 then 3 else if prio = 4 \<or> prio = 5 then 2
                   else if prio = 0 \<or> prio = 3 then 1 else 0)"

lemma wme_downgrade_rank: "wme_downgrade_ac prio = Some p \<Longrightarrow> ac_rank p < ac_rank prio"
  by (auto simp: wme_downgrade_ac_def ac_rank_def split: if_splits)

function downgrade_loop :: "ieee80211_sub_if_data \<Rightarrow> u32 \<Rightarrow> (u16 + unit) \<times> u32" where
  "downgrade_loop sdata prio =
     (if under_acm sdata prio
      then (case ac_of prio of
          None \<Rightarrow> (Inr (), prio)
        | Some ac \<Rightarrow>
            if admitted_time (mgd_tx_tspec sdata ! unat ac) \<noteq> 0 \<and> prio = word_of_int (up (mgd_tx_tspec sdata ! unat ac))
            then (Inl ac, prio)
            else (case wme_downgrade_ac prio of
                None \<Rightarrow> (Inr (), prio)
              | Some p \<Rightarrow> downgrade_loop sdata p))
      else (Inr (), prio))"
  by auto
termination
  by (relation "measure (\<lambda>(sdata, prio). ac_rank prio)") (auto dest: wme_downgrade_rank)

declare downgrade_loop.simps [simp del]

text \<open>The result is the queue and the frame with its priority; \<open>None\<close> reads outside the table.\<close>

definition ieee80211_downgrade_queue ::
    "ieee80211_sub_if_data \<Rightarrow> wme_sta option \<Rightarrow> sk_buff \<Rightarrow> (u16 \<times> sk_buff) option" where
  "ieee80211_downgrade_queue sdata sta skb =
     (let (r, prio) = downgrade_loop sdata (skb_priority skb) in
      case r of
        Inl ac \<Rightarrow> Some (ac, skb\<lparr> skb_priority := prio \<rparr>)
      | Inr _ \<Rightarrow>
          (let prio = (case sta of
                 Some s \<Rightarrow> if ucast (reserved_tid s) = prio
                            then ucast (ieee80211_fix_reserved_tid (ucast prio)) else prio
               | None \<Rightarrow> prio)
           in map_option (\<lambda>ac. (ac, skb\<lparr> skb_priority := prio \<rparr>)) (ac_of prio)))"

definition ieee80211_select_queue_80211 ::
    "ieee80211_sub_if_data \<Rightarrow> sk_buff \<Rightarrow> u8 list \<Rightarrow> (u16 \<times> sk_buff) option" where
  "ieee80211_select_queue_80211 sdata skb hdr =
     (if has_flag (ti_control_flags (skb_tx skb)) IEEE80211_TX_CTRL_DONT_REORDER \<or> sdata_queues sdata < IEEE80211_NUM_ACS
      then Some (0, skb)
      else if \<not> ieee80211_is_data (frame_control hdr)
      then map_option (\<lambda>ac. (ac, skb\<lparr> skb_priority := 7 \<rparr>)) (ac_of 7)
      else if \<not> ieee80211_is_data_qos (frame_control hdr)
      then map_option (\<lambda>ac. (ac, skb\<lparr> skb_priority := 0 \<rparr>)) (ac_of 0)
      else ieee80211_downgrade_queue sdata None
             (skb\<lparr> skb_priority := ucast (ieee80211_get_qos_ctl hdr AND IEEE80211_QOS_CTL_TAG1D_MASK) \<rparr>))"

text \<open>\<open>classify\<close> is \<^verbatim>\<open>cfg80211_classify8021d\<close> with the QoS map of the interface.\<close>

definition ieee80211_select_queue ::
    "(sk_buff \<Rightarrow> u32) \<Rightarrow> ieee80211_sub_if_data \<Rightarrow> wme_sta option \<Rightarrow> sk_buff \<Rightarrow> (u16 \<times> sk_buff) option" where
  "ieee80211_select_queue classify sdata sta skb =
     (let h_dest = mem_read (skb_data skb) 0 ETH_ALEN;
          qos = (if vif_type sdata = IFTYPE_MESH_POINT \<and> \<not> is_multicast_ether_addr h_dest \<or>
                    vif_type sdata = IFTYPE_OCB \<and> sta \<noteq> None then True
                 else (case sta of Some s \<Rightarrow> sta_wme s | None \<Rightarrow> False))
      in if \<not> qos then Some (IEEE80211_AC_BE, skb\<lparr> skb_priority := 0 \<rparr>)
         else if skb_protocol skb = control_port_protocol sdata
         then ieee80211_downgrade_queue sdata sta (skb\<lparr> skb_priority := 7 \<rparr>)
         else ieee80211_downgrade_queue sdata sta (skb\<lparr> skb_priority := classify skb \<rparr>))"

text \<open>
  The QoS header of a frame about to be sent: \<open>qos_octet1\<close> and \<open>qos_octet2\<close> are the two octets
  the function writes over \<open>p0\<close> and \<open>p1\<close>.
\<close>

definition qos_octet1 :: "u8 \<Rightarrow> u8 \<Rightarrow> bool \<Rightarrow> u8" where
  "qos_octet1 p0 tid noack =
     (let flags = p0 AND NOT (IEEE80211_QOS_CTL_TID_MASK OR IEEE80211_QOS_CTL_ACK_POLICY_MASK);
          flags = (if noack then flags OR IEEE80211_QOS_CTL_ACK_POLICY_NOACK else flags)
      in flags OR tid)"

definition qos_octet2 :: "ieee80211_sub_if_data \<Rightarrow> u8 list \<Rightarrow> u8 \<Rightarrow> u8" where
  "qos_octet2 sdata hdr p1 =
     (if vif_type sdata = IFTYPE_MESH_POINT
      then (let p1 = p1 AND 0x06 in if \<not> ieee80211_is_qos_nullfunc (frame_control hdr) then p1 OR 0x01 else p1)
      else 0)"

definition or_tx_flags :: "u32 \<Rightarrow> sk_buff \<Rightarrow> sk_buff" where
  "or_tx_flags f skb = skb\<lparr> skb_tx := (skb_tx skb)\<lparr> ti_flags := ti_flags (skb_tx skb) OR f \<rparr> \<rparr>"

definition ieee80211_set_qos_hdr :: "ieee80211_sub_if_data \<Rightarrow> sk_buff \<Rightarrow> sk_buff" where
  "ieee80211_set_qos_hdr sdata skb =
     (let hdr = skb_data skb;
          tid = ucast (skb_priority skb) AND IEEE80211_QOS_CTL_TAG1D_MASK;
          off = qos_ctl_off hdr; p0 = hdr ! off; p1 = hdr ! (off + 1)
      in if \<not> ieee80211_is_data_qos (frame_control hdr) then skb
         else if has_flag (ti_flags (skb_tx skb)) IEEE80211_TX_CTL_INJECTED
         then (if p0 AND IEEE80211_QOS_CTL_ACK_POLICY_NOACK \<noteq> 0 then or_tx_flags IEEE80211_TX_CTL_NO_ACK skb else skb)
         else
           (let noack = is_multicast_ether_addr (addr1 hdr) \<or> bit (noack_map sdata) (unat tid);
                skb = (if noack then or_tx_flags IEEE80211_TX_CTL_NO_ACK skb else skb)
            in skb\<lparr> skb_data := hdr[off := qos_octet1 p0 tid noack, off + 1 := qos_octet2 sdata hdr p1] \<rparr>))"


subsection \<open>The downgrade\<close>

text \<open>\<open>stream_admitted sdata p ac\<close>: the traffic stream of category \<open>ac\<close> is admitted, with priority \<open>p\<close>.\<close>

definition stream_admitted :: "ieee80211_sub_if_data \<Rightarrow> u32 \<Rightarrow> u16 \<Rightarrow> bool" where
  "stream_admitted sdata p ac \<longleftrightarrow>
     admitted_time (mgd_tx_tspec sdata ! unat ac) \<noteq> 0 \<and> p = word_of_int (up (mgd_tx_tspec sdata ! unat ac))"

text \<open>
  Admission control is set per category: the two priorities of a category agree, as
  \<^verbatim>\<open>ieee80211_sta_wmm_params\<close> sets them.
\<close>

definition acm_by_ac :: "ieee80211_sub_if_data \<Rightarrow> bool" where
  "acm_by_ac sdata \<longleftrightarrow>
     under_acm sdata 0 = under_acm sdata 3 \<and> under_acm sdata 1 = under_acm sdata 2 \<and>
     under_acm sdata 4 = under_acm sdata 5 \<and> under_acm sdata 6 = under_acm sdata 7"

lemma prio_cases:
  assumes "prio < (8 :: u32)"
  obtains "prio = 0" | "prio = 1" | "prio = 2" | "prio = 3" | "prio = 4" | "prio = 5" | "prio = 6" | "prio = 7"
proof -
  from assms have "unat prio \<in> {..<8}" by (simp add: word_less_nat_alt)
  then have "unat prio \<in> {0, 1, 2, 3, 4, 5, 6, 7}"
    by (simp only: lessThan_nat_numeral lessThan_0 lessThan_Suc numeral_eq_Suc pred_numeral_simps One_nat_def) auto
  then have "prio = 0 \<or> prio = 1 \<or> prio = 2 \<or> prio = 3 \<or> prio = 4 \<or> prio = 5 \<or> prio = 6 \<or> prio = 7"
    by (auto simp: word_unat_eq_iff)
  then show thesis using that by blast
qed

lemma ac_of_simps [simp]:
  "ac_of 0 = Some 2" "ac_of 1 = Some 3" "ac_of 2 = Some 3" "ac_of 3 = Some 2"
  "ac_of 4 = Some 1" "ac_of 5 = Some 1" "ac_of 6 = Some 0" "ac_of 7 = Some 0"
  by (simp_all add: ac_of_def ieee802_1d_to_ac_def)

lemma wme_downgrade_ac_simps [simp]:
  "wme_downgrade_ac 0 = Some 2" "wme_downgrade_ac 1 = None" "wme_downgrade_ac 2 = None" "wme_downgrade_ac 3 = Some 2"
  "wme_downgrade_ac 4 = Some 3" "wme_downgrade_ac 5 = Some 3" "wme_downgrade_ac 6 = Some 5" "wme_downgrade_ac 7 = Some 5"
  by (simp_all add: wme_downgrade_ac_def)

lemma ac_of_valid: "prio < 8 \<Longrightarrow> \<exists>ac. ac_of prio = Some ac \<and> ac < 4"
  by (erule prio_cases) simp_all

lemma reserved_tid_simps [simp]:
  "ieee80211_fix_reserved_tid 0 = 3" "ieee80211_fix_reserved_tid 1 = 2" "ieee80211_fix_reserved_tid 2 = 1"
  "ieee80211_fix_reserved_tid 3 = 0" "ieee80211_fix_reserved_tid 4 = 5" "ieee80211_fix_reserved_tid 5 = 4"
  "ieee80211_fix_reserved_tid 6 = 7" "ieee80211_fix_reserved_tid 7 = 6"
  by (simp_all add: ieee80211_fix_reserved_tid_def)

text \<open>The alternative TID of a reserved one is another TID of the same category.\<close>

lemma fix_reserved_tid_ac:
  assumes "prio < 8"
  defines "q \<equiv> ucast (ieee80211_fix_reserved_tid (ucast prio)) :: u32"
  shows "ac_of q = ac_of prio" "q \<noteq> prio" "q < 8" "acm_by_ac sdata \<Longrightarrow> under_acm sdata q = under_acm sdata prio"
  using assms(1) unfolding q_def by (auto elim!: prio_cases simp: acm_by_ac_def)

lemma acm_same_ac:
  "acm_by_ac sdata \<Longrightarrow> t < 8 \<Longrightarrow> prio < 8 \<Longrightarrow> the (ac_of t) = the (ac_of prio) \<Longrightarrow>
   under_acm sdata t = under_acm sdata prio"
  by (erule prio_cases[of t]; erule prio_cases[of prio]) (simp_all add: acm_by_ac_def)

text \<open>The priorities from which the loop reaches another one; it leaves only categories under admission control.\<close>

lemma downgrade_loop_spec:
  assumes "downgrade_loop sdata prio = (r, p)" "prio < 8"
  shows "p < 8 \<and> the (ac_of prio) \<le> the (ac_of p) \<and>
    (p = prio \<or> the (ac_of prio) < the (ac_of p)) \<and>
    (\<forall>q < 8. acm_by_ac sdata \<longrightarrow> the (ac_of prio) \<le> the (ac_of q) \<longrightarrow> the (ac_of q) < the (ac_of p) \<longrightarrow> under_acm sdata q) \<and>
    (case r of Inl ac \<Rightarrow> ac_of p = Some ac \<and> stream_admitted sdata p ac
             | Inr _ \<Rightarrow> \<not> under_acm sdata p \<or> ac_of p = Some IEEE80211_AC_BK)"
  using assms
proof (induction sdata prio rule: downgrade_loop.induct)
  case (1 sdata prio)
  obtain ac where ac: "ac_of prio = Some ac" "ac < 4" using ac_of_valid[OF 1(3)] by blast
  consider (clear) "\<not> under_acm sdata prio"
    | (stream) "under_acm sdata prio" "stream_admitted sdata prio ac"
    | (lowest) "under_acm sdata prio" "\<not> stream_admitted sdata prio ac" "wme_downgrade_ac prio = None"
    | (down) q where "under_acm sdata prio" "\<not> stream_admitted sdata prio ac" "wme_downgrade_ac prio = Some q"
    by (cases "wme_downgrade_ac prio") auto
  then show ?case
  proof cases
    case clear
    then have "r = Inr ()" "p = prio" using 1(2) by (subst (asm) downgrade_loop.simps, simp)+
    then show ?thesis using clear 1(3) by auto
  next
    case stream
    then have "r = Inl ac" "p = prio"
      using 1(2) ac by (subst (asm) downgrade_loop.simps, simp add: stream_admitted_def)+
    then show ?thesis using stream ac 1(3) by auto
  next
    case lowest
    then have "r = Inr ()" "p = prio"
      using 1(2) ac by (subst (asm) downgrade_loop.simps, auto simp: stream_admitted_def)+
    moreover have "ac_of prio = Some IEEE80211_AC_BK" using 1(3) lowest(3) by (auto elim!: prio_cases)
    ultimately show ?thesis using 1(3) by auto
  next
    case (down q)
    have q8: "q < 8" "the (ac_of q) = the (ac_of prio) + 1"
      using 1(3) down(3) by (auto elim!: prio_cases)
    have less: "the (ac_of prio) < the (ac_of q)"
      using 1(3) down(3) by (auto elim!: prio_cases)
    have "downgrade_loop sdata q = (r, p)"
      using 1(2) down ac by (subst (asm) downgrade_loop.simps) (auto simp: stream_admitted_def)
    then have IH: "p < 8 \<and> the (ac_of q) \<le> the (ac_of p) \<and>
      (p = q \<or> the (ac_of q) < the (ac_of p)) \<and>
      (\<forall>t < 8. acm_by_ac sdata \<longrightarrow> the (ac_of q) \<le> the (ac_of t) \<longrightarrow> the (ac_of t) < the (ac_of p) \<longrightarrow> under_acm sdata t) \<and>
      (case r of Inl ac \<Rightarrow> ac_of p = Some ac \<and> stream_admitted sdata p ac
               | Inr _ \<Rightarrow> \<not> under_acm sdata p \<or> ac_of p = Some IEEE80211_AC_BK)"
      using 1(1)[OF down(1) ac(1) _ down(3)] down(2) q8(1) by (auto simp: stream_admitted_def)
    have same: "under_acm sdata t"
      if "t < 8" "acm_by_ac sdata" "the (ac_of prio) \<le> the (ac_of t)" "the (ac_of t) < the (ac_of q)" for t
    proof -
      have "the (ac_of t) = the (ac_of prio)"
        using that(3,4) q8(2) less by (metis inc_le order_antisym not_le)
      then show ?thesis using acm_same_ac[OF that(2,1) 1(3)] down(1) by simp
    qed
    have "under_acm sdata t"
      if "t < 8" "acm_by_ac sdata" "the (ac_of prio) \<le> the (ac_of t)" "the (ac_of t) < the (ac_of p)" for t
      using IH same[OF that(1-3)] that by (cases "the (ac_of t) < the (ac_of q)") auto
    then show ?thesis using IH less by auto
  qed
qed


subsection \<open>Properties of queue selection\<close>

text \<open>For a frame with an 802.1d priority the selected queue is that of the priority the
  frame leaves with.  The frame is never moved to a higher access category; every category from
  its own up to the selected one (exclusive) requires admission; and the selected category does
  not, unless it holds the frame's admitted stream or is the lowest one.\<close>

theorem downgrade_queue_highest_allowed:
  assumes "skb_priority skb < 8" "acm_by_ac sdata"
  shows "\<exists>ac p. ieee80211_downgrade_queue sdata sta skb = Some (ac, skb\<lparr> skb_priority := p \<rparr>) \<and>
    p < 8 \<and> ac_of p = Some ac \<and> the (ac_of (skb_priority skb)) \<le> ac \<and>
    (\<forall>q < 8. the (ac_of (skb_priority skb)) \<le> the (ac_of q) \<longrightarrow> the (ac_of q) < ac \<longrightarrow> under_acm sdata q) \<and>
    (\<not> under_acm sdata p \<or> stream_admitted sdata p ac \<or> ac = IEEE80211_AC_BK)"
proof -
  obtain r p where rp: "downgrade_loop sdata (skb_priority skb) = (r, p)" by fastforce
  note spec = downgrade_loop_spec[OF rp assms(1)]
  show ?thesis
  proof (cases r)
    case (Inl ac)
    then have "ieee80211_downgrade_queue sdata sta skb = Some (ac, skb\<lparr> skb_priority := p \<rparr>)"
      using rp by (simp add: ieee80211_downgrade_queue_def)
    then show ?thesis using spec Inl assms(2) by auto
  next
    case (Inr _)
    obtain q where q: "ieee80211_downgrade_queue sdata sta skb = map_option (\<lambda>ac. (ac, skb\<lparr> skb_priority := q \<rparr>)) (ac_of q)"
        "q = p \<or> q = ucast (ieee80211_fix_reserved_tid (ucast p))"
      using rp Inr by (auto simp: ieee80211_downgrade_queue_def Let_def split: option.splits if_splits)
    have p8: "p < 8" using spec by blast
    have same: "q < 8" "ac_of q = ac_of p" "under_acm sdata q = under_acm sdata p"
      using q(2) p8 fix_reserved_tid_ac(1-3)[OF p8] fix_reserved_tid_ac(4)[OF p8, of sdata] assms(2) by auto
    obtain ac where "ac_of q = Some ac" using ac_of_valid[OF same(1)] by blast
    then have ac: "the (ac_of p) = ac" using same(2) by simp
    have le: "the (ac_of (skb_priority skb)) \<le> ac"
      using spec ac by blast
    have above: "\<forall>t < 8. the (ac_of (skb_priority skb)) \<le> the (ac_of t) \<longrightarrow> the (ac_of t) < ac \<longrightarrow> under_acm sdata t"
      using spec assms(2) unfolding ac by blast
    have "\<not> under_acm sdata p \<or> ac_of p = Some IEEE80211_AC_BK"
      using spec Inr by simp
    then have "\<not> under_acm sdata q \<or> stream_admitted sdata q ac \<or> ac = IEEE80211_AC_BK"
      using same(2,3) \<open>ac_of q = Some ac\<close> by (metis option.inject)
    then show ?thesis
      using q(1) same(1) le above \<open>ac_of q = Some ac\<close> by (intro exI[of _ ac] exI[of _ q]) simp
  qed
qed

definition ex_wme_sdata :: ieee80211_sub_if_data where
  "ex_wme_sdata = \<lparr> wmm_acm = 0xf0, mgd_tx_tspec = replicate 4 \<lparr> admitted_time = 0, up = - 1 \<rparr>, noack_map = 0,
     vif_type = IFTYPE_STATION, control_port_protocol = 0x888e, sdata_queues = 4 \<rparr>"

definition ex_wme_skb :: sk_buff where
  "ex_wme_skb = undefined\<lparr> skb_priority := 6 \<rparr>"

lemma ex_wme_acm: "acm_by_ac ex_wme_sdata" "under_acm ex_wme_sdata 4" "\<not> under_acm ex_wme_sdata 3"
  by (simp_all add: acm_by_ac_def under_acm_def ex_wme_sdata_def)

theorem downgrade_queue_highest_allowed_witness:
  "\<exists>ac p. ieee80211_downgrade_queue ex_wme_sdata None ex_wme_skb = Some (ac, ex_wme_skb\<lparr> skb_priority := p \<rparr>) \<and>
    ac_of p = Some ac \<and> (under_acm ex_wme_sdata p \<longrightarrow> stream_admitted ex_wme_sdata p ac \<or> ac = IEEE80211_AC_BK)"
  using downgrade_queue_highest_allowed[of ex_wme_skb ex_wme_sdata None, OF _ ex_wme_acm(1)]
  by (auto simp: ex_wme_skb_def)

text \<open>A frame of a station with a reserved TID leaves with another TID of the same access
  category, unless it belongs to an admitted stream.\<close>

theorem downgrade_queue_avoids_reserved:
  assumes "skb_priority skb < 8"
    and "ieee80211_downgrade_queue sdata (Some s) skb = Some (ac, skb')"
    and "\<not> stream_admitted sdata (skb_priority skb') ac"
  shows "skb_priority skb' \<noteq> ucast (reserved_tid s) \<and>
    ac_of (snd (downgrade_loop sdata (skb_priority skb))) = Some ac"
proof -
  obtain r p where rp: "downgrade_loop sdata (skb_priority skb) = (r, p)" by fastforce
  note spec = downgrade_loop_spec[OF rp assms(1)]
  then have p8: "p < 8" by blast
  have r: "r = Inr ()"
    using assms(2,3) rp spec by (cases r) (auto simp: ieee80211_downgrade_queue_def)
  show ?thesis
    using assms(2) rp r fix_reserved_tid_ac(1,2)[OF p8]
    by (auto simp: ieee80211_downgrade_queue_def Let_def split: if_splits)
qed

theorem downgrade_queue_avoids_reserved_witness:
  "map_option (skb_priority \<circ> snd)
     (ieee80211_downgrade_queue ex_wme_sdata (Some \<lparr> sta_wme = True, reserved_tid = 3 \<rparr>) ex_wme_skb) \<noteq> Some 3"
proof -
  have "ieee80211_downgrade_queue ex_wme_sdata (Some \<lparr> sta_wme = True, reserved_tid = 3 \<rparr>) ex_wme_skb =
      Some (2, ex_wme_skb\<lparr> skb_priority := 0 \<rparr>)"
    by (simp add: ieee80211_downgrade_queue_def ex_wme_skb_def downgrade_loop.simps under_acm_def ex_wme_sdata_def)
  then show ?thesis
    using downgrade_queue_avoids_reserved[of ex_wme_skb ex_wme_sdata "\<lparr> sta_wme = True, reserved_tid = 3 \<rparr>" 2
        "ex_wme_skb\<lparr> skb_priority := 0 \<rparr>"]
    by (simp add: ex_wme_skb_def stream_admitted_def ex_wme_sdata_def)
qed


subsection \<open>The QoS header\<close>

lemma qos_octet1_fields:
  fixes p0 x :: u8 and noack :: bool
  defines "o1 \<equiv> qos_octet1 p0 (x AND IEEE80211_QOS_CTL_TAG1D_MASK) noack"
  shows "o1 AND IEEE80211_QOS_CTL_TID_MASK = x AND IEEE80211_QOS_CTL_TAG1D_MASK"
    "o1 AND IEEE80211_QOS_CTL_ACK_POLICY_MASK = (if noack then IEEE80211_QOS_CTL_ACK_POLICY_NOACK else 0)"
    "o1 AND 0x90 = p0 AND 0x90"
  unfolding o1_def qos_octet1_def Let_def
  by (simp_all add: bit.conj_disj_distrib bit.conj_disj_distrib2 and.assoc)

lemma skb_tx_or_tx_flags [simp]:
  "skb_data (or_tx_flags f skb) = skb_data skb"
  "ti_flags (skb_tx (or_tx_flags f skb)) = ti_flags (skb_tx skb) OR f"
  by (simp_all add: or_tx_flags_def)

text \<open>For a QoS data frame that is not injected only the two QoS octets of the frame change.
  Then its TID is the priority, its acknowledgment policy is no-ack exactly for multicast frames
  and TIDs configured so (and then the driver is told), and the end-of-service-period and A-MSDU
  bits are kept.\<close>

theorem set_qos_hdr_fields:
  fixes sdata :: ieee80211_sub_if_data and skb :: sk_buff
  assumes "ieee80211_is_data_qos (frame_control (skb_data skb))"
    and "\<not> has_flag (ti_flags (skb_tx skb)) IEEE80211_TX_CTL_INJECTED"
    and "qos_ctl_off (skb_data skb) + 1 < length (skb_data skb)"
  defines "hdr \<equiv> skb_data skb" and "hdr' \<equiv> skb_data (ieee80211_set_qos_hdr sdata skb)"
    and "tid \<equiv> ucast (skb_priority skb) AND IEEE80211_QOS_CTL_TAG1D_MASK :: u8"
  defines "noack \<equiv> is_multicast_ether_addr (addr1 hdr) \<or> bit (noack_map sdata) (unat tid)"
  shows "length hdr' = length hdr \<and> frame_control hdr' = frame_control hdr \<and>
    (\<forall>i. i \<noteq> qos_ctl_off hdr \<longrightarrow> i \<noteq> qos_ctl_off hdr + 1 \<longrightarrow> hdr' ! i = hdr ! i) \<and>
    ieee80211_get_tid hdr' = tid \<and>
    ieee80211_get_qos_ctl hdr' AND IEEE80211_QOS_CTL_ACK_POLICY_MASK
      = (if noack then IEEE80211_QOS_CTL_ACK_POLICY_NOACK else 0) \<and>
    ieee80211_get_qos_ctl hdr' AND 0x90 = ieee80211_get_qos_ctl hdr AND 0x90 \<and>
    (vif_type sdata \<noteq> IFTYPE_MESH_POINT \<longrightarrow> hdr' ! (qos_ctl_off hdr + 1) = 0) \<and>
    ti_flags (skb_tx (ieee80211_set_qos_hdr sdata skb)) =
      (if noack then ti_flags (skb_tx skb) OR IEEE80211_TX_CTL_NO_ACK else ti_flags (skb_tx skb))"
proof -
  let ?off = "qos_ctl_off hdr"
  let ?o1 = "qos_octet1 (hdr ! ?off) tid noack"
  have hdr': "hdr' = hdr[?off := ?o1, ?off + 1 := qos_octet2 sdata hdr (hdr ! (?off + 1))]"
    using assms(1,2) unfolding hdr'_def hdr_def noack_def tid_def
    by (simp add: ieee80211_set_qos_hdr_def Let_def)
  have off: "24 \<le> ?off" by (simp add: qos_ctl_off_def)
  have fc: "frame_control hdr' = frame_control hdr"
    using off unfolding hdr' by (simp add: frame_control_def get_unaligned_le16_def)
  then have qoff: "qos_ctl_off hdr' = ?off" by (simp add: qos_ctl_off_def)
  have at: "hdr' ! ?off = ?o1" "hdr' ! (?off + 1) = qos_octet2 sdata hdr (hdr ! (?off + 1))"
    using assms(3) unfolding hdr' hdr_def by simp_all
  note fields = qos_octet1_fields[of "hdr ! ?off" "ucast (skb_priority skb)" noack, folded tid_def]
  show ?thesis
    using fc fields at assms(1,2)
    by (simp add: ieee80211_get_tid_def ieee80211_get_qos_ctl_def qoff qos_octet2_def)
      (simp add: hdr' ieee80211_set_qos_hdr_def Let_def hdr_def noack_def tid_def)
qed


definition ex_qos_skb :: sk_buff where
  "ex_qos_skb = ex_wme_skb\<lparr> skb_data := [0x88, 0x01] @ replicate 22 0 @ [0xff, 0xff],
     skb_tx := \<lparr> ti_flags = 0, ti_control_flags = 0, hw_key = None \<rparr> \<rparr>"

theorem set_qos_hdr_fields_witness:
  "ieee80211_get_tid (skb_data (ieee80211_set_qos_hdr ex_wme_sdata ex_qos_skb)) = 6"
proof -
  have "ieee80211_is_data_qos (frame_control (skb_data ex_qos_skb))"
    by (simp add: ex_qos_skb_def frame_control_def get_unaligned_le16_def ieee80211_is_data_qos_def)
  moreover have "qos_ctl_off (skb_data ex_qos_skb) = 24"
    by (simp add: ex_qos_skb_def qos_ctl_off_def frame_control_def get_unaligned_le16_def ieee80211_has_a4_def)
  ultimately show ?thesis
    using set_qos_hdr_fields[of ex_qos_skb ex_wme_sdata]
    by (simp add: ex_qos_skb_def ex_wme_skb_def has_flag_def)
qed

end
