(* ===== verification/Agg.thy ===== *)
theory Agg
  imports Reorder Wme
begin

text \<open>
  What the two directions of block-ack sessions share (\<^verbatim>\<open>mac80211/agg-rx.c\<close>, \<^verbatim>\<open>agg-tx.c\<close>, \<^verbatim>\<open>ht.c\<close>):
  bit fields of action frames, the capabilities of driver and peer, the parameters of the
  driver's callback and what a step sends or queues.

  An operation returns the new state with the list of its external effects, in order.  The
  driver's answers and failing allocations are arguments.
\<close>

subsection \<open>Constants\<close>

abbreviation (input) IEEE80211_ADDBA_PARAM_AMSDU_MASK :: u16 where "IEEE80211_ADDBA_PARAM_AMSDU_MASK \<equiv> 0x0001"
abbreviation (input) IEEE80211_ADDBA_PARAM_POLICY_MASK :: u16 where "IEEE80211_ADDBA_PARAM_POLICY_MASK \<equiv> 0x0002"
abbreviation (input) IEEE80211_ADDBA_PARAM_TID_MASK :: u16 where "IEEE80211_ADDBA_PARAM_TID_MASK \<equiv> 0x003c"
abbreviation (input) IEEE80211_ADDBA_PARAM_BUF_SIZE_MASK :: u16 where "IEEE80211_ADDBA_PARAM_BUF_SIZE_MASK \<equiv> 0xffc0"
abbreviation (input) IEEE80211_DELBA_PARAM_TID_MASK :: u16 where "IEEE80211_DELBA_PARAM_TID_MASK \<equiv> 0xf000"
abbreviation (input) IEEE80211_DELBA_PARAM_INITIATOR_MASK :: u16 where "IEEE80211_DELBA_PARAM_INITIATOR_MASK \<equiv> 0x0800"
abbreviation (input) IEEE80211_ADDBA_EXT_NO_FRAG :: u8 where "IEEE80211_ADDBA_EXT_NO_FRAG \<equiv> 0x01"
abbreviation (input) IEEE80211_ADDBA_EXT_BUF_SIZE_MASK :: u8 where "IEEE80211_ADDBA_EXT_BUF_SIZE_MASK \<equiv> 0xe0"
abbreviation (input) IEEE80211_ADDBA_EXT_BUF_SIZE_SHIFT :: nat where "IEEE80211_ADDBA_EXT_BUF_SIZE_SHIFT \<equiv> 10"
abbreviation (input) IEEE80211_MAX_AMPDU_BUF_HT :: u16 where "IEEE80211_MAX_AMPDU_BUF_HT \<equiv> 0x40"
abbreviation (input) IEEE80211_MAX_AMPDU_BUF_HE :: u16 where "IEEE80211_MAX_AMPDU_BUF_HE \<equiv> 0x100"
abbreviation (input) IEEE80211_MAX_AMPDU_BUF_EHT :: u16 where "IEEE80211_MAX_AMPDU_BUF_EHT \<equiv> 0x400"
abbreviation (input) IEEE80211_FIRST_TSPEC_TSID :: u16 where "IEEE80211_FIRST_TSPEC_TSID \<equiv> 8"
abbreviation (input) IEEE80211_NUM_TIDS :: nat where "IEEE80211_NUM_TIDS \<equiv> 16"
abbreviation (input) WLAN_EID_ADDBA_EXT :: u8 where "WLAN_EID_ADDBA_EXT \<equiv> 159"
abbreviation (input) WLAN_CATEGORY_BACK :: u8 where "WLAN_CATEGORY_BACK \<equiv> 3"
abbreviation (input) WLAN_ACTION_ADDBA_REQ :: u8 where "WLAN_ACTION_ADDBA_REQ \<equiv> 0"
abbreviation (input) WLAN_ACTION_ADDBA_RESP :: u8 where "WLAN_ACTION_ADDBA_RESP \<equiv> 1"
abbreviation (input) WLAN_ACTION_DELBA :: u8 where "WLAN_ACTION_DELBA \<equiv> 2"
abbreviation (input) WLAN_BACK_RECIPIENT :: u16 where "WLAN_BACK_RECIPIENT \<equiv> 0"
abbreviation (input) WLAN_BACK_INITIATOR :: u16 where "WLAN_BACK_INITIATOR \<equiv> 1"
abbreviation (input) WLAN_STATUS_SUCCESS :: u16 where "WLAN_STATUS_SUCCESS \<equiv> 0"
abbreviation (input) WLAN_STATUS_UNSPECIFIED_QOS :: u16 where "WLAN_STATUS_UNSPECIFIED_QOS \<equiv> 32"
abbreviation (input) WLAN_STATUS_REQUEST_DECLINED :: u16 where "WLAN_STATUS_REQUEST_DECLINED \<equiv> 37"
abbreviation (input) WLAN_STATUS_INVALID_QOS_PARAM :: u16 where "WLAN_STATUS_INVALID_QOS_PARAM \<equiv> 38"
abbreviation (input) WLAN_REASON_UNSPECIFIED :: u16 where "WLAN_REASON_UNSPECIFIED \<equiv> 1"
abbreviation (input) WLAN_REASON_QSTA_LEAVE_QBSS :: u16 where "WLAN_REASON_QSTA_LEAVE_QBSS \<equiv> 36"
abbreviation (input) WLAN_REASON_QSTA_NOT_USE :: u16 where "WLAN_REASON_QSTA_NOT_USE \<equiv> 37"
abbreviation (input) WLAN_REASON_QSTA_TIMEOUT :: u16 where "WLAN_REASON_QSTA_TIMEOUT \<equiv> 39"
abbreviation (input) IEEE80211_HT_CAP_DELAY_BA :: u16 where "IEEE80211_HT_CAP_DELAY_BA \<equiv> 0x0400"
abbreviation (input) S1G_CAP3_HT_DELAYED_BA :: u8 where "S1G_CAP3_HT_DELAYED_BA \<equiv> 0x02"

subsection \<open>Driver and peer\<close>

datatype ieee80211_ampdu_mlme_action =
  AMPDU_RX_START | AMPDU_RX_STOP | AMPDU_TX_START | AMPDU_TX_STOP_CONT | AMPDU_TX_STOP_FLUSH |
  AMPDU_TX_STOP_FLUSH_CONT | AMPDU_TX_OPERATIONAL

record ieee80211_ampdu_params =
  par_action :: ieee80211_ampdu_mlme_action
  par_tid :: u16
  par_ssn :: u16
  par_buf_size :: u16
  par_amsdu :: bool
  par_timeout :: u16

text \<open>
  The driver's \<^verbatim>\<open>ampdu_action\<close>: its return value, and the sequence number it leaves in the
  parameters when it starts a transmit session.
\<close>

type_synonym ampdu_driver = "ieee80211_ampdu_params \<Rightarrow> int \<times> u16"

record agg_hw =
  SUPPORTS_REORDERING_BUFFER :: bool
  SUPPORTS_AMSDU_IN_AMPDU :: bool
  AMPDU_AGGREGATION :: bool
  TX_AMPDU_SETUP_IN_HW :: bool
  hw_STRICT :: bool
  has_ampdu_action :: bool
  max_tx_aggregation_subframes :: u16

text \<open>
  The peer: its capabilities and flags.  \<open>parse_addba_ext\<close> is what \<^verbatim>\<open>ieee802_11_parse_elems\<close> of
  \<^verbatim>\<open>parse.c\<close> finds: the data octet of the ADDBA extension element, if the elements parse.
  \<^verbatim>\<open>Agg_Parse\<close> puts the model of that parser in its place.
\<close>

record agg_peer =
  valid_links :: u16
  ht_supported :: bool
  ht_cap :: u16
  vht_supported :: bool
  has_he :: bool
  has_eht :: bool
  s1g :: bool
  s1g_cap3 :: u8
  max_rx_aggregation_subframes :: u16
  WLAN_STA_BLOCK_BA :: bool
  WLAN_STA_MFP :: bool
  WLAN_STA_AUTHORIZED :: bool
  peer_vif_type :: iftype
  peer_reserved_tid :: u8
  vif_hw_queue :: "nat list"
  parse_addba_ext :: "u8 list \<Rightarrow> u8 option"

datatype ba_event =
    Drv_ampdu_action ieee80211_ampdu_params
  | Tx_action "u8 list"
  | Queue_work
  | Free_skbs "sk_buff list"
  | Stop_queue nat
  | Wake_queue nat
  | Wake_txq u8
  | Clear_sta_sp

datatype ba_alloc = Alloc_session | Alloc_reorder_buf | Alloc_frame

subsection \<open>Action frames\<close>

text \<open>The frames from their category octet on; the header in front is that of every action frame.\<close>

definition ieee80211_send_delba :: "(ba_alloc \<Rightarrow> bool) \<Rightarrow> u16 \<Rightarrow> u16 \<Rightarrow> u16 \<Rightarrow> ba_event list" where
  "ieee80211_send_delba oom t initiator reason_code =
     (if oom Alloc_frame then []
      else [Tx_action ([WLAN_CATEGORY_BACK, WLAN_ACTION_DELBA] @
              le16_bytes (push_bit 11 initiator OR push_bit 12 t) @ le16_bytes reason_code)])"

definition ieee80211_add_addbaext :: "u8 \<Rightarrow> u16 \<Rightarrow> u8 list" where
  "ieee80211_add_addbaext req_addba_ext_data bsize =
     (let data = (if req_addba_ext_data \<noteq> 0 then IEEE80211_ADDBA_EXT_NO_FRAG AND req_addba_ext_data
                  else IEEE80211_ADDBA_EXT_NO_FRAG)
      in [WLAN_EID_ADDBA_EXT, 1,
          data OR encode_bits (ucast (drop_bit IEEE80211_ADDBA_EXT_BUF_SIZE_SHIFT bsize))
                    IEEE80211_ADDBA_EXT_BUF_SIZE_MASK])"

text \<open>The result is the data octet and the buffer size with its upper bits.\<close>

definition ieee80211_retrieve_addba_ext_data :: "agg_peer \<Rightarrow> u8 list \<Rightarrow> u16 \<Rightarrow> u8 \<times> u16" where
  "ieee80211_retrieve_addba_ext_data sta elem_data bsize =
     (if \<not> has_he sta then (0, bsize)
      else if elem_data = [] then (0, bsize)
      else (case parse_addba_ext sta elem_data of
          None \<Rightarrow> (0, bsize)
        | Some data \<Rightarrow>
            (data,
             if valid_links sta \<noteq> 0 \<or> has_eht sta
             then bsize OR push_bit IEEE80211_ADDBA_EXT_BUF_SIZE_SHIFT
                    (ucast (get_bits data IEEE80211_ADDBA_EXT_BUF_SIZE_MASK))
             else bsize)))"

definition ieee80211_send_addba_resp ::
    "agg_hw \<Rightarrow> agg_peer \<Rightarrow> (ba_alloc \<Rightarrow> bool) \<Rightarrow> u16 \<Rightarrow> u8 \<Rightarrow> u16 \<Rightarrow> u16 \<Rightarrow> u16 \<Rightarrow> u16 \<Rightarrow> u8 \<Rightarrow> ba_event list" where
  "ieee80211_send_addba_resp hw sta oom t dialog_token status policy bsize tmo req_addba_ext_data =
     (if oom Alloc_frame then []
      else
        (let capab = encode_bits (if SUPPORTS_AMSDU_IN_AMPDU hw then 1 else 0) IEEE80211_ADDBA_PARAM_AMSDU_MASK
                  OR encode_bits policy IEEE80211_ADDBA_PARAM_POLICY_MASK
                  OR encode_bits t IEEE80211_ADDBA_PARAM_TID_MASK
                  OR encode_bits bsize IEEE80211_ADDBA_PARAM_BUF_SIZE_MASK
         in [Tx_action ([WLAN_CATEGORY_BACK, WLAN_ACTION_ADDBA_RESP, dialog_token] @ le16_bytes status @
               le16_bytes capab @ le16_bytes tmo @
               (if valid_links sta \<noteq> 0 \<or> has_he sta
                then ieee80211_add_addbaext req_addba_ext_data bsize else []))]))"

definition ieee80211_send_addba_request ::
    "agg_peer \<Rightarrow> (ba_alloc \<Rightarrow> bool) \<Rightarrow> u16 \<Rightarrow> u8 \<Rightarrow> u16 \<Rightarrow> u16 \<Rightarrow> u16 \<Rightarrow> ba_event list" where
  "ieee80211_send_addba_request sta oom t dialog_token start_seq_num agg_size tmo =
     (if oom Alloc_frame then []
      else
        (let capab = IEEE80211_ADDBA_PARAM_AMSDU_MASK OR IEEE80211_ADDBA_PARAM_POLICY_MASK
                  OR encode_bits t IEEE80211_ADDBA_PARAM_TID_MASK
                  OR encode_bits agg_size IEEE80211_ADDBA_PARAM_BUF_SIZE_MASK
         in [Tx_action ([WLAN_CATEGORY_BACK, WLAN_ACTION_ADDBA_REQ, dialog_token] @ le16_bytes capab @
               le16_bytes tmo @ le16_bytes (push_bit 4 start_seq_num) @
               (if has_he sta then ieee80211_add_addbaext 0 agg_size else []))]))"


subsection \<open>Fields read back\<close>

lemma field_multiplier_simps [simp]:
  "field_multiplier IEEE80211_ADDBA_PARAM_AMSDU_MASK = 1" "field_multiplier IEEE80211_ADDBA_PARAM_POLICY_MASK = 2"
  "field_multiplier IEEE80211_ADDBA_PARAM_TID_MASK = 4" "field_multiplier IEEE80211_ADDBA_PARAM_BUF_SIZE_MASK = 64"
  "field_multiplier IEEE80211_ADDBA_EXT_BUF_SIZE_MASK = 32"
  by (simp_all add: field_multiplier_def)

lemma encode_bits_simps:
  "encode_bits (x :: u16) IEEE80211_ADDBA_PARAM_AMSDU_MASK = x AND 1"
  "encode_bits (x :: u16) IEEE80211_ADDBA_PARAM_POLICY_MASK = push_bit 1 (x AND mask 1)"
  "encode_bits (x :: u16) IEEE80211_ADDBA_PARAM_TID_MASK = push_bit 2 (x AND mask 4)"
  "encode_bits (x :: u16) IEEE80211_ADDBA_PARAM_BUF_SIZE_MASK = push_bit 6 (x AND mask 10)"
  "encode_bits (y :: u8) IEEE80211_ADDBA_EXT_BUF_SIZE_MASK = push_bit 5 (y AND mask 3)"
  by (simp_all add: encode_bits_def push_bit_eq_mult mask_eq_exp_minus_1)

lemma get_bits_simps:
  "get_bits (x :: u16) IEEE80211_ADDBA_PARAM_TID_MASK = drop_bit 2 x AND mask 4"
  "get_bits (x :: u16) IEEE80211_ADDBA_PARAM_BUF_SIZE_MASK = drop_bit 6 x AND mask 10"
  "get_bits (y :: u8) IEEE80211_ADDBA_EXT_BUF_SIZE_MASK = drop_bit 5 y AND mask 3"
proof -
  have m: "IEEE80211_ADDBA_PARAM_TID_MASK = push_bit 2 (mask 4)" "IEEE80211_ADDBA_PARAM_BUF_SIZE_MASK = push_bit 6 (mask 10)"
    "IEEE80211_ADDBA_EXT_BUF_SIZE_MASK = push_bit 5 (mask 3)"
    by (simp_all add: push_bit_eq_mult mask_eq_exp_minus_1)
  have d: "a div 4 = drop_bit 2 a" "a div 64 = drop_bit 6 a" "b div 32 = drop_bit 5 b" for a :: u16 and b :: u8
    by (simp_all add: drop_bit_eq_div)
  note fld = bit_or_iff bit_and_iff bit_push_bit_iff bit_drop_bit_eq bit_mask_iff
  show "get_bits (x :: u16) IEEE80211_ADDBA_PARAM_TID_MASK = drop_bit 2 x AND mask 4"
    "get_bits (x :: u16) IEEE80211_ADDBA_PARAM_BUF_SIZE_MASK = drop_bit 6 x AND mask 10"
    "get_bits (y :: u8) IEEE80211_ADDBA_EXT_BUF_SIZE_MASK = drop_bit 5 y AND mask 3"
    unfolding get_bits_def field_multiplier_simps d
    unfolding m by (rule bit_word_eqI; auto simp: fld)+
qed

text \<open>The parameter field of a request or response: its parts do not overlap.\<close>

definition addba_capab :: "u16 \<Rightarrow> u16 \<Rightarrow> u16 \<Rightarrow> u16 \<Rightarrow> u16" where
  "addba_capab amsdu policy t bsize =
     (amsdu AND 1) OR push_bit 1 (policy AND mask 1) OR push_bit 2 (t AND mask 4) OR push_bit 6 (bsize AND mask 10)"

lemma addba_capab_fields:
  "drop_bit 1 (addba_capab a p t z AND IEEE80211_ADDBA_PARAM_POLICY_MASK) = p AND mask 1"
  "drop_bit 2 (addba_capab a p t z AND IEEE80211_ADDBA_PARAM_TID_MASK) = t AND mask 4"
  "drop_bit 6 (addba_capab a p t z AND IEEE80211_ADDBA_PARAM_BUF_SIZE_MASK) = z AND mask 10"
  "drop_bit 2 (addba_capab a p t z) AND mask 4 = t AND mask 4"
  "drop_bit 6 (addba_capab a p t z) AND mask 10 = z AND mask 10"
  "addba_capab a p t z AND IEEE80211_ADDBA_PARAM_AMSDU_MASK = a AND 1"
proof -
  have m: "IEEE80211_ADDBA_PARAM_POLICY_MASK = push_bit 1 (mask 1)" "IEEE80211_ADDBA_PARAM_TID_MASK = push_bit 2 (mask 4)"
    "IEEE80211_ADDBA_PARAM_BUF_SIZE_MASK = push_bit 6 (mask 10)" "(1 :: u16) = mask 1"
    by (simp_all add: push_bit_eq_mult mask_eq_exp_minus_1)
  have b: "bit (addba_capab a p t z) n \<longleftrightarrow> n < 16 \<and>
    (if n < 1 then bit a n else if n < 2 then bit p (n - 1) else if n < 6 then bit t (n - 2) else bit z (n - 6))" for n
    unfolding addba_capab_def m(4)
    by (simp only: bit_or_iff bit_and_iff bit_push_bit_iff bit_mask_iff) (auto dest: bit_imp_le_length)
  note fld = bit_or_iff bit_and_iff bit_push_bit_iff bit_drop_bit_eq bit_mask_iff b
  show "drop_bit 2 (addba_capab a p t z) AND mask 4 = t AND mask 4"
    by (rule bit_word_eqI) (simp only: fld o_apply, auto dest: bit_imp_le_length)
  show "drop_bit 6 (addba_capab a p t z) AND mask 10 = z AND mask 10"
    by (rule bit_word_eqI) (simp only: fld o_apply, auto dest: bit_imp_le_length)
  show "drop_bit 1 (addba_capab a p t z AND IEEE80211_ADDBA_PARAM_POLICY_MASK) = p AND mask 1"
    unfolding m by (rule bit_word_eqI) (simp only: fld o_apply, auto dest: bit_imp_le_length)
  show "drop_bit 2 (addba_capab a p t z AND IEEE80211_ADDBA_PARAM_TID_MASK) = t AND mask 4"
    unfolding m by (rule bit_word_eqI) (simp only: fld o_apply, auto dest: bit_imp_le_length)
  show "drop_bit 6 (addba_capab a p t z AND IEEE80211_ADDBA_PARAM_BUF_SIZE_MASK) = z AND mask 10"
    unfolding m by (rule bit_word_eqI) (simp only: fld o_apply, auto dest: bit_imp_le_length)
  show "addba_capab a p t z AND IEEE80211_ADDBA_PARAM_AMSDU_MASK = a AND 1"
    unfolding m by (rule bit_word_eqI) (simp only: fld o_apply, auto dest: bit_imp_le_length)
qed

end
