(* ===== verification/Reorder_Window.thy ===== *)
theory Reorder_Window
  imports Reorder "HOL-Library.Multiset"
begin

text \<open>
  What the reorder buffer promises: frames leave it in the order of their sequence numbers,
  each at most once, none is lost, and none stays in it for ever.  The invariant \<open>window_ok\<close>
  describes the ring from its head: queue \<open>k\<close> places after the head's holds nothing or the
  frame of the \<open>k\<close>-th sequence number after the head.  It holds when the buffer size divides
  the 4096 sequence numbers and no A-MSDU is split over several buffers; the last section shows
  what happens when one of these does not hold.
\<close>

subsection \<open>Sequence number arithmetic\<close>

abbreviation sn_of :: "sk_buff \<Rightarrow> u16" where
  "sn_of skb \<equiv> ieee80211_get_sn (skb_data skb)"

text \<open>\<open>sn_plus h k\<close>: the \<open>k\<close>-th sequence number after \<open>h\<close>, for any natural number \<open>k\<close>.\<close>

definition sn_plus :: "u16 \<Rightarrow> nat \<Rightarrow> u16" where
  "sn_plus h k = of_nat ((unat h + k) mod 4096)"

lemma unat_sn_plus: "unat (sn_plus h k) = (unat h + k) mod 4096"
proof -
  have "(unat h + k) mod 4096 < 2 ^ 16" by (rule less_trans [of _ 4096]) simp_all
  then show ?thesis by (simp add: sn_plus_def unat_of_nat take_bit_nat_eq_self)
qed

lemma sn_plus_lt: "unat (sn_plus h k) < 4096"
  by (simp add: unat_sn_plus)

lemma sn_plus_plus: "sn_plus (sn_plus h a) b = sn_plus h (a + b)"
  unfolding word_unat_eq_iff unat_sn_plus by (simp add: mod_simps add.assoc)

lemma sn_plus_0: "unat h < 4096 \<Longrightarrow> sn_plus h 0 = h"
  by (simp add: word_unat_eq_iff unat_sn_plus)

lemma sn_inc_plus: "ieee80211_sn_inc h = sn_plus h 1"
  unfolding word_unat_eq_iff unat_sn_plus unat_sn_inc ..

lemma sn_mask_plus: "(h + of_nat k) AND IEEE80211_SN_MASK = sn_plus h k"
proof -
  have "unat (of_nat k :: u16) = k mod 2 ^ 16" by (simp add: unat_of_nat take_bit_eq_mod)
  moreover have "(unat h + k mod 2 ^ 16) mod 4096 = (unat h + k) mod 4096"
  proof -
    have "k mod 2 ^ 16 mod 4096 = k mod 4096" by (rule mod_mod_cancel) simp
    then show ?thesis by (metis mod_add_right_eq)
  qed
  ultimately show ?thesis
    unfolding word_unat_eq_iff unat_sn_plus unat_sn_sum by simp
qed

lemma uint_sn_plus: "uint (sn_plus h k) = (uint h + int k) mod 4096"
  using arg_cong [OF unat_sn_plus [of h k], of int] by (simp add: zmod_int)

lemma sn_dist_plus:
  assumes "k < 4096"
  shows "sn_dist h (sn_plus h k) = k"
proof -
  have "int (sn_dist h (sn_plus h k)) = ((uint h + int k) mod 4096 - uint h) mod 4096"
    by (simp only: int_sn_dist uint_sn_plus)
  also have "\<dots> = int k mod 4096" by (simp add: mod_diff_left_eq)
  finally show ?thesis using assms by simp
qed

lemma sn_plus_dist:
  assumes "unat b < 4096"
  shows "sn_plus a (sn_dist a b) = b"
proof -
  have "uint (sn_plus a (sn_dist a b)) = (uint a + (uint b - uint a) mod 4096) mod 4096"
    by (simp only: uint_sn_plus int_sn_dist)
  also have "\<dots> = uint b mod 4096" by (simp add: mod_add_right_eq)
  also have "\<dots> = uint b" using assms by (simp add: uint_lt_unat mod_pos_pos_trivial)
  finally show ?thesis by (simp add: word_uint_eq_iff)
qed

subsection \<open>Frames in order\<close>

text \<open>
  \<open>in_order h d fs\<close>: the frames \<open>fs\<close> are numbered by some of the \<open>d\<close> numbers from \<open>h\<close> on,
  in increasing order and without repetition.  The distances are natural numbers without a
  bound, so the statement keeps its meaning when the twelve bit numbers wrap any number of
  times.
\<close>

definition in_order :: "u16 \<Rightarrow> nat \<Rightarrow> sk_buff list \<Rightarrow> bool" where
  "in_order h d fs \<longleftrightarrow>
     (\<exists>ks. sorted_wrt (<) ks \<and> (\<forall>k\<in>set ks. k < d) \<and> map sn_of fs = map (sn_plus h) ks)"

lemma in_order_Nil [simp]: "in_order h d []"
  unfolding in_order_def by (rule exI [of _ "[]"]) simp

lemma in_order_mono: "in_order h d fs \<Longrightarrow> d \<le> e \<Longrightarrow> in_order h e fs"
  unfolding in_order_def by (meson order_less_le_trans)

lemma in_order_single:
  assumes "sn_of f = sn_plus h k" "k < d"
  shows "in_order h d [f]"
  unfolding in_order_def using assms by (intro exI [of _ "[k]"]) simp

lemma in_order_append:
  assumes "in_order h a xs" "in_order (sn_plus h a) b ys"
  shows "in_order h (a + b) (xs @ ys)"
proof -
  obtain ks where ks: "sorted_wrt (<) ks" "\<forall>k\<in>set ks. k < a" "map sn_of xs = map (sn_plus h) ks"
    using assms(1) by (auto simp: in_order_def)
  obtain ls where ls: "sorted_wrt (<) ls" "\<forall>l\<in>set ls. l < b" "map sn_of ys = map (sn_plus (sn_plus h a)) ls"
    using assms(2) by (auto simp: in_order_def)
  have "map sn_of (xs @ ys) = map (sn_plus h) (ks @ map ((+) a) ls)"
    using ks(3) ls(3) by (simp add: sn_plus_plus o_def)
  moreover have "sorted_wrt (<) (ks @ map ((+) a) ls)"
    using ks(1,2) ls(1) by (auto simp: sorted_wrt_append sorted_wrt_map intro: trans_less_add1)
  moreover have "\<forall>k\<in>set (ks @ map ((+) a) ls). k < a + b" using ks(2) ls(2) by (auto intro: trans_less_add1)
  ultimately show ?thesis unfolding in_order_def by blast
qed

text \<open>Less than 4096 numbers from \<open>h\<close>, a frame's place is the distance of its number.\<close>

lemma in_order_dists:
  assumes "in_order h d fs" "d \<le> 4096"
  shows "sorted_wrt (<) (map (\<lambda>f. sn_dist h (sn_of f)) fs)" "\<forall>f\<in>set fs. sn_dist h (sn_of f) < d"
proof -
  obtain ks where ks: "sorted_wrt (<) ks" "\<forall>k\<in>set ks. k < d" "map sn_of fs = map (sn_plus h) ks"
    using assms(1) by (auto simp: in_order_def)
  have "map (\<lambda>f. sn_dist h (sn_of f)) fs = map (sn_dist h) (map sn_of fs)" by simp
  also have "\<dots> = map (\<lambda>k. sn_dist h (sn_plus h k)) ks" unfolding ks(3) by simp
  also have "\<dots> = ks" using ks(2) assms(2) by (intro map_idI sn_dist_plus) auto
  finally have eq: "map (\<lambda>f. sn_dist h (sn_of f)) fs = ks" .
  then show "sorted_wrt (<) (map (\<lambda>f. sn_dist h (sn_of f)) fs)" using ks(1) by simp
  show "\<forall>f\<in>set fs. sn_dist h (sn_of f) < d" using ks(2) unfolding eq [symmetric] by simp
qed

text \<open>
  \<open>advances d r r'\<close>: between \<open>r\<close> and \<open>r'\<close> the head moved by \<open>d\<close> numbers, the frames appended
  to the output are numbered in order by some of these, and the frames put out and those still
  stored are together the frames that were stored.  Frames are compared by their octets, as a
  release sets a status flag.
\<close>

definition stored_data :: "tid_ampdu_rx \<Rightarrow> u8 list multiset" where
  "stored_data rx = image_mset skb_data (mset (concat (reorder_buf rx)))"

definition advances :: "nat \<Rightarrow> release \<Rightarrow> release \<Rightarrow> bool" where
  "advances d r r' \<longleftrightarrow>
     (\<exists>fs. snd r' = snd r @ fs \<and> in_order (head_seq_num (fst r)) d fs \<and>
           image_mset skb_data (mset fs) + stored_data (fst r') = stored_data (fst r)) \<and>
     head_seq_num (fst r') = sn_plus (head_seq_num (fst r)) d \<and>
     buf_size (fst r') = buf_size (fst r) \<and> reorder_time (fst r') = reorder_time (fst r) \<and>
     auto_seq (fst r') = auto_seq (fst r) \<and> started (fst r') = started (fst r) \<and>
     removed (fst r') = removed (fst r)"

lemma advances_refl: "unat (head_seq_num (fst r)) < 4096 \<Longrightarrow> advances 0 r r"
  by (simp add: advances_def sn_plus_0)

lemma advances_trans:
  assumes "advances a r s" "advances b s t"
  shows "advances (a + b) r t"
proof -
  obtain fs where fs: "snd s = snd r @ fs" "in_order (head_seq_num (fst r)) a fs"
    "image_mset skb_data (mset fs) + stored_data (fst s) = stored_data (fst r)"
    using assms(1) by (auto simp: advances_def)
  obtain gs where gs: "snd t = snd s @ gs" "in_order (head_seq_num (fst s)) b gs"
    "image_mset skb_data (mset gs) + stored_data (fst t) = stored_data (fst s)"
    using assms(2) by (auto simp: advances_def)
  have h: "head_seq_num (fst s) = sn_plus (head_seq_num (fst r)) a"
    using assms(1) by (simp add: advances_def)
  have "snd t = snd r @ (fs @ gs)" using fs(1) gs(1) by simp
  moreover have "in_order (head_seq_num (fst r)) (a + b) (fs @ gs)"
    using fs(2) gs(2) h by (intro in_order_append) simp_all
  moreover have "image_mset skb_data (mset (fs @ gs)) + stored_data (fst t) = stored_data (fst r)"
    unfolding fs(3) [symmetric] gs(3) [symmetric] by (simp add: ac_simps)
  ultimately have "\<exists>us. snd t = snd r @ us \<and> in_order (head_seq_num (fst r)) (a + b) us \<and>
      image_mset skb_data (mset us) + stored_data (fst t) = stored_data (fst r)" by blast
  then show ?thesis using assms h by (simp add: advances_def sn_plus_plus)
qed

subsection \<open>The ring seen from its head\<close>

definition ring_at :: "tid_ampdu_rx \<Rightarrow> nat \<Rightarrow> sk_buff list" where
  "ring_at rx k = reorder_buf rx ! ((unat (head_seq_num rx) + k) mod bufsz rx)"

text \<open>The shape of the session: sizes that agree, a window that divides the number space, no filter.\<close>

definition ring_ok :: "tid_ampdu_rx \<Rightarrow> bool" where
  "ring_ok rx \<longleftrightarrow> 2 \<le> bufsz rx \<and> bufsz rx \<le> 1024 \<and> bufsz rx dvd 4096 \<and>
     length (reorder_buf rx) = bufsz rx \<and> length (reorder_time rx) = bufsz rx \<and>
     unat (head_seq_num rx) < 4096 \<and> reorder_buf_filtered rx = 0"

definition holds_at :: "tid_ampdu_rx \<Rightarrow> nat \<Rightarrow> bool" where
  "holds_at rx k \<longleftrightarrow> ring_at rx k = [] \<or>
     (\<exists>f. ring_at rx k = [f] \<and> sn_of f = sn_plus (head_seq_num rx) k \<and> \<not> amsdu_more f)"

definition window_ok :: "tid_ampdu_rx \<Rightarrow> bool" where
  "window_ok rx \<longleftrightarrow> ring_ok rx \<and> (\<forall>k<bufsz rx. holds_at rx k) \<and>
     unat (stored_mpdu_num rx) = length (concat (reorder_buf rx))"

lemma ring_okD:
  assumes "ring_ok rx"
  shows "2 \<le> bufsz rx" "0 < bufsz rx" "bufsz rx \<le> 1024" "bufsz rx dvd 4096"
    "length (reorder_buf rx) = bufsz rx" "length (reorder_time rx) = bufsz rx"
    "unat (head_seq_num rx) < 4096" "reorder_buf_filtered rx = 0"
  using assms by (auto simp: ring_ok_def)

lemma window_okD:
  assumes "window_ok rx"
  shows "ring_ok rx" "\<And>k. k < bufsz rx \<Longrightarrow> holds_at rx k"
    "unat (stored_mpdu_num rx) = length (concat (reorder_buf rx))"
  using assms by (auto simp: window_ok_def)

lemma slot_plus:
  assumes "ring_ok rx"
  shows "slot rx (sn_plus (head_seq_num rx) k) = (unat (head_seq_num rx) + k) mod bufsz rx"
  using ring_okD(4) [OF assms] by (simp add: slot_def unat_sn_plus mod_mod_cancel)

lemma ring_at_slot: "ring_at rx 0 = reorder_buf rx ! slot rx (head_seq_num rx)"
  by (simp add: ring_at_def slot_def)

lemma slot_head: "slot rx (head_seq_num rx) = unat (head_seq_num rx) mod bufsz rx"
  by (simp add: slot_def)

text \<open>Every queue of the ring is at some place from the head.\<close>

lemma ring_cover:
  assumes "0 < n" "i < n"
  obtains k where "k < n" "(h + k) mod n = (i :: nat)"
proof
  show "(n - h mod n + i) mod n < n" using assms by simp
  have "(h + (n - h mod n + i)) mod n = (h mod n + (n - h mod n) + i) mod n"
    by (metis add.assoc mod_add_left_eq)
  also have "\<dots> = i" using assms by (simp add: less_imp_le mod_less_divisor)
  finally show "(h + (n - h mod n + i) mod n) mod n = i" by (simp add: mod_add_right_eq)
qed

lemma nat_mod_cancel:
  assumes "(a + c) mod n = (b + c) mod (n :: nat)"
  shows "a mod n = b mod n"
proof -
  have "(int a + int c) mod int n = (int b + int c) mod int n"
    using assms by (metis of_nat_add zmod_int)
  then have "int a mod int n = int b mod int n"
    by (metis add_diff_cancel_right' mod_diff_left_eq)
  then show ?thesis by (simp only: of_nat_eq_iff flip: zmod_int)
qed

lemma ring_inj:
  assumes "k < n" "l < n" "(h + k) mod n = (h + l) mod (n :: nat)"
  shows "k = l"
  using nat_mod_cancel [of k h n l] assms by (simp add: add.commute)

lemma reorder_ready_iff:
  assumes "window_ok rx" "k < bufsz rx"
  shows "ieee80211_rx_reorder_ready rx ((unat (head_seq_num rx) + k) mod bufsz rx) \<longleftrightarrow> ring_at rx k \<noteq> []"
proof -
  have "reorder_buf_filtered rx = 0" "holds_at rx k"
    using assms window_okD ring_okD by blast+
  then show ?thesis by (auto simp: ieee80211_rx_reorder_ready_def holds_at_def ring_at_def)
qed

lemma reorder_ready_head:
  assumes "window_ok rx"
  shows "ieee80211_rx_reorder_ready rx (slot rx (head_seq_num rx)) \<longleftrightarrow> ring_at rx 0 \<noteq> []"
  using reorder_ready_iff [OF assms, of 0] ring_okD(2) [OF window_okD(1) [OF assms]]
  by (simp add: slot_head)

subsection \<open>Releasing one queue\<close>

text \<open>
  Moving the head over \<open>d\<close> empty queues keeps the window: what was at place \<open>d + k\<close> is at
  place \<open>k\<close>, and the queues passed are the far end of the new window.
\<close>

lemma ring_at_shift:
  assumes "ring_ok rx"
  shows "ring_at (rx\<lparr> head_seq_num := sn_plus (head_seq_num rx) d \<rparr>) k = ring_at rx ((d + k) mod bufsz rx)"
proof -
  have "((unat (head_seq_num rx) + d) mod 4096 + k) mod bufsz rx = (unat (head_seq_num rx) + d + k) mod bufsz rx"
    using ring_okD(4) [OF assms] by (metis mod_add_left_eq mod_mod_cancel)
  also have "\<dots> = (unat (head_seq_num rx) + (d + k) mod bufsz rx) mod bufsz rx"
    by (simp add: mod_add_right_eq add.assoc)
  finally show ?thesis by (simp add: ring_at_def unat_sn_plus)
qed

lemma window_shift:
  assumes "window_ok rx" "d \<le> bufsz rx" "\<And>k. k < d \<Longrightarrow> ring_at rx k = []"
  shows "window_ok (rx\<lparr> head_seq_num := sn_plus (head_seq_num rx) d \<rparr>)"
proof -
  let ?r = "rx\<lparr> head_seq_num := sn_plus (head_seq_num rx) d \<rparr>"
  note ring = window_okD(1) [OF assms(1)]
  have "holds_at ?r k" if k: "k < bufsz rx" for k
  proof (cases "d + k < bufsz rx")
    case True
    then have "ring_at ?r k = ring_at rx (d + k)" by (simp add: ring_at_shift [OF ring])
    moreover have "holds_at rx (d + k)" by (rule window_okD(2) [OF assms(1) True])
    ultimately show ?thesis by (simp add: holds_at_def sn_plus_plus)
  next
    case False
    then have "d + k = (d + k - bufsz rx) + bufsz rx" by simp
    then have "(d + k) mod bufsz rx = (d + k - bufsz rx) mod bufsz rx" by (metis mod_add_self2)
    moreover have "d + k - bufsz rx < bufsz rx" "d + k - bufsz rx < d" using k assms(2) False by linarith+
    ultimately have "ring_at ?r k = []" by (simp add: ring_at_shift [OF ring] assms(3))
    then show ?thesis by (simp add: holds_at_def)
  qed
  then show ?thesis
    using assms(1) ring by (simp add: window_ok_def ring_ok_def sn_plus_lt)
qed

lemma concat_update:
  assumes "i < length b"
  shows "mset (concat (b[i := ys])) + mset (b ! i) = mset (concat b) + mset ys"
  using assms
  by (simp add: upd_conv_take_nth_drop) (metis append_take_drop_id Cons_nth_drop_Suc concat.simps(2)
      concat_append mset_append union_assoc union_commute)

lemma concat_clear_length:
  "i < length b \<Longrightarrow> length (concat (b[i := ys])) + length (b ! i) = length (concat b) + length ys"
  using arg_cong [OF concat_update [of i b ys], of size] by simp

text \<open>Emptying and filling the queue at place \<open>k\<close> of a window.\<close>

lemma ring_at_set:
  assumes "ring_ok rx" "k < bufsz rx" "l < bufsz rx"
  shows "ring_at (rx\<lparr> reorder_buf := (reorder_buf rx)[(unat (head_seq_num rx) + k) mod bufsz rx := q] \<rparr>) l =
    (if l = k then q else ring_at rx l)"
proof -
  have "(unat (head_seq_num rx) + k) mod bufsz rx < length (reorder_buf rx)"
    using ring_okD(2,5) [OF assms(1)] by simp
  then show ?thesis
    using ring_inj [OF assms(2,3)] by (auto simp: ring_at_def nth_list_update)
qed

lemma window_set:
  assumes w: "window_ok rx" and k: "k < bufsz rx"
    and q: "q = [] \<or> (\<exists>f. q = [f] \<and> sn_of f = sn_plus (head_seq_num rx) k \<and> \<not> amsdu_more f)"
    and n: "unat n + length (ring_at rx k) = unat (stored_mpdu_num rx) + length q"
  shows "window_ok (rx\<lparr> reorder_buf := (reorder_buf rx)[(unat (head_seq_num rx) + k) mod bufsz rx := q],
                        stored_mpdu_num := n \<rparr>)"
proof -
  let ?i = "(unat (head_seq_num rx) + k) mod bufsz rx"
  note ring = window_okD(1) [OF w]
  have i: "?i < length (reorder_buf rx)" using ring_okD(2,5) [OF ring] by simp
  have "holds_at (rx\<lparr> reorder_buf := (reorder_buf rx)[?i := q], stored_mpdu_num := n \<rparr>) l" if "l < bufsz rx" for l
    using ring_at_set [OF ring k that, of q] window_okD(2) [OF w that] q
    by (auto simp: holds_at_def ring_at_def)
  moreover have "unat n = length (concat ((reorder_buf rx)[?i := q]))"
    using concat_clear_length [OF i, of q] n window_okD(3) [OF w] by (simp add: ring_at_def)
  ultimately show ?thesis using ring by (simp add: window_ok_def ring_ok_def)
qed

lemma filtered_zero: "reorder_buf_filtered rx = 0 \<Longrightarrow> rx\<lparr> reorder_buf_filtered := 0 \<rparr> = rx"
  by (cases rx) simp

lemma release_frame_full:
  assumes w: "window_ok rx" and k: "k < bufsz rx" and f: "ring_at rx k = [f]"
  shows "ieee80211_release_reorder_frame ((unat (head_seq_num rx) + k) mod bufsz rx) (rx, fr) =
    (rx\<lparr> reorder_buf := (reorder_buf rx)[(unat (head_seq_num rx) + k) mod bufsz rx := []],
         stored_mpdu_num := stored_mpdu_num rx - 1, head_seq_num := sn_plus (head_seq_num rx) 1 \<rparr>, fr @ [defer_release f])"
proof -
  have "ieee80211_rx_reorder_ready rx ((unat (head_seq_num rx) + k) mod bufsz rx)"
    using reorder_ready_iff [OF w k] f by simp
  moreover have "reorder_buf_filtered rx = 0" using window_okD(1) [OF w] by (rule ring_okD(8))
  ultimately show ?thesis
    using f by (cases rx) (simp add: ieee80211_release_reorder_frame_def ring_at_def Let_def sn_inc_plus)
qed

lemma release_frame_empty:
  assumes w: "window_ok rx" and e: "ring_at rx 0 = []"
  shows "ieee80211_release_reorder_frame (slot rx (head_seq_num rx)) (rx, fr) =
    (rx\<lparr> head_seq_num := sn_plus (head_seq_num rx) 1 \<rparr>, fr)"
proof -
  have "reorder_buf_filtered rx = 0" using window_okD(1) [OF w] by (rule ring_okD(8))
  then show ?thesis
    using e by (cases rx) (simp add: ieee80211_release_reorder_frame_def ring_at_slot Let_def sn_inc_plus)
qed

lemma skb_data_defer [simp]: "skb_data (defer_release f) = skb_data f"
  by (simp add: defer_release_def)

lemma stored_nonzero:
  assumes "window_ok rx" "ring_at rx k = [f]"
  shows "stored_mpdu_num rx \<noteq> 0"
proof -
  note ring = ring_okD [OF window_okD(1) [OF assms(1)]]
  have "(unat (head_seq_num rx) + k) mod bufsz rx < length (reorder_buf rx)" using ring by simp
  then have "[f] \<in> set (reorder_buf rx)" using assms(2) nth_mem by (metis ring_at_def)
  then have "concat (reorder_buf rx) \<noteq> []" by auto
  then show ?thesis using window_okD(3) [OF assms(1)] by (metis length_0_conv unat_0)
qed

lemma release_at:
  assumes w: "window_ok rx" and k: "k < bufsz rx" and f: "ring_at rx k = [f]"
    and e: "\<And>l. l < k \<Longrightarrow> ring_at rx l = []"
  defines "rx' \<equiv> rx\<lparr> reorder_buf := (reorder_buf rx)[(unat (head_seq_num rx) + k) mod bufsz rx := []],
                      stored_mpdu_num := stored_mpdu_num rx - 1, head_seq_num := sn_plus (head_seq_num rx) (Suc k) \<rparr>"
  shows "window_ok rx'" "advances (Suc k) (rx, fr) (rx', fr @ [defer_release f])"
    "length (concat (reorder_buf rx')) < length (concat (reorder_buf rx))"
proof -
  let ?i = "(unat (head_seq_num rx) + k) mod bufsz rx"
  let ?s = "rx\<lparr> reorder_buf := (reorder_buf rx)[?i := []], stored_mpdu_num := stored_mpdu_num rx - 1 \<rparr>"
  note ring = window_okD(1) [OF w]
  have i: "?i < length (reorder_buf rx)" using ring_okD(2,5) [OF ring] by simp
  have n: "unat (stored_mpdu_num rx - 1) + 1 = unat (stored_mpdu_num rx)"
    using stored_nonzero [OF w f] unat_minus_one [of "stored_mpdu_num rx"] by (simp add: unat_gt_0)
  have "window_ok ?s" using n f by (intro window_set [OF w k]) simp_all
  moreover have "ring_at ?s l = []" if "l < Suc k" for l
    using ring_at_set [OF ring k, of l "[]"] k that e by (auto simp: ring_at_def less_Suc_eq)
  ultimately have "window_ok (?s\<lparr> head_seq_num := sn_plus (head_seq_num ?s) (Suc k) \<rparr>)"
    using k by (intro window_shift) simp_all
  then show "window_ok rx'" by (simp add: rx'_def)
  have "holds_at rx k" by (rule window_okD(2) [OF w k])
  then have sn: "sn_of (defer_release f) = sn_plus (head_seq_num rx) k"
    using f by (simp add: holds_at_def)
  have "mset (concat ((reorder_buf rx)[?i := []])) + {#f#} = mset (concat (reorder_buf rx))"
    using concat_update [OF i, of "[]"] f by (simp add: ring_at_def)
  from arg_cong [OF this, of "image_mset skb_data"]
  have "image_mset skb_data (mset [defer_release f]) + stored_data rx' = stored_data rx"
    by (simp add: stored_data_def rx'_def)
  then show "advances (Suc k) (rx, fr) (rx', fr @ [defer_release f])"
    using in_order_single [OF sn, of "Suc k"] by (simp add: advances_def rx'_def)
  show "length (concat (reorder_buf rx')) < length (concat (reorder_buf rx))"
    using concat_clear_length [OF i, of "[]"] f by (simp add: rx'_def ring_at_def)
qed

lemma release_head_step:
  fixes rx :: tid_ampdu_rx and fr :: "sk_buff list"
  assumes w: "window_ok rx"
  defines "r' \<equiv> ieee80211_release_reorder_frame (slot rx (head_seq_num rx)) (rx, fr)"
  shows "window_ok (fst r')" "advances 1 (rx, fr) r'"
    "ring_at rx 0 \<noteq> [] \<Longrightarrow> length (concat (reorder_buf (fst r'))) < length (concat (reorder_buf rx))"
proof -
  note ring = ring_okD [OF window_okD(1) [OF w]]
  have hd: "slot rx (head_seq_num rx) = (unat (head_seq_num rx) + 0) mod bufsz rx" by (simp add: slot_head)
  show "window_ok (fst r')" "advances 1 (rx, fr) r'"
    "ring_at rx 0 \<noteq> [] \<Longrightarrow> length (concat (reorder_buf (fst r'))) < length (concat (reorder_buf rx))"
  proof (atomize (full), cases "ring_at rx 0 = []")
    case True
    have "window_ok (rx\<lparr> head_seq_num := sn_plus (head_seq_num rx) 1 \<rparr>)"
      using True ring(1) by (intro window_shift [OF w]) simp_all
    then show "window_ok (fst r') \<and> advances 1 (rx, fr) r' \<and> (ring_at rx 0 \<noteq> [] \<longrightarrow>
        length (concat (reorder_buf (fst r'))) < length (concat (reorder_buf rx)))"
      unfolding r'_def release_frame_empty [OF w True] using True by (simp add: advances_def stored_data_def)
  next
    case False
    then obtain f where f: "ring_at rx 0 = [f]"
      using window_okD(2) [OF w ring(2)] by (auto simp: holds_at_def)
    show "window_ok (fst r') \<and> advances 1 (rx, fr) r' \<and> (ring_at rx 0 \<noteq> [] \<longrightarrow>
        length (concat (reorder_buf (fst r'))) < length (concat (reorder_buf rx)))"
      using release_at(1,3) [OF w ring(2) f] release_at(2) [OF w ring(2) f, of fr]
      unfolding r'_def hd release_frame_full [OF w ring(2) f] by simp
  qed
qed

subsection \<open>The loops\<close>

lemma release_frames_window:
  assumes "window_ok (fst r)" "unat head < 4096"
  shows "window_ok (fst (ieee80211_release_reorder_frames head r)) \<and>
    advances (if ieee80211_sn_less (head_seq_num (fst r)) head then sn_dist (head_seq_num (fst r)) head else 0)
      r (ieee80211_release_reorder_frames head r)"
  using assms
proof (induction head r rule: ieee80211_release_reorder_frames.induct)
  case (1 head r)
  let ?h = "head_seq_num (fst r)"
  let ?s = "ieee80211_release_reorder_frame (slot (fst r) ?h) r"
  show ?case
  proof (cases "ieee80211_sn_less ?h head")
    case False
    then show ?thesis
      using "1.prems" advances_refl [of r] ring_okD(7) [OF window_okD(1) [OF "1.prems"(1)]]
      by (subst (1 2) ieee80211_release_reorder_frames.simps) simp
  next
    case True
    have s: "window_ok (fst ?s)" "advances 1 r ?s"
      using release_head_step(1,2) [OF "1.prems"(1), of "snd r"] by simp_all
    let ?d = "if ieee80211_sn_less (head_seq_num (fst ?s)) head then sn_dist (head_seq_num (fst ?s)) head else 0"
    have IH: "window_ok (fst (ieee80211_release_reorder_frames head ?s))"
      "advances ?d ?s (ieee80211_release_reorder_frames head ?s)"
      using "1.IH" [OF True s(1) "1.prems"(2)] by simp_all
    have "1 + ?d = sn_dist ?h head"
      using True by (auto simp: sn_less_iff sn_dist_inc)
    then have "advances (sn_dist ?h head) r (ieee80211_release_reorder_frames head ?s)"
      using advances_trans [OF s(2) IH(2)] by simp
    then show ?thesis
      using True IH(1) by (subst (1 2) ieee80211_release_reorder_frames.simps) simp
  qed
qed

lemma release_in_order_window:
  assumes "window_ok (fst r)" "length (concat (reorder_buf (fst r))) \<le> n"
  shows "\<exists>d\<le>n. window_ok (fst (release_in_order n r)) \<and> advances d r (release_in_order n r) \<and>
     ring_at (fst (release_in_order n r)) 0 = []"
  using assms
proof (induction n arbitrary: r)
  case 0
  note ring = ring_okD [OF window_okD(1) [OF "0.prems"(1)]]
  have "ring_at (fst r) 0 \<in> set (reorder_buf (fst r))" using ring by (simp add: ring_at_def)
  then have "ring_at (fst r) 0 = []" using "0.prems"(2) by auto
  then show ?case using "0.prems"(1) advances_refl [OF ring(7)] by auto
next
  case (Suc n)
  obtain rx fr where r: "r = (rx, fr)" by (cases r)
  with Suc.prems have w: "window_ok rx" by simp
  let ?s = "ieee80211_release_reorder_frame (slot rx (head_seq_num rx)) r"
  show ?case
  proof (cases "ring_at rx 0 = []")
    case True
    then have "release_in_order (Suc n) r = r" using reorder_ready_head [OF w] r by (simp add: Let_def)
    then show ?thesis
      using True w r advances_refl [of r] ring_okD(7) [OF window_okD(1) [OF w]] by (intro exI [of _ 0]) auto
  next
    case False
    have s: "window_ok (fst ?s)" "advances 1 r ?s" "length (concat (reorder_buf (fst ?s))) \<le> n"
      using release_head_step [OF w, where fr = fr] False Suc.prems(2) r by simp_all
    obtain d where d: "d \<le> n" "window_ok (fst (release_in_order n ?s))" "advances d ?s (release_in_order n ?s)"
      "ring_at (fst (release_in_order n ?s)) 0 = []"
      using Suc.IH [OF s(1,3)] by blast
    have "release_in_order (Suc n) r = release_in_order n ?s"
      using reorder_ready_head [OF w] False r by (simp add: Let_def)
    then show ?thesis using advances_trans [OF s(2) d(3)] d(1,2,4) by (intro exI [of _ "1 + d"]) simp
  qed
qed

text \<open>
  The timeout loop.  \<open>passed index k rx\<close>: the first \<open>k\<close> queues from \<open>index\<close> on are empty; then
  the purge before a release changes nothing, and a release at place \<open>s\<close> of the window moves
  the head to the number after the released frame.
\<close>

definition passed :: "nat \<Rightarrow> nat \<Rightarrow> tid_ampdu_rx \<Rightarrow> bool" where
  "passed index k rx \<longleftrightarrow> (\<forall>i<k. reorder_buf rx ! ((index + i) mod bufsz rx) = [])"

lemma fold_clear_empty:
  "(\<And>i. i \<in> set js \<Longrightarrow> b ! i = []) \<Longrightarrow> fold (\<lambda>i b. b[i := []]) js b = b"
proof (induction js)
  case (Cons i js)
  have "b[i := []] = b" using Cons.prems [of i] by (metis list.set_intros(1) list_update_id)
  then show ?case using Cons by simp
qed simp

lemma purge_passed:
  assumes "passed index k rx" "0 < k" "k < bufsz rx"
  shows "purge_upto index ((index + k) mod bufsz rx) rx = rx"
proof -
  let ?g = "\<lambda>i. (index + i) mod bufsz rx"
  have "[1..<bufsz rx] = [1..<k] @ k # [Suc k..<bufsz rx]"
    using assms(2,3) by (metis Suc_leI le_add_diff_inverse less_imp_le_nat upt_add_eq_append upt_conv_Cons One_nat_def)
  then have "ring_after index (bufsz rx) = map ?g [1..<k] @ ?g k # map ?g [Suc k..<bufsz rx]"
    by (simp add: ring_after_def)
  moreover have "?g i \<noteq> ?g k" if "i \<in> set [1..<k]" for i
    using ring_inj [of i "bufsz rx" k index] that assms(3) by auto
  ultimately have "takeWhile (\<lambda>i. i \<noteq> ?g k) (ring_after index (bufsz rx)) = map ?g [1..<k]"
    by (simp add: takeWhile_append)
  then have "purge_upto index (?g k) rx = rx\<lparr> reorder_buf := fold (\<lambda>i b. b[i := []]) (map ?g [1..<k]) (reorder_buf rx) \<rparr>"
    by (simp add: purge_upto_def)
  also have "fold (\<lambda>i b. b[i := []]) (map ?g [1..<k]) (reorder_buf rx) = reorder_buf rx"
    using assms(1) by (intro fold_clear_empty) (auto simp: passed_def)
  finally show ?thesis by simp
qed

lemma passed_place:
  assumes "passed index k rx" "(unat (head_seq_num rx) + s) mod bufsz rx = (index + k) mod bufsz rx" "s \<le> k" "l < s"
  shows "ring_at rx l = []"
proof -
  have "(unat (head_seq_num rx) + l + (s - l)) mod bufsz rx = (index + (k - (s - l)) + (s - l)) mod bufsz rx"
    using assms(2-4) by simp
  then have "(unat (head_seq_num rx) + l) mod bufsz rx = (index + (k - (s - l))) mod bufsz rx"
    by (rule nat_mod_cancel)
  moreover have "k - (s - l) < k" using assms(3,4) by linarith
  ultimately show ?thesis using assms(1) by (simp add: passed_def ring_at_def)
qed

lemma passed_all_empty:
  assumes "passed index n rx" "window_ok rx" "n = bufsz rx"
  shows "concat (reorder_buf rx) = []"
proof -
  note ring = ring_okD [OF window_okD(1) [OF assms(2)]]
  have "q = []" if q_in: "q \<in> set (reorder_buf rx)" for q
  proof -
    obtain i where "i < length (reorder_buf rx)" and q: "q = reorder_buf rx ! i"
      using q_in by (auto simp: in_set_conv_nth)
    then have i: "i < bufsz rx" using ring(5) by simp
    obtain k where k: "k < bufsz rx" "(index + k) mod bufsz rx = i"
      by (rule ring_cover [OF ring(2) i, where h = index])
    then have "reorder_buf rx ! ((index + k) mod bufsz rx) = []"
      using assms(1,3) unfolding passed_def by blast
    with k(2) q show ?thesis by simp
  qed
  then show ?thesis by (simp add: concat_eq_Nil_conv)
qed

lemma nth_clear: "j < length b \<Longrightarrow> b ! i = [] \<or> i = j \<Longrightarrow> b[j := []] ! i = []"
  by (cases "i = j") auto

lemma timeout_loop_window:
  assumes "window_ok (fst r)" "passed index k (fst r)" "bufsz (fst r) = n" "k \<le> n" "s \<le> k" "0 < k"
    and "(unat (head_seq_num (fst r)) + s) mod n = (index + k) mod n"
    and "reorder_timeout_loop jiffies tmo index (map (\<lambda>i. (index + i) mod n) [k..<n]) s r = (out, r')"
  shows "\<exists>d\<le>n - k + s. window_ok (fst r') \<and> advances d r r' \<and>
    (case out of
       None \<Rightarrow> concat (reorder_buf (fst r')) = []
     | Some j \<Rightarrow> ring_at (fst r') 0 = [] \<and> reorder_buf (fst r') ! j \<noteq> [] \<and> j < n \<and>
         \<not> time_after jiffies (reorder_time (fst r') ! j + tmo))"
  using assms
proof (induction "n - k" arbitrary: k s r)
  case 0
  then have "k = n" by simp
  with 0 have "out = None" "r' = r" by simp_all
  then show ?case
    using passed_all_empty [of index k "fst r"] "0.prems" \<open>k = n\<close>
      advances_refl [OF ring_okD(7) [OF window_okD(1) [OF "0.prems"(1)]]] by auto
next
  case (Suc m)
  obtain rx fr where r: "r = (rx, fr)" by (cases r)
  let ?j = "(index + k) mod n"
  let ?js = "map (\<lambda>i. (index + i) mod n) [Suc k..<n]"
  from Suc.hyps(2) have k: "k < n" by simp
  have js: "map (\<lambda>i. (index + i) mod n) [k..<n] = ?j # ?js" using k by (simp add: upt_conv_Cons)
  have w: "window_ok rx" and n: "bufsz rx = n" and pas: "passed index k rx"
    and pl: "(unat (head_seq_num rx) + s) mod bufsz rx = ?j"
    using Suc.prems r by simp_all
  have s: "s < bufsz rx" using Suc.prems(5) k n by simp
  have empty: "ring_at rx l = []" if "l < s" for l
    by (rule passed_place [OF pas _ Suc.prems(5) that]) (use pl n in simp)
  have at: "ring_at rx s = reorder_buf rx ! ?j" by (simp add: ring_at_def pl)
  have ready: "ieee80211_rx_reorder_ready rx ?j \<longleftrightarrow> ring_at rx s \<noteq> []"
    using reorder_ready_iff [OF w s] pl by simp
  consider (gap) "ring_at rx s = []"
    | (wait) "ring_at rx s \<noteq> []" "s \<noteq> 0" "\<not> time_after jiffies (reorder_time rx ! ?j + tmo)"
    | (out) "ring_at rx s \<noteq> []" "s = 0 \<or> time_after jiffies (reorder_time rx ! ?j + tmo)" by argo
  then show ?case
  proof cases
    case gap
    then have "passed index (Suc k) rx" using pas at n by (auto simp: passed_def less_Suc_eq)
    moreover have "(unat (head_seq_num rx) + Suc s) mod n = (index + Suc k) mod n"
      using pl n by (metis add_Suc_right mod_Suc_eq)
    moreover have "reorder_timeout_loop jiffies tmo index ?js (Suc s) r = (out, r')"
      using Suc.prems(8) gap ready js r by simp
    moreover have "m = n - Suc k" using Suc.hyps(2) by simp
    moreover have "d \<le> n - k + s" if "d \<le> n - Suc k + Suc s" for d using that k by simp
    ultimately show ?thesis
      using Suc.hyps(1) [of "Suc k" r "Suc s"] Suc.prems(5) k w n r by auto
  next
    case wait
    then have "out = Some ?j" "r' = r" using Suc.prems(8) ready js r by simp_all
    then show ?thesis
      using wait empty [of 0] at w r k advances_refl [of r] ring_okD(7) [OF window_okD(1) [OF w]]
      by (intro exI [of _ 0]) auto
  next
    case out
    then obtain f where f: "ring_at rx s = [f]"
      using window_okD(2) [OF w s] by (auto simp: holds_at_def)
    let ?rx = "rx\<lparr> reorder_buf := (reorder_buf rx)[(unat (head_seq_num rx) + s) mod bufsz rx := []],
      stored_mpdu_num := stored_mpdu_num rx - 1, head_seq_num := sn_plus (head_seq_num rx) (Suc s) \<rparr>"
    note rel = release_at [OF w s f empty]
    have purge: "purge_upto index ?j rx = rx"
      using purge_passed [OF pas Suc.prems(6)] k n by simp
    have "(sn_plus (head_seq_num rx) 1 + of_nat s) AND IEEE80211_SN_MASK = sn_plus (head_seq_num rx) (Suc s)"
      by (simp only: sn_mask_plus sn_plus_plus) simp
    then have loop: "reorder_timeout_loop jiffies tmo index ?js 0 (?rx, fr @ [defer_release f]) = (out, r')"
      using Suc.prems(8) out(2) ready f js r purge release_frame_full [OF w s f, of fr, unfolded pl]
      by (auto simp: pl)
    have j: "?j < length (reorder_buf rx)" using ring_okD(2,5) [OF window_okD(1) [OF w]] n by simp
    have "passed index (Suc k) ?rx"
      using pas n j nth_clear [of "(index + k) mod n" "reorder_buf rx"] by (auto simp: passed_def less_Suc_eq pl)
    moreover have "(unat (head_seq_num ?rx) + 0) mod n = (index + Suc k) mod n"
    proof -
      have "n dvd 4096" using ring_okD(4) [OF window_okD(1) [OF w]] n by simp
      then have "(unat (head_seq_num ?rx) + 0) mod n = (unat (head_seq_num rx) + Suc s) mod n"
        by (simp add: unat_sn_plus mod_mod_cancel)
      also have "\<dots> = (index + Suc k) mod n" using pl n by (metis add_Suc_right mod_Suc_eq)
      finally show ?thesis .
    qed
    moreover have "m = n - Suc k" using Suc.hyps(2) by simp
    ultimately obtain d where d: "d \<le> n - Suc k" "window_ok (fst r')" "advances d (?rx, fr @ [defer_release f]) r'"
      "case out of None \<Rightarrow> concat (reorder_buf (fst r')) = []
       | Some j \<Rightarrow> ring_at (fst r') 0 = [] \<and> reorder_buf (fst r') ! j \<noteq> [] \<and> j < n \<and>
           \<not> time_after jiffies (reorder_time (fst r') ! j + tmo)"
      using Suc.hyps(1) [of "Suc k" "(?rx, fr @ [defer_release f])" 0] k n loop rel(1) by auto
    have "Suc s + d \<le> n - k + s" using d(1) k by simp
    with d show ?thesis using advances_trans [OF rel(2) d(3)] r by blast
  qed
qed

subsection \<open>Release and insertion\<close>

text \<open>\<^verbatim>\<open>(index - 1) % n\<close> is no queue, or the one before \<open>index\<close>: the last place of the ring.\<close>

lemma stop_place:
  assumes "2 \<le> n" "index < n" "i < n" "int ((index + i) mod n) = (int index - 1) smod int n"
  shows "Suc i = n"
proof (cases "index = 0")
  case True
  then have "(int index - 1) smod int n = -1"
    using assms(1) by (simp add: smod_int_alt_def)
  with assms(4) show ?thesis by simp
next
  case False
  then have "(int index - 1) smod int n = int (index - 1)"
    using assms(2) by (simp add: smod_mod_positive of_nat_diff)
  with assms(4) have "(index + i) mod n = index - 1" by simp
  moreover have "(index + (n - 1)) mod n = index - 1"
  proof -
    have "index + (n - 1) = (index - 1) + n" using False assms(1) by simp
    then show ?thesis using assms(2) by (metis less_imp_diff_less mod_add_self2 mod_less)
  qed
  ultimately have "i = n - 1" using ring_inj [of i n "n - 1" index] assms(1,3) by simp
  with assms(1) show ?thesis by simp
qed

lemma next_ready_first:
  assumes "ieee80211_rx_reorder_ready rx ((j + k) mod bufsz rx)" "j < bufsz rx"
    "\<And>i. i < k \<Longrightarrow> \<not> ieee80211_rx_reorder_ready rx ((j + i) mod bufsz rx) \<and> int ((j + i) mod bufsz rx) \<noteq> stop"
  shows "next_ready rx stop j = Some ((j + k) mod bufsz rx)"
  using assms
proof (induction k arbitrary: j)
  case 0
  then show ?case by (subst next_ready.simps) simp
next
  case (Suc k)
  let ?j = "(j + 1) mod bufsz rx"
  have shift: "(?j + i) mod bufsz rx = (j + Suc i) mod bufsz rx" for i by (simp add: mod_add_left_eq)
  have "next_ready rx stop ?j = Some ((?j + k) mod bufsz rx)"
  proof (rule Suc.IH)
    show "ieee80211_rx_reorder_ready rx ((?j + k) mod bufsz rx)" using Suc.prems(1) by (simp only: shift)
    show "?j < bufsz rx" using Suc.prems(2) by simp
    show "\<not> ieee80211_rx_reorder_ready rx ((?j + i) mod bufsz rx) \<and> int ((?j + i) mod bufsz rx) \<noteq> stop" if "i < k" for i
      unfolding shift by (rule Suc.prems(3)) (use that in simp)
  qed
  moreover have "next_ready rx stop j = next_ready rx stop ?j"
    using Suc.prems(3) [of 0] Suc.prems(2) by (subst next_ready.simps) simp
  ultimately show ?case by (simp only: shift)
qed

lemma stored_place:
  assumes "window_ok rx" "concat (reorder_buf rx) \<noteq> []"
  obtains k where "k < bufsz rx" "ring_at rx k \<noteq> []" "\<forall>i<k. ring_at rx i = []"
proof -
  have "\<not> passed (unat (head_seq_num rx)) (bufsz rx) rx"
    using passed_all_empty [OF _ assms(1)] assms(2) by blast
  then have "\<exists>k. k < bufsz rx \<and> ring_at rx k \<noteq> []" by (auto simp: passed_def ring_at_def)
  then have "\<exists>k. (k < bufsz rx \<and> ring_at rx k \<noteq> []) \<and> (\<forall>i<k. \<not> (i < bufsz rx \<and> ring_at rx i \<noteq> []))"
    by (rule exists_least_iff [THEN iffD1])
  then show thesis using less_trans by (blast intro: that)
qed

lemma next_ready_stored:
  assumes w: "window_ok rx" and s: "concat (reorder_buf rx) \<noteq> []"
  defines "index \<equiv> slot rx (head_seq_num rx)"
  shows "\<exists>j<bufsz rx. next_ready rx ((int index - 1) smod int (bufsz rx)) index = Some j \<and> reorder_buf rx ! j \<noteq> []"
proof -
  note ring = ring_okD [OF window_okD(1) [OF w]]
  obtain k where k: "k < bufsz rx" "ring_at rx k \<noteq> []" "\<forall>i<k. ring_at rx i = []"
    by (rule stored_place [OF w s])
  have idx: "index < bufsz rx" using ring(2) by (simp add: index_def slot_head)
  have place: "(index + i) mod bufsz rx = (unat (head_seq_num rx) + i) mod bufsz rx" for i
    by (simp add: index_def slot_head mod_add_left_eq)
  have "next_ready rx ((int index - 1) smod int (bufsz rx)) index = Some ((index + k) mod bufsz rx)"
  proof (rule next_ready_first [OF _ idx])
    show "ieee80211_rx_reorder_ready rx ((index + k) mod bufsz rx)"
      unfolding place using reorder_ready_iff [OF w k(1)] k(2) by simp
    fix i assume i: "i < k"
    have "int ((index + i) mod bufsz rx) \<noteq> (int index - 1) smod int (bufsz rx)"
      using stop_place [OF ring(1) idx, of i] i k(1) by linarith
    then show "\<not> ieee80211_rx_reorder_ready rx ((index + i) mod bufsz rx) \<and>
        int ((index + i) mod bufsz rx) \<noteq> (int index - 1) smod int (bufsz rx)"
      unfolding place using reorder_ready_iff [OF w, of i] k(1,3) i by simp
  qed
  moreover have "reorder_buf rx ! ((index + k) mod bufsz rx) \<noteq> []"
    using k(2) by (simp add: ring_at_def place)
  ultimately show ?thesis using ring(2) mod_less_divisor by blast
qed

lemma timer_irrelevant [simp]:
  "ring_at (rx\<lparr> reorder_timer := t \<rparr>) k = ring_at rx k"
  "window_ok (rx\<lparr> reorder_timer := t \<rparr>) = window_ok rx"
  "advances d r (rx\<lparr> reorder_timer := t \<rparr>, fr) = advances d r (rx, fr)"
  by (simp_all add: ring_at_def window_ok_def ring_ok_def holds_at_def advances_def stored_data_def)

text \<open>
  \<open>timer_right tmo rx\<close>: the timer is off exactly when nothing is stored, and otherwise, in a
  session that is not being removed, runs until some stored frame has waited long enough.
\<close>

definition timer_right :: "u64 \<Rightarrow> tid_ampdu_rx \<Rightarrow> bool" where
  "timer_right tmo rx \<longleftrightarrow>
     (if concat (reorder_buf rx) = [] then reorder_timer rx = None
      else removed rx \<or> (\<exists>j<bufsz rx. reorder_buf rx ! j \<noteq> [] \<and> reorder_timer rx = Some (reorder_time rx ! j + 1 + tmo)))"

text \<open>\<open>expired jiffies tmo rx\<close>: every frame that may be stored has waited longer than the timeout.\<close>

definition expired :: "u64 \<Rightarrow> u64 \<Rightarrow> tid_ampdu_rx \<Rightarrow> bool" where
  "expired jiffies tmo rx \<longleftrightarrow> (\<forall>j<bufsz rx. time_after jiffies (reorder_time rx ! j + tmo))"

lemma set_timer_right:
  assumes "window_ok (fst r)" "j < bufsz (fst r)" "reorder_buf (fst r) ! j \<noteq> []"
  shows "timer_right tmo (fst (set_release_timer tmo j r))"
proof -
  have "concat (reorder_buf (fst r)) \<noteq> []"
    using assms ring_okD(5) [OF window_okD(1) [OF assms(1)]] by (metis concat_eq_Nil_conv nth_mem)
  then show ?thesis
    using assms(2,3) by (cases r) (auto simp: timer_right_def set_release_timer_def)
qed

lemma set_release_timer_keeps [simp]:
  "ring_at (fst (set_release_timer tmo j r)) k = ring_at (fst r) k"
  "window_ok (fst (set_release_timer tmo j r)) = window_ok (fst r)"
  "advances d q (set_release_timer tmo j r) = advances d q r"
  "reorder_buf (fst (set_release_timer tmo j r)) = reorder_buf (fst r)"
  by (cases r; simp add: set_release_timer_def)+

lemma stored_zero_iff:
  assumes "window_ok rx"
  shows "stored_mpdu_num rx = 0 \<longleftrightarrow> concat (reorder_buf rx) = []"
  using window_okD(3) [OF assms] by (metis length_0_conv unat_eq_zero)

lemma length_concat_le: "\<forall>q\<in>set b. length q \<le> 1 \<Longrightarrow> length (concat b) \<le> length b"
  by (induction b) auto

lemma stored_le:
  assumes w: "window_ok rx"
  shows "length (concat (reorder_buf rx)) \<le> bufsz rx"
proof -
  note ring = ring_okD [OF window_okD(1) [OF w]]
  have "length (reorder_buf rx ! i) \<le> 1" if i: "i < bufsz rx" for i
  proof -
    obtain k where k: "k < bufsz rx" "(unat (head_seq_num rx) + k) mod bufsz rx = i"
      by (rule ring_cover [OF ring(2) i, where h = "unat (head_seq_num rx)"])
    then show ?thesis using window_okD(2) [OF w k(1)] by (auto simp: holds_at_def ring_at_def)
  qed
  then have "\<forall>q\<in>set (reorder_buf rx). length q \<le> 1" using ring(5) by (auto simp: in_set_conv_nth)
  then show ?thesis using length_concat_le [of "reorder_buf rx"] ring(5) by simp
qed

lemma release_in_order_idle:
  assumes "window_ok (fst r)" "ring_at (fst r) 0 = []"
  shows "release_in_order n r = r"
  using reorder_ready_head [OF assms(1)] assms(2) by (cases n; cases r) (simp_all add: Let_def)

text \<open>
  A release from a state in the window ends, keeps the window, and leaves the head's queue
  empty and the timer right.  When the head's queue was empty and all stored frames have
  waited long enough, it leaves none.
\<close>

lemma sta_reorder_release_window:
  assumes w: "window_ok (fst r)"
  shows "\<exists>d r'. ieee80211_sta_reorder_release jiffies tmo r = Some r' \<and> window_ok (fst r') \<and>
    d \<le> bufsz (fst r) \<and> advances d r r' \<and> ring_at (fst r') 0 = [] \<and> timer_right tmo (fst r') \<and>
    (ring_at (fst r) 0 = [] \<and> expired jiffies tmo (fst r) \<longrightarrow> concat (reorder_buf (fst r')) = [])"
proof -
  let ?rx = "fst r"
  let ?i = "slot ?rx (head_seq_num ?rx)"
  note ring = ring_okD [OF window_okD(1) [OF w]]
  define loop where "loop = (if \<not> ieee80211_rx_reorder_ready ?rx ?i \<and> stored_mpdu_num ?rx \<noteq> 0
    then reorder_timeout_loop jiffies tmo ?i (ring_after ?i (bufsz ?rx)) 1 r else (None, release_in_order (bufsz ?rx) r))"
  obtain out q where oq: "loop = (out, q)" by (cases loop)
  have "\<exists>d\<le>bufsz ?rx. window_ok (fst q) \<and> advances d r q \<and> ring_at (fst q) 0 = [] \<and>
    (case out of None \<Rightarrow> ring_at ?rx 0 = [] \<longrightarrow> concat (reorder_buf (fst q)) = []
     | Some j \<Rightarrow> reorder_buf (fst q) ! j \<noteq> [] \<and> j < bufsz ?rx \<and> \<not> time_after jiffies (reorder_time (fst q) ! j + tmo))"
  proof (cases "ring_at ?rx 0 = [] \<and> stored_mpdu_num ?rx \<noteq> 0")
    case True
    have "reorder_timeout_loop jiffies tmo ?i (map (\<lambda>i. (?i + i) mod bufsz ?rx) [1..<bufsz ?rx]) 1 r = (out, q)"
      using True oq reorder_ready_head [OF w] by (simp add: loop_def ring_after_def)
    moreover have "passed ?i 1 ?rx"
      using True ring(2) by (simp add: passed_def ring_at_def slot_head)
    moreover have "(unat (head_seq_num ?rx) + 1) mod bufsz ?rx = (?i + 1) mod bufsz ?rx"
      by (simp add: slot_head mod_Suc_eq)
    ultimately obtain d where d: "window_ok (fst q)" "advances d r q" "d \<le> bufsz ?rx - 1 + 1"
      "case out of None \<Rightarrow> concat (reorder_buf (fst q)) = []
       | Some j \<Rightarrow> ring_at (fst q) 0 = [] \<and> reorder_buf (fst q) ! j \<noteq> [] \<and> j < bufsz ?rx \<and>
           \<not> time_after jiffies (reorder_time (fst q) ! j + tmo)"
      using timeout_loop_window [OF w _ refl, of ?i 1 1 jiffies tmo out q] ring(1) by auto
    have "ring_at (fst q) 0 = []" if "concat (reorder_buf (fst q)) = []"
      using that ring_okD(2,5) [OF window_okD(1) [OF d(1)]] by (simp add: ring_at_def concat_eq_Nil_conv)
    moreover have "d \<le> bufsz ?rx" using d(3) ring(1) by simp
    ultimately show ?thesis using d by (auto split: option.splits)
  next
    case False
    have "out = None" "q = release_in_order (bufsz ?rx) r"
      using False oq reorder_ready_head [OF w] by (auto simp: loop_def)
    moreover have "length (concat (reorder_buf ?rx)) \<le> bufsz ?rx"
      by (rule stored_le [OF w])
    moreover have "concat (reorder_buf (fst (release_in_order (bufsz ?rx) r))) = []" if e: "ring_at ?rx 0 = []"
    proof -
      have "release_in_order (bufsz ?rx) r = r" by (rule release_in_order_idle [OF w e])
      then show ?thesis using False e stored_zero_iff [OF w] by simp
    qed
    ultimately show ?thesis using release_in_order_window [OF w, of "bufsz ?rx"] by auto
  qed
  then obtain d where d: "window_ok (fst q)" "advances d r q" "ring_at (fst q) 0 = []"
    "case out of None \<Rightarrow> ring_at ?rx 0 = [] \<longrightarrow> concat (reorder_buf (fst q)) = []
     | Some j \<Rightarrow> reorder_buf (fst q) ! j \<noteq> [] \<and> j < bufsz ?rx \<and> \<not> time_after jiffies (reorder_time (fst q) ! j + tmo)"
    and dle: "d \<le> bufsz ?rx"
    by blast
  have same: "bufsz (fst q) = bufsz ?rx" "reorder_time (fst q) = reorder_time ?rx"
    using d(2) by (simp_all add: advances_def)
  have eq: "ieee80211_sta_reorder_release jiffies tmo r =
      (case out of Some j \<Rightarrow> Some (set_release_timer tmo j q)
       | None \<Rightarrow> if stored_mpdu_num (fst q) \<noteq> 0
           then map_option (\<lambda>j. set_release_timer tmo j q)
             (next_ready (fst q) ((int (slot (fst q) (head_seq_num (fst q))) - 1) smod int (bufsz (fst q)))
               (slot (fst q) (head_seq_num (fst q))))
           else Some ((fst q)\<lparr> reorder_timer := None \<rparr>, snd q))"
    using oq unfolding ieee80211_sta_reorder_release_def Let_def by (simp add: loop_def)
  show ?thesis
  proof (cases out)
    case (Some j)
    then show ?thesis
      using d dle same by (auto simp: eq expired_def set_timer_right intro!: exI [of _ d])
  next
    case None
    show ?thesis
    proof (cases "concat (reorder_buf (fst q)) = []")
      case True
      then have "ieee80211_sta_reorder_release jiffies tmo r = Some ((fst q)\<lparr> reorder_timer := None \<rparr>, snd q)"
        using None stored_zero_iff [OF d(1)] by (simp add: eq)
      then show ?thesis
        using d(1-3) dle True by (intro exI [of _ d] exI [of _ "((fst q)\<lparr> reorder_timer := None \<rparr>, snd q)"])
          (simp add: timer_right_def)
    next
      case False
      obtain j where j: "j < bufsz (fst q)" "reorder_buf (fst q) ! j \<noteq> []"
        "next_ready (fst q) ((int (slot (fst q) (head_seq_num (fst q))) - 1) smod int (bufsz (fst q)))
           (slot (fst q) (head_seq_num (fst q))) = Some j"
        using next_ready_stored [OF d(1) False] by blast
      have "ieee80211_sta_reorder_release jiffies tmo r = Some (set_release_timer tmo j q)"
        using None False stored_zero_iff [OF d(1)] j(3) by (simp add: eq)
      moreover have "ring_at ?rx 0 \<noteq> []" using d(4) None False by auto
      ultimately show ?thesis
        using d(1-3) dle set_timer_right [OF d(1) j(1,2)] by (intro exI [of _ d] exI [of _ "set_release_timer tmo j q"]) simp
    qed
  qed
qed

text \<open>The state between two calls: the window, with the head's queue empty and the timer right.\<close>

definition settled :: "u64 \<Rightarrow> tid_ampdu_rx \<Rightarrow> bool" where
  "settled tmo rx \<longleftrightarrow> window_ok rx \<and> ring_at rx 0 = [] \<and> timer_right tmo rx"

text \<open>
  \<open>handed_on skb (c, r)\<close>: what the caller passes to the receive handlers, the released frames
  and the frame itself unless it was consumed.  \<open>delivers\<close> relates the state before a frame to
  the result: \<open>new\<close> says whether the frame is one to keep.
\<close>

definition handed_on :: "sk_buff \<Rightarrow> bool \<times> release \<Rightarrow> sk_buff list" where
  "handed_on skb = (\<lambda>(c, r). snd r @ (if c then [] else [skb]))"

definition delivers :: "u64 \<Rightarrow> sk_buff \<Rightarrow> bool \<Rightarrow> nat \<Rightarrow> release \<Rightarrow> bool \<times> release \<Rightarrow> bool" where
  "delivers tmo skb new d r res \<longleftrightarrow>
     settled tmo (fst (snd res)) \<and>
     (\<exists>fs. handed_on skb res = snd r @ fs \<and> in_order (head_seq_num (fst r)) d fs \<and>
           image_mset skb_data (mset fs) + stored_data (fst (snd res)) =
             stored_data (fst r) + (if new then {#skb_data skb#} else {#})) \<and>
     head_seq_num (fst (snd res)) = sn_plus (head_seq_num (fst r)) d \<and>
     buf_size (fst (snd res)) = buf_size (fst r) \<and> auto_seq (fst (snd res)) = auto_seq (fst r) \<and>
     started (fst (snd res)) = started (fst r)"

lemma delivers_after_advance:
  assumes "advances a r s" "delivers tmo skb new b s res"
  shows "delivers tmo skb new (a + b) r res"
proof -
  obtain fs where fs: "snd s = snd r @ fs" "in_order (head_seq_num (fst r)) a fs"
    "image_mset skb_data (mset fs) + stored_data (fst s) = stored_data (fst r)"
    using assms(1) by (auto simp: advances_def)
  obtain gs where gs: "handed_on skb res = snd s @ gs" "in_order (head_seq_num (fst s)) b gs"
    "image_mset skb_data (mset gs) + stored_data (fst (snd res)) =
      stored_data (fst s) + (if new then {#skb_data skb#} else {#})"
    using assms(2) by (auto simp: delivers_def)
  have h: "head_seq_num (fst s) = sn_plus (head_seq_num (fst r)) a"
    using assms(1) by (simp add: advances_def)
  have "image_mset skb_data (mset (fs @ gs)) + stored_data (fst (snd res)) =
      stored_data (fst r) + (if new then {#skb_data skb#} else {#})"
    unfolding fs(3) [symmetric] using gs(3) by (simp add: ac_simps)
  moreover have "handed_on skb res = snd r @ (fs @ gs)" using fs(1) gs(1) by simp
  moreover have "in_order (head_seq_num (fst r)) (a + b) (fs @ gs)"
    using fs(2) gs(2) h by (intro in_order_append) simp_all
  ultimately have "\<exists>us. handed_on skb res = snd r @ us \<and> in_order (head_seq_num (fst r)) (a + b) us \<and>
      image_mset skb_data (mset us) + stored_data (fst (snd res)) =
        stored_data (fst r) + (if new then {#skb_data skb#} else {#})" by blast
  then show ?thesis using assms h by (simp add: advances_def delivers_def sn_plus_plus)
qed

lemma sn_plus_inj:
  assumes "sn_plus h a = sn_plus h b" "a < 4096" "b < 4096"
  shows "a = b"
  using assms sn_dist_plus by metis

lemma unat_succ_u16: "unat n < 65535 \<Longrightarrow> unat (n + 1 :: u16) = unat n + 1"
  by (simp add: unat_word_ariths)

lemma reorder_queue_step:
  assumes w: "window_ok (fst r)" and k: "k < bufsz (fst r)" "sn_of skb = sn_plus (head_seq_num (fst r)) k"
    and m: "\<not> amsdu_more skb" and s: "settled tmo (fst r) \<or> 0 < k \<and> ring_at (fst r) k = []"
  shows "\<exists>d res. d \<le> bufsz (fst r) \<and> reorder_queue jiffies tmo skb r = Some res \<and> delivers tmo skb (ring_at (fst r) k = []) d r res"
proof -
  obtain rx fr where r: "r = (rx, fr)" by (cases r)
  note ring = ring_okD [OF window_okD(1) [OF w], unfolded r fst_conv]
  let ?i = "(unat (head_seq_num rx) + k) mod bufsz rx"
  have slot: "slot rx (sn_of skb) = ?i"
    using slot_plus [OF window_okD(1) [OF w], of k] k(2) r by simp
  have at: "ring_at rx k = reorder_buf rx ! ?i" by (simp add: ring_at_def)
  have ready: "ieee80211_rx_reorder_ready rx ?i \<longleftrightarrow> ring_at rx k \<noteq> []"
    using reorder_ready_iff [OF w k(1)] r by simp
  consider (dup) "ring_at rx k \<noteq> []"
    | (direct) "ring_at rx k = []" "sn_of skb = head_seq_num rx" "stored_mpdu_num rx = 0"
    | (store) "ring_at rx k = []" "\<not> (sn_of skb = head_seq_num rx \<and> stored_mpdu_num rx = 0)" by argo
  then show ?thesis
  proof cases
    case dup
    then have "reorder_queue jiffies tmo skb r = Some (True, r)"
      using ready r by (simp add: reorder_queue_def slot Let_def)
    then show ?thesis
      using dup s r sn_plus_0 [OF ring(7)]
      by (intro exI [of _ 0] exI [of _ "(True, r)"]) (auto simp: delivers_def handed_on_def)
  next
    case direct
    let ?rx = "rx\<lparr> head_seq_num := sn_plus (head_seq_num rx) 1 \<rparr>"
    have "sn_plus (head_seq_num rx) k = sn_plus (head_seq_num rx) 0"
      using direct(2) k(2) r sn_plus_0 [OF ring(7)] by simp
    then have k0: "k = 0" using sn_plus_inj [of "head_seq_num rx" k 0] k(1) r ring(3) by simp
    have empty: "concat (reorder_buf rx) = []" using stored_zero_iff [OF w] direct(3) r by simp
    then have all: "ring_at rx l = []" for l using ring(2,5) by (simp add: ring_at_def concat_eq_Nil_conv)
    have "window_ok ?rx" using w r all ring(1) by (intro window_shift) simp_all
    moreover have "ring_at ?rx 0 = []" using empty ring(2,5) by (simp add: ring_at_def concat_eq_Nil_conv)
    moreover have "timer_right tmo ?rx" using s k0 r empty by (simp add: settled_def timer_right_def)
    ultimately have "settled tmo ?rx" by (simp add: settled_def)
    moreover have "reorder_queue jiffies tmo skb r = Some (False, (?rx, fr))"
    proof -
      have "\<not> ieee80211_rx_reorder_ready rx (slot rx (head_seq_num rx))"
        using ready direct(1,2) slot by simp
      then show ?thesis using direct m r by (simp add: reorder_queue_def Let_def sn_inc_plus)
    qed
    moreover have "in_order (head_seq_num rx) 1 [skb]"
      by (rule in_order_single [of _ _ 0]) (use k(2) k0 r in simp_all)
    ultimately show ?thesis
      using direct(1) r empty ring(1)
      by (intro exI [of _ 1] exI [of _ "(False, (?rx, fr))"]) (auto simp: delivers_def handed_on_def stored_data_def)
  next
    case store
    let ?rx = "rx\<lparr> reorder_buf := (reorder_buf rx)[?i := [skb]], reorder_time := (reorder_time rx)[?i := jiffies],
      stored_mpdu_num := stored_mpdu_num rx + 1 \<rparr>"
    have i: "?i < length (reorder_buf rx)" using ring(2,5) by simp
    have "unat (stored_mpdu_num rx) \<le> bufsz rx" using stored_le [OF w] window_okD(3) [OF w] r by simp
    then have n: "unat (stored_mpdu_num rx + 1) = unat (stored_mpdu_num rx) + 1"
      using ring(3) by (intro unat_succ_u16) simp
    have "window_ok (rx\<lparr> reorder_buf := (reorder_buf rx)[?i := [skb]], stored_mpdu_num := stored_mpdu_num rx + 1 \<rparr>)"
      using window_set [of rx k "[skb]" "stored_mpdu_num rx + 1"] w k m n r store(1) by simp
    then have w': "window_ok ?rx" by (simp add: window_ok_def ring_ok_def holds_at_def ring_at_def)
    obtain d r' where rel: "ieee80211_sta_reorder_release jiffies tmo (?rx, fr) = Some r'" "window_ok (fst r')"
      "advances d (?rx, fr) r'" "ring_at (fst r') 0 = []" "timer_right tmo (fst r')" "d \<le> bufsz ?rx"
      using sta_reorder_release_window [of "(?rx, fr)" jiffies tmo, unfolded fst_conv, OF w'] by blast
    have "reorder_queue jiffies tmo skb r = Some (True, r')"
      using store ready m r rel(1) at by (auto simp: reorder_queue_def slot Let_def)
    moreover have "stored_data ?rx = stored_data rx + {#skb_data skb#}"
      using arg_cong [OF concat_update [OF i, of "[skb]"], of "image_mset skb_data"] store(1) at
      by (simp add: stored_data_def)
    ultimately show ?thesis
      using rel(2-6) store(1) r
      by (intro exI [of _ d] exI [of _ "(True, r')"]) (auto simp: delivers_def handed_on_def advances_def settled_def)
  qed
qed

text \<open>The distances the window test computes.\<close>

lemma sn_dist_swap: "sn_dist b a = (4096 - sn_dist a b) mod 4096"
proof -
  have "int (sn_dist b a) = (- (uint b - uint a)) mod 4096" by (simp add: int_sn_dist)
  also have "\<dots> = (4096 - (uint b - uint a) mod 4096) mod 4096"
    by (metis diff_0 mod_diff_left_eq mod_diff_right_eq mod_self)
  also have "\<dots> = int ((4096 - sn_dist a b) mod 4096)"
    using sn_dist_lt [of a b] by (simp add: zmod_int of_nat_diff int_sn_dist [symmetric] less_imp_le)
  finally show ?thesis by simp
qed

lemma sn_dist_mask: "sn_dist a (h + of_nat k) = sn_dist a (sn_plus h k)"
proof -
  have "uint (h + of_nat k) mod 4096 = uint (sn_plus h k) mod 4096"
    using arg_cong [OF sn_mask_plus [of h k], of uint] sn_plus_lt [of h k]
    by (simp add: uint_sn_mask uint_lt_unat mod_pos_pos_trivial)
  then have "(uint (h + of_nat k) - uint a) mod 4096 = (uint (sn_plus h k) - uint a) mod 4096"
    by (rule mod_diff_cong) simp
  then have "int (sn_dist a (h + of_nat k)) = int (sn_dist a (sn_plus h k))" by (simp only: int_sn_dist)
  then show ?thesis by simp
qed

lemma sn_plus_mod: "sn_plus h (k mod 4096) = sn_plus h k"
  by (simp add: sn_plus_def mod_add_right_eq)

lemma sn_plus_wrap: "sn_plus h (4096 + k) = sn_plus h k"
  using sn_plus_mod [of h "4096 + k"] sn_plus_mod [of h k] by simp

lemma sn_plus_minus:
  assumes "k \<le> d" "d < 4096"
  shows "ieee80211_sn_sub (sn_plus h d) (of_nat k) = sn_plus h (d - k)"
proof -
  have "unat (of_nat k :: u16) = k" using assms by (simp add: unat_of_nat take_bit_nat_eq_self)
  then have k: "uint (of_nat k :: u16) = int k" by (simp only: uint_nat)
  have "uint (ieee80211_sn_sub (sn_plus h d) (of_nat k)) = ((uint h + int d) mod 4096 - int k) mod 4096"
    by (simp add: ieee80211_sn_sub_def uint_sn_diff uint_sn_plus k)
  also have "\<dots> = (uint h + int (d - k)) mod 4096"
    using assms(1) by (simp add: mod_diff_left_eq of_nat_diff algebra_simps)
  also have "\<dots> = uint (sn_plus h (d - k))" by (simp only: uint_sn_plus)
  finally show ?thesis by (simp add: word_uint_eq_iff)
qed

lemma reorder_window_step:
  assumes w: "window_ok (fst r)" and old: "\<not> ieee80211_sn_less (sn_of skb) (head_seq_num (fst r))"
  defines "d \<equiv> sn_dist (head_seq_num (fst r)) (sn_of skb)" and "b \<equiv> bufsz (fst r)"
  shows "window_ok (fst (reorder_window skb r))"
    and "advances (if d < b then 0 else d + 1 - b) r (reorder_window skb r)"
    and "d < b \<Longrightarrow> reorder_window skb r = r"
    and "d \<le> 2048"
proof -
  let ?h = "head_seq_num (fst r)"
  note ring = ring_okD [OF window_okD(1) [OF w], folded b_def]
  have sn: "sn_of skb = sn_plus ?h d" unfolding d_def by (rule sn_plus_dist [OF ieee80211_get_sn_lt, symmetric])
  have d: "d < 4096" by (simp add: d_def)
  have bs: "buf_size (fst r) = of_nat b" by (simp add: b_def)
  show d2: "d \<le> 2048"
    using old sn_dist_swap [of "sn_of skb" ?h] d by (cases "d = 0") (auto simp: sn_less_iff d_def [symmetric])
  have "sn_dist (sn_of skb) (?h + buf_size (fst r)) = (4096 - d + b) mod 4096"
  proof -
    have "sn_dist (sn_of skb) (?h + buf_size (fst r)) = sn_dist (sn_plus ?h d) (sn_plus ?h b)"
      unfolding bs sn_dist_mask sn [symmetric] ..
    also have "sn_plus ?h b = sn_plus (sn_plus ?h d) ((4096 - d + b) mod 4096)"
      using sn_plus_wrap [of ?h b] d by (simp only: sn_plus_mod sn_plus_plus) simp
    also have "sn_dist (sn_plus ?h d) \<dots> = (4096 - d + b) mod 4096" by (rule sn_dist_plus) simp
    finally show ?thesis .
  qed
  moreover have "(4096 - d + b) mod 4096 = (if d \<le> b then b - d else 4096 - d + b)"
    using d ring(3) by (auto simp: le_mod_geq mod_if)
  ultimately have less: "ieee80211_sn_less (sn_of skb) (?h + buf_size (fst r)) \<longleftrightarrow> d < b"
    using ring(3) d2 by (auto simp: sn_less_iff)
  show same: "d < b \<Longrightarrow> reorder_window skb r = r" using less by (simp add: reorder_window_def Let_def)
  show "window_ok (fst (reorder_window skb r))" "advances (if d < b then 0 else d + 1 - b) r (reorder_window skb r)"
  proof (atomize (full), cases "d < b")
    case True
    then show "window_ok (fst (reorder_window skb r)) \<and> advances (if d < b then 0 else d + 1 - b) r (reorder_window skb r)"
      using same w advances_refl [OF ring(7)] by simp
  next
    case False
    have "ieee80211_sn_inc (ieee80211_sn_sub (sn_of skb) (buf_size (fst r))) = sn_plus ?h (d + 1 - b)"
      using False d sn by (simp add: bs sn_plus_minus sn_inc_plus sn_plus_plus Suc_diff_le)
    then have eq: "reorder_window skb r = ieee80211_release_reorder_frames (sn_plus ?h (d + 1 - b)) r"
      using less False by (simp add: reorder_window_def Let_def)
    have t: "sn_dist ?h (sn_plus ?h (d + 1 - b)) = d + 1 - b" using d ring(1) by (intro sn_dist_plus) simp
    then have "ieee80211_sn_less ?h (sn_plus ?h (d + 1 - b))" using False d2 ring(1) by (simp add: sn_less_iff)
    then show "window_ok (fst (reorder_window skb r)) \<and> advances (if d < b then 0 else d + 1 - b) r (reorder_window skb r)"
      using release_frames_window [OF w sn_plus_lt, of ?h "d + 1 - b"] False t by (simp add: eq)
  qed
qed

end
