(* ===== verification/Reorder_Spec.thy ===== *)
theory Reorder_Spec
  imports Reorder_Window
begin

text \<open>
  The contract of the reorder buffer over a run of received frames and timer expiries: order,
  conservation and progress for sessions within the invariant of \<^verbatim>\<open>Reorder_Window\<close>, and what
  happens outside it, on concrete sessions.
\<close>

subsection \<open>One received frame\<close>

definition stored_sns :: "tid_ampdu_rx \<Rightarrow> u16 set" where
  "stored_sns rx = ieee80211_get_sn ` set_mset (stored_data rx)"

text \<open>A frame to keep: neither older than the window nor one whose number is stored already.\<close>

definition fresh :: "tid_ampdu_rx \<Rightarrow> sk_buff \<Rightarrow> bool" where
  "fresh rx skb \<longleftrightarrow> \<not> ieee80211_sn_less (sn_of skb) (head_seq_num rx) \<and> sn_of skb \<notin> stored_sns rx"

lemma stored_sns_eq: "stored_sns rx = sn_of ` set (concat (reorder_buf rx))"
  by (simp add: stored_sns_def stored_data_def image_image)

text \<open>A stored number is that of a place of the window.\<close>

lemma stored_sn_place:
  assumes w: "window_ok rx" and sn: "sn \<in> stored_sns rx"
  obtains l where "l < bufsz rx" "sn = sn_plus (head_seq_num rx) l" "ring_at rx l \<noteq> []"
proof -
  note ring = ring_okD [OF window_okD(1) [OF w]]
  obtain q f where q: "q \<in> set (reorder_buf rx)" "f \<in> set q" "sn = sn_of f"
    using sn by (auto simp: stored_sns_eq)
  obtain i where i: "i < length (reorder_buf rx)" "q = reorder_buf rx ! i"
    using q(1) by (auto simp: in_set_conv_nth)
  then have "i < bufsz rx" using ring(5) by simp
  then obtain l where l: "l < bufsz rx" "(unat (head_seq_num rx) + l) mod bufsz rx = i"
    by (rule ring_cover [OF ring(2), where h = "unat (head_seq_num rx)"])
  have at: "ring_at rx l = q" using i(2) l(2) by (simp add: ring_at_def)
  then have "sn = sn_plus (head_seq_num rx) l" "ring_at rx l \<noteq> []"
    using window_okD(2) [OF w l(1)] q(2,3) by (auto simp: holds_at_def)
  with l(1) show thesis by (rule that)
qed

lemma stored_sns_place:
  assumes w: "window_ok rx" and k: "k < bufsz rx"
  shows "sn_plus (head_seq_num rx) k \<in> stored_sns rx \<longleftrightarrow> ring_at rx k \<noteq> []"
proof
  note ring = ring_okD [OF window_okD(1) [OF w]]
  assume "sn_plus (head_seq_num rx) k \<in> stored_sns rx"
  then obtain l where l: "l < bufsz rx" "sn_plus (head_seq_num rx) k = sn_plus (head_seq_num rx) l" "ring_at rx l \<noteq> []"
    by (rule stored_sn_place [OF w])
  then have "k = l" using sn_plus_inj [of "head_seq_num rx" k l] k ring(3) by simp
  with l(3) show "ring_at rx k \<noteq> []" by simp
next
  note ring = ring_okD [OF window_okD(1) [OF w]]
  assume "ring_at rx k \<noteq> []"
  then obtain f where f: "ring_at rx k = [f]" "sn_of f = sn_plus (head_seq_num rx) k"
    using window_okD(2) [OF w k] by (auto simp: holds_at_def)
  have "(unat (head_seq_num rx) + k) mod bufsz rx < length (reorder_buf rx)" using ring(2,5) by simp
  then have "ring_at rx k \<in> set (reorder_buf rx)" unfolding ring_at_def by (rule nth_mem)
  then have "[f] \<in> set (reorder_buf rx)" using f(1) by simp
  then have "f \<in> set (concat (reorder_buf rx))" unfolding set_concat by (rule UN_I) simp
  then show "sn_plus (head_seq_num rx) k \<in> stored_sns rx"
    unfolding stored_sns_eq f(2) [symmetric] by (rule imageI)
qed

lemma advances_stored_subset: "advances d r r' \<Longrightarrow> stored_sns (fst r') \<subseteq> stored_sns (fst r)"
  unfolding stored_sns_def advances_def by (metis image_mono set_mset_mono mset_subset_eq_add_right)

lemma manage_step:
  assumes s: "settled tmo (fst r)" "started (fst r)" "\<not> auto_seq (fst r)" and m: "\<not> amsdu_more skb"
  shows "\<exists>d res. d < 4096 \<and> ieee80211_sta_manage_reorder_buf jiffies tmo skb r = Some res \<and>
    delivers tmo skb (fresh (fst r) skb) d r res"
proof -
  let ?h = "head_seq_num (fst r)"
  let ?d = "sn_dist ?h (sn_of skb)"
  let ?b = "bufsz (fst r)"
  have w: "window_ok (fst r)" using s(1) by (simp add: settled_def)
  note ring = ring_okD [OF window_okD(1) [OF w]]
  have sn: "sn_of skb = sn_plus ?h ?d" by (rule sn_plus_dist [OF ieee80211_get_sn_lt, symmetric])
  have noop: "(fst r)\<lparr> started := True \<rparr> = fst r" using s(2) by (cases "fst r") simp
  show ?thesis
  proof (cases "ieee80211_sn_less (sn_of skb) ?h")
    case True
    then have "ieee80211_sta_manage_reorder_buf jiffies tmo skb r = Some (True, r)"
      using s noop by (cases r) (simp add: ieee80211_sta_manage_reorder_buf_def reorder_auto_seq_def Let_def)
    moreover have "delivers tmo skb (fresh (fst r) skb) 0 r (True, r)"
      using True s(1) sn_plus_0 [OF ring(7)] by (simp add: delivers_def handed_on_def fresh_def)
    ultimately show ?thesis by (intro exI [of _ 0] exI [of _ "(True, r)"]) simp
  next
    case False
    note win = reorder_window_step [OF w False]
    define q where "q = reorder_window skb r"
    have eq: "ieee80211_sta_manage_reorder_buf jiffies tmo skb r = reorder_queue jiffies tmo skb q"
      using False s unfolding q_def ieee80211_sta_manage_reorder_buf_def reorder_auto_seq_def Let_def
      by (simp add: case_prod_unfold noop)
    define a where "a = (if ?d < ?b then 0 else ?d + 1 - ?b)"
    define k where "k = (if ?d < ?b then ?d else ?b - 1)"
    have wq: "window_ok (fst q)" and adv: "advances a r q"
      using win(1,2) by (simp_all add: q_def a_def)
    have hq: "head_seq_num (fst q) = sn_plus ?h a" "bufsz (fst q) = ?b" using adv by (simp_all add: advances_def)
    have k: "k < bufsz (fst q)" "sn_of skb = sn_plus (head_seq_num (fst q)) k"
      using sn ring(1) by (auto simp: hq k_def a_def sn_plus_plus)
    have shift: "fresh (fst r) skb" if far: "\<not> ?d < ?b"
    proof -
      have "sn_of skb \<notin> stored_sns (fst r)"
      proof
        assume "sn_of skb \<in> stored_sns (fst r)"
        then obtain l where "l < ?b" "sn_of skb = sn_plus ?h l" by (rule stored_sn_place [OF w])
        then have "?d = l" using sn_dist_plus [of l ?h] ring(3) by simp
        with far \<open>l < ?b\<close> show False by simp
      qed
      then show ?thesis using False by (simp add: fresh_def)
    qed
    have new: "ring_at (fst q) k = [] \<longleftrightarrow> fresh (fst r) skb"
    proof (cases "?d < ?b")
      case True
      then have "q = r" using win(3) by (simp add: q_def)
      then show ?thesis using stored_sns_place [OF wq k(1)] k(2) False by (auto simp: fresh_def)
    next
      case far: False
      have "sn_of skb \<notin> stored_sns (fst q)"
        using shift [OF far] advances_stored_subset [OF adv] by (auto simp: fresh_def)
      then show ?thesis using stored_sns_place [OF wq k(1)] k(2) shift [OF far] by simp
    qed
    have "settled tmo (fst q) \<or> 0 < k \<and> ring_at (fst q) k = []"
    proof (cases "?d < ?b")
      case True
      then show ?thesis using win(3) s(1) by (simp add: q_def)
    next
      case far: False
      then show ?thesis using new shift ring(1) by (simp add: k_def)
    qed
    then obtain d res where "reorder_queue jiffies tmo skb q = Some res" "d \<le> bufsz (fst q)"
      and del: "delivers tmo skb (ring_at (fst q) k = []) d q res"
      using reorder_queue_step [OF wq k m] by blast
    moreover have "a \<le> 2049" using win(4) by (auto simp: a_def intro: le_trans [OF diff_le_self])
    ultimately show ?thesis
      using delivers_after_advance [OF adv del] eq ring(3) hq(2) unfolding new by (intro exI [of _ "a + d"]) auto
  qed
qed

subsection \<open>A run of frames and timer expiries\<close>

datatype reorder_event = Rx_frame sk_buff | Reorder_timer

text \<open>One event at a time of \<^verbatim>\<open>jiffies\<close>, with the frames handed to the receive handlers.\<close>

fun reorder_step :: "u64 \<Rightarrow> u64 \<times> reorder_event \<Rightarrow> tid_ampdu_rx \<Rightarrow> (tid_ampdu_rx \<times> sk_buff list) option" where
  "reorder_step tmo (jiffies, Rx_frame skb) rx =
     map_option (\<lambda>res. (fst (snd res), handed_on skb res)) (ieee80211_sta_manage_reorder_buf jiffies tmo skb (rx, []))"
| "reorder_step tmo (jiffies, Reorder_timer) rx = ieee80211_release_reorder_timeout jiffies tmo rx"

fun reorder_run :: "u64 \<Rightarrow> (u64 \<times> reorder_event) list \<Rightarrow> tid_ampdu_rx \<Rightarrow> (tid_ampdu_rx \<times> sk_buff list) option" where
  "reorder_run tmo [] rx = Some (rx, [])"
| "reorder_run tmo (e # es) rx =
     (case reorder_step tmo e rx of
        None \<Rightarrow> None
      | Some (rx', out) \<Rightarrow> map_option (\<lambda>(rx'', out'). (rx'', out @ out')) (reorder_run tmo es rx'))"

definition whole_msdu :: "u64 \<times> reorder_event \<Rightarrow> bool" where
  "whole_msdu e \<longleftrightarrow> (case snd e of Rx_frame skb \<Rightarrow> \<not> amsdu_more skb | Reorder_timer \<Rightarrow> True)"

definition running :: "u64 \<Rightarrow> tid_ampdu_rx \<Rightarrow> bool" where
  "running tmo rx \<longleftrightarrow> settled tmo rx \<and> started rx \<and> \<not> auto_seq rx"

text \<open>
  The numbers of the frames handed on, counted without wrap-around: \<open>p\<close> is that of the head.  A
  frame is as far ahead of it as its twelve bit number, and so is the next head.
\<close>

fun frame_numbers :: "u64 \<Rightarrow> nat \<Rightarrow> (u64 \<times> reorder_event) list \<Rightarrow> tid_ampdu_rx \<Rightarrow> nat list" where
  "frame_numbers tmo p [] rx = []"
| "frame_numbers tmo p (e # es) rx =
     (case reorder_step tmo e rx of
        None \<Rightarrow> []
      | Some (rx', out) \<Rightarrow>
          map (\<lambda>f. p + sn_dist (head_seq_num rx) (sn_of f)) out @
          frame_numbers tmo (p + sn_dist (head_seq_num rx) (head_seq_num rx')) es rx')"

lemma reorder_step_ok:
  assumes "running tmo rx" "whole_msdu e"
  shows "\<exists>d rx' out. d < 4096 \<and> reorder_step tmo e rx = Some (rx', out) \<and> running tmo rx' \<and>
    in_order (head_seq_num rx) d out \<and> head_seq_num rx' = sn_plus (head_seq_num rx) d"
proof (cases e)
  case (Pair jiffies ev)
  from assms(1) have s: "settled tmo rx" "started rx" "\<not> auto_seq rx" by (simp_all add: running_def)
  show ?thesis
  proof (cases ev)
    case (Rx_frame skb)
    then have "\<not> amsdu_more skb" using assms(2) Pair by (simp add: whole_msdu_def)
    then obtain d res where "ieee80211_sta_manage_reorder_buf jiffies tmo skb (rx, []) = Some res" "d < 4096"
      "delivers tmo skb (fresh rx skb) d (rx, []) res"
      using manage_step [of tmo "(rx, [])" skb jiffies] s by auto
    then show ?thesis
      using Pair Rx_frame s
      by (intro exI [of _ d] exI [of _ "fst (snd res)"] exI [of _ "handed_on skb res"]) (auto simp: delivers_def running_def)
  next
    case Reorder_timer
    have "window_ok (fst (rx, [] :: sk_buff list))" using s(1) by (simp add: settled_def)
    then obtain d r' where "ieee80211_sta_reorder_release jiffies tmo (rx, []) = Some r'" "window_ok (fst r')"
      "advances d (rx, []) r'" "ring_at (fst r') 0 = []" "timer_right tmo (fst r')" "d \<le> bufsz rx"
      using sta_reorder_release_window by fastforce
    moreover have "bufsz rx \<le> 1024" using s(1) by (auto simp: settled_def dest: window_okD(1) ring_okD(3))
    ultimately show ?thesis
      using Pair Reorder_timer s
      by (intro exI [of _ d] exI [of _ "fst r'"] exI [of _ "snd r'"])
        (auto simp: advances_def running_def settled_def ieee80211_release_reorder_timeout_def)
  qed
qed

lemma reorder_run_in_order:
  assumes "running tmo rx" "\<forall>e\<in>set es. whole_msdu e"
  shows "\<exists>rx' out. reorder_run tmo es rx = Some (rx', out) \<and> running tmo rx' \<and>
    length (frame_numbers tmo p es rx) = length out \<and>
    sorted_wrt (<) (frame_numbers tmo p es rx) \<and> (\<forall>n\<in>set (frame_numbers tmo p es rx). p \<le> n)"
  using assms
proof (induction es arbitrary: rx p)
  case Nil
  then show ?case by simp
next
  case (Cons e es)
  obtain d rx' out where 1: "reorder_step tmo e rx = Some (rx', out)" "running tmo rx'" "d < 4096"
    "in_order (head_seq_num rx) d out" "head_seq_num rx' = sn_plus (head_seq_num rx) d"
    using reorder_step_ok [of tmo rx e] Cons.prems by auto
  have d: "sn_dist (head_seq_num rx) (head_seq_num rx') = d" using 1(3,5) by (simp add: sn_dist_plus)
  note dists = in_order_dists [OF 1(4) less_imp_le [OF 1(3)]]
  obtain rx'' out' where 2: "reorder_run tmo es rx' = Some (rx'', out')" "running tmo rx''"
    "length (frame_numbers tmo (p + d) es rx') = length out'"
    "sorted_wrt (<) (frame_numbers tmo (p + d) es rx')" "\<forall>n\<in>set (frame_numbers tmo (p + d) es rx'). p + d \<le> n"
    using Cons.IH [OF 1(2), of "p + d"] Cons.prems(2) by auto
  have "sorted_wrt (<) (map (\<lambda>f. p + sn_dist (head_seq_num rx) (sn_of f)) out)"
    using dists(1) by (simp add: sorted_wrt_map)
  moreover have "p + sn_dist (head_seq_num rx) (sn_of f) < n"
    if "f \<in> set out" "n \<in> set (frame_numbers tmo (p + d) es rx')" for f n
    using bspec [OF dists(2) that(1)] bspec [OF 2(5) that(2)] by simp
  ultimately show ?case using 1(1) 2 d by (auto simp: sorted_wrt_append)
qed

subsection \<open>Concrete sessions\<close>

text \<open>A QoS data frame with a sequence number, and a session with empty queues.\<close>

definition ex_mpdu :: "u16 \<Rightarrow> bool \<Rightarrow> sk_buff" where
  "ex_mpdu sn partial =
     (ex_skb ([0x88, 0x01, 0, 0] @ [2,0,0,0,0,1] @ [2,0,0,0,0,2] @ [2,0,0,0,0,3] @ [ucast (push_bit 4 sn), ucast (drop_bit 4 sn)] @ [0, 0]))
       \<lparr> skb_rx := \<lparr> rs_flag = (if partial then RX_FLAG_AMSDU_MORE else 0), rs_rx_flags = 0 \<rparr> \<rparr>"

definition new_session :: "u16 \<Rightarrow> u16 \<Rightarrow> tid_ampdu_rx" where
  "new_session n sn = \<lparr> reorder_buf_filtered = 0, reorder_buf = replicate (unat n) [], reorder_time = replicate (unat n) 0,
     session_timer = None, reorder_timer = None, last_rx = 0, head_seq_num = sn, stored_mpdu_num = 0, ssn = sn, buf_size = n, timeout = 0,
     tid = 0, auto_seq = False, removed = False, started = True \<rparr>"

lemma empty_session_running:
  assumes "2 \<le> bufsz rx" "bufsz rx \<le> 1024" "bufsz rx dvd 4096" "reorder_buf rx = replicate (bufsz rx) []"
    "length (reorder_time rx) = bufsz rx" "unat (head_seq_num rx) < 4096" "reorder_buf_filtered rx = 0"
    "stored_mpdu_num rx = 0" "reorder_timer rx = None" "started rx" "\<not> auto_seq rx"
  shows "running tmo rx"
proof -
  have "ring_at rx k = []" for k using assms(1,4) by (simp add: ring_at_def)
  then show ?thesis
    using assms by (simp add: running_def settled_def window_ok_def ring_ok_def holds_at_def timer_right_def concat_replicate_trivial)
qed

lemma sn_of_ex_mpdu_3: "sn_of (ex_mpdu 3 True) = 3"
  by code_simp

lemma amsdu_more_ex_mpdu [simp]: "amsdu_more (ex_mpdu sn b) = b"
  by (simp add: amsdu_more_def ex_mpdu_def)

lemma next_ready_hangs:
  assumes "\<And>i. i < bufsz rx \<Longrightarrow> \<not> ieee80211_rx_reorder_ready rx i" "stop < 0" "j < bufsz rx"
  shows "next_ready rx stop j = None"
proof (rule ccontr)
  assume "next_ready rx stop j \<noteq> None"
  then obtain y where ret: "next_ready rx stop j = Some y" by blast
  have "\<not> ((\<forall>i<bufsz rx. \<not> ieee80211_rx_reorder_ready rx i) \<and> stop < 0 \<and> j < bufsz rx)"
  proof (rule next_ready.raw_induct [where P = "\<lambda>rx stop j y.
      \<not> ((\<forall>i<bufsz rx. \<not> ieee80211_rx_reorder_ready rx i) \<and> stop < 0 \<and> j < bufsz rx)", OF _ ret])
    fix f rx stop j y
    assume IH: "\<And>rx stop j y. f rx stop j = Some y \<Longrightarrow>
        \<not> ((\<forall>i<bufsz rx. \<not> ieee80211_rx_reorder_ready rx i) \<and> stop < 0 \<and> j < bufsz rx)"
      and eq: "(if int j = stop then Some j
         else if ieee80211_rx_reorder_ready rx j then Some j
         else f rx stop ((j + 1) mod bufsz rx)) = Some y"
    show "\<not> ((\<forall>i<bufsz rx. \<not> ieee80211_rx_reorder_ready rx i) \<and> stop < 0 \<and> j < bufsz rx)"
      using IH [of rx stop "(j + 1) mod bufsz rx"] eq by (auto split: if_splits)
  qed
  with assms show False by blast
qed

subsection \<open>Properties of sessions in the window\<close>

text \<open>C7: order.  In a session whose buffer size divides 4096, as long as every frame is a whole
  MSDU and not a part of an A-MSDU: whatever such frames and timer expiries follow, the code
  returns every time, keeps its invariant, and the frames it hands on are in the order of
  their sequence numbers, none twice: counted without wrap-around, their numbers increase
  strictly.  Both conditions are needed: parts of an A-MSDU can be handed on late
  (\<open>reorder_stale_amsdu\<close>), and with a size that does not divide 4096 two numbers of a window
  share a queue (\<open>reorder_window_collision\<close>).\<close>

theorem reorder_delivers_in_order:
  assumes "running tmo rx" "\<forall>e\<in>set es. whole_msdu e"
  shows "\<exists>rx' out. reorder_run tmo es rx = Some (rx', out) \<and> running tmo rx' \<and>
    length (frame_numbers tmo p es rx) = length out \<and> sorted_wrt (<) (frame_numbers tmo p es rx)"
  using reorder_run_in_order [OF assms, of p] by blast

definition ex_events :: "(u64 \<times> reorder_event) list" where
  "ex_events = [(0, Rx_frame (ex_mpdu 1 False)), (1, Rx_frame (ex_mpdu 4095 False)), (2, Rx_frame (ex_mpdu 0 False)),
     (3, Rx_frame (ex_mpdu 3 False)), (4, Rx_frame (ex_mpdu 1 False)), (40, Reorder_timer)]"

lemma new_session_running: "running tmo (new_session 8 4094)"
  by (rule empty_session_running) (simp_all add: new_session_def)

lemma reorder_delivers_in_order_witness:
  "\<exists>rx' out. reorder_run 25 ex_events (new_session 8 4094) = Some (rx', out) \<and> running 25 rx' \<and>
     length (frame_numbers 25 4094 ex_events (new_session 8 4094)) = length out \<and>
     sorted_wrt (<) (frame_numbers 25 4094 ex_events (new_session 8 4094))"
  by (rule reorder_delivers_in_order [OF new_session_running]) (simp add: ex_events_def whole_msdu_def)

text \<open>C8: conservation.  In a session whose buffer size divides 4096 and that holds whole MSDUs
  only, a frame that is the last or only part of its MSDU and neither older than the window nor
  a duplicate of a stored one is handed on or stored, and no stored frame is lost: the frames
  handed on and those stored afterwards are those stored before and the new one.  For another
  such frame, which is freed, they are just those stored before.  With a size that does not
  divide 4096 a fresh frame can be lost (\<open>reorder_window_collision\<close>).\<close>

theorem reorder_keeps_frames:
  assumes "running tmo rx" "\<not> amsdu_more skb"
  shows "\<exists>res. ieee80211_sta_manage_reorder_buf jiffies tmo skb (rx, []) = Some res \<and>
    image_mset skb_data (mset (handed_on skb res)) + stored_data (fst (snd res)) =
      stored_data rx + (if fresh rx skb then {#skb_data skb#} else {#})"
proof -
  obtain d res where "ieee80211_sta_manage_reorder_buf jiffies tmo skb (rx, []) = Some res"
    "delivers tmo skb (fresh rx skb) d (rx, []) res"
    using manage_step [of tmo "(rx, [])" skb jiffies] assms unfolding running_def fst_conv by blast
  then show ?thesis by (auto simp: delivers_def)
qed

lemma reorder_keeps_frames_witness:
  "\<exists>res. ieee80211_sta_manage_reorder_buf 0 25 (ex_mpdu 1 False) (new_session 8 4094, []) = Some res \<and>
     image_mset skb_data (mset (handed_on (ex_mpdu 1 False) res)) + stored_data (fst (snd res)) =
       {#skb_data (ex_mpdu 1 False)#}"
proof -
  have "\<not> ieee80211_sn_less (sn_of (ex_mpdu 1 False)) 4094" by code_simp
  then have "fresh (new_session 8 4094) (ex_mpdu 1 False)"
    by (simp add: fresh_def stored_sns_def stored_data_def new_session_def concat_replicate_trivial)
  moreover have "stored_data (new_session 8 4094) = {#}"
    by (simp add: stored_data_def new_session_def concat_replicate_trivial)
  ultimately show ?thesis
    using reorder_keeps_frames [OF new_session_running, of "ex_mpdu 1 False" 0 25] by simp
qed

text \<open>C9: progress.  No frame waits for ever: when the timer runs after all stored frames have
  waited for the timeout, it hands on all of them, in order, and stops.  Before that the timer
  is set whenever a frame is stored.\<close>

theorem reorder_timer_flushes:
  assumes "running tmo rx" "expired jiffies tmo rx"
  shows "\<exists>rx' out. ieee80211_release_reorder_timeout jiffies tmo rx = Some (rx', out) \<and>
    image_mset skb_data (mset out) = stored_data rx \<and> in_order (head_seq_num rx) (bufsz rx) out \<and>
    concat (reorder_buf rx') = [] \<and> reorder_timer rx' = None"
proof -
  have w: "window_ok (fst (rx, [] :: sk_buff list))" "ring_at rx 0 = []"
    using assms(1) by (simp_all add: running_def settled_def)
  obtain d r' where r': "ieee80211_sta_reorder_release jiffies tmo (rx, []) = Some r'"
    "advances d (rx, []) r'" "timer_right tmo (fst r')" "concat (reorder_buf (fst r')) = []" "d \<le> bufsz rx"
    using sta_reorder_release_window [OF w(1), of jiffies tmo] w(2) assms(2) by auto
  have "stored_data (fst r') = {#}" using r'(4) by (simp only: stored_data_def) simp
  then have "image_mset skb_data (mset (snd r')) = stored_data rx" "in_order (head_seq_num rx) (bufsz rx) (snd r')"
    using r'(2) in_order_mono [OF _ r'(5)] by (auto simp: advances_def)
  then show ?thesis
    using r' by (cases r') (auto simp: ieee80211_release_reorder_timeout_def timer_right_def simp del: concat_eq_Nil_conv)
qed

definition ex_waiting :: tid_ampdu_rx where
  "ex_waiting = fst (the (reorder_run 25 [(0, Rx_frame (ex_mpdu 2 False))] (new_session 8 0)))"

lemma ex_waiting_running: "running 25 ex_waiting"
proof -
  have r: "running 25 (new_session 8 0)" by (rule empty_session_running) (simp_all add: new_session_def)
  have "\<forall>e\<in>set [(0, Rx_frame (ex_mpdu 2 False))]. whole_msdu e" by (simp add: whole_msdu_def)
  from reorder_run_in_order [OF r this, of 0] show ?thesis unfolding ex_waiting_def by auto
qed

lemma reorder_timer_flushes_witness:
  "\<exists>rx' out. ieee80211_release_reorder_timeout 27 25 ex_waiting = Some (rx', out) \<and>
     image_mset skb_data (mset out) = stored_data ex_waiting \<and>
     in_order (head_seq_num ex_waiting) (bufsz ex_waiting) out \<and>
     concat (reorder_buf rx') = [] \<and> reorder_timer rx' = None"
proof -
  have "list_all (\<lambda>j. time_after 27 (reorder_time ex_waiting ! j + 25)) [0..<bufsz ex_waiting]" by code_simp
  then have "expired 27 25 ex_waiting" by (simp add: expired_def list_all_iff)
  then show ?thesis by (rule reorder_timer_flushes [OF ex_waiting_running])
qed

subsection \<open>Outside the window\<close>

text \<open>With a buffer size that does not divide 4096, a new frame inside the window is lost
  when the numbers wrap: two of its ten numbers share a queue, and the second frame is taken
  for a duplicate of the first and freed.\<close>

definition ex_collision :: "tid_ampdu_rx \<times> sk_buff list" where
  "ex_collision = the (reorder_run 25 [(0, Rx_frame (ex_mpdu 4091 False)), (1, Rx_frame (ex_mpdu 1 False)),
     (2, Rx_frame (ex_mpdu 4090 False))] (new_session 10 4090))"

theorem reorder_window_collision:
  "sn_dist 4090 1 < 10 \<and> map sn_of (snd ex_collision) = [4090, 4091] \<and>
   list_all (\<lambda>q. q = []) (reorder_buf (fst ex_collision)) \<and> head_seq_num (fst ex_collision) = 4092"
proof -
  have "sn_dist 4090 1 < 10" by (simp add: sn_dist_def ieee80211_sn_sub_def)
  moreover have "map sn_of (snd ex_collision) = [4090, 4091]" "head_seq_num (fst ex_collision) = 4092"
    "list_all (\<lambda>q. q = []) (reorder_buf (fst ex_collision))"
    by code_simp+
  ultimately show ?thesis by blast
qed

text \<open>An incomplete A-MSDU in the head's queue survives a timeout: the purge starts after
  that queue.  Its subframe stays while the head moves on, shares the queue with a later frame
  and is handed on with it, after frames that follow it.\<close>

definition ex_stale :: "tid_ampdu_rx \<times> sk_buff list" where
  "ex_stale = the (reorder_run 25 [(0, Rx_frame (ex_mpdu 2 False)), (1, Rx_frame (ex_mpdu 0 True)), (30, Reorder_timer),
     (31, Rx_frame (ex_mpdu 4 False)), (32, Rx_frame (ex_mpdu 3 False))] (new_session 4 0))"

theorem reorder_stale_amsdu:
  "map sn_of (snd ex_stale) = [2, 3, 0, 4] \<and> map amsdu_more (snd ex_stale) = [False, False, True, False]"
  by code_simp

text \<open>The session after the first subframe of an A-MSDU that comes one number after the head.\<close>

definition ex_partial :: tid_ampdu_rx where
  "ex_partial = (new_session 4 2)\<lparr> reorder_buf := [[], [], [], [ex_mpdu 3 True]] \<rparr>"

lemma replicate_4: "replicate 4 x = [x, x, x, x]"
  by (simp add: eval_nat_numeral)

lemma ex_sn_facts: "\<not> ieee80211_sn_less 3 2" "ieee80211_sn_less 3 6" "\<not> ieee80211_sn_less 2 2"
  "ieee80211_sn_sub 2 2 = 0" "ieee80211_sn_inc 2 = 3" "ieee80211_sn_inc 3 = 4"
  by code_simp+

lemma ex_partial_reached:
  "ieee80211_sta_manage_reorder_buf 0 25 (ex_mpdu 3 True) (new_session 4 2, []) = Some (True, (ex_partial, []))"
  by (simp add: ieee80211_sta_manage_reorder_buf_def reorder_auto_seq_def reorder_window_def reorder_queue_def
      sn_of_ex_mpdu_3 ex_sn_facts new_session_def ex_partial_def slot_def ieee80211_rx_reorder_ready_def
      replicate_4 Let_def)

lemma ex_filtered_bits:
  "fold (\<lambda>i. filtered_bit 3 ((2 + i) mod 4) i) [0..<4] 0 = 12"
  by code_simp

lemma ex_released:
  "release_in_order 4 (ex_partial\<lparr> reorder_buf_filtered := 12 \<rparr>, []) =
   (ex_partial\<lparr> reorder_buf_filtered := 0, reorder_buf := [[], [], [], []], stored_mpdu_num := 65535, head_seq_num := 4 \<rparr>,
    [defer_release (ex_mpdu 3 True)])"
proof -
  have b: "12 AND BIT_ULL 2 \<noteq> 0" "12 AND NOT (BIT_ULL 2) = 8" "8 AND BIT_ULL 3 \<noteq> 0" "8 AND NOT (BIT_ULL 3) = 0"
    by code_simp+
  have n: "release_in_order 4 r = release_in_order (Suc (Suc (Suc (Suc 0)))) r" for r by (simp add: eval_nat_numeral)
  show ?thesis
    unfolding n
    by (simp add: ex_partial_def new_session_def replicate_4 slot_def ieee80211_rx_reorder_ready_def
        ieee80211_release_reorder_frame_def ex_sn_facts b Let_def)
qed

text \<open>A filtered A-MSDU of which one subframe is stored can make the code hang.  Here the release
  counts a frame off that was never counted, the number of stored frames wraps to 65535, and
  the search for a stored frame from queue zero never ends.\<close>

theorem reorder_filtered_hangs:
  "ieee80211_sta_manage_reorder_buf 0 25 (ex_mpdu 3 True) (new_session 4 2, []) = Some (True, (ex_partial, [])) \<and>
   ieee80211_mark_rx_ba_filtered_frames 0 25 2 3 0 ex_partial = None"
proof -
  let ?rx = "ex_partial\<lparr> reorder_buf_filtered := 0, reorder_buf := [[], [], [], []], stored_mpdu_num := 65535, head_seq_num := 4 \<rparr>"
  have empty: "\<not> ieee80211_rx_reorder_ready ?rx i" if "i < bufsz ?rx" for i
  proof -
    from that have "i = 0 \<or> i = 1 \<or> i = 2 \<or> i = 3" by (auto simp: ex_partial_def new_session_def)
    then show ?thesis by (elim disjE) (simp_all add: ieee80211_rx_reorder_ready_def)
  qed
  have hang: "next_ready ?rx (-1) 0 = None"
    by (rule next_ready_hangs [OF empty]) (simp_all add: ex_partial_def new_session_def)
  have "ieee80211_sta_reorder_release 0 25 (ex_partial\<lparr> reorder_buf_filtered := 12 \<rparr>, []) = None"
  proof -
    have "12 AND BIT_ULL 2 \<noteq> 0" by code_simp
    then have "ieee80211_rx_reorder_ready (ex_partial\<lparr> reorder_buf_filtered := 12 \<rparr>) 2"
      by (simp add: ieee80211_rx_reorder_ready_def)
    moreover have "slot (ex_partial\<lparr> reorder_buf_filtered := 12 \<rparr>) 2 = 2" "slot ?rx 4 = 0" "bufsz ex_partial = 4"
      "head_seq_num ex_partial = 2"
      by (simp_all add: slot_def ex_partial_def new_session_def)
    moreover have "(-1) smod 4 = (-1 :: int)" by (simp add: smod_int_alt_def)
    ultimately show ?thesis
      using hang by (simp add: ieee80211_sta_reorder_release_def ex_released Let_def)
  qed
  moreover have "ieee80211_mark_rx_ba_filtered_frames 0 25 2 3 0 ex_partial =
      ieee80211_sta_reorder_release 0 25 (ex_partial\<lparr> reorder_buf_filtered := 12 \<rparr>, [])"
  proof -
    have p: "head_seq_num ex_partial = 2" "buf_size ex_partial = 4" "reorder_buf_filtered ex_partial = 0"
      by (simp_all add: ex_partial_def new_session_def)
    have "ieee80211_release_reorder_frames 2 (ex_partial, []) = (ex_partial, [])"
      by (subst ieee80211_release_reorder_frames.simps) (simp add: p ex_sn_facts)
    then show ?thesis
      using ex_filtered_bits by (simp add: ieee80211_mark_rx_ba_filtered_frames_def p ex_sn_facts Let_def)
  qed
  ultimately have "ieee80211_mark_rx_ba_filtered_frames 0 25 2 3 0 ex_partial = None" by simp
  with ex_partial_reached show ?thesis by blast
qed

end
