(* ===== verification/Agg_Rx.thy ===== *)
theory Agg_Rx
  imports Agg Reorder_Spec
begin

text \<open>
  Receive block-ack sessions, \<^verbatim>\<open>mac80211/agg-rx.c\<close>: how a session with its reorder buffer is set up
  on a peer's request, torn down, and watched by the session timer.  The aggregation state of
  the station is \<open>sta_ampdu_mlme\<close>; a session is the \<open>tid_ampdu_rx\<close> of \<^verbatim>\<open>Reorder\<close>.

  The lemmas show what a request leads to on every branch, and that a session set up here meets
  the invariant of the reorder buffer when its size divides the sequence number space, so that
  the order and progress properties of \<^verbatim>\<open>Reorder_Spec\<close> hold for it.
\<close>

text \<open>The frames freed with a session, when no reader is left.\<close>

definition ieee80211_free_tid_rx :: "tid_ampdu_rx \<Rightarrow> sk_buff list" where
  "ieee80211_free_tid_rx rx = concat (take (bufsz rx) (reorder_buf rx))"

definition ieee80211_stop_rx_session ::
    "agg_hw \<Rightarrow> (ba_alloc \<Rightarrow> bool) \<Rightarrow> u16 \<Rightarrow> u16 \<Rightarrow> u16 \<Rightarrow> bool \<Rightarrow> sta_ampdu_mlme \<Rightarrow> sta_ampdu_mlme \<times> ba_event list" where
  "ieee80211_stop_rx_session hw oom t initiator reason tx mlme =
     (if \<not> agg_session_valid mlme (ucast t) then (mlme, [])
      else
        (mlme\<lparr> tid_rx := (tid_rx mlme)(ucast t := None),
               agg_session_valid := (agg_session_valid mlme)(ucast t := False) \<rparr>,
         Drv_ampdu_action \<lparr> par_action = AMPDU_RX_STOP, par_tid = t, par_ssn = 0, par_buf_size = 0,
                            par_amsdu = False, par_timeout = 0 \<rparr> #
         (if initiator = WLAN_BACK_RECIPIENT \<and> tx
          then ieee80211_send_delba oom t WLAN_BACK_RECIPIENT reason else []) @
         (case tid_rx mlme (ucast t) of
            None \<Rightarrow> []
          | Some rx \<Rightarrow> [Free_skbs (ieee80211_free_tid_rx
                          (rx\<lparr> session_timer := None, removed := True, reorder_timer := None \<rparr>))])))"

text \<open>\<open>ba_rx_bitmap\<close>: the driver asks to stop sessions; the work does it.\<close>

definition ieee80211_stop_rx_ba_session :: "u16 \<Rightarrow> sta_ampdu_mlme option \<Rightarrow> sta_ampdu_mlme option \<times> ba_event list" where
  "ieee80211_stop_rx_ba_session ba_rx_bitmap sta =
     (case sta of
        None \<Rightarrow> (None, [])
      | Some mlme \<Rightarrow>
          (Some (mlme\<lparr> tid_rx_stop_requested := (\<lambda>i. unat i < IEEE80211_NUM_TIDS \<and> bit ba_rx_bitmap (unat i) \<or>
                                                    tid_rx_stop_requested mlme i) \<rparr>), [Queue_work]))"

text \<open>\<open>tu_to_jiffies\<close> converts time units, a constant of the kernel's tick rate.\<close>

definition sta_rx_agg_session_timer_expired ::
    "u64 \<Rightarrow> (u16 \<Rightarrow> u64) \<Rightarrow> u8 \<Rightarrow> sta_ampdu_mlme \<Rightarrow> sta_ampdu_mlme \<times> ba_event list" where
  "sta_rx_agg_session_timer_expired jiffies tu_to_jiffies t mlme =
     (case tid_rx mlme t of
        None \<Rightarrow> (mlme, [])
      | Some rx \<Rightarrow>
          (let expiry = last_rx rx + tu_to_jiffies (timeout rx) in
           if time_after expiry jiffies
           then (mlme\<lparr> tid_rx := (tid_rx mlme)(t := Some (rx\<lparr> session_timer := Some expiry \<rparr>)) \<rparr>, [])
           else (mlme\<lparr> tid_rx := (tid_rx mlme)(t := Some (rx\<lparr> session_timer := None \<rparr>)),
                       tid_rx_timer_expired := (tid_rx_timer_expired mlme)(t := True) \<rparr>, [Queue_work])))"

definition sta_rx_agg_reorder_timer_expired ::
    "u64 \<Rightarrow> u64 \<Rightarrow> u8 \<Rightarrow> sta_ampdu_mlme \<Rightarrow> (sta_ampdu_mlme \<times> sk_buff list) option" where
  "sta_rx_agg_reorder_timer_expired jiffies tmo t mlme =
     (case tid_rx mlme t of
        None \<Rightarrow> Some (mlme, [])
      | Some rx \<Rightarrow>
          map_option (\<lambda>(rx, frames). (mlme\<lparr> tid_rx := (tid_rx mlme)(t := Some rx) \<rparr>, frames))
            (ieee80211_release_reorder_timeout jiffies tmo rx))"

subsection \<open>Starting a session\<close>

definition max_ampdu_buf :: "agg_peer \<Rightarrow> u16" where
  "max_ampdu_buf sta =
     (if valid_links sta \<noteq> 0 \<or> has_eht sta then IEEE80211_MAX_AMPDU_BUF_EHT
      else if has_he sta then IEEE80211_MAX_AMPDU_BUF_HE
      else IEEE80211_MAX_AMPDU_BUF_HT)"

text \<open>The size agreed on: the maximum when the peer leaves it open, and at most the hardware's.\<close>

definition agreed_buf_size :: "agg_peer \<Rightarrow> u16 \<Rightarrow> u16" where
  "agreed_buf_size sta bsize =
     (let bsize = (if bsize = 0 then max_ampdu_buf sta else bsize) in
      if bsize > max_rx_aggregation_subframes sta then max_rx_aggregation_subframes sta else bsize)"

definition new_tid_rx :: "u64 \<Rightarrow> (u16 \<Rightarrow> u64) \<Rightarrow> u16 \<Rightarrow> u16 \<Rightarrow> u16 \<Rightarrow> u16 \<Rightarrow> bool \<Rightarrow> tid_ampdu_rx" where
  "new_tid_rx jiffies tu_to_jiffies tmo start_seq_num t bsize auto =
     \<lparr> reorder_buf_filtered = 0, reorder_buf = replicate (unat bsize) [], reorder_time = replicate (unat bsize) 0,
       session_timer = (if tmo \<noteq> 0 then Some (jiffies + tu_to_jiffies tmo) else None), reorder_timer = None,
       last_rx = (if tmo \<noteq> 0 then jiffies else 0), head_seq_num = start_seq_num, stored_mpdu_num = 0,
       ssn = start_seq_num, buf_size = bsize, timeout = tmo, tid = ucast t, auto_seq = auto, removed = False,
       started = False \<rparr>"

text \<open>The checks of the request's parameters: \<open>None\<close> lets it pass.\<close>

definition rx_ba_refused :: "agg_peer \<Rightarrow> u16 \<Rightarrow> u16 \<Rightarrow> u16 \<Rightarrow> u16 option" where
  "rx_ba_refused sta ba_policy t bsize =
     (if t \<ge> IEEE80211_FIRST_TSPEC_TSID then Some WLAN_STATUS_REQUEST_DECLINED
      else if valid_links sta = 0 \<and> \<not> ht_supported sta \<and> \<not> has_he sta \<and> \<not> s1g sta
      then Some WLAN_STATUS_REQUEST_DECLINED
      else if WLAN_STA_BLOCK_BA sta then Some WLAN_STATUS_REQUEST_DECLINED
      else if ba_policy \<noteq> 1 \<and> (valid_links sta \<noteq> 0 \<or> ht_cap sta AND IEEE80211_HT_CAP_DELAY_BA = 0 \<or>
                               s1g_cap3 sta AND S1G_CAP3_HT_DELAYED_BA = 0) \<or>
              bsize > max_ampdu_buf sta
      then Some WLAN_STATUS_INVALID_QOS_PARAM
      else None)"

text \<open>The driver is asked and, unless it reorders itself, the session is allocated and filled in.\<close>

definition open_rx_ba_session ::
    "agg_hw \<Rightarrow> ampdu_driver \<Rightarrow> (ba_alloc \<Rightarrow> bool) \<Rightarrow> ieee80211_ampdu_params \<Rightarrow> tid_ampdu_rx \<Rightarrow>
     sta_ampdu_mlme \<Rightarrow> u16 \<times> sta_ampdu_mlme \<times> ba_event list" where
  "open_rx_ba_session hw drv oom params rx mlme =
     (let accepted = (fst (drv params) = 0) in
      if SUPPORTS_REORDERING_BUFFER hw
      then (if accepted then WLAN_STATUS_SUCCESS else WLAN_STATUS_REQUEST_DECLINED, mlme, [Drv_ampdu_action params])
      else if oom Alloc_session \<or> oom Alloc_reorder_buf then (WLAN_STATUS_REQUEST_DECLINED, mlme, [])
      else if \<not> accepted then (WLAN_STATUS_REQUEST_DECLINED, mlme, [Drv_ampdu_action params])
      else (WLAN_STATUS_SUCCESS, mlme\<lparr> tid_rx := (tid_rx mlme)(ucast (par_tid params) := Some rx) \<rparr>,
            [Drv_ampdu_action params]))"

text \<open>
  The part of the function in front of its label \<^verbatim>\<open>end\<close>: the status, the buffer size as it stands
  there, the state and the effects.
\<close>

definition rx_ba_session_status ::
    "agg_hw \<Rightarrow> agg_peer \<Rightarrow> ampdu_driver \<Rightarrow> (ba_alloc \<Rightarrow> bool) \<Rightarrow> u64 \<Rightarrow> (u16 \<Rightarrow> u64) \<Rightarrow>
     u8 \<Rightarrow> u16 \<Rightarrow> u16 \<Rightarrow> u16 \<Rightarrow> u16 \<Rightarrow> u16 \<Rightarrow> bool \<Rightarrow> sta_ampdu_mlme \<Rightarrow> u16 \<times> u16 \<times> sta_ampdu_mlme \<times> ba_event list" where
  "rx_ba_session_status hw sta drv oom jiffies tu_to_jiffies dialog_token tmo start_seq_num ba_policy t bsize auto mlme =
     (case rx_ba_refused sta ba_policy t bsize of
        Some status \<Rightarrow> (status, bsize, mlme, [])
      | None \<Rightarrow>
        (let bsize = agreed_buf_size sta bsize;
             params = \<lparr> par_action = AMPDU_RX_START, par_tid = t, par_ssn = start_seq_num, par_buf_size = bsize,
                        par_amsdu = False, par_timeout = tmo \<rparr>
         in if agg_session_valid mlme (ucast t) \<and> tid_rx_token mlme (ucast t) = dialog_token
            then (if (case tid_rx mlme (ucast t) of None \<Rightarrow> False | Some rx \<Rightarrow> timeout rx = tmo)
                  then WLAN_STATUS_SUCCESS else WLAN_STATUS_REQUEST_DECLINED, bsize, mlme, [])
            else
              (let (mlme, stopped) =
                     (if agg_session_valid mlme (ucast t)
                      then ieee80211_stop_rx_session hw oom t WLAN_BACK_RECIPIENT WLAN_STATUS_UNSPECIFIED_QOS False mlme
                      else (mlme, []));
                   (status, mlme, evs) = open_rx_ba_session hw drv oom params
                     (new_tid_rx jiffies tu_to_jiffies tmo start_seq_num t bsize auto) mlme
               in (status, bsize, mlme, stopped @ evs))))"

definition ieee80211_start_rx_ba_session ::
    "agg_hw \<Rightarrow> agg_peer \<Rightarrow> ampdu_driver \<Rightarrow> (ba_alloc \<Rightarrow> bool) \<Rightarrow> u64 \<Rightarrow> (u16 \<Rightarrow> u64) \<Rightarrow>
     u8 \<Rightarrow> u16 \<Rightarrow> u16 \<Rightarrow> u16 \<Rightarrow> u16 \<Rightarrow> u16 \<Rightarrow> bool \<Rightarrow> bool \<Rightarrow> u8 \<Rightarrow> sta_ampdu_mlme \<Rightarrow> sta_ampdu_mlme \<times> ba_event list" where
  "ieee80211_start_rx_ba_session hw sta drv oom jiffies tu_to_jiffies
       dialog_token tmo start_seq_num ba_policy t bsize tx auto addba_ext_data mlme =
     (let (status, bsize, mlme, evs) =
            rx_ba_session_status hw sta drv oom jiffies tu_to_jiffies dialog_token tmo start_seq_num ba_policy t bsize auto mlme;
          mlme = (if status = WLAN_STATUS_SUCCESS
                  then mlme\<lparr> agg_session_valid := (agg_session_valid mlme)(ucast t := True),
                             unexpected_agg := (unexpected_agg mlme)(ucast t := False),
                             tid_rx_token := (tid_rx_token mlme)(ucast t := dialog_token) \<rparr>
                  else mlme)
      in (mlme, evs @ (if tx then ieee80211_send_addba_resp hw sta oom t dialog_token status 1 bsize tmo addba_ext_data
                       else [])))"

text \<open>\<open>mgmt\<close> is the received action frame, header included.\<close>

definition ieee80211_process_addba_request ::
    "agg_hw \<Rightarrow> agg_peer \<Rightarrow> ampdu_driver \<Rightarrow> (ba_alloc \<Rightarrow> bool) \<Rightarrow> u64 \<Rightarrow> (u16 \<Rightarrow> u64) \<Rightarrow>
     u8 list \<Rightarrow> sta_ampdu_mlme \<Rightarrow> sta_ampdu_mlme \<times> ba_event list" where
  "ieee80211_process_addba_request hw sta drv oom jiffies tu_to_jiffies mgmt mlme =
     (let dialog_token = mgmt ! 26;
          capab = get_unaligned_le16 mgmt 27;
          tmo = get_unaligned_le16 mgmt 29;
          start_seq_num = drop_bit 4 (get_unaligned_le16 mgmt 31);
          ba_policy = drop_bit 1 (capab AND IEEE80211_ADDBA_PARAM_POLICY_MASK);
          t = drop_bit 2 (capab AND IEEE80211_ADDBA_PARAM_TID_MASK);
          bsize = drop_bit 6 (capab AND IEEE80211_ADDBA_PARAM_BUF_SIZE_MASK);
          (addba_ext_data, bsize) = ieee80211_retrieve_addba_ext_data sta (drop 33 mgmt) bsize
      in ieee80211_start_rx_ba_session hw sta drv oom jiffies tu_to_jiffies
           dialog_token tmo start_seq_num ba_policy t bsize True False addba_ext_data mlme)"

text \<open>Sessions handled by the hardware: the driver reports their start and the expiry of their timer.\<close>

definition ieee80211_manage_rx_ba_offl :: "u8 \<Rightarrow> sta_ampdu_mlme option \<Rightarrow> sta_ampdu_mlme option \<times> ba_event list" where
  "ieee80211_manage_rx_ba_offl t sta =
     (case sta of
        None \<Rightarrow> (None, [])
      | Some mlme \<Rightarrow> (Some (mlme\<lparr> tid_rx_manage_offl := (tid_rx_manage_offl mlme)(t := True) \<rparr>), [Queue_work]))"

definition ieee80211_rx_ba_timer_expired :: "u8 \<Rightarrow> sta_ampdu_mlme option \<Rightarrow> sta_ampdu_mlme option \<times> ba_event list" where
  "ieee80211_rx_ba_timer_expired t sta =
     (case sta of
        None \<Rightarrow> (None, [])
      | Some mlme \<Rightarrow> (Some (mlme\<lparr> tid_rx_timer_expired := (tid_rx_timer_expired mlme)(t := True) \<rparr>), [Queue_work]))"


subsection \<open>The sessions of a station\<close>

text \<open>
  Every session of the table is valid, belongs to its TID, is not removed and has a buffer of its
  size, of at most 1024 queues.  A driver with a reordering buffer has no session in the table;
  otherwise every valid one is there.
\<close>

definition session_shape :: "u8 \<Rightarrow> tid_ampdu_rx \<Rightarrow> bool" where
  "session_shape t rx \<longleftrightarrow> tid rx = t \<and> \<not> removed rx \<and> length (reorder_buf rx) = bufsz rx \<and>
     length (reorder_time rx) = bufsz rx \<and> bufsz rx \<le> 1024"

definition rx_sessions_ok :: "agg_hw \<Rightarrow> sta_ampdu_mlme \<Rightarrow> bool" where
  "rx_sessions_ok hw mlme \<longleftrightarrow>
     (\<forall>t rx. tid_rx mlme t = Some rx \<longrightarrow> agg_session_valid mlme t \<and> session_shape t rx) \<and>
     (if SUPPORTS_REORDERING_BUFFER hw then \<forall>t. tid_rx mlme t = None
      else \<forall>t. agg_session_valid mlme t \<longrightarrow> tid_rx mlme t \<noteq> None)"

lemma rx_sessions_okI:
  assumes "\<And>t rx. tid_rx mlme t = Some rx \<Longrightarrow> agg_session_valid mlme t \<and> session_shape t rx"
    "\<And>t. SUPPORTS_REORDERING_BUFFER hw \<Longrightarrow> tid_rx mlme t = None"
    "\<And>t. \<not> SUPPORTS_REORDERING_BUFFER hw \<Longrightarrow> agg_session_valid mlme t \<Longrightarrow> tid_rx mlme t \<noteq> None"
  shows "rx_sessions_ok hw mlme"
  using assms by (auto simp: rx_sessions_ok_def)

lemma rx_sessions_okD:
  assumes "rx_sessions_ok hw mlme"
  shows "tid_rx mlme t = Some rx \<Longrightarrow> agg_session_valid mlme t"
    "tid_rx mlme t = Some rx \<Longrightarrow> session_shape t rx"
    "SUPPORTS_REORDERING_BUFFER hw \<Longrightarrow> tid_rx mlme t = None"
    "\<not> SUPPORTS_REORDERING_BUFFER hw \<Longrightarrow> agg_session_valid mlme t \<Longrightarrow> tid_rx mlme t \<noteq> None"
  using assms by (auto simp: rx_sessions_ok_def split: if_splits)

lemma rx_sessions_ok_cong:
  assumes "rx_sessions_ok hw mlme" "tid_rx mlme' = tid_rx mlme" "agg_session_valid mlme' = agg_session_valid mlme"
  shows "rx_sessions_ok hw mlme'"
  using assms by (simp add: rx_sessions_ok_def)

text \<open>Replacing a session by another of its shape.\<close>

lemma rx_sessions_ok_put:
  assumes "rx_sessions_ok hw mlme" "tid_rx mlme t = Some rx" "session_shape t rx'"
    "tid_rx mlme' = (tid_rx mlme)(t := Some rx')" "agg_session_valid mlme' = agg_session_valid mlme"
  shows "rx_sessions_ok hw mlme'"
  using assms by (auto simp: rx_sessions_ok_def split: if_splits)

lemma stop_rx_sessions_ok:
  assumes "rx_sessions_ok hw mlme"
  shows "rx_sessions_ok hw (fst (ieee80211_stop_rx_session hw oom t initiator reason tx mlme))"
  using assms by (auto simp: rx_sessions_ok_def ieee80211_stop_rx_session_def)

lemma stop_rx_session_gone:
  assumes "rx_sessions_ok hw mlme" and "mlme' = fst (ieee80211_stop_rx_session hw oom t initiator reason tx mlme)"
  shows "\<not> agg_session_valid mlme' (ucast t)" "tid_rx mlme' (ucast t) = None"
    "s \<noteq> ucast t \<Longrightarrow> tid_rx mlme' s = tid_rx mlme s" "s \<noteq> ucast t \<Longrightarrow> agg_session_valid mlme' s = agg_session_valid mlme s"
  using rx_sessions_okD(1)[OF assms(1)] assms(2)
  by (cases "tid_rx mlme (ucast t)"; auto simp: ieee80211_stop_rx_session_def)+

lemma max_ampdu_buf_le: "unat (max_ampdu_buf sta) \<le> 1024"
  by (simp add: max_ampdu_buf_def)

lemma agreed_buf_size_le:
  assumes "\<not> bsize > max_ampdu_buf sta"
  shows "unat (agreed_buf_size sta bsize) \<le> 1024"
    "agreed_buf_size sta bsize \<le> max_rx_aggregation_subframes sta"
proof -
  have "unat bsize \<le> 1024"
    using assms max_ampdu_buf_le[of sta] by (simp add: word_less_nat_alt)
  moreover have "unat (max_rx_aggregation_subframes sta) \<le> unat x" if "x > max_rx_aggregation_subframes sta" for x
    using that by (simp add: word_less_nat_alt)
  ultimately show "unat (agreed_buf_size sta bsize) \<le> 1024"
    using max_ampdu_buf_le[of sta] unfolding agreed_buf_size_def Let_def
    by (auto intro: order_trans)
  show "agreed_buf_size sta bsize \<le> max_rx_aggregation_subframes sta"
    by (auto simp: agreed_buf_size_def Let_def)
qed

lemma new_tid_rx_shape:
  "unat bsize \<le> 1024 \<Longrightarrow> session_shape (ucast t) (new_tid_rx jiffies tu tmo start_seq_num t bsize auto)"
  by (simp add: session_shape_def new_tid_rx_def)

text \<open>What the part in front of the label leaves: the four outcomes of a request.\<close>

lemma rx_ba_session_status_cases:
  assumes "rx_ba_session_status hw sta drv oom jiffies tu dialog_token tmo start_seq_num ba_policy t bsize auto mlme
      = (status, bsize', mlme', evs)"
    and ok: "rx_sessions_ok hw mlme"
  obtains (declined) "status \<noteq> WLAN_STATUS_SUCCESS" "rx_sessions_ok hw mlme'"
      "tid_rx mlme' = tid_rx mlme \<or> tid_rx mlme' = (tid_rx mlme)(ucast t := None)"
    | (retry) rx where "status = WLAN_STATUS_SUCCESS" "mlme' = mlme" "evs = []" "agg_session_valid mlme (ucast t)"
      "tid_rx mlme (ucast t) = Some rx" "timeout rx = tmo"
    | (hardware) "status = WLAN_STATUS_SUCCESS" "SUPPORTS_REORDERING_BUFFER hw" "t < 8" "rx_sessions_ok hw mlme'"
    | (started) "status = WLAN_STATUS_SUCCESS" "\<not> SUPPORTS_REORDERING_BUFFER hw" "t < 8"
      "\<not> bsize > max_ampdu_buf sta" "bsize' = agreed_buf_size sta bsize"
      "tid_rx mlme' = (tid_rx mlme)(ucast t := Some (new_tid_rx jiffies tu tmo start_seq_num t bsize' auto))"
      "\<forall>s. s \<noteq> ucast t \<longrightarrow> agg_session_valid mlme' s = agg_session_valid mlme s"
proof -
  define st where "st = (if agg_session_valid mlme (ucast t)
      then ieee80211_stop_rx_session hw oom t WLAN_BACK_RECIPIENT WLAN_STATUS_UNSPECIFIED_QOS False mlme else (mlme, []))"
  have st: "rx_sessions_ok hw (fst st)" "tid_rx (fst st) = (tid_rx mlme)(ucast t := None)"
    "\<forall>s. s \<noteq> ucast t \<longrightarrow> agg_session_valid (fst st) s = agg_session_valid mlme s"
  proof -
    show "rx_sessions_ok hw (fst st)"
      using ok stop_rx_sessions_ok[OF ok] by (simp add: st_def)
    have "tid_rx mlme (ucast t) = None" if "\<not> agg_session_valid mlme (ucast t)"
      using rx_sessions_okD(1)[OF ok, of "ucast t"] that by (cases "tid_rx mlme (ucast t)") auto
    then show "tid_rx (fst st) = (tid_rx mlme)(ucast t := None)"
      by (auto simp: st_def ieee80211_stop_rx_session_def)
    show "\<forall>s. s \<noteq> ucast t \<longrightarrow> agg_session_valid (fst st) s = agg_session_valid mlme s"
      by (simp add: st_def ieee80211_stop_rx_session_def)
  qed
  let ?z = "agreed_buf_size sta bsize"
  let ?p = "\<lparr> par_action = AMPDU_RX_START, par_tid = t, par_ssn = start_seq_num, par_buf_size = ?z,
              par_amsdu = False, par_timeout = tmo \<rparr>"
  let ?rx = "new_tid_rx jiffies tu tmo start_seq_num t ?z auto"
  show thesis
  proof (cases "rx_ba_refused sta ba_policy t bsize")
    case (Some st)
    then have "st \<noteq> WLAN_STATUS_SUCCESS" by (auto simp: rx_ba_refused_def split: if_splits)
    then show thesis using declined Some ok assms(1) by (simp add: rx_ba_session_status_def)
  next
    case None
    then have t8: "t < 8" and small: "\<not> bsize > max_ampdu_buf sta"
      by (auto simp: rx_ba_refused_def not_le split: if_splits)
    note eq = assms(1)[unfolded rx_ba_session_status_def None option.case Let_def, folded st_def]
    show thesis
    proof (cases "agg_session_valid mlme (ucast t) \<and> tid_rx_token mlme (ucast t) = dialog_token")
      case True
      then have "mlme' = mlme" "evs = []"
        "status = (if (case tid_rx mlme (ucast t) of None \<Rightarrow> False | Some rx \<Rightarrow> timeout rx = tmo)
                   then WLAN_STATUS_SUCCESS else WLAN_STATUS_REQUEST_DECLINED)"
        using eq by (auto split: if_splits)
      then show thesis using declined retry True ok by (cases "tid_rx mlme (ucast t)") (auto split: if_splits)
    next
      case False
      obtain evs' where op: "open_rx_ba_session hw drv oom ?p ?rx (fst st) = (status, mlme', evs')" and z: "bsize' = ?z"
        using eq False by (auto split: prod.splits)
      show thesis
      proof (cases "status = WLAN_STATUS_SUCCESS")
        case False
        then have "mlme' = fst st" using op by (auto simp: open_rx_ba_session_def Let_def split: if_splits)
        then show thesis using declined False st by simp
      next
        case success: True
        show thesis
        proof (cases "SUPPORTS_REORDERING_BUFFER hw")
          case True
          then have "mlme' = fst st" using op by (auto simp: open_rx_ba_session_def Let_def split: if_splits)
          then show thesis using hardware success True t8 st by simp
        next
          case False
          then have "mlme' = (fst st)\<lparr> tid_rx := (tid_rx (fst st))(ucast t := Some ?rx) \<rparr>"
            using op success by (auto simp: open_rx_ba_session_def Let_def split: if_splits)
          then show thesis using started success False t8 small st z by simp
        qed
      qed
    qed
  qed
qed


lemma start_rx_session_state:
  "fst (ieee80211_start_rx_ba_session hw sta drv oom jiffies tu dialog_token tmo start_seq_num ba_policy t bsize tx auto ext mlme) =
   (let (status, bsize', mlme', evs) =
          rx_ba_session_status hw sta drv oom jiffies tu dialog_token tmo start_seq_num ba_policy t bsize auto mlme
    in if status = WLAN_STATUS_SUCCESS
       then mlme'\<lparr> agg_session_valid := (agg_session_valid mlme')(ucast t := True),
                   unexpected_agg := (unexpected_agg mlme')(ucast t := False),
                   tid_rx_token := (tid_rx_token mlme')(ucast t := dialog_token) \<rparr>
       else mlme')"
  by (simp add: ieee80211_start_rx_ba_session_def Let_def split: prod.splits)

lemma start_rx_sessions_ok:
  assumes ok: "rx_sessions_ok hw mlme"
  shows "rx_sessions_ok hw
    (fst (ieee80211_start_rx_ba_session hw sta drv oom jiffies tu dialog_token tmo start_seq_num ba_policy t bsize tx auto ext mlme))"
proof -
  obtain status bsize' mlme' evs where
    st: "rx_ba_session_status hw sta drv oom jiffies tu dialog_token tmo start_seq_num ba_policy t bsize auto mlme
      = (status, bsize', mlme', evs)" by (cases rule: prod_cases4)
  then show ?thesis
    using ok
  proof (cases rule: rx_ba_session_status_cases)
    case declined
    then show ?thesis using st by (simp add: start_rx_session_state)
  next
    case (retry rx)
    then show ?thesis using st ok by (auto simp: start_rx_session_state rx_sessions_ok_def)
  next
    case hardware
    then show ?thesis using st by (auto simp: start_rx_session_state rx_sessions_ok_def)
  next
    case started
    have "session_shape (ucast t) (new_tid_rx jiffies tu tmo start_seq_num t bsize' auto)"
      using agreed_buf_size_le(1)[OF started(4)] started(5) by (simp add: new_tid_rx_shape)
    then show ?thesis using st started ok by (auto simp: start_rx_session_state rx_sessions_ok_def)
  qed
qed

text \<open>
  A session in the table after a request that was not there before is the one the request asked for.
\<close>

lemma start_rx_session_new:
  assumes ok: "rx_sessions_ok hw mlme" and "tid_rx mlme s \<noteq> Some rx"
    and new: "tid_rx (fst (ieee80211_start_rx_ba_session hw sta drv oom jiffies tu dialog_token tmo start_seq_num ba_policy
                 t bsize tx auto ext mlme)) s = Some rx"
  shows "rx = new_tid_rx jiffies tu tmo start_seq_num t (agreed_buf_size sta bsize) auto \<and> s = ucast t \<and>
    unat (agreed_buf_size sta bsize) \<le> 1024 \<and> \<not> bsize > max_ampdu_buf sta"
proof -
  obtain status bsize' mlme' evs where
    st: "rx_ba_session_status hw sta drv oom jiffies tu dialog_token tmo start_seq_num ba_policy t bsize auto mlme
      = (status, bsize', mlme', evs)" by (cases rule: prod_cases4)
  have rx: "tid_rx mlme' s = Some rx"
    using new st unfolding start_rx_session_state by (auto split: if_splits)
  show ?thesis
    using st ok
  proof (cases rule: rx_ba_session_status_cases)
    case declined
    then show ?thesis using rx assms(2) by (auto split: if_splits)
  next
    case retry
    then show ?thesis using rx assms(2) by simp
  next
    case hardware
    then show ?thesis using rx rx_sessions_okD(3)[OF hardware(4,2), of s] by simp
  next
    case started
    then show ?thesis using rx assms(2) agreed_buf_size_le[OF started(4)] by (auto split: if_splits)
  qed
qed


subsection \<open>The reorder buffer keeps the shape of its session\<close>

definition shape_of :: "tid_ampdu_rx \<Rightarrow> u8 \<times> bool \<times> nat \<times> nat \<times> u16" where
  "shape_of rx = (tid rx, removed rx, length (reorder_buf rx), length (reorder_time rx), buf_size rx)"

lemma session_shape_keep: "session_shape t rx \<Longrightarrow> shape_of rx' = shape_of rx \<Longrightarrow> session_shape t rx'"
  by (simp add: session_shape_def shape_of_def)

lemma shape_update [simp]:
  "shape_of (rx\<lparr> reorder_buf_filtered := f \<rparr>) = shape_of rx" "shape_of (rx\<lparr> head_seq_num := h \<rparr>) = shape_of rx"
  "shape_of (rx\<lparr> stored_mpdu_num := n \<rparr>) = shape_of rx" "shape_of (rx\<lparr> reorder_timer := u \<rparr>) = shape_of rx"
  "shape_of (rx\<lparr> session_timer := u \<rparr>) = shape_of rx" "shape_of (rx\<lparr> last_rx := l \<rparr>) = shape_of rx"
  "shape_of (rx\<lparr> ssn := h \<rparr>) = shape_of rx" "shape_of (rx\<lparr> auto_seq := b \<rparr>) = shape_of rx"
  "shape_of (rx\<lparr> started := b \<rparr>) = shape_of rx"
  by (simp_all add: shape_of_def)

lemma shape_buf_update:
  "length b = length (reorder_buf rx) \<Longrightarrow> shape_of (rx\<lparr> reorder_buf := b \<rparr>) = shape_of rx"
  "length c = length (reorder_time rx) \<Longrightarrow> shape_of (rx\<lparr> reorder_time := c \<rparr>) = shape_of rx"
  by (simp_all add: shape_of_def)

lemma shape_release_frame [simp]: "shape_of (fst (ieee80211_release_reorder_frame i r)) = shape_of (fst r)"
  by (cases r) (simp add: ieee80211_release_reorder_frame_def Let_def shape_of_def)

lemma shape_release_frames [simp]: "shape_of (fst (ieee80211_release_reorder_frames head r)) = shape_of (fst r)"
proof (induction head r rule: ieee80211_release_reorder_frames.induct)
  case (1 head r)
  then show ?case by (subst ieee80211_release_reorder_frames.simps) simp
qed

lemma length_fold_clear: "length (fold (\<lambda>i b. b[i := []]) js b) = length b"
  by (induction js arbitrary: b) simp_all

lemma shape_purge [simp]: "shape_of (purge_upto i j rx) = shape_of rx"
  by (simp add: purge_upto_def shape_of_def length_fold_clear)

lemma shape_timeout_loop: "shape_of (fst (snd (reorder_timeout_loop jiffies tmo i js skipped r))) = shape_of (fst r)"
proof (induction jiffies tmo i js skipped r rule: reorder_timeout_loop.induct)
  case (2 jiffies tmo i j js skipped rx frames)
  show ?case
  proof (cases "ieee80211_rx_reorder_ready rx j \<and> (skipped = 0 \<or> time_after jiffies (reorder_time rx ! j + tmo))")
    case False
    then show ?thesis using 2(1) by auto
  next
    case True
    obtain rx' frames' where r: "ieee80211_release_reorder_frame j (purge_upto i j rx, frames) = (rx', frames')" by fastforce
    then have "shape_of rx' = shape_of rx"
      using shape_release_frame[of j "(purge_upto i j rx, frames)"] by simp
    then show ?thesis using True r 2(2) by auto
  qed
qed simp

lemma shape_in_order [simp]: "shape_of (fst (release_in_order n r)) = shape_of (fst r)"
  by (induction n r rule: release_in_order.induct) (simp_all add: Let_def)

lemma shape_set_timer [simp]: "shape_of (fst (set_release_timer tmo j r)) = shape_of (fst r)"
  by (cases r) (simp add: set_release_timer_def)

lemma shape_sta_release:
  assumes "ieee80211_sta_reorder_release jiffies tmo r = Some r'"
  shows "shape_of (fst r') = shape_of (fst r)"
proof -
  let ?i = "slot (fst r) (head_seq_num (fst r))"
  define p where "p = (if \<not> ieee80211_rx_reorder_ready (fst r) ?i \<and> stored_mpdu_num (fst r) \<noteq> 0
      then reorder_timeout_loop jiffies tmo ?i (ring_after ?i (bufsz (fst r))) 1 r
      else (None, release_in_order (bufsz (fst r)) r))"
  have "shape_of (fst (snd p)) = shape_of (fst r)"
    by (simp add: p_def shape_timeout_loop)
  moreover obtain out q where "p = (out, q)" by (cases p)
  ultimately show ?thesis
    using assms unfolding ieee80211_sta_reorder_release_def Let_def p_def[symmetric]
    by (auto split: option.splits if_splits)
qed

lemma shape_manage:
  assumes "ieee80211_sta_manage_reorder_buf jiffies tmo skb (rx, frames) = Some (d, rx', frames')"
  shows "shape_of rx' = shape_of rx"
proof -
  have auto: "shape_of (reorder_auto_seq skb rx) = shape_of rx"
    by (simp add: reorder_auto_seq_def Let_def)
  have win: "shape_of (fst (reorder_window skb r)) = shape_of (fst r)" for r
    by (simp add: reorder_window_def Let_def)
  have queue: "shape_of (fst r') = shape_of (fst r)" if "reorder_queue jiffies tmo skb r = Some (d', r')" for d' r r'
    using that by (cases r) (auto simp: reorder_queue_def Let_def shape_buf_update dest!: shape_sta_release split: if_splits)
  show ?thesis
    using assms auto queue[of "reorder_window skb ((reorder_auto_seq skb rx)\<lparr> started := True \<rparr>, frames)" d "(rx', frames')"] win
    by (auto simp: ieee80211_sta_manage_reorder_buf_def Let_def split: if_splits)
qed


subsection \<open>All operations on the sessions\<close>

inductive rx_ba_step :: "agg_hw \<Rightarrow> sta_ampdu_mlme \<Rightarrow> sta_ampdu_mlme \<Rightarrow> bool" for hw :: agg_hw where
  open_session: "rx_ba_step hw mlme (fst (ieee80211_start_rx_ba_session hw sta drv oom jiffies tu
     dialog_token tmo start_seq_num ba_policy t bsize tx auto ext mlme))"
| request: "rx_ba_step hw mlme (fst (ieee80211_process_addba_request hw sta drv oom jiffies tu mgmt mlme))"
| stop: "rx_ba_step hw mlme (fst (ieee80211_stop_rx_session hw oom t initiator reason tx mlme))"
| stop_requested: "ieee80211_stop_rx_ba_session bitmap (Some mlme) = (Some mlme', evs) \<Longrightarrow> rx_ba_step hw mlme mlme'"
| offloaded: "ieee80211_manage_rx_ba_offl u (Some mlme) = (Some mlme', evs) \<Longrightarrow> rx_ba_step hw mlme mlme'"
| offloaded_expired: "ieee80211_rx_ba_timer_expired u (Some mlme) = (Some mlme', evs) \<Longrightarrow> rx_ba_step hw mlme mlme'"
| session_timer: "rx_ba_step hw mlme (fst (sta_rx_agg_session_timer_expired jiffies tu u mlme))"
| reorder_timer: "sta_rx_agg_reorder_timer_expired jiffies rtmo u mlme = Some (mlme', frames) \<Longrightarrow> rx_ba_step hw mlme mlme'"
| frame: "ieee80211_rx_reorder_ampdu jiffies rtmo (Some mlme) skb frames = Some (Some mlme', frames', evs) \<Longrightarrow>
    rx_ba_step hw mlme mlme'"

lemma rx_step_timers_ok:
  assumes ok: "rx_sessions_ok hw mlme"
  shows "rx_sessions_ok hw (fst (sta_rx_agg_session_timer_expired jiffies tu u mlme))"
    "sta_rx_agg_reorder_timer_expired jiffies rtmo u mlme = Some (mlme', frames) \<Longrightarrow> rx_sessions_ok hw mlme'"
proof -
  have shape: "session_shape u rx" if "tid_rx mlme u = Some rx" for rx
    using rx_sessions_okD(2)[OF ok that] .
  show "rx_sessions_ok hw (fst (sta_rx_agg_session_timer_expired jiffies tu u mlme))"
  proof (cases "tid_rx mlme u")
    case (Some rx)
    have "session_shape u (rx\<lparr> session_timer := s \<rparr>)" for s
      using shape[OF Some] by (simp add: session_shape_def)
    note put = rx_sessions_ok_put[OF ok Some this]
    show ?thesis
      unfolding sta_rx_agg_session_timer_expired_def Let_def Some option.case
      by (cases "time_after (last_rx rx + tu (timeout rx)) jiffies") (simp_all add: put)
  qed (simp add: sta_rx_agg_session_timer_expired_def ok)
  assume step: "sta_rx_agg_reorder_timer_expired jiffies rtmo u mlme = Some (mlme', frames)"
  show "rx_sessions_ok hw mlme'"
  proof (cases "tid_rx mlme u")
    case (Some rx)
    then obtain rx' where "ieee80211_release_reorder_timeout jiffies rtmo rx = Some (rx', frames)"
      "mlme' = mlme\<lparr> tid_rx := (tid_rx mlme)(u := Some rx') \<rparr>"
      using step by (auto simp: sta_rx_agg_reorder_timer_expired_def)
    moreover then have "shape_of rx' = shape_of rx"
      unfolding ieee80211_release_reorder_timeout_def by (auto dest: shape_sta_release)
    ultimately show ?thesis
      using rx_sessions_ok_put[OF ok Some session_shape_keep[OF shape[OF Some]]] by simp
  qed (use step ok in \<open>simp add: sta_rx_agg_reorder_timer_expired_def\<close>)
qed

lemma rx_step_frame_ok:
  assumes ok: "rx_sessions_ok hw mlme"
    and step: "ieee80211_rx_reorder_ampdu jiffies rtmo (Some mlme) skb frames = Some (Some mlme', frames', evs)"
  shows "rx_sessions_ok hw mlme'"
proof -
  let ?t = "ieee80211_get_tid (skb_data skb)"
  consider "tid_rx mlme' = tid_rx mlme" "agg_session_valid mlme' = agg_session_valid mlme"
    | rx rx' where "tid_rx mlme ?t = Some rx" "shape_of rx' = shape_of rx"
      "tid_rx mlme' = (tid_rx mlme)(?t := Some rx')" "agg_session_valid mlme' = agg_session_valid mlme"
  proof (cases "tid_rx mlme ?t")
    case None
    then show thesis using step that(1)
      by (auto simp: ieee80211_rx_reorder_ampdu_def Let_def split: if_splits)
  next
    case (Some rx)
    define rx0 where "rx0 = (if timeout rx \<noteq> 0 then rx\<lparr> last_rx := jiffies \<rparr> else rx)"
    have rx0: "shape_of rx0 = shape_of rx" by (simp add: rx0_def)
    have "mlme' = mlme \<or> (\<exists>rx'. shape_of rx' = shape_of rx \<and> mlme' = mlme\<lparr> tid_rx := (tid_rx mlme)(?t := Some rx') \<rparr>)"
    proof (cases "mlme' = mlme \<or> mlme' = mlme\<lparr> tid_rx := (tid_rx mlme)(?t := Some rx0) \<rparr>")
      case True
      then show ?thesis using rx0 by blast
    next
      case False
      then obtain d rx' fs where "ieee80211_sta_manage_reorder_buf jiffies rtmo skb (rx0, frames) = Some (d, rx', fs)"
        "mlme' = mlme\<lparr> tid_rx := (tid_rx mlme)(?t := Some rx') \<rparr>"
        using step unfolding ieee80211_rx_reorder_ampdu_def Let_def option.case Some rx0_def[symmetric]
        by (auto split: if_splits)
      then show ?thesis using shape_manage[of jiffies rtmo skb rx0 frames d rx' fs] rx0 by metis
    qed
    then show thesis using that Some by auto
  qed
  then show ?thesis
  proof cases
    case 1
    then show ?thesis by (rule rx_sessions_ok_cong[OF ok])
  next
    case (2 rx rx')
    then show ?thesis
      using rx_sessions_ok_put[OF ok 2(1) session_shape_keep[OF rx_sessions_okD(2)[OF ok 2(1)] 2(2)] 2(3,4)] by simp
  qed
qed

lemma rx_ba_step_ok: "rx_ba_step hw mlme mlme' \<Longrightarrow> rx_sessions_ok hw mlme \<Longrightarrow> rx_sessions_ok hw mlme'"
proof (induction rule: rx_ba_step.induct)
  case request
  then show ?case by (simp add: ieee80211_process_addba_request_def Let_def start_rx_sessions_ok split: prod.splits)
next
  case (stop_requested)
  then show ?case by (auto simp: ieee80211_stop_rx_ba_session_def intro: rx_sessions_ok_cong)
next
  case offloaded
  then show ?case by (auto simp: ieee80211_manage_rx_ba_offl_def intro: rx_sessions_ok_cong)
next
  case offloaded_expired
  then show ?case by (auto simp: ieee80211_rx_ba_timer_expired_def intro: rx_sessions_ok_cong)
next
  case frame
  then show ?case using rx_step_frame_ok by blast
next
  case reorder_timer
  then show ?case using rx_step_timers_ok(2) by blast
qed (simp_all add: start_rx_sessions_ok stop_rx_sessions_ok rx_step_timers_ok(1))

definition rx_ba_initial :: "sta_ampdu_mlme \<Rightarrow> bool" where
  "rx_ba_initial mlme \<longleftrightarrow> (\<forall>t. tid_rx mlme t = None \<and> \<not> agg_session_valid mlme t)"


subsection \<open>Properties of receive sessions\<close>

text \<open>In every state a station reaches from one without sessions, by requests, stops, timer
  expiries and received frames, each session of the table is valid, not removed, belongs to its
  TID, and has a ring of exactly its buffer size, at most 1024.  With a driver that reorders
  itself there is none; otherwise every valid session is in the table.\<close>

theorem rx_sessions_invariant:
  assumes "(rx_ba_step hw)\<^sup>*\<^sup>* mlme mlme'" "rx_ba_initial mlme"
  shows "rx_sessions_ok hw mlme'"
  using assms
proof (induction rule: rtranclp_induct)
  case base
  then show ?case by (simp add: rx_ba_initial_def rx_sessions_ok_def)
next
  case (step y z)
  then show ?case using rx_ba_step_ok by blast
qed

definition ex_agg_hw :: agg_hw where
  "ex_agg_hw = \<lparr> SUPPORTS_REORDERING_BUFFER = False, SUPPORTS_AMSDU_IN_AMPDU = True, AMPDU_AGGREGATION = True,
     TX_AMPDU_SETUP_IN_HW = False, hw_STRICT = False, has_ampdu_action = True, max_tx_aggregation_subframes = 64 \<rparr>"

definition ex_agg_peer :: agg_peer where
  "ex_agg_peer = \<lparr> valid_links = 0, ht_supported = True, ht_cap = 0, vht_supported = False, has_he = True, has_eht = True,
     s1g = False, s1g_cap3 = 0, max_rx_aggregation_subframes = 512, WLAN_STA_BLOCK_BA = False, WLAN_STA_MFP = False,
     WLAN_STA_AUTHORIZED = True, peer_vif_type = IFTYPE_STATION, peer_reserved_tid = 255, vif_hw_queue = [0, 1, 2, 3],
     parse_addba_ext = (\<lambda>es. case es of [eid, _, d] \<Rightarrow> if eid = 159 then Some d else None | _ \<Rightarrow> None) \<rparr>"

definition ex_mlme :: sta_ampdu_mlme where
  "ex_mlme = \<lparr> tid_rx = (\<lambda>_. None), tid_rx_token = (\<lambda>_. 0), tid_rx_timer_expired = (\<lambda>_. False),
     tid_rx_stop_requested = (\<lambda>_. False), tid_rx_manage_offl = (\<lambda>_. False), agg_session_valid = (\<lambda>_. False),
     unexpected_agg = (\<lambda>_. False) \<rparr>"

text \<open>A request for 64 frames on TID 5, starting at 100.\<close>

definition ex_addba_request :: "u8 list" where
  "ex_addba_request = replicate 24 0 @ [3, 0, 7] @ le16_bytes (addba_capab 1 1 5 64) @ [0, 0] @ le16_bytes 1600"

definition ex_mlme_open :: sta_ampdu_mlme where
  "ex_mlme_open = fst (ieee80211_process_addba_request ex_agg_hw ex_agg_peer (\<lambda>_. (0, 0)) (\<lambda>_. False) 0 ucast ex_addba_request ex_mlme)"

theorem rx_sessions_invariant_witness:
  "rx_sessions_ok ex_agg_hw ex_mlme_open"
proof -
  have "(rx_ba_step ex_agg_hw)\<^sup>*\<^sup>* ex_mlme ex_mlme_open"
    unfolding ex_mlme_open_def by (rule r_into_rtranclp) (rule rx_ba_step.request)
  then show ?thesis
    by (rule rx_sessions_invariant) (simp add: rx_ba_initial_def ex_mlme_def)
qed

text \<open>
  A frame in front of the starting number is passed on without touching a new session; the first
  other one starts it.
\<close>

lemma first_frame_starts:
  assumes "\<not> ieee80211_sn_less (ieee80211_get_sn (skb_data skb)) (head_seq_num rx)" "\<not> auto_seq rx"
  shows "ieee80211_sta_manage_reorder_buf jiffies rtmo skb (rx, frames) =
    ieee80211_sta_manage_reorder_buf jiffies rtmo skb (rx\<lparr> started := True \<rparr>, frames)"
  using assms by (simp add: ieee80211_sta_manage_reorder_buf_def reorder_auto_seq_def Let_def)

lemma unstarted_passes_old:
  assumes "ieee80211_sn_less (ieee80211_get_sn (skb_data skb)) (head_seq_num rx)" "\<not> auto_seq rx" "\<not> started rx"
  shows "ieee80211_sta_manage_reorder_buf jiffies rtmo skb (rx, frames) = Some (False, rx, frames)"
  using assms by (simp add: ieee80211_sta_manage_reorder_buf_def reorder_auto_seq_def Let_def)

lemma new_tid_rx_running:
  assumes "2 \<le> unat bsize" "unat bsize \<le> 1024" "unat bsize dvd 4096" "unat start_seq_num < 4096"
  shows "running rtmo ((new_tid_rx jiffies tu tmo start_seq_num t bsize False)\<lparr> started := True \<rparr>)"
  using assms by (intro empty_session_running) (simp_all add: new_tid_rx_def)

text \<open>
  The window of a session as the standard has it: what was asked for, or the limit of the peer's
  generation (64 MPDUs for HT and VHT, 256 for HE, 1024 for EHT and multi-link peers) if the
  request leaves it open, and never more than the hardware takes.  Requests beyond the limit are
  refused.
\<close>

definition generation_limit :: "agg_peer \<Rightarrow> nat" where
  "generation_limit sta = (if has_eht sta \<or> valid_links sta \<noteq> 0 then 1024 else if has_he sta then 256 else 64)"

definition session_window :: "agg_peer \<Rightarrow> nat \<Rightarrow> nat" where
  "session_window sta requested =
     min (unat (max_rx_aggregation_subframes sta)) (if requested = 0 then generation_limit sta else requested)"

text \<open>The size a request frame asks for, in its parameter field and the extension element.\<close>

definition requested_window :: "agg_peer \<Rightarrow> u8 list \<Rightarrow> nat" where
  "requested_window sta mgmt = unat (snd (ieee80211_retrieve_addba_ext_data sta (drop 33 mgmt)
     (drop_bit 6 (get_unaligned_le16 mgmt 27 AND IEEE80211_ADDBA_PARAM_BUF_SIZE_MASK))))"

lemma addba_tid_octet:
  "unat (ucast (drop_bit 2 (w AND IEEE80211_ADDBA_PARAM_TID_MASK)) :: u8) = unat (w :: u16) div 4 mod 16"
proof -
  have "drop_bit 2 (w AND IEEE80211_ADDBA_PARAM_TID_MASK) = drop_bit 2 w AND mask 4"
  proof -
    have m: "IEEE80211_ADDBA_PARAM_TID_MASK = push_bit 2 (mask 4)" by (simp add: push_bit_eq_mult mask_eq_exp_minus_1)
    show ?thesis unfolding m
      by (rule bit_word_eqI) (auto simp: bit_and_iff bit_push_bit_iff bit_drop_bit_eq bit_mask_iff dest: bit_imp_le_length)
  qed
  then have "unat (drop_bit 2 (w AND IEEE80211_ADDBA_PARAM_TID_MASK)) = unat w div 4 mod 16"
    using unsigned_less[of w, where ?'a = nat] unfolding take_bit_eq_mask[symmetric]
    by (simp only: unsigned_take_bit_eq unsigned_drop_bit_eq) (simp add: take_bit_eq_mod drop_bit_eq_div)
  moreover have "unat w div 4 mod 16 < 256" by (rule order.strict_trans1[of _ 15]) simp_all
  ultimately show ?thesis
    by (simp only: unsigned_ucast_eq) (simp add: take_bit_eq_mod)
qed

lemma max_ampdu_buf_limit: "unat (max_ampdu_buf sta) = generation_limit sta"
  by (simp add: max_ampdu_buf_def generation_limit_def)

lemma agreed_buf_size_window: "unat (agreed_buf_size sta bsize) = session_window sta (unat bsize)"
proof -
  have "unat (if z > m then m else z) = min (unat m) (unat z)" for z m :: u16
    by (simp add: word_less_nat_alt min_def)
  then show ?thesis
    unfolding agreed_buf_size_def session_window_def Let_def
    by (simp add: max_ampdu_buf_limit[symmetric] unat_eq_zero)
qed

text \<open>C11: A request that opens a session on a TID without one asks for no more than the limit of the
  peer's generation, and the session has exactly the window the standard gives it: what was asked
  for, or the limit if it was left open, and at most what the hardware takes.  It has the
  request's TID, timeout and starting number.  When the window is at least two and divides 4096,
  then whatever frames of whole MSDUs and timer expiries follow a first frame at or after the
  starting number, they are handed on in the order of their sequence numbers from the starting
  number of the request on.  (Other windows collide when the numbers wrap around, see
  \<^verbatim>\<open>reorder_window_collision\<close>.)\<close>

theorem addba_session_in_order:
  assumes ok: "rx_sessions_ok hw mlme" and none: "tid_rx mlme t = None"
    and opened: "tid_rx (fst (ieee80211_process_addba_request hw sta drv oom jiffies tu mgmt mlme)) t = Some rx"
    and size: "2 \<le> bufsz rx" "bufsz rx dvd 4096"
    and frames: "\<not> ieee80211_sn_less (ieee80211_get_sn (skb_data skb)) (ssn rx)" "\<not> amsdu_more skb"
      "\<forall>e\<in>set es. whole_msdu e"
  shows "requested_window sta mgmt \<le> generation_limit sta \<and> bufsz rx = session_window sta (requested_window sta mgmt) \<and>
    unat t = unat (get_unaligned_le16 mgmt 27) div 4 mod 16 \<and> timeout rx = get_unaligned_le16 mgmt 29 \<and>
    ssn rx = drop_bit 4 (get_unaligned_le16 mgmt 31) \<and> head_seq_num rx = ssn rx \<and>
    (\<exists>rx' out. reorder_run rtmo ((now, Rx_frame skb) # es) rx = Some (rx', out) \<and> running rtmo rx' \<and>
       length (frame_numbers rtmo p ((now, Rx_frame skb) # es) rx) = length out \<and>
       sorted_wrt (<) (frame_numbers rtmo p ((now, Rx_frame skb) # es) rx))"
proof -
  define w where "w = get_unaligned_le16 mgmt 31"
  define z where "z = drop_bit 6 (get_unaligned_le16 mgmt 27 AND IEEE80211_ADDBA_PARAM_BUF_SIZE_MASK)"
  define tmo where "tmo = get_unaligned_le16 mgmt 29"
  define t' where "t' = drop_bit 2 (get_unaligned_le16 mgmt 27 AND IEEE80211_ADDBA_PARAM_TID_MASK)"
  obtain ext bsize where ret: "ieee80211_retrieve_addba_ext_data sta (drop 33 mgmt) z = (ext, bsize)"
    by (cases "ieee80211_retrieve_addba_ext_data sta (drop 33 mgmt) z")
  then have asked: "requested_window sta mgmt = unat bsize"
    by (simp add: requested_window_def z_def)
  obtain dialog_token ba_policy where
    "ieee80211_process_addba_request hw sta drv oom jiffies tu mgmt mlme =
       ieee80211_start_rx_ba_session hw sta drv oom jiffies tu dialog_token tmo (drop_bit 4 w) ba_policy t' bsize True False ext mlme"
    using ret unfolding ieee80211_process_addba_request_def Let_def w_def z_def tmo_def t'_def by (metis prod.case)
  then have rx: "rx = new_tid_rx jiffies tu tmo (drop_bit 4 w) t' (agreed_buf_size sta bsize) False"
    "unat (agreed_buf_size sta bsize) \<le> 1024" "\<not> bsize > max_ampdu_buf sta" "t = ucast t'"
    using start_rx_session_new[OF ok, of t rx] none opened by auto
  have fields: "buf_size rx = agreed_buf_size sta bsize" "ssn rx = drop_bit 4 w" "head_seq_num rx = drop_bit 4 w" "\<not> auto_seq rx"
    "timeout rx = tmo"
    by (simp_all add: rx(1) new_tid_rx_def)
  have limits: "unat bsize \<le> generation_limit sta" "bufsz rx = session_window sta (unat bsize)"
    using rx(3) by (simp_all add: max_ampdu_buf_limit[symmetric] word_less_nat_alt fields(1) agreed_buf_size_window)
  have tid: "unat t = unat (get_unaligned_le16 mgmt 27) div 4 mod 16"
    unfolding rx(4) t'_def by (rule addba_tid_octet)
  have "unat (drop_bit 4 w) < 4096"
    using unsigned_less[of w, where ?'a = nat] by (simp add: drop_bit_eq_div unat_div)
  then have run: "running rtmo (rx\<lparr> started := True \<rparr>)"
    using size rx(2) fields(1) unfolding rx(1) by (intro new_tid_rx_running) simp_all
  have "reorder_run rtmo ((now, Rx_frame skb) # es) rx = reorder_run rtmo ((now, Rx_frame skb) # es) (rx\<lparr> started := True \<rparr>)"
    "frame_numbers rtmo p ((now, Rx_frame skb) # es) rx = frame_numbers rtmo p ((now, Rx_frame skb) # es) (rx\<lparr> started := True \<rparr>)"
    using first_frame_starts[of skb rx now rtmo "[]"] frames(1) fields by (simp_all split: option.split)
  moreover have whole: "\<forall>e\<in>set ((now, Rx_frame skb) # es). whole_msdu e"
    using frames(2,3) by (simp add: whole_msdu_def)
  ultimately show ?thesis
    using reorder_run_in_order[OF run whole, of p] limits tid fields
    by (auto simp: asked w_def tmo_def simp del: reorder_run.simps frame_numbers.simps)
qed

definition ex_open_rx :: tid_ampdu_rx where
  "ex_open_rx = the (tid_rx ex_mlme_open 5)"

lemma ex_open_rx_facts:
  "\<not> Option.is_none (tid_rx ex_mlme_open 5)" "buf_size ex_open_rx = 64" "ssn ex_open_rx = 100"
  by code_simp+

definition ex_open_events :: "(u64 \<times> reorder_event) list" where
  "ex_open_events = [(0, Rx_frame (ex_mpdu 102 False)), (1, Rx_frame (ex_mpdu 100 False)), (40, Reorder_timer)]"

theorem addba_session_in_order_witness:
  "\<exists>rx' out. reorder_run 25 ex_open_events ex_open_rx = Some (rx', out) \<and> running 25 rx' \<and>
     length (frame_numbers 25 100 ex_open_events ex_open_rx) = length out \<and>
     sorted_wrt (<) (frame_numbers 25 100 ex_open_events ex_open_rx)"
proof -
  have "rx_sessions_ok ex_agg_hw ex_mlme" by (simp add: rx_sessions_ok_def ex_mlme_def)
  moreover have "tid_rx ex_mlme 5 = None" by (simp add: ex_mlme_def)
  moreover have "tid_rx (fst (ieee80211_process_addba_request ex_agg_hw ex_agg_peer (\<lambda>_. (0, 0)) (\<lambda>_. False) 0 ucast
      ex_addba_request ex_mlme)) 5 = Some ex_open_rx"
    using ex_open_rx_facts(1) by (simp add: ex_open_rx_def ex_mlme_open_def Option.is_none_def)
  moreover have "\<not> ieee80211_sn_less (ieee80211_get_sn (skb_data (ex_mpdu 102 False))) 100" "\<not> amsdu_more (ex_mpdu 102 False)"
    "\<not> amsdu_more (ex_mpdu 100 False)"
    by code_simp+
  ultimately show ?thesis
    using addba_session_in_order[of ex_agg_hw ex_mlme 5 ex_agg_peer "\<lambda>_. (0, 0)" "\<lambda>_. False" 0 ucast ex_addba_request ex_open_rx
        "ex_mpdu 102 False" "[(1, Rx_frame (ex_mpdu 100 False)), (40, Reorder_timer)]" 25 0 100] ex_open_rx_facts(2,3)
    unfolding ex_open_events_def by (simp add: whole_msdu_def del: reorder_run.simps frame_numbers.simps)
qed


text \<open>
  With a driver that reorders itself a repeated request (same token and timeout) is declined
  although the session stays open and the driver is not told: there is no session to compare
  the timeout with.
\<close>

theorem addba_retry_declined:
  assumes "rx_sessions_ok hw mlme" "SUPPORTS_REORDERING_BUFFER hw" "rx_ba_refused sta ba_policy t bsize = None"
    "agg_session_valid mlme (ucast t)" "tid_rx_token mlme (ucast t) = dialog_token"
  shows "ieee80211_start_rx_ba_session hw sta drv oom jiffies tu dialog_token tmo start_seq_num ba_policy t bsize True auto ext mlme
    = (mlme, ieee80211_send_addba_resp hw sta oom t dialog_token WLAN_STATUS_REQUEST_DECLINED 1
               (agreed_buf_size sta bsize) tmo ext)"
  using assms rx_sessions_okD(3)[OF assms(1,2), of "ucast t"]
  by (simp add: ieee80211_start_rx_ba_session_def rx_ba_session_status_def Let_def)

theorem addba_retry_declined_witness:
  "fst (ieee80211_start_rx_ba_session (ex_agg_hw\<lparr> SUPPORTS_REORDERING_BUFFER := True \<rparr>) ex_agg_peer (\<lambda>_. (0, 0)) (\<lambda>_. False) 0 ucast
     7 0 100 1 5 64 True False 0 (ex_mlme\<lparr> agg_session_valid := (\<lambda>t. t = 5), tid_rx_token := (\<lambda>_. 7) \<rparr>))
   = ex_mlme\<lparr> agg_session_valid := (\<lambda>t. t = 5), tid_rx_token := (\<lambda>_. 7) \<rparr>"
  by (subst addba_retry_declined)
    (simp_all add: rx_sessions_ok_def ex_mlme_def rx_ba_refused_def ex_agg_peer_def ex_agg_hw_def max_ampdu_buf_def)

text \<open>A removed session never sets its reorder timer again.\<close>

lemma removed_timer_stays:
  assumes "removed rx" "ieee80211_sta_reorder_release jiffies rtmo (rx, frames) = Some (rx', frames')"
  shows "removed rx' \<and> (reorder_timer rx' = None \<or> reorder_timer rx' = reorder_timer rx)"
proof -
  have keep: "reorder_timer (fst (ieee80211_release_reorder_frame i r)) = reorder_timer (fst r)" for i r
    by (cases r) (simp add: ieee80211_release_reorder_frame_def Let_def)
  have loop: "reorder_timer (fst (snd (reorder_timeout_loop jiffies rtmo i js skipped r))) = reorder_timer (fst r)" for i js skipped r
  proof (induction jiffies rtmo i js skipped r rule: reorder_timeout_loop.induct)
    case (2 jiffies tmo i j js skipped rx frames)
    obtain rx' frames' where "ieee80211_release_reorder_frame j (purge_upto i j rx, frames) = (rx', frames')" by fastforce
    moreover have "reorder_timer (purge_upto i j rx) = reorder_timer rx" by (simp add: purge_upto_def)
    ultimately have "reorder_timer rx' = reorder_timer rx"
      using keep[of j "(purge_upto i j rx, frames)"] by simp
    then show ?case
      using 2 \<open>ieee80211_release_reorder_frame j (purge_upto i j rx, frames) = (rx', frames')\<close> by auto
  qed simp
  have order: "reorder_timer (fst (release_in_order n r)) = reorder_timer (fst r)" for n r
    by (induction n r rule: release_in_order.induct) (simp_all add: Let_def keep)
  let ?i = "slot rx (head_seq_num rx)"
  define p where "p = (if \<not> ieee80211_rx_reorder_ready rx ?i \<and> stored_mpdu_num rx \<noteq> 0
      then reorder_timeout_loop jiffies rtmo ?i (ring_after ?i (bufsz rx)) 1 (rx, frames)
      else (None, release_in_order (bufsz rx) (rx, frames)))"
  have p: "reorder_timer (fst (snd p)) = reorder_timer rx" "shape_of (fst (snd p)) = shape_of rx"
    by (simp_all add: p_def loop order shape_timeout_loop)
  then have "removed (fst (snd p))" using assms(1) by (simp add: shape_of_def)
  then have "reorder_timer (fst r) = reorder_timer rx" if "set_release_timer rtmo j (snd p) = r" for j r
    using p(1) that by (cases "snd p") (auto simp: set_release_timer_def)
  note set = this
  obtain out q where pq: "p = (out, q)" by (cases p)
  consider j where "set_release_timer rtmo j q = (rx', frames')" | "rx' = (fst q)\<lparr> reorder_timer := None \<rparr>"
    using assms(2) unfolding ieee80211_sta_reorder_release_def Let_def fst_conv p_def[symmetric] pq
    by (auto split: option.splits if_splits)
  then have "reorder_timer rx' = None \<or> reorder_timer rx' = reorder_timer rx"
    using set pq by cases force+
  then show ?thesis
    using shape_sta_release[OF assms(2)] assms(1) by (simp add: shape_of_def)
qed

end
