(* ===== verification/Agg_Tx.thy ===== *)
theory Agg_Tx
  imports Agg
begin

text \<open>
  Transmit block-ack sessions, \<^verbatim>\<open>mac80211/agg-tx.c\<close>, with the part of \<^verbatim>\<open>tx.c\<close> that queues frames of
  a session being set up.  A session goes from the start array to the table, is offered to the
  driver, asked for at the peer with an ADDBA request, and becomes operational when driver and
  peer have both agreed; it is stopped in two steps, the second when the driver has called back.

  An operation takes and returns the transmit state \<open>agg_tx_sta\<close>, with its effects in order.
  \<open>None\<close> is a null pointer access.  Functions here run under the mutex of the wiphy or the lock
  of the station, so each is one step.
\<close>

text \<open>The bits of the session's state word.\<close>

datatype agg_state_bit =
  HT_AGG_STATE_DRV_READY | HT_AGG_STATE_RESPONSE_RECEIVED | HT_AGG_STATE_OPERATIONAL | HT_AGG_STATE_STOPPING |
  HT_AGG_STATE_WANT_START | HT_AGG_STATE_WANT_STOP | HT_AGG_STATE_START_CB | HT_AGG_STATE_STOP_CB |
  HT_AGG_STATE_SENT_ADDBA

datatype ieee80211_agg_stop_reason =
  AGG_STOP_DECLINED | AGG_STOP_LOCAL_REQUEST | AGG_STOP_PEER_REQUEST | AGG_STOP_DESTROY_STA

record tid_ampdu_tx =
  tx_session_timer :: "u64 option"
  addba_resp_timer :: "u64 option"
  pending :: "sk_buff list"
  state :: "agg_state_bit set"
  last_tx :: u64
  tx_timeout :: u16
  dialog_token :: u8
  stop_initiator :: u16
  tx_stop :: bool
  tx_buf_size :: u16
  tx_ssn :: u16
  tx_amsdu :: bool
  tx_tid :: u8

text \<open>The flags of a transmit queue the sessions change, and whether fragments are waiting in it.\<close>

record txq_info =
  TXQ_STOP :: bool
  TXQ_AMPDU :: bool
  TXQ_NO_AMSDU :: bool
  txq_frags :: "sk_buff list"

record agg_tx_sta =
  tid_tx :: "u8 \<Rightarrow> tid_ampdu_tx option"
  tid_start_tx :: "u8 \<Rightarrow> tid_ampdu_tx option"
  last_addba_req_time :: "u8 \<Rightarrow> u64"
  addba_req_num :: "u8 \<Rightarrow> u8"
  dialog_token_allocator :: u8
  tid_seq :: "u8 \<Rightarrow> u16"
  sta_txq :: "u8 \<Rightarrow> txq_info option"
  agg_queue_stop :: "nat \<Rightarrow> int"
  local_pending :: "nat \<Rightarrow> sk_buff list"

abbreviation (input) HT_AGG_MAX_RETRIES :: u8 where "HT_AGG_MAX_RETRIES \<equiv> 15"
abbreviation (input) HT_AGG_BURST_RETRIES :: u8 where "HT_AGG_BURST_RETRIES \<equiv> 3"
abbreviation (input) STA_MAX_TX_BUFFER :: nat where "STA_MAX_TX_BUFFER \<equiv> 64"
abbreviation (input) AMPDU_TX_START_IMMEDIATE :: int where "AMPDU_TX_START_IMMEDIATE \<equiv> 1"
abbreviation (input) AMPDU_TX_START_DELAY_ADDBA :: int where "AMPDU_TX_START_DELAY_ADDBA \<equiv> 2"
abbreviation (input) EINVAL :: int where "EINVAL \<equiv> 22"
abbreviation (input) ENOENT :: int where "ENOENT \<equiv> 2"
abbreviation (input) EAGAIN :: int where "EAGAIN \<equiv> 11"
abbreviation (input) ENOMEM :: int where "ENOMEM \<equiv> 12"
abbreviation (input) EBUSY :: int where "EBUSY \<equiv> 16"
abbreviation (input) EALREADY :: int where "EALREADY \<equiv> 114"
abbreviation (input) IEEE80211_TX_CTL_NO_PS_BUFFER :: u32 where "IEEE80211_TX_CTL_NO_PS_BUFFER \<equiv> 0x20000"
abbreviation (input) IEEE80211_TX_INTCFL_NEED_TXPROCESSING :: u32 where "IEEE80211_TX_INTCFL_NEED_TXPROCESSING \<equiv> 0x40"
abbreviation (input) IEEE80211_TX_TEMPORARY_FLAGS :: u32 where "IEEE80211_TX_TEMPORARY_FLAGS \<equiv> 0x11c61f7c"

definition agg_set_bit :: "agg_state_bit \<Rightarrow> tid_ampdu_tx \<Rightarrow> tid_ampdu_tx" where
  "agg_set_bit b x = x\<lparr> state := insert b (state x) \<rparr>"

definition agg_clear_bit :: "agg_state_bit \<Rightarrow> tid_ampdu_tx \<Rightarrow> tid_ampdu_tx" where
  "agg_clear_bit b x = x\<lparr> state := state x - {b} \<rparr>"

definition ieee80211_assign_tid_tx :: "u8 \<Rightarrow> tid_ampdu_tx option \<Rightarrow> agg_tx_sta \<Rightarrow> agg_tx_sta" where
  "ieee80211_assign_tid_tx t x st = st\<lparr> tid_tx := (tid_tx st)(t := x) \<rparr>"

subsection \<open>Queues\<close>

definition ieee80211_ac_from_tid :: "u8 \<Rightarrow> u16" where
  "ieee80211_ac_from_tid t = ieee802_1d_to_ac ! unat (t AND 7)"

definition agg_queue :: "agg_peer \<Rightarrow> u8 \<Rightarrow> nat" where
  "agg_queue sta t = vif_hw_queue sta ! unat (ieee80211_ac_from_tid t)"

definition ieee80211_stop_queue_agg :: "agg_peer \<Rightarrow> u8 \<Rightarrow> agg_tx_sta \<Rightarrow> agg_tx_sta \<times> ba_event list" where
  "ieee80211_stop_queue_agg sta t st =
     (let q = agg_queue sta t; n = agg_queue_stop st q + 1 in
      (st\<lparr> agg_queue_stop := (agg_queue_stop st)(q := n) \<rparr>, if n = 1 then [Stop_queue q] else []))"

definition ieee80211_wake_queue_agg :: "agg_peer \<Rightarrow> u8 \<Rightarrow> agg_tx_sta \<Rightarrow> agg_tx_sta \<times> ba_event list" where
  "ieee80211_wake_queue_agg sta t st =
     (let q = agg_queue sta t; n = agg_queue_stop st q - 1 in
      (st\<lparr> agg_queue_stop := (agg_queue_stop st)(q := n) \<rparr>, if n = 0 then [Wake_queue q] else []))"

definition ieee80211_agg_stop_txq :: "u8 \<Rightarrow> agg_tx_sta \<Rightarrow> agg_tx_sta" where
  "ieee80211_agg_stop_txq t st =
     (case sta_txq st t of
        None \<Rightarrow> st
      | Some q \<Rightarrow> st\<lparr> sta_txq := (sta_txq st)(t := Some (q\<lparr> TXQ_STOP := True \<rparr>)) \<rparr>)"

definition ieee80211_agg_start_txq :: "u8 \<Rightarrow> bool \<Rightarrow> agg_tx_sta \<Rightarrow> agg_tx_sta \<times> ba_event list" where
  "ieee80211_agg_start_txq t enable st =
     (case sta_txq st t of
        None \<Rightarrow> (st, [])
      | Some q \<Rightarrow> (st\<lparr> sta_txq := (sta_txq st)(t := Some (q\<lparr> TXQ_AMPDU := enable, TXQ_STOP := False \<rparr>)) \<rparr>, [Wake_txq t]))"

text \<open>
  The frames waiting in the session of TID \<open>t\<close> go to the pending frames of its queue, while the
  queue is stopped.
\<close>

definition ieee80211_agg_splice_packets :: "agg_peer \<Rightarrow> u8 \<Rightarrow> agg_tx_sta \<Rightarrow> agg_tx_sta \<times> ba_event list" where
  "ieee80211_agg_splice_packets sta t st =
     (let q = agg_queue sta t; (st, evs) = ieee80211_stop_queue_agg sta t st in
      case tid_tx st t of
        None \<Rightarrow> (st, evs)
      | Some x \<Rightarrow>
          (st\<lparr> tid_tx := (tid_tx st)(t := Some (x\<lparr> pending := [] \<rparr>)),
               local_pending := (local_pending st)(q := local_pending st q @ pending x) \<rparr>, evs))"

definition ieee80211_agg_splice_finish :: "agg_peer \<Rightarrow> u8 \<Rightarrow> agg_tx_sta \<Rightarrow> agg_tx_sta \<times> ba_event list" where
  "ieee80211_agg_splice_finish sta t st = ieee80211_wake_queue_agg sta t st"

text \<open>\<^verbatim>\<open>timer_shutdown\<close> of both timers frees nothing more: the session is dropped with them.\<close>

definition ieee80211_remove_tid_tx :: "agg_peer \<Rightarrow> u8 \<Rightarrow> agg_tx_sta \<Rightarrow> agg_tx_sta \<times> ba_event list" where
  "ieee80211_remove_tid_tx sta t st =
     (let (st, evs) = ieee80211_agg_splice_packets sta t st;
          st = ieee80211_assign_tid_tx t None st;
          (st, evs') = ieee80211_agg_splice_finish sta t st
      in (st, evs @ evs'))"


subsection \<open>Stopping a session\<close>

text \<open>The result is the return value, the state and the effects.\<close>

definition ieee80211_stop_tx_session ::
    "u8 \<Rightarrow> ieee80211_agg_stop_reason \<Rightarrow> agg_tx_sta \<Rightarrow> int \<times> agg_tx_sta \<times> ba_event list" where
  "ieee80211_stop_tx_session t reason st =
     (let action = (if reason = AGG_STOP_DESTROY_STA then AMPDU_TX_STOP_FLUSH else AMPDU_TX_STOP_CONT);
          params = \<lparr> par_action = action, par_tid = ucast t, par_ssn = 0, par_buf_size = 0,
                     par_amsdu = False, par_timeout = 0 \<rparr>;
          st = st\<lparr> tid_start_tx := (tid_start_tx st)(t := None) \<rparr>
      in case tid_tx st t of
           None \<Rightarrow> (- ENOENT, st, [])
         | Some x \<Rightarrow>
             if HT_AGG_STATE_STOPPING \<in> state x
             then (if reason \<noteq> AGG_STOP_DESTROY_STA then (- EALREADY, st, [])
                   else (0, st, [Drv_ampdu_action (params\<lparr> par_action := AMPDU_TX_STOP_FLUSH_CONT \<rparr>)]))
             else if HT_AGG_STATE_WANT_START \<in> state x
             then (0, ieee80211_assign_tid_tx t None st, [])
             else
               (let x = agg_set_bit HT_AGG_STATE_STOPPING x;
                    x = x\<lparr> addba_resp_timer := None, tx_session_timer := None \<rparr>;
                    x = agg_clear_bit HT_AGG_STATE_OPERATIONAL x;
                    x = x\<lparr> stop_initiator := (if reason = AGG_STOP_PEER_REQUEST then WLAN_BACK_RECIPIENT
                                              else WLAN_BACK_INITIATOR),
                           tx_stop := (reason = AGG_STOP_LOCAL_REQUEST) \<rparr>
                in (0, ieee80211_assign_tid_tx t (Some x) (ieee80211_agg_stop_txq t st), [Drv_ampdu_action params])))"

definition ieee80211_stop_tx_ba_session :: "agg_hw \<Rightarrow> u8 \<Rightarrow> agg_tx_sta \<Rightarrow> int \<times> agg_tx_sta \<times> ba_event list" where
  "ieee80211_stop_tx_ba_session hw t st =
     (if \<not> has_ampdu_action hw \<or> unat t \<ge> IEEE80211_NUM_TIDS then (- EINVAL, st, [])
      else (case tid_tx st t of
          None \<Rightarrow> (- ENOENT, st, [])
        | Some x \<Rightarrow>
            if HT_AGG_STATE_STOPPING \<in> state x then (0, st, [])
            else (0, ieee80211_assign_tid_tx t (Some (agg_set_bit HT_AGG_STATE_WANT_STOP x)) st, [Queue_work])))"

definition sta_addba_resp_timer_expired :: "agg_hw \<Rightarrow> u8 \<Rightarrow> agg_tx_sta \<Rightarrow> agg_tx_sta \<times> ba_event list" where
  "sta_addba_resp_timer_expired hw t st =
     (case tid_tx st t of
        None \<Rightarrow> (st, [])
      | Some x \<Rightarrow>
          (let st = ieee80211_assign_tid_tx t (Some (x\<lparr> addba_resp_timer := None \<rparr>)) st in
           if HT_AGG_STATE_RESPONSE_RECEIVED \<in> state x then (st, [])
           else snd (ieee80211_stop_tx_ba_session hw t st)))"

definition sta_tx_agg_session_timer_expired ::
    "agg_hw \<Rightarrow> u64 \<Rightarrow> (u16 \<Rightarrow> u64) \<Rightarrow> u8 \<Rightarrow> agg_tx_sta \<Rightarrow> agg_tx_sta \<times> ba_event list" where
  "sta_tx_agg_session_timer_expired hw jiffies tu_to_jiffies t st =
     (case tid_tx st t of
        None \<Rightarrow> (st, [])
      | Some x \<Rightarrow>
          (let x = x\<lparr> tx_session_timer := None \<rparr>; expiry = last_tx x + tu_to_jiffies (tx_timeout x) in
           if HT_AGG_STATE_STOPPING \<in> state x then (ieee80211_assign_tid_tx t (Some x) st, [])
           else if time_after expiry jiffies
           then (ieee80211_assign_tid_tx t (Some (x\<lparr> tx_session_timer := Some expiry \<rparr>)) st, [])
           else snd (ieee80211_stop_tx_ba_session hw t (ieee80211_assign_tid_tx t (Some x) st))))"

text \<open>The driver's call back after a stop, and the work that follows it.\<close>

definition ieee80211_stop_tx_ba_cb ::
    "agg_peer \<Rightarrow> (ba_alloc \<Rightarrow> bool) \<Rightarrow> u8 \<Rightarrow> agg_tx_sta \<Rightarrow> (agg_tx_sta \<times> ba_event list) option" where
  "ieee80211_stop_tx_ba_cb sta oom t st =
     (case tid_tx st t of
        None \<Rightarrow> None
      | Some x \<Rightarrow>
          if HT_AGG_STATE_STOPPING \<notin> state x then Some (st, [])
          else
            (let send_delba = (stop_initiator x = WLAN_BACK_INITIATOR \<and> tx_stop x);
                 (st, evs) = ieee80211_remove_tid_tx sta t st;
                 (st, evs') = ieee80211_agg_start_txq t False st
             in Some (st, evs @ evs' @ (if send_delba then
                  ieee80211_send_delba oom (ucast t) WLAN_BACK_INITIATOR WLAN_REASON_QSTA_NOT_USE else []))))"

definition ieee80211_stop_tx_ba_cb_irqsafe :: "u8 \<Rightarrow> agg_tx_sta option \<Rightarrow> agg_tx_sta option \<times> ba_event list" where
  "ieee80211_stop_tx_ba_cb_irqsafe t sta =
     (if unat t \<ge> IEEE80211_NUM_TIDS then (sta, [])
      else (case sta of
          None \<Rightarrow> (None, [])
        | Some st \<Rightarrow> (case tid_tx st t of
              None \<Rightarrow> (Some st, [])
            | Some x \<Rightarrow> (Some (ieee80211_assign_tid_tx t (Some (agg_set_bit HT_AGG_STATE_STOP_CB x)) st), [Queue_work]))))"

subsection \<open>Starting a session\<close>

definition addba_request_buf_size :: "agg_hw \<Rightarrow> agg_peer \<Rightarrow> u16" where
  "addba_request_buf_size hw sta =
     (if valid_links sta \<noteq> 0 \<or> has_eht sta \<or> hw_STRICT hw then max_tx_aggregation_subframes hw
      else if has_he sta then min (max_tx_aggregation_subframes hw) IEEE80211_MAX_AMPDU_BUF_HE
      else IEEE80211_MAX_AMPDU_BUF_HT)"

text \<open>The request is sent and its timer set; \<open>hz\<close> is the tick rate.\<close>

definition ieee80211_send_addba_with_timeout ::
    "agg_hw \<Rightarrow> agg_peer \<Rightarrow> (ba_alloc \<Rightarrow> bool) \<Rightarrow> u64 \<Rightarrow> u64 \<Rightarrow> tid_ampdu_tx \<Rightarrow> agg_tx_sta \<Rightarrow> agg_tx_sta \<times> ba_event list" where
  "ieee80211_send_addba_with_timeout hw sta oom hz jiffies x st =
     (if HT_AGG_STATE_STOPPING \<in> state x \<or> HT_AGG_STATE_WANT_STOP \<in> state x then (st, [])
      else
        (let t = tx_tid x; x = x\<lparr> addba_resp_timer := Some (jiffies + hz) \<rparr> in
         ((ieee80211_assign_tid_tx t (Some (agg_set_bit HT_AGG_STATE_SENT_ADDBA x)) st)
            \<lparr> last_addba_req_time := (last_addba_req_time st)(t := jiffies),
              addba_req_num := (addba_req_num st)(t := addba_req_num st t + 1) \<rparr>,
          ieee80211_send_addba_request sta oom (ucast t) (dialog_token x) (tx_ssn x)
            (addba_request_buf_size hw sta) (tx_timeout x))))"

text \<open>The driver's answer decides how the start goes on: later, at once, or not at all.\<close>

definition ieee80211_tx_ba_session_handle_start ::
    "agg_hw \<Rightarrow> agg_peer \<Rightarrow> ampdu_driver \<Rightarrow> (ba_alloc \<Rightarrow> bool) \<Rightarrow> u64 \<Rightarrow> u64 \<Rightarrow> u8 \<Rightarrow> agg_tx_sta \<Rightarrow>
     (agg_tx_sta \<times> ba_event list) option" where
  "ieee80211_tx_ba_session_handle_start hw sta drv oom hz jiffies t st =
     (case tid_tx st t of
        None \<Rightarrow> None
      | Some x \<Rightarrow>
          (let params = \<lparr> par_action = AMPDU_TX_START, par_tid = ucast t, par_ssn = drop_bit 4 (tid_seq st t),
                          par_buf_size = 0, par_amsdu = False, par_timeout = 0 \<rparr>;
               (ret, start_ssn) = drv params;
               x = (agg_clear_bit HT_AGG_STATE_WANT_START x)\<lparr> tx_ssn := start_ssn \<rparr>;
               st = ieee80211_assign_tid_tx t (Some x) st
           in if ret = AMPDU_TX_START_DELAY_ADDBA then Some (st, [Drv_ampdu_action params])
              else if ret \<noteq> 0 \<and> ret \<noteq> AMPDU_TX_START_IMMEDIATE
              then (let (st, evs) = ieee80211_agg_splice_packets sta t st;
                        st = ieee80211_assign_tid_tx t None st;
                        (st, evs') = ieee80211_agg_splice_finish sta t st;
                        (st, evs'') = ieee80211_agg_start_txq t False st
                    in Some (st, Drv_ampdu_action params # evs @ evs' @ evs''))
              else (let x = (if ret = AMPDU_TX_START_IMMEDIATE then agg_set_bit HT_AGG_STATE_DRV_READY x else x);
                        (st, evs) = ieee80211_send_addba_with_timeout hw sta oom hz jiffies x
                                      (ieee80211_assign_tid_tx t (Some x) st)
                    in Some (st, Drv_ampdu_action params # evs))))"


definition new_tid_tx :: "u8 \<Rightarrow> u16 \<Rightarrow> u8 \<Rightarrow> tid_ampdu_tx" where
  "new_tid_tx t tmo token =
     \<lparr> tx_session_timer = None, addba_resp_timer = None, pending = [], state = {HT_AGG_STATE_WANT_START}, last_tx = 0,
       tx_timeout = tmo, dialog_token = token, stop_initiator = 0, tx_stop = False, tx_buf_size = 0, tx_ssn = 0,
       tx_amsdu = False, tx_tid = t \<rparr>"

text \<open>The checks that need no state: the peer, the driver and the interface allow sessions.\<close>

definition tx_ba_allowed :: "agg_hw \<Rightarrow> agg_peer \<Rightarrow> u8 \<Rightarrow> bool" where
  "tx_ba_allowed hw sta t \<longleftrightarrow>
     peer_reserved_tid sta \<noteq> t \<and>
     (valid_links sta \<noteq> 0 \<or> ht_supported sta \<or> vht_supported sta \<or> has_he sta \<or> has_eht sta \<or> s1g sta) \<and>
     has_ampdu_action hw \<and>
     unat t < IEEE80211_NUM_TIDS \<and> AMPDU_AGGREGATION hw \<and> \<not> TX_AMPDU_SETUP_IN_HW hw \<and>
     t < 8 \<and>
     peer_vif_type sta \<in> {IFTYPE_STATION, IFTYPE_MESH_POINT, IFTYPE_AP_VLAN, IFTYPE_AP, IFTYPE_ADHOC} \<and>
     \<not> WLAN_STA_BLOCK_BA sta \<and>
     \<not> (WLAN_STA_MFP sta \<and> \<not> WLAN_STA_AUTHORIZED sta) \<and>
     \<not> (peer_vif_type sta = IFTYPE_ADHOC \<and> \<not> ht_supported sta)"

definition ieee80211_start_tx_ba_session ::
    "agg_hw \<Rightarrow> agg_peer \<Rightarrow> (ba_alloc \<Rightarrow> bool) \<Rightarrow> u64 \<Rightarrow> u64 \<Rightarrow> u8 \<Rightarrow> u16 \<Rightarrow> agg_tx_sta \<Rightarrow> int \<times> agg_tx_sta \<times> ba_event list" where
  "ieee80211_start_tx_ba_session hw sta oom hz jiffies t tmo st =
     (if \<not> tx_ba_allowed hw sta t then (- EINVAL, st, [])
      else if addba_req_num st t > HT_AGG_MAX_RETRIES then (- EBUSY, st, [])
      else if addba_req_num st t > HT_AGG_BURST_RETRIES \<and> time_after (last_addba_req_time st t + 15 * hz) jiffies
      then (- EBUSY, st, [])
      else if tid_tx st t \<noteq> None \<or> tid_start_tx st t \<noteq> None then (- EAGAIN, st, [])
      else if oom Alloc_session then (- ENOMEM, st, [])
      else (let token = dialog_token_allocator st + 1 in
            (0, st\<lparr> dialog_token_allocator := token, tid_start_tx := (tid_start_tx st)(t := Some (new_tid_tx t tmo token)) \<rparr>,
             [Queue_work])))"

subsection \<open>Agreement\<close>

definition ieee80211_agg_tx_operational ::
    "agg_peer \<Rightarrow> u8 \<Rightarrow> agg_tx_sta \<Rightarrow> (agg_tx_sta \<times> ba_event list) option" where
  "ieee80211_agg_tx_operational sta t st =
     (case tid_tx st t of
        None \<Rightarrow> None
      | Some x \<Rightarrow>
          (let params = \<lparr> par_action = AMPDU_TX_OPERATIONAL, par_tid = ucast t, par_ssn = 0, par_buf_size = tx_buf_size x,
                          par_amsdu = tx_amsdu x, par_timeout = 0 \<rparr>;
               (st, evs) = ieee80211_agg_splice_packets sta t st;
               st = ieee80211_assign_tid_tx t (map_option (agg_set_bit HT_AGG_STATE_OPERATIONAL) (tid_tx st t)) st;
               (st, evs') = ieee80211_agg_splice_finish sta t st;
               (st, evs'') = ieee80211_agg_start_txq t True st
           in Some (st, Drv_ampdu_action params # evs @ evs' @ evs'')))"

definition ieee80211_start_tx_ba_cb ::
    "agg_hw \<Rightarrow> agg_peer \<Rightarrow> (ba_alloc \<Rightarrow> bool) \<Rightarrow> u64 \<Rightarrow> u64 \<Rightarrow> u8 \<Rightarrow> agg_tx_sta \<Rightarrow> (agg_tx_sta \<times> ba_event list) option" where
  "ieee80211_start_tx_ba_cb hw sta oom hz jiffies t st =
     (case tid_tx st t of
        None \<Rightarrow> None
      | Some x \<Rightarrow>
          if HT_AGG_STATE_DRV_READY \<in> state x then Some (st, [])
          else
            (let x = agg_set_bit HT_AGG_STATE_DRV_READY x; st = ieee80211_assign_tid_tx t (Some x) st in
             if HT_AGG_STATE_STOPPING \<in> state x \<or> HT_AGG_STATE_WANT_STOP \<in> state x then Some (st, [])
             else if HT_AGG_STATE_SENT_ADDBA \<notin> state x
             then Some (ieee80211_send_addba_with_timeout hw sta oom hz jiffies x st)
             else if HT_AGG_STATE_RESPONSE_RECEIVED \<in> state x then ieee80211_agg_tx_operational sta t st
             else Some (st, [])))"

definition ieee80211_start_tx_ba_cb_irqsafe :: "u8 \<Rightarrow> agg_tx_sta option \<Rightarrow> agg_tx_sta option \<times> ba_event list" where
  "ieee80211_start_tx_ba_cb_irqsafe t sta =
     (if unat t \<ge> IEEE80211_NUM_TIDS then (sta, [])
      else (case sta of
          None \<Rightarrow> (None, [])
        | Some st \<Rightarrow> (case tid_tx st t of
              None \<Rightarrow> (Some st, [])
            | Some x \<Rightarrow> (Some (ieee80211_assign_tid_tx t (Some (agg_set_bit HT_AGG_STATE_START_CB x)) st), [Queue_work]))))"

text \<open>
  The peer's response.  \<open>mgmt\<close> is the received frame.  The status and the size decide between an
  agreement and the end of the session; a duplicate is ignored.
\<close>

definition addba_resp_agreed ::
    "agg_peer \<Rightarrow> u64 \<Rightarrow> (u16 \<Rightarrow> u64) \<Rightarrow> u16 \<Rightarrow> bool \<Rightarrow> u16 \<Rightarrow> u8 \<Rightarrow> tid_ampdu_tx \<Rightarrow> agg_tx_sta \<Rightarrow>
     (agg_tx_sta \<times> ba_event list) option" where
  "addba_resp_agreed sta jiffies tu_to_jiffies bsize amsdu tmo t x st =
     (if HT_AGG_STATE_RESPONSE_RECEIVED \<in> state x then Some (st, [])
      else
        (let x = (agg_set_bit HT_AGG_STATE_RESPONSE_RECEIVED x)\<lparr> tx_buf_size := bsize, tx_amsdu := amsdu \<rparr>;
             st = ieee80211_assign_tid_tx t (Some x) st
         in map_option
              (\<lambda>(st, evs).
                 ((ieee80211_assign_tid_tx t
                     (map_option (\<lambda>x. if tmo \<noteq> 0
                        then x\<lparr> tx_timeout := tmo, tx_session_timer := Some (jiffies + tu_to_jiffies tmo), last_tx := jiffies \<rparr>
                        else x\<lparr> tx_timeout := tmo \<rparr>) (tid_tx st t)) st)
                    \<lparr> addba_req_num := (addba_req_num st)(t := 0) \<rparr>, evs))
              (if HT_AGG_STATE_DRV_READY \<in> state x then ieee80211_agg_tx_operational sta t st else Some (st, []))))"

definition ieee80211_process_addba_resp ::
    "agg_hw \<Rightarrow> agg_peer \<Rightarrow> u64 \<Rightarrow> (u16 \<Rightarrow> u64) \<Rightarrow> u8 list \<Rightarrow> agg_tx_sta \<Rightarrow> (agg_tx_sta \<times> ba_event list) option" where
  "ieee80211_process_addba_resp hw sta jiffies tu_to_jiffies mgmt st =
     (let capab = get_unaligned_le16 mgmt 29;
          amsdu = (capab AND IEEE80211_ADDBA_PARAM_AMSDU_MASK \<noteq> 0);
          t = ucast (get_bits capab IEEE80211_ADDBA_PARAM_TID_MASK);
          bsize = snd (ieee80211_retrieve_addba_ext_data sta (drop 33 mgmt)
                        (get_bits capab IEEE80211_ADDBA_PARAM_BUF_SIZE_MASK));
          bsize = min bsize (max_tx_aggregation_subframes hw);
          st = (case sta_txq st t of
              None \<Rightarrow> st
            | Some q \<Rightarrow> if \<not> amsdu then st\<lparr> sta_txq := (sta_txq st)(t := Some (q\<lparr> TXQ_NO_AMSDU := True \<rparr>)) \<rparr> else st)
      in case tid_tx st t of
           None \<Rightarrow> Some (st, [])
         | Some x \<Rightarrow>
             if mgmt ! 26 \<noteq> dialog_token x then Some (st, [])
             else
               (let x = x\<lparr> addba_resp_timer := None \<rparr>; st = ieee80211_assign_tid_tx t (Some x) st in
                if HT_AGG_STATE_WANT_STOP \<in> state x \<or> HT_AGG_STATE_STOPPING \<in> state x then Some (st, [])
                else if get_unaligned_le16 mgmt 27 = WLAN_STATUS_SUCCESS \<and> bsize \<noteq> 0
                then addba_resp_agreed sta jiffies tu_to_jiffies bsize amsdu (get_unaligned_le16 mgmt 31) t x st
                else Some (snd (ieee80211_stop_tx_session t AGG_STOP_DECLINED st))))"

definition ieee80211_refresh_tx_agg_session_timer :: "u64 \<Rightarrow> u8 \<Rightarrow> agg_tx_sta \<Rightarrow> agg_tx_sta" where
  "ieee80211_refresh_tx_agg_session_timer jiffies t st =
     (if unat t \<ge> IEEE80211_NUM_TIDS then st
      else ieee80211_assign_tid_tx t (map_option (\<lambda>x. x\<lparr> last_tx := jiffies \<rparr>) (tid_tx st t)) st)"

text \<open>A block-ack request frame, header and control fields; \<open>ra\<close> and \<open>ta\<close> are its addresses.\<close>

definition ieee80211_send_bar :: "(ba_alloc \<Rightarrow> bool) \<Rightarrow> u8 list \<Rightarrow> u8 list \<Rightarrow> u16 \<Rightarrow> u16 \<Rightarrow> ba_event list" where
  "ieee80211_send_bar oom ra ta t start_sn =
     (if oom Alloc_frame then []
      else [Tx_action (le16_bytes (0x0004 OR 0x0080) @ [0, 0] @ ra @ ta @
              le16_bytes (0x0000 OR 0x0004 OR push_bit 12 t) @ le16_bytes start_sn)])"

text \<open>
  A frame of a session in the transmit path (\<^verbatim>\<open>tx.c\<close>): queued while the session is being set up or
  torn down, unless the station has its own transmit queues.  \<open>Clear_sta_sp\<close> ends a service period
  without telling the peer.
\<close>

definition ieee80211_tx_prep_agg :: "u64 \<Rightarrow> sk_buff \<Rightarrow> u8 \<Rightarrow> agg_tx_sta \<Rightarrow> bool \<times> agg_tx_sta \<times> ba_event list" where
  "ieee80211_tx_prep_agg jiffies skb t st =
     (case tid_tx st t of
        None \<Rightarrow> (False, st, [])
      | Some x \<Rightarrow>
          if HT_AGG_STATE_OPERATIONAL \<in> state x
          then (False, ieee80211_assign_tid_tx t (Some (x\<lparr> last_tx := jiffies \<rparr>)) st, [])
          else if HT_AGG_STATE_WANT_START \<in> state x then (False, st, [])
          else if sta_txq st t \<noteq> None then (False, st, [])
          else
            (let info = skb_tx skb;
                 closed = (if has_flag (ti_flags info) IEEE80211_TX_CTL_NO_PS_BUFFER then [Clear_sta_sp] else []);
                 skb = skb\<lparr> skb_tx := info\<lparr> ti_control_flags := ti_control_flags info OR IEEE80211_TX_INTCFL_NEED_TXPROCESSING,
                                           ti_flags := ti_flags info AND NOT IEEE80211_TX_TEMPORARY_FLAGS \<rparr> \<rparr>;
                 queue = pending x @ [skb];
                 (queue, purged) = (if length queue > STA_MAX_TX_BUFFER then (tl queue, [Free_skbs [hd queue]]) else (queue, []))
             in (True, ieee80211_assign_tid_tx t (Some (x\<lparr> pending := queue \<rparr>)) st, closed @ purged)))"


subsection \<open>The work of a session\<close>

text \<open>
  What the station's work (\<^verbatim>\<open>ieee80211_ba_session_work\<close> of \<^verbatim>\<open>ht.c\<close>) does for the transmit sessions of
  one TID: it starts a waiting session or carries out what was asked of an existing one.  The
  first component is true when the work has to run again because fragments are being sent, and
  ends there.
\<close>

definition agg_test_and_clear :: "agg_state_bit \<Rightarrow> u8 \<Rightarrow> agg_tx_sta \<Rightarrow> (bool \<times> agg_tx_sta) option" where
  "agg_test_and_clear b t st =
     (case tid_tx st t of
        None \<Rightarrow> None
      | Some x \<Rightarrow> Some (b \<in> state x, ieee80211_assign_tid_tx t (Some (agg_clear_bit b x)) st))"

definition tx_work_start ::
    "agg_hw \<Rightarrow> agg_peer \<Rightarrow> ampdu_driver \<Rightarrow> (ba_alloc \<Rightarrow> bool) \<Rightarrow> u64 \<Rightarrow> u64 \<Rightarrow> u8 \<Rightarrow> tid_ampdu_tx \<Rightarrow> agg_tx_sta \<Rightarrow>
     (bool \<times> agg_tx_sta \<times> ba_event list) option" where
  "tx_work_start hw sta drv oom hz jiffies t x st =
     (case sta_txq st t of
        None \<Rightarrow> None
      | Some q \<Rightarrow>
          (let st = st\<lparr> sta_txq := (sta_txq st)(t := Some (q\<lparr> TXQ_STOP := True \<rparr>)) \<rparr> in
           if txq_frags q \<noteq> [] then Some (True, st, [Queue_work])
           else
             (let st = st\<lparr> tid_start_tx := (tid_start_tx st)(t := None) \<rparr>;
                  st = (if tid_tx st t \<noteq> None then st else ieee80211_assign_tid_tx t (Some x) st)
              in map_option (Pair False) (ieee80211_tx_ba_session_handle_start hw sta drv oom hz jiffies t st))))"

definition tx_work_session ::
    "agg_hw \<Rightarrow> agg_peer \<Rightarrow> (ba_alloc \<Rightarrow> bool) \<Rightarrow> u64 \<Rightarrow> u64 \<Rightarrow> u8 \<Rightarrow> agg_tx_sta \<Rightarrow> (agg_tx_sta \<times> ba_event list) option" where
  "tx_work_session hw sta oom hz jiffies t st =
     Option.bind
       (if WLAN_STA_BLOCK_BA sta then Some (st, [])
        else Option.bind (agg_test_and_clear HT_AGG_STATE_START_CB t st)
          (\<lambda>(start_cb, st). if start_cb then ieee80211_start_tx_ba_cb hw sta oom hz jiffies t st else Some (st, [])))
     (\<lambda>(st, evs). Option.bind (agg_test_and_clear HT_AGG_STATE_WANT_STOP t st)
     (\<lambda>(want_stop, st).
       let (st, evs') = (if want_stop then snd (ieee80211_stop_tx_session t AGG_STOP_LOCAL_REQUEST st) else (st, []))
       in Option.bind (agg_test_and_clear HT_AGG_STATE_STOP_CB t st)
     (\<lambda>(stop_cb, st).
       map_option (\<lambda>(st, evs''). (st, evs @ evs' @ evs''))
         (if stop_cb then ieee80211_stop_tx_ba_cb sta oom t st else Some (st, [])))))"

definition tx_ba_session_work ::
    "agg_hw \<Rightarrow> agg_peer \<Rightarrow> ampdu_driver \<Rightarrow> (ba_alloc \<Rightarrow> bool) \<Rightarrow> u64 \<Rightarrow> u64 \<Rightarrow> u8 \<Rightarrow> agg_tx_sta \<Rightarrow>
     (bool \<times> agg_tx_sta \<times> ba_event list) option" where
  "tx_ba_session_work hw sta drv oom hz jiffies t st =
     (case tid_start_tx st t of
        Some x \<Rightarrow> if \<not> WLAN_STA_BLOCK_BA sta then tx_work_start hw sta drv oom hz jiffies t x st
                   else if tid_tx st t = None then Some (False, st, [])
                   else map_option (Pair False) (tx_work_session hw sta oom hz jiffies t st)
      | None \<Rightarrow> if tid_tx st t = None then Some (False, st, [])
                 else map_option (Pair False) (tx_work_session hw sta oom hz jiffies t st))"

end
