(* ===== verification/Agg_Tx_Inv.thy ===== *)
theory Agg_Tx_Inv
  imports Agg_Tx
begin

text \<open>
  The invariant of the transmit block-ack sessions of a station, and that every operation of
  \<^verbatim>\<open>Agg_Tx\<close> keeps it, returns, and loses no frame that waits in a session.
\<close>

subsection \<open>The invariant\<close>

text \<open>
  A session of the table has left the start state.  It is operational only when driver and peer
  have agreed, to a buffer size within the limits, and it is not being stopped; the driver is
  ready only after the request was sent, unless the session is to be stopped.  A stopping session
  has no timer.
\<close>

definition tx_session_ok :: "agg_hw \<Rightarrow> u8 \<Rightarrow> tid_ampdu_tx \<Rightarrow> bool" where
  "tx_session_ok hw t x \<longleftrightarrow>
     tx_tid x = t \<and>
     HT_AGG_STATE_WANT_START \<notin> state x \<and>
     (HT_AGG_STATE_OPERATIONAL \<in> state x \<longrightarrow>
        HT_AGG_STATE_DRV_READY \<in> state x \<and> HT_AGG_STATE_RESPONSE_RECEIVED \<in> state x \<and>
        HT_AGG_STATE_SENT_ADDBA \<in> state x \<and> HT_AGG_STATE_STOPPING \<notin> state x) \<and>
     (HT_AGG_STATE_RESPONSE_RECEIVED \<in> state x \<longrightarrow>
        tx_buf_size x \<noteq> 0 \<and> tx_buf_size x \<le> max_tx_aggregation_subframes hw) \<and>
     (HT_AGG_STATE_DRV_READY \<in> state x \<longrightarrow>
        HT_AGG_STATE_SENT_ADDBA \<in> state x \<or> HT_AGG_STATE_STOPPING \<in> state x \<or> HT_AGG_STATE_WANT_STOP \<in> state x) \<and>
     (HT_AGG_STATE_STOPPING \<in> state x \<longrightarrow> addba_resp_timer x = None \<and> tx_session_timer x = None) \<and>
     length (pending x) \<le> STA_MAX_TX_BUFFER"

text \<open>A session of the start array is new.\<close>

definition tx_start_ok :: "u8 \<Rightarrow> tid_ampdu_tx \<Rightarrow> bool" where
  "tx_start_ok t x \<longleftrightarrow> tx_tid x = t \<and> state x = {HT_AGG_STATE_WANT_START} \<and> pending x = [] \<and>
     addba_resp_timer x = None \<and> tx_session_timer x = None"

text \<open>
  What holds of one TID: at most one of the two arrays has a session, and a session whose request
  is still to be sent leaves room for it in the count of requests.
\<close>

definition tid_ok :: "agg_hw \<Rightarrow> u8 \<Rightarrow> u8 \<Rightarrow> tid_ampdu_tx option \<Rightarrow> tid_ampdu_tx option \<Rightarrow> bool" where
  "tid_ok hw t n s y \<longleftrightarrow>
     (\<forall>x. s = Some x \<longrightarrow> tx_session_ok hw t x \<and> y = None \<and> (HT_AGG_STATE_SENT_ADDBA \<notin> state x \<longrightarrow> n \<le> HT_AGG_MAX_RETRIES)) \<and>
     (\<forall>x. y = Some x \<longrightarrow> tx_start_ok t x \<and> n \<le> HT_AGG_MAX_RETRIES) \<and>
     n \<le> HT_AGG_MAX_RETRIES + 1"

definition tx_ok :: "agg_hw \<Rightarrow> agg_tx_sta \<Rightarrow> bool" where
  "tx_ok hw st \<longleftrightarrow> (\<forall>t. tid_ok hw t (addba_req_num st t) (tid_tx st t) (tid_start_tx st t)) \<and> agg_queue_stop st = (\<lambda>_. 0)"

lemma tx_okD:
  assumes "tx_ok hw st"
  shows "tid_ok hw t (addba_req_num st t) (tid_tx st t) (tid_start_tx st t)" "agg_queue_stop st = (\<lambda>_. 0)"
    "tid_tx st t = Some x \<Longrightarrow> tx_session_ok hw t x" "tid_tx st t = Some x \<Longrightarrow> tid_start_tx st t = None"
    "tid_tx st t = Some x \<Longrightarrow> HT_AGG_STATE_SENT_ADDBA \<notin> state x \<Longrightarrow> addba_req_num st t \<le> HT_AGG_MAX_RETRIES"
    "addba_req_num st t \<le> HT_AGG_MAX_RETRIES + 1"
    "tid_start_tx st t = Some y \<Longrightarrow> tx_start_ok t y" "tid_start_tx st t = Some y \<Longrightarrow> tid_tx st t = None"
    "tid_start_tx st t = Some y \<Longrightarrow> addba_req_num st t \<le> HT_AGG_MAX_RETRIES"
proof -
  show ok: "tid_ok hw t (addba_req_num st t) (tid_tx st t) (tid_start_tx st t)" and "agg_queue_stop st = (\<lambda>_. 0)"
    using assms by (simp_all add: tx_ok_def)
  show "tid_tx st t = Some x \<Longrightarrow> tx_session_ok hw t x" "tid_tx st t = Some x \<Longrightarrow> tid_start_tx st t = None"
    "tid_tx st t = Some x \<Longrightarrow> HT_AGG_STATE_SENT_ADDBA \<notin> state x \<Longrightarrow> addba_req_num st t \<le> HT_AGG_MAX_RETRIES"
    "addba_req_num st t \<le> HT_AGG_MAX_RETRIES + 1"
    "tid_start_tx st t = Some y \<Longrightarrow> tx_start_ok t y" "tid_start_tx st t = Some y \<Longrightarrow> addba_req_num st t \<le> HT_AGG_MAX_RETRIES"
    using ok by (auto simp: tid_ok_def)
  show "tid_start_tx st t = Some y \<Longrightarrow> tid_tx st t = None"
    using ok by (cases "tid_tx st t") (auto simp: tid_ok_def)
qed

text \<open>An operation on one TID keeps the invariant when it keeps it there.\<close>

lemma tx_ok_upd:
  assumes "tx_ok hw st" "tid_ok hw t (addba_req_num st' t) (tid_tx st' t) (tid_start_tx st' t)"
    "\<And>s. s \<noteq> t \<Longrightarrow> addba_req_num st' s = addba_req_num st s" "\<And>s. s \<noteq> t \<Longrightarrow> tid_tx st' s = tid_tx st s"
    "\<And>s. s \<noteq> t \<Longrightarrow> tid_start_tx st' s = tid_start_tx st s" "agg_queue_stop st' = agg_queue_stop st"
  shows "tx_ok hw st'"
  using assms unfolding tx_ok_def by (metis (no_types, lifting))

text \<open>The frames waiting in sessions and queues.\<close>

definition pending_of :: "tid_ampdu_tx option \<Rightarrow> sk_buff list" where
  "pending_of s = (case s of None \<Rightarrow> [] | Some x \<Rightarrow> pending x)"

lemma pending_of_simps [simp]: "pending_of None = []" "pending_of (Some x) = pending x"
  by (simp_all add: pending_of_def)

definition waiting :: "agg_tx_sta \<Rightarrow> sk_buff set" where
  "waiting st = (\<Union>t. set (pending_of (tid_tx st t))) \<union> (\<Union>q. set (local_pending st q))"

text \<open>The state after a step on TID \<open>t\<close> that keeps its frames or moves them to the queue.\<close>

lemma waiting_same:
  assumes "\<And>s. pending_of (tid_tx st' s) = pending_of (tid_tx st s)" "local_pending st' = local_pending st"
  shows "waiting st' = waiting st"
  by (simp add: waiting_def assms)

lemma waiting_moved:
  assumes "\<And>s. s \<noteq> t \<Longrightarrow> pending_of (tid_tx st' s) = pending_of (tid_tx st s)" "pending_of (tid_tx st' t) = []"
    "local_pending st' = (local_pending st)(q := local_pending st q @ pending_of (tid_tx st t))"
  shows "waiting st' = waiting st"
proof -
  have w: "f \<in> waiting u \<longleftrightarrow> (\<exists>t. f \<in> set (pending_of (tid_tx u t))) \<or> (\<exists>q. f \<in> set (local_pending u q))" for u f
    by (auto simp: waiting_def)
  have "f \<in> waiting st' \<longleftrightarrow> f \<in> waiting st" for f
  proof -
    have 1: "(\<exists>s. f \<in> set (pending_of (tid_tx st' s))) \<longleftrightarrow> (\<exists>s. s \<noteq> t \<and> f \<in> set (pending_of (tid_tx st s)))"
      using assms(1,2) by (metis empty_iff list.set(1))
    have 2: "(\<exists>r. f \<in> set (local_pending st' r)) \<longleftrightarrow> (\<exists>r. f \<in> set (local_pending st r)) \<or> f \<in> set (pending_of (tid_tx st t))"
      unfolding assms(3) by (auto split: if_splits)
    show ?thesis unfolding w 1 2 by metis
  qed
  then show ?thesis by blast
qed


subsection \<open>Queues and splicing\<close>

lemma assign_simps [simp]:
  "tid_tx (ieee80211_assign_tid_tx t x st) = (tid_tx st)(t := x)"
  "tid_start_tx (ieee80211_assign_tid_tx t x st) = tid_start_tx st"
  "addba_req_num (ieee80211_assign_tid_tx t x st) = addba_req_num st"
  "agg_queue_stop (ieee80211_assign_tid_tx t x st) = agg_queue_stop st"
  "local_pending (ieee80211_assign_tid_tx t x st) = local_pending st"
  "sta_txq (ieee80211_assign_tid_tx t x st) = sta_txq st"
  by (simp_all add: ieee80211_assign_tid_tx_def)

lemma stop_txq_simps [simp]:
  "tid_tx (ieee80211_agg_stop_txq t st) = tid_tx st"
  "tid_start_tx (ieee80211_agg_stop_txq t st) = tid_start_tx st"
  "addba_req_num (ieee80211_agg_stop_txq t st) = addba_req_num st"
  "agg_queue_stop (ieee80211_agg_stop_txq t st) = agg_queue_stop st"
  "local_pending (ieee80211_agg_stop_txq t st) = local_pending st"
  by (simp_all add: ieee80211_agg_stop_txq_def split: option.splits)

lemma start_txq_simps [simp]:
  "tid_tx (fst (ieee80211_agg_start_txq t e st)) = tid_tx st"
  "tid_start_tx (fst (ieee80211_agg_start_txq t e st)) = tid_start_tx st"
  "addba_req_num (fst (ieee80211_agg_start_txq t e st)) = addba_req_num st"
  "agg_queue_stop (fst (ieee80211_agg_start_txq t e st)) = agg_queue_stop st"
  "local_pending (fst (ieee80211_agg_start_txq t e st)) = local_pending st"
  by (simp_all add: ieee80211_agg_start_txq_def split: option.splits)

text \<open>
  \<open>moved\<close>: stopping the queue, handing over the frames, changing the session to \<open>y\<close> and waking
  the queue again leaves the stop count as it was.
\<close>

definition moved :: "agg_peer \<Rightarrow> u8 \<Rightarrow> tid_ampdu_tx option \<Rightarrow> agg_tx_sta \<Rightarrow> agg_tx_sta" where
  "moved sta t y st =
     st\<lparr> tid_tx := (tid_tx st)(t := y),
         local_pending := (local_pending st)(agg_queue sta t := local_pending st (agg_queue sta t) @ pending_of (tid_tx st t)) \<rparr>"

lemma splice_session:
  "tid_tx st t = Some x \<Longrightarrow> tid_tx (fst (ieee80211_agg_splice_packets sta t st)) t = Some (x\<lparr> pending := [] \<rparr>)"
  by (simp add: ieee80211_agg_splice_packets_def ieee80211_stop_queue_agg_def Let_def)

lemma splice_moved:
  assumes "tid_tx st t = Some x"
  shows "fst (ieee80211_agg_splice_finish sta t (ieee80211_assign_tid_tx t y (fst (ieee80211_agg_splice_packets sta t st))))
    = moved sta t y st"
  using assms
  by (simp add: ieee80211_agg_splice_finish_def ieee80211_wake_queue_agg_def ieee80211_agg_splice_packets_def
      ieee80211_stop_queue_agg_def ieee80211_assign_tid_tx_def moved_def Let_def)

lemma remove_moved:
  "tid_tx st t = Some x \<Longrightarrow> fst (ieee80211_remove_tid_tx sta t st) = moved sta t None st"
  using splice_moved[of st t x sta None] by (simp add: ieee80211_remove_tid_tx_def Let_def case_prod_beta)

lemma moved_simps [simp]:
  "tid_tx (moved sta t y st) = (tid_tx st)(t := y)" "tid_start_tx (moved sta t y st) = tid_start_tx st"
  "addba_req_num (moved sta t y st) = addba_req_num st" "agg_queue_stop (moved sta t y st) = agg_queue_stop st"
  by (simp_all add: moved_def)

lemma moved_waiting: "pending_of y = [] \<Longrightarrow> waiting (moved sta t y st) = waiting st"
  by (rule waiting_moved[of t _ _ "agg_queue sta t"]) (simp_all add: moved_def)

text \<open>The contract of a step: the invariant holds again and the frames still wait.\<close>

definition kept :: "agg_hw \<Rightarrow> agg_tx_sta \<Rightarrow> agg_tx_sta \<Rightarrow> bool" where
  "kept hw st st' \<longleftrightarrow> (tx_ok hw st \<longrightarrow> tx_ok hw st') \<and> waiting st' = waiting st"

lemma kept_refl [simp]: "kept hw st st"
  by (simp add: kept_def)

lemma kept_trans: "kept hw st st' \<Longrightarrow> kept hw st' st'' \<Longrightarrow> kept hw st st''"
  by (simp add: kept_def)

lemma kept_cong:
  assumes "tid_tx st' = tid_tx st" "tid_start_tx st' = tid_start_tx st" "addba_req_num st' = addba_req_num st"
    "agg_queue_stop st' = agg_queue_stop st" "local_pending st' = local_pending st"
  shows "kept hw st st'"
  using assms by (simp add: kept_def tx_ok_def waiting_def)

lemma kept_start_txq [simp]: "kept hw st (fst (ieee80211_agg_start_txq t e st))"
  by (rule kept_cong) simp_all

text \<open>Changing a session of the table.\<close>

lemma kept_put:
  assumes x: "tid_tx st t = Some x"
    and "tx_ok hw st \<Longrightarrow> tx_session_ok hw t y" "pending y = pending x"
    "HT_AGG_STATE_SENT_ADDBA \<notin> state y \<Longrightarrow> HT_AGG_STATE_SENT_ADDBA \<notin> state x"
  shows "kept hw st (ieee80211_assign_tid_tx t (Some y) st)"
  unfolding kept_def
proof
  show "tx_ok hw st \<longrightarrow> tx_ok hw (ieee80211_assign_tid_tx t (Some y) st)"
  proof
    assume ok: "tx_ok hw st"
    have "tid_ok hw t (addba_req_num st t) (Some y) (tid_start_tx st t)"
      using assms(2)[OF ok] assms(4) tx_okD(1,4-6)[OF ok] x by (auto simp: tid_ok_def)
    then show "tx_ok hw (ieee80211_assign_tid_tx t (Some y) st)"
      by (intro tx_ok_upd[OF ok, of t]) simp_all
  qed
  show "waiting (ieee80211_assign_tid_tx t (Some y) st) = waiting st"
    by (rule waiting_same) (use x assms(3) in auto)
qed


subsection \<open>The operations keep it\<close>

lemma set_bit_simps [simp]:
  "state (agg_set_bit b x) = insert b (state x)" "state (agg_clear_bit b x) = state x - {b}"
  "pending (agg_set_bit b x) = pending x" "pending (agg_clear_bit b x) = pending x"
  "tx_tid (agg_set_bit b x) = tx_tid x" "tx_tid (agg_clear_bit b x) = tx_tid x"
  "tx_buf_size (agg_set_bit b x) = tx_buf_size x" "tx_buf_size (agg_clear_bit b x) = tx_buf_size x"
  "addba_resp_timer (agg_set_bit b x) = addba_resp_timer x" "addba_resp_timer (agg_clear_bit b x) = addba_resp_timer x"
  "tx_session_timer (agg_set_bit b x) = tx_session_timer x" "tx_session_timer (agg_clear_bit b x) = tx_session_timer x"
  by (simp_all add: agg_set_bit_def agg_clear_bit_def)

lemma kept_drop_start: "kept hw st (st\<lparr> tid_start_tx := (tid_start_tx st)(t := None) \<rparr>)"
  unfolding kept_def
proof
  show "tx_ok hw st \<longrightarrow> tx_ok hw (st\<lparr> tid_start_tx := (tid_start_tx st)(t := None) \<rparr>)"
  proof
    assume ok: "tx_ok hw st"
    have "tid_ok hw t (addba_req_num st t) (tid_tx st t) None"
      using tx_okD(1)[OF ok, of t] by (simp add: tid_ok_def)
    then show "tx_ok hw (st\<lparr> tid_start_tx := (tid_start_tx st)(t := None) \<rparr>)"
      by (intro tx_ok_upd[OF ok, of t]) simp_all
  qed
qed (simp add: waiting_def)

text \<open>A stop without the branch of a session that has not started, which the invariant excludes.\<close>

lemma kept_stop_session:
  assumes "\<And>x. tid_tx st t = Some x \<Longrightarrow> HT_AGG_STATE_WANT_START \<notin> state x"
  shows "kept hw st (fst (snd (ieee80211_stop_tx_session t reason st)))"
proof -
  define st0 where "st0 = st\<lparr> tid_start_tx := (tid_start_tx st)(t := None) \<rparr>"
  have st0: "kept hw st st0" "tid_tx st0 = tid_tx st" by (simp_all add: st0_def kept_drop_start)
  show ?thesis
  proof (cases "tid_tx st t")
    case None
    then show ?thesis using st0 by (simp add: ieee80211_stop_tx_session_def Let_def st0_def[symmetric])
  next
    case (Some x)
    define y where "y = (agg_clear_bit HT_AGG_STATE_OPERATIONAL
      ((agg_set_bit HT_AGG_STATE_STOPPING x)\<lparr> addba_resp_timer := None, tx_session_timer := None \<rparr>))
        \<lparr> stop_initiator := (if reason = AGG_STOP_PEER_REQUEST then WLAN_BACK_RECIPIENT else WLAN_BACK_INITIATOR),
           tx_stop := (reason = AGG_STOP_LOCAL_REQUEST) \<rparr>"
    have "kept hw (ieee80211_agg_stop_txq t st0) (ieee80211_assign_tid_tx t (Some y) (ieee80211_agg_stop_txq t st0))"
    proof (rule kept_put)
      show "tid_tx (ieee80211_agg_stop_txq t st0) t = Some x" using Some st0 by simp
      show "tx_session_ok hw t y" if "tx_ok hw (ieee80211_agg_stop_txq t st0)"
        using tx_okD(3)[OF that, of t x] Some st0 by (auto simp: y_def tx_session_ok_def)
    qed (simp_all add: y_def)
    moreover have "kept hw st0 (ieee80211_agg_stop_txq t st0)" by (rule kept_cong) simp_all
    ultimately have "kept hw st (ieee80211_assign_tid_tx t (Some y) (ieee80211_agg_stop_txq t st0))"
      using st0(1) kept_trans by blast
    then show ?thesis
      using Some st0 assms[OF Some]
      by (simp add: ieee80211_stop_tx_session_def Let_def st0_def[symmetric] y_def[symmetric])
  qed
qed

lemma kept_want_stop: "kept hw st (fst (snd (ieee80211_stop_tx_ba_session hw' t st)))"
proof (cases "tid_tx st t")
  case None
  then show ?thesis by (simp add: ieee80211_stop_tx_ba_session_def)
next
  case (Some x)
  have "kept hw st (ieee80211_assign_tid_tx t (Some (agg_set_bit HT_AGG_STATE_WANT_STOP x)) st)"
    by (rule kept_put[OF Some]) (use Some in \<open>auto dest: tx_okD(3) simp: tx_session_ok_def\<close>)
  then show ?thesis using Some by (simp add: ieee80211_stop_tx_ba_session_def)
qed

lemma kept_put_timers:
  assumes "tid_tx st t = Some x" "state y = state x" "pending y = pending x" "tx_tid y = tx_tid x" "tx_buf_size y = tx_buf_size x"
    "HT_AGG_STATE_STOPPING \<in> state x \<Longrightarrow> addba_resp_timer x = None \<Longrightarrow> addba_resp_timer y = None"
    "HT_AGG_STATE_STOPPING \<in> state x \<Longrightarrow> tx_session_timer x = None \<Longrightarrow> tx_session_timer y = None"
  shows "kept hw st (ieee80211_assign_tid_tx t (Some y) st)"
proof (rule kept_put[OF assms(1)])
  show "tx_session_ok hw t y" if "tx_ok hw st"
    using tx_okD(3)[OF that assms(1)] assms(2-) by (simp add: tx_session_ok_def)
qed (use assms in simp_all)

lemma kept_addba_timer: "kept hw st (fst (sta_addba_resp_timer_expired hw' t st))"
proof (cases "tid_tx st t")
  case None
  then show ?thesis by (simp add: sta_addba_resp_timer_expired_def)
next
  case (Some x)
  have "kept hw st (ieee80211_assign_tid_tx t (Some (x\<lparr> addba_resp_timer := None \<rparr>)) st)"
    by (rule kept_put_timers[OF Some]) simp_all
  then show ?thesis
    using Some kept_trans[OF _ kept_want_stop] by (simp add: sta_addba_resp_timer_expired_def Let_def)
qed

lemma kept_session_timer: "kept hw st (fst (sta_tx_agg_session_timer_expired hw' jiffies tu t st))"
proof (cases "tid_tx st t")
  case None
  then show ?thesis by (simp add: sta_tx_agg_session_timer_expired_def)
next
  case (Some x)
  have none: "kept hw st (ieee80211_assign_tid_tx t (Some (x\<lparr> tx_session_timer := None \<rparr>)) st)"
    by (rule kept_put_timers[OF Some]) simp_all
  have set: "kept hw st (ieee80211_assign_tid_tx t (Some (x\<lparr> tx_session_timer := e \<rparr>)) st)"
    if "HT_AGG_STATE_STOPPING \<notin> state x" for e
    by (rule kept_put_timers[OF Some]) (use that in simp_all)
  show ?thesis
    using Some none set kept_trans[OF none kept_want_stop] by (simp add: sta_tx_agg_session_timer_expired_def Let_def)
qed


text \<open>A removed session: its frames go to the queue.\<close>

lemma kept_moved_None: "kept hw st (moved sta t None st)"
  unfolding kept_def
proof
  show "tx_ok hw st \<longrightarrow> tx_ok hw (moved sta t None st)"
  proof
    assume ok: "tx_ok hw st"
    have "tid_ok hw t (addba_req_num st t) None (tid_start_tx st t)"
      using tx_okD(1)[OF ok, of t] by (simp add: tid_ok_def)
    then show "tx_ok hw (moved sta t None st)" by (intro tx_ok_upd[OF ok, of t]) simp_all
  qed
qed (simp add: moved_waiting)

lemma kept_stop_cb:
  assumes "tid_tx st t = Some x"
  shows "\<exists>st' evs. ieee80211_stop_tx_ba_cb sta oom t st = Some (st', evs) \<and> kept hw st st'"
  using assms kept_trans[OF kept_moved_None kept_start_txq]
  by (simp add: ieee80211_stop_tx_ba_cb_def Let_def case_prod_beta remove_moved)

text \<open>The session becomes operational.\<close>

lemma operational_state:
  assumes "tid_tx st t = Some x"
  shows "\<exists>evs. ieee80211_agg_tx_operational sta t st =
    Some (fst (ieee80211_agg_start_txq t True
      (moved sta t (Some (agg_set_bit HT_AGG_STATE_OPERATIONAL (x\<lparr> pending := [] \<rparr>))) st)), evs)"
  using assms splice_moved[OF assms] splice_session[OF assms]
  by (simp add: ieee80211_agg_tx_operational_def Let_def case_prod_beta)

text \<open>
  A step that ends with the session \<open>y\<close>, with its frames kept or handed over.
\<close>

lemma tx_ok_session:
  assumes ok: "tx_ok hw st" and y: "tx_session_ok hw t y"
    and n: "n \<le> HT_AGG_MAX_RETRIES + 1" "HT_AGG_STATE_SENT_ADDBA \<notin> state y \<Longrightarrow> n \<le> HT_AGG_MAX_RETRIES"
    and st': "tid_tx st' = (tid_tx st)(t := Some y)" "tid_start_tx st' = (tid_start_tx st)(t := None)"
      "addba_req_num st' = (addba_req_num st)(t := n)" "agg_queue_stop st' = agg_queue_stop st"
  shows "tx_ok hw st'"
proof (rule tx_ok_upd[OF ok, of t])
  show "tid_ok hw t (addba_req_num st' t) (tid_tx st' t) (tid_start_tx st' t)"
    using y n by (simp add: tid_ok_def st')
qed (simp_all add: st')

lemma start_None_upd: "tid_start_tx st t = None \<Longrightarrow> (tid_start_tx st)(t := None) = tid_start_tx st"
  by (rule fun_upd_idem)

lemma num_upd: "(addba_req_num st)(t := addba_req_num st t) = addba_req_num st"
  by simp

definition sent :: "u64 \<Rightarrow> u64 \<Rightarrow> tid_ampdu_tx \<Rightarrow> tid_ampdu_tx" where
  "sent hz jiffies x = agg_set_bit HT_AGG_STATE_SENT_ADDBA (x\<lparr> addba_resp_timer := Some (jiffies + hz) \<rparr>)"

lemma sent_simps [simp]:
  "state (sent hz jiffies x) = insert HT_AGG_STATE_SENT_ADDBA (state x)" "pending (sent hz jiffies x) = pending x"
  "tx_tid (sent hz jiffies x) = tx_tid x" "tx_buf_size (sent hz jiffies x) = tx_buf_size x"
  "tx_session_timer (sent hz jiffies x) = tx_session_timer x"
  by (simp_all add: sent_def)

lemma send_addba_state:
  assumes "HT_AGG_STATE_STOPPING \<notin> state x" "HT_AGG_STATE_WANT_STOP \<notin> state x" "tx_tid x = t"
    and "st' = fst (ieee80211_send_addba_with_timeout hw sta oom hz jiffies x st)"
  shows "tid_tx st' = (tid_tx st)(t := Some (sent hz jiffies x))" "tid_start_tx st' = tid_start_tx st"
    "addba_req_num st' = (addba_req_num st)(t := addba_req_num st t + 1)" "agg_queue_stop st' = agg_queue_stop st"
    "local_pending st' = local_pending st"
  using assms(3) unfolding assms(4) by (simp_all add: ieee80211_send_addba_with_timeout_def assms(1,2) Let_def sent_def)

lemma u8_suc_le: "n \<le> (15 :: u8) \<Longrightarrow> n + 1 \<le> 15 + 1"
  by (simp add: word_le_nat_alt unat_word_ariths)

lemma kept_start_cb:
  assumes ok: "tx_ok hw st" and x: "tid_tx st t = Some x"
  shows "\<exists>st' evs. ieee80211_start_tx_ba_cb hw sta oom hz jiffies t st = Some (st', evs) \<and> tx_ok hw st' \<and> waiting st' = waiting st"
proof -
  note xok = tx_okD(3)[OF ok x]
  define y where "y = agg_set_bit HT_AGG_STATE_DRV_READY x"
  define st1 where "st1 = ieee80211_assign_tid_tx t (Some y) st"
  have st1: "tid_tx st1 t = Some y" "tid_tx st1 = (tid_tx st)(t := Some y)" "tid_start_tx st1 = tid_start_tx st"
    "addba_req_num st1 = addba_req_num st" "agg_queue_stop st1 = agg_queue_stop st" "local_pending st1 = local_pending st"
    by (simp_all add: st1_def)
  have start: "(tid_start_tx st)(t := None) = tid_start_tx st"
    using tx_okD(4)[OF ok x] by (rule start_None_upd)
  have w1: "waiting st1 = waiting st" using x by (intro waiting_same) (simp_all add: st1 y_def)
  consider (ready) "HT_AGG_STATE_DRV_READY \<in> state x"
    | (stopped) "HT_AGG_STATE_DRV_READY \<notin> state x" "HT_AGG_STATE_STOPPING \<in> state x \<or> HT_AGG_STATE_WANT_STOP \<in> state x"
    | (send) "HT_AGG_STATE_DRV_READY \<notin> state x" "HT_AGG_STATE_STOPPING \<notin> state x" "HT_AGG_STATE_WANT_STOP \<notin> state x"
        "HT_AGG_STATE_SENT_ADDBA \<notin> state x"
    | (wait) "HT_AGG_STATE_DRV_READY \<notin> state x" "HT_AGG_STATE_STOPPING \<notin> state x" "HT_AGG_STATE_WANT_STOP \<notin> state x"
        "HT_AGG_STATE_SENT_ADDBA \<in> state x" "HT_AGG_STATE_RESPONSE_RECEIVED \<notin> state x"
    | (agree) "HT_AGG_STATE_DRV_READY \<notin> state x" "HT_AGG_STATE_STOPPING \<notin> state x" "HT_AGG_STATE_WANT_STOP \<notin> state x"
        "HT_AGG_STATE_SENT_ADDBA \<in> state x" "HT_AGG_STATE_RESPONSE_RECEIVED \<in> state x"
    by blast
  then show ?thesis
  proof cases
    case ready
    then show ?thesis using x ok by (simp add: ieee80211_start_tx_ba_cb_def)
  next
    case stopped
    have "kept hw st st1"
      unfolding st1_def by (rule kept_put[OF x]) (use xok stopped in \<open>auto simp: y_def tx_session_ok_def\<close>)
    then show ?thesis using x stopped ok
      by (simp add: ieee80211_start_tx_ba_cb_def Let_def y_def[symmetric] st1_def[symmetric] kept_def) (auto simp: y_def)
  next
    case send
    define st2 where "st2 = fst (ieee80211_send_addba_with_timeout hw sta oom hz jiffies y st1)"
    have y: "HT_AGG_STATE_STOPPING \<notin> state y" "HT_AGG_STATE_WANT_STOP \<notin> state y" "tx_tid y = t"
      using send xok by (simp_all add: y_def tx_session_ok_def)
    note st2 = send_addba_state[OF y st2_def]
    have "tx_session_ok hw t (sent hz jiffies y)"
      using xok send by (simp add: tx_session_ok_def y_def)
    then have "tx_ok hw st2"
      using u8_suc_le[OF tx_okD(5)[OF ok x send(4)]]
      by (intro tx_ok_session[OF ok, of t "sent hz jiffies y" "addba_req_num st t + 1"]) (simp_all add: st2 st1 start)
    moreover have "waiting st2 = waiting st1"
      by (rule waiting_same) (simp_all add: st2 st1)
    moreover have "ieee80211_start_tx_ba_cb hw sta oom hz jiffies t st =
        Some (st2, snd (ieee80211_send_addba_with_timeout hw sta oom hz jiffies y st1))"
      using x send by (simp add: ieee80211_start_tx_ba_cb_def Let_def y_def[symmetric] st1_def[symmetric] st2_def) (simp add: y_def)
    ultimately show ?thesis using w1 by simp
  next
    case wait
    have "kept hw st st1"
      unfolding st1_def by (rule kept_put[OF x]) (use xok wait in \<open>auto simp: y_def tx_session_ok_def\<close>)
    then show ?thesis using x wait ok
      by (simp add: ieee80211_start_tx_ba_cb_def Let_def y_def[symmetric] st1_def[symmetric] kept_def) (simp add: y_def)
  next
    case agree
    let ?z = "agg_set_bit HT_AGG_STATE_OPERATIONAL (y\<lparr> pending := [] \<rparr>)"
    obtain evs where op: "ieee80211_agg_tx_operational sta t st1 =
        Some (fst (ieee80211_agg_start_txq t True (moved sta t (Some ?z) st1)), evs)"
      using operational_state[OF st1(1)] by blast
    have "tx_session_ok hw t ?z"
      using xok agree by (simp add: tx_session_ok_def y_def)
    then have "tx_ok hw (moved sta t (Some ?z) st1)"
      using tx_okD(6)[OF ok, of t] agree
      by (intro tx_ok_session[OF ok, of t ?z "addba_req_num st t"]) (simp_all add: st1 start y_def)
    moreover have "waiting (moved sta t (Some ?z) st1) = waiting st1" by (rule moved_waiting) simp
    ultimately have "tx_ok hw (fst (ieee80211_agg_start_txq t True (moved sta t (Some ?z) st1)))"
      "waiting (fst (ieee80211_agg_start_txq t True (moved sta t (Some ?z) st1))) = waiting st"
      using kept_start_txq[of hw "moved sta t (Some ?z) st1" t True] w1 by (simp_all add: kept_def)
    then show ?thesis
      using x agree op
      by (simp add: ieee80211_start_tx_ba_cb_def Let_def y_def[symmetric] st1_def[symmetric]) (simp add: y_def)
  qed
qed


lemma ex_bool [simp]: "\<exists>b. b" "\<exists>b. \<not> b"
  by auto

lemma work_start_ok:
  assumes ok: "tx_ok hw st" and x: "tid_start_tx st t = Some x" and q: "sta_txq st t = Some q"
  shows "\<exists>again st' evs. tx_work_start hw sta drv oom hz jiffies t x st = Some (again, st', evs) \<and>
    tx_ok hw st' \<and> waiting st' = waiting st"
proof -
  note xok = tx_okD(7)[OF ok x] and none = tx_okD(8)[OF ok x] and n = tx_okD(9)[OF ok x]
  define st0 where "st0 = st\<lparr> sta_txq := (sta_txq st)(t := Some (q\<lparr> TXQ_STOP := True \<rparr>)) \<rparr>"
  have st0: "kept hw st st0" by (rule kept_cong) (simp_all add: st0_def)
  show ?thesis
  proof (cases "txq_frags q = []")
    case False
    then have "tx_work_start hw sta drv oom hz jiffies t x st = Some (True, st0, [Queue_work])"
      using q by (simp add: tx_work_start_def Let_def st0_def)
    then show ?thesis using st0 ok by (auto simp: kept_def)
  next
    case True
    let ?params = "\<lparr> par_action = AMPDU_TX_START, par_tid = ucast t, par_ssn = drop_bit 4 (tid_seq st t),
                     par_buf_size = 0, par_amsdu = False, par_timeout = 0 \<rparr>"
    obtain ret start_ssn where drv: "drv ?params = (ret, start_ssn)" by (cases "drv ?params")
    define st1 where "st1 = ieee80211_assign_tid_tx t (Some x) (st0\<lparr> tid_start_tx := (tid_start_tx st0)(t := None) \<rparr>)"
    define y where "y = (agg_clear_bit HT_AGG_STATE_WANT_START x)\<lparr> tx_ssn := start_ssn \<rparr>"
    define st2 where "st2 = ieee80211_assign_tid_tx t (Some y) st1"
    have st2: "tid_tx st2 = (tid_tx st)(t := Some y)" "tid_start_tx st2 = (tid_start_tx st)(t := None)"
      "addba_req_num st2 = addba_req_num st" "agg_queue_stop st2 = agg_queue_stop st" "local_pending st2 = local_pending st"
      by (simp_all add: st2_def st1_def st0_def)
    have y: "state y = {}" "tx_tid y = t" "pending y = []" "addba_resp_timer y = None" "tx_session_timer y = None"
      using xok by (simp_all add: y_def tx_start_ok_def)
    have yok: "tx_session_ok hw t y" by (simp add: tx_session_ok_def y)
    have w2: "waiting st2 = waiting st" using none y by (intro waiting_same) (simp_all add: st2)
    have ok2: "tx_ok hw st2"
      using n by (intro tx_ok_session[OF ok yok, of "addba_req_num st t"])
        (simp_all add: st2 y tx_okD(6)[OF ok, simplified])
    have seq: "tid_seq st1 t = tid_seq st t"
      by (simp add: st1_def st0_def ieee80211_assign_tid_tx_def)
    have run: "tx_work_start hw sta drv oom hz jiffies t x st =
      map_option (Pair False) (ieee80211_tx_ba_session_handle_start hw sta drv oom hz jiffies t st1)"
      using q True none by (simp add: tx_work_start_def Let_def st0_def[symmetric] st1_def) (simp add: st0_def)
    note handle = ieee80211_tx_ba_session_handle_start_def[of hw sta drv oom hz jiffies t st1]
    have tt: "tid_tx st1 t = Some x" by (simp add: st1_def)
    consider (later) "ret = AMPDU_TX_START_DELAY_ADDBA"
      | (denied) "ret \<noteq> AMPDU_TX_START_DELAY_ADDBA" "ret \<noteq> 0" "ret \<noteq> AMPDU_TX_START_IMMEDIATE"
      | (send) "ret = 0 \<or> ret = AMPDU_TX_START_IMMEDIATE" by blast
    then show ?thesis
    proof cases
      case later
      then show ?thesis using run handle tt drv seq ok2 w2
        by (simp add: Let_def y_def[symmetric] st2_def[symmetric])
    next
      case denied
      have fin: "fst (ieee80211_agg_splice_finish sta t (ieee80211_assign_tid_tx t None (fst (ieee80211_agg_splice_packets sta t st2))))
        = moved sta t None st2"
        by (rule splice_moved[of _ _ y]) (simp add: st2)
      have "kept hw st2 (fst (ieee80211_agg_start_txq t False (moved sta t None st2)))"
        using kept_trans[OF kept_moved_None kept_start_txq] .
      then show ?thesis using run handle tt drv seq denied ok2 w2 fin
        by (simp add: Let_def y_def[symmetric] st2_def[symmetric] case_prod_beta kept_def)
    next
      case send
      define z where "z = (if ret = AMPDU_TX_START_IMMEDIATE then agg_set_bit HT_AGG_STATE_DRV_READY y else y)"
      define st3 where "st3 = ieee80211_assign_tid_tx t (Some z) st2"
      define st4 where "st4 = fst (ieee80211_send_addba_with_timeout hw sta oom hz jiffies z st3)"
      have z: "state z \<subseteq> {HT_AGG_STATE_DRV_READY}" "tx_tid z = t" "pending z = []" "tx_session_timer z = None"
        by (simp_all add: z_def y)
      have "HT_AGG_STATE_STOPPING \<notin> state z" "HT_AGG_STATE_WANT_STOP \<notin> state z" using z(1) by auto
      note st4 = send_addba_state[OF this z(2) st4_def]
      have zok: "tx_session_ok hw t (sent hz jiffies z)"
        using z by (auto simp: tx_session_ok_def)
      have ok4: "tx_ok hw st4"
        by (rule tx_ok_session[OF ok zok, of "addba_req_num st t + 1"])
          (use u8_suc_le[OF n] in \<open>simp_all add: st4 st3_def st2\<close>)
      have w4: "waiting st4 = waiting st2"
        by (rule waiting_same) (simp_all add: st4 st3_def st2 y z)
      have "ieee80211_tx_ba_session_handle_start hw sta drv oom hz jiffies t st1 =
          Some (st4, Drv_ampdu_action ?params # snd (ieee80211_send_addba_with_timeout hw sta oom hz jiffies z st3))"
        using handle tt drv seq send
        by (simp add: Let_def y_def[symmetric] st2_def[symmetric] case_prod_beta z_def[symmetric] st3_def[symmetric] st4_def)
          (auto simp: z_def st3_def st4_def)
      then show ?thesis using run ok4 w4 w2 by simp
    qed
  qed
qed


lemma kept_retrieve: "kept hw st (st\<lparr> sta_txq := f \<rparr>)"
  by (rule kept_cong) simp_all

lemma addba_resp_agreed_ok:
  assumes ok: "tx_ok hw st" and x: "tid_tx st t = Some x"
    and size: "bsize \<noteq> 0" "bsize \<le> max_tx_aggregation_subframes hw"
    and going: "HT_AGG_STATE_STOPPING \<notin> state x" "HT_AGG_STATE_WANT_STOP \<notin> state x"
  shows "\<exists>st' evs. addba_resp_agreed sta jiffies tu bsize amsdu tmo t x st = Some (st', evs) \<and>
    tx_ok hw st' \<and> waiting st' = waiting st"
proof (cases "HT_AGG_STATE_RESPONSE_RECEIVED \<in> state x")
  case True
  then show ?thesis using ok by (simp add: addba_resp_agreed_def)
next
  case False
  note xok = tx_okD(3)[OF ok x]
  have start: "(tid_start_tx st)(t := None) = tid_start_tx st"
    using tx_okD(4)[OF ok x] by (rule start_None_upd)
  define y where "y = (agg_set_bit HT_AGG_STATE_RESPONSE_RECEIVED x)\<lparr> tx_buf_size := bsize, tx_amsdu := amsdu \<rparr>"
  define st1 where "st1 = ieee80211_assign_tid_tx t (Some y) st"
  define fin where "fin = (\<lambda>z :: tid_ampdu_tx. if tmo \<noteq> 0
      then z\<lparr> tx_timeout := tmo, tx_session_timer := Some (jiffies + tu tmo), last_tx := jiffies \<rparr>
      else z\<lparr> tx_timeout := tmo \<rparr>)"
  define res where "res u = (ieee80211_assign_tid_tx t (map_option fin (tid_tx u t)) u)
      \<lparr> addba_req_num := (addba_req_num u)(t := 0) \<rparr>" for u
  have fin: "state (fin z) = state z" "pending (fin z) = pending z" "tx_tid (fin z) = tx_tid z"
    "tx_buf_size (fin z) = tx_buf_size z" "addba_resp_timer (fin z) = addba_resp_timer z" for z
    by (simp_all add: fin_def)
  have run: "addba_resp_agreed sta jiffies tu bsize amsdu tmo t x st =
      map_option (\<lambda>(u, evs). (res u, evs))
        (if HT_AGG_STATE_DRV_READY \<in> state y then ieee80211_agg_tx_operational sta t st1 else Some (st1, []))"
    unfolding addba_resp_agreed_def Let_def y_def[symmetric] st1_def[symmetric] fin_def[symmetric] res_def
    using False by (simp add: y_def)
  have st1: "tid_tx st1 = (tid_tx st)(t := Some y)" "tid_start_tx st1 = tid_start_tx st"
    "addba_req_num st1 = addba_req_num st" "agg_queue_stop st1 = agg_queue_stop st" "local_pending st1 = local_pending st"
    by (simp_all add: st1_def)
  have yok: "tx_session_ok hw t (fin y)"
    using xok size going by (simp add: tx_session_ok_def fin y_def)
  have sent: "HT_AGG_STATE_SENT_ADDBA \<in> state y" if "HT_AGG_STATE_DRV_READY \<in> state y"
    using that xok going by (simp add: y_def tx_session_ok_def)
  have final: "tx_ok hw (res u)" if "tid_tx u = (tid_tx st)(t := Some z)" "tx_session_ok hw t (fin z)"
      "tid_start_tx u = tid_start_tx st" "addba_req_num u = addba_req_num st" "agg_queue_stop u = agg_queue_stop st" for u z
    by (rule tx_ok_session[OF ok that(2), of 0]) (simp_all add: res_def that start)
  have wres: "waiting (res u) = waiting u" if "tid_tx u t = Some z" for u z
    by (rule waiting_same) (use that in \<open>auto simp: res_def fin\<close>)
  have w1: "waiting st1 = waiting st" by (rule waiting_same) (use x in \<open>auto simp: st1 y_def\<close>)
  show ?thesis
  proof (cases "HT_AGG_STATE_DRV_READY \<in> state y")
    case False
    have "tx_ok hw (res st1)"
      by (rule final[of _ y]) (use yok in \<open>simp_all add: st1\<close>)
    moreover have "waiting (res st1) = waiting st"
      using wres[of st1 y] w1 by (simp add: st1)
    ultimately show ?thesis using run False by simp
  next
    case True
    let ?z = "agg_set_bit HT_AGG_STATE_OPERATIONAL (y\<lparr> pending := [] \<rparr>)"
    let ?u = "fst (ieee80211_agg_start_txq t True (moved sta t (Some ?z) st1))"
    obtain evs where op: "ieee80211_agg_tx_operational sta t st1 = Some (?u, evs)"
      using operational_state[of st1 t y] st1 by auto
    have "tx_session_ok hw t (fin ?z)"
      using yok sent[OF True] True going xok size by (simp add: tx_session_ok_def fin) (simp add: y_def)
    then have "tx_ok hw (res ?u)"
      by (intro final[of _ ?z]) (simp_all add: st1)
    moreover have "waiting (res ?u) = waiting st"
    proof -
      have "waiting (res ?u) = waiting ?u" by (rule wres[of _ ?z]) simp
      also have "\<dots> = waiting (moved sta t (Some ?z) st1)" using kept_start_txq by (simp add: kept_def)
      also have "\<dots> = waiting st1" by (rule moved_waiting) simp
      also have "\<dots> = waiting st" by (rule w1)
      finally show ?thesis .
    qed
    ultimately show ?thesis using run True op by simp
  qed
qed


lemma process_addba_resp_ok:
  assumes ok: "tx_ok hw st"
  shows "\<exists>st' evs. ieee80211_process_addba_resp hw sta jiffies tu mgmt st = Some (st', evs) \<and>
    tx_ok hw st' \<and> waiting st' = waiting st"
proof -
  define capab where "capab = get_unaligned_le16 mgmt 29"
  define amsdu where "amsdu = (capab AND IEEE80211_ADDBA_PARAM_AMSDU_MASK \<noteq> 0)"
  define t :: u8 where "t = ucast (get_bits capab IEEE80211_ADDBA_PARAM_TID_MASK)"
  define bsize where "bsize = min (snd (ieee80211_retrieve_addba_ext_data sta (drop 33 mgmt)
      (get_bits capab IEEE80211_ADDBA_PARAM_BUF_SIZE_MASK))) (max_tx_aggregation_subframes hw)"
  define st1 where "st1 = (case sta_txq st t of None \<Rightarrow> st
      | Some q \<Rightarrow> if \<not> amsdu then st\<lparr> sta_txq := (sta_txq st)(t := Some (q\<lparr> TXQ_NO_AMSDU := True \<rparr>)) \<rparr> else st)"
  have k1: "kept hw st st1" "tid_tx st1 = tid_tx st"
    by (auto simp: st1_def kept_retrieve split: option.splits)
  note def = ieee80211_process_addba_resp_def[of hw sta jiffies tu mgmt st, unfolded Let_def, folded capab_def,
      folded amsdu_def t_def bsize_def, folded st1_def]
  have ok1: "tx_ok hw st1" and w1: "waiting st1 = waiting st" using k1(1) ok by (simp_all add: kept_def)
  show ?thesis
  proof (cases "tid_tx st1 t")
    case None
    then show ?thesis using ok1 w1 by (simp add: def)
  next
    case (Some x)
    define y where "y = x\<lparr> addba_resp_timer := None \<rparr>"
    define st2 where "st2 = ieee80211_assign_tid_tx t (Some y) st1"
    have "kept hw st1 st2"
      unfolding st2_def by (rule kept_put_timers[OF Some]) (simp_all add: y_def)
    then have ok2: "tx_ok hw st2" and w2: "waiting st2 = waiting st" using ok1 w1 by (simp_all add: kept_def)
    have y: "tid_tx st2 t = Some y" by (simp add: st2_def)
    have le: "bsize \<le> max_tx_aggregation_subframes hw" by (simp add: bsize_def)
    note def' = def[unfolded Some option.case, folded y_def, folded st2_def]
    consider "ieee80211_process_addba_resp hw sta jiffies tu mgmt st = Some (st1, [])"
      | "ieee80211_process_addba_resp hw sta jiffies tu mgmt st = Some (st2, [])"
      | "HT_AGG_STATE_STOPPING \<notin> state y" "HT_AGG_STATE_WANT_STOP \<notin> state y" "bsize \<noteq> 0"
        "ieee80211_process_addba_resp hw sta jiffies tu mgmt st
           = addba_resp_agreed sta jiffies tu bsize amsdu (get_unaligned_le16 mgmt 31) t y st2"
      | "ieee80211_process_addba_resp hw sta jiffies tu mgmt st = Some (snd (ieee80211_stop_tx_session t AGG_STOP_DECLINED st2))"
      unfolding def'
      by (cases "mgmt ! 26 = dialog_token x"; cases "HT_AGG_STATE_WANT_STOP \<in> state y \<or> HT_AGG_STATE_STOPPING \<in> state y";
          cases "get_unaligned_le16 mgmt 27 = WLAN_STATUS_SUCCESS \<and> bsize \<noteq> 0") auto
    then show ?thesis
    proof cases
      case 1
      then show ?thesis using ok1 w1 by simp
    next
      case 2
      then show ?thesis using ok2 w2 by simp
    next
      case 3
      then show ?thesis using addba_resp_agreed_ok[OF ok2 y 3(3) le 3(1,2)] w2 by simp
    next
      case 4
      have "kept hw st2 (fst (snd (ieee80211_stop_tx_session t AGG_STOP_DECLINED st2)))"
        by (rule kept_stop_session) (use tx_okD(3)[OF ok2] in \<open>auto simp: tx_session_ok_def\<close>)
      then show ?thesis using 4 ok2 w2 by (cases "snd (ieee80211_stop_tx_session t AGG_STOP_DECLINED st2)") (simp add: kept_def)
    qed
  qed
qed

lemma start_tx_session_ok:
  assumes ok: "tx_ok hw st"
  shows "tx_ok hw (fst (snd (ieee80211_start_tx_ba_session hw' sta oom hz jiffies t tmo st)))"
    "waiting (fst (snd (ieee80211_start_tx_ba_session hw' sta oom hz jiffies t tmo st))) = waiting st"
proof -
  let ?st' = "fst (snd (ieee80211_start_tx_ba_session hw' sta oom hz jiffies t tmo st))"
  let ?k = "dialog_token_allocator st + 1"
  have "?st' = st \<or> tid_tx st t = None \<and> addba_req_num st t \<le> HT_AGG_MAX_RETRIES \<and>
      ?st' = st\<lparr> dialog_token_allocator := ?k, tid_start_tx := (tid_start_tx st)(t := Some (new_tid_tx t tmo ?k)) \<rparr>"
    by (auto simp: ieee80211_start_tx_ba_session_def Let_def not_less)
  then consider (same) "?st' = st"
    | (new) "tid_tx st t = None" "addba_req_num st t \<le> HT_AGG_MAX_RETRIES"
        "?st' = st\<lparr> dialog_token_allocator := ?k, tid_start_tx := (tid_start_tx st)(t := Some (new_tid_tx t tmo ?k)) \<rparr>"
    by metis
  then have "tx_ok hw ?st' \<and> waiting ?st' = waiting st"
  proof cases
    case same
    then show ?thesis using ok by simp
  next
    case new
    have "tid_ok hw t (addba_req_num st t) None (Some (new_tid_tx t tmo ?k))"
      using new(2) tx_okD(6)[OF ok, of t] by (simp add: tid_ok_def tx_start_ok_def new_tid_tx_def)
    then have "tx_ok hw ?st'"
      using new by (intro tx_ok_upd[OF ok, of t]) simp_all
    moreover have "waiting ?st' = waiting st" using new by (intro waiting_same) simp_all
    ultimately show ?thesis by blast
  qed
  then show "tx_ok hw ?st'" "waiting ?st' = waiting st" by blast+
qed

text \<open>A frame of the transmit path is passed on or queued; at most one old frame is dropped.\<close>

lemma prep_agg_ok:
  assumes ok: "tx_ok hw st" and r: "ieee80211_tx_prep_agg jiffies skb t st = (queued, st', evs)"
  shows "tx_ok hw st' \<and> waiting st - (\<Union>fs\<in>{fs. Free_skbs fs \<in> set evs}. set fs) \<subseteq> waiting st'"
proof (cases "tid_tx st t")
  case None
  then show ?thesis using r ok by (auto simp: ieee80211_tx_prep_agg_def)
next
  case (Some x)
  note xok = tx_okD(3)[OF ok Some]
  consider (same) "st' = st" | (timer) "st' = ieee80211_assign_tid_tx t (Some (x\<lparr> last_tx := jiffies \<rparr>)) st"
    | (queue) skb' q where "st' = ieee80211_assign_tid_tx t (Some (x\<lparr> pending := q \<rparr>)) st"
      "q = pending x @ [skb'] \<and> length q \<le> 64 \<or>
       length (pending x) = 64 \<and> q = tl (pending x @ [skb']) \<and> Free_skbs [hd (pending x @ [skb'])] \<in> set evs"
  proof -
    define skb' where "skb' = skb\<lparr> skb_tx := (skb_tx skb)\<lparr> ti_control_flags := ti_control_flags (skb_tx skb) OR IEEE80211_TX_INTCFL_NEED_TXPROCESSING,
        ti_flags := ti_flags (skb_tx skb) AND NOT IEEE80211_TX_TEMPORARY_FLAGS \<rparr> \<rparr>"
    have "length (pending x) \<le> 64" using xok by (simp add: tx_session_ok_def)
    then show thesis
      using r same timer queue[of _ skb'] Some
      unfolding ieee80211_tx_prep_agg_def Let_def skb'_def[symmetric]
      by (auto split: if_splits)
  qed
  then show ?thesis
  proof cases
    case same
    then show ?thesis using ok by blast
  next
    case timer
    have "kept hw st st'" unfolding timer by (rule kept_put_timers[OF Some]) simp_all
    then show ?thesis using ok by (auto simp: kept_def)
  next
    case (queue skb' q)
    have "tx_session_ok hw t (x\<lparr> pending := q \<rparr>)"
      using xok queue(2) by (auto simp: tx_session_ok_def)
    then have "tx_ok hw st'"
      using tx_okD(1,4-6)[OF ok] Some unfolding queue(1)
      by (intro tx_ok_upd[OF ok, of t]) (auto simp: tid_ok_def)
    moreover have "waiting st - (\<Union>fs\<in>{fs. Free_skbs fs \<in> set evs}. set fs) \<subseteq> waiting st'"
    proof
      fix f assume f: "f \<in> waiting st - (\<Union>fs\<in>{fs. Free_skbs fs \<in> set evs}. set fs)"
      have "set (pending x) \<subseteq> set q \<or> (\<exists>h. set (pending x) \<subseteq> insert h (set q) \<and> Free_skbs [h] \<in> set evs)"
        using queue(2) by (cases "pending x") auto
      then have "f \<in> set (pending x) \<Longrightarrow> f \<in> set q" using f by fastforce
      then show "f \<in> waiting st'"
        using f Some unfolding queue(1) waiting_def by (fastforce split: if_splits)
    qed
    ultimately show ?thesis by blast
  qed
qed


subsection \<open>The work of the station\<close>

lemma kept_clear:
  assumes "tid_tx st t = Some x" "b \<in> {HT_AGG_STATE_START_CB, HT_AGG_STATE_STOP_CB} \<or> b \<notin> state x"
  shows "kept hw st (ieee80211_assign_tid_tx t (Some (agg_clear_bit b x)) st)"
  by (rule kept_put[OF assms(1)]) (use assms in \<open>auto dest!: tx_okD(3) simp: tx_session_ok_def\<close>)

text \<open>A stop that was asked for: the request's bit is cleared and the session is stopping.\<close>

lemma kept_stop_wanted:
  assumes ok: "tx_ok hw st" and x: "tid_tx st t = Some x"
  defines "st' \<equiv> fst (snd (ieee80211_stop_tx_session t AGG_STOP_LOCAL_REQUEST
      (ieee80211_assign_tid_tx t (Some (agg_clear_bit HT_AGG_STATE_WANT_STOP x)) st)))"
  shows "tx_ok hw st' \<and> waiting st' = waiting st \<and> (\<exists>y. tid_tx st' t = Some y)"
proof -
  note xok = tx_okD(3)[OF ok x]
  define u where "u = agg_clear_bit HT_AGG_STATE_WANT_STOP x"
  define st0 where "st0 = (ieee80211_assign_tid_tx t (Some u) st)\<lparr> tid_start_tx := (tid_start_tx st)(t := None) \<rparr>"
  have u: "HT_AGG_STATE_WANT_START \<notin> state u" "HT_AGG_STATE_STOPPING \<in> state u \<longleftrightarrow> HT_AGG_STATE_STOPPING \<in> state x"
    using xok by (simp_all add: u_def tx_session_ok_def)
  obtain y where y: "tid_tx st' = (tid_tx st)(t := Some y)" "tid_start_tx st' = (tid_start_tx st)(t := None)"
      "addba_req_num st' = addba_req_num st" "agg_queue_stop st' = agg_queue_stop st" "local_pending st' = local_pending st"
      "pending y = pending x" "HT_AGG_STATE_SENT_ADDBA \<in> state y \<longleftrightarrow> HT_AGG_STATE_SENT_ADDBA \<in> state x" "tx_session_ok hw t y"
  proof (cases "HT_AGG_STATE_STOPPING \<in> state x")
    case True
    have "tx_session_ok hw t u" using xok True by (auto simp: u_def tx_session_ok_def)
    moreover have "st' = st0"
      using True u unfolding st'_def u_def[symmetric] by (simp add: ieee80211_stop_tx_session_def Let_def st0_def)
    ultimately show thesis by (intro that[of u]) (simp_all add: st0_def, simp_all add: u_def)
  next
    case False
    define y where "y = (agg_clear_bit HT_AGG_STATE_OPERATIONAL
      ((agg_set_bit HT_AGG_STATE_STOPPING u)\<lparr> addba_resp_timer := None, tx_session_timer := None \<rparr>))
        \<lparr> stop_initiator := WLAN_BACK_INITIATOR, tx_stop := True \<rparr>"
    have "st' = ieee80211_assign_tid_tx t (Some y) (ieee80211_agg_stop_txq t st0)"
      using False u unfolding st'_def u_def[symmetric] by (simp add: ieee80211_stop_tx_session_def Let_def st0_def y_def)
    moreover have "tx_session_ok hw t y" using xok by (auto simp: y_def u_def tx_session_ok_def)
    ultimately show thesis by (intro that[of y]) (simp_all add: st0_def, simp_all add: y_def u_def)
  qed
  have "tx_ok hw st'"
    using tx_okD(5,6)[OF ok] x y(7) by (intro tx_ok_session[OF ok y(8), of "addba_req_num st t"]) (simp_all add: y)
  moreover have "waiting st' = waiting st"
    by (rule waiting_same) (use x in \<open>simp_all add: y\<close>)
  ultimately show ?thesis using y(1) by simp
qed

lemma start_cb_session:
  assumes "tid_tx st t = Some x" "tx_tid x = t" "ieee80211_start_tx_ba_cb hw sta oom hz jiffies t st = Some (st', evs)"
  shows "\<exists>y. tid_tx st' t = Some y"
proof -
  have send: "tid_tx (fst (ieee80211_send_addba_with_timeout hw sta oom hz jiffies z u)) t \<noteq> None"
    if "tid_tx u t \<noteq> None" for z u
    using that by (auto simp: ieee80211_send_addba_with_timeout_def Let_def)
  have op: "tid_tx u' t \<noteq> None" if "ieee80211_agg_tx_operational sta t u = Some (u', evs')" for u u' evs'
  proof (cases "tid_tx u t")
    case None
    then show ?thesis using that by (simp add: ieee80211_agg_tx_operational_def)
  next
    case (Some z)
    then show ?thesis using operational_state[OF Some, of sta] that by auto
  qed
  have "tid_tx st' t \<noteq> None"
    using assms(1,3) send op unfolding ieee80211_start_tx_ba_cb_def Let_def
    by (auto split: if_splits dest!: arg_cong[where f = fst])
  then show ?thesis by simp
qed


lemma work_session_ok:
  assumes ok: "tx_ok hw st" and x: "tid_tx st t = Some x"
  shows "\<exists>st' evs. tx_work_session hw sta oom hz jiffies t st = Some (st', evs) \<and> tx_ok hw st' \<and> waiting st' = waiting st"
proof -
  define run_cb where "run_cb = (if WLAN_STA_BLOCK_BA sta then Some (st, [])
      else Option.bind (agg_test_and_clear HT_AGG_STATE_START_CB t st)
        (\<lambda>(start_cb, st). if start_cb then ieee80211_start_tx_ba_cb hw sta oom hz jiffies t st else Some (st, [])))"
  have "\<exists>st1 evs. run_cb = Some (st1, evs) \<and> tx_ok hw st1 \<and> waiting st1 = waiting st \<and> (\<exists>y. tid_tx st1 t = Some y)"
  proof (cases "WLAN_STA_BLOCK_BA sta")
    case True
    then show ?thesis using ok x by (simp add: run_cb_def)
  next
    case False
    define u where "u = agg_clear_bit HT_AGG_STATE_START_CB x"
    define st0 where "st0 = ieee80211_assign_tid_tx t (Some u) st"
    have "kept hw st st0" unfolding st0_def u_def by (rule kept_clear[OF x]) simp
    then have st0: "tx_ok hw st0" "waiting st0 = waiting st" "tid_tx st0 t = Some u" using ok by (simp_all add: kept_def st0_def)
    have run: "run_cb = (if HT_AGG_STATE_START_CB \<in> state x then ieee80211_start_tx_ba_cb hw sta oom hz jiffies t st0 else Some (st0, []))"
      using False x by (simp add: run_cb_def agg_test_and_clear_def st0_def u_def)
    have "tx_tid u = t" using tx_okD(3)[OF st0(1,3)] by (simp add: tx_session_ok_def)
    then show ?thesis
      using kept_start_cb[OF st0(1,3), of sta oom hz jiffies] start_cb_session[OF st0(3), of hw sta oom hz jiffies] st0 run by force
  qed
  then obtain st1 evs y where 1: "run_cb = Some (st1, evs)" "tx_ok hw st1" "waiting st1 = waiting st" "tid_tx st1 t = Some y" by blast
  define c where "c = ieee80211_assign_tid_tx t (Some (agg_clear_bit HT_AGG_STATE_WANT_STOP y)) st1"
  define p where "p = (if HT_AGG_STATE_WANT_STOP \<in> state y then snd (ieee80211_stop_tx_session t AGG_STOP_LOCAL_REQUEST c) else (c, []))"
  obtain z where 2: "tx_ok hw (fst p)" "waiting (fst p) = waiting st" "tid_tx (fst p) t = Some z"
  proof (cases "HT_AGG_STATE_WANT_STOP \<in> state y")
    case True
    then show thesis using kept_stop_wanted[OF 1(2,4)] 1(3) that by (auto simp: p_def c_def)
  next
    case False
    have "kept hw st1 c" unfolding c_def by (rule kept_clear[OF 1(4)]) (use False in simp)
    then show thesis using that[of "agg_clear_bit HT_AGG_STATE_WANT_STOP y"] 1 False by (simp add: p_def kept_def) (simp add: c_def)
  qed
  define d where "d = ieee80211_assign_tid_tx t (Some (agg_clear_bit HT_AGG_STATE_STOP_CB z)) (fst p)"
  have "kept hw (fst p) d" unfolding d_def by (rule kept_clear[OF 2(3)]) simp
  then have 3: "tx_ok hw d" "waiting d = waiting st" "tid_tx d t = Some (agg_clear_bit HT_AGG_STATE_STOP_CB z)"
    using 2 by (simp_all add: kept_def d_def)
  obtain st' evs' where 4: "(if HT_AGG_STATE_STOP_CB \<in> state z then ieee80211_stop_tx_ba_cb sta oom t d else Some (d, [])) = Some (st', evs')"
      "tx_ok hw st'" "waiting st' = waiting st"
  proof (cases "HT_AGG_STATE_STOP_CB \<in> state z")
    case True
    obtain st' evs' where "ieee80211_stop_tx_ba_cb sta oom t d = Some (st', evs')" "kept hw d st'"
      using kept_stop_cb[OF 3(3)] by blast
    then show thesis using that True 3(1,2) by (simp add: kept_def)
  next
    case False
    then show thesis using that 3(1,2) by simp
  qed
  have "tx_work_session hw sta oom hz jiffies t st = Some (st', evs @ snd p @ evs')"
    unfolding tx_work_session_def run_cb_def[symmetric] 1(1)
    using 1(4) 2(3) 4(1) by (simp add: agg_test_and_clear_def c_def[symmetric] p_def[symmetric] d_def[symmetric] case_prod_beta)
  then show ?thesis using 4(2,3) by simp
qed

end
