(* ===== verification/Agg_Sessions.thy ===== *)
theory Agg_Sessions
  imports Agg_Rx Agg_Tx_Inv
begin

text \<open>
  Both directions of block-ack sessions together: the station's work and the DELBA frame of
  \<^verbatim>\<open>mac80211/ht.c\<close>, runs of the transmit operations, and the agreement of requests and responses
  built by one side and read by the other.
\<close>

subsection \<open>The station's work and DELBA frames\<close>

text \<open>The receive half of the work's loop body, for one TID.\<close>

definition rx_ba_session_work ::
    "agg_hw \<Rightarrow> agg_peer \<Rightarrow> ampdu_driver \<Rightarrow> (ba_alloc \<Rightarrow> bool) \<Rightarrow> u64 \<Rightarrow> (u16 \<Rightarrow> u64) \<Rightarrow> u8 \<Rightarrow> sta_ampdu_mlme \<Rightarrow>
     sta_ampdu_mlme \<times> ba_event list" where
  "rx_ba_session_work hw sta drv oom jiffies tu_to_jiffies t mlme =
     (let (mlme, evs1) =
            (let expired = tid_rx_timer_expired mlme t;
                 mlme = mlme\<lparr> tid_rx_timer_expired := (tid_rx_timer_expired mlme)(t := False) \<rparr>
             in if expired then ieee80211_stop_rx_session hw oom (ucast t) WLAN_BACK_RECIPIENT WLAN_REASON_QSTA_TIMEOUT True mlme
                else (mlme, []));
          (mlme, evs2) =
            (let requested = tid_rx_stop_requested mlme t;
                 mlme = mlme\<lparr> tid_rx_stop_requested := (tid_rx_stop_requested mlme)(t := False) \<rparr>
             in if requested then ieee80211_stop_rx_session hw oom (ucast t) WLAN_BACK_RECIPIENT WLAN_REASON_UNSPECIFIED True mlme
                else (mlme, []));
          (mlme, evs3) =
            (if \<not> WLAN_STA_BLOCK_BA sta \<and> tid_rx_manage_offl mlme t
             then ieee80211_start_rx_ba_session hw sta drv oom jiffies tu_to_jiffies 0 0 0 1 (ucast t)
                    IEEE80211_MAX_AMPDU_BUF_HT False True 0
                    (mlme\<lparr> tid_rx_manage_offl := (tid_rx_manage_offl mlme)(t := False) \<rparr>)
             else (mlme, []));
          (mlme, evs4) =
            (let stopped = tid_rx_manage_offl mlme (t + of_nat IEEE80211_NUM_TIDS);
                 mlme = mlme\<lparr> tid_rx_manage_offl := (tid_rx_manage_offl mlme)(t + of_nat IEEE80211_NUM_TIDS := False) \<rparr>
             in if stopped then ieee80211_stop_rx_session hw oom (ucast t) WLAN_BACK_RECIPIENT 0 False mlme
                else (mlme, []))
      in (mlme, evs1 @ evs2 @ evs3 @ evs4))"

text \<open>The loop over the TIDs ends early when the work is to run again.\<close>

fun ba_session_work_loop ::
    "agg_hw \<Rightarrow> agg_peer \<Rightarrow> ampdu_driver \<Rightarrow> (ba_alloc \<Rightarrow> bool) \<Rightarrow> u64 \<Rightarrow> u64 \<Rightarrow> (u16 \<Rightarrow> u64) \<Rightarrow> u8 list \<Rightarrow>
     sta_ampdu_mlme \<times> agg_tx_sta \<Rightarrow> ((sta_ampdu_mlme \<times> agg_tx_sta) \<times> ba_event list) option" where
  "ba_session_work_loop hw sta drv oom hz jiffies tu [] s = Some (s, [])"
| "ba_session_work_loop hw sta drv oom hz jiffies tu (t # ts) (mlme, st) =
     (let (mlme, evs) = rx_ba_session_work hw sta drv oom jiffies tu t mlme in
      case tx_ba_session_work hw sta drv oom hz jiffies t st of
        None \<Rightarrow> None
      | Some (again, st, evs') \<Rightarrow>
          if again then Some ((mlme, st), evs @ evs')
          else map_option (\<lambda>(s, evs''). (s, evs @ evs' @ evs'')) (ba_session_work_loop hw sta drv oom hz jiffies tu ts (mlme, st)))"

definition ieee80211_ba_session_work ::
    "agg_hw \<Rightarrow> agg_peer \<Rightarrow> ampdu_driver \<Rightarrow> (ba_alloc \<Rightarrow> bool) \<Rightarrow> u64 \<Rightarrow> u64 \<Rightarrow> (u16 \<Rightarrow> u64) \<Rightarrow>
     sta_ampdu_mlme \<times> agg_tx_sta \<Rightarrow> ((sta_ampdu_mlme \<times> agg_tx_sta) \<times> ba_event list) option" where
  "ieee80211_ba_session_work hw sta drv oom hz jiffies tu s =
     ba_session_work_loop hw sta drv oom hz jiffies tu (map of_nat [0..<IEEE80211_NUM_TIDS]) s"

definition ieee80211_process_delba ::
    "agg_hw \<Rightarrow> (ba_alloc \<Rightarrow> bool) \<Rightarrow> u8 list \<Rightarrow> sta_ampdu_mlme \<times> agg_tx_sta \<Rightarrow> (sta_ampdu_mlme \<times> agg_tx_sta) \<times> ba_event list" where
  "ieee80211_process_delba hw oom mgmt s =
     (let params = get_unaligned_le16 mgmt 26;
          t = drop_bit 12 (params AND IEEE80211_DELBA_PARAM_TID_MASK);
          initiator = drop_bit 11 (params AND IEEE80211_DELBA_PARAM_INITIATOR_MASK)
      in if initiator = WLAN_BACK_INITIATOR
         then (let (mlme, evs) = ieee80211_stop_rx_session hw oom t WLAN_BACK_INITIATOR 0 True (fst s) in ((mlme, snd s), evs))
         else (let (_, st, evs) = ieee80211_stop_tx_session (ucast t) AGG_STOP_PEER_REQUEST (snd s) in ((fst s, st), evs)))"

text \<open>All sessions of a station are torn down; a station being destroyed also finishes its stops.\<close>

fun stop_rx_loop :: "agg_hw \<Rightarrow> (ba_alloc \<Rightarrow> bool) \<Rightarrow> bool \<Rightarrow> u8 list \<Rightarrow> sta_ampdu_mlme \<Rightarrow> sta_ampdu_mlme \<times> ba_event list" where
  "stop_rx_loop hw oom tx [] mlme = (mlme, [])"
| "stop_rx_loop hw oom tx (t # ts) mlme =
     (let (mlme, evs) = ieee80211_stop_rx_session hw oom (ucast t) WLAN_BACK_RECIPIENT WLAN_REASON_QSTA_LEAVE_QBSS tx mlme;
          (mlme, evs') = stop_rx_loop hw oom tx ts mlme
      in (mlme, evs @ evs'))"

fun stop_tx_loop :: "ieee80211_agg_stop_reason \<Rightarrow> u8 list \<Rightarrow> agg_tx_sta \<Rightarrow> agg_tx_sta \<times> ba_event list" where
  "stop_tx_loop reason [] st = (st, [])"
| "stop_tx_loop reason (t # ts) st =
     (let (_, st, evs) = ieee80211_stop_tx_session t reason st; (st, evs') = stop_tx_loop reason ts st
      in (st, evs @ evs'))"

fun finish_stops :: "agg_peer \<Rightarrow> (ba_alloc \<Rightarrow> bool) \<Rightarrow> u8 list \<Rightarrow> agg_tx_sta \<Rightarrow> (agg_tx_sta \<times> ba_event list) option" where
  "finish_stops sta oom [] st = Some (st, [])"
| "finish_stops sta oom (t # ts) st =
     (case tid_tx st t of
        None \<Rightarrow> finish_stops sta oom ts st
      | Some x \<Rightarrow>
          (let st = ieee80211_assign_tid_tx t (Some (agg_clear_bit HT_AGG_STATE_STOP_CB x)) st in
           Option.bind (if HT_AGG_STATE_STOP_CB \<in> state x then ieee80211_stop_tx_ba_cb sta oom t st else Some (st, []))
             (\<lambda>(st, evs). map_option (\<lambda>(st, evs'). (st, evs @ evs')) (finish_stops sta oom ts st))))"

definition ieee80211_sta_tear_down_BA_sessions ::
    "agg_hw \<Rightarrow> agg_peer \<Rightarrow> (ba_alloc \<Rightarrow> bool) \<Rightarrow> ieee80211_agg_stop_reason \<Rightarrow> sta_ampdu_mlme \<times> agg_tx_sta \<Rightarrow>
     ((sta_ampdu_mlme \<times> agg_tx_sta) \<times> ba_event list) option" where
  "ieee80211_sta_tear_down_BA_sessions hw sta oom reason s =
     (let tids = map of_nat [0..<IEEE80211_NUM_TIDS];
          (mlme, evs) = stop_rx_loop hw oom (reason \<noteq> AGG_STOP_DESTROY_STA \<and> reason \<noteq> AGG_STOP_PEER_REQUEST) tids (fst s);
          (st, evs') = stop_tx_loop reason tids (snd s)
      in if reason = AGG_STOP_DESTROY_STA
         then map_option (\<lambda>(st, evs''). ((mlme, st), evs @ evs' @ evs'')) (finish_stops sta oom tids st)
         else Some ((mlme, st), evs @ evs'))"


subsection \<open>The invariant over both directions\<close>

lemma rx_work_ok:
  assumes ok: "rx_sessions_ok hw mlme"
  shows "rx_sessions_ok hw (fst (rx_ba_session_work hw sta drv oom jiffies tu t mlme))"
proof -
  have flags: "rx_sessions_ok hw m \<Longrightarrow> rx_sessions_ok hw (m\<lparr> tid_rx_timer_expired := f \<rparr>)"
    "rx_sessions_ok hw m \<Longrightarrow> rx_sessions_ok hw (m\<lparr> tid_rx_stop_requested := f \<rparr>)"
    "rx_sessions_ok hw m \<Longrightarrow> rx_sessions_ok hw (m\<lparr> tid_rx_manage_offl := f \<rparr>)" for m f
    by (erule rx_sessions_ok_cong; simp)+
  define m1 where "m1 = fst (let expired = tid_rx_timer_expired mlme t;
      mlme = mlme\<lparr> tid_rx_timer_expired := (tid_rx_timer_expired mlme)(t := False) \<rparr>
    in if expired then ieee80211_stop_rx_session hw oom (ucast t) WLAN_BACK_RECIPIENT WLAN_REASON_QSTA_TIMEOUT True mlme
       else (mlme, []))"
  define m2 where "m2 = fst (let requested = tid_rx_stop_requested m1 t;
      mlme = m1\<lparr> tid_rx_stop_requested := (tid_rx_stop_requested m1)(t := False) \<rparr>
    in if requested then ieee80211_stop_rx_session hw oom (ucast t) WLAN_BACK_RECIPIENT WLAN_REASON_UNSPECIFIED True mlme
       else (mlme, []))"
  define m3 where "m3 = fst (if \<not> WLAN_STA_BLOCK_BA sta \<and> tid_rx_manage_offl m2 t
    then ieee80211_start_rx_ba_session hw sta drv oom jiffies tu 0 0 0 1 (ucast t)
           IEEE80211_MAX_AMPDU_BUF_HT False True 0
           (m2\<lparr> tid_rx_manage_offl := (tid_rx_manage_offl m2)(t := False) \<rparr>)
    else (m2, []))"
  have 1: "rx_sessions_ok hw m1" using ok by (simp add: m1_def Let_def flags stop_rx_sessions_ok)
  have 2: "rx_sessions_ok hw m2" using 1 by (simp add: m2_def Let_def flags stop_rx_sessions_ok)
  have 3: "rx_sessions_ok hw m3" using 2 by (simp add: m3_def flags start_rx_sessions_ok)
  have "fst (rx_ba_session_work hw sta drv oom jiffies tu t mlme) =
    fst (let stopped = tid_rx_manage_offl m3 (t + of_nat IEEE80211_NUM_TIDS);
         mlme = m3\<lparr> tid_rx_manage_offl := (tid_rx_manage_offl m3)(t + of_nat IEEE80211_NUM_TIDS := False) \<rparr>
       in if stopped then ieee80211_stop_rx_session hw oom (ucast t) WLAN_BACK_RECIPIENT 0 False mlme else (mlme, []))"
    unfolding rx_ba_session_work_def m3_def m2_def m1_def by (simp only: Let_def case_prod_beta fst_conv)
  then show ?thesis using 3 by (simp add: Let_def flags stop_rx_sessions_ok)
qed

lemma tx_work_ok:
  assumes "tx_ok hw st" "tx_ba_session_work hw sta drv oom hz jiffies t st = Some (again, st', evs)"
  shows "tx_ok hw st' \<and> waiting st' = waiting st"
proof (cases "tid_start_tx st t")
  case None
  show ?thesis
  proof (cases "tid_tx st t")
    case (Some x)
    then show ?thesis
      using work_session_ok[OF assms(1) Some, of sta oom hz jiffies] assms(2) None by (auto simp: tx_ba_session_work_def)
  qed (use assms None in \<open>simp add: tx_ba_session_work_def\<close>)
next
  case (Some x)
  show ?thesis
  proof (cases "WLAN_STA_BLOCK_BA sta")
    case True
    then show ?thesis using assms Some tx_okD(8)[OF assms(1) Some] by (simp add: tx_ba_session_work_def)
  next
    case False
    then obtain q where "sta_txq st t = Some q"
      using assms(2) Some by (cases "sta_txq st t") (simp_all add: tx_ba_session_work_def tx_work_start_def)
    then show ?thesis
      using work_start_ok[OF assms(1) Some, of q sta drv oom hz jiffies] assms(2) Some False
      by (auto simp: tx_ba_session_work_def)
  qed
qed

lemma tx_work_returns:
  assumes "tx_ok hw st" "sta_txq st t \<noteq> None"
  shows "tx_ba_session_work hw sta drv oom hz jiffies t st \<noteq> None"
proof -
  obtain q where q: "sta_txq st t = Some q" using assms(2) by blast
  show ?thesis
  proof (cases "tid_start_tx st t")
    case None
    then show ?thesis
      using work_session_ok[OF assms(1), of t _ sta oom hz jiffies] by (fastforce simp: tx_ba_session_work_def)
  next
    case (Some x)
    then show ?thesis
      using work_start_ok[OF assms(1) Some q, of sta drv oom hz jiffies] tx_okD(8)[OF assms(1) Some]
      by (auto simp: tx_ba_session_work_def)
  qed
qed

lemma work_loop_ok:
  assumes "ba_session_work_loop hw sta drv oom hz jiffies tu ts s = Some (s', evs)" "rx_sessions_ok hw (fst s)" "tx_ok hw (snd s)"
  shows "rx_sessions_ok hw (fst s') \<and> tx_ok hw (snd s') \<and> waiting (snd s') = waiting (snd s)"
  using assms
proof (induction ts arbitrary: s evs)
  case Nil
  then show ?case by simp
next
  case (Cons t ts)
  obtain mlme st where s: "s = (mlme, st)" by (cases s)
  obtain again st1 evs1 where tx: "tx_ba_session_work hw sta drv oom hz jiffies t st = Some (again, st1, evs1)"
    using Cons.prems(1) by (cases "tx_ba_session_work hw sta drv oom hz jiffies t st") (auto simp: s case_prod_beta)
  define m1 where "m1 = fst (rx_ba_session_work hw sta drv oom jiffies tu t mlme)"
  have ok1: "rx_sessions_ok hw m1" "tx_ok hw st1" "waiting st1 = waiting st"
    using rx_work_ok Cons.prems(2,3) tx_work_ok[OF _ tx] by (simp_all add: s m1_def)
  consider "s' = (m1, st1)" | evs2 where "ba_session_work_loop hw sta drv oom hz jiffies tu ts (m1, st1) = Some (s', evs2)"
    using Cons.prems(1) tx by (auto simp: s m1_def case_prod_beta split: if_splits)
  then show ?case
  proof cases
    case 1
    then show ?thesis using ok1 s by simp
  next
    case 2
    then show ?thesis using Cons.IH[OF 2] ok1 s by simp
  qed
qed

lemma stop_tx_ok:
  assumes "tx_ok hw st"
  shows "tx_ok hw (fst (snd (ieee80211_stop_tx_session t reason st)))"
    "waiting (fst (snd (ieee80211_stop_tx_session t reason st))) = waiting st"
proof -
  have "kept hw st (fst (snd (ieee80211_stop_tx_session t reason st)))"
    by (rule kept_stop_session) (use tx_okD(3)[OF assms] in \<open>auto simp: tx_session_ok_def\<close>)
  then show "tx_ok hw (fst (snd (ieee80211_stop_tx_session t reason st)))"
    "waiting (fst (snd (ieee80211_stop_tx_session t reason st))) = waiting st"
    using assms by (simp_all add: kept_def)
qed

lemma stop_loops_ok:
  "rx_sessions_ok hw mlme \<Longrightarrow> rx_sessions_ok hw (fst (stop_rx_loop hw oom tx ts mlme))"
  "tx_ok hw st \<Longrightarrow> tx_ok hw (fst (stop_tx_loop reason ts st)) \<and> waiting (fst (stop_tx_loop reason ts st)) = waiting st"
proof -
  show "rx_sessions_ok hw mlme \<Longrightarrow> rx_sessions_ok hw (fst (stop_rx_loop hw oom tx ts mlme))"
    by (induction ts arbitrary: mlme) (simp_all add: case_prod_beta stop_rx_sessions_ok)
  show "tx_ok hw st \<Longrightarrow> tx_ok hw (fst (stop_tx_loop reason ts st)) \<and> waiting (fst (stop_tx_loop reason ts st)) = waiting st"
    by (induction ts arbitrary: st) (simp_all add: case_prod_beta stop_tx_ok)
qed

lemma finish_stops_ok:
  "tx_ok hw st \<Longrightarrow> \<exists>st' evs. finish_stops sta oom ts st = Some (st', evs) \<and> tx_ok hw st' \<and> waiting st' = waiting st"
proof (induction ts arbitrary: st)
  case Nil
  then show ?case by simp
next
  case (Cons t ts)
  show ?case
  proof (cases "tid_tx st t")
    case None
    then show ?thesis using Cons by simp
  next
    case (Some x)
    define d where "d = ieee80211_assign_tid_tx t (Some (agg_clear_bit HT_AGG_STATE_STOP_CB x)) st"
    have "kept hw st d" unfolding d_def by (rule kept_clear[OF Some]) simp
    then have d: "tx_ok hw d" "waiting d = waiting st" using Cons.prems by (simp_all add: kept_def)
    obtain st1 evs1 where 1: "(if HT_AGG_STATE_STOP_CB \<in> state x then ieee80211_stop_tx_ba_cb sta oom t d else Some (d, []))
        = Some (st1, evs1)" "tx_ok hw st1" "waiting st1 = waiting st"
    proof (cases "HT_AGG_STATE_STOP_CB \<in> state x")
      case True
      obtain st1 evs1 where "ieee80211_stop_tx_ba_cb sta oom t d = Some (st1, evs1)" "kept hw d st1"
        using kept_stop_cb[of d t] by (metis assign_simps(1) d_def fun_upd_same)
      then show thesis using that True d by (simp add: kept_def)
    qed (use that d in simp)
    obtain st2 evs2 where "finish_stops sta oom ts st1 = Some (st2, evs2)" "tx_ok hw st2" "waiting st2 = waiting st1"
      using Cons.IH[OF 1(2)] by blast
    then show ?thesis using Some 1 by (simp add: Let_def d_def[symmetric])
  qed
qed


subsection \<open>Runs\<close>

text \<open>
  Every operation on the sessions of a station: those of the receive side (\<open>rx_ba_step\<close>), those of
  the transmit side, and those that touch both.  \<open>ba_frame\<close> is a frame of the transmit path, the
  only operation that may drop a waiting frame; \<open>ba_frags\<close> is the transmit path putting fragments
  into a queue or taking them out.
\<close>

inductive ba_control :: "agg_hw \<Rightarrow> sta_ampdu_mlme \<times> agg_tx_sta \<Rightarrow> sta_ampdu_mlme \<times> agg_tx_sta \<Rightarrow> bool" for hw :: agg_hw where
  receive: "rx_ba_step hw mlme mlme' \<Longrightarrow> ba_control hw (mlme, st) (mlme', st)"
| start: "ba_control hw (mlme, st) (mlme, fst (snd (ieee80211_start_tx_ba_session hw sta oom hz jiffies t tmo st)))"
| stop: "ba_control hw (mlme, st) (mlme, fst (snd (ieee80211_stop_tx_ba_session hw t st)))"
| addba_timer: "ba_control hw (mlme, st) (mlme, fst (sta_addba_resp_timer_expired hw t st))"
| tx_timer: "ba_control hw (mlme, st) (mlme, fst (sta_tx_agg_session_timer_expired hw jiffies tu t st))"
| start_cb: "ieee80211_start_tx_ba_cb_irqsafe t (Some st) = (Some st', evs) \<Longrightarrow> ba_control hw (mlme, st) (mlme, st')"
| stop_cb: "ieee80211_stop_tx_ba_cb_irqsafe t (Some st) = (Some st', evs) \<Longrightarrow> ba_control hw (mlme, st) (mlme, st')"
| response: "ieee80211_process_addba_resp hw sta jiffies tu mgmt st = Some (st', evs) \<Longrightarrow> ba_control hw (mlme, st) (mlme, st')"
| refresh: "ba_control hw (mlme, st) (mlme, ieee80211_refresh_tx_agg_session_timer jiffies t st)"
| work: "ieee80211_ba_session_work hw sta drv oom hz jiffies tu s = Some (s', evs) \<Longrightarrow> ba_control hw s s'"
| delba: "ba_control hw s (fst (ieee80211_process_delba hw oom mgmt s))"
| tear_down: "ieee80211_sta_tear_down_BA_sessions hw sta oom reason s = Some (s', evs) \<Longrightarrow> ba_control hw s s'"

inductive ba_step :: "agg_hw \<Rightarrow> sta_ampdu_mlme \<times> agg_tx_sta \<Rightarrow> sta_ampdu_mlme \<times> agg_tx_sta \<Rightarrow> bool" for hw :: agg_hw where
  ba_control: "ba_control hw s s' \<Longrightarrow> ba_step hw s s'"
| ba_frame: "ieee80211_tx_prep_agg jiffies skb t st = (queued, st', evs) \<Longrightarrow> ba_step hw (mlme, st) (mlme, st')"
| ba_frags: "ba_step hw (mlme, st)
    (mlme, st\<lparr> sta_txq := (sta_txq st)(t := map_option (\<lambda>q. q\<lparr> txq_frags := fs \<rparr>) (sta_txq st t)) \<rparr>)"

definition ba_ok :: "agg_hw \<Rightarrow> sta_ampdu_mlme \<times> agg_tx_sta \<Rightarrow> bool" where
  "ba_ok hw s \<longleftrightarrow> rx_sessions_ok hw (fst s) \<and> tx_ok hw (snd s)"

lemma irqsafe_kept:
  "ieee80211_start_tx_ba_cb_irqsafe t (Some st) = (Some st', evs) \<Longrightarrow> kept hw st st'"
  "ieee80211_stop_tx_ba_cb_irqsafe t (Some st) = (Some st', evs) \<Longrightarrow> kept hw st st'"
proof -
  have put: "kept hw st (ieee80211_assign_tid_tx t (Some (agg_set_bit b x)) st)"
    if "tid_tx st t = Some x" "b \<in> {HT_AGG_STATE_START_CB, HT_AGG_STATE_STOP_CB}" for b x
    by (rule kept_put[OF that(1)]) (use that in \<open>auto dest!: tx_okD(3) simp: tx_session_ok_def\<close>)
  show "ieee80211_start_tx_ba_cb_irqsafe t (Some st) = (Some st', evs) \<Longrightarrow> kept hw st st'"
    using put by (auto simp: ieee80211_start_tx_ba_cb_irqsafe_def split: if_splits option.splits)
  show "ieee80211_stop_tx_ba_cb_irqsafe t (Some st) = (Some st', evs) \<Longrightarrow> kept hw st st'"
    using put by (auto simp: ieee80211_stop_tx_ba_cb_irqsafe_def split: if_splits option.splits)
qed

lemma refresh_kept: "kept hw st (ieee80211_refresh_tx_agg_session_timer jiffies t st)"
proof (cases "tid_tx st t")
  case None
  then have "(tid_tx st)(t := None) = tid_tx st" by (rule fun_upd_idem)
  then show ?thesis using None by (intro kept_cong) (simp_all add: ieee80211_refresh_tx_agg_session_timer_def)
next
  case (Some x)
  have "kept hw st (ieee80211_assign_tid_tx t (Some (x\<lparr> last_tx := jiffies \<rparr>)) st)"
    by (rule kept_put_timers[OF Some]) simp_all
  then show ?thesis using Some by (simp add: ieee80211_refresh_tx_agg_session_timer_def)
qed

lemma ba_control_ok:
  assumes "ba_control hw s s'" "ba_ok hw s"
  shows "ba_ok hw s' \<and> waiting (snd s') = waiting (snd s)"
  using assms
proof (cases rule: ba_control.cases)
  case receive
  then show ?thesis using assms(2) rx_ba_step_ok by (auto simp: ba_ok_def)
next
  case start
  then show ?thesis using assms(2) start_tx_session_ok[of hw] by (simp add: ba_ok_def)
next
  case stop
  then show ?thesis using assms(2) kept_want_stop[of hw] by (simp add: ba_ok_def kept_def)
next
  case addba_timer
  then show ?thesis using assms(2) kept_addba_timer[of hw] by (simp add: ba_ok_def kept_def)
next
  case tx_timer
  then show ?thesis using assms(2) kept_session_timer[of hw] by (simp add: ba_ok_def kept_def)
next
  case start_cb
  then show ?thesis using assms(2) irqsafe_kept(1)[of _ _ _ _ hw] by (simp add: ba_ok_def kept_def)
next
  case stop_cb
  then show ?thesis using assms(2) irqsafe_kept(2)[of _ _ _ _ hw] by (simp add: ba_ok_def kept_def)
next
  case (response sta jiffies tu mgmt st st' evs mlme)
  then show ?thesis using assms(2) process_addba_resp_ok[of hw st sta jiffies tu mgmt] by (auto simp: ba_ok_def)
next
  case refresh
  then show ?thesis using assms(2) refresh_kept[of hw] by (simp add: ba_ok_def kept_def)
next
  case work
  then show ?thesis using assms(2) work_loop_ok unfolding ieee80211_ba_session_work_def ba_ok_def by blast
next
  case delba
  then show ?thesis using assms(2)
    by (auto simp: ba_ok_def ieee80211_process_delba_def Let_def case_prod_beta stop_rx_sessions_ok stop_tx_ok[of hw])
next
  case (tear_down sta oom reason evs)
  define m where "m = stop_rx_loop hw oom (reason \<noteq> AGG_STOP_DESTROY_STA \<and> reason \<noteq> AGG_STOP_PEER_REQUEST)
      (map of_nat [0..<IEEE80211_NUM_TIDS]) (fst s)"
  define u where "u = stop_tx_loop reason (map of_nat [0..<IEEE80211_NUM_TIDS]) (snd s)"
  have 1: "rx_sessions_ok hw (fst m)" "tx_ok hw (fst u)" "waiting (fst u) = waiting (snd s)"
    using assms(2) stop_loops_ok(1)[of hw] stop_loops_ok(2)[of hw] by (simp_all add: ba_ok_def m_def u_def)
  have "(if reason = AGG_STOP_DESTROY_STA
      then map_option (\<lambda>(st, evs''). ((fst m, st), snd m @ snd u @ evs'')) (finish_stops sta oom (map of_nat [0..<IEEE80211_NUM_TIDS]) (fst u))
      else Some ((fst m, fst u), snd m @ snd u)) = Some (s', evs)"
    using tear_down(1) unfolding ieee80211_sta_tear_down_BA_sessions_def Let_def m_def[symmetric] u_def[symmetric]
    by (simp only: case_prod_beta)
  then show ?thesis
    using 1 finish_stops_ok[OF 1(2), of sta oom "map of_nat [0..<IEEE80211_NUM_TIDS]"] by (auto simp: ba_ok_def split: if_splits)
qed

lemma ba_step_ok: "ba_step hw s s' \<Longrightarrow> ba_ok hw s \<Longrightarrow> ba_ok hw s'"
proof (induction rule: ba_step.induct)
  case ba_control
  then show ?case using ba_control_ok by blast
next
  case (ba_frame jiffies skb t st queued st' evs mlme)
  then show ?case using prep_agg_ok[of hw st jiffies skb t queued st' evs] by (simp add: ba_ok_def)
next
  case (ba_frags mlme st t fs)
  have "kept hw st (st\<lparr> sta_txq := (sta_txq st)(t := map_option (\<lambda>q. q\<lparr> txq_frags := fs \<rparr>) (sta_txq st t)) \<rparr>)"
    by (rule kept_cong) simp_all
  then show ?case using ba_frags by (simp add: ba_ok_def kept_def)
qed


subsection \<open>Properties of the sessions\<close>

definition ba_initial :: "sta_ampdu_mlme \<times> agg_tx_sta \<Rightarrow> bool" where
  "ba_initial s \<longleftrightarrow> rx_ba_initial (fst s) \<and> (\<forall>t. tid_tx (snd s) t = None \<and> tid_start_tx (snd s) t = None \<and>
     addba_req_num (snd s) t = 0 \<and> (\<forall>q. sta_txq (snd s) t = Some q \<longrightarrow> \<not> TXQ_AMPDU q)) \<and>
     agg_queue_stop (snd s) = (\<lambda>_. 0)"

lemma ba_run_ok: "(ba_step hw)\<^sup>*\<^sup>* s s' \<Longrightarrow> ba_ok hw s \<Longrightarrow> ba_ok hw s'"
  by (induction rule: rtranclp_induct) (auto intro: ba_step_ok)

lemma ba_initial_ok: "ba_initial s \<Longrightarrow> ba_ok hw s"
  by (simp add: ba_initial_def ba_ok_def rx_ba_initial_def rx_sessions_ok_def tx_ok_def tid_ok_def)

definition ex_tx_sta :: agg_tx_sta where
  "ex_tx_sta = \<lparr> tid_tx = (\<lambda>_. None), tid_start_tx = (\<lambda>_. None), last_addba_req_time = (\<lambda>_. 0), addba_req_num = (\<lambda>_. 0),
     dialog_token_allocator = 0, tid_seq = (\<lambda>_. 1600),
     sta_txq = (\<lambda>_. Some \<lparr> TXQ_STOP = False, TXQ_AMPDU = False, TXQ_NO_AMSDU = False, txq_frags = [] \<rparr>),
     agg_queue_stop = (\<lambda>_. 0), local_pending = (\<lambda>_. []) \<rparr>"

definition ex_started :: agg_tx_sta where
  "ex_started = fst (snd (ieee80211_start_tx_ba_session ex_agg_hw ex_agg_peer (\<lambda>_. False) 250 1000 5 0 ex_tx_sta))"

lemma ex_initial: "ba_initial (ex_mlme, ex_tx_sta)"
  by (simp add: ba_initial_def rx_ba_initial_def ex_mlme_def ex_tx_sta_def)

text \<open>C13: Starting, agreeing, stopping and removing sessions loses no frame: whatever operations
  other than new frames of the transmit path run, the frames waiting in sessions and in the
  queues for them are the same before and after.  A new frame drops at most the oldest one, when
  64 wait.\<close>

theorem ba_control_keeps_frames:
  assumes "(ba_control hw)\<^sup>*\<^sup>* s s'" "ba_ok hw s"
  shows "waiting (snd s') = waiting (snd s)"
proof -
  have "ba_ok hw s' \<and> waiting (snd s') = waiting (snd s)"
    using assms
  proof (induction rule: rtranclp_induct)
    case (step y z)
    then show ?case using ba_control_ok[of hw y z] by simp
  qed simp
  then show ?thesis by blast
qed

definition ex_waiting_tx :: agg_tx_sta where
  "ex_waiting_tx = ex_tx_sta\<lparr> tid_tx := (\<lambda>t. if t = 5 then Some ((new_tid_tx 5 0 1)
     \<lparr> state := {HT_AGG_STATE_STOPPING, HT_AGG_STATE_STOP_CB}, pending := [ex_mpdu 7 False] \<rparr>) else None) \<rparr>"

lemma ex_waiting_ok: "ba_ok ex_agg_hw (ex_mlme, ex_waiting_tx)"
  by (auto simp: ba_ok_def rx_sessions_ok_def ex_mlme_def tx_ok_def tid_ok_def ex_waiting_tx_def ex_tx_sta_def tx_session_ok_def new_tid_tx_def)

definition ex_delba :: "u8 list" where
  "ex_delba = replicate 24 0 @ [3, 2] @ le16_bytes (push_bit 12 5) @ le16_bytes 37"

theorem ba_control_keeps_frames_witness:
  "ex_mpdu 7 False \<in> waiting (snd (fst (ieee80211_process_delba ex_agg_hw (\<lambda>_. False) ex_delba (ex_mlme, ex_waiting_tx))))"
proof -
  have "ba_control ex_agg_hw (ex_mlme, ex_waiting_tx)
      (fst (ieee80211_process_delba ex_agg_hw (\<lambda>_. False) ex_delba (ex_mlme, ex_waiting_tx)))"
    by (rule ba_control.delba)
  moreover have "ex_mpdu 7 False \<in> waiting ex_waiting_tx"
    by (auto simp: waiting_def ex_waiting_tx_def intro!: exI[of _ 5])
  ultimately show ?thesis
    using ba_control_keeps_frames[OF r_into_rtranclp ex_waiting_ok] by simp
qed

subsection \<open>Requests and responses\<close>

text \<open>The elements that follow an ADDBA frame parse to the extension element they consist of.\<close>

definition addba_ext_parses :: "agg_peer \<Rightarrow> bool" where
  "addba_ext_parses sta \<longleftrightarrow> (\<forall>d. parse_addba_ext sta [WLAN_EID_ADDBA_EXT, 1, d] = Some d)"

lemma addbaext_octet:
  "get_bits (((1 :: u8) AND d) OR encode_bits (ucast (drop_bit 10 (z :: u16))) IEEE80211_ADDBA_EXT_BUF_SIZE_MASK)
     IEEE80211_ADDBA_EXT_BUF_SIZE_MASK = ucast (drop_bit 10 z) AND mask 3"
proof -
  have m: "(1 :: u8) = mask 1" by simp
  show ?thesis
    unfolding get_bits_simps encode_bits_simps m
    by (rule bit_word_eqI) (simp only: bit_or_iff bit_and_iff bit_push_bit_iff bit_drop_bit_eq bit_mask_iff o_apply,
        auto dest: bit_imp_le_length)
qed

lemma addbaext_eq:
  "\<exists>d. ieee80211_add_addbaext req z = [WLAN_EID_ADDBA_EXT, 1, ((1 :: u8) AND d) OR
     encode_bits (ucast (drop_bit 10 z)) IEEE80211_ADDBA_EXT_BUF_SIZE_MASK]"
proof (cases "req = 0")
  case True
  then show ?thesis by (intro exI[of _ 1]) (simp add: ieee80211_add_addbaext_def)
qed (auto simp: ieee80211_add_addbaext_def)

text \<open>The lower ten bits travel in the parameter field, the upper three in the extension.\<close>

lemma buf_size_split:
  assumes "z < (0x2000 :: u16)"
  shows "(z AND mask 10) OR push_bit 10 (ucast (ucast (drop_bit 10 z) AND mask 3 :: u8)) = z"
proof -
  have z: "z = take_bit 13 z"
    using assms by (simp add: word_unat_eq_iff unsigned_take_bit_eq take_bit_nat_eq_self word_less_nat_alt)
  have "n - 10 < 3" if "bit z n" "\<not> n < 10" for n
    using that by (subst (asm) z) (auto simp: bit_take_bit_iff)
  then show ?thesis
    by (intro bit_word_eqI) (auto simp: bit_or_iff bit_and_iff bit_push_bit_iff bit_mask_iff bit_unsigned_iff bit_drop_bit_eq
        dest: bit_imp_le_length)
qed

lemma mask_small:
  "z < (1024 :: u16) \<Longrightarrow> z AND mask 10 = z" "z < (1024 :: u16) \<Longrightarrow> drop_bit 10 z = 0" "t < (16 :: u16) \<Longrightarrow> t AND mask 4 = t"
proof -
  have *: "x AND mask k = x" if "unat x < 2 ^ k" for x :: u16 and k
    using that by (simp add: word_unat_eq_iff take_bit_nat_eq_self unsigned_take_bit_eq take_bit_eq_mask[symmetric])
  show "z < (1024 :: u16) \<Longrightarrow> z AND mask 10 = z" "t < (16 :: u16) \<Longrightarrow> t AND mask 4 = t"
    using *[of z 10] *[of t 4] by (simp_all add: word_less_nat_alt)
  show "z < (1024 :: u16) \<Longrightarrow> drop_bit 10 z = 0"
    by (simp only: word_unat_eq_iff unsigned_drop_bit_eq) (simp add: drop_bit_eq_div word_less_nat_alt take_bit_nat_eq_self)
qed

text \<open>What the reader of a frame with or without the extension element makes of the size.\<close>

lemma retrieve_size:
  assumes "addba_ext_parses own" "z < 0x2000" "elems = [] \<or> elems = ieee80211_add_addbaext req z"
    "z < 1024 \<or> elems \<noteq> [] \<and> has_he own \<and> (valid_links own \<noteq> 0 \<or> has_eht own)"
  shows "snd (ieee80211_retrieve_addba_ext_data own elems (z AND mask 10)) = z"
proof -
  obtain d where ext: "ieee80211_add_addbaext req z = [WLAN_EID_ADDBA_EXT, 1, ((1 :: u8) AND d) OR
     encode_bits (ucast (drop_bit 10 z)) IEEE80211_ADDBA_EXT_BUF_SIZE_MASK]" using addbaext_eq by blast
  show ?thesis
  proof (cases "elems = [] \<or> \<not> has_he own \<or> \<not> (valid_links own \<noteq> 0 \<or> has_eht own)")
    case True
    then have "z < 1024" using assms(4) by blast
    then show ?thesis using True mask_small(1)
      by (auto simp: ieee80211_retrieve_addba_ext_data_def split: option.split)
  next
    case False
    then have e: "elems = ieee80211_add_addbaext req z" using assms(3) by blast
    have "parse_addba_ext own elems = Some (((1 :: u8) AND d) OR
       encode_bits (ucast (drop_bit 10 z)) IEEE80211_ADDBA_EXT_BUF_SIZE_MASK)"
      using assms(1) by (simp only: e ext addba_ext_parses_def)
    then have "snd (ieee80211_retrieve_addba_ext_data own elems (z AND mask 10)) =
       (z AND mask 10) OR push_bit 10 (ucast (ucast (drop_bit 10 z) AND mask 3 :: u8))"
      using False by (simp only: ieee80211_retrieve_addba_ext_data_def option.case addbaext_octet if_False if_True simp_thms
          de_Morgan_disj snd_conv split: if_split)
    then show ?thesis using buf_size_split[OF assms(2)] by (simp only:)
  qed
qed


lemma le16_at: "length a = off \<Longrightarrow> get_unaligned_le16 (a @ le16_bytes w @ r) off = w"
  by (simp only: get_le16_append_right get_le16_bytes)

lemma le16_read:
  assumes "length hdr = 24"
  shows "get_unaligned_le16 (hdr @ [a, b, c] @ le16_bytes w @ r) 27 = w"
    "get_unaligned_le16 (hdr @ [a, b, c] @ le16_bytes v @ le16_bytes w @ r) 29 = w"
    "get_unaligned_le16 (hdr @ [a, b, c] @ le16_bytes u @ le16_bytes v @ le16_bytes w @ r) 31 = w"
    "drop 33 (hdr @ [a, b, c] @ le16_bytes u @ le16_bytes v @ le16_bytes w @ r) = r"
    "(hdr @ [a, b, c] @ r) ! 26 = c"
  using assms le16_at[of "hdr @ [a, b, c]" 27 w r] le16_at[of "hdr @ [a, b, c] @ le16_bytes v" 29 w r]
    le16_at[of "hdr @ [a, b, c] @ le16_bytes u @ le16_bytes v" 31 w r]
  by (simp_all add: nth_append le16_bytes_def)

text \<open>C14: A request this station sends, read by the receiving side of the same code, opens a
  session with exactly the dialog token, timeout, starting number, TID and size it was built
  from, the size of up to thirteen bits being split over the parameter field and the extension
  element and put together again.\<close>

theorem addba_request_roundtrip:
  assumes "\<not> oom Alloc_frame" "length hdr = 24" "t < 16" "start_sn < 4096" "bsize < 0x2000" "addba_ext_parses own"
    and "bsize < 1024 \<or> has_he sta \<and> has_he own \<and> (valid_links own \<noteq> 0 \<or> has_eht own)"
  shows "\<exists>body ext. ieee80211_send_addba_request sta oom t token start_sn bsize tmo = [Tx_action body] \<and>
    ieee80211_process_addba_request hw own drv oom' jiffies tu (hdr @ body) mlme =
    ieee80211_start_rx_ba_session hw own drv oom' jiffies tu token tmo start_sn 1 t bsize True False ext mlme"
proof -
  define capab where "capab = addba_capab 1 1 t bsize"
  define elems where "elems = (if has_he sta then ieee80211_add_addbaext 0 bsize else [])"
  define body where "body = [WLAN_CATEGORY_BACK, WLAN_ACTION_ADDBA_REQ, token] @ le16_bytes capab @
      le16_bytes tmo @ le16_bytes (push_bit 4 start_sn) @ elems"
  have c: "IEEE80211_ADDBA_PARAM_AMSDU_MASK OR IEEE80211_ADDBA_PARAM_POLICY_MASK
      OR encode_bits t IEEE80211_ADDBA_PARAM_TID_MASK OR encode_bits bsize IEEE80211_ADDBA_PARAM_BUF_SIZE_MASK = capab"
    by (simp add: capab_def addba_capab_def encode_bits_simps or.assoc push_bit_eq_mult)
  have send: "ieee80211_send_addba_request sta oom t token start_sn bsize tmo = [Tx_action body]"
    using assms(1) unfolding ieee80211_send_addba_request_def Let_def c body_def elems_def by simp
  have rd: "(hdr @ body) ! 26 = token" "get_unaligned_le16 (hdr @ body) 27 = capab" "get_unaligned_le16 (hdr @ body) 29 = tmo"
    "get_unaligned_le16 (hdr @ body) 31 = push_bit 4 start_sn" "drop 33 (hdr @ body) = elems"
    unfolding body_def by (simp_all only: le16_read[OF assms(2)])
  have sn: "drop_bit 4 (push_bit 4 start_sn) = start_sn"
  proof -
    have "unat start_sn * 16 < 65536" using assms(4) by (simp add: word_less_nat_alt)
    then show ?thesis
      by (simp add: push_bit_eq_mult drop_bit_eq_div word_unat_eq_iff unat_div unat_mult_lem[THEN iffD1])
  qed
  obtain ext where ret: "ieee80211_retrieve_addba_ext_data own elems (bsize AND mask 10) = (ext, bsize)"
    using retrieve_size[OF assms(6,5), of elems 0] assms(7)
    by (cases "ieee80211_retrieve_addba_ext_data own elems (bsize AND mask 10)") (auto simp: elems_def ieee80211_add_addbaext_def)
  have "ieee80211_process_addba_request hw own drv oom' jiffies tu (hdr @ body) mlme =
    ieee80211_start_rx_ba_session hw own drv oom' jiffies tu token tmo start_sn 1 t bsize True False ext mlme"
    unfolding ieee80211_process_addba_request_def Let_def rd sn
    using ret by (simp only: capab_def addba_capab_fields mask_small(3)[OF assms(3)] prod.case) (simp add: mask_eq_exp_minus_1)
  then show ?thesis using send by blast
qed


theorem addba_request_roundtrip_witness:
  "\<exists>body ext. ieee80211_send_addba_request ex_agg_peer (\<lambda>_. False) 5 7 100 1024 0 = [Tx_action body] \<and>
    ieee80211_process_addba_request ex_agg_hw ex_agg_peer (\<lambda>_. (0, 0)) (\<lambda>_. False) 0 ucast (replicate 24 0 @ body) ex_mlme =
    ieee80211_start_rx_ba_session ex_agg_hw ex_agg_peer (\<lambda>_. (0, 0)) (\<lambda>_. False) 0 ucast 7 0 100 1 5 1024 True False ext ex_mlme"
  by (rule addba_request_roundtrip) (simp_all add: addba_ext_parses_def ex_agg_peer_def)

lemma stop_rx_no_frame: "Tx_action b \<notin> set (snd (ieee80211_stop_rx_session hw oom t i r False mlme))"
  by (auto simp: ieee80211_stop_rx_session_def split: option.splits)

lemma rx_status_no_frame:
  assumes "rx_ba_session_status hw sta drv oom jiffies tu token tmo start_seq_num ba_policy t bsize auto mlme
      = (status, bsize', mlme', evs)"
  shows "Tx_action b \<notin> set evs"
proof -
  have "Tx_action b \<notin> set (snd (snd (open_rx_ba_session hw drv oom p rx m)))" for p rx m
    by (simp add: open_rx_ba_session_def Let_def)
  then show ?thesis
    using assms stop_rx_no_frame[of b hw oom t _ _ mlme]
    by (auto simp: rx_ba_session_status_def Let_def case_prod_beta split: option.splits if_splits)
qed

lemma opened_session_response:
  assumes ok: "rx_sessions_ok hw mlme" and none: "tid_rx mlme s = None"
    and opened: "tid_rx (fst (ieee80211_start_rx_ba_session hw sta drv oom jiffies tu token tmo start_sn policy t bsize True auto ext mlme)) s = Some rx"
    and resp: "Tx_action resp \<in> set (snd (ieee80211_start_rx_ba_session hw sta drv oom jiffies tu token tmo start_sn policy t bsize True auto ext mlme))"
  shows "t < 8 \<and> s = ucast t \<and> timeout rx = tmo \<and> unat (buf_size rx) \<le> 1024 \<and>
    ieee80211_send_addba_resp hw sta oom t token WLAN_STATUS_SUCCESS 1 (buf_size rx) tmo ext = [Tx_action resp]"
proof -
  obtain status bsize' mlme' evs where
    st: "rx_ba_session_status hw sta drv oom jiffies tu token tmo start_sn policy t bsize auto mlme = (status, bsize', mlme', evs)"
    by (cases rule: prod_cases4)
  have rx: "tid_rx mlme' s = Some rx"
    using opened st unfolding start_rx_session_state by (auto split: if_splits)
  have resp': "Tx_action resp \<in> set (ieee80211_send_addba_resp hw sta oom t token status 1 bsize' tmo ext)"
    using resp st rx_status_no_frame[OF st, of resp] by (auto simp: ieee80211_start_rx_ba_session_def Let_def)
  show ?thesis
    using st ok
  proof (cases rule: rx_ba_session_status_cases)
    case declined
    then show ?thesis using rx none by (auto split: if_splits)
  next
    case retry
    then show ?thesis using rx none by simp
  next
    case hardware
    then show ?thesis using rx rx_sessions_okD(3)[OF hardware(4,2), of s] by simp
  next
    case started
    then have "s = ucast t" "rx = new_tid_rx jiffies tu tmo start_sn t bsize' auto" using rx none by (auto split: if_splits)
    then show ?thesis
      using resp' started agreed_buf_size_le(1)[OF started(4)]
      by (auto simp: new_tid_rx_def ieee80211_send_addba_resp_def Let_def split: if_splits)
  qed
qed

text \<open>The response read by the initiator.\<close>

lemma addba_response_read:
  assumes "length hdr = 24" "t < 16" "bsize < 0x2000" "addba_ext_parses peer"
    and resp: "ieee80211_send_addba_resp hw sta oom t token status 1 bsize tmo ext = [Tx_action resp]"
    and size: "bsize < 1024 \<or> (valid_links sta \<noteq> 0 \<or> has_he sta) \<and> has_he peer \<and> (valid_links peer \<noteq> 0 \<or> has_eht peer)"
  shows "(hdr @ resp) ! 26 = token \<and> get_unaligned_le16 (hdr @ resp) 27 = status \<and> get_unaligned_le16 (hdr @ resp) 31 = tmo \<and>
    get_bits (get_unaligned_le16 (hdr @ resp) 29) IEEE80211_ADDBA_PARAM_TID_MASK = t \<and>
    snd (ieee80211_retrieve_addba_ext_data peer (drop 33 (hdr @ resp))
      (get_bits (get_unaligned_le16 (hdr @ resp) 29) IEEE80211_ADDBA_PARAM_BUF_SIZE_MASK)) = bsize"
proof -
  define am :: u16 where "am = (if SUPPORTS_AMSDU_IN_AMPDU hw then 1 else 0)"
  define capab where "capab = addba_capab am 1 t bsize"
  define elems where "elems = (if valid_links sta \<noteq> 0 \<or> has_he sta then ieee80211_add_addbaext ext bsize else [])"
  have c: "encode_bits am IEEE80211_ADDBA_PARAM_AMSDU_MASK OR encode_bits 1 IEEE80211_ADDBA_PARAM_POLICY_MASK
      OR encode_bits t IEEE80211_ADDBA_PARAM_TID_MASK OR encode_bits bsize IEEE80211_ADDBA_PARAM_BUF_SIZE_MASK = capab"
    by (simp add: capab_def addba_capab_def encode_bits_simps or.assoc push_bit_eq_mult)
  have body: "resp = [WLAN_CATEGORY_BACK, WLAN_ACTION_ADDBA_RESP, token] @ le16_bytes status @ le16_bytes capab @ le16_bytes tmo @ elems"
    using resp unfolding ieee80211_send_addba_resp_def Let_def am_def[symmetric] c elems_def[symmetric]
    by (cases "oom Alloc_frame") simp_all
  have rd: "(hdr @ resp) ! 26 = token" "get_unaligned_le16 (hdr @ resp) 27 = status" "get_unaligned_le16 (hdr @ resp) 29 = capab"
    "get_unaligned_le16 (hdr @ resp) 31 = tmo" "drop 33 (hdr @ resp) = elems"
    unfolding body by (simp_all only: le16_read[OF assms(1)])
  have "elems = [] \<or> elems = ieee80211_add_addbaext ext bsize" by (simp add: elems_def)
  moreover have "bsize < 1024 \<or> elems \<noteq> [] \<and> has_he peer \<and> (valid_links peer \<noteq> 0 \<or> has_eht peer)"
    using size by (auto simp: elems_def ieee80211_add_addbaext_def)
  ultimately have "snd (ieee80211_retrieve_addba_ext_data peer elems (bsize AND mask 10)) = bsize"
    by (rule retrieve_size[OF assms(4,3)])
  then show ?thesis
    unfolding rd get_bits_simps capab_def addba_capab_fields mask_small(3)[OF assms(2)] by simp
qed


text \<open>What an agreeing response makes of the session.\<close>

lemma agreed_session:
  assumes "tid_tx st t = Some x" "HT_AGG_STATE_RESPONSE_RECEIVED \<notin> state x" "HT_AGG_STATE_OPERATIONAL \<notin> state x"
  shows "\<exists>st' evs y. addba_resp_agreed sta jiffies tu bsize amsdu tmo t x st = Some (st', evs) \<and> tid_tx st' t = Some y \<and>
    tx_buf_size y = bsize \<and> tx_timeout y = tmo \<and> HT_AGG_STATE_RESPONSE_RECEIVED \<in> state y \<and>
    (HT_AGG_STATE_OPERATIONAL \<in> state y \<longleftrightarrow> HT_AGG_STATE_DRV_READY \<in> state x)"
proof -
  define y where "y = (agg_set_bit HT_AGG_STATE_RESPONSE_RECEIVED x)\<lparr> tx_buf_size := bsize, tx_amsdu := amsdu \<rparr>"
  define u where "u = ieee80211_assign_tid_tx t (Some y) st"
  note def = addba_resp_agreed_def[of sta jiffies tu bsize amsdu tmo t x st, unfolded Let_def, folded y_def, folded u_def]
  have y: "state y = insert HT_AGG_STATE_RESPONSE_RECEIVED (state x)" "tx_buf_size y = bsize" by (simp_all add: y_def)
  obtain evs' where "ieee80211_agg_tx_operational sta t u =
    Some (fst (ieee80211_agg_start_txq t True (moved sta t (Some (agg_set_bit HT_AGG_STATE_OPERATIONAL (y\<lparr> pending := [] \<rparr>))) u)), evs')"
    using operational_state[of u t y sta] by (auto simp: u_def)
  then show ?thesis
    unfolding def using assms(2,3) y by (cases "HT_AGG_STATE_DRV_READY \<in> state y") (simp_all add: u_def)
qed

text \<open>C12: When a request opens a session and its response reaches the initiator, both sides agree:
  the initiator's session has the responder's timeout, and its window is the smaller of the
  responder's reorder buffer and its own maximum; it is operational at once exactly when the
  driver was ready before.\<close>

theorem addba_handshake_agrees:
  assumes responder: "rx_sessions_ok hwr mlme" "tid_rx mlme s = None"
      "tid_rx (fst (ieee80211_process_addba_request hwr sta drv oom jiffies tu req mlme)) s = Some rx"
      "Tx_action resp \<in> set (snd (ieee80211_process_addba_request hwr sta drv oom jiffies tu req mlme))"
    and initiator: "tid_tx st s = Some x" "dialog_token x = req ! 26"
      "state x \<inter> {HT_AGG_STATE_STOPPING, HT_AGG_STATE_WANT_STOP, HT_AGG_STATE_RESPONSE_RECEIVED, HT_AGG_STATE_OPERATIONAL} = {}"
      "0 < max_tx_aggregation_subframes hwi" "0 < buf_size rx" "addba_ext_parses peer"
    and size: "buf_size rx < 1024 \<or> (valid_links sta \<noteq> 0 \<or> has_he sta) \<and> has_he peer \<and> (valid_links peer \<noteq> 0 \<or> has_eht peer)"
    and frame: "length hdr = 24"
  shows "\<exists>st' evs y. ieee80211_process_addba_resp hwi peer jiffies' tu' (hdr @ resp) st = Some (st', evs) \<and>
    tid_tx st' s = Some y \<and> tx_buf_size y = min (buf_size rx) (max_tx_aggregation_subframes hwi) \<and> tx_timeout y = timeout rx \<and>
    (HT_AGG_STATE_OPERATIONAL \<in> state y \<longleftrightarrow> HT_AGG_STATE_DRV_READY \<in> state x)"
proof -
  let ?capab = "get_unaligned_le16 req 27"
  let ?t = "drop_bit 2 (?capab AND IEEE80211_ADDBA_PARAM_TID_MASK)"
  let ?ret = "ieee80211_retrieve_addba_ext_data sta (drop 33 req) (drop_bit 6 (?capab AND IEEE80211_ADDBA_PARAM_BUF_SIZE_MASK))"
  have run: "ieee80211_process_addba_request hwr sta drv oom jiffies tu req mlme =
    ieee80211_start_rx_ba_session hwr sta drv oom jiffies tu (req ! 26) (get_unaligned_le16 req 29)
      (drop_bit 4 (get_unaligned_le16 req 31)) (drop_bit 1 (?capab AND IEEE80211_ADDBA_PARAM_POLICY_MASK)) ?t (snd ?ret)
      True False (fst ?ret) mlme"
    by (simp only: ieee80211_process_addba_request_def Let_def case_prod_beta)
  note r = opened_session_response[OF responder(1,2) responder(3)[unfolded run] responder(4)[unfolded run]]
  have t16: "?t < 16" using r by (simp add: word_less_nat_alt)
  have z: "buf_size rx < 0x2000" using r by (simp add: word_less_nat_alt)
  have rsp: "ieee80211_send_addba_resp hwr sta oom ?t (req ! 26) WLAN_STATUS_SUCCESS 1 (buf_size rx) (timeout rx) (fst ?ret) = [Tx_action resp]"
    using r by (elim conjE) (simp only:)
  note all = addba_response_read[OF frame t16 z initiator(6) rsp size]
  note rd = all[THEN conjunct1] all[THEN conjunct2, THEN conjunct1] all[THEN conjunct2, THEN conjunct2, THEN conjunct1]
    all[THEN conjunct2, THEN conjunct2, THEN conjunct2, THEN conjunct1] all[THEN conjunct2, THEN conjunct2, THEN conjunct2, THEN conjunct2]
  define bsize where "bsize = min (buf_size rx) (max_tx_aggregation_subframes hwi)"
  have b: "bsize \<noteq> 0" using initiator(4,5) by (auto simp: bsize_def min_def)
  define amsdu where "amsdu = (get_unaligned_le16 (hdr @ resp) 29 AND IEEE80211_ADDBA_PARAM_AMSDU_MASK \<noteq> 0)"
  define st1 where "st1 = (case sta_txq st s of None \<Rightarrow> st
      | Some q \<Rightarrow> if \<not> amsdu then st\<lparr> sta_txq := (sta_txq st)(s := Some (q\<lparr> TXQ_NO_AMSDU := True \<rparr>)) \<rparr> else st)"
  define y where "y = x\<lparr> addba_resp_timer := None \<rparr>"
  define st2 where "st2 = ieee80211_assign_tid_tx s (Some y) st1"
  have x1: "tid_tx st1 s = Some x" using initiator(1) by (simp add: st1_def split: option.split)
  have y: "tid_tx st2 s = Some y" "HT_AGG_STATE_STOPPING \<notin> state y" "HT_AGG_STATE_WANT_STOP \<notin> state y"
    "HT_AGG_STATE_RESPONSE_RECEIVED \<notin> state y" "HT_AGG_STATE_OPERATIONAL \<notin> state y" "dialog_token x = req ! 26"
    "HT_AGG_STATE_DRV_READY \<in> state y \<longleftrightarrow> HT_AGG_STATE_DRV_READY \<in> state x"
    using initiator(2,3) by (auto simp: st2_def y_def)
  have s: "ucast ?t = s" using r by (elim conjE) (simp only:)
  note def = ieee80211_process_addba_resp_def[of hwi peer jiffies' tu' "hdr @ resp" st, unfolded Let_def, folded amsdu_def]
  have "ieee80211_process_addba_resp hwi peer jiffies' tu' (hdr @ resp) st =
    addba_resp_agreed peer jiffies' tu' bsize amsdu (timeout rx) s y st2"
    unfolding def rd(4) s st1_def[symmetric] x1 option.case y_def[symmetric] st2_def[symmetric] rd(1-3,5) bsize_def[symmetric]
    using y(2,3,6) b by simp
  then show ?thesis
    using agreed_session[OF y(1,4,5), of peer jiffies' tu' bsize amsdu "timeout rx"] y(7) by (auto simp: bsize_def)
qed


definition ex_addba_response :: "u8 list" where
  "ex_addba_response = [3, 1, 7, 0, 0, 23, 16, 0, 0, 159, 1, 1]"

definition ex_requesting :: agg_tx_sta where
  "ex_requesting = ex_tx_sta\<lparr> tid_tx := (\<lambda>t. if t = 5 then Some ((new_tid_tx 5 0 7)
     \<lparr> state := {HT_AGG_STATE_SENT_ADDBA, HT_AGG_STATE_DRV_READY} \<rparr>) else None) \<rparr>"

lemma ex_response_sent:
  "list_ex (\<lambda>e. case e of Tx_action b \<Rightarrow> b = ex_addba_response | _ \<Rightarrow> False)
     (snd (ieee80211_process_addba_request ex_agg_hw ex_agg_peer (\<lambda>_. (0, 0)) (\<lambda>_. False) 0 ucast ex_addba_request ex_mlme))"
  by code_simp

theorem addba_handshake_agrees_witness:
  "\<exists>st' evs y. ieee80211_process_addba_resp ex_agg_hw ex_agg_peer 0 ucast (replicate 24 0 @ ex_addba_response) ex_requesting
      = Some (st', evs) \<and> tid_tx st' 5 = Some y \<and> tx_buf_size y = 64 \<and> HT_AGG_STATE_OPERATIONAL \<in> state y"
proof -
  let ?req = "ieee80211_process_addba_request ex_agg_hw ex_agg_peer (\<lambda>_. (0, 0)) (\<lambda>_. False) 0 ucast ex_addba_request ex_mlme"
  have "rx_sessions_ok ex_agg_hw ex_mlme" "tid_rx ex_mlme 5 = None"
    by (simp_all add: rx_sessions_ok_def ex_mlme_def)
  moreover have "tid_rx (fst ?req) 5 = Some ex_open_rx"
    using ex_open_rx_facts(1) by (simp add: ex_open_rx_def ex_mlme_open_def Option.is_none_def)
  moreover have "Tx_action ex_addba_response \<in> set (snd ?req)"
  proof -
    from ex_response_sent obtain e where e: "e \<in> set (snd ?req)" "case e of Tx_action b \<Rightarrow> b = ex_addba_response | _ \<Rightarrow> False"
      unfolding list_ex_iff by blast
    from e(2) have "e = Tx_action ex_addba_response"
      by (simp split: ba_event.splits)
    with e(1) show ?thesis by simp
  qed
  moreover have "ex_addba_request ! 26 = 7" by code_simp
  ultimately show ?thesis
    using addba_handshake_agrees[of ex_agg_hw ex_mlme 5 ex_agg_peer "\<lambda>_. (0, 0)" "\<lambda>_. False" 0 ucast ex_addba_request ex_open_rx
        ex_addba_response ex_requesting "(new_tid_tx 5 0 7)\<lparr> state := {HT_AGG_STATE_SENT_ADDBA, HT_AGG_STATE_DRV_READY} \<rparr>"
        ex_agg_hw ex_agg_peer "replicate 24 0" 0 ucast] ex_open_rx_facts(2)
    by (auto simp: ex_requesting_def new_tid_tx_def addba_ext_parses_def) (auto simp: ex_agg_hw_def ex_agg_peer_def)
qed

text \<open>
  A response that arrives before the request was sent (the driver has asked to delay it, and the
  dialog token is a counter) is accepted.  When the driver is ready the request goes out, its
  answer counts as a duplicate, and the timer of the request does nothing, because a response
  has been received: the session is never operational and never given up.
\<close>

definition ex_early :: agg_tx_sta where
  "ex_early = (let
     st = fst (snd (the (tx_ba_session_work ex_agg_hw ex_agg_peer (\<lambda>_. (2, 100)) (\<lambda>_. False) 250 0 5
            (fst (snd (ieee80211_start_tx_ba_session ex_agg_hw ex_agg_peer (\<lambda>_. False) 250 0 5 0 ex_tx_sta))))));
     resp = replicate 24 0 @ [3, 1, 1, 0, 0, 23, 16, 0, 0];
     st = fst (the (ieee80211_process_addba_resp ex_agg_hw ex_agg_peer 0 ucast resp st));
     st = the (fst (ieee80211_start_tx_ba_cb_irqsafe 5 (Some st)));
     st = fst (snd (the (tx_ba_session_work ex_agg_hw ex_agg_peer (\<lambda>_. (2, 100)) (\<lambda>_. False) 250 0 5 st)));
     st = fst (the (ieee80211_process_addba_resp ex_agg_hw ex_agg_peer 0 ucast resp st))
   in fst (sta_addba_resp_timer_expired ex_agg_hw 5 st))"

theorem early_response_blocks:
  "map_option state (tid_tx ex_early 5) =
     Some {HT_AGG_STATE_RESPONSE_RECEIVED, HT_AGG_STATE_DRV_READY, HT_AGG_STATE_SENT_ADDBA} \<and>
   map_option addba_resp_timer (tid_tx ex_early 5) = Some None \<and> map_option tx_session_timer (tid_tx ex_early 5) = Some None"
  by code_simp

end
