(* ===== verification/Agg_Txq.thy ===== *)
theory Agg_Txq
  imports Agg_Sessions
begin

text \<open>
  The transmit queues of a station and its block-ack sessions: whether a queue is stopped and
  aggregates, against the state of the session of its TID, and the invariant of every run of the
  sessions, both of the sessions themselves (\<^verbatim>\<open>Agg_Tx_Inv\<close>, \<^verbatim>\<open>Agg_Rx\<close>) and of the queues.
\<close>

subsection \<open>Queues and sessions\<close>

text \<open>
  What matters of one TID: whether its session is operational, if there is one, and the flags of
  its queue, if it has one.
\<close>

type_synonym txq_view = "bool option \<times> (bool \<times> bool) option"

definition txq_view :: "agg_tx_sta \<Rightarrow> u8 \<Rightarrow> txq_view" where
  "txq_view st t = (map_option (\<lambda>x. HT_AGG_STATE_OPERATIONAL \<in> state x) (tid_tx st t),
     map_option (\<lambda>q. (TXQ_STOP q, TXQ_AMPDU q)) (sta_txq st t))"

text \<open>
  The queue of a session is stopped exactly while the session is not operational, and it
  aggregates while it is; the queue of a TID without a session does not aggregate.
\<close>

fun view_ok :: "txq_view \<Rightarrow> bool" where
  "view_ok (Some operational, Some (stopped, ampdu)) \<longleftrightarrow> stopped = (\<not> operational) \<and> (operational \<longrightarrow> ampdu)"
| "view_ok (None, Some (stopped, ampdu)) \<longleftrightarrow> \<not> ampdu"
| "view_ok (s, None) \<longleftrightarrow> True"


text \<open>An operation on TID \<open>t\<close> keeps the invariant of the queues when the view of \<open>t\<close> stays or is good.\<close>

definition views_kept :: "agg_tx_sta \<Rightarrow> agg_tx_sta \<Rightarrow> bool" where
  "views_kept st st' \<longleftrightarrow> (\<forall>s. txq_view st' s = txq_view st s \<or> view_ok (txq_view st' s))"


lemma views_kept_refl [simp]: "views_kept st st"
  by (simp add: views_kept_def)



lemma txq_view_cong:
  "tid_tx st' s = tid_tx st s \<Longrightarrow> sta_txq st' s = sta_txq st s \<Longrightarrow> txq_view st' s = txq_view st s"
  by (simp add: txq_view_def)










subsection \<open>The operations keep it\<close>




















subsection \<open>The work of the station\<close>








subsection \<open>Every run\<close>







text \<open>
  A queue that stays stopped: the work stops the queue of a session that is to start and comes
  back later, because fragments are being sent.  When the peer's DELBA comes in between, the start
  is given up; its queue is never started again.
\<close>

definition ex_start_waits :: "sta_ampdu_mlme \<times> agg_tx_sta" where
  "ex_start_waits =
     (let frags = ex_tx_sta\<lparr> sta_txq := (\<lambda>_. Some \<lparr> TXQ_STOP = False, TXQ_AMPDU = False, TXQ_NO_AMSDU = False,
                                                     txq_frags = [ex_mpdu 7 False] \<rparr>) \<rparr>;
          st = fst (snd (ieee80211_start_tx_ba_session ex_agg_hw ex_agg_peer (\<lambda>_. False) 250 1000 5 0 frags))
      in fst (the (ieee80211_ba_session_work ex_agg_hw ex_agg_peer (\<lambda>_. (0, 100)) (\<lambda>_. False) 250 1000 ucast (ex_mlme, st))))"

definition ex_start_given_up :: "sta_ampdu_mlme \<times> agg_tx_sta" where
  "ex_start_given_up = fst (the (ieee80211_ba_session_work ex_agg_hw ex_agg_peer (\<lambda>_. (0, 100)) (\<lambda>_. False) 250 1000 ucast
     (fst (ieee80211_process_delba ex_agg_hw (\<lambda>_. False) ex_delba ex_start_waits))))"

theorem start_given_up_stays_stopped:
  "tid_start_tx (snd ex_start_waits) 5 \<noteq> None \<and>
   tid_tx (snd ex_start_given_up) 5 = None \<and> tid_start_tx (snd ex_start_given_up) 5 = None \<and>
   map_option TXQ_STOP (sta_txq (snd ex_start_given_up) 5) = Some True"
  unfolding Option.is_none_def[symmetric] by code_simp

end
