(* ===== verification/Element.thy ===== *)
theory Element
  imports Prelude
begin

text \<open>
  Information elements of 802.11 frames (\<^verbatim>\<open>struct element\<close> and the iteration macros of
  \<^verbatim>\<open>hdrs/linux/ieee80211.h\<close>) and the size checks and accessors of structured elements in
  \<^verbatim>\<open>ieee80211-he.h\<close>, \<^verbatim>\<open>ieee80211-eht.h\<close> and \<^verbatim>\<open>ieee80211-uhr.h\<close>.

  A pointer into a frame with the length that goes with it is the list of the octets from it on.  An
  element keeps the octets that follow it in its buffer: \<^verbatim>\<open>cfg80211_defragment_element\<close> reads them.
  \<^verbatim>\<open>datalen\<close> is the length of the element's data.  Accessors read through \<open>rd8\<close> and \<open>rd16\<close>, which
  are \<open>None\<close> beyond the end of the octets.  The sums of sizes below are of type \<^verbatim>\<open>u8\<close> in the C code;
  they are natural numbers here where a lemma bounds them below 256, and words where they can wrap.
\<close>

subsection \<open>Elements\<close>

record element =
  elem_id :: u8
  elem_data :: "u8 list"
  elem_follow :: "u8 list"

definition elem_bytes :: "element \<Rightarrow> u8 list" where
  "elem_bytes e = elem_id e # word_of_nat (length (elem_data e)) # elem_data e"

text \<open>
  \<^verbatim>\<open>for_each_element\<close>: the elements the loop visits, and what is left when it ends, which is empty
  exactly if \<^verbatim>\<open>for_each_element_completed\<close> holds.
\<close>

function for_each_element :: "u8 list \<Rightarrow> element list \<times> u8 list" where
  "for_each_element [] = ([], [])"
| "for_each_element [i] = ([], [i])"
| "for_each_element (i # n # rest) =
     (if unat n \<le> length rest
      then (let (es, left) = for_each_element (drop (unat n) rest)
            in (\<lparr> elem_id = i, elem_data = take (unat n) rest, elem_follow = drop (unat n) rest \<rparr> # es, left))
      else ([], i # n # rest))"
  by pat_completeness auto
termination
  by (relation "measure length") auto

definition elements :: "u8 list \<Rightarrow> element list" where
  "elements b = fst (for_each_element b)"

definition for_each_element_completed :: "u8 list \<Rightarrow> bool" where
  "for_each_element_completed b \<longleftrightarrow> snd (for_each_element b) = []"

definition for_each_element_id :: "u8 \<Rightarrow> u8 list \<Rightarrow> element list" where
  "for_each_element_id i b = filter (\<lambda>e. elem_id e = i) (elements b)"

abbreviation (input) WLAN_EID_EXTENSION :: u8 where "WLAN_EID_EXTENSION \<equiv> 255"

definition for_each_element_extid :: "u8 \<Rightarrow> u8 list \<Rightarrow> element list" where
  "for_each_element_extid x b = filter (\<lambda>e. elem_id e = WLAN_EID_EXTENSION \<and> 0 < length (elem_data e) \<and> elem_data e ! 0 = x) (elements b)"

lemma elements_simps [simp]:
  "elements [] = []" "elements [i] = []"
  "elements (i # n # rest) =
     (if unat n \<le> length rest
      then \<lparr> elem_id = i, elem_data = take (unat n) rest, elem_follow = drop (unat n) rest \<rparr> # elements (drop (unat n) rest)
      else [])"
  by (simp_all add: elements_def split_def Let_def)

lemma element_rest_simps [simp]:
  "snd (for_each_element (i # n # rest)) =
     (if unat n \<le> length rest then snd (for_each_element (drop (unat n) rest)) else i # n # rest)"
  by (simp add: split_def Let_def)

declare for_each_element.simps(3) [simp del]

text \<open>Nothing of the buffer is lost: it consists of the visited elements and what is left.\<close>

lemma for_each_element_covers:
  "concat (map elem_bytes (elements b)) @ snd (for_each_element b) = b"
proof (induction b rule: for_each_element.induct)
  case (3 i n rest)
  show ?case
  proof (cases "unat n \<le> length rest")
    case True
    then have "word_of_nat (length (take (unat n) rest)) = n" by simp
    then show ?thesis using 3 True by (simp add: elem_bytes_def del: length_take)
  qed simp
qed simp_all

lemma element_length: "e \<in> set (elements b) \<Longrightarrow> length (elem_data e) < 256"
proof (induction b rule: for_each_element.induct)
  case (3 i n rest)
  then show ?case using unat_u8_lt[of n]
    by (auto split: if_splits)
qed simp_all

text \<open>An element lies in its buffer, followed by what it says.\<close>

lemma element_in_buffer: "e \<in> set (elements b) \<Longrightarrow> \<exists>p. b = p @ elem_bytes e @ elem_follow e"
proof (induction b rule: for_each_element.induct)
  case (3 i n rest)
  show ?case
  proof (cases "unat n \<le> length rest")
    case le: True
    define e0 where "e0 = \<lparr> elem_id = i, elem_data = take (unat n) rest, elem_follow = drop (unat n) rest \<rparr>"
    have b: "i # n # rest = elem_bytes e0 @ elem_follow e0" using le by (simp add: e0_def elem_bytes_def)
    have "e = e0 \<or> e \<in> set (elements (drop (unat n) rest))"
      using 3(2) le by (auto simp: e0_def)
    then show ?thesis
    proof
      assume "e \<in> set (elements (drop (unat n) rest))"
      from 3(1)[OF le this] obtain p where "elem_follow e0 = p @ elem_bytes e @ elem_follow e"
        by (auto simp: e0_def)
      then show ?thesis unfolding b by (intro exI[of _ "elem_bytes e0 @ p"]) simp
    qed (auto simp: b intro: exI[of _ "[]"])
  qed (use 3(2) in simp)
qed simp_all

text \<open>What is left over is an element cut short: its header, or more data than the buffer holds.\<close>

lemma for_each_element_rest:
  "snd (for_each_element b) = [] \<or> length (snd (for_each_element b)) = 1 \<or>
   (\<exists>i n rest. snd (for_each_element b) = i # n # rest \<and> length rest < unat n)"
  by (induction b rule: for_each_element.induct) auto

text \<open>Elements written one after the other are read back.\<close>

fun put_elements :: "(u8 \<times> u8 list) list \<Rightarrow> u8 list" where
  "put_elements [] = []"
| "put_elements ((i, d) # es) = i # word_of_nat (length d) # d @ put_elements es"

lemma elements_put:
  "\<forall>(i, d) \<in> set es. length d < 256 \<Longrightarrow>
   map (\<lambda>e. (elem_id e, elem_data e)) (elements (put_elements es)) = es \<and> for_each_element_completed (put_elements es)"
proof (induction es rule: put_elements.induct)
  case (2 i d es)
  then have "unat (word_of_nat (length d) :: u8) = length d"
    by (simp add: unat_of_nat take_bit_nat_eq_self)
  with 2 show ?case by (simp add: for_each_element_completed_def)
qed (simp_all add: for_each_element_completed_def)

subsection \<open>Reads within an element\<close>

definition rd8 :: "u8 list \<Rightarrow> nat \<Rightarrow> u8 option" where
  "rd8 d off = (if off < length d then Some (d ! off) else None)"

definition rd16 :: "u8 list \<Rightarrow> nat \<Rightarrow> u16 option" where
  "rd16 d off = (if off + 1 < length d then Some (get_unaligned_le16 d off) else None)"

definition hweight8 :: "u8 \<Rightarrow> nat" where
  "hweight8 w = length (filter (bit w) [0..<8])"

definition hweight16 :: "u16 \<Rightarrow> nat" where
  "hweight16 w = length (filter (bit w) [0..<16])"

lemma length_filter_mono: "(\<And>x. P x \<Longrightarrow> Q x) \<Longrightarrow> length (filter P xs) \<le> length (filter Q xs)"
  by (induction xs) (auto intro: le_SucI)

lemma hweight8_and_le: "hweight8 (w AND m) \<le> hweight8 m"
  unfolding hweight8_def by (rule length_filter_mono) (simp add: bit_and_iff)

lemma hweight16_and_le: "hweight16 (w AND m) \<le> hweight16 m"
  unfolding hweight16_def by (rule length_filter_mono) (simp add: bit_and_iff)

lemma hweight8_le: "hweight8 w \<le> 8"
  using length_filter_le[of "bit w" "[0..<8]"] by (simp add: hweight8_def)

end
