(* ===== verification/Elem_Sizes.thy ===== *)
theory Elem_Sizes
  imports Element
begin

text \<open>
  The size checks for structured elements (\<^verbatim>\<open>ieee80211_*_size_ok\<close>, \<^verbatim>\<open>ieee80211_*_size\<close>) and the
  accessors that rely on them (\<^verbatim>\<open>hdrs/linux/ieee80211-he.h\<close>, \<^verbatim>\<open>ieee80211-eht.h\<close>,
  \<^verbatim>\<open>ieee80211-uhr.h\<close>).  For each check a lemma shows that what the accessors read after it lies
  within the element.
\<close>

subsection \<open>HE capabilities\<close>

text \<open>\<^verbatim>\<open>struct ieee80211_he_cap_elem\<close>: six octets of MAC and eleven of PHY capabilities.\<close>

abbreviation (input) HE_CAP_ELEM_SIZE :: nat where "HE_CAP_ELEM_SIZE \<equiv> 17"

definition he_phy_cap_info :: "u8 list \<Rightarrow> u8 list" where
  "he_phy_cap_info d = mem_read d 6 11"

abbreviation (input) HE_PHY_CAP0_40MHZ_IN_2G :: u8 where "HE_PHY_CAP0_40MHZ_IN_2G \<equiv> 0x02"
abbreviation (input) HE_PHY_CAP0_40MHZ_80MHZ_IN_5G :: u8 where "HE_PHY_CAP0_40MHZ_80MHZ_IN_5G \<equiv> 0x04"
abbreviation (input) HE_PHY_CAP0_160MHZ_IN_5G :: u8 where "HE_PHY_CAP0_160MHZ_IN_5G \<equiv> 0x08"
abbreviation (input) HE_PHY_CAP0_80PLUS80_MHZ_IN_5G :: u8 where "HE_PHY_CAP0_80PLUS80_MHZ_IN_5G \<equiv> 0x10"
abbreviation (input) HE_PHY_CAP6_PPE_THRESHOLD_PRESENT :: u8 where "HE_PHY_CAP6_PPE_THRESHOLD_PRESENT \<equiv> 0x80"
abbreviation (input) PPE_THRES_RU_INDEX_BITMASK_MASK :: u8 where "PPE_THRES_RU_INDEX_BITMASK_MASK \<equiv> 0x78"
abbreviation (input) PPE_THRES_NSS_MASK :: u8 where "PPE_THRES_NSS_MASK \<equiv> 7"

definition ieee80211_he_mcs_nss_size :: "u8 list \<Rightarrow> nat" where
  "ieee80211_he_mcs_nss_size he_cap =
     4 + (if has_flag (he_phy_cap_info he_cap ! 0) HE_PHY_CAP0_160MHZ_IN_5G then 4 else 0)
       + (if has_flag (he_phy_cap_info he_cap ! 0) HE_PHY_CAP0_80PLUS80_MHZ_IN_5G then 4 else 0)"

definition ieee80211_he_ppe_size :: "u8 \<Rightarrow> u8 list \<Rightarrow> nat" where
  "ieee80211_he_ppe_size ppe_thres_hdr phy_cap_info =
     (if phy_cap_info ! 6 AND HE_PHY_CAP6_PPE_THRESHOLD_PRESENT = 0 then 0
      else (let n = hweight8 (ppe_thres_hdr AND PPE_THRES_RU_INDEX_BITMASK_MASK);
                n = n * (1 + unat (ppe_thres_hdr AND PPE_THRES_NSS_MASK));
                n = n * 3 * 2 + 7
            in (n + 7) div 8))"

definition ieee80211_he_capa_size_ok :: "u8 list \<Rightarrow> bool" where
  "ieee80211_he_capa_size_ok d \<longleftrightarrow>
     (if length d < HE_CAP_ELEM_SIZE then False
      else let needed = HE_CAP_ELEM_SIZE + ieee80211_he_mcs_nss_size d
           in if length d < needed then False
              else if has_flag (he_phy_cap_info d ! 6) HE_PHY_CAP6_PPE_THRESHOLD_PRESENT
              then (if length d < needed + 1 then False
                    else needed + ieee80211_he_ppe_size (d ! needed) (he_phy_cap_info d) \<le> length d)
              else needed \<le> length d)"

lemma hweight8_ru_le: "hweight8 (h AND PPE_THRES_RU_INDEX_BITMASK_MASK) \<le> 4"
proof -
  have "hweight8 0x78 = 4" by code_simp
  then show ?thesis using hweight8_and_le[of h "0x78"] by simp
qed

lemma nss_le: "unat (h AND PPE_THRES_NSS_MASK) \<le> 7"
  using word_and_le1[of h 7] by (simp add: word_le_nat_alt)

text \<open>No step of the computation, at most \<open>199\<close>, leaves eight bits, and the thresholds fit their array.\<close>

lemma ppe_octets: "n \<le> 32 \<Longrightarrow> (n * 3 * 2 + 7 + 7) div 8 \<le> (25 :: nat)" "n \<le> 80 \<Longrightarrow> (n * 3 * 2 + 9 + 7) div 8 \<le> (62 :: nat)"
  by linarith+

lemma he_ppe_size_le: "ieee80211_he_ppe_size h phy \<le> 25"
proof -
  have "hweight8 (h AND PPE_THRES_RU_INDEX_BITMASK_MASK) * (1 + unat (h AND PPE_THRES_NSS_MASK)) \<le> 4 * 8"
    using hweight8_ru_le[of h] nss_le[of h] by (intro mult_le_mono) auto
  then have "hweight8 (h AND PPE_THRES_RU_INDEX_BITMASK_MASK) * (1 + unat (h AND PPE_THRES_NSS_MASK)) \<le> 32"
    by simp
  from ppe_octets(1)[OF this] show ?thesis by (auto simp only: ieee80211_he_ppe_size_def Let_def split: if_split)
qed

lemma he_mcs_nss_size_bounds: "4 \<le> ieee80211_he_mcs_nss_size d" "ieee80211_he_mcs_nss_size d \<le> 12"
  by (simp_all add: ieee80211_he_mcs_nss_size_def)

subsection \<open>HE operation, spatial reuse\<close>

abbreviation (input) HE_OPERATION_SIZE :: nat where "HE_OPERATION_SIZE \<equiv> 6"
abbreviation (input) HE_6GHZ_OPER_SIZE :: nat where "HE_6GHZ_OPER_SIZE \<equiv> 5"
abbreviation (input) HE_OPERATION_VHT_OPER_INFO :: u32 where "HE_OPERATION_VHT_OPER_INFO \<equiv> 0x00004000"
abbreviation (input) HE_OPERATION_CO_HOSTED_BSS :: u32 where "HE_OPERATION_CO_HOSTED_BSS \<equiv> 0x00008000"
abbreviation (input) HE_OPERATION_6GHZ_OP_INFO :: u32 where "HE_OPERATION_6GHZ_OP_INFO \<equiv> 0x00020000"

definition ieee80211_he_oper_size :: "u8 list \<Rightarrow> nat" where
  "ieee80211_he_oper_size d =
     (let he_oper_params = get_unaligned_le32 d 0
      in HE_OPERATION_SIZE
         + (if has_flag he_oper_params HE_OPERATION_VHT_OPER_INFO then 3 else 0)
         + (if has_flag he_oper_params HE_OPERATION_CO_HOSTED_BSS then 1 else 0)
         + (if has_flag he_oper_params HE_OPERATION_6GHZ_OP_INFO then HE_6GHZ_OPER_SIZE else 0)
         + 1)"

text \<open>The offset of the 6 GHz operation field, or no such field.\<close>

definition ieee80211_he_6ghz_oper :: "u8 list \<Rightarrow> nat option" where
  "ieee80211_he_6ghz_oper d =
     (let he_oper_params = get_unaligned_le32 d 0
      in if \<not> has_flag he_oper_params HE_OPERATION_6GHZ_OP_INFO then None
         else Some (HE_OPERATION_SIZE
                    + (if has_flag he_oper_params HE_OPERATION_VHT_OPER_INFO then 3 else 0)
                    + (if has_flag he_oper_params HE_OPERATION_CO_HOSTED_BSS then 1 else 0)))"

lemma he_6ghz_oper_in_bounds:
  "ieee80211_he_oper_size d - 1 \<le> length d \<Longrightarrow> ieee80211_he_6ghz_oper d = Some off \<Longrightarrow> off + HE_6GHZ_OPER_SIZE \<le> length d"
  by (auto simp: ieee80211_he_oper_size_def ieee80211_he_6ghz_oper_def Let_def split: if_splits)

abbreviation (input) HE_SPR_SIZE :: nat where "HE_SPR_SIZE \<equiv> 1"
abbreviation (input) HE_SPR_NON_SRG_OFFSET_PRESENT :: u8 where "HE_SPR_NON_SRG_OFFSET_PRESENT \<equiv> 0x04"
abbreviation (input) HE_SPR_SRG_INFORMATION_PRESENT :: u8 where "HE_SPR_SRG_INFORMATION_PRESENT \<equiv> 0x08"

definition ieee80211_he_spr_size :: "u8 list \<Rightarrow> nat" where
  "ieee80211_he_spr_size d =
     HE_SPR_SIZE + (if has_flag (d ! 0) HE_SPR_NON_SRG_OFFSET_PRESENT then 1 else 0)
       + (if has_flag (d ! 0) HE_SPR_SRG_INFORMATION_PRESENT then 18 else 0) + 1"

subsection \<open>EHT capabilities\<close>

text \<open>\<^verbatim>\<open>struct ieee80211_eht_cap_elem_fixed\<close>: two octets of MAC and nine of PHY capabilities.\<close>

abbreviation (input) EHT_CAP_ELEM_FIXED_SIZE :: nat where "EHT_CAP_ELEM_FIXED_SIZE \<equiv> 11"

definition eht_phy_cap_info :: "u8 list \<Rightarrow> u8 list" where
  "eht_phy_cap_info d = mem_read d 2 9"

abbreviation (input) EHT_PHY_CAP0_320MHZ_IN_6GHZ :: u8 where "EHT_PHY_CAP0_320MHZ_IN_6GHZ \<equiv> 0x02"
abbreviation (input) EHT_PHY_CAP5_PPE_THRESHOLD_PRESENT :: u8 where "EHT_PHY_CAP5_PPE_THRESHOLD_PRESENT \<equiv> 0x08"
abbreviation (input) EHT_PPE_THRES_NSS_MASK :: u16 where "EHT_PPE_THRES_NSS_MASK \<equiv> 0xf"
abbreviation (input) EHT_PPE_THRES_RU_INDEX_BITMASK_MASK :: u16 where "EHT_PPE_THRES_RU_INDEX_BITMASK_MASK \<equiv> 0x1f0"

definition ieee80211_eht_mcs_nss_size :: "u8 list \<Rightarrow> u8 list \<Rightarrow> bool \<Rightarrow> nat" where
  "ieee80211_eht_mcs_nss_size he_cap eht_cap fromap =
     (let cap0 = he_phy_cap_info he_cap ! 0
      in if has_flag cap0 HE_PHY_CAP0_40MHZ_IN_2G then 3
         else let count = (if has_flag cap0 HE_PHY_CAP0_40MHZ_80MHZ_IN_5G then 3 else 0)
                        + (if has_flag cap0 HE_PHY_CAP0_160MHZ_IN_5G then 3 else 0)
                        + (if has_flag (eht_phy_cap_info eht_cap ! 0) EHT_PHY_CAP0_320MHZ_IN_6GHZ then 3 else 0)
              in if count \<noteq> 0 then count else if fromap then 3 else 4)"

definition ieee80211_eht_ppe_size :: "u16 \<Rightarrow> u8 list \<Rightarrow> nat" where
  "ieee80211_eht_ppe_size ppe_thres_hdr phy_cap_info =
     (if \<not> has_flag (phy_cap_info ! 5) EHT_PHY_CAP5_PPE_THRESHOLD_PRESENT then 0
      else (let n = hweight16 (ppe_thres_hdr AND EHT_PPE_THRES_RU_INDEX_BITMASK_MASK);
                n = n * (1 + unat (get_bits ppe_thres_hdr EHT_PPE_THRES_NSS_MASK));
                n = n * 3 * 2 + 9
            in (n + 7) div 8))"

text \<open>\<^verbatim>\<open>he_capa\<close> is the HE capability element found before, or \<^verbatim>\<open>NULL\<close>.\<close>

definition ieee80211_eht_capa_size_ok :: "u8 list option \<Rightarrow> u8 list \<Rightarrow> bool \<Rightarrow> bool" where
  "ieee80211_eht_capa_size_ok he_capa d fromap \<longleftrightarrow>
     (case he_capa of
        None \<Rightarrow> False
      | Some he \<Rightarrow>
          if length d < EHT_CAP_ELEM_FIXED_SIZE then False
          else let needed = EHT_CAP_ELEM_FIXED_SIZE + ieee80211_eht_mcs_nss_size he d fromap
               in if length d < needed then False
                  else if has_flag (eht_phy_cap_info d ! 5) EHT_PHY_CAP5_PPE_THRESHOLD_PRESENT
                  then (if length d < needed + 2 then False
                        else needed + ieee80211_eht_ppe_size (get_unaligned_le16 d needed) (eht_phy_cap_info d) \<le> length d)
                  else needed \<le> length d)"

lemma eht_mcs_nss_size_bounds: "3 \<le> ieee80211_eht_mcs_nss_size h e b" "ieee80211_eht_mcs_nss_size h e b \<le> 9"
  by (auto simp: ieee80211_eht_mcs_nss_size_def Let_def)

lemma hweight16_ru_le: "hweight16 (h AND EHT_PPE_THRES_RU_INDEX_BITMASK_MASK) \<le> 5"
proof -
  have "hweight16 0x1f0 = 5" by code_simp
  then show ?thesis using hweight16_and_le[of h "0x1f0"] by simp
qed

lemma eht_nss_le: "unat (get_bits (h :: u16) EHT_PPE_THRES_NSS_MASK) \<le> 15"
  using word_and_le1[of h 15] by (simp add: get_bits_def field_multiplier_def word_le_nat_alt)

text \<open>The size returned as \<^verbatim>\<open>u8\<close> is at most 62.\<close>

lemma eht_ppe_size_le: "ieee80211_eht_ppe_size h phy \<le> 62"
proof -
  have "hweight16 (h AND EHT_PPE_THRES_RU_INDEX_BITMASK_MASK) * (1 + unat (get_bits h EHT_PPE_THRES_NSS_MASK)) \<le> 5 * 16"
    using hweight16_ru_le[of h] eht_nss_le[of h] by (intro mult_le_mono) auto
  then have "hweight16 (h AND EHT_PPE_THRES_RU_INDEX_BITMASK_MASK) * (1 + unat (get_bits h EHT_PPE_THRES_NSS_MASK)) \<le> 80"
    by simp
  from ppe_octets(2)[OF this] show ?thesis by (auto simp only: ieee80211_eht_ppe_size_def Let_def split: if_split)
qed

subsection \<open>EHT operation, bandwidth indication\<close>

abbreviation (input) EHT_OPERATION_SIZE :: nat where "EHT_OPERATION_SIZE \<equiv> 5"
abbreviation (input) EHT_OPER_INFO_PRESENT :: u8 where "EHT_OPER_INFO_PRESENT \<equiv> 0x01"
abbreviation (input) EHT_OPER_DISABLED_SUBCHANNEL_BITMAP_PRESENT :: u8 where
  "EHT_OPER_DISABLED_SUBCHANNEL_BITMAP_PRESENT \<equiv> 0x02"

definition ieee80211_eht_oper_size_ok :: "u8 list \<Rightarrow> bool" where
  "ieee80211_eht_oper_size_ok d \<longleftrightarrow>
     (if length d < EHT_OPERATION_SIZE then False
      else let needed = EHT_OPERATION_SIZE
                 + (if has_flag (d ! 0) EHT_OPER_INFO_PRESENT
                    then 3 + (if has_flag (d ! 0) EHT_OPER_DISABLED_SUBCHANNEL_BITMAP_PRESENT then 2 else 0)
                    else 0)
           in needed \<le> length d)"

text \<open>\<^verbatim>\<open>info->optional\<close> follows the three octets of the operation information.\<close>

definition ieee80211_eht_oper_dis_subchan_bitmap :: "u8 list \<Rightarrow> u16 option" where
  "ieee80211_eht_oper_dis_subchan_bitmap d =
     (if \<not> has_flag (d ! 0) EHT_OPER_INFO_PRESENT then Some 0
      else if \<not> has_flag (d ! 0) EHT_OPER_DISABLED_SUBCHANNEL_BITMAP_PRESENT then Some 0
      else rd16 d (EHT_OPERATION_SIZE + 3))"

lemma eht_oper_in_bounds:
  "ieee80211_eht_oper_size_ok d \<Longrightarrow> ieee80211_eht_oper_dis_subchan_bitmap d \<noteq> None"
  by (auto simp: ieee80211_eht_oper_size_ok_def ieee80211_eht_oper_dis_subchan_bitmap_def Let_def rd16_def split: if_splits)

abbreviation (input) BANDWIDTH_INDICATION_SIZE :: nat where "BANDWIDTH_INDICATION_SIZE \<equiv> 4"
abbreviation (input) BW_IND_DIS_SUBCH_PRESENT :: u8 where "BW_IND_DIS_SUBCH_PRESENT \<equiv> 0x02"

definition ieee80211_bandwidth_indication_size_ok :: "u8 list \<Rightarrow> bool" where
  "ieee80211_bandwidth_indication_size_ok d \<longleftrightarrow>
     (if length d < BANDWIDTH_INDICATION_SIZE then False
      else if has_flag (d ! 0) BW_IND_DIS_SUBCH_PRESENT \<and> length d < BANDWIDTH_INDICATION_SIZE + 2 then False
      else True)"

subsection \<open>Multi-link element\<close>

abbreviation (input) ML_CONTROL_TYPE :: u16 where "ML_CONTROL_TYPE \<equiv> 0x0007"
abbreviation (input) ML_CONTROL_TYPE_BASIC :: u16 where "ML_CONTROL_TYPE_BASIC \<equiv> 0"
abbreviation (input) ML_CONTROL_TYPE_PREQ :: u16 where "ML_CONTROL_TYPE_PREQ \<equiv> 1"
abbreviation (input) ML_CONTROL_TYPE_RECONF :: u16 where "ML_CONTROL_TYPE_RECONF \<equiv> 2"
abbreviation (input) ML_CONTROL_TYPE_TDLS :: u16 where "ML_CONTROL_TYPE_TDLS \<equiv> 3"
abbreviation (input) ML_CONTROL_TYPE_PRIO_ACCESS :: u16 where "ML_CONTROL_TYPE_PRIO_ACCESS \<equiv> 4"
abbreviation (input) MLC_BASIC_PRES_LINK_ID :: u16 where "MLC_BASIC_PRES_LINK_ID \<equiv> 0x0010"
abbreviation (input) MLC_BASIC_PRES_BSS_PARAM_CH_CNT :: u16 where "MLC_BASIC_PRES_BSS_PARAM_CH_CNT \<equiv> 0x0020"
abbreviation (input) MLC_BASIC_PRES_MED_SYNC_DELAY :: u16 where "MLC_BASIC_PRES_MED_SYNC_DELAY \<equiv> 0x0040"
abbreviation (input) MLC_BASIC_PRES_EML_CAPA :: u16 where "MLC_BASIC_PRES_EML_CAPA \<equiv> 0x0080"
abbreviation (input) MLC_BASIC_PRES_MLD_CAPA_OP :: u16 where "MLC_BASIC_PRES_MLD_CAPA_OP \<equiv> 0x0100"
abbreviation (input) MLC_BASIC_PRES_MLD_ID :: u16 where "MLC_BASIC_PRES_MLD_ID \<equiv> 0x0200"
abbreviation (input) MLC_BASIC_PRES_EXT_MLD_CAPA_OP :: u16 where "MLC_BASIC_PRES_EXT_MLD_CAPA_OP \<equiv> 0x0400"
abbreviation (input) MLC_PREQ_PRES_MLD_ID :: u16 where "MLC_PREQ_PRES_MLD_ID \<equiv> 0x0010"
abbreviation (input) MLC_RECONF_PRES_MLD_MAC_ADDR :: u16 where "MLC_RECONF_PRES_MLD_MAC_ADDR \<equiv> 0x0010"
abbreviation (input) MLC_RECONF_PRES_EML_CAPA :: u16 where "MLC_RECONF_PRES_EML_CAPA \<equiv> 0x0020"
abbreviation (input) MLC_RECONF_PRES_MLD_CAPA_OP :: u16 where "MLC_RECONF_PRES_MLD_CAPA_OP \<equiv> 0x0040"
abbreviation (input) MLC_RECONF_PRES_EXT_MLD_CAPA_OP :: u16 where "MLC_RECONF_PRES_EXT_MLD_CAPA_OP \<equiv> 0x0080"
abbreviation (input) MED_SYNC_DELAY_DEFAULT :: u16 where "MED_SYNC_DELAY_DEFAULT \<equiv> 0x10ac"

text \<open>\<^verbatim>\<open>struct ieee80211_multi_link_elem\<close>: two octets of control, then the common information.\<close>

definition mle_control :: "u8 list \<Rightarrow> u16" where
  "mle_control d = get_unaligned_le16 d 0"

definition mle_type :: "u8 list \<Rightarrow> u16" where
  "mle_type d = get_bits (mle_control d) ML_CONTROL_TYPE"

text \<open>
  The size of the common information of \<^verbatim>\<open>ieee80211_mle_common_size\<close>, returned as \<^verbatim>\<open>u8\<close>: the sum
  of two and an octet of the element wraps.
\<close>

definition ieee80211_mle_common_size :: "u8 list \<Rightarrow> u8" where
  "ieee80211_mle_common_size d =
     (if mle_type d \<in> {ML_CONTROL_TYPE_BASIC, ML_CONTROL_TYPE_PREQ, ML_CONTROL_TYPE_TDLS, ML_CONTROL_TYPE_RECONF,
                       ML_CONTROL_TYPE_PRIO_ACCESS}
      then 2 + d ! 2 else 0)"

text \<open>The octets the switch of \<^verbatim>\<open>ieee80211_mle_size_ok\<close> adds up, and \<^verbatim>\<open>check_common_len\<close>; \<open>None\<close> is an unknown type.\<close>

definition mle_basic_common :: "u16 \<Rightarrow> nat" where
  "mle_basic_common control =
     7 + (if has_flag control MLC_BASIC_PRES_LINK_ID then 1 else 0)
       + (if has_flag control MLC_BASIC_PRES_BSS_PARAM_CH_CNT then 1 else 0)
       + (if has_flag control MLC_BASIC_PRES_MED_SYNC_DELAY then 2 else 0)
       + (if has_flag control MLC_BASIC_PRES_EML_CAPA then 2 else 0)
       + (if has_flag control MLC_BASIC_PRES_MLD_CAPA_OP then 2 else 0)
       + (if has_flag control MLC_BASIC_PRES_MLD_ID then 1 else 0)
       + (if has_flag control MLC_BASIC_PRES_EXT_MLD_CAPA_OP then 2 else 0)"

definition mle_common :: "u8 list \<Rightarrow> (nat \<times> bool) option" where
  "mle_common d =
     (let control = mle_control d; ty = mle_type d
      in if ty = ML_CONTROL_TYPE_BASIC
         then Some (mle_basic_common control, True)
         else if ty = ML_CONTROL_TYPE_PREQ
         then Some (1 + (if has_flag control MLC_PREQ_PRES_MLD_ID then 1 else 0), True)
         else if ty = ML_CONTROL_TYPE_RECONF
         then Some ((if has_flag control MLC_RECONF_PRES_MLD_MAC_ADDR then 6 else 0)
                      + (if has_flag control MLC_RECONF_PRES_EML_CAPA then 2 else 0)
                      + (if has_flag control MLC_RECONF_PRES_MLD_CAPA_OP then 2 else 0)
                      + (if has_flag control MLC_RECONF_PRES_EXT_MLD_CAPA_OP then 2 else 0), False)
         else if ty = ML_CONTROL_TYPE_TDLS then Some (7, True)
         else if ty = ML_CONTROL_TYPE_PRIO_ACCESS then Some (7, False)
         else None)"

definition ieee80211_mle_size_ok :: "u8 list \<Rightarrow> bool" where
  "ieee80211_mle_size_ok d \<longleftrightarrow>
     (if length d < 2 then False
      else (case mle_common d of
              None \<Rightarrow> True
            | Some (common, check_common_len) \<Rightarrow>
                if length d < 2 + common then False
                else if \<not> check_common_len then True
                else common \<le> unat (d ! 2)))"

definition ieee80211_mle_type_ok :: "u8 list \<Rightarrow> u16 \<Rightarrow> bool" where
  "ieee80211_mle_type_ok d ty \<longleftrightarrow> ieee80211_mle_size_ok d \<and> mle_type d = ty"

text \<open>The accessors start behind \<^verbatim>\<open>struct ieee80211_mle_basic_common_info\<close>, at octet nine.\<close>

definition ieee80211_mle_get_link_id :: "u8 list \<Rightarrow> int option" where
  "ieee80211_mle_get_link_id d =
     (let control = mle_control d; common = 9
      in if \<not> has_flag control MLC_BASIC_PRES_LINK_ID then Some (- 1) else map_option uint (rd8 d common))"

definition ieee80211_mle_get_bss_param_ch_cnt :: "u8 list \<Rightarrow> int option" where
  "ieee80211_mle_get_bss_param_ch_cnt d =
     (let control = mle_control d;
          common = 9 + (if has_flag control MLC_BASIC_PRES_LINK_ID then 1 else 0)
      in if \<not> has_flag control MLC_BASIC_PRES_BSS_PARAM_CH_CNT then Some (- 1) else map_option uint (rd8 d common))"

definition ieee80211_mle_get_eml_med_sync_delay :: "u8 list \<Rightarrow> u16 option" where
  "ieee80211_mle_get_eml_med_sync_delay d =
     (let control = mle_control d;
          common = 9 + (if has_flag control MLC_BASIC_PRES_LINK_ID then 1 else 0)
                     + (if has_flag control MLC_BASIC_PRES_BSS_PARAM_CH_CNT then 1 else 0)
      in if \<not> has_flag control MLC_BASIC_PRES_MED_SYNC_DELAY then Some MED_SYNC_DELAY_DEFAULT else rd16 d common)"

definition ieee80211_mle_get_eml_cap :: "u8 list \<Rightarrow> u16 option" where
  "ieee80211_mle_get_eml_cap d =
     (let control = mle_control d;
          common = 9 + (if has_flag control MLC_BASIC_PRES_LINK_ID then 1 else 0)
                     + (if has_flag control MLC_BASIC_PRES_BSS_PARAM_CH_CNT then 1 else 0)
                     + (if has_flag control MLC_BASIC_PRES_MED_SYNC_DELAY then 2 else 0)
      in if \<not> has_flag control MLC_BASIC_PRES_EML_CAPA then Some 0 else rd16 d common)"

definition ieee80211_mle_get_mld_capa_op :: "u8 list \<Rightarrow> u16 option" where
  "ieee80211_mle_get_mld_capa_op d =
     (let control = mle_control d;
          common = 9 + (if has_flag control MLC_BASIC_PRES_LINK_ID then 1 else 0)
                     + (if has_flag control MLC_BASIC_PRES_BSS_PARAM_CH_CNT then 1 else 0)
                     + (if has_flag control MLC_BASIC_PRES_MED_SYNC_DELAY then 2 else 0)
                     + (if has_flag control MLC_BASIC_PRES_EML_CAPA then 2 else 0)
      in if \<not> has_flag control MLC_BASIC_PRES_MLD_CAPA_OP then Some 0 else rd16 d common)"

definition ieee80211_mle_get_ext_mld_capa_op :: "u8 list \<Rightarrow> u16 option" where
  "ieee80211_mle_get_ext_mld_capa_op d =
     (let control = mle_control d;
          common = 9 + (if has_flag control MLC_BASIC_PRES_LINK_ID then 1 else 0)
                     + (if has_flag control MLC_BASIC_PRES_BSS_PARAM_CH_CNT then 1 else 0)
                     + (if has_flag control MLC_BASIC_PRES_MED_SYNC_DELAY then 2 else 0)
                     + (if has_flag control MLC_BASIC_PRES_EML_CAPA then 2 else 0)
                     + (if has_flag control MLC_BASIC_PRES_MLD_CAPA_OP then 2 else 0)
                     + (if has_flag control MLC_BASIC_PRES_MLD_ID then 1 else 0)
      in if \<not> has_flag control MLC_BASIC_PRES_EXT_MLD_CAPA_OP then Some 0 else rd16 d common)"

definition ieee80211_mle_get_mld_id :: "u8 list \<Rightarrow> u8 option" where
  "ieee80211_mle_get_mld_id d =
     (let control = mle_control d;
          common = 9 + (if has_flag control MLC_BASIC_PRES_LINK_ID then 1 else 0)
                     + (if has_flag control MLC_BASIC_PRES_BSS_PARAM_CH_CNT then 1 else 0)
                     + (if has_flag control MLC_BASIC_PRES_MED_SYNC_DELAY then 2 else 0)
                     + (if has_flag control MLC_BASIC_PRES_EML_CAPA then 2 else 0)
                     + (if has_flag control MLC_BASIC_PRES_MLD_CAPA_OP then 2 else 0)
      in if \<not> has_flag control MLC_BASIC_PRES_MLD_ID then Some 0 else rd8 d common)"

definition mle_accessors_ok :: "u8 list \<Rightarrow> bool" where
  "mle_accessors_ok d \<longleftrightarrow>
     ieee80211_mle_get_link_id d \<noteq> None \<and> ieee80211_mle_get_bss_param_ch_cnt d \<noteq> None \<and>
     ieee80211_mle_get_eml_med_sync_delay d \<noteq> None \<and> ieee80211_mle_get_eml_cap d \<noteq> None \<and>
     ieee80211_mle_get_mld_capa_op d \<noteq> None \<and> ieee80211_mle_get_ext_mld_capa_op d \<noteq> None \<and>
     ieee80211_mle_get_mld_id d \<noteq> None"

lemma mle_basic_length:
  "ieee80211_mle_type_ok d ML_CONTROL_TYPE_BASIC \<Longrightarrow> 2 + mle_basic_common (mle_control d) \<le> length d"
  by (simp add: ieee80211_mle_type_ok_def ieee80211_mle_size_ok_def mle_common_def Let_def split: if_split_asm)

text \<open>Every accessor reads within a multi-link element of the basic type that has passed the check.\<close>

lemma mle_accessors_in_bounds:
  assumes "ieee80211_mle_type_ok d ML_CONTROL_TYPE_BASIC"
  shows "mle_accessors_ok d"
proof -
  let ?c = "mle_control d"
  note len = mle_basic_length[OF assms, unfolded mle_basic_common_def]
  have "ieee80211_mle_get_link_id d \<noteq> None"
    using len by (cases "has_flag ?c MLC_BASIC_PRES_LINK_ID")
      (simp_all add: ieee80211_mle_get_link_id_def rd8_def)
  moreover have "ieee80211_mle_get_bss_param_ch_cnt d \<noteq> None"
    using len by (cases "has_flag ?c MLC_BASIC_PRES_BSS_PARAM_CH_CNT")
      (simp_all add: ieee80211_mle_get_bss_param_ch_cnt_def rd8_def Let_def split del: if_split)
  moreover have "ieee80211_mle_get_eml_med_sync_delay d \<noteq> None"
    using len by (cases "has_flag ?c MLC_BASIC_PRES_MED_SYNC_DELAY")
      (simp_all add: ieee80211_mle_get_eml_med_sync_delay_def rd16_def Let_def split del: if_split)
  moreover have "ieee80211_mle_get_eml_cap d \<noteq> None"
    using len by (cases "has_flag ?c MLC_BASIC_PRES_EML_CAPA")
      (simp_all add: ieee80211_mle_get_eml_cap_def rd16_def Let_def split del: if_split)
  moreover have "ieee80211_mle_get_mld_capa_op d \<noteq> None"
    using len by (cases "has_flag ?c MLC_BASIC_PRES_MLD_CAPA_OP")
      (simp_all add: ieee80211_mle_get_mld_capa_op_def rd16_def Let_def split del: if_split)
  moreover have "ieee80211_mle_get_ext_mld_capa_op d \<noteq> None"
    using len by (cases "has_flag ?c MLC_BASIC_PRES_EXT_MLD_CAPA_OP")
      (simp_all add: ieee80211_mle_get_ext_mld_capa_op_def rd16_def Let_def split del: if_split)
  moreover have "ieee80211_mle_get_mld_id d \<noteq> None"
    using len by (cases "has_flag ?c MLC_BASIC_PRES_MLD_ID")
      (simp_all add: ieee80211_mle_get_mld_id_def rd8_def Let_def split del: if_split)
  ultimately show ?thesis by (simp add: mle_accessors_ok_def)
qed

text \<open>The check reads the first octets only: it holds of any longer sequence that starts like one it accepts.\<close>

lemma le16_prefix: "off + 1 < length a \<Longrightarrow> get_unaligned_le16 (a @ b) off = get_unaligned_le16 a off"
  by (simp add: get_unaligned_le16_def nth_append)

lemma mle_size_ok_append: "ieee80211_mle_size_ok a \<Longrightarrow> ieee80211_mle_size_ok (a @ b) \<and> mle_type (a @ b) = mle_type a"
proof -
  assume ok: "ieee80211_mle_size_ok a"
  then have len: "2 \<le> length a" by (simp add: ieee80211_mle_size_ok_def split: if_splits)
  then have c: "mle_control (a @ b) = mle_control a" by (simp add: mle_control_def le16_prefix)
  then have t: "mle_type (a @ b) = mle_type a" by (simp add: mle_type_def)
  have m: "mle_common (a @ b) = mle_common a" unfolding mle_common_def Let_def c t by (rule refl)
  have pos: "mle_common a = Some (k, True) \<Longrightarrow> 0 < k" for k
    by (auto simp: mle_common_def mle_basic_common_def Let_def split: if_splits)
  show ?thesis
    using ok len t pos by (auto simp: ieee80211_mle_size_ok_def m nth_append split: option.splits if_splits)
qed

abbreviation (input) MLE_STA_CONTROL_LINK_ID :: u16 where "MLE_STA_CONTROL_LINK_ID \<equiv> 0x000f"
abbreviation (input) MLE_STA_CONTROL_COMPLETE_PROFILE :: u16 where "MLE_STA_CONTROL_COMPLETE_PROFILE \<equiv> 0x0010"
abbreviation (input) MLE_STA_CONTROL_STA_MAC_ADDR_PRESENT :: u16 where "MLE_STA_CONTROL_STA_MAC_ADDR_PRESENT \<equiv> 0x0020"
abbreviation (input) MLE_STA_CONTROL_BEACON_INT_PRESENT :: u16 where "MLE_STA_CONTROL_BEACON_INT_PRESENT \<equiv> 0x0040"
abbreviation (input) MLE_STA_CONTROL_TSF_OFFS_PRESENT :: u16 where "MLE_STA_CONTROL_TSF_OFFS_PRESENT \<equiv> 0x0080"
abbreviation (input) MLE_STA_CONTROL_DTIM_INFO_PRESENT :: u16 where "MLE_STA_CONTROL_DTIM_INFO_PRESENT \<equiv> 0x0100"
abbreviation (input) MLE_STA_CONTROL_NSTR_LINK_PAIR_PRESENT :: u16 where "MLE_STA_CONTROL_NSTR_LINK_PAIR_PRESENT \<equiv> 0x0200"
abbreviation (input) MLE_STA_CONTROL_NSTR_BITMAP_SIZE :: u16 where "MLE_STA_CONTROL_NSTR_BITMAP_SIZE \<equiv> 0x0400"
abbreviation (input) MLE_STA_CONTROL_BSS_PARAM_CHANGE_CNT_PRESENT :: u16 where
  "MLE_STA_CONTROL_BSS_PARAM_CHANGE_CNT_PRESENT \<equiv> 0x0800"

text \<open>\<^verbatim>\<open>struct ieee80211_mle_per_sta_profile\<close>: control, \<^verbatim>\<open>sta_info_len\<close>, then the rest.\<close>

definition sta_prof_control :: "u8 list \<Rightarrow> u16" where
  "sta_prof_control d = get_unaligned_le16 d 0"

definition sta_info_octets :: "u16 \<Rightarrow> nat" where
  "sta_info_octets control =
     1 + (if has_flag control MLE_STA_CONTROL_STA_MAC_ADDR_PRESENT then 6 else 0)
       + (if has_flag control MLE_STA_CONTROL_BEACON_INT_PRESENT then 2 else 0)
       + (if has_flag control MLE_STA_CONTROL_TSF_OFFS_PRESENT then 8 else 0)
       + (if has_flag control MLE_STA_CONTROL_DTIM_INFO_PRESENT then 2 else 0)
       + (if has_flag control MLE_STA_CONTROL_COMPLETE_PROFILE \<and> has_flag control MLE_STA_CONTROL_NSTR_LINK_PAIR_PRESENT
          then (if has_flag control MLE_STA_CONTROL_NSTR_BITMAP_SIZE then 2 else 1) else 0)
       + (if has_flag control MLE_STA_CONTROL_BSS_PARAM_CHANGE_CNT_PRESENT then 1 else 0)"

definition ieee80211_mle_basic_sta_prof_size_ok :: "u8 list \<Rightarrow> bool" where
  "ieee80211_mle_basic_sta_prof_size_ok d \<longleftrightarrow>
     (if length d < 3 then False
      else sta_info_octets (sta_prof_control d) \<le> unat (d ! 2) \<and> 3 + unat (d ! 2) - 1 \<le> length d)"

definition ieee80211_mle_basic_sta_prof_bss_param_ch_cnt :: "u8 list \<Rightarrow> u8 option" where
  "ieee80211_mle_basic_sta_prof_bss_param_ch_cnt d =
     (let control = sta_prof_control d
      in if \<not> has_flag control MLE_STA_CONTROL_BSS_PARAM_CHANGE_CNT_PRESENT then Some 0
         else rd8 d (3 + (if has_flag control MLE_STA_CONTROL_STA_MAC_ADDR_PRESENT then 6 else 0)
                       + (if has_flag control MLE_STA_CONTROL_BEACON_INT_PRESENT then 2 else 0)
                       + (if has_flag control MLE_STA_CONTROL_TSF_OFFS_PRESENT then 8 else 0)
                       + (if has_flag control MLE_STA_CONTROL_DTIM_INFO_PRESENT then 2 else 0)
                       + (if has_flag control MLE_STA_CONTROL_COMPLETE_PROFILE \<and> has_flag control MLE_STA_CONTROL_NSTR_LINK_PAIR_PRESENT
                          then (if has_flag control MLE_STA_CONTROL_NSTR_BITMAP_SIZE then 2 else 1) else 0)))"

lemma sta_prof_in_bounds:
  assumes "ieee80211_mle_basic_sta_prof_size_ok d"
  shows "ieee80211_mle_basic_sta_prof_bss_param_ch_cnt d \<noteq> None"
proof -
  have "sta_info_octets (sta_prof_control d) + 2 \<le> length d"
    using assms by (simp add: ieee80211_mle_basic_sta_prof_size_ok_def split: if_splits)
  then show ?thesis
    by (cases "has_flag (sta_prof_control d) MLE_STA_CONTROL_BSS_PARAM_CHANGE_CNT_PRESENT")
      (simp_all add: sta_info_octets_def ieee80211_mle_basic_sta_prof_bss_param_ch_cnt_def Let_def rd8_def split del: if_split)
qed

subsection \<open>TID-to-link mapping\<close>

abbreviation (input) TTLM_CONTROL_DIRECTION :: u8 where "TTLM_CONTROL_DIRECTION \<equiv> 0x03"
abbreviation (input) TTLM_CONTROL_DEF_LINK_MAP :: u8 where "TTLM_CONTROL_DEF_LINK_MAP \<equiv> 0x04"
abbreviation (input) TTLM_CONTROL_SWITCH_TIME_PRESENT :: u8 where "TTLM_CONTROL_SWITCH_TIME_PRESENT \<equiv> 0x08"
abbreviation (input) TTLM_CONTROL_EXPECTED_DUR_PRESENT :: u8 where "TTLM_CONTROL_EXPECTED_DUR_PRESENT \<equiv> 0x10"
abbreviation (input) TTLM_CONTROL_LINK_MAP_SIZE :: u8 where "TTLM_CONTROL_LINK_MAP_SIZE \<equiv> 0x20"

definition ieee80211_tid_to_link_map_size_ok :: "u8 list \<Rightarrow> bool" where
  "ieee80211_tid_to_link_map_size_ok d \<longleftrightarrow>
     (if length d < 1 then False
      else let control = d ! 0;
               elem_len = (if has_flag control TTLM_CONTROL_SWITCH_TIME_PRESENT then 2 else 0)
                        + (if has_flag control TTLM_CONTROL_EXPECTED_DUR_PRESENT then 3 else 0)
           in if \<not> has_flag control TTLM_CONTROL_DEF_LINK_MAP
              then (let elem_len = elem_len + 1
                    in if length d < 1 + elem_len then False
                       else let bm_size = (if has_flag control TTLM_CONTROL_LINK_MAP_SIZE then 1 else 2)
                            in 1 + elem_len + hweight8 (d ! 1) * bm_size \<le> length d)
              else 1 + elem_len \<le> length d)"

subsection \<open>UHR operation and capabilities\<close>

abbreviation (input) UHR_OPER_SIZE :: nat where "UHR_OPER_SIZE \<equiv> 6"
abbreviation (input) UHR_OPER_PARAMS_NPCA_ENA :: u16 where "UHR_OPER_PARAMS_NPCA_ENA \<equiv> 0x0002"
abbreviation (input) UHR_NPCA_PARAMS_DIS_SUBCH_BMAP_PRES :: u32 where "UHR_NPCA_PARAMS_DIS_SUBCH_BMAP_PRES \<equiv> 0x08000000"

definition ieee80211_uhr_oper_size_ok :: "u8 list \<Rightarrow> bool \<Rightarrow> bool" where
  "ieee80211_uhr_oper_size_ok d beacon \<longleftrightarrow>
     (if length d < UHR_OPER_SIZE then False
      else if beacon then True
      else if has_flag (get_unaligned_le16 d 0) UHR_OPER_PARAMS_NPCA_ENA
      then (let needed = UHR_OPER_SIZE + 4
            in if length d < needed then False
               else needed + (if has_flag (get_unaligned_le32 d UHR_OPER_SIZE) UHR_NPCA_PARAMS_DIS_SUBCH_BMAP_PRES then 2 else 0)
                    \<le> length d)
      else UHR_OPER_SIZE \<le> length d)"

text \<open>Offsets of the NPCA information and of its bitmap.\<close>

definition ieee80211_uhr_npca_info :: "u8 list \<Rightarrow> nat option" where
  "ieee80211_uhr_npca_info d =
     (if \<not> has_flag (get_unaligned_le16 d 0) UHR_OPER_PARAMS_NPCA_ENA then None else Some UHR_OPER_SIZE)"

definition ieee80211_uhr_npca_dis_subch_bitmap :: "u8 list \<Rightarrow> nat option" where
  "ieee80211_uhr_npca_dis_subch_bitmap d =
     (case ieee80211_uhr_npca_info d of
        None \<Rightarrow> None
      | Some npca \<Rightarrow>
          if \<not> has_flag (get_unaligned_le32 d npca) UHR_NPCA_PARAMS_DIS_SUBCH_BMAP_PRES then None else Some (npca + 4))"

lemma uhr_oper_in_bounds:
  assumes "ieee80211_uhr_oper_size_ok d False"
  shows "ieee80211_uhr_npca_info d = Some off \<Longrightarrow> off + 4 \<le> length d"
    "ieee80211_uhr_npca_dis_subch_bitmap d = Some off \<Longrightarrow> off + 2 \<le> length d"
  using assms
  by (auto simp: ieee80211_uhr_oper_size_ok_def ieee80211_uhr_npca_info_def ieee80211_uhr_npca_dis_subch_bitmap_def Let_def
      split: if_splits option.splits)

definition ieee80211_uhr_capa_size_ok :: "u8 list \<Rightarrow> bool" where
  "ieee80211_uhr_capa_size_ok d \<longleftrightarrow> 5 + 1 \<le> length d"

definition ieee80211_uhr_phy_cap :: "u8 list \<Rightarrow> nat" where
  "ieee80211_uhr_phy_cap d = 5"

subsection \<open>Transmit power envelope\<close>

abbreviation (input) TX_PWR_ENV_INFO_COUNT :: u8 where "TX_PWR_ENV_INFO_COUNT \<equiv> 0x7"
abbreviation (input) TX_PWR_ENV_INFO_INTERPRET :: u8 where "TX_PWR_ENV_INFO_INTERPRET \<equiv> 0x38"
abbreviation (input) TX_PWR_ENV_INFO_CATEGORY :: u8 where "TX_PWR_ENV_INFO_CATEGORY \<equiv> 0xC0"
abbreviation (input) TX_PWR_ENV_EXT_COUNT :: u8 where "TX_PWR_ENV_EXT_COUNT \<equiv> 0xF"
abbreviation (input) TPE_LOCAL_EIRP :: u8 where "TPE_LOCAL_EIRP \<equiv> 0"
abbreviation (input) TPE_LOCAL_EIRP_PSD :: u8 where "TPE_LOCAL_EIRP_PSD \<equiv> 1"
abbreviation (input) TPE_REG_CLIENT_EIRP :: u8 where "TPE_REG_CLIENT_EIRP \<equiv> 2"
abbreviation (input) TPE_REG_CLIENT_EIRP_PSD :: u8 where "TPE_REG_CLIENT_EIRP_PSD \<equiv> 3"
abbreviation (input) TPE_CAT_6GHZ_DEFAULT :: u8 where "TPE_CAT_6GHZ_DEFAULT \<equiv> 0"
abbreviation (input) TPE_CAT_6GHZ_SUBORDINATE :: u8 where "TPE_CAT_6GHZ_SUBORDINATE \<equiv> 1"

text \<open>\<^verbatim>\<open>env->info\<close> is the first octet, \<^verbatim>\<open>env->variable[i]\<close> octet \<open>1 + i\<close>.\<close>

definition tpe_count :: "u8 list \<Rightarrow> nat" where
  "tpe_count d = unat (get_bits (d ! 0) TX_PWR_ENV_INFO_COUNT)"

definition tpe_interpret :: "u8 list \<Rightarrow> u8" where
  "tpe_interpret d = get_bits (d ! 0) TX_PWR_ENV_INFO_INTERPRET"

definition tpe_category :: "u8 list \<Rightarrow> u8" where
  "tpe_category d = get_bits (d ! 0) TX_PWR_ENV_INFO_CATEGORY"

definition tpe_n :: "nat \<Rightarrow> nat" where
  "tpe_n count = (if count \<noteq> 0 then 2 ^ (count - 1) else 1)"

definition ieee80211_valid_tpe_element :: "u8 list \<Rightarrow> bool" where
  "ieee80211_valid_tpe_element d \<longleftrightarrow>
     (if length d < 1 then False
      else if tpe_category d \<noteq> TPE_CAT_6GHZ_DEFAULT \<and> tpe_category d \<noteq> TPE_CAT_6GHZ_SUBORDINATE then False
      else if tpe_interpret d = TPE_LOCAL_EIRP \<or> tpe_interpret d = TPE_REG_CLIENT_EIRP
      then (if 3 < tpe_count d then False
            else if length d < 1 + (tpe_count d + 1) then False
            else True)
      else if tpe_interpret d = TPE_LOCAL_EIRP_PSD \<or> tpe_interpret d = TPE_REG_CLIENT_EIRP_PSD
      then (if 4 < tpe_count d then False
            else let n = tpe_n (tpe_count d); needed = 1 + n
                 in if length d < needed then False
                    else if needed < length d
                    then (let k = unat (get_bits (d ! (1 + n)) TX_PWR_ENV_EXT_COUNT)
                          in if length d < needed + (1 + k) then False else True)
                    else True)
      else False)"

end
