(* ===== verification/Parse_State.thy ===== *)
theory Parse_State
  imports Elem_Sizes
begin

text \<open>
  The state of the element parser of \<^verbatim>\<open>mac80211/parse.c\<close>: \<^verbatim>\<open>struct ieee802_11_elems\<close> of
  \<^verbatim>\<open>ieee80211_i.h\<close> and \<^verbatim>\<open>struct ieee80211_elems_parse\<close>, which begins with it, the parameters of a
  call, and the parsed transmit power envelopes of \<^verbatim>\<open>hdrs/net/mac80211.h\<close>.

  The pointer fields of \<^verbatim>\<open>struct ieee802_11_elems\<close> are the constructors of \<open>elem_field\<close>; \<open>elem_ptr\<close>
  maps a field to the octets from the pointer to the end of its element, \<open>None\<close> for \<^verbatim>\<open>NULL\<close>, and \<open>elem_len\<close>
  holds the length fields.  \<^verbatim>\<open>ie_start\<close> with \<^verbatim>\<open>total_len\<close> is a list of octets, \<^verbatim>\<open>ttlm_num\<close> the length of
  \<open>ttlm\<close>.  \<^verbatim>\<open>cisco_dtpc_elem\<close> and \<^verbatim>\<open>max_bssid_indicator\<close>, which the parser never writes, are left out.
  The functions of \<^verbatim>\<open>cfg80211\<close> and \<^verbatim>\<open>crc32_be\<close>, which the repository only calls, are the fields of
  \<open>cfg80211_ops\<close>.
\<close>

subsection \<open>Connection modes\<close>

datatype conn_mode = CONN_MODE_S1G | CONN_MODE_LEGACY | CONN_MODE_HT | CONN_MODE_VHT | CONN_MODE_HE
  | CONN_MODE_EHT | CONN_MODE_UHR

fun conn_mode_value :: "conn_mode \<Rightarrow> nat" where
  "conn_mode_value CONN_MODE_S1G = 0"
| "conn_mode_value CONN_MODE_LEGACY = 1"
| "conn_mode_value CONN_MODE_HT = 2"
| "conn_mode_value CONN_MODE_VHT = 3"
| "conn_mode_value CONN_MODE_HE = 4"
| "conn_mode_value CONN_MODE_EHT = 5"
| "conn_mode_value CONN_MODE_UHR = 6"

lemma conn_mode_value_inject [simp]: "conn_mode_value a = conn_mode_value b \<longleftrightarrow> a = b"
  by (cases a; cases b) simp_all

instantiation conn_mode :: linorder
begin

definition less_eq_conn_mode :: "conn_mode \<Rightarrow> conn_mode \<Rightarrow> bool" where
  "less_eq_conn_mode a b \<longleftrightarrow> conn_mode_value a \<le> conn_mode_value b"

definition less_conn_mode :: "conn_mode \<Rightarrow> conn_mode \<Rightarrow> bool" where
  "less_conn_mode a b \<longleftrightarrow> conn_mode_value a < conn_mode_value b"

instance
  by standard (auto simp: less_eq_conn_mode_def less_conn_mode_def)

end

subsection \<open>Parsed transmit power envelopes\<close>

abbreviation (input) TPE_EIRP_ENTRIES_320MHZ :: nat where "TPE_EIRP_ENTRIES_320MHZ \<equiv> 5"
abbreviation (input) TPE_PSD_ENTRIES_320MHZ :: nat where "TPE_PSD_ENTRIES_320MHZ \<equiv> 16"
abbreviation (input) TPE_MAX_TX_PWR_NO_CONSTRAINT :: u8 where "TPE_MAX_TX_PWR_NO_CONSTRAINT \<equiv> 127"
abbreviation (input) TPE_PSD_NO_LIMIT :: u8 where "TPE_PSD_NO_LIMIT \<equiv> 127"

record parsed_tpe_eirp =
  eirp_valid :: bool
  eirp_power :: "u8 list"
  eirp_count :: nat

record parsed_tpe_psd =
  psd_valid :: bool
  psd_power :: "u8 list"
  psd_count :: nat
  psd_n :: nat

record parsed_tpe =
  max_local :: "parsed_tpe_eirp list"
  max_reg_client :: "parsed_tpe_eirp list"
  psd_local :: "parsed_tpe_psd list"
  psd_reg_client :: "parsed_tpe_psd list"

definition clear_eirp :: "parsed_tpe_eirp \<Rightarrow> parsed_tpe_eirp" where
  "clear_eirp e = e\<lparr> eirp_valid := False, eirp_power := replicate TPE_EIRP_ENTRIES_320MHZ TPE_MAX_TX_PWR_NO_CONSTRAINT \<rparr>"

definition clear_psd :: "parsed_tpe_psd \<Rightarrow> parsed_tpe_psd" where
  "clear_psd p = p\<lparr> psd_valid := False, psd_power := replicate TPE_PSD_ENTRIES_320MHZ TPE_PSD_NO_LIMIT \<rparr>"

definition ieee80211_clear_tpe :: "parsed_tpe \<Rightarrow> parsed_tpe" where
  "ieee80211_clear_tpe tpe =
     \<lparr> max_local = map clear_eirp (max_local tpe), max_reg_client = map clear_eirp (max_reg_client tpe),
       psd_local = map clear_psd (psd_local tpe), psd_reg_client = map clear_psd (psd_reg_client tpe) \<rparr>"

text \<open>The structure as \<^verbatim>\<open>kzalloc\<close> leaves it.\<close>

definition zero_tpe :: parsed_tpe where
  "zero_tpe =
     (let e = \<lparr> eirp_valid = False, eirp_power = replicate TPE_EIRP_ENTRIES_320MHZ 0, eirp_count = 0 \<rparr>;
          p = \<lparr> psd_valid = False, psd_power = replicate TPE_PSD_ENTRIES_320MHZ 0, psd_count = 0, psd_n = 0 \<rparr>
      in \<lparr> max_local = [e, e], max_reg_client = [e, e], psd_local = [p, p], psd_reg_client = [p, p] \<rparr>)"

text \<open>The two branches of the second switch of \<^verbatim>\<open>ieee80211_parse_tpe\<close>, on the entry the first one selects.\<close>

definition tpe_store_eirp :: "u8 list \<Rightarrow> parsed_tpe_eirp \<Rightarrow> parsed_tpe_eirp" where
  "tpe_store_eirp d e =
     (let count = tpe_count d;
          power = mem_write (eirp_power e) 0 (mem_read d 1 (count + 1))
      in if count = 3 \<and> 1 + count + 1 < length d
         then \<lparr> eirp_valid = True, eirp_power = power[4 := d ! 5], eirp_count = 5 \<rparr>
         else \<lparr> eirp_valid = True, eirp_power = power, eirp_count = count + 1 \<rparr>)"

definition tpe_store_psd :: "u8 list \<Rightarrow> parsed_tpe_psd \<Rightarrow> parsed_tpe_psd" where
  "tpe_store_psd d p =
     (let count = tpe_count d
      in if count = 0
         then p\<lparr> psd_valid := True, psd_power := replicate TPE_PSD_ENTRIES_320MHZ (d ! 1), psd_count := TPE_PSD_ENTRIES_320MHZ \<rparr>
         else let n = 2 ^ (count - 1);
                  power = mem_write (psd_power p) 0 (mem_read d 1 n)
              in if 1 + n < length d
                 then (let k = min (unat (get_bits (d ! (1 + n)) TX_PWR_ENV_EXT_COUNT)) (TPE_PSD_ENTRIES_320MHZ - n)
                       in \<lparr> psd_valid = True, psd_power = mem_write power n (mem_read d (1 + n + 1) k), psd_count = n + k, psd_n = n \<rparr>)
                 else \<lparr> psd_valid = True, psd_power = power, psd_count = n, psd_n = n \<rparr>)"

definition ieee80211_parse_tpe :: "parsed_tpe \<Rightarrow> u8 list \<Rightarrow> parsed_tpe" where
  "ieee80211_parse_tpe tpe d =
     (if \<not> ieee80211_valid_tpe_element d then tpe
      else let interpret = tpe_interpret d; c = unat (tpe_category d)
           in if interpret = TPE_LOCAL_EIRP then tpe\<lparr> max_local := (max_local tpe)[c := tpe_store_eirp d (max_local tpe ! c)] \<rparr>
              else if interpret = TPE_REG_CLIENT_EIRP
              then tpe\<lparr> max_reg_client := (max_reg_client tpe)[c := tpe_store_eirp d (max_reg_client tpe ! c)] \<rparr>
              else if interpret = TPE_LOCAL_EIRP_PSD then tpe\<lparr> psd_local := (psd_local tpe)[c := tpe_store_psd d (psd_local tpe ! c)] \<rparr>
              else if interpret = TPE_REG_CLIENT_EIRP_PSD
              then tpe\<lparr> psd_reg_client := (psd_reg_client tpe)[c := tpe_store_psd d (psd_reg_client tpe ! c)] \<rparr>
              else tpe)"

subsection \<open>State\<close>

datatype elem_field = F_lnk_id | F_ch_sw_timing | F_ext_capab | F_ssid | F_supp_rates | F_ds_params | F_tim | F_rsn | F_rsnx
  | F_erp_info | F_ext_supp_rates | F_wmm_info | F_wmm_param | F_ht_cap_elem | F_ht_operation | F_vht_cap_elem | F_vht_operation
  | F_mesh_config | F_he_cap | F_he_operation | F_he_spr | F_mu_edca_param_set | F_he_6ghz_capa | F_uora_element | F_mesh_id
  | F_peering | F_awake_window | F_preq | F_prep | F_perr | F_rann | F_ch_switch_ie | F_ext_chansw_ie | F_wide_bw_chansw_ie
  | F_max_channel_switch_time | F_country_elem | F_pwr_constr_elem | F_timeout_int | F_opmode_notif | F_sec_chan_offs
  | F_mesh_chansw_params_ie | F_max_idle_period_ie | F_mbssid_config_ie | F_bssid_index | F_addba_ext_ie | F_s1g_capab | F_s1g_oper
  | F_s1g_bcn_compat | F_aid_resp | F_eht_cap | F_eht_operation | F_ml_basic | F_ml_reconf | F_ml_epcs | F_bandwidth_indication
  | F_uhr_capa | F_uhr_oper | F_prof

record ieee802_11_elems =
  ie_start :: "u8 list"
  elems_crc :: u32
  elem_ptr :: "elem_field \<Rightarrow> u8 list option"
  elem_len :: "elem_field \<Rightarrow> nat"
  dtim_count :: u8
  dtim_period :: u8
  ttlm :: "u8 list list"
  elems_tpe :: parsed_tpe
  csa_tpe :: parsed_tpe
  parse_error :: u8

abbreviation (input) TTLM_MAX_CNT :: nat where "TTLM_MAX_CNT \<equiv> 2"

record elems_parse = ieee802_11_elems +
  ml_basic_elem :: "element option"
  ml_reconf_elem :: "element option"
  ml_epcs_elem :: "element option"
  multi_link_inner :: bool
  skip_vendor :: bool
  scratch_len :: nat
  scratch_pos :: nat

record cfg80211_bss =
  bss_bssid :: "u8 list"
  transmitted_bss :: "u8 list option"

record elems_parse_params =
  p_mode :: conn_mode
  p_start :: "u8 list"
  p_type :: u8
  p_filter :: u64
  p_crc :: u32
  p_bss :: "cfg80211_bss option"
  p_link_id :: int
  p_from_ap :: bool

record cfg80211_ops =
  crc32_be :: "u32 \<Rightarrow> u8 list \<Rightarrow> u32"
  cfg80211_is_element_inherited :: "element \<Rightarrow> element \<Rightarrow> bool"
  cfg80211_find_elem :: "u8 \<Rightarrow> u8 list \<Rightarrow> element option"
  cfg80211_find_ext_elem :: "u8 \<Rightarrow> u8 list \<Rightarrow> element option"
  cfg80211_merge_profile :: "u8 list \<Rightarrow> element \<Rightarrow> element \<Rightarrow> u8 list"
  cfg80211_gen_new_bssid :: "u8 list \<Rightarrow> u8 \<Rightarrow> u8 \<Rightarrow> u8 list"
  cfg80211_defragment_element :: "element option \<Rightarrow> u8 list \<Rightarrow> nat \<Rightarrow> u8 \<Rightarrow> u8 list option"

abbreviation (input) PARSE_ERR_INVALID_END :: u8 where "PARSE_ERR_INVALID_END \<equiv> 0x01"
abbreviation (input) PARSE_ERR_DUP_ELEM :: u8 where "PARSE_ERR_DUP_ELEM \<equiv> 0x02"
abbreviation (input) PARSE_ERR_BAD_ELEM_SIZE :: u8 where "PARSE_ERR_BAD_ELEM_SIZE \<equiv> 0x04"
abbreviation (input) PARSE_ERR_UNEXPECTED_ELEM :: u8 where "PARSE_ERR_UNEXPECTED_ELEM \<equiv> 0x08"
abbreviation (input) PARSE_ERR_DUP_NEST_ML_BASIC :: u8 where "PARSE_ERR_DUP_NEST_ML_BASIC \<equiv> 0x10"

text \<open>\<^verbatim>\<open>elems->f = d\<close>, the same with \<^verbatim>\<open>elems->f_len = elen\<close>, and \<^verbatim>\<open>elems->parse_error |= err\<close>.\<close>

definition store :: "elem_field \<Rightarrow> u8 list \<Rightarrow> elems_parse \<Rightarrow> elems_parse" where
  "store f d s = s\<lparr> elem_ptr := (elem_ptr s)(f := Some d) \<rparr>"

definition store_len :: "elem_field \<Rightarrow> u8 list \<Rightarrow> elems_parse \<Rightarrow> elems_parse" where
  "store_len f d s = s\<lparr> elem_ptr := (elem_ptr s)(f := Some d), elem_len := (elem_len s)(f := length d) \<rparr>"

definition flag_error :: "u8 \<Rightarrow> elems_parse \<Rightarrow> elems_parse" where
  "flag_error err s = s\<lparr> parse_error := parse_error s OR err \<rparr>"

end
