(* ===== verification/Parse.thy ===== *)
theory Parse
  imports Parse_State
begin

text \<open>
  The element parser of \<^verbatim>\<open>mac80211/parse.c\<close>: the parsing of one element, the loop over the elements
  of a buffer, and around it the search for the profile of a non-transmitted BSS or of one link of a
  multi-link device.  A frame type the parser does not know only logs a warning and is not tested here.
\<close>

subsection \<open>Element identifiers and frame types\<close>

abbreviation (input) WLAN_EID_SSID :: u8 where "WLAN_EID_SSID \<equiv> 0"
abbreviation (input) WLAN_EID_SUPP_RATES :: u8 where "WLAN_EID_SUPP_RATES \<equiv> 1"
abbreviation (input) WLAN_EID_FH_PARAMS :: u8 where "WLAN_EID_FH_PARAMS \<equiv> 2"
abbreviation (input) WLAN_EID_DS_PARAMS :: u8 where "WLAN_EID_DS_PARAMS \<equiv> 3"
abbreviation (input) WLAN_EID_CF_PARAMS :: u8 where "WLAN_EID_CF_PARAMS \<equiv> 4"
abbreviation (input) WLAN_EID_TIM :: u8 where "WLAN_EID_TIM \<equiv> 5"
abbreviation (input) WLAN_EID_IBSS_PARAMS :: u8 where "WLAN_EID_IBSS_PARAMS \<equiv> 6"
abbreviation (input) WLAN_EID_COUNTRY :: u8 where "WLAN_EID_COUNTRY \<equiv> 7"
abbreviation (input) WLAN_EID_CHALLENGE :: u8 where "WLAN_EID_CHALLENGE \<equiv> 16"
abbreviation (input) WLAN_EID_PWR_CONSTRAINT :: u8 where "WLAN_EID_PWR_CONSTRAINT \<equiv> 32"
abbreviation (input) WLAN_EID_CHANNEL_SWITCH :: u8 where "WLAN_EID_CHANNEL_SWITCH \<equiv> 37"
abbreviation (input) WLAN_EID_ERP_INFO :: u8 where "WLAN_EID_ERP_INFO \<equiv> 42"
abbreviation (input) WLAN_EID_HT_CAPABILITY :: u8 where "WLAN_EID_HT_CAPABILITY \<equiv> 45"
abbreviation (input) WLAN_EID_RSN :: u8 where "WLAN_EID_RSN \<equiv> 48"
abbreviation (input) WLAN_EID_EXT_SUPP_RATES :: u8 where "WLAN_EID_EXT_SUPP_RATES \<equiv> 50"
abbreviation (input) WLAN_EID_TIMEOUT_INTERVAL :: u8 where "WLAN_EID_TIMEOUT_INTERVAL \<equiv> 56"
abbreviation (input) WLAN_EID_EXT_CHANSWITCH_ANN :: u8 where "WLAN_EID_EXT_CHANSWITCH_ANN \<equiv> 60"
abbreviation (input) WLAN_EID_HT_OPERATION :: u8 where "WLAN_EID_HT_OPERATION \<equiv> 61"
abbreviation (input) WLAN_EID_SECONDARY_CHANNEL_OFFSET :: u8 where "WLAN_EID_SECONDARY_CHANNEL_OFFSET \<equiv> 62"
abbreviation (input) WLAN_EID_MULTIPLE_BSSID :: u8 where "WLAN_EID_MULTIPLE_BSSID \<equiv> 71"
abbreviation (input) WLAN_EID_NON_TX_BSSID_CAP :: u8 where "WLAN_EID_NON_TX_BSSID_CAP \<equiv> 83"
abbreviation (input) WLAN_EID_MULTI_BSSID_IDX :: u8 where "WLAN_EID_MULTI_BSSID_IDX \<equiv> 85"
abbreviation (input) WLAN_EID_BSS_MAX_IDLE_PERIOD :: u8 where "WLAN_EID_BSS_MAX_IDLE_PERIOD \<equiv> 90"
abbreviation (input) WLAN_EID_LINK_ID :: u8 where "WLAN_EID_LINK_ID \<equiv> 101"
abbreviation (input) WLAN_EID_CHAN_SWITCH_TIMING :: u8 where "WLAN_EID_CHAN_SWITCH_TIMING \<equiv> 104"
abbreviation (input) WLAN_EID_MESH_CONFIG :: u8 where "WLAN_EID_MESH_CONFIG \<equiv> 113"
abbreviation (input) WLAN_EID_MESH_ID :: u8 where "WLAN_EID_MESH_ID \<equiv> 114"
abbreviation (input) WLAN_EID_PEER_MGMT :: u8 where "WLAN_EID_PEER_MGMT \<equiv> 117"
abbreviation (input) WLAN_EID_CHAN_SWITCH_PARAM :: u8 where "WLAN_EID_CHAN_SWITCH_PARAM \<equiv> 118"
abbreviation (input) WLAN_EID_MESH_AWAKE_WINDOW :: u8 where "WLAN_EID_MESH_AWAKE_WINDOW \<equiv> 119"
abbreviation (input) WLAN_EID_RANN :: u8 where "WLAN_EID_RANN \<equiv> 126"
abbreviation (input) WLAN_EID_EXT_CAPABILITY :: u8 where "WLAN_EID_EXT_CAPABILITY \<equiv> 127"
abbreviation (input) WLAN_EID_PREQ :: u8 where "WLAN_EID_PREQ \<equiv> 130"
abbreviation (input) WLAN_EID_PREP :: u8 where "WLAN_EID_PREP \<equiv> 131"
abbreviation (input) WLAN_EID_PERR :: u8 where "WLAN_EID_PERR \<equiv> 132"
abbreviation (input) WLAN_EID_ADDBA_EXT_IE :: u8 where "WLAN_EID_ADDBA_EXT_IE \<equiv> 159"
abbreviation (input) WLAN_EID_VHT_CAPABILITY :: u8 where "WLAN_EID_VHT_CAPABILITY \<equiv> 191"
abbreviation (input) WLAN_EID_VHT_OPERATION :: u8 where "WLAN_EID_VHT_OPERATION \<equiv> 192"
abbreviation (input) WLAN_EID_WIDE_BW_CHANNEL_SWITCH :: u8 where "WLAN_EID_WIDE_BW_CHANNEL_SWITCH \<equiv> 194"
abbreviation (input) WLAN_EID_TX_POWER_ENVELOPE :: u8 where "WLAN_EID_TX_POWER_ENVELOPE \<equiv> 195"
abbreviation (input) WLAN_EID_CHANNEL_SWITCH_WRAPPER :: u8 where "WLAN_EID_CHANNEL_SWITCH_WRAPPER \<equiv> 196"
abbreviation (input) WLAN_EID_OPMODE_NOTIF :: u8 where "WLAN_EID_OPMODE_NOTIF \<equiv> 199"
abbreviation (input) WLAN_EID_AID_RESPONSE :: u8 where "WLAN_EID_AID_RESPONSE \<equiv> 211"
abbreviation (input) WLAN_EID_S1G_BCN_COMPAT :: u8 where "WLAN_EID_S1G_BCN_COMPAT \<equiv> 213"
abbreviation (input) WLAN_EID_S1G_SHORT_BCN_INTERVAL :: u8 where "WLAN_EID_S1G_SHORT_BCN_INTERVAL \<equiv> 214"
abbreviation (input) WLAN_EID_S1G_CAPABILITIES :: u8 where "WLAN_EID_S1G_CAPABILITIES \<equiv> 217"
abbreviation (input) WLAN_EID_VENDOR_SPECIFIC :: u8 where "WLAN_EID_VENDOR_SPECIFIC \<equiv> 221"
abbreviation (input) WLAN_EID_S1G_OPERATION :: u8 where "WLAN_EID_S1G_OPERATION \<equiv> 232"
abbreviation (input) WLAN_EID_FRAGMENT :: u8 where "WLAN_EID_FRAGMENT \<equiv> 242"
abbreviation (input) WLAN_EID_RSNX :: u8 where "WLAN_EID_RSNX \<equiv> 244"

abbreviation (input) WLAN_EID_EXT_HE_CAPABILITY :: u8 where "WLAN_EID_EXT_HE_CAPABILITY \<equiv> 35"
abbreviation (input) WLAN_EID_EXT_HE_OPERATION :: u8 where "WLAN_EID_EXT_HE_OPERATION \<equiv> 36"
abbreviation (input) WLAN_EID_EXT_UORA :: u8 where "WLAN_EID_EXT_UORA \<equiv> 37"
abbreviation (input) WLAN_EID_EXT_HE_MU_EDCA :: u8 where "WLAN_EID_EXT_HE_MU_EDCA \<equiv> 38"
abbreviation (input) WLAN_EID_EXT_HE_SPR :: u8 where "WLAN_EID_EXT_HE_SPR \<equiv> 39"
abbreviation (input) WLAN_EID_EXT_MAX_CHANNEL_SWITCH_TIME :: u8 where "WLAN_EID_EXT_MAX_CHANNEL_SWITCH_TIME \<equiv> 52"
abbreviation (input) WLAN_EID_EXT_MULTIPLE_BSSID_CONFIGURATION :: u8 where "WLAN_EID_EXT_MULTIPLE_BSSID_CONFIGURATION \<equiv> 55"
abbreviation (input) WLAN_EID_EXT_NON_INHERITANCE :: u8 where "WLAN_EID_EXT_NON_INHERITANCE \<equiv> 56"
abbreviation (input) WLAN_EID_EXT_HE_6GHZ_CAPA :: u8 where "WLAN_EID_EXT_HE_6GHZ_CAPA \<equiv> 59"
abbreviation (input) WLAN_EID_EXT_EHT_OPERATION :: u8 where "WLAN_EID_EXT_EHT_OPERATION \<equiv> 106"
abbreviation (input) WLAN_EID_EXT_EHT_MULTI_LINK :: u8 where "WLAN_EID_EXT_EHT_MULTI_LINK \<equiv> 107"
abbreviation (input) WLAN_EID_EXT_EHT_CAPABILITY :: u8 where "WLAN_EID_EXT_EHT_CAPABILITY \<equiv> 108"
abbreviation (input) WLAN_EID_EXT_TID_TO_LINK_MAPPING :: u8 where "WLAN_EID_EXT_TID_TO_LINK_MAPPING \<equiv> 109"
abbreviation (input) WLAN_EID_EXT_BANDWIDTH_INDICATION :: u8 where "WLAN_EID_EXT_BANDWIDTH_INDICATION \<equiv> 135"
abbreviation (input) WLAN_EID_EXT_UHR_OPER :: u8 where "WLAN_EID_EXT_UHR_OPER \<equiv> 151"
abbreviation (input) WLAN_EID_EXT_UHR_CAPA :: u8 where "WLAN_EID_EXT_UHR_CAPA \<equiv> 152"

text \<open>\<^verbatim>\<open>IEEE80211_FTYPE_MGMT | IEEE80211_STYPE_*\<close>, in the \<^verbatim>\<open>u8\<close> the parameters hold.\<close>

abbreviation (input) FRAME_BEACON :: u8 where "FRAME_BEACON \<equiv> 0x80"
abbreviation (input) FRAME_ACTION :: u8 where "FRAME_ACTION \<equiv> 0xd0"

subsection \<open>Extension elements\<close>

text \<open>
  \<open>calc\<close> is whether the caller passes a pointer to its checksum.  The switch yields the new state and
  \<^verbatim>\<open>calc_crc\<close>.
\<close>

definition parse_extension_switch :: "elems_parse_params \<Rightarrow> element \<Rightarrow> elems_parse \<Rightarrow> elems_parse \<times> bool" where
  "parse_extension_switch params e s =
     (let d = drop 1 (elem_data e); ext = elem_data e ! 0; mode = p_mode params
      in if ext = WLAN_EID_EXT_HE_MU_EDCA
         then (if mode < CONN_MODE_HE then (s, False)
               else (if 13 \<le> length d then store F_mu_edca_param_set d s else s, True))
         else if ext = WLAN_EID_EXT_HE_CAPABILITY
         then (if mode < CONN_MODE_HE then (s, False)
               else (if ieee80211_he_capa_size_ok d then store_len F_he_cap d s else s, False))
         else if ext = WLAN_EID_EXT_HE_OPERATION
         then (if mode < CONN_MODE_HE then (s, False)
               else (if HE_OPERATION_SIZE \<le> length d \<and> ieee80211_he_oper_size d - 1 \<le> length d
                     then store F_he_operation d s else s, True))
         else if ext = WLAN_EID_EXT_UORA
         then (if mode < CONN_MODE_HE then (s, False)
               else (if 1 \<le> length d then store F_uora_element d s else s, False))
         else if ext = WLAN_EID_EXT_MAX_CHANNEL_SWITCH_TIME
         then (if length d = 3 then store F_max_channel_switch_time d s else s, False)
         else if ext = WLAN_EID_EXT_MULTIPLE_BSSID_CONFIGURATION
         then (if 2 \<le> length d then store F_mbssid_config_ie d s else s, False)
         else if ext = WLAN_EID_EXT_HE_SPR
         then (if mode < CONN_MODE_HE then (s, False)
               else (if HE_SPR_SIZE \<le> length d \<and> ieee80211_he_spr_size d - 1 \<le> length d
                     then store F_he_spr d s else s, False))
         else if ext = WLAN_EID_EXT_HE_6GHZ_CAPA
         then (if mode < CONN_MODE_HE then (s, False)
               else (if 2 \<le> length d then store F_he_6ghz_capa d s else s, False))
         else if ext = WLAN_EID_EXT_EHT_CAPABILITY
         then (if mode < CONN_MODE_EHT then (s, False)
               else (if ieee80211_eht_capa_size_ok (elem_ptr s F_he_cap) d (p_from_ap params)
                     then store_len F_eht_cap d s else s, False))
         else if ext = WLAN_EID_EXT_EHT_OPERATION
         then (if mode < CONN_MODE_EHT then (s, False)
               else (if ieee80211_eht_oper_size_ok d then store F_eht_operation d s else s, True))
         else if ext = WLAN_EID_EXT_EHT_MULTI_LINK
         then (if mode < CONN_MODE_EHT then (s, False)
               else (if ieee80211_mle_size_ok d
                     then (if mle_type d = ML_CONTROL_TYPE_BASIC
                           then (if multi_link_inner s then flag_error PARSE_ERR_DUP_NEST_ML_BASIC s else s)
                           else if mle_type d = ML_CONTROL_TYPE_RECONF then s\<lparr> ml_reconf_elem := Some e \<rparr>
                           else if mle_type d = ML_CONTROL_TYPE_PRIO_ACCESS then s\<lparr> ml_epcs_elem := Some e \<rparr>
                           else s)
                     else s, True))
         else if ext = WLAN_EID_EXT_BANDWIDTH_INDICATION
         then (if mode < CONN_MODE_EHT then (s, False)
               else (if ieee80211_bandwidth_indication_size_ok d then store F_bandwidth_indication d s else s, True))
         else if ext = WLAN_EID_EXT_TID_TO_LINK_MAPPING
         then (if mode < CONN_MODE_EHT then (s, False)
               else (if ieee80211_tid_to_link_map_size_ok d \<and> length (ttlm s) < TTLM_MAX_CNT
                     then s\<lparr> ttlm := ttlm s @ [d] \<rparr> else s, True))
         else if ext = WLAN_EID_EXT_UHR_OPER
         then (if mode < CONN_MODE_UHR then (s, False)
               else (if ieee80211_uhr_oper_size_ok d (p_type params = FRAME_BEACON) then store_len F_uhr_oper d s else s, True))
         else if ext = WLAN_EID_EXT_UHR_CAPA
         then (if mode < CONN_MODE_UHR then (s, False)
               else (if ieee80211_uhr_capa_size_ok d then store_len F_uhr_capa d s else s, True))
         else (s, False))"

definition ieee80211_parse_extension_element :: "cfg80211_ops \<Rightarrow> bool \<Rightarrow> elems_parse_params \<Rightarrow> element \<Rightarrow>
    elems_parse \<times> u32 \<Rightarrow> elems_parse \<times> u32" where
  "ieee80211_parse_extension_element ops calc params e = (\<lambda>(s, crc).
     if elem_data e = [] then (s, crc)
     else let (s', calc_crc) = parse_extension_switch params e s
          in (s', if calc \<and> calc_crc then crc32_be ops crc (elem_bytes e) else crc))"

subsection \<open>One element\<close>

text \<open>
  The second switch of the loop.  It yields the new state, checksum and \<^verbatim>\<open>elem_parse_failed\<close>.  Below,
  \<open>ok\<close> and \<open>okl\<close> store \<^verbatim>\<open>pos\<close>, the latter with the length, \<open>skip\<close> is a \<^verbatim>\<open>break\<close> without a change, and
  \<open>bad\<close> one with \<^verbatim>\<open>IEEE80211_PARSE_ERR_BAD_ELEM_SIZE\<close>.
\<close>

definition parse_channel_switch_wrapper :: "cfg80211_ops \<Rightarrow> elems_parse_params \<Rightarrow> u8 list \<Rightarrow> elems_parse \<Rightarrow> elems_parse \<times> u8" where
  "parse_channel_switch_wrapper ops params d s =
     (let (s, failed) =
            (case cfg80211_find_elem ops WLAN_EID_WIDE_BW_CHANNEL_SWITCH d of
               None \<Rightarrow> (s, 0)
             | Some sub \<Rightarrow> if 3 \<le> length (elem_data sub) then (store F_wide_bw_chansw_ie (elem_data sub) s, 0)
                           else (s, PARSE_ERR_BAD_ELEM_SIZE))
      in if p_mode params < CONN_MODE_EHT then (s, failed)
         else let (s, failed) =
                    (case cfg80211_find_ext_elem ops WLAN_EID_EXT_BANDWIDTH_INDICATION d of
                       None \<Rightarrow> (s, failed)
                     | Some sub \<Rightarrow> if ieee80211_bandwidth_indication_size_ok (drop 1 (elem_data sub))
                                   then (store F_bandwidth_indication (drop 1 (elem_data sub)) s, failed)
                                   else (s, PARSE_ERR_BAD_ELEM_SIZE))
              in (case cfg80211_find_ext_elem ops WLAN_EID_TX_POWER_ENVELOPE d of
                    None \<Rightarrow> (s, failed)
                  | Some sub \<Rightarrow> (s\<lparr> csa_tpe := ieee80211_parse_tpe (csa_tpe s) (drop 1 (elem_data sub)) \<rparr>, failed)))"

definition parse_elem_switch :: "cfg80211_ops \<Rightarrow> elems_parse_params \<Rightarrow> element \<Rightarrow> elems_parse \<Rightarrow> u32 \<Rightarrow> elems_parse \<times> u32 \<times> u8" where
  "parse_elem_switch ops params e s crc =
     (let d = elem_data e; elen = length d; eid = elem_id e; mode = p_mode params; calc_crc = (p_filter params \<noteq> 0);
          crc' = (if calc_crc then crc32_be ops crc (elem_bytes e) else crc);
          skip = (s, crc, 0); bad = (s, crc, PARSE_ERR_BAD_ELEM_SIZE);
          ok = (\<lambda>f. (store f d s, crc, 0)); okl = (\<lambda>f. (store_len f d s, crc, 0))
      in if eid = WLAN_EID_LINK_ID
         then (if elen + 2 < 20 then bad else (store F_lnk_id (elem_bytes e) s, crc, 0))
         else if eid = WLAN_EID_CHAN_SWITCH_TIMING then (if elen < 4 then bad else ok F_ch_sw_timing)
         else if eid = WLAN_EID_EXT_CAPABILITY then okl F_ext_capab
         else if eid = WLAN_EID_SSID then okl F_ssid
         else if eid = WLAN_EID_SUPP_RATES then okl F_supp_rates
         else if eid = WLAN_EID_DS_PARAMS then (if 1 \<le> elen then ok F_ds_params else bad)
         else if eid = WLAN_EID_TIM then (if 4 \<le> elen then okl F_tim else bad)
         else if eid = WLAN_EID_VENDOR_SPECIFIC
         then (if skip_vendor s then skip
               else if 4 \<le> elen \<and> d ! 0 = 0x00 \<and> d ! 1 = 0x50 \<and> d ! 2 = 0xf2
               then (if 5 \<le> elen \<and> d ! 3 = 2
                     then (if d ! 4 = 0 then (store_len F_wmm_info d s, crc', 0)
                           else if d ! 4 = 1 then (store_len F_wmm_param d s, crc', 0)
                           else (s, crc', 0))
                     else (s, crc', 0))
               else skip)
         else if eid = WLAN_EID_RSN then okl F_rsn
         else if eid = WLAN_EID_ERP_INFO then (if 1 \<le> elen then ok F_erp_info else bad)
         else if eid = WLAN_EID_EXT_SUPP_RATES then okl F_ext_supp_rates
         else if eid = WLAN_EID_HT_CAPABILITY
         then (if mode < CONN_MODE_HT then skip else if 26 \<le> elen then ok F_ht_cap_elem else bad)
         else if eid = WLAN_EID_HT_OPERATION
         then (if mode < CONN_MODE_HT then skip else if 22 \<le> elen then ok F_ht_operation else bad)
         else if eid = WLAN_EID_VHT_CAPABILITY
         then (if mode < CONN_MODE_VHT then skip else if 12 \<le> elen then ok F_vht_cap_elem else bad)
         else if eid = WLAN_EID_VHT_OPERATION
         then (if mode < CONN_MODE_VHT then skip
               else if 5 \<le> elen then (store F_vht_operation d s, crc', 0) else bad)
         else if eid = WLAN_EID_OPMODE_NOTIF
         then (if mode < CONN_MODE_VHT then skip
               else if 0 < elen then (store F_opmode_notif d s, crc', 0) else bad)
         else if eid = WLAN_EID_MESH_ID then okl F_mesh_id
         else if eid = WLAN_EID_MESH_CONFIG then (if 7 \<le> elen then ok F_mesh_config else bad)
         else if eid = WLAN_EID_PEER_MGMT then okl F_peering
         else if eid = WLAN_EID_MESH_AWAKE_WINDOW then (if 2 \<le> elen then ok F_awake_window else skip)
         else if eid = WLAN_EID_PREQ then okl F_preq
         else if eid = WLAN_EID_PREP then okl F_prep
         else if eid = WLAN_EID_PERR then okl F_perr
         else if eid = WLAN_EID_RANN then (if 21 \<le> elen then ok F_rann else bad)
         else if eid = WLAN_EID_CHANNEL_SWITCH then (if elen \<noteq> 3 then bad else ok F_ch_switch_ie)
         else if eid = WLAN_EID_EXT_CHANSWITCH_ANN then (if elen \<noteq> 4 then bad else ok F_ext_chansw_ie)
         else if eid = WLAN_EID_SECONDARY_CHANNEL_OFFSET
         then (if mode < CONN_MODE_HT then skip else if elen \<noteq> 1 then bad else ok F_sec_chan_offs)
         else if eid = WLAN_EID_CHAN_SWITCH_PARAM then (if elen < 6 then bad else ok F_mesh_chansw_params_ie)
         else if eid = WLAN_EID_WIDE_BW_CHANNEL_SWITCH
         then (if mode < CONN_MODE_VHT then skip
               else if p_type params \<noteq> FRAME_ACTION then (s, crc, PARSE_ERR_UNEXPECTED_ELEM)
               else if elen < 3 then bad else ok F_wide_bw_chansw_ie)
         else if eid = WLAN_EID_CHANNEL_SWITCH_WRAPPER
         then (if mode < CONN_MODE_VHT then skip
               else if p_type params = FRAME_ACTION then (s, crc, PARSE_ERR_UNEXPECTED_ELEM)
               else let (s', failed) = parse_channel_switch_wrapper ops params d s in (s', crc, failed))
         else if eid = WLAN_EID_COUNTRY then okl F_country_elem
         else if eid = WLAN_EID_PWR_CONSTRAINT then (if elen \<noteq> 1 then bad else ok F_pwr_constr_elem)
         else if eid = WLAN_EID_ADDBA_EXT_IE then (if elen < 1 then bad else ok F_addba_ext_ie)
         else if eid = WLAN_EID_TIMEOUT_INTERVAL then (if 5 \<le> elen then ok F_timeout_int else bad)
         else if eid = WLAN_EID_BSS_MAX_IDLE_PERIOD then (if 3 \<le> elen then ok F_max_idle_period_ie else skip)
         else if eid = WLAN_EID_RSNX then okl F_rsnx
         else if eid = WLAN_EID_TX_POWER_ENVELOPE
         then (if mode < CONN_MODE_HE then skip
               else (s\<lparr> elems_tpe := ieee80211_parse_tpe (elems_tpe s) d \<rparr>, crc, 0))
         else if eid = WLAN_EID_EXTENSION
         then (let (s', c) = ieee80211_parse_extension_element ops calc_crc params e (s, crc) in (s', c, 0))
         else if eid = WLAN_EID_S1G_CAPABILITIES
         then (if mode \<noteq> CONN_MODE_S1G then skip else if 15 \<le> elen then ok F_s1g_capab else bad)
         else if eid = WLAN_EID_S1G_OPERATION
         then (if mode \<noteq> CONN_MODE_S1G then skip else if elen = 6 then ok F_s1g_oper else bad)
         else if eid = WLAN_EID_S1G_BCN_COMPAT
         then (if mode \<noteq> CONN_MODE_S1G then skip else if elen = 8 then ok F_s1g_bcn_compat else bad)
         else if eid = WLAN_EID_AID_RESPONSE
         then (if mode \<noteq> CONN_MODE_S1G then skip else if elen = 5 then ok F_aid_resp else bad)
         else skip)"

text \<open>The identifiers of the first switch: an element with one of them is parsed once.\<close>

definition single_elem_ids :: "u8 list" where
  "single_elem_ids =
     [WLAN_EID_SSID, WLAN_EID_SUPP_RATES, WLAN_EID_FH_PARAMS, WLAN_EID_DS_PARAMS, WLAN_EID_CF_PARAMS, WLAN_EID_TIM,
      WLAN_EID_IBSS_PARAMS, WLAN_EID_CHALLENGE, WLAN_EID_RSN, WLAN_EID_ERP_INFO, WLAN_EID_EXT_SUPP_RATES,
      WLAN_EID_HT_CAPABILITY, WLAN_EID_HT_OPERATION, WLAN_EID_VHT_CAPABILITY, WLAN_EID_VHT_OPERATION, WLAN_EID_MESH_ID,
      WLAN_EID_MESH_CONFIG, WLAN_EID_PEER_MGMT, WLAN_EID_PREQ, WLAN_EID_PREP, WLAN_EID_PERR, WLAN_EID_RANN,
      WLAN_EID_CHANNEL_SWITCH, WLAN_EID_EXT_CHANSWITCH_ANN, WLAN_EID_COUNTRY, WLAN_EID_PWR_CONSTRAINT,
      WLAN_EID_TIMEOUT_INTERVAL, WLAN_EID_SECONDARY_CHANNEL_OFFSET, WLAN_EID_WIDE_BW_CHANNEL_SWITCH,
      WLAN_EID_CHAN_SWITCH_PARAM, WLAN_EID_EXT_CAPABILITY, WLAN_EID_CHAN_SWITCH_TIMING, WLAN_EID_LINK_ID,
      WLAN_EID_BSS_MAX_IDLE_PERIOD, WLAN_EID_RSNX, WLAN_EID_S1G_BCN_COMPAT, WLAN_EID_S1G_CAPABILITIES,
      WLAN_EID_S1G_OPERATION, WLAN_EID_AID_RESPONSE, WLAN_EID_S1G_SHORT_BCN_INTERVAL]"

text \<open>One round of the loop, on the state, \<^verbatim>\<open>seen_elems\<close> and the checksum.\<close>

definition not_inherited :: "cfg80211_ops \<Rightarrow> element option \<Rightarrow> element \<Rightarrow> bool" where
  "not_inherited ops check_inherit e \<longleftrightarrow>
     (case check_inherit of None \<Rightarrow> False | Some ni \<Rightarrow> \<not> cfg80211_is_element_inherited ops e ni)"

definition parse_elem :: "cfg80211_ops \<Rightarrow> elems_parse_params \<Rightarrow> element option \<Rightarrow> element \<Rightarrow>
    elems_parse \<times> u8 set \<times> u32 \<Rightarrow> elems_parse \<times> u8 set \<times> u32" where
  "parse_elem ops params check_inherit e = (\<lambda>(s, seen, crc).
     if not_inherited ops check_inherit e then (s, seen, crc)
     else if elem_id e \<in> set single_elem_ids \<and> elem_id e \<in> seen then (flag_error PARSE_ERR_DUP_ELEM s, seen, crc)
     else let crc = (if p_filter params \<noteq> 0 \<and> elem_id e < 64 \<and> bit (p_filter params) (unat (elem_id e))
                     then crc32_be ops crc (elem_bytes e) else crc);
              (s, crc, failed) = parse_elem_switch ops params e s crc
          in if failed \<noteq> 0 then (flag_error failed s, seen, crc) else (s, insert (elem_id e) seen, crc))"

definition parse_loop :: "cfg80211_ops \<Rightarrow> elems_parse_params \<Rightarrow> element option \<Rightarrow> element list \<Rightarrow>
    elems_parse \<times> u8 set \<times> u32 \<Rightarrow> elems_parse \<times> u8 set \<times> u32" where
  "parse_loop ops params check_inherit es = fold (parse_elem ops params check_inherit) es"

definition parse_elems_pass :: "cfg80211_ops \<Rightarrow> elems_parse_params \<Rightarrow> element option \<Rightarrow> elems_parse \<Rightarrow> elems_parse \<times> u32" where
  "parse_elems_pass ops params check_inherit s =
     (let (s, seen, crc) = parse_loop ops params check_inherit (elements (p_start params)) (s, {}, p_crc params)
      in (if for_each_element_completed (p_start params) then s else flag_error PARSE_ERR_INVALID_END s, crc))"

subsection \<open>Profiles of other BSSs and links\<close>

text \<open>The loops that return from within: the first result of a list.\<close>

fun first_some :: "('a \<Rightarrow> 'b option) \<Rightarrow> 'a list \<Rightarrow> 'b option" where
  "first_some f [] = None"
| "first_some f (x # xs) = (case f x of None \<Rightarrow> first_some f xs | Some y \<Rightarrow> Some y)"

definition bssid_profile_sub :: "cfg80211_ops \<Rightarrow> u8 list \<Rightarrow> u8 list \<Rightarrow> u8 list \<Rightarrow> element \<Rightarrow> element \<Rightarrow> (u8 list \<times> u8 list) option" where
  "bssid_profile_sub ops start tx_bssid bssid elem sub =
     (let d = elem_data sub
      in if elem_id sub \<noteq> 0 \<or> length d < 4 then None
         else if d ! 0 \<noteq> WLAN_EID_NON_TX_BSSID_CAP \<or> d ! 1 \<noteq> 2 then None
         else let nontransmitted_profile = cfg80211_merge_profile ops start elem sub
              in (case cfg80211_find_elem ops WLAN_EID_MULTI_BSSID_IDX nontransmitted_profile of
                    None \<Rightarrow> None
                  | Some index \<Rightarrow>
                      if length (elem_data index) < 1 \<or> elem_data index ! 0 = 0 then None
                      else if cfg80211_gen_new_bssid ops tx_bssid (elem_data elem ! 0) (elem_data index ! 0) = bssid
                      then Some (nontransmitted_profile, elem_data index)
                      else None))"

definition ieee802_11_find_bssid_profile :: "cfg80211_ops \<Rightarrow> u8 list \<Rightarrow> cfg80211_bss \<Rightarrow> elems_parse \<Rightarrow> elems_parse \<times> u8 list" where
  "ieee802_11_find_bssid_profile ops start bss s =
     (case transmitted_bss bss of
        None \<Rightarrow> (s, [])
      | Some tx_bssid \<Rightarrow>
          (case first_some (\<lambda>elem.
                  if length (elem_data elem) < 2 then None
                  else if elem_data elem ! 0 < 1 \<or> 8 < elem_data elem ! 0 then None
                  else first_some (bssid_profile_sub ops start tx_bssid (bss_bssid bss) elem) (elements (drop 1 (elem_data elem))))
                (for_each_element_id WLAN_EID_MULTIPLE_BSSID start) of
             None \<Rightarrow> (s, [])
           | Some (nontransmitted_profile, index) \<Rightarrow> (store_len F_bssid_index index s, nontransmitted_profile)))"

text \<open>
  \<^verbatim>\<open>cfg80211_defragment_element\<close> into the scratch buffer: \<open>elems_parse->scratch_pos\<close> moves behind what
  was written there.
\<close>

definition scratch_left :: "elems_parse \<Rightarrow> nat" where
  "scratch_left s = scratch_len s - scratch_pos s"

definition store_scratch :: "elem_field \<Rightarrow> u8 list \<Rightarrow> elems_parse \<Rightarrow> elems_parse" where
  "store_scratch f r s = (store_len f r s)\<lparr> scratch_pos := scratch_pos s + length r \<rparr>"

definition for_each_mle_subelement :: "u8 list \<Rightarrow> element list" where
  "for_each_mle_subelement d =
     (if ieee80211_mle_size_ok d then elements (drop (unat (ieee80211_mle_common_size d)) d) else [])"

abbreviation (input) MLE_SUBELEM_PER_STA_PROFILE :: u8 where "MLE_SUBELEM_PER_STA_PROFILE \<equiv> 0"
abbreviation (input) MLE_SUBELEM_FRAGMENT :: u8 where "MLE_SUBELEM_FRAGMENT \<equiv> 254"

fun sta_prof_loop :: "cfg80211_ops \<Rightarrow> u8 \<Rightarrow> u8 list \<Rightarrow> element list \<Rightarrow> elems_parse \<Rightarrow> elems_parse" where
  "sta_prof_loop ops link_id ml [] s = s"
| "sta_prof_loop ops link_id ml (sub # subs) s =
     (if elem_id sub \<noteq> MLE_SUBELEM_PER_STA_PROFILE then sta_prof_loop ops link_id ml subs s
      else if \<not> ieee80211_mle_basic_sta_prof_size_ok (elem_data sub) then s
      else let control = sta_prof_control (elem_data sub)
           in if uint link_id \<noteq> uint (get_bits control MLE_STA_CONTROL_LINK_ID) then sta_prof_loop ops link_id ml subs s
              else if \<not> has_flag control MLE_STA_CONTROL_COMPLETE_PROFILE then s
              else (case cfg80211_defragment_element ops (Some sub) ml (scratch_left s) MLE_SUBELEM_FRAGMENT of
                      None \<Rightarrow> s
                    | Some r \<Rightarrow> store_scratch F_prof r s))"

definition ieee80211_mle_get_sta_prof :: "cfg80211_ops \<Rightarrow> u8 \<Rightarrow> elems_parse \<Rightarrow> elems_parse" where
  "ieee80211_mle_get_sta_prof ops link_id s =
     (case elem_ptr s F_ml_basic of
        None \<Rightarrow> s
      | Some ml \<Rightarrow> sta_prof_loop ops link_id ml (for_each_mle_subelement ml) s)"

text \<open>The parameters \<^verbatim>\<open>sub = {}\<close>.\<close>

definition zero_params :: elems_parse_params where
  "zero_params = \<lparr> p_mode = CONN_MODE_S1G, p_start = [], p_type = 0, p_filter = 0, p_crc = 0, p_bss = None, p_link_id = 0,
     p_from_ap = False \<rparr>"

definition find_ml_basic :: "u8 list \<Rightarrow> element option" where
  "find_ml_basic b =
     find (\<lambda>e. ieee80211_mle_size_ok (drop 1 (elem_data e)) \<and> mle_type (drop 1 (elem_data e)) = ML_CONTROL_TYPE_BASIC)
       (for_each_element_extid WLAN_EID_EXT_EHT_MULTI_LINK b)"

definition ieee80211_prep_mle_link_parse :: "cfg80211_ops \<Rightarrow> elems_parse_params \<Rightarrow> elems_parse \<Rightarrow>
    elems_parse \<times> elems_parse_params \<times> element option" where
  "ieee80211_prep_mle_link_parse ops params s =
     (if p_mode params < CONN_MODE_EHT then (s, zero_params, None)
      else let s = (case find_ml_basic (ie_start s) of None \<Rightarrow> s | Some e \<Rightarrow> s\<lparr> ml_basic_elem := Some e \<rparr>)
           in (case cfg80211_defragment_element ops (ml_basic_elem s) (ie_start s) (scratch_left s) WLAN_EID_FRAGMENT of
                 None \<Rightarrow> (s, zero_params, None)
               | Some r \<Rightarrow>
                   let s = store_scratch F_ml_basic r s
                   in if p_link_id params = - 1 then (s, zero_params, None)
                      else let s = ieee80211_mle_get_sta_prof ops (word_of_int (p_link_id params)) s
                           in (case elem_ptr s F_prof of
                                 None \<Rightarrow> (s, zero_params, None)
                               | Some prof \<Rightarrow>
                                   let skip = 3 + unat (prof ! 2) - 1 + 4
                                   in if elem_len s F_prof < skip
                                      then (s\<lparr> elem_ptr := (elem_ptr s)(F_prof := None), elem_len := (elem_len s)(F_prof := 0) \<rparr>,
                                            zero_params, None)
                                      else let sub = zero_params\<lparr> p_start := drop skip prof, p_mode := p_mode params,
                                                       p_type := p_type params, p_from_ap := p_from_ap params, p_link_id := - 1 \<rparr>
                                           in (s, sub, cfg80211_find_ext_elem ops WLAN_EID_EXT_NON_INHERITANCE (p_start sub)))))"

definition ieee80211_mle_defrag_reconf :: "cfg80211_ops \<Rightarrow> elems_parse \<Rightarrow> elems_parse" where
  "ieee80211_mle_defrag_reconf ops s =
     (case cfg80211_defragment_element ops (ml_reconf_elem s) (ie_start s) (scratch_left s) WLAN_EID_FRAGMENT of
        None \<Rightarrow> s
      | Some r \<Rightarrow> store_scratch F_ml_reconf r s)"

definition ieee80211_mle_defrag_epcs :: "cfg80211_ops \<Rightarrow> elems_parse \<Rightarrow> elems_parse" where
  "ieee80211_mle_defrag_epcs ops s =
     (case cfg80211_defragment_element ops (ml_epcs_elem s) (ie_start s) (scratch_left s) WLAN_EID_FRAGMENT of
        None \<Rightarrow> s
      | Some r \<Rightarrow> store_scratch F_ml_epcs r s)"

subsection \<open>The whole parser\<close>

text \<open>The structure after \<^verbatim>\<open>kzalloc\<close> and the assignments that follow it.\<close>

definition parse_init :: "elems_parse_params \<Rightarrow> elems_parse" where
  "parse_init params = \<lparr> ie_start = p_start params, elems_crc = 0, elem_ptr = (\<lambda>_. None), elem_len = (\<lambda>_. 0), dtim_count = 0,
     dtim_period = 0, ttlm = [], elems_tpe = ieee80211_clear_tpe zero_tpe, csa_tpe = ieee80211_clear_tpe zero_tpe,
     parse_error = 0, ml_basic_elem = None, ml_reconf_elem = None, ml_epcs_elem = None, multi_link_inner = False,
     skip_vendor = False, scratch_len = 3 * length (p_start params), scratch_pos = 0 \<rparr>"

text \<open>Which profile to parse: the new state, its parameters, the non-inheritance element, and \<^verbatim>\<open>multi_link_inner\<close>.\<close>

definition parse_profile :: "cfg80211_ops \<Rightarrow> elems_parse_params \<Rightarrow> elems_parse \<Rightarrow>
    elems_parse \<times> elems_parse_params \<times> element option \<times> bool" where
  "parse_profile ops params s =
     (case p_bss params of
        Some bss \<Rightarrow>
          let (s, nontx) = ieee802_11_find_bssid_profile ops (p_start params) bss s;
              sub = zero_params\<lparr> p_start := nontx, p_mode := p_mode params, p_type := p_type params, p_link_id := p_link_id params \<rparr>
          in (s\<lparr> scratch_pos := scratch_pos s + length nontx \<rparr>, sub,
              cfg80211_find_ext_elem ops WLAN_EID_EXT_NON_INHERITANCE nontx, False)
      | None \<Rightarrow>
          let (s, sub, non_inherit) = ieee80211_prep_mle_link_parse ops params s
          in (s, sub, non_inherit, True))"

definition dtim_from_tim :: "elems_parse \<Rightarrow> elems_parse" where
  "dtim_from_tim s =
     (case elem_ptr s F_tim of
        None \<Rightarrow> s
      | Some tim \<Rightarrow> if parse_error s = 0 then s\<lparr> dtim_period := tim ! 1, dtim_count := tim ! 0 \<rparr> else s)"

definition dtim_from_bssid_index :: "elems_parse \<Rightarrow> elems_parse" where
  "dtim_from_bssid_index s =
     (case elem_ptr s F_bssid_index of
        None \<Rightarrow> s
      | Some index \<Rightarrow>
          let s = (if 2 \<le> elem_len s F_bssid_index then s\<lparr> dtim_period := index ! 1 \<rparr> else s)
          in if 3 \<le> elem_len s F_bssid_index then s\<lparr> dtim_count := index ! 2 \<rparr> else s)"

definition parse_passes :: "cfg80211_ops \<Rightarrow> elems_parse_params \<Rightarrow> elems_parse \<times> elems_parse_params \<times> element option \<times> bool \<Rightarrow> elems_parse" where
  "parse_passes ops params = (\<lambda>(s, sub, non_inherit, inner).
     let s = s\<lparr> skip_vendor := (cfg80211_find_elem ops WLAN_EID_VENDOR_SPECIFIC (p_start sub) \<noteq> None) \<rparr>;
         (s, crc) = parse_elems_pass ops params non_inherit s;
         s = s\<lparr> elems_crc := crc \<rparr>
     in if p_start sub \<noteq> []
        then fst (parse_elems_pass ops sub None (s\<lparr> multi_link_inner := inner, skip_vendor := False \<rparr>))
        else s)"

definition ieee802_11_parse_elems_full :: "cfg80211_ops \<Rightarrow> bool \<Rightarrow> elems_parse_params \<Rightarrow> elems_parse option" where
  "ieee802_11_parse_elems_full ops oom params =
     (if 0 \<le> p_link_id params \<and> p_bss params \<noteq> None then None
      else if oom then None
      else Some (dtim_from_bssid_index (dtim_from_tim (ieee80211_mle_defrag_epcs ops (ieee80211_mle_defrag_reconf ops
             (parse_passes ops params (parse_profile ops params (parse_init params))))))))"

definition ieee802_11_parse_elems :: "cfg80211_ops \<Rightarrow> bool \<Rightarrow> u8 list \<Rightarrow> u8 \<Rightarrow> cfg80211_bss option \<Rightarrow> elems_parse option" where
  "ieee802_11_parse_elems ops oom start ty bss =
     ieee802_11_parse_elems_full ops oom
       (zero_params\<lparr> p_mode := CONN_MODE_UHR, p_start := start, p_type := ty, p_bss := bss, p_link_id := - 1 \<rparr>)"

subsection \<open>Supported rates\<close>

text \<open>The inner loop: the index of the first band rate that matches; rates are in units of 500 kbit/s.\<close>

fun bitrate_index :: "nat list \<Rightarrow> nat \<Rightarrow> nat \<Rightarrow> nat option" where
  "bitrate_index [] rate j = None"
| "bitrate_index (b # bs) rate j = (if (b + 4) div 5 = rate then Some j else bitrate_index bs rate (Suc j))"

fun parse_bitrates_loop :: "nat list \<Rightarrow> u8 list \<Rightarrow> u32 \<times> nat \<Rightarrow> u32 \<times> nat" where
  "parse_bitrates_loop bitrates [] acc = acc"
| "parse_bitrates_loop bitrates (r # rs) (rates, count) =
     parse_bitrates_loop bitrates rs
       (case bitrate_index bitrates (unat (r AND 0x7f)) 0 of
          None \<Rightarrow> (rates, count)
        | Some j \<Rightarrow> (set_bit j rates, count + 1))"

definition ieee80211_parse_bitrates :: "nat list \<Rightarrow> u8 list \<Rightarrow> u32 \<times> nat" where
  "ieee80211_parse_bitrates bitrates srates = parse_bitrates_loop bitrates srates (0, 0)"

end
