(* ===== verification/Parse_Wf.thy ===== *)
theory Parse_Wf
  imports Parse
begin

text \<open>
  What the element parser returns is well formed: every pointer is followed by at least the octets its
  structure and its accessors read, the length fields agree with the pointers, the arrays of the
  transmit power envelopes and of the TID-to-link mappings are never overrun, and what is copied stays
  in the scratch buffer.  The accessors of the UHR operation element, which nothing in the
  repository calls, are not covered: of that element only the fixed part is counted.
\<close>

subsection \<open>Fields\<close>

text \<open>The size of the structure a field points to, without its flexible part.\<close>

fun field_min :: "elem_field \<Rightarrow> nat" where
  "field_min F_lnk_id = 20" | "field_min F_ch_sw_timing = 4" | "field_min F_ds_params = 1" | "field_min F_tim = 4"
| "field_min F_erp_info = 1" | "field_min F_wmm_info = 5" | "field_min F_wmm_param = 5" | "field_min F_ht_cap_elem = 26"
| "field_min F_ht_operation = 22" | "field_min F_vht_cap_elem = 12" | "field_min F_vht_operation = 5"
| "field_min F_mesh_config = 7" | "field_min F_he_cap = 21" | "field_min F_he_operation = 6" | "field_min F_he_spr = 1"
| "field_min F_mu_edca_param_set = 13" | "field_min F_he_6ghz_capa = 2" | "field_min F_uora_element = 1"
| "field_min F_awake_window = 2" | "field_min F_rann = 21" | "field_min F_ch_switch_ie = 3" | "field_min F_ext_chansw_ie = 4"
| "field_min F_wide_bw_chansw_ie = 3" | "field_min F_max_channel_switch_time = 3" | "field_min F_pwr_constr_elem = 1"
| "field_min F_timeout_int = 5" | "field_min F_opmode_notif = 1" | "field_min F_sec_chan_offs = 1"
| "field_min F_mesh_chansw_params_ie = 6" | "field_min F_max_idle_period_ie = 3" | "field_min F_mbssid_config_ie = 2"
| "field_min F_bssid_index = 1" | "field_min F_addba_ext_ie = 1" | "field_min F_s1g_capab = 15" | "field_min F_s1g_oper = 6"
| "field_min F_s1g_bcn_compat = 8" | "field_min F_aid_resp = 5" | "field_min F_eht_cap = 14" | "field_min F_eht_operation = 5"
| "field_min F_ml_basic = 9" | "field_min F_bandwidth_indication = 4" | "field_min F_uhr_capa = 6" | "field_min F_uhr_oper = 6"
| "field_min F_prof = 3" | "field_min _ = 0"

text \<open>What the code reads behind the fixed part, depending on its contents.\<close>

fun field_reads :: "elem_field \<Rightarrow> u8 list \<Rightarrow> bool" where
  "field_reads F_he_cap d \<longleftrightarrow>
     (let ppe = HE_CAP_ELEM_SIZE + ieee80211_he_mcs_nss_size d
      in ppe \<le> length d \<and>
         (has_flag (he_phy_cap_info d ! 6) HE_PHY_CAP6_PPE_THRESHOLD_PRESENT \<longrightarrow>
            ppe < length d \<and> ppe + ieee80211_he_ppe_size (d ! ppe) (he_phy_cap_info d) \<le> length d))"
| "field_reads F_he_operation d \<longleftrightarrow> (\<forall>off. ieee80211_he_6ghz_oper d = Some off \<longrightarrow> off + HE_6GHZ_OPER_SIZE \<le> length d)"
| "field_reads F_he_spr d \<longleftrightarrow>
     1 + (if has_flag (d ! 0) HE_SPR_NON_SRG_OFFSET_PRESENT then 1 else 0)
       + (if has_flag (d ! 0) HE_SPR_SRG_INFORMATION_PRESENT then 18 else 0) \<le> length d"
| "field_reads F_eht_operation d \<longleftrightarrow> ieee80211_eht_oper_dis_subchan_bitmap d \<noteq> None"
| "field_reads F_bandwidth_indication d \<longleftrightarrow> (has_flag (d ! 0) BW_IND_DIS_SUBCH_PRESENT \<longrightarrow> 6 \<le> length d)"
| "field_reads F_uhr_capa d \<longleftrightarrow> ieee80211_uhr_phy_cap d < length d"
| "field_reads F_ml_basic d \<longleftrightarrow> mle_accessors_ok d"
| "field_reads F_prof d \<longleftrightarrow> ieee80211_mle_basic_sta_prof_bss_param_ch_cnt d \<noteq> None"
| "field_reads _ d \<longleftrightarrow> True"

definition field_ok :: "elem_field \<Rightarrow> u8 list \<Rightarrow> bool" where
  "field_ok f d \<longleftrightarrow> field_min f \<le> length d \<and> field_reads f d"

definition has_len :: "elem_field \<Rightarrow> bool" where
  "has_len f \<longleftrightarrow> f \<in> {F_ext_capab, F_ssid, F_supp_rates, F_tim, F_rsn, F_rsnx, F_ext_supp_rates, F_wmm_info, F_wmm_param,
     F_he_cap, F_mesh_id, F_peering, F_preq, F_prep, F_perr, F_country_elem, F_bssid_index, F_eht_cap, F_uhr_capa, F_uhr_oper,
     F_ml_basic, F_ml_reconf, F_ml_epcs, F_prof}"

definition fields_ok :: "elems_parse \<Rightarrow> bool" where
  "fields_ok s \<longleftrightarrow>
     (\<forall>f d. elem_ptr s f = Some d \<longrightarrow> field_ok f d \<and> (has_len f \<longrightarrow> elem_len s f = length d)) \<and>
     (elem_ptr s F_eht_cap \<noteq> None \<longrightarrow> elem_ptr s F_he_cap \<noteq> None) \<and>
     length (ttlm s) \<le> TTLM_MAX_CNT \<and> (\<forall>d \<in> set (ttlm s). ieee80211_tid_to_link_map_size_ok d)"

lemma he_cap_ok: "ieee80211_he_capa_size_ok d \<Longrightarrow> field_ok F_he_cap d"
  using he_mcs_nss_size_bounds[of d]
  by (auto simp: field_ok_def ieee80211_he_capa_size_ok_def Let_def split: if_splits)

lemma he_operation_ok: "HE_OPERATION_SIZE \<le> length d \<Longrightarrow> ieee80211_he_oper_size d - 1 \<le> length d \<Longrightarrow> field_ok F_he_operation d"
  by (auto simp: field_ok_def intro: he_6ghz_oper_in_bounds)

lemma he_spr_ok: "HE_SPR_SIZE \<le> length d \<Longrightarrow> ieee80211_he_spr_size d - 1 \<le> length d \<Longrightarrow> field_ok F_he_spr d"
  by (simp add: field_ok_def ieee80211_he_spr_size_def)

lemma eht_cap_ok: "ieee80211_eht_capa_size_ok he d fromap \<Longrightarrow> field_ok F_eht_cap d \<and> he \<noteq> None"
  using eht_mcs_nss_size_bounds[of "the he" d fromap]
  by (auto simp: field_ok_def ieee80211_eht_capa_size_ok_def Let_def split: if_splits option.splits)

lemma eht_operation_ok: "ieee80211_eht_oper_size_ok d \<Longrightarrow> field_ok F_eht_operation d"
  using eht_oper_in_bounds[of d] by (auto simp: field_ok_def ieee80211_eht_oper_size_ok_def Let_def split: if_splits)

lemma bandwidth_indication_ok: "ieee80211_bandwidth_indication_size_ok d \<Longrightarrow> field_ok F_bandwidth_indication d"
  by (auto simp: field_ok_def ieee80211_bandwidth_indication_size_ok_def split: if_splits)

lemma uhr_oper_ok: "ieee80211_uhr_oper_size_ok d b \<Longrightarrow> field_ok F_uhr_oper d"
  by (auto simp: field_ok_def ieee80211_uhr_oper_size_ok_def Let_def split: if_splits)

lemma uhr_capa_ok: "ieee80211_uhr_capa_size_ok d \<Longrightarrow> field_ok F_uhr_capa d"
  by (simp add: field_ok_def ieee80211_uhr_capa_size_ok_def ieee80211_uhr_phy_cap_def)

lemma elem_min_ok: "field_reads f = (\<lambda>_. True) \<Longrightarrow> field_min f \<le> length d \<Longrightarrow> field_ok f d"
  by (simp add: field_ok_def)

lemmas field_checks = he_cap_ok he_operation_ok he_spr_ok eht_operation_ok bandwidth_indication_ok uhr_oper_ok uhr_capa_ok

lemma fields_ok_store:
  "fields_ok s \<Longrightarrow> field_ok f d \<Longrightarrow> \<not> has_len f \<Longrightarrow> fields_ok (store f d s)"
  by (auto simp: fields_ok_def store_def has_len_def)

lemma fields_ok_store_len:
  "fields_ok s \<Longrightarrow> field_ok f d \<Longrightarrow> (f = F_eht_cap \<Longrightarrow> elem_ptr s F_he_cap \<noteq> None) \<Longrightarrow> fields_ok (store_len f d s)"
  by (auto simp: fields_ok_def store_len_def)

lemma fields_ok_updates [simp]:
  "fields_ok (flag_error err s) = fields_ok s" "fields_ok (s\<lparr> ml_basic_elem := x \<rparr>) = fields_ok s"
  "fields_ok (s\<lparr> ml_reconf_elem := x \<rparr>) = fields_ok s" "fields_ok (s\<lparr> ml_epcs_elem := x \<rparr>) = fields_ok s"
  "fields_ok (s\<lparr> elems_tpe := t \<rparr>) = fields_ok s" "fields_ok (s\<lparr> csa_tpe := t \<rparr>) = fields_ok s"
  "fields_ok (s\<lparr> scratch_pos := n \<rparr>) = fields_ok s" "fields_ok (s\<lparr> skip_vendor := b \<rparr>) = fields_ok s"
  "fields_ok (s\<lparr> multi_link_inner := b \<rparr>) = fields_ok s" "fields_ok (s\<lparr> elems_crc := c \<rparr>) = fields_ok s"
  by (simp_all add: fields_ok_def flag_error_def)

subsection \<open>What parsing one element can change\<close>

text \<open>The identifier of the elements a field comes from; \<^verbatim>\<open>WLAN_EID_EXTENSION\<close> elements are told apart by their first octet.\<close>

fun field_id :: "elem_field \<Rightarrow> u8" where
  "field_id F_lnk_id = WLAN_EID_LINK_ID" | "field_id F_ch_sw_timing = WLAN_EID_CHAN_SWITCH_TIMING"
| "field_id F_ext_capab = WLAN_EID_EXT_CAPABILITY" | "field_id F_ssid = WLAN_EID_SSID"
| "field_id F_supp_rates = WLAN_EID_SUPP_RATES" | "field_id F_ds_params = WLAN_EID_DS_PARAMS" | "field_id F_tim = WLAN_EID_TIM"
| "field_id F_rsn = WLAN_EID_RSN" | "field_id F_rsnx = WLAN_EID_RSNX" | "field_id F_erp_info = WLAN_EID_ERP_INFO"
| "field_id F_ext_supp_rates = WLAN_EID_EXT_SUPP_RATES" | "field_id F_wmm_info = WLAN_EID_VENDOR_SPECIFIC"
| "field_id F_wmm_param = WLAN_EID_VENDOR_SPECIFIC" | "field_id F_ht_cap_elem = WLAN_EID_HT_CAPABILITY"
| "field_id F_ht_operation = WLAN_EID_HT_OPERATION" | "field_id F_vht_cap_elem = WLAN_EID_VHT_CAPABILITY"
| "field_id F_vht_operation = WLAN_EID_VHT_OPERATION" | "field_id F_mesh_config = WLAN_EID_MESH_CONFIG"
| "field_id F_mesh_id = WLAN_EID_MESH_ID" | "field_id F_peering = WLAN_EID_PEER_MGMT"
| "field_id F_awake_window = WLAN_EID_MESH_AWAKE_WINDOW" | "field_id F_preq = WLAN_EID_PREQ" | "field_id F_prep = WLAN_EID_PREP"
| "field_id F_perr = WLAN_EID_PERR" | "field_id F_rann = WLAN_EID_RANN" | "field_id F_ch_switch_ie = WLAN_EID_CHANNEL_SWITCH"
| "field_id F_ext_chansw_ie = WLAN_EID_EXT_CHANSWITCH_ANN" | "field_id F_wide_bw_chansw_ie = WLAN_EID_WIDE_BW_CHANNEL_SWITCH"
| "field_id F_country_elem = WLAN_EID_COUNTRY" | "field_id F_pwr_constr_elem = WLAN_EID_PWR_CONSTRAINT"
| "field_id F_timeout_int = WLAN_EID_TIMEOUT_INTERVAL" | "field_id F_opmode_notif = WLAN_EID_OPMODE_NOTIF"
| "field_id F_sec_chan_offs = WLAN_EID_SECONDARY_CHANNEL_OFFSET" | "field_id F_mesh_chansw_params_ie = WLAN_EID_CHAN_SWITCH_PARAM"
| "field_id F_max_idle_period_ie = WLAN_EID_BSS_MAX_IDLE_PERIOD" | "field_id F_addba_ext_ie = WLAN_EID_ADDBA_EXT_IE"
| "field_id F_s1g_capab = WLAN_EID_S1G_CAPABILITIES" | "field_id F_s1g_oper = WLAN_EID_S1G_OPERATION"
| "field_id F_s1g_bcn_compat = WLAN_EID_S1G_BCN_COMPAT" | "field_id F_aid_resp = WLAN_EID_AID_RESPONSE"
| "field_id _ = WLAN_EID_EXTENSION"

text \<open>The modes in which a field is parsed at all.\<close>

fun field_in_mode :: "elem_field \<Rightarrow> conn_mode \<Rightarrow> bool" where
  "field_in_mode F_ht_cap_elem m \<longleftrightarrow> CONN_MODE_HT \<le> m" | "field_in_mode F_ht_operation m \<longleftrightarrow> CONN_MODE_HT \<le> m"
| "field_in_mode F_sec_chan_offs m \<longleftrightarrow> CONN_MODE_HT \<le> m" | "field_in_mode F_vht_cap_elem m \<longleftrightarrow> CONN_MODE_VHT \<le> m"
| "field_in_mode F_vht_operation m \<longleftrightarrow> CONN_MODE_VHT \<le> m" | "field_in_mode F_opmode_notif m \<longleftrightarrow> CONN_MODE_VHT \<le> m"
| "field_in_mode F_wide_bw_chansw_ie m \<longleftrightarrow> CONN_MODE_VHT \<le> m" | "field_in_mode F_mu_edca_param_set m \<longleftrightarrow> CONN_MODE_HE \<le> m"
| "field_in_mode F_he_cap m \<longleftrightarrow> CONN_MODE_HE \<le> m" | "field_in_mode F_he_operation m \<longleftrightarrow> CONN_MODE_HE \<le> m"
| "field_in_mode F_uora_element m \<longleftrightarrow> CONN_MODE_HE \<le> m" | "field_in_mode F_he_spr m \<longleftrightarrow> CONN_MODE_HE \<le> m"
| "field_in_mode F_he_6ghz_capa m \<longleftrightarrow> CONN_MODE_HE \<le> m" | "field_in_mode F_eht_cap m \<longleftrightarrow> CONN_MODE_EHT \<le> m"
| "field_in_mode F_eht_operation m \<longleftrightarrow> CONN_MODE_EHT \<le> m" | "field_in_mode F_bandwidth_indication m \<longleftrightarrow> CONN_MODE_EHT \<le> m"
| "field_in_mode F_ml_basic m \<longleftrightarrow> CONN_MODE_EHT \<le> m" | "field_in_mode F_ml_reconf m \<longleftrightarrow> CONN_MODE_EHT \<le> m"
| "field_in_mode F_ml_epcs m \<longleftrightarrow> CONN_MODE_EHT \<le> m" | "field_in_mode F_prof m \<longleftrightarrow> CONN_MODE_EHT \<le> m"
| "field_in_mode F_uhr_oper m \<longleftrightarrow> CONN_MODE_UHR \<le> m" | "field_in_mode F_uhr_capa m \<longleftrightarrow> CONN_MODE_UHR \<le> m"
| "field_in_mode F_s1g_capab m \<longleftrightarrow> m = CONN_MODE_S1G" | "field_in_mode F_s1g_oper m \<longleftrightarrow> m = CONN_MODE_S1G"
| "field_in_mode F_s1g_bcn_compat m \<longleftrightarrow> m = CONN_MODE_S1G" | "field_in_mode F_aid_resp m \<longleftrightarrow> m = CONN_MODE_S1G"
| "field_in_mode _ m \<longleftrightarrow> True"

text \<open>
  One write of the parser while it handles an element with identifier \<open>i\<close> in mode \<open>m\<close>.  The channel
  switch wrapper writes two fields that other elements fill as well.
\<close>

definition may_write :: "u8 \<Rightarrow> conn_mode \<Rightarrow> elem_field \<Rightarrow> bool" where
  "may_write i m f \<longleftrightarrow>
     (field_id f = i \<or> i = WLAN_EID_CHANNEL_SWITCH_WRAPPER \<and> f \<in> {F_wide_bw_chansw_ie, F_bandwidth_indication}) \<and>
     field_in_mode f m \<and> f \<notin> {F_ml_basic, F_ml_reconf, F_ml_epcs, F_prof, F_bssid_index}"

inductive elem_write :: "u8 \<Rightarrow> conn_mode \<Rightarrow> elems_parse \<Rightarrow> elems_parse \<Rightarrow> bool" for i m where
  store: "field_ok f d \<Longrightarrow> \<not> has_len f \<Longrightarrow> may_write i m f \<Longrightarrow> elem_write i m s (store f d s)"
| store_len: "field_ok f d \<Longrightarrow> has_len f \<Longrightarrow> may_write i m f \<Longrightarrow> (f = F_eht_cap \<Longrightarrow> elem_ptr s F_he_cap \<noteq> None) \<Longrightarrow>
    elem_write i m s (store_len f d s)"
| nested: "elem_write i m s (flag_error PARSE_ERR_DUP_NEST_ML_BASIC s)"
| reconf: "CONN_MODE_EHT \<le> m \<Longrightarrow> elem_write i m s (s\<lparr> ml_reconf_elem := Some e \<rparr>)"
| epcs: "CONN_MODE_EHT \<le> m \<Longrightarrow> elem_write i m s (s\<lparr> ml_epcs_elem := Some e \<rparr>)"
| ttlm: "CONN_MODE_EHT \<le> m \<Longrightarrow> ieee80211_tid_to_link_map_size_ok d \<Longrightarrow> length (ttlm s) < TTLM_MAX_CNT \<Longrightarrow>
    elem_write i m s (s\<lparr> ttlm := ttlm s @ [d] \<rparr>)"
| tpe: "CONN_MODE_HE \<le> m \<Longrightarrow> elem_write i m s (s\<lparr> elems_tpe := ieee80211_parse_tpe (elems_tpe s) d \<rparr>)"
| csa_tpe: "CONN_MODE_EHT \<le> m \<Longrightarrow> elem_write i m s (s\<lparr> csa_tpe := ieee80211_parse_tpe (csa_tpe s) d \<rparr>)"

abbreviation elem_writes :: "u8 \<Rightarrow> conn_mode \<Rightarrow> elems_parse \<Rightarrow> elems_parse \<Rightarrow> bool" where
  "elem_writes i m \<equiv> (elem_write i m)\<^sup>*\<^sup>*"

lemma writes_if: "(b \<Longrightarrow> elem_writes i m s (fst x)) \<Longrightarrow> (\<not> b \<Longrightarrow> elem_writes i m s (fst y)) \<Longrightarrow> elem_writes i m s (fst (if b then x else y))"
  by simp

lemma writes_if_state: "(b \<Longrightarrow> elem_writes i m s x) \<Longrightarrow> (\<not> b \<Longrightarrow> elem_writes i m s y) \<Longrightarrow> elem_writes i m s (if b then x else y)"
  by simp

lemma writes_pair: "elem_writes i m s x \<Longrightarrow> elem_writes i m s (fst (x, y))"
  by simp

lemma writes_step: "elem_write i m s t \<Longrightarrow> elem_writes i m s t"
  by (rule r_into_rtranclp)

lemma writes_none: "elem_writes i m s s"
  by (rule rtranclp.rtrancl_refl)

lemmas writes_intros = writes_if writes_if_state writes_pair writes_none elem_write.intros[THEN writes_step]

lemma writes_extension: "elem_writes WLAN_EID_EXTENSION (p_mode params) s (fst (parse_extension_switch params e s))"
  unfolding parse_extension_switch_def Let_def
  by (intro writes_intros) (use eht_cap_ok in \<open>auto simp: may_write_def has_len_def not_less field_checks intro!: elem_min_ok\<close>)

lemma writes_extension_element:
  "elem_writes WLAN_EID_EXTENSION (p_mode params) s (fst (ieee80211_parse_extension_element ops calc params e (s, crc)))"
  using writes_extension[of params s e] by (auto simp: ieee80211_parse_extension_element_def split_def Let_def)

lemma writes_wrapper:
  "CONN_MODE_VHT \<le> p_mode params \<Longrightarrow>
   elem_writes WLAN_EID_CHANNEL_SWITCH_WRAPPER (p_mode params) s (fst (parse_channel_switch_wrapper ops params d s))"
proof -
  assume m: "CONN_MODE_VHT \<le> p_mode params"
  have he: "CONN_MODE_HE \<le> p_mode params" if "CONN_MODE_EHT \<le> p_mode params"
    using that by (cases "p_mode params") (simp_all add: less_eq_conn_mode_def)
  have *: "elem_writes WLAN_EID_CHANNEL_SWITCH_WRAPPER (p_mode params) s t \<Longrightarrow>
      elem_write WLAN_EID_CHANNEL_SWITCH_WRAPPER (p_mode params) t u \<Longrightarrow>
      elem_writes WLAN_EID_CHANNEL_SWITCH_WRAPPER (p_mode params) s u" for t u by simp
  show ?thesis
    unfolding parse_channel_switch_wrapper_def Let_def
    by (auto simp: m he not_less may_write_def has_len_def split: option.split
        intro!: writes_none *[OF _ elem_write.csa_tpe] *[OF _ elem_write.store] bandwidth_indication_ok
          elem_min_ok[of F_wide_bw_chansw_ie])
qed

lemma writes_switch: "elem_writes (elem_id e) (p_mode params) s (fst (parse_elem_switch ops params e s crc))"
  unfolding parse_elem_switch_def Let_def
  by (intro writes_intros)
    (auto simp: may_write_def has_len_def not_less elem_bytes_def split_def Suc_le_eq intro!: elem_min_ok writes_wrapper writes_extension_element)

subsection \<open>Power envelopes\<close>

definition eirp_ok :: "parsed_tpe_eirp \<Rightarrow> bool" where
  "eirp_ok e \<longleftrightarrow> length (eirp_power e) = TPE_EIRP_ENTRIES_320MHZ \<and> eirp_count e \<le> TPE_EIRP_ENTRIES_320MHZ"

definition psd_ok :: "parsed_tpe_psd \<Rightarrow> bool" where
  "psd_ok p \<longleftrightarrow> length (psd_power p) = TPE_PSD_ENTRIES_320MHZ \<and> psd_count p \<le> TPE_PSD_ENTRIES_320MHZ \<and> psd_n p \<le> 8"

definition tpe_ok :: "parsed_tpe \<Rightarrow> bool" where
  "tpe_ok t \<longleftrightarrow> length (max_local t) = 2 \<and> length (max_reg_client t) = 2 \<and> length (psd_local t) = 2 \<and> length (psd_reg_client t) = 2 \<and>
     (\<forall>c < 2. eirp_ok (max_local t ! c) \<and> eirp_ok (max_reg_client t ! c) \<and> psd_ok (psd_local t ! c) \<and> psd_ok (psd_reg_client t ! c))"

text \<open>
  The writes into the arrays of the first branch lie within them: the values are as many as the element
  was checked to hold.
\<close>

lemma eirp_store_ok:
  assumes "eirp_ok e" "tpe_count d \<le> 3" "1 + (tpe_count d + 1) \<le> length d"
  shows "eirp_ok (tpe_store_eirp d e)"
proof -
  define power where "power = mem_write (eirp_power e) 0 (mem_read d 1 (tpe_count d + 1))"
  have "length power = 5" using assms by (simp add: power_def eirp_ok_def buf_simps)
  then show ?thesis
    using assms(2) by (simp only: tpe_store_eirp_def eirp_ok_def Let_def power_def[symmetric] split: if_split) simp
qed

lemma tpe_n_le: "count \<le> 4 \<Longrightarrow> count \<noteq> 0 \<Longrightarrow> 2 ^ (count - 1) \<le> (8 :: nat)"
  using power_increasing[of "count - 1" 3 "2 :: nat"] by simp

lemma psd_store_ok:
  assumes p: "psd_ok p" and c: "tpe_count d \<le> 4" and len: "1 + tpe_n (tpe_count d) \<le> length d"
    and ext: "1 + tpe_n (tpe_count d) < length d \<Longrightarrow>
      1 + tpe_n (tpe_count d) + (1 + unat (get_bits (d ! (1 + tpe_n (tpe_count d))) TX_PWR_ENV_EXT_COUNT)) \<le> length d"
  shows "psd_ok (tpe_store_psd d p)"
proof (cases "tpe_count d = 0")
  case False
  define n where "n = tpe_n (tpe_count d)"
  have n: "(2 :: nat) ^ (tpe_count d - 1) = n" "n \<le> 8"
    using False tpe_n_le[OF c] by (simp_all add: n_def tpe_n_def)
  define power where "power = mem_write (psd_power p) 0 (mem_read d 1 n)"
  have power: "length power = 16" using p n len by (simp add: power_def psd_ok_def buf_simps n_def)
  define k where "k = min (unat (get_bits (d ! (1 + n)) TX_PWR_ENV_EXT_COUNT)) (TPE_PSD_ENTRIES_320MHZ - n)"
  have "length (mem_write power n (mem_read d (1 + n + 1) k)) = 16" if "1 + n < length d"
    using power n ext that unfolding n_def[symmetric] by (auto simp: buf_simps k_def)
  moreover have "n + k \<le> 16" using n by (simp add: k_def)
  ultimately show ?thesis
    using False n power by (simp only: tpe_store_psd_def Let_def psd_ok_def power_def[symmetric] k_def[symmetric] if_False split: if_split)
      simp
qed (use p in \<open>simp add: tpe_store_psd_def psd_ok_def\<close>)

lemma valid_tpe_category: "ieee80211_valid_tpe_element d \<Longrightarrow> unat (tpe_category d) < 2"
  by (auto simp: ieee80211_valid_tpe_element_def split: if_splits)

lemma valid_tpe_eirp:
  "ieee80211_valid_tpe_element d \<Longrightarrow> tpe_interpret d = TPE_LOCAL_EIRP \<or> tpe_interpret d = TPE_REG_CLIENT_EIRP \<Longrightarrow> eirp_ok e \<Longrightarrow>
   eirp_ok (tpe_store_eirp d e)"
  by (rule eirp_store_ok) (auto simp: ieee80211_valid_tpe_element_def split: if_splits)

lemma valid_tpe_psd:
  "ieee80211_valid_tpe_element d \<Longrightarrow> tpe_interpret d = TPE_LOCAL_EIRP_PSD \<or> tpe_interpret d = TPE_REG_CLIENT_EIRP_PSD \<Longrightarrow> psd_ok p \<Longrightarrow>
   psd_ok (tpe_store_psd d p)"
  by (rule psd_store_ok) (auto simp: ieee80211_valid_tpe_element_def Let_def split: if_splits)

lemma parse_tpe_ok: "tpe_ok t \<Longrightarrow> tpe_ok (ieee80211_parse_tpe t d)"
  unfolding ieee80211_parse_tpe_def Let_def
  by (auto simp: tpe_ok_def nth_list_update valid_tpe_category intro!: valid_tpe_eirp valid_tpe_psd)

lemma clear_zero_tpe_ok: "tpe_ok (ieee80211_clear_tpe zero_tpe)"
  by (simp add: tpe_ok_def ieee80211_clear_tpe_def zero_tpe_def eirp_ok_def psd_ok_def clear_eirp_def clear_psd_def Let_def
      numeral_2_eq_2 All_less_Suc2)

subsection \<open>All passes\<close>

definition parsed_ok :: "elems_parse \<Rightarrow> bool" where
  "parsed_ok s \<longleftrightarrow> fields_ok s \<and> tpe_ok (elems_tpe s) \<and> tpe_ok (csa_tpe s)"

lemma parsed_ok_write: "elem_write i m s t \<Longrightarrow> parsed_ok s \<Longrightarrow> parsed_ok t"
proof (induction rule: elem_write.induct)
  case (store f d s)
  then show ?case using fields_ok_store[of s f d] by (simp add: parsed_ok_def store_def)
next
  case (store_len f d s)
  then show ?case using fields_ok_store_len[of s f d] by (simp add: parsed_ok_def store_len_def)
next
  case (ttlm d s)
  then show ?case by (auto simp: parsed_ok_def fields_ok_def)
qed (simp_all add: parsed_ok_def parse_tpe_ok flag_error_def fields_ok_def)

lemma parsed_ok_writes: "elem_writes i m s t \<Longrightarrow> parsed_ok s \<Longrightarrow> parsed_ok t"
  by (induction rule: rtranclp_induct) (auto intro: parsed_ok_write)

lemma parsed_ok_flag [simp]: "parsed_ok (flag_error err s) = parsed_ok s"
  by (simp add: parsed_ok_def flag_error_def fields_ok_def)

text \<open>An invariant that every write and every error flag keeps is kept by a pass.\<close>

lemma parse_elem_keeps:
  assumes "\<And>s t. elem_writes (elem_id e) (p_mode params) s t \<Longrightarrow> P s \<Longrightarrow> P t" "\<And>err s. P s \<Longrightarrow> P (flag_error err s)" "P s"
  shows "P (fst (parse_elem ops params ni e (s, seen, crc)))"
proof -
  have "P (fst (parse_elem_switch ops params e s crc'))" for crc'
    using assms(1)[OF writes_switch] assms(3) by blast
  then show ?thesis
    using assms(2,3) by (auto simp: parse_elem_def Let_def split_def)
qed

lemma parse_pass_keeps:
  assumes "\<And>i s t. elem_writes i (p_mode params) s t \<Longrightarrow> P s \<Longrightarrow> P t" "\<And>err s. P s \<Longrightarrow> P (flag_error err s)" "P s"
  shows "P (fst (parse_elems_pass ops params ni s))"
proof -
  have "P (fst (fold (parse_elem ops params ni) es st))" if "P (fst st)" for es st
    using that
  proof (induction es arbitrary: st)
    case (Cons e es)
    obtain s seen crc where st: "st = (s, seen, crc)" by (cases st)
    then have "P s" using Cons.prems by simp
    have "P (fst (parse_elem ops params ni e (s, seen, crc)))"
      by (rule parse_elem_keeps[where P = P]) (fact assms(1), fact assms(2), fact \<open>P s\<close>)
    then show ?case using Cons.IH by (simp add: st)
  qed simp
  from this[of "(s, {}, p_crc params)"] show ?thesis
    using assms(2,3) by (simp add: parse_elems_pass_def parse_loop_def split_def Let_def)
qed

subsection \<open>The whole parser\<close>

text \<open>
  What \<^verbatim>\<open>cfg80211\<close> documents of the functions that fill the scratch buffer: defragmentation fails for
  \<^verbatim>\<open>NULL\<close>, fails when the space does not suffice, and starts with the data of the element (without the
  octet of the extended identifier); a merged profile is not longer than the elements it is made of.
\<close>

definition scratch_laws :: "cfg80211_ops \<Rightarrow> bool" where
  "scratch_laws ops \<longleftrightarrow>
     (\<forall>b n i. cfg80211_defragment_element ops None b n i = None) \<and>
     (\<forall>e b n i r. cfg80211_defragment_element ops (Some e) b n i = Some r \<longrightarrow>
        length r \<le> n \<and> (\<exists>rest. r = (if elem_id e = WLAN_EID_EXTENSION then drop 1 (elem_data e) else elem_data e) @ rest)) \<and>
     (\<forall>b e sub. length (cfg80211_merge_profile ops b e sub) \<le> length b)"

definition whole_ok :: "u8 list \<Rightarrow> elems_parse \<Rightarrow> bool" where
  "whole_ok ies s \<longleftrightarrow> parsed_ok s \<and> scratch_pos s \<le> scratch_len s \<and> scratch_len s = 3 * length ies \<and> ie_start s = ies"

lemma elem_write_frame:
  "elem_write i m s t \<Longrightarrow> scratch_pos t = scratch_pos s \<and> scratch_len t = scratch_len s \<and> ie_start t = ie_start s"
  by (induction rule: elem_write.induct) (simp_all add: store_def store_len_def flag_error_def)

lemma whole_ok_write: "elem_write i m s t \<Longrightarrow> whole_ok ies s \<Longrightarrow> whole_ok ies t"
  using parsed_ok_write[of i m s t] elem_write_frame[of i m s t] by (simp add: whole_ok_def)

lemma whole_ok_writes: "elem_writes i m s t \<Longrightarrow> whole_ok ies s \<Longrightarrow> whole_ok ies t"
  by (induction rule: rtranclp_induct) (auto intro: whole_ok_write)

lemma whole_ok_flag: "whole_ok ies s \<Longrightarrow> whole_ok ies (flag_error err s)"
  by (simp add: whole_ok_def) (simp add: flag_error_def)

lemma whole_ok_pass: "whole_ok ies s \<Longrightarrow> whole_ok ies (fst (parse_elems_pass ops params ni s))"
  by (rule parse_pass_keeps[where P = "whole_ok ies"]) (auto intro: whole_ok_writes whole_ok_flag)

lemma whole_ok_updates [simp]:
  "whole_ok ies (s\<lparr> ml_basic_elem := x \<rparr>) = whole_ok ies s" "whole_ok ies (s\<lparr> skip_vendor := b \<rparr>) = whole_ok ies s"
  "whole_ok ies (s\<lparr> multi_link_inner := b \<rparr>) = whole_ok ies s" "whole_ok ies (s\<lparr> elems_crc := c \<rparr>) = whole_ok ies s"
  "whole_ok ies (s\<lparr> dtim_period := p \<rparr>) = whole_ok ies s" "whole_ok ies (s\<lparr> dtim_count := p \<rparr>) = whole_ok ies s"
  by (simp_all add: whole_ok_def parsed_ok_def fields_ok_def)

lemma whole_ok_scratch:
  assumes "whole_ok ies s" "field_ok f r" "length r \<le> scratch_left s" "f \<noteq> F_eht_cap"
  shows "whole_ok ies (store_scratch f r s)"
proof -
  have "scratch_pos s + length r \<le> scratch_len s"
    using assms(1,3) by (simp only: whole_ok_def scratch_left_def) linarith
  then show ?thesis
    using assms fields_ok_store_len[of s f r]
    by (simp add: whole_ok_def parsed_ok_def store_scratch_def) (simp add: store_len_def)
qed

lemma defrag_none: "scratch_laws ops \<Longrightarrow> cfg80211_defragment_element ops None b n i = None"
  by (simp add: scratch_laws_def)

lemma defrag_some:
  assumes "scratch_laws ops" "cfg80211_defragment_element ops (Some e) b n i = Some r"
  obtains rest where "length r \<le> n" "r = (if elem_id e = WLAN_EID_EXTENSION then drop 1 (elem_data e) else elem_data e) @ rest"
proof -
  have "\<forall>e b n i r. cfg80211_defragment_element ops (Some e) b n i = Some r \<longrightarrow>
      length r \<le> n \<and> (\<exists>rest. r = (if elem_id e = WLAN_EID_EXTENSION then drop 1 (elem_data e) else elem_data e) @ rest)"
    using assms(1) unfolding scratch_laws_def by (elim conjE)
  from this[rule_format, OF assms(2)] that show thesis by (elim conjE exE)
qed

lemma sta_prof_size_ok_append:
  "ieee80211_mle_basic_sta_prof_size_ok a \<Longrightarrow> ieee80211_mle_basic_sta_prof_size_ok (a @ b)"
  by (auto simp: ieee80211_mle_basic_sta_prof_size_ok_def sta_prof_control_def le16_prefix nth_append split: if_splits)

lemma prof_ok: "ieee80211_mle_basic_sta_prof_size_ok d \<Longrightarrow> field_ok F_prof (d @ rest)"
  using sta_prof_in_bounds[OF sta_prof_size_ok_append, of d rest]
  by (auto simp: field_ok_def ieee80211_mle_basic_sta_prof_size_ok_def split: if_splits)

lemma ml_basic_ok:
  assumes "ieee80211_mle_size_ok d" "mle_type d = ML_CONTROL_TYPE_BASIC"
  shows "field_ok F_ml_basic (d @ rest)"
proof -
  have "ieee80211_mle_type_ok (d @ rest) ML_CONTROL_TYPE_BASIC"
    using mle_size_ok_append[OF assms(1)] assms(2) by (simp add: ieee80211_mle_type_ok_def)
  from mle_accessors_in_bounds[OF this] mle_basic_length[OF this] show ?thesis
    by (simp add: field_ok_def mle_basic_common_def)
qed

lemma whole_ok_prof:
  assumes "scratch_laws ops" "whole_ok ies s" "ieee80211_mle_basic_sta_prof_size_ok (elem_data sub)"
    "elem_id sub = MLE_SUBELEM_PER_STA_PROFILE"
    "cfg80211_defragment_element ops (Some sub) ml (scratch_left s) i = Some r"
  shows "whole_ok ies (store_scratch F_prof r s)"
proof -
  obtain rest where r: "length r \<le> scratch_left s" "r = elem_data sub @ rest"
    using defrag_some[OF assms(1,5)] assms(4) by auto
  show ?thesis
    by (rule whole_ok_scratch[OF assms(2) _ r(1)]) (simp_all add: r(2) prof_ok assms(3))
qed

lemma whole_ok_sta_prof_loop:
  assumes "scratch_laws ops"
  shows "whole_ok ies s \<Longrightarrow> whole_ok ies (sta_prof_loop ops l ml subs s)"
  by (induction subs) (auto simp: Let_def split: option.split intro: whole_ok_prof[OF assms])

lemma find_SomeD: "find p xs = Some x \<Longrightarrow> p x \<and> x \<in> set xs"
  by (induction xs) (auto split: if_splits)

lemma find_ml_basic_some:
  "find_ml_basic b = Some e \<Longrightarrow> elem_id e = WLAN_EID_EXTENSION \<and> ieee80211_mle_size_ok (drop 1 (elem_data e)) \<and>
     mle_type (drop 1 (elem_data e)) = ML_CONTROL_TYPE_BASIC"
  unfolding find_ml_basic_def for_each_element_extid_def by (drule find_SomeD) simp

lemma whole_ok_prep_mle:
  assumes laws: "scratch_laws ops" and ok: "whole_ok ies s" and none: "ml_basic_elem s = None"
  shows "whole_ok ies (fst (ieee80211_prep_mle_link_parse ops params s))"
proof (cases "find_ml_basic (ie_start s)")
  case None
  then show ?thesis using ok none laws by (simp add: ieee80211_prep_mle_link_parse_def defrag_none Let_def)
next
  case (Some e)
  define s1 where "s1 = s\<lparr> ml_basic_elem := Some e \<rparr>"
  have ok1: "whole_ok ies s1" using ok by (simp add: s1_def)
  have ok2: "whole_ok ies (store_scratch F_ml_basic r s1)"
    if r: "cfg80211_defragment_element ops (Some e) (ie_start s1) (scratch_left s1) WLAN_EID_FRAGMENT = Some r" for r
  proof -
    obtain rest where "length r \<le> scratch_left s1" "r = drop 1 (elem_data e) @ rest"
      using defrag_some[OF laws r] find_ml_basic_some[OF Some] by auto
    then show ?thesis using ml_basic_ok find_ml_basic_some[OF Some] ok1 by (auto intro: whole_ok_scratch)
  qed
  have ok3: "whole_ok ies (ieee80211_mle_get_sta_prof ops l t)" if "whole_ok ies t" for l t
    using that whole_ok_sta_prof_loop[OF laws] by (simp add: ieee80211_mle_get_sta_prof_def split: option.split)
  have ok4: "whole_ok ies (t\<lparr> elem_ptr := (elem_ptr t)(F_prof := None), elem_len := (elem_len t)(F_prof := 0) \<rparr>)" if "whole_ok ies t" for t
    using that by (auto simp: whole_ok_def parsed_ok_def fields_ok_def)
  show ?thesis
    using Some ok1 ok2 ok3 ok4
    by (simp add: ieee80211_prep_mle_link_parse_def s1_def[symmetric] ok split: option.split)
       (simp add: Let_def s1_def split: option.split)
qed

lemma first_some_elim: "first_some f xs = Some y \<Longrightarrow> (\<And>x. f x = Some y \<Longrightarrow> Q) \<Longrightarrow> Q"
  by (induction xs) (auto split: option.splits)

lemma bssid_profile_found:
  "ieee802_11_find_bssid_profile ops b bss s = (t, nontx) \<Longrightarrow> scratch_laws ops \<Longrightarrow>
   length nontx \<le> length b \<and> (t = s \<or> (\<exists>index. index \<noteq> [] \<and> t = store_len F_bssid_index index s))"
  by (auto simp: ieee802_11_find_bssid_profile_def bssid_profile_sub_def scratch_laws_def Let_def Suc_le_eq
      split: option.splits if_splits elim!: first_some_elim) blast

lemma whole_ok_profile:
  assumes "scratch_laws ops" "whole_ok (p_start params) s" "scratch_pos s = 0" "ml_basic_elem s = None"
  shows "whole_ok (p_start params) (fst (parse_profile ops params s))"
proof (cases "p_bss params")
  case None
  then show ?thesis using whole_ok_prep_mle[OF assms(1,2,4), of params] by (simp add: parse_profile_def split_def Let_def)
next
  case (Some bss)
  obtain t nontx where t: "ieee802_11_find_bssid_profile ops (p_start params) bss s = (t, nontx)" by (cases "ieee802_11_find_bssid_profile ops (p_start params) bss s")
  have len: "length nontx \<le> length (p_start params)"
    using bssid_profile_found[OF t assms(1)] by simp
  have "whole_ok (p_start params) t \<and> scratch_pos t = 0"
    using bssid_profile_found[OF t assms(1)] assms(2,3) fields_ok_store_len[of s F_bssid_index]
    by (auto simp: whole_ok_def parsed_ok_def field_ok_def Suc_le_eq) (auto simp: store_len_def)
  then show ?thesis using len Some t by (simp add: parse_profile_def whole_ok_def parsed_ok_def Let_def)
qed

lemma whole_ok_passes: "whole_ok ies (fst x) \<Longrightarrow> whole_ok ies (parse_passes ops params x)"
  by (auto simp: parse_passes_def Let_def split_def intro!: whole_ok_pass)

lemma whole_ok_defrag:
  assumes "scratch_laws ops" "whole_ok ies s"
  shows "whole_ok ies (ieee80211_mle_defrag_reconf ops s)" "whole_ok ies (ieee80211_mle_defrag_epcs ops s)"
proof -
  have *: "whole_ok ies (store_scratch f r s)" if f: "f = F_ml_reconf \<or> f = F_ml_epcs"
    and r: "cfg80211_defragment_element ops x b (scratch_left s) i = Some r" for f r x b i
  proof -
    obtain e where "x = Some e" using r defrag_none[OF assms(1)] by (cases x) auto
    then have "length r \<le> scratch_left s" using defrag_some[OF assms(1), of e] r by blast
    then show ?thesis using f assms(2) by (auto intro!: whole_ok_scratch elem_min_ok)
  qed
  show "whole_ok ies (ieee80211_mle_defrag_reconf ops s)"
    using assms(2) * by (auto simp: ieee80211_mle_defrag_reconf_def split: option.split)
  show "whole_ok ies (ieee80211_mle_defrag_epcs ops s)"
    using assms(2) * by (auto simp: ieee80211_mle_defrag_epcs_def split: option.split)
qed

lemma whole_ok_init: "whole_ok (p_start params) (parse_init params)"
  by (simp add: whole_ok_def parsed_ok_def fields_ok_def parse_init_def clear_zero_tpe_ok)

lemma whole_ok_dtim: "whole_ok ies s \<Longrightarrow> whole_ok ies (dtim_from_bssid_index (dtim_from_tim s))"
  by (simp add: dtim_from_tim_def dtim_from_bssid_index_def Let_def split: option.split)

lemma parsed_whole_ok:
  assumes "scratch_laws ops" "ieee802_11_parse_elems_full ops oom params = Some s"
  shows "whole_ok (p_start params) s"
proof -
  have "whole_ok (p_start params) (fst (parse_profile ops params (parse_init params)))"
    by (rule whole_ok_profile[OF assms(1) whole_ok_init]) (simp_all add: parse_init_def)
  then show ?thesis
    using assms by (auto simp: ieee802_11_parse_elems_full_def split: if_splits
        intro!: whole_ok_dtim whole_ok_defrag whole_ok_passes)
qed

text \<open>An instance of the called functions for examples: no fragments, everything inherited.\<close>

definition ex_ops :: cfg80211_ops where
  "ex_ops = \<lparr> crc32_be = foldl (\<lambda>c x. c XOR ucast x), cfg80211_is_element_inherited = (\<lambda>_ _. True),
     cfg80211_find_elem = (\<lambda>i b. find (\<lambda>e. elem_id e = i) (elements b)),
     cfg80211_find_ext_elem = (\<lambda>x b. find (\<lambda>e. elem_id e = WLAN_EID_EXTENSION \<and> elem_data e \<noteq> [] \<and> elem_data e ! 0 = x) (elements b)),
     cfg80211_merge_profile = (\<lambda>b elem sub. take (length b) (elem_data sub)),
     cfg80211_gen_new_bssid = (\<lambda>b n i. take 5 b @ [b ! 5 + i]),
     cfg80211_defragment_element = (\<lambda>x b n i. case x of None \<Rightarrow> None
        | Some e \<Rightarrow> let r = (if elem_id e = WLAN_EID_EXTENSION then drop 1 (elem_data e) else elem_data e)
                    in if length r \<le> n then Some r else None) \<rparr>"

lemma ex_ops_laws: "scratch_laws ex_ops"
  by (auto simp: scratch_laws_def ex_ops_def Let_def)

text \<open>A beacon with an SSID, rates, a DTIM and HE capabilities, followed by a cut element.\<close>

definition ex_beacon :: "u8 list" where
  "ex_beacon = [0, 4, 0x74, 0x65, 0x73, 0x74, 1, 2, 0x82, 0x84, 5, 4, 1, 3, 0, 0, 255, 22, 35] @ replicate 21 0 @ [3, 2, 1]"

definition ex_params :: "elems_parse_params" where
  "ex_params = zero_params\<lparr> p_mode := CONN_MODE_EHT, p_start := ex_beacon, p_type := FRAME_BEACON, p_link_id := - 1 \<rparr>"

text \<open>C17: What the parser returns is well formed, for every input: each pointer is followed by the octets its
  structure and its accessors read, each length field is the length of what its pointer points to, an EHT
  capability comes with the HE capability its size depends on, no array of the power envelopes or link
  mappings is overrun, and all that is copied fits the scratch buffer.\<close>

theorem parsed_elems_well_formed:
  assumes "scratch_laws ops" "ieee802_11_parse_elems_full ops oom params = Some s"
  shows "(\<forall>f d. elem_ptr s f = Some d \<longrightarrow> field_min f \<le> length d \<and> field_reads f d \<and> (has_len f \<longrightarrow> elem_len s f = length d)) \<and>
    (elem_ptr s F_eht_cap \<noteq> None \<longrightarrow> elem_ptr s F_he_cap \<noteq> None) \<and>
    length (ttlm s) \<le> TTLM_MAX_CNT \<and> (\<forall>d \<in> set (ttlm s). ieee80211_tid_to_link_map_size_ok d) \<and>
    tpe_ok (elems_tpe s) \<and> tpe_ok (csa_tpe s) \<and>
    scratch_pos s \<le> 3 * length (p_start params)"
proof -
  have "whole_ok (p_start params) s" using parsed_whole_ok[OF assms] .
  then show ?thesis by (simp add: whole_ok_def parsed_ok_def fields_ok_def field_ok_def)
qed

lemma ex_parse:
  "map_option (\<lambda>s. elem_ptr s F_he_cap) (ieee802_11_parse_elems_full ex_ops False ex_params) = Some (Some (replicate 21 0))"
  "map_option (\<lambda>s. (elem_ptr s F_ssid, elem_ptr s F_eht_cap, dtim_period s, parse_error s)) (ieee802_11_parse_elems_full ex_ops False ex_params) =
     Some (Some [0x74, 0x65, 0x73, 0x74], None, 0, 1)"
  by code_simp+

theorem parsed_elems_well_formed_witness:
  "case ieee802_11_parse_elems_full ex_ops False ex_params of
     None \<Rightarrow> False
   | Some s \<Rightarrow> elem_len s F_he_cap = 21 \<and> field_reads F_he_cap (replicate 21 0) \<and> scratch_pos s \<le> 3 * length ex_beacon"
proof -
  obtain s where s: "ieee802_11_parse_elems_full ex_ops False ex_params = Some s" "elem_ptr s F_he_cap = Some (replicate 21 0)"
    using ex_parse(1) by auto
  have "has_len F_he_cap" by (simp add: has_len_def)
  then have "elem_len s F_he_cap = 21 \<and> field_reads F_he_cap (replicate 21 0) \<and> scratch_pos s \<le> 3 * length (p_start ex_params)"
    using parsed_elems_well_formed[OF ex_ops_laws s(1)] s(2) by (metis length_replicate)
  moreover have "p_start ex_params = ex_beacon" by (simp add: ex_params_def)
  ultimately show ?thesis by (simp only: s(1) option.case)
qed

end
