(* ===== verification/Agg_Parse.thy ===== *)
theory Agg_Parse
  imports Agg_Txq Parse_Wf
begin

text \<open>
  The element parser as the block-ack code uses it: \<^verbatim>\<open>ieee80211_retrieve_addba_ext_data\<close> of
  \<^verbatim>\<open>agg-rx.c\<close> calls \<^verbatim>\<open>ieee802_11_parse_elems\<close> and takes the ADDBA extension element.  The
  field \<open>parse_addba_ext\<close> of a peer stands for that call; here it is the call of the model's parser,
  and what the properties of requests and responses assume of it holds.
\<close>

definition parsed_addba_ext :: "cfg80211_ops \<Rightarrow> bool \<Rightarrow> u8 list \<Rightarrow> u8 option" where
  "parsed_addba_ext ops oom b =
     (case ieee802_11_parse_elems ops oom b FRAME_ACTION None of
        None \<Rightarrow> None
      | Some elems \<Rightarrow> if parse_error elems \<noteq> 0 then None else map_option hd (elem_ptr elems F_addba_ext_ie))"

text \<open>The ADDBA extension element on its own is one element of one octet.\<close>

lemma addba_ext_elements:
  "for_each_element [WLAN_EID_ADDBA_EXT, 1, d] =
     ([\<lparr> elem_id = WLAN_EID_ADDBA_EXT, elem_data = [d], elem_follow = [] \<rparr>], [])"
  by (simp add: for_each_element.simps)

lemma addba_ext_pass:
  assumes "p_start params = [WLAN_EID_ADDBA_EXT, 1, d]" "p_filter params = 0"
  shows "fst (parse_elems_pass ops params None s) = store F_addba_ext_ie [d] s"
  using assms
  by (simp add: parse_elems_pass_def parse_loop_def parse_elem_def not_inherited_def parse_elem_switch_def elements_def
      for_each_element_completed_def addba_ext_elements single_elem_ids_def Let_def)

lemma addba_ext_profile:
  assumes "scratch_laws ops" "p_start params = [WLAN_EID_ADDBA_EXT, 1, d]" "p_bss params = None"
  shows "parse_profile ops params (parse_init params) = (parse_init params, zero_params, None, True)"
proof -
  have "find_ml_basic [WLAN_EID_ADDBA_EXT, 1, d] = None"
    by (simp add: find_ml_basic_def for_each_element_extid_def elements_def addba_ext_elements)
  then show ?thesis
    using assms by (simp add: parse_profile_def ieee80211_prep_mle_link_parse_def parse_init_def defrag_none)
qed

lemma addba_ext_parses_model:
  assumes "scratch_laws ops"
  shows "addba_ext_parses (sta\<lparr> parse_addba_ext := parsed_addba_ext ops False \<rparr>)"
proof -
  have "parsed_addba_ext ops False [WLAN_EID_ADDBA_EXT, 1, d] = Some d" for d
  proof -
    let ?params = "zero_params\<lparr> p_mode := CONN_MODE_UHR, p_start := [WLAN_EID_ADDBA_EXT, 1, d], p_type := FRAME_ACTION,
        p_bss := None, p_link_id := - 1 \<rparr>"
    have z: "p_filter zero_params = 0" "p_start zero_params = []" "p_crc zero_params = 0" by (simp_all add: zero_params_def)
    define s where "s = parse_passes ops ?params (parse_init ?params, zero_params, None, True)"
    have s: "elem_ptr s = (\<lambda>_. None)(F_addba_ext_ie := Some [d])" "parse_error s = 0" "ml_reconf_elem s = None" "ml_epcs_elem s = None"
      using addba_ext_pass[of ?params d ops] z
      by (simp_all add: s_def parse_passes_def Let_def split_def) (simp_all add: store_def parse_init_def)
    have fin: "ieee80211_mle_defrag_epcs ops (ieee80211_mle_defrag_reconf ops s) = s"
      using s defrag_none[OF assms] by (simp add: ieee80211_mle_defrag_epcs_def ieee80211_mle_defrag_reconf_def)
    have "ieee802_11_parse_elems ops False [WLAN_EID_ADDBA_EXT, 1, d] FRAME_ACTION None = Some s"
      using addba_ext_profile[OF assms, of ?params d] s fin
      by (simp add: ieee802_11_parse_elems_def ieee802_11_parse_elems_full_def s_def[symmetric] dtim_from_tim_def dtim_from_bssid_index_def)
    then show ?thesis using s by (simp add: parsed_addba_ext_def)
  qed
  then show ?thesis by (simp add: addba_ext_parses_def)
qed

end
