(* ===== verification/Defrag.thy ===== *)
theory Defrag
  imports Reorder "HOL-Library.Sublist"
begin

text \<open>
  Classification of received frames and reassembly of fragments, \<^verbatim>\<open>mac80211/rx.c\<close>:
  \<^verbatim>\<open>ieee80211_parse_qos\<close>, the fragment cache (\<^verbatim>\<open>struct ieee80211_fragment_entry\<close> of \<^verbatim>\<open>sta_info.h\<close>)
  and \<^verbatim>\<open>ieee80211_rx_h_defragment\<close>, which follows decryption in the receive path.

  The cache has four entries, used in turn; an entry holds the fragments of one frame so far with
  the key and packet number they were protected with.  The result \<open>None\<close> of an operation is
  \<^verbatim>\<open>skb_over_panic\<close>, the kernel's stop when a buffer is written beyond its end.  The lemmas show
  that whatever is put together are the fragments of one frame in order, under one key with
  consecutive packet numbers, so that fragments of different frames, keys or senders are never
  mixed, and for which frame sizes no buffer overflows.
\<close>

definition ieee80211_is_ext :: "u16 \<Rightarrow> bool" where
  "ieee80211_is_ext fc \<longleftrightarrow> fc AND IEEE80211_FCTL_FTYPE = IEEE80211_FTYPE_EXT"

abbreviation (input) IEEE80211_RX_AMSDU :: u32 where "IEEE80211_RX_AMSDU \<equiv> 0x8"

subsection \<open>Queues of a received frame\<close>

definition ieee80211_parse_qos :: "ieee80211_rx_data \<Rightarrow> ieee80211_rx_data" where
  "ieee80211_parse_qos rx =
     (let skb = rx_skb rx; hdr = skb_data skb; fc = frame_control hdr; status = skb_rx skb in
      if ieee80211_is_data_qos fc
      then
        (let qc = ieee80211_get_qos_ctl hdr;
             t = qc AND IEEE80211_QOS_CTL_TID_MASK;
             status = (if has_flag qc IEEE80211_QOS_CTL_A_MSDU_PRESENT
                       then status\<lparr>rs_rx_flags := rs_rx_flags status OR IEEE80211_RX_AMSDU\<rparr> else status)
         in rx\<lparr>seqno_idx := unat t, security_idx := unat t,
               rx_skb := skb\<lparr>skb_rx := status, skb_priority := (if t > 7 then 0 else ucast t)\<rparr>\<rparr>)
      else
        rx\<lparr>seqno_idx := 16, security_idx := (if ieee80211_is_mgmt fc then 16 else 0),
           rx_skb := skb\<lparr>skb_priority := 0\<rparr>\<rparr>)"

lemma parse_qos_idx: "seqno_idx (ieee80211_parse_qos rx) \<le> 16" "security_idx (ieee80211_parse_qos rx) \<le> 16"
proof -
  have "unat (qc AND 0x0f) \<le> 16" for qc :: u8
  proof -
    have "qc AND 0x0f \<le> 0x0f" by (rule word_and_le1)
    then have "unat (qc AND 0x0f) \<le> unat (0x0f :: u8)" by (rule word_le_nat_alt[THEN iffD1])
    then show ?thesis by simp
  qed
  then show "seqno_idx (ieee80211_parse_qos rx) \<le> 16" "security_idx (ieee80211_parse_qos rx) \<le> 16"
    by (simp_all add: ieee80211_parse_qos_def Let_def)
qed

subsection \<open>The fragment cache\<close>

record ieee80211_fragment_entry =
  skb_list :: "sk_buff list"
  first_frag_time :: u64
  frag_seq :: u16
  extra_len :: u16
  last_frag :: u16
  rx_queue :: u8
  check_sequential_pn :: bool
  is_protected :: bool
  last_pn :: "u8 list"
  key_color :: u32

record ieee80211_fragment_cache =
  entries :: "ieee80211_fragment_entry list"
  next_entry :: nat

abbreviation (input) IEEE80211_FRAGMENT_MAX :: nat where "IEEE80211_FRAGMENT_MAX \<equiv> 4"

definition ieee80211_destroy_frag_cache :: "ieee80211_fragment_cache \<Rightarrow> ieee80211_fragment_cache" where
  "ieee80211_destroy_frag_cache cache = cache\<lparr>entries := map (\<lambda>e. e\<lparr>skb_list := []\<rparr>) (entries cache)\<rparr>"

definition put_entry :: "nat \<Rightarrow> ieee80211_fragment_entry \<Rightarrow> ieee80211_fragment_cache \<Rightarrow> ieee80211_fragment_cache" where
  "put_entry i e cache = cache\<lparr>entries := (entries cache)[i := e]\<rparr>"

text \<open>The number of the entry taken, and the cache.\<close>

definition ieee80211_reassemble_add ::
  "u64 \<Rightarrow> nat \<Rightarrow> u16 \<Rightarrow> nat \<Rightarrow> sk_buff \<Rightarrow> ieee80211_fragment_cache \<Rightarrow> nat \<times> ieee80211_fragment_cache" where
  "ieee80211_reassemble_add jiffies frag seq queue skb cache =
     (let i = next_entry cache;
          e = (entries cache ! i)\<lparr>skb_list := [skb], first_frag_time := jiffies, frag_seq := seq, rx_queue := of_nat queue,
                last_frag := of_nat frag, check_sequential_pn := False, extra_len := 0\<rparr>
      in (i, put_entry i e (cache\<lparr>next_entry := (if i + 1 \<ge> IEEE80211_FRAGMENT_MAX then 0 else i + 1)\<rparr>)))"

text \<open>
  The search goes backwards from the entry used last; an entry that matches but is too old is
  emptied.  The first argument counts the entries left, the second is the last index looked at.
\<close>

definition same_source :: "u8 list \<Rightarrow> u8 list \<Rightarrow> bool" where
  "same_source hdr f_hdr \<longleftrightarrow>
     (frame_control hdr XOR frame_control f_hdr) AND IEEE80211_FCTL_FTYPE = 0 \<and>
     addr1 hdr = addr1 f_hdr \<and> addr2 hdr = addr2 f_hdr"

definition frag_matches :: "nat \<Rightarrow> u16 \<Rightarrow> nat \<Rightarrow> u8 list \<Rightarrow> ieee80211_fragment_entry \<Rightarrow> bool" where
  "frag_matches frag seq queue hdr e \<longleftrightarrow>
     skb_list e \<noteq> [] \<and> frag_seq e = seq \<and> unat (rx_queue e) = queue \<and> unat (last_frag e) + 1 = frag \<and>
     same_source hdr (skb_data (hd (skb_list e)))"

fun ieee80211_reassemble_find ::
  "nat \<Rightarrow> nat \<Rightarrow> u64 \<Rightarrow> u64 \<Rightarrow> nat \<Rightarrow> u16 \<Rightarrow> nat \<Rightarrow> u8 list \<Rightarrow> ieee80211_fragment_cache \<Rightarrow>
     nat option \<times> ieee80211_fragment_cache" where
  "ieee80211_reassemble_find 0 idx hz jiffies frag seq queue hdr cache = (None, cache)"
| "ieee80211_reassemble_find (Suc i) idx hz jiffies frag seq queue hdr cache =
     (let idx = (if idx = 0 then IEEE80211_FRAGMENT_MAX - 1 else idx - 1); e = entries cache ! idx in
      if \<not> frag_matches frag seq queue hdr e
      then ieee80211_reassemble_find i idx hz jiffies frag seq queue hdr cache
      else if time_after jiffies (first_frag_time e + 2 * hz)
      then ieee80211_reassemble_find i idx hz jiffies frag seq queue hdr (put_entry idx (e\<lparr>skb_list := []\<rparr>) cache)
      else (Some idx, cache))"

subsection \<open>Reassembly\<close>

definition requires_sequential_pn :: "ieee80211_rx_data \<Rightarrow> u16 \<Rightarrow> bool" where
  "requires_sequential_pn rx fc \<longleftrightarrow>
     (case rx_key rx of
        None \<Rightarrow> False
      | Some key \<Rightarrow>
          kc_cipher (conf key) \<in> {WLAN_CIPHER_SUITE_CCMP, WLAN_CIPHER_SUITE_CCMP_256, WLAN_CIPHER_SUITE_GCMP,
                                   WLAN_CIPHER_SUITE_GCMP_256} \<and>
          ieee80211_has_protected fc)"

text \<open>
  \<^verbatim>\<open>key->u.ccmp.rx_pn[queue]\<close>, which the code also reads for GCMP keys: the two members of the
  union have it at the same place, as the code makes sure when it is compiled.
\<close>

definition key_rx_pn :: "ieee80211_key \<Rightarrow> nat \<Rightarrow> u8 list" where
  "key_rx_pn key queue =
     aead_rx_pn (if kc_cipher (conf key) \<in> {WLAN_CIPHER_SUITE_GCMP, WLAN_CIPHER_SUITE_GCMP_256}
                 then u_gcmp key else u_ccmp key) ! queue"

text \<open>The packet number plus one, octets in network order; from the last octet while it wraps.\<close>

fun carry :: "u8 list \<Rightarrow> u8 list" where
  "carry [] = []"
| "carry (b # bs) = (if b + 1 \<noteq> 0 then (b + 1) # bs else 0 # carry bs)"

definition next_pn :: "u8 list \<Rightarrow> u8 list" where
  "next_pn pn = rev (carry (rev pn))"

text \<open>What the entry of a first fragment remembers of its protection.\<close>

definition frag_protection :: "ieee80211_rx_data \<Rightarrow> ieee80211_fragment_entry \<Rightarrow> ieee80211_fragment_entry" where
  "frag_protection rx e =
     (let fc = frame_control (skb_data (rx_skb rx)) in
      case rx_key rx of
        None \<Rightarrow> e
      | Some key \<Rightarrow>
          if requires_sequential_pn rx fc
          then e\<lparr>check_sequential_pn := True, is_protected := True, key_color := color key,
                 last_pn := key_rx_pn key (security_idx rx)\<rparr>
          else if ieee80211_has_protected fc \<or> has_flag (rx_flag rx) RX_FLAG_DECRYPTED
          then e\<lparr>is_protected := True, key_color := color key\<rparr>
          else e)"

text \<open>
  The checks of a further fragment against its entry: the reason to drop it, or the entry with
  the packet number it has reached.
\<close>

definition frag_check :: "ieee80211_rx_data \<Rightarrow> ieee80211_fragment_entry \<Rightarrow> rx_result + ieee80211_fragment_entry" where
  "frag_check rx e =
     (let fc = frame_control (skb_data (rx_skb rx)); decrypted = has_flag (rx_flag rx) RX_FLAG_DECRYPTED in
      if check_sequential_pn e
      then
        (if \<not> requires_sequential_pn rx fc then Inl RX_DROP_U_NONSEQ_PN
         else if key_color e \<noteq> color (the (rx_key rx)) then Inl RX_DROP_U_BAD_KEY_COLOR
         else
           (let pn = next_pn (last_pn e) in
            if memcmp pn (ccm_gcm_pn rx) \<noteq> 0 then Inl RX_DROP_U_REPLAY
            else Inr (e\<lparr>last_pn := pn\<rparr>)))
      else
        (case rx_key rx of
           None \<Rightarrow> if is_protected e then Inl RX_DROP_U_EXPECT_DEFRAG_PROT else Inr e
         | Some key \<Rightarrow>
             if is_protected e \<and> (\<not> ieee80211_has_protected fc \<and> \<not> decrypted \<or> color key \<noteq> key_color e)
             then Inl RX_DROP_U_EXPECT_DEFRAG_PROT
             else if is_protected e \<and> key_color e \<noteq> color key \<and> decrypted
             then Inl RX_DROP_U_BAD_KEY_COLOR
             else Inr e))"

text \<open>
  \<^verbatim>\<open>skb_put_data\<close>: appending to a buffer without room stops the kernel.  \<^verbatim>\<open>pskb_expand_head\<close> gives
  the room asked for.
\<close>

definition skb_put_data :: "u8 list \<Rightarrow> sk_buff \<Rightarrow> sk_buff option" where
  "skb_put_data d skb =
     (if skb_tailroom skb < length d then None
      else Some (skb\<lparr>skb_data := skb_data skb @ d, skb_tail := drop (length d) (skb_tail skb)\<rparr>))"

fun put_fragments :: "sk_buff list \<Rightarrow> sk_buff \<Rightarrow> sk_buff option" where
  "put_fragments [] skb = Some skb"
| "put_fragments (f # fs) skb = Option.bind (skb_put_data (skb_data f) skb) (put_fragments fs)"

definition expand_tail :: "nat \<Rightarrow> sk_buff \<Rightarrow> sk_buff" where
  "expand_tail n skb = skb\<lparr>skb_tail := skb_tail skb @ replicate n 0\<rparr>"

text \<open>The last fragment has arrived: the frame is put together in the buffer of the first.\<close>

definition defrag_finish ::
  "nat \<Rightarrow> ieee80211_fragment_entry \<Rightarrow> ieee80211_rx_data \<Rightarrow> ieee80211_fragment_cache \<Rightarrow>
     (rx_result \<times> ieee80211_rx_data \<times> ieee80211_fragment_cache) option" where
  "defrag_finish i e rx cache =
     (let skb = hd (skb_list e); rest = tl (skb_list e); cache = put_entry i (e\<lparr>skb_list := []\<rparr>) cache;
          short = skb_tailroom skb < unat (extra_len e)
      in if short \<and> skb_oom skb Alloc_Expand then Some (RX_DROP_U_OOM, rx\<lparr>rx_skb := skb\<rparr>, cache)
         else map_option (\<lambda>skb. (RX_CONTINUE, rx\<lparr>rx_skb := skb\<rparr>, cache))
                (put_fragments rest (if short then expand_tail (unat (extra_len e)) skb else skb)))"

text \<open>
  The handler; \<open>cache\<close> is that of the station, or of the interface for a frame without station.
  With \<open>RX_QUEUED\<close> the frame has gone into the cache.
\<close>

definition ieee80211_rx_h_defragment ::
  "extern \<Rightarrow> u64 \<Rightarrow> u64 \<Rightarrow> ieee80211_rx_data \<Rightarrow> ieee80211_fragment_cache \<Rightarrow>
     (rx_result \<times> ieee80211_rx_data \<times> ieee80211_fragment_cache) option" where
  "ieee80211_rx_h_defragment x hz jiffies rx cache =
     (let skb = rx_skb rx; hdr = skb_data skb; fc = frame_control hdr in
      if ieee80211_is_ctl fc \<or> ieee80211_is_ext fc then Some (RX_CONTINUE, rx, cache)
      else
        (let sc = seq_ctrl hdr; frag = unat (sc AND IEEE80211_SCTL_FRAG) in
         if \<not> ieee80211_has_morefrags fc \<and> frag = 0 then Some (RX_CONTINUE, rx, cache)
         else if is_multicast_ether_addr (addr1 hdr) then Some (RX_DROP, rx, cache)
         else if skb_linearize_fails skb then Some (RX_DROP_U_OOM, rx, cache)
         else
           (let seq = drop_bit 4 (sc AND IEEE80211_SCTL_SEQ) in
            if frag = 0
            then (let (i, cache) = ieee80211_reassemble_add jiffies frag seq (seqno_idx rx) skb cache
                  in Some (RX_QUEUED, rx, put_entry i (frag_protection rx (entries cache ! i)) cache))
            else
              (case ieee80211_reassemble_find IEEE80211_FRAGMENT_MAX (next_entry cache) hz jiffies frag seq (seqno_idx rx) hdr cache of
                 (None, cache) \<Rightarrow> Some (RX_DROP, rx, cache)
               | (Some i, cache) \<Rightarrow>
                   (case frag_check rx (entries cache ! i) of
                      Inl reason \<Rightarrow> Some (reason, rx, cache)
                    | Inr e \<Rightarrow>
                        (let skb = skb_pull (x_hdrlen x fc) skb;
                             e = e\<lparr>skb_list := skb_list e @ [skb], last_frag := of_nat frag,
                                   extra_len := extra_len e + of_nat (skb_len skb)\<rparr>
                         in if ieee80211_has_morefrags fc
                            then Some (RX_QUEUED, rx, put_entry i e cache)
                            else defrag_finish i e rx cache))))))"


subsection \<open>Packet numbers\<close>

lemma be_nat_append: "be_nat (xs @ ys) = be_nat xs * 256 ^ length ys + be_nat ys"
  by (induction xs) (simp_all add: power_add algebra_simps)

lemma carry_value: "be_nat (rev (carry bs)) = (be_nat (rev bs) + 1) mod 256 ^ length bs" "length (carry bs) = length bs"
proof (induction bs)
  case Nil
  show "be_nat (rev (carry [])) = (be_nat (rev []) + 1) mod 256 ^ length []" "length (carry []) = length []" by simp_all
next
  case (Cons b bs)
  show "length (carry (b # bs)) = length (b # bs)" using Cons by simp
  show "be_nat (rev (carry (b # bs))) = (be_nat (rev (b # bs)) + 1) mod 256 ^ length (b # bs)"
  proof (cases "b + 1 = 0")
    case True
    then have "b = - 1" by (simp add: eq_neg_iff_add_eq_0)
    then have "unat b = 255" by (simp add: unsigned_minus_1_eq_mask mask_eq_exp_minus_1)
    then have "be_nat (rev (b # bs)) + 1 = 256 * (be_nat (rev bs) + 1)" by (simp add: be_nat_append)
    moreover have "be_nat (rev (carry (b # bs))) = 256 * be_nat (rev (carry bs))"
      using True by (simp add: be_nat_append)
    ultimately show ?thesis using Cons by (simp only: mult_mod_right list.size power_Suc add_Suc_right add_0_right)
  next
    case False
    then have "unat (b + 1) = unat b + 1" using unatSuc[of b] by (simp add: add.commute)
    then have eq: "be_nat (rev (carry (b # bs))) = be_nat (rev (b # bs)) + 1"
      using False by (simp add: be_nat_append)
    moreover have "be_nat (rev (carry (b # bs))) < 256 ^ length (b # bs)"
      using be_nat_lt[of "rev (carry (b # bs))"] Cons False by simp
    ultimately show ?thesis by (metis mod_less)
  qed
qed

lemma next_pn_value: "be_nat (next_pn pn) = (be_nat pn + 1) mod 256 ^ length pn" "length (next_pn pn) = length pn"
  using carry_value[of "rev pn"] by (simp_all add: next_pn_def)

subsection \<open>Fragments of one frame\<close>

text \<open>A frame given to the handler, with the time it is handled.\<close>

type_synonym frag_event = "u64 \<times> ieee80211_rx_data"

abbreviation frag_hdr :: "frag_event \<Rightarrow> u8 list" where
  "frag_hdr f \<equiv> skb_data (rx_skb (snd f))"

definition frag_no :: "frag_event \<Rightarrow> nat" where
  "frag_no f = unat (seq_ctrl (frag_hdr f) AND IEEE80211_SCTL_FRAG)"

definition needs_pn :: "frag_event \<Rightarrow> bool" where
  "needs_pn f \<longleftrightarrow> requires_sequential_pn (snd f) (frame_control (frag_hdr f))"

definition shielded :: "frag_event \<Rightarrow> bool" where
  "shielded f \<longleftrightarrow> rx_key (snd f) \<noteq> None \<and>
     (ieee80211_has_protected (frame_control (frag_hdr f)) \<or> has_flag (rx_flag (snd f)) RX_FLAG_DECRYPTED)"

definition frag_color :: "frag_event \<Rightarrow> u32" where
  "frag_color f = color (the (rx_key (snd f)))"

definition start_pn :: "frag_event \<Rightarrow> nat" where
  "start_pn f = be_nat (key_rx_pn (the (rx_key (snd f))) (security_idx (snd f)))"

definition payload :: "extern \<Rightarrow> frag_event \<Rightarrow> u8 list" where
  "payload x f = drop (x_hdrlen x (frame_control (frag_hdr f))) (frag_hdr f)"

text \<open>\<open>f\<close> is fragment \<open>i\<close> of the frame that \<open>f0\<close> starts.\<close>

definition continues :: "u64 \<Rightarrow> frag_event \<Rightarrow> nat \<Rightarrow> frag_event \<Rightarrow> bool" where
  "continues hz f0 i f \<longleftrightarrow>
     frag_no f = i \<and> ieee80211_get_sn (frag_hdr f) = ieee80211_get_sn (frag_hdr f0) \<and>
     seqno_idx (snd f) = seqno_idx (snd f0) \<and> same_source (frag_hdr f) (frag_hdr f0) \<and>
     \<not> time_after (fst f) (fst f0 + 2 * hz) \<and>
     (needs_pn f0 \<longrightarrow> needs_pn f \<and> be_nat (ccm_gcm_pn (snd f)) = (start_pn f0 + i) mod 2 ^ 48) \<and>
     (shielded f0 \<longrightarrow> shielded f \<and> frag_color f = frag_color f0)"

definition frag_chain :: "u64 \<Rightarrow> frag_event list \<Rightarrow> bool" where
  "frag_chain hz fs \<longleftrightarrow>
     fs \<noteq> [] \<and> frag_no (hd fs) = 0 \<and> (\<forall>i. 0 < i \<and> i < length fs \<longrightarrow> continues hz (hd fs) i (fs ! i)) \<and>
     (\<forall>f\<in>set (butlast fs). ieee80211_has_morefrags (frame_control (frag_hdr f)))"

definition frag_frame :: "frag_event \<Rightarrow> bool" where
  "frag_frame f \<longleftrightarrow> seqno_idx (snd f) \<le> 16 \<and>
     (needs_pn f \<longrightarrow> length (ccm_gcm_pn (snd f)) = 6 \<and> length (key_rx_pn (the (rx_key (snd f))) (security_idx (snd f))) = 6)"

text \<open>The entry that holds the fragments \<open>fs\<close>, all with more to come.\<close>

definition collected :: "extern \<Rightarrow> u64 \<Rightarrow> frag_event list \<Rightarrow> ieee80211_fragment_entry \<Rightarrow> bool" where
  "collected x hz fs e \<longleftrightarrow>
     frag_chain hz fs \<and> (\<forall>f\<in>set fs. ieee80211_has_morefrags (frame_control (frag_hdr f))) \<and>
     skb_list e = rx_skb (snd (hd fs)) # map (\<lambda>f. skb_pull (x_hdrlen x (frame_control (frag_hdr f))) (rx_skb (snd f))) (tl fs) \<and>
     first_frag_time e = fst (hd fs) \<and> frag_seq e = ieee80211_get_sn (frag_hdr (hd fs)) \<and>
     unat (rx_queue e) = seqno_idx (snd (hd fs)) \<and> unat (last_frag e) + 1 = length fs \<and>
     extra_len e = of_nat (sum_list (map (length \<circ> payload x) (tl fs))) \<and>
     (check_sequential_pn e \<longleftrightarrow> needs_pn (hd fs)) \<and>
     (needs_pn (hd fs) \<longrightarrow> length (last_pn e) = 6 \<and> be_nat (last_pn e) = (start_pn (hd fs) + (length fs - 1)) mod 2 ^ 48) \<and>
     (shielded (hd fs) \<longrightarrow> is_protected e \<and> key_color e = frag_color (hd fs))"

definition cache_ok :: "extern \<Rightarrow> u64 \<Rightarrow> frag_event list \<Rightarrow> ieee80211_fragment_cache \<Rightarrow> bool" where
  "cache_ok x hz hist c \<longleftrightarrow>
     length (entries c) = IEEE80211_FRAGMENT_MAX \<and> next_entry c < IEEE80211_FRAGMENT_MAX \<and>
     (\<forall>i<IEEE80211_FRAGMENT_MAX. skb_list (entries c ! i) = [] \<or> (\<exists>fs. subseq fs hist \<and> collected x hz fs (entries c ! i)))"

lemma needs_pn_shielded: "needs_pn f \<Longrightarrow> shielded f"
  by (auto simp: needs_pn_def requires_sequential_pn_def shielded_def split: option.splits)

lemma cache_ok_put:
  assumes "cache_ok x hz hist c" "i < IEEE80211_FRAGMENT_MAX"
    "skb_list e = [] \<or> (\<exists>fs. subseq fs hist \<and> collected x hz fs e)"
  shows "cache_ok x hz hist (put_entry i e c)"
  using assms by (auto simp: cache_ok_def put_entry_def nth_list_update)

lemma cache_ok_more: "cache_ok x hz hist c \<Longrightarrow> cache_ok x hz (hist @ [f]) c"
  unfolding cache_ok_def by (meson subseq_rev_drop_many)

lemma find_ok:
  assumes "cache_ok x hz hist c" "idx \<le> IEEE80211_FRAGMENT_MAX"
    "ieee80211_reassemble_find n idx hz now frag seq q hdr c = (r, c')"
  shows "cache_ok x hz hist c' \<and>
    (\<forall>i. r = Some i \<longrightarrow> i < IEEE80211_FRAGMENT_MAX \<and> frag_matches frag seq q hdr (entries c' ! i) \<and>
       \<not> time_after now (first_frag_time (entries c' ! i) + 2 * hz))"
  using assms
proof (induction n idx hz now frag seq q hdr c arbitrary: r rule: ieee80211_reassemble_find.induct)
  case (1 idx hz jiffies frag seq queue hdr cache)
  then show ?case by simp
next
  case (2 n idx hz jiffies frag seq queue hdr cache)
  define k where "k = (if idx = 0 then IEEE80211_FRAGMENT_MAX - 1 else idx - 1)"
  have k: "k < IEEE80211_FRAGMENT_MAX" using 2(4) by (auto simp: k_def)
  have purge: "cache_ok x hz hist (put_entry k ((entries cache ! k)\<lparr>skb_list := []\<rparr>) cache)"
    using 2(3) k by (intro cache_ok_put) simp_all
  show ?case
    using 2(5) 2(1,2)[OF k_def refl] 2(3) k purge
    by (auto simp: k_def[symmetric] Let_def split: if_splits)
qed

lemma find_okD:
  assumes "cache_ok x hz hist c"
    "ieee80211_reassemble_find IEEE80211_FRAGMENT_MAX (next_entry c) hz now frag seq q hdr c = (r, c')"
  shows "cache_ok x hz hist c'" "r = Some i \<Longrightarrow> i < IEEE80211_FRAGMENT_MAX"
    "r = Some i \<Longrightarrow> frag_matches frag seq q hdr (entries c' ! i)"
    "r = Some i \<Longrightarrow> \<not> time_after now (first_frag_time (entries c' ! i) + 2 * hz)"
    "r = Some i \<Longrightarrow> \<exists>fs. subseq fs hist \<and> collected x hz fs (entries c' ! i)"
proof -
  have n: "next_entry c \<le> IEEE80211_FRAGMENT_MAX" using assms(1) by (simp add: cache_ok_def)
  note f = find_ok[OF assms(1) n assms(2)]
  show "cache_ok x hz hist c'" "r = Some i \<Longrightarrow> i < IEEE80211_FRAGMENT_MAX"
    "r = Some i \<Longrightarrow> frag_matches frag seq q hdr (entries c' ! i)"
    "r = Some i \<Longrightarrow> \<not> time_after now (first_frag_time (entries c' ! i) + 2 * hz)"
    using f by blast+
  show "r = Some i \<Longrightarrow> \<exists>fs. subseq fs hist \<and> collected x hz fs (entries c' ! i)"
    using f by (auto simp: cache_ok_def frag_matches_def)
qed

lemma frag_no_le: "frag_no f \<le> 15"
proof -
  have "seq_ctrl (frag_hdr f) AND IEEE80211_SCTL_FRAG \<le> 0x000F" by (rule word_and_le1)
  then show ?thesis by (simp add: frag_no_def word_le_nat_alt)
qed

text \<open>A first fragment starts an entry.\<close>

lemma collected_first:
  assumes "frag_no f = 0" "ieee80211_has_morefrags (frame_control (frag_hdr f))" "frag_frame f"
    and "skb_list e = [rx_skb (snd f)]" "first_frag_time e = fst f" "frag_seq e = ieee80211_get_sn (frag_hdr f)"
      "rx_queue e = of_nat (seqno_idx (snd f))" "last_frag e = 0" "\<not> check_sequential_pn e" "extra_len e = 0"
  shows "collected x hz [f] (frag_protection (snd f) e)"
proof -
  have q: "unat (of_nat (seqno_idx (snd f)) :: u8) = seqno_idx (snd f)"
    using assms(3) by (simp add: frag_frame_def unat_of_nat take_bit_nat_eq_self)
  have "be_nat p mod 2 ^ 48 = be_nat p" if "length p = 6" for p
    using be_nat_lt[of p] that by simp
  then show ?thesis
    using assms q
    by (auto simp: collected_def frag_chain_def frag_protection_def needs_pn_def shielded_def frag_color_def start_pn_def
        frag_frame_def requires_sequential_pn_def Let_def split: option.splits)
qed

text \<open>A fragment that passes the checks continues the frame of its entry.\<close>

lemma frag_check_continues:
  assumes e: "collected x hz fs e" and f: "frag_frame f"
    and m: "frag_matches (frag_no f) (ieee80211_get_sn (frag_hdr f)) (seqno_idx (snd f)) (frag_hdr f) e"
      "\<not> time_after (fst f) (first_frag_time e + 2 * hz)"
    and c: "frag_check (snd f) e = Inr e'"
  shows "continues hz (hd fs) (length fs) f \<and> e' = e\<lparr>last_pn := last_pn e'\<rparr> \<and>
    (needs_pn (hd fs) \<longrightarrow> length (last_pn e') = 6 \<and> be_nat (last_pn e') = (start_pn (hd fs) + length fs) mod 2 ^ 48)"
proof -
  have fs: "fs \<noteq> []" using e by (simp add: collected_def frag_chain_def)
  then obtain k where k: "length fs = Suc k" by (cases fs) auto
  have base: "frag_no f = length fs" "ieee80211_get_sn (frag_hdr f) = ieee80211_get_sn (frag_hdr (hd fs))"
    "seqno_idx (snd f) = seqno_idx (snd (hd fs))" "same_source (frag_hdr f) (frag_hdr (hd fs))"
    "\<not> time_after (fst f) (fst (hd fs) + 2 * hz)"
    using e m by (auto simp: collected_def frag_matches_def)
  show ?thesis
  proof (cases "check_sequential_pn e")
    case True
    then have np: "needs_pn (hd fs)" using e by (simp add: collected_def)
    then have l: "length (last_pn e) = 6" "be_nat (last_pn e) = (start_pn (hd fs) + k) mod 2 ^ 48"
        "shielded (hd fs)" "key_color e = frag_color (hd fs)"
      using e k needs_pn_shielded[OF np] by (auto simp: collected_def)
    have ck: "needs_pn f" "frag_color f = frag_color (hd fs)" "e' = e\<lparr>last_pn := next_pn (last_pn e)\<rparr>"
        "memcmp (next_pn (last_pn e)) (ccm_gcm_pn (snd f)) = 0"
      using c True l(4) by (auto simp: frag_check_def needs_pn_def frag_color_def Let_def split: if_splits)
    have lp: "length (ccm_gcm_pn (snd f)) = 6" using f ck(1) by (simp add: frag_frame_def)
    have nx: "be_nat (next_pn (last_pn e)) = (start_pn (hd fs) + length fs) mod 2 ^ 48" "length (next_pn (last_pn e)) = 6"
      using next_pn_value[of "last_pn e"] l(1,2) k by (simp_all add: mod_Suc_eq)
    moreover have "be_nat (next_pn (last_pn e)) = be_nat (ccm_gcm_pn (snd f))"
      using ck(4) nx(2) lp by (simp add: memcmp_zero_iff)
    ultimately show ?thesis
      using base ck needs_pn_shielded[OF ck(1)] by (simp add: continues_def)
  next
    case False
    then have np: "\<not> needs_pn (hd fs)" using e by (simp add: collected_def)
    have e': "e' = e" using c False by (auto simp: frag_check_def Let_def split: option.splits if_splits)
    have "shielded f \<and> frag_color f = frag_color (hd fs)" if "shielded (hd fs)"
    proof -
      have "is_protected e" "key_color e = frag_color (hd fs)" using e that by (simp_all add: collected_def)
      then show ?thesis
        using c False by (auto simp: frag_check_def shielded_def frag_color_def Let_def split: option.splits if_splits)
    qed
    then show ?thesis using base np e' by (simp add: continues_def)
  qed
qed

lemma chain_extend:
  assumes "frag_chain hz fs" "\<forall>f\<in>set fs. ieee80211_has_morefrags (frame_control (frag_hdr f))"
    "continues hz (hd fs) (length fs) f"
  shows "frag_chain hz (fs @ [f])"
  using assms by (auto simp: frag_chain_def nth_append less_Suc_eq)

lemma collected_extend:
  assumes e: "collected x hz fs e" and c: "continues hz (hd fs) (length fs) f"
    and more: "ieee80211_has_morefrags (frame_control (frag_hdr f))"
    and pn: "needs_pn (hd fs) \<Longrightarrow> length p = 6 \<and> be_nat p = (start_pn (hd fs) + length fs) mod 2 ^ 48"
  defines "skb \<equiv> skb_pull (x_hdrlen x (frame_control (frag_hdr f))) (rx_skb (snd f))"
  shows "collected x hz (fs @ [f])
    (e\<lparr>last_pn := p, skb_list := skb_list e @ [skb], last_frag := of_nat (frag_no f), extra_len := extra_len e + of_nat (skb_len skb)\<rparr>)"
proof -
  have fs: "fs \<noteq> []" using e by (simp add: collected_def frag_chain_def)
  have chain: "frag_chain hz (fs @ [f])"
    using e c by (intro chain_extend) (auto simp: collected_def)
  have "frag_no f = length fs" using c by (simp add: continues_def)
  moreover have "unat (of_nat (frag_no f) :: u16) = frag_no f"
    using frag_no_le[of f] by (simp add: unat_of_nat take_bit_nat_eq_self)
  moreover have "skb_len skb = length (payload x f)" by (simp add: skb_def payload_def skb_pull_def)
  ultimately show ?thesis
    using e more pn chain fs by (auto simp: collected_def skb_def[symmetric] add.commute)
qed

subsection \<open>Every step\<close>

lemma put_fragments_data:
  "put_fragments fs skb = Some skb' \<Longrightarrow> skb_data skb' = skb_data skb @ concat (map skb_data fs)"
  by (induction fs arbitrary: skb) (auto simp: skb_put_data_def bind_eq_Some_conv split: if_splits)

lemma put_fragments_room:
  "sum_list (map (length \<circ> skb_data) fs) \<le> skb_tailroom skb \<Longrightarrow> put_fragments fs skb \<noteq> None"
  by (induction fs arbitrary: skb) (auto simp: skb_put_data_def skb_tailroom_def)

lemma put_fragments_overflow:
  "skb_tailroom skb < sum_list (map (length \<circ> skb_data) fs) \<Longrightarrow> put_fragments fs skb = None"
  by (induction fs arbitrary: skb) (auto simp: skb_put_data_def skb_tailroom_def)

lemma sum_list_le_mult: "\<forall>n\<in>set ns. n \<le> b \<Longrightarrow> sum_list ns \<le> length ns * (b :: nat)"
  by (induction ns) auto

text \<open>The cases of the handler for a frame that is a fragment.\<close>

lemma defragment_cases:
  assumes ok: "cache_ok x hz hist c" and f: "frag_frame f"
    and r: "ieee80211_rx_h_defragment x hz (fst f) (snd f) c = res"
    and frag: "ieee80211_is_frag (frag_hdr f)" "\<not> ieee80211_is_ctl (frame_control (frag_hdr f))"
      "\<not> ieee80211_is_ext (frame_control (frag_hdr f))"
  obtains (dropped) reason c' where "res = Some (reason, snd f, c')" "reason \<notin> {RX_CONTINUE, RX_QUEUED}" "cache_ok x hz (hist @ [f]) c'"
  | (queued) c' where "res = Some (RX_QUEUED, snd f, c')" "cache_ok x hz (hist @ [f]) c'"
  | (last) fs c' i e where "subseq fs hist" "cache_ok x hz hist c'" "i < IEEE80211_FRAGMENT_MAX" "frag_chain hz (fs @ [f])" "fs \<noteq> []"
      "skb_list e = rx_skb (snd (hd fs)) #
         map (\<lambda>f. skb_pull (x_hdrlen x (frame_control (frag_hdr f))) (rx_skb (snd f))) (tl fs @ [f])"
      "extra_len e = of_nat (sum_list (map (length \<circ> payload x) (tl fs @ [f])))"
      "res = defrag_finish i e (snd f) c'"
proof -
  let ?hdr = "frag_hdr f" and ?sc = "seq_ctrl (frag_hdr f)"
  have no: "unat (?sc AND IEEE80211_SCTL_FRAG) = frag_no f" by (simp add: frag_no_def)
  have sn: "drop_bit 4 (?sc AND IEEE80211_SCTL_SEQ) = ieee80211_get_sn ?hdr" by (simp add: ieee80211_get_sn_def)
  have any: "ieee80211_has_morefrags (frame_control ?hdr) \<or> frag_no f \<noteq> 0"
    using frag(1) unfolding ieee80211_is_frag_def frag_no_def unat_eq_0 .
  note R = r[unfolded ieee80211_rx_h_defragment_def Let_def no sn]
  have ok': "cache_ok x hz (hist @ [f]) c" using ok by (rule cache_ok_more)
  consider (early) reason where "res = Some (reason, snd f, c)" "reason \<notin> {RX_CONTINUE, RX_QUEUED}"
    | (first) "frag_no f = 0" "res = (let (i, cache) = ieee80211_reassemble_add (fst f) 0 (ieee80211_get_sn ?hdr) (seqno_idx (snd f)) (rx_skb (snd f)) c
         in Some (RX_QUEUED, snd f, put_entry i (frag_protection (snd f) (entries cache ! i)) cache))"
    | (find) r' c' where "frag_no f \<noteq> 0"
        "ieee80211_reassemble_find IEEE80211_FRAGMENT_MAX (next_entry c) hz (fst f) (frag_no f) (ieee80211_get_sn ?hdr) (seqno_idx (snd f)) ?hdr c = (r', c')"
        "res = (case r' of None \<Rightarrow> Some (RX_DROP, snd f, c') | Some i \<Rightarrow>
           (case frag_check (snd f) (entries c' ! i) of
              Inl reason \<Rightarrow> Some (reason, snd f, c')
            | Inr e \<Rightarrow>
              (let skb = skb_pull (x_hdrlen x (frame_control ?hdr)) (rx_skb (snd f));
                   e = e\<lparr>skb_list := skb_list e @ [skb], last_frag := of_nat (frag_no f), extra_len := extra_len e + of_nat (skb_len skb)\<rparr>
               in if ieee80211_has_morefrags (frame_control ?hdr) then Some (RX_QUEUED, snd f, put_entry i e c')
                  else defrag_finish i e (snd f) c')))"
  proof -
    obtain r' c' where rc: "ieee80211_reassemble_find IEEE80211_FRAGMENT_MAX (next_entry c) hz (fst f) (frag_no f) (ieee80211_get_sn ?hdr)
        (seqno_idx (snd f)) ?hdr c = (r', c')" by fastforce
    show thesis
    proof (cases "is_multicast_ether_addr (addr1 ?hdr) \<or> skb_linearize_fails (rx_skb (snd f))")
      case True
      then show thesis using early[of RX_DROP] early[of RX_DROP_U_OOM] R any frag(2,3) by (auto split: if_splits)
    next
      case False
      then show thesis
        using first find[OF _ rc, unfolded Let_def] R any frag(2,3) by (cases "frag_no f = 0") (auto simp: rc Let_def split: option.splits)
    qed
  qed
  then show thesis
  proof cases
    case early
    then show thesis using dropped ok' by blast
  next
    case first
    define i where "i = next_entry c"
    define e where "e = (entries c ! i)\<lparr>skb_list := [rx_skb (snd f)], first_frag_time := fst f, frag_seq := ieee80211_get_sn ?hdr,
        rx_queue := of_nat (seqno_idx (snd f)), last_frag := 0, check_sequential_pn := False, extra_len := 0\<rparr>"
    define c1 where "c1 = c\<lparr>next_entry := (if i + 1 \<ge> IEEE80211_FRAGMENT_MAX then 0 else i + 1)\<rparr>"
    have i: "i < IEEE80211_FRAGMENT_MAX" "length (entries c) = IEEE80211_FRAGMENT_MAX" using ok by (simp_all add: cache_ok_def i_def)
    have "res = Some (RX_QUEUED, snd f, put_entry i (frag_protection (snd f) e) c1)"
      using first(2) i by (simp add: ieee80211_reassemble_add_def Let_def i_def[symmetric] e_def[symmetric] c1_def[symmetric] put_entry_def)
        (simp add: c1_def)
    moreover have "collected x hz [f] (frag_protection (snd f) e)"
      using first(1) any f by (intro collected_first) (simp_all add: e_def)
    moreover have "subseq [f] (hist @ [f])" by (simp add: subseq_singleton_left)
    moreover have "cache_ok x hz (hist @ [f]) c1" using ok' i by (simp add: cache_ok_def c1_def)
    ultimately show thesis using queued i(1) by (blast intro: cache_ok_put)
  next
    case (find r' c')
    show thesis
    proof (cases r')
      case None
      then show thesis using dropped[of RX_DROP c'] find find_okD(1)[OF ok find(2)] by (auto intro: cache_ok_more)
    next
      case (Some i)
      note fd = find_okD[OF ok find(2)]
      obtain fs where fs: "subseq fs hist" "collected x hz fs (entries c' ! i)" using fd(5)[OF Some] by blast
      show thesis
      proof (cases "frag_check (snd f) (entries c' ! i)")
        case (Inl reason)
        then have "reason \<notin> {RX_CONTINUE, RX_QUEUED}" by (auto simp: frag_check_def Let_def split: if_splits option.splits)
        then show thesis using dropped[of reason c'] find Some Inl fd(1) by (auto intro: cache_ok_more)
      next
        case (Inr e)
        note ct = frag_check_continues[OF fs(2) f fd(3,4)[OF Some] Inr]
        define skb where "skb = skb_pull (x_hdrlen x (frame_control ?hdr)) (rx_skb (snd f))"
        define e' where "e' = e\<lparr>skb_list := skb_list e @ [skb], last_frag := of_nat (frag_no f),
            extra_len := extra_len e + of_nat (skb_len skb)\<rparr>"
        have e': "e' = (entries c' ! i)\<lparr>last_pn := last_pn e, skb_list := skb_list (entries c' ! i) @ [skb],
            last_frag := of_nat (frag_no f), extra_len := extra_len (entries c' ! i) + of_nat (skb_len skb)\<rparr>"
        proof -
          obtain ee where "ee = entries c' ! i" by simp
          then have "e = ee\<lparr>last_pn := last_pn e\<rparr>" using ct by simp
          then show ?thesis unfolding e'_def \<open>ee = entries c' ! i\<close>[symmetric] by (cases ee) (cases e, simp)
        qed
        have res: "res = (if ieee80211_has_morefrags (frame_control ?hdr) then Some (RX_QUEUED, snd f, put_entry i e' c')
            else defrag_finish i e' (snd f) c')"
          using find(3) Some Inr by (simp add: skb_def e'_def Let_def)
        show thesis
        proof (cases "ieee80211_has_morefrags (frame_control ?hdr)")
          case True
          have "collected x hz (fs @ [f]) e'"
            unfolding e' skb_def using ct True by (intro collected_extend[OF fs(2)]) auto
          moreover have "subseq (fs @ [f]) (hist @ [f])" using fs(1) by simp
          ultimately have "cache_ok x hz (hist @ [f]) (put_entry i e' c')"
            using cache_ok_more[OF fd(1)] fd(2)[OF Some] by (blast intro: cache_ok_put)
          then show thesis using queued res True by simp
        next
          case False
          have "frag_chain hz (fs @ [f])" using fs(2) ct by (intro chain_extend) (auto simp: collected_def)
          moreover have "fs \<noteq> []" using fs(2) by (simp add: collected_def frag_chain_def)
          moreover have "skb_list e' = rx_skb (snd (hd fs)) #
              map (\<lambda>f. skb_pull (x_hdrlen x (frame_control (frag_hdr f))) (rx_skb (snd f))) (tl fs @ [f])"
            using fs(2) by (simp add: e' collected_def skb_def)
          moreover have "extra_len e' = of_nat (sum_list (map (length \<circ> payload x) (tl fs @ [f])))"
          proof -
            have "skb_len skb = length (payload x f)" by (simp add: skb_def payload_def skb_pull_def)
            then show ?thesis using fs(2) by (simp add: e' collected_def add.commute)
          qed
          ultimately show thesis
            using last[OF fs(1) fd(1) fd(2)[OF Some]] res False by simp
        qed
      qed
    qed
  qed
qed

lemma not_fragment:
  assumes "\<not> ieee80211_is_frag (frag_hdr f) \<or> ieee80211_is_ctl (frame_control (frag_hdr f)) \<or>
    ieee80211_is_ext (frame_control (frag_hdr f))"
  shows "ieee80211_rx_h_defragment x hz (fst f) (snd f) c = Some (RX_CONTINUE, snd f, c)"
proof -
  have "unat (seq_ctrl (frag_hdr f) AND IEEE80211_SCTL_FRAG) = 0 \<longleftrightarrow> seq_ctrl (frag_hdr f) AND IEEE80211_SCTL_FRAG = 0"
    by (rule unat_eq_0)
  then show ?thesis
    using assms by (auto simp: ieee80211_rx_h_defragment_def ieee80211_is_frag_def Let_def)
qed

lemma defrag_finish_result:
  assumes "defrag_finish i e rx c = Some (r, rx', c')"
  shows "c' = put_entry i (e\<lparr>skb_list := []\<rparr>) c"
    "r = RX_CONTINUE \<Longrightarrow> skb_data (rx_skb rx') = skb_data (hd (skb_list e)) @ concat (map skb_data (tl (skb_list e)))"
  using assms by (auto simp: defrag_finish_def Let_def expand_tail_def dest!: put_fragments_data split: if_splits)

lemma defrag_step_ok:
  assumes "cache_ok x hz hist c" "frag_frame f" "ieee80211_rx_h_defragment x hz (fst f) (snd f) c = Some (r, rx', c')"
  shows "cache_ok x hz (hist @ [f]) c'"
proof (cases "\<not> ieee80211_is_frag (frag_hdr f) \<or> ieee80211_is_ctl (frame_control (frag_hdr f)) \<or>
    ieee80211_is_ext (frame_control (frag_hdr f))")
  case True
  then show ?thesis using not_fragment[OF True, of x hz c] assms(1,3) by (simp add: cache_ok_more)
next
  case False
  then have "ieee80211_is_frag (frag_hdr f)" "\<not> ieee80211_is_ctl (frame_control (frag_hdr f))"
    "\<not> ieee80211_is_ext (frame_control (frag_hdr f))" by blast+
  note frag = this
  from assms frag show ?thesis
  proof (cases rule: defragment_cases)
    case (last fs c'' i e)
    then have "c' = put_entry i (e\<lparr>skb_list := []\<rparr>) c''" by (metis defrag_finish_result(1))
    then show ?thesis using cache_ok_more[OF last(2)] last(3) by (simp add: cache_ok_put)
  qed simp_all
qed

subsection \<open>Runs of the handler\<close>

fun defrag_run :: "extern \<Rightarrow> u64 \<Rightarrow> frag_event list \<Rightarrow> ieee80211_fragment_cache \<Rightarrow> ieee80211_fragment_cache option" where
  "defrag_run x hz [] c = Some c"
| "defrag_run x hz (f # fs) c =
     Option.bind (ieee80211_rx_h_defragment x hz (fst f) (snd f) c) (\<lambda>(r, rx, c). defrag_run x hz fs c)"

definition empty_cache :: "ieee80211_fragment_cache \<Rightarrow> bool" where
  "empty_cache c \<longleftrightarrow> length (entries c) = IEEE80211_FRAGMENT_MAX \<and> next_entry c < IEEE80211_FRAGMENT_MAX \<and>
     list_all (\<lambda>e. skb_list e = []) (entries c)"

lemma empty_cache_ok: "empty_cache c \<Longrightarrow> cache_ok x hz [] c"
  by (simp add: empty_cache_def cache_ok_def list_all_length)

lemma defrag_run_ok:
  assumes "cache_ok x hz hist c" "\<forall>f\<in>set fs. frag_frame f" "defrag_run x hz fs c = Some c'"
  shows "cache_ok x hz (hist @ fs) c'"
  using assms
proof (induction fs arbitrary: hist c)
  case Nil
  then show ?case by simp
next
  case (Cons f fs)
  obtain r rx c1 where 1: "ieee80211_rx_h_defragment x hz (fst f) (snd f) c = Some (r, rx, c1)" "defrag_run x hz fs c1 = Some c'"
    using Cons.prems(3) by (auto simp: bind_eq_Some_conv)
  have "cache_ok x hz (hist @ [f]) c1" using Cons.prems 1 by (intro defrag_step_ok) auto
  then show ?case using Cons.IH[of "hist @ [f]" c1] Cons.prems(2) 1(2) by simp
qed

text \<open>The handler puts together the fragments an entry has collected and the one received.\<close>

lemma joined_fragments:
  assumes "cache_ok x hz hist c" "frag_frame f"
    and "ieee80211_rx_h_defragment x hz (fst f) (snd f) c = Some (RX_CONTINUE, rx', c')"
    and "ieee80211_is_frag (frag_hdr f)" "\<not> ieee80211_is_ctl (frame_control (frag_hdr f))"
      "\<not> ieee80211_is_ext (frame_control (frag_hdr f))"
  shows "\<exists>fs. fs \<noteq> [] \<and> subseq fs hist \<and> frag_chain hz (fs @ [f]) \<and>
    skb_data (rx_skb rx') = frag_hdr (hd fs) @ concat (map (payload x) (tl fs @ [f]))"
  using assms
proof (cases rule: defragment_cases)
  case (last fs c' i e)
  have "skb_data (skb_pull (x_hdrlen x (frame_control (frag_hdr g))) (rx_skb (snd g))) = payload x g" for g
    by (simp add: payload_def skb_pull_def)
  then have pay: "map skb_data (tl (skb_list e)) = map (payload x) (tl fs @ [f])"
    using last(6) by simp
  have "skb_data (rx_skb rx') = frag_hdr (hd fs) @ concat (map (payload x) (tl fs @ [f]))"
    using defrag_finish_result(2)[OF last(8)[symmetric] refl] last(6) unfolding pay by simp
  then show ?thesis using last(1,4,5) by blast
qed auto

text \<open>C15: Whatever frames of whatever senders, keys and times come in, a frame put together from
  fragments consists of frames that did come in, in their order: the fragments 0, 1, and so on of
  one frame, with one sequence number, queue, type, receiver and sender, the last no later than two
  seconds after the first.  If the first was protected by CCMP or GCMP then so were all, with
  consecutive packet numbers from the first's on; if it was protected at all, so were all, with
  the same key.  The result is the first frame followed by the payloads of the others.\<close>

theorem reassembled_one_frame:
  assumes "empty_cache c0" "\<forall>f\<in>set (hist @ [f]). frag_frame f" "defrag_run x hz hist c0 = Some c"
    and "ieee80211_rx_h_defragment x hz (fst f) (snd f) c = Some (RX_CONTINUE, rx', c')"
    and "ieee80211_is_frag (frag_hdr f)" "\<not> ieee80211_is_ctl (frame_control (frag_hdr f))"
      "\<not> ieee80211_is_ext (frame_control (frag_hdr f))"
  shows "\<exists>fs. fs \<noteq> [] \<and> subseq fs hist \<and> frag_chain hz (fs @ [f]) \<and>
    skb_data (rx_skb rx') = frag_hdr (hd fs) @ concat (map (payload x) (tl fs @ [f]))"
proof -
  have "cache_ok x hz hist c"
    using defrag_run_ok[OF empty_cache_ok[OF assms(1)], of hist x hz c] assms(2,3) by simp
  then show ?thesis using joined_fragments assms(2,4-7) by simp
qed

text \<open>The fifteen fragments that may follow the first make up less than 65536 octets.\<close>

lemma defrag_step_total:
  assumes ok: "cache_ok x hz hist c" and h: "\<forall>f\<in>set (hist @ [f]). frag_frame f \<and> length (payload x f) \<le> 4369"
  shows "ieee80211_rx_h_defragment x hz (fst f) (snd f) c \<noteq> None"
proof (cases "\<not> ieee80211_is_frag (frag_hdr f) \<or> ieee80211_is_ctl (frame_control (frag_hdr f)) \<or>
    ieee80211_is_ext (frame_control (frag_hdr f))")
  case True
  show ?thesis unfolding not_fragment[OF True] by simp
next
  case False
  then have fr: "ieee80211_is_frag (frag_hdr f)" "\<not> ieee80211_is_ctl (frame_control (frag_hdr f))"
    "\<not> ieee80211_is_ext (frame_control (frag_hdr f))" by blast+
  have f: "frag_frame f" using h by simp
  from ok f refl fr show ?thesis
  proof (cases rule: defragment_cases)
    case (last fs c' i e)
    define g where "g = tl fs @ [f]"
    define total where "total = sum_list (map (length \<circ> payload x) g)"
    have "continues hz (hd (fs @ [f])) (length fs) ((fs @ [f]) ! length fs)"
      using last(4,5) unfolding frag_chain_def by (metis length_append_singleton length_greater_0_conv lessI)
    then have len: "length g \<le> 15"
      using last(5) frag_no_le[of f] by (simp add: continues_def g_def)
    have small: "\<forall>n\<in>set (map (length \<circ> payload x) g). n \<le> 4369"
    proof -
      have "set fs \<subseteq> set hist" using last(1) by (auto elim: list_emb_set)
      then have "set g \<subseteq> set (hist @ [f])" using last(5) by (auto simp: g_def dest: list.set_sel(2))
      then show ?thesis using h by auto
    qed
    have "total \<le> length (map (length \<circ> payload x) g) * 4369"
      unfolding total_def by (rule sum_list_le_mult[OF small])
    then have "total < 65536" using len by simp
    then have ex: "unat (extra_len e) = total"
      using last(7) by (simp add: g_def[symmetric] total_def[symmetric] unat_of_nat take_bit_nat_eq_self)
    have "length (skb_data (skb_pull (x_hdrlen x (frame_control (frag_hdr g))) (rx_skb (snd g)))) = length (payload x g)" for g
      by (simp add: payload_def skb_pull_def)
    then have "sum_list (map (length \<circ> skb_data) (tl (skb_list e))) = total"
      using last(6) by (simp add: total_def g_def comp_def)
    then have room: "total \<le> skb_tailroom skb \<Longrightarrow> put_fragments (tl (skb_list e)) skb \<noteq> None" for skb
      using put_fragments_room[of "tl (skb_list e)" skb] by simp
    have "total \<le> skb_tailroom (expand_tail total (hd (skb_list e)))"
      by (simp add: skb_tailroom_def expand_tail_def)
    then show ?thesis
      unfolding last(8) defrag_finish_def Let_def ex using room by (auto simp: not_less)
  qed simp_all
qed

lemma defrag_run_total:
  "cache_ok x hz hist c \<Longrightarrow> \<forall>f\<in>set (hist @ fs). frag_frame f \<and> length (payload x f) \<le> 4369 \<Longrightarrow>
     defrag_run x hz fs c \<noteq> None"
proof (induction fs arbitrary: hist c)
  case (Cons f fs)
  obtain r rx c1 where 1: "ieee80211_rx_h_defragment x hz (fst f) (snd f) c = Some (r, rx, c1)"
    using defrag_step_total[OF Cons.prems(1), of f] Cons.prems(2) by fastforce
  have "cache_ok x hz (hist @ [f]) c1" using Cons.prems 1 by (intro defrag_step_ok) auto
  then show ?case using Cons.IH[of "hist @ [f]" c1] Cons.prems(2) 1 by simp
qed simp

text \<open>C16: As long as no frame carries more than 4369 octets of payload, the handler never writes
  beyond a buffer: the fifteen fragments that may follow the first make up less than 65536 octets,
  so that their count does not wrap.\<close>

theorem defrag_never_overflows:
  assumes "empty_cache c0" "\<forall>f\<in>set fs. frag_frame f \<and> length (payload x f) \<le> 4369"
  shows "defrag_run x hz fs c0 \<noteq> None"
  using defrag_run_total[OF empty_cache_ok[OF assms(1)]] assms(2) by simp

subsection \<open>Concrete frames\<close>

text \<open>A fragment of a data frame: its key, the protected bit, more fragments, sequence control, packet number, payload.\<close>

definition ex_frag :: "ieee80211_key option \<Rightarrow> bool \<Rightarrow> bool \<Rightarrow> u16 \<Rightarrow> u8 list \<Rightarrow> u8 list \<Rightarrow> ieee80211_rx_data" where
  "ex_frag key protected mf sc pn d =
     (ex_rx ([0x08, 0x01 OR (if protected then 0x40 else 0) OR (if mf then 0x04 else 0), 0, 0] @
             replicate 6 2 @ replicate 6 4 @ replicate 6 6 @ le16_bytes sc @ d) (ex_key WLAN_CIPHER_SUITE_CCMP 16))
        \<lparr>rx_key := key, ccm_gcm_pn := pn\<rparr>"

definition ex_cache :: ieee80211_fragment_cache where
  "ex_cache = \<lparr>entries = replicate 4 \<lparr>skb_list = [], first_frag_time = 0, frag_seq = 0, extra_len = 0, last_frag = 0,
     rx_queue = 0, check_sequential_pn = False, is_protected = False, last_pn = replicate 6 0, key_color = 0\<rparr>, next_entry = 0\<rparr>"

lemma ex_cache_empty: "empty_cache ex_cache"
  by (simp add: empty_cache_def ex_cache_def list_all_iff)

definition ex_frags :: "frag_event list" where
  "ex_frags = (let k = Some (ex_key WLAN_CIPHER_SUITE_CCMP 16) in
     [(0, ex_frag k True True 0x640 [0, 0, 0, 0, 0, 0] [1, 2]),
      (1, ex_frag k True True 0x650 [0, 0, 0, 0, 0, 9] [7]),
      (2, ex_frag k True True 0x641 [0, 0, 0, 0, 0, 1] [3])])"

definition ex_last_frag :: frag_event where
  "ex_last_frag = (3, ex_frag (Some (ex_key WLAN_CIPHER_SUITE_CCMP 16)) True False 0x642 [0, 0, 0, 0, 0, 2] [4, 5])"

lemma ex_frags_ok: "list_all frag_frame (ex_last_frag # ex_frags)" "list_all (\<lambda>f. length (payload ex_extern f) \<le> 4369) ex_frags"
  by code_simp+

definition ex_defrag :: "(rx_result \<times> ieee80211_rx_data \<times> ieee80211_fragment_cache) option" where
  "ex_defrag = ieee80211_rx_h_defragment ex_extern 250 3 (snd ex_last_frag) (the (defrag_run ex_extern 250 ex_frags ex_cache))"

lemma ex_defrag_facts:
  "\<not> Option.is_none (defrag_run ex_extern 250 ex_frags ex_cache)"
  "\<not> Option.is_none ex_defrag" "fst (the ex_defrag) = RX_CONTINUE"
  "drop 24 (skb_data (rx_skb (fst (snd (the ex_defrag))))) = [1, 2, 3, 4, 5]"
  by code_simp+

lemma defrag_never_overflows_witness: "defrag_run ex_extern 250 ex_frags ex_cache \<noteq> None"
  by (rule defrag_never_overflows[OF ex_cache_empty]) (use ex_frags_ok in \<open>simp add: list_all_iff\<close>)

theorem reassembled_one_frame_witness:
  "\<exists>fs. fs \<noteq> [] \<and> subseq fs ex_frags \<and> frag_chain 250 (fs @ [ex_last_frag]) \<and>
     skb_data (rx_skb (fst (snd (the ex_defrag)))) = frag_hdr (hd fs) @ concat (map (payload ex_extern) (tl fs @ [ex_last_frag]))"
proof -
  obtain c where c: "defrag_run ex_extern 250 ex_frags ex_cache = Some c" 
    using ex_defrag_facts(1) by (cases "defrag_run ex_extern 250 ex_frags ex_cache") auto
  obtain r rx' c' where d: "ex_defrag = Some (r, rx', c')" using ex_defrag_facts(2) by (cases ex_defrag) auto
  have "fst ex_last_frag = 3" by (simp add: ex_last_frag_def)
  then have "ieee80211_rx_h_defragment ex_extern 250 (fst ex_last_frag) (snd ex_last_frag) c = Some (RX_CONTINUE, rx', c')"
    using d ex_defrag_facts(3) by (simp add: ex_defrag_def c)
  moreover have "\<forall>f\<in>set (ex_frags @ [ex_last_frag]). frag_frame f" using ex_frags_ok(1) by (auto simp: list_all_iff)
  moreover have "ieee80211_is_frag (frag_hdr ex_last_frag)" "\<not> ieee80211_is_ctl (frame_control (frag_hdr ex_last_frag))"
    "\<not> ieee80211_is_ext (frame_control (frag_hdr ex_last_frag))"
    by code_simp+
  ultimately show ?thesis
    using reassembled_one_frame[OF ex_cache_empty _ c, of ex_last_frag rx' c'] unfolding d by simp
qed

subsection \<open>What the handler gets wrong\<close>

text \<open>
  A new entry keeps the \<open>is_protected\<close> bit of the frame that was in it before.  Once a protected
  frame has used an entry, no fragmented frame without protection can pass through it, although
  the same two fragments are put together in a fresh cache.
\<close>

definition ex_open_frags :: "frag_event list" where
  "ex_open_frags = [(5, ex_frag None False True 0x700 (replicate 6 0) [1]), (6, ex_frag None False False 0x701 (replicate 6 0) [2])]"

definition ex_used_cache :: ieee80211_fragment_cache where
  "ex_used_cache = the (defrag_run ex_extern 250
     (map (\<lambda>sc. (0, ex_frag (Some (ex_key WLAN_CIPHER_SUITE_CCMP 16)) True True sc (replicate 6 0) [1])) [0x100, 0x200, 0x300, 0x400])
     ex_cache)"

definition second_result :: "ieee80211_fragment_cache \<Rightarrow> rx_result option" where
  "second_result c = Option.bind (defrag_run ex_extern 250 [hd ex_open_frags] c)
     (\<lambda>c. map_option fst (ieee80211_rx_h_defragment ex_extern 250 6 (snd (ex_open_frags ! 1)) c))"

theorem stale_protection_drops:
  "second_result ex_cache = Some RX_CONTINUE" "second_result ex_used_cache = Some RX_DROP_U_EXPECT_DEFRAG_PROT"
  by code_simp+

text \<open>
  \<open>extra_len\<close> counts in sixteen bits.  When the fragments after the first are longer than that, the
  buffer is not enlarged as needed, and the kernel stops.
\<close>

theorem extra_len_overflow:
  assumes "extra_len e = of_nat octets" "octets = sum_list (map (length \<circ> skb_data) (tl (skb_list e)))"
    "octets mod 65536 \<le> skb_tailroom (hd (skb_list e))" "skb_tailroom (hd (skb_list e)) < octets"
  shows "defrag_finish i e rx c = None"
proof -
  have "unat (extra_len e) = octets mod 65536"
    by (simp add: assms(1) unat_of_nat take_bit_eq_mod)
  then show ?thesis
    using assms put_fragments_overflow[of "hd (skb_list e)" "tl (skb_list e)"] by (simp add: defrag_finish_def Let_def)
qed

text \<open>Fifteen fragments of 4400 octets, in a first buffer of 1000 free octets.\<close>

theorem extra_len_overflow_witness:
  "defrag_finish 0 ((entries ex_cache ! 0)\<lparr>skb_list := (ex_skb ex_hdr)\<lparr>skb_tail := replicate 1000 0\<rparr> #
      replicate 15 (ex_skb (replicate 4400 0)), extra_len := 464\<rparr>) rx c = None"
  by (rule extra_len_overflow[where octets = 66000]) (simp_all add: ex_skb_def skb_tailroom_def sum_list_replicate)

end
