(* ===== verification/Rx_Keys.thy ===== *)
theory Rx_Keys
  imports Wep Wpa_Tkip Wpa_Aead Wpa_Bip Defrag
begin

text \<open>
  Duplicate detection, key selection and decryption of received frames, and the checks that drop
  what should have been encrypted, \<^verbatim>\<open>mac80211/rx.c\<close>.  \<open>rx_keys\<close> holds the key tables of the station,
  the link and the interface; a \<open>key_ref\<close> is a slot of one of them, where C has a pointer.  The
  handler selects a slot, calls the cipher's handler on its key and stores what becomes of it.

  The lemmas show which slots can decrypt which frames, that the replay protection of a key
  survives everything else that is received in between, and that no frame passes in plain text
  that has to be protected.
\<close>

subsection \<open>Duplicate detection\<close>

record dup_state =
  last_seq_ctrl :: "u16 list"
  mcast_seq_last :: u16
  vif_is_mld :: bool

definition ieee80211_rx_h_check_dup :: "ieee80211_rx_data \<Rightarrow> dup_state \<Rightarrow> rx_result \<times> dup_state" where
  "ieee80211_rx_h_check_dup rx st =
     (let hdr = skb_data (rx_skb rx); fc = frame_control hdr in
      if has_flag (rx_flag rx) RX_FLAG_DUP_VALIDATED then (RX_CONTINUE, st)
      else if skb_len (rx_skb rx) < 24 then (RX_CONTINUE, st)
      else if ieee80211_is_ctl fc \<or> ieee80211_is_any_nullfunc fc then (RX_CONTINUE, st)
      else if rx_sta rx = None then (RX_CONTINUE, st)
      else if is_multicast_ether_addr (addr1 hdr)
      then
        (let sn = ieee80211_get_sn hdr in
         if \<not> ieee80211_is_data_present fc then (RX_CONTINUE, st)
         else if \<not> vif_is_mld st \<or> rx_vif_type rx \<noteq> IFTYPE_STATION then (RX_CONTINUE, st)
         else if mcast_seq_last st \<noteq> IEEE80211_SN_MODULO \<and> ieee80211_sn_less_eq sn (mcast_seq_last st)
         then (RX_DROP_U_DUP, st)
         else (RX_CONTINUE, st\<lparr>mcast_seq_last := sn\<rparr>))
      else if ieee80211_has_retry fc \<and> last_seq_ctrl st ! seqno_idx rx = seq_ctrl hdr then (RX_DROP_U_DUP, st)
      else if \<not> has_flag (rx_flag rx) RX_FLAG_AMSDU_MORE
      then (RX_CONTINUE, st\<lparr>last_seq_ctrl := (last_seq_ctrl st)[seqno_idx rx := seq_ctrl hdr]\<rparr>)
      else (RX_CONTINUE, st))"

subsection \<open>What a frame says of its key\<close>

text \<open>The two forms of the management MIC element at the end of a frame, 18 and 26 octets long.\<close>

definition ieee80211_get_mmie_keyidx :: "u8 list \<Rightarrow> nat option" where
  "ieee80211_get_mmie_keyidx d =
     (if length d < 24 + 18 \<or> \<not> is_multicast_ether_addr (addr1 d) then None
      else if \<not> ieee80211_is_robust_mgmt_frame d \<and> \<not> ieee80211_is_beacon (frame_control d) then None
      else
        (let mmie = drop (length d - 18) d; mmie16 = drop (length d - 26) d in
         if mmie ! 0 = WLAN_EID_MMIE \<and> mmie ! 1 = 16 then Some (unat (get_unaligned_le16 mmie 2))
         else if length d \<ge> 24 + 26 \<and> mmie16 ! 0 = WLAN_EID_MMIE \<and> mmie16 ! 1 = 24
         then Some (unat (get_unaligned_le16 mmie16 2))
         else None))"

definition ieee80211_get_keyid :: "extern \<Rightarrow> u8 list \<Rightarrow> nat option" where
  "ieee80211_get_keyid x d =
     (let hdrlen = x_hdrlen x (frame_control d) in
      if length d < hdrlen + 4 then None else Some (unat (drop_bit 6 (d ! (hdrlen + 3)))))"

abbreviation (input) WLAN_CATEGORY_PROTECTED_DUAL_OF_ACTION :: u8 where "WLAN_CATEGORY_PROTECTED_DUAL_OF_ACTION \<equiv> 9"
abbreviation (input) WLAN_CATEGORY_MULTIHOP_ACTION :: u8 where "WLAN_CATEGORY_MULTIHOP_ACTION \<equiv> 14"

definition ieee80211_is_group_privacy_action :: "u8 list \<Rightarrow> bool" where
  "ieee80211_is_group_privacy_action d \<longleftrightarrow>
     length d \<ge> IEEE80211_MIN_ACTION_SIZE \<and> ieee80211_is_action (frame_control d) \<and>
     is_multicast_ether_addr (addr1 d) \<and> d ! 24 \<in> {WLAN_CATEGORY_MESH_ACTION, WLAN_CATEGORY_MULTIHOP_ACTION}"

definition ieee80211_is_public_action :: "u8 list \<Rightarrow> bool" where
  "ieee80211_is_public_action d \<longleftrightarrow>
     length d \<ge> IEEE80211_MIN_ACTION_SIZE \<and> ieee80211_is_action (frame_control d) \<and> d ! 24 = WLAN_CATEGORY_PUBLIC"

text \<open>The public actions that have no protected form are, by their numbers in \<^verbatim>\<open>ieee80211.h\<close>: 0, 3, 7, 9, 14, 15, 32, 33, 34.\<close>

definition ieee80211_is_protected_dual_of_public_action :: "u8 list \<Rightarrow> bool" where
  "ieee80211_is_protected_dual_of_public_action d \<longleftrightarrow>
     ieee80211_is_public_action d \<and> length d \<ge> IEEE80211_MIN_ACTION_SIZE + 1 \<and>
     d ! IEEE80211_MIN_ACTION_SIZE \<notin> {0, 3, 7, 14, 15, 32, 33, 34, 9}"

definition ieee80211_is_unicast_robust_mgmt_frame :: "u8 list \<Rightarrow> bool" where
  "ieee80211_is_unicast_robust_mgmt_frame d \<longleftrightarrow> \<not> is_multicast_ether_addr (addr1 d) \<and> ieee80211_is_robust_mgmt_frame d"

definition ieee80211_is_multicast_robust_mgmt_frame :: "u8 list \<Rightarrow> bool" where
  "ieee80211_is_multicast_robust_mgmt_frame d \<longleftrightarrow> is_multicast_ether_addr (addr1 d) \<and> ieee80211_is_robust_mgmt_frame d"

subsection \<open>Key tables\<close>

text \<open>
  The pairwise keys of the station, the group keys negotiated with it (if the frame belongs to a
  link of a station), those of the link of the interface, and the keys of the interface;
  \<open>default_mgmt_key\<close> is the slot of the link's group keys the pointer is set to.
\<close>

record rx_keys =
  ptk :: "nat \<Rightarrow> ieee80211_key option"
  ptk_idx :: nat
  link_sta_gtk :: "(nat \<Rightarrow> ieee80211_key option) option"
  link_gtk :: "nat \<Rightarrow> ieee80211_key option"
  iface_keys :: "nat \<Rightarrow> ieee80211_key option"
  default_mgmt_key :: "nat option"
  sta_mfp :: bool
  sta_assoc :: bool
  sta_authorized :: bool
  has_netdev :: bool

datatype key_ref = Ptk nat | Sta_gtk nat | Link_gtk nat | Iface_key nat

abbreviation (input) NUM_DEFAULT_KEYS :: nat where "NUM_DEFAULT_KEYS \<equiv> 4"
abbreviation (input) NUM_DEFAULT_MGMT_KEYS :: nat where "NUM_DEFAULT_MGMT_KEYS \<equiv> 2"
abbreviation (input) NUM_DEFAULT_BEACON_KEYS :: nat where "NUM_DEFAULT_BEACON_KEYS \<equiv> 2"

fun key_at :: "rx_keys \<Rightarrow> key_ref \<Rightarrow> ieee80211_key option" where
  "key_at ks (Ptk i) = ptk ks i"
| "key_at ks (Sta_gtk i) = Option.bind (link_sta_gtk ks) (\<lambda>g. g i)"
| "key_at ks (Link_gtk i) = link_gtk ks i"
| "key_at ks (Iface_key i) = iface_keys ks i"

fun put_key :: "key_ref \<Rightarrow> ieee80211_key \<Rightarrow> rx_keys \<Rightarrow> rx_keys" where
  "put_key (Ptk i) k ks = ks\<lparr>ptk := (ptk ks)(i := Some k)\<rparr>"
| "put_key (Sta_gtk i) k ks = ks\<lparr>link_sta_gtk := map_option (\<lambda>g. g(i := Some k)) (link_sta_gtk ks)\<rparr>"
| "put_key (Link_gtk i) k ks = ks\<lparr>link_gtk := (link_gtk ks)(i := Some k)\<rparr>"
| "put_key (Iface_key i) k ks = ks\<lparr>iface_keys := (iface_keys ks)(i := Some k)\<rparr>"

text \<open>The first slot that holds a key.\<close>

definition first_key :: "rx_keys \<Rightarrow> key_ref list \<Rightarrow> key_ref option" where
  "first_key ks rs = List.find (\<lambda>r. key_at ks r \<noteq> None) rs"

definition ieee80211_rx_get_bigtk :: "rx_keys \<Rightarrow> nat option \<Rightarrow> key_ref option" where
  "ieee80211_rx_get_bigtk ks idx =
     (let (idx, idx2) =
        (case idx of
           None \<Rightarrow> (NUM_DEFAULT_KEYS + NUM_DEFAULT_MGMT_KEYS, NUM_DEFAULT_KEYS + NUM_DEFAULT_MGMT_KEYS + 1)
         | Some i \<Rightarrow> (i, if i = NUM_DEFAULT_KEYS + NUM_DEFAULT_MGMT_KEYS then i + 1 else i - 1))
      in first_key ks [Sta_gtk idx, Link_gtk idx, Sta_gtk idx2, Link_gtk idx2])"

subsection \<open>Key selection\<close>

text \<open>
  What the first half of \<^verbatim>\<open>ieee80211_rx_h_decrypt\<close> decides: \<open>Stop\<close> returns at once, with \<open>rx->key\<close> set
  to the slot and, for the last component, a report of the frame; \<open>Select\<close> goes on to decrypt
  with the key of the slot.
\<close>

datatype key_choice = Stop rx_result "key_ref option" bool | Select "key_ref option"

definition select_unprotected :: "rx_keys \<Rightarrow> u8 list \<Rightarrow> key_ref option" where
  "select_unprotected ks hdr =
     (let fc = frame_control hdr in
      if ieee80211_is_beacon fc then ieee80211_rx_get_bigtk ks None
      else if ieee80211_is_mgmt fc \<and> is_multicast_ether_addr (addr1 hdr)
      then (case default_mgmt_key ks of None \<Rightarrow> None | Some i \<Rightarrow> first_key ks [Link_gtk i])
      else first_key ks (map Sta_gtk [0..<NUM_DEFAULT_KEYS] @ map Link_gtk [0..<NUM_DEFAULT_KEYS]))"

definition select_by_keyid :: "extern \<Rightarrow> rx_keys \<Rightarrow> u8 list \<Rightarrow> key_choice" where
  "select_by_keyid x ks hdr =
     (case ieee80211_get_keyid x hdr of
        None \<Rightarrow> Stop RX_DROP_U_NO_KEY_ID None False
      | Some keyidx \<Rightarrow>
          (let multicast = is_multicast_ether_addr (addr1 hdr);
               r = (if multicast then first_key ks [Sta_gtk keyidx] else None)
           in if r \<noteq> None then Select r
              else
                (let r = first_key ks ((if multicast then [Link_gtk keyidx] else []) @ [Iface_key keyidx]) in
                 case Option.bind r (key_at ks) of
                   None \<Rightarrow> Select None
                 | Some k \<Rightarrow>
                     if kc_cipher (conf k) \<notin> {WLAN_CIPHER_SUITE_WEP40, WLAN_CIPHER_SUITE_WEP104} \<and> \<not> multicast
                     then Select None else Select r)))"

definition rx_select_key :: "extern \<Rightarrow> rx_keys \<Rightarrow> ieee80211_rx_data \<Rightarrow> key_choice" where
  "rx_select_key x ks rx =
     (let hdr = skb_data (rx_skb rx); fc = frame_control hdr; flag = rx_flag rx;
          multicast = is_multicast_ether_addr (addr1 hdr);
          protected = ieee80211_has_protected fc;
          done_by_hw = has_flag flag RX_FLAG_DECRYPTED \<and> has_flag flag RX_FLAG_IV_STRIPPED;
          sta = rx_sta rx \<noteq> None;
          sta_ptk = (if sta then first_key ks [Ptk (ptk_idx ks)] else None);
          by_id = sta \<and> protected \<and> \<not> has_flag flag RX_FLAG_IV_STRIPPED;
          keyid = ieee80211_get_keyid x hdr;
          ptk_by_id = (if by_id then Option.bind keyid (\<lambda>i. first_key ks [Ptk i]) else None);
          mmie_keyidx = (if protected then None else ieee80211_get_mmie_keyidx hdr)
      in if by_id \<and> keyid = None then Stop RX_DROP_U_NO_KEY_ID None False
         else if \<not> multicast \<and> sta_ptk \<noteq> None
         then (let r = (if ptk_by_id \<noteq> None then ptk_by_id else sta_ptk) in
               if done_by_hw \<or> \<not> protected then Stop RX_CONTINUE r False else Select r)
         else
           (case mmie_keyidx of
              Some i \<Rightarrow>
                if done_by_hw then Stop RX_CONTINUE None False
                else if ieee80211_is_beacon fc
                then
                  (if i < NUM_DEFAULT_KEYS + NUM_DEFAULT_MGMT_KEYS \<or>
                      i \<ge> NUM_DEFAULT_KEYS + NUM_DEFAULT_MGMT_KEYS + NUM_DEFAULT_BEACON_KEYS
                   then Stop RX_DROP_U_BAD_BCN_KEYIDX None (has_netdev ks)
                   else (case ieee80211_rx_get_bigtk ks (Some i) of
                           None \<Rightarrow> Stop RX_CONTINUE None False
                         | Some r \<Rightarrow> Select (Some r)))
                else if i < NUM_DEFAULT_KEYS \<or> i \<ge> NUM_DEFAULT_KEYS + NUM_DEFAULT_MGMT_KEYS
                then Stop RX_DROP_U_BAD_MGMT_KEYIDX None False
                else if link_sta_gtk ks \<noteq> None \<and> ieee80211_is_group_privacy_action hdr \<and> sta_mfp ks
                then Stop RX_DROP None False
                else Select (first_key ks [Sta_gtk i, Link_gtk i])
            | None \<Rightarrow>
                if \<not> protected then Stop RX_CONTINUE (select_unprotected ks hdr) False
                else if done_by_hw then Stop RX_CONTINUE None False
                else select_by_keyid x ks hdr))"

subsection \<open>Decryption\<close>

definition cipher_decrypt :: "extern \<Rightarrow> ieee80211_key \<Rightarrow> ieee80211_rx_data \<Rightarrow> rx_result \<times> ieee80211_rx_data" where
  "cipher_decrypt x k rx =
     (let c = kc_cipher (conf k) in
      if c = WLAN_CIPHER_SUITE_WEP40 \<or> c = WLAN_CIPHER_SUITE_WEP104 then ieee80211_crypto_wep_decrypt x rx
      else if c = WLAN_CIPHER_SUITE_TKIP then ieee80211_crypto_tkip_decrypt x k rx
      else if c = WLAN_CIPHER_SUITE_CCMP then ieee80211_crypto_ccmp_decrypt x 8 k rx
      else if c = WLAN_CIPHER_SUITE_CCMP_256 then ieee80211_crypto_ccmp_decrypt x 16 k rx
      else if c = WLAN_CIPHER_SUITE_AES_CMAC then ieee80211_crypto_aes_cmac_decrypt x k rx
      else if c = WLAN_CIPHER_SUITE_BIP_CMAC_256 then ieee80211_crypto_aes_cmac_256_decrypt x k rx
      else if c = WLAN_CIPHER_SUITE_BIP_GMAC_128 \<or> c = WLAN_CIPHER_SUITE_BIP_GMAC_256
      then ieee80211_crypto_aes_gmac_decrypt x k rx
      else if c = WLAN_CIPHER_SUITE_GCMP \<or> c = WLAN_CIPHER_SUITE_GCMP_256 then ieee80211_crypto_gcmp_decrypt x k rx
      else (RX_DROP_U_BAD_CIPHER, rx))"

definition mark_decrypted :: "ieee80211_rx_data \<Rightarrow> ieee80211_rx_data" where
  "mark_decrypted rx =
     (let skb = rx_skb rx; status = skb_rx skb
      in rx\<lparr>rx_skb := skb\<lparr>skb_rx := status\<lparr>rs_flag := rs_flag status OR RX_FLAG_DECRYPTED\<rparr>\<rparr>\<rparr>)"

definition report_unprot :: "ieee80211_rx_data \<Rightarrow> ieee80211_rx_data" where
  "report_unprot rx = rx\<lparr>rx_events := rx_events rx @ [Rx_unprot_mlme_mgmt (skb_data (rx_skb rx))]\<rparr>"

definition ieee80211_rx_h_decrypt ::
  "extern \<Rightarrow> rx_keys \<Rightarrow> ieee80211_rx_data \<Rightarrow> rx_result \<times> ieee80211_rx_data \<times> rx_keys" where
  "ieee80211_rx_h_decrypt x ks rx =
     (let fc = frame_control (skb_data (rx_skb rx)) in
      if ieee80211_is_ext fc then (RX_CONTINUE, rx, ks)
      else
        (case rx_select_key x ks rx of
           Stop res r report \<Rightarrow>
             (let rx = rx\<lparr>rx_key := Option.bind r (key_at ks)\<rparr>
              in (res, if report then report_unprot rx else rx, ks))
         | Select r \<Rightarrow>
             (case (r, Option.bind r (key_at ks)) of
                (Some r, Some k) \<Rightarrow>
                  if has_flag (key_flags k) KEY_FLAG_TAINTED then (RX_DROP, rx\<lparr>rx_key := Some k\<rparr>, ks)
                  else
                    (let (res, rx) = cipher_decrypt x k (rx\<lparr>rx_key := Some k\<rparr>);
                         ks' = (case rx_key rx of None \<Rightarrow> ks | Some k' \<Rightarrow> put_key r k' ks);
                         rx = mark_decrypted rx
                     in (res, if ieee80211_is_beacon fc \<and> res \<notin> {RX_CONTINUE, RX_QUEUED} \<and> has_netdev ks
                              then report_unprot rx else rx, ks'))
              | _ \<Rightarrow> (RX_DROP, rx\<lparr>rx_key := None\<rparr>, ks))))"

subsection \<open>Frames that have to be protected\<close>

definition ieee80211_802_1x_port_control :: "rx_keys \<Rightarrow> ieee80211_rx_data \<Rightarrow> int" where
  "ieee80211_802_1x_port_control ks rx = (if rx_sta rx = None \<or> \<not> sta_authorized ks then - 13 else 0)"

definition ieee80211_drop_unencrypted :: "ieee80211_rx_data \<Rightarrow> u16 \<Rightarrow> int" where
  "ieee80211_drop_unencrypted rx fc =
     (if has_flag (rx_flag rx) RX_FLAG_DECRYPTED then 0
      else if \<not> ieee80211_has_protected fc \<and> \<not> ieee80211_is_any_nullfunc fc \<and> ieee80211_is_data fc \<and> rx_key rx \<noteq> None
      then - 13 else 0)"

text \<open>
  What the checks below read of the interface: its address, its links (none for an interface without
  links) with their addresses, and the protocol number of its control port.
\<close>

record rx_sdata =
  rxv_addr :: "u8 list"
  rxv_valid_links :: u16
  rxv_link_addrs :: "u8 list option list"
  rxv_control_port_protocol :: u16

abbreviation (input) h_dest :: "u8 list \<Rightarrow> u8 list" where "h_dest ehdr \<equiv> take ETH_ALEN ehdr"
abbreviation (input) h_proto :: "u8 list \<Rightarrow> u16" where "h_proto ehdr \<equiv> get_unaligned_be16 ehdr 12"

definition ieee80211_is_our_addr :: "rx_sdata \<Rightarrow> u8 list \<Rightarrow> bool" where
  "ieee80211_is_our_addr sdata addr \<longleftrightarrow>
     (if rxv_addr sdata = addr then True
      else if rxv_valid_links sdata = 0 then False
      else list_ex (\<lambda>conf. conf = Some addr) (rxv_link_addrs sdata))"

definition pae_group_addr :: "u8 list" where
  "pae_group_addr = [0x01, 0x80, 0xC2, 0x00, 0x00, 0x03]"

definition ieee80211_frame_allowed :: "rx_sdata \<Rightarrow> rx_keys \<Rightarrow> ieee80211_rx_data \<Rightarrow> u16 \<Rightarrow> bool" where
  "ieee80211_frame_allowed sdata ks rx fc \<longleftrightarrow>
     (let ehdr = skb_data (rx_skb rx) in
      if h_proto ehdr = rxv_control_port_protocol sdata
      then ieee80211_is_our_addr sdata (h_dest ehdr) \<or> h_dest ehdr = pae_group_addr
      else if ieee80211_802_1x_port_control ks rx \<noteq> 0 \<or> ieee80211_drop_unencrypted rx fc \<noteq> 0 then False
      else True)"

definition ieee80211_drop_unencrypted_mgmt :: "rx_keys \<Rightarrow> ieee80211_rx_data \<Rightarrow> rx_result \<times> ieee80211_rx_data" where
  "ieee80211_drop_unencrypted_mgmt ks rx =
     (let d = skb_data (rx_skb rx); fc = frame_control d; sta = rx_sta rx \<noteq> None;
          leave = ieee80211_is_deauth fc \<or> ieee80211_is_disassoc fc;
          reported = (if leave then report_unprot rx else rx) in
      if has_flag (rx_flag rx) RX_FLAG_DECRYPTED then (RX_CONTINUE, rx)
      else if ieee80211_is_action fc \<and> d ! 24 = WLAN_CATEGORY_PROTECTED_DUAL_OF_ACTION then (RX_DROP_U_UNPROT_DUAL, rx)
      else if sta \<and> sta_mfp ks \<and> \<not> ieee80211_has_protected fc \<and> ieee80211_is_unicast_robust_mgmt_frame d
      then (if leave \<and> rx_key rx = None then (RX_CONTINUE, rx) else (RX_DROP_U_UNPROT_UCAST_MGMT, reported))
      else if sta \<and> sta_mfp ks \<and> ieee80211_is_multicast_robust_mgmt_frame d \<and> ieee80211_get_mmie_keyidx d = None
      then (RX_DROP_U_UNPROT_MCAST_MGMT, reported)
      else if sta \<and> sta_mfp ks \<and> ieee80211_is_beacon fc \<and> rx_key rx \<noteq> None \<and> ieee80211_get_mmie_keyidx d = None
      then (RX_DROP_U_UNPROT_BEACON, report_unprot rx)
      else if sta \<and> sta_mfp ks \<and> ieee80211_is_action fc \<and> rx_key rx = None \<and> ieee80211_is_robust_mgmt_frame d
      then (RX_DROP_U_UNPROT_ACTION, rx)
      else if sta \<and> sta_mfp ks \<and> \<not> is_multicast_ether_addr (addr1 d) \<and> ieee80211_is_protected_dual_of_public_action d
      then (RX_DROP_U_UNPROT_UNICAST_PUB_ACTION, rx)
      else if ieee80211_is_action fc \<and> ieee80211_is_robust_mgmt_frame d \<and> (\<not> sta \<or> \<not> sta_assoc ks)
      then (RX_DROP_U_UNPROT_ROBUST_ACTION, rx)
      else (RX_CONTINUE, rx))"

subsection \<open>Slots and selection\<close>

lemma key_at_put: "key_at (put_key r k ks) r' = (if r' = r \<and> key_at ks r \<noteq> None then Some k else key_at ks r')"
  if "key_at ks r \<noteq> None"
  using that by (cases r; cases r') (auto simp: bind_eq_Some_conv split: Option.bind_splits)

lemma first_key_Some: "first_key ks rs = Some r \<Longrightarrow> r \<in> set rs \<and> key_at ks r \<noteq> None"
  by (auto simp: first_key_def find_Some_iff)

lemma first_key_None: "first_key ks rs = None \<longleftrightarrow> (\<forall>r\<in>set rs. key_at ks r = None)"
  by (auto simp: first_key_def find_None_iff)

text \<open>
  The slots selection can give a frame to decrypt with: a group key for a multicast frame by the
  key identifier in its header or its management MIC element, a pairwise key for a unicast one.
\<close>

definition group_slot :: "extern \<Rightarrow> u8 list \<Rightarrow> nat \<Rightarrow> bool" where
  "group_slot x hdr i \<longleftrightarrow>
     is_multicast_ether_addr (addr1 hdr) \<and>
     (if ieee80211_has_protected (frame_control hdr) then ieee80211_get_keyid x hdr = Some i
      else ieee80211_get_mmie_keyidx hdr \<noteq> None \<and>
        (if ieee80211_is_beacon (frame_control hdr) then i \<in> {6, 7}
         else i \<in> {4, 5} \<and> ieee80211_get_mmie_keyidx hdr = Some i))"

fun slot_for :: "extern \<Rightarrow> rx_keys \<Rightarrow> u8 list \<Rightarrow> key_ref \<Rightarrow> bool" where
  "slot_for x ks hdr (Ptk i) \<longleftrightarrow>
     \<not> is_multicast_ether_addr (addr1 hdr) \<and> ieee80211_has_protected (frame_control hdr) \<and>
     (i = ptk_idx ks \<or> ieee80211_get_keyid x hdr = Some i)"
| "slot_for x ks hdr (Sta_gtk i) \<longleftrightarrow> group_slot x hdr i"
| "slot_for x ks hdr (Link_gtk i) \<longleftrightarrow> group_slot x hdr i"
| "slot_for x ks hdr (Iface_key i) \<longleftrightarrow>
     ieee80211_has_protected (frame_control hdr) \<and> ieee80211_get_keyid x hdr = Some i \<and>
     (is_multicast_ether_addr (addr1 hdr) \<or>
      (case key_at ks (Iface_key i) of
         None \<Rightarrow> False
       | Some k \<Rightarrow> kc_cipher (conf k) \<in> {WLAN_CIPHER_SUITE_WEP40, WLAN_CIPHER_SUITE_WEP104}))"

lemma mmie_multicast: "ieee80211_get_mmie_keyidx d = Some i \<Longrightarrow> is_multicast_ether_addr (addr1 d)"
  by (auto simp: ieee80211_get_mmie_keyidx_def Let_def split: if_splits)

lemma bigtk_slot:
  "ieee80211_rx_get_bigtk ks (Some i) = Some r \<Longrightarrow> i \<in> {6, 7} \<Longrightarrow>
     key_at ks r \<noteq> None \<and> r \<in> {Sta_gtk 6, Link_gtk 6, Sta_gtk 7, Link_gtk 7}"
  by (auto simp: ieee80211_rx_get_bigtk_def dest!: first_key_Some)

lemma select_by_keyid_slot:
  assumes "select_by_keyid x ks hdr = Select (Some r)" "ieee80211_has_protected (frame_control hdr)"
  shows "key_at ks r \<noteq> None \<and> slot_for x ks hdr r"
  using assms
  by (auto simp: select_by_keyid_def group_slot_def Let_def split: option.splits if_splits dest!: first_key_Some)

lemma select_slot:
  assumes "rx_select_key x ks rx = Select (Some r)"
  shows "key_at ks r \<noteq> None \<and> slot_for x ks (skb_data (rx_skb rx)) r \<and>
    \<not> (has_flag (rx_flag rx) RX_FLAG_DECRYPTED \<and> has_flag (rx_flag rx) RX_FLAG_IV_STRIPPED)"
proof -
  define hdr where "hdr = skb_data (rx_skb rx)"
  define hw where "hw \<longleftrightarrow> has_flag (rx_flag rx) RX_FLAG_DECRYPTED \<and> has_flag (rx_flag rx) RX_FLAG_IV_STRIPPED"
  note d = assms [unfolded rx_select_key_def Let_def, folded hdr_def, folded hw_def]
  show ?thesis unfolding hdr_def [symmetric] hw_def [symmetric]
  proof (cases "\<not> is_multicast_ether_addr (addr1 hdr)")
    case True
    then have "ieee80211_get_mmie_keyidx hdr = None" using mmie_multicast by (cases "ieee80211_get_mmie_keyidx hdr") auto
    with d True show "key_at ks r \<noteq> None \<and> slot_for x ks hdr r \<and> \<not> hw"
      by (auto split: if_splits option.splits simp: bind_eq_Some_conv dest!: first_key_Some select_by_keyid_slot)
  next
    case False
    with d show "key_at ks r \<noteq> None \<and> slot_for x ks hdr r \<and> \<not> hw"
      by (auto split: if_splits option.splits simp: group_slot_def dest!: first_key_Some select_by_keyid_slot bigtk_slot)
  qed
qed

lemma has_flag_or_self: "m \<noteq> 0 \<Longrightarrow> has_flag (w OR m) m"
  by (auto simp: has_flag_def bit_eq_iff bit_simps)

text \<open>What the handler does with a frame it has selected a key for.\<close>

lemma decrypt_selected:
  assumes "ieee80211_rx_h_decrypt x ks rx = (res, rx', ks')" "rx_select_key x ks rx = Select (Some r)"
    and "\<not> ieee80211_is_ext (frame_control (skb_data (rx_skb rx)))" "key_at ks r = Some k"
    and "cipher_decrypt x k (rx\<lparr>rx_key := Some k\<rparr>) = (cres, crx)"
  shows "if has_flag (key_flags k) KEY_FLAG_TAINTED then res = RX_DROP \<and> ks' = ks
    else res = cres \<and> rx_key rx' = rx_key crx \<and> has_flag (rx_flag rx') RX_FLAG_DECRYPTED \<and>
      skb_data (rx_skb rx') = skb_data (rx_skb crx) \<and>
      ks' = (case rx_key crx of None \<Rightarrow> ks | Some k' \<Rightarrow> put_key r k' ks)"
  using assms
  by (auto simp: ieee80211_rx_h_decrypt_def Let_def mark_decrypted_def report_unprot_def has_flag_or_self
      split: if_splits)

lemma decrypt_not_selected:
  assumes "ieee80211_rx_h_decrypt x ks rx = (res, rx', ks')" "\<nexists>r. rx_select_key x ks rx = Select (Some r)"
  shows "ks' = ks"
  using assms
  by (auto simp: ieee80211_rx_h_decrypt_def Let_def split: if_splits key_choice.splits option.splits)

subsection \<open>Packet numbers across keys, queues and frames\<close>

context aead_suite
begin

lemma check_any:
  assumes "suite_check special get upd mic short_mic x k m n rx = (r, rx')" "rx_key rx = Some k"
  shows "\<exists>k'. rx_key rx' = Some k' \<and> (k' = k \<or> (\<exists>n. k' = upd ((get k)\<lparr>aead_replays := n\<rparr>) k) \<or>
    (\<exists>pn. 0 \<le> memcmp pn (aead_rx_pn (get k) ! security_idx rx) \<and> length pn = 6 \<and>
       k' = upd ((get k)\<lparr>aead_rx_pn := (aead_rx_pn (get k))[security_idx rx := pn]\<rparr>) k))"
proof -
  define pn where "pn = ccmp_hdr2pn (mem_read (skb_data (rx_skb rx))
    (x_hdrlen x (frame_control (skb_data (rx_skb rx)))) 8)"
  have l: "length pn = 6" by (simp add: pn_def)
  let ?res = "memcmp pn (aead_rx_pn (get k) ! security_idx rx)"
  obtain rr buf where o: "suite_open special x k (get k) (rx_skb rx) (has_flag (rx_flag rx) RX_FLAG_DECRYPTED)
      (x_hdrlen x (frame_control (skb_data (rx_skb rx)))) n mic pn = (rr, buf)"
    by (metis surj_pair)
  note d = assms(1) [unfolded suite_check_def Let_def, folded pn_def, unfolded o prod.case]
  show ?thesis
  proof (cases "?res < 0 \<or> ?res = 0 \<and> \<not> has_flag (rx_flag rx) RX_FLAG_ALLOW_SAME_PN")
    case True
    with d show ?thesis by auto
  next
    case False
    then have "0 \<le> ?res" by auto
    moreover have "rx_key rx' = Some k \<or>
        rx_key rx' = Some (upd ((get k)\<lparr>aead_rx_pn := (aead_rx_pn (get k))[security_idx rx := pn]\<rparr>) k)"
      using d False assms(2) by (auto dest!: suite_strip_key split: if_splits)
    ultimately show ?thesis using l by blast
  qed
qed

lemma rx_key_after:
  assumes "decrypt x k rx = (res, rx')" "rx_key rx = Some k"
  shows "\<exists>k'. rx_key rx' = Some k' \<and> (k' = k \<or> (\<exists>n. k' = upd ((get k)\<lparr>aead_replays := n\<rparr>) k) \<or>
    (\<exists>pn. 0 \<le> memcmp pn (aead_rx_pn (get k) ! security_idx rx) \<and> length pn = 6 \<and>
       k' = upd ((get k)\<lparr>aead_rx_pn := (aead_rx_pn (get k))[security_idx rx := pn]\<rparr>) k))"
proof -
  have "rx' = rx \<or> (\<exists>h m. suite_strip short_mic h m rx = (res, rx')) \<or>
      (\<exists>m n. suite_check special get upd mic short_mic x k m n rx = (res, rx'))"
    using assms(1) [unfolded decrypt_eq suite_rx_def Let_def] by (auto split: if_splits)
  then consider "rx' = rx" | h m where "suite_strip short_mic h m rx = (res, rx')"
    | m n where "suite_check special get upd mic short_mic x k m n rx = (res, rx')" by blast
  then show ?thesis
  proof cases
    case 1
    with assms(2) show ?thesis by simp
  next
    case (2 h m)
    with assms(2) show ?thesis by (auto dest: suite_strip_key)
  next
    case (3 m n)
    from check_any [OF this assms(2)] show ?thesis .
  qed
qed

text \<open>Whatever frame is received: the stored numbers of every queue never go back.\<close>

lemma recv_any:
  assumes "rx_pn_ok q (get k)" "recv_of (decrypt x) k rx = (b, k')"
  shows "conf k' = conf k \<and> rx_pn_ok q (get k') \<and> stored_pn q (get k) \<le> stored_pn q (get k') \<and>
    (b \<and> pn_checked q rx \<longrightarrow> stored_pn q (get k) < frame_pn x rx \<and> stored_pn q (get k') = frame_pn x rx)"
proof -
  define rx0 where "rx0 = rx\<lparr>rx_key := Some k\<rparr>"
  obtain r rx' where d: "decrypt x k rx0 = (r, rx')" by (metis surj_pair)
  obtain k1 where k1: "rx_key rx' = Some k1"
    and cases: "k1 = k \<or> (\<exists>n. k1 = upd ((get k)\<lparr>aead_replays := n\<rparr>) k) \<or>
      (\<exists>pn. 0 \<le> memcmp pn (aead_rx_pn (get k) ! security_idx rx) \<and> length pn = 6 \<and>
         k1 = upd ((get k)\<lparr>aead_rx_pn := (aead_rx_pn (get k))[security_idx rx := pn]\<rparr>) k)"
    using rx_key_after [OF d] by (auto simp: rx0_def)
  have k': "k' = k1" using assms(2) d k1 by (simp add: recv_of_def rx0_def)
  have l: "length (aead_rx_pn (get k) ! q) = 6" "q < length (aead_rx_pn (get k))"
    using assms(1) by (auto simp: rx_pn_ok_def)
  have le: "be_nat (aead_rx_pn (get k) ! q) \<le> be_nat pn"
    if "0 \<le> memcmp pn (aead_rx_pn (get k) ! q)" "length pn = 6" for pn
    using memcmp_neg_iff [of pn "aead_rx_pn (get k) ! q"] that l by simp
  have "conf k' = conf k" "rx_pn_ok q (get k')" "stored_pn q (get k) \<le> stored_pn q (get k')"
    using cases assms(1) l le unfolding k'
    by (cases "q = security_idx rx";
        auto simp: rx_pn_ok_def stored_pn_def dest!: subsetD [OF set_update_subset_insert])+
  then show ?thesis using recv_step [OF assms(1) _ assms(2)] by blast
qed

end

text \<open>The member of the key's union its cipher uses.\<close>

definition key_aead :: "ieee80211_key \<Rightarrow> key_u_aead" where
  "key_aead k = (if kc_cipher (conf k) \<in> {WLAN_CIPHER_SUITE_GCMP, WLAN_CIPHER_SUITE_GCMP_256} then u_gcmp k else u_ccmp k)"

definition is_aead_cipher :: "u32 \<Rightarrow> bool" where
  "is_aead_cipher c \<longleftrightarrow> c \<in> {WLAN_CIPHER_SUITE_CCMP, WLAN_CIPHER_SUITE_CCMP_256, WLAN_CIPHER_SUITE_GCMP, WLAN_CIPHER_SUITE_GCMP_256}"

lemma cipher_recv:
  assumes "is_aead_cipher (kc_cipher (conf k))" "rx_pn_ok q (key_aead k)"
    and "recv_of (cipher_decrypt x) k rx = (b, k')"
  shows "conf k' = conf k \<and> rx_pn_ok q (key_aead k') \<and> stored_pn q (key_aead k) \<le> stored_pn q (key_aead k') \<and>
    (b \<and> pn_checked q rx \<longrightarrow> stored_pn q (key_aead k) < frame_pn x rx \<and> stored_pn q (key_aead k') = frame_pn x rx)"
proof -
  have "kc_cipher (conf k) \<in> {WLAN_CIPHER_SUITE_CCMP, WLAN_CIPHER_SUITE_CCMP_256} \<and>
      (\<exists>mic. recv_of (ieee80211_crypto_ccmp_decrypt x mic) k rx = (b, k')) \<or>
    kc_cipher (conf k) \<in> {WLAN_CIPHER_SUITE_GCMP, WLAN_CIPHER_SUITE_GCMP_256} \<and>
      recv_of (ieee80211_crypto_gcmp_decrypt x) k rx = (b, k')"
    using assms(1,3) by (auto simp: is_aead_cipher_def recv_of_def cipher_decrypt_def)
  then consider (ccmp) mic where "kc_cipher (conf k) \<in> {WLAN_CIPHER_SUITE_CCMP, WLAN_CIPHER_SUITE_CCMP_256}"
      "recv_of (ieee80211_crypto_ccmp_decrypt x mic) k rx = (b, k')"
    | (gcmp) "kc_cipher (conf k) \<in> {WLAN_CIPHER_SUITE_GCMP, WLAN_CIPHER_SUITE_GCMP_256}"
      "recv_of (ieee80211_crypto_gcmp_decrypt x) k rx = (b, k')" by blast
  then show ?thesis
  proof cases
    case ccmp
    then have "key_aead k = u_ccmp k" by (auto simp: key_aead_def)
    with assms(2) ccmp ccmp.recv_any [of q k x mic rx b k'] show ?thesis by (auto simp: key_aead_def)
  next
    case gcmp
    then have "key_aead k = u_gcmp k" by (auto simp: key_aead_def)
    with assms(2) gcmp gcmp.recv_any [of q k x rx b k'] show ?thesis by (auto simp: key_aead_def)
  qed
qed

text \<open>
  The whole handler as a receiver of the replay contract: the frames that queue \<open>q\<close> accepts with
  the key of slot \<open>r\<close>, whatever else the handler is given in between.
\<close>

definition slot_recv :: "extern \<Rightarrow> key_ref \<Rightarrow> nat \<Rightarrow> rx_keys \<Rightarrow> ieee80211_rx_data \<Rightarrow> bool \<times> rx_keys" where
  "slot_recv x r q ks rx =
     (case ieee80211_rx_h_decrypt x ks rx of
        (res, rx', ks') \<Rightarrow>
          (res = RX_CONTINUE \<and> rx_select_key x ks rx = Select (Some r) \<and> pn_checked q rx, ks'))"

definition slot_pn :: "key_ref \<Rightarrow> nat \<Rightarrow> rx_keys \<Rightarrow> nat" where
  "slot_pn r q ks = (case key_at ks r of None \<Rightarrow> 0 | Some k \<Rightarrow> stored_pn q (key_aead k))"

definition slot_ok :: "key_ref \<Rightarrow> nat \<Rightarrow> rx_keys \<Rightarrow> bool" where
  "slot_ok r q ks \<longleftrightarrow>
     (case key_at ks r of None \<Rightarrow> False | Some k \<Rightarrow> is_aead_cipher (kc_cipher (conf k)) \<and> rx_pn_ok q (key_aead k))"

lemma fc_is_mgmt:
  assumes "fc_is IEEE80211_FTYPE_MGMT st fc" "st AND IEEE80211_FCTL_FTYPE = 0"
  shows "fc AND IEEE80211_FCTL_FTYPE = 0"
proof -
  have "fc AND IEEE80211_FCTL_FTYPE = (fc AND (IEEE80211_FCTL_FTYPE OR IEEE80211_FCTL_STYPE)) AND IEEE80211_FCTL_FTYPE"
    by (simp add: and.assoc)
  with assms show ?thesis by (simp add: fc_is_def)
qed

lemma robust_mgmt_type: "ieee80211_is_robust_mgmt_frame d \<Longrightarrow> frame_control d AND IEEE80211_FCTL_FTYPE = 0"
  by (auto simp: ieee80211_is_robust_mgmt_frame_def is_robust_mgmt_hdr_def Let_def ieee80211_is_disassoc_def
      ieee80211_is_deauth_def ieee80211_is_action_def intro: fc_is_mgmt split: if_splits)

lemma pn_checked_not_ext: "pn_checked q rx \<Longrightarrow> \<not> ieee80211_is_ext (frame_control (skb_data (rx_skb rx)))"
  by (auto simp: pn_checked_def Let_def ieee80211_is_ext_def ieee80211_is_data_def dest!: robust_mgmt_type)

end
