(* ===== verification/Mvm_Rxq.thy ===== *)
theory Mvm_Rxq
  imports Rx_Keys
begin

text \<open>
  The receive queues of the \<^verbatim>\<open>mvm\<close> driver, \<^verbatim>\<open>iwlwifi/mvm/rxmq.c\<close>: what the driver does with a frame
  the device delivers before \<^verbatim>\<open>mac80211\<close> sees it.  The device decrypts, splits A-MSDUs and spreads
  the frames over several queues; the driver evaluates the decryption status, detects duplicates,
  puts frames in order per block-ack session and queue, and checks packet numbers per queue.

  Stations are entries of the driver's table, so that a pointer to one is its index.  An operation
  returns \<open>None\<close> where the code would read beyond the table of sessions.
\<close>

subsection \<open>Descriptors and state\<close>

record iwl_rx_mpdu_desc =
  mpdu_len :: u16
  mac_flags1 :: u8
  mac_flags2 :: u8
  amsdu_info :: u8
  reorder_data :: u32
  desc_status :: u32

abbreviation (input) IWL_RX_MPDU_MFLG1_MIC_CRC_LEN_MASK :: u8 where "IWL_RX_MPDU_MFLG1_MIC_CRC_LEN_MASK \<equiv> 0xf0"
abbreviation (input) IWL_RX_MPDU_MFLG2_PAD :: u8 where "IWL_RX_MPDU_MFLG2_PAD \<equiv> 0x20"
abbreviation (input) IWL_RX_MPDU_MFLG2_AMSDU :: u8 where "IWL_RX_MPDU_MFLG2_AMSDU \<equiv> 0x40"
abbreviation (input) IWL_RX_MPDU_AMSDU_SUBFRAME_IDX_MASK :: u8 where "IWL_RX_MPDU_AMSDU_SUBFRAME_IDX_MASK \<equiv> 0x7f"
abbreviation (input) IWL_RX_MPDU_AMSDU_LAST_SUBFRAME :: u8 where "IWL_RX_MPDU_AMSDU_LAST_SUBFRAME \<equiv> 0x80"
abbreviation (input) IWL_RX_MPDU_REORDER_NSSN_MASK :: u32 where "IWL_RX_MPDU_REORDER_NSSN_MASK \<equiv> 0x00000fff"
abbreviation (input) IWL_RX_MPDU_REORDER_SN_MASK :: u32 where "IWL_RX_MPDU_REORDER_SN_MASK \<equiv> 0x00fff000"
abbreviation (input) IWL_RX_MPDU_REORDER_BAID_MASK :: u32 where "IWL_RX_MPDU_REORDER_BAID_MASK \<equiv> 0x7f000000"
abbreviation (input) IWL_RX_MPDU_REORDER_BA_OLD_SN :: u32 where "IWL_RX_MPDU_REORDER_BA_OLD_SN \<equiv> 0x80000000"
abbreviation (input) IWL_RX_REORDER_DATA_INVALID_BAID :: nat where "IWL_RX_REORDER_DATA_INVALID_BAID \<equiv> 0x7f"
abbreviation (input) IWL_MAX_BAID :: nat where "IWL_MAX_BAID \<equiv> 32"
abbreviation (input) IWL_MAX_BAID_OLD :: nat where "IWL_MAX_BAID_OLD \<equiv> 16"
abbreviation (input) IWL_MAX_TID_COUNT :: nat where "IWL_MAX_TID_COUNT \<equiv> 8"
abbreviation (input) IWL_STATION_COUNT_MAX :: nat where "IWL_STATION_COUNT_MAX \<equiv> 16"

abbreviation (input) IWL_RX_MPDU_STATUS_SRC_STA_FOUND :: u32 where "IWL_RX_MPDU_STATUS_SRC_STA_FOUND \<equiv> 0x4"
abbreviation (input) IWL_RX_MPDU_STATUS_KEY_VALID :: u32 where "IWL_RX_MPDU_STATUS_KEY_VALID \<equiv> 0x8"
abbreviation (input) IWL_RX_MPDU_STATUS_ICV_OK :: u32 where "IWL_RX_MPDU_STATUS_ICV_OK \<equiv> 0x20"
abbreviation (input) IWL_RX_MPDU_STATUS_MIC_OK :: u32 where "IWL_RX_MPDU_STATUS_MIC_OK \<equiv> 0x40"
abbreviation (input) IWL_RX_MPDU_RES_STATUS_TTAK_OK :: u32 where "IWL_RX_MPDU_RES_STATUS_TTAK_OK \<equiv> 0x80"
abbreviation (input) IWL_RX_MPDU_STATUS_REPLAY_ERROR :: u32 where "IWL_RX_MPDU_STATUS_REPLAY_ERROR \<equiv> 0x80"
abbreviation (input) IWL_RX_MPDU_STATUS_SEC_MASK :: u32 where "IWL_RX_MPDU_STATUS_SEC_MASK \<equiv> 0x700"
abbreviation (input) IWL_RX_MPDU_STATUS_SEC_UNKNOWN :: u32 where "IWL_RX_MPDU_STATUS_SEC_UNKNOWN \<equiv> 0x700"
abbreviation (input) IWL_RX_MPDU_STATUS_SEC_NONE :: u32 where "IWL_RX_MPDU_STATUS_SEC_NONE \<equiv> 0"
abbreviation (input) IWL_RX_MPDU_STATUS_SEC_WEP :: u32 where "IWL_RX_MPDU_STATUS_SEC_WEP \<equiv> 0x100"
abbreviation (input) IWL_RX_MPDU_STATUS_SEC_CCM :: u32 where "IWL_RX_MPDU_STATUS_SEC_CCM \<equiv> 0x200"
abbreviation (input) IWL_RX_MPDU_STATUS_SEC_TKIP :: u32 where "IWL_RX_MPDU_STATUS_SEC_TKIP \<equiv> 0x300"
abbreviation (input) IWL_RX_MPDU_STATUS_SEC_EXT_ENC :: u32 where "IWL_RX_MPDU_STATUS_SEC_EXT_ENC \<equiv> 0x400"
abbreviation (input) IWL_RX_MPDU_STATUS_SEC_GCM :: u32 where "IWL_RX_MPDU_STATUS_SEC_GCM \<equiv> 0x500"
abbreviation (input) IWL_RX_MPDU_STATUS_DUPLICATE :: u32 where "IWL_RX_MPDU_STATUS_DUPLICATE \<equiv> 0x400000"
abbreviation (input) IWL_RX_MPDU_PHY_AMPDU :: u16 where "IWL_RX_MPDU_PHY_AMPDU \<equiv> 0x20"
abbreviation (input) FH_RSCSR_RADA_EN :: u32 where "FH_RSCSR_RADA_EN \<equiv> 0x4000000"

text \<open>The packet numbers of a key, by queue and TID; a queue's memory of sequence controls, by TID and 8 for frames without.\<close>

type_synonym iwl_mvm_key_pn = "u8 list list list"

record iwl_mvm_rxq_dup_data =
  last_seq :: "u16 list"
  last_sub_frame :: "u8 list"

text \<open>The beacon keys are those of the station's interface: MIC length and index of each.\<close>

record iwl_mvm_sta =
  ptk_pn :: "iwl_mvm_key_pn option list"
  dup_data :: "iwl_mvm_rxq_dup_data list option"
  tid_to_baid :: "u8 list"
  bcn_prot :: "(nat \<times> nat) option list"
  mvm_netdev :: bool

text \<open>The reorder buffer of one queue, with its entries.\<close>

record iwl_mvm_reorder_buffer =
  head_sn :: u16
  num_stored :: u16
  rb_valid :: bool
  rb_entries :: "sk_buff list list"

record iwl_mvm_baid_data =
  bd_sta_mask :: u32
  bd_tid :: u8
  bd_baid :: u8
  bd_timeout :: u16
  bd_buf_size :: u16
  bd_last_rx :: u64
  reorder_bufs :: "iwl_mvm_reorder_buffer list"

record iwl_mvm =
  baid_map :: "iwl_mvm_baid_data option list"
  fw_id_to_mac_id :: "iwl_mvm_sta option list"
  num_stations :: nat
  num_rxqs :: nat
  rx_ba_sessions :: int
  family_9000 :: bool
  new_rx_api :: bool
  new_tx_api :: bool
  gen2 :: bool
  deprecate_ttak :: bool
  monitor_on :: bool
  rx_includes_fcs :: bool
  in_hw_restart :: bool
  queue_sync_cookie :: u32
  queue_sync_state :: u64

text \<open>What the driver does with a frame, and its other effects.\<close>

datatype mvm_out = To_mac80211 sk_buff | Pn_reject sk_buff | Freed sk_buff
  | Bcn_mic_failure nat | Bcn_replay nat | Unprot_report "u8 list" | Wake_sync

definition mvm_sta_of :: "iwl_mvm \<Rightarrow> nat option \<Rightarrow> iwl_mvm_sta option" where
  "mvm_sta_of mvm sta = Option.bind sta (\<lambda>i. if i < length (fw_id_to_mac_id mvm) then fw_id_to_mac_id mvm ! i else None)"

definition put_sta :: "nat option \<Rightarrow> iwl_mvm_sta option \<Rightarrow> iwl_mvm \<Rightarrow> iwl_mvm" where
  "put_sta sta s mvm =
     (case sta of None \<Rightarrow> mvm | Some i \<Rightarrow> mvm\<lparr>fw_id_to_mac_id := (fw_id_to_mac_id mvm)[i := s]\<rparr>)"

definition add_rx_flag :: "u32 \<Rightarrow> sk_buff \<Rightarrow> sk_buff" where
  "add_rx_flag f skb = skb\<lparr>skb_rx := (skb_rx skb)\<lparr>rs_flag := rs_flag (skb_rx skb) OR f\<rparr>\<rparr>"

subsection \<open>Packet numbers\<close>

definition iwl_mvm_check_pn ::
  "extern \<Rightarrow> nat \<Rightarrow> iwl_mvm_sta option \<Rightarrow> sk_buff \<Rightarrow> int \<times> iwl_mvm_sta option \<times> sk_buff" where
  "iwl_mvm_check_pn x queue sta skb =
     (let hdr = skb_data skb; fc = frame_control hdr; flag = rs_flag (skb_rx skb) in
      if \<not> ieee80211_is_data fc \<or> is_multicast_ether_addr (addr1 hdr) then (0, sta, skb)
      else if \<not> has_flag flag RX_FLAG_DECRYPTED then (0, sta, skb)
      else if queue = 0 then (0, sta, skb)
      else
        (case sta of
           None \<Rightarrow> (- 1, sta, skb)
         | Some mvmsta \<Rightarrow>
             (let extiv = drop (x_hdrlen x fc) hdr;
                  keyidx = unat (drop_bit 6 (extiv ! 3))
              in case ptk_pn mvmsta ! keyidx of
                   None \<Rightarrow> (- 1, sta, skb)
                 | Some key_pn \<Rightarrow>
                     (let t = (if ieee80211_is_data_qos fc then unat (ieee80211_get_tid hdr) else 0) in
                      if t \<ge> IWL_MAX_TID_COUNT then (- 1, sta, skb)
                      else
                        (let pn = [extiv ! 7, extiv ! 6, extiv ! 5, extiv ! 4, extiv ! 1, extiv ! 0];
                             res = memcmp pn (key_pn ! queue ! t)
                         in if res < 0 then (- 1, sta, skb)
                            else if res = 0 \<and> \<not> has_flag flag RX_FLAG_ALLOW_SAME_PN then (- 1, sta, skb)
                            else
                              (0, Some (mvmsta\<lparr>ptk_pn := (ptk_pn mvmsta)
                                      [keyidx := Some (key_pn[queue := (key_pn ! queue)[t := pn]])]\<rparr>),
                               add_rx_flag RX_FLAG_PN_VALIDATED skb))))))"

definition iwl_mvm_pass_packet_to_mac80211 ::
  "extern \<Rightarrow> nat \<Rightarrow> iwl_mvm_sta option \<Rightarrow> sk_buff \<Rightarrow> mvm_out \<times> iwl_mvm_sta option" where
  "iwl_mvm_pass_packet_to_mac80211 x queue sta skb =
     (case iwl_mvm_check_pn x queue sta skb of
        (r, sta, skb) \<Rightarrow> (if r \<noteq> 0 then Pn_reject skb else To_mac80211 skb, sta))"

subsection \<open>Decryption status\<close>

text \<open>
  The two functions return a status, the receive flags of the frame, the length of the cipher's
  header, and what they report.  The length of a beacon is the one of the descriptor.
\<close>

definition iwl_mvm_rx_mgmt_prot ::
  "iwl_mvm_sta option \<Rightarrow> u8 list \<Rightarrow> iwl_rx_mpdu_desc \<Rightarrow> u32 \<Rightarrow> u32 \<Rightarrow> int \<times> u32 \<times> mvm_out list" where
  "iwl_mvm_rx_mgmt_prot sta hdr desc status flag =
     (let len = unat (mpdu_len desc) in
      if status AND IWL_RX_MPDU_STATUS_SEC_MASK = IWL_RX_MPDU_STATUS_SEC_NONE then (0, flag, [])
      else if \<not> ieee80211_is_beacon (frame_control hdr) then (0, flag, [])
      else
        (case sta of
           None \<Rightarrow> (- 1, flag, [])
         | Some mvmsta \<Rightarrow>
             (let report = (if mvm_netdev mvmsta then [Unprot_report (take len hdr)] else []);
                  key = (if bcn_prot mvmsta ! 0 \<noteq> None then bcn_prot mvmsta ! 0 else bcn_prot mvmsta ! 1)
              in if \<not> has_flag status IWL_RX_MPDU_STATUS_KEY_VALID then (- 1, flag, report)
                 else if has_flag status IWL_RX_MPDU_STATUS_MIC_OK \<and> \<not> has_flag status IWL_RX_MPDU_STATUS_REPLAY_ERROR
                 then (0, flag OR RX_FLAG_DECRYPTED, [])
                 else
                   (case key of
                      None \<Rightarrow> (- 1, flag, report)
                    | Some (icv_len, keyidx) \<Rightarrow>
                        if len < icv_len then (- 1, flag, report)
                        else
                          (let keyid = unat (ucast (get_unaligned_le16 hdr (len - icv_len + 2)) :: u8) in
                           if keyid \<noteq> keyidx \<and> keyid \<noteq> 6 \<and> keyid \<noteq> 7 then (- 1, flag, [])
                           else if keyid \<noteq> keyidx \<and> bcn_prot mvmsta ! (keyid - 6) = None then (- 1, flag, report)
                           else
                             (let idx = (if keyid = keyidx then keyidx else snd (the (bcn_prot mvmsta ! (keyid - 6)))) in
                              (- 1, flag,
                               (if \<not> has_flag status IWL_RX_MPDU_STATUS_MIC_OK then [Bcn_mic_failure idx]
                                else if has_flag status IWL_RX_MPDU_STATUS_REPLAY_ERROR then [Bcn_replay idx]
                                else []) @ report)))))))"

definition iwl_mvm_rx_crypto ::
  "iwl_mvm \<Rightarrow> iwl_mvm_sta option \<Rightarrow> u8 list \<Rightarrow> u32 \<Rightarrow> u16 \<Rightarrow> iwl_rx_mpdu_desc \<Rightarrow> u32 \<Rightarrow>
     int \<times> u32 \<times> nat \<times> mvm_out list" where
  "iwl_mvm_rx_crypto mvm sta hdr flag phy_info desc pkt_flags =
     (let status = desc_status desc; sec = status AND IWL_RX_MPDU_STATUS_SEC_MASK; fc = frame_control hdr in
      if has_flag phy_info IWL_RX_MPDU_PHY_AMPDU \<and> sec = IWL_RX_MPDU_STATUS_SEC_UNKNOWN \<and> \<not> monitor_on mvm
      then (- 1, flag, 0, [])
      else if ieee80211_is_mgmt fc \<and> \<not> ieee80211_has_protected fc
      then (case iwl_mvm_rx_mgmt_prot sta hdr desc status flag of (r, flag, outs) \<Rightarrow> (r, flag, 0, outs))
      else if \<not> ieee80211_has_protected fc \<or> sec = IWL_RX_MPDU_STATUS_SEC_NONE then (0, flag, 0, [])
      else if sec = IWL_RX_MPDU_STATUS_SEC_CCM \<or> sec = IWL_RX_MPDU_STATUS_SEC_GCM
      then
        (if \<not> has_flag status IWL_RX_MPDU_STATUS_MIC_OK then (- 1, flag, 0, [])
         else (0, flag OR RX_FLAG_DECRYPTED OR RX_FLAG_MIC_STRIPPED, 8, []))
      else if sec = IWL_RX_MPDU_STATUS_SEC_TKIP \<and> \<not> deprecate_ttak mvm \<and> \<not> has_flag status IWL_RX_MPDU_RES_STATUS_TTAK_OK
      then (0, flag, 0, [])
      else if sec = IWL_RX_MPDU_STATUS_SEC_TKIP \<or> sec = IWL_RX_MPDU_STATUS_SEC_WEP
      then
        (let tkip = sec = IWL_RX_MPDU_STATUS_SEC_TKIP;
             flag = (if tkip \<and> gen2 mvm \<and> \<not> has_flag status IWL_RX_MPDU_STATUS_MIC_OK
                     then flag OR RX_FLAG_MMIC_ERROR else flag);
             crypt_len = (if tkip then 8 else 0)
         in if \<not> has_flag status IWL_RX_MPDU_STATUS_ICV_OK then (- 1, flag, crypt_len, [])
            else
              (let flag = flag OR RX_FLAG_DECRYPTED;
                   crypt_len = (if tkip then crypt_len else 4);
                   flag = (if has_flag pkt_flags FH_RSCSR_RADA_EN
                           then (if gen2 mvm then flag OR RX_FLAG_ICV_STRIPPED OR RX_FLAG_MMIC_STRIPPED
                                 else flag OR RX_FLAG_ICV_STRIPPED)
                           else flag)
               in (0, flag, crypt_len, [])))
      else if sec = IWL_RX_MPDU_STATUS_SEC_EXT_ENC
      then
        (if \<not> has_flag status IWL_RX_MPDU_STATUS_MIC_OK then (- 1, flag, 0, [])
         else (0, flag OR RX_FLAG_DECRYPTED, 0, []))
      else (0, flag, 0, []))"

subsection \<open>Duplicates\<close>

definition iwl_mvm_is_dup ::
  "nat \<Rightarrow> iwl_rx_mpdu_desc \<Rightarrow> iwl_mvm_sta \<Rightarrow> sk_buff \<Rightarrow> bool \<times> iwl_mvm_sta \<times> sk_buff" where
  "iwl_mvm_is_dup queue desc mvm_sta skb =
     (let hdr = skb_data skb; fc = frame_control hdr in
      case dup_data mvm_sta of
        None \<Rightarrow> (False, mvm_sta, skb)
      | Some dups \<Rightarrow>
          if ieee80211_is_ctl fc \<or> ieee80211_is_any_nullfunc fc \<or> is_multicast_ether_addr (addr1 hdr)
          then (False, mvm_sta, skb)
          else if ieee80211_is_data_qos fc \<and> unat (ieee80211_get_tid hdr) \<ge> IWL_MAX_TID_COUNT
          then (True, mvm_sta, skb)
          else
            (let d = dups ! queue;
                 t = (if ieee80211_is_data_qos fc then unat (ieee80211_get_tid hdr) else IWL_MAX_TID_COUNT);
                 sub_frame_idx = amsdu_info desc AND IWL_RX_MPDU_AMSDU_SUBFRAME_IDX_MASK;
                 same = last_seq d ! t = seq_ctrl hdr
             in if ieee80211_has_retry fc \<and> same \<and> last_sub_frame d ! t \<ge> sub_frame_idx
                then (True, mvm_sta, skb)
                else
                  (let skb = (if same \<and> sub_frame_idx > last_sub_frame d ! t \<and>
                                 has_flag (mac_flags2 desc) IWL_RX_MPDU_MFLG2_AMSDU
                              then add_rx_flag RX_FLAG_ALLOW_SAME_PN skb else skb);
                       d = d\<lparr>last_seq := (last_seq d)[t := seq_ctrl hdr],
                             last_sub_frame := (last_sub_frame d)[t := sub_frame_idx]\<rparr>
                   in (False, mvm_sta\<lparr>dup_data := Some (dups[queue := d])\<rparr>,
                       add_rx_flag RX_FLAG_DUP_VALIDATED skb))))"

subsection \<open>The reorder buffer of a queue\<close>

text \<open>
  The operations on one buffer thread the station, whose packet numbers the frames handed on are
  checked against, the buffer, and what was done with the frames so far.
\<close>

type_synonym mvm_release = "iwl_mvm_sta option \<times> iwl_mvm_reorder_buffer \<times> mvm_out list"

text \<open>Emptying the list of an entry.\<close>

fun release_entry :: "extern \<Rightarrow> nat \<Rightarrow> sk_buff list \<Rightarrow> mvm_release \<Rightarrow> mvm_release" where
  "release_entry x queue [] r = r"
| "release_entry x queue (skb # skbs) (sta, buf, outs) =
     (let (out, sta) = iwl_mvm_pass_packet_to_mac80211 x queue sta skb
      in release_entry x queue skbs (sta, buf\<lparr>num_stored := num_stored buf - 1\<rparr>, outs @ [out]))"

function release_loop :: "extern \<Rightarrow> nat \<Rightarrow> nat \<Rightarrow> u16 \<Rightarrow> u16 \<Rightarrow> mvm_release \<Rightarrow> mvm_release" where
  "release_loop x queue bsize nssn sn (sta, buf, outs) =
     (if ieee80211_sn_less sn nssn
      then
        (let index = unat sn mod bsize; skbs = rb_entries buf ! index;
             buf = buf\<lparr>rb_entries := (rb_entries buf)[index := []]\<rparr>
         in release_loop x queue bsize nssn (ieee80211_sn_inc sn) (release_entry x queue skbs (sta, buf, outs)))
      else (sta, buf, outs))"
  by pat_completeness auto
termination
  by (relation "measure (\<lambda>(x, queue, bsize, nssn, sn, r). sn_dist sn nssn)") (auto simp: sn_less_iff sn_dist_inc)

declare release_loop.simps [simp del]

definition iwl_mvm_release_frames :: "extern \<Rightarrow> nat \<Rightarrow> nat \<Rightarrow> u16 \<Rightarrow> mvm_release \<Rightarrow> mvm_release" where
  "iwl_mvm_release_frames x queue bsize nssn r =
     (case release_loop x queue bsize nssn (head_sn (fst (snd r))) r of
        (sta, buf, outs) \<Rightarrow> (sta, buf\<lparr>head_sn := nssn\<rparr>, outs))"

text \<open>
  What \<^verbatim>\<open>iwl_mvm_reorder\<close> does once the session is found: whether the frame was buffered or dropped.
  \<open>partial\<close> is a subframe of an A-MSDU that is not its last.
\<close>

definition reorder_mpdu ::
  "extern \<Rightarrow> nat \<Rightarrow> nat \<Rightarrow> sk_buff \<Rightarrow> u16 \<Rightarrow> u16 \<Rightarrow> bool \<Rightarrow> bool \<Rightarrow> bool \<Rightarrow>
     iwl_mvm_sta option \<times> iwl_mvm_reorder_buffer \<Rightarrow> bool \<times> mvm_release" where
  "reorder_mpdu x queue bsize skb sn nssn partial old duplicate =
     (\<lambda>(sta, buf).
        if \<not> rb_valid buf \<and> old then (False, (sta, buf, []))
        else
          (let buf = buf\<lparr>rb_valid := True\<rparr> in
           if duplicate \<or> old then (True, (sta, buf, [Freed skb]))
           else if num_stored buf = 0 \<and> ieee80211_sn_less sn nssn
           then (False, (sta, if partial then buf else buf\<lparr>head_sn := nssn\<rparr>, []))
           else if num_stored buf = 0 \<and> sn = head_sn buf
           then (False, (sta, if partial then buf else buf\<lparr>head_sn := ieee80211_sn_inc (head_sn buf)\<rparr>, []))
           else
             (let index = unat sn mod bsize;
                  buf = buf\<lparr>rb_entries := (rb_entries buf)[index := rb_entries buf ! index @ [skb]],
                            num_stored := num_stored buf + 1\<rparr>
              in (True,
                  if \<not> partial then iwl_mvm_release_frames x queue bsize nssn (sta, buf, [])
                  else (sta, if num_stored buf = 1 then buf\<lparr>head_sn := nssn\<rparr> else buf, [])))))"

subsection \<open>Sessions\<close>

definition put_buf :: "nat \<Rightarrow> nat \<Rightarrow> iwl_mvm_reorder_buffer \<Rightarrow> iwl_mvm \<Rightarrow> iwl_mvm" where
  "put_buf baid queue buf mvm =
     (case baid_map mvm ! baid of
        None \<Rightarrow> mvm
      | Some bd \<Rightarrow> mvm\<lparr>baid_map := (baid_map mvm)[baid := Some (bd\<lparr>reorder_bufs := (reorder_bufs bd)[queue := buf]\<rparr>)]\<rparr>)"

definition ieee80211_is_back_req :: "u16 \<Rightarrow> bool" where
  "ieee80211_is_back_req = fc_is IEEE80211_FTYPE_CTL 0x0080"

definition desc_baid :: "iwl_rx_mpdu_desc \<Rightarrow> nat" where
  "desc_baid desc = unat (drop_bit 24 (reorder_data desc AND IWL_RX_MPDU_REORDER_BAID_MASK))"

definition desc_nssn :: "iwl_rx_mpdu_desc \<Rightarrow> u16" where
  "desc_nssn desc = ucast (reorder_data desc AND IWL_RX_MPDU_REORDER_NSSN_MASK)"

definition desc_sn :: "iwl_rx_mpdu_desc \<Rightarrow> u16" where
  "desc_sn desc = ucast (drop_bit 12 (reorder_data desc AND IWL_RX_MPDU_REORDER_SN_MASK))"

definition iwl_mvm_sta_fw_id_mask :: "nat option \<Rightarrow> u32" where
  "iwl_mvm_sta_fw_id_mask sta = (case sta of None \<Rightarrow> 0 | Some i \<Rightarrow> push_bit i 1)"

definition iwl_mvm_reorder ::
  "extern \<Rightarrow> nat \<Rightarrow> nat option \<Rightarrow> iwl_rx_mpdu_desc \<Rightarrow> sk_buff \<Rightarrow> iwl_mvm \<Rightarrow> (bool \<times> iwl_mvm \<times> mvm_out list) option" where
  "iwl_mvm_reorder x queue sta desc skb mvm =
     (let hdr = skb_data skb; fc = frame_control hdr; baid = desc_baid desc;
          partial = has_flag (mac_flags2 desc) IWL_RX_MPDU_MFLG2_AMSDU \<and>
                    \<not> has_flag (amsdu_info desc) IWL_RX_MPDU_AMSDU_LAST_SUBFRAME
      in if family_9000 mvm then Some (False, mvm, [])
         else if baid = IWL_RX_REORDER_DATA_INVALID_BAID then Some (False, mvm, [])
         else if mvm_sta_of mvm sta = None then Some (False, mvm, [])
         else if \<not> ieee80211_is_back_req fc \<and> (\<not> ieee80211_is_data_qos fc \<or> is_multicast_ether_addr (addr1 hdr))
         then Some (False, mvm, [])
         else if \<not> ieee80211_is_data_present fc then Some (False, mvm, [])
         else if baid \<ge> length (baid_map mvm) then None
         else
           (case baid_map mvm ! baid of
              None \<Rightarrow> Some (False, mvm, [])
            | Some bd \<Rightarrow>
                if ieee80211_get_tid hdr \<noteq> bd_tid bd \<or> iwl_mvm_sta_fw_id_mask sta AND bd_sta_mask bd = 0
                then Some (False, mvm, [])
                else
                  (case reorder_mpdu x queue (unat (bd_buf_size bd)) skb (desc_sn desc) (desc_nssn desc) partial
                          (has_flag (reorder_data desc) IWL_RX_MPDU_REORDER_BA_OLD_SN)
                          (has_flag (desc_status desc) IWL_RX_MPDU_STATUS_DUPLICATE)
                          (mvm_sta_of mvm sta, reorder_bufs bd ! queue) of
                     (consumed, (s, buf, outs)) \<Rightarrow>
                       Some (consumed, put_buf baid queue buf (put_sta sta s mvm), outs))))"

text \<open>\<^verbatim>\<open>ffs(mask) - 1\<close>: the first station of a session; none if the mask is empty.\<close>

definition first_sta :: "u32 \<Rightarrow> nat option" where
  "first_sta m = List.find (\<lambda>i. bit m i) [0..<32]"

text \<open>Releasing frames of a session up to a number that depends on it.\<close>

definition release_session ::
  "extern \<Rightarrow> nat \<Rightarrow> nat \<Rightarrow> (iwl_mvm_baid_data \<Rightarrow> iwl_mvm_reorder_buffer \<Rightarrow> u16) \<Rightarrow> iwl_mvm \<Rightarrow> iwl_mvm \<times> mvm_out list" where
  "release_session x baid queue target mvm =
     (case baid_map mvm ! baid of
        None \<Rightarrow> (mvm, [])
      | Some bd \<Rightarrow>
          (let sta = first_sta (bd_sta_mask bd); buf = reorder_bufs bd ! queue in
           if mvm_sta_of mvm sta = None then (mvm, [])
           else
             (case iwl_mvm_release_frames x queue (unat (bd_buf_size bd)) (target bd buf) (mvm_sta_of mvm sta, buf, []) of
                (s, buf, outs) \<Rightarrow> (put_buf baid queue buf (put_sta sta s mvm), outs))))"

definition iwl_mvm_del_ba :: "extern \<Rightarrow> nat \<Rightarrow> u32 \<Rightarrow> iwl_mvm \<Rightarrow> iwl_mvm \<times> mvm_out list" where
  "iwl_mvm_del_ba x queue data_baid mvm =
     (let baid = unat (ucast data_baid :: u8) in
      if baid \<ge> IWL_MAX_BAID then (mvm, [])
      else release_session x baid queue (\<lambda>bd buf. ieee80211_sn_add (head_sn buf) (bd_buf_size bd)) mvm)"

definition iwl_mvm_release_frames_from_notif :: "extern \<Rightarrow> nat \<Rightarrow> u16 \<Rightarrow> nat \<Rightarrow> iwl_mvm \<Rightarrow> iwl_mvm \<times> mvm_out list" where
  "iwl_mvm_release_frames_from_notif x baid nssn queue mvm =
     (if baid = IWL_RX_REORDER_DATA_INVALID_BAID \<or> baid \<ge> length (baid_map mvm) then (mvm, [])
      else release_session x baid queue (\<lambda>_ _. nssn) mvm)"

text \<open>The notifications of the firmware: the payload's length, then its fields.\<close>

definition iwl_mvm_rx_frame_release :: "extern \<Rightarrow> nat \<Rightarrow> nat \<Rightarrow> u8 \<Rightarrow> u16 \<Rightarrow> iwl_mvm \<Rightarrow> iwl_mvm \<times> mvm_out list" where
  "iwl_mvm_rx_frame_release x queue len baid nssn mvm =
     (if len < 4 then (mvm, []) else iwl_mvm_release_frames_from_notif x (unat baid) nssn queue mvm)"

definition iwl_mvm_rx_bar_frame_release :: "extern \<Rightarrow> nat \<Rightarrow> nat \<Rightarrow> u32 \<Rightarrow> u32 \<Rightarrow> iwl_mvm \<Rightarrow> iwl_mvm \<times> mvm_out list" where
  "iwl_mvm_rx_bar_frame_release x queue len sta_tid ba_info mvm =
     (let baid = unat (drop_bit 24 (ba_info AND 0x3f000000)); nssn = ucast (ba_info AND 0xfff);
          sta_id = unat (drop_bit 4 (sta_tid AND 0x1f0)); t = ucast (sta_tid AND 0xf)
      in if len < 8 then (mvm, [])
         else if baid = IWL_RX_REORDER_DATA_INVALID_BAID \<or> baid \<ge> length (baid_map mvm) then (mvm, [])
         else
           (case baid_map mvm ! baid of
              None \<Rightarrow> (mvm, [])
            | Some bd \<Rightarrow>
                if t \<noteq> bd_tid bd \<or> sta_id > IWL_STATION_COUNT_MAX \<or> \<not> bit (bd_sta_mask bd) sta_id then (mvm, [])
                else iwl_mvm_release_frames_from_notif x baid nssn queue mvm))"

text \<open>
  The message the driver sends to each of its queues: its length, type (0 empty, 1 delete a
  session), whether it is a synchronisation, its cookie and the session.
\<close>

definition iwl_mvm_rx_queue_notif ::
  "extern \<Rightarrow> nat \<Rightarrow> nat \<Rightarrow> u16 \<Rightarrow> bool \<Rightarrow> u32 \<Rightarrow> u32 \<Rightarrow> iwl_mvm \<Rightarrow> iwl_mvm \<times> mvm_out list" where
  "iwl_mvm_rx_queue_notif x queue len ty sync cookie data_baid mvm =
     (if len < 12 then (mvm, [])
      else if sync \<and> queue_sync_cookie mvm \<noteq> cookie then (mvm, [])
      else
        (let (mvm, outs) = (if ty = 1 \<and> len - 12 = 4 then iwl_mvm_del_ba x queue data_baid mvm else (mvm, [])) in
         if sync
         then
           (let mvm = mvm\<lparr>queue_sync_state := queue_sync_state mvm AND NOT (push_bit queue 1)\<rparr> in
            (mvm, if queue_sync_state mvm = 0 then outs @ [Wake_sync] else outs))
         else (mvm, outs)))"

definition iwl_mvm_agg_rx_received :: "(u16 \<Rightarrow> u64) \<Rightarrow> u64 \<Rightarrow> nat \<Rightarrow> iwl_mvm \<Rightarrow> iwl_mvm option" where
  "iwl_mvm_agg_rx_received tu_to_jiffies now baid mvm =
     (if baid \<ge> length (baid_map mvm) then None
      else
        (case baid_map mvm ! baid of
           None \<Rightarrow> Some mvm
         | Some bd \<Rightarrow>
             if bd_timeout bd = 0 then Some mvm
             else if time_after now (bd_last_rx bd + tu_to_jiffies (bd_timeout bd))
             then Some (mvm\<lparr>baid_map := (baid_map mvm)[baid := Some (bd\<lparr>bd_last_rx := now\<rparr>)]\<rparr>)
             else Some mvm))"

subsection \<open>Receiving a frame\<close>

text \<open>\<^verbatim>\<open>iwl_mvm_flip_address\<close> on the six octets at an offset of the header.\<close>

definition iwl_mvm_flip_address :: "nat \<Rightarrow> u8 list \<Rightarrow> u8 list" where
  "iwl_mvm_flip_address off d = mem_write d off (rev (mem_read d off 6))"

text \<open>The device copies the header to every frame it splits off an A-MSDU.\<close>

definition fix_amsdu_header :: "iwl_mvm \<Rightarrow> iwl_rx_mpdu_desc \<Rightarrow> u8 list \<Rightarrow> u8 list" where
  "fix_amsdu_header mvm desc d =
     (if has_flag (mac_flags2 desc) IWL_RX_MPDU_MFLG2_AMSDU \<and> ieee80211_is_data_qos (frame_control d)
      then
        (let d = d[qos_ctl_off d := ieee80211_get_qos_ctl d AND NOT IEEE80211_QOS_CTL_A_MSDU_PRESENT] in
         if family_9000 mvm
         then
           (let d = iwl_mvm_flip_address 16 d in
            if ieee80211_has_a4 (frame_control d) then iwl_mvm_flip_address 24 d else d)
         else d)
      else d)"

definition rx_mpdu_sta :: "(u8 list \<Rightarrow> nat option) \<Rightarrow> iwl_mvm \<Rightarrow> iwl_rx_mpdu_desc \<Rightarrow> u8 list \<Rightarrow> nat option" where
  "rx_mpdu_sta find_sta_by_ifaddr mvm desc hdr =
     (if has_flag (desc_status desc) IWL_RX_MPDU_STATUS_SRC_STA_FOUND
      then
        (let sta_id = unat (drop_bit 24 (desc_status desc AND 0x1f000000)) in
         if sta_id < num_stations mvm \<and> mvm_sta_of mvm (Some sta_id) \<noteq> None then Some sta_id else None)
      else if \<not> is_multicast_ether_addr (addr2 hdr) then find_sta_by_ifaddr (addr2 hdr)
      else None)"

text \<open>
  The frame built from the device's buffer \<open>hdr\<close>, which has padding after the header and the cipher's
  header if the first is not a multiple of four octets long, and may end in check sequences; the
  head of the new frame has room for \<open>tailroom\<close> octets, which is more than any header.
\<close>

definition mic_crc_len :: "iwl_rx_mpdu_desc \<Rightarrow> u8" where
  "mic_crc_len desc = push_bit 1 (drop_bit 4 (mac_flags1 desc AND IWL_RX_MPDU_MFLG1_MIC_CRC_LEN_MASK))"

definition iwl_mvm_create_skb :: "extern \<Rightarrow> bool \<Rightarrow> nat \<Rightarrow> iwl_rx_mpdu_desc \<Rightarrow> nat \<Rightarrow> u8 list \<Rightarrow> u8 list option" where
  "iwl_mvm_create_skb x includes_fcs tailroom desc crypt_len hdr =
     (let mic_len = ucast (mic_crc_len desc);
          hdrlen = x_hdrlen x (frame_control hdr);
          pad = has_flag (mac_flags2 desc) IWL_RX_MPDU_MFLG2_PAD;
          len = (if pad then mpdu_len desc - 2 else mpdu_len desc);
          pad_len = (if pad then 2 else 0);
          len = unat (if len > mic_len \<and> \<not> includes_fcs then len - mic_len else len);
          headlen = (if len \<le> tailroom then len else hdrlen + crypt_len + 8);
          hdrlen = hdrlen + crypt_len
      in if headlen < hdrlen then None
         else Some (take hdrlen hdr @ take (headlen - hdrlen) (drop (hdrlen + pad_len) hdr) @
                    take (len - headlen) (drop (headlen + pad_len) hdr)))"

text \<open>
  The end of \<^verbatim>\<open>iwl_mvm_rx_mpdu_mq\<close>: building the frame, reordering, and handing it on unless time
  measurement or the management engine takes it.
\<close>

definition rx_mpdu_deliver ::
  "extern \<Rightarrow> (sk_buff \<Rightarrow> bool) \<Rightarrow> nat \<Rightarrow> nat option \<Rightarrow> iwl_rx_mpdu_desc \<Rightarrow> sk_buff \<Rightarrow> iwl_mvm \<Rightarrow> (iwl_mvm \<times> mvm_out list) option" where
  "rx_mpdu_deliver x taken queue sta desc skb mvm =
     (case iwl_mvm_reorder x queue sta desc skb mvm of
        None \<Rightarrow> None
      | Some (consumed, mvm, outs) \<Rightarrow>
          if consumed \<or> taken skb then Some (mvm, outs)
          else
            (let skb = (if family_9000 mvm \<and> has_flag (mac_flags2 desc) IWL_RX_MPDU_MFLG2_AMSDU \<and>
                           \<not> has_flag (amsdu_info desc) IWL_RX_MPDU_AMSDU_LAST_SUBFRAME
                        then add_rx_flag RX_FLAG_AMSDU_MORE skb else skb);
                 (out, s) = iwl_mvm_pass_packet_to_mac80211 x queue (mvm_sta_of mvm sta) skb
             in Some (put_sta sta s mvm, outs @ [out])))"

definition rx_mpdu_build ::
  "extern \<Rightarrow> (sk_buff \<Rightarrow> bool) \<Rightarrow> nat \<Rightarrow> nat \<Rightarrow> nat option \<Rightarrow> iwl_rx_mpdu_desc \<Rightarrow> nat \<Rightarrow> sk_buff \<Rightarrow> iwl_mvm \<Rightarrow>
     (iwl_mvm \<times> mvm_out list) option" where
  "rx_mpdu_build x taken tailroom queue sta desc crypt_len skb mvm =
     (case iwl_mvm_create_skb x (rx_includes_fcs mvm) tailroom desc crypt_len (skb_data skb) of
        None \<Rightarrow> Some (mvm, [Freed skb])
      | Some d \<Rightarrow> rx_mpdu_deliver x taken queue sta desc (skb\<lparr>skb_data := d\<rparr>) mvm)"

text \<open>
  A frame of the device: \<open>pkt_len\<close> octets, of which \<open>desc_size\<close> are the descriptor; \<open>skb\<close> carries the
  buffer after it until the frame is built.  Rates, times and checksums are not in the model.
\<close>

definition iwl_mvm_rx_mpdu_mq ::
  "extern \<Rightarrow> (sk_buff \<Rightarrow> bool) \<Rightarrow> (u8 list \<Rightarrow> nat option) \<Rightarrow> (u16 \<Rightarrow> u64) \<Rightarrow> u64 \<Rightarrow> nat \<Rightarrow> nat \<Rightarrow> nat \<Rightarrow> nat \<Rightarrow> u16 \<Rightarrow> u32 \<Rightarrow>
     iwl_rx_mpdu_desc \<Rightarrow> sk_buff \<Rightarrow> iwl_mvm \<Rightarrow> (iwl_mvm \<times> mvm_out list) option" where
  "iwl_mvm_rx_mpdu_mq x taken find_sta_by_ifaddr tu_to_jiffies now pkt_len desc_size tailroom queue phy_info pkt_flags desc skb mvm =
     (let hdr = skb_data skb; sta = rx_mpdu_sta find_sta_by_ifaddr mvm desc hdr;
          (r, flag, crypt_len, reports) = iwl_mvm_rx_crypto mvm (mvm_sta_of mvm sta) hdr (rs_flag (skb_rx skb)) phy_info desc pkt_flags
      in if in_hw_restart mvm then Some (mvm, [])
         else if pkt_len < desc_size \<or> unat (mpdu_len desc) + desc_size > pkt_len then Some (mvm, [])
         else if r \<noteq> 0 then Some (mvm, reports @ [Freed skb])
         else
           (let skb = skb\<lparr>skb_rx := (skb_rx skb)\<lparr>rs_flag := flag\<rparr>\<rparr> in
            case mvm_sta_of mvm sta of
              None \<Rightarrow> map_option (apsnd ((@) reports)) (rx_mpdu_build x taken tailroom queue sta desc crypt_len skb mvm)
            | Some mvmsta \<Rightarrow>
                (let (dup, mvmsta, skb) = iwl_mvm_is_dup queue desc mvmsta skb;
                     mvm = put_sta sta (Some mvmsta) mvm;
                     baid = desc_baid desc
                 in if dup then Some (mvm, reports @ [Freed skb])
                    else
                      (let skb = skb\<lparr>skb_data := fix_amsdu_header mvm desc (skb_data skb)\<rparr> in
                       Option.bind
                         (if baid \<noteq> IWL_RX_REORDER_DATA_INVALID_BAID then iwl_mvm_agg_rx_received tu_to_jiffies now baid mvm
                          else Some mvm)
                         (\<lambda>mvm. map_option (apsnd ((@) reports))
                            (rx_mpdu_build x taken tailroom queue sta desc crypt_len skb mvm))))))"

text \<open>The frame built from the device's buffer is the received frame: the padding after the
  header and the check sequences are gone, and nothing else.\<close>

theorem mvm_create_skb_unpads:
  assumes "length h = x_hdrlen x (frame_control (h @ pad @ body @ mic)) + crypt_len" "h \<noteq> []"
    and "length pad = (if has_flag (mac_flags2 desc) IWL_RX_MPDU_MFLG2_PAD then 2 else 0)"
    and "length mic = unat (mic_crc_len desc)"
    and "unat (mpdu_len desc) = length (h @ pad @ body @ mic)" "length h + 8 \<le> tailroom"
  shows "iwl_mvm_create_skb x False tailroom desc crypt_len (h @ pad @ body @ mic) = Some (h @ body)"
proof -
  let ?buf = "h @ pad @ body @ mic"
  define m where "m = mic_crc_len desc"
  define len1 where "len1 = (if has_flag (mac_flags2 desc) IWL_RX_MPDU_MFLG2_PAD then mpdu_len desc - 2 else mpdu_len desc)"
  have m8: "unat m = length mic" using assms(4) by (simp only: m_def)
  have "unat m < 2 ^ 16" using unsigned_less [of m, where ?'a = nat] by simp
  then have m: "unat (ucast m :: u16) = length mic" using m8 by (simp add: unsigned_ucast_eq take_bit_nat_eq_self)
  have len1: "unat len1 = length h + length body + length mic"
    using assms(3,5) by (auto simp: len1_def unat_sub word_le_nat_alt)
  have gt: "len1 > (ucast m :: u16)" using len1 m assms(2) by (simp add: word_less_nat_alt)
  then have len: "unat (len1 - ucast m) = length h + length body"
    using len1 m by (simp add: unat_sub word_le_nat_alt)
  define n where "n = unat (len1 - ucast m)"
  define hd where "hd = (if n \<le> tailroom then n else length h + 8)"
  have hd: "length h \<le> hd" "hd \<le> length h + length body" using len assms(6) by (auto simp: hd_def n_def)
  have "iwl_mvm_create_skb x False tailroom desc crypt_len ?buf =
      Some (take (length h) ?buf @ take (hd - length h) (drop (length h + length pad) ?buf) @ take (n - hd) (drop (hd + length pad) ?buf))"
    unfolding iwl_mvm_create_skb_def Let_def m_def [symmetric] len1_def [symmetric] assms(3) [symmetric] assms(1) [symmetric]
    using hd(1) gt by (simp only: n_def [symmetric] hd_def [symmetric] if_True simp_thms if_False leD [OF hd(1)])
  also have "take (hd - length h) (drop (length h + length pad) ?buf) @ take (n - hd) (drop (hd + length pad) ?buf) = body"
    using hd len by (simp add: n_def)
  finally show ?thesis by simp
qed

definition ex_padded :: iwl_rx_mpdu_desc where
  "ex_padded = \<lparr>mpdu_len = 41, mac_flags1 = 0x20, mac_flags2 = IWL_RX_MPDU_MFLG2_PAD, amsdu_info = 0, reorder_data = 0, desc_status = 0\<rparr>"

lemma mvm_create_skb_unpads_witness:
  "iwl_mvm_create_skb ex_extern False 126 ex_padded 8 (([8, 1] @ replicate 30 0) @ [0, 0] @ [1, 2, 3] @ [4, 5, 6, 7]) =
     Some (([8, 1] @ replicate 30 0) @ [1, 2, 3])"
  by (rule mvm_create_skb_unpads) (code_simp+)

subsection \<open>Start and end of a session\<close>

definition iwl_mvm_init_reorder_buffer :: "u16 \<Rightarrow> nat \<Rightarrow> iwl_mvm_baid_data \<Rightarrow> iwl_mvm_baid_data" where
  "iwl_mvm_init_reorder_buffer n rxqs bd =
     bd\<lparr>reorder_bufs := replicate rxqs
          \<lparr>head_sn = n, num_stored = 0, rb_valid = False, rb_entries = replicate (unat (bd_buf_size bd)) []\<rparr>\<rparr>"

text \<open>Every queue handles the message that ends the session; what is stored even then is freed.\<close>

fun sync_del_ba :: "extern \<Rightarrow> nat list \<Rightarrow> u8 \<Rightarrow> iwl_mvm \<Rightarrow> iwl_mvm \<times> mvm_out list" where
  "sync_del_ba x [] baid mvm = (mvm, [])"
| "sync_del_ba x (queue # queues) baid mvm =
     (let (mvm, outs) = iwl_mvm_del_ba x queue (ucast baid) mvm; (mvm, outs') = sync_del_ba x queues baid mvm
      in (mvm, outs @ outs'))"

definition purge_buf :: "iwl_mvm_reorder_buffer \<Rightarrow> iwl_mvm_reorder_buffer \<times> mvm_out list" where
  "purge_buf buf =
     (if num_stored buf = 0 then (buf, [])
      else (buf\<lparr>rb_entries := map (\<lambda>_. []) (rb_entries buf)\<rparr>, map Freed (concat (rb_entries buf))))"

definition iwl_mvm_free_reorder :: "extern \<Rightarrow> nat \<Rightarrow> iwl_mvm_baid_data \<Rightarrow> iwl_mvm \<Rightarrow> iwl_mvm \<times> mvm_out list" where
  "iwl_mvm_free_reorder x i bd mvm =
     (let (mvm, outs) = sync_del_ba x [0..<num_rxqs mvm] (bd_baid bd) mvm in
      case baid_map mvm ! i of
        None \<Rightarrow> (mvm, outs)
      | Some bd \<Rightarrow>
          (let purged = map purge_buf (reorder_bufs bd)
           in (mvm\<lparr>baid_map := (baid_map mvm)[i := Some (bd\<lparr>reorder_bufs := map fst purged\<rparr>)]\<rparr>,
               outs @ concat (map snd purged))))"

text \<open>\<open>fw_baid\<close> is the answer of the firmware, \<open>oom\<close> that the session is not allocated.\<close>

definition iwl_mvm_sta_rx_agg ::
  "extern \<Rightarrow> int \<Rightarrow> bool \<Rightarrow> u64 \<Rightarrow> nat \<Rightarrow> nat \<Rightarrow> u16 \<Rightarrow> bool \<Rightarrow> u16 \<Rightarrow> u16 \<Rightarrow> iwl_mvm \<Rightarrow> int \<times> iwl_mvm \<times> mvm_out list" where
  "iwl_mvm_sta_rx_agg x fw_baid oom now sta t n start bsize tmo mvm =
     (let mvm_sta = the (mvm_sta_of mvm (Some sta));
          max_sessions = (if new_tx_api mvm then IWL_MAX_BAID else IWL_MAX_BAID_OLD);
          baid = (if start \<or> \<not> in_hw_restart mvm then fw_baid
                  else if new_rx_api mvm then uint (tid_to_baid mvm_sta ! t) else - 1)
      in if start \<and> rx_ba_sessions mvm \<ge> int max_sessions then (- 28, mvm, [])
         else if new_rx_api mvm \<and> start \<and> oom then (- 12, mvm, [])
         else if baid < 0 then (baid, mvm, [])
         else if start
         then
           (let mvm = mvm\<lparr>rx_ba_sessions := rx_ba_sessions mvm + 1\<rparr> in
            if \<not> new_rx_api mvm then (0, mvm, [])
            else
              (let bd = iwl_mvm_init_reorder_buffer n (num_rxqs mvm)
                     \<lparr>bd_sta_mask = iwl_mvm_sta_fw_id_mask (Some sta), bd_tid = of_nat t, bd_baid = of_int baid,
                      bd_timeout = tmo, bd_buf_size = bsize, bd_last_rx = now, reorder_bufs = []\<rparr>;
                   mvm_sta = mvm_sta\<lparr>tid_to_baid := (tid_to_baid mvm_sta)[t := of_int baid]\<rparr>
               in (0, (put_sta (Some sta) (Some mvm_sta) mvm)\<lparr>baid_map := (baid_map mvm)[nat baid := Some bd]\<rparr>, [])))
         else
           (let baid = unat (tid_to_baid mvm_sta ! t);
                mvm = mvm\<lparr>rx_ba_sessions := (if rx_ba_sessions mvm > 0 then rx_ba_sessions mvm - 1 else rx_ba_sessions mvm)\<rparr>
            in if \<not> new_rx_api mvm then (0, mvm, [])
               else if baid = IWL_RX_REORDER_DATA_INVALID_BAID then (- 22, mvm, [])
               else
                 (case baid_map mvm ! baid of
                    None \<Rightarrow> (- 22, mvm, [])
                  | Some bd \<Rightarrow>
                      (let (mvm, outs) = iwl_mvm_free_reorder x baid bd mvm
                       in (0, mvm\<lparr>baid_map := (baid_map mvm)[baid := None]\<rparr>, outs)))))"

end
