(* ===== verification/Mvm_Reorder.thy ===== *)
theory Mvm_Reorder
  imports Mvm_Rxq Reorder_Spec
begin

text \<open>
  The reorder buffer of a receive queue of the \<^verbatim>\<open>mvm\<close> driver.  The firmware keeps the window: with
  every frame it gives the sequence number up to which everything was received, and says which
  frames are old.  Given that, the driver hands frames on in order; whatever the firmware does,
  it loses none.
\<close>

subsection \<open>Frames handed on\<close>

fun handed :: "mvm_out \<Rightarrow> sk_buff option" where
  "handed (To_mac80211 skb) = Some skb"
| "handed (Pn_reject skb) = Some skb"
| "handed _ = None"

fun out_frame :: "mvm_out \<Rightarrow> sk_buff option" where
  "out_frame (To_mac80211 skb) = Some skb"
| "out_frame (Pn_reject skb) = Some skb"
| "out_frame (Freed skb) = Some skb"
| "out_frame _ = None"

definition handed_sns :: "mvm_out list \<Rightarrow> u16 list" where
  "handed_sns outs = map sn_of (List.map_filter handed outs)"

definition out_data :: "mvm_out list \<Rightarrow> u8 list multiset" where
  "out_data outs = image_mset skb_data (mset (List.map_filter out_frame outs))"

definition buf_frames :: "iwl_mvm_reorder_buffer \<Rightarrow> sk_buff list" where
  "buf_frames buf = concat (rb_entries buf)"

definition buf_data :: "iwl_mvm_reorder_buffer \<Rightarrow> u8 list multiset" where
  "buf_data buf = image_mset skb_data (mset (buf_frames buf))"

lemma handed_sns_append [simp]: "handed_sns (xs @ ys) = handed_sns xs @ handed_sns ys"
  by (simp add: handed_sns_def List.map_filter_def)

lemma out_data_append [simp]: "out_data (xs @ ys) = out_data xs + out_data ys"
  by (simp add: out_data_def List.map_filter_def)

lemma handed_sns_Nil [simp]: "handed_sns [] = []" "out_data [] = {#}" "handed_sns [Freed skb] = []"
  "out_data [Freed skb] = {#skb_data skb#}"
  by (simp_all add: handed_sns_def out_data_def List.map_filter_def)

lemma check_pn_data: "iwl_mvm_check_pn x queue sta skb = (r, sta', skb') \<Longrightarrow> skb_data skb' = skb_data skb"
  by (auto simp: iwl_mvm_check_pn_def add_rx_flag_def Let_def split: if_splits option.splits)

lemma pass_packet_out:
  assumes "iwl_mvm_pass_packet_to_mac80211 x queue sta skb = (out, sta')"
  shows "handed_sns [out] = [sn_of skb]" "out_data [out] = {#skb_data skb#}"
proof -
  obtain r s skb' where c: "iwl_mvm_check_pn x queue sta skb = (r, s, skb')" by (metis prod_cases3)
  have "out = Pn_reject skb' \<or> out = To_mac80211 skb'"
    using assms c by (auto simp: iwl_mvm_pass_packet_to_mac80211_def split: if_splits)
  with check_pn_data [OF c] show "handed_sns [out] = [sn_of skb]" "out_data [out] = {#skb_data skb#}"
    by (auto simp: handed_sns_def out_data_def List.map_filter_def)
qed

lemma release_entry_result:
  "release_entry x queue skbs (sta, buf, outs) = (sta', buf', outs') \<Longrightarrow>
     \<exists>new. outs' = outs @ new \<and> handed_sns new = map sn_of skbs \<and> out_data new = image_mset skb_data (mset skbs) \<and>
       buf' = buf\<lparr>num_stored := num_stored buf - of_nat (length skbs)\<rparr>"
proof (induction skbs arbitrary: sta buf outs)
  case Nil
  then show ?case by simp
next
  case (Cons skb skbs)
  obtain out s where p: "iwl_mvm_pass_packet_to_mac80211 x queue sta skb = (out, s)" by (metis surj_pair)
  with Cons.prems obtain new where new: "outs' = (outs @ [out]) @ new" "handed_sns new = map sn_of skbs"
      "out_data new = image_mset skb_data (mset skbs)"
      "buf' = (buf\<lparr>num_stored := num_stored buf - 1\<rparr>)\<lparr>num_stored := num_stored buf - 1 - of_nat (length skbs)\<rparr>"
    using Cons.IH [of s "buf\<lparr>num_stored := num_stored buf - 1\<rparr>" "outs @ [out]"] by auto
  then show ?case
    using pass_packet_out [OF p] handed_sns_append [of "[out]" new] out_data_append [of "[out]" new]
    by (intro exI [of _ "out # new"]) (simp add: algebra_simps)
qed

subsection \<open>The window\<close>

text \<open>
  Every stored frame is in the entry of its number, and its number is among the \<open>b\<close> numbers from
  \<open>h\<close> on.
\<close>

definition placed :: "nat \<Rightarrow> u16 \<Rightarrow> sk_buff list list \<Rightarrow> bool" where
  "placed b h es \<longleftrightarrow>
     length es = b \<and>
     (\<forall>i<b. \<forall>f\<in>set (es ! i). unat (sn_of f) mod b = i \<and> sn_dist h (sn_of f) < b)"

definition sizes_ok :: "nat \<Rightarrow> bool" where
  "sizes_ok b \<longleftrightarrow> 0 < b \<and> b \<le> 1024 \<and> b dvd 4096"

lemma mod_eq_window:
  assumes "sizes_ok b" "unat s < 4096" "unat f < 4096" "unat f mod b = unat s mod b" "sn_dist s f < b"
  shows "f = s"
proof -
  have "f = sn_plus s (sn_dist s f)" using sn_plus_dist [OF assms(3)] by simp
  then have "unat f = (unat s + sn_dist s f) mod 4096" by (metis unat_sn_plus)
  then have "unat f mod b = (unat s + sn_dist s f) mod b"
    using assms(1) by (simp add: sizes_ok_def mod_mod_cancel)
  then have "(sn_dist s f + unat s) mod b = (0 + unat s) mod b" using assms(4) by (simp add: add.commute)
  then have "sn_dist s f = 0" using nat_mod_cancel [of "sn_dist s f" "unat s" b 0] assms(5) by simp
  then show ?thesis using sn_dist_zero_iff [OF assms(2,3)] by simp
qed

lemma placed_clear:
  assumes p: "placed b s es" and b: "sizes_ok b" and s: "unat s < 4096"
  shows "map sn_of (es ! (unat s mod b)) = map (sn_plus s) (replicate (length (es ! (unat s mod b))) 0)"
    "placed b (ieee80211_sn_inc s) (es[unat s mod b := []])"
proof -
  let ?i = "unat s mod b"
  have i: "?i < b" using b by (simp add: sizes_ok_def)
  have "sn_of f = s" if "f \<in> set (es ! ?i)" for f
    using p i that by (intro mod_eq_window [OF b s ieee80211_get_sn_lt]) (simp_all add: placed_def)
  then have "map sn_of (es ! ?i) = map (\<lambda>_. s) (es ! ?i)" by simp
  then show "map sn_of (es ! ?i) = map (sn_plus s) (replicate (length (es ! ?i)) 0)"
    using s by (simp add: sn_plus_0 map_replicate_const)
  have "sn_dist (ieee80211_sn_inc s) (sn_of f) < b" if f: "j < b" "j \<noteq> ?i" "f \<in> set (es ! j)" for j f
  proof -
    have d: "unat (sn_of f) mod b = j" "sn_dist s (sn_of f) < b" using p f by (simp_all add: placed_def)
    then have "sn_of f \<noteq> s" using f(2) by auto
    then have "0 < sn_dist s (sn_of f)" using sn_dist_zero_iff [OF s ieee80211_get_sn_lt] by fastforce
    then show ?thesis using sn_dist_inc [of s "sn_of f"] d(2) by simp
  qed
  then show "placed b (ieee80211_sn_inc s) (es[?i := []])"
    using p by (auto simp: placed_def nth_list_update)
qed

subsection \<open>Release\<close>

text \<open>A buffer of the size of its session that counts what it stores.\<close>

definition buf_ok :: "nat \<Rightarrow> iwl_mvm_reorder_buffer \<Rightarrow> bool" where
  "buf_ok b buf \<longleftrightarrow>
     0 < b \<and> length (rb_entries buf) = b \<and> num_stored buf = of_nat (length (buf_frames buf))"

text \<open>What a release does to the frames: those it takes out of the buffer are handed on.\<close>

definition released :: "nat \<Rightarrow> iwl_mvm_reorder_buffer \<Rightarrow> iwl_mvm_reorder_buffer \<Rightarrow> mvm_out list \<Rightarrow> bool" where
  "released b buf buf' new \<longleftrightarrow>
     buf_ok b buf' \<and> out_data new + buf_data buf' = buf_data buf \<and> rb_valid buf' = rb_valid buf"

lemma release_loop_step:
  assumes "ieee80211_sn_less s nssn" "buf_ok b buf"
  obtains sta1 buf1 new where
    "release_loop x queue b nssn s (sta, buf, outs) = release_loop x queue b nssn (ieee80211_sn_inc s) (sta1, buf1, outs @ new)"
    "released b buf buf1 new" "rb_entries buf1 = (rb_entries buf)[unat s mod b := []]"
    "handed_sns new = map sn_of (rb_entries buf ! (unat s mod b))" "head_sn buf1 = head_sn buf"
proof -
  let ?i = "unat s mod b" and ?buf = "buf\<lparr>rb_entries := (rb_entries buf)[unat s mod b := []]\<rparr>"
  obtain sta1 buf1 outs1 where e: "release_entry x queue (rb_entries buf ! ?i) (sta, ?buf, outs) = (sta1, buf1, outs1)"
    by (metis prod_cases3)
  obtain new where new: "outs1 = outs @ new" "handed_sns new = map sn_of (rb_entries buf ! ?i)"
      "out_data new = image_mset skb_data (mset (rb_entries buf ! ?i))"
      "buf1 = ?buf\<lparr>num_stored := num_stored ?buf - of_nat (length (rb_entries buf ! ?i))\<rparr>"
    using release_entry_result [OF e] by blast
  have i: "?i < length (rb_entries buf)" using assms(2) by (simp add: buf_ok_def)
  have "length (concat (rb_entries buf)) =
      length (concat ((rb_entries buf)[?i := []])) + length (rb_entries buf ! ?i)"
    using concat_clear_length [OF i, of "[]"] by simp
  then have "num_stored buf1 = of_nat (length (buf_frames buf1))"
    using assms(2) new(4) by (simp add: buf_ok_def buf_frames_def)
  moreover have "out_data new + buf_data buf1 = buf_data buf"
    using arg_cong [OF concat_update [OF i, of "[]"], of "image_mset skb_data"] new(3,4)
    by (simp add: buf_data_def buf_frames_def add.commute)
  ultimately have "released b buf buf1 new" using assms(2) new(4) by (simp add: released_def buf_ok_def)
  moreover have "release_loop x queue b nssn s (sta, buf, outs) = release_loop x queue b nssn (ieee80211_sn_inc s) (sta1, buf1, outs @ new)"
    using assms(1) e new(1) by (subst release_loop.simps) (simp add: Let_def)
  ultimately show thesis using that new(2,4) by simp
qed

lemma released_trans: "released b r s xs \<Longrightarrow> released b s t ys \<Longrightarrow> released b r t (xs @ ys)"
  by (auto simp: released_def add.assoc)

lemma release_loop_keeps:
  "release_loop x queue b nssn s (sta, buf, outs) = (sta', buf', outs') \<Longrightarrow> buf_ok b buf \<Longrightarrow>
     \<exists>new. outs' = outs @ new \<and> released b buf buf' new"
proof (induction "sn_dist s nssn" arbitrary: s sta buf outs rule: less_induct)
  case less
  show ?case
  proof (cases "ieee80211_sn_less s nssn")
    case True
    then have d: "sn_dist (ieee80211_sn_inc s) nssn < sn_dist s nssn" by (simp add: sn_less_iff sn_dist_inc)
    obtain sta1 buf1 n1 where st: "release_loop x queue b nssn s (sta, buf, outs) =
          release_loop x queue b nssn (ieee80211_sn_inc s) (sta1, buf1, outs @ n1)" "released b buf buf1 n1"
      using release_loop_step [OF True less.prems(2), of x queue sta outs] by metis
    have ok: "buf_ok b buf1" using st(2) by (simp add: released_def)
    obtain n2 where "outs' = (outs @ n1) @ n2" "released b buf1 buf' n2"
      using less.hyps [OF d less.prems(1) [unfolded st(1)] ok] by blast
    then show ?thesis using released_trans [OF st(2)] by (intro exI [of _ "n1 @ n2"]) simp
  next
    case False
    then have "outs' = outs" "buf' = buf" using less.prems(1) by (simp_all add: release_loop.simps)
    then show ?thesis using less.prems(2) by (simp add: released_def)
  qed
qed

lemma release_loop_order:
  "release_loop x queue b nssn s (sta, buf, outs) = (sta', buf', outs') \<Longrightarrow> buf_ok b buf \<Longrightarrow> sizes_ok b \<Longrightarrow>
   placed b s (rb_entries buf) \<Longrightarrow> unat s < 4096 \<Longrightarrow> unat nssn < 4096 \<Longrightarrow> sn_dist s nssn < 2048 \<Longrightarrow>
     \<exists>new ks. outs' = outs @ new \<and> placed b nssn (rb_entries buf') \<and> sorted ks \<and> (\<forall>k\<in>set ks. k < sn_dist s nssn) \<and>
       handed_sns new = map (sn_plus s) ks"
proof (induction "sn_dist s nssn" arbitrary: s sta buf outs rule: less_induct)
  case less
  show ?case
  proof (cases "ieee80211_sn_less s nssn")
    case True
    then have d: "sn_dist s nssn = Suc (sn_dist (ieee80211_sn_inc s) nssn)" by (simp add: sn_less_iff sn_dist_inc)
    obtain sta1 buf1 n1 where st: "release_loop x queue b nssn s (sta, buf, outs) =
          release_loop x queue b nssn (ieee80211_sn_inc s) (sta1, buf1, outs @ n1)" "released b buf buf1 n1"
        "rb_entries buf1 = (rb_entries buf)[unat s mod b := []]" "handed_sns n1 = map sn_of (rb_entries buf ! (unat s mod b))"
      using release_loop_step [OF True less.prems(2), of x queue sta outs] by metis
    have ok: "buf_ok b buf1" using st(2) by (simp add: released_def)
    note clear = placed_clear [OF less.prems(4,3,5)]
    obtain n2 ks where n2: "outs' = (outs @ n1) @ n2" "placed b nssn (rb_entries buf')" "sorted ks"
        "\<forall>k\<in>set ks. k < sn_dist (ieee80211_sn_inc s) nssn" "handed_sns n2 = map (sn_plus (ieee80211_sn_inc s)) ks"
      using less.hyps [OF _ less.prems(1) [unfolded st(1)] ok less.prems(3) clear(2) [folded st(3)] sn_inc_lt less.prems(6)]
        less.prems(7) d by auto
    let ?ks = "replicate (length (rb_entries buf ! (unat s mod b))) 0 @ map Suc ks"
    have "handed_sns (n1 @ n2) = map (sn_plus s) ?ks"
      using st(4) n2(5) clear(1) by (simp add: sn_inc_plus sn_plus_plus)
    moreover have "sorted ?ks" using n2(3) by (simp add: sorted_append sorted_map sorted_wrt_map)
    moreover have "\<forall>k\<in>set ?ks. k < sn_dist s nssn" using n2(4) d by auto
    ultimately show ?thesis using n2(1,2) by (metis append.assoc)
  next
    case False
    then have "outs' = outs" "buf' = buf" using less.prems(1) by (simp_all add: release_loop.simps)
    moreover have "nssn = s" using False less.prems(5-7) sn_dist_zero_iff [of s nssn] by (auto simp: sn_less_iff)
    ultimately show ?thesis using less.prems(4) by (intro exI [of _ "[]"]) simp
  qed
qed

subsection \<open>One frame or release\<close>

text \<open>
  What a queue of a session sees: a frame with its number, the number up to which everything was
  received, and whether it is a part of an A-MSDU that is not the last, old, or a duplicate; or
  a notification to release frames.
\<close>

datatype mvm_event = Mpdu sk_buff u16 u16 bool bool bool | Frame_release u16

fun event_data :: "mvm_event \<Rightarrow> u8 list multiset" where
  "event_data (Mpdu skb sn nssn partial old dup) = {#skb_data skb#}"
| "event_data (Frame_release nssn) = {#}"

definition mvm_direct :: "extern \<Rightarrow> nat \<Rightarrow> sk_buff \<Rightarrow> bool \<times> mvm_release \<Rightarrow> mvm_release" where
  "mvm_direct x queue skb =
     (\<lambda>(consumed, sta, buf, outs).
        if consumed then (sta, buf, outs)
        else (case iwl_mvm_pass_packet_to_mac80211 x queue sta skb of (out, sta) \<Rightarrow> (sta, buf, outs @ [out])))"

fun mvm_step :: "extern \<Rightarrow> nat \<Rightarrow> nat \<Rightarrow> mvm_event \<Rightarrow> iwl_mvm_sta option \<times> iwl_mvm_reorder_buffer \<Rightarrow> mvm_release" where
  "mvm_step x queue b (Mpdu skb sn nssn partial old dup) s =
     mvm_direct x queue skb (reorder_mpdu x queue b skb sn nssn partial old dup s)"
| "mvm_step x queue b (Frame_release nssn) (sta, buf) = iwl_mvm_release_frames x queue b nssn (sta, buf, [])"

lemma buf_data_head [simp]:
  "buf_data (buf\<lparr>head_sn := n\<rparr>) = buf_data buf" "buf_data (buf\<lparr>rb_valid := v\<rparr>) = buf_data buf"
  "buf_ok b (buf\<lparr>head_sn := n\<rparr>) = buf_ok b buf" "buf_ok b (buf\<lparr>rb_valid := v\<rparr>) = buf_ok b buf"
  by (simp_all add: buf_data_def buf_frames_def buf_ok_def)

lemma release_frames_keeps:
  assumes "iwl_mvm_release_frames x queue b nssn (sta, buf, outs) = (sta', buf', outs')" "buf_ok b buf"
  obtains new where "outs' = outs @ new" "released b buf buf' new" "head_sn buf' = nssn"
proof -
  obtain s1 b1 o1 where l: "release_loop x queue b nssn (head_sn buf) (sta, buf, outs) = (s1, b1, o1)"
    by (metis prod_cases3)
  obtain new where new: "o1 = outs @ new" "released b buf b1 new" using release_loop_keeps [OF l assms(2)] by blast
  have "buf' = b1\<lparr>head_sn := nssn\<rparr>" "outs' = o1" using assms(1) l by (auto simp: iwl_mvm_release_frames_def)
  with new show thesis by (intro that [of new]) (simp_all add: released_def)
qed

text \<open>A frame put into its entry.\<close>

definition store_mpdu :: "nat \<Rightarrow> sk_buff \<Rightarrow> u16 \<Rightarrow> iwl_mvm_reorder_buffer \<Rightarrow> iwl_mvm_reorder_buffer" where
  "store_mpdu b skb sn buf =
     buf\<lparr>rb_valid := True, rb_entries := (rb_entries buf)[unat sn mod b := rb_entries buf ! (unat sn mod b) @ [skb]],
        num_stored := num_stored buf + 1\<rparr>"

lemma store_mpdu_keeps:
  assumes "buf_ok b buf"
  shows "buf_ok b (store_mpdu b skb sn buf)" "buf_data (store_mpdu b skb sn buf) = buf_data buf + {#skb_data skb#}"
    "length (buf_frames (store_mpdu b skb sn buf)) = length (buf_frames buf) + 1"
proof -
  let ?i = "unat sn mod b" and ?q = "rb_entries buf ! (unat sn mod b) @ [skb]"
  have i: "?i < length (rb_entries buf)" using assms by (simp add: buf_ok_def)
  show len: "length (buf_frames (store_mpdu b skb sn buf)) = length (buf_frames buf) + 1"
    using concat_clear_length [OF i, of ?q] by (simp add: buf_frames_def store_mpdu_def)
  then show "buf_ok b (store_mpdu b skb sn buf)" using assms by (simp add: buf_ok_def) (simp add: store_mpdu_def)
  have "mset (concat ((rb_entries buf)[?i := ?q])) = mset (concat (rb_entries buf)) + {#skb#}"
    using concat_update [OF i, of ?q] by (simp add: add.assoc [symmetric])
  then show "buf_data (store_mpdu b skb sn buf) = buf_data buf + {#skb_data skb#}"
    by (simp add: buf_data_def buf_frames_def store_mpdu_def)
qed

text \<open>The branches of the reordering of a frame.\<close>

lemma reorder_mpdu_cases:
  assumes "reorder_mpdu x queue b skb sn nssn partial old dup (sta, buf) = (consumed, sta', buf', outs)"
  obtains (early) "\<not> rb_valid buf" "old" "\<not> consumed" "sta' = sta" "buf' = buf" "outs = []"
  | (drop) "dup \<or> old" "rb_valid buf \<or> \<not> old" "consumed" "sta' = sta" "buf' = buf\<lparr>rb_valid := True\<rparr>" "outs = [Freed skb]"
  | (pass) "\<not> dup" "\<not> old" "num_stored buf = 0" "ieee80211_sn_less sn nssn" "\<not> consumed" "sta' = sta" "outs = []"
      "buf' = (if partial then buf\<lparr>rb_valid := True\<rparr> else buf\<lparr>rb_valid := True, head_sn := nssn\<rparr>)"
  | (head) "\<not> dup" "\<not> old" "num_stored buf = 0" "\<not> ieee80211_sn_less sn nssn" "sn = head_sn buf" "\<not> consumed" "sta' = sta" "outs = []"
      "buf' = (if partial then buf\<lparr>rb_valid := True\<rparr> else buf\<lparr>rb_valid := True, head_sn := ieee80211_sn_inc sn\<rparr>)"
  | (part) "\<not> dup" "\<not> old" "consumed" "partial" "sta' = sta" "outs = []"
      "num_stored buf = 0 \<Longrightarrow> \<not> ieee80211_sn_less sn nssn \<and> sn \<noteq> head_sn buf"
      "buf' = (if num_stored buf = 0 then (store_mpdu b skb sn buf)\<lparr>head_sn := nssn\<rparr> else store_mpdu b skb sn buf)"
  | (whole) "\<not> dup" "\<not> old" "consumed" "\<not> partial"
      "num_stored buf = 0 \<Longrightarrow> \<not> ieee80211_sn_less sn nssn \<and> sn \<noteq> head_sn buf"
      "iwl_mvm_release_frames x queue b nssn (sta, store_mpdu b skb sn buf, []) = (sta', buf', outs)"
proof -
  note d = assms [unfolded reorder_mpdu_def Let_def split]
  consider "\<not> rb_valid buf \<and> old" | "dup \<or> old" "rb_valid buf \<or> \<not> old"
    | "\<not> dup" "\<not> old" "num_stored buf = 0" "ieee80211_sn_less sn nssn"
    | "\<not> dup" "\<not> old" "num_stored buf = 0" "\<not> ieee80211_sn_less sn nssn" "sn = head_sn buf"
    | "\<not> dup" "\<not> old" "num_stored buf = 0 \<Longrightarrow> \<not> ieee80211_sn_less sn nssn \<and> sn \<noteq> head_sn buf" "partial"
    | "\<not> dup" "\<not> old" "num_stored buf = 0 \<Longrightarrow> \<not> ieee80211_sn_less sn nssn \<and> sn \<noteq> head_sn buf" "\<not> partial"
    by blast
  then show thesis
  proof cases
    case 1
    with d show thesis by (intro early) simp_all
  next
    case 2
    with d show thesis by (intro drop) (auto split: if_splits)
  next
    case 3
    with d show thesis by (intro pass) (auto split: if_splits)
  next
    case 4
    with d show thesis by (intro head) (auto split: if_splits)
  next
    case 5
    with d have "consumed" "sta' = sta" "outs = []"
      "buf' = (if num_stored buf = 0 then (store_mpdu b skb sn buf)\<lparr>head_sn := nssn\<rparr> else store_mpdu b skb sn buf)"
      by (auto simp: store_mpdu_def split: if_splits)
    with 5 show thesis by (intro part) simp_all
  next
    case 6
    with d have "consumed" "iwl_mvm_release_frames x queue b nssn (sta, store_mpdu b skb sn buf, []) = (sta', buf', outs)"
      by (auto simp: store_mpdu_def split: if_splits)
    with 6 show thesis by (intro whole) simp_all
  qed
qed

subsection \<open>Nothing is lost\<close>

lemma reorder_mpdu_keeps:
  assumes "reorder_mpdu x queue b skb sn nssn partial old dup (sta, buf) = (consumed, sta', buf', outs)" "buf_ok b buf"
  shows "buf_ok b buf' \<and> out_data outs + (if consumed then {#} else {#skb_data skb#}) + buf_data buf' =
    buf_data buf + {#skb_data skb#}"
  using assms(1)
proof (cases rule: reorder_mpdu_cases)
  case whole
  note st = store_mpdu_keeps [OF assms(2), of skb sn]
  from release_frames_keeps [OF whole(6) st(1)] obtain new where "outs = new" "released b (store_mpdu b skb sn buf) buf' new"
    by (metis append_Nil)
  then show ?thesis using whole(3) st(2) by (simp add: released_def)
qed (use assms(2) store_mpdu_keeps(1,2) [OF assms(2), of skb sn] in auto)

lemma mvm_direct_result:
  assumes "mvm_direct x queue skb (consumed, sta, buf, outs) = (sta', buf', outs')"
  obtains new where "outs' = outs @ new" "buf' = buf" "out_data new = (if consumed then {#} else {#skb_data skb#})"
    "handed_sns new = (if consumed then [] else [sn_of skb])"
proof (cases consumed)
  case True
  with assms show thesis by (intro that [of "[]"]) (simp_all add: mvm_direct_def)
next
  case False
  obtain out s where p: "iwl_mvm_pass_packet_to_mac80211 x queue sta skb = (out, s)" by (metis surj_pair)
  with False assms pass_packet_out [OF p] show thesis by (intro that [of "[out]"]) (simp_all add: mvm_direct_def)
qed

lemma mvm_step_keeps:
  assumes "mvm_step x queue b ev (sta, buf) = (sta', buf', outs)" "buf_ok b buf"
  shows "buf_ok b buf'" "out_data outs + buf_data buf' = buf_data buf + event_data ev"
proof (atomize (full), cases ev)
  case (Mpdu skb sn nssn partial old dup)
  obtain c s b1 o1 where r: "reorder_mpdu x queue b skb sn nssn partial old dup (sta, buf) = (c, s, b1, o1)" by (metis prod_cases4)
  with assms(1) Mpdu have d: "mvm_direct x queue skb (c, s, b1, o1) = (sta', buf', outs)" by simp
  obtain new where "outs = o1 @ new" "buf' = b1" "out_data new = (if c then {#} else {#skb_data skb#})"
    by (rule mvm_direct_result [OF d])
  then show "buf_ok b buf' \<and> out_data outs + buf_data buf' = buf_data buf + event_data ev"
    using reorder_mpdu_keeps [OF r assms(2)] Mpdu by simp
next
  case (Frame_release nssn)
  with assms(1) have "iwl_mvm_release_frames x queue b nssn (sta, buf, []) = (sta', buf', outs)" by simp
  from release_frames_keeps [OF this assms(2)] obtain new where "outs = new" "released b buf buf' new" by (metis append_Nil)
  then show "buf_ok b buf' \<and> out_data outs + buf_data buf' = buf_data buf + event_data ev"
    using Frame_release by (simp add: released_def)
qed

text \<open>The frames stored for all sessions and queues.\<close>

definition bd_stored :: "iwl_mvm_baid_data option \<Rightarrow> u8 list multiset" where
  "bd_stored bd = (case bd of None \<Rightarrow> {#} | Some bd \<Rightarrow> sum_list (map buf_data (reorder_bufs bd)))"

definition mvm_stored :: "iwl_mvm \<Rightarrow> u8 list multiset" where
  "mvm_stored mvm = sum_list (map bd_stored (baid_map mvm))"

definition bd_ok :: "nat \<Rightarrow> iwl_mvm_baid_data \<Rightarrow> bool" where
  "bd_ok queues bd \<longleftrightarrow>
     length (reorder_bufs bd) = queues \<and> (\<forall>buf\<in>set (reorder_bufs bd). buf_ok (unat (bd_buf_size bd)) buf)"

definition sessions_ok :: "iwl_mvm \<Rightarrow> bool" where
  "sessions_ok mvm \<longleftrightarrow> (\<forall>bd. Some bd \<in> set (baid_map mvm) \<longrightarrow> bd_ok (num_rxqs mvm) bd)"

lemma sum_list_change:
  fixes xs :: "'a :: comm_monoid_add list"
  shows "i < length xs \<Longrightarrow> sum_list (xs[i := y]) + xs ! i = sum_list xs + y"
proof (induction xs arbitrary: i)
  case (Cons a xs)
  then show ?case by (cases i) (simp_all add: ac_simps)
qed simp

lemma multiset_exchange:
  assumes "a' + q = a + (y :: 'a multiset)" "m' + a = m + a'"
  shows "m' + q = m + y"
proof -
  have "(m' + q) + a = (m' + a) + q" by (simp add: ac_simps)
  also have "\<dots> = m + (a' + q)" unfolding assms(2) by (simp add: ac_simps)
  also have "\<dots> = (m + y) + a" unfolding assms(1) by (simp add: ac_simps)
  finally show ?thesis by simp
qed

lemma put_sta_keeps [simp]:
  "baid_map (put_sta sta s mvm) = baid_map mvm" "num_rxqs (put_sta sta s mvm) = num_rxqs mvm"
  "mvm_stored (put_sta sta s mvm) = mvm_stored mvm" "sessions_ok (put_sta sta s mvm) = sessions_ok mvm"
  by (auto simp: put_sta_def mvm_stored_def sessions_ok_def split: option.splits)

lemma put_buf_keeps:
  assumes ok: "sessions_ok mvm" and bd: "baid < length (baid_map mvm)" "baid_map mvm ! baid = Some bd" "queue < num_rxqs mvm"
    and buf: "buf_ok (unat (bd_buf_size bd)) buf"
  shows "sessions_ok (put_buf baid queue buf mvm)"
    "mvm_stored (put_buf baid queue buf mvm) + buf_data (reorder_bufs bd ! queue) = mvm_stored mvm + buf_data buf"
proof -
  let ?bd = "bd\<lparr>reorder_bufs := (reorder_bufs bd)[queue := buf]\<rparr>"
  have b: "bd_ok (num_rxqs mvm) bd" using ok bd(1,2) nth_mem by (fastforce simp: sessions_ok_def)
  then have q: "queue < length (map buf_data (reorder_bufs bd))" using bd(3) by (simp add: bd_ok_def)
  have "bd_ok (num_rxqs mvm) ?bd"
    using b buf set_update_subset_insert [of "reorder_bufs bd" queue buf] by (auto simp: bd_ok_def)
  then show "sessions_ok (put_buf baid queue buf mvm)"
    using ok bd(2) set_update_subset_insert [of "baid_map mvm" baid "Some ?bd"]
    by (auto simp: sessions_ok_def put_buf_def)
  have "bd_stored (Some ?bd) + buf_data (reorder_bufs bd ! queue) = bd_stored (Some bd) + buf_data buf"
    using sum_list_change [OF q, of "buf_data buf"] q by (simp add: bd_stored_def map_update)
  moreover have "mvm_stored (put_buf baid queue buf mvm) + bd_stored (Some bd) = mvm_stored mvm + bd_stored (Some ?bd)"
    using sum_list_change [of baid "map bd_stored (baid_map mvm)" "bd_stored (Some ?bd)"] bd(1,2)
    by (simp add: mvm_stored_def put_buf_def map_update)
  ultimately show "mvm_stored (put_buf baid queue buf mvm) + buf_data (reorder_bufs bd ! queue) = mvm_stored mvm + buf_data buf"
    using multiset_exchange by blast
qed

subsection \<open>A received frame, from the descriptor on\<close>

lemma iwl_mvm_reorder_cases:
  assumes "iwl_mvm_reorder x queue sta desc skb mvm = Some (consumed, mvm', outs)"
  obtains (bypass) "\<not> consumed" "mvm' = mvm" "outs = []"
  | (session) bd s buf where "desc_baid desc < length (baid_map mvm)" "baid_map mvm ! desc_baid desc = Some bd"
      "reorder_mpdu x queue (unat (bd_buf_size bd)) skb (desc_sn desc) (desc_nssn desc)
         (has_flag (mac_flags2 desc) IWL_RX_MPDU_MFLG2_AMSDU \<and> \<not> has_flag (amsdu_info desc) IWL_RX_MPDU_AMSDU_LAST_SUBFRAME)
         (has_flag (reorder_data desc) IWL_RX_MPDU_REORDER_BA_OLD_SN)
         (has_flag (desc_status desc) IWL_RX_MPDU_STATUS_DUPLICATE)
         (mvm_sta_of mvm sta, reorder_bufs bd ! queue) = (consumed, s, buf, outs)"
      "mvm' = put_buf (desc_baid desc) queue buf (put_sta sta s mvm)"
proof -
  define r where "r = (\<lambda>bd :: iwl_mvm_baid_data. reorder_mpdu x queue (unat (bd_buf_size bd)) skb (desc_sn desc) (desc_nssn desc)
         (has_flag (mac_flags2 desc) IWL_RX_MPDU_MFLG2_AMSDU \<and> \<not> has_flag (amsdu_info desc) IWL_RX_MPDU_AMSDU_LAST_SUBFRAME)
         (has_flag (reorder_data desc) IWL_RX_MPDU_REORDER_BA_OLD_SN)
         (has_flag (desc_status desc) IWL_RX_MPDU_STATUS_DUPLICATE)
         (mvm_sta_of mvm sta, reorder_bufs bd ! queue))"
  have "\<not> consumed \<and> mvm' = mvm \<and> outs = [] \<or>
    (\<exists>bd s buf. desc_baid desc < length (baid_map mvm) \<and> baid_map mvm ! desc_baid desc = Some bd \<and>
       r bd = (consumed, s, buf, outs) \<and> mvm' = put_buf (desc_baid desc) queue buf (put_sta sta s mvm))"
    using assms unfolding iwl_mvm_reorder_def Let_def r_def
    by (auto split: if_splits option.splits prod.splits)
  then show thesis using bypass session unfolding r_def by blast
qed

lemma iwl_mvm_reorder_keeps:
  assumes "iwl_mvm_reorder x queue sta desc skb mvm = Some (consumed, mvm', outs)" "sessions_ok mvm" "queue < num_rxqs mvm"
  shows "sessions_ok mvm' \<and>
    out_data outs + (if consumed then {#} else {#skb_data skb#}) + mvm_stored mvm' = mvm_stored mvm + {#skb_data skb#}"
  using assms(1)
proof (cases rule: iwl_mvm_reorder_cases)
  case bypass
  then show ?thesis using assms(2) by simp
next
  case (session bd s buf)
  let ?o = "out_data outs + (if consumed then {#} else {#skb_data skb#})"
  have "bd_ok (num_rxqs mvm) bd" using assms(2) session(1,2) nth_mem by (fastforce simp: sessions_ok_def)
  then have "buf_ok (unat (bd_buf_size bd)) (reorder_bufs bd ! queue)" using assms(3) by (simp add: bd_ok_def)
  note keeps = reorder_mpdu_keeps [OF session(3) this]
  note put = put_buf_keeps [of "put_sta sta s mvm" "desc_baid desc" bd queue buf] 
  have ok: "sessions_ok mvm'"
    and eq: "mvm_stored mvm' + buf_data (reorder_bufs bd ! queue) = mvm_stored mvm + buf_data buf"
    using put keeps assms(2,3) session(1,2,4) by simp_all
  have "(mvm_stored mvm' + ?o) + buf_data (reorder_bufs bd ! queue) = mvm_stored mvm + (?o + buf_data buf)"
    using eq by (simp add: ac_simps)
  also have "\<dots> = (mvm_stored mvm + {#skb_data skb#}) + buf_data (reorder_bufs bd ! queue)"
    using keeps by (simp add: ac_simps)
  finally show ?thesis using ok by (simp add: add.commute)
qed

lemma rx_mpdu_deliver_keeps:
  assumes "rx_mpdu_deliver x taken queue sta desc skb mvm = Some (mvm', outs)" "sessions_ok mvm" "queue < num_rxqs mvm"
    and "\<not> taken skb"
  shows "sessions_ok mvm' \<and> out_data outs + mvm_stored mvm' = mvm_stored mvm + {#skb_data skb#}"
proof -
  obtain consumed m1 o1 where r: "iwl_mvm_reorder x queue sta desc skb mvm = Some (consumed, m1, o1)"
    using assms(1) by (auto simp: rx_mpdu_deliver_def split: option.splits)
  note keeps = iwl_mvm_reorder_keeps [OF r assms(2,3)]
  show ?thesis
  proof (cases consumed)
    case True
    with r assms(1) keeps show ?thesis by (simp add: rx_mpdu_deliver_def)
  next
    case False
    define skb' where "skb' = (if family_9000 m1 \<and> has_flag (mac_flags2 desc) IWL_RX_MPDU_MFLG2_AMSDU \<and>
        \<not> has_flag (amsdu_info desc) IWL_RX_MPDU_AMSDU_LAST_SUBFRAME then add_rx_flag RX_FLAG_AMSDU_MORE skb else skb)"
    obtain out s where p: "iwl_mvm_pass_packet_to_mac80211 x queue (mvm_sta_of m1 sta) skb' = (out, s)" by (metis surj_pair)
    have "skb_data skb' = skb_data skb" by (simp add: skb'_def add_rx_flag_def)
    then have "out_data [out] = {#skb_data skb#}" using pass_packet_out(2) [OF p] by simp
    moreover have "mvm' = put_sta sta s m1" "outs = o1 @ [out]"
      using r assms(1,4) False p [unfolded skb'_def] by (simp_all add: rx_mpdu_deliver_def)
    ultimately show ?thesis using keeps False by simp
  qed
qed

text \<open>Evaluating the decryption status hands on no frame.\<close>

lemma rx_mgmt_prot_out: "iwl_mvm_rx_mgmt_prot sta hdr desc status flag = (r, flag', outs) \<Longrightarrow> out_data outs = {#}"
  by (auto simp: iwl_mvm_rx_mgmt_prot_def Let_def out_data_def List.map_filter_def split: if_splits option.splits)

lemma rx_crypto_out: "iwl_mvm_rx_crypto mvm sta hdr flag phy desc pkt = (r, flag', n, outs) \<Longrightarrow> out_data outs = {#}"
  by (auto simp: iwl_mvm_rx_crypto_def Let_def split: if_splits prod.splits dest: rx_mgmt_prot_out)

lemma is_dup_data: "iwl_mvm_is_dup queue desc s skb = (dup, s', skb') \<Longrightarrow> skb_data skb' = skb_data skb"
  by (auto simp: iwl_mvm_is_dup_def Let_def add_rx_flag_def split: if_splits option.splits)

lemma agg_rx_received_keeps:
  assumes "iwl_mvm_agg_rx_received tu now baid mvm = Some mvm'" "sessions_ok mvm"
  shows "sessions_ok mvm' \<and> num_rxqs mvm' = num_rxqs mvm \<and> mvm_stored mvm' = mvm_stored mvm \<and>
    rx_includes_fcs mvm' = rx_includes_fcs mvm"
proof -
  have "mvm' = mvm \<or> (\<exists>bd. baid < length (baid_map mvm) \<and> baid_map mvm ! baid = Some bd \<and>
      mvm' = mvm\<lparr>baid_map := (baid_map mvm)[baid := Some (bd\<lparr>bd_last_rx := now\<rparr>)]\<rparr>)"
    using assms(1) by (auto simp: iwl_mvm_agg_rx_received_def split: if_splits option.splits)
  then consider "mvm' = mvm" | bd where "baid < length (baid_map mvm)" "baid_map mvm ! baid = Some bd"
      "mvm' = mvm\<lparr>baid_map := (baid_map mvm)[baid := Some (bd\<lparr>bd_last_rx := now\<rparr>)]\<rparr>" by blast
  then show ?thesis
  proof cases
    case 1
    then show ?thesis using assms(2) by simp
  next
    case 2
    let ?bd = "bd\<lparr>bd_last_rx := now\<rparr>"
    have "bd_ok (num_rxqs mvm) bd" using assms(2) 2(1,2) nth_mem by (fastforce simp: sessions_ok_def)
    then have "bd_ok (num_rxqs mvm) ?bd" by (simp add: bd_ok_def)
    moreover have "map bd_stored ((baid_map mvm)[baid := Some ?bd]) = map bd_stored (baid_map mvm)"
      using 2(1,2) by (simp add: map_update bd_stored_def list_update_same_conv)
    ultimately show ?thesis
      using assms(2) 2(3) set_update_subset_insert [of "baid_map mvm" baid "Some ?bd"]
      by (auto simp: sessions_ok_def mvm_stored_def)
  qed
qed

text \<open>The forms a received frame takes: the device's buffer, and the frame built from it.\<close>

definition frame_forms :: "extern \<Rightarrow> iwl_mvm \<Rightarrow> nat \<Rightarrow> iwl_rx_mpdu_desc \<Rightarrow> u8 list \<Rightarrow> u8 list set" where
  "frame_forms x mvm tailroom desc buf =
     {buf, fix_amsdu_header mvm desc buf} \<union>
     {d. \<exists>n. iwl_mvm_create_skb x (rx_includes_fcs mvm) tailroom desc n buf = Some d \<or>
         iwl_mvm_create_skb x (rx_includes_fcs mvm) tailroom desc n (fix_amsdu_header mvm desc buf) = Some d}"

lemma rx_mpdu_build_keeps:
  assumes "rx_mpdu_build x taken tailroom queue sta desc n skb mvm = Some (mvm', outs)" "sessions_ok mvm" "queue < num_rxqs mvm"
    and "\<forall>s. \<not> taken s" "rx_includes_fcs mvm = rx_includes_fcs mvm0"
    and "skb_data skb \<in> {buf, fix_amsdu_header mvm0 desc buf}"
  shows "sessions_ok mvm' \<and>
    (\<exists>d\<in>frame_forms x mvm0 tailroom desc buf. out_data outs + mvm_stored mvm' = mvm_stored mvm + {#d#})"
proof (cases "iwl_mvm_create_skb x (rx_includes_fcs mvm) tailroom desc n (skb_data skb)")
  case None
  then have "mvm' = mvm" "outs = [Freed skb]" using assms(1) by (simp_all add: rx_mpdu_build_def)
  then show ?thesis using assms(2,6) by (auto simp: frame_forms_def)
next
  case (Some d)
  then have "rx_mpdu_deliver x taken queue sta desc (skb\<lparr>skb_data := d\<rparr>) mvm = Some (mvm', outs)"
    using assms(1) by (simp add: rx_mpdu_build_def)
  from rx_mpdu_deliver_keeps [OF this assms(2,3)] assms(4)
  have "sessions_ok mvm'" "out_data outs + mvm_stored mvm' = mvm_stored mvm + {#d#}" by simp_all
  moreover have "d \<in> frame_forms x mvm0 tailroom desc buf" using Some assms(5,6) by (auto simp: frame_forms_def)
  ultimately show ?thesis by blast
qed

lemma rx_mpdu_mq_keeps:
  assumes "iwl_mvm_rx_mpdu_mq x taken lookup tu now pkt_len desc_size tailroom queue phy pkt desc skb mvm = Some (mvm', outs)"
    and "sessions_ok mvm" "queue < num_rxqs mvm" "\<not> in_hw_restart mvm" "\<forall>s. \<not> taken s"
    and "unat (mpdu_len desc) + desc_size \<le> pkt_len"
  shows "sessions_ok mvm' \<and>
    (\<exists>d\<in>frame_forms x mvm tailroom desc (skb_data skb). out_data outs + mvm_stored mvm' = mvm_stored mvm + {#d#})"
proof -
  let ?buf = "skb_data skb"
  define sta where "sta = rx_mpdu_sta lookup mvm desc ?buf"
  obtain r flag cl reports where c: "iwl_mvm_rx_crypto mvm (mvm_sta_of mvm sta) ?buf (rs_flag (skb_rx skb)) phy desc pkt =
      (r, flag, cl, reports)" by (metis prod_cases4)
  note rep = rx_crypto_out [OF c]
  have fits: "\<not> (pkt_len < desc_size \<or> unat (mpdu_len desc) + desc_size > pkt_len)" using assms(6) by simp
  note eq = assms(1) [unfolded iwl_mvm_rx_mpdu_mq_def Let_def, folded sta_def, unfolded c split if_not_P [OF assms(4)] if_not_P [OF fits]]
  define skb1 where "skb1 = skb\<lparr>skb_rx := (skb_rx skb)\<lparr>rs_flag := flag\<rparr>\<rparr>"
  have data1: "skb_data skb1 = ?buf" by (simp add: skb1_def)
  have raw: "?buf \<in> frame_forms x mvm tailroom desc ?buf" by (simp add: frame_forms_def)
  have add_reports: "sessions_ok mvm' \<and> (\<exists>d\<in>frame_forms x mvm tailroom desc ?buf. out_data (reports @ o1) + mvm_stored mvm' = mvm_stored mvm + {#d#})"
    if "sessions_ok mvm' \<and> (\<exists>d\<in>frame_forms x mvm tailroom desc ?buf. out_data o1 + mvm_stored mvm' = mvm_stored m + {#d#})"
      "mvm_stored m = mvm_stored mvm" for m o1
    using that rep by simp
  show ?thesis
  proof (cases "r \<noteq> 0")
    case True
    with eq have "mvm' = mvm" "outs = reports @ [Freed skb]" by simp_all
    then show ?thesis using add_reports [of "[Freed skb]" mvm] assms(2) raw by auto
  next
    case ok: False
    show ?thesis
    proof (cases "mvm_sta_of mvm sta")
      case None
      with eq ok obtain o1 where "rx_mpdu_build x taken tailroom queue sta desc cl skb1 mvm = Some (mvm', o1)" "outs = reports @ o1"
        by (auto simp: skb1_def)
      then show ?thesis
        using rx_mpdu_build_keeps [of x taken tailroom queue sta desc cl skb1 mvm mvm' o1 mvm ?buf] add_reports [of o1 mvm] assms(2,3,5) data1
        by simp
    next
      case (Some mvmsta)
      obtain dup s skb2 where d: "iwl_mvm_is_dup queue desc mvmsta skb1 = (dup, s, skb2)" by (metis prod_cases3)
      define m1 where "m1 = put_sta sta (Some s) mvm"
      have data2: "skb_data skb2 = ?buf" using is_dup_data [OF d] data1 by simp
      have m1: "sessions_ok m1" "num_rxqs m1 = num_rxqs mvm" "mvm_stored m1 = mvm_stored mvm" "family_9000 m1 = family_9000 mvm"
          "rx_includes_fcs m1 = rx_includes_fcs mvm"
        using assms(2) by (simp_all add: m1_def) (simp_all add: put_sta_def split: option.split)
      note eq1 = eq [unfolded if_not_P [OF ok] Some option.case, folded skb1_def, unfolded d split, folded m1_def]
      show ?thesis
      proof (cases dup)
        case True
        with eq1 have "mvm' = m1" "outs = reports @ [Freed skb2]" by (simp_all add: m1_def)
        then show ?thesis using add_reports [of "[Freed skb2]" m1] m1(1,3) raw data2 by auto
      next
        case False
        define skb3 where "skb3 = skb2\<lparr>skb_data := fix_amsdu_header m1 desc (skb_data skb2)\<rparr>"
        have "fix_amsdu_header m1 desc d = fix_amsdu_header mvm desc d" for d using m1(4) by (simp add: fix_amsdu_header_def)
        then have data3: "skb_data skb3 = fix_amsdu_header mvm desc ?buf" using data2 by (simp add: skb3_def)
        obtain m2 o1 where m2: "(if desc_baid desc \<noteq> IWL_RX_REORDER_DATA_INVALID_BAID
              then iwl_mvm_agg_rx_received tu now (desc_baid desc) m1 else Some m1) = Some m2"
            "rx_mpdu_build x taken tailroom queue sta desc cl skb3 m2 = Some (mvm', o1)" "outs = reports @ o1"
          using eq1 False by (auto simp: skb3_def m1_def bind_eq_Some_conv)
        have "sessions_ok m2 \<and> num_rxqs m2 = num_rxqs mvm \<and> mvm_stored m2 = mvm_stored mvm \<and> rx_includes_fcs m2 = rx_includes_fcs mvm"
          using m2(1) m1 agg_rx_received_keeps [of tu now "desc_baid desc" m1 m2] by (auto split: if_splits)
        then show ?thesis
          using rx_mpdu_build_keeps [OF m2(2), of mvm ?buf] add_reports [of o1 m2] m2(3) assms(3,5) data3 by simp
      qed
    qed
  qed
qed

text \<open>The function returns when the session of the descriptor is one of the table, or none.\<close>

lemma reorder_returns:
  assumes "desc_baid desc < length (baid_map mvm) \<or> desc_baid desc = IWL_RX_REORDER_DATA_INVALID_BAID"
  shows "iwl_mvm_reorder x queue sta desc skb mvm \<noteq> None"
  using assms unfolding iwl_mvm_reorder_def Let_def by (auto split: option.splits prod.splits)

lemma rx_mpdu_build_returns:
  assumes "desc_baid desc < length (baid_map mvm) \<or> desc_baid desc = IWL_RX_REORDER_DATA_INVALID_BAID"
  shows "rx_mpdu_build x taken tailroom queue sta desc n skb mvm \<noteq> None"
proof -
  have "rx_mpdu_deliver x taken queue sta desc s mvm \<noteq> None" for s
    using reorder_returns [OF assms, of x queue sta s] by (auto simp: rx_mpdu_deliver_def split: prod.splits)
  then show ?thesis by (auto simp: rx_mpdu_build_def split: option.splits)
qed

lemma agg_rx_received_returns:
  assumes "baid < length (baid_map mvm)"
  shows "\<exists>mvm'. iwl_mvm_agg_rx_received tu now baid mvm = Some mvm' \<and> length (baid_map mvm') = length (baid_map mvm)"
  using assms by (auto simp: iwl_mvm_agg_rx_received_def split: option.split)

lemma if_not_None: "(b \<Longrightarrow> u \<noteq> None) \<Longrightarrow> (\<not> b \<Longrightarrow> v \<noteq> None) \<Longrightarrow> (if b then u else v) \<noteq> None"
  by simp

lemma rx_mpdu_mq_returns:
  assumes "desc_baid desc < length (baid_map mvm) \<or> desc_baid desc = IWL_RX_REORDER_DATA_INVALID_BAID"
  shows "iwl_mvm_rx_mpdu_mq x taken lookup tu now pkt_len desc_size tailroom queue phy pkt desc skb mvm \<noteq> None"
proof -
  have put: "baid_map (put_sta i s m) = baid_map m" for i s m
    by (simp add: put_sta_def split: option.split)
  have build: "rx_mpdu_build x taken tailroom queue sta desc n s m \<noteq> None" if "length (baid_map m) = length (baid_map mvm)" for sta n s m
    using rx_mpdu_build_returns [of desc m] assms that by simp
  have agg: "\<exists>m'. (if desc_baid desc \<noteq> IWL_RX_REORDER_DATA_INVALID_BAID then iwl_mvm_agg_rx_received tu now (desc_baid desc) m else Some m)
      = Some m' \<and> length (baid_map m') = length (baid_map mvm)" if "baid_map m = baid_map mvm" for m
    using agg_rx_received_returns [of "desc_baid desc" m] assms that by auto
  define sta where "sta = rx_mpdu_sta lookup mvm desc (skb_data skb)"
  obtain r flag cl reports where c: "iwl_mvm_rx_crypto mvm (mvm_sta_of mvm sta) (skb_data skb) (rs_flag (skb_rx skb)) phy desc pkt =
      (r, flag, cl, reports)" by (metis prod_cases4)
  have direct: "map_option f (rx_mpdu_build x taken tailroom queue sta desc n s mvm) \<noteq> None" for f n s
    using build [OF refl] by simp
  have session: "Option.bind (if desc_baid desc \<noteq> IWL_RX_REORDER_DATA_INVALID_BAID then iwl_mvm_agg_rx_received tu now (desc_baid desc) (put_sta sta i mvm)
      else Some (put_sta sta i mvm)) (\<lambda>m. map_option f (rx_mpdu_build x taken tailroom queue sta desc n s m)) \<noteq> None" for f n s i
  proof -
    obtain m where "(if desc_baid desc \<noteq> IWL_RX_REORDER_DATA_INVALID_BAID then iwl_mvm_agg_rx_received tu now (desc_baid desc) (put_sta sta i mvm)
        else Some (put_sta sta i mvm)) = Some m" "length (baid_map m) = length (baid_map mvm)"
      using agg [OF put] by blast
    then show ?thesis using build [of m sta n s] by (simp only: bind.bind_lunit option.map_disc_iff not_False_eq_True)
  qed
  show ?thesis
  proof (cases "mvm_sta_of mvm sta")
    case None
    show ?thesis
      unfolding iwl_mvm_rx_mpdu_mq_def Let_def sta_def [symmetric] c split
      unfolding None option.case
      by (intro if_not_None direct option.distinct(2))
  next
    case (Some s)
    obtain dup i k where d: "iwl_mvm_is_dup queue desc s (skb\<lparr>skb_rx := (skb_rx skb)\<lparr>rs_flag := flag\<rparr>\<rparr>) = (dup, i, k)"
      by (metis prod_cases3)
    show ?thesis
      unfolding iwl_mvm_rx_mpdu_mq_def Let_def sta_def [symmetric] c split
      unfolding Some option.case d split
      by (intro if_not_None session option.distinct(2))
  qed
qed

text \<open>C28: Of a frame whose session, if it has one, is one of the 32 of the table and whose length fits into
  the packet, the function returns and puts the frame to exactly one place: it is handed to \<^verbatim>\<open>mac80211\<close>,
  freed or stored, and no stored frame is lost or handed on twice, whatever else the device says in
  the descriptor.  It is the device's buffer, with the header of an A-MSDU's part corrected, or the
  frame built from it.  (For frames that neither time measurement nor the management engine takes,
  and not during a restart of the hardware; \<^verbatim>\<open>mvm_baid_unchecked\<close> shows a session outside the table.)\<close>

theorem mvm_rx_keeps_frames:
  assumes "desc_baid desc < length (baid_map mvm) \<or> desc_baid desc = IWL_RX_REORDER_DATA_INVALID_BAID"
    and "sessions_ok mvm" "queue < num_rxqs mvm" "\<not> in_hw_restart mvm" "\<forall>s. \<not> taken s"
    and "unat (mpdu_len desc) + desc_size \<le> pkt_len"
  shows "\<exists>mvm' outs.
    iwl_mvm_rx_mpdu_mq x taken lookup tu now pkt_len desc_size tailroom queue phy pkt desc skb mvm = Some (mvm', outs) \<and>
    sessions_ok mvm' \<and>
    (\<exists>d\<in>frame_forms x mvm tailroom desc (skb_data skb). out_data outs + mvm_stored mvm' = mvm_stored mvm + {#d#})"
proof -
  obtain mvm' outs where
    run: "iwl_mvm_rx_mpdu_mq x taken lookup tu now pkt_len desc_size tailroom queue phy pkt desc skb mvm = Some (mvm', outs)"
    using rx_mpdu_mq_returns [OF assms(1), of x taken lookup tu now pkt_len desc_size tailroom queue phy pkt skb] by auto
  from rx_mpdu_mq_keeps [OF this assms(2-6)] run show ?thesis by blast
qed

subsection \<open>Releases and the end of a session\<close>

definition keeps_all :: "iwl_mvm \<Rightarrow> iwl_mvm \<times> mvm_out list \<Rightarrow> bool" where
  "keeps_all mvm r \<longleftrightarrow>
     sessions_ok (fst r) \<and> num_rxqs (fst r) = num_rxqs mvm \<and> length (baid_map (fst r)) = length (baid_map mvm) \<and>
     out_data (snd r) + mvm_stored (fst r) = mvm_stored mvm"

lemma keeps_all_refl [simp]: "keeps_all mvm (mvm, []) = sessions_ok mvm"
  by (simp add: keeps_all_def)

lemma release_session_keeps:
  assumes "sessions_ok mvm" "queue < num_rxqs mvm" "baid < length (baid_map mvm)"
  shows "keeps_all mvm (release_session x baid queue target mvm)"
proof -
  have "keeps_all mvm r" if r: "release_session x baid queue target mvm = r" for r
  proof (cases "\<exists>bd. baid_map mvm ! baid = Some bd \<and> mvm_sta_of mvm (first_sta (bd_sta_mask bd)) \<noteq> None")
    case False
    with r have "r = (mvm, [])" by (auto simp: release_session_def split: option.splits)
    then show ?thesis using assms(1) by simp
  next
    case True
    then obtain bd where bd: "baid_map mvm ! baid = Some bd" "mvm_sta_of mvm (first_sta (bd_sta_mask bd)) \<noteq> None" by blast
    define buf where "buf = reorder_bufs bd ! queue"
    have "bd_ok (num_rxqs mvm) bd" using assms(1,3) bd(1) nth_mem by (fastforce simp: sessions_ok_def)
    then have ok: "buf_ok (unat (bd_buf_size bd)) buf" using assms(2) by (simp add: bd_ok_def buf_def)
    obtain s b1 outs where l: "iwl_mvm_release_frames x queue (unat (bd_buf_size bd)) (target bd buf)
        (mvm_sta_of mvm (first_sta (bd_sta_mask bd)), buf, []) = (s, b1, outs)" by (metis prod_cases3)
    from release_frames_keeps [OF l ok] have rel: "released (unat (bd_buf_size bd)) buf b1 outs" by (metis append_Nil)
    have eq: "r = (put_buf baid queue b1 (put_sta (first_sta (bd_sta_mask bd)) s mvm), outs)"
      using r bd l by (auto simp: release_session_def Let_def buf_def)
    note put = put_buf_keeps [of "put_sta (first_sta (bd_sta_mask bd)) s mvm" baid bd queue b1, folded buf_def]
    have m: "sessions_ok (fst r)" "mvm_stored (fst r) + buf_data buf = mvm_stored mvm + buf_data b1"
      using put rel assms bd(1) by (simp_all add: eq released_def)
    have "(out_data outs + mvm_stored (fst r)) + buf_data buf = out_data outs + (mvm_stored (fst r) + buf_data buf)"
      by (simp add: ac_simps)
    also have "\<dots> = mvm_stored mvm + buf_data buf" using m(2) rel by (simp add: released_def ac_simps)
    finally have "out_data outs + mvm_stored (fst r) = mvm_stored mvm" by simp
    then show ?thesis using m(1) unfolding keeps_all_def by (simp add: eq put_buf_def put_sta_def split: option.split)
  qed
  then show ?thesis by simp
qed

lemma release_notifications_keep:
  assumes "sessions_ok mvm" "queue < num_rxqs mvm" "length (baid_map mvm) = IWL_MAX_BAID"
  shows "keeps_all mvm (iwl_mvm_del_ba x queue data_baid mvm)"
    "keeps_all mvm (iwl_mvm_release_frames_from_notif x baid nssn queue mvm)"
    "keeps_all mvm (iwl_mvm_rx_frame_release x queue len b nssn mvm)"
    "keeps_all mvm (iwl_mvm_rx_bar_frame_release x queue len sta_tid ba_info mvm)"
proof -
  show "keeps_all mvm (iwl_mvm_del_ba x queue data_baid mvm)"
    using assms release_session_keeps [OF assms(1,2)] by (simp add: iwl_mvm_del_ba_def Let_def)
  have rel: "keeps_all mvm (iwl_mvm_release_frames_from_notif x baid nssn queue mvm)" for baid nssn
    using assms release_session_keeps [OF assms(1,2)] by (simp add: iwl_mvm_release_frames_from_notif_def)
  then show "keeps_all mvm (iwl_mvm_release_frames_from_notif x baid nssn queue mvm)" .
  show "keeps_all mvm (iwl_mvm_rx_frame_release x queue len b nssn mvm)"
    using assms(1) rel by (simp add: iwl_mvm_rx_frame_release_def)
  show "keeps_all mvm (iwl_mvm_rx_bar_frame_release x queue len sta_tid ba_info mvm)"
    using assms(1) rel by (simp add: iwl_mvm_rx_bar_frame_release_def Let_def split: option.split)
qed

lemma sync_del_ba_keeps:
  "sessions_ok mvm \<Longrightarrow> \<forall>q\<in>set queues. q < num_rxqs mvm \<Longrightarrow> length (baid_map mvm) = IWL_MAX_BAID \<Longrightarrow>
     keeps_all mvm (sync_del_ba x queues baid mvm)"
proof (induction queues arbitrary: mvm)
  case (Cons q queues)
  obtain m1 o1 where d: "iwl_mvm_del_ba x q (ucast baid) mvm = (m1, o1)" by (metis surj_pair)
  have k1: "keeps_all mvm (m1, o1)"
    using release_notifications_keep(1) [of mvm q x "ucast baid"] Cons.prems d by simp
  then have "keeps_all m1 (sync_del_ba x queues baid m1)"
    using Cons.IH [of m1] Cons.prems by (simp add: keeps_all_def)
  with k1 d show ?case by (auto simp: keeps_all_def add.assoc split: prod.split)
qed simp

lemma out_data_freed [simp]: "out_data (map Freed fs) = image_mset skb_data (mset fs)"
  by (induction fs) (simp_all add: out_data_def List.map_filter_def)

lemma purge_buf_data:
  assumes "buf_ok b buf" "size (buf_data buf) < 65536"
  shows "out_data (snd (purge_buf buf)) = buf_data buf"
proof (cases "num_stored buf = 0")
  case True
  have "length (buf_frames buf) < 2 ^ 16" using assms(2) by (simp add: buf_data_def)
  then have "unat (num_stored buf) = length (buf_frames buf)"
    using assms(1) by (simp add: buf_ok_def unat_of_nat take_bit_nat_eq_self)
  with True have "buf_frames buf = []" by simp
  then show ?thesis using True by (simp add: purge_buf_def buf_data_def)
next
  case False
  then show ?thesis by (simp add: purge_buf_def buf_data_def buf_frames_def)
qed

lemma size_sum_list_le: "m \<in> set ms \<Longrightarrow> size m \<le> size (sum_list ms)" for m :: "'a multiset"
  by (induction ms) auto

lemma purge_session_data:
  assumes "bd_ok queues bd" "size (bd_stored (Some bd)) < 65536"
  shows "out_data (concat (map snd (map purge_buf (reorder_bufs bd)))) = bd_stored (Some bd)"
proof -
  have "out_data (snd (purge_buf buf)) = buf_data buf" if "buf \<in> set (reorder_bufs bd)" for buf
  proof (rule purge_buf_data)
    show "buf_ok (unat (bd_buf_size bd)) buf" using assms(1) that by (simp add: bd_ok_def)
    show "size (buf_data buf) < 65536"
      using size_sum_list_le [of "buf_data buf" "map buf_data (reorder_bufs bd)"] that assms(2) by (simp add: bd_stored_def)
  qed
  then have "out_data (concat (map snd (map purge_buf bufs))) = sum_list (map buf_data bufs)"
    if "set bufs \<subseteq> set (reorder_bufs bd)" for bufs
    using that by (induction bufs) auto
  then show ?thesis by (simp add: bd_stored_def)
qed

lemma free_reorder_keeps:
  assumes "sessions_ok mvm" "length (baid_map mvm) = IWL_MAX_BAID" "i < IWL_MAX_BAID" "size (mvm_stored mvm) < 65536"
    and "iwl_mvm_free_reorder x i bd mvm = (mvm', outs)"
  shows "out_data outs + mvm_stored (mvm'\<lparr>baid_map := (baid_map mvm')[i := None]\<rparr>) = mvm_stored mvm"
proof -
  obtain m1 o1 where s: "sync_del_ba x [0..<num_rxqs mvm] (bd_baid bd) mvm = (m1, o1)" by (metis surj_pair)
  have k: "keeps_all mvm (m1, o1)"
    using sync_del_ba_keeps [of mvm "[0..<num_rxqs mvm]" x "bd_baid bd"] assms(1,2) s by simp
  note ex = sum_list_change [of i "map bd_stored (baid_map m1)" "bd_stored None"]
  show ?thesis
  proof (cases "baid_map m1 ! i")
    case None
    then have eq: "mvm' = m1" "outs = o1" using assms(5) s by (simp_all add: iwl_mvm_free_reorder_def)
    then have "mvm'\<lparr>baid_map := (baid_map mvm')[i := None]\<rparr> = m1" using None by (metis iwl_mvm.surjective iwl_mvm.update_convs(1) list_update_id)
    then show ?thesis using k eq by (simp add: keeps_all_def)
  next
    case (Some bd1)
    have eq: "baid_map mvm' = (baid_map m1)[i := Some (bd1\<lparr>reorder_bufs := map fst (map purge_buf (reorder_bufs bd1))\<rparr>)]"
      "outs = o1 @ concat (map snd (map purge_buf (reorder_bufs bd1)))"
      using assms(5) s Some by (auto simp: iwl_mvm_free_reorder_def Let_def)
    have i: "i < length (baid_map m1)" using k assms(2,3) by (simp add: keeps_all_def)
    have mem: "Some bd1 \<in> set (baid_map m1)" using nth_mem [OF i] Some by simp
    moreover have "sessions_ok m1" "num_rxqs m1 = num_rxqs mvm" using k by (simp_all add: keeps_all_def)
    ultimately have bd1: "bd_ok (num_rxqs mvm) bd1" by (metis sessions_ok_def)
    have "size (out_data o1) + size (mvm_stored m1) = size (mvm_stored mvm)"
      using k by (simp add: keeps_all_def flip: size_union)
    then have "size (mvm_stored m1) < 65536" using assms(4) by simp
    moreover have "bd_stored (Some bd1) \<in> set (map bd_stored (baid_map m1))" using mem by simp
    ultimately have "size (bd_stored (Some bd1)) < 65536"
      unfolding mvm_stored_def by (rule le_less_trans [OF size_sum_list_le, rotated])
    note purge = purge_session_data [OF bd1 this]
    have "sum_list (map bd_stored ((baid_map m1)[i := None])) + bd_stored (Some bd1) = mvm_stored m1"
      using ex i Some by (simp add: map_update mvm_stored_def bd_stored_def)
    then have "mvm_stored (mvm'\<lparr>baid_map := (baid_map mvm')[i := None]\<rparr>) + bd_stored (Some bd1) = mvm_stored m1"
      by (simp add: mvm_stored_def eq(1))
    then show ?thesis using k purge by (simp add: eq(2) keeps_all_def ac_simps)
  qed
qed

text \<open>Closing a receive session loses no frame: what its queues stored is handed to
  \<^verbatim>\<open>mac80211\<close> or freed, once, and all other sessions keep what they store.\<close>

theorem mvm_session_end_keeps:
  assumes "iwl_mvm_sta_rx_agg x fw_baid oom now sta t n False bsize tmo mvm = (r, mvm', outs)"
    and "sessions_ok mvm" "length (baid_map mvm) = IWL_MAX_BAID" "size (mvm_stored mvm) < 65536"
    and "unat (tid_to_baid (the (mvm_sta_of mvm (Some sta))) ! t) \<in> {..<IWL_MAX_BAID} \<union> {IWL_RX_REORDER_DATA_INVALID_BAID}"
  shows "out_data outs + mvm_stored mvm' = mvm_stored mvm"
proof -
  define m1 where "m1 = mvm\<lparr>rx_ba_sessions := (if rx_ba_sessions mvm > 0 then rx_ba_sessions mvm - 1 else rx_ba_sessions mvm)\<rparr>"
  define i where "i = unat (tid_to_baid (the (mvm_sta_of mvm (Some sta))) ! t)"
  have m1: "sessions_ok m1" "length (baid_map m1) = IWL_MAX_BAID" "mvm_stored m1 = mvm_stored mvm" "baid_map m1 = baid_map mvm"
    using assms(2,3) by (simp_all add: m1_def sessions_ok_def mvm_stored_def)
  have "mvm' = mvm \<and> outs = [] \<or> mvm' = m1 \<and> outs = [] \<or>
    (\<exists>bd m2. i \<noteq> IWL_RX_REORDER_DATA_INVALID_BAID \<and> iwl_mvm_free_reorder x i bd m1 = (m2, outs) \<and>
       mvm' = m2\<lparr>baid_map := (baid_map m2)[i := None]\<rparr>)"
    using assms(1) unfolding iwl_mvm_sta_rx_agg_def Let_def m1_def [symmetric] i_def [symmetric]
    by (auto split: if_splits option.splits prod.splits)
  then consider "mvm' = mvm \<and> outs = []" | "mvm' = m1 \<and> outs = []"
    | bd m2 where "i \<noteq> IWL_RX_REORDER_DATA_INVALID_BAID" "iwl_mvm_free_reorder x i bd m1 = (m2, outs)"
      "mvm' = m2\<lparr>baid_map := (baid_map m2)[i := None]\<rparr>" by blast
  then show ?thesis
  proof cases
    case 3
    then have "i < IWL_MAX_BAID" using assms(5) by (simp add: i_def)
    then show ?thesis using free_reorder_keeps [OF m1(1,2) _ _ 3(2)] 3(3) m1(3) assms(4) by simp
  qed (use m1(3) in simp_all)
qed

subsection \<open>A concrete session\<close>

definition ex_bd :: iwl_mvm_baid_data where
  "ex_bd = \<lparr>bd_sta_mask = 1, bd_tid = 0, bd_baid = 3, bd_timeout = 0, bd_buf_size = 64, bd_last_rx = 0, reorder_bufs = []\<rparr>"

lemma ex_bd_size: "unat (bd_buf_size ex_bd) = 64"
  by (simp add: ex_bd_def)

text \<open>A station with one key, on a device with two queues; session 3 has just been opened, by \<open>ex_bd\<close>.\<close>

definition ex_mvm_sta :: iwl_mvm_sta where
  "ex_mvm_sta = \<lparr>ptk_pn = [Some (replicate 2 (replicate 8 (replicate 6 0))), None, None, None], dup_data = None,
     tid_to_baid = 3 # replicate 7 127, bcn_prot = [None, None], mvm_netdev = False\<rparr>"

definition ex_mvm :: iwl_mvm where
  "ex_mvm = \<lparr>baid_map = (replicate 32 None)[3 := Some (iwl_mvm_init_reorder_buffer 2 2 ex_bd)],
     fw_id_to_mac_id = [Some ex_mvm_sta], num_stations = 16, num_rxqs = 2, rx_ba_sessions = 1, family_9000 = False,
     new_rx_api = True, new_tx_api = True, gen2 = True, deprecate_ttak = True, monitor_on = False, rx_includes_fcs = False, in_hw_restart = False,
     queue_sync_cookie = 0, queue_sync_state = 0\<rparr>"

text \<open>The frame 5, when everything before 2 was received.\<close>

definition ex_mvm_desc :: iwl_rx_mpdu_desc where
  "ex_mvm_desc = \<lparr>mpdu_len = 26, mac_flags1 = 0, mac_flags2 = 0, amsdu_info = 0, reorder_data = 0x03005002, desc_status = 4\<rparr>"

lemma ex_session_ok: "sessions_ok ex_mvm"
proof -
  have "bd = iwl_mvm_init_reorder_buffer 2 2 ex_bd" if "Some bd \<in> set (baid_map ex_mvm)" for bd
    using set_update_subset_insert [of "replicate 32 None" 3 "Some (iwl_mvm_init_reorder_buffer 2 2 ex_bd)"] that
    by (auto simp: ex_mvm_def)
  moreover have "bd_ok 2 (iwl_mvm_init_reorder_buffer 2 2 ex_bd)"
    by (simp add: bd_ok_def iwl_mvm_init_reorder_buffer_def ex_bd_def buf_ok_def buf_frames_def concat_replicate_trivial)
  ultimately show ?thesis by (auto simp: sessions_ok_def) (simp add: ex_mvm_def)
qed

definition ex_mvm_received :: "(iwl_mvm \<times> mvm_out list) option" where
  "ex_mvm_received = iwl_mvm_rx_mpdu_mq ex_extern (\<lambda>_. False) (\<lambda>_. None) ucast 0 90 64 128 1 0 0 ex_mvm_desc (ex_mpdu 5 False) ex_mvm"

theorem mvm_rx_keeps_frames_witness:
  "\<exists>mvm' outs. ex_mvm_received = Some (mvm', outs) \<and> sessions_ok mvm' \<and>
     (\<exists>d\<in>frame_forms ex_extern ex_mvm 128 ex_mvm_desc (skb_data (ex_mpdu 5 False)). out_data outs + mvm_stored mvm' = mvm_stored ex_mvm + {#d#})"
proof -
  have "1 < num_rxqs ex_mvm" "\<not> in_hw_restart ex_mvm" "unat (mpdu_len ex_mvm_desc) + 64 \<le> 90"
    by (simp_all add: ex_mvm_def ex_mvm_desc_def)
  moreover have "desc_baid ex_mvm_desc < length (baid_map ex_mvm)" by code_simp
  ultimately show ?thesis
    unfolding ex_mvm_received_def by (intro mvm_rx_keeps_frames [OF _ ex_session_ok]) simp_all
qed

lemma size_mvm_stored:
  "size (mvm_stored mvm) = sum_list (map (\<lambda>bd. case bd of None \<Rightarrow> 0
     | Some bd \<Rightarrow> sum_list (map (\<lambda>buf. length (buf_frames buf)) (reorder_bufs bd))) (baid_map mvm))"
proof -
  have size: "size (sum_list ms) = sum_list (map size ms)" for ms :: "u8 list multiset list"
    by (induction ms) simp_all
  have "size (bd_stored bd) = (case bd of None \<Rightarrow> 0 | Some bd \<Rightarrow> sum_list (map (\<lambda>buf. length (buf_frames buf)) (reorder_bufs bd)))"
    for bd by (simp add: bd_stored_def size o_def buf_data_def split: option.split)
  then show ?thesis by (simp add: mvm_stored_def size o_def)
qed

lemma sessions_ok_list:
  "sessions_ok mvm \<longleftrightarrow> list_all (\<lambda>bd. case bd of None \<Rightarrow> True | Some bd \<Rightarrow> bd_ok (num_rxqs mvm) bd) (baid_map mvm)"
  by (auto simp: sessions_ok_def list_all_iff split: option.splits)

definition ex_mvm_one :: iwl_mvm where
  "ex_mvm_one = fst (the ex_mvm_received)"

lemma ex_mvm_one_facts:
  "list_all (\<lambda>bd. case bd of None \<Rightarrow> True | Some bd \<Rightarrow> bd_ok (num_rxqs ex_mvm_one) bd) (baid_map ex_mvm_one)"
  "sum_list (map (\<lambda>bd. case bd of None \<Rightarrow> 0
     | Some bd \<Rightarrow> sum_list (map (\<lambda>buf. length (buf_frames buf)) (reorder_bufs bd))) (baid_map ex_mvm_one)) = 1"
  "length (baid_map ex_mvm_one) = 32" "tid_to_baid (the (mvm_sta_of ex_mvm_one (Some 0))) ! 0 = 3"
  by code_simp+

lemma mvm_session_end_keeps_witness:
  "\<exists>r mvm' outs. iwl_mvm_sta_rx_agg ex_extern 0 False 0 0 0 0 False 0 0 ex_mvm_one = (r, mvm', outs) \<and>
     out_data outs + mvm_stored mvm' = mvm_stored ex_mvm_one \<and> size (mvm_stored ex_mvm_one) = 1"
proof -
  obtain r mvm' outs where e: "iwl_mvm_sta_rx_agg ex_extern 0 False 0 0 0 0 False 0 0 ex_mvm_one = (r, mvm', outs)"
    by (metis prod_cases3)
  have size: "size (mvm_stored ex_mvm_one) = 1" using ex_mvm_one_facts(2) by (simp only: size_mvm_stored)
  have "sessions_ok ex_mvm_one" using ex_mvm_one_facts(1) by (simp only: sessions_ok_list)
  from mvm_session_end_keeps [OF e this] show ?thesis using e size ex_mvm_one_facts(3,4) by simp
qed

text \<open>
  The session of a frame comes from seven bits of the descriptor, of which only the value for none
  is checked before the table of 32 sessions is read; a release notification with the same session
  is refused.
\<close>

theorem mvm_baid_unchecked:
  "iwl_mvm_reorder ex_extern 1 (Some 0) (ex_mvm_desc\<lparr>reorder_data := 0x23005002\<rparr>) (ex_mpdu 5 False) ex_mvm = None"
  "snd (iwl_mvm_rx_frame_release ex_extern 1 4 0x23 2 ex_mvm) = []"
  by code_simp+

end
