(* ===== verification/Mvm_Order.thy ===== *)
theory Mvm_Order
  imports Mvm_Reorder Replay
begin

text \<open>
  In which order a receive queue of the \<^verbatim>\<open>mvm\<close> driver hands frames on.  The driver leaves the window
  to the firmware; while the firmware reports it as stated by \<open>fw_ok\<close>, frames come out in the
  order of their numbers.  When the queue's window is behind the firmware's they need not.
\<close>

subsection \<open>What the firmware reports\<close>

text \<open>
  The A-MSDU of which a part that is not the last came in last: its number and the number up to
  which everything was received then.
\<close>

type_synonym open_amsdu = "(u16 \<times> u16) option"

fun next_open :: "open_amsdu \<Rightarrow> mvm_event \<Rightarrow> open_amsdu" where
  "next_open cur (Mpdu skb sn nssn partial old dup) = (if old \<or> dup then cur else if partial then Some (sn, nssn) else None)"
| "next_open cur (Frame_release nssn) = None"

text \<open>
  A new frame is reported with its own number, which lies in the window of \<open>b\<close> numbers from the
  queue's head or is that of the open A-MSDU; everything up to \<open>nssn\<close> was received, which is no
  more than the window, not the frame's own number, and never moves back.  The exception is the
  one the code describes: the firmware's window may be behind when the frame is the next one and
  nothing is stored.  Old frames are reported only within a session, and the parts stored are
  fewer than the counter holds.
\<close>

fun fw_ok :: "nat \<Rightarrow> open_amsdu \<Rightarrow> iwl_mvm_reorder_buffer \<Rightarrow> mvm_event \<Rightarrow> bool" where
  "fw_ok b cur buf (Mpdu skb sn nssn partial old dup) \<longleftrightarrow>
     num_stored buf < 65535 \<and> (old \<longrightarrow> rb_valid buf) \<and>
     (old \<or> dup \<or>
      sn = sn_of skb \<and>
      (nssn < 4096 \<and> sn_dist (head_sn buf) nssn \<le> b \<and> nssn \<noteq> sn \<and>
       (case cur of None \<Rightarrow> sn_dist (head_sn buf) sn < b
        | Some (s, n) \<Rightarrow> sn = s \<and> sn_dist (head_sn buf) n \<le> sn_dist (head_sn buf) nssn) \<or>
       cur = None \<and> \<not> partial \<and> buf_frames buf = [] \<and> sn = head_sn buf \<and> \<not> ieee80211_sn_less sn nssn))"
| "fw_ok b cur buf (Frame_release nssn) \<longleftrightarrow>
     nssn < 4096 \<and> sn_dist (head_sn buf) nssn \<le> b \<and>
     (case cur of None \<Rightarrow> True | Some (s, n) \<Rightarrow> sn_dist (head_sn buf) n \<le> sn_dist (head_sn buf) nssn)"

text \<open>The state of a queue between two events.\<close>

definition queue_inv :: "nat \<Rightarrow> open_amsdu \<Rightarrow> iwl_mvm_reorder_buffer \<Rightarrow> bool" where
  "queue_inv b cur buf \<longleftrightarrow>
     sizes_ok b \<and> buf_ok b buf \<and> placed b (head_sn buf) (rb_entries buf) \<and> unat (head_sn buf) < 4096 \<and>
     length (buf_frames buf) < 65536 \<and>
     (case cur of None \<Rightarrow> True
      | Some (s, n) \<Rightarrow> sn_dist (head_sn buf) s < b \<and> sn_dist (head_sn buf) n \<le> b \<and> unat n < 4096 \<and> unat s < 4096 \<and>
          (buf_frames buf = [] \<longrightarrow> sn_dist (head_sn buf) s < sn_dist (head_sn buf) n))"

text \<open>No frame before this place, counted from the head, is handed on any more.\<close>

definition low :: "open_amsdu \<Rightarrow> iwl_mvm_reorder_buffer \<Rightarrow> nat" where
  "low cur buf = (case cur of Some (s, n) \<Rightarrow> if buf_frames buf = [] then sn_dist (head_sn buf) s else 0 | None \<Rightarrow> 0)"

lemma stored_length:
  assumes "buf_ok b buf" "length (buf_frames buf) < 65536"
  shows "unat (num_stored buf) = length (buf_frames buf)"
  using assms by (simp add: buf_ok_def unat_of_nat take_bit_nat_eq_self)

lemma stored_none_iff: "buf_ok b buf \<Longrightarrow> length (buf_frames buf) < 65536 \<Longrightarrow> num_stored buf = 0 \<longleftrightarrow> buf_frames buf = []"
  by (metis stored_length length_0_conv unat_eq_zero)

lemma placed_empty:
  assumes "buf_frames buf = []" "length (rb_entries buf) = b"
  shows "placed b h (rb_entries buf)"
proof -
  have "rb_entries buf ! i = []" if "i < b" for i
    using assms nth_mem [of i "rb_entries buf"] that by (simp add: buf_frames_def concat_eq_Nil_conv)
  then show ?thesis using assms(2) by (simp add: placed_def)
qed

lemma placed_store:
  assumes "placed b h (rb_entries buf)" "sn = sn_of skb" "sn_dist h sn < b"
  shows "placed b h (rb_entries (store_mpdu b skb sn buf))"
  using assms by (auto simp: placed_def store_mpdu_def nth_list_update)

lemma store_fields [simp]: "head_sn (store_mpdu b skb sn buf) = head_sn buf"
  by (simp add: store_mpdu_def)

lemma sn_less_dists:
  assumes "sn_dist h a \<le> 1024" "sn_dist h b \<le> 1024" "unat a < 4096" "unat b < 4096"
  shows "ieee80211_sn_less a b \<longleftrightarrow> sn_dist h a < sn_dist h b"
    "sn_dist h a \<le> sn_dist h b \<Longrightarrow> sn_dist a b = sn_dist h b - sn_dist h a"
proof -
  have between: "sn_dist a b = sn_dist h b - sn_dist h a"
    if "sn_dist h a \<le> sn_dist h b" "unat a < 4096" "unat b < 4096" "sn_dist h b \<le> 1024" for a b
  proof -
    have "sn_plus a (sn_dist h b - sn_dist h a) = sn_plus (sn_plus h (sn_dist h a)) (sn_dist h b - sn_dist h a)"
      using sn_plus_dist [OF that(2)] by simp
    also have "\<dots> = b" using sn_plus_dist [OF that(3)] that(1) by (simp add: sn_plus_plus)
    finally show ?thesis using sn_dist_plus [of "sn_dist h b - sn_dist h a" a] that(4) by simp
  qed
  then show "sn_dist h a \<le> sn_dist h b \<Longrightarrow> sn_dist a b = sn_dist h b - sn_dist h a" using assms by simp
  show "ieee80211_sn_less a b \<longleftrightarrow> sn_dist h a < sn_dist h b"
  proof (cases "sn_dist h a \<le> sn_dist h b")
    case True
    then show ?thesis using between [OF True assms(3,4,2)] assms(2) by (auto simp: sn_less_iff)
  next
    case False
    then have "sn_dist b a = sn_dist h a - sn_dist h b" using between [of b a] assms by simp
    then show ?thesis using False assms(1) sn_dist_swap [of a b] by (simp add: sn_less_iff)
  qed
qed

lemma handed_none: "out_data outs = {#} \<Longrightarrow> handed_sns outs = []"
proof (induction outs)
  case (Cons a outs)
  then show ?case by (cases a) (auto simp: out_data_def handed_sns_def List.map_filter_def)
qed simp

subsection \<open>One event\<close>

text \<open>
  \<open>moves b cur buf cur' buf' outs\<close>: the frames \<open>outs\<close> hands on are numbered in order, not before
  \<open>low\<close> and not beyond what is \<open>low\<close> afterwards.
\<close>

definition moves :: "nat \<Rightarrow> open_amsdu \<Rightarrow> iwl_mvm_reorder_buffer \<Rightarrow> open_amsdu \<Rightarrow> iwl_mvm_reorder_buffer \<Rightarrow> mvm_out list \<Rightarrow> bool" where
  "moves b cur buf cur' buf' outs \<longleftrightarrow>
     (let ks = map (sn_dist (head_sn buf)) (handed_sns outs); d = sn_dist (head_sn buf) (head_sn buf') in
      queue_inv b cur' buf' \<and> sorted ks \<and> (\<forall>k\<in>set ks. low cur buf \<le> k \<and> k \<le> d + low cur' buf') \<and>
      low cur buf \<le> d + low cur' buf')"

lemma queue_invD:
  assumes "queue_inv b cur buf"
  shows "sizes_ok b" "buf_ok b buf" "placed b (head_sn buf) (rb_entries buf)" "unat (head_sn buf) < 4096"
    "length (buf_frames buf) < 65536" "b \<le> 1024" "length (rb_entries buf) = b"
    "num_stored buf = 0 \<longleftrightarrow> buf_frames buf = []"
    "cur = Some (s, n) \<Longrightarrow> sn_dist (head_sn buf) s < b \<and> sn_dist (head_sn buf) n \<le> b \<and> unat n < 4096 \<and> unat s < 4096 \<and>
       (buf_frames buf = [] \<longrightarrow> sn_dist (head_sn buf) s < sn_dist (head_sn buf) n)"
  using assms stored_none_iff by (auto simp: queue_inv_def sizes_ok_def buf_ok_def)

lemma moves_still:
  assumes "queue_inv b cur buf" "rb_entries buf' = rb_entries buf" "num_stored buf' = num_stored buf"
    "head_sn buf' = head_sn buf" "handed_sns outs = []"
  shows "moves b cur buf cur buf' outs"
proof -
  have "buf_frames buf' = buf_frames buf" using assms(2) by (simp add: buf_frames_def)
  then show ?thesis
    using assms by (cases cur) (auto simp: moves_def Let_def queue_inv_def low_def buf_ok_def)
qed

lemma moves_release:
  assumes inv: "queue_inv b cur0 buf0" and hd: "head_sn buf = head_sn buf0"
    and buf: "buf_ok b buf" "placed b (head_sn buf) (rb_entries buf)" "length (buf_frames buf) < 65536"
    and n: "unat nssn < 4096" "sn_dist (head_sn buf) nssn \<le> b" and low: "low cur0 buf0 \<le> sn_dist (head_sn buf) nssn"
    and none: "low cur0 buf0 = 0 \<or> buf_frames buf = []"
    and r: "iwl_mvm_release_frames x queue b nssn (sta, buf, []) = (sta', buf', outs)"
  shows "moves b cur0 buf0 None buf' outs"
proof -
  note D = queue_invD [OF inv]
  obtain s1 b1 where l: "release_loop x queue b nssn (head_sn buf) (sta, buf, []) = (s1, b1, outs)" "buf' = b1\<lparr>head_sn := nssn\<rparr>"
    using r by (auto simp: iwl_mvm_release_frames_def split: prod.splits)
  have lt: "sn_dist (head_sn buf) nssn < 2048" using n(2) D(6) by simp
  from release_loop_order [OF l(1) buf(1) D(1) buf(2) _ n(1) lt] D(4) hd obtain ks where
    ks: "placed b nssn (rb_entries b1)" "sorted ks" "\<forall>k\<in>set ks. k < sn_dist (head_sn buf) nssn"
      "handed_sns outs = map (sn_plus (head_sn buf)) ks" by auto
  have rel: "released b buf b1 outs" using release_loop_keeps [OF l(1) buf(1)] by auto
  have "size (out_data outs) + size (buf_data b1) = size (buf_data buf)"
    using rel by (simp add: released_def flip: size_union)
  then have "length (buf_frames b1) < 65536" using buf(3) by (simp add: buf_data_def)
  then have "queue_inv b None buf'"
    using rel ks(1) n(1) D(1) by (simp add: queue_inv_def l(2) released_def) (simp add: buf_frames_def)
  moreover have nums: "map (sn_dist (head_sn buf)) (handed_sns outs) = ks"
    unfolding ks(4) map_map
  proof (rule map_idI)
    fix k assume "k \<in> set ks"
    with ks(3) have "k < sn_dist (head_sn buf) nssn" by blast
    then have "k < 4096" using lt by linarith
    then show "(sn_dist (head_sn buf) \<circ> sn_plus (head_sn buf)) k = k" by (simp add: sn_dist_plus)
  qed
  moreover have "low cur0 buf0 \<le> k \<and> k \<le> sn_dist (head_sn buf) nssn" if k: "k \<in> set ks" for k
  proof -
    have "buf_frames buf \<noteq> []"
    proof
      assume "buf_frames buf = []"
      then have "out_data outs = {#}" using rel by (simp add: released_def buf_data_def)
      with handed_none [of outs] ks(4) k show False by simp
    qed
    with none have "low cur0 buf0 = 0" by simp
    with ks(3) k show ?thesis by (simp add: less_imp_le)
  qed
  moreover have "head_sn buf' = nssn" "low None buf' = 0" by (simp_all add: l(2) low_def)
  ultimately show ?thesis using ks(2) low unfolding moves_def Let_def hd [symmetric] by simp
qed

text \<open>A new frame that the firmware reports as stated.\<close>

lemma fresh_facts:
  assumes inv: "queue_inv b cur buf" and ok: "fw_ok b cur buf (Mpdu skb sn nssn partial old dup)" and new: "\<not> dup" "\<not> old"
  shows "sn = sn_of skb" "unat sn < 4096" "sn_dist (head_sn buf) sn < b"
    "length (buf_frames buf) < 65535"
    "\<not> (cur = None \<and> \<not> partial \<and> buf_frames buf = [] \<and> sn = head_sn buf \<and> \<not> ieee80211_sn_less sn nssn) \<Longrightarrow>
       unat nssn < 4096 \<and> sn_dist (head_sn buf) nssn \<le> b \<and> nssn \<noteq> sn \<and>
       (ieee80211_sn_less sn nssn \<longleftrightarrow> sn_dist (head_sn buf) sn < sn_dist (head_sn buf) nssn) \<and>
       sn_dist (head_sn buf) sn \<noteq> sn_dist (head_sn buf) nssn"
    "cur = Some (s, n) \<Longrightarrow> sn = s \<and> sn_dist (head_sn buf) n \<le> sn_dist (head_sn buf) nssn"
proof -
  note D = queue_invD [OF inv]
  show sn: "sn = sn_of skb" using ok new by simp
  show "length (buf_frames buf) < 65535"
    using ok stored_length [OF D(2,5)] by (simp add: word_less_nat_alt)
  show lt: "unat sn < 4096" using sn ieee80211_get_sn_lt by simp
  show "cur = Some (s, n) \<Longrightarrow> sn = s \<and> sn_dist (head_sn buf) n \<le> sn_dist (head_sn buf) nssn" using ok new by auto
  show near: "sn_dist (head_sn buf) sn < b"
  proof (cases cur)
    case None
    then show ?thesis using ok new D(1) by (auto simp: sizes_ok_def)
  next
    case (Some c)
    then show ?thesis using ok new D(9) by (cases c) auto
  qed
  assume "\<not> (cur = None \<and> \<not> partial \<and> buf_frames buf = [] \<and> sn = head_sn buf \<and> \<not> ieee80211_sn_less sn nssn)"
  then have n: "unat nssn < 4096" "sn_dist (head_sn buf) nssn \<le> b" "nssn \<noteq> sn"
    using ok new by (auto simp: word_less_nat_alt)
  have "sn_dist (head_sn buf) sn \<noteq> sn_dist (head_sn buf) nssn"
    using n(3) sn_plus_dist [OF lt, of "head_sn buf"] sn_plus_dist [OF n(1), of "head_sn buf"] by metis
  moreover have "sn_dist (head_sn buf) sn \<le> 1024" "sn_dist (head_sn buf) nssn \<le> 1024" using near n(2) D(6) by simp_all
  ultimately show "unat nssn < 4096 \<and> sn_dist (head_sn buf) nssn \<le> b \<and> nssn \<noteq> sn \<and>
       (ieee80211_sn_less sn nssn \<longleftrightarrow> sn_dist (head_sn buf) sn < sn_dist (head_sn buf) nssn) \<and>
       sn_dist (head_sn buf) sn \<noteq> sn_dist (head_sn buf) nssn"
    using n sn_less_dists(1) [OF _ _ lt n(1)] by simp
qed

lemma queue_inv_empty:
  assumes "queue_inv b cur buf" "buf_frames buf = []" "rb_entries buf' = rb_entries buf" "num_stored buf' = num_stored buf"
    "unat (head_sn buf') < 4096"
    "case cur' of None \<Rightarrow> True
     | Some (s, n) \<Rightarrow> sn_dist (head_sn buf') s < sn_dist (head_sn buf') n \<and> sn_dist (head_sn buf') s < b \<and>
         sn_dist (head_sn buf') n \<le> b \<and> unat n < 4096 \<and> unat s < 4096"
  shows "queue_inv b cur' buf'"
proof -
  note D = queue_invD [OF assms(1)]
  have "buf_frames buf' = []" using assms(2,3) by (simp add: buf_frames_def)
  moreover have "placed b (head_sn buf') (rb_entries buf')" using placed_empty [OF assms(2) D(7)] assms(3) by simp
  moreover have "buf_ok b buf'" using D(2) assms(2-4) by (simp add: buf_ok_def buf_frames_def)
  ultimately show ?thesis using D(1) assms(5,6) unfolding queue_inv_def by (auto split: option.splits)
qed

lemma queue_inv_store:
  assumes inv: "queue_inv b cur buf" and len: "length (buf_frames buf) < 65535" and sn: "sn = sn_of skb" "sn_dist h sn < b"
    and h: "unat h < 4096" "placed b h (rb_entries buf)" and n: "sn_dist h n \<le> b" "unat n < 4096" "unat sn < 4096"
    and buf': "buf' = (store_mpdu b skb sn buf)\<lparr>head_sn := h\<rparr>"
  shows "queue_inv b (Some (sn, n)) buf'" "low (Some (sn, n)) buf' = 0"
proof -
  note D = queue_invD [OF inv]
  note st = store_mpdu_keeps [OF D(2), of skb sn]
  have fr: "buf_frames buf' = buf_frames (store_mpdu b skb sn buf)" by (simp add: buf' buf_frames_def)
  moreover have "buf_frames (store_mpdu b skb sn buf) \<noteq> []" using st(3) by auto
  moreover have "placed b h (rb_entries buf')" using placed_store [OF h(2) sn] by (simp add: buf')
  moreover have "buf_ok b buf'" using st(1) by (simp add: buf')
  moreover have "head_sn buf' = h" by (simp add: buf')
  moreover have "length (buf_frames buf') < 65536" using st(3) len fr by simp
  ultimately show "queue_inv b (Some (sn, n)) buf'" "low (Some (sn, n)) buf' = 0"
    using D(1) sn(2) h(1) n by (simp_all add: queue_inv_def low_def)
qed

lemma step_moves:
  assumes inv: "queue_inv b cur buf" and ok: "fw_ok b cur buf ev"
    and step: "mvm_step x queue b ev (sta, buf) = (sta', buf', outs)"
  shows "moves b cur buf (next_open cur ev) buf' outs"
proof (cases ev)
  case (Frame_release nssn)
  note D = queue_invD [OF inv]
  have n: "unat nssn < 4096" "sn_dist (head_sn buf) nssn \<le> b" using ok Frame_release by (simp_all add: word_less_nat_alt)
  have "low cur buf \<le> sn_dist (head_sn buf) nssn"
    using ok Frame_release D(9) by (cases cur) (fastforce simp: low_def)+
  moreover have "low cur buf = 0 \<or> buf_frames buf = []" by (simp add: low_def split: option.split)
  ultimately show ?thesis
    using moves_release [OF inv refl D(2,3,5) n] step Frame_release by simp
next
  case (Mpdu skb sn nssn partial old dup)
  note D = queue_invD [OF inv]
  note ok = ok [unfolded Mpdu]
  obtain c s1 b1 o1 where r: "reorder_mpdu x queue b skb sn nssn partial old dup (sta, buf) = (c, s1, b1, o1)" by (metis prod_cases4)
  with step Mpdu have "mvm_direct x queue skb (c, s1, b1, o1) = (sta', buf', outs)" by simp
  then obtain new where new: "outs = o1 @ new" "buf' = b1" "handed_sns new = (if c then [] else [sn_of skb])"
    by (rule mvm_direct_result)
  let ?h = "head_sn buf"
  from r show ?thesis
  proof (cases rule: reorder_mpdu_cases)
    case early
    then show ?thesis using ok by simp
  next
    case drop
    then have "handed_sns outs = []" using new handed_sns_append [of "[Freed skb]" new] by simp
    then have "moves b cur buf cur buf' outs" using drop(5) new(2) by (intro moves_still [OF inv]) simp_all
    moreover have "next_open cur ev = cur" using drop(1) Mpdu by auto
    ultimately show ?thesis by simp
  next
    case pass
    note F = fresh_facts [OF inv ok pass(1,2)]
    have e: "buf_frames buf = []" using pass(3) D(8) by simp
    have n: "unat nssn < 4096" "sn_dist ?h nssn \<le> b" "sn_dist ?h sn < sn_dist ?h nssn" using F(5) pass(4) by auto
    have low: "low cur buf \<le> sn_dist ?h sn"
      using F(6) e by (auto simp: low_def split: option.split)
    have out: "map (sn_dist ?h) (handed_sns outs) = [sn_dist ?h sn]" using pass(5,7) new F(1) by simp
    show ?thesis
    proof (cases partial)
      case True
      have "queue_inv b (Some (sn, nssn)) buf'"
        using n F(2,3) D(4) by (intro queue_inv_empty [OF inv e]) (simp_all add: new(2) pass(8) True)
      moreover have "head_sn buf' = ?h" "low (Some (sn, nssn)) buf' = sn_dist ?h sn"
        using e by (simp_all add: new(2) pass(8) True low_def buf_frames_def)
      ultimately show ?thesis using out low pass(1,2) Mpdu True by (simp add: moves_def Let_def)
    next
      case False
      have "queue_inv b None buf'"
        using n by (intro queue_inv_empty [OF inv e]) (simp_all add: new(2) pass(8) False)
      moreover have "head_sn buf' = nssn" "low None buf' = 0" by (simp_all add: new(2) pass(8) False low_def)
      ultimately show ?thesis using out low n(3) pass(1,2) Mpdu False by (simp add: moves_def Let_def)
    qed
  next
    case head
    note F = fresh_facts [OF inv ok head(1,2)]
    have e: "buf_frames buf = []" using head(3) D(8) by simp
    have d0: "sn_dist ?h sn = 0" by (simp add: head(5))
    have "cur = None \<and> \<not> partial"
    proof (rule ccontr)
      assume "\<not> (cur = None \<and> \<not> partial)"
      with F(5) d0 head(4) show False by auto
    qed
    then have lag: "cur = None" "\<not> partial" by simp_all
    have b': "buf' = buf\<lparr>rb_valid := True, head_sn := ieee80211_sn_inc sn\<rparr>" using head(9) lag(2) new(2) by simp
    have "queue_inv b None buf'" by (intro queue_inv_empty [OF inv e]) (simp_all add: b' sn_inc_lt)
    moreover have "sn_dist ?h (head_sn buf') = 1" by (simp add: b' head(5) sn_inc_plus sn_dist_plus)
    moreover have "map (sn_dist ?h) (handed_sns outs) = [0]" using head(6,8) new F(1) d0 by simp
    moreover have "low None buf' = 0" "low cur buf = 0" by (simp_all add: low_def lag)
    ultimately show ?thesis using head(1,2) lag Mpdu by (simp add: moves_def Let_def)
  next
    case part
    note F = fresh_facts [OF inv ok part(1,2)]
    have n: "unat nssn < 4096" "sn_dist ?h nssn \<le> b" using F(5) part(4) by auto
    have out: "handed_sns outs = []" using part(3,6) new by simp
    show ?thesis
    proof (cases "buf_frames buf = []")
      case True
      then have num: "num_stored buf = 0" using D(8) by simp
      have le: "sn_dist ?h nssn < sn_dist ?h sn" using F(5) part(4,7) num by auto
      have none: "cur = None" using F(6) D(9) True le by (cases cur) fastforce+
      have "sn_dist ?h sn \<le> 1024" "sn_dist ?h nssn \<le> 1024" using F(3) n(2) D(6) by simp_all
      then have "sn_dist nssn sn = sn_dist ?h sn - sn_dist ?h nssn" using le F(2) n(1) by (intro sn_less_dists(2)) simp_all
      then have near: "sn_dist nssn sn < b" using F(3) by simp
      note inv' = queue_inv_store [OF inv F(4,1) near n(1) placed_empty [OF True D(7)] _ n(1) F(2), of buf']
      have "queue_inv b (Some (sn, nssn)) buf'" "low (Some (sn, nssn)) buf' = 0"
        using inv' D(6) by (simp_all add: new(2) part(8) num)
      then show ?thesis using out part(1,2,4) Mpdu none by (simp add: moves_def Let_def low_def)
    next
      case False
      then have num: "num_stored buf \<noteq> 0" using D(8) by simp
      have st: "store_mpdu b skb sn buf = (store_mpdu b skb sn buf)\<lparr>head_sn := ?h\<rparr>" by (simp add: store_mpdu_def)
      have "queue_inv b (Some (sn, nssn)) buf'" "low (Some (sn, nssn)) buf' = 0"
        using queue_inv_store [OF inv F(4,1,3) D(4,3) n(2,1) F(2), of buf'] st by (simp_all add: new(2) part(8) num)
      then show ?thesis using out part(1,2,4) Mpdu False by (simp add: moves_def Let_def low_def split: option.split)
    qed
  next
    case whole
    note F = fresh_facts [OF inv ok whole(1,2)]
    have lag: "\<not> (cur = None \<and> \<not> partial \<and> buf_frames buf = [] \<and> sn = head_sn buf \<and> \<not> ieee80211_sn_less sn nssn)"
      using whole(5) D(8) by blast
    have n: "unat nssn < 4096" "sn_dist ?h nssn \<le> b" using F(5) [OF lag] by auto
    have zero: "low cur buf = 0"
    proof (cases cur)
      case (Some c)
      obtain s n where c: "c = (s, n)" by (cases c)
      have "buf_frames buf \<noteq> []"
        using F(6) [of s n] F(5) [OF lag] D(9) [of s n] whole(5) D(8) Some c by auto
      then show ?thesis by (simp add: low_def Some c)
    qed (simp add: low_def)
    note st = store_mpdu_keeps [OF D(2), of skb sn]
    have "moves b cur buf None b1 o1"
    proof (rule moves_release [OF inv _ st(1)])
      show "placed b (head_sn (store_mpdu b skb sn buf)) (rb_entries (store_mpdu b skb sn buf))"
        using placed_store [OF D(3) F(1,3)] by simp
      show "length (buf_frames (store_mpdu b skb sn buf)) < 65536" using st(3) F(4) by simp
      show "iwl_mvm_release_frames x queue b nssn (sta, store_mpdu b skb sn buf, []) = (s1, b1, o1)" by (rule whole(6))
    qed (simp_all add: n zero)
    moreover have "handed_sns outs = handed_sns o1" using new whole(3) by simp
    ultimately show ?thesis using whole(1,2,4) Mpdu new(2) by (simp add: moves_def Let_def)
  qed
qed

subsection \<open>Runs\<close>

text \<open>The firmware reports every event of a run as stated.\<close>

fun fw_run :: "extern \<Rightarrow> nat \<Rightarrow> nat \<Rightarrow> open_amsdu \<Rightarrow> iwl_mvm_sta option \<times> iwl_mvm_reorder_buffer \<Rightarrow> mvm_event list \<Rightarrow> bool" where
  "fw_run x queue b cur s [] \<longleftrightarrow> True"
| "fw_run x queue b cur (sta, buf) (ev # evs) \<longleftrightarrow>
     fw_ok b cur buf ev \<and>
     (case mvm_step x queue b ev (sta, buf) of (sta, buf, outs) \<Rightarrow> fw_run x queue b (next_open cur ev) (sta, buf) evs)"

text \<open>
  The numbers of the frames handed on, counted without wrap-around: \<open>p\<close> is that of the head.  A
  frame is as far ahead of it as its twelve bit number, and so is the next head.
\<close>

fun mvm_numbers :: "extern \<Rightarrow> nat \<Rightarrow> nat \<Rightarrow> nat \<Rightarrow> iwl_mvm_sta option \<times> iwl_mvm_reorder_buffer \<Rightarrow> mvm_event list \<Rightarrow> nat list" where
  "mvm_numbers x queue b p s [] = []"
| "mvm_numbers x queue b p (sta, buf) (ev # evs) =
     (case mvm_step x queue b ev (sta, buf) of (sta', buf', outs) \<Rightarrow>
        map (\<lambda>sn. p + sn_dist (head_sn buf) sn) (handed_sns outs) @
        mvm_numbers x queue b (p + sn_dist (head_sn buf) (head_sn buf')) (sta', buf') evs)"

lemma run_numbers:
  "queue_inv b cur buf \<Longrightarrow> fw_run x queue b cur (sta, buf) evs \<Longrightarrow>
     sorted (mvm_numbers x queue b p (sta, buf) evs) \<and> (\<forall>k\<in>set (mvm_numbers x queue b p (sta, buf) evs). p + low cur buf \<le> k)"
proof (induction evs arbitrary: cur sta buf p)
  case (Cons ev evs)
  obtain sta' buf' outs where st: "mvm_step x queue b ev (sta, buf) = (sta', buf', outs)" by (metis prod_cases3)
  define d where "d = sn_dist (head_sn buf) (head_sn buf')"
  have ok: "fw_ok b cur buf ev" "fw_run x queue b (next_open cur ev) (sta', buf') evs" using Cons.prems(2) st by simp_all
  note m = step_moves [OF Cons.prems(1) ok(1) st, unfolded moves_def Let_def, folded d_def]
  have ih: "sorted (mvm_numbers x queue b (p + d) (sta', buf') evs)"
    "\<forall>k\<in>set (mvm_numbers x queue b (p + d) (sta', buf') evs). p + d + low (next_open cur ev) buf' \<le> k"
    using Cons.IH [of "next_open cur ev" buf' sta' "p + d"] m ok(2) by simp_all
  have "sorted (map (\<lambda>sn. p + sn_dist (head_sn buf) sn) (handed_sns outs))" using m by (simp add: sorted_map)
  moreover have "p + low cur buf \<le> p + sn_dist (head_sn buf) sn \<and> p + sn_dist (head_sn buf) sn \<le> p + d + low (next_open cur ev) buf'"
    if "sn \<in> set (handed_sns outs)" for sn using m that by simp
  moreover have "p + low cur buf \<le> p + d + low (next_open cur ev) buf'" using m by simp
  ultimately show ?case
    using st ih by (fastforce simp: sorted_append d_def [symmetric] dest: order_trans)
qed simp

lemma init_queue_inv:
  assumes "sizes_ok (unat (bd_buf_size bd))" "unat n < 4096" "queue < rxqs"
  shows "queue_inv (unat (bd_buf_size bd)) None (reorder_bufs (iwl_mvm_init_reorder_buffer n rxqs bd) ! queue)"
  using assms by (simp add: iwl_mvm_init_reorder_buffer_def queue_inv_def buf_ok_def placed_def buf_frames_def sizes_ok_def
      concat_replicate_trivial)

text \<open>
  The events are what the driver does: delivering a frame of a session, and the release
  notifications, are one event of the queue of the session.
\<close>

definition frame_event :: "iwl_rx_mpdu_desc \<Rightarrow> sk_buff \<Rightarrow> mvm_event" where
  "frame_event desc skb =
     Mpdu skb (desc_sn desc) (desc_nssn desc)
       (has_flag (mac_flags2 desc) IWL_RX_MPDU_MFLG2_AMSDU \<and> \<not> has_flag (amsdu_info desc) IWL_RX_MPDU_AMSDU_LAST_SUBFRAME)
       (has_flag (reorder_data desc) IWL_RX_MPDU_REORDER_BA_OLD_SN)
       (has_flag (desc_status desc) IWL_RX_MPDU_STATUS_DUPLICATE)"

definition in_session :: "iwl_mvm \<Rightarrow> nat \<Rightarrow> iwl_rx_mpdu_desc \<Rightarrow> u8 list \<Rightarrow> iwl_mvm_baid_data \<Rightarrow> bool" where
  "in_session mvm sta desc hdr bd \<longleftrightarrow>
     \<not> family_9000 mvm \<and> desc_baid desc \<noteq> IWL_RX_REORDER_DATA_INVALID_BAID \<and> mvm_sta_of mvm (Some sta) \<noteq> None \<and>
     ieee80211_is_data_qos (frame_control hdr) \<and> ieee80211_is_data_present (frame_control hdr) \<and>
     \<not> is_multicast_ether_addr (addr1 hdr) \<and> desc_baid desc < length (baid_map mvm) \<and>
     baid_map mvm ! desc_baid desc = Some bd \<and> ieee80211_get_tid hdr = bd_tid bd \<and>
     iwl_mvm_sta_fw_id_mask (Some sta) AND bd_sta_mask bd \<noteq> 0"

lemma mvm_sta_of_put [simp]:
  assumes "mvm_sta_of mvm (Some i) \<noteq> None"
  shows "mvm_sta_of (put_buf baid queue buf (put_sta (Some i) s mvm)) (Some i) = s"
  using assms by (auto simp: mvm_sta_of_def put_buf_def put_sta_def split: option.splits if_splits)

lemma put_sta_put_buf [simp]:
  "put_sta (Some i) s' (put_buf baid queue buf (put_sta (Some i) s mvm)) = put_buf baid queue buf (put_sta (Some i) s' mvm)"
  by (simp add: put_buf_def put_sta_def split: option.split)

lemma rx_mpdu_deliver_event:
  assumes ses: "in_session mvm sta desc (skb_data skb) bd"
    and step: "mvm_step x queue (unat (bd_buf_size bd)) (frame_event desc skb) (mvm_sta_of mvm (Some sta), reorder_bufs bd ! queue) =
      (s', buf', outs)"
  shows "rx_mpdu_deliver x (\<lambda>_. False) queue (Some sta) desc skb mvm =
    Some (put_buf (desc_baid desc) queue buf' (put_sta (Some sta) s' mvm), outs)"
proof -
  obtain c s b o1 where r: "reorder_mpdu x queue (unat (bd_buf_size bd)) skb (desc_sn desc) (desc_nssn desc)
       (has_flag (mac_flags2 desc) IWL_RX_MPDU_MFLG2_AMSDU \<and> \<not> has_flag (amsdu_info desc) IWL_RX_MPDU_AMSDU_LAST_SUBFRAME)
       (has_flag (reorder_data desc) IWL_RX_MPDU_REORDER_BA_OLD_SN)
       (has_flag (desc_status desc) IWL_RX_MPDU_STATUS_DUPLICATE)
       (mvm_sta_of mvm (Some sta), reorder_bufs bd ! queue) = (c, s, b, o1)" by (metis prod_cases4)
  have re: "iwl_mvm_reorder x queue (Some sta) desc skb mvm = Some (c, put_buf (desc_baid desc) queue b (put_sta (Some sta) s mvm), o1)"
    using ses r by (auto simp: iwl_mvm_reorder_def in_session_def Let_def)
  have sta: "mvm_sta_of mvm (Some sta) \<noteq> None" "\<not> family_9000 (put_buf (desc_baid desc) queue b (put_sta (Some sta) s mvm))"
    using ses by (simp_all add: in_session_def put_buf_def put_sta_def split: option.split)
  show ?thesis
  proof (cases c)
    case True
    then show ?thesis using re step r by (simp add: rx_mpdu_deliver_def frame_event_def mvm_direct_def)
  next
    case False
    obtain out s2 where p: "iwl_mvm_pass_packet_to_mac80211 x queue s skb = (out, s2)" by (metis surj_pair)
    then have "s' = s2" "buf' = b" "outs = o1 @ [out]"
      using False step r by (auto simp: frame_event_def mvm_direct_def)
    then show ?thesis using False re p sta by (simp add: rx_mpdu_deliver_def)
  qed
qed

text \<open>C29: From the start of a session on, a receive queue hands frames on in the order of their
  sequence numbers, counted without wrap-around, as long as the firmware reports the window as
  stated: the queue's head is no more than a window behind it.  The parts of an A-MSDU share a
  number.\<close>

theorem mvm_delivers_in_order:
  assumes "sizes_ok (unat (bd_buf_size bd))" "unat n < 4096" "queue < rxqs"
    and "fw_run x queue (unat (bd_buf_size bd)) None (sta, reorder_bufs (iwl_mvm_init_reorder_buffer n rxqs bd) ! queue) evs"
  shows "sorted (mvm_numbers x queue (unat (bd_buf_size bd)) p
    (sta, reorder_bufs (iwl_mvm_init_reorder_buffer n rxqs bd) ! queue) evs)"
  using run_numbers [OF init_queue_inv [OF assms(1-3)] assms(4)] by simp

definition ex_mvm_events :: "mvm_event list" where
  "ex_mvm_events =
     [Mpdu (ex_mpdu 4094 False) 4094 4095 False False False, Mpdu (ex_mpdu 1 False) 1 4095 False False False,
      Mpdu (ex_mpdu 4095 False) 4095 0 True False False, Mpdu (ex_mpdu 4095 False) 4095 0 False False False,
      Mpdu (ex_mpdu 3 False) 3 0 False False False, Frame_release 4,
      Mpdu (ex_mpdu 2 False) 2 4 False True False]"

lemma ex_mvm_events_ok:
  "fw_run ex_extern 1 64 None (None, reorder_bufs (iwl_mvm_init_reorder_buffer 4094 2 ex_bd) ! 1) ex_mvm_events"
  by code_simp

lemma mvm_delivers_in_order_witness:
  "sorted (mvm_numbers ex_extern 1 64 0 (None, reorder_bufs (iwl_mvm_init_reorder_buffer 4094 2 ex_bd) ! 1) ex_mvm_events)"
  by (rule mvm_delivers_in_order [where bd = ex_bd, unfolded ex_bd_size, OF _ _ _ ex_mvm_events_ok]) (simp_all add: sizes_ok_def)

subsection \<open>A queue behind the firmware's window\<close>

text \<open>
  A queue that got no frames of the session for a while keeps its head.  A frame with a hole
  before it is then stored and at once released: the loop walks the buffer from the old head to
  the reported number and meets the frame's entry on the way.  Here the firmware has received
  everything before 100; the frame 105 is handed on before the frame 103, which the firmware does
  not report as old.
\<close>

definition ex_stale_events :: "mvm_event list" where
  "ex_stale_events = [Mpdu (ex_mpdu 105 False) 105 100 False False False, Mpdu (ex_mpdu 103 False) 103 100 False False False,
     Frame_release 106]"

theorem mvm_stale_head_out_of_order:
  "mvm_numbers ex_extern 1 64 0 (None, reorder_bufs (iwl_mvm_init_reorder_buffer 0 2 ex_bd) ! 1) ex_stale_events = [105, 103]"
  by code_simp

text \<open>With the queue's head where the firmware's window starts, the same frames come out in order.\<close>

theorem mvm_current_head_in_order:
  "mvm_numbers ex_extern 1 64 100 (None, reorder_bufs (iwl_mvm_init_reorder_buffer 100 2 ex_bd) ! 1) ex_stale_events = [103, 105]"
  by code_simp

subsection \<open>Packet numbers\<close>

text \<open>The frames the driver checks against the packet number of a key's TID, and a queue's number.\<close>

definition pn_frame :: "extern \<Rightarrow> nat \<Rightarrow> nat \<Rightarrow> sk_buff \<Rightarrow> bool" where
  "pn_frame x i t skb \<longleftrightarrow>
     (let hdr = skb_data skb; fc = frame_control hdr in
      ieee80211_is_data fc \<and> \<not> is_multicast_ether_addr (addr1 hdr) \<and> has_flag (rs_flag (skb_rx skb)) RX_FLAG_DECRYPTED \<and>
      \<not> has_flag (rs_flag (skb_rx skb)) RX_FLAG_ALLOW_SAME_PN \<and> unat (drop_bit 6 (drop (x_hdrlen x fc) hdr ! 3)) = i \<and>
      (if ieee80211_is_data_qos fc then unat (ieee80211_get_tid hdr) else 0) = t)"

definition skb_pn :: "extern \<Rightarrow> sk_buff \<Rightarrow> nat" where
  "skb_pn x skb =
     (let extiv = drop (x_hdrlen x (frame_control (skb_data skb))) (skb_data skb) in
      be_nat [extiv ! 7, extiv ! 6, extiv ! 5, extiv ! 4, extiv ! 1, extiv ! 0])"

definition pn_slot_ok :: "nat \<Rightarrow> nat \<Rightarrow> nat \<Rightarrow> iwl_mvm_sta option \<Rightarrow> bool" where
  "pn_slot_ok queue i t sta \<longleftrightarrow>
     (case sta of None \<Rightarrow> False
      | Some s \<Rightarrow> i < length (ptk_pn s) \<and>
          (case ptk_pn s ! i of None \<Rightarrow> False
           | Some pns \<Rightarrow> queue < length pns \<and> t < length (pns ! queue) \<and> length (pns ! queue ! t) = 6))"

definition slot_number :: "nat \<Rightarrow> nat \<Rightarrow> nat \<Rightarrow> iwl_mvm_sta option \<Rightarrow> nat" where
  "slot_number queue i t sta = be_nat (the (ptk_pn (the sta) ! i) ! queue ! t)"

definition pn_recv :: "extern \<Rightarrow> nat \<Rightarrow> nat \<Rightarrow> nat \<Rightarrow> iwl_mvm_sta option \<Rightarrow> sk_buff \<Rightarrow> bool \<times> iwl_mvm_sta option" where
  "pn_recv x queue i t sta skb =
     (case iwl_mvm_pass_packet_to_mac80211 x queue sta skb of
        (out, sta') \<Rightarrow> ((case out of To_mac80211 _ \<Rightarrow> pn_frame x i t skb | _ \<Rightarrow> False), sta'))"

lemma check_pn_slot:
  assumes ok: "pn_slot_ok (Suc q) i t sta" and c: "iwl_mvm_check_pn x (Suc q) sta skb = (r, sta', skb')"
  shows "pn_slot_ok (Suc q) i t sta' \<and> slot_number (Suc q) i t sta \<le> slot_number (Suc q) i t sta' \<and>
    (r = 0 \<and> pn_frame x i t skb \<longrightarrow>
       slot_number (Suc q) i t sta < skb_pn x skb \<and> slot_number (Suc q) i t sta' = skb_pn x skb)"
proof -
  define hdr where "hdr = skb_data skb"
  define fc where "fc = frame_control hdr"
  define j where "j = unat (drop_bit 6 (drop (x_hdrlen x fc) hdr ! 3))"
  define u where "u = (if ieee80211_is_data_qos fc then unat (ieee80211_get_tid hdr) else 0)"
  define pn where "pn = (let extiv = drop (x_hdrlen x fc) hdr in [extiv ! 7, extiv ! 6, extiv ! 5, extiv ! 4, extiv ! 1, extiv ! 0])"
  have skb_pn: "skb_pn x skb = be_nat pn" and six: "length pn = 6" by (simp_all add: skb_pn_def pn_def hdr_def fc_def Let_def)
  obtain s where sta: "sta = Some s" using ok by (auto simp: pn_slot_ok_def split: option.splits)
  note frame = pn_frame_def [of x i t skb, unfolded Let_def, folded hdr_def, folded fc_def, folded j_def u_def]
  have "sta' = sta \<and> \<not> (r = 0 \<and> pn_frame x i t skb) \<or>
    (\<exists>pns. ptk_pn s ! j = Some pns \<and> (0 \<le> memcmp pn (pns ! Suc q ! u)) \<and>
        (memcmp pn (pns ! Suc q ! u) = 0 \<longrightarrow> \<not> pn_frame x i t skb) \<and>
        sta' = Some (s\<lparr>ptk_pn := (ptk_pn s)[j := Some (pns[Suc q := (pns ! Suc q)[u := pn]])]\<rparr>))"
    using c [unfolded iwl_mvm_check_pn_def Let_def, folded hdr_def, folded fc_def, folded j_def u_def, folded pn_def [unfolded Let_def]]
    unfolding frame sta by (auto split: if_splits option.splits)
  then show ?thesis
  proof
    assume "sta' = sta \<and> \<not> (r = 0 \<and> pn_frame x i t skb)"
    then show ?thesis using ok by auto
  next
    assume "\<exists>pns. ptk_pn s ! j = Some pns \<and> (0 \<le> memcmp pn (pns ! Suc q ! u)) \<and>
        (memcmp pn (pns ! Suc q ! u) = 0 \<longrightarrow> \<not> pn_frame x i t skb) \<and>
        sta' = Some (s\<lparr>ptk_pn := (ptk_pn s)[j := Some (pns[Suc q := (pns ! Suc q)[u := pn]])]\<rparr>)"
    then obtain pns where pns: "ptk_pn s ! j = Some pns" "0 \<le> memcmp pn (pns ! Suc q ! u)"
      "memcmp pn (pns ! Suc q ! u) = 0 \<longrightarrow> \<not> pn_frame x i t skb"
      "sta' = Some (s\<lparr>ptk_pn := (ptk_pn s)[j := Some (pns[Suc q := (pns ! Suc q)[u := pn]])]\<rparr>)" by blast
    obtain kp where kp: "i < length (ptk_pn s)" "ptk_pn s ! i = Some kp" "Suc q < length kp" "t < length (kp ! Suc q)"
      "length (kp ! Suc q ! t) = 6" using ok sta by (auto simp: pn_slot_ok_def split: option.splits)
    show ?thesis
    proof (cases "j = i \<and> u = t")
      case True
      then have eq: "pns = kp" using pns(1) kp(2) by simp
      have cmp: "memcmp pn (kp ! Suc q ! t) < 0 \<longleftrightarrow> be_nat pn < be_nat (kp ! Suc q ! t)"
        "memcmp pn (kp ! Suc q ! t) = 0 \<longleftrightarrow> be_nat pn = be_nat (kp ! Suc q ! t)"
        using kp(5) six by (simp_all add: memcmp_neg_iff memcmp_zero_iff)
      have "slot_number (Suc q) i t sta' = be_nat pn" "slot_number (Suc q) i t sta = be_nat (kp ! Suc q ! t)"
        using True kp pns(4) sta by (simp_all add: slot_number_def eq)
      moreover have "pn_slot_ok (Suc q) i t sta'" using True kp pns(4) six by (simp add: pn_slot_ok_def eq)
      ultimately show ?thesis using cmp pns(2,3) True skb_pn by (auto simp: eq)
    next
      case False
      then have "\<not> pn_frame x i t skb" using frame by auto
      moreover have "slot_number (Suc q) i t sta' = slot_number (Suc q) i t sta" "pn_slot_ok (Suc q) i t sta'"
        using False kp pns(1,4) sta
        by (cases "j = i"; simp add: slot_number_def pn_slot_ok_def)+
      ultimately show ?thesis by simp
    qed
  qed
qed

lemma pn_recv_step:
  assumes "pn_slot_ok (Suc q) i t sta" "pn_recv x (Suc q) i t sta skb = (b, sta')"
  shows "pn_slot_ok (Suc q) i t sta'" "slot_number (Suc q) i t sta \<le> slot_number (Suc q) i t sta'"
    "b \<Longrightarrow> slot_number (Suc q) i t sta < skb_pn x skb \<and> slot_number (Suc q) i t sta' = skb_pn x skb"
proof -
  obtain r s skb' where c: "iwl_mvm_check_pn x (Suc q) sta skb = (r, s, skb')" by (metis prod_cases3)
  then have "s = sta'" "b \<Longrightarrow> r = 0 \<and> pn_frame x i t skb"
    using assms(2) by (auto simp: pn_recv_def iwl_mvm_pass_packet_to_mac80211_def split: if_splits)
  then show "pn_slot_ok (Suc q) i t sta'" "slot_number (Suc q) i t sta \<le> slot_number (Suc q) i t sta'"
    "b \<Longrightarrow> slot_number (Suc q) i t sta < skb_pn x skb \<and> slot_number (Suc q) i t sta' = skb_pn x skb"
    using check_pn_slot [OF assms(1) c] by auto
qed

interpretation mvm_pn: replay_window "pn_recv x (Suc q) i t" "slot_number (Suc q) i t" "skb_pn x" "pn_slot_ok (Suc q) i t" "\<lambda>_. True"
  for x q i t
  by unfold_locales (auto dest: pn_recv_step)

text \<open>C30: Replay protection of a receive queue other than the first: whatever frames the queue
  hands on, the decrypted unicast data frames of one key and TID that reach \<^verbatim>\<open>mac80211\<close> as valid have
  strictly increasing packet numbers, beyond the stored one.  Frames marked as parts of the same
  A-MSDU are the exception the code makes.\<close>

theorem mvm_pn_increasing:
  assumes "pn_slot_ok (Suc q) i t sta"
  shows "sorted_wrt (<) (map (skb_pn x) (fst (accept_run (pn_recv x (Suc q) i t) sta skbs))) \<and>
    (\<forall>skb\<in>set (fst (accept_run (pn_recv x (Suc q) i t) sta skbs)). slot_number (Suc q) i t sta < skb_pn x skb)"
  using mvm_pn.accepted_increasing [OF assms] by simp_all

text \<open>Three frames, of which the last replays the first.\<close>

definition ex_pn_frame :: "u8 \<Rightarrow> sk_buff" where
  "ex_pn_frame n =
     (ex_skb ([0x08, 0x41, 0, 0] @ [2,0,0,0,0,1] @ [2,0,0,0,0,2] @ [2,0,0,0,0,3] @ [0x10, 0] @ [n, 0, 0, 0x20, 0, 0, 0, 0]))
       \<lparr>skb_rx := \<lparr>rs_flag = RX_FLAG_DECRYPTED, rs_rx_flags = 0\<rparr>\<rparr>"

lemma ex_pn_accepted:
  "map skb_data (fst (accept_run (pn_recv ex_extern 1 0 0) (Some ex_mvm_sta) (map ex_pn_frame [4, 7, 4]))) =
     map skb_data (map ex_pn_frame [4, 7])"
  by code_simp

lemma ex_mvm_sta_slot: "pn_slot_ok (Suc 0) 0 0 (Some ex_mvm_sta)"
  by (simp add: pn_slot_ok_def ex_mvm_sta_def)

lemma mvm_pn_increasing_witness:
  "sorted_wrt (<) (map (skb_pn ex_extern) (fst (accept_run (pn_recv ex_extern 1 0 0) (Some ex_mvm_sta) (map ex_pn_frame [4, 7, 4]))))"
  unfolding One_nat_def using mvm_pn_increasing [OF ex_mvm_sta_slot] by blast

end
