(* ===== verification/Parse_Spec.thy ===== *)
theory Parse_Spec
  imports Parse_Wf
begin

text \<open>
  What the element parser finds: for every field that one kind of element fills, the first element of
  that kind that has the right size, taken from the profile of the requested BSS or link if it has one
  there and from the inherited elements of the frame otherwise; which errors are flagged; what the mode
  and the checksum filter do; and where the code deviates from what it is meant to do.
\<close>

subsection \<open>The reference\<close>

datatype elem_outcome = Stored | Ignored | Refused

text \<open>
  The fields filled by one kind of element that is parsed once.  The operating mode notification, ADDBA
  extension, mesh awake window and HE capability elements fill one field each too, but they are not in the
  parser's list of elements that are parsed once, so the last one of them wins; they are left out.
\<close>

definition single_fields :: "elem_field list" where
  "single_fields =
     [F_lnk_id, F_ch_sw_timing, F_ext_capab, F_ssid, F_supp_rates, F_ds_params, F_tim, F_rsn, F_rsnx, F_erp_info, F_ext_supp_rates,
      F_ht_cap_elem, F_ht_operation, F_vht_cap_elem, F_vht_operation, F_mesh_config, F_mesh_id, F_peering, F_preq, F_prep, F_perr,
      F_rann, F_ch_switch_ie, F_ext_chansw_ie, F_country_elem, F_pwr_constr_elem, F_timeout_int, F_sec_chan_offs,
      F_mesh_chansw_params_ie, F_max_idle_period_ie, F_s1g_capab, F_s1g_oper, F_s1g_bcn_compat, F_aid_resp]"

definition field_octets :: "elem_field \<Rightarrow> element \<Rightarrow> u8 list" where
  "field_octets f e = (if f = F_lnk_id then elem_bytes e else elem_data e)"

definition exact_size :: "elem_field \<Rightarrow> bool" where
  "exact_size f \<longleftrightarrow> f \<in> {F_ch_switch_ie, F_ext_chansw_ie, F_sec_chan_offs, F_pwr_constr_elem, F_s1g_oper, F_s1g_bcn_compat, F_aid_resp}"

text \<open>
  An element outside the modes of its field is ignored; one of the wrong size is refused, and then one
  of the same kind may follow.  A short BSS max idle period element is ignored instead.
\<close>

definition field_outcome :: "conn_mode \<Rightarrow> elem_field \<Rightarrow> element \<Rightarrow> elem_outcome" where
  "field_outcome m f e =
     (let n = length (field_octets f e)
      in if \<not> field_in_mode f m then Ignored
         else if (if exact_size f then n = field_min f else field_min f \<le> n) then Stored
         else if f = F_max_idle_period_ie then Ignored
         else Refused)"

definition decides :: "conn_mode \<Rightarrow> elem_field \<Rightarrow> element \<Rightarrow> bool" where
  "decides m f e \<longleftrightarrow> elem_id e = field_id f \<and> field_outcome m f e \<noteq> Refused"

definition first_elem :: "cfg80211_ops \<Rightarrow> elems_parse_params \<Rightarrow> element option \<Rightarrow> elem_field \<Rightarrow> u8 list option" where
  "first_elem ops params ni f =
     (case find (\<lambda>e. \<not> not_inherited ops ni e \<and> decides (p_mode params) f e) (elements (p_start params)) of
        None \<Rightarrow> None
      | Some e \<Rightarrow> if field_outcome (p_mode params) f e = Stored then Some (field_octets f e) else None)"

subsection \<open>One element\<close>

lemma write_other_field: "elem_write i m s t \<Longrightarrow> \<not> may_write i m f \<Longrightarrow> elem_ptr t f = elem_ptr s f"
  by (induction rule: elem_write.induct) (auto simp: store_def store_len_def flag_error_def)

lemma writes_other_field: "elem_writes i m s t \<Longrightarrow> \<not> may_write i m f \<Longrightarrow> elem_ptr t f = elem_ptr s f"
  by (induction rule: rtranclp_induct) (auto dest: write_other_field)

lemma single_fields_written: "f \<in> set single_fields \<Longrightarrow> may_write i m f \<Longrightarrow> field_id f = i"
  by (auto simp: single_fields_def may_write_def)

lemma single_fields_ids: "f \<in> set single_fields \<Longrightarrow> field_id f \<in> set single_elem_ids"
  by (auto simp: single_fields_def single_elem_ids_def)

lemma switch_other: "f \<in> set single_fields \<Longrightarrow> elem_id e \<noteq> field_id f \<Longrightarrow>
    elem_ptr (fst (parse_elem_switch ops params e s crc)) f = elem_ptr s f"
  by (rule writes_other_field[OF writes_switch]) (auto dest: single_fields_written)

lemma switch_single:
  assumes "f \<in> set single_fields" "elem_id e = field_id f"
  shows "elem_ptr (fst (parse_elem_switch ops params e s crc)) f =
      (if field_outcome (p_mode params) f e = Stored then Some (field_octets f e) else elem_ptr s f) \<and>
    (snd (snd (parse_elem_switch ops params e s crc)) \<noteq> 0 \<longleftrightarrow> field_outcome (p_mode params) f e = Refused)"
  using assms unfolding single_fields_def
  by (simp only: list.set insert_iff empty_iff, elim disjE)
    (auto simp: parse_elem_switch_def Let_def store_def store_len_def field_outcome_def field_octets_def exact_size_def elem_bytes_def
      not_less not_le)

subsection \<open>One pass\<close>

lemma ptr_flag_error [simp]: "elem_ptr (flag_error err s) = elem_ptr s"
  by (simp add: flag_error_def)

text \<open>The round of an element that does not decide a field, and of one that does.\<close>

lemma parse_elem_other:
  assumes "f \<in> set single_fields" "parse_elem ops params ni e (s, seen, crc) = (t, seen', crc')"
    "not_inherited ops ni e \<or> \<not> decides (p_mode params) f e"
  shows "elem_ptr t f = elem_ptr s f \<and> (field_id f \<in> seen' \<longleftrightarrow> field_id f \<in> seen)"
proof (cases "elem_id e = field_id f")
  case True
  then have "not_inherited ops ni e \<or> field_outcome (p_mode params) f e = Refused" using assms(3) by (auto simp: decides_def)
  then show ?thesis
    using assms(2) switch_single[OF assms(1) True, of ops params s] by (auto simp: parse_elem_def Let_def split_def split: if_splits)
next
  case False
  then show ?thesis
    using assms(2) switch_other[OF assms(1) False, of ops params s] by (auto simp: parse_elem_def Let_def split_def split: if_splits)
qed

lemma parse_elem_decides:
  assumes "f \<in> set single_fields" "parse_elem ops params ni e (s, seen, crc) = (t, seen', crc')"
    "\<not> not_inherited ops ni e" "decides (p_mode params) f e"
  shows "field_id f \<in> seen' \<and>
    elem_ptr t f = (if field_id f \<in> seen \<or> field_outcome (p_mode params) f e \<noteq> Stored then elem_ptr s f else Some (field_octets f e))"
proof -
  have i: "elem_id e = field_id f" and r: "field_outcome (p_mode params) f e \<noteq> Refused"
    using assms(4) by (auto simp: decides_def)
  show ?thesis
    using assms(2,3) i r single_fields_ids[OF assms(1)] switch_single[OF assms(1) i, of ops params s]
    by (auto simp: parse_elem_def Let_def split_def split: if_splits)
qed

lemma parse_loop_seen:
  assumes "f \<in> set single_fields" "field_id f \<in> seen" "parse_loop ops params ni es (s, seen, crc) = (t, seen', crc')"
  shows "elem_ptr t f = elem_ptr s f"
  using assms(2,3)
proof (induction es arbitrary: s seen crc)
  case (Cons e es)
  obtain u useen ucrc where u: "parse_elem ops params ni e (s, seen, crc) = (u, useen, ucrc)"
    by (metis prod.collapse)
  then have "elem_ptr u f = elem_ptr s f \<and> field_id f \<in> useen"
    using parse_elem_other[OF assms(1) u] parse_elem_decides[OF assms(1) u] Cons.prems(1) by auto
  then show ?case using Cons.IH[of useen u ucrc] Cons.prems(2) u by (simp add: parse_loop_def)
qed (simp add: parse_loop_def)

lemma parse_loop_first:
  assumes "f \<in> set single_fields" "field_id f \<notin> seen" "parse_loop ops params ni es (s, seen, crc) = (t, seen', crc')"
  shows "elem_ptr t f =
    (case find (\<lambda>e. \<not> not_inherited ops ni e \<and> decides (p_mode params) f e) es of
       None \<Rightarrow> elem_ptr s f
     | Some e \<Rightarrow> if field_outcome (p_mode params) f e = Stored then Some (field_octets f e) else elem_ptr s f)"
  using assms(2,3)
proof (induction es arbitrary: s seen crc)
  case (Cons e es)
  obtain u useen ucrc where u: "parse_elem ops params ni e (s, seen, crc) = (u, useen, ucrc)"
    by (metis prod.collapse)
  have loop: "parse_loop ops params ni es (u, useen, ucrc) = (t, seen', crc')"
    using Cons.prems(2) u by (simp add: parse_loop_def)
  show ?case
  proof (cases "not_inherited ops ni e \<or> \<not> decides (p_mode params) f e")
    case True
    from parse_elem_other[OF assms(1) u True] show ?thesis
      using Cons.IH[OF _ loop] Cons.prems(1) True by (auto split: option.split)
  next
    case False
    then have "field_id f \<in> useen" "elem_ptr u f =
        (if field_outcome (p_mode params) f e \<noteq> Stored then elem_ptr s f else Some (field_octets f e))"
      using parse_elem_decides[OF assms(1) u] Cons.prems(1) by auto
    then show ?thesis using parse_loop_seen[OF assms(1) _ loop] False by simp
  qed
qed (simp add: parse_loop_def)

lemma parse_pass_first:
  assumes "f \<in> set single_fields"
  shows "elem_ptr (fst (parse_elems_pass ops params ni s)) f =
    (case first_elem ops params ni f of None \<Rightarrow> elem_ptr s f | Some d \<Rightarrow> Some d)"
proof -
  obtain t seen' crc' where t: "parse_loop ops params ni (elements (p_start params)) (s, {}, p_crc params) = (t, seen', crc')"
    by (metis prod.collapse)
  show ?thesis
    using parse_loop_first[OF assms _ t] t by (simp add: parse_elems_pass_def first_elem_def split: option.split)
qed

subsection \<open>The whole parser\<close>

lemma ptr_store [simp]: "f \<noteq> g \<Longrightarrow> elem_ptr (store g d s) f = elem_ptr s f" "f \<noteq> g \<Longrightarrow> elem_ptr (store_len g d s) f = elem_ptr s f"
    "f \<noteq> g \<Longrightarrow> elem_ptr (store_scratch g d s) f = elem_ptr s f"
  by (simp_all add: store_def store_len_def store_scratch_def)

lemma single_not_profile: "f \<in> set single_fields \<Longrightarrow> f \<notin> {F_ml_basic, F_ml_reconf, F_ml_epcs, F_prof, F_bssid_index}"
  by (auto simp: single_fields_def)

lemma sta_prof_loop_ptr: "f \<noteq> F_prof \<Longrightarrow> elem_ptr (sta_prof_loop ops l ml subs s) f = elem_ptr s f"
  by (induction subs) (auto simp: Let_def split: option.split)

lemma profile_ptr:
  assumes "f \<in> set single_fields"
  shows "elem_ptr (fst (parse_profile ops params s)) f = elem_ptr s f"
  using single_not_profile[OF assms]
  by (auto simp: parse_profile_def ieee802_11_find_bssid_profile_def ieee80211_prep_mle_link_parse_def ieee80211_mle_get_sta_prof_def
      sta_prof_loop_ptr Let_def split_def split: option.split)

lemma finish_ptr:
  assumes "f \<in> set single_fields"
  shows "elem_ptr (dtim_from_bssid_index (dtim_from_tim (ieee80211_mle_defrag_epcs ops (ieee80211_mle_defrag_reconf ops s)))) f = elem_ptr s f"
  using single_not_profile[OF assms]
  by (auto simp: dtim_from_bssid_index_def dtim_from_tim_def ieee80211_mle_defrag_epcs_def ieee80211_mle_defrag_reconf_def Let_def
      split: option.split)

text \<open>C18: Each of the fields \<open>single_fields\<close> lists holds the first element of its kind that decides it: the
  one in the profile of the requested BSS or link if there is one, and otherwise the first in the frame that the
  profile inherits.  Later ones never replace it.  An element decides if it has an acceptable size; a BSS max idle
  period element decides whatever its size, and one that is too short stands for none, in the profile or the frame
  it is in, although a good one may follow there.  The list has
  no fields that several kinds of elements fill, and none of which a later element replaces an earlier one,
  as it does for the operating mode notification, the ADDBA extension, the mesh awake window and the HE capability.\<close>

theorem parsed_field_is_first:
  assumes "ieee802_11_parse_elems_full ops oom params = Some s" "f \<in> set single_fields"
    "parse_profile ops params (parse_init params) = (s0, sub, ni, inner)"
  shows "elem_ptr s f = (case first_elem ops sub None f of Some d \<Rightarrow> Some d | None \<Rightarrow> first_elem ops params ni f)"
proof -
  have s0: "elem_ptr s0 f = None"
    using profile_ptr[OF assms(2), of ops params "parse_init params"] assms(3) by (simp add: parse_init_def)
  have "first_elem ops sub None f = None" if "p_start sub = []" using that by (simp add: first_elem_def)
  then have "elem_ptr (parse_passes ops params (s0, sub, ni, inner)) f =
      (case first_elem ops sub None f of Some d \<Rightarrow> Some d | None \<Rightarrow> first_elem ops params ni f)"
    by (simp add: parse_passes_def Let_def split_def parse_pass_first[OF assms(2)] s0 split: option.split)
  then show ?thesis
    using assms(1,3) by (auto simp: ieee802_11_parse_elems_full_def finish_ptr[OF assms(2)] split: if_splits)
qed

definition ex_dup_frame :: "u8 list" where
  "ex_dup_frame = [3, 0, 3, 1, 6, 0, 2, 0x61, 0x62, 3, 1, 11, 0, 1, 0x63]"

definition ex_dup_params :: elems_parse_params where
  "ex_dup_params = zero_params\<lparr> p_mode := CONN_MODE_UHR, p_start := ex_dup_frame, p_type := FRAME_BEACON, p_link_id := - 1 \<rparr>"

lemma ex_dup_profile:
  "case parse_profile ex_ops ex_dup_params (parse_init ex_dup_params) of
     (s0, sub, ni, inner) \<Rightarrow> p_start sub = [] \<and> ni = None"
  "ieee802_11_parse_elems_full ex_ops False ex_dup_params \<noteq> None"
  by code_simp+

lemma ex_dup_first: "first_elem ex_ops ex_dup_params None F_ds_params = Some [6]"
  by code_simp

theorem parsed_field_is_first_witness:
  "map_option (\<lambda>s. elem_ptr s F_ds_params) (ieee802_11_parse_elems_full ex_ops False ex_dup_params) = Some (Some [6])"
proof -
  obtain s0 sub ni inner where p: "parse_profile ex_ops ex_dup_params (parse_init ex_dup_params) = (s0, sub, ni, inner)"
    by (metis prod.collapse)
  then have e: "p_start sub = []" "ni = None" using ex_dup_profile(1) by simp_all
  obtain s where s: "ieee802_11_parse_elems_full ex_ops False ex_dup_params = Some s" using ex_dup_profile(2) by blast
  have "F_ds_params \<in> set single_fields" by (simp add: single_fields_def)
  from parsed_field_is_first[OF s this p] show ?thesis
    using ex_dup_first e s by (simp add: first_elem_def[of _ sub])
qed

end
