(* ===== verification/Parse_Errors.thy ===== *)
theory Parse_Errors
  imports Parse_Spec
begin

text \<open>
  The errors the element parser flags, the modes it heeds, and the checksum over the elements of a
  beacon, by which the station decides whether a beacon has changed.
\<close>

subsection \<open>What is wrong with an element\<close>

text \<open>
  The number of octets the structures of the elements have: the least, and the greatest where the
  element has a fixed size.  An element that is not listed may have any size as far as the flags
  are concerned.
\<close>

definition elem_sizes :: "(u8 \<times> nat \<times> nat option) list" where
  "elem_sizes =
     [(WLAN_EID_LINK_ID, 18, None), (WLAN_EID_CHAN_SWITCH_TIMING, 4, None), (WLAN_EID_DS_PARAMS, 1, None),
      (WLAN_EID_TIM, 4, None), (WLAN_EID_ERP_INFO, 1, None), (WLAN_EID_HT_CAPABILITY, 26, None),
      (WLAN_EID_HT_OPERATION, 22, None), (WLAN_EID_VHT_CAPABILITY, 12, None), (WLAN_EID_VHT_OPERATION, 5, None),
      (WLAN_EID_OPMODE_NOTIF, 1, None), (WLAN_EID_MESH_CONFIG, 7, None), (WLAN_EID_RANN, 21, None),
      (WLAN_EID_CHANNEL_SWITCH, 3, Some 3), (WLAN_EID_EXT_CHANSWITCH_ANN, 4, Some 4),
      (WLAN_EID_SECONDARY_CHANNEL_OFFSET, 1, Some 1), (WLAN_EID_CHAN_SWITCH_PARAM, 6, None),
      (WLAN_EID_WIDE_BW_CHANNEL_SWITCH, 3, None), (WLAN_EID_PWR_CONSTRAINT, 1, Some 1),
      (WLAN_EID_ADDBA_EXT_IE, 1, None), (WLAN_EID_TIMEOUT_INTERVAL, 5, None), (WLAN_EID_S1G_CAPABILITIES, 15, None),
      (WLAN_EID_S1G_OPERATION, 6, Some 6), (WLAN_EID_S1G_BCN_COMPAT, 8, Some 8), (WLAN_EID_AID_RESPONSE, 5, Some 5)]"

definition size_fits :: "u8 \<Rightarrow> nat \<Rightarrow> bool" where
  "size_fits eid n \<longleftrightarrow> (case map_of elem_sizes eid of
     None \<Rightarrow> True
   | Some (least, greatest) \<Rightarrow> least \<le> n \<and> (case greatest of None \<Rightarrow> True | Some g \<Rightarrow> n \<le> g))"

text \<open>The elements of a generation count only in a mode that has it.\<close>

definition heeded :: "u8 \<Rightarrow> conn_mode \<Rightarrow> bool" where
  "heeded eid m \<longleftrightarrow>
     (eid \<in> {WLAN_EID_HT_CAPABILITY, WLAN_EID_HT_OPERATION, WLAN_EID_SECONDARY_CHANNEL_OFFSET} \<longrightarrow> CONN_MODE_HT \<le> m) \<and>
     (eid \<in> {WLAN_EID_VHT_CAPABILITY, WLAN_EID_VHT_OPERATION, WLAN_EID_OPMODE_NOTIF, WLAN_EID_WIDE_BW_CHANNEL_SWITCH,
             WLAN_EID_CHANNEL_SWITCH_WRAPPER} \<longrightarrow> CONN_MODE_VHT \<le> m) \<and>
     (eid \<in> {WLAN_EID_S1G_CAPABILITIES, WLAN_EID_S1G_OPERATION, WLAN_EID_S1G_BCN_COMPAT, WLAN_EID_AID_RESPONSE} \<longrightarrow>
        m = CONN_MODE_S1G)"

text \<open>The channel switch wrapper holds elements of its own: a wide bandwidth one and, from EHT on, a bandwidth indication.\<close>

definition wrapper_fits :: "cfg80211_ops \<Rightarrow> conn_mode \<Rightarrow> u8 list \<Rightarrow> bool" where
  "wrapper_fits ops m d \<longleftrightarrow>
     (case cfg80211_find_elem ops WLAN_EID_WIDE_BW_CHANNEL_SWITCH d of None \<Rightarrow> True | Some sub \<Rightarrow> 3 \<le> length (elem_data sub)) \<and>
     (CONN_MODE_EHT \<le> m \<longrightarrow>
        (case cfg80211_find_ext_elem ops WLAN_EID_EXT_BANDWIDTH_INDICATION d of
           None \<Rightarrow> True | Some sub \<Rightarrow> ieee80211_bandwidth_indication_size_ok (drop 1 (elem_data sub))))"

text \<open>
  A wide bandwidth channel switch belongs into action frames, a channel switch wrapper into other ones;
  apart from that an element that counts has to have its size.
\<close>

definition elem_failure :: "cfg80211_ops \<Rightarrow> elems_parse_params \<Rightarrow> element \<Rightarrow> u8" where
  "elem_failure ops params e =
     (let eid = elem_id e; action = (p_type params = FRAME_ACTION)
      in if \<not> heeded eid (p_mode params) then 0
         else if (if action then eid = WLAN_EID_CHANNEL_SWITCH_WRAPPER else eid = WLAN_EID_WIDE_BW_CHANNEL_SWITCH)
         then PARSE_ERR_UNEXPECTED_ELEM
         else if size_fits eid (length (elem_data e)) \<and>
                 (eid = WLAN_EID_CHANNEL_SWITCH_WRAPPER \<longrightarrow> wrapper_fits ops (p_mode params) (elem_data e))
         then 0 else PARSE_ERR_BAD_ELEM_SIZE)"

lemma wrapper_failure:
  "snd (parse_channel_switch_wrapper ops params d s) = (if wrapper_fits ops (p_mode params) d then 0 else PARSE_ERR_BAD_ELEM_SIZE)"
  by (auto simp: parse_channel_switch_wrapper_def wrapper_fits_def Let_def split_def not_less split: option.split)

text \<open>The switch fails as it should, whatever was parsed before.\<close>

lemma switch_failure: "snd (snd (parse_elem_switch ops params e s crc)) = elem_failure ops params e"
proof (cases "elem_id e \<in> set (WLAN_EID_CHANNEL_SWITCH_WRAPPER # map fst elem_sizes)")
  case True
  have le: "(m < n) = (\<not> n \<le> m)" for m n :: conn_mode by (simp add: not_le)
  show ?thesis
    using True unfolding elem_sizes_def list.map fst_conv list.set insert_iff
    by (elim disjE)
      (simp_all add: parse_elem_switch_def elem_failure_def heeded_def size_fits_def elem_sizes_def Let_def split_def wrapper_failure le,
       auto simp: Suc_le_eq split: if_splits)
next
  case False
  have "snd (snd (parse_elem_switch ops params e s crc)) = 0"
    using False unfolding parse_elem_switch_def Let_def split_def elem_sizes_def
    by (simp add: if_distrib[of snd] cong: if_cong)
  moreover have "size_fits (elem_id e) n" for n
  proof -
    have "map_of elem_sizes (elem_id e) = None" using False unfolding map_of_eq_None_iff by simp
    then show ?thesis by (simp add: size_fits_def)
  qed
  moreover have "elem_id e \<noteq> WLAN_EID_WIDE_BW_CHANNEL_SWITCH" "elem_id e \<noteq> WLAN_EID_CHANNEL_SWITCH_WRAPPER"
    using False by (auto simp: elem_sizes_def)
  ultimately show ?thesis by (simp add: elem_failure_def Let_def)
qed

lemma failure_bits: "elem_failure ops params e \<in> {0, PARSE_ERR_BAD_ELEM_SIZE, PARSE_ERR_UNEXPECTED_ELEM}"
  by (simp add: elem_failure_def Let_def)

subsection \<open>Error flags\<close>

text \<open>
  What an element adds to the error flags after the elements \<open>p\<close>, when elements with the identifiers
  \<open>seen\<close> were there before.
\<close>

definition element_error :: "cfg80211_ops \<Rightarrow> elems_parse_params \<Rightarrow> u8 set \<Rightarrow> element list \<Rightarrow> element \<Rightarrow> u8" where
  "element_error ops params seen p e =
     (if elem_id e \<in> set single_elem_ids \<and>
         (elem_id e \<in> seen \<or> (\<exists>e' \<in> set p. elem_id e' = elem_id e \<and> elem_failure ops params e' = 0))
      then PARSE_ERR_DUP_ELEM else elem_failure ops params e)"

lemma write_error: "elem_write i m s t \<Longrightarrow> n \<noteq> 4 \<Longrightarrow> bit (parse_error t) n = bit (parse_error s) n"
proof (induction rule: elem_write.induct)
  case (nested s)
  have "bit (0x10 :: u8) n \<longleftrightarrow> n = 4"
    using bit_push_bit_iff[of 4 "1 :: u8" n] by (auto simp: push_bit_eq_mult bit_1_iff possible_bit_def dest: bit_imp_le_length)
  with nested show ?case by (auto simp: flag_error_def bit_or_iff)
qed (simp_all add: store_def store_len_def)

lemma writes_error: "elem_writes i m s t \<Longrightarrow> n \<noteq> 4 \<Longrightarrow> bit (parse_error t) n = bit (parse_error s) n"
  by (induction rule: rtranclp_induct) (auto simp: write_error)

lemma bit_flag_error: "bit (parse_error (flag_error err s)) n \<longleftrightarrow> bit (parse_error s) n \<or> bit err n"
  by (simp add: flag_error_def bit_or_iff)

lemma parse_elem_error:
  assumes "parse_elem ops params ni e (s, seen, crc) = (t, seen', crc')" "n \<noteq> 4" "\<not> not_inherited ops ni e"
  shows "bit (parse_error t) n \<longleftrightarrow> bit (parse_error s) n \<or> bit (element_error ops params seen [] e) n"
    and "seen' = (if elem_failure ops params e = 0 then insert (elem_id e) seen else seen)"
proof -
  have w: "bit (parse_error (fst (parse_elem_switch ops params e s c))) n = bit (parse_error s) n" for c
    using writes_error[OF writes_switch assms(2)] .
  show "bit (parse_error t) n \<longleftrightarrow> bit (parse_error s) n \<or> bit (element_error ops params seen [] e) n"
    using assms by (auto simp: parse_elem_def Let_def split_def switch_failure w bit_flag_error element_error_def split: if_splits)
  show "seen' = (if elem_failure ops params e = 0 then insert (elem_id e) seen else seen)"
    using assms by (auto simp: parse_elem_def Let_def split_def switch_failure split: if_splits)
qed

lemma element_error_cons:
  "element_error ops params seen (e' # p) e =
   element_error ops params (if elem_failure ops params e' = 0 then insert (elem_id e') seen else seen) p e"
  by (auto simp: element_error_def)

definition errors_at :: "cfg80211_ops \<Rightarrow> elems_parse_params \<Rightarrow> u8 set \<Rightarrow> element list \<Rightarrow> nat \<Rightarrow> bool" where
  "errors_at ops params seen es n \<longleftrightarrow> (\<exists>p e q. es = p @ e # q \<and> bit (element_error ops params seen p e) n)"

lemma errors_at_Nil [simp]: "\<not> errors_at ops params seen [] n"
  by (simp add: errors_at_def)

lemma errors_at_Cons:
  "errors_at ops params seen (e # es) n \<longleftrightarrow> bit (element_error ops params seen [] e) n \<or>
     errors_at ops params (if elem_failure ops params e = 0 then insert (elem_id e) seen else seen) es n"
  (is "?l \<longleftrightarrow> ?a \<or> ?b")
proof
  assume ?l
  then obtain p x q where *: "e # es = p @ x # q" "bit (element_error ops params seen p x) n" by (auto simp: errors_at_def)
  show "?a \<or> ?b"
  proof (cases p)
    case (Cons y ys)
    then have "bit (element_error ops params (if elem_failure ops params e = 0 then insert (elem_id e) seen else seen) ys x) n"
      "es = ys @ x # q" using * element_error_cons[of ops params seen e ys x] by simp_all
    then show ?thesis unfolding errors_at_def by blast
  qed (use * in simp)
next
  assume "?a \<or> ?b"
  then show ?l
  proof
    assume ?a
    then show ?l unfolding errors_at_def by (intro exI[of _ "[]"] exI[of _ e] exI[of _ es]) simp
  next
    assume ?b
    then obtain p x q where "es = p @ x # q"
      "bit (element_error ops params (if elem_failure ops params e = 0 then insert (elem_id e) seen else seen) p x) n"
      by (auto simp: errors_at_def)
    then show ?l unfolding errors_at_def
      by (intro exI[of _ "e # p"] exI[of _ x] exI[of _ q]) (simp only: element_error_cons append_Cons)
  qed
qed

lemma parse_loop_errors:
  "parse_loop ops params ni es (s, seen, crc) = (t, seen', crc') \<Longrightarrow> n \<noteq> 4 \<Longrightarrow>
   bit (parse_error t) n \<longleftrightarrow> bit (parse_error s) n \<or> errors_at ops params seen (filter (\<lambda>e. \<not> not_inherited ops ni e) es) n"
proof (induction es arbitrary: s seen crc)
  case (Cons e es)
  obtain u useen ucrc where u: "parse_elem ops params ni e (s, seen, crc) = (u, useen, ucrc)"
    by (metis prod.collapse)
  have loop: "parse_loop ops params ni es (u, useen, ucrc) = (t, seen', crc')"
    using Cons.prems(1) u by (simp add: parse_loop_def)
  note IH = Cons.IH[OF loop Cons.prems(2)]
  show ?case
  proof (cases "not_inherited ops ni e")
    case True
    then show ?thesis using IH u by (simp add: parse_elem_def)
  next
    case False
    then show ?thesis
      using IH parse_elem_error[OF u Cons.prems(2) False] by (simp add: errors_at_Cons disj_ac)
  qed
qed (simp add: parse_loop_def)

text \<open>
  A basic multi-link element inside the profile of a link, which may hold none.  The parser notices it
  while \<open>multi_link_inner\<close> is set.
\<close>

definition nested_basic :: "elems_parse_params \<Rightarrow> element \<Rightarrow> bool" where
  "nested_basic params e \<longleftrightarrow> elem_id e = WLAN_EID_EXTENSION \<and> elem_data e \<noteq> [] \<and>
     elem_data e ! 0 = WLAN_EID_EXT_EHT_MULTI_LINK \<and> CONN_MODE_EHT \<le> p_mode params \<and>
     ieee80211_mle_size_ok (drop 1 (elem_data e)) \<and> mle_type (drop 1 (elem_data e)) = ML_CONTROL_TYPE_BASIC"

lemma error_store [simp]: "parse_error (store f d s) = parse_error s" "parse_error (store_len f d s) = parse_error s"
  by (simp_all add: store_def store_len_def)

lemma switch_error_nested:
  "bit (parse_error (fst (parse_elem_switch ops params e s crc))) 4 \<longleftrightarrow>
   bit (parse_error s) 4 \<or> multi_link_inner s \<and> nested_basic params e"
proof (cases "elem_id e = WLAN_EID_EXTENSION")
  case False
  have wrap: "parse_error (fst (parse_channel_switch_wrapper ops params d s)) = parse_error s" for d
    by (simp add: parse_channel_switch_wrapper_def Let_def split_def split: option.split)
  have "parse_error (fst (parse_elem_switch ops params e s crc)) = parse_error s"
    using False unfolding parse_elem_switch_def Let_def split_def
    by (simp add: if_distrib[of fst] if_distrib[of parse_error] wrap cong: if_cong)
  then show ?thesis using False by (simp add: nested_basic_def)
next
  case True
  have flag: "bit (parse_error (flag_error PARSE_ERR_DUP_NEST_ML_BASIC s)) 4"
    by (simp add: bit_flag_error)
  have ext: "bit (parse_error (fst (parse_extension_switch params e s))) 4 \<longleftrightarrow>
      bit (parse_error s) 4 \<or> multi_link_inner s \<and> nested_basic params e" if "elem_data e \<noteq> []"
  proof (cases "elem_data e ! 0 = WLAN_EID_EXT_EHT_MULTI_LINK")
    case ml: True
    then show ?thesis
      using True that flag by (auto simp: parse_extension_switch_def nested_basic_def Let_def not_le)
  next
    case False
    then have "parse_error (fst (parse_extension_switch params e s)) = parse_error s"
      unfolding parse_extension_switch_def Let_def
      by (simp add: if_distrib[of fst] if_distrib[of parse_error] cong: if_cong)
    then show ?thesis using False by (simp add: nested_basic_def)
  qed
  have "fst (parse_elem_switch ops params e s crc) =
      (if elem_data e = [] then s else fst (parse_extension_switch params e s))"
    using True by (simp add: parse_elem_switch_def ieee80211_parse_extension_element_def Let_def split_def)
  then show ?thesis using ext by (auto simp: nested_basic_def)
qed

lemma write_inner: "elem_write i m s t \<Longrightarrow> multi_link_inner t = multi_link_inner s"
  by (induction rule: elem_write.induct) (simp_all add: store_def store_len_def flag_error_def)

lemma writes_inner: "elem_writes i m s t \<Longrightarrow> multi_link_inner t = multi_link_inner s"
  by (induction rule: rtranclp_induct) (simp_all add: write_inner)

lemma parse_elem_nested:
  assumes "parse_elem ops params ni e (s, seen, crc) = (t, seen', crc')"
  shows "bit (parse_error t) 4 \<longleftrightarrow> bit (parse_error s) 4 \<or> \<not> not_inherited ops ni e \<and> multi_link_inner s \<and> nested_basic params e"
    and "multi_link_inner t = multi_link_inner s"
proof -
  have fail: "\<not> bit (elem_failure ops params e) 4" "\<not> bit PARSE_ERR_DUP_ELEM 4"
    using failure_bits[of ops params e] by (auto simp: bit_simps)
  have single: "\<not> nested_basic params e" if "elem_id e \<in> set single_elem_ids"
    using that by (auto simp: nested_basic_def single_elem_ids_def)
  have inner: "multi_link_inner (fst (parse_elem_switch ops params e s c)) = multi_link_inner s" for c
    by (rule writes_inner[OF writes_switch])
  show "multi_link_inner t = multi_link_inner s"
    using assms inner by (auto simp: parse_elem_def Let_def split_def flag_error_def split: if_splits)
  show "bit (parse_error t) 4 \<longleftrightarrow> bit (parse_error s) 4 \<or> \<not> not_inherited ops ni e \<and> multi_link_inner s \<and> nested_basic params e"
    using assms fail single
    by (auto simp: parse_elem_def Let_def split_def switch_failure switch_error_nested bit_flag_error split: if_splits)
qed

lemma parse_loop_nested:
  "parse_loop ops params ni es (s, seen, crc) = (t, seen', crc') \<Longrightarrow>
   bit (parse_error t) 4 \<longleftrightarrow> bit (parse_error s) 4 \<or>
     multi_link_inner s \<and> (\<exists>e\<in>set (filter (\<lambda>e. \<not> not_inherited ops ni e) es). nested_basic params e)"
proof (induction es arbitrary: s seen crc)
  case (Cons e es)
  obtain u useen ucrc where u: "parse_elem ops params ni e (s, seen, crc) = (u, useen, ucrc)"
    by (metis prod.collapse)
  have "parse_loop ops params ni es (u, useen, ucrc) = (t, seen', crc')"
    using Cons.prems(1) u by (simp add: parse_loop_def)
  from Cons.IH[OF this] show ?case
    using parse_elem_nested[OF u] by auto
qed (simp add: parse_loop_def)

lemma errors_at_not_end: "\<not> errors_at ops params seen es 0"
proof -
  have "\<not> bit (element_error ops params seen p e) 0" for p e
    using failure_bits[of ops params e] by (auto simp: element_error_def bit_simps)
  then show ?thesis by (simp add: errors_at_def)
qed

text \<open>
  The errors of a pass over \<open>b\<close>: a cut end (bit 0), elements that are in error, and nested multi-link elements
  (bit 4) if the pass is one over the profile of a link.
\<close>

definition pass_errors :: "cfg80211_ops \<Rightarrow> elems_parse_params \<Rightarrow> element option \<Rightarrow> bool \<Rightarrow> nat \<Rightarrow> bool" where
  "pass_errors ops params ni inner n \<longleftrightarrow>
     (let es = filter (\<lambda>e. \<not> not_inherited ops ni e) (elements (p_start params))
      in if n = 0 then \<not> for_each_element_completed (p_start params)
         else if n = 4 then inner \<and> (\<exists>e\<in>set es. nested_basic params e)
         else errors_at ops params {} es n)"

lemma bit_one_u8: "bit (1 :: u8) n \<longleftrightarrow> n = 0"
  by (simp add: bit_1_iff)

lemma parse_pass_errors:
  "bit (parse_error (fst (parse_elems_pass ops params ni s))) n \<longleftrightarrow>
   bit (parse_error s) n \<or> pass_errors ops params ni (multi_link_inner s) n"
proof -
  obtain t seen' crc' where t: "parse_loop ops params ni (elements (p_start params)) (s, {}, p_crc params) = (t, seen', crc')"
    by (metis prod.collapse)
  show ?thesis
    using parse_loop_errors[OF t] parse_loop_nested[OF t] errors_at_not_end[of ops params]
    by (cases "n = 4") (auto simp: parse_elems_pass_def t bit_flag_error bit_one_u8 pass_errors_def Let_def)
qed

lemma error_profile: "parse_error (fst (parse_profile ops params (parse_init params))) = 0"
proof -
  have st: "parse_error (store f d s) = parse_error s" "parse_error (store_len f d s) = parse_error s"
    "parse_error (store_scratch f d s) = parse_error s" for f d s
    by (simp_all add: store_def store_len_def store_scratch_def)
  have loop: "parse_error (sta_prof_loop ops l ml subs s) = parse_error s" for l ml subs s
    by (induction subs) (auto simp: Let_def st split: option.split)
  show ?thesis
    by (auto simp: parse_profile_def ieee802_11_find_bssid_profile_def ieee80211_prep_mle_link_parse_def ieee80211_mle_get_sta_prof_def
        loop st parse_init_def Let_def split_def split: option.split)
qed

lemma inner_profile: "\<not> multi_link_inner (fst (parse_profile ops params (parse_init params)))"
proof -
  have st: "multi_link_inner (store f d s) = multi_link_inner s" "multi_link_inner (store_len f d s) = multi_link_inner s"
    "multi_link_inner (store_scratch f d s) = multi_link_inner s" for f d s
    by (simp_all add: store_def store_len_def store_scratch_def)
  have loop: "multi_link_inner (sta_prof_loop ops l ml subs s) = multi_link_inner s" for l ml subs s
    by (induction subs) (auto simp: Let_def st split: option.split)
  show ?thesis
    by (auto simp: parse_profile_def ieee802_11_find_bssid_profile_def ieee80211_prep_mle_link_parse_def ieee80211_mle_get_sta_prof_def
        loop st parse_init_def Let_def split_def split: option.split)
qed

lemma error_finish:
  "parse_error (dtim_from_bssid_index (dtim_from_tim (ieee80211_mle_defrag_epcs ops (ieee80211_mle_defrag_reconf ops s)))) = parse_error s"
  by (auto simp: dtim_from_bssid_index_def dtim_from_tim_def ieee80211_mle_defrag_epcs_def ieee80211_mle_defrag_reconf_def Let_def
      store_scratch_def store_len_def split: option.split)

text \<open>C19: The error flags, bit by bit: \<^verbatim>\<open>INVALID_END\<close> that the elements of the frame or of the profile do not fill
  it; \<^verbatim>\<open>DUP_ELEM\<close> that an element that is to occur once follows one of its kind that did not fail;
  \<^verbatim>\<open>BAD_ELEM_SIZE\<close> that an element heeded in the mode does not have the size its kind has in \<open>elem_sizes\<close>, or
  a channel switch wrapper holds such a one; \<^verbatim>\<open>UNEXPECTED_ELEM\<close> that a wide bandwidth channel switch stands
  outside an action frame or a wrapper in one; \<^verbatim>\<open>DUP_NEST_ML_BASIC\<close> that the profile of a link holds a basic
  multi-link element; no other bit is ever set.  Extension elements, the mesh awake window and the
  maximum idle period of a wrong size are ignored without a flag.\<close>

theorem parse_errors_exact:
  assumes "ieee802_11_parse_elems_full ops oom params = Some s"
    "parse_profile ops params (parse_init params) = (s0, sub, ni, inner)"
  shows "bit (parse_error s) n \<longleftrightarrow> pass_errors ops params ni False n \<or> pass_errors ops sub None inner n"
proof -
  have s0: "parse_error s0 = 0" "\<not> multi_link_inner s0"
    using error_profile[of ops params] inner_profile[of ops params] assms(2) by simp_all
  have empty: "\<not> pass_errors ops sub None inner n" if "p_start sub = []"
    using that by (simp add: pass_errors_def for_each_element_completed_def)
  have "bit (parse_error (parse_passes ops params (s0, sub, ni, inner))) n \<longleftrightarrow>
      pass_errors ops params ni False n \<or> pass_errors ops sub None inner n"
    using empty by (auto simp: parse_passes_def Let_def split_def parse_pass_errors s0)
  then show ?thesis
    using assms(1,2) by (auto simp: ieee802_11_parse_elems_full_def error_finish split: if_splits)
qed

lemma ex_dup_flags: "map_option parse_error (ieee802_11_parse_elems_full ex_ops False ex_dup_params) = Some 6"
  by code_simp

theorem parse_errors_exact_witness:
  "pass_errors ex_ops ex_dup_params None False 1 \<and> pass_errors ex_ops ex_dup_params None False 2 \<and> \<not> pass_errors ex_ops ex_dup_params None False 0"
proof -
  obtain s0 sub ni inner where p: "parse_profile ex_ops ex_dup_params (parse_init ex_dup_params) = (s0, sub, ni, inner)"
    by (metis prod.collapse)
  then have e: "p_start sub = []" "ni = None" using ex_dup_profile(1) by simp_all
  obtain s where s: "ieee802_11_parse_elems_full ex_ops False ex_dup_params = Some s" using ex_dup_profile(2) by blast
  then have "parse_error s = 6" using ex_dup_flags by simp
  moreover have "bit (6 :: u8) 1" "bit (6 :: u8) 2" "\<not> bit (6 :: u8) 0" by code_simp+
  moreover have "\<not> pass_errors ex_ops sub None inner 1" "\<not> pass_errors ex_ops sub None inner 2"
    using e(1) by (simp_all add: pass_errors_def)
  ultimately show ?thesis
    using parse_errors_exact[OF s p, of 0] parse_errors_exact[OF s p, of 1] parse_errors_exact[OF s p, of 2] e(2) by simp
qed

subsection \<open>Modes\<close>

definition in_mode :: "conn_mode \<Rightarrow> elems_parse \<Rightarrow> bool" where
  "in_mode m s \<longleftrightarrow> (\<forall>f. elem_ptr s f \<noteq> None \<longrightarrow> field_in_mode f m) \<and> (ttlm s \<noteq> [] \<longrightarrow> CONN_MODE_EHT \<le> m) \<and>
     (elems_tpe s \<noteq> ieee80211_clear_tpe zero_tpe \<longrightarrow> CONN_MODE_HE \<le> m) \<and>
     (csa_tpe s \<noteq> ieee80211_clear_tpe zero_tpe \<longrightarrow> CONN_MODE_EHT \<le> m) \<and>
     (ml_reconf_elem s \<noteq> None \<or> ml_epcs_elem s \<noteq> None \<longrightarrow> CONN_MODE_EHT \<le> m)"

lemma in_mode_write: "elem_write i m s t \<Longrightarrow> in_mode m s \<Longrightarrow> in_mode m t"
  by (induction rule: elem_write.induct) (auto simp: in_mode_def store_def store_len_def flag_error_def may_write_def)

lemma in_mode_writes: "elem_writes i m s t \<Longrightarrow> in_mode m s \<Longrightarrow> in_mode m t"
  by (induction rule: rtranclp_induct) (auto intro: in_mode_write)

lemma in_mode_flag: "in_mode m (flag_error err s) = in_mode m s"
  by (simp add: in_mode_def flag_error_def)

lemma in_mode_pass: "in_mode (p_mode params) s \<Longrightarrow> in_mode (p_mode params) (fst (parse_elems_pass ops params ni s))"
  by (rule parse_pass_keeps[where P = "in_mode (p_mode params)"]) (assumption | erule (1) in_mode_writes | simp add: in_mode_flag)+

lemma in_mode_store:
  "in_mode m s \<Longrightarrow> field_in_mode f m \<Longrightarrow> in_mode m (store_len f r s)" "in_mode m s \<Longrightarrow> field_in_mode f m \<Longrightarrow> in_mode m (store_scratch f r s)"
  by (auto simp: in_mode_def store_scratch_def store_len_def)

lemma in_mode_profile:
  assumes "in_mode (p_mode params) s" "parse_profile ops params s = (t, sub, ni, inner)"
  shows "in_mode (p_mode params) t \<and> (p_start sub \<noteq> [] \<longrightarrow> p_mode sub = p_mode params)"
proof -
  have loop: "in_mode m (sta_prof_loop ops l ml subs s)" if "CONN_MODE_EHT \<le> m" "in_mode m s" for m l ml subs s
    using that by (induction subs) (auto simp: Let_def in_mode_store split: option.split)
  have basic: "in_mode m (s\<lparr> ml_basic_elem := x \<rparr>)" "in_mode m (s\<lparr> scratch_pos := n \<rparr>)"
    "in_mode m (s\<lparr> elem_ptr := (elem_ptr s)(F_prof := None), elem_len := l \<rparr>)" if "in_mode m s" for m s x n l
    using that by (auto simp: in_mode_def)
  show ?thesis
  proof (cases "p_bss params")
    case None
    have eht: "in_mode (p_mode params) (ieee80211_mle_get_sta_prof ops l u)"
      if "CONN_MODE_EHT \<le> p_mode params" "in_mode (p_mode params) u" for l u
      using that loop by (simp add: ieee80211_mle_get_sta_prof_def split: option.split)
    show ?thesis
      using assms None
      by (auto simp: parse_profile_def ieee80211_prep_mle_link_parse_def Let_def zero_params_def not_less
          intro!: basic eht in_mode_store split: option.splits if_splits)
  next
    case (Some bss)
    then show ?thesis
      using assms by (auto simp: parse_profile_def ieee802_11_find_bssid_profile_def Let_def split_def
          intro!: basic in_mode_store split: option.splits)
  qed
qed

lemma in_mode_finish:
  assumes "in_mode m s" "ml_reconf_elem s \<noteq> None \<or> ml_epcs_elem s \<noteq> None \<longrightarrow> CONN_MODE_EHT \<le> m" "scratch_laws ops"
  shows "in_mode m (dtim_from_bssid_index (dtim_from_tim (ieee80211_mle_defrag_epcs ops (ieee80211_mle_defrag_reconf ops s))))"
proof -
  have upd: "in_mode m (s\<lparr> dtim_period := p \<rparr>) = in_mode m s" "in_mode m (s\<lparr> dtim_count := p \<rparr>) = in_mode m s" for s p
    by (simp_all add: in_mode_def)
  have "in_mode m (ieee80211_mle_defrag_reconf ops s)"
    using assms defrag_none[OF assms(3)] by (auto simp: ieee80211_mle_defrag_reconf_def intro!: in_mode_store split: option.split)
  moreover have "ml_epcs_elem (ieee80211_mle_defrag_reconf ops s) = ml_epcs_elem s"
    by (simp add: ieee80211_mle_defrag_reconf_def store_scratch_def store_len_def split: option.split)
  ultimately have "in_mode m (ieee80211_mle_defrag_epcs ops (ieee80211_mle_defrag_reconf ops s))"
    using assms(2) defrag_none[OF assms(3)] by (auto simp: ieee80211_mle_defrag_epcs_def intro!: in_mode_store split: option.split)
  then show ?thesis by (simp add: dtim_from_tim_def dtim_from_bssid_index_def upd Let_def split: option.split)
qed

text \<open>C20: The mode of the connection limits what is parsed: no HT, VHT, HE, EHT, UHR or S1G field is set in a mode without
  it, however the frame or the profile looks; no link mapping, no multi-link field and no power envelope either,
  of the frame or of a channel switch.\<close>

theorem parsed_in_mode:
  assumes "scratch_laws ops" "ieee802_11_parse_elems_full ops oom params = Some s"
  shows "(\<forall>f. elem_ptr s f \<noteq> None \<longrightarrow> field_in_mode f (p_mode params)) \<and> (ttlm s \<noteq> [] \<longrightarrow> CONN_MODE_EHT \<le> p_mode params) \<and>
     (elems_tpe s \<noteq> ieee80211_clear_tpe zero_tpe \<longrightarrow> CONN_MODE_HE \<le> p_mode params) \<and>
     (csa_tpe s \<noteq> ieee80211_clear_tpe zero_tpe \<longrightarrow> CONN_MODE_EHT \<le> p_mode params)"
proof -
  obtain s0 sub ni inner where p: "parse_profile ops params (parse_init params) = (s0, sub, ni, inner)"
    by (metis prod.collapse)
  have "in_mode (p_mode params) (parse_init params)" by (simp add: in_mode_def parse_init_def)
  note s0 = in_mode_profile[OF this p]
  have upd: "in_mode m (s\<lparr> skip_vendor := b \<rparr>) = in_mode m s" "in_mode m (s\<lparr> elems_crc := c \<rparr>) = in_mode m s"
    "in_mode m (s\<lparr> multi_link_inner := b \<rparr>) = in_mode m s" for m s b c by (simp_all add: in_mode_def)
  have "in_mode (p_mode params) (fst (parse_elems_pass ops params ni u))" if "in_mode (p_mode params) u" for u
    using that by (rule in_mode_pass)
  moreover have "in_mode (p_mode params) (fst (parse_elems_pass ops sub None u))" if "in_mode (p_mode params) u" "p_start sub \<noteq> []" for u
    using in_mode_pass[of sub u ops None] that s0 by simp
  ultimately have "in_mode (p_mode params) (parse_passes ops params (s0, sub, ni, inner))"
    using s0 by (simp add: parse_passes_def Let_def split_def upd)
  from in_mode_finish[OF this _ assms(1)] have "in_mode (p_mode params) s"
    using assms(2) p \<open>in_mode (p_mode params) (parse_passes ops params (s0, sub, ni, inner))\<close>
    by (auto simp: ieee802_11_parse_elems_full_def in_mode_def split: if_splits)
  then show ?thesis by (simp add: in_mode_def)
qed

definition ex_ht_params :: elems_parse_params where
  "ex_ht_params = ex_params\<lparr> p_mode := CONN_MODE_HT \<rparr>"

theorem parsed_in_mode_witness:
  "case ieee802_11_parse_elems_full ex_ops False ex_ht_params of
     None \<Rightarrow> False
   | Some s \<Rightarrow> elem_ptr s F_he_cap = None \<and> elem_ptr s F_ssid \<noteq> None"
proof -
  have "map_option (\<lambda>s. elem_ptr s F_ssid) (ieee802_11_parse_elems_full ex_ops False ex_ht_params) = Some (Some [0x74, 0x65, 0x73, 0x74])"
    by code_simp
  then obtain s where s: "ieee802_11_parse_elems_full ex_ops False ex_ht_params = Some s" "elem_ptr s F_ssid = Some [0x74, 0x65, 0x73, 0x74]"
    by auto
  have "\<not> field_in_mode F_he_cap (p_mode ex_ht_params)" by (simp add: ex_ht_params_def less_eq_conn_mode_def)
  then have "elem_ptr s F_he_cap = None" using parsed_in_mode[OF ex_ops_laws s(1)] by blast
  then show ?thesis using s by simp
qed

end
