(* ===== verification/Parse_Crc.thy ===== *)
theory Parse_Crc
  imports Parse_Errors
begin

text \<open>
  The checksum the parser computes over the elements selected by the filter of its parameters, by which
  a station recognises an unchanged beacon: which elements it depends on, and that nothing else changes it.
\<close>

definition ext_in_crc :: "conn_mode \<Rightarrow> u8 \<Rightarrow> bool" where
  "ext_in_crc m x \<longleftrightarrow>
     x \<in> {WLAN_EID_EXT_HE_MU_EDCA, WLAN_EID_EXT_HE_OPERATION} \<and> CONN_MODE_HE \<le> m \<or>
     x \<in> {WLAN_EID_EXT_EHT_OPERATION, WLAN_EID_EXT_EHT_MULTI_LINK, WLAN_EID_EXT_BANDWIDTH_INDICATION, WLAN_EID_EXT_TID_TO_LINK_MAPPING} \<and>
       CONN_MODE_EHT \<le> m \<or>
     x \<in> {WLAN_EID_EXT_UHR_OPER, WLAN_EID_EXT_UHR_CAPA} \<and> CONN_MODE_UHR \<le> m"

text \<open>Whether the parsing of an element adds it to the checksum.\<close>

definition switch_in_crc :: "elems_parse_params \<Rightarrow> bool \<Rightarrow> element \<Rightarrow> bool" where
  "switch_in_crc params skip e \<longleftrightarrow>
     (let i = elem_id e; d = elem_data e; m = p_mode params
      in p_filter params \<noteq> 0 \<and>
         (i = WLAN_EID_VENDOR_SPECIFIC \<and> \<not> skip \<and> 4 \<le> length d \<and> d ! 0 = 0x00 \<and> d ! 1 = 0x50 \<and> d ! 2 = 0xf2 \<or>
          i = WLAN_EID_VHT_OPERATION \<and> CONN_MODE_VHT \<le> m \<and> 5 \<le> length d \<or>
          i = WLAN_EID_OPMODE_NOTIF \<and> CONN_MODE_VHT \<le> m \<and> 0 < length d \<or>
          i = WLAN_EID_EXTENSION \<and> d \<noteq> [] \<and> ext_in_crc m (d ! 0)))"

lemma extension_crc: "snd (parse_extension_switch params e s) = ext_in_crc (p_mode params) (elem_data e ! 0)"
  unfolding parse_extension_switch_def Let_def ext_in_crc_def
  by (simp add: not_less[symmetric] if_distrib[of snd] cong: if_cong)

lemma switch_crc:
  "fst (snd (parse_elem_switch ops params e s crc)) =
   (if switch_in_crc params (skip_vendor s) e then crc32_be ops crc (elem_bytes e) else crc)"
  unfolding parse_elem_switch_def Let_def split_def switch_in_crc_def ieee80211_parse_extension_element_def
  by (simp add: extension_crc not_less[symmetric] if_distrib[of fst] if_distrib[of snd] cong: if_cong)

definition filter_in_crc :: "elems_parse_params \<Rightarrow> u8 \<Rightarrow> bool" where
  "filter_in_crc params i \<longleftrightarrow> p_filter params \<noteq> 0 \<and> i < 64 \<and> bit (p_filter params) (unat i)"

text \<open>The identifiers of the elements the checksum may depend on.\<close>

definition crc_ids :: "elems_parse_params \<Rightarrow> u8 \<Rightarrow> bool" where
  "crc_ids params i \<longleftrightarrow> filter_in_crc params i \<or>
     i \<in> {WLAN_EID_VENDOR_SPECIFIC, WLAN_EID_VHT_OPERATION, WLAN_EID_OPMODE_NOTIF, WLAN_EID_EXTENSION}"

fun crc_loop :: "cfg80211_ops \<Rightarrow> elems_parse_params \<Rightarrow> bool \<Rightarrow> element list \<Rightarrow> u8 set \<Rightarrow> u32 \<Rightarrow> u32" where
  "crc_loop ops params skip [] seen crc = crc"
| "crc_loop ops params skip (e # es) seen crc =
     (if elem_id e \<in> set single_elem_ids \<and> elem_id e \<in> seen then crc_loop ops params skip es seen crc
      else let crc1 = (if filter_in_crc params (elem_id e) then crc32_be ops crc (elem_bytes e) else crc);
               crc2 = (if switch_in_crc params skip e then crc32_be ops crc1 (elem_bytes e) else crc1)
           in crc_loop ops params skip es (if elem_failure ops params e = 0 then insert (elem_id e) seen else seen) crc2)"

lemma write_skip: "elem_write i m s t \<Longrightarrow> skip_vendor t = skip_vendor s"
  by (induction rule: elem_write.induct) (simp_all add: store_def store_len_def flag_error_def)

lemma writes_skip: "elem_writes i m s t \<Longrightarrow> skip_vendor t = skip_vendor s"
  by (induction rule: rtranclp_induct) (simp_all add: write_skip)

lemma parse_loop_crc:
  "snd (snd (parse_loop ops params None es (s, seen, crc))) = crc_loop ops params (skip_vendor s) es seen crc"
proof (induction es arbitrary: s seen crc)
  case (Cons e es)
  have sk: "skip_vendor (fst (parse_elem_switch ops params e s c)) = skip_vendor s" for c
    using writes_skip[OF writes_switch] .
  have fl: "skip_vendor (flag_error err u) = skip_vendor u" for err u by (simp add: flag_error_def)
  show ?case
    using Cons.IH
    by (simp add: parse_loop_def parse_elem_def not_inherited_def Let_def split_def switch_failure switch_crc sk fl filter_in_crc_def)
qed (simp add: parse_loop_def)

lemma crc_loop_filter:
  "(\<forall>i. crc_ids params i \<longrightarrow> (i \<in> seen \<longleftrightarrow> i \<in> seen')) \<Longrightarrow>
   crc_loop ops params skip es seen crc = crc_loop ops params skip (filter (\<lambda>e. crc_ids params (elem_id e)) es) seen' crc"
proof (induction es arbitrary: seen seen' crc)
  case (Cons e es)
  show ?case
  proof (cases "crc_ids params (elem_id e)")
    case True
    then have "elem_id e \<in> seen \<longleftrightarrow> elem_id e \<in> seen'" using Cons.prems by blast
    then show ?thesis using True Cons.IH Cons.prems by (auto simp: Let_def)
  next
    case False
    then have "\<not> filter_in_crc params (elem_id e)" "\<not> switch_in_crc params skip e"
      by (auto simp: crc_ids_def switch_in_crc_def Let_def)
    moreover have "\<forall>i. crc_ids params i \<longrightarrow> (i \<in> insert (elem_id e) seen \<longleftrightarrow> i \<in> seen')" using Cons.prems False by auto
    ultimately show ?thesis using False Cons.IH Cons.prems by (simp add: Let_def)
  qed
qed simp

text \<open>Of an element only its identifier and data count, not where it stands.\<close>

lemma failure_cong:
  assumes "elem_id e = elem_id e'" "elem_data e = elem_data e'"
  shows "elem_failure ops params e = elem_failure ops params e'"
  by (simp add: elem_failure_def assms Let_def)

lemma crc_loop_cong:
  "map (\<lambda>e. (elem_id e, elem_data e)) es = map (\<lambda>e. (elem_id e, elem_data e)) es' \<Longrightarrow>
   crc_loop ops params skip es seen crc = crc_loop ops params skip es' seen crc"
proof (induction es arbitrary: es' seen crc)
  case (Cons e es)
  then obtain x xs where es': "es' = x # xs" "elem_id e = elem_id x" "elem_data e = elem_data x"
    "map (\<lambda>e. (elem_id e, elem_data e)) es = map (\<lambda>e. (elem_id e, elem_data e)) xs" by (cases es') auto
  have "elem_bytes e = elem_bytes x" "switch_in_crc params skip e = switch_in_crc params skip x"
    "elem_failure ops params e = elem_failure ops params x"
    using es'(2,3) failure_cong[of e x] by (simp_all add: elem_bytes_def switch_in_crc_def)
  then show ?case unfolding es'(1) using es'(2) Cons.IH[OF es'(4)] by (simp only: crc_loop.simps Let_def)
qed simp

definition crc_elements :: "elems_parse_params \<Rightarrow> (u8 \<times> u8 list) list" where
  "crc_elements params = map (\<lambda>e. (elem_id e, elem_data e)) (filter (\<lambda>e. crc_ids params (elem_id e)) (elements (p_start params)))"

lemma pass_crc:
  "snd (parse_elems_pass ops params None s) =
   crc_loop ops params (skip_vendor s) (filter (\<lambda>e. crc_ids params (elem_id e)) (elements (p_start params))) {} (p_crc params)"
proof -
  have "crc_loop ops params (skip_vendor s) (elements (p_start params)) {} (p_crc params) =
      crc_loop ops params (skip_vendor s) (filter (\<lambda>e. crc_ids params (elem_id e)) (elements (p_start params))) {} (p_crc params)"
    by (rule crc_loop_filter) simp
  then show ?thesis
    using parse_loop_crc[of ops params "elements (p_start params)" s "{}" "p_crc params"]
    by (simp add: parse_elems_pass_def split_def Let_def)
qed

text \<open>The parameters ask for no other BSS and no link.\<close>

definition plain_params :: "elems_parse_params \<Rightarrow> bool" where
  "plain_params params \<longleftrightarrow>
     (case p_bss params of None \<Rightarrow> p_link_id params = - 1 | Some bss \<Rightarrow> transmitted_bss bss = None)"

lemma plain_profile:
  assumes "plain_params params" "cfg80211_find_ext_elem ops WLAN_EID_EXT_NON_INHERITANCE [] = None"
    "parse_profile ops params s = (t, sub, ni, inner)"
  shows "p_start sub = [] \<and> ni = None"
  using assms
  by (auto simp: plain_params_def parse_profile_def ieee802_11_find_bssid_profile_def ieee80211_prep_mle_link_parse_def zero_params_def
      Let_def split: option.splits if_splits)

lemma crc_finish:
  "elems_crc (dtim_from_bssid_index (dtim_from_tim (ieee80211_mle_defrag_epcs ops (ieee80211_mle_defrag_reconf ops s)))) = elems_crc s"
  by (auto simp: dtim_from_bssid_index_def dtim_from_tim_def ieee80211_mle_defrag_epcs_def ieee80211_mle_defrag_reconf_def Let_def
      store_scratch_def store_len_def split: option.split)

lemma parsed_crc:
  assumes "ieee802_11_parse_elems_full ops oom params = Some s" "plain_params params"
    "cfg80211_find_ext_elem ops WLAN_EID_EXT_NON_INHERITANCE [] = None"
  shows "elems_crc s = crc_loop ops params (cfg80211_find_elem ops WLAN_EID_VENDOR_SPECIFIC [] \<noteq> None)
    (filter (\<lambda>e. crc_ids params (elem_id e)) (elements (p_start params))) {} (p_crc params)"
proof -
  obtain s0 sub ni inner where p: "parse_profile ops params (parse_init params) = (s0, sub, ni, inner)"
    by (metis prod.collapse)
  have e: "p_start sub = []" "ni = None" using plain_profile[OF assms(2,3) p] by simp_all
  show ?thesis
    using assms(1) p e by (auto simp: ieee802_11_parse_elems_full_def crc_finish parse_passes_def Let_def split_def pass_crc split: if_splits)
qed

text \<open>The checksum of a beacon depends on the selected elements only: two beacons whose elements with an identifier of the
  filter, vendor elements, VHT operation, operating mode notification and extension elements are the same, in the
  same order, have the same checksum, whatever else they carry in between.\<close>

theorem beacon_crc_selected:
  assumes "cfg80211_find_ext_elem ops WLAN_EID_EXT_NON_INHERITANCE [] = None" "plain_params params"
    "ieee802_11_parse_elems_full ops oom params = Some s"
    "ieee802_11_parse_elems_full ops oom' (params\<lparr> p_start := b \<rparr>) = Some t"
    "crc_elements (params\<lparr> p_start := b \<rparr>) = crc_elements params"
  shows "elems_crc t = elems_crc s"
proof -
  let ?params = "params\<lparr> p_start := b \<rparr>"
  have ids: "crc_ids ?params = crc_ids params" by (auto simp: crc_ids_def filter_in_crc_def)
  have fail: "elem_failure ops ?params e = elem_failure ops params e" for e
    by (simp add: elem_failure_def Let_def)
  have same: "crc_loop ops ?params skip es seen crc = crc_loop ops params skip es seen crc" for skip es seen crc
    by (induction es arbitrary: seen crc) (simp_all add: fail filter_in_crc_def switch_in_crc_def Let_def)
  have "plain_params ?params" using assms(2) by (simp add: plain_params_def split: option.splits)
  from parsed_crc[OF assms(4) this assms(1)]
  have t: "elems_crc t = crc_loop ops params (cfg80211_find_elem ops WLAN_EID_VENDOR_SPECIFIC [] \<noteq> None)
      (filter (\<lambda>e. crc_ids params (elem_id e)) (elements b)) {} (p_crc params)"
    by (simp add: same ids)
  have "map (\<lambda>e. (elem_id e, elem_data e)) (filter (\<lambda>e. crc_ids params (elem_id e)) (elements b)) =
      map (\<lambda>e. (elem_id e, elem_data e)) (filter (\<lambda>e. crc_ids params (elem_id e)) (elements (p_start params)))"
    using assms(5) by (simp add: crc_elements_def ids)
  from crc_loop_cong[OF this] show ?thesis unfolding t parsed_crc[OF assms(3,2,1)] .
qed

text \<open>Two beacons that differ in the SSID, which the filter does not select, and agree in the rates, which it does.\<close>

definition ex_crc_params :: "u8 list \<Rightarrow> elems_parse_params" where
  "ex_crc_params ssid = zero_params\<lparr> p_mode := CONN_MODE_UHR, p_start := put_elements [(0, ssid), (1, [0x82, 0x84]), (199, [1])],
     p_type := FRAME_BEACON, p_link_id := - 1, p_filter := 2, p_crc := 5 \<rparr>"

theorem beacon_crc_selected_witness:
  "map_option elems_crc (ieee802_11_parse_elems_full ex_ops False (ex_crc_params [1, 2, 3])) =
   map_option elems_crc (ieee802_11_parse_elems_full ex_ops False (ex_crc_params [4]))"
proof -
  have "ieee802_11_parse_elems_full ex_ops False (ex_crc_params [4]) \<noteq> None"
    "ieee802_11_parse_elems_full ex_ops False (ex_crc_params [1, 2, 3]) \<noteq> None" by code_simp+
  then obtain s t where s: "ieee802_11_parse_elems_full ex_ops False (ex_crc_params [4]) = Some s"
    and t: "ieee802_11_parse_elems_full ex_ops False (ex_crc_params [1, 2, 3]) = Some t" by blast
  have p: "ex_crc_params [1, 2, 3] = (ex_crc_params [4])\<lparr> p_start := p_start (ex_crc_params [1, 2, 3]) \<rparr>"
    by (simp add: ex_crc_params_def)
  have "crc_elements (ex_crc_params [1, 2, 3]) = crc_elements (ex_crc_params [4])"
    "cfg80211_find_ext_elem ex_ops WLAN_EID_EXT_NON_INHERITANCE [] = None" by code_simp+
  moreover have "plain_params (ex_crc_params [4])" by (simp add: plain_params_def ex_crc_params_def zero_params_def)
  ultimately have "elems_crc t = elems_crc s"
    using beacon_crc_selected[of ex_ops "ex_crc_params [4]" False s False "p_start (ex_crc_params [1, 2, 3])" t] s t p by simp
  then show ?thesis by (simp add: s t)
qed

end
