(* ===== verification/Ttlm.thy ===== *)
theory Ttlm
  imports Parse_Wf "HOL-Library.Monad_Syntax"
begin

text \<open>
  TID-to-link mappings (\<^verbatim>\<open>mlme.c\<close>): how the elements that advertise or negotiate them are read and
  built.  A read behind the end of the element is \<open>None\<close>; the size check of the element parser is
  \<open>ieee80211_tid_to_link_map_size_ok\<close>.
\<close>

subsection \<open>Data\<close>

abbreviation (input) TTLM_NUM_TIDS :: nat where "TTLM_NUM_TIDS \<equiv> 8"
abbreviation (input) TTLM_DIRECTION_DOWN :: u8 where "TTLM_DIRECTION_DOWN \<equiv> 0"
abbreviation (input) TTLM_DIRECTION_UP :: u8 where "TTLM_DIRECTION_UP \<equiv> 1"
abbreviation (input) TTLM_DIRECTION_BOTH :: u8 where "TTLM_DIRECTION_BOTH \<equiv> 2"
abbreviation (input) ERR_INVAL :: int where "ERR_INVAL \<equiv> - 22"

text \<open>\<^verbatim>\<open>struct ieee80211_neg_ttlm\<close>: a bitmap of links per TID and direction, 0 where the TID is not included.\<close>

record neg_ttlm =
  downlink :: "u16 list"
  uplink :: "u16 list"
  neg_valid :: bool

definition zero_neg :: neg_ttlm where
  "zero_neg = \<lparr> downlink = replicate TTLM_NUM_TIDS 0, uplink = replicate TTLM_NUM_TIDS 0, neg_valid = False \<rparr>"

text \<open>\<^verbatim>\<open>struct ieee80211_adv_ttlm_info\<close>.\<close>

record adv_ttlm_info =
  switch_time :: u16
  adv_duration :: u32
  adv_map :: u16
  adv_active :: bool

definition zero_adv :: adv_ttlm_info where
  "zero_adv = \<lparr> switch_time = 0, adv_duration = 0, adv_map = 0, adv_active = False \<rparr>"

subsection \<open>Advertised mappings\<close>

text \<open>The octets are \<^verbatim>\<open>struct ieee80211_ttlm_elem\<close>: \<^verbatim>\<open>control\<close> and, from octet 1, \<^verbatim>\<open>optional\<close>.\<close>

definition ieee80211_get_ttlm :: "nat \<Rightarrow> u8 list \<Rightarrow> nat \<Rightarrow> u16 option" where
  "ieee80211_get_ttlm bm_size d pos = (if bm_size = 1 then map_option ucast (rd8 d pos) else rd16 d pos)"

definition ttlm_map_size :: "u8 \<Rightarrow> nat" where
  "ttlm_map_size control = (if has_flag control TTLM_CONTROL_LINK_MAP_SIZE then 1 else 2)"

definition adv_switch_time :: "u8 list \<Rightarrow> adv_ttlm_info \<times> nat \<Rightarrow> (adv_ttlm_info \<times> nat) option" where
  "adv_switch_time d = (\<lambda>(info, pos).
     if has_flag (d ! 0) TTLM_CONTROL_SWITCH_TIME_PRESENT
     then rd16 d pos \<bind> (\<lambda>t. Some (info\<lparr> switch_time := (if t = 0 then 1 else t) \<rparr>, pos + 2))
     else Some (info, pos))"

definition adv_expected_duration :: "u8 list \<Rightarrow> adv_ttlm_info \<times> nat \<Rightarrow> (adv_ttlm_info \<times> nat) option" where
  "adv_expected_duration d = (\<lambda>(info, pos).
     if has_flag (d ! 0) TTLM_CONTROL_EXPECTED_DUR_PRESENT
     then rd8 d pos \<bind> (\<lambda>a. rd8 d (pos + 1) \<bind> (\<lambda>b. rd8 d (pos + 2) \<bind> (\<lambda>c.
            Some (info\<lparr> adv_duration := ucast a OR push_bit 8 (ucast b) OR push_bit 16 (ucast c) \<rparr>, pos + 3))))
     else Some (info, pos))"

text \<open>The loop over TIDs 1 to 7: whether all have the map of TID 0.\<close>

fun adv_maps_loop :: "nat \<Rightarrow> u8 list \<Rightarrow> u16 \<Rightarrow> nat \<Rightarrow> nat \<Rightarrow> bool option" where
  "adv_maps_loop map_size d map0 0 pos = Some True"
| "adv_maps_loop map_size d map0 (Suc n) pos =
     ieee80211_get_ttlm map_size d pos \<bind>
       (\<lambda>m. if m \<noteq> map0 then Some False else adv_maps_loop map_size d map0 n (pos + map_size))"

definition ieee80211_parse_adv_t2l :: "u8 list \<Rightarrow> (int \<times> adv_ttlm_info) option" where
  "ieee80211_parse_adv_t2l d =
     (let control = d ! 0; map_size = ttlm_map_size control
      in if control AND TTLM_CONTROL_DIRECTION \<noteq> TTLM_DIRECTION_BOTH then Some (ERR_INVAL, zero_adv)
         else rd8 d 1 \<bind> (\<lambda>link_map_presence.
              adv_switch_time d (zero_adv, 2) \<bind> (\<lambda>ip.
              adv_expected_duration d ip \<bind> (\<lambda>(info, pos).
                if has_flag control TTLM_CONTROL_DEF_LINK_MAP then Some (0, info\<lparr> adv_map := 0xffff \<rparr>)
                else if link_map_presence \<noteq> 0xff then Some (ERR_INVAL, info)
                else ieee80211_get_ttlm map_size d pos \<bind> (\<lambda>map0.
                       let info = info\<lparr> adv_map := map0 \<rparr>
                       in if map0 = 0 then Some (ERR_INVAL, info)
                          else adv_maps_loop map_size d map0 7 (pos + map_size) \<bind>
                                 (\<lambda>same. Some (if same then 0 else ERR_INVAL, info)))))))"

subsection \<open>Negotiated mappings\<close>

text \<open>The inner switch: \<open>None\<close> is its \<^verbatim>\<open>default\<close> label.\<close>

definition neg_set_map :: "u8 \<Rightarrow> nat \<Rightarrow> u16 \<Rightarrow> neg_ttlm \<Rightarrow> neg_ttlm option" where
  "neg_set_map direction i m neg =
     (if direction = TTLM_DIRECTION_BOTH then Some (neg\<lparr> downlink := (downlink neg)[i := m], uplink := (uplink neg)[i := m] \<rparr>)
      else if direction = TTLM_DIRECTION_DOWN then Some (neg\<lparr> downlink := (downlink neg)[i := m] \<rparr>)
      else if direction = TTLM_DIRECTION_UP then Some (neg\<lparr> uplink := (uplink neg)[i := m] \<rparr>)
      else None)"

text \<open>The loop over the TIDs: \<^verbatim>\<open>pos\<close> advances for every TID, present or not.\<close>

fun neg_maps_loop :: "nat \<Rightarrow> u8 list \<Rightarrow> u8 \<Rightarrow> u8 \<Rightarrow> nat list \<Rightarrow> nat \<Rightarrow> neg_ttlm \<Rightarrow> (int \<times> neg_ttlm) option" where
  "neg_maps_loop map_size d presence direction [] pos neg = Some (0, neg)"
| "neg_maps_loop map_size d presence direction (i # tids) pos neg =
     (if bit presence i then ieee80211_get_ttlm map_size d pos else Some 0) \<bind> (\<lambda>m.
       if bit presence i \<and> m = 0 then Some (ERR_INVAL, neg)
       else (case neg_set_map direction i m neg of
               None \<Rightarrow> Some (ERR_INVAL, neg)
             | Some neg' \<Rightarrow> neg_maps_loop map_size d presence direction tids (pos + map_size) neg'))"

text \<open>The result code, the mapping as far as it was filled in, and the direction (0 when it was not set).\<close>

definition ieee80211_parse_neg_ttlm :: "u16 \<Rightarrow> u8 list \<Rightarrow> neg_ttlm \<Rightarrow> (int \<times> neg_ttlm \<times> u8) option" where
  "ieee80211_parse_neg_ttlm valid d neg =
     (let control = d ! 0
      in if has_flag control (TTLM_CONTROL_SWITCH_TIME_PRESENT OR TTLM_CONTROL_EXPECTED_DUR_PRESENT)
         then Some (ERR_INVAL, neg, 0)
         else if has_flag control TTLM_CONTROL_DEF_LINK_MAP
         then Some (0, neg\<lparr> downlink := replicate TTLM_NUM_TIDS valid, uplink := replicate TTLM_NUM_TIDS valid \<rparr>,
                    TTLM_DIRECTION_BOTH)
         else let direction = get_bits control TTLM_CONTROL_DIRECTION
              in if direction \<noteq> TTLM_DIRECTION_DOWN \<and> direction \<noteq> TTLM_DIRECTION_UP \<and> direction \<noteq> TTLM_DIRECTION_BOTH
                 then Some (ERR_INVAL, neg, direction)
                 else rd8 d 1 \<bind> (\<lambda>presence.
                      neg_maps_loop (ttlm_map_size control) d presence direction [0..<TTLM_NUM_TIDS] 2 neg \<bind>
                        (\<lambda>(ret, neg'). Some (ret, neg', direction))))"

text \<open>
  What \<^verbatim>\<open>ieee80211_process_neg_ttlm_req\<close> reads from the elements of a request before it asks the driver:
  whether it goes on, and the mapping.
\<close>

fun neg_req_loop :: "u16 \<Rightarrow> nat \<Rightarrow> u8 list list \<Rightarrow> neg_ttlm \<Rightarrow> u8 list \<Rightarrow> (bool \<times> neg_ttlm \<times> u8 list) option" where
  "neg_req_loop valid num [] neg dirs = Some (True, neg, dirs)"
| "neg_req_loop valid num (d # ds) neg dirs =
     ieee80211_parse_neg_ttlm valid d neg \<bind> (\<lambda>(ret, neg', direction).
       if ret \<noteq> 0 \<or> direction = TTLM_DIRECTION_BOTH \<and> num \<noteq> 1 then Some (False, neg', dirs @ [direction])
       else neg_req_loop valid num ds neg' (dirs @ [direction]))"

definition neg_links_valid :: "u16 \<Rightarrow> neg_ttlm \<Rightarrow> bool" where
  "neg_links_valid valid neg \<longleftrightarrow> list_all (\<lambda>m. m AND NOT valid = 0) (downlink neg @ uplink neg)"

definition read_neg_ttlm_req :: "u16 \<Rightarrow> u8 list list \<Rightarrow> (bool \<times> neg_ttlm) option" where
  "read_neg_ttlm_req valid ds =
     neg_req_loop valid (length ds) ds zero_neg [] \<bind> (\<lambda>(ok, neg, dirs).
       Some (ok \<and> \<not> (ds = [] \<or> length ds = 2 \<and> dirs ! 0 = dirs ! 1) \<and> neg_links_valid valid neg, neg))"

subsection \<open>Building\<close>

definition suggested_maps :: "u8 \<Rightarrow> neg_ttlm \<Rightarrow> u16 list" where
  "suggested_maps direction neg = (if direction = TTLM_DIRECTION_UP then uplink neg else downlink neg)"

text \<open>The bits and the octets the loop over the TIDs appends.\<close>

fun suggested_loop :: "u16 list \<Rightarrow> nat \<Rightarrow> u8 \<times> u8 list \<Rightarrow> u8 \<times> u8 list" where
  "suggested_loop [] i acc = acc"
| "suggested_loop (m # ms) i (map_ind, out) =
     suggested_loop ms (Suc i) (if m = 0 then (map_ind, out) else (set_bit i map_ind, out @ le16_bytes m))"

definition suggested_elem :: "u8 \<Rightarrow> neg_ttlm \<Rightarrow> u8 list" where
  "suggested_elem direction neg =
     (let (map_ind, out) = suggested_loop (suggested_maps direction neg) 0 (0, [])
      in [WLAN_EID_EXTENSION, 3 + word_of_nat (length out), WLAN_EID_EXT_TID_TO_LINK_MAPPING, direction, map_ind] @ out)"

definition ieee80211_neg_ttlm_add_suggested_map :: "neg_ttlm \<Rightarrow> u8 list" where
  "ieee80211_neg_ttlm_add_suggested_map neg =
     (if downlink neg \<noteq> uplink neg
      then suggested_elem TTLM_DIRECTION_DOWN neg @ suggested_elem TTLM_DIRECTION_UP neg
      else suggested_elem TTLM_DIRECTION_BOTH neg)"

text \<open>The space the senders allocate for it.\<close>

definition ttlm_max_len :: nat where
  "ttlm_max_len = 2 + 1 + 1 + 1 + 2 * 2 * TTLM_NUM_TIDS"

subsection \<open>What the builder writes\<close>

definition gapless :: "u16 list \<Rightarrow> bool" where
  "gapless ms \<longleftrightarrow> list_all (\<lambda>m. m = 0) (dropWhile (\<lambda>m. m \<noteq> 0) ms)"

lemma suggested_loop_out:
  "snd (suggested_loop ms i (b, out)) = out @ concat (map le16_bytes (filter (\<lambda>m. m \<noteq> 0) ms))"
  by (induction ms arbitrary: i b out) auto

lemma suggested_loop_bit:
  "i + length ms \<le> 8 \<Longrightarrow> bit (fst (suggested_loop ms i (b, out))) j \<longleftrightarrow>
     bit b j \<or> i \<le> j \<and> j < i + length ms \<and> ms ! (j - i) \<noteq> 0"
proof (induction ms arbitrary: i b out)
  case (Cons m ms)
  then show ?case
    by (cases "j = i") (auto simp: bit_set_bit_iff nth_Cons')
qed auto

lemma gapless_split:
  assumes "gapless ms"
  obtains k where "k \<le> length ms" "filter (\<lambda>m. m \<noteq> 0) ms = take k ms" "\<And>i. i < length ms \<Longrightarrow> ms ! i \<noteq> 0 \<longleftrightarrow> i < k"
proof -
  obtain xs ys where ms: "ms = xs @ ys" and x: "\<forall>m \<in> set xs. m \<noteq> 0" and y: "\<forall>m \<in> set ys. m = 0"
    using assms unfolding gapless_def list_all_iff
    by (metis (mono_tags, lifting) set_takeWhileD takeWhile_dropWhile_id)
  show thesis
  proof
    show "length xs \<le> length ms" by (simp add: ms)
    show "filter (\<lambda>m. m \<noteq> 0) ms = take (length xs) ms" using x y by (simp add: ms filter_id_conv)
    show "ms ! i \<noteq> 0 \<longleftrightarrow> i < length xs" if "i < length ms" for i
      using that x y nth_mem[of i xs] nth_mem[of "i - length xs" ys] by (auto simp: ms nth_append)
  qed
qed

end
