(* ===== verification/Mlo_Links.thy ===== *)
theory Mlo_Links
  imports Ttlm
begin

text \<open>
  The links of a multi-link interface (\<^verbatim>\<open>link.c\<close>) and what TID-to-link mappings and link removal do to
  them (\<^verbatim>\<open>mlme.c\<close>): which links are valid, active, dormant and suspended.  The driver, memory and the
  addresses of link structures are the record \<open>mlo_env\<close>; per-link structures, keys and channel contexts
  are left out, and so is everything a disconnection does beyond the links.
\<close>

subsection \<open>State\<close>

datatype iftype = IF_STATION | IF_AP | IF_AP_VLAN | IF_OTHER

text \<open>The frames of this component, with token, status code and the elements of the body.\<close>

datatype ttlm_frame = Ttlm_Req u8 "u8 list" | Ttlm_Res u8 u16 "u8 list" | Ttlm_Teardown

text \<open>
  The fields of \<^verbatim>\<open>struct ieee80211_vif\<close>, \<^verbatim>\<open>struct ieee80211_sub_if_data\<close> and \<^verbatim>\<open>struct ieee80211_if_managed\<close>
  that the code below uses.  A work item or timer is the delay it was queued with; \<open>disconnecting\<close> is set
  where the code calls one of the disconnect functions; \<open>sent\<close> are the frames handed to the transmit path.
\<close>

record mlo =
  vif_type :: iftype
  sdata_running :: bool
  in_driver :: bool
  mld_capa :: u16
  valid_links :: u16
  active_links :: u16
  dormant_links :: u16
  suspended_links :: u16
  vif_neg :: neg_ttlm
  desired_active_links :: u16
  activate_links_work :: bool
  ttlm_info :: adv_ttlm_info
  ttlm_work :: "nat option"
  removed_links :: u16
  ml_reconf_work :: "nat option"
  dialog_token_alloc :: u8
  neg_timeout_work :: bool
  teardown_work :: bool
  disconnecting :: bool
  sent :: "ttlm_frame list"

record mlo_env =
  op_change_vif_links :: "u16 \<Rightarrow> u16 \<Rightarrow> int"
  op_can_activate_links :: "u16 \<Rightarrow> bool"
  op_can_neg_ttlm :: "neg_ttlm \<Rightarrow> int \<times> neg_ttlm"
  link_alloc :: "nat \<Rightarrow> bool"
  link_addr :: "nat \<Rightarrow> u8 list"
  skb_alloc :: bool

abbreviation (input) ERR_NOMEM :: int where "ERR_NOMEM \<equiv> - 12"
abbreviation (input) ERR_IO :: int where "ERR_IO \<equiv> - 5"
abbreviation (input) ERR_ALREADY :: int where "ERR_ALREADY \<equiv> - 114"
abbreviation (input) ERR_NETDOWN :: int where "ERR_NETDOWN \<equiv> - 100"
abbreviation (input) NEG_TTLM_RES_ACCEPT :: int where "NEG_TTLM_RES_ACCEPT \<equiv> 0"
abbreviation (input) NEG_TTLM_RES_REJECT :: int where "NEG_TTLM_RES_REJECT \<equiv> 1"
abbreviation (input) NEG_TTLM_RES_SUGGEST_PREFERRED :: int where "NEG_TTLM_RES_SUGGEST_PREFERRED \<equiv> 2"
abbreviation (input) MLD_MAX_NUM_LINKS :: nat where "MLD_MAX_NUM_LINKS \<equiv> 15"

definition links_of :: "u16 \<Rightarrow> nat list" where
  "links_of w = filter (bit w) [0..<16]"

definition ieee80211_vif_is_mld :: "mlo \<Rightarrow> bool" where
  "ieee80211_vif_is_mld s \<longleftrightarrow> valid_links s \<noteq> 0"

definition ieee80211_vif_usable_links :: "mlo \<Rightarrow> u16" where
  "ieee80211_vif_usable_links s = valid_links s AND NOT (dormant_links s)"

subsection \<open>The driver\<close>

definition drv_change_vif_links :: "mlo_env \<Rightarrow> u16 \<Rightarrow> u16 \<Rightarrow> mlo \<Rightarrow> int" where
  "drv_change_vif_links env old new s =
     (if \<not> in_driver s then ERR_IO else if old = new then 0 else op_change_vif_links env old new)"

definition drv_can_activate_links :: "mlo_env \<Rightarrow> u16 \<Rightarrow> mlo \<Rightarrow> bool" where
  "drv_can_activate_links env a s = (if \<not> in_driver s then False else op_can_activate_links env a)"

definition drv_can_neg_ttlm :: "mlo_env \<Rightarrow> neg_ttlm \<Rightarrow> mlo \<Rightarrow> int \<times> neg_ttlm" where
  "drv_can_neg_ttlm env neg s = (if \<not> in_driver s then (ERR_IO, neg) else op_can_neg_ttlm env neg)"

subsection \<open>Valid and dormant links\<close>

definition ieee80211_set_vif_links_bitmaps :: "u16 \<Rightarrow> u16 \<Rightarrow> mlo \<Rightarrow> mlo" where
  "ieee80211_set_vif_links_bitmaps valid dormant s =
     (let s = s\<lparr> valid_links := valid, dormant_links := dormant \<rparr>
      in if valid = 0 \<or> NOT valid AND dormant \<noteq> 0 \<or> valid AND NOT dormant = 0
         then s\<lparr> active_links := 0, dormant_links := 0 \<rparr>
         else (case vif_type s of
                 IF_AP \<Rightarrow> s\<lparr> active_links := valid \<rparr>
               | IF_AP_VLAN \<Rightarrow> s\<lparr> active_links := valid \<rparr>
               | IF_STATION \<Rightarrow> if active_links s \<noteq> 0 then s else s\<lparr> active_links := valid AND NOT dormant \<rparr>
               | IF_OTHER \<Rightarrow> s))"

text \<open>The link structures there are after the change are those of the new links, or \<^verbatim>\<open>deflink\<close> alone.\<close>

definition ieee80211_check_dup_link_addrs :: "mlo_env \<Rightarrow> u16 \<Rightarrow> bool" where
  "ieee80211_check_dup_link_addrs env links \<longleftrightarrow> \<not> distinct (map (link_addr env) (filter (bit links) [0..<MLD_MAX_NUM_LINKS]))"

definition ieee80211_vif_set_links :: "mlo_env \<Rightarrow> u16 \<Rightarrow> u16 \<Rightarrow> mlo \<Rightarrow> mlo \<times> int" where
  "ieee80211_vif_set_links env new dormant s =
     (let old = valid_links s; old_active = active_links s
      in if old = new \<and> dormant = dormant_links s then (s, 0)
         else if \<not> list_all (link_alloc env) (filter (bit (new AND NOT old)) [0..<MLD_MAX_NUM_LINKS]) then (s, ERR_NOMEM)
         else let (s, ret) =
                    (if ieee80211_check_dup_link_addrs env new then (s, ERR_ALREADY)
                     else let s = ieee80211_set_vif_links_bitmaps new dormant s
                          in (s, if vif_type s \<noteq> IF_AP_VLAN
                                 then drv_change_vif_links env (old AND old_active) (new AND active_links s) s else 0));
                  ret = (if new = 0 then 0 else ret)
              in if ret \<noteq> 0 then (ieee80211_set_vif_links_bitmaps old dormant s, ret) else (s, 0))"

subsection \<open>Active links\<close>

definition set_active_links1 :: "mlo_env \<Rightarrow> u16 \<Rightarrow> mlo \<Rightarrow> mlo \<times> int" where
  "set_active_links1 env a s =
     (let old_active = active_links s; add = a AND NOT old_active
      in if \<not> sdata_running s then (s, ERR_NETDOWN)
         else if vif_type s \<noteq> IF_STATION then (s, ERR_INVAL)
         else if a AND NOT (ieee80211_vif_usable_links s) \<noteq> 0 then (s, ERR_INVAL)
         else if old_active = a then (s, 0)
         else let ret = (if add \<noteq> 0 then drv_change_vif_links env old_active (old_active OR a) s else 0)
              in if ret \<noteq> 0 then (s, ret) else (s\<lparr> active_links := a \<rparr>, 0))"

definition ieee80211_set_active_links :: "mlo_env \<Rightarrow> u16 \<Rightarrow> mlo \<Rightarrow> mlo \<times> int" where
  "ieee80211_set_active_links env a s =
     (let old_active = active_links s
      in if a = 0 then (s, ERR_INVAL)
         else if old_active = a then (s, 0)
         else if \<not> drv_can_activate_links env a s then (s, ERR_INVAL)
         else if old_active AND a \<noteq> 0
         then (let (s, ret) = set_active_links1 env (old_active AND a) s
               in if ret = 0 then set_active_links1 env a s else (s, ret))
         else set_active_links1 env a s)"

definition ieee80211_set_active_links_async :: "u16 \<Rightarrow> mlo \<Rightarrow> mlo" where
  "ieee80211_set_active_links_async a s =
     (if a = 0 then s
      else if \<not> sdata_running s then s
      else if vif_type s \<noteq> IF_STATION then s
      else if a AND NOT (ieee80211_vif_usable_links s) \<noteq> 0 then s
      else if active_links s = a then s
      else s\<lparr> desired_active_links := a, activate_links_work := True \<rparr>)"

definition ieee80211_activate_links_work :: "mlo_env \<Rightarrow> bool \<Rightarrow> mlo \<Rightarrow> mlo" where
  "ieee80211_activate_links_work env in_reconfig s =
     (let s = s\<lparr> activate_links_work := False \<rparr>
      in if in_reconfig then s
         else (fst (ieee80211_set_active_links env (desired_active_links s) s))\<lparr> desired_active_links := 0 \<rparr>)"

subsection \<open>Applying a mapping\<close>

text \<open>\<^verbatim>\<open>BIT(__ffs(w))\<close>; the code calls it with a bitmap that is not empty.\<close>

definition lowest_link :: "u16 \<Rightarrow> u16" where
  "lowest_link w = (case links_of w of [] \<Rightarrow> 0 | i # _ \<Rightarrow> set_bit i 0)"

definition disconnect :: "mlo \<Rightarrow> mlo" where
  "disconnect s = s\<lparr> disconnecting := True \<rparr>"

definition ieee80211_ttlm_set_links :: "mlo_env \<Rightarrow> u16 \<Rightarrow> u16 \<Rightarrow> u16 \<Rightarrow> mlo \<Rightarrow> mlo \<times> int" where
  "ieee80211_ttlm_set_links env active dormant suspended s =
     (if active = 0 then (disconnect s, ERR_INVAL)
      else let s = (if neg_valid (vif_neg s) then s\<lparr> vif_neg := zero_neg, suspended_links := 0 \<rparr> else s);
               (s, ret) =
                 (if active_links s \<noteq> active
                  then let kept = active AND active_links s;
                           a = (if kept = 0 then lowest_link (valid_links s AND NOT dormant) else kept)
                       in ieee80211_set_active_links env a s
                  else (s, 0))
           in if ret \<noteq> 0 then (disconnect s, ret)
              else let (s, ret) = ieee80211_vif_set_links env (valid_links s) dormant s
                   in if ret \<noteq> 0 then (disconnect s, ret) else (s\<lparr> suspended_links := suspended \<rparr>, 0))"

definition neg_map :: "neg_ttlm \<Rightarrow> u16" where
  "neg_map neg = foldr (OR) (downlink neg @ uplink neg) 0"

definition ieee80211_apply_neg_ttlm :: "mlo_env \<Rightarrow> neg_ttlm \<Rightarrow> mlo \<Rightarrow> mlo" where
  "ieee80211_apply_neg_ttlm env neg s =
     (let s = (if neg_valid (vif_neg s) then s\<lparr> dormant_links := dormant_links s AND NOT (suspended_links s) \<rparr> else s);
          new_active = neg_map neg AND valid_links s AND NOT (dormant_links s);
          new_suspended = NOT (neg_map neg) AND valid_links s AND NOT (dormant_links s);
          new_dormant = dormant_links s OR new_suspended;
          (s, ret) = ieee80211_ttlm_set_links env new_active new_dormant new_suspended s
      in if ret \<noteq> 0 then s else s\<lparr> vif_neg := neg\<lparr> neg_valid := True \<rparr> \<rparr>)"

subsection \<open>Negotiated mappings\<close>

definition ieee80211_send_neg_ttlm_req :: "mlo_env \<Rightarrow> neg_ttlm \<Rightarrow> u8 \<Rightarrow> mlo \<Rightarrow> mlo" where
  "ieee80211_send_neg_ttlm_req env neg token s =
     (if \<not> skb_alloc env then s
      else s\<lparr> sent := sent s @ [Ttlm_Req token (ieee80211_neg_ttlm_add_suggested_map neg)] \<rparr>)"

definition ieee80211_send_neg_ttlm_res :: "mlo_env \<Rightarrow> int \<Rightarrow> u8 \<Rightarrow> neg_ttlm \<Rightarrow> mlo \<Rightarrow> mlo" where
  "ieee80211_send_neg_ttlm_res env res token neg s =
     (if \<not> skb_alloc env then s
      else let (status, body) =
                 (if res = NEG_TTLM_RES_ACCEPT then (0, [])
                  else if res = NEG_TTLM_RES_SUGGEST_PREFERRED then (134, ieee80211_neg_ttlm_add_suggested_map neg)
                  else (133, []))
           in s\<lparr> sent := sent s @ [Ttlm_Res token status body] \<rparr>)"

text \<open>
  A request of the AP: \<open>elems\<close> is what the element parser returns for its body.  \<open>None\<close> is a read behind
  the end of an element.
\<close>

definition ieee80211_process_neg_ttlm_req :: "mlo_env \<Rightarrow> u8 \<Rightarrow> elems_parse option \<Rightarrow> mlo \<Rightarrow> mlo option" where
  "ieee80211_process_neg_ttlm_req env token elems s =
     (if \<not> ieee80211_vif_is_mld s then Some s
      else (case elems of
              None \<Rightarrow> Some (ieee80211_send_neg_ttlm_res env NEG_TTLM_RES_REJECT token zero_neg s)
            | Some e \<Rightarrow>
                read_neg_ttlm_req (valid_links s) (ttlm e) \<bind> (\<lambda>(ok, neg).
                  if \<not> ok then Some (ieee80211_send_neg_ttlm_res env NEG_TTLM_RES_REJECT token neg s)
                  else let (res, neg) = drv_can_neg_ttlm env neg s;
                           s = (if res \<noteq> NEG_TTLM_RES_ACCEPT then s else ieee80211_apply_neg_ttlm env neg s)
                       in Some (ieee80211_send_neg_ttlm_res env res token neg s))))"

text \<open>A request of user space, with the maps of \<^verbatim>\<open>struct cfg80211_ttlm_params\<close>.\<close>

definition ieee80211_req_neg_ttlm :: "mlo_env \<Rightarrow> u16 list \<Rightarrow> u16 list \<Rightarrow> mlo \<Rightarrow> mlo \<times> int" where
  "ieee80211_req_neg_ttlm env dlink ulink s =
     (if \<not> ieee80211_vif_is_mld s \<or> \<not> has_flag (mld_capa s) 0x0060 then (s, ERR_INVAL)
      else let neg = zero_neg\<lparr> downlink := dlink, uplink := ulink \<rparr>
           in if \<not> neg_links_valid (valid_links s) neg then (s, ERR_INVAL)
              else let (res, neg) = drv_can_neg_ttlm env neg s
                   in if res \<noteq> NEG_TTLM_RES_ACCEPT then (s, ERR_INVAL)
                      else let s = ieee80211_apply_neg_ttlm env neg s;
                               s = s\<lparr> dialog_token_alloc := dialog_token_alloc s + 1 \<rparr>;
                               s = ieee80211_send_neg_ttlm_req env (vif_neg s) (dialog_token_alloc s) s
                           in (s\<lparr> neg_timeout_work := True \<rparr>, 0))"

definition ieee80211_process_neg_ttlm_res :: "u8 \<Rightarrow> u16 \<Rightarrow> mlo \<Rightarrow> mlo" where
  "ieee80211_process_neg_ttlm_res token status s =
     (if \<not> ieee80211_vif_is_mld s \<or> token \<noteq> dialog_token_alloc s then s
      else let s = s\<lparr> neg_timeout_work := False \<rparr>
           in if status \<noteq> 0 then disconnect s else s)"

definition ieee80211_neg_ttlm_timeout_work :: "mlo \<Rightarrow> mlo" where
  "ieee80211_neg_ttlm_timeout_work s = disconnect (s\<lparr> neg_timeout_work := False \<rparr>)"

definition ieee80211_process_ttlm_teardown :: "mlo_env \<Rightarrow> mlo \<Rightarrow> mlo" where
  "ieee80211_process_ttlm_teardown env s =
     (if \<not> neg_valid (vif_neg s) then s
      else let new_dormant = dormant_links s AND NOT (suspended_links s)
           in fst (ieee80211_vif_set_links env (valid_links s) new_dormant
                     (s\<lparr> vif_neg := zero_neg, suspended_links := 0 \<rparr>)))"

definition ieee80211_teardown_ttlm_work :: "mlo_env \<Rightarrow> mlo \<Rightarrow> mlo" where
  "ieee80211_teardown_ttlm_work env s = ieee80211_process_ttlm_teardown env (s\<lparr> teardown_work := False \<rparr>)"

definition ieee80211_send_teardown_neg_ttlm :: "mlo_env \<Rightarrow> mlo \<Rightarrow> mlo" where
  "ieee80211_send_teardown_neg_ttlm env s =
     (if \<not> skb_alloc env then s else s\<lparr> sent := sent s @ [Ttlm_Teardown] \<rparr>)"

text \<open>The transmit status of the teardown frame.\<close>

definition ieee80211_handle_teardown_ttlm_status :: "bool \<Rightarrow> mlo \<Rightarrow> mlo" where
  "ieee80211_handle_teardown_ttlm_status acked s =
     (if \<not> sdata_running s then s
      else if \<not> acked then s
      else if vif_type s \<noteq> IF_STATION then s
      else s\<lparr> teardown_work := True \<rparr>)"

subsection \<open>Advertised mappings\<close>

definition ieee80211_tid_to_link_map_work :: "mlo_env \<Rightarrow> mlo \<Rightarrow> mlo" where
  "ieee80211_tid_to_link_map_work env s =
     (let s = s\<lparr> ttlm_work := None \<rparr>;
          new_active = adv_map (ttlm_info s) AND valid_links s;
          new_dormant = NOT (adv_map (ttlm_info s)) AND valid_links s;
          s = fst (ieee80211_vif_set_links env (valid_links s) 0 s);
          (s, ret) = ieee80211_ttlm_set_links env new_active new_dormant 0 s
      in if ret \<noteq> 0 then s else s\<lparr> ttlm_info := (ttlm_info s)\<lparr> adv_active := True, switch_time := 0 \<rparr> \<rparr>)"

abbreviation (input) ADV_TTLM_SAFETY_BUFFER :: nat where "ADV_TTLM_SAFETY_BUFFER \<equiv> 100000"
abbreviation (input) ADV_TTLM_ST_UNDERFLOW :: u16 where "ADV_TTLM_ST_UNDERFLOW \<equiv> 0xff00"

definition ieee80211_tu_to_usec :: "nat \<Rightarrow> nat" where
  "ieee80211_tu_to_usec tu = 1024 * tu"

text \<open>The time from the beacon to the switch in TUs, of which the element has 16 bits.\<close>

definition adv_switch_delay :: "u16 \<Rightarrow> u64 \<Rightarrow> u16" where
  "adv_switch_delay st_tu beacon_ts = st_tu - ucast (drop_bit 10 (beacon_ts AND 0x3fffc00))"

fun adv_ttlm_loop :: "u64 \<Rightarrow> u8 list list \<Rightarrow> mlo \<Rightarrow> mlo option" where
  "adv_ttlm_loop beacon_ts [] s = Some s"
| "adv_ttlm_loop beacon_ts (d # ds) s =
     ieee80211_parse_adv_t2l d \<bind> (\<lambda>(ret, info).
       if ret \<noteq> 0 then Some (disconnect s)
       else if switch_time info \<noteq> 0
       then (let delay = adv_switch_delay (switch_time info) beacon_ts
             in if ADV_TTLM_ST_UNDERFLOW < delay then Some s
                else let usec = ieee80211_tu_to_usec (unat delay)
                     in Some (s\<lparr> ttlm_info := info,
                               ttlm_work := Some (if ADV_TTLM_SAFETY_BUFFER < usec then usec - ADV_TTLM_SAFETY_BUFFER else 0) \<rparr>))
       else adv_ttlm_loop beacon_ts ds s)"

definition ieee80211_process_adv_ttlm :: "mlo_env \<Rightarrow> u8 list list \<Rightarrow> u64 \<Rightarrow> mlo \<Rightarrow> mlo option" where
  "ieee80211_process_adv_ttlm env ttlms beacon_ts s =
     (if \<not> ieee80211_vif_is_mld s then Some s
      else if ttlms = []
      then (if switch_time (ttlm_info s) \<noteq> 0 then Some (s\<lparr> ttlm_work := None, ttlm_info := zero_adv \<rparr>)
            else if adv_active (ttlm_info s)
            then (let (s, ret) = ieee80211_vif_set_links env (valid_links s) 0 s
                  in if ret \<noteq> 0 then Some s else Some (s\<lparr> ttlm_info := zero_adv \<rparr>))
            else Some (s\<lparr> ttlm_info := zero_adv \<rparr>))
      else adv_ttlm_loop beacon_ts ttlms s)"

subsection \<open>Removal of links\<close>

abbreviation (input) RECONF_CONTROL_STA_MAC_ADDR_PRESENT :: u16 where "RECONF_CONTROL_STA_MAC_ADDR_PRESENT \<equiv> 0x0020"
abbreviation (input) RECONF_CONTROL_AP_REM_TIMER_PRESENT :: u16 where "RECONF_CONTROL_AP_REM_TIMER_PRESENT \<equiv> 0x0040"
abbreviation (input) RECONF_CONTROL_OPERATION_PARAMS_PRESENT :: u16 where "RECONF_CONTROL_OPERATION_PARAMS_PRESENT \<equiv> 0x0800"

definition ieee80211_mle_reconf_sta_prof_size_ok :: "u8 list \<Rightarrow> bool" where
  "ieee80211_mle_reconf_sta_prof_size_ok d \<longleftrightarrow>
     (if length d < 3 then False
      else let control = sta_prof_control d;
               info_len = 1 + (if has_flag control RECONF_CONTROL_STA_MAC_ADDR_PRESENT then 6 else 0)
                            + (if has_flag control RECONF_CONTROL_AP_REM_TIMER_PRESENT then 2 else 0)
                            + (if has_flag control RECONF_CONTROL_OPERATION_PARAMS_PRESENT then 2 else 0)
           in info_len \<le> unat (d ! 2) \<and> 3 + unat (d ! 2) - 1 \<le> length d)"

text \<open>
  The loop over the subelements, on \<^verbatim>\<open>removed_links\<close> and the array \<^verbatim>\<open>link_removal_timeout\<close> of 15 entries: an
  early return, a write behind the end of the array, or the end of the loop.
\<close>

datatype reconf_result = Reconf_Return | Reconf_Overflow | Reconf_Links u16 "u16 list"

definition reconf_timer_pos :: "u16 \<Rightarrow> nat" where
  "reconf_timer_pos control = 3 + (if has_flag control RECONF_CONTROL_STA_MAC_ADDR_PRESENT then 6 else 0)"

fun ml_reconf_loop :: "element list \<Rightarrow> u16 \<Rightarrow> u16 list \<Rightarrow> reconf_result" where
  "ml_reconf_loop [] removed timeouts = Reconf_Links removed timeouts"
| "ml_reconf_loop (sub # subs) removed timeouts =
     (if elem_id sub \<noteq> MLE_SUBELEM_PER_STA_PROFILE then ml_reconf_loop subs removed timeouts
      else if \<not> ieee80211_mle_reconf_sta_prof_size_ok (elem_data sub) then Reconf_Return
      else let control = sta_prof_control (elem_data sub); link_id = unat (control AND 0x000f);
               removed = set_bit link_id removed
           in if \<not> has_flag control RECONF_CONTROL_AP_REM_TIMER_PRESENT then ml_reconf_loop subs removed timeouts
              else if link_id < length timeouts
              then ml_reconf_loop subs removed (timeouts[link_id := get_unaligned_le16 (elem_data sub) (reconf_timer_pos control)])
              else Reconf_Overflow)"

fun reconf_delay :: "(nat \<Rightarrow> u16) \<Rightarrow> u16 list \<Rightarrow> nat list \<Rightarrow> u32 \<Rightarrow> u32" where
  "reconf_delay beacon_int timeouts [] delay = delay"
| "reconf_delay beacon_int timeouts (i # links) delay =
     (let link_delay = (if timeouts ! i < 1 then 0 else ucast (beacon_int i) * (ucast (timeouts ! i) - 1))
      in reconf_delay beacon_int timeouts links (if delay = 0 then link_delay else min delay link_delay))"

text \<open>\<open>None\<close> is the write behind the end of the array.\<close>

definition ieee80211_ml_reconfiguration :: "(nat \<Rightarrow> u16) \<Rightarrow> elems_parse \<Rightarrow> mlo \<Rightarrow> mlo option" where
  "ieee80211_ml_reconfiguration beacon_int elems s =
     (case elem_ptr elems F_ml_reconf of
        None \<Rightarrow> Some s
      | Some ml \<Rightarrow>
          if \<not> ieee80211_vif_is_mld s then Some s
          else (case ml_reconf_loop (for_each_mle_subelement ml) 0 (replicate MLD_MAX_NUM_LINKS 0) of
                  Reconf_Return \<Rightarrow> Some s
                | Reconf_Overflow \<Rightarrow> None
                | Reconf_Links removed timeouts \<Rightarrow>
                    let removed = removed AND valid_links s
                    in if removed = 0
                       then Some (if removed_links s \<noteq> 0 then s\<lparr> removed_links := 0, ml_reconf_work := None \<rparr> else s)
                       else Some (s\<lparr> removed_links := removed,
                              ml_reconf_work := Some (ieee80211_tu_to_usec (unat
                                (reconf_delay beacon_int timeouts (filter (bit removed) [0..<MLD_MAX_NUM_LINKS]) 0))) \<rparr>)))"

definition ieee80211_ml_reconf_work :: "mlo_env \<Rightarrow> mlo \<Rightarrow> mlo" where
  "ieee80211_ml_reconf_work env s =
     (let s = s\<lparr> ml_reconf_work := None \<rparr>; new_valid = valid_links s AND NOT (removed_links s)
      in if removed_links s = 0 then s
         else if new_valid = valid_links s then s
         else if new_valid = 0 \<or> new_valid AND NOT (dormant_links s) = 0
         then (disconnect s)\<lparr> removed_links := 0 \<rparr>
         else let kept = active_links s AND NOT (removed_links s);
                  (s, ret) = (if kept \<noteq> active_links s
                              then ieee80211_set_active_links env
                                     (if kept = 0 then lowest_link (new_valid AND NOT (dormant_links s)) else kept) s
                              else (s, 0))
              in if ret \<noteq> 0 then (disconnect s)\<lparr> removed_links := 0 \<rparr>
                 else let (s, ret) = ieee80211_vif_set_links env new_valid (dormant_links s AND NOT (removed_links s)) s
                      in (if ret \<noteq> 0 then disconnect s else s)\<lparr> removed_links := 0 \<rparr>)"

subsection \<open>Association and disassociation\<close>

text \<open>The link of the authentication or association request.\<close>

definition mlo_prep_connection :: "mlo_env \<Rightarrow> nat \<Rightarrow> mlo \<Rightarrow> mlo" where
  "mlo_prep_connection env link_id s = fst (ieee80211_vif_set_links env (set_bit link_id 0) 0 s)"

text \<open>
  The links of an association response: \<open>valid\<close> are those that were requested, \<open>rejected\<close> those whose status is
  not success.  The results are the state, the dormant links and whether the function goes on (\<^verbatim>\<open>goto out_err\<close>
  otherwise); \<open>None\<close> is a read behind the end of the element.  A link that could not be set up is missed in the
  loop over the links.
\<close>

definition assoc_ttlm :: "u16 \<Rightarrow> u8 list list \<Rightarrow> mlo \<Rightarrow> (mlo \<times> u16 \<times> bool) option" where
  "assoc_ttlm valid ttlms s =
     (if 1 < length ttlms then Some (s, 0, False)
      else if ttlms = [] then Some (s, 0, True)
      else ieee80211_parse_adv_t2l (ttlms ! 0) \<bind> (\<lambda>(ret, info).
             Some (if ret \<noteq> 0 \<or> switch_time info \<noteq> 0 \<or> valid AND adv_map info = 0
                   then (s\<lparr> ttlm_info := info \<rparr>, 0, False)
                   else (s\<lparr> ttlm_info := info\<lparr> adv_active := True \<rparr> \<rparr>, valid AND NOT (adv_map info), True))))"

definition assoc_links :: "mlo_env \<Rightarrow> u16 \<Rightarrow> u16 \<Rightarrow> u8 list list \<Rightarrow> mlo \<Rightarrow> (mlo \<times> bool) option" where
  "assoc_links env valid rejected ttlms s =
     assoc_ttlm valid ttlms s \<bind> (\<lambda>(s, dormant, ok).
       Some (if \<not> ok then (s, False)
             else let s = fst (ieee80211_vif_set_links env valid dormant s)
                  in if valid AND NOT (valid_links s) \<noteq> 0 then (s, False)
                     else (fst (ieee80211_vif_set_links env (valid AND NOT rejected) dormant s), True)))"

text \<open>A failed association gives the links up.\<close>

definition assoc_failed :: "mlo_env \<Rightarrow> mlo \<Rightarrow> mlo" where
  "assoc_failed env s = fst (ieee80211_vif_set_links env 0 0 s)"

text \<open>What \<^verbatim>\<open>ieee80211_set_disassoc\<close> resets of this state.\<close>

definition mlo_set_disassoc :: "mlo_env \<Rightarrow> mlo \<Rightarrow> mlo" where
  "mlo_set_disassoc env s =
     fst (ieee80211_vif_set_links env 0 0
       (s\<lparr> ttlm_info := zero_adv, ttlm_work := None, vif_neg := zero_neg, neg_timeout_work := False, removed_links := 0,
          ml_reconf_work := None, teardown_work := False, disconnecting := False \<rparr>))"

end
