(* ===== verification/Mlo_Inv.thy ===== *)
theory Mlo_Inv
  imports Mlo_Links
begin

text \<open>
  What holds of the links of a station in every reachable state, whatever frames, requests, work items and
  driver results occur: there is always an active link, and active links are valid and not dormant.
\<close>

subsection \<open>Bitmaps of links\<close>

named_theorems link_bits

definition links_within :: "u16 \<Rightarrow> u16 \<Rightarrow> bool" where
  "links_within a b \<longleftrightarrow> a AND NOT b = 0"

lemma bit_u16_lt: "bit (a :: u16) n \<Longrightarrow> n < 16"
  using bit_imp_le_length[of a n] by simp

lemma links_within_iff [link_bits]: "links_within a b \<longleftrightarrow> (\<forall>n. bit a n \<longrightarrow> bit b n)"
  unfolding links_within_def by (auto simp: bit_eq_iff bit_and_iff bit_not_iff dest: bit_u16_lt)

lemma no_links_iff [link_bits]: "a = (0 :: u16) \<longleftrightarrow> (\<forall>n. \<not> bit a n)"
  by (auto simp: bit_eq_iff dest: bit_u16_lt)

lemma no_links_left_iff [link_bits]: "a AND b = (0 :: u16) \<longleftrightarrow> (\<forall>n. \<not> (bit a n \<and> bit b n))"
  by (auto simp: bit_eq_iff bit_and_iff dest: bit_u16_lt)

lemma bit_link_ops [link_bits]:
  "bit (a AND b :: u16) n \<longleftrightarrow> bit a n \<and> bit b n" "bit (a OR b :: u16) n \<longleftrightarrow> bit a n \<or> bit b n"
  "bit (NOT a :: u16) n \<longleftrightarrow> n < 16 \<and> \<not> bit a n"
  by (auto simp: bit_and_iff bit_or_iff bit_not_iff)

lemma lowest_link_within: "w \<noteq> 0 \<Longrightarrow> links_within (lowest_link w) w \<and> lowest_link w \<noteq> 0"
proof -
  assume "w \<noteq> 0"
  then obtain n where "bit w n" "n < 16" by (auto simp: no_links_iff dest: bit_u16_lt)
  then have "n \<in> set (links_of w)" by (simp add: links_of_def)
  then obtain i rest where i: "links_of w = i # rest" by (cases "links_of w") auto
  then have "i \<in> set (links_of w)" by simp
  then have "bit w i" "i < 16" by (auto simp: links_of_def)
  then show ?thesis using i
    by (auto simp: lowest_link_def links_within_iff no_links_iff bit_exp_iff)
qed

subsection \<open>The invariant\<close>

definition links_ok :: "mlo \<Rightarrow> bool" where
  "links_ok s \<longleftrightarrow> vif_type s = IF_STATION \<and>
     (if valid_links s = 0 then active_links s = 0 \<and> dormant_links s = 0
      else links_within (dormant_links s) (valid_links s) \<and> active_links s \<noteq> 0 \<and>
           links_within (active_links s) (ieee80211_vif_usable_links s))"

lemma bitmaps_eq:
  assumes "vif_type s = IF_STATION" "active_links s \<noteq> 0" "links_within (active_links s) (valid AND NOT dormant)"
    "links_within dormant valid"
  shows "ieee80211_set_vif_links_bitmaps valid dormant s = s\<lparr> valid_links := valid, dormant_links := dormant \<rparr>"
proof -
  have "valid \<noteq> 0" "NOT valid AND dormant = 0" "valid AND NOT dormant \<noteq> 0"
    using assms(2-4) by (auto simp: link_bits dest: bit_u16_lt)
  then show ?thesis using assms by (simp add: ieee80211_set_vif_links_bitmaps_def Let_def)
qed

text \<open>
  Changing the valid or dormant links around the active ones: either both change, or, on an error, the
  valid links stay and the dormant ones change or stay.
\<close>

lemma set_links_cases:
  assumes "vif_type s = IF_STATION" "active_links s \<noteq> 0" "links_within (active_links s) (new AND NOT dormant)"
    "links_within (active_links s) (valid_links s AND NOT dormant)" "links_within dormant new"
    "links_within dormant (valid_links s)"
  obtains "ieee80211_vif_set_links env new dormant s = (s\<lparr> valid_links := new, dormant_links := dormant \<rparr>, 0)"
  | ret where "ret \<noteq> 0" "ieee80211_vif_set_links env new dormant s = (s\<lparr> dormant_links := dormant \<rparr>, ret)"
  | ret where "ret \<noteq> 0" "ieee80211_vif_set_links env new dormant s = (s, ret)" "new \<noteq> valid_links s"
proof -
  have "new \<noteq> 0" using assms(2,3) by (auto simp: link_bits)
  let ?t = "s\<lparr> valid_links := new, dormant_links := dormant \<rparr>"
  have t: "vif_type ?t = IF_STATION" "active_links ?t \<noteq> 0" "links_within (active_links ?t) (valid_links s AND NOT dormant)"
    using assms by simp_all
  have undo: "ieee80211_set_vif_links_bitmaps (valid_links s) dormant ?t = s\<lparr> dormant_links := dormant \<rparr>"
    using bitmaps_eq[OF t assms(6)] by simp
  have undo': "ieee80211_set_vif_links_bitmaps (valid_links s) dormant s = s\<lparr> dormant_links := dormant \<rparr>"
    using bitmaps_eq[OF assms(1,2,4,6)] by simp
  have same: "s\<lparr> valid_links := valid_links s, dormant_links := dormant_links s \<rparr> = s" by simp
  show thesis
  proof (cases "valid_links s = new \<and> dormant = dormant_links s")
    case True
    then show thesis using that(1) same by (simp add: ieee80211_vif_set_links_def)
  next
    case False
    show thesis
    proof (cases "list_all (link_alloc env) (filter (bit (new AND NOT (valid_links s))) [0..<MLD_MAX_NUM_LINKS])")
      case alloc: True
      show thesis
      proof (cases "ieee80211_check_dup_link_addrs env new")
        case True
        then show thesis using that(2)[of ERR_ALREADY] False alloc \<open>new \<noteq> 0\<close> undo'
          by (simp add: ieee80211_vif_set_links_def Let_def)
      next
        case nodup: False
        let ?r = "drv_change_vif_links env (valid_links s AND active_links s) (new AND active_links s) ?t"
        have "ieee80211_vif_set_links env new dormant s = (if ?r \<noteq> 0 then (s\<lparr> dormant_links := dormant \<rparr>, ?r) else (?t, 0))"
          using False alloc nodup \<open>new \<noteq> 0\<close> undo bitmaps_eq[OF assms(1,2,3,5)] assms(1)
          by (auto simp: ieee80211_vif_set_links_def Let_def)
        then show thesis using that(1,2) by (cases "?r = 0") simp_all
      qed
    next
      case noalloc: False
      then have "new \<noteq> valid_links s" by auto
      then show thesis using that(3)[of ERR_NOMEM] False noalloc by (simp add: ieee80211_vif_set_links_def Let_def)
    qed
  qed
qed

lemma set_links_ok:
  assumes "links_ok s" "active_links s \<noteq> 0" "links_within (active_links s) (new AND NOT dormant)"
    "links_within (active_links s) (valid_links s AND NOT dormant)" "links_within dormant new"
    "links_within dormant (valid_links s)"
  shows "links_ok (fst (ieee80211_vif_set_links env new dormant s))"
proof -
  have "vif_type s = IF_STATION" "valid_links s \<noteq> 0" "new \<noteq> 0"
    using assms(1-3) by (auto simp: links_ok_def link_bits split: if_splits)
  then show ?thesis
    using assms by (cases rule: set_links_cases[OF _ assms(2-6), of env])
      (simp_all add: links_ok_def ieee80211_vif_usable_links_def)
qed

text \<open>Changing the active links.\<close>

lemma set_active1_disj:
  "(\<exists>ret. set_active_links1 env a s = (s, ret) \<and> (ret = 0 \<longrightarrow> active_links s = a)) \<or>
   set_active_links1 env a s = (s\<lparr> active_links := a \<rparr>, 0) \<and> links_within a (ieee80211_vif_usable_links s)"
  unfolding set_active_links1_def Let_def links_within_def by simp

lemma set_active1_cases:
  obtains ret where "set_active_links1 env a s = (s, ret)" "ret = 0 \<longrightarrow> active_links s = a"
  | "set_active_links1 env a s = (s\<lparr> active_links := a \<rparr>, 0)" "links_within a (ieee80211_vif_usable_links s)"
  using set_active1_disj[of env a s] by blast

lemma set_active_cases:
  obtains ret where "ret \<noteq> 0" "ieee80211_set_active_links env a s = (s, ret)"
  | "ieee80211_set_active_links env a s = (s, 0)" "active_links s = a"
  | ret b where "ieee80211_set_active_links env a s = (s\<lparr> active_links := b \<rparr>, ret)" "b \<noteq> 0" "ret = 0 \<longrightarrow> b = a"
      "links_within b (ieee80211_vif_usable_links s)"
proof -
  consider "a = 0 \<or> active_links s \<noteq> a \<and> \<not> drv_can_activate_links env a s" | "a \<noteq> 0" "active_links s = a"
    | "a \<noteq> 0" "active_links s \<noteq> a" "drv_can_activate_links env a s" by blast
  then show thesis
  proof cases
    case 3
    let ?k = "active_links s AND a" and ?set = "ieee80211_set_active_links env a s"
    have set: "?set = (if ?k \<noteq> 0 then (if snd (set_active_links1 env ?k s) = 0
          then set_active_links1 env a (fst (set_active_links1 env ?k s)) else set_active_links1 env ?k s)
        else set_active_links1 env a s)"
      using 3 by (simp add: ieee80211_set_active_links_def Let_def split_def)
    have direct: thesis if "?set = set_active_links1 env a s"
      using set_active1_disj[of env a s]
    proof
      assume "\<exists>ret. set_active_links1 env a s = (s, ret) \<and> (ret = 0 \<longrightarrow> active_links s = a)"
      then show thesis using that \<open>\<And>ret. ret \<noteq> 0 \<Longrightarrow> ?set = (s, ret) \<Longrightarrow> thesis\<close> 3(2) by fastforce
    qed (use that \<open>\<And>b ret. ?set = (s\<lparr> active_links := b \<rparr>, ret) \<Longrightarrow> b \<noteq> 0 \<Longrightarrow> ret = 0 \<longrightarrow> b = a \<Longrightarrow>
        links_within b (ieee80211_vif_usable_links s) \<Longrightarrow> thesis\<close> 3(1) in auto)
    show thesis
    proof (cases "?k = 0")
      case True
      then have "?set = set_active_links1 env a s" using set by simp
      then show thesis by (rule direct)
    next
      case False
      show thesis
      proof (cases rule: set_active1_cases[of env ?k s])
        case (1 ret)
        have "?set = (s, ret)" if "ret \<noteq> 0" using set 1 False that by simp
        moreover have "?set = set_active_links1 env a s" if "ret = 0" using set 1 False that by simp
        ultimately show thesis using that(1)[of ret] direct by blast
      next
        case first: 2
        let ?u = "s\<lparr> active_links := ?k \<rparr>"
        have eq: "?set = set_active_links1 env a ?u" using set first False by simp
        have u: "ieee80211_vif_usable_links ?u = ieee80211_vif_usable_links s" by (simp add: ieee80211_vif_usable_links_def)
        show thesis
          using set_active1_disj[of env a ?u]
        proof
          assume "\<exists>ret. set_active_links1 env a ?u = (?u, ret) \<and> (ret = 0 \<longrightarrow> active_links ?u = a)"
          then obtain ret where ret: "set_active_links1 env a ?u = (?u, ret)" "ret = 0 \<longrightarrow> ?k = a" by auto
          show thesis by (rule that(3)[of ?k ret]) (use eq ret False first(2) in auto)
        next
          assume *: "set_active_links1 env a ?u = (?u\<lparr> active_links := a \<rparr>, 0) \<and> links_within a (ieee80211_vif_usable_links ?u)"
          show thesis by (rule that(3)[of a 0]) (use eq u * 3(1) in auto)
        qed
      qed
    qed
  next
    case 1
    then have "ieee80211_set_active_links env a s = (s, ERR_INVAL)" by (auto simp: ieee80211_set_active_links_def Let_def)
    then show thesis using that(1)[of ERR_INVAL] by simp
  next
    case 2
    then have "ieee80211_set_active_links env a s = (s, 0)" by (simp add: ieee80211_set_active_links_def)
    then show thesis using that(2) 2 by simp
  qed
qed

lemma set_active_ok:
  assumes "links_ok s" "valid_links s \<noteq> 0"
  shows "links_ok (fst (ieee80211_set_active_links env a s))"
  using assms
  by (cases rule: set_active_cases[of env a s]) (auto simp: links_ok_def ieee80211_vif_usable_links_def)

subsection \<open>Mappings\<close>

text \<open>What a mapping does that is applied: on an error the links stay usable, otherwise exactly the links of the mapping do.\<close>

definition forget_neg :: "mlo \<Rightarrow> mlo" where
  "forget_neg s = (if neg_valid (vif_neg s) then s\<lparr> vif_neg := zero_neg, suspended_links := 0 \<rparr> else s)"

lemma forget_neg_simps [simp]:
  "vif_type (forget_neg s) = vif_type s" "valid_links (forget_neg s) = valid_links s" "active_links (forget_neg s) = active_links s"
  "dormant_links (forget_neg s) = dormant_links s" "ieee80211_vif_usable_links (forget_neg s) = ieee80211_vif_usable_links s"
  "links_ok (forget_neg s) = links_ok s" "in_driver (forget_neg s) = in_driver s" "disconnecting (forget_neg s) = disconnecting s"
  "neg_valid (vif_neg (forget_neg s)) = False"
  by (auto simp: forget_neg_def ieee80211_vif_usable_links_def links_ok_def zero_neg_def)

lemma disconnect_ok [simp]: "links_ok (disconnect s) = links_ok s" "valid_links (disconnect s) = valid_links s"
  by (simp_all add: disconnect_def links_ok_def ieee80211_vif_usable_links_def)

lemma ttlm_set_links_cases:
  assumes "links_ok s" "valid_links s \<noteq> 0" "links_within dormant (valid_links s)" "active = valid_links s AND NOT dormant"
    "links_within active (ieee80211_vif_usable_links s)"
  obtains "ieee80211_ttlm_set_links env active dormant suspended s = (disconnect s, ERR_INVAL)" "active = 0"
  | ret b d where "ret \<noteq> 0"
      "ieee80211_ttlm_set_links env active dormant suspended s =
         (disconnect ((forget_neg s)\<lparr> active_links := b, dormant_links := d \<rparr>), ret)"
      "links_ok ((forget_neg s)\<lparr> active_links := b, dormant_links := d \<rparr>)"
  | b where "ieee80211_ttlm_set_links env active dormant suspended s =
      ((forget_neg s)\<lparr> active_links := b, dormant_links := dormant, suspended_links := suspended \<rparr>, 0)"
      "b \<noteq> 0" "links_within b active" "active \<noteq> 0"
proof (cases "active = 0")
  case True
  then show thesis using that(1) by (simp add: ieee80211_ttlm_set_links_def)
next
  case nonzero: False
  define u where "u = forget_neg s"
  define kept where "kept = active AND active_links s"
  define a where "a = (if kept = 0 then lowest_link active else kept)"
  have a: "a \<noteq> 0" "links_within a active"
    using nonzero lowest_link_within[of active] by (auto simp: a_def kept_def link_bits)
  define step where "step = (if active_links s \<noteq> active then ieee80211_set_active_links env a u else (u, 0))"
  have code: "ieee80211_ttlm_set_links env active dormant suspended s =
      (if snd step \<noteq> 0 then (disconnect (fst step), snd step)
       else let r = ieee80211_vif_set_links env (valid_links (fst step)) dormant (fst step)
            in if snd r \<noteq> 0 then (disconnect (fst r), snd r) else ((fst r)\<lparr> suspended_links := suspended \<rparr>, 0))"
    using nonzero
    by (simp add: ieee80211_ttlm_set_links_def Let_def split_def flip: forget_neg_def assms(4))
       (simp add: step_def a_def kept_def u_def split_def flip: assms(4))
  consider (fail) b where "snd step \<noteq> 0" "fst step = u\<lparr> active_links := b \<rparr>" "links_ok (u\<lparr> active_links := b \<rparr>)"
    | (good) b where "step = (u\<lparr> active_links := b \<rparr>, 0)" "b \<noteq> 0" "links_within b active"
  proof (cases "active_links s = active")
    case True
    then have "step = (u\<lparr> active_links := active \<rparr>, 0)" by (simp add: step_def u_def)
    then show thesis using good[of active] nonzero by (simp add: links_within_iff)
  next
    case False
    then have st: "step = ieee80211_set_active_links env a u" by (simp add: step_def)
    have same: "u\<lparr> active_links := active_links u \<rparr> = u" by simp
    show thesis
    proof (cases rule: set_active_cases[of env a u])
      case (1 ret)
      moreover have "links_ok u" using assms(1) by (simp add: u_def)
      ultimately show thesis using fail[of "active_links u"] st same by simp
    next
      case 2
      then show thesis using good[of a] st a same by simp
    next
      case (3 ret b)
      have "links_ok (u\<lparr> active_links := b \<rparr>)"
        using assms(1,2) 3(2,4) by (simp add: u_def links_ok_def ieee80211_vif_usable_links_def)
      then show thesis using fail[of b] good[of a] st 3 a by (cases "ret = 0") auto
    qed
  qed
  then show thesis
  proof cases
    case (fail b)
    moreover have "u\<lparr> active_links := b, dormant_links := dormant_links u \<rparr> = u\<lparr> active_links := b \<rparr>" by simp
    moreover have "ieee80211_ttlm_set_links env active dormant suspended s = (disconnect (u\<lparr> active_links := b \<rparr>), snd step)"
      using code fail by simp
    ultimately show thesis using that(2)[of "snd step" "dormant_links u" b, folded u_def] by simp
  next
    case (good b)
    let ?v = "u\<lparr> active_links := b \<rparr>"
    have v: "vif_type ?v = IF_STATION" "active_links ?v \<noteq> 0" "links_within (active_links ?v) (valid_links ?v AND NOT dormant)"
      "links_within dormant (valid_links ?v)"
      using assms good by (simp_all add: u_def links_ok_def)
    show thesis
    proof (cases rule: set_links_cases[OF v(1,2,3,3,4,4), of env])
      case 1
      then show thesis using code good that(3)[of b] nonzero by (simp add: Let_def u_def)
    next
      case (2 ret)
      moreover have "links_ok (u\<lparr> active_links := b, dormant_links := dormant \<rparr>)"
        using v assms(2) by (simp add: links_ok_def ieee80211_vif_usable_links_def u_def)
      ultimately show thesis using code good that(2)[of ret dormant b] by (simp add: Let_def u_def)
    qed simp
  qed
qed

lemma ttlm_set_links_ok:
  assumes "links_ok s" "valid_links s \<noteq> 0" "links_within dormant (valid_links s)" "active = valid_links s AND NOT dormant"
    "links_within active (ieee80211_vif_usable_links s)"
  shows "links_ok (fst (ieee80211_ttlm_set_links env active dormant suspended s))"
proof (cases rule: ttlm_set_links_cases[OF assms, of env suspended])
  case (3 b)
  then show ?thesis using assms by (simp add: links_ok_def ieee80211_vif_usable_links_def)
qed (use assms(1) in simp_all)

lemma suspend_split:
  fixes valid dormant m :: u16
  shows "valid AND NOT (dormant OR (NOT m AND valid AND NOT dormant)) = m AND valid AND NOT dormant"
  by (rule bit_eqI) (auto simp: link_bits dest: bit_u16_lt)

text \<open>The state from which \<^verbatim>\<open>ieee80211_apply_neg_ttlm\<close> counts: suspended links are usable again.\<close>

definition unsuspended :: "mlo \<Rightarrow> mlo" where
  "unsuspended s = (if neg_valid (vif_neg s) then s\<lparr> dormant_links := dormant_links s AND NOT (suspended_links s) \<rparr> else s)"

lemma unsuspended_simps [simp]:
  "valid_links (unsuspended s) = valid_links s" "active_links (unsuspended s) = active_links s" "vif_type (unsuspended s) = vif_type s"
  "in_driver (unsuspended s) = in_driver s" "disconnecting (unsuspended s) = disconnecting s" "vif_neg (unsuspended s) = vif_neg s"
  by (simp_all add: unsuspended_def)

lemma unsuspended_ok: "links_ok s \<Longrightarrow> links_ok (unsuspended s)"
  by (cases "valid_links s = 0")
     (auto simp: links_ok_def unsuspended_def ieee80211_vif_usable_links_def links_within_iff bit_link_ops)

definition neg_active :: "neg_ttlm \<Rightarrow> mlo \<Rightarrow> u16" where
  "neg_active neg s = neg_map neg AND valid_links s AND NOT (dormant_links (unsuspended s))"

definition neg_suspended :: "neg_ttlm \<Rightarrow> mlo \<Rightarrow> u16" where
  "neg_suspended neg s = NOT (neg_map neg) AND valid_links s AND NOT (dormant_links (unsuspended s))"

lemma apply_neg_conv:
  "ieee80211_apply_neg_ttlm env neg s =
     (let (t, ret) = ieee80211_ttlm_set_links env (neg_active neg s) (dormant_links (unsuspended s) OR neg_suspended neg s)
                       (neg_suspended neg s) (unsuspended s)
      in if ret \<noteq> 0 then t else t\<lparr> vif_neg := neg\<lparr> neg_valid := True \<rparr> \<rparr>)"
  by (simp add: ieee80211_apply_neg_ttlm_def Let_def split_def neg_active_def neg_suspended_def unsuspended_def)

lemma apply_neg_premises:
  assumes "links_ok s" "valid_links s \<noteq> 0"
  shows "links_ok (unsuspended s)" "valid_links (unsuspended s) \<noteq> 0"
    "links_within (dormant_links (unsuspended s) OR neg_suspended neg s) (valid_links (unsuspended s))"
    "neg_active neg s = valid_links (unsuspended s) AND NOT (dormant_links (unsuspended s) OR neg_suspended neg s)"
    "links_within (neg_active neg s) (ieee80211_vif_usable_links (unsuspended s))"
proof -
  show u: "links_ok (unsuspended s)" using unsuspended_ok[OF assms(1)] .
  show "valid_links (unsuspended s) \<noteq> 0" using assms(2) by simp
  show "links_within (dormant_links (unsuspended s) OR neg_suspended neg s) (valid_links (unsuspended s))"
    using u assms(2) by (auto simp: links_ok_def neg_suspended_def link_bits split: if_splits)
  show "neg_active neg s = valid_links (unsuspended s) AND NOT (dormant_links (unsuspended s) OR neg_suspended neg s)"
    by (simp only: neg_active_def neg_suspended_def unsuspended_simps suspend_split)
  show "links_within (neg_active neg s) (ieee80211_vif_usable_links (unsuspended s))"
    by (auto simp: neg_active_def ieee80211_vif_usable_links_def link_bits)
qed

lemma vif_neg_irrelevant [simp]: "links_ok (s\<lparr> vif_neg := n \<rparr>) = links_ok s"
  by (simp add: links_ok_def ieee80211_vif_usable_links_def)

lemma apply_neg_ok:
  assumes "links_ok s" "valid_links s \<noteq> 0"
  shows "links_ok (ieee80211_apply_neg_ttlm env neg s)"
  using ttlm_set_links_ok[OF apply_neg_premises[OF assms]] by (simp add: apply_neg_conv split_def Let_def)

subsection \<open>Steps\<close>

lemma irrelevant_fields [simp]:
  "links_ok (s\<lparr> sent := x1 \<rparr>) = links_ok s" "links_ok (s\<lparr> dialog_token_alloc := x2 \<rparr>) = links_ok s"
  "links_ok (s\<lparr> neg_timeout_work := x3 \<rparr>) = links_ok s" "links_ok (s\<lparr> teardown_work := x4 \<rparr>) = links_ok s"
  "links_ok (s\<lparr> ttlm_info := x5 \<rparr>) = links_ok s" "links_ok (s\<lparr> ttlm_work := x6 \<rparr>) = links_ok s"
  "links_ok (s\<lparr> removed_links := x7 \<rparr>) = links_ok s" "links_ok (s\<lparr> ml_reconf_work := x8 \<rparr>) = links_ok s"
  "links_ok (s\<lparr> desired_active_links := x9 \<rparr>) = links_ok s" "links_ok (s\<lparr> activate_links_work := x10 \<rparr>) = links_ok s"
  "links_ok (s\<lparr> suspended_links := x11 \<rparr>) = links_ok s" "links_ok (s\<lparr> disconnecting := x12 \<rparr>) = links_ok s"
  by (simp_all add: links_ok_def ieee80211_vif_usable_links_def)

lemma sending_links_ok [simp]:
  "links_ok (ieee80211_send_neg_ttlm_req env neg tok s) = links_ok s"
  "links_ok (ieee80211_send_neg_ttlm_res env res tok neg s) = links_ok s"
  by (simp_all add: ieee80211_send_neg_ttlm_req_def ieee80211_send_neg_ttlm_res_def Let_def split_def)

lemma process_neg_req_ok:
  assumes "links_ok s" "ieee80211_process_neg_ttlm_req env token elems s = Some t"
  shows "links_ok t"
  using assms apply_neg_ok
  by (auto simp: ieee80211_process_neg_ttlm_req_def ieee80211_vif_is_mld_def Let_def split_def bind_eq_Some_conv
      split: if_splits option.splits)

lemma req_neg_ok: "links_ok s \<Longrightarrow> links_ok (fst (ieee80211_req_neg_ttlm env d u s))"
  using apply_neg_ok by (simp add: ieee80211_req_neg_ttlm_def ieee80211_vif_is_mld_def Let_def split_def)

text \<open>The dormant links can always shrink.\<close>

lemma fewer_dormant_ok:
  assumes "links_ok s" "valid_links s \<noteq> 0" "links_within d (dormant_links s)"
  shows "links_ok (fst (ieee80211_vif_set_links env (valid_links s) d s))"
  by (rule set_links_ok[OF assms(1)];
      use assms in \<open>auto simp: links_ok_def ieee80211_vif_usable_links_def links_within_iff bit_link_ops\<close>)

lemma fewer_dormant_links:
  assumes "links_ok s" "valid_links s \<noteq> 0" "links_within d (dormant_links s)"
  shows "valid_links (fst (ieee80211_vif_set_links env (valid_links s) d s)) = valid_links s \<and>
    dormant_links (fst (ieee80211_vif_set_links env (valid_links s) d s)) = d"
proof -
  have *: "vif_type s = IF_STATION" "active_links s \<noteq> 0" "links_within (active_links s) (valid_links s AND NOT d)"
    "links_within d (valid_links s)"
    using assms by (auto simp: links_ok_def ieee80211_vif_usable_links_def links_within_iff bit_link_ops)
  show ?thesis by (cases rule: set_links_cases[OF *(1,2,3,3,4,4), of env]) simp_all
qed

lemma no_mld_no_links: "links_ok s \<Longrightarrow> valid_links s = 0 \<Longrightarrow> dormant_links s = 0"
  by (simp add: links_ok_def)

lemma fewer_dormant_ok':
  assumes "links_ok s" "links_within d (dormant_links s)"
  shows "links_ok (fst (ieee80211_vif_set_links env (valid_links s) d s))"
proof (cases "valid_links s = 0")
  case True
  then have "d = dormant_links s" using no_mld_no_links[OF assms(1)] assms(2) by (simp add: links_within_def)
  then show ?thesis using assms(1) by (simp add: ieee80211_vif_set_links_def)
qed (use fewer_dormant_ok[OF assms(1) _ assms(2)] in simp)

lemma teardown_ok: "links_ok s \<Longrightarrow> links_ok (ieee80211_process_ttlm_teardown env s)"
  unfolding ieee80211_process_ttlm_teardown_def Let_def
  using fewer_dormant_ok'[of "s\<lparr> vif_neg := zero_neg, suspended_links := 0 \<rparr>" "dormant_links s AND NOT (suspended_links s)" env]
  by (simp add: links_within_iff bit_link_ops)

lemma activate_ok: "links_ok s \<Longrightarrow> links_ok (fst (ieee80211_set_active_links env a s))"
proof (cases "valid_links s = 0")
  case True
  assume "links_ok s"
  with True have "ieee80211_vif_usable_links s = 0" by (simp add: ieee80211_vif_usable_links_def)
  then show ?thesis using \<open>links_ok s\<close>
    by (cases rule: set_active_cases[of env a s]) (simp_all add: links_within_def)
qed (rule set_active_ok)

lemma map_work_ok:
  assumes "links_ok s" "valid_links s \<noteq> 0"
  shows "links_ok (ieee80211_tid_to_link_map_work env s)"
proof -
  let ?m = "adv_map (ttlm_info s)" and ?u = "s\<lparr> ttlm_work := None \<rparr>"
  define t where "t = fst (ieee80211_vif_set_links env (valid_links s) 0 ?u)"
  have t: "links_ok t" "valid_links t = valid_links s" "dormant_links t = 0"
    using fewer_dormant_ok[of ?u 0 env] fewer_dormant_links[of ?u 0 env] assms by (simp_all add: t_def links_within_def)
  have "links_ok (fst (ieee80211_ttlm_set_links env (?m AND valid_links s) (NOT ?m AND valid_links s) 0 t))"
  proof (rule ttlm_set_links_ok[OF t(1)])
    show "?m AND valid_links s = valid_links t AND NOT (NOT ?m AND valid_links s)"
      unfolding t(2) by (rule bit_eqI) (auto simp: bit_link_ops dest: bit_u16_lt)
  qed (use t assms in \<open>auto simp: links_within_iff bit_link_ops ieee80211_vif_usable_links_def dest: bit_u16_lt\<close>)
  then show ?thesis using t_def by (simp add: ieee80211_tid_to_link_map_work_def Let_def split_def)
qed

lemma adv_loop_ok: "links_ok s \<Longrightarrow> adv_ttlm_loop ts ds s = Some t \<Longrightarrow> links_ok t"
  by (induction ds) (auto simp: bind_eq_Some_conv Let_def split: if_splits)

lemma process_adv_ok:
  assumes "links_ok s" "ieee80211_process_adv_ttlm env ds ts s = Some t"
  shows "links_ok t"
  using assms adv_loop_ok fewer_dormant_ok'[OF assms(1), of 0 env]
  by (auto simp: ieee80211_process_adv_ttlm_def Let_def split_def links_within_def split: if_splits)

lemma reconf_elem_ok: "links_ok s \<Longrightarrow> ieee80211_ml_reconfiguration bi elems s = Some t \<Longrightarrow> links_ok t"
  by (auto simp: ieee80211_ml_reconfiguration_def Let_def split: option.splits reconf_result.splits if_splits)

lemma reconf_work_ok:
  assumes "links_ok s"
  shows "links_ok (ieee80211_ml_reconf_work env s)"
proof -
  define u where "u = s\<lparr> ml_reconf_work := None \<rparr>"
  define new where "new = valid_links u AND NOT (removed_links u)"
  define kept where "kept = active_links u AND NOT (removed_links u)"
  define a where "a = (if kept = 0 then lowest_link (new AND NOT (dormant_links u)) else kept)"
  define r where "r = (if kept \<noteq> active_links u then ieee80211_set_active_links env a u else (u, 0))"
  define q where "q = ieee80211_vif_set_links env new (dormant_links (fst r) AND NOT (removed_links (fst r))) (fst r)"
  have code: "ieee80211_ml_reconf_work env s =
      (if removed_links u = 0 \<or> new = valid_links u then u
       else if new = 0 \<or> new AND NOT (dormant_links u) = 0 \<or> snd r \<noteq> 0 then (disconnect (if new = 0 \<or> new AND NOT (dormant_links u) = 0 then u else fst r))\<lparr> removed_links := 0 \<rparr>
       else (if snd q \<noteq> 0 then disconnect (fst q) else fst q)\<lparr> removed_links := 0 \<rparr>)"
    unfolding ieee80211_ml_reconf_work_def Let_def split_def
    unfolding u_def[symmetric] new_def[symmetric] kept_def[symmetric] a_def[symmetric] r_def[symmetric] q_def[symmetric]
    by (cases "removed_links u = 0"; cases "new = valid_links u"; cases "new = 0 \<or> new AND NOT (dormant_links u) = 0"; cases "snd r = 0")
       (simp_all only: simp_thms if_True if_False)
  have u: "links_ok u" using assms by (simp add: u_def)
  have r: "links_ok (fst r)" using u activate_ok[OF u] by (simp add: r_def)
  have "links_ok (fst q)" if n: "removed_links u \<noteq> 0" "new \<noteq> valid_links u" "new \<noteq> 0" "new AND NOT (dormant_links u) \<noteq> 0" "snd r = 0"
  proof -
    have valid: "valid_links u \<noteq> 0" using n(3) by (auto simp: new_def)
    have a: "a \<noteq> 0 \<and> links_within a (new AND NOT (dormant_links u))"
      using u valid lowest_link_within[OF n(4)]
      by (auto simp: a_def kept_def new_def links_ok_def ieee80211_vif_usable_links_def links_within_iff bit_link_ops)
    obtain b where b: "fst r = u\<lparr> active_links := b \<rparr>" "b \<noteq> 0" "links_within b (new AND NOT (dormant_links u))"
    proof (cases "kept = active_links u")
      case True
      then show ?thesis using that[of "active_links u"] u valid a by (simp add: r_def a_def links_ok_def split: if_splits)
    next
      case False
      then have ra: "r = ieee80211_set_active_links env a u" by (simp add: r_def)
      have "fst r = u\<lparr> active_links := a \<rparr>"
        using n(5) by (cases rule: set_active_cases[of env a u]) (simp_all add: ra)
      then show ?thesis using that a by blast
    qed
    show ?thesis unfolding q_def
    proof (rule set_links_ok[OF r])
      show "links_within (dormant_links (fst r) AND NOT (removed_links (fst r))) new"
        using b(1) u valid by (auto simp: new_def links_ok_def links_within_iff bit_link_ops)
    qed (use b u valid in \<open>auto simp: new_def links_ok_def links_within_iff bit_link_ops\<close>)
  qed
  then show ?thesis using u r by (simp add: code)
qed

lemma fresh_links_ok:
  assumes "links_ok s" "valid_links s = 0" "v \<noteq> 0"
  shows "links_ok (fst (ieee80211_vif_set_links env v 0 s))"
  using assms
  by (auto simp: ieee80211_vif_set_links_def ieee80211_set_vif_links_bitmaps_def links_ok_def Let_def split_def
      ieee80211_vif_usable_links_def links_within_def)

lemma no_links_ok:
  assumes "links_ok s"
  shows "links_ok (fst (ieee80211_vif_set_links env 0 0 s))"
  using assms
  by (auto simp: ieee80211_vif_set_links_def ieee80211_set_vif_links_bitmaps_def links_ok_def Let_def split_def
      ieee80211_check_dup_link_addrs_def)

end
