(* ===== verification/Ttlm_Spec.thy ===== *)
theory Ttlm_Spec
  imports Ttlm
begin

text \<open>
  TID-to-link mappings: for which elements the readers stay inside the element, and which mappings survive
  being built into a request, parsed and read.
\<close>

subsection \<open>Reading maps\<close>

definition with_maps :: "u8 \<Rightarrow> nat \<Rightarrow> u16 list \<Rightarrow> neg_ttlm \<Rightarrow> neg_ttlm" where
  "with_maps direction i ms neg =
     (let put = (\<lambda>xs. take i xs @ ms @ drop (i + length ms) xs)
      in if direction = TTLM_DIRECTION_BOTH then neg\<lparr> downlink := put (downlink neg), uplink := put (uplink neg) \<rparr>
         else if direction = TTLM_DIRECTION_DOWN then neg\<lparr> downlink := put (downlink neg) \<rparr>
         else neg\<lparr> uplink := put (uplink neg) \<rparr>)"

lemma put_step: "i < length xs \<Longrightarrow> take (Suc i) (xs[i := m]) @ ms @ drop (Suc i + length ms) (xs[i := m]) =
   take i xs @ (m # ms) @ drop (i + length (m # ms)) xs"
  by (simp add: take_Suc_conv_app_nth take_update_cancel)

lemma neg_maps_loop_reads:
  assumes "direction \<in> {TTLM_DIRECTION_BOTH, TTLM_DIRECTION_DOWN, TTLM_DIRECTION_UP}"
  shows "\<forall>j < length ms. if bit presence (i + j) then ieee80211_get_ttlm sz d (pos + sz * j) = Some (ms ! j) \<and> ms ! j \<noteq> 0
            else ms ! j = 0 \<Longrightarrow>
    i + length ms \<le> length (downlink neg) \<Longrightarrow> i + length ms \<le> length (uplink neg) \<Longrightarrow>
    neg_maps_loop sz d presence direction [i..<i + length ms] pos neg = Some (0, with_maps direction i ms neg)"
proof (induction ms arbitrary: i pos neg)
  case Nil
  then show ?case by (simp add: with_maps_def Let_def)
next
  case (Cons m ms)
  obtain neg' where n: "neg_set_map direction i m neg = Some neg'" "length (downlink neg') = length (downlink neg)"
      "length (uplink neg') = length (uplink neg)" "with_maps direction (Suc i) ms neg' = with_maps direction i (m # ms) neg"
  proof
    show "neg_set_map direction i m neg = Some (with_maps direction i [m] neg)"
      using assms Cons.prems
      by (auto simp: neg_set_map_def with_maps_def Let_def upd_conv_take_nth_drop)
  qed (use assms Cons.prems put_step[of i _ m ms] in
        \<open>auto simp: with_maps_def Let_def upd_conv_take_nth_drop\<close>)
  have tl: "\<forall>j < length ms. if bit presence (Suc i + j) then ieee80211_get_ttlm sz d (pos + sz + sz * j) = Some (ms ! j) \<and> ms ! j \<noteq> 0
            else ms ! j = 0"
    using Cons.prems(1) by (auto simp: less_Suc_eq_0_disj algebra_simps dest: spec[of _ "Suc _"])
  have "neg_maps_loop sz d presence direction [Suc i..<Suc i + length ms] (pos + sz) neg' =
      Some (0, with_maps direction (Suc i) ms neg')"
    by (rule Cons.IH[OF tl]) (use Cons.prems n in auto)
  moreover have "if bit presence i then ieee80211_get_ttlm sz d pos = Some m \<and> m \<noteq> 0 else m = 0"
    using Cons.prems(1)[rule_format, of 0] by (simp split: if_splits)
  moreover have "[i..<i + length (m # ms)] = i # [Suc i..<Suc i + length ms]"
    using upt_conv_Cons[of i "i + length (m # ms)"] by simp
  ultimately show ?case using n by (simp split: if_splits)
qed

subsection \<open>Staying inside the element\<close>

definition gapless_presence :: "u8 \<Rightarrow> bool" where
  "gapless_presence p \<longleftrightarrow> list_all (\<lambda>i. bit p (Suc i) \<longrightarrow> bit p i) [0..<7]"

lemma presence_count:
  assumes "gapless_presence p" "bit p i" "i < 8"
  shows "i < hweight8 p"
proof -
  have down: "bit p (Suc j) \<Longrightarrow> bit p j" if "j < 7" for j
    using assms(1) that by (simp add: gapless_presence_def list_all_iff)
  have "bit p (i - k)" for k
  proof (induction k)
    case (Suc k)
    show ?case
    proof (cases "k < i")
      case True
      then have "i - k = Suc (i - Suc k)" "i - Suc k < 7" using assms(3) by auto
      then show ?thesis using Suc down by metis
    qed (use Suc in auto)
  qed (use assms in simp)
  then have all: "bit p j" if "j \<le> i" for j using that by (metis diff_diff_cancel)
  have "[0..<8] = [0..<Suc i] @ [Suc i..<8]" using upt_add_eq_append[of 0 "Suc i" "8 - Suc i"] assms(3) by simp
  then have "hweight8 p = length (filter (bit p) [0..<Suc i]) + length (filter (bit p) [Suc i..<8])"
    by (simp add: hweight8_def)
  moreover have "filter (bit p) [0..<Suc i] = [0..<Suc i]" using all by (intro filter_True) auto
  ultimately show ?thesis by (simp only: length_upt)
qed

lemma get_ttlm_some: "pos + sz \<le> length d \<Longrightarrow> sz \<in> {1, 2} \<Longrightarrow> ieee80211_get_ttlm sz d pos \<noteq> None"
  by (auto simp: ieee80211_get_ttlm_def rd8_def rd16_def)

lemma neg_maps_loop_some:
  assumes "\<forall>i \<in> set tids. bit presence i \<longrightarrow> base + sz * i + sz \<le> length d" "sz \<in> {1, 2}"
    "tids = [i..<n]" "pos = base + sz * i"
  shows "neg_maps_loop sz d presence direction tids pos neg \<noteq> None"
  using assms
proof (induction tids arbitrary: i pos neg)
  case (Cons t tids)
  from Cons.prems(3) have t: "t = i" "tids = [Suc i..<n]" using upt_eq_Cons_conv[of i n t tids] by auto
  have p: "\<forall>i \<in> set tids. bit presence i \<longrightarrow> base + sz * i + sz \<le> length d" using Cons.prems(1) by simp
  have "neg_maps_loop sz d presence direction tids (pos + sz) neg' \<noteq> None" for neg'
    by (rule Cons.IH[OF p _ t(2)]) (use Cons.prems t in auto)
  moreover have "bit presence t \<Longrightarrow> ieee80211_get_ttlm sz d pos \<noteq> None"
    using Cons.prems t(1) by (intro get_ttlm_some) auto
  ultimately show ?case by (auto split: option.split)
qed simp

lemma adv_maps_loop_some:
  "pos + sz * n \<le> length d \<Longrightarrow> sz \<in> {1, 2} \<Longrightarrow> adv_maps_loop sz d m n pos \<noteq> None"
proof (induction n arbitrary: pos)
  case (Suc n)
  then have "adv_maps_loop sz d m n (pos + sz) \<noteq> None" by (intro Suc.IH) auto
  moreover have "ieee80211_get_ttlm sz d pos \<noteq> None" using Suc.prems by (intro get_ttlm_some) auto
  ultimately show ?case by auto
qed simp

lemma all_some: "(\<And>x. f x \<noteq> None) \<Longrightarrow> \<exists>r. \<forall>x. f x = Some (r x)"
  by (rule exI[of _ "\<lambda>x. the (f x)"]) simp

lemma adv_switch_time_some:
  "pos + (if has_flag (d ! 0) TTLM_CONTROL_SWITCH_TIME_PRESENT then 2 else 0) \<le> length d \<Longrightarrow>
   \<exists>i. adv_switch_time d (x, pos) = Some (i, pos + (if has_flag (d ! 0) TTLM_CONTROL_SWITCH_TIME_PRESENT then 2 else 0))"
  by (cases "has_flag (d ! 0) TTLM_CONTROL_SWITCH_TIME_PRESENT") (simp_all add: adv_switch_time_def rd16_def)

lemma adv_expected_duration_some:
  "pos + (if has_flag (d ! 0) TTLM_CONTROL_EXPECTED_DUR_PRESENT then 3 else 0) \<le> length d \<Longrightarrow>
   \<exists>i. adv_expected_duration d (x, pos) = Some (i, pos + (if has_flag (d ! 0) TTLM_CONTROL_EXPECTED_DUR_PRESENT then 3 else 0))"
  by (cases "has_flag (d ! 0) TTLM_CONTROL_EXPECTED_DUR_PRESENT") (simp_all add: adv_expected_duration_def rd8_def)

lemma neg_ttlm_reads:
  assumes "ieee80211_tid_to_link_map_size_ok d" "has_flag (d ! 0) TTLM_CONTROL_DEF_LINK_MAP \<or> gapless_presence (d ! 1)"
  shows "ieee80211_parse_neg_ttlm valid d neg \<noteq> None"
proof (cases "has_flag (d ! 0) TTLM_CONTROL_DEF_LINK_MAP")
  case True
  then show ?thesis by (simp add: ieee80211_parse_neg_ttlm_def Let_def)
next
  case nodef: False
  then have gapless: "gapless_presence (d ! 1)" using assms(2) by simp
  have len: "2 + hweight8 (d ! 1) * ttlm_map_size (d ! 0) \<le> length d"
    if "\<not> has_flag (d ! 0) (TTLM_CONTROL_SWITCH_TIME_PRESENT OR TTLM_CONTROL_EXPECTED_DUR_PRESENT)"
      "\<not> has_flag (d ! 0) TTLM_CONTROL_DEF_LINK_MAP"
    using assms(1) that
    by (simp add: ieee80211_tid_to_link_map_size_ok_def ttlm_map_size_def Let_def split: if_splits)
  have "bit (d ! 1) i \<longrightarrow> 2 + ttlm_map_size (d ! 0) * i + ttlm_map_size (d ! 0) \<le> length d"
    if "i < 8" "2 + hweight8 (d ! 1) * ttlm_map_size (d ! 0) \<le> length d" for i
  proof
    assume "bit (d ! 1) i"
    then have "Suc i \<le> hweight8 (d ! 1)" using presence_count[OF gapless] that(1) by (simp only: Suc_le_eq)
    then have "ttlm_map_size (d ! 0) * Suc i \<le> ttlm_map_size (d ! 0) * hweight8 (d ! 1)" by (rule mult_le_mono2)
    then show "2 + ttlm_map_size (d ! 0) * i + ttlm_map_size (d ! 0) \<le> length d" using that(2) by (simp add: ac_simps)
  qed
  then have "neg_maps_loop (ttlm_map_size (d ! 0)) d (d ! 1) direction [0..<8] 2 neg \<noteq> None"
    if "2 + hweight8 (d ! 1) * ttlm_map_size (d ! 0) \<le> length d" for direction
    using that by (intro neg_maps_loop_some[where base = 2 and i = 0 and n = 8]) (auto simp: ttlm_map_size_def)
  note loop = this
  show ?thesis
  proof (cases "has_flag (d ! 0) (TTLM_CONTROL_SWITCH_TIME_PRESENT OR TTLM_CONTROL_EXPECTED_DUR_PRESENT) \<or>
      has_flag (d ! 0) TTLM_CONTROL_DEF_LINK_MAP")
    case True
    then show ?thesis by (auto simp: ieee80211_parse_neg_ttlm_def Let_def)
  next
    case False
    then have l: "2 + hweight8 (d ! 1) * ttlm_map_size (d ! 0) \<le> length d" using len by blast
    then have "rd8 d 1 = Some (d ! 1)" by (simp add: rd8_def)
    moreover obtain r where "\<And>direction. neg_maps_loop (ttlm_map_size (d ! 0)) d (d ! 1) direction [0..<8] 2 neg = Some (r direction)"
      using all_some[of "\<lambda>direction. neg_maps_loop (ttlm_map_size (d ! 0)) d (d ! 1) direction [0..<8] 2 neg"] loop[OF l] by blast
    ultimately show ?thesis using False
      by (simp add: ieee80211_parse_neg_ttlm_def Let_def split_def)
  qed
qed

lemma adv_ttlm_reads:
  assumes "ieee80211_tid_to_link_map_size_ok d" "\<not> has_flag (d ! 0) TTLM_CONTROL_DEF_LINK_MAP"
  shows "ieee80211_parse_adv_t2l d \<noteq> None"
proof -
  let ?sw = "if has_flag (d ! 0) TTLM_CONTROL_SWITCH_TIME_PRESENT then 2 else 0 :: nat"
  let ?du = "if has_flag (d ! 0) TTLM_CONTROL_EXPECTED_DUR_PRESENT then 3 else 0 :: nat"
  have len: "2 + ?sw + ?du + hweight8 (d ! 1) * ttlm_map_size (d ! 0) \<le> length d"
    using assms by (simp add: ieee80211_tid_to_link_map_size_ok_def ttlm_map_size_def Let_def split: if_splits)
  obtain i p where sw: "adv_switch_time d (zero_adv, 2) = Some (i, p)" and p: "p = 2 + ?sw"
    using adv_switch_time_some[of 2 d zero_adv] len by auto
  obtain i' q where du: "adv_expected_duration d (i, p) = Some (i', q)" and q: "q = 2 + ?sw + ?du"
    using adv_expected_duration_some[of p d i] len unfolding p by auto
  have maps: "ieee80211_get_ttlm (ttlm_map_size (d ! 0)) d q \<noteq> None"
    "adv_maps_loop (ttlm_map_size (d ! 0)) d m 7 (q + ttlm_map_size (d ! 0)) \<noteq> None" if "d ! 1 = 0xff" for m
  proof -
    have "hweight8 0xff = 8" by code_simp
    then have "q + 8 * ttlm_map_size (d ! 0) \<le> length d" using len that q by simp
    then show "ieee80211_get_ttlm (ttlm_map_size (d ! 0)) d q \<noteq> None"
      "adv_maps_loop (ttlm_map_size (d ! 0)) d m 7 (q + ttlm_map_size (d ! 0)) \<noteq> None"
      by (intro get_ttlm_some adv_maps_loop_some; auto simp: ttlm_map_size_def)+
  qed
  have "rd8 d 1 = Some (d ! 1)" using len by (simp add: rd8_def)
  moreover obtain r where "d ! 1 = 0xff \<Longrightarrow> adv_maps_loop (ttlm_map_size (d ! 0)) d m 7 (q + ttlm_map_size (d ! 0)) = Some (r m)" for m
    using all_some[of "\<lambda>m. adv_maps_loop (ttlm_map_size (d ! 0)) d m 7 (q + ttlm_map_size (d ! 0))"] maps(2) by blast
  ultimately show ?thesis using assms(2) maps(1)
    by (auto simp: ieee80211_parse_adv_t2l_def Let_def sw du)
qed

text \<open>C25: The readers of TID-to-link mappings never read behind an element that passed the size check of the parser,
  provided that no TID is left out between others in a negotiated one, and that an advertised one does not ask for
  the default mapping.\<close>

theorem ttlm_reads_in_bounds:
  assumes "ieee80211_tid_to_link_map_size_ok d"
  shows "(has_flag (d ! 0) TTLM_CONTROL_DEF_LINK_MAP \<or> gapless_presence (d ! 1) \<longrightarrow> ieee80211_parse_neg_ttlm valid d neg \<noteq> None) \<and>
    (\<not> has_flag (d ! 0) TTLM_CONTROL_DEF_LINK_MAP \<longrightarrow> ieee80211_parse_adv_t2l d \<noteq> None)"
  using neg_ttlm_reads[OF assms] adv_ttlm_reads[OF assms] by blast

theorem ttlm_reads_in_bounds_witness:
  "ieee80211_parse_neg_ttlm 3 [2, 3, 1, 0, 2, 0] zero_neg \<noteq> None \<and> ieee80211_parse_adv_t2l ([2, 0xff] @ concat (replicate 8 [1, 0])) \<noteq> None"
proof -
  have "ieee80211_tid_to_link_map_size_ok [2, 3, 1, 0, 2, 0]" "gapless_presence ([2, 3, 1, 0, 2, 0] ! 1)"
    "ieee80211_tid_to_link_map_size_ok ([2, 0xff] @ concat (replicate 8 [1, 0]))"
    "\<not> has_flag (([2, 0xff] @ concat (replicate 8 [1, 0])) ! 0) TTLM_CONTROL_DEF_LINK_MAP" by code_simp+
  then show ?thesis
    using ttlm_reads_in_bounds[of "[2, 3, 1, 0, 2, 0]" 3 zero_neg]
      ttlm_reads_in_bounds[of "[2, 0xff] @ concat (replicate 8 [1, 0])" 3 zero_neg] by blast
qed

text \<open>
  With a gap in the presence bitmap, the reader of a negotiated mapping skips the place of a map that the
  element does not have: the first element below passes the size check and is read behind its end, and
  the second, with maps 1 and 2 for TIDs 1 and 2, is read as giving them 2 and what follows.  With the default mapping, no presence
  octet has to be there, yet the reader of an advertised mapping reads one, and then takes the switch time
  from one octet too far.
\<close>

lemma ttlm_gap_overread:
  "ieee80211_tid_to_link_map_size_ok [2, 2, 1, 0] \<and> ieee80211_parse_neg_ttlm 3 [2, 2, 1, 0] zero_neg = None"
  by code_simp

lemma ttlm_gap_misread:
  "ieee80211_tid_to_link_map_size_ok [2, 6, 1, 0, 2, 0, 3, 0] \<and>
   map_option (\<lambda>(ret, neg, _). (ret, take 4 (downlink neg))) (ieee80211_parse_neg_ttlm 3 [2, 6, 1, 0, 2, 0, 3, 0] zero_neg) =
     Some (0, [0, 2, 3, 0])"
  by code_simp

lemma ttlm_default_overread:
  "ieee80211_tid_to_link_map_size_ok [6] \<and> ieee80211_parse_adv_t2l [6] = None \<and>
   ieee80211_tid_to_link_map_size_ok [0xe, 0x34, 0x12] \<and> ieee80211_parse_adv_t2l [0xe, 0x34, 0x12] = None"
  by code_simp

subsection \<open>Reading what was built\<close>

lemma rd16_maps: "j < length ms \<Longrightarrow> rd16 (pre @ concat (map le16_bytes ms) @ r) (length pre + 2 * j) = Some (ms ! j)"
proof (induction ms arbitrary: pre j)
  case (Cons m ms)
  show ?case
  proof (cases j)
    case 0
    then show ?thesis by (simp add: rd16_def buf_simps codec_simps)
  next
    case (Suc k)
    then have "rd16 ((pre @ le16_bytes m) @ concat (map le16_bytes ms) @ r) (length (pre @ le16_bytes m) + 2 * k) = Some (ms ! k)"
      using Cons.prems by (intro Cons.IH) simp
    then show ?thesis using Suc by (simp add: ac_simps)
  qed
qed simp

definition built :: "u8 \<Rightarrow> neg_ttlm \<Rightarrow> u8 list" where
  "built direction neg = drop 3 (suggested_elem direction neg)"

lemma parse_built:
  assumes "gapless (suggested_maps direction neg)" "length (suggested_maps direction neg) = 8"
    "direction \<in> {TTLM_DIRECTION_BOTH, TTLM_DIRECTION_DOWN, TTLM_DIRECTION_UP}" "length (downlink old) = 8" "length (uplink old) = 8"
  shows "ieee80211_parse_neg_ttlm valid (built direction neg) old = Some (0, with_maps direction 0 (suggested_maps direction neg) old, direction)"
proof -
  define ms where "ms = suggested_maps direction neg"
  define p where "p = fst (suggested_loop ms 0 (0, []))"
  obtain k where k: "k \<le> length ms" "filter (\<lambda>m. m \<noteq> 0) ms = take k ms" "\<And>i. i < length ms \<Longrightarrow> ms ! i \<noteq> 0 \<longleftrightarrow> i < k"
    using gapless_split assms(1) unfolding ms_def by blast
  have b: "built direction neg = [direction, p] @ concat (map le16_bytes (take k ms))"
    by (simp add: built_def suggested_elem_def split_def Let_def suggested_loop_out k(2) flip: ms_def p_def)
  have pres: "bit p j \<longleftrightarrow> ms ! j \<noteq> 0" if "j < 8" for j
    using that assms(2) suggested_loop_bit[of 0 ms 0 "[]" j] by (simp add: p_def flip: ms_def)
  have "\<forall>j < length ms. if bit p (0 + j) then ieee80211_get_ttlm 2 (built direction neg) (2 + 2 * j) = Some (ms ! j) \<and> ms ! j \<noteq> 0 else ms ! j = 0"
  proof (intro allI impI)
    fix j
    assume "j < length ms"
    then show "if bit p (0 + j) then ieee80211_get_ttlm 2 (built direction neg) (2 + 2 * j) = Some (ms ! j) \<and> ms ! j \<noteq> 0 else ms ! j = 0"
      using assms(2) pres[of j] k(3)[of j] rd16_maps[of j "take k ms" "[direction, p]" "[]"] k(1)
      by (auto simp: ieee80211_get_ttlm_def b simp flip: ms_def)
  qed
  then have "neg_maps_loop 2 (built direction neg) p direction [0..<0 + length ms] 2 old = Some (0, with_maps direction 0 ms old)"
    by (intro neg_maps_loop_reads; use assms in \<open>auto simp flip: ms_def\<close>)
  moreover have "rd8 (built direction neg) 1 = Some p" "built direction neg ! 0 = direction" by (simp_all add: b rd8_def)
  moreover have "ttlm_map_size direction = 2" "\<not> has_flag direction (TTLM_CONTROL_SWITCH_TIME_PRESENT OR TTLM_CONTROL_EXPECTED_DUR_PRESENT)"
    "\<not> has_flag direction TTLM_CONTROL_DEF_LINK_MAP" "get_bits direction TTLM_CONTROL_DIRECTION = direction"
    using assms(3) by (elim insertE emptyE; hypsubst; code_simp)+
  ultimately show ?thesis
    using assms(2,3) by (auto simp: ieee80211_parse_neg_ttlm_def Let_def ms_def)
qed

text \<open>What the element parser makes of an action frame with mapping elements only.\<close>

lemma switch_ttlm:
  assumes "elem_id e = WLAN_EID_EXTENSION" "elem_data e = WLAN_EID_EXT_TID_TO_LINK_MAPPING # d"
    "CONN_MODE_EHT \<le> p_mode params" "p_filter params = 0"
    "ieee80211_tid_to_link_map_size_ok d" "length (ttlm s) < TTLM_MAX_CNT"
  shows "parse_elem ops params None e (s, seen, crc) = (s\<lparr> ttlm := ttlm s @ [d] \<rparr>, insert WLAN_EID_EXTENSION seen, crc)"
  using assms by (simp add: parse_elem_def not_inherited_def single_elem_ids_def parse_elem_switch_def Let_def
      ieee80211_parse_extension_element_def parse_extension_switch_def)

lemma loop_ttlm:
  assumes "CONN_MODE_EHT \<le> p_mode params" "p_filter params = 0"
  shows "map (\<lambda>e. (elem_id e, elem_data e)) es = map (\<lambda>d. (WLAN_EID_EXTENSION, WLAN_EID_EXT_TID_TO_LINK_MAPPING # d)) ds \<Longrightarrow>
    \<forall>d \<in> set ds. ieee80211_tid_to_link_map_size_ok d \<Longrightarrow> length (ttlm s) + length ds \<le> TTLM_MAX_CNT \<Longrightarrow>
    fst (parse_loop ops params None es (s, seen, crc)) = s\<lparr> ttlm := ttlm s @ ds \<rparr>"
proof (induction es arbitrary: ds s seen crc)
  case (Cons e es)
  then obtain d ds' where "ds = d # ds'" by (cases ds) auto
  with Cons show ?case
    by (simp add: parse_loop_def switch_ttlm[where d = d] assms)
qed (simp add: parse_loop_def)

definition ttlm_elements :: "u8 list list \<Rightarrow> u8 list" where
  "ttlm_elements ds = put_elements (map (\<lambda>d. (WLAN_EID_EXTENSION, WLAN_EID_EXT_TID_TO_LINK_MAPPING # d)) ds)"

lemma parse_ttlm_elements:
  assumes "scratch_laws ops" "\<forall>d \<in> set ds. ieee80211_tid_to_link_map_size_ok d \<and> length d < 255" "length ds \<le> TTLM_MAX_CNT"
  shows "\<exists>s. ieee802_11_parse_elems ops False (ttlm_elements ds) FRAME_ACTION None = Some s \<and> ttlm s = ds"
proof -
  let ?es = "map (\<lambda>d. (WLAN_EID_EXTENSION, WLAN_EID_EXT_TID_TO_LINK_MAPPING # d)) ds"
  have es: "map (\<lambda>e. (elem_id e, elem_data e)) (elements (ttlm_elements ds)) = ?es"
    unfolding ttlm_elements_def by (rule conjunct1[OF elements_put]) (use assms(2) in auto)
  then have "elem_id e = WLAN_EID_EXTENSION \<and> elem_data e ! 0 = WLAN_EID_EXT_TID_TO_LINK_MAPPING" if "e \<in> set (elements (ttlm_elements ds))" for e
  proof -
    have "(elem_id e, elem_data e) \<in> set ?es" by (metis (mono_tags, lifting) es image_eqI list.set_map that)
    then show ?thesis by auto
  qed
  then have no: "find_ml_basic (ttlm_elements ds) = None"
    by (auto simp: find_ml_basic_def find_None_iff for_each_element_extid_def)
  have none: "cfg80211_defragment_element ops None b n i = None" for b n i using defrag_none[OF assms(1)] .
  define params where "params = zero_params\<lparr> p_mode := CONN_MODE_UHR, p_start := ttlm_elements ds, p_type := FRAME_ACTION,
      p_bss := None, p_link_id := - 1 \<rparr>"
  have prof: "parse_profile ops params (parse_init params) = (parse_init params, zero_params, None, True)"
    by (simp add: parse_profile_def ieee80211_prep_mle_link_parse_def parse_init_def params_def no none)
  define u where "u = (parse_init params)\<lparr> skip_vendor := (cfg80211_find_elem ops WLAN_EID_VENDOR_SPECIFIC [] \<noteq> None) \<rparr>"
  have "fst (parse_loop ops params None (elements (ttlm_elements ds)) (u, {}, 0)) = u\<lparr> ttlm := ttlm u @ ds \<rparr>"
    by (rule loop_ttlm[OF _ _ es]) (use assms in \<open>auto simp: u_def parse_init_def less_eq_conn_mode_def zero_params_def params_def\<close>)
  moreover have "for_each_element_completed (ttlm_elements ds)"
    unfolding ttlm_elements_def by (rule conjunct2[OF elements_put]) (use assms(2) in auto)
  ultimately obtain crc where pass: "parse_elems_pass ops params None u = (u\<lparr> ttlm := ds \<rparr>, crc)"
    by (auto simp: parse_elems_pass_def split_def Let_def u_def parse_init_def zero_params_def params_def)
  have "parse_passes ops params (parse_profile ops params (parse_init params)) = u\<lparr> ttlm := ds, elems_crc := crc \<rparr>"
    using pass by (simp add: prof parse_passes_def u_def zero_params_def)
  moreover have "ml_reconf_elem u = None" "ml_epcs_elem u = None" "elem_ptr u = (\<lambda>_. None)" by (simp_all add: u_def parse_init_def)
  ultimately have "ieee802_11_parse_elems_full ops False params = Some (u\<lparr> ttlm := ds, elems_crc := crc \<rparr>)"
    by (simp add: ieee802_11_parse_elems_full_def dtim_from_bssid_index_def dtim_from_tim_def
        ieee80211_mle_defrag_epcs_def ieee80211_mle_defrag_reconf_def none) (simp add: params_def)
  then show ?thesis by (simp add: ieee802_11_parse_elems_def params_def)
qed

lemma suggested_elements: "suggested_elem direction neg = ttlm_elements [built direction neg]"
  by (simp add: ttlm_elements_def built_def suggested_elem_def split_def Let_def)

lemma ttlm_elements_append: "ttlm_elements (xs @ ys) = ttlm_elements xs @ ttlm_elements ys"
  by (induction xs) (simp_all add: ttlm_elements_def)

lemma built_size_ok:
  assumes "gapless (suggested_maps direction neg)" "length (suggested_maps direction neg) = 8"
    "direction \<in> {TTLM_DIRECTION_BOTH, TTLM_DIRECTION_DOWN, TTLM_DIRECTION_UP}"
  shows "ieee80211_tid_to_link_map_size_ok (built direction neg) \<and> length (built direction neg) < 255"
proof -
  define ms where "ms = suggested_maps direction neg"
  define p where "p = fst (suggested_loop ms 0 (0, []))"
  obtain k where k: "k \<le> length ms" "filter (\<lambda>m. m \<noteq> 0) ms = take k ms" "\<And>i. i < length ms \<Longrightarrow> ms ! i \<noteq> 0 \<longleftrightarrow> i < k"
    using gapless_split assms(1) unfolding ms_def by blast
  have b: "built direction neg = [direction, p] @ concat (map le16_bytes (take k ms))"
    by (simp add: built_def suggested_elem_def split_def Let_def suggested_loop_out k(2) flip: ms_def p_def)
  have "bit p j \<longleftrightarrow> j < k" if "j < 8" for j
    using that assms(2) suggested_loop_bit[of 0 ms 0 "[]" j] k(3)[of j] by (simp add: p_def flip: ms_def)
  then have "filter (bit p) [0..<8] = filter (\<lambda>j. j < k) [0..<8]" by (intro filter_cong) auto
  also have "length \<dots> \<le> k" using length_filter_le
    by (metis (no_types, lifting) card_lessThan card_mono distinct_card distinct_filter distinct_upt finite_lessThan
        lessThan_iff mem_Collect_eq set_filter subsetI)
  finally have "hweight8 p \<le> k" by (simp add: hweight8_def)
  moreover have "length (built direction neg) = 2 + 2 * k" "k \<le> 8"
    using k(1) assms(2) by (simp_all add: b length_concat comp_def sum_list_triv flip: ms_def)
  moreover have "ttlm_map_size direction = 2" "\<not> has_flag direction TTLM_CONTROL_SWITCH_TIME_PRESENT"
    "\<not> has_flag direction TTLM_CONTROL_EXPECTED_DUR_PRESENT" "\<not> has_flag direction TTLM_CONTROL_DEF_LINK_MAP"
    using assms(3) by (elim insertE emptyE; hypsubst; code_simp)+
  moreover have "built direction neg ! 0 = direction" "built direction neg ! 1 = p" by (simp_all add: b)
  ultimately show ?thesis
    by (auto simp: ieee80211_tid_to_link_map_size_ok_def Let_def ttlm_map_size_def split: if_splits)
qed

lemma neg_ttlm_read_back:
  assumes "scratch_laws ops" "length (downlink neg) = 8" "length (uplink neg) = 8"
    "gapless (downlink neg)" "gapless (uplink neg)" "neg_links_valid valid neg"
  shows "\<exists>s. ieee802_11_parse_elems ops False (ieee80211_neg_ttlm_add_suggested_map neg) FRAME_ACTION None = Some s \<and>
    read_neg_ttlm_req valid (ttlm s) = Some (True, neg\<lparr> neg_valid := False \<rparr>)"
proof (cases "downlink neg = uplink neg")
  case True
  let ?d = "built TTLM_DIRECTION_BOTH neg"
  obtain s where s: "ieee802_11_parse_elems ops False (ieee80211_neg_ttlm_add_suggested_map neg) FRAME_ACTION None = Some s" "ttlm s = [?d]"
    using parse_ttlm_elements[OF assms(1), of "[?d]"] built_size_ok[of TTLM_DIRECTION_BOTH neg] True assms
    by (auto simp: ieee80211_neg_ttlm_add_suggested_map_def suggested_elements suggested_maps_def)
  have "ieee80211_parse_neg_ttlm valid ?d zero_neg = Some (0, neg\<lparr> neg_valid := False \<rparr>, TTLM_DIRECTION_BOTH)"
    using parse_built[of TTLM_DIRECTION_BOTH neg zero_neg valid] True assms
    by (simp add: suggested_maps_def zero_neg_def with_maps_def Let_def)
  then show ?thesis using s assms(6) by (simp add: read_neg_ttlm_req_def neg_links_valid_def)
next
  case False
  let ?d = "built TTLM_DIRECTION_DOWN neg" and ?u = "built TTLM_DIRECTION_UP neg"
  obtain s where s: "ieee802_11_parse_elems ops False (ieee80211_neg_ttlm_add_suggested_map neg) FRAME_ACTION None = Some s" "ttlm s = [?d, ?u]"
    using parse_ttlm_elements[OF assms(1), of "[?d] @ [?u]"] built_size_ok[of TTLM_DIRECTION_DOWN neg]
      built_size_ok[of TTLM_DIRECTION_UP neg] False assms
    by (auto simp: ieee80211_neg_ttlm_add_suggested_map_def suggested_elements suggested_maps_def ttlm_elements_append[of "[_]" "[_]", simplified])
  have "ieee80211_parse_neg_ttlm valid ?d zero_neg = Some (0, zero_neg\<lparr> downlink := downlink neg \<rparr>, TTLM_DIRECTION_DOWN)"
    "ieee80211_parse_neg_ttlm valid ?u (zero_neg\<lparr> downlink := downlink neg \<rparr>) = Some (0, neg\<lparr> neg_valid := False \<rparr>, TTLM_DIRECTION_UP)"
    using parse_built[of TTLM_DIRECTION_DOWN neg zero_neg valid]
      parse_built[of TTLM_DIRECTION_UP neg "zero_neg\<lparr> downlink := downlink neg \<rparr>" valid] assms
    by (simp_all add: suggested_maps_def zero_neg_def with_maps_def Let_def)
  then show ?thesis using s assms(6) by (simp add: read_neg_ttlm_req_def neg_links_valid_def)
qed

text \<open>A mapping this code suggests is read back as it was from the elements it is sent in, whether or not both
  directions have the same links, provided that no TID is left out between others; the same element parser
  reads the frame on both sides.\<close>

theorem neg_ttlm_roundtrip:
  assumes "scratch_laws ops" "length (downlink neg) = 8" "length (uplink neg) = 8"
    "gapless (downlink neg)" "gapless (uplink neg)" "neg_links_valid valid neg"
  shows "\<exists>s. ieee802_11_parse_elems ops False (ieee80211_neg_ttlm_add_suggested_map neg) FRAME_ACTION None = Some s \<and>
    read_neg_ttlm_req valid (ttlm s) = Some (True, neg\<lparr> neg_valid := False \<rparr>)"
  using neg_ttlm_read_back[OF assms] .

definition ex_neg :: neg_ttlm where
  "ex_neg = \<lparr> downlink = [1, 1, 2, 2, 3, 3, 0, 0], uplink = replicate 8 3, neg_valid = True \<rparr>"

theorem neg_ttlm_roundtrip_witness:
  "\<exists>s. ieee802_11_parse_elems ex_ops False (ieee80211_neg_ttlm_add_suggested_map ex_neg) FRAME_ACTION None = Some s \<and>
    read_neg_ttlm_req 3 (ttlm s) = Some (True, ex_neg\<lparr> neg_valid := False \<rparr>)"
proof (rule neg_ttlm_roundtrip[OF ex_ops_laws])
  show "length (downlink ex_neg) = 8" "length (uplink ex_neg) = 8" "gapless (downlink ex_neg)" "gapless (uplink ex_neg)"
    "neg_links_valid 3 ex_neg" by code_simp+
qed

text \<open>
  The frame is allocated for one element or for two with together thirteen maps at most; two full ones are
  longer.
\<close>

lemma ttlm_space:
  "length (ieee80211_neg_ttlm_add_suggested_map (ex_neg\<lparr> downlink := replicate 8 1 \<rparr>)) = 42 \<and> ttlm_max_len = 37"
  by code_simp

end
