(* ===== verification/Mlo_Steps.thy ===== *)
theory Mlo_Steps
  imports Mlo_Inv Ttlm_Spec
begin

text \<open>
  The links of a station over time: the steps that change them, the invariant of every reachable state,
  what a mapping changes and what ending it gives back, and where the code leaves its own description.
\<close>

subsection \<open>Association\<close>

lemma set_links_valid: "valid_links (fst (ieee80211_vif_set_links env new d s)) \<in> {new, valid_links s}"
  by (simp add: ieee80211_vif_set_links_def ieee80211_set_vif_links_bitmaps_def Let_def split_def split: iftype.split)

lemma set_links_vif: "vif_type (fst (ieee80211_vif_set_links env new d s)) = vif_type s"
  by (simp add: ieee80211_vif_set_links_def ieee80211_set_vif_links_bitmaps_def Let_def split_def split: iftype.split)

lemma set_links_grown:
  assumes "valid_links (fst (ieee80211_vif_set_links env new d s)) = new" "new \<noteq> valid_links s"
  shows "fst (ieee80211_vif_set_links env new d s) = ieee80211_set_vif_links_bitmaps new d s"
proof -
  have "valid_links (ieee80211_set_vif_links_bitmaps v d' t) = v" for v d' t
    by (simp add: ieee80211_set_vif_links_bitmaps_def Let_def split: iftype.split)
  then show ?thesis using assms
    by (simp add: ieee80211_vif_set_links_def Let_def split_def split: if_splits)
qed

lemma assoc_ok:
  assumes "links_ok s" "valid_links s \<noteq> 0" "assoc_ttlm valid ttlms s = Some (u, d, True)"
    "links_within (active_links s) (valid AND NOT d)" "rejected AND (d OR active_links s) = 0"
    "assoc_links env valid rejected ttlms s = Some (t, True)"
  shows "links_ok t"
proof -
  have u: "links_ok u" "valid_links u = valid_links s" "active_links u = active_links s" "links_within d valid"
    using assms(1,3) by (auto simp: assoc_ttlm_def bind_eq_Some_conv links_within_iff bit_link_ops split: if_splits)
  have st: "vif_type u = IF_STATION" "active_links u \<noteq> 0" using u(1,2) assms(2) by (simp_all add: links_ok_def)
  define v where "v = fst (ieee80211_vif_set_links env valid d u)"
  have t: "t = fst (ieee80211_vif_set_links env (valid AND NOT rejected) d v)" "links_within valid (valid_links v)"
    using assms(3,6) by (simp_all add: assoc_links_def Let_def v_def links_within_def split: if_splits)
  have v: "links_ok v \<and> active_links v = active_links s"
  proof (cases "links_within valid (valid_links s)")
    case True
    then have *: "links_within (active_links u) (valid_links u AND NOT d)" "links_within d (valid_links u)"
      "links_within (active_links u) (valid AND NOT d)"
      using assms(4) u by (auto simp: links_within_iff bit_link_ops)
    then have "links_ok v" unfolding v_def using set_links_ok[OF u(1) st(2) *(3,1) u(4) *(2)] by simp
    moreover have "active_links v = active_links u"
      unfolding v_def by (cases rule: set_links_cases[OF st *(3,1) u(4) *(2), of env]) simp_all
    ultimately show ?thesis using u by simp
  next
    case False
    then have "valid_links v = valid" "valid \<noteq> valid_links u"
      using set_links_valid[of env valid d u] t(2) u(2) by (auto simp: v_def links_within_iff)
    then have "v = ieee80211_set_vif_links_bitmaps valid d u" using set_links_grown[of env valid d u] by (simp add: v_def)
    moreover have "links_within (active_links u) (valid AND NOT d)" using assms(4) u by simp
    ultimately have "v = u\<lparr> valid_links := valid, dormant_links := d \<rparr>" using bitmaps_eq[OF st _ u(4)] by simp
    moreover have "valid \<noteq> 0" using assms(4) st(2) u(3) by (auto simp: link_bits)
    ultimately show ?thesis using st u assms(4) by (simp add: links_ok_def ieee80211_vif_usable_links_def)
  qed
  have "links_within (active_links s) ((valid AND NOT rejected) AND NOT d)" "links_within d (valid AND NOT rejected)"
    "links_within (active_links s) (valid_links v AND NOT d)" "links_within d (valid_links v)"
    using assms(4,5) u(4) t(2) by (auto simp: links_within_iff bit_link_ops no_links_left_iff dest: bit_u16_lt)
  then show ?thesis unfolding t(1) using v st u by (intro set_links_ok) auto
qed

lemma assoc_failed_none:
  assumes "vif_type s = IF_STATION" "valid_links s \<noteq> 0" "valid \<noteq> 0" "assoc_links env valid rejected ttlms s = Some (t, False)"
  shows "vif_type (assoc_failed env t) = IF_STATION \<and> valid_links (assoc_failed env t) = 0 \<and>
    active_links (assoc_failed env t) = 0 \<and> dormant_links (assoc_failed env t) = 0"
proof -
  obtain u d b where u: "assoc_ttlm valid ttlms s = Some (u, d, b)" using assms(4) by (auto simp: assoc_links_def bind_eq_Some_conv)
  have "vif_type u = IF_STATION" "valid_links u = valid_links s"
    using assms(1) u by (auto simp: assoc_ttlm_def bind_eq_Some_conv split: if_splits)
  then have "vif_type t = IF_STATION" "valid_links t \<noteq> 0"
    using assms(2-4) u set_links_vif[of env valid d u] set_links_valid[of env valid d u]
    by (auto simp: assoc_links_def Let_def split: if_splits)
  then show ?thesis
    by (simp add: assoc_failed_def ieee80211_vif_set_links_def ieee80211_set_vif_links_bitmaps_def Let_def split_def
        ieee80211_check_dup_link_addrs_def)
qed

lemma assoc_failed_ok:
  assumes "links_ok s" "valid_links s \<noteq> 0" "valid \<noteq> 0" "assoc_links env valid rejected ttlms s = Some (t, False)"
  shows "links_ok (assoc_failed env t)"
  using assoc_failed_none[OF _ assms(2-4)] assms(1) by (simp add: links_ok_def)

lemma map_work_ok': "links_ok s \<Longrightarrow> links_ok (ieee80211_tid_to_link_map_work env s)"
proof (cases "valid_links s = 0")
  case True
  assume "links_ok s"
  with True show ?thesis
    by (simp add: ieee80211_tid_to_link_map_work_def ieee80211_ttlm_set_links_def Let_def split_def no_links_ok)
qed (rule map_work_ok)

subsection \<open>Reachable states\<close>

text \<open>
  Every step may have another environment.  An association starts from the active link of the request; the
  relation takes the associations whose mapping does not disable this link and which reject neither it nor
  a link the mapping disables.  The code checks only that the mapping leaves some link usable;
  \<^verbatim>\<open>Mlo_Runs\<close> has the other associations.
\<close>

inductive mlo_step :: "mlo \<Rightarrow> mlo \<Rightarrow> bool" where
  connect: "l < MLD_MAX_NUM_LINKS \<Longrightarrow> valid_links s = 0 \<or> valid_links s = set_bit l 0 \<Longrightarrow> mlo_step s (mlo_prep_connection env l s)"
| assoc: "valid_links s \<noteq> 0 \<Longrightarrow> active_links s \<noteq> 0 \<Longrightarrow> assoc_ttlm valid ttlms s = Some (u, d, True) \<Longrightarrow> links_within (active_links s) (valid AND NOT d) \<Longrightarrow>
    rejected AND (d OR active_links s) = 0 \<Longrightarrow> assoc_links env valid rejected ttlms s = Some (t, True) \<Longrightarrow> mlo_step s t"
| assoc_err: "valid_links s \<noteq> 0 \<Longrightarrow> valid \<noteq> 0 \<Longrightarrow> assoc_links env valid rejected ttlms s = Some (t, False) \<Longrightarrow>
    mlo_step s (assoc_failed env t)"
| disassoc: "mlo_step s (mlo_set_disassoc env s)"
| neg_req: "ieee80211_process_neg_ttlm_req env token elems s = Some t \<Longrightarrow> mlo_step s t"
| neg_res: "mlo_step s (ieee80211_process_neg_ttlm_res token status s)"
| own_req: "mlo_step s (fst (ieee80211_req_neg_ttlm env dlink ulink s))"
| neg_timeout: "neg_timeout_work s \<Longrightarrow> mlo_step s (ieee80211_neg_ttlm_timeout_work s)"
| teardown: "mlo_step s (ieee80211_process_ttlm_teardown env s)"
| own_teardown: "mlo_step s (ieee80211_send_teardown_neg_ttlm env s)"
| teardown_status: "mlo_step s (ieee80211_handle_teardown_ttlm_status acked s)"
| teardown_work: "teardown_work s \<Longrightarrow> mlo_step s (ieee80211_teardown_ttlm_work env s)"
| adv: "ieee80211_process_adv_ttlm env ttlms ts s = Some t \<Longrightarrow> mlo_step s t"
| adv_work: "ttlm_work s \<noteq> None \<Longrightarrow> mlo_step s (ieee80211_tid_to_link_map_work env s)"
| reconf: "ieee80211_ml_reconfiguration beacon_int elems s = Some t \<Longrightarrow> mlo_step s t"
| reconf_work: "ml_reconf_work s \<noteq> None \<Longrightarrow> mlo_step s (ieee80211_ml_reconf_work env s)"
| activate: "mlo_step s (fst (ieee80211_set_active_links env a s))"
| activate_async: "mlo_step s (ieee80211_set_active_links_async a s)"
| activate_work: "activate_links_work s \<Longrightarrow> mlo_step s (ieee80211_activate_links_work env in_reconfig s)"

lemma step_ok: "mlo_step s t \<Longrightarrow> links_ok s \<Longrightarrow> links_ok t"
proof (induction rule: mlo_step.induct)
  case (connect l s env)
  then show ?case
    using fresh_links_ok[of s "set_bit l 0" env] fewer_dormant_ok'[of s 0 env]
    by (auto simp: mlo_prep_connection_def links_within_def)
next
  case (disassoc s env)
  then show ?case unfolding mlo_set_disassoc_def by (intro no_links_ok) simp
next
  case (teardown_work s env)
  then show ?case unfolding ieee80211_teardown_ttlm_work_def by (intro teardown_ok) simp
qed (auto intro: assoc_ok assoc_failed_ok process_neg_req_ok req_neg_ok teardown_ok process_adv_ok map_work_ok' reconf_elem_ok
    reconf_work_ok activate_ok
    simp: ieee80211_process_neg_ttlm_res_def ieee80211_neg_ttlm_timeout_work_def ieee80211_send_teardown_neg_ttlm_def
      ieee80211_handle_teardown_ttlm_status_def ieee80211_set_active_links_async_def ieee80211_activate_links_work_def Let_def)

lemma reachable_ok: "mlo_step\<^sup>*\<^sup>* s t \<Longrightarrow> links_ok s \<Longrightarrow> links_ok t"
  by (induction rule: rtranclp_induct) (auto intro: step_ok)

definition ex_env :: mlo_env where
  "ex_env = \<lparr> op_change_vif_links = (\<lambda>_ _. 0), op_can_activate_links = (\<lambda>_. True), op_can_neg_ttlm = (\<lambda>n. (0, n)),
     link_alloc = (\<lambda>_. True), link_addr = (\<lambda>i. [2, 0, 0, 0, 0, word_of_nat i]), skb_alloc = True \<rparr>"

definition ex_vif :: mlo where
  "ex_vif = \<lparr> vif_type = IF_STATION, sdata_running = True, in_driver = True, mld_capa = 0x20, valid_links = 0, active_links = 0,
     dormant_links = 0, suspended_links = 0, vif_neg = zero_neg, desired_active_links = 0, activate_links_work = False,
     ttlm_info = zero_adv, ttlm_work = None, removed_links = 0, ml_reconf_work = None, dialog_token_alloc = 0,
     neg_timeout_work = False, teardown_work = False, disconnecting = False, sent = [] \<rparr>"

text \<open>Three links, of which the AP disables the third.\<close>

definition ex_adv :: "u8 list" where
  "ex_adv = [0x22, 0xff] @ replicate 8 3"

definition ex_assoc :: mlo where
  "ex_assoc = ex_vif\<lparr> valid_links := 7, active_links := 1, dormant_links := 4,
     ttlm_info := \<lparr> switch_time = 0, adv_duration = 0, adv_map = 3, adv_active = True \<rparr> \<rparr>"

lemma ex_assoc_facts:
  "assoc_links ex_env 7 0 [ex_adv] (mlo_prep_connection ex_env 0 ex_vif) = Some (ex_assoc, True)"
  "valid_links ex_assoc = 7" "dormant_links ex_assoc = 4" "active_links ex_assoc = 1" "\<not> disconnecting ex_assoc"
  "vif_neg ex_assoc = zero_neg"
  by code_simp+

lemma ex_assoc_reachable: "mlo_step\<^sup>*\<^sup>* ex_vif ex_assoc"
proof -
  let ?c = "mlo_prep_connection ex_env 0 ex_vif"
  have "mlo_step ex_vif ?c" by (rule mlo_step.connect) (simp_all add: ex_vif_def)
  moreover obtain u where "assoc_ttlm 7 [ex_adv] ?c = Some (u, 4, True)"
  proof -
    have "map_option (\<lambda>(u, d, ok). (d, ok)) (assoc_ttlm 7 [ex_adv] ?c) = Some (4, True)" by code_simp
    then show thesis using that by auto
  qed
  moreover have "valid_links ?c \<noteq> 0" "active_links ?c \<noteq> 0" "links_within (active_links ?c) (7 AND NOT 4)" "0 AND (4 OR active_links ?c) = 0"
    unfolding links_within_def by code_simp+
  ultimately show ?thesis
    using mlo_step.assoc[OF _ _ _ _ _ ex_assoc_facts(1)] by (meson converse_rtranclp_into_rtranclp r_into_rtranclp)
qed

subsection \<open>Negotiated mappings come and go\<close>

lemma apply_neg_success:
  assumes "links_ok s" "valid_links s \<noteq> 0" "\<not> disconnecting (ieee80211_apply_neg_ttlm env neg s)"
  defines "t \<equiv> ieee80211_apply_neg_ttlm env neg s"
  shows "valid_links t = valid_links s" "ieee80211_vif_usable_links t = neg_map neg AND ieee80211_vif_usable_links (unsuspended s)"
    "vif_neg t = neg\<lparr> neg_valid := True \<rparr>" "dormant_links (unsuspended t) = dormant_links (unsuspended s)"
    "sent t = sent s" "dialog_token_alloc t = dialog_token_alloc s"
proof -
  let ?d = "dormant_links (unsuspended s)" and ?x = "neg_suspended neg s"
  have d: "links_within ?d (valid_links s)" using unsuspended_ok[OF assms(1)] assms(2) by (simp add: links_ok_def)
  note prem = apply_neg_premises(1,2)[OF assms(1,2)] apply_neg_premises(3-5)[OF assms(1,2), of neg]
  obtain b where b: "t = (forget_neg (unsuspended s))\<lparr> active_links := b, dormant_links := ?d OR ?x, suspended_links := ?x,
      vif_neg := neg\<lparr> neg_valid := True \<rparr> \<rparr>"
    using assms(3)
    by (cases rule: ttlm_set_links_cases[OF prem, of env ?x])
       (simp_all add: t_def apply_neg_conv disconnect_def)
  show "valid_links t = valid_links s" "vif_neg t = neg\<lparr> neg_valid := True \<rparr>" by (simp_all add: b)
  show "sent t = sent s" "dialog_token_alloc t = dialog_token_alloc s" by (simp_all add: b forget_neg_def unsuspended_def)
  show "ieee80211_vif_usable_links t = neg_map neg AND ieee80211_vif_usable_links (unsuspended s)"
    by (simp only: b ieee80211_vif_usable_links_def) (rule bit_eqI, auto simp: neg_suspended_def bit_link_ops dest: bit_u16_lt)
  have "(?d OR ?x) AND NOT ?x = ?d"
    using d by (intro bit_eqI) (auto simp: neg_suspended_def links_within_iff bit_link_ops dest: bit_u16_lt)
  moreover have v: "neg_valid (vif_neg t)" "dormant_links t = ?d OR ?x" "suspended_links t = ?x" by (simp_all add: b)
  moreover have "dormant_links (unsuspended t) = dormant_links t AND NOT (suspended_links t)" using v(1) by (simp add: unsuspended_def)
  ultimately show "dormant_links (unsuspended t) = ?d" by simp
qed

lemma disconnecting_kept:
  "disconnecting (fst (ieee80211_vif_set_links env new d s)) = disconnecting s"
  "disconnecting (fst (ieee80211_set_active_links env a s)) = disconnecting s"
  by (simp_all add: ieee80211_vif_set_links_def ieee80211_set_vif_links_bitmaps_def Let_def split_def split: iftype.split)
     (cases rule: set_active_cases[of env a s]; simp)

lemma apply_neg_disconnecting: "disconnecting s \<Longrightarrow> disconnecting (ieee80211_apply_neg_ttlm env neg s)"
  by (simp add: ieee80211_apply_neg_ttlm_def ieee80211_ttlm_set_links_def Let_def split_def disconnect_def disconnecting_kept)

text \<open>The steps of a negotiation: requests of both sides, responses, teardown, and changes of the active links.\<close>

inductive neg_step :: "mlo \<Rightarrow> mlo \<Rightarrow> bool" where
  request: "ieee80211_process_neg_ttlm_req env token elems s = Some t \<Longrightarrow> neg_step s t"
| response: "neg_step s (ieee80211_process_neg_ttlm_res token status s)"
| own: "neg_step s (fst (ieee80211_req_neg_ttlm env dlink ulink s))"
| ended: "neg_step s (ieee80211_process_ttlm_teardown env s)"
| activated: "neg_step s (fst (ieee80211_set_active_links env a s))"

definition same_base :: "mlo \<Rightarrow> mlo \<Rightarrow> bool" where
  "same_base s t \<longleftrightarrow> links_ok t \<and> valid_links t = valid_links s \<and> dormant_links (unsuspended t) = dormant_links (unsuspended s)"

lemma unsuspended_other [simp]:
  "dormant_links (unsuspended (s\<lparr> sent := x \<rparr>)) = dormant_links (unsuspended s)"
  "dormant_links (unsuspended (s\<lparr> neg_timeout_work := y \<rparr>)) = dormant_links (unsuspended s)"
  "dormant_links (unsuspended (s\<lparr> dialog_token_alloc := z \<rparr>)) = dormant_links (unsuspended s)"
  "dormant_links (unsuspended (s\<lparr> active_links := a \<rparr>)) = dormant_links (unsuspended s)"
  by (simp_all add: unsuspended_def)

lemma send_base [simp]:
  "dormant_links (unsuspended (ieee80211_send_neg_ttlm_res env res tok neg s)) = dormant_links (unsuspended s)"
  "dormant_links (unsuspended (ieee80211_send_neg_ttlm_req env neg tok s)) = dormant_links (unsuspended s)"
  "valid_links (ieee80211_send_neg_ttlm_res env res tok neg s) = valid_links s"
  "valid_links (ieee80211_send_neg_ttlm_req env neg tok s) = valid_links s"
  "disconnecting (ieee80211_send_neg_ttlm_res env res tok neg s) = disconnecting s"
  "disconnecting (ieee80211_send_neg_ttlm_req env neg tok s) = disconnecting s"
  by (simp_all add: ieee80211_send_neg_ttlm_res_def ieee80211_send_neg_ttlm_req_def Let_def split_def)

lemma teardown_base:
  assumes "links_ok s"
  shows "valid_links (ieee80211_process_ttlm_teardown env s) = valid_links s \<and>
    dormant_links (ieee80211_process_ttlm_teardown env s) = dormant_links (unsuspended s) \<and>
    \<not> neg_valid (vif_neg (ieee80211_process_ttlm_teardown env s))"
proof (cases "neg_valid (vif_neg s)")
  case True
  let ?d = "dormant_links s AND NOT (suspended_links s)" and ?u = "s\<lparr> vif_neg := zero_neg, suspended_links := 0 \<rparr>"
  have w: "links_within ?d (dormant_links ?u)" by (simp add: links_within_iff bit_link_ops)
  have ok: "links_ok ?u" using assms by simp
  have "valid_links (fst (ieee80211_vif_set_links env (valid_links s) ?d ?u)) = valid_links s \<and>
      dormant_links (fst (ieee80211_vif_set_links env (valid_links s) ?d ?u)) = ?d"
  proof (cases "valid_links s = 0")
    case True
    then have "dormant_links s = 0" using no_mld_no_links[OF assms] by simp
    then show ?thesis using True by (simp add: ieee80211_vif_set_links_def)
  qed (use fewer_dormant_links[OF ok _ w, of env] in simp)
  moreover have "vif_neg (fst (ieee80211_vif_set_links env new d x)) = vif_neg x" for new d x
    by (simp add: ieee80211_vif_set_links_def ieee80211_set_vif_links_bitmaps_def Let_def split_def split: iftype.split)
  ultimately show ?thesis using True
    by (simp add: ieee80211_process_ttlm_teardown_def Let_def unsuspended_def zero_neg_def)
qed (simp add: ieee80211_process_ttlm_teardown_def unsuspended_def)

lemma activate_base:
  "dormant_links (unsuspended (fst (ieee80211_set_active_links env a s))) = dormant_links (unsuspended s) \<and>
   valid_links (fst (ieee80211_set_active_links env a s)) = valid_links s"
  by (cases rule: set_active_cases[of env a s]) simp_all

lemma apply_neg_base:
  assumes "links_ok s" "valid_links s \<noteq> 0" "\<not> disconnecting (ieee80211_apply_neg_ttlm env neg s)"
  shows "same_base s (ieee80211_apply_neg_ttlm env neg s) \<and> \<not> disconnecting s"
  using apply_neg_success[OF assms] apply_neg_ok[OF assms(1,2)] apply_neg_disconnecting assms(3) unfolding same_base_def by blast

lemma neg_step_base:
  assumes "neg_step s t" "links_ok s" "\<not> disconnecting t"
  shows "same_base s t \<and> \<not> disconnecting s"
  using assms
proof (cases rule: neg_step.cases)
  case (request env token elems)
  then show ?thesis using assms(2,3) apply_neg_base[OF assms(2)]
    by (auto simp: ieee80211_process_neg_ttlm_req_def ieee80211_vif_is_mld_def Let_def split_def bind_eq_Some_conv same_base_def
        split: if_splits option.splits)
next
  case (response token status)
  then show ?thesis using assms(2,3)
    by (auto simp: ieee80211_process_neg_ttlm_res_def Let_def same_base_def disconnect_def split: if_splits)
next
  case (own env dlink ulink)
  then show ?thesis using assms(2,3) apply_neg_base[OF assms(2)]
    by (auto simp: ieee80211_req_neg_ttlm_def ieee80211_vif_is_mld_def Let_def split_def same_base_def split: if_splits)
next
  case (ended env)
  then have "\<not> neg_valid (vif_neg t)" "links_ok t" "valid_links t = valid_links s" "dormant_links t = dormant_links (unsuspended s)"
    using teardown_base[OF assms(2), of env] teardown_ok[OF assms(2), of env] by simp_all
  moreover from this(1) have "unsuspended t = t" by (simp add: unsuspended_def)
  moreover have "disconnecting t = disconnecting s"
    using ended by (simp add: ieee80211_process_ttlm_teardown_def disconnecting_kept Let_def)
  ultimately show ?thesis using assms(3) by (simp add: same_base_def)
next
  case (activated env a)
  then show ?thesis using assms(2,3) activate_base[of env a s] activate_ok[OF assms(2), of env a]
    by (simp add: same_base_def disconnecting_kept)
qed

lemma neg_run_base:
  "neg_step\<^sup>*\<^sup>* s t \<Longrightarrow> links_ok s \<Longrightarrow> \<not> disconnecting t \<Longrightarrow> same_base s t"
proof (induction rule: rtranclp_induct)
  case base
  then show ?case by (simp add: same_base_def)
next
  case (step t u)
  have "links_ok t" using step.hyps(1) step.prems(1)
  proof (induction rule: rtranclp_induct)
    case (step y z)
    from step.hyps(2) step.IH[OF step.prems] show ?case
      by (cases rule: neg_step.cases)
         (auto intro: process_neg_req_ok req_neg_ok teardown_ok activate_ok simp: ieee80211_process_neg_ttlm_res_def Let_def)
  qed
  from neg_step_base[OF step.hyps(2) this step.prems(2)] step show ?case by (simp add: same_base_def)
qed

text \<open>C23: Ending a negotiated mapping gives back exactly the links there were before any negotiation, however many requests of
  either side were applied one over the other and however the driver moved between links meanwhile, as long as
  the connection is kept; what an advertised mapping disables stays disabled throughout.\<close>

theorem neg_ttlm_undone:
  assumes "mlo_step\<^sup>*\<^sup>* s0 s" "vif_type s0 = IF_STATION" "valid_links s0 = 0" "active_links s0 = 0" "dormant_links s0 = 0"
    "\<not> neg_valid (vif_neg s)" "neg_step\<^sup>*\<^sup>* s t" "\<not> disconnecting t"
  shows "ieee80211_vif_usable_links (ieee80211_process_ttlm_teardown env t) = ieee80211_vif_usable_links s \<and>
    links_within (ieee80211_vif_usable_links t) (ieee80211_vif_usable_links s)"
proof -
  have "links_ok s0" using assms(2-5) by (simp add: links_ok_def)
  then have s: "links_ok s" using reachable_ok[OF assms(1)] by blast
  have t: "links_ok t" "valid_links t = valid_links s" "dormant_links (unsuspended t) = dormant_links s"
    using neg_run_base[OF assms(7) s assms(8)] assms(6) by (simp_all add: same_base_def unsuspended_def[of s])
  have "links_within (dormant_links (unsuspended t)) (dormant_links t)" by (simp add: unsuspended_def links_within_iff bit_link_ops)
  then show ?thesis using teardown_base[OF t(1), of env] t
    by (auto simp: ieee80211_vif_usable_links_def links_within_iff bit_link_ops)
qed

text \<open>The AP restricts the station to the first link, and later to the second.\<close>

definition ex_request :: "u16 \<Rightarrow> elems_parse option" where
  "ex_request m = Some ((parse_init zero_params)\<lparr>
     ttlm := [built TTLM_DIRECTION_BOTH (zero_neg\<lparr> downlink := replicate 8 m, uplink := replicate 8 m \<rparr>)] \<rparr>)"

definition ex_neg1 :: mlo where
  "ex_neg1 = ex_assoc\<lparr> dormant_links := 6, suspended_links := 2, sent := [Ttlm_Res 1 0 []],
     vif_neg := \<lparr> downlink = replicate 8 1, uplink = replicate 8 1, neg_valid = True \<rparr> \<rparr>"

definition ex_neg2 :: mlo where
  "ex_neg2 = ex_assoc\<lparr> active_links := 2, dormant_links := 5, suspended_links := 1, sent := [Ttlm_Res 1 0 [], Ttlm_Res 2 0 []],
     vif_neg := \<lparr> downlink = replicate 8 2, uplink = replicate 8 2, neg_valid = True \<rparr> \<rparr>"

lemma ex_neg_facts:
  "ieee80211_process_neg_ttlm_req ex_env 1 (ex_request 1) ex_assoc = Some ex_neg1"
  "ieee80211_process_neg_ttlm_req ex_env 2 (ex_request 2) ex_neg1 = Some ex_neg2"
  "ieee80211_vif_usable_links ex_neg1 = 1" "ieee80211_vif_usable_links ex_neg2 = 2" "\<not> disconnecting ex_neg2"
  "ieee80211_vif_usable_links ex_assoc = 3"
  by code_simp+

lemma ex_neg_run: "neg_step\<^sup>*\<^sup>* ex_assoc ex_neg2"
  using neg_step.request[OF ex_neg_facts(1)] neg_step.request[OF ex_neg_facts(2)] by (meson converse_rtranclp_into_rtranclp r_into_rtranclp)

theorem neg_ttlm_undone_witness:
  "ieee80211_vif_usable_links (ieee80211_process_ttlm_teardown ex_env ex_neg2) = 3"
  using neg_ttlm_undone[OF ex_assoc_reachable _ _ _ _ _ ex_neg_run ex_neg_facts(5), of ex_env] ex_neg_facts(6) ex_assoc_facts(6)
  by (simp add: ex_vif_def zero_neg_def)

text \<open>C22: A request this code builds from maps without gaps (the mapped TIDs of a direction are the first ones), and
  that the driver accepts, has the intended effect on a station of any reachable state that stays connected:
  the elements are parsed and read as they were meant, the request is answered with success, exactly the links
  of the mapping that no advertised mapping disables are usable, and the mapping is recorded.  Maps with gaps
  are misread (\<open>ttlm_gap_misread\<close>), and a mapping without a usable link ends the connection
  (\<open>accepted_and_disconnected\<close>).\<close>

theorem neg_request_takes_effect:
  assumes "mlo_step\<^sup>*\<^sup>* s0 s" "vif_type s0 = IF_STATION" "valid_links s0 = 0" "active_links s0 = 0" "dormant_links s0 = 0"
    "valid_links s \<noteq> 0" "scratch_laws ops" "length (downlink neg) = 8" "length (uplink neg) = 8"
    "gapless (downlink neg)" "gapless (uplink neg)" "neg_links_valid (valid_links s) neg" "\<not> neg_valid neg"
    "drv_can_neg_ttlm env neg s = (NEG_TTLM_RES_ACCEPT, neg)" "skb_alloc env"
    "elems = ieee802_11_parse_elems ops False (ieee80211_neg_ttlm_add_suggested_map neg) FRAME_ACTION None"
    "t = the (ieee80211_process_neg_ttlm_req env token elems s)" "\<not> disconnecting t"
  shows "ieee80211_process_neg_ttlm_req env token elems s = Some t \<and> sent t = sent s @ [Ttlm_Res token 0 []] \<and>
    ieee80211_vif_usable_links t = neg_map neg AND ieee80211_vif_usable_links (unsuspended s) \<and>
    vif_neg t = neg\<lparr> neg_valid := True \<rparr>"
proof -
  have "links_ok s0" using assms(2-5) by (simp add: links_ok_def)
  then have s: "links_ok s" using reachable_ok[OF assms(1)] by blast
  obtain e where e: "elems = Some e" "read_neg_ttlm_req (valid_links s) (ttlm e) = Some (True, neg\<lparr> neg_valid := False \<rparr>)"
    using neg_ttlm_read_back[OF assms(7-12)] assms(16) by auto
  have "neg\<lparr> neg_valid := False \<rparr> = neg" using assms(13) by simp
  then have p: "ieee80211_process_neg_ttlm_req env token elems s =
      Some (ieee80211_send_neg_ttlm_res env NEG_TTLM_RES_ACCEPT token neg (ieee80211_apply_neg_ttlm env neg s))"
    using e assms(6,14) by (simp add: ieee80211_process_neg_ttlm_req_def ieee80211_vif_is_mld_def)
  then have t: "t = ieee80211_send_neg_ttlm_res env NEG_TTLM_RES_ACCEPT token neg (ieee80211_apply_neg_ttlm env neg s)"
    using assms(17) by simp
  have "\<not> disconnecting (ieee80211_apply_neg_ttlm env neg s)" using assms(18) by (simp add: t)
  from apply_neg_success[OF s assms(6) this] show ?thesis using assms(15)
    by (simp add: p t ieee80211_send_neg_ttlm_res_def) (simp add: ieee80211_vif_usable_links_def)
qed

definition ex_take :: "mlo option" where
  "ex_take = ieee80211_process_neg_ttlm_req ex_env 9 (ieee802_11_parse_elems ex_ops False
      (ieee80211_neg_ttlm_add_suggested_map (ex_neg\<lparr> neg_valid := False \<rparr>)) FRAME_ACTION None) ex_assoc"

lemma ex_take_connected: "\<not> disconnecting (the ex_take)"
  by code_simp

theorem neg_request_takes_effect_witness:
  "sent (the ex_take) = [Ttlm_Res 9 0 []] \<and> ieee80211_vif_usable_links (the ex_take) = 3 \<and> vif_neg (the ex_take) = ex_neg"
proof -
  let ?n = "ex_neg\<lparr> neg_valid := False \<rparr>"
  have "length (downlink ?n) = 8" "length (uplink ?n) = 8" "gapless (downlink ?n)" "gapless (uplink ?n)"
    "neg_links_valid (valid_links ex_assoc) ?n" "valid_links ex_assoc \<noteq> 0" "in_driver ex_assoc" "sent ex_assoc = []"
    "neg_map ?n AND ieee80211_vif_usable_links (unsuspended ex_assoc) = 3" by code_simp+
  moreover have "ex_neg\<lparr> neg_valid := True \<rparr> = ex_neg" "\<not> neg_valid ?n" by (simp_all add: ex_neg_def)
  moreover have "vif_type ex_vif = IF_STATION" "valid_links ex_vif = 0" "active_links ex_vif = 0" "dormant_links ex_vif = 0"
    by (simp_all add: ex_vif_def)
  moreover have "skb_alloc ex_env" "drv_can_neg_ttlm ex_env ?n ex_assoc = (NEG_TTLM_RES_ACCEPT, ?n)"
    using \<open>in_driver ex_assoc\<close> by (simp_all add: ex_env_def drv_can_neg_ttlm_def)
  ultimately show ?thesis
    using neg_request_takes_effect[OF ex_assoc_reachable _ _ _ _ _ ex_ops_laws _ _ _ _ _ _ _ _ refl refl, of ?n ex_env 9] ex_take_connected
    by (simp add: ex_take_def)
qed

subsection \<open>Advertised mappings\<close>

text \<open>C24: When the switch time of an advertised mapping has come, the usable links are exactly those of the mapping, whatever was
  disabled, suspended or negotiated before; a negotiated mapping is discarded with it.\<close>

theorem adv_ttlm_applied:
  assumes "mlo_step\<^sup>*\<^sup>* s0 s" "vif_type s0 = IF_STATION" "valid_links s0 = 0" "active_links s0 = 0" "dormant_links s0 = 0"
    "valid_links s \<noteq> 0" "\<not> disconnecting (ieee80211_tid_to_link_map_work env s)"
  shows "ieee80211_vif_usable_links (ieee80211_tid_to_link_map_work env s) = adv_map (ttlm_info s) AND valid_links s \<and>
    suspended_links (ieee80211_tid_to_link_map_work env s) = 0 \<and> \<not> neg_valid (vif_neg (ieee80211_tid_to_link_map_work env s)) \<and>
    adv_active (ttlm_info (ieee80211_tid_to_link_map_work env s))"
proof -
  have "links_ok s0" using assms(2-5) by (simp add: links_ok_def)
  then have s: "links_ok s" using reachable_ok[OF assms(1)] by blast
  let ?m = "adv_map (ttlm_info s)" and ?u = "s\<lparr> ttlm_work := None \<rparr>"
  define t where "t = fst (ieee80211_vif_set_links env (valid_links s) 0 ?u)"
  have t: "links_ok t" "valid_links t = valid_links s" "dormant_links t = 0"
    using fewer_dormant_ok[of ?u 0 env] fewer_dormant_links[of ?u 0 env] assms(6) s by (simp_all add: t_def links_within_def)
  have m: "?m AND valid_links s = valid_links t AND NOT (NOT ?m AND valid_links s)"
    "links_within (NOT ?m AND valid_links s) (valid_links t)" "links_within (?m AND valid_links s) (ieee80211_vif_usable_links t)"
    using t(2,3) by (auto simp: links_within_iff bit_link_ops ieee80211_vif_usable_links_def bit_eq_iff dest: bit_u16_lt)
  have t0: "valid_links t \<noteq> 0" using t(2) assms(6) by simp
  have work: "ieee80211_tid_to_link_map_work env s =
      (let r = ieee80211_ttlm_set_links env (?m AND valid_links s) (NOT ?m AND valid_links s) 0 t
       in if snd r \<noteq> 0 then fst r else (fst r)\<lparr> ttlm_info := (ttlm_info (fst r))\<lparr> adv_active := True, switch_time := 0 \<rparr> \<rparr>)"
    by (simp add: ieee80211_tid_to_link_map_work_def Let_def split_def t_def)
  obtain b where b: "ieee80211_ttlm_set_links env (?m AND valid_links s) (NOT ?m AND valid_links s) 0 t =
      ((forget_neg t)\<lparr> active_links := b, dormant_links := NOT ?m AND valid_links s, suspended_links := 0 \<rparr>, 0)"
    using assms(7)
    by (cases rule: ttlm_set_links_cases[OF t(1) t0 m(2,1,3), of env 0]) (simp_all add: work Let_def disconnect_def)
  then have r: "ieee80211_tid_to_link_map_work env s =
      (forget_neg t)\<lparr> active_links := b, dormant_links := NOT ?m AND valid_links s, suspended_links := 0,
        ttlm_info := (ttlm_info (forget_neg t))\<lparr> adv_active := True, switch_time := 0 \<rparr> \<rparr>"
    by (simp only: work Let_def) simp
  have "valid_links s AND NOT (NOT ?m AND valid_links s) = ?m AND valid_links s" using m(1) unfolding t(2) by (rule sym)
  moreover define w where "w = ieee80211_tid_to_link_map_work env s"
  moreover have "valid_links w = valid_links s" "dormant_links w = NOT ?m AND valid_links s" "suspended_links w = 0"
    "\<not> neg_valid (vif_neg w)" "adv_active (ttlm_info w)"
    unfolding w_def r using t(2) by simp_all
  ultimately show ?thesis by (simp only: ieee80211_vif_usable_links_def simp_thms)
qed

text \<open>The AP announces that the second and third link will be the usable ones.\<close>

definition ex_switch :: mlo where
  "ex_switch = ex_neg1\<lparr> ttlm_work := Some 0,
     ttlm_info := \<lparr> switch_time = 16, adv_duration = 0, adv_map = 6, adv_active = False \<rparr> \<rparr>"

lemma ex_switch_parsed:
  "ieee80211_parse_adv_t2l ([0x2a, 0xff, 0x10, 0] @ replicate 8 6) =
     Some (0, \<lparr> switch_time = 16, adv_duration = 0, adv_map = 6, adv_active = False \<rparr>)"
  by code_simp

lemma ex_switch_facts:
  "ieee80211_process_adv_ttlm ex_env [[0x2a, 0xff, 0x10, 0] @ replicate 8 6] 0 ex_neg1 = Some ex_switch"
  "valid_links ex_switch = 7" "adv_map (ttlm_info ex_switch) = 6" "ttlm_work ex_switch = Some 0"
  "\<not> disconnecting (ieee80211_tid_to_link_map_work ex_env ex_switch)"
proof -
  have "adv_switch_delay 16 0 = 16" by code_simp
  then show "ieee80211_process_adv_ttlm ex_env [[0x2a, 0xff, 0x10, 0] @ replicate 8 6] 0 ex_neg1 = Some ex_switch"
    using ex_switch_parsed unfolding ieee80211_process_adv_ttlm_def
    by (simp add: ieee80211_vif_is_mld_def ieee80211_tu_to_usec_def ex_switch_def ex_neg1_def ex_assoc_def)
qed code_simp+

lemma ex_switch_reachable: "mlo_step\<^sup>*\<^sup>* ex_vif ex_switch"
  using ex_assoc_reachable mlo_step.neg_req[OF ex_neg_facts(1)] mlo_step.adv[OF ex_switch_facts(1)]
  by (meson rtranclp.rtrancl_into_rtrancl)

theorem adv_ttlm_applied_witness:
  "ieee80211_vif_usable_links (ieee80211_tid_to_link_map_work ex_env ex_switch) = 6 \<and>
   \<not> neg_valid (vif_neg (ieee80211_tid_to_link_map_work ex_env ex_switch))"
proof -
  have "(6 :: u16) AND 7 = 6" by code_simp
  then show ?thesis
    using adv_ttlm_applied[OF ex_switch_reachable, of ex_env] ex_switch_facts by (simp add: ex_vif_def)
qed

subsection \<open>Where the code leaves its description\<close>

text \<open>
  \<^verbatim>\<open>suspended_links\<close> is documented as a subset of the dormant links.  When the AP stops advertising its mapping,
  all links are made usable again, also those a negotiated mapping suspends, which remains recorded.
\<close>

lemma suspended_outlives_adv:
  "(case ieee80211_process_adv_ttlm ex_env [] 0 ex_neg1 of
      Some t \<Rightarrow> neg_valid (vif_neg t) \<and> suspended_links t = 2 \<and> dormant_links t = 0 \<and> neg_map (vif_neg t) = 1 \<and>
        ieee80211_vif_usable_links t = 7
    | None \<Rightarrow> False)"
  by code_simp

text \<open>Nor does a disassociation clear it.\<close>

lemma suspended_outlives_association:
  "valid_links (mlo_set_disassoc ex_env ex_neg1) = 0 \<and> suspended_links (mlo_set_disassoc ex_env ex_neg1) = 2"
  by code_simp

text \<open>A request for links that are all disabled, or for no link at all, is answered with success and ends the connection.\<close>

lemma accepted_and_disconnected:
  "(case ieee80211_process_neg_ttlm_req ex_env 1 (ex_request 4) ex_assoc of
      Some t \<Rightarrow> sent t = [Ttlm_Res 1 0 []] \<and> disconnecting t \<and> \<not> neg_valid (vif_neg t)
    | None \<Rightarrow> False) \<and>
   (case ieee80211_process_neg_ttlm_req ex_env 1 (ex_request 0) ex_assoc of
      Some t \<Rightarrow> sent t = [Ttlm_Res 1 0 []] \<and> disconnecting t
    | None \<Rightarrow> False)"
  by code_simp

text \<open>
  An association response that rejects a link its mapping disables leaves the interface without an active
  link: the dormant links of the second update are not reduced to the accepted ones.
\<close>

lemma rejected_dormant_link:
  "map_option (\<lambda>(t, ok). (ok, valid_links t, active_links t, dormant_links t))
     (assoc_links ex_env 7 4 [ex_adv] (mlo_prep_connection ex_env 0 ex_vif)) = Some (True, 3, 0, 0)"
  by code_simp

text \<open>A failed update restores the valid links, but leaves the new dormant links.\<close>

lemma failed_update_keeps_dormant:
  "(let (t, ret) = ieee80211_vif_set_links ex_env 7 6 (ex_assoc\<lparr> in_driver := False \<rparr>) in ret = - 5 \<and> dormant_links t = 6)"
  by code_simp

text \<open>
  The link identifier of a reconfiguration subelement has four bits, the array of removal times 15 entries:
  for link 15, two octets the AP chooses are written behind it.
\<close>

lemma reconf_link_15:
  "ieee80211_ml_reconfiguration (\<lambda>_. 100)
     ((parse_init zero_params)\<lparr> elem_ptr := (\<lambda>_. None)(F_ml_reconf := Some [2, 0, 1, 0, 5, 0x4f, 0, 3, 0x34, 0x12]) \<rparr>) ex_assoc = None"
  by code_simp

text \<open>A link that is to be removed at once waits for the next one, because no delay is taken for none yet.\<close>

lemma reconf_delay_not_minimum: "reconf_delay (\<lambda>_. 100) [1, 11] [0, 1] 0 = 1000 \<and> reconf_delay (\<lambda>_. 100) [11, 1] [0, 1] 0 = 0"
  by code_simp

end
