(* ===== verification/Mlo_Runs.thy ===== *)
theory Mlo_Runs
  imports Mlo_Steps
begin

text \<open>
  Every run of the links of a station, also those with an association that the steps of
  \<^verbatim>\<open>Mlo_Steps\<close> leave out: one whose mapping disables the link the station associates on, or
  whose answer rejects a link the mapping disables.  What always holds, and what holds of the runs
  without such an association.
\<close>

subsection \<open>Dormant and active links are valid\<close>

definition links_bounded :: "mlo \<Rightarrow> bool" where
  "links_bounded s \<longleftrightarrow> vif_type s = IF_STATION \<and> links_within (dormant_links s) (valid_links s) \<and>
     links_within (active_links s) (valid_links s)"

lemma links_within_0 [simp]: "links_within 0 b"
  by (simp add: links_within_def)

lemma links_within_refl [simp]: "links_within a a"
  by (simp add: links_within_iff)

lemma bitmaps_bounded:
  assumes "vif_type s = IF_STATION" "links_within (active_links s) new"
  shows "links_bounded (ieee80211_set_vif_links_bitmaps new d s)"
  using assms
  by (auto simp: ieee80211_set_vif_links_bitmaps_def links_bounded_def Let_def link_bits dest: bit_u16_lt)

lemma bitmaps_fields [simp]:
  "vif_type (ieee80211_set_vif_links_bitmaps new d s) = vif_type s"
  "valid_links (ieee80211_set_vif_links_bitmaps new d s) = new"
  by (simp_all add: ieee80211_set_vif_links_bitmaps_def Let_def split: iftype.split)

lemma bitmaps_active:
  assumes "vif_type s = IF_STATION"
  shows "active_links (ieee80211_set_vif_links_bitmaps new d s) =
    (if new = 0 \<or> NOT new AND d \<noteq> 0 \<or> new AND NOT d = 0 then 0
     else if active_links s \<noteq> 0 then active_links s else new AND NOT d)"
  using assms by (simp add: ieee80211_set_vif_links_bitmaps_def Let_def)

text \<open>What an update leaves: the state, the new bitmaps, or the old valid links with the new dormant ones.\<close>

lemma set_links_disj:
  "fst (ieee80211_vif_set_links env new d s) = s \<or>
   fst (ieee80211_vif_set_links env new d s) = ieee80211_set_vif_links_bitmaps new d s \<or>
   new \<noteq> 0 \<and> (fst (ieee80211_vif_set_links env new d s) = ieee80211_set_vif_links_bitmaps (valid_links s) d s \<or>
     fst (ieee80211_vif_set_links env new d s) =
       ieee80211_set_vif_links_bitmaps (valid_links s) d (ieee80211_set_vif_links_bitmaps new d s))"
proof -
  have "new = 0 \<Longrightarrow> \<not> ieee80211_check_dup_link_addrs env new"
    by (simp add: ieee80211_check_dup_link_addrs_def)
  then show ?thesis
    unfolding ieee80211_vif_set_links_def Let_def split_def
    by (simp only: if_distrib[of fst] fst_conv snd_conv split: if_splits) auto
qed

lemma set_links_result:
  obtains "fst (ieee80211_vif_set_links env new d s) = s"
  | "fst (ieee80211_vif_set_links env new d s) = ieee80211_set_vif_links_bitmaps new d s"
  | u where "fst (ieee80211_vif_set_links env new d s) = ieee80211_set_vif_links_bitmaps (valid_links s) d u" "new \<noteq> 0"
      "u = s \<or> u = ieee80211_set_vif_links_bitmaps new d s"
  using set_links_disj[of env new d s] by blast

lemma set_links_bounded:
  assumes "links_bounded s" "links_within (active_links s) new" "links_within new (valid_links s) \<or> active_links s \<noteq> 0 \<or> valid_links s = 0"
  shows "links_bounded (fst (ieee80211_vif_set_links env new d s))"
proof (cases rule: set_links_result[of env new d s])
  case 1
  then show ?thesis using assms(1) by simp
next
  case 2
  then show ?thesis using bitmaps_bounded[of s new d] assms by (simp add: links_bounded_def)
next
  case (3 u)
  show ?thesis
  proof (cases "valid_links s = 0")
    case True
    have "vif_type u = IF_STATION" using 3(3) assms(1) by (auto simp: links_bounded_def)
    then show ?thesis using 3(1) True by (simp add: ieee80211_set_vif_links_bitmaps_def links_bounded_def Let_def)
  next
    case False
    have "vif_type u = IF_STATION" "links_within (active_links u) (valid_links s)"
      using 3(3) assms False by (auto simp: links_bounded_def bitmaps_active links_within_iff bit_link_ops split: if_splits)
    then show ?thesis using bitmaps_bounded[of u "valid_links s" d] 3(1) by simp
  qed
qed

lemma same_links_bounded: "links_bounded s \<Longrightarrow> links_bounded (fst (ieee80211_vif_set_links env (valid_links s) d s))"
  by (rule set_links_bounded) (simp_all add: links_bounded_def)

lemma no_links_bounded: "links_bounded s \<Longrightarrow> links_bounded (fst (ieee80211_vif_set_links env 0 0 s))"
proof (cases rule: set_links_result[of env 0 0 s])
  case 2
  assume "links_bounded s"
  then show ?thesis using 2 by (simp add: ieee80211_set_vif_links_bitmaps_def links_bounded_def Let_def)
qed simp_all

lemma set_active_bounded: "links_bounded s \<Longrightarrow> links_bounded (fst (ieee80211_set_active_links env a s))"
  by (cases rule: set_active_cases[of env a s])
     (auto simp: links_bounded_def ieee80211_vif_usable_links_def links_within_iff bit_link_ops)

lemma bounded_irrelevant [simp]:
  "links_bounded (s\<lparr> sent := x1 \<rparr>) = links_bounded s" "links_bounded (s\<lparr> dialog_token_alloc := x2 \<rparr>) = links_bounded s"
  "links_bounded (s\<lparr> neg_timeout_work := x3 \<rparr>) = links_bounded s" "links_bounded (s\<lparr> teardown_work := x4 \<rparr>) = links_bounded s"
  "links_bounded (s\<lparr> ttlm_info := x5 \<rparr>) = links_bounded s" "links_bounded (s\<lparr> ttlm_work := x6 \<rparr>) = links_bounded s"
  "links_bounded (s\<lparr> removed_links := x7 \<rparr>) = links_bounded s" "links_bounded (s\<lparr> ml_reconf_work := x8 \<rparr>) = links_bounded s"
  "links_bounded (s\<lparr> desired_active_links := x9 \<rparr>) = links_bounded s" "links_bounded (s\<lparr> activate_links_work := x10 \<rparr>) = links_bounded s"
  "links_bounded (s\<lparr> suspended_links := x11 \<rparr>) = links_bounded s" "links_bounded (s\<lparr> disconnecting := x12 \<rparr>) = links_bounded s"
  "links_bounded (s\<lparr> vif_neg := x13 \<rparr>) = links_bounded s" "links_bounded (disconnect s) = links_bounded s"
  "links_bounded (forget_neg s) = links_bounded s"
  by (simp_all add: links_bounded_def disconnect_def forget_neg_def)

lemma ttlm_set_links_bounded:
  assumes "links_bounded s"
  shows "links_bounded (fst (ieee80211_ttlm_set_links env active d x s))"
proof -
  have "links_bounded (fst (if active_links s \<noteq> active then ieee80211_set_active_links env a (forget_neg s) else (forget_neg s, 0)))" for a
    using assms set_active_bounded[of "forget_neg s" env a] by simp
  then show ?thesis
    unfolding ieee80211_ttlm_set_links_def Let_def forget_neg_def[symmetric] split_def
    using assms same_links_bounded[of "forget_neg s" env] by (auto intro: same_links_bounded)
qed

lemma apply_neg_bounded: "links_bounded s \<Longrightarrow> links_bounded (ieee80211_apply_neg_ttlm env neg s)"
proof -
  assume s: "links_bounded s"
  then have "links_bounded (unsuspended s)"
    by (auto simp: unsuspended_def links_bounded_def links_within_iff bit_link_ops)
  then show ?thesis
    using ttlm_set_links_bounded by (simp add: apply_neg_conv split_def Let_def)
qed

lemma sending_bounded [simp]:
  "links_bounded (ieee80211_send_neg_ttlm_req env neg tok s) = links_bounded s"
  "links_bounded (ieee80211_send_neg_ttlm_res env res tok neg s) = links_bounded s"
  by (simp_all add: ieee80211_send_neg_ttlm_req_def ieee80211_send_neg_ttlm_res_def Let_def split_def)

lemma teardown_bounded: "links_bounded s \<Longrightarrow> links_bounded (ieee80211_process_ttlm_teardown env s)"
  unfolding ieee80211_process_ttlm_teardown_def Let_def
  using same_links_bounded[of "s\<lparr> vif_neg := zero_neg, suspended_links := 0 \<rparr>" env] by simp

lemma process_neg_req_bounded:
  "links_bounded s \<Longrightarrow> ieee80211_process_neg_ttlm_req env token elems s = Some t \<Longrightarrow> links_bounded t"
  using apply_neg_bounded
  by (auto simp: ieee80211_process_neg_ttlm_req_def Let_def split_def bind_eq_Some_conv split: if_splits option.splits)

lemma req_neg_bounded: "links_bounded s \<Longrightarrow> links_bounded (fst (ieee80211_req_neg_ttlm env d u s))"
  using apply_neg_bounded by (simp add: ieee80211_req_neg_ttlm_def Let_def split_def)

lemma map_work_bounded: "links_bounded s \<Longrightarrow> links_bounded (ieee80211_tid_to_link_map_work env s)"
  unfolding ieee80211_tid_to_link_map_work_def Let_def split_def
  using same_links_bounded[of "s\<lparr> ttlm_work := None \<rparr>" env 0] ttlm_set_links_bounded by simp

lemma adv_loop_bounded: "links_bounded s \<Longrightarrow> adv_ttlm_loop ts ds s = Some t \<Longrightarrow> links_bounded t"
  by (induction ds) (auto simp: bind_eq_Some_conv Let_def split: if_splits)

lemma process_adv_bounded:
  "links_bounded s \<Longrightarrow> ieee80211_process_adv_ttlm env ds ts s = Some t \<Longrightarrow> links_bounded t"
  using adv_loop_bounded same_links_bounded[of s env 0]
  by (auto simp: ieee80211_process_adv_ttlm_def Let_def split_def split: if_splits)

lemma reconf_elem_bounded:
  "links_bounded s \<Longrightarrow> ieee80211_ml_reconfiguration bi elems s = Some t \<Longrightarrow> links_bounded t"
  by (auto simp: ieee80211_ml_reconfiguration_def Let_def split: option.splits reconf_result.splits if_splits)

lemma reconf_work_bounded:
  assumes "links_bounded s"
  shows "links_bounded (ieee80211_ml_reconf_work env s)"
proof -
  define u where "u = s\<lparr> ml_reconf_work := None \<rparr>"
  define new where "new = valid_links u AND NOT (removed_links u)"
  define kept where "kept = active_links u AND NOT (removed_links u)"
  define a where "a = (if kept = 0 then lowest_link (new AND NOT (dormant_links u)) else kept)"
  define r where "r = (if kept \<noteq> active_links u then ieee80211_set_active_links env a u else (u, 0))"
  define q where "q = ieee80211_vif_set_links env new (dormant_links (fst r) AND NOT (removed_links (fst r))) (fst r)"
  have code: "ieee80211_ml_reconf_work env s =
      (if removed_links u = 0 \<or> new = valid_links u then u
       else if new = 0 \<or> new AND NOT (dormant_links u) = 0 \<or> snd r \<noteq> 0 then (disconnect (if new = 0 \<or> new AND NOT (dormant_links u) = 0 then u else fst r))\<lparr> removed_links := 0 \<rparr>
       else (if snd q \<noteq> 0 then disconnect (fst q) else fst q)\<lparr> removed_links := 0 \<rparr>)"
    unfolding ieee80211_ml_reconf_work_def Let_def split_def
    unfolding u_def[symmetric] new_def[symmetric] kept_def[symmetric] a_def[symmetric] r_def[symmetric] q_def[symmetric]
    by (cases "removed_links u = 0"; cases "new = valid_links u"; cases "new = 0 \<or> new AND NOT (dormant_links u) = 0"; cases "snd r = 0")
       (simp_all only: simp_thms if_True if_False)
  have u: "links_bounded u" using assms by (simp add: u_def)
  have r: "links_bounded (fst r)" using u set_active_bounded[OF u] by (simp add: r_def)
  have "links_bounded (fst q)" if n: "new AND NOT (dormant_links u) \<noteq> 0" "snd r = 0"
  proof -
    have a: "links_within a new"
      using u lowest_link_within[OF n(1)]
      by (auto simp: a_def kept_def new_def links_bounded_def links_within_iff bit_link_ops)
    have kept: "links_within kept new" using u by (auto simp: kept_def new_def links_bounded_def links_within_iff bit_link_ops)
    have "links_within (active_links (fst r)) new \<and> valid_links (fst r) = valid_links u"
    proof (cases "kept = active_links u")
      case True
      then show ?thesis using kept by (simp add: r_def)
    next
      case False
      then have "r = ieee80211_set_active_links env a u" by (simp add: r_def)
      then show ?thesis using n(2) a by (cases rule: set_active_cases[of env a u]) simp_all
    qed
    then show ?thesis unfolding q_def
      by (intro set_links_bounded[OF r]) (auto simp: new_def links_within_iff bit_link_ops)
  qed
  then show ?thesis using u r by (simp add: code)
qed

text \<open>An association on a link that is active, was asked for and is not rejected.\<close>

lemma assoc_bounded:
  assumes s: "links_bounded s" "active_links s \<noteq> 0"
    and within: "links_within (active_links s) (valid AND NOT rejected)"
    and run: "assoc_links env valid rejected ttlms s = Some (t, True)"
  shows "links_bounded t"
proof -
  obtain u d where u: "assoc_ttlm valid ttlms s = Some (u, d, True)"
    and t: "t = fst (ieee80211_vif_set_links env (valid AND NOT rejected) d (fst (ieee80211_vif_set_links env valid d u)))"
    and all: "links_within valid (valid_links (fst (ieee80211_vif_set_links env valid d u)))"
    using run by (auto simp: assoc_links_def bind_eq_Some_conv Let_def links_within_def split: if_splits)
  have v0: "valid \<noteq> 0" using s(2) within by (auto simp: link_bits)
  have "valid AND NOT (valid AND NOT m) = valid AND m" for m :: u16
    by (rule bit_eqI) (auto simp: bit_link_ops dest: bit_u16_lt)
  then have st: "links_bounded u" "active_links u = active_links s" "valid_links u = valid_links s"
    and d: "links_within d valid" "valid AND NOT d \<noteq> 0"
    using u s v0 by (auto simp: assoc_ttlm_def bind_eq_Some_conv links_within_iff bit_link_ops split: if_splits)
  define v where "v = fst (ieee80211_vif_set_links env valid d u)"
  have w: "links_within (active_links u) valid" using within st(2) by (auto simp: links_within_iff bit_link_ops)
  have v: "links_bounded v" unfolding v_def by (rule set_links_bounded[OF st(1) w]) (use st(2) s(2) in simp)
  have type: "vif_type u = IF_STATION" using st(1) by (simp add: links_bounded_def)
  have new: "active_links (ieee80211_set_vif_links_bitmaps valid d u) = active_links s"
    using v0 d s(2) st(2) by (auto simp: bitmaps_active[OF type] links_within_iff no_links_iff bit_link_ops)
  have "active_links v = active_links s"
  proof (cases rule: set_links_result[of env valid d u])
    case 1
    then show ?thesis using st(2) by (simp add: v_def)
  next
    case 2
    then show ?thesis using new by (simp add: v_def)
  next
    case (3 x)
    have "links_within valid (valid_links u)" using all 3(1) by simp
    then have "valid_links u \<noteq> 0" "NOT (valid_links u) AND d = 0" "valid_links u AND NOT d \<noteq> 0"
      using d v0 by (auto simp: links_within_iff no_links_iff bit_link_ops dest: bit_u16_lt)
    moreover have "vif_type x = IF_STATION" "active_links x = active_links s" using 3(3) type new st(2) by auto
    ultimately show ?thesis using 3(1) s(2) by (simp add: v_def bitmaps_active)
  qed
  then show ?thesis
    unfolding t v_def[symmetric] using within s(2) by (intro set_links_bounded[OF v]) simp_all
qed

subsection \<open>Every run\<close>

text \<open>
  Besides the steps of \<^verbatim>\<open>Mlo_Steps\<close>: any association on an active link that was asked for and is not
  rejected, whatever its mapping and the other links of the answer.
\<close>

inductive mlo_any :: "mlo \<Rightarrow> mlo \<Rightarrow> bool" where
  regular: "mlo_step s t \<Longrightarrow> mlo_any s t"
| associated: "active_links s \<noteq> 0 \<Longrightarrow> links_within (active_links s) (valid AND NOT rejected) \<Longrightarrow>
    assoc_links env valid rejected ttlms s = Some (t, True) \<Longrightarrow> mlo_any s t"

lemma step_bounded:
  assumes "mlo_step s t" "links_bounded s"
  shows "links_bounded t"
  using assms
proof (induction rule: mlo_step.induct)
  case (connect l s env)
  then show ?case
    unfolding mlo_prep_connection_def by (intro set_links_bounded) (auto simp: links_bounded_def links_within_def)
next
  case (assoc s valid ttlms u d rejected env t)
  then show ?case
    by (intro assoc_bounded[OF assoc(7,2) _ assoc(6)]) (auto simp: links_within_iff no_links_iff bit_link_ops)
next
  case (assoc_err s valid rejected ttlms env t)
  then show ?case using assoc_failed_none[OF _ assoc_err(1-3)] by (simp add: links_bounded_def)
next
  case (disassoc s env)
  then show ?case unfolding mlo_set_disassoc_def by (intro no_links_bounded) simp
next
  case (teardown_work s env)
  then show ?case unfolding ieee80211_teardown_ttlm_work_def by (intro teardown_bounded) simp
qed (auto intro: process_neg_req_bounded req_neg_bounded teardown_bounded process_adv_bounded map_work_bounded reconf_elem_bounded
    reconf_work_bounded set_active_bounded
    simp: ieee80211_process_neg_ttlm_res_def ieee80211_neg_ttlm_timeout_work_def ieee80211_send_teardown_neg_ttlm_def
      ieee80211_handle_teardown_ttlm_status_def ieee80211_set_active_links_async_def ieee80211_activate_links_work_def Let_def)

lemma any_bounded: "mlo_any s t \<Longrightarrow> links_bounded s \<Longrightarrow> links_bounded t"
  by (induction rule: mlo_any.induct) (auto intro: step_bounded assoc_bounded)

lemma any_run_bounded: "mlo_any\<^sup>*\<^sup>* s t \<Longrightarrow> links_bounded s \<Longrightarrow> links_bounded t"
  by (induction rule: rtranclp_induct) (auto intro: any_bounded)

text \<open>C21: In every reachable state of a station, whatever frames the AP sends, whatever user space and the driver ask for and
  however the driver answers: dormant links are valid and active links are valid.  If no association on the way
  had a mapping that disables the link it was made on, and none rejected a link its mapping disables, then no
  active link is dormant either, and while there are valid links at least one is active.  (The lemmas
  \<open>assoc_link_disabled\<close> and \<open>rejected_dormant_link\<close> show what those associations leave.)\<close>

theorem mlo_links_invariant:
  assumes "mlo_any\<^sup>*\<^sup>* s0 s" "vif_type s0 = IF_STATION" "valid_links s0 = 0" "active_links s0 = 0" "dormant_links s0 = 0"
  shows "links_within (dormant_links s) (valid_links s) \<and> links_within (active_links s) (valid_links s) \<and>
    (mlo_step\<^sup>*\<^sup>* s0 s \<longrightarrow>
       links_within (active_links s) (ieee80211_vif_usable_links s) \<and> (valid_links s \<noteq> 0 \<longrightarrow> active_links s \<noteq> 0))"
proof -
  have "links_bounded s0" "links_ok s0" using assms(2-5) by (simp_all add: links_bounded_def links_ok_def)
  moreover have "links_ok s \<Longrightarrow> links_within (active_links s) (ieee80211_vif_usable_links s) \<and> (valid_links s \<noteq> 0 \<longrightarrow> active_links s \<noteq> 0)"
    by (cases "valid_links s = 0") (simp_all add: links_ok_def)
  ultimately show ?thesis
    using any_run_bounded[OF assms(1)] reachable_ok[of s0 s] by (auto simp: links_bounded_def)
qed

theorem mlo_links_invariant_witness:
  "links_within (dormant_links ex_assoc) (valid_links ex_assoc) \<and>
   links_within (active_links ex_assoc) (ieee80211_vif_usable_links ex_assoc) \<and> active_links ex_assoc \<noteq> 0"
proof -
  have "mlo_any\<^sup>*\<^sup>* ex_vif ex_assoc"
    using ex_assoc_reachable by (rule rtranclp_mono[THEN predicate2D, rotated]) (auto intro: mlo_any.regular)
  from mlo_links_invariant[OF this] show ?thesis
    using ex_assoc_reachable ex_assoc_facts(2) by (simp add: ex_vif_def)
qed

text \<open>
  The AP's mapping disables the link of the association and leaves the two others: the station stays
  active on the disabled link.
\<close>

lemma assoc_link_disabled:
  "map_option (\<lambda>(t, ok). (ok, valid_links t, active_links t, dormant_links t))
     (assoc_links ex_env 7 0 [[0x22, 0xff] @ replicate 8 6] (mlo_prep_connection ex_env 0 ex_vif)) = Some (True, 7, 1, 1)"
  by code_simp

lemma assoc_link_disabled_reachable:
  "\<exists>s. mlo_any\<^sup>*\<^sup>* ex_vif s \<and> active_links s = 1 \<and> dormant_links s = 1"
proof -
  let ?c = "mlo_prep_connection ex_env 0 ex_vif"
  obtain t where t: "assoc_links ex_env 7 0 [[0x22, 0xff] @ replicate 8 6] ?c = Some (t, True)" "active_links t = 1" "dormant_links t = 1"
    using assoc_link_disabled by auto
  have "mlo_any ex_vif ?c" by (intro mlo_any.regular mlo_step.connect) (simp_all add: ex_vif_def)
  moreover have "active_links ?c \<noteq> 0" "links_within (active_links ?c) (7 AND NOT 0)"
    unfolding links_within_def by code_simp+
  ultimately have "mlo_any\<^sup>*\<^sup>* ex_vif t"
    using mlo_any.associated[OF _ _ t(1)] by (meson converse_rtranclp_into_rtranclp r_into_rtranclp)
  then show ?thesis using t(2,3) by blast
qed

end
