(* ===== verification/Tx_Handlers.thy ===== *)
theory Tx_Handlers
  imports Rx_Keys
begin

text \<open>
  The transmit handlers of \<^verbatim>\<open>mac80211/tx.c\<close> that number, protect and fragment a frame:
  key selection, sequence numbers, fragmentation, encryption by the handler of the key's cipher,
  and their order in \<^verbatim>\<open>invoke_tx_handlers_late\<close>, for a device with its own rate control.

  A \<open>tx_key_ref\<close> is one of the pointers to a key the station, the interface and its links have.
  Rates and statistics of a frame are left out.
\<close>

abbreviation (input) IEEE80211_TX_CTL_ASSIGN_SEQ :: u32 where "IEEE80211_TX_CTL_ASSIGN_SEQ \<equiv> 0x2"
abbreviation (input) IEEE80211_TX_CTL_CLEAR_PS_FILT :: u32 where "IEEE80211_TX_CTL_CLEAR_PS_FILT \<equiv> 0x8"
abbreviation (input) IEEE80211_TX_CTL_FIRST_FRAGMENT :: u32 where "IEEE80211_TX_CTL_FIRST_FRAGMENT \<equiv> 0x10"
abbreviation (input) IEEE80211_TX_CTL_AMPDU :: u32 where "IEEE80211_TX_CTL_AMPDU \<equiv> 0x40"
abbreviation (input) IEEE80211_TX_CTL_RATE_CTRL_PROBE :: u32 where "IEEE80211_TX_CTL_RATE_CTRL_PROBE \<equiv> 0x1000"
abbreviation (input) IEEE80211_TX_CTL_HW_80211_ENCAP :: u32 where "IEEE80211_TX_CTL_HW_80211_ENCAP \<equiv> 0x4000"
abbreviation (input) IEEE80211_TX_INTFL_DONT_ENCRYPT :: u32 where "IEEE80211_TX_INTFL_DONT_ENCRYPT \<equiv> 0x10000"
abbreviation (input) IEEE80211_TX_CTL_MORE_FRAMES :: u32 where "IEEE80211_TX_CTL_MORE_FRAMES \<equiv> 0x40000"
abbreviation (input) IEEE80211_TX_INTFL_RETRANSMISSION :: u32 where "IEEE80211_TX_INTFL_RETRANSMISSION \<equiv> 0x80000"
abbreviation (input) IEEE80211_TX_CTRL_NO_SEQNO :: u32 where "IEEE80211_TX_CTRL_NO_SEQNO \<equiv> 0x80"
abbreviation (input) IEEE80211_TX_CTRL_MCAST_MLO_FIRST_TX :: u32 where "IEEE80211_TX_CTRL_MCAST_MLO_FIRST_TX \<equiv> 0x200"
abbreviation (input) IEEE80211_KEY_FLAG_SW_MGMT_TX :: u16 where "IEEE80211_KEY_FLAG_SW_MGMT_TX \<equiv> 0x10"
abbreviation (input) IEEE80211_LINK_UNSPECIFIED :: u32 where "IEEE80211_LINK_UNSPECIFIED \<equiv> 0xf"
abbreviation (input) FCS_LEN :: nat where "FCS_LEN \<equiv> 4"
abbreviation (input) IEEE80211_ENCRYPT_HEADROOM :: nat where "IEEE80211_ENCRYPT_HEADROOM \<equiv> 8"
abbreviation (input) IEEE80211_ENCRYPT_TAILROOM :: nat where "IEEE80211_ENCRYPT_TAILROOM \<equiv> 18"

subsection \<open>State\<close>

text \<open>
  The fields of \<^verbatim>\<open>struct sta_info\<close>, \<^verbatim>\<open>struct ieee80211_link_data\<close> and \<^verbatim>\<open>struct ieee80211_sub_if_data\<close>
  the handlers use; of the type of the interface, whether it is a monitor and whether it is an AP.
\<close>

record tx_sta =
  ts_ptk :: "nat \<Rightarrow> ieee80211_key option"
  ts_ptk_idx :: nat
  ts_mfp :: bool
  ts_uses_encryption :: bool
  tid_seq :: "u16 list"

record tx_link =
  default_multicast_key :: "ieee80211_key option"
  link_mgmt_key :: "ieee80211_key option"

record tx_sdata =
  tv_monitor :: bool
  tv_ap :: bool
  tv_mld :: bool
  sequence_number :: u16
  mld_mcast_seq :: u16
  default_unicast_key :: "ieee80211_key option"
  deflink :: tx_link
  tx_links :: "nat \<Rightarrow> tx_link option"
  tv_control_port_protocol :: u16

text \<open>What is asked of the device and of the memory allocation; \<open>frag_alloc i\<close> is the \<open>i\<close>-th fragment.\<close>

record tx_env =
  frag_threshold :: nat
  tx_headroom :: nat
  frag_alloc :: "nat \<Rightarrow> bool"
  frag_oom :: "alloc_site \<Rightarrow> bool"

subsection \<open>Key selection\<close>

datatype tx_key_ref = Sta_ptk nat | Link_mcast "nat option" | Link_mgmt "nat option" | Default_unicast

text \<open>\<open>None\<close> for the link is \<^verbatim>\<open>deflink\<close>.\<close>

fun tx_link_at :: "tx_sdata \<Rightarrow> nat option \<Rightarrow> tx_link option" where
  "tx_link_at sd None = Some (deflink sd)"
| "tx_link_at sd (Some i) = tx_links sd i"

fun tx_key_at :: "tx_sdata \<Rightarrow> tx_sta option \<Rightarrow> tx_key_ref \<Rightarrow> ieee80211_key option" where
  "tx_key_at sd sta (Sta_ptk i) = Option.bind sta (\<lambda>s. ts_ptk s i)"
| "tx_key_at sd sta (Link_mcast l) = Option.bind (tx_link_at sd l) default_multicast_key"
| "tx_key_at sd sta (Link_mgmt l) = Option.bind (tx_link_at sd l) link_mgmt_key"
| "tx_key_at sd sta Default_unicast = default_unicast_key sd"

definition ieee80211_use_mfp :: "u16 \<Rightarrow> tx_sta option \<Rightarrow> u8 list \<Rightarrow> bool" where
  "ieee80211_use_mfp fc sta hdr \<longleftrightarrow>
     (if \<not> ieee80211_is_mgmt fc then False
      else if sta = None \<or> \<not> ts_mfp (the sta) then False
      else if \<not> ieee80211_is_robust_mgmt_frame hdr then False
      else True)"

definition ieee80211_select_link_key :: "tx_sdata \<Rightarrow> sk_buff \<Rightarrow> tx_key_ref option" where
  "ieee80211_select_link_key sd skb =
     (let hdr = skb_data skb;
          link_id = drop_bit 28 (ti_control_flags (skb_tx skb));
          l = (if link_id = IEEE80211_LINK_UNSPECIFIED then None else Some (unat link_id))
      in if tx_link_at sd l = None then None
         else if ieee80211_is_group_privacy_action hdr then Some (Link_mcast l)
         else if ieee80211_is_mgmt (frame_control hdr) \<and> is_multicast_ether_addr (addr1 hdr) \<and>
                 ieee80211_is_robust_mgmt_frame hdr
         then Some (Link_mgmt l)
         else if is_multicast_ether_addr (addr1 hdr) then Some (Link_mcast l)
         else None)"

text \<open>The first of the pointers that is set.\<close>

definition tx_select :: "tx_sdata \<Rightarrow> tx_sta option \<Rightarrow> sk_buff \<Rightarrow> tx_key_ref option" where
  "tx_select sd sta skb =
     (let held = (\<lambda>r. tx_key_at sd sta r \<noteq> None);
          link = ieee80211_select_link_key sd skb
      in if sta \<noteq> None \<and> held (Sta_ptk (ts_ptk_idx (the sta))) then Some (Sta_ptk (ts_ptk_idx (the sta)))
         else if link \<noteq> None \<and> held (the link) then link
         else if \<not> is_multicast_ether_addr (addr1 (skb_data skb)) \<and> held Default_unicast then Some Default_unicast
         else None)"

text \<open>Whether the key stays with the frame, by its cipher, and whether the device is kept from using it.\<close>

definition key_applies :: "ieee80211_key \<Rightarrow> tx_sta option \<Rightarrow> u8 list \<Rightarrow> bool" where
  "key_applies k sta hdr \<longleftrightarrow>
     (let c = kc_cipher (conf k); fc = frame_control hdr in
      if c \<in> {WLAN_CIPHER_SUITE_WEP40, WLAN_CIPHER_SUITE_WEP104, WLAN_CIPHER_SUITE_TKIP} then ieee80211_is_data_present fc
      else if c \<in> {WLAN_CIPHER_SUITE_CCMP, WLAN_CIPHER_SUITE_CCMP_256, WLAN_CIPHER_SUITE_GCMP, WLAN_CIPHER_SUITE_GCMP_256}
      then ieee80211_is_data_present fc \<or> ieee80211_use_mfp fc sta hdr \<or> ieee80211_is_group_privacy_action hdr
      else if c \<in> {WLAN_CIPHER_SUITE_AES_CMAC, WLAN_CIPHER_SUITE_BIP_CMAC_256, WLAN_CIPHER_SUITE_BIP_GMAC_128,
                   WLAN_CIPHER_SUITE_BIP_GMAC_256} then ieee80211_is_mgmt fc
      else True)"

definition key_skip_hw :: "ieee80211_key \<Rightarrow> u16 \<Rightarrow> bool" where
  "key_skip_hw k fc \<longleftrightarrow>
     kc_cipher (conf k) \<in> {WLAN_CIPHER_SUITE_CCMP, WLAN_CIPHER_SUITE_CCMP_256, WLAN_CIPHER_SUITE_GCMP, WLAN_CIPHER_SUITE_GCMP_256} \<and>
     has_flag (kc_flags (conf k)) IEEE80211_KEY_FLAG_SW_MGMT_TX \<and> ieee80211_is_mgmt fc"

definition set_hw_key :: "ieee80211_key \<Rightarrow> sk_buff \<Rightarrow> sk_buff" where
  "set_hw_key k skb = skb\<lparr>skb_tx := (skb_tx skb)\<lparr>hw_key := Some (kc_flags (conf k))\<rparr>\<rparr>"

definition ieee80211_tx_h_select_key :: "tx_sdata \<Rightarrow> tx_sta option \<Rightarrow> sk_buff \<Rightarrow> tx_result \<times> tx_key_ref option \<times> sk_buff" where
  "ieee80211_tx_h_select_key sd sta skb =
     (let hdr = skb_data skb; fc = frame_control hdr; flags = ti_flags (skb_tx skb) in
      if has_flag flags IEEE80211_TX_INTFL_DONT_ENCRYPT then (TX_CONTINUE, None, skb)
      else
        (let r = tx_select sd sta skb; key = Option.bind r (tx_key_at sd sta) in
         case key of
           None \<Rightarrow>
             if has_flag flags IEEE80211_TX_CTL_HW_80211_ENCAP then (TX_CONTINUE, r, skb)
             else if ieee80211_is_data_present fc \<and> sta \<noteq> None \<and> ts_uses_encryption (the sta) then (TX_DROP, None, skb)
             else (TX_CONTINUE, None, skb)
         | Some k \<Rightarrow>
             (let uploaded = has_flag (key_flags k) KEY_FLAG_UPLOADED_TO_HARDWARE in
              if has_flag flags IEEE80211_TX_CTL_HW_80211_ENCAP
              then (TX_CONTINUE, r, if uploaded then set_hw_key k skb else skb)
              else if \<not> key_applies k sta hdr then (TX_CONTINUE, None, skb)
              else if has_flag (key_flags k) KEY_FLAG_TAINTED \<and> \<not> ieee80211_is_deauth fc \<and>
                      skb_protocol skb \<noteq> tv_control_port_protocol sd
              then (TX_DROP, r, skb)
              else (TX_CONTINUE, r, if \<not> key_skip_hw k fc \<and> uploaded then set_hw_key k skb else skb))))"

subsection \<open>Sequence numbers\<close>

definition set_seq_ctrl :: "u16 \<Rightarrow> sk_buff \<Rightarrow> sk_buff" where
  "set_seq_ctrl sc skb = skb_write 22 (le16_bytes sc) skb"

definition ieee80211_tx_next_seq :: "nat \<Rightarrow> tx_sta \<Rightarrow> u16 \<times> tx_sta" where
  "ieee80211_tx_next_seq t sta =
     (let seq = tid_seq sta ! t in (seq, sta\<lparr>tid_seq := (tid_seq sta)[t := (seq + 0x10) AND IEEE80211_SCTL_SEQ]\<rparr>))"

definition ieee80211_tx_h_sequence :: "extern \<Rightarrow> tx_sdata \<Rightarrow> tx_sta option \<Rightarrow> sk_buff \<Rightarrow> tx_sdata \<times> tx_sta option \<times> sk_buff" where
  "ieee80211_tx_h_sequence x sd sta skb =
     (let hdr = skb_data skb; fc = frame_control hdr; cflags = ti_control_flags (skb_tx skb);
          multicast = is_multicast_ether_addr (addr1 hdr)
      in if tv_monitor sd then (sd, sta, skb)
         else if ieee80211_is_ctl fc then (sd, sta, skb)
         else if x_hdrlen x fc < 24 then (sd, sta, skb)
         else if ieee80211_is_qos_nullfunc fc then (sd, sta, skb)
         else if has_flag cflags IEEE80211_TX_CTRL_NO_SEQNO then (sd, sta, skb)
         else if multicast \<and> tv_mld sd \<and> tv_ap sd
         then (let sd = (if has_flag cflags IEEE80211_TX_CTRL_MCAST_MLO_FIRST_TX
                         then sd\<lparr>mld_mcast_seq := mld_mcast_seq sd + 0x10\<rparr> else sd)
               in (sd, sta, set_seq_ctrl (mld_mcast_seq sd) skb))
         else if \<not> ieee80211_is_data_qos fc \<or> multicast
         then (sd\<lparr>sequence_number := sequence_number sd + 0x10\<rparr>, sta,
               set_seq_ctrl (sequence_number sd)
                 (skb\<lparr>skb_tx := (skb_tx skb)\<lparr>ti_flags := ti_flags (skb_tx skb) OR IEEE80211_TX_CTL_ASSIGN_SEQ\<rparr>\<rparr>))
         else
           (case sta of
              None \<Rightarrow> (sd, sta, skb)
            | Some s \<Rightarrow> (let (sc, s) = ieee80211_tx_next_seq (unat (ieee80211_get_tid hdr)) s
                         in (sd, Some s, set_seq_ctrl sc skb))))"

subsection \<open>Fragmentation\<close>

text \<open>What \<^verbatim>\<open>ieee80211_tx_prepare\<close> decides about fragmentation.\<close>

definition tx_prepare_flags :: "tx_env \<Rightarrow> sk_buff \<Rightarrow> sk_buff" where
  "tx_prepare_flags env skb =
     (let multicast = is_multicast_ether_addr (addr1 (skb_data skb));
          flags = ti_flags (skb_tx skb);
          flags = (if multicast then flags OR IEEE80211_TX_CTL_NO_ACK else flags);
          flags = (if \<not> has_flag flags IEEE80211_TX_CTL_DONTFRAG \<and>
                      (multicast \<or> skb_len skb + FCS_LEN \<le> frag_threshold env \<or> has_flag flags IEEE80211_TX_CTL_AMPDU)
                   then flags OR IEEE80211_TX_CTL_DONTFRAG else flags)
      in skb\<lparr>skb_tx := (skb_tx skb)\<lparr>ti_flags := flags\<rparr>\<rparr>)"

text \<open>
  A further fragment: a new buffer with the header and \<open>len\<close> octets from \<open>pos\<close>.  The room it is allocated
  with, \<^verbatim>\<open>frag_threshold\<close> and the tailroom behind the headroom, always suffices for them.
\<close>

definition new_fragment :: "tx_env \<Rightarrow> sk_buff \<Rightarrow> nat \<Rightarrow> nat \<Rightarrow> nat \<Rightarrow> bool \<Rightarrow> sk_buff" where
  "new_fragment env skb hdrlen pos len more_frames =
     (let flags = ti_flags (skb_tx skb) AND NOT (IEEE80211_TX_CTL_CLEAR_PS_FILT OR IEEE80211_TX_CTL_FIRST_FRAGMENT)
      in skb\<lparr>skb_head := replicate (tx_headroom env + IEEE80211_ENCRYPT_HEADROOM) 0,
             skb_data := take hdrlen (skb_data skb) @ take len (drop pos (skb_data skb)),
             skb_tail := replicate (frag_threshold env + IEEE80211_ENCRYPT_TAILROOM - (hdrlen + len)) 0,
             skb_protocol := 0,
             skb_tx := (skb_tx skb)\<lparr>ti_flags := (if more_frames then flags OR IEEE80211_TX_CTL_MORE_FRAMES else flags)\<rparr>,
             skb_oom := frag_oom env\<rparr>)"

text \<open>
  The loop of \<^verbatim>\<open>ieee80211_fragment\<close> with \<open>rem\<close> octets left from \<open>pos\<close> on: whether all allocations succeeded,
  and the fragments queued.  It is only called with a positive fragment length.
\<close>

function fragment_loop :: "tx_env \<Rightarrow> sk_buff \<Rightarrow> nat \<Rightarrow> nat \<Rightarrow> nat \<Rightarrow> nat \<Rightarrow> nat \<Rightarrow> bool \<times> sk_buff list" where
  "fragment_loop env skb hdrlen per_fragm pos rem i =
     (if rem = 0 \<or> per_fragm = 0 then (True, [])
      else if \<not> frag_alloc env i then (False, [])
      else (let len = min per_fragm rem;
                (ok, skbs) = fragment_loop env skb hdrlen per_fragm (pos + len) (rem - len) (Suc i)
            in (ok, new_fragment env skb hdrlen pos len (rem - len \<noteq> 0) # skbs)))"
  by pat_completeness auto
termination by (relation "measure (\<lambda>(env, skb, hdrlen, per_fragm, pos, rem, i). rem)") auto

declare fragment_loop.simps [simp del]

text \<open>
  \<open>None\<close> is a threshold that leaves no room for data, with which the loop would not end; cfg80211 accepts
  none below 256.
\<close>

definition ieee80211_fragment :: "tx_env \<Rightarrow> sk_buff \<Rightarrow> nat \<Rightarrow> (bool \<times> sk_buff list) option" where
  "ieee80211_fragment env skb hdrlen =
     (let per_fragm = frag_threshold env - hdrlen - FCS_LEN in
      if frag_threshold env \<le> hdrlen + FCS_LEN then None
      else if skb_len skb < hdrlen + per_fragm then Some (False, [skb])
      else (let (ok, skbs) = fragment_loop env skb hdrlen per_fragm (hdrlen + per_fragm) (skb_len skb - hdrlen - per_fragm) 0
            in Some (ok, (if ok then skb_trim skb (hdrlen + per_fragm) else skb) # skbs)))"

text \<open>The header of fragment \<open>n\<close>.\<close>

definition number_fragment :: "nat \<Rightarrow> bool \<Rightarrow> sk_buff \<Rightarrow> sk_buff" where
  "number_fragment n is_last skb =
     (let d = skb_data skb; flags = ti_flags (skb_tx skb);
          fc = (if is_last then frame_control d AND NOT IEEE80211_FCTL_MOREFRAGS
                else frame_control d OR IEEE80211_FCTL_MOREFRAGS);
          d = mem_write d 0 (le16_bytes fc);
          d = mem_write d 22 (le16_bytes (seq_ctrl d OR (word_of_nat n AND IEEE80211_SCTL_FRAG)))
      in skb\<lparr>skb_data := d,
             skb_tx := (skb_tx skb)\<lparr>ti_flags := (if is_last then flags else flags AND NOT IEEE80211_TX_CTL_RATE_CTRL_PROBE)\<rparr>\<rparr>)"

fun number_fragments :: "nat \<Rightarrow> sk_buff list \<Rightarrow> sk_buff list" where
  "number_fragments n [] = []"
| "number_fragments n (skb # skbs) = number_fragment n (skbs = []) skb # number_fragments (Suc n) skbs"

definition ieee80211_tx_h_fragment :: "extern \<Rightarrow> ieee80211_local \<Rightarrow> tx_env \<Rightarrow> sk_buff \<Rightarrow> (tx_result \<times> sk_buff list) option" where
  "ieee80211_tx_h_fragment x local env skb =
     (let flags = ti_flags (skb_tx skb) in
      if has_flag flags IEEE80211_TX_CTL_DONTFRAG then Some (TX_CONTINUE, [skb])
      else if supports_tx_frag local then Some (TX_CONTINUE, [skb])
      else if has_flag flags IEEE80211_TX_CTL_AMPDU then Some (TX_DROP, [skb])
      else if skb_len skb + FCS_LEN \<le> frag_threshold env then Some (TX_DROP, [skb])
      else (case ieee80211_fragment env skb (x_hdrlen x (frame_control (skb_data skb))) of
              None \<Rightarrow> None
            | Some (ok, skbs) \<Rightarrow>
                if \<not> ok then Some (TX_DROP, skbs) else Some (TX_CONTINUE, number_fragments 0 skbs)))"

subsection \<open>Encryption and the order of the handlers\<close>

definition ieee80211_tx_h_encrypt ::
  "extern \<Rightarrow> ieee80211_local \<Rightarrow> ieee80211_key option \<Rightarrow> sk_buff list \<Rightarrow>
     tx_result \<times> ieee80211_local \<times> ieee80211_key option \<times> sk_buff list" where
  "ieee80211_tx_h_encrypt x local key skbs =
     (case key of
        None \<Rightarrow> (TX_CONTINUE, local, None, skbs)
      | Some k \<Rightarrow>
          (let c = kc_cipher (conf k);
               with_key = (\<lambda>(r, k, skbs). (r, local, Some k, skbs))
           in if c = WLAN_CIPHER_SUITE_WEP40 \<or> c = WLAN_CIPHER_SUITE_WEP104
              then (case ieee80211_crypto_wep_encrypt x k local skbs of (r, local, skbs) \<Rightarrow> (r, local, Some k, skbs))
              else if c = WLAN_CIPHER_SUITE_TKIP then with_key (ieee80211_crypto_tkip_encrypt x k skbs)
              else if c = WLAN_CIPHER_SUITE_CCMP then with_key (ieee80211_crypto_ccmp_encrypt x 8 k skbs)
              else if c = WLAN_CIPHER_SUITE_CCMP_256 then with_key (ieee80211_crypto_ccmp_encrypt x 16 k skbs)
              else if c = WLAN_CIPHER_SUITE_AES_CMAC then with_key (ieee80211_crypto_aes_cmac_encrypt x k skbs)
              else if c = WLAN_CIPHER_SUITE_BIP_CMAC_256 then with_key (ieee80211_crypto_aes_cmac_256_encrypt x k skbs)
              else if c = WLAN_CIPHER_SUITE_BIP_GMAC_128 \<or> c = WLAN_CIPHER_SUITE_BIP_GMAC_256
              then with_key (ieee80211_crypto_aes_gmac_encrypt x k skbs)
              else if c = WLAN_CIPHER_SUITE_GCMP \<or> c = WLAN_CIPHER_SUITE_GCMP_256 then with_key (ieee80211_crypto_gcmp_encrypt x k skbs)
              else (TX_DROP, local, Some k, skbs)))"

text \<open>The changed key goes back to where it was selected.\<close>

definition put_tx_link :: "nat option \<Rightarrow> (tx_link \<Rightarrow> tx_link) \<Rightarrow> tx_sdata \<Rightarrow> tx_sdata" where
  "put_tx_link l f sd =
     (case l of None \<Rightarrow> sd\<lparr>deflink := f (deflink sd)\<rparr>
      | Some i \<Rightarrow> sd\<lparr>tx_links := (tx_links sd)(i := map_option f (tx_links sd i))\<rparr>)"

fun put_tx_key :: "tx_key_ref \<Rightarrow> ieee80211_key \<Rightarrow> tx_sdata \<times> tx_sta option \<Rightarrow> tx_sdata \<times> tx_sta option" where
  "put_tx_key (Sta_ptk i) k (sd, sta) = (sd, map_option (\<lambda>s. s\<lparr>ts_ptk := (ts_ptk s)(i := Some k)\<rparr>) sta)"
| "put_tx_key (Link_mcast l) k (sd, sta) = (put_tx_link l (\<lambda>t. t\<lparr>default_multicast_key := Some k\<rparr>) sd, sta)"
| "put_tx_key (Link_mgmt l) k (sd, sta) = (put_tx_link l (\<lambda>t. t\<lparr>link_mgmt_key := Some k\<rparr>) sd, sta)"
| "put_tx_key Default_unicast k (sd, sta) = (sd\<lparr>default_unicast_key := Some k\<rparr>, sta)"

record tx_state =
  tx_local :: ieee80211_local
  tx_vif :: tx_sdata
  tx_peer :: "tx_sta option"

text \<open>
  The late handlers, with the key the early ones selected: the result of the last handler called, the state
  and the frames.  A dropped frame is freed with its fragments.
\<close>

definition invoke_tx_handlers_late ::
  "extern \<Rightarrow> tx_env \<Rightarrow> tx_key_ref option \<Rightarrow> sk_buff \<Rightarrow> tx_state \<Rightarrow> (tx_result \<times> tx_state \<times> sk_buff list) option" where
  "invoke_tx_handlers_late x env r skb st =
     (if has_flag (ti_flags (skb_tx skb)) IEEE80211_TX_INTFL_RETRANSMISSION then Some (TX_CONTINUE, st, [skb])
      else
        (let key = Option.bind r (tx_key_at (tx_vif st) (tx_peer st));
             (res, skb) = ieee80211_tx_h_michael_mic_add x (tx_local st) key skb
         in if res \<noteq> TX_CONTINUE then Some (res, st, [])
            else
              (let (sd, sta, skb) = ieee80211_tx_h_sequence x (tx_vif st) (tx_peer st) skb;
                   st = st\<lparr>tx_vif := sd, tx_peer := sta\<rparr>
               in case ieee80211_tx_h_fragment x (tx_local st) env skb of
                    None \<Rightarrow> None
                  | Some (res, skbs) \<Rightarrow>
                      if res \<noteq> TX_CONTINUE then Some (res, st, [])
                      else
                        (let (res, local, key', skbs) = ieee80211_tx_h_encrypt x (tx_local st) key skbs;
                             (sd, sta) = (case (r, key') of (Some r, Some k) \<Rightarrow> put_tx_key r k (tx_vif st, tx_peer st)
                                          | _ \<Rightarrow> (tx_vif st, tx_peer st));
                             st = st\<lparr>tx_local := local, tx_vif := sd, tx_peer := sta\<rparr>
                         in Some (res, st, if res = TX_CONTINUE then skbs else [])))))"

text \<open>Key selection and the late handlers.\<close>

definition tx_handlers ::
  "extern \<Rightarrow> tx_env \<Rightarrow> sk_buff \<Rightarrow> tx_state \<Rightarrow> (tx_result \<times> tx_state \<times> sk_buff list) option" where
  "tx_handlers x env skb st =
     (case ieee80211_tx_h_select_key (tx_vif st) (tx_peer st) (tx_prepare_flags env skb) of
        (res, r, skb) \<Rightarrow>
          if res \<noteq> TX_CONTINUE then Some (res, st, []) else invoke_tx_handlers_late x env r skb st)"

end
