(* ===== verification/Tx_Spec.thy ===== *)
theory Tx_Spec
  imports Tx_Handlers
begin

text \<open>
  What the transmit handlers promise of one frame and of many: the fragments of a frame, and consecutive
  sequence numbers per traffic identifier.
\<close>

subsection \<open>Fragments\<close>

text \<open>The payload cut into pieces of \<open>n\<close> octets, the last one may be shorter.\<close>

function pieces :: "nat \<Rightarrow> 'a list \<Rightarrow> 'a list list" where
  "pieces n xs = (if xs = [] \<or> n = 0 then [] else take n xs # pieces n (drop n xs))"
  by pat_completeness auto
termination by (relation "measure (\<lambda>(n, xs). length xs)") auto

declare pieces.simps [simp del]

lemma pieces_Nil [simp]: "pieces n [] = []" "pieces n xs = [] \<longleftrightarrow> xs = [] \<or> n = 0"
  by (subst pieces.simps, simp)+

lemma concat_pieces: "0 < n \<Longrightarrow> concat (pieces n xs) = xs"
  by (induction n xs rule: pieces.induct) (subst pieces.simps, auto)

lemma pieces_length: "p \<in> set (pieces n xs) \<Longrightarrow> 0 < length p \<and> length p \<le> n"
proof (induction n xs rule: pieces.induct)
  case (1 n xs)
  then show ?case by (subst (asm) (2) pieces.simps) (auto split: if_splits)
qed

lemma two_pieces:
  assumes "0 < n" "n < length xs"
  shows "2 \<le> length (pieces n xs)"
proof -
  have p: "pieces n xs = take n xs # pieces n (drop n xs)" using assms by (subst pieces.simps) auto
  have "pieces n (drop n xs) \<noteq> []" using assms by simp
  then have "1 \<le> length (pieces n (drop n xs))" by (simp add: Suc_le_eq)
  then show ?thesis unfolding p by simp
qed

text \<open>The header of fragment \<open>n\<close>.\<close>

definition frag_header :: "u8 list \<Rightarrow> nat \<Rightarrow> bool \<Rightarrow> u8 list" where
  "frag_header hdr n is_last =
     mem_write (mem_write hdr 0 (le16_bytes (if is_last then frame_control hdr AND NOT IEEE80211_FCTL_MOREFRAGS
                                             else frame_control hdr OR IEEE80211_FCTL_MOREFRAGS)))
       22 (le16_bytes (seq_ctrl hdr OR (word_of_nat n AND IEEE80211_SCTL_FRAG)))"

lemma length_frag_header [simp]: "24 \<le> length hdr \<Longrightarrow> length (frag_header hdr n l) = length hdr"
  by (simp add: frag_header_def buf_simps)

lemma seq_ctrl_write_fc: "24 \<le> length hdr \<Longrightarrow> seq_ctrl (mem_write hdr 0 (le16_bytes w)) = seq_ctrl hdr"
  by (simp add: seq_ctrl_def get_unaligned_le16_def nth_mem_write)

lemma frame_control_write: "2 \<le> length hdr \<Longrightarrow> frame_control (mem_write hdr 0 (le16_bytes w)) = w"
  by (simp add: frame_control_def mem_write_def codec_simps)

lemma frame_control_write_seq: "24 \<le> length hdr \<Longrightarrow> frame_control (mem_write hdr 22 (le16_bytes w)) = frame_control hdr"
  by (intro frame_control_take_cong) (simp_all add: take_mem_write buf_simps)

text \<open>A mask that meets neither the Protected nor the More Fragments bit.\<close>

lemma masked_word:
  fixes w a m :: "'a::len word"
  shows "a AND m = 0 \<Longrightarrow> (w OR a) AND m = w AND m" "a AND m = 0 \<Longrightarrow> (w AND NOT a) AND m = w AND m"
    "(w OR a) AND a = a" "(w AND NOT a) AND a = 0"
  by (auto simp: bit_eq_iff bit_simps)

lemma seq_ctrl_append: "24 \<le> length hdr \<Longrightarrow> seq_ctrl (hdr @ r) = seq_ctrl hdr"
  by (simp add: seq_ctrl_def get_unaligned_le16_def nth_append)

lemma seq_ctrl_write: "24 \<le> length hdr \<Longrightarrow> seq_ctrl (mem_write hdr 22 (le16_bytes w)) = w"
  unfolding seq_ctrl_def mem_write_def by (subst get_le16_append_right) (simp_all add: codec_simps)

lemma number_fragment_data:
  assumes "skb_data skb = hdr @ p" "24 \<le> length hdr"
  shows "skb_data (number_fragment n l skb) = frag_header hdr n l @ p"
  using assms by (simp add: number_fragment_def Let_def frag_header_def frame_control_cong seq_ctrl_append buf_simps seq_ctrl_write_fc)

lemma length_number_fragments [simp]: "length (number_fragments n skbs) = length skbs"
  by (induction n skbs rule: number_fragments.induct) simp_all

lemma nth_number_fragments:
  "i < length skbs \<Longrightarrow> number_fragments n skbs ! i = number_fragment (n + i) (Suc i = length skbs) (skbs ! i)"
proof (induction n skbs arbitrary: i rule: number_fragments.induct)
  case (2 n skb skbs)
  then show ?case by (cases i) auto
qed simp

lemma fragment_loop_pieces:
  assumes "\<And>i. frag_alloc env i" "0 < per" "hdrlen \<le> length (skb_data skb)" "pos + rem = length (skb_data skb)"
  shows "\<exists>skbs. fragment_loop env skb hdrlen per pos rem i = (True, skbs) \<and>
    map skb_data skbs = map (\<lambda>p. take hdrlen (skb_data skb) @ p) (pieces per (drop pos (skb_data skb))) \<and>
    (\<forall>s\<in>set skbs. skb_head s = replicate (tx_headroom env + 8) 0 \<and> skb_oom s = frag_oom env \<and>
       hw_key (skb_tx s) = hw_key (skb_tx skb) \<and> length (skb_tail s) = frag_threshold env + 18 - length (skb_data s))"
  using assms(4)
proof (induction rem arbitrary: pos i rule: less_induct)
  case (less rem)
  show ?case
  proof (cases "rem = 0")
    case True
    then show ?thesis using less.prems by (subst fragment_loop.simps) simp
  next
    case False
    let ?d = "skb_data skb" and ?len = "min per rem"
    have l: "rem - ?len < rem" "pos + ?len + (rem - ?len) = length ?d" using False assms(2) less.prems by auto
    obtain skbs where r: "fragment_loop env skb hdrlen per (pos + ?len) (rem - ?len) (Suc i) = (True, skbs)"
        "map skb_data skbs = map (\<lambda>p. take hdrlen ?d @ p) (pieces per (drop (pos + ?len) ?d))"
        "\<forall>s\<in>set skbs. skb_head s = replicate (tx_headroom env + 8) 0 \<and> skb_oom s = frag_oom env \<and>
           hw_key (skb_tx s) = hw_key (skb_tx skb) \<and> length (skb_tail s) = frag_threshold env + 18 - length (skb_data s)"
      using less.IH[OF l] by blast
    have t: "take ?len (drop pos ?d) = take per (drop pos ?d)" "drop (pos + ?len) ?d = drop per (drop pos ?d)"
      using less.prems by (auto simp: min_def add.commute)
    have "pieces per (drop pos ?d) = take per (drop pos ?d) # pieces per (drop per (drop pos ?d))"
      using False assms(2) less.prems by (subst pieces.simps) auto
    then show ?thesis using False assms(1-3) less.prems r t
      by (subst fragment_loop.simps) (auto simp: new_fragment_def Let_def)
  qed
qed

text \<open>A frame that is fragmented, and an environment in which it can be.\<close>

definition to_fragment :: "extern \<Rightarrow> ieee80211_local \<Rightarrow> tx_env \<Rightarrow> sk_buff \<Rightarrow> bool" where
  "to_fragment x local env skb \<longleftrightarrow>
     \<not> has_flag (ti_flags (skb_tx skb)) IEEE80211_TX_CTL_DONTFRAG \<and> \<not> has_flag (ti_flags (skb_tx skb)) IEEE80211_TX_CTL_AMPDU \<and>
     \<not> supports_tx_frag local \<and>
     x_hdrlen x (frame_control (skb_data skb)) + FCS_LEN < frag_threshold env \<and> frag_threshold env < skb_len skb + FCS_LEN \<and>
     24 \<le> x_hdrlen x (frame_control (skb_data skb)) \<and> (\<forall>i. frag_alloc env i)"

text \<open>The fragments with the room their encryption needs.\<close>

lemma fragment_result:
  fixes skb :: sk_buff and x :: extern and env :: tx_env
  defines "d \<equiv> skb_data skb"
  defines "h \<equiv> x_hdrlen x (frame_control d)"
  defines "ps \<equiv> pieces (frag_threshold env - h - FCS_LEN) (drop h d)"
  assumes "to_fragment x local env skb"
  shows "\<exists>skbs. ieee80211_tx_h_fragment x local env skb = Some (TX_CONTINUE, skbs) \<and> length skbs = length ps \<and>
    (\<forall>i<length ps. skb_data (skbs ! i) = frag_header (take h d) i (Suc i = length ps) @ ps ! i \<and>
       hw_key (skb_tx (skbs ! i)) = hw_key (skb_tx skb) \<and>
       (if i = 0 then skb_head (skbs ! i) = skb_head skb \<and> skb_oom (skbs ! i) = skb_oom skb \<and> skb_tailroom skb \<le> skb_tailroom (skbs ! i)
        else length (skb_head (skbs ! i)) = tx_headroom env + 8 \<and> skb_oom (skbs ! i) = frag_oom env \<and> 22 \<le> skb_tailroom (skbs ! i)))"
proof -
  let ?per = "frag_threshold env - h - FCS_LEN"
  have a: "0 < ?per" "h + ?per < length d" "24 \<le> h" "\<And>i. frag_alloc env i" "frag_threshold env > h + FCS_LEN"
    using assms(4) by (auto simp: to_fragment_def d_def h_def)
  obtain skbs where l: "fragment_loop env skb h ?per (h + ?per) (length d - h - ?per) 0 = (True, skbs)"
      "map skb_data skbs = map (\<lambda>p. take h d @ p) (pieces ?per (drop (h + ?per) d))"
      "\<forall>s\<in>set skbs. skb_head s = replicate (tx_headroom env + 8) 0 \<and> skb_oom s = frag_oom env \<and>
         hw_key (skb_tx s) = hw_key (skb_tx skb) \<and> length (skb_tail s) = frag_threshold env + 18 - length (skb_data s)"
    using fragment_loop_pieces[of env ?per h skb "h + ?per" "length d - h - ?per" 0] a by (auto simp: d_def)
  define all where "all = skb_trim skb (h + ?per) # skbs"
  have ps: "ps = take ?per (drop h d) # pieces ?per (drop (h + ?per) d)"
    using a unfolding ps_def by (subst pieces.simps) (auto simp: add.commute)
  have "take (h + ?per) d = take h d @ take ?per (drop h d)" by (rule take_add)
  then have data: "map skb_data all = map (\<lambda>p. take h d @ p) ps"
    by (simp add: all_def ps l(2) skb_data_trim d_def)
  have len: "length all = length ps" using arg_cong[OF data, of length] by simp
  have nth: "skb_data (all ! i) = take h d @ ps ! i" if "i < length ps" for i
    using arg_cong[OF data, of "\<lambda>l. l ! i"] that len by simp
  have fr: "ieee80211_tx_h_fragment x local env skb = Some (TX_CONTINUE, number_fragments 0 all)"
    using assms(4) a l(1)
    by (auto simp: ieee80211_tx_h_fragment_def to_fragment_def Let_def ieee80211_fragment_def all_def
        d_def[symmetric] h_def[symmetric])
  have rest: "length (skb_data s) + FCS_LEN \<le> frag_threshold env" if "s \<in> set skbs" for s
  proof -
    have "skb_data s \<in> set (map skb_data skbs)" using that by simp
    then obtain p where "skb_data s = take h d @ p" "p \<in> set (pieces ?per (drop (h + ?per) d))" unfolding l(2) by auto
    then show ?thesis using pieces_length[of p ?per] a by fastforce
  qed
  have room: "length (skb_head s) = tx_headroom env + 8 \<and> skb_oom s = frag_oom env \<and> 22 \<le> length (skb_tail s)" if "s \<in> set skbs" for s
    using l(3) rest that by fastforce
  show ?thesis
  proof (intro exI conjI allI impI)
    show "length (number_fragments 0 all) = length ps" by (simp add: len)
    fix i
    assume i: "i < length ps"
    have n: "number_fragments 0 all ! i = number_fragment i (Suc i = length ps) (all ! i)"
      using nth_number_fragments[of i all 0] i by (simp add: len)
    have h24: "24 \<le> length (take h d)" using a by simp
    show "skb_data (number_fragments 0 all ! i) = frag_header (take h d) i (Suc i = length ps) @ ps ! i"
      unfolding n using number_fragment_data[OF nth[OF i] h24] .
    have same: "skb_head (number_fragment m b s) = skb_head s" "skb_tail (number_fragment m b s) = skb_tail s"
      "skb_oom (number_fragment m b s) = skb_oom s" "hw_key (skb_tx (number_fragment m b s)) = hw_key (skb_tx s)" for m b s
      by (simp_all add: number_fragment_def Let_def)
    have tl: "i \<noteq> 0 \<Longrightarrow> all ! i \<in> set skbs" using i len by (cases i) (auto simp: all_def)
    have first: "skb_head (skb_trim skb n) = skb_head skb" "skb_oom (skb_trim skb n) = skb_oom skb" "skb_tx (skb_trim skb n) = skb_tx skb"
      "skb_tailroom skb \<le> skb_tailroom (skb_trim skb n)" for n by (auto simp: skb_trim_def skb_tailroom_def)
    show "hw_key (skb_tx (number_fragments 0 all ! i)) = hw_key (skb_tx skb)"
      unfolding n same using tl l(3) first(3) by (cases "i = 0") (auto simp: all_def)
    show "if i = 0 then skb_head (number_fragments 0 all ! i) = skb_head skb \<and> skb_oom (number_fragments 0 all ! i) = skb_oom skb \<and>
        skb_tailroom skb \<le> skb_tailroom (number_fragments 0 all ! i)
      else length (skb_head (number_fragments 0 all ! i)) = tx_headroom env + 8 \<and> skb_oom (number_fragments 0 all ! i) = frag_oom env \<and>
        22 \<le> skb_tailroom (number_fragments 0 all ! i)"
    proof (cases "i = 0")
      case True
      then show ?thesis unfolding n skb_tailroom_def same using first by (simp add: all_def skb_tailroom_def)
    next
      case False
      then show ?thesis unfolding n skb_tailroom_def same using room[OF tl] by simp
    qed
  qed (rule fr)
qed

text \<open>C39: A frame that the software has to fragment (longer than the threshold with its check sequence, not marked
  otherwise, not part of an A-MPDU, with a threshold that leaves room for payload) is cut, if memory suffices,
  into at least two fragments, each with its check sequence within the threshold and none without payload;
  they carry the payload in order, each behind the header of the frame with its number, and all but the last
  announce more.\<close>

theorem fragments_fit:
  assumes "to_fragment x local env skb" "h = x_hdrlen x (frame_control (skb_data skb))"
  shows "\<exists>skbs. ieee80211_tx_h_fragment x local env skb = Some (TX_CONTINUE, skbs) \<and> 2 \<le> length skbs \<and>
    concat (map (drop h \<circ> skb_data) skbs) = drop h (skb_data skb) \<and>
    (\<forall>s\<in>set skbs. h < skb_len s \<and> skb_len s + FCS_LEN \<le> frag_threshold env) \<and>
    (\<forall>i<length skbs. take h (skb_data (skbs ! i)) = frag_header (take h (skb_data skb)) i (Suc i = length skbs))"
proof -
  let ?d = "skb_data skb" and ?per = "frag_threshold env - h - FCS_LEN"
  let ?ps = "pieces ?per (drop h ?d)"
  have a: "0 < ?per" "h + ?per < length ?d" "24 \<le> h" "h + FCS_LEN < frag_threshold env"
    using assms by (auto simp: to_fragment_def)
  obtain skbs where f: "ieee80211_tx_h_fragment x local env skb = Some (TX_CONTINUE, skbs)" "length skbs = length ?ps"
      "\<forall>i<length ?ps. skb_data (skbs ! i) = frag_header (take h ?d) i (Suc i = length ?ps) @ ?ps ! i"
    using fragment_result[OF assms(1), folded assms(2)] by blast
  have lh: "length (frag_header (take h ?d) i b) = h" for i b using a by simp
  have dr: "map (drop h \<circ> skb_data) skbs = ?ps"
    using f(2,3) lh by (intro nth_equalityI) simp_all
  have ln: "length (drop h (skb_data s)) \<le> ?per \<and> 0 < length (drop h (skb_data s))" if "s \<in> set skbs" for s
  proof -
    have "drop h (skb_data s) \<in> set (map (drop h \<circ> skb_data) skbs)" using that by simp
    then show ?thesis unfolding dr using pieces_length by blast
  qed
  have "concat ?ps = drop h ?d" using a(1) by (rule concat_pieces)
  moreover have "2 \<le> length ?ps" using a by (intro two_pieces) simp_all
  moreover have "take h (skb_data (skbs ! i)) = frag_header (take h ?d) i (Suc i = length skbs)" if "i < length skbs" for i
    using f(2,3) lh that by simp
  moreover have "\<forall>s\<in>set skbs. h < skb_len s \<and> skb_len s + FCS_LEN \<le> frag_threshold env"
  proof
    fix s
    assume "s \<in> set skbs"
    from ln[OF this] a show "h < skb_len s \<and> skb_len s + FCS_LEN \<le> frag_threshold env" by simp arith
  qed
  ultimately show ?thesis using f(1,2) dr by (intro exI[of _ skbs]) (simp only: simp_thms, blast)
qed

text \<open>A frame of ten octets of payload cut into three fragments.\<close>

definition ex_tx_env :: tx_env where
  "ex_tx_env = \<lparr>frag_threshold = 32, tx_headroom = 16, frag_alloc = (\<lambda>_. True), frag_oom = (\<lambda>_. False)\<rparr>"

definition ex_tx_skb :: sk_buff where
  "ex_tx_skb = ex_skb (ex_hdr @ [1, 2, 3, 4, 5, 6, 7, 8, 9, 10])"

lemma ex_tx_hdrlen [simp]: "x_hdrlen ex_extern fc = 24" by (simp add: ex_extern_def)

lemma ex_to_fragment: "to_fragment ex_extern ex_local ex_tx_env ex_tx_skb"
  by (simp add: to_fragment_def ex_tx_skb_def ex_tx_env_def ex_local_def ex_skb_def ex_hdr_def)

theorem fragments_fit_witness:
  "\<exists>skbs. ieee80211_tx_h_fragment ex_extern ex_local ex_tx_env ex_tx_skb = Some (TX_CONTINUE, skbs) \<and> 2 \<le> length skbs \<and>
    concat (map (drop 24 \<circ> skb_data) skbs) = [1, 2, 3, 4, 5, 6, 7, 8, 9, 10] \<and>
    (\<forall>s\<in>set skbs. 24 < skb_len s \<and> skb_len s + FCS_LEN \<le> 32) \<and>
    (\<forall>i<length skbs. take 24 (skb_data (skbs ! i)) = frag_header (take 24 (skb_data ex_tx_skb)) i (Suc i = length skbs))"
proof -
  have "frag_threshold ex_tx_env = 32" "drop 24 (skb_data ex_tx_skb) = [1, 2, 3, 4, 5, 6, 7, 8, 9, 10]"
    by (simp_all add: ex_tx_env_def ex_tx_skb_def ex_skb_def ex_hdr_def)
  then show ?thesis using fragments_fit[OF ex_to_fragment refl] by simp
qed

subsection \<open>Sequence numbers\<close>

text \<open>A frame that takes the next number of traffic identifier \<open>t\<close>.\<close>

definition tid_frame :: "extern \<Rightarrow> nat \<Rightarrow> sk_buff \<Rightarrow> bool" where
  "tid_frame x t skb \<longleftrightarrow>
     (let hdr = skb_data skb; fc = frame_control hdr in
      ieee80211_is_data_qos fc \<and> \<not> ieee80211_is_qos_nullfunc fc \<and> \<not> is_multicast_ether_addr (addr1 hdr) \<and>
      \<not> has_flag (ti_control_flags (skb_tx skb)) IEEE80211_TX_CTRL_NO_SEQNO \<and> unat (ieee80211_get_tid hdr) = t \<and>
      24 \<le> x_hdrlen x fc)"

text \<open>A frame as long as its header.\<close>

definition whole_header :: "extern \<Rightarrow> sk_buff \<Rightarrow> bool" where
  "whole_header x skb \<longleftrightarrow> x_hdrlen x (frame_control (skb_data skb)) \<le> skb_len skb"

text \<open>The handler for one frame after the other.\<close>

fun sequence_all :: "extern \<Rightarrow> tx_sdata \<Rightarrow> tx_sta option \<Rightarrow> sk_buff list \<Rightarrow> sk_buff list \<times> tx_sdata \<times> tx_sta option" where
  "sequence_all x sd sta [] = ([], sd, sta)"
| "sequence_all x sd sta (skb # skbs) =
     (case ieee80211_tx_h_sequence x sd sta skb of
        (sd, sta, skb) \<Rightarrow> (case sequence_all x sd sta skbs of (skbs, st) \<Rightarrow> (skb # skbs, st)))"

definition tid_sn :: "tx_sta \<Rightarrow> nat \<Rightarrow> nat" where
  "tid_sn s t = unat (tid_seq s ! t) div 16"

lemma unat_sn: "unat (drop_bit 4 (w AND IEEE80211_SCTL_SEQ) :: u16) = unat w div 16"
proof -
  have "drop_bit 4 (w AND IEEE80211_SCTL_SEQ) = drop_bit 4 w AND mask 12"
    by (simp add: drop_bit_and mask_eq_exp_minus_1)
  also have "\<dots> = drop_bit 4 (take_bit 16 w)" by (simp add: drop_bit_take_bit flip: take_bit_eq_mask)
  also have "take_bit 16 w = w" by (simp add: take_bit_word_eq_self)
  finally have eq: "drop_bit 4 (w AND IEEE80211_SCTL_SEQ) = drop_bit 4 w" .
  have "take_bit 16 (unat w) = unat w" using unsigned_less[of w, where ?'a = nat] by (simp add: take_bit_nat_eq_self)
  then show ?thesis unfolding eq unsigned_drop_bit_eq by (simp add: drop_bit_eq_div)
qed

lemma unat_masked_seq: "unat (w AND IEEE80211_SCTL_SEQ :: u16) div 16 = unat w div 16"
proof -
  have "unat (w AND IEEE80211_SCTL_SEQ) div 16 = unat (drop_bit 4 ((w AND IEEE80211_SCTL_SEQ) AND IEEE80211_SCTL_SEQ) :: u16)"
    by (simp only: unat_sn)
  also have "\<dots> = unat (drop_bit 4 (w AND IEEE80211_SCTL_SEQ) :: u16)" by (simp only: and.assoc and.idem)
  finally show ?thesis by (simp only: unat_sn)
qed

lemma next_seq:
  assumes "ieee80211_tx_next_seq t s = (sc, s')" "t < length (tid_seq s)"
  shows "unat sc div 16 = tid_sn s t" "tid_sn s' t = (tid_sn s t + 1) mod 4096"
    "u \<noteq> t \<Longrightarrow> tid_sn s' u = tid_sn s u" "length (tid_seq s') = length (tid_seq s)"
proof -
  have r: "sc = tid_seq s ! t" "s' = s\<lparr>tid_seq := (tid_seq s)[t := (tid_seq s ! t + 0x10) AND IEEE80211_SCTL_SEQ]\<rparr>"
    using assms(1) by (auto simp: ieee80211_tx_next_seq_def Let_def)
  show "unat sc div 16 = tid_sn s t" by (simp add: r(1) tid_sn_def)
  have "unat (w + 0x10 :: u16) div 16 = (unat w div 16 + 1) mod 4096" for w
  proof -
    have "m mod (16 * 4096) div 16 = m div 16 mod 4096" for m :: nat by (simp only: mod_mult2_eq)
    moreover have "(n + 16) div 16 = n div 16 + 1" for n :: nat by (simp add: div_add_self2)
    ultimately show ?thesis by (simp add: unat_word_ariths)
  qed
  moreover have "tid_seq s' = (tid_seq s)[t := (tid_seq s ! t + 0x10) AND IEEE80211_SCTL_SEQ]" by (simp add: r(2))
  ultimately show "tid_sn s' t = (tid_sn s t + 1) mod 4096"
    using assms(2) by (simp only: tid_sn_def nth_list_update_eq unat_masked_seq)
  show "u \<noteq> t \<Longrightarrow> tid_sn s' u = tid_sn s u" "length (tid_seq s') = length (tid_seq s)" by (simp_all add: r(2) tid_sn_def)
qed

lemma qos_data_not_ctl:
  assumes "ieee80211_is_data_qos fc"
  shows "\<not> ieee80211_is_ctl fc"
proof -
  have e: "fc AND IEEE80211_FCTL_FTYPE = (fc AND (IEEE80211_FCTL_FTYPE OR IEEE80211_STYPE_QOS_DATA)) AND IEEE80211_FCTL_FTYPE"
    by (simp add: and.assoc)
  show ?thesis using assms unfolding ieee80211_is_ctl_def e ieee80211_is_data_qos_def by simp
qed

lemma sequence_step:
  assumes "ieee80211_tx_h_sequence x sd (Some s) skb = (sd', sta', skb')" "\<not> tv_monitor sd" "length (tid_seq s) = 16" "whole_header x skb"
  shows "\<exists>s'. sta' = Some s' \<and> \<not> tv_monitor sd' \<and> length (tid_seq s') = 16 \<and>
    (if tid_frame x t skb then unat (ieee80211_get_sn (skb_data skb')) = tid_sn s t \<and> tid_sn s' t = (tid_sn s t + 1) mod 4096
     else tid_sn s' t = tid_sn s t)"
proof -
  let ?d = "skb_data skb"
  let ?u = "unat (ieee80211_get_tid ?d)"
  have u: "?u < 16"
  proof -
    have "ieee80211_get_tid ?d \<le> IEEE80211_QOS_CTL_TID_MASK" unfolding ieee80211_get_tid_def by (rule word_and_le1)
    then show ?thesis by (simp add: word_le_nat_alt)
  qed
  have ctl: "\<not> ieee80211_is_ctl fc" if "ieee80211_is_data_qos fc" for fc
    using that by (rule qos_data_not_ctl)
  obtain sc s1 where n: "ieee80211_tx_next_seq ?u s = (sc, s1)" by fastforce
  note nx = next_seq[OF n, unfolded assms(3), OF u]
  have sn: "24 \<le> length ?d \<Longrightarrow> unat (ieee80211_get_sn (skb_data (set_seq_ctrl sc skb))) = unat sc div 16"
  proof -
    assume "24 \<le> length ?d"
    then have "seq_ctrl (skb_data (set_seq_ctrl sc skb)) = sc" by (simp add: set_seq_ctrl_def skb_write_def seq_ctrl_write)
    then show ?thesis by (simp only: ieee80211_get_sn_def unat_sn)
  qed
  show ?thesis
  proof (cases "tid_frame x t skb")
    case True
    then have "(sd', sta', skb') = (sd, Some s1, set_seq_ctrl sc skb)" "?u = t" "24 \<le> length ?d"
      using assms(1,2,4) ctl n by (auto simp: ieee80211_tx_h_sequence_def tid_frame_def whole_header_def Let_def)
    then show ?thesis using True nx sn assms(2) by simp
  next
    case False
    have "sta' = Some s \<and> tv_monitor sd' = tv_monitor sd \<or> sta' = Some s1 \<and> sd' = sd \<and> ?u \<noteq> t"
      using assms(1,2) n False unfolding ieee80211_tx_h_sequence_def tid_frame_def Let_def by (auto split: if_splits)
    then show ?thesis using False nx(3)[of t] nx(4) assms(2,3) by auto
  qed
qed

text \<open>C40: Whatever frames for whatever receivers are numbered in between, the unicast QoS data frames of a station with
  one traffic identifier, null frames and frames that ask for no number apart, are numbered consecutively, modulo
  4096, from the station's counter on.  (For an interface that is no monitor.)\<close>

theorem tid_numbers_consecutive:
  assumes "\<not> tv_monitor sd" "length (tid_seq s) = 16" "\<forall>skb\<in>set skbs. whole_header x skb"
    and "sequence_all x sd (Some s) skbs = (outs, sd', sta')"
    and "own = filter (tid_frame x t \<circ> fst) (zip skbs outs)"
  shows "\<forall>i<length own. unat (ieee80211_get_sn (skb_data (snd (own ! i)))) = (tid_sn s t + i) mod 4096"
  using assms
proof (induction skbs arbitrary: sd s outs own)
  case (Cons skb skbs)
  obtain sd1 sta1 skb1 where 1: "ieee80211_tx_h_sequence x sd (Some s) skb = (sd1, sta1, skb1)" by (metis surj_pair)
  obtain outs1 where 2: "sequence_all x sd1 sta1 skbs = (outs1, sd', sta')" "outs = skb1 # outs1"
    using Cons.prems(4) 1 by (auto split: prod.splits)
  obtain s1 where s1: "sta1 = Some s1" "\<not> tv_monitor sd1" "length (tid_seq s1) = 16"
      "if tid_frame x t skb then unat (ieee80211_get_sn (skb_data skb1)) = tid_sn s t \<and> tid_sn s1 t = (tid_sn s t + 1) mod 4096
       else tid_sn s1 t = tid_sn s t"
    using sequence_step[OF 1 Cons.prems(1,2), of t] Cons.prems(3) by auto
  define own1 where "own1 = filter (tid_frame x t \<circ> fst) (zip skbs outs1)"
  have rest: "\<forall>i<length own1. unat (ieee80211_get_sn (skb_data (snd (own1 ! i)))) = (tid_sn s1 t + i) mod 4096"
    using Cons.IH[OF s1(2,3) _ 2(1)[unfolded s1(1)]] Cons.prems(3) by (simp add: own1_def comp_def)
  have lt: "unat (ieee80211_get_sn (skb_data skb1)) = tid_sn s t \<Longrightarrow> tid_sn s t < 4096"
    using unat_sn[of "seq_ctrl (skb_data skb1)"] unsigned_less[of "seq_ctrl (skb_data skb1)", where ?'a = nat] by (simp add: ieee80211_get_sn_def)
  show ?case
  proof (cases "tid_frame x t skb")
    case True
    then have own: "own = (skb, skb1) # own1" by (simp add: Cons.prems(5) own1_def 2(2) comp_def)
    show ?thesis
    proof (intro allI impI)
      fix i
      assume "i < length own"
      then show "unat (ieee80211_get_sn (skb_data (snd (own ! i)))) = (tid_sn s t + i) mod 4096"
        using rest s1(4) True lt by (cases i) (simp_all add: own mod_simps)
    qed
  next
    case False
    then have "own = own1" by (simp add: Cons.prems(5) own1_def 2(2) comp_def)
    then show ?thesis using rest s1(4) False by simp
  qed
qed simp

text \<open>Frames of two traffic identifiers and a group-addressed one; the counter wraps.\<close>

definition ex_qos_frame :: "u8 \<Rightarrow> bool \<Rightarrow> sk_buff" where
  "ex_qos_frame t grp = ex_skb ([0x88, 0x01, 0, 0] @ replicate 6 (if grp then 0xff else 2) @ replicate 6 4 @ replicate 6 6 @ [0, 0, t, 0, 9])"

definition ex_tx_sdata :: tx_sdata where
  "ex_tx_sdata = \<lparr>tv_monitor = False, tv_ap = True, tv_mld = False, sequence_number = 0x50, mld_mcast_seq = 0, default_unicast_key = None,
     deflink = \<lparr>default_multicast_key = None, link_mgmt_key = None\<rparr>, tx_links = (\<lambda>_. None), tv_control_port_protocol = 0x888e\<rparr>"

definition ex_tx_sta :: tx_sta where
  "ex_tx_sta = \<lparr>ts_ptk = (\<lambda>i. if i = 0 then Some (ex_key WLAN_CIPHER_SUITE_CCMP 16) else None), ts_ptk_idx = 0, ts_mfp = True,
     ts_uses_encryption = True, tid_seq = [0, 0, 0, 0xfff0, 0, 0x70, 0, 0, 0, 0, 0, 0, 0, 0, 0, 0]\<rparr>"

definition ex_qos_frames :: "sk_buff list" where
  "ex_qos_frames = [ex_qos_frame 3 False, ex_qos_frame 5 False, ex_qos_frame 3 True, ex_qos_frame 3 False]"

definition ex_numbered :: "(sk_buff \<times> sk_buff) list" where
  "ex_numbered = filter (tid_frame ex_extern 3 \<circ> fst)
     (zip ex_qos_frames (fst (sequence_all ex_extern ex_tx_sdata (Some ex_tx_sta) ex_qos_frames)))"

lemma ex_numbered_length: "length ex_numbered = 2" "list_all (whole_header ex_extern) ex_qos_frames"
  by code_simp+

lemma ex_tid_sn: "tid_sn ex_tx_sta 3 = 4095"
  by (simp add: tid_sn_def ex_tx_sta_def)

theorem tid_numbers_consecutive_witness:
  "map (\<lambda>f. unat (ieee80211_get_sn (skb_data (snd f)))) ex_numbered = [4095, 0]"
proof -
  obtain outs sd' sta' where s: "sequence_all ex_extern ex_tx_sdata (Some ex_tx_sta) ex_qos_frames = (outs, sd', sta')" by (metis surj_pair)
  have own: "ex_numbered = filter (tid_frame ex_extern 3 \<circ> fst) (zip ex_qos_frames outs)" by (simp add: ex_numbered_def s)
  have "\<forall>skb\<in>set ex_qos_frames. whole_header ex_extern skb" using ex_numbered_length(2) by (simp add: list_all_iff)
  then have n: "\<forall>i<length ex_numbered. unat (ieee80211_get_sn (skb_data (snd (ex_numbered ! i)))) = (tid_sn ex_tx_sta 3 + i) mod 4096"
    by (intro tid_numbers_consecutive[OF _ _ _ s own]) (simp_all add: ex_tx_sdata_def ex_tx_sta_def)
  obtain a b where l: "ex_numbered = [a, b]" using ex_numbered_length(1) by (auto simp: numeral_2_eq_2 length_Suc_conv)
  show ?thesis using n[rule_format, of 0] n[rule_format, of 1] ex_tid_sn unfolding l by simp
qed

end
