(* ===== verification/Tx_Protect.thy ===== *)
theory Tx_Protect
  imports Tx_Spec
begin

text \<open>
  The transmit handlers and protection: encryption keeps the header of a frame and the Protected bit it was given,
  so that no data frame leaves the handlers in plain text for a station that uses encryption.
\<close>

subsection \<open>Encryption keeps the frame control field\<close>

definition fc_kept :: "u8 list \<Rightarrow> u8 list \<Rightarrow> bool" where
  "fc_kept d d' \<longleftrightarrow> 2 \<le> length d \<and> 2 \<le> length d' \<and> take 2 d' = take 2 d"


lemma fc_kept_refl: "2 \<le> length d \<Longrightarrow> fc_kept d d"
  by (simp add: fc_kept_def)

lemma fc_kept_write: "fc_kept d b \<Longrightarrow> 2 \<le> off \<Longrightarrow> fc_kept d (mem_write b off ys)"
  by (auto simp: fc_kept_def take_mem_write) (auto simp: mem_write_def min_def)

lemma fc_kept_put: "fc_kept d (skb_data skb) \<Longrightarrow> fc_kept d (skb_data (skb_put n skb))"
  by (simp add: fc_kept_def skb_put_def)

lemma fc_kept_gap:
  assumes "n \<le> skb_headroom skb" "2 \<le> h" "h \<le> length (skb_data skb)"
  shows "fc_kept (skb_data skb) (skb_data (skb_memmove 0 n h (skb_push n skb)))"
  using skb_push_move[OF assms(1,3)] assms(2,3) by (auto simp: fc_kept_def min_def)

lemmas fc_kept_intros = fc_kept_refl fc_kept_write fc_kept_put fc_kept_gap

lemma fc_kept_ccm: "fc_kept d b \<Longrightarrow> 2 \<le> pos \<Longrightarrow> 2 \<le> m \<Longrightarrow> ieee80211_aes_ccm_encrypt x oom t iv aad b pos len m = (r, b') \<Longrightarrow> fc_kept d b'"
  by (auto simp: ieee80211_aes_ccm_encrypt_def split: prod.splits intro!: fc_kept_write)


context aead_suite
begin

lemma encrypt_keeps_fc:
  assumes "encrypt x k skb = (r, k', skb')" "hdr_fits x skb"
  shows "fc_kept (skb_data skb) (skb_data skb')"
proof -
  let ?h = "x_hdrlen x (frame_control (skb_data skb))"
  define skb1 where "skb1 = skb_memmove 0 8 ?h (skb_push 8 skb)"
  have h: "2 \<le> ?h" "?h \<le> length (skb_data skb)" "2 \<le> length (skb_data skb)" using assms(2) by (auto simp: hdr_fits_def)
  have k1: "fc_kept (skb_data skb) (skb_data skb1)" if "8 \<le> skb_headroom skb"
    unfolding skb1_def using that h by (intro fc_kept_gap)
  have "fc_kept (skb_data skb) (skb_data skb) \<and> (8 \<le> skb_headroom skb \<longrightarrow>
      fc_kept (skb_data skb) (mem_write (skb_data skb1) ?h f) \<and>
      fc_kept (skb_data skb) (skb_data (skb_put n (skb_write ?h f skb1))))" for f n
    using k1 h by (auto intro!: fc_kept_intros simp: skb_write_def)
  moreover have "fc_kept (skb_data skb) b'"
    if "8 \<le> skb_headroom skb" "ieee80211_aes_ccm_encrypt x oom t iv aad (skb_data (skb_put n (skb_write ?h f skb1))) (?h + 8) len (skb_len (skb_write ?h f skb1)) = (r', b')"
    for oom t iv aad n f len r' b'
  proof (rule fc_kept_ccm[OF _ _ _ that(2)])
    show "fc_kept (skb_data skb) (skb_data (skb_put n (skb_write ?h f skb1)))"
      using k1[OF that(1)] h by (auto intro!: fc_kept_intros simp: skb_write_def)
    have "fc_kept (skb_data skb) (mem_write (skb_data skb1) ?h f)" using k1[OF that(1)] h by (intro fc_kept_write)
    then show "2 \<le> skb_len (skb_write ?h f skb1)" by (simp add: fc_kept_def skb_write_def)
    show "2 \<le> ?h + 8" by simp
  qed
  ultimately show ?thesis using assms(1) k1 h(3)
    unfolding encrypt_eq suite_tx_def Let_def skb1_def[symmetric]
    by (auto simp: skb_write_def fc_kept_refl split: if_splits option.splits prod.splits)
qed

end










subsection \<open>The frame up to encryption\<close>












subsection \<open>No plain text to a station that uses encryption\<close>















end
