(* ===== verification/Rx_Protection.thy ===== *)
theory Rx_Protection
  imports Rx_Keys
begin

text \<open>
  What the receive path guarantees of protected frames: the key that decrypts a frame is one the
  frame may be protected with, the frames accepted with a key are fresh whatever else is received,
  and data and management frames that have to be protected do not get through without.
\<close>

subsection \<open>Concrete keys and frames\<close>

text \<open>
  A station with a CCMP pairwise key, a CCMP group key and a CMAC management group key, and frames
  of its access point: sealed, in the clear, and with a management MIC element.
\<close>

definition ex_igtk :: ieee80211_key where
  "ex_igtk = (let k = ex_key WLAN_CIPHER_SUITE_AES_CMAC 16 in k\<lparr>conf := (conf k)\<lparr>kc_keyidx := 4\<rparr>\<rparr>)"

definition ex_keys :: rx_keys where
  "ex_keys = \<lparr>ptk = (\<lambda>i. if i = 0 then Some (ex_key WLAN_CIPHER_SUITE_CCMP 16) else None), ptk_idx = 0,
     link_sta_gtk = Some (\<lambda>_. None),
     link_gtk = (\<lambda>i. if i = 1 then Some (ex_key WLAN_CIPHER_SUITE_CCMP 16) else if i = 4 then Some ex_igtk else None),
     iface_keys = (\<lambda>_. None), default_mgmt_key = Some 4, sta_mfp = True, sta_assoc = True,
     sta_authorized = True, has_netdev = True\<rparr>"

definition ex_header :: "u8 \<Rightarrow> u8 \<Rightarrow> bool \<Rightarrow> u16 \<Rightarrow> u8 list" where
  "ex_header fc0 fc1 grp sc =
     [fc0, fc1, 0, 0] @ replicate 6 (if grp then 0xff else 2) @ replicate 6 4 @ replicate 6 6 @ le16_bytes sc"

definition ex_sealed :: "u8 list \<Rightarrow> nat \<Rightarrow> u8 list \<Rightarrow> ieee80211_rx_data" where
  "ex_sealed hdr n p =
     (ex_rx (hdr @ ccmp_pn2hdr (pn_octets (of_nat n)) 0 @ ex_flip p @ ex_tag 8 p) (ex_key WLAN_CIPHER_SUITE_CCMP 16))
       \<lparr>rx_key := None\<rparr>"

definition ex_clear :: "u8 list \<Rightarrow> ieee80211_rx_data" where
  "ex_clear d = (ex_rx d (ex_key WLAN_CIPHER_SUITE_CCMP 16))\<lparr>rx_key := None\<rparr>"

abbreviation (input) ex_data_in :: "nat \<Rightarrow> ieee80211_rx_data" where
  "ex_data_in n \<equiv> ex_sealed (ex_header 0x08 0x41 False 0x10) n [1, 2, 3]"

abbreviation (input) ex_deauth_in :: ieee80211_rx_data where
  "ex_deauth_in \<equiv> (ex_sealed (ex_header 0xc0 0x40 False 0x20) 9 [7, 0])\<lparr>security_idx := 16\<rparr>"

definition ex_group_deauth :: ieee80211_rx_data where
  "ex_group_deauth = ex_clear (skb_data (hd (snd (snd
     (ieee80211_crypto_aes_cmac_encrypt ex_extern ex_igtk [ex_skb (ex_header 0xc0 0 True 0x30 @ [7, 0])])))))"

abbreviation (input) ex_decrypt :: "ieee80211_rx_data \<Rightarrow> rx_result \<times> ieee80211_rx_data \<times> rx_keys" where
  "ex_decrypt \<equiv> ieee80211_rx_h_decrypt ex_extern ex_keys"

lemma ex_decrypt_continues:
  "fst (ex_decrypt (ex_data_in 1)) = RX_CONTINUE"
  "fst (ex_decrypt ex_deauth_in) = RX_CONTINUE"
  "fst (ex_decrypt ex_group_deauth) = RX_CONTINUE"
  by code_simp+

subsection \<open>Which key decrypts which frame\<close>

text \<open>A frame that names its key and is not done in hardware never just passes.\<close>

lemma select_keyid_not_continue: "select_by_keyid x ks hdr \<noteq> Stop RX_CONTINUE r b"
  by (simp add: select_by_keyid_def Let_def split: option.splits)

lemma select_not_continue:
  assumes "hdr = skb_data (rx_skb rx)"
    and "ieee80211_has_protected (frame_control hdr) \<or>
      (ieee80211_get_mmie_keyidx hdr \<noteq> None \<and> \<not> ieee80211_is_beacon (frame_control hdr))"
    and "\<not> (has_flag (rx_flag rx) RX_FLAG_DECRYPTED \<and> has_flag (rx_flag rx) RX_FLAG_IV_STRIPPED)"
  shows "rx_select_key x ks rx \<noteq> Stop RX_CONTINUE r b"
proof (cases "ieee80211_has_protected (frame_control hdr)")
  case True
  with assms(1,3) select_keyid_not_continue show ?thesis
    unfolding rx_select_key_def Let_def by (simp split: if_split)
next
  case False
  then obtain i where i: "ieee80211_get_mmie_keyidx hdr = Some i" "\<not> ieee80211_is_beacon (frame_control hdr)"
    using assms(2) by auto
  with mmie_multicast [OF i(1)] False assms(1,3) show ?thesis
    unfolding rx_select_key_def Let_def by (auto split: if_split)
qed

lemma decrypted_with_slot_key:
  assumes "ieee80211_rx_h_decrypt x ks rx = (RX_CONTINUE, rx', ks')" "\<not> ieee80211_is_ext (frame_control (skb_data (rx_skb rx)))"
    and "\<And>r b. rx_select_key x ks rx \<noteq> Stop RX_CONTINUE r b"
  shows "\<exists>r k crx. rx_select_key x ks rx = Select (Some r) \<and> key_at ks r = Some k \<and> slot_for x ks (skb_data (rx_skb rx)) r \<and>
    \<not> has_flag (key_flags k) KEY_FLAG_TAINTED \<and>
    cipher_decrypt x k (rx\<lparr>rx_key := Some k\<rparr>) = (RX_CONTINUE, crx) \<and>
    skb_data (rx_skb rx') = skb_data (rx_skb crx) \<and> has_flag (rx_flag rx') RX_FLAG_DECRYPTED"
proof -
  have "\<exists>r k. rx_select_key x ks rx = Select (Some r) \<and> key_at ks r = Some k"
    using assms
    by (auto simp: ieee80211_rx_h_decrypt_def Let_def split: key_choice.splits option.splits)
  then obtain r k where r: "rx_select_key x ks rx = Select (Some r)" "key_at ks r = Some k" by blast
  obtain cres crx where c: "cipher_decrypt x k (rx\<lparr>rx_key := Some k\<rparr>) = (cres, crx)" by (metis surj_pair)
  from decrypt_selected [OF assms(1) r(1) _ r(2) c] select_slot [OF r(1)] assms(2) r c
  show ?thesis by (auto split: if_splits)
qed

text \<open>C4: If the decryption handler lets a frame through that is protected, or that carries a management MIC
  element and is no beacon, and that the hardware has not finished, the frame was decrypted with a key
  that is not tainted, by the handler of its cipher, and the key came from a slot the frame may use: a
  pairwise key of the station for a unicast frame, a group key for a multicast frame by its key
  identifier or management MIC element (then slots 4 and 5), a key of the interface for a multicast
  frame or, if it is a WEP key, for a unicast one.\<close>

theorem decrypt_key_separation:
  assumes "ieee80211_rx_h_decrypt x ks rx = (RX_CONTINUE, rx', ks')"
    and "hdr = skb_data (rx_skb rx)" "\<not> ieee80211_is_ext (frame_control hdr)"
    and "ieee80211_has_protected (frame_control hdr) \<or>
      (ieee80211_get_mmie_keyidx hdr \<noteq> None \<and> \<not> ieee80211_is_beacon (frame_control hdr))"
    and "\<not> (has_flag (rx_flag rx) RX_FLAG_DECRYPTED \<and> has_flag (rx_flag rx) RX_FLAG_IV_STRIPPED)"
  shows "\<exists>r k crx. rx_select_key x ks rx = Select (Some r) \<and> key_at ks r = Some k \<and> slot_for x ks hdr r \<and>
    \<not> has_flag (key_flags k) KEY_FLAG_TAINTED \<and>
    cipher_decrypt x k (rx\<lparr>rx_key := Some k\<rparr>) = (RX_CONTINUE, crx) \<and>
    skb_data (rx_skb rx') = skb_data (rx_skb crx) \<and> has_flag (rx_flag rx') RX_FLAG_DECRYPTED"
  using decrypted_with_slot_key [OF assms(1)] select_not_continue [OF assms(2,4,5)] assms(2,3) by simp

theorem decrypt_key_separation_witness:
  "\<exists>r k crx. rx_select_key ex_extern ex_keys (ex_data_in 1) = Select (Some r) \<and> key_at ex_keys r = Some k \<and>
    slot_for ex_extern ex_keys (skb_data (rx_skb (ex_data_in 1))) r \<and> \<not> has_flag (key_flags k) KEY_FLAG_TAINTED \<and>
    cipher_decrypt ex_extern k ((ex_data_in 1)\<lparr>rx_key := Some k\<rparr>) = (RX_CONTINUE, crx) \<and>
    skb_data (rx_skb (fst (snd (ex_decrypt (ex_data_in 1))))) = skb_data (rx_skb crx) \<and>
    has_flag (rx_flag (fst (snd (ex_decrypt (ex_data_in 1))))) RX_FLAG_DECRYPTED"
proof -
  obtain rx' ks' where d: "ex_decrypt (ex_data_in 1) = (RX_CONTINUE, rx', ks')"
    using ex_decrypt_continues(1) by (metis prod.collapse)
  show ?thesis
    unfolding d fst_conv snd_conv by (rule decrypt_key_separation [OF d refl]) code_simp+
qed

subsection \<open>Freshness\<close>

lemma slot_recv_step:
  assumes ok: "slot_ok r q ks" and recv: "slot_recv x r q ks rx = (b, ks')"
  shows "slot_ok r q ks' \<and> slot_pn r q ks \<le> slot_pn r q ks' \<and>
    (b \<longrightarrow> slot_pn r q ks < frame_pn x rx \<and> slot_pn r q ks' = frame_pn x rx)"
proof -
  obtain k where k: "key_at ks r = Some k" "is_aead_cipher (kc_cipher (conf k))" "rx_pn_ok q (key_aead k)"
    using ok by (auto simp: slot_ok_def split: option.splits)
  obtain res rx' where h: "ieee80211_rx_h_decrypt x ks rx = (res, rx', ks')"
    and b: "b \<longleftrightarrow> res = RX_CONTINUE \<and> rx_select_key x ks rx = Select (Some r) \<and> pn_checked q rx"
    using recv by (auto simp: slot_recv_def split: prod.splits)
  consider (idle) "ks' = ks" "\<not> b"
    | (used) r0 k0 where "rx_select_key x ks rx = Select (Some r0)" "key_at ks r0 = Some k0"
        "\<not> ieee80211_is_ext (frame_control (skb_data (rx_skb rx)))"
  proof -
    assume a: "ks' = ks \<Longrightarrow> \<not> b \<Longrightarrow> thesis" and u: "\<And>r0 k0. rx_select_key x ks rx = Select (Some r0) \<Longrightarrow>
      key_at ks r0 = Some k0 \<Longrightarrow> \<not> ieee80211_is_ext (frame_control (skb_data (rx_skb rx))) \<Longrightarrow> thesis"
    show thesis
    proof (cases "\<exists>r0. rx_select_key x ks rx = Select (Some r0)")
      case True
      then obtain r0 where r0: "rx_select_key x ks rx = Select (Some r0)" by blast
      with select_slot [OF r0] obtain k0 where "key_at ks r0 = Some k0" by blast
      moreover have "ieee80211_is_ext (frame_control (skb_data (rx_skb rx))) \<Longrightarrow> ks' = ks \<and> \<not> b"
        using h b pn_checked_not_ext by (auto simp: ieee80211_rx_h_decrypt_def Let_def)
      ultimately show thesis using a u r0 by blast
    next
      case False
      with a b show thesis using decrypt_not_selected [OF h] by simp
    qed
  qed
  then show ?thesis
  proof cases
    case idle
    with ok show ?thesis by simp
  next
    case (used r0 k0)
    obtain cres crx where c: "cipher_decrypt x k0 (rx\<lparr>rx_key := Some k0\<rparr>) = (cres, crx)" by (metis surj_pair)
    note sel = decrypt_selected [OF h used(1,3,2) c]
    define k1 where "k1 = (case rx_key crx of None \<Rightarrow> k0 | Some k' \<Rightarrow> k')"
    have recv1: "recv_of (cipher_decrypt x) k0 rx = (cres = RX_CONTINUE, k1)"
      by (simp add: recv_of_def c k1_def)
    show ?thesis
    proof (cases "r0 = r \<and> \<not> has_flag (key_flags k0) KEY_FLAG_TAINTED")
      case True
      then have "k0 = k" using used(2) k(1) by simp
      moreover have "key_at ks' r = Some k1" "res = cres"
        using sel True used(2) by (auto simp: k1_def key_at_put split: option.splits)
      ultimately show ?thesis
        using cipher_recv [OF k(2,3), of x rx "cres = RX_CONTINUE" k1] recv1 b k
        by (auto simp: slot_ok_def slot_pn_def)
    next
      case False
      then have "key_at ks' r = key_at ks r" "\<not> b"
        using sel used b by (auto simp: key_at_put split: if_splits option.splits)
      with ok show ?thesis by (simp add: slot_ok_def slot_pn_def)
    qed
  qed
qed

interpretation slot_rx: replay_window "slot_recv x r q" "slot_pn r q" "frame_pn x" "slot_ok r q" "\<lambda>_. True"
  for x r q
  by unfold_locales (auto dest: slot_recv_step)

text \<open>C3: The frames that one queue accepts with the CCMP or GCMP key of one slot have strictly
  increasing packet numbers, all beyond the number stored at the start, whatever the whole
  decryption handler is given in between: frames of other queues, other keys, other ciphers,
  unprotected, broken or already validated ones.\<close>

theorem decrypt_slot_fresh:
  assumes "key_at ks r = Some k" "is_aead_cipher (kc_cipher (conf k))" "rx_pn_ok q (key_aead k)"
    and "acc = fst (accept_run (slot_recv x r q) ks fs)"
  shows "sorted_wrt (<) (map (frame_pn x) acc) \<and> (\<forall>f\<in>set acc. stored_pn q (key_aead k) < frame_pn x f)"
proof -
  have ok: "slot_ok r q ks" using assms(1-3) by (simp add: slot_ok_def)
  show ?thesis
    using slot_rx.accepted_increasing [OF ok, of fs x] assms(1,4) by (simp add: slot_pn_def)
qed

theorem decrypt_slot_fresh_witness:
  "let acc = fst (accept_run (slot_recv ex_extern (Ptk 0) 0) ex_keys [ex_data_in 1, ex_deauth_in, ex_data_in 1, ex_group_deauth, ex_data_in 3])
   in length acc = 2 \<and> sorted_wrt (<) (map (frame_pn ex_extern) acc) \<and>
      (\<forall>f\<in>set acc. stored_pn 0 (key_aead (ex_key WLAN_CIPHER_SUITE_CCMP 16)) < frame_pn ex_extern f)"
proof -
  let ?fs = "[ex_data_in 1, ex_deauth_in, ex_data_in 1, ex_group_deauth, ex_data_in 3]"
  let ?acc = "fst (accept_run (slot_recv ex_extern (Ptk 0) 0) ex_keys ?fs)"
  have "key_at ex_keys (Ptk 0) = Some (ex_key WLAN_CIPHER_SUITE_CCMP 16)" by (simp add: ex_keys_def)
  moreover have "is_aead_cipher (kc_cipher (conf (ex_key WLAN_CIPHER_SUITE_CCMP 16)))"
    "rx_pn_ok 0 (key_aead (ex_key WLAN_CIPHER_SUITE_CCMP 16))" by code_simp+
  moreover have "length ?acc = 2" by code_simp
  ultimately show ?thesis unfolding Let_def using decrypt_slot_fresh [OF _ _ _ refl] by blast
qed

subsection \<open>No plain text where protection is due\<close>

lemma data_no_mmie: "ieee80211_is_data (frame_control d) \<Longrightarrow> ieee80211_get_mmie_keyidx d = None"
  by (auto simp: ieee80211_get_mmie_keyidx_def ieee80211_is_data_def ieee80211_is_beacon_def
      dest!: robust_mgmt_type fc_is_mgmt)

lemma data_not_mgmt:
  "ieee80211_is_data fc \<Longrightarrow> \<not> ieee80211_is_mgmt fc \<and> \<not> ieee80211_is_beacon fc \<and> \<not> ieee80211_is_ext fc"
  by (auto simp: ieee80211_is_data_def ieee80211_is_mgmt_def ieee80211_is_ext_def ieee80211_is_beacon_def dest!: fc_is_mgmt)

lemma select_plain:
  assumes "hdr = skb_data (rx_skb rx)" "\<not> ieee80211_has_protected (frame_control hdr)"
    and "ieee80211_get_mmie_keyidx hdr = None"
  shows "rx_select_key x ks rx = Stop RX_CONTINUE
    (if \<not> is_multicast_ether_addr (addr1 hdr) \<and> rx_sta rx \<noteq> None \<and> ptk ks (ptk_idx ks) \<noteq> None
     then Some (Ptk (ptk_idx ks)) else select_unprotected ks hdr) False"
proof -
  have "first_key ks [Ptk i] = (if ptk ks i = None then None else Some (Ptk i))" for i
    by (simp add: first_key_def)
  with assms show ?thesis by (simp add: rx_select_key_def Let_def)
qed

text \<open>What \<open>rx->key\<close> is set to for a data frame that is not protected.\<close>

definition data_key :: "rx_keys \<Rightarrow> ieee80211_rx_data \<Rightarrow> key_ref option" where
  "data_key ks rx =
     (let hdr = skb_data (rx_skb rx) in
      if \<not> is_multicast_ether_addr (addr1 hdr) \<and> rx_sta rx \<noteq> None \<and> ptk ks (ptk_idx ks) \<noteq> None
      then Some (Ptk (ptk_idx ks))
      else first_key ks (map Sta_gtk [0..<4] @ map Link_gtk [0..<4]))"

lemma select_unprotected_data:
  assumes "ieee80211_is_data (frame_control (skb_data (rx_skb rx)))"
    and "\<not> ieee80211_has_protected (frame_control (skb_data (rx_skb rx)))"
  shows "rx_select_key x ks rx = Stop RX_CONTINUE (data_key ks rx) False"
  using select_plain [OF refl assms(2) data_no_mmie [OF assms(1)]] data_not_mgmt [OF assms(1)]
  by (simp add: data_key_def select_unprotected_def Let_def)

lemma data_key_None:
  "data_key ks rx = None \<longleftrightarrow>
     \<not> (\<not> is_multicast_ether_addr (addr1 (skb_data (rx_skb rx))) \<and> rx_sta rx \<noteq> None \<and> ptk ks (ptk_idx ks) \<noteq> None) \<and>
     (\<forall>i<4. link_gtk ks i = None \<and> key_at ks (Sta_gtk i) = None)"
proof -
  have "first_key ks (map Sta_gtk [0..<4] @ map Link_gtk [0..<4]) = None \<longleftrightarrow>
      (\<forall>i<4. link_gtk ks i = None \<and> key_at ks (Sta_gtk i) = None)"
    unfolding first_key_None set_append set_map set_upt ball_Un ball_simps by auto
  then show ?thesis by (simp add: data_key_def Let_def)
qed

lemma data_key_held: "data_key ks rx = Some r \<Longrightarrow> key_at ks r \<noteq> None"
  by (auto simp: data_key_def Let_def split: if_splits dest!: first_key_Some)

lemma our_addr_iff:
  "ieee80211_is_our_addr sdata addr \<longleftrightarrow>
     addr = rxv_addr sdata \<or> rxv_valid_links sdata \<noteq> 0 \<and> Some addr \<in> set (rxv_link_addrs sdata)"
  by (auto simp: ieee80211_is_our_addr_def list_ex_iff split: option.splits)

text \<open>The keys that could have protected a data frame: a pairwise one, or a group key.\<close>

definition key_could_protect :: "rx_keys \<Rightarrow> ieee80211_rx_data \<Rightarrow> bool" where
  "key_could_protect ks rx \<longleftrightarrow>
     \<not> is_multicast_ether_addr (addr1 (skb_data (rx_skb rx))) \<and> rx_sta rx \<noteq> None \<and> ptk ks (ptk_idx ks) \<noteq> None \<or>
     (\<exists>i<4. link_gtk ks i \<noteq> None \<or> key_at ks (Sta_gtk i) \<noteq> None)"

text \<open>C26: A data frame other than a null frame that is not protected and not decrypted by the hardware always
  gets through the decryption handler.  What becomes of it is then decided for the Ethernet frame \<open>skb\<close> it
  is converted to (or for each of them, if it is an A-MSDU).  A frame of the control port, that is an
  EAPOL frame, is let through exactly if it is sent to an address of the interface or to the PAE group address,
  whatever keys there are.  Every other frame is let through exactly if the station is authorised and no
  key could have protected the frame: no pairwise key of the station if it is unicast, and no group
  key of the station or the link.\<close>

theorem no_plaintext_data:
  assumes "hdr = skb_data (rx_skb rx)" "fc = frame_control hdr"
    and "ieee80211_is_data fc" "\<not> ieee80211_has_protected fc" "\<not> ieee80211_is_any_nullfunc fc"
    and "\<not> has_flag (rx_flag rx) RX_FLAG_DECRYPTED" "\<not> has_flag (rs_flag (skb_rx skb)) RX_FLAG_DECRYPTED"
  shows "\<exists>rx'. ieee80211_rx_h_decrypt x ks rx = (RX_CONTINUE, rx', ks) \<and>
    ieee80211_frame_allowed sdata ks (rx'\<lparr>rx_skb := skb\<rparr>) fc =
      (if h_proto (skb_data skb) = rxv_control_port_protocol sdata
       then h_dest (skb_data skb) = rxv_addr sdata \<or>
         rxv_valid_links sdata \<noteq> 0 \<and> Some (h_dest (skb_data skb)) \<in> set (rxv_link_addrs sdata) \<or>
         h_dest (skb_data skb) = [0x01, 0x80, 0xC2, 0x00, 0x00, 0x03]
       else rx_sta rx \<noteq> None \<and> sta_authorized ks \<and> \<not> key_could_protect ks rx)"
proof -
  let ?r = "data_key ks rx" and ?rx = "rx\<lparr>rx_key := Option.bind (data_key ks rx) (key_at ks)\<rparr>"
  have h: "ieee80211_rx_h_decrypt x ks rx = (RX_CONTINUE, ?rx, ks)"
    using select_unprotected_data [of rx x ks] assms(1-4) data_not_mgmt [of fc]
    by (simp add: ieee80211_rx_h_decrypt_def Let_def)
  have "Option.bind ?r (key_at ks) = None \<longleftrightarrow> ?r = None"
    using data_key_held by (cases ?r) auto
  moreover have "?r = None \<longleftrightarrow> \<not> key_could_protect ks rx"
    by (auto simp: data_key_None key_could_protect_def)
  ultimately have "ieee80211_drop_unencrypted (?rx\<lparr>rx_skb := skb\<rparr>) fc = (if key_could_protect ks rx then - 13 else 0)"
    using assms(3-5,7) by (simp add: ieee80211_drop_unencrypted_def)
  then have "ieee80211_frame_allowed sdata ks (?rx\<lparr>rx_skb := skb\<rparr>) fc \<longleftrightarrow>
      (if h_proto (skb_data skb) = rxv_control_port_protocol sdata
       then ieee80211_is_our_addr sdata (h_dest (skb_data skb)) \<or> h_dest (skb_data skb) = pae_group_addr
       else rx_sta rx \<noteq> None \<and> sta_authorized ks \<and> \<not> key_could_protect ks rx)"
    by (simp add: ieee80211_frame_allowed_def ieee80211_802_1x_port_control_def Let_def)
  with h show ?thesis unfolding our_addr_iff pae_group_addr_def disj_assoc by blast
qed

text \<open>
  A data frame in the clear, from a station there is a pairwise key with, is refused; had it carried
  an EAPOL frame for this station, it would have been let through.
\<close>

definition ex_sdata :: rx_sdata where
  "ex_sdata = \<lparr>rxv_addr = replicate 6 2, rxv_valid_links = 0, rxv_link_addrs = [], rxv_control_port_protocol = 0x888e\<rparr>"

abbreviation (input) ex_plain :: ieee80211_rx_data where
  "ex_plain \<equiv> ex_clear (ex_header 0x08 0x01 False 0x10 @ [1, 2, 3])"

theorem no_plaintext_data_witness:
  "(\<exists>rx'. ieee80211_rx_h_decrypt ex_extern ex_keys ex_plain = (RX_CONTINUE, rx', ex_keys) \<and>
     \<not> ieee80211_frame_allowed ex_sdata ex_keys
       (rx'\<lparr>rx_skb := ex_skb (replicate 6 2 @ replicate 6 4 @ [0x08, 0x00, 1])\<rparr>) 0x0108) \<and>
   (\<exists>rx'. ieee80211_rx_h_decrypt ex_extern ex_keys ex_plain = (RX_CONTINUE, rx', ex_keys) \<and>
     ieee80211_frame_allowed ex_sdata ex_keys
       (rx'\<lparr>rx_skb := ex_skb (replicate 6 2 @ replicate 6 4 @ [0x88, 0x8e, 1])\<rparr>) 0x0108)"
proof -
  let ?d = "ex_header 0x08 0x01 False 0x10 @ [1, 2, 3]"
  let ?rx = "ex_clear ?d"
  have d: "skb_data (rx_skb ?rx) = ?d" "\<And>e. skb_data (ex_skb e) = e"
    "\<And>e. \<not> has_flag (rs_flag (skb_rx (ex_skb e))) RX_FLAG_DECRYPTED"
    by (simp_all add: ex_clear_def ex_rx_def ex_skb_def)
  have f: "frame_control ?d = 0x0108" by code_simp
  have c: "ieee80211_is_data 0x0108" "\<not> ieee80211_has_protected 0x0108" "\<not> ieee80211_is_any_nullfunc 0x0108"
    "\<not> has_flag (rx_flag ?rx) RX_FLAG_DECRYPTED" "\<not> is_multicast_ether_addr (addr1 ?d)" "rx_sta ?rx \<noteq> None"
    by (code_simp; fail | simp add: ex_clear_def ex_rx_def ex_skb_def)+
  have k: "key_could_protect ex_keys ?rx" using c(5,6) d(1) by (simp add: key_could_protect_def ex_keys_def)
  have e: "h_proto (replicate 6 2 @ replicate 6 4 @ [0x08, 0x00, 1]) \<noteq> rxv_control_port_protocol ex_sdata"
    "h_proto (replicate 6 2 @ replicate 6 4 @ [0x88, 0x8e, 1]) = rxv_control_port_protocol ex_sdata"
    "h_dest (replicate 6 2 @ replicate 6 4 @ [0x88, 0x8e, 1]) = rxv_addr ex_sdata"
    by code_simp+
  note t = no_plaintext_data [OF refl refl, of ?rx _ ex_extern ex_keys ex_sdata, unfolded d f, OF c(1-4) d(3), unfolded d]
  show ?thesis
    using t [of "replicate 6 2 @ replicate 6 4 @ [0x08, 0x00, 1]"] t [of "replicate 6 2 @ replicate 6 4 @ [0x88, 0x8e, 1]"]
    unfolding if_not_P [OF e(1)] if_P [OF e(2)] by (simp only: e(3) k simp_thms)
qed

subsection \<open>Deauthentication and disassociation under management frame protection\<close>

lemma drop_mgmt_unprotected_leave:
  assumes "ieee80211_drop_unencrypted_mgmt ks rx = (RX_CONTINUE, rx')" "\<not> has_flag (rx_flag rx) RX_FLAG_DECRYPTED"
    and "hdr = skb_data (rx_skb rx)" "ieee80211_is_deauth (frame_control hdr) \<or> ieee80211_is_disassoc (frame_control hdr)"
    and "IEEE80211_MIN_ACTION_SIZE \<le> length hdr" "rx_sta rx \<noteq> None" "sta_mfp ks"
  shows "if is_multicast_ether_addr (addr1 hdr) then ieee80211_get_mmie_keyidx hdr \<noteq> None
    else ieee80211_has_protected (frame_control hdr) \<or> rx_key rx = None"
proof -
  have "ieee80211_is_robust_mgmt_frame hdr"
    using assms(4,5) by (auto simp: ieee80211_is_robust_mgmt_frame_def is_robust_mgmt_hdr_def Let_def)
  with assms show ?thesis
    by (auto simp: ieee80211_drop_unencrypted_mgmt_def Let_def ieee80211_is_unicast_robust_mgmt_frame_def
        ieee80211_is_multicast_robust_mgmt_frame_def split: if_splits)
qed

lemma leave_type:
  "ieee80211_is_deauth fc \<or> ieee80211_is_disassoc fc \<Longrightarrow> \<not> ieee80211_is_ext fc \<and> \<not> ieee80211_is_beacon fc \<and> \<not> ieee80211_is_action fc"
proof -
  assume a: "ieee80211_is_deauth fc \<or> ieee80211_is_disassoc fc"
  then have "fc AND IEEE80211_FCTL_FTYPE = 0"
    by (auto simp: ieee80211_is_deauth_def ieee80211_is_disassoc_def intro: fc_is_mgmt)
  with a show ?thesis
    by (auto simp: ieee80211_is_ext_def ieee80211_is_beacon_def ieee80211_is_action_def ieee80211_is_deauth_def
        ieee80211_is_disassoc_def fc_is_def)
qed

lemma mfp_leave_selected:
  assumes "ieee80211_rx_h_decrypt x ks rx = (RX_CONTINUE, rx', ks')"
    and "ieee80211_drop_unencrypted_mgmt ks' rx' = (RX_CONTINUE, rx'')"
    and "hdr = skb_data (rx_skb rx)" "ieee80211_is_deauth (frame_control hdr) \<or> ieee80211_is_disassoc (frame_control hdr)"
    and "IEEE80211_MIN_ACTION_SIZE \<le> length hdr" "rx_sta rx \<noteq> None" "sta_mfp ks"
    and "\<not> has_flag (rx_flag rx) RX_FLAG_DECRYPTED"
    and "is_multicast_ether_addr (addr1 hdr) \<or> ptk ks (ptk_idx ks) \<noteq> None"
  shows "\<exists>r k crx. rx_select_key x ks rx = Select (Some r) \<and> key_at ks r = Some k \<and> slot_for x ks hdr r \<and> \<not> has_flag (key_flags k) KEY_FLAG_TAINTED \<and>
    cipher_decrypt x k (rx\<lparr>rx_key := Some k\<rparr>) = (RX_CONTINUE, crx)"
proof -
  let ?fc = "frame_control hdr"
  have fc: "\<not> ieee80211_is_ext ?fc" "\<not> ieee80211_is_beacon ?fc"
    using leave_type [OF assms(4)] by auto
  show ?thesis
  proof (cases "ieee80211_has_protected ?fc \<or> ieee80211_get_mmie_keyidx hdr \<noteq> None")
    case True
    then have "rx_select_key x ks rx \<noteq> Stop RX_CONTINUE r b" for r b
      using fc assms(8) by (intro select_not_continue [OF assms(3)]) auto
    then show ?thesis using decrypted_with_slot_key [OF assms(1)] fc(1) assms(3) by blast
  next
    case False
    then have mmie: "ieee80211_get_mmie_keyidx hdr = None" by simp
    define r where "r = (if \<not> is_multicast_ether_addr (addr1 hdr) \<and> rx_sta rx \<noteq> None \<and> ptk ks (ptk_idx ks) \<noteq> None
      then Some (Ptk (ptk_idx ks)) else select_unprotected ks hdr)"
    have sel: "rx_select_key x ks rx = Stop RX_CONTINUE r False"
      using select_plain [OF assms(3) _ mmie] False by (simp add: r_def)
    have r: "\<not> is_multicast_ether_addr (addr1 hdr) \<Longrightarrow> r = Some (Ptk (ptk_idx ks))"
      using assms(6,9) by (auto simp: r_def)
    have rx': "rx' = rx\<lparr>rx_key := Option.bind r (key_at ks)\<rparr>" "ks' = ks"
      using assms(1,3) sel fc by (auto simp: ieee80211_rx_h_decrypt_def Let_def)
    have "if is_multicast_ether_addr (addr1 hdr) then ieee80211_get_mmie_keyidx hdr \<noteq> None
        else ieee80211_has_protected ?fc \<or> rx_key rx' = None"
      by (rule drop_mgmt_unprotected_leave [OF assms(2)]) (use assms rx' in auto)
    with False r assms(9) rx' have False by (auto split: if_splits)
    then show ?thesis ..
  qed
qed

text \<open>A deauthentication or disassociation with a reason code from a station with management frame
  protection that the handler and the check for unencrypted management frames let through, and that
  the hardware has not decrypted, was accepted by the handler of a cipher, under a key that is not
  tainted from a slot the frame may use. A unicast frame needs the station to have a pairwise key:
  without one the code accepts it in the clear, as the peer may have lost the key.\<close>

theorem mfp_leave_decrypted:
  assumes "ieee80211_rx_h_decrypt x ks rx = (RX_CONTINUE, rx', ks')"
    and "ieee80211_drop_unencrypted_mgmt ks' rx' = (RX_CONTINUE, rx'')"
    and "hdr = skb_data (rx_skb rx)" "ieee80211_is_deauth (frame_control hdr) \<or> ieee80211_is_disassoc (frame_control hdr)"
    and "IEEE80211_MIN_ACTION_SIZE \<le> length hdr" "rx_sta rx \<noteq> None" "sta_mfp ks"
    and "\<not> has_flag (rx_flag rx) RX_FLAG_DECRYPTED"
    and "is_multicast_ether_addr (addr1 hdr) \<or> ptk ks (ptk_idx ks) \<noteq> None"
  shows "\<exists>r k crx. key_at ks r = Some k \<and> slot_for x ks hdr r \<and> \<not> has_flag (key_flags k) KEY_FLAG_TAINTED \<and>
    cipher_decrypt x k (rx\<lparr>rx_key := Some k\<rparr>) = (RX_CONTINUE, crx)"
  using mfp_leave_selected [OF assms] by blast

theorem mfp_leave_decrypted_witness:
  "\<exists>r k crx. key_at ex_keys r = Some k \<and> slot_for ex_extern ex_keys (skb_data (rx_skb ex_group_deauth)) r \<and>
    \<not> has_flag (key_flags k) KEY_FLAG_TAINTED \<and>
    cipher_decrypt ex_extern k (ex_group_deauth\<lparr>rx_key := Some k\<rparr>) = (RX_CONTINUE, crx)"
proof -
  obtain rx' ks' where d: "ex_decrypt ex_group_deauth = (RX_CONTINUE, rx', ks')"
    using ex_decrypt_continues(3) by (metis prod.collapse)
  have "fst (case ex_decrypt ex_group_deauth of (_, rx', ks') \<Rightarrow> ieee80211_drop_unencrypted_mgmt ks' rx') = RX_CONTINUE"
    by code_simp
  then obtain rx'' where m: "ieee80211_drop_unencrypted_mgmt ks' rx' = (RX_CONTINUE, rx'')"
    unfolding d prod.case by (metis prod.collapse)
  show ?thesis by (rule mfp_leave_decrypted [OF d m refl]; code_simp)
qed

lemma select_pairwise:
  assumes "rx_select_key x ks rx = Select (Some r)" "\<not> is_multicast_ether_addr (addr1 (skb_data (rx_skb rx)))"
    and "rx_sta rx \<noteq> None" "ptk ks (ptk_idx ks) \<noteq> None"
  shows "\<exists>i. r = Ptk i"
proof -
  have "first_key ks [Ptk i] = (if ptk ks i = None then None else Some (Ptk i))" for i
    by (simp add: first_key_def)
  with assms show ?thesis
    by (auto simp: rx_select_key_def Let_def bind_eq_Some_conv split: if_splits)
qed

text \<open>A frame the suite accepts has a tag the transform has verified.\<close>

context aead_suite
begin

lemma accepted_opens:
  fixes x :: extern and k :: ieee80211_key and rx :: ieee80211_rx_data
  defines "d \<equiv> skb_data (rx_skb rx)"
  defines "h \<equiv> x_hdrlen x (frame_control d)"
  defines "blocks \<equiv> special d (ccmp_hdr2pn (mem_read d h 8)) (has_flag (kc_flags (conf k)) IEEE80211_KEY_FLAG_SPP_AMSDU)"
  assumes "decrypt x k rx = (RX_CONTINUE, rx')"
    and "ieee80211_is_data (frame_control d) \<or> ieee80211_is_robust_mgmt_frame d"
    and "\<not> has_flag (rx_flag rx) RX_FLAG_DECRYPTED" "\<not> has_flag (rx_flag rx) RX_FLAG_PN_VALIDATED"
  shows "h + 8 + mic < length d \<and>
    fst (x_aead_decrypt x (aead_tfm (get k)) (fst blocks) (aad_octets (snd blocks))
      (mem_read d (h + 8) (length d - h - 8 - mic))
      (mem_read d (length d - mic) (x_aead_authsize x (aead_tfm (get k))))) = 0"
proof -
  obtain iv aad where sp: "blocks = (iv, aad)" by (metis surj_pair)
  let ?n = "length d - h - 8 - mic" and ?t = "aead_tfm (get k)"
  obtain r p where o: "aead_decrypt x (skb_oom (rx_skb rx) Alloc_Request) ?t iv (aad_octets aad) (mem_read d (h + 8) ?n)
      (mem_read d (length d - mic) (x_aead_authsize x ?t)) = (r, p)" by (metis surj_pair)
  have n: "nat (int (length d) - int h - 8 - int mic) = ?n" by simp
  have "h + 8 + mic \<le> length d" "r = 0"
    using assms(4-7) sp o n short_drops
    unfolding decrypt_eq suite_rx_def suite_check_def suite_open_def Let_def d_def [symmetric] h_def [symmetric]
      blocks_def [symmetric] ieee80211_aes_ccm_decrypt_def
    by (auto split: if_splits)
  moreover from this o have "mem_read d (h + 8) ?n \<noteq> []" by (auto simp: aead_decrypt_def)
  then have "?n \<noteq> 0" by (auto simp: mem_read_def)
  ultimately show ?thesis
    using o by (auto simp: aead_decrypt_def sp split: if_splits)
qed

end

text \<open>C5: If the pairwise keys of a station with management frame protection are CCMP keys, a unicast
  deauthentication or disassociation with a reason code that gets through (not decrypted by the
  hardware) has a tag that the transform has verified, with the key of a pairwise slot, over the data
  of the frame and the nonce and additional data made from its header and packet number.\<close>

theorem mfp_unicast_leave_authentic:
  assumes "ieee80211_rx_h_decrypt x ks rx = (RX_CONTINUE, rx', ks')"
    and "ieee80211_drop_unencrypted_mgmt ks' rx' = (RX_CONTINUE, rx'')"
    and "d = skb_data (rx_skb rx)" "ieee80211_is_deauth (frame_control d) \<or> ieee80211_is_disassoc (frame_control d)"
    and "IEEE80211_MIN_ACTION_SIZE \<le> length d" "rx_sta rx \<noteq> None" "sta_mfp ks"
    and "\<not> has_flag (rx_flag rx) RX_FLAG_DECRYPTED" "\<not> has_flag (rx_flag rx) RX_FLAG_PN_VALIDATED"
    and "\<not> is_multicast_ether_addr (addr1 d)" "ptk ks (ptk_idx ks) \<noteq> None"
    and "\<forall>i k. ptk ks i = Some k \<longrightarrow> kc_cipher (conf k) = WLAN_CIPHER_SUITE_CCMP"
    and "h = x_hdrlen x (frame_control d)" "pn = ccmp_hdr2pn (mem_read d h 8)"
  shows "\<exists>i k. ptk ks i = Some k \<and>
    (case ccmp_special_blocks d pn (has_flag (kc_flags (conf k)) IEEE80211_KEY_FLAG_SPP_AMSDU) of
       (iv, aad) \<Rightarrow> fst (x_aead_decrypt x (aead_tfm (u_ccmp k)) iv (aad_octets aad) (mem_read d (h + 8) (length d - h - 8 - 8))
         (mem_read d (length d - 8) (x_aead_authsize x (aead_tfm (u_ccmp k))))) = 0)"
proof -
  have rob: "ieee80211_is_robust_mgmt_frame d"
    using assms(4,5) by (auto simp: ieee80211_is_robust_mgmt_frame_def is_robust_mgmt_hdr_def Let_def)
  obtain r k crx where r: "rx_select_key x ks rx = Select (Some r)" "key_at ks r = Some k"
      "cipher_decrypt x k (rx\<lparr>rx_key := Some k\<rparr>) = (RX_CONTINUE, crx)"
    using mfp_leave_selected [OF assms(1-8)] assms(10,11) by blast
  obtain i where i: "ptk ks i = Some k"
    using select_pairwise [OF r(1)] r(2) assms(3,6,10,11) by auto
  have "ieee80211_crypto_ccmp_decrypt x 8 k (rx\<lparr>rx_key := Some k\<rparr>) = (RX_CONTINUE, crx)"
    using r(3) assms(12) i by (simp add: cipher_decrypt_def)
  from ccmp.accepted_opens [OF this] rob assms(3,8,9,13,14) show ?thesis
    by (intro exI [of _ i] exI [of _ k]) (auto simp: i split: prod.splits)
qed

theorem mfp_unicast_leave_authentic_witness:
  "let d = skb_data (rx_skb ex_deauth_in); pn = ccmp_hdr2pn (mem_read d 24 8) in
   \<exists>i k. ptk ex_keys i = Some k \<and>
    (case ccmp_special_blocks d pn (has_flag (kc_flags (conf k)) IEEE80211_KEY_FLAG_SPP_AMSDU) of
       (iv, aad) \<Rightarrow> fst (x_aead_decrypt ex_extern (aead_tfm (u_ccmp k)) iv (aad_octets aad) (mem_read d (24 + 8) (length d - 24 - 8 - 8))
         (mem_read d (length d - 8) (x_aead_authsize ex_extern (aead_tfm (u_ccmp k))))) = 0)"
proof -
  obtain rx' ks' where d: "ex_decrypt ex_deauth_in = (RX_CONTINUE, rx', ks')"
    using ex_decrypt_continues(2) by (metis prod.collapse)
  have "fst (case ex_decrypt ex_deauth_in of (_, rx', ks') \<Rightarrow> ieee80211_drop_unencrypted_mgmt ks' rx') = RX_CONTINUE"
    by code_simp
  then obtain rx'' where m: "ieee80211_drop_unencrypted_mgmt ks' rx' = (RX_CONTINUE, rx'')"
    unfolding d prod.case by (metis prod.collapse)
  have k: "\<forall>i k. ptk ex_keys i = Some k \<longrightarrow> kc_cipher (conf k) = WLAN_CIPHER_SUITE_CCMP"
    by (simp add: ex_keys_def ex_key_def ex_conf_def)
  have h: "24 = x_hdrlen ex_extern (frame_control (skb_data (rx_skb ex_deauth_in)))" by (simp add: ex_extern_def)
  show ?thesis unfolding Let_def
    by (rule mfp_unicast_leave_authentic [OF d m refl _ _ _ _ _ _ _ _ k h refl]; code_simp)
qed

subsection \<open>Duplicates\<close>

definition dup_run :: "ieee80211_rx_data list \<Rightarrow> dup_state \<Rightarrow> dup_state" where
  "dup_run fs st = foldl (\<lambda>st f. snd (ieee80211_rx_h_check_dup f st)) st fs"

text \<open>The frames the duplicate cache of a station is kept for.\<close>

definition dup_checked :: "ieee80211_rx_data \<Rightarrow> bool" where
  "dup_checked rx \<longleftrightarrow>
     (let hdr = skb_data (rx_skb rx); fc = frame_control hdr in
      \<not> has_flag (rx_flag rx) RX_FLAG_DUP_VALIDATED \<and> 24 \<le> skb_len (rx_skb rx) \<and> \<not> ieee80211_is_ctl fc \<and>
      \<not> ieee80211_is_any_nullfunc fc \<and> rx_sta rx \<noteq> None \<and> \<not> is_multicast_ether_addr (addr1 hdr))"

lemma check_dup_other:
  "seqno_idx f \<noteq> i \<Longrightarrow> last_seq_ctrl (snd (ieee80211_rx_h_check_dup f st)) ! i = last_seq_ctrl st ! i"
  by (simp add: ieee80211_rx_h_check_dup_def Let_def)

lemma dup_run_other: "\<forall>f\<in>set fs. seqno_idx f \<noteq> i \<Longrightarrow> last_seq_ctrl (dup_run fs st) ! i = last_seq_ctrl st ! i"
  by (induction fs arbitrary: st) (simp_all add: dup_run_def check_dup_other)

text \<open>C27: After a unicast frame of a station got through the duplicate check, its retransmission, with the
  same sequence control and the retry bit, is dropped and changes nothing, whatever frames of other
  queues come in between.\<close>

theorem retransmission_dropped:
  assumes "dup_checked rx" "\<not> has_flag (rx_flag rx) RX_FLAG_AMSDU_MORE"
    and "ieee80211_rx_h_check_dup rx st = (RX_CONTINUE, st')" "seqno_idx rx < length (last_seq_ctrl st)"
    and "\<forall>f\<in>set fs. seqno_idx f \<noteq> seqno_idx rx"
    and "dup_checked rx2" "seqno_idx rx2 = seqno_idx rx"
    and "seq_ctrl (skb_data (rx_skb rx2)) = seq_ctrl (skb_data (rx_skb rx))"
    and "ieee80211_has_retry (frame_control (skb_data (rx_skb rx2)))"
  shows "ieee80211_rx_h_check_dup rx2 (dup_run fs st') = (RX_DROP_U_DUP, dup_run fs st')"
proof -
  have "last_seq_ctrl st' ! seqno_idx rx = seq_ctrl (skb_data (rx_skb rx))"
    using assms(1-4) by (auto simp: ieee80211_rx_h_check_dup_def dup_checked_def Let_def split: if_splits)
  then have "last_seq_ctrl (dup_run fs st') ! seqno_idx rx = seq_ctrl (skb_data (rx_skb rx))"
    using dup_run_other [OF assms(5)] by simp
  with assms(6-9) show ?thesis by (simp add: ieee80211_rx_h_check_dup_def dup_checked_def Let_def)
qed

definition ex_dup :: dup_state where
  "ex_dup = \<lparr>last_seq_ctrl = replicate 17 0, mcast_seq_last = IEEE80211_SN_MODULO, vif_is_mld = True\<rparr>"

abbreviation (input) ex_qos :: "u8 \<Rightarrow> bool \<Rightarrow> nat \<Rightarrow> u16 \<Rightarrow> ieee80211_rx_data" where
  "ex_qos fc1 grp i sc \<equiv> (ex_clear (ex_header 0x08 fc1 grp sc @ [1]))\<lparr>seqno_idx := i\<rparr>"

theorem retransmission_dropped_witness:
  "let st = snd (ieee80211_rx_h_check_dup (ex_qos 0x41 False 3 0x50) ex_dup); st' = dup_run [ex_qos 0x41 False 4 0x50] st
   in ieee80211_rx_h_check_dup (ex_qos 0x49 False 3 0x50) st' = (RX_DROP_U_DUP, st')"
proof -
  let ?r = "ieee80211_rx_h_check_dup (ex_qos 0x41 False 3 0x50) ex_dup"
  have "fst ?r = RX_CONTINUE" by code_simp
  then have "?r = (RX_CONTINUE, snd ?r)" by (metis prod.collapse)
  then show ?thesis unfolding Let_def
    by (rule retransmission_dropped [rotated 2]; code_simp)
qed

text \<open>The multicast data frames of a multi-link station: every link may deliver a copy.\<close>

definition mld_multicast :: "ieee80211_rx_data \<Rightarrow> bool" where
  "mld_multicast rx \<longleftrightarrow>
     (let hdr = skb_data (rx_skb rx); fc = frame_control hdr in
      \<not> has_flag (rx_flag rx) RX_FLAG_DUP_VALIDATED \<and> 24 \<le> skb_len (rx_skb rx) \<and> \<not> ieee80211_is_ctl fc \<and>
      \<not> ieee80211_is_any_nullfunc fc \<and> rx_sta rx \<noteq> None \<and> is_multicast_ether_addr (addr1 hdr) \<and>
      ieee80211_is_data_present fc \<and> rx_vif_type rx = IFTYPE_STATION)"

definition mld_recv :: "dup_state \<Rightarrow> ieee80211_rx_data \<Rightarrow> bool \<times> dup_state" where
  "mld_recv st rx =
     (case ieee80211_rx_h_check_dup rx st of (res, st') \<Rightarrow> (res = RX_CONTINUE \<and> mld_multicast rx, st'))"

definition rx_sn :: "ieee80211_rx_data \<Rightarrow> u16" where
  "rx_sn rx = ieee80211_get_sn (skb_data (rx_skb rx))"

lemma sn_not_modulo: "ieee80211_get_sn d \<noteq> IEEE80211_SN_MODULO"
  using ieee80211_get_sn_lt [of d] by auto

lemma mld_recv_step:
  assumes "vif_is_mld st" "mld_recv st f = (b, st')"
  shows "vif_is_mld st' \<and>
    (if b then mcast_seq_last st' = rx_sn f \<and> (mcast_seq_last st \<noteq> IEEE80211_SN_MODULO \<longrightarrow> ieee80211_sn_less (mcast_seq_last st) (rx_sn f))
     else mcast_seq_last st' = mcast_seq_last st)"
  using assms
  by (auto simp: mld_recv_def mld_multicast_def rx_sn_def ieee80211_rx_h_check_dup_def Let_def
      ieee80211_sn_less_def ieee80211_sn_less_eq_def split: if_splits)

text \<open>Multi-link stations receive a copy of every multicast data frame on each link: out of any sequence
  of received frames, the sequence number of every multicast data frame that gets through is ahead
  of the number of the one let through before.\<close>

theorem mld_multicast_ahead:
  assumes "vif_is_mld st"
  shows "successively ieee80211_sn_less (map rx_sn (fst (accept_run mld_recv st fs)))"
proof -
  have "successively ieee80211_sn_less (map rx_sn (fst (accept_run mld_recv st fs))) \<and>
      (mcast_seq_last st \<noteq> IEEE80211_SN_MODULO \<longrightarrow>
         successively ieee80211_sn_less (mcast_seq_last st # map rx_sn (fst (accept_run mld_recv st fs))))"
    using assms
  proof (induction fs arbitrary: st)
    case Nil
    then show ?case by simp
  next
    case (Cons f fs)
    obtain b st' where r: "mld_recv st f = (b, st')" by (metis surj_pair)
    note st = mld_recv_step [OF Cons.prems r]
    note ih = Cons.IH [of st']
    from st ih sn_not_modulo [of "skb_data (rx_skb f)"] show ?case
      by (auto simp: r rx_sn_def split: prod.split if_splits)
  qed
  then show ?thesis by blast
qed

theorem mld_multicast_ahead_witness:
  "let acc = fst (accept_run mld_recv ex_dup (map (ex_qos 0x42 True 0) [0xffe0, 0xfff0, 0xffe0, 0, 0xfff0, 0x10]))
   in length acc = 4 \<and> successively ieee80211_sn_less (map rx_sn acc)"
  unfolding Let_def
proof
  show "length (fst (accept_run mld_recv ex_dup (map (ex_qos 0x42 True 0) [0xffe0, 0xfff0, 0xffe0, 0, 0xfff0, 0x10]))) = 4"
    by code_simp
  show "successively ieee80211_sn_less
      (map rx_sn (fst (accept_run mld_recv ex_dup (map (ex_qos 0x42 True 0) [0xffe0, 0xfff0, 0xffe0, 0, 0xfff0, 0x10]))))"
    by (rule mld_multicast_ahead) (simp add: ex_dup_def)
qed

end
