(* ===== verification/Rx_Fragments.thy ===== *)
theory Rx_Fragments
  imports Rx_Protection
begin

text \<open>
  Decryption and reassembly composed: the fragments put together after decryption carry
  consecutive packet numbers in their headers, so that fragments of different frames, or of the
  same frame protected at different times, are not mixed.
\<close>

subsection \<open>What decryption leaves of a frame\<close>

lemma take_eq_nth: "take n a = take n b \<Longrightarrow> i < n \<Longrightarrow> n \<le> length a \<Longrightarrow> n \<le> length b \<Longrightarrow> a ! i = b ! i"
  by (metis nth_take)

lemma header_cong:
  assumes "take 24 a = take 24 b" "24 \<le> length a" "24 \<le> length b"
  shows "frame_control a = frame_control b" "seq_ctrl a = seq_ctrl b" "ieee80211_is_frag a = ieee80211_is_frag b"
proof -
  have n: "a ! i = b ! i" if "i < 24" for i using take_eq_nth [OF assms(1) that assms(2,3)] .
  show "frame_control a = frame_control b" "seq_ctrl a = seq_ctrl b"
    by (simp_all add: frame_control_def seq_ctrl_def get_unaligned_le16_def n)
  then show "ieee80211_is_frag a = ieee80211_is_frag b" by (simp add: ieee80211_is_frag_def)
qed

lemma suite_strip_data:
  assumes "suite_strip sm h m rx = (RX_CONTINUE, rx')" "sm \<noteq> RX_CONTINUE" "h + 8 + m \<le> skb_len (rx_skb rx)"
  shows "skb_data (rx_skb rx') = take h (skb_data (rx_skb rx)) @ mem_read (skb_data (rx_skb rx)) (h + 8) (skb_len (rx_skb rx) - m - (h + 8)) \<and>
    rx_key rx' = rx_key rx \<and> ccm_gcm_pn rx' = ccm_gcm_pn rx \<and> security_idx rx' = security_idx rx \<and> seqno_idx rx' = seqno_idx rx"
proof -
  let ?s = "skb_trim (rx_skb rx) (skb_len (rx_skb rx) - m)"
  have "h + 8 \<le> length (skb_data ?s)" using assms(3) by (simp add: skb_data_trim)
  from skb_data_pull_move [OF this] assms show ?thesis
    by (auto simp: suite_strip_def Let_def skb_data_trim mem_read_def drop_take split: if_splits)
qed

context aead_suite
begin

lemma accepted_leaves:
  fixes x :: extern and k :: ieee80211_key and rx :: ieee80211_rx_data
  defines "d \<equiv> skb_data (rx_skb rx)"
  defines "h \<equiv> x_hdrlen x (frame_control d)"
  defines "pn \<equiv> ccmp_hdr2pn (mem_read d h 8)"
  assumes "decrypt x k rx = (RX_CONTINUE, rx')" "24 \<le> h"
    and "ieee80211_is_data (frame_control d) \<or> ieee80211_is_robust_mgmt_frame d"
    and "\<not> has_flag (rx_flag rx) RX_FLAG_PN_VALIDATED"
  shows "rx_key rx' = Some (upd ((get k)\<lparr>aead_rx_pn := (aead_rx_pn (get k))[security_idx rx := pn]\<rparr>) k) \<and>
    security_idx rx' = security_idx rx \<and> seqno_idx rx' = seqno_idx rx \<and>
    take 24 (skb_data (rx_skb rx')) = take 24 d \<and> 24 \<le> length (skb_data (rx_skb rx')) \<and> 24 \<le> length d \<and>
    (ieee80211_is_frag d \<longrightarrow> ccm_gcm_pn rx' = pn)"
proof -
  obtain m n where chk: "suite_check special get upd mic short_mic x k m n rx = (RX_CONTINUE, rx')"
    and len: "h + 8 + m \<le> length d"
    using assms(4,6,7) short_drops unfolding decrypt_eq suite_rx_def Let_def d_def [symmetric] h_def [symmetric]
    by (auto split: if_splits)
  obtain rr buf where o: "suite_open special x k (get k) (rx_skb rx) (has_flag (rx_flag rx) RX_FLAG_DECRYPTED) h n mic pn = (rr, buf)"
    by (metis surj_pair)
  define rx1 where "rx1 = rx\<lparr>rx_skb := (rx_skb rx)\<lparr>skb_data := buf\<rparr>,
    rx_key := Some (upd ((get k)\<lparr>aead_rx_pn := (aead_rx_pn (get k))[security_idx rx := pn]\<rparr>) k),
    ccm_gcm_pn := (if ieee80211_is_frag buf then pn else ccm_gcm_pn rx)\<rparr>"
  have st: "suite_strip short_mic h m rx1 = (RX_CONTINUE, rx')"
    using chk [unfolded suite_check_def Let_def, folded d_def, folded h_def, folded pn_def, unfolded o prod.case]
    by (auto simp: rx1_def split: if_splits)
  have "buf = d \<or> (\<exists>p. buf = mem_write d (h + 8) p)"
    using o by (auto simp: suite_open_def d_def [symmetric] ieee80211_aes_ccm_decrypt_def Let_def split: if_splits prod.splits)
  then have buf: "take 24 buf = take 24 d" "length d \<le> length buf"
    using len assms(5) by (auto simp: mem_write_def min_def)
  have "ieee80211_is_frag buf = ieee80211_is_frag d"
    using header_cong(3) [OF buf(1)] buf(2) len assms(5) by simp
  moreover have "h + 8 + m \<le> skb_len (rx_skb rx1)" using len buf(2) by (simp add: rx1_def)
  moreover have "take 24 (take h buf @ t) = take 24 d" "24 \<le> length (take h buf @ t)" for t
    using buf len assms(5) by (simp_all add: min_def)
  ultimately show ?thesis
    using suite_strip_data [OF st short_drops(2)] len assms(5) by (simp add: rx1_def)
qed

end

lemma cipher_leaves:
  fixes x :: extern and k :: ieee80211_key and rx :: ieee80211_rx_data
  defines "d \<equiv> skb_data (rx_skb rx)"
  assumes "cipher_decrypt x k rx = (RX_CONTINUE, rx')" "is_aead_cipher (kc_cipher (conf k))"
    and "24 \<le> x_hdrlen x (frame_control d)"
    and "ieee80211_is_data (frame_control d) \<or> ieee80211_is_robust_mgmt_frame d"
    and "\<not> has_flag (rx_flag rx) RX_FLAG_PN_VALIDATED" "rx_pn_ok (security_idx rx) (key_aead k)"
  shows "\<exists>k'. rx_key rx' = Some k' \<and> conf k' = conf k \<and> be_nat (key_rx_pn k' (security_idx rx)) = frame_pn x rx \<and>
    length (key_rx_pn k' (security_idx rx)) = 6 \<and>
    security_idx rx' = security_idx rx \<and> seqno_idx rx' = seqno_idx rx \<and>
    take 24 (skb_data (rx_skb rx')) = take 24 d \<and> 24 \<le> length (skb_data (rx_skb rx')) \<and> 24 \<le> length d \<and>
    (ieee80211_is_frag d \<longrightarrow> length (ccm_gcm_pn rx') = 6 \<and> be_nat (ccm_gcm_pn rx') = frame_pn x rx)"
proof -
  have pn: "frame_pn x rx = be_nat (ccmp_hdr2pn (mem_read d (x_hdrlen x (frame_control d)) 8))"
    by (simp add: frame_pn_def d_def Let_def)
  have q: "security_idx rx < length (aead_rx_pn (key_aead k))" using assms(7) by (simp add: rx_pn_ok_def)
  consider (ccmp) mic where "ieee80211_crypto_ccmp_decrypt x mic k rx = (RX_CONTINUE, rx')"
      "kc_cipher (conf k) \<in> {WLAN_CIPHER_SUITE_CCMP, WLAN_CIPHER_SUITE_CCMP_256}"
    | (gcmp) "ieee80211_crypto_gcmp_decrypt x k rx = (RX_CONTINUE, rx')"
      "kc_cipher (conf k) \<in> {WLAN_CIPHER_SUITE_GCMP, WLAN_CIPHER_SUITE_GCMP_256}"
    using assms(2,3) by (auto simp: is_aead_cipher_def cipher_decrypt_def)
  then show ?thesis
  proof cases
    case ccmp
    then have "key_aead k = u_ccmp k" by (auto simp: key_aead_def)
    with ccmp.accepted_leaves [OF ccmp(1)] ccmp(2) assms(4-6) q show ?thesis
      unfolding pn d_def by (auto simp: key_rx_pn_def)
  next
    case gcmp
    then have "key_aead k = u_gcmp k" by (auto simp: key_aead_def)
    with gcmp.accepted_leaves [OF gcmp(1)] gcmp(2) assms(4-6) q show ?thesis
      unfolding pn d_def by (auto simp: key_rx_pn_def)
  qed
qed

lemma decrypt_continue:
  assumes "ieee80211_rx_h_decrypt x ks rx = (RX_CONTINUE, rx', ks')" "rx_select_key x ks rx = Select (Some r)"
    and "\<not> ieee80211_is_ext (frame_control (skb_data (rx_skb rx)))" "key_at ks r = Some k"
  shows "\<exists>crx. cipher_decrypt x k (rx\<lparr>rx_key := Some k\<rparr>) = (RX_CONTINUE, crx) \<and> rx' = mark_decrypted crx"
  using assms by (auto simp: ieee80211_rx_h_decrypt_def Let_def split: if_splits prod.splits)

subsection \<open>Fragments as they were received\<close>

text \<open>
  A received fragment with what decryption made of it: protected, opened with the key of some slot
  under CCMP or GCMP, its number checked here.
\<close>

definition opened :: "extern \<Rightarrow> ieee80211_rx_data \<Rightarrow> ieee80211_rx_data \<Rightarrow> bool" where
  "opened x rin rout \<longleftrightarrow>
     (let d = skb_data (rx_skb rin); fc = frame_control d in
      ieee80211_is_data fc \<and> ieee80211_has_protected fc \<and> ieee80211_is_frag d \<and> 24 \<le> x_hdrlen x fc \<and>
      seqno_idx rin \<le> 16 \<and> \<not> has_flag (rx_flag rin) RX_FLAG_PN_VALIDATED \<and>
      (\<exists>ks ks' r k. ieee80211_rx_h_decrypt x ks rin = (RX_CONTINUE, rout, ks') \<and>
         rx_select_key x ks rin = Select (Some r) \<and> key_at ks r = Some k \<and>
         is_aead_cipher (kc_cipher (conf k)) \<and> rx_pn_ok (security_idx rin) (key_aead k)))"

lemma opened_facts:
  assumes "opened x rin rout"
  shows "needs_pn (t, rout)" "frag_frame (t, rout)" "start_pn (t, rout) = frame_pn x rin"
    "be_nat (ccm_gcm_pn rout) = frame_pn x rin"
    "ieee80211_is_frag (skb_data (rx_skb rout))" "ieee80211_is_data (frame_control (skb_data (rx_skb rout)))"
proof -
  define d where "d = skb_data (rx_skb rin)"
  obtain ks ks' r k where a: "ieee80211_rx_h_decrypt x ks rin = (RX_CONTINUE, rout, ks')"
      "rx_select_key x ks rin = Select (Some r)" "key_at ks r = Some k"
      "is_aead_cipher (kc_cipher (conf k))" "rx_pn_ok (security_idx rin) (key_aead k)"
    and f: "ieee80211_is_data (frame_control d)" "ieee80211_has_protected (frame_control d)" "ieee80211_is_frag d"
      "24 \<le> x_hdrlen x (frame_control d)" "seqno_idx rin \<le> 16" "\<not> has_flag (rx_flag rin) RX_FLAG_PN_VALIDATED"
    using assms by (auto simp: opened_def Let_def d_def)
  obtain crx where c: "cipher_decrypt x k (rin\<lparr>rx_key := Some k\<rparr>) = (RX_CONTINUE, crx)" "rout = mark_decrypted crx"
    using decrypt_continue [OF a(1,2) _ a(3)] data_not_mgmt f(1) by (auto simp: d_def)
  have fp: "frame_pn x (rin\<lparr>rx_key := Some k\<rparr>) = frame_pn x rin" by (simp add: frame_pn_def)
  obtain k' where k': "rx_key crx = Some k'" "conf k' = conf k" "be_nat (key_rx_pn k' (security_idx rin)) = frame_pn x rin"
      "length (key_rx_pn k' (security_idx rin)) = 6" "security_idx crx = security_idx rin" "seqno_idx crx = seqno_idx rin"
      "take 24 (skb_data (rx_skb crx)) = take 24 d" "24 \<le> length (skb_data (rx_skb crx))" "24 \<le> length d"
      "length (ccm_gcm_pn crx) = 6" "be_nat (ccm_gcm_pn crx) = frame_pn x rin"
    using cipher_leaves [OF c(1) a(4)] a(5) f by (auto simp: d_def fp)
  have fc: "frame_control (skb_data (rx_skb crx)) = frame_control d" by (rule header_cong(1) [OF k'(7,8,9)])
  show "ieee80211_is_frag (skb_data (rx_skb rout))" "ieee80211_is_data (frame_control (skb_data (rx_skb rout)))"
    using header_cong(3) [OF k'(7,8,9)] fc f(1,3) c(2) by (simp_all add: mark_decrypted_def Let_def)
  show "needs_pn (t, rout)"
    using k' f(2) fc a(4) c(2)
    by (auto simp: needs_pn_def requires_sequential_pn_def mark_decrypted_def is_aead_cipher_def Let_def)
  show "frag_frame (t, rout)"
    using k' f(5) c(2) by (auto simp: frag_frame_def mark_decrypted_def Let_def)
  show "start_pn (t, rout) = frame_pn x rin" "be_nat (ccm_gcm_pn rout) = frame_pn x rin"
    using k' c(2) by (auto simp: start_pn_def mark_decrypted_def Let_def)
qed

text \<open>The output of the two stages for a fragment received at a time.\<close>

abbreviation decrypted :: "u64 \<times> ieee80211_rx_data \<times> ieee80211_rx_data \<Rightarrow> frag_event" where
  "decrypted f \<equiv> (fst f, snd (snd f))"

abbreviation received_pn :: "extern \<Rightarrow> u64 \<times> ieee80211_rx_data \<times> ieee80211_rx_data \<Rightarrow> nat" where
  "received_pn x f \<equiv> frame_pn x (fst (snd f))"

lemma subseq_map_inv:
  assumes "subseq xs (map g ys)"
  shows "\<exists>zs. subseq zs ys \<and> xs = map g zs"
  using assms by (auto simp: subseq_conv_nths nths_map)

lemma chain_consecutive:
  assumes "frag_chain hz (map decrypted fs)" "\<forall>f\<in>set fs. opened x (fst (snd f)) (snd (snd f))"
  shows "\<forall>i<length fs. received_pn x (fs ! i) mod 2 ^ 48 = (received_pn x (hd fs) + i) mod 2 ^ 48"
proof (intro allI impI)
  fix i
  assume i: "i < length fs"
  then have "fs \<noteq> []" by auto
  then have op: "opened x (fst (snd (hd fs))) (snd (snd (hd fs)))" "opened x (fst (snd (fs ! i))) (snd (snd (fs ! i)))"
    using assms(2) i by simp_all
  show "received_pn x (fs ! i) mod 2 ^ 48 = (received_pn x (hd fs) + i) mod 2 ^ 48"
  proof (cases "i = 0")
    case True
    then show ?thesis using i by (simp add: hd_conv_nth)
  next
    case False
    then have "continues hz (hd (map decrypted fs)) i (map decrypted fs ! i)"
      using assms(1) i by (simp only: frag_chain_def length_map) blast
    then have c: "continues hz (decrypted (hd fs)) i (decrypted (fs ! i))"
      using i \<open>fs \<noteq> []\<close> nth_map [of i fs decrypted] hd_map [of fs decrypted] by simp
    have "be_nat (ccm_gcm_pn (snd (snd (fs ! i)))) = (start_pn (decrypted (hd fs)) + i) mod 2 ^ 48"
      using c opened_facts(1) [OF op(1), of "fst (hd fs)"] unfolding continues_def snd_conv by blast
    then show ?thesis
      unfolding opened_facts(3) [OF op(1)] opened_facts(4) [OF op(2)] by (simp only: mod_mod_trivial)
  qed
qed

text \<open>C6: If the fragments that reach reassembly were all opened by the decryption handler under CCMP or
  GCMP keys, a frame that is put together consists of received fragments whose packet numbers, in the
  headers they were received with, are consecutive, modulo 2^48; its data are the header of the
  first and the payloads in order.\<close>

theorem reassembled_consecutive_pns:
  assumes "empty_cache c0" "\<forall>f\<in>set (hist @ [l]). opened x (fst (snd f)) (snd (snd f))"
    and "defrag_run x hz (map decrypted hist) c0 = Some c"
    and "ieee80211_rx_h_defragment x hz (fst l) (snd (snd l)) c = Some (RX_CONTINUE, rx', c')"
  shows "\<exists>fs. fs \<noteq> [] \<and> subseq fs hist \<and>
    skb_data (rx_skb rx') = frag_hdr (decrypted (hd fs)) @ concat (map (payload x \<circ> decrypted) (tl fs @ [l])) \<and>
    (\<forall>i<length (fs @ [l]). received_pn x ((fs @ [l]) ! i) mod 2 ^ 48 = (received_pn x (hd fs) + i) mod 2 ^ 48)"
proof -
  have ff: "\<forall>f\<in>set (map decrypted hist @ [decrypted l]). frag_frame f"
    using assms(2) opened_facts(2) by auto
  have l: "opened x (fst (snd l)) (snd (snd l))" using assms(2) by simp
  have ok: "cache_ok x hz (map decrypted hist) c"
    using defrag_run_ok [OF empty_cache_ok [OF assms(1)], of "map decrypted hist" x hz c] assms(3) ff by simp
  have nc: "\<not> ieee80211_is_ctl (frame_control (frag_hdr (decrypted l)))" "\<not> ieee80211_is_ext (frame_control (frag_hdr (decrypted l)))"
    using data_not_mgmt opened_facts(6) [OF l] by (auto simp: ieee80211_is_ctl_def ieee80211_is_data_def)
  have "ieee80211_rx_h_defragment x hz (fst (decrypted l)) (snd (decrypted l)) c = Some (RX_CONTINUE, rx', c')"
    "ieee80211_is_frag (frag_hdr (decrypted l))"
    using assms(4) opened_facts(5) [OF l] by (simp_all only: fst_conv snd_conv)
  from joined_fragments [OF ok _ this nc] ff
  obtain fs' where fs': "fs' \<noteq> []" "subseq fs' (map decrypted hist)" "frag_chain hz (fs' @ [decrypted l])"
      "skb_data (rx_skb rx') = frag_hdr (hd fs') @ concat (map (payload x) (tl fs' @ [decrypted l]))"
    by auto
  obtain fs where fs: "subseq fs hist" "fs' = map decrypted fs" using subseq_map_inv [OF fs'(2)] by blast
  have ne: "fs \<noteq> []" using fs' fs by auto
  have "set fs \<subseteq> set hist" using fs(1) by (auto simp: subseq_conv_nths dest: in_set_nthsD)
  then have op: "\<forall>f\<in>set (fs @ [l]). opened x (fst (snd f)) (snd (snd f))" using assms(2) by auto
  have "frag_chain hz (map decrypted (fs @ [l]))" using fs'(3) fs(2) by simp
  from chain_consecutive [OF this op] ne
  have "\<forall>i<length (fs @ [l]). received_pn x ((fs @ [l]) ! i) mod 2 ^ 48 = (received_pn x (hd fs) + i) mod 2 ^ 48"
    by (simp del: length_append)
  moreover have "skb_data (rx_skb rx') = frag_hdr (decrypted (hd fs)) @ concat (map (payload x \<circ> decrypted) (tl fs @ [l]))"
    using fs'(4) fs(2) ne by (simp add: hd_map map_tl)
  ultimately show ?thesis using ne fs(1) by blast
qed

subsection \<open>Concrete fragments\<close>

text \<open>Two fragments of a frame, sealed with the packet numbers 5 and 6, decrypted one after the other.\<close>

definition ex_opens :: "rx_keys \<Rightarrow> key_ref \<Rightarrow> ieee80211_rx_data \<Rightarrow> bool" where
  "ex_opens ks r rin \<longleftrightarrow>
     (let d = skb_data (rx_skb rin); fc = frame_control d in
      ieee80211_is_data fc \<and> ieee80211_has_protected fc \<and> ieee80211_is_frag d \<and> 24 \<le> x_hdrlen ex_extern fc \<and>
      seqno_idx rin \<le> 16 \<and> \<not> has_flag (rx_flag rin) RX_FLAG_PN_VALIDATED \<and>
      fst (ieee80211_rx_h_decrypt ex_extern ks rin) = RX_CONTINUE \<and> rx_select_key ex_extern ks rin = Select (Some r) \<and>
      (case key_at ks r of None \<Rightarrow> False
       | Some k \<Rightarrow> is_aead_cipher (kc_cipher (conf k)) \<and> rx_pn_ok (security_idx rin) (key_aead k)))"

lemma ex_opens_opened: "ex_opens ks r rin \<Longrightarrow> opened ex_extern rin (fst (snd (ieee80211_rx_h_decrypt ex_extern ks rin)))"
  by (cases "ieee80211_rx_h_decrypt ex_extern ks rin")
    (auto simp: ex_opens_def opened_def Let_def split: option.splits)

definition ex_part1 :: ieee80211_rx_data where "ex_part1 = ex_sealed (ex_header 0x08 0x45 False 0x640) 5 [1, 2]"
definition ex_part2 :: ieee80211_rx_data where "ex_part2 = ex_sealed (ex_header 0x08 0x41 False 0x641) 6 [3, 4]"

definition ex_keys1 :: rx_keys where
  "ex_keys1 = snd (snd (ieee80211_rx_h_decrypt ex_extern ex_keys ex_part1))"

definition ex_plain1 :: ieee80211_rx_data where
  "ex_plain1 = fst (snd (ieee80211_rx_h_decrypt ex_extern ex_keys ex_part1))"

definition ex_plain2 :: ieee80211_rx_data where
  "ex_plain2 = fst (snd (ieee80211_rx_h_decrypt ex_extern ex_keys1 ex_part2))"

definition ex_joined :: "(rx_result \<times> ieee80211_rx_data \<times> ieee80211_fragment_cache) option" where
  "ex_joined = ieee80211_rx_h_defragment ex_extern 250 1 ex_plain2 (the (defrag_run ex_extern 250 [(0, ex_plain1)] ex_cache))"

lemma ex_joined_facts:
  "ex_opens ex_keys (Ptk 0) ex_part1" "ex_opens ex_keys1 (Ptk 0) ex_part2"
  "\<not> Option.is_none (defrag_run ex_extern 250 [(0, ex_plain1)] ex_cache)"
  "\<not> Option.is_none ex_joined" "fst (the ex_joined) = RX_CONTINUE"
  "drop 24 (skb_data (rx_skb (fst (snd (the ex_joined))))) = [1, 2, 3, 4]"
  by code_simp+

theorem reassembled_consecutive_pns_witness:
  "\<exists>fs. fs \<noteq> [] \<and> subseq fs [(0, ex_part1, ex_plain1)] \<and>
    skb_data (rx_skb (fst (snd (the ex_joined)))) =
      frag_hdr (decrypted (hd fs)) @ concat (map (payload ex_extern \<circ> decrypted) (tl fs @ [(1, ex_part2, ex_plain2)])) \<and>
    (\<forall>i<length (fs @ [(1, ex_part2, ex_plain2)]).
       received_pn ex_extern ((fs @ [(1, ex_part2, ex_plain2)]) ! i) mod 2 ^ 48 = (received_pn ex_extern (hd fs) + i) mod 2 ^ 48)"
proof -
  obtain c where c: "defrag_run ex_extern 250 (map decrypted [(0, ex_part1, ex_plain1)]) ex_cache = Some c"
    using ex_joined_facts(3) by (cases "defrag_run ex_extern 250 [(0, ex_plain1)] ex_cache") auto
  obtain r rx' c' where j: "ex_joined = Some (r, rx', c')" using ex_joined_facts(4) by (cases ex_joined) auto
  have "opened ex_extern ex_part1 ex_plain1" "opened ex_extern ex_part2 ex_plain2"
    using ex_opens_opened ex_joined_facts(1,2) unfolding ex_plain1_def ex_plain2_def by blast+
  then have "\<forall>f\<in>set ([(0, ex_part1, ex_plain1)] @ [(1, ex_part2, ex_plain2)]). opened ex_extern (fst (snd f)) (snd (snd f))"
    by simp
  moreover have "ieee80211_rx_h_defragment ex_extern 250 (fst (1, ex_part2, ex_plain2)) (snd (snd (1, ex_part2, ex_plain2))) c =
      Some (RX_CONTINUE, rx', c')"
    using j ex_joined_facts(5) c by (simp add: ex_joined_def)
  ultimately show ?thesis
    using reassembled_consecutive_pns [OF ex_cache_empty _ c, of "(1, ex_part2, ex_plain2)" rx' c'] unfolding j by simp
qed

end
