(* ===== verification/Tx_Rx.thy ===== *)
theory Tx_Rx
  imports Tx_Spec Rx_Fragments
begin

text \<open>
  Transmission and reception composed: a frame that is cut into fragments and encrypted with CCMP by one
  side is decrypted and put together again by the other.
\<close>

subsection \<open>The header of a fragment as it is sent\<close>

definition sent_header :: "u8 list \<Rightarrow> nat \<Rightarrow> bool \<Rightarrow> u8 list" where
  "sent_header hdr n is_last = or_frame_control (frag_header hdr n is_last) IEEE80211_FCTL_PROTECTED"

lemma length_sent_header [simp]: "24 \<le> length hdr \<Longrightarrow> length (sent_header hdr n l) = length hdr"
  by (simp add: sent_header_def)

lemma mem_read_write_other: "off + n \<le> i \<or> i + length ys \<le> off \<Longrightarrow> off + n \<le> length d \<Longrightarrow> i + length ys \<le> length d \<Longrightarrow>
    mem_read (mem_write d i ys) off n = mem_read d off n"
  by (intro mem_read_cong_nth) (auto simp: nth_mem_write buf_simps)

lemma frag_header_fields:
  assumes "24 \<le> length hdr"
  shows "frame_control (frag_header hdr n l) = (if l then frame_control hdr AND NOT IEEE80211_FCTL_MOREFRAGS
      else frame_control hdr OR IEEE80211_FCTL_MOREFRAGS)"
    and "seq_ctrl (frag_header hdr n l) = seq_ctrl hdr OR (word_of_nat n AND IEEE80211_SCTL_FRAG)"
    and "2 \<le> off \<Longrightarrow> off + m \<le> 22 \<Longrightarrow> mem_read (frag_header hdr n l) off m = mem_read hdr off m"
    and "24 \<le> i \<Longrightarrow> i < length hdr \<Longrightarrow> frag_header hdr n l ! i = hdr ! i"
  using assms by (simp_all add: frag_header_def frame_control_write frame_control_write_seq seq_ctrl_write mem_read_write_other
      nth_mem_write buf_simps)

lemma sent_header_fields:
  assumes "24 \<le> length hdr"
  shows "frame_control (sent_header hdr n l) = frame_control (frag_header hdr n l) OR IEEE80211_FCTL_PROTECTED"
    and "seq_ctrl (sent_header hdr n l) = seq_ctrl hdr OR (word_of_nat n AND IEEE80211_SCTL_FRAG)"
    and "addr1 (sent_header hdr n l) = addr1 hdr" "addr2 (sent_header hdr n l) = addr2 hdr"
    and "24 \<le> i \<Longrightarrow> i < length hdr \<Longrightarrow> sent_header hdr n l ! i = hdr ! i"
proof -
  let ?f = "frag_header hdr n l"
  have f: "length ?f = length hdr" "24 \<le> length ?f" using assms by simp_all
  show "frame_control (sent_header hdr n l) = frame_control ?f OR IEEE80211_FCTL_PROTECTED" by (simp add: sent_header_def)
  have "seq_ctrl (sent_header hdr n l) = seq_ctrl ?f"
    using f by (simp add: sent_header_def seq_ctrl_def get_unaligned_le16_def nth_or_frame_control)
  then show "seq_ctrl (sent_header hdr n l) = seq_ctrl hdr OR (word_of_nat n AND IEEE80211_SCTL_FRAG)"
    using frag_header_fields(2)[OF assms] by simp
  show "addr1 (sent_header hdr n l) = addr1 hdr" "addr2 (sent_header hdr n l) = addr2 hdr"
    using f frag_header_fields(3)[OF assms]
    by (simp_all add: sent_header_def addr1_def addr2_def ETH_ALEN_def mem_read_or_frame_control)
  show "24 \<le> i \<Longrightarrow> i < length hdr \<Longrightarrow> sent_header hdr n l ! i = hdr ! i"
    using f frag_header_fields(4)[OF assms] by (simp add: sent_header_def nth_or_frame_control)
qed

lemma sent_header_masked:
  assumes "24 \<le> length hdr" "IEEE80211_FCTL_PROTECTED AND m = 0" "IEEE80211_FCTL_MOREFRAGS AND m = 0"
  shows "frame_control (sent_header hdr n l) AND m = frame_control hdr AND m"
  using assms(2,3) unfolding sent_header_fields(1)[OF assms(1)] frag_header_fields(1)[OF assms(1)]
  by (simp only: masked_word split: if_split) simp

lemma sent_header_types:
  assumes "24 \<le> length hdr"
  shows "ieee80211_is_data (frame_control (sent_header hdr n l)) = ieee80211_is_data (frame_control hdr)"
    "ieee80211_is_data_qos (frame_control (sent_header hdr n l)) = ieee80211_is_data_qos (frame_control hdr)"
    "ieee80211_has_a4 (frame_control (sent_header hdr n l)) = ieee80211_has_a4 (frame_control hdr)"
    "ieee80211_has_protected (frame_control (sent_header hdr n l))"
    "ieee80211_has_morefrags (frame_control (sent_header hdr n l)) \<longleftrightarrow> \<not> l"
proof -
  note m = sent_header_masked[OF assms]
  show "ieee80211_is_data (frame_control (sent_header hdr n l)) = ieee80211_is_data (frame_control hdr)"
    by (simp add: ieee80211_is_data_def m)
  show "ieee80211_is_data_qos (frame_control (sent_header hdr n l)) = ieee80211_is_data_qos (frame_control hdr)"
    by (simp add: ieee80211_is_data_qos_def m)
  show "ieee80211_has_a4 (frame_control (sent_header hdr n l)) = ieee80211_has_a4 (frame_control hdr)"
    by (simp add: ieee80211_has_a4_def Let_def m)
  show "ieee80211_has_protected (frame_control (sent_header hdr n l))"
    by (simp add: sent_header_fields(1)[OF assms])
  have "IEEE80211_FCTL_PROTECTED AND IEEE80211_FCTL_MOREFRAGS = (0 :: u16)" by simp
  note masked_word(1)[OF this]
  then show "ieee80211_has_morefrags (frame_control (sent_header hdr n l)) \<longleftrightarrow> \<not> l"
    by (simp only: ieee80211_has_morefrags_def sent_header_fields(1)[OF assms] frag_header_fields(1)[OF assms] masked_word(3,4)
        split: if_split) simp
qed

lemma sent_header_seq:
  assumes "24 \<le> length hdr" "seq_ctrl hdr AND IEEE80211_SCTL_FRAG = 0" "n < 16"
  shows "unat (seq_ctrl (sent_header hdr n l) AND IEEE80211_SCTL_FRAG) = n"
    "ieee80211_get_sn (sent_header hdr n l) = ieee80211_get_sn hdr"
proof -
  let ?n = "word_of_nat n :: u16"
  have n: "unat ?n = n" using assms(3) by (simp add: unat_of_nat take_bit_nat_eq_self)
  have "?n AND 15 = ?n"
  proof -
    have "unat (take_bit 4 ?n) = unat ?n" using n assms(3) by (simp only: unsigned_take_bit_eq take_bit_nat_eq_self_iff) simp
    then have "take_bit 4 ?n = ?n" by (simp only: word_unat_eq_iff)
    then show ?thesis by (simp add: take_bit_eq_mask mask_eq_exp_minus_1)
  qed
  moreover have "(w OR v) AND m = (w AND m) OR (v AND m)" for w v m :: u16 by (auto simp: bit_eq_iff bit_simps)
  ultimately show "unat (seq_ctrl (sent_header hdr n l) AND IEEE80211_SCTL_FRAG) = n"
    unfolding sent_header_fields(2)[OF assms(1)] using assms(2) n by simp
  have "(?n AND IEEE80211_SCTL_FRAG) AND IEEE80211_SCTL_SEQ = 0"
    by (simp add: and.assoc)
  from masked_word(1)[OF this] show "ieee80211_get_sn (sent_header hdr n l) = ieee80211_get_sn hdr"
    unfolding ieee80211_get_sn_def sent_header_fields(2)[OF assms(1)] by simp
qed

lemma sent_header_complete: "hdr_complete hdr \<Longrightarrow> hdr_complete (sent_header hdr n l)"
  using sent_header_types[of hdr n l] hdr_complete_24[of hdr]
  by (auto simp: hdr_complete_def hdr_present_def qos_ctl_off_def)

subsection \<open>Encryption of the fragments\<close>

text \<open>What is sent for a header, a payload and a packet number.\<close>

definition sealed :: "extern \<Rightarrow> tfm \<Rightarrow> bool \<Rightarrow> int \<Rightarrow> u8 list \<Rightarrow> u8 list \<Rightarrow> u8 list \<Rightarrow> u8 list \<Rightarrow> bool" where
  "sealed x t spp idx pn hdr p d \<longleftrightarrow>
     (\<exists>c m. x_aead_encrypt x t (fst (ccmp_special_blocks hdr pn spp)) (aad_octets (snd (ccmp_special_blocks hdr pn spp))) p = (0, c, m) \<and>
        d = hdr @ ccmp_pn2hdr pn idx @ c @ m)"

text \<open>A frame the CCMP handler can encrypt in software.\<close>

definition can_seal :: "extern \<Rightarrow> nat \<Rightarrow> sk_buff \<Rightarrow> bool" where
  "can_seal x mic skb \<longleftrightarrow>
     (let d = skb_data (set_protected skb); h = x_hdrlen x (frame_control d)
      in hw_key (skb_tx skb) = None \<and> 8 \<le> skb_headroom skb \<and> mic \<le> skb_tailroom skb \<and> h \<le> length d \<and>
         hdr_complete (take h d) \<and> \<not> skb_oom skb Alloc_Request)"

definition ccmp_link :: "extern \<Rightarrow> nat \<Rightarrow> tfm \<Rightarrow> bool" where
  "ccmp_link x mic t \<longleftrightarrow> aead_lengths x t \<and> aead_inverse x t \<and> x_aead_authsize x t = mic \<and>
     (\<forall>iv ad p. fst (x_aead_encrypt x t iv ad p) = 0)"

lemma ccmp_walk:
  assumes "ccmp_link x mic t"
  shows "\<forall>s\<in>set skbs. can_seal x mic s \<Longrightarrow> aead_tfm (u_ccmp k) = t \<Longrightarrow>
    \<exists>k' skbs'. walk_skbs (ccmp_encrypt_skb x mic) k (map set_protected skbs) = (True, k', skbs') \<and> length skbs' = length skbs \<and>
      (\<forall>i<length skbs. let d = skb_data (set_protected (skbs ! i)); h = x_hdrlen x (frame_control d) in
         sealed x t (has_flag (kc_flags (conf k)) IEEE80211_KEY_FLAG_SPP_AMSDU) (kc_keyidx (conf k))
           (pn_octets (kc_tx_pn (conf k) + 1 + word_of_nat i)) (take h d) (drop h d) (skb_data (skbs' ! i)))"
proof (induction skbs arbitrary: k)
  case (Cons s skbs)
  let ?s = "set_protected s"
  let ?d = "skb_data ?s"
  let ?h = "x_hdrlen x (frame_control ?d)" and ?pn = "pn_octets (kc_tx_pn (conf k) + 1)"
    and ?spp = "has_flag (kc_flags (conf k)) IEEE80211_KEY_FLAG_SPP_AMSDU"
  have c: "hw_key (skb_tx ?s) = None" "8 \<le> skb_headroom ?s" "mic \<le> skb_tailroom ?s" "?h \<le> length ?d" "hdr_complete (take ?h ?d)"
      "\<not> skb_oom ?s Alloc_Request"
    using Cons.prems(1) by (simp_all add: can_seal_def Let_def) (simp_all add: set_protected_def skb_headroom_def skb_tailroom_def)
  have l: "aead_lengths x (aead_tfm (u_ccmp k))" "x_aead_authsize x (aead_tfm (u_ccmp k)) = mic"
    using assms Cons.prems(2) by (simp_all add: ccmp_link_def)
  obtain cc m where e: "x_aead_encrypt x (aead_tfm (u_ccmp k)) (fst (ccmp_special_blocks (take ?h ?d) ?pn ?spp))
      (aad_octets (snd (ccmp_special_blocks (take ?h ?d) ?pn ?spp))) (drop ?h ?d) = (0, cc, m)"
    using assms Cons.prems(2) unfolding ccmp_link_def by (metis prod.collapse)
  obtain s' where s': "ccmp_encrypt_skb x mic k ?s = (0, inc_tx_pn k, s')"
      "skb_data s' = take ?h ?d @ ccmp_pn2hdr ?pn (kc_keyidx (conf k)) @ cc @ m"
    using ccmp.tx_layout[OF c l e] by blast
  obtain k' skbs' where r: "walk_skbs (ccmp_encrypt_skb x mic) (inc_tx_pn k) (map set_protected skbs) = (True, k', skbs')"
      "length skbs' = length skbs"
      "\<forall>i<length skbs. let d = skb_data (set_protected (skbs ! i)); h = x_hdrlen x (frame_control d) in
         sealed x t ?spp (kc_keyidx (conf k)) (pn_octets (kc_tx_pn (conf k) + 1 + 1 + word_of_nat i)) (take h d) (drop h d) (skb_data (skbs' ! i))"
    using Cons.IH[of "inc_tx_pn k"] Cons.prems by auto
  have "sealed x t ?spp (kc_keyidx (conf k)) ?pn (take ?h ?d) (drop ?h ?d) (skb_data s')"
    using e s'(2) Cons.prems(2) by (auto simp: sealed_def)
  then show ?case using s'(1) r
    by (intro exI[of _ k'] exI[of _ "s' # skbs'"]) (auto simp: Let_def nth_Cons add.assoc split: nat.splits)
qed simp

subsection \<open>Decryption of a fragment\<close>

text \<open>The pairwise key of a station that has only this one.\<close>

definition only_ptk :: "rx_keys \<Rightarrow> ieee80211_key \<Rightarrow> bool" where
  "only_ptk ks k \<longleftrightarrow> (\<forall>i. ptk ks i = (if i = ptk_idx ks then Some k else None))"

definition fresh_rx :: "nat \<Rightarrow> nat \<Rightarrow> ieee80211_rx_data \<Rightarrow> bool" where
  "fresh_rx q s rx \<longleftrightarrow> rx_sta rx \<noteq> None \<and> \<not> has_flag (rx_flag rx) RX_FLAG_DECRYPTED \<and> \<not> has_flag (rx_flag rx) RX_FLAG_PN_VALIDATED \<and>
     (\<forall>a. \<not> skb_oom (rx_skb rx) a) \<and> security_idx rx = q \<and> seqno_idx rx = s"

lemma select_only_ptk:
  assumes "only_ptk ks k" "rx_sta rx \<noteq> None" "\<not> has_flag (rx_flag rx) RX_FLAG_DECRYPTED"
    and "hdr = skb_data (rx_skb rx)" "ieee80211_has_protected (frame_control hdr)" "\<not> is_multicast_ether_addr (addr1 hdr)"
    and "x_hdrlen x (frame_control hdr) + 4 \<le> length hdr"
  shows "rx_select_key x ks rx = Select (Some (Ptk (ptk_idx ks)))"
proof -
  obtain i where "ieee80211_get_keyid x hdr = Some i" using assms(7) by (auto simp: ieee80211_get_keyid_def Let_def)
  then show ?thesis using assms(1-6)
    by (auto simp: rx_select_key_def Let_def first_key_def only_ptk_def)
qed

context aead_suite
begin

text \<open>Decryption leaves the allocations of the buffer alone.\<close>

lemma decrypt_oom:
  assumes "decrypt x k rx = (r, rx')"
  shows "skb_oom (rx_skb rx') = skb_oom (rx_skb rx)"
proof -
  have strip: "suite_strip sm h m ry = (r', ry') \<Longrightarrow> skb_oom (rx_skb ry') = skb_oom (rx_skb ry)" for sm h m ry r' ry'
    by (auto simp: suite_strip_def Let_def skb_pull_def skb_memmove_def skb_trim_def split: if_splits)
  show ?thesis using assms
    by (auto simp: decrypt_eq suite_rx_def suite_check_def Let_def split: if_splits prod.splits dest!: strip)
qed

end

text \<open>The receiver's key after packet number \<open>pn\<close> of queue \<open>q\<close>.\<close>

definition key_at_pn :: "nat \<Rightarrow> u8 list \<Rightarrow> ieee80211_key \<Rightarrow> ieee80211_key" where
  "key_at_pn q pn k = k\<lparr>u_ccmp := (u_ccmp k)\<lparr>aead_rx_pn := (aead_rx_pn (u_ccmp k))[q := pn]\<rparr>\<rparr>"

definition ccmp_receiver :: "extern \<Rightarrow> tfm \<Rightarrow> bool \<Rightarrow> nat \<Rightarrow> ieee80211_key \<Rightarrow> bool" where
  "ccmp_receiver x t spp q k \<longleftrightarrow> kc_cipher (conf k) = WLAN_CIPHER_SUITE_CCMP \<and> \<not> has_flag (key_flags k) KEY_FLAG_TAINTED \<and>
     aead_tfm (u_ccmp k) = t \<and> has_flag (kc_flags (conf k)) IEEE80211_KEY_FLAG_SPP_AMSDU = spp \<and> rx_pn_ok q (u_ccmp k)"

text \<open>The header of a fragment of a unicast data frame that is protected.\<close>

definition data_frag_header :: "extern \<Rightarrow> u8 list \<Rightarrow> bool" where
  "data_frag_header x hdr \<longleftrightarrow> x_hdrlen x (frame_control hdr) = length hdr \<and> hdr_complete hdr \<and> ieee80211_is_data (frame_control hdr) \<and>
     ieee80211_has_protected (frame_control hdr) \<and> ieee80211_is_frag hdr \<and> \<not> is_multicast_ether_addr (addr1 hdr)"

lemma is_frag_append: "24 \<le> length hdr \<Longrightarrow> ieee80211_is_frag (hdr @ r) = ieee80211_is_frag hdr"
  by (simp add: ieee80211_is_frag_def frame_control_cong seq_ctrl_append)

lemma key_at_pn_receiver: "ccmp_receiver x t spp q k \<Longrightarrow> length pn = 6 \<Longrightarrow> ccmp_receiver x t spp q (key_at_pn q pn k)"
  by (auto simp: ccmp_receiver_def key_at_pn_def rx_pn_ok_def dest: set_update_subset_insert[THEN subsetD])

lemma decrypt_sealed:
  assumes link: "ccmp_link x 8 t" and fresh: "fresh_rx q sq rx" and seal: "sealed x t spp idx pn hdr p (skb_data (rx_skb rx))"
    and pn: "length pn = 6" and hdr: "data_frag_header x hdr" and p: "p \<noteq> []"
    and key: "only_ptk ks k" "ccmp_receiver x t spp q k" "stored_pn q (u_ccmp k) < be_nat pn"
  shows "\<exists>rx' ks'. ieee80211_rx_h_decrypt x ks rx = (RX_CONTINUE, rx', ks') \<and> skb_data (rx_skb rx') = hdr @ p \<and>
    rx_key rx' = Some (key_at_pn q pn k) \<and> ccm_gcm_pn rx' = pn \<and> security_idx rx' = q \<and> seqno_idx rx' = sq \<and>
    (\<forall>a. \<not> skb_oom (rx_skb rx') a) \<and> only_ptk ks' (key_at_pn q pn k)"
proof -
  let ?d = "skb_data (rx_skb rx)" and ?rx = "rx\<lparr>rx_key := Some k\<rparr>"
  obtain c m where e: "x_aead_encrypt x t (fst (ccmp_special_blocks hdr pn spp)) (aad_octets (snd (ccmp_special_blocks hdr pn spp))) p = (0, c, m)"
      "?d = hdr @ ccmp_pn2hdr pn idx @ c @ m"
    using seal by (auto simp: sealed_def)
  have h: "24 \<le> length hdr" using hdr hdr_complete_24 by (auto simp: data_frag_header_def)
  have fc: "frame_control ?d = frame_control hdr" "addr1 ?d = addr1 hdr" "ieee80211_is_frag ?d"
    using h hdr e(2) is_frag_append by (simp_all add: frame_control_cong addrs_append data_frag_header_def)
  have len: "length c = length p" "length m = 8"
    using link e(1) aead_lengthsD[of x t] by (auto simp: ccmp_link_def)
  have ne: "c \<noteq> []" using len(1) p by auto
  have sel: "rx_select_key x ks rx = Select (Some (Ptk (ptk_idx ks)))"
    using fresh hdr fc e(2) h by (intro select_only_ptk[OF key(1)]) (auto simp: fresh_rx_def data_frag_header_def)
  have dec: "x_aead_decrypt x (aead_tfm (u_ccmp k)) (fst (ccmp_special_blocks hdr pn spp))
      (aad_octets (snd (ccmp_special_blocks hdr pn spp))) c m = (0, p)"
    using link key(2) e(1) by (simp add: ccmp_link_def aead_inverse_def ccmp_receiver_def)
  have spp: "spp = has_flag (kc_flags (conf k)) IEEE80211_KEY_FLAG_SPP_AMSDU" using key(2) by (simp add: ccmp_receiver_def)
  obtain crx where c: "ieee80211_crypto_ccmp_decrypt x 8 k ?rx = (RX_CONTINUE, crx)" "skb_data (rx_skb crx) = hdr @ p"
      "rx_key crx = Some (key_at_pn q pn k)"
    using ccmp.rx_layout[of ?rx hdr pn idx c m "length hdr" x k 8 p] e(2) pn hdr h fresh key len ne link dec
    unfolding spp by (auto simp: fresh_rx_def data_frag_header_def ccmp_receiver_def ccmp_link_def key_at_pn_def
        skb_linearize_fails_def pskb_trim_fails_def)
  have "ccmp_hdr2pn (mem_read ?d (length hdr) 8) = pn"
    using e(2) pn hdr2pn_pn2hdr(1)[OF pn, of idx "[]"] by (simp add: buf_simps)
  then have l: "ccm_gcm_pn crx = pn" "security_idx crx = q" "seqno_idx crx = sq"
    using ccmp.accepted_leaves[OF c(1)] fc h hdr fresh by (auto simp: data_frag_header_def fresh_rx_def)
  have oom: "\<not> skb_oom (rx_skb crx) a" for a
    using ccmp.decrypt_oom[OF c(1)] fresh by (simp add: fresh_rx_def)
  have cd: "cipher_decrypt x k ?rx = (RX_CONTINUE, crx)"
    using c(1) key(2) by (simp add: cipher_decrypt_def ccmp_receiver_def)
  have ext: "\<not> ieee80211_is_ext (frame_control ?d)" "\<not> ieee80211_is_beacon (frame_control ?d)"
    using data_not_mgmt hdr fc(1) by (auto simp: data_frag_header_def ieee80211_is_beacon_def fc_is_def ieee80211_is_data_def ieee80211_is_ext_def)
  have "ptk ks (ptk_idx ks) = Some k" using key(1) by (simp add: only_ptk_def)
  then have "ieee80211_rx_h_decrypt x ks rx = (RX_CONTINUE, mark_decrypted crx, put_key (Ptk (ptk_idx ks)) (key_at_pn q pn k) ks)"
    using sel ext cd c(3) key(2) by (simp add: ieee80211_rx_h_decrypt_def Let_def ccmp_receiver_def)
  moreover have "only_ptk (put_key (Ptk (ptk_idx ks)) (key_at_pn q pn k) ks) (key_at_pn q pn k)"
    using key(1) by (simp add: only_ptk_def)
  ultimately show ?thesis using c(2,3) l oom by (simp add: mark_decrypted_def Let_def)
qed

subsection \<open>Reassembly of the fragments\<close>

text \<open>
  What is known of the entry \<open>i\<close> of the cache while it collects the fragments with header \<open>hdr\<close> and the payload
  \<open>acc\<close> so far, the last with number \<open>n\<close> and packet number \<open>pn\<close>.
\<close>

definition collecting :: "ieee80211_fragment_cache \<Rightarrow> nat \<Rightarrow> u64 \<Rightarrow> nat \<Rightarrow> u32 \<Rightarrow> u8 list \<Rightarrow> nat \<Rightarrow> nat \<Rightarrow> u8 list \<Rightarrow> bool" where
  "collecting c i t0 sq col hdr n pn acc \<longleftrightarrow>
     i < IEEE80211_FRAGMENT_MAX \<and> length (entries c) = IEEE80211_FRAGMENT_MAX \<and>
     next_entry c = (if i + 1 \<ge> IEEE80211_FRAGMENT_MAX then 0 else i + 1) \<and>
     (let e = entries c ! i in
      (\<exists>s0 rest p0. skb_list e = s0 # rest \<and> skb_data s0 = hdr @ p0 \<and> (\<forall>a. \<not> skb_oom s0 a) \<and>
         p0 @ concat (map skb_data rest) = acc \<and> unat (extra_len e) = length (concat (map skb_data rest))) \<and>
      first_frag_time e = t0 \<and> frag_seq e = ieee80211_get_sn hdr \<and> unat (rx_queue e) = sq \<and> unat (last_frag e) = n \<and>
      check_sequential_pn e \<and> key_color e = col \<and> length (last_pn e) = 6 \<and> be_nat (last_pn e) = pn)"

text \<open>The fragment as decryption leaves it.\<close>

definition opened_frag :: "extern \<Rightarrow> nat \<Rightarrow> nat \<Rightarrow> u8 list \<Rightarrow> nat \<Rightarrow> u8 list \<Rightarrow> u8 list \<Rightarrow> ieee80211_key \<Rightarrow> ieee80211_rx_data \<Rightarrow> bool" where
  "opened_frag x q sq hdr n p pn k rx \<longleftrightarrow>
     skb_data (rx_skb rx) = hdr @ p \<and> rx_key rx = Some k \<and> kc_cipher (conf k) = WLAN_CIPHER_SUITE_CCMP \<and>
     aead_rx_pn (u_ccmp k) ! q = pn \<and> length pn = 6 \<and> ccm_gcm_pn rx = pn \<and> security_idx rx = q \<and> seqno_idx rx = sq \<and> sq \<le> 16 \<and>
     (\<forall>a. \<not> skb_oom (rx_skb rx) a) \<and> data_frag_header x hdr \<and> unat (seq_ctrl hdr AND IEEE80211_SCTL_FRAG) = n"

lemma opened_frag_header:
  assumes "opened_frag x q sq hdr n p pn k rx"
  defines "d \<equiv> skb_data (rx_skb rx)"
  shows "frame_control d = frame_control hdr" "seq_ctrl d = seq_ctrl hdr" "addr1 d = addr1 hdr" "addr2 d = addr2 hdr"
    "\<not> ieee80211_is_ctl (frame_control hdr)" "\<not> ieee80211_is_ext (frame_control hdr)" "24 \<le> length hdr"
    "\<not> (\<not> ieee80211_has_morefrags (frame_control hdr) \<and> n = 0)" "requires_sequential_pn rx (frame_control hdr)"
    "drop_bit 4 (seq_ctrl hdr AND IEEE80211_SCTL_SEQ) = ieee80211_get_sn hdr" "\<not> skb_linearize_fails (rx_skb rx)"
    "unat (word_of_nat sq :: u8) = sq"
proof -
  have h: "24 \<le> length hdr" "hdr_complete hdr" "d = hdr @ p" and dat: "ieee80211_is_data (frame_control hdr)"
    using assms hdr_complete_24 by (auto simp: opened_frag_def data_frag_header_def)
  show "frame_control d = frame_control hdr" "seq_ctrl d = seq_ctrl hdr" "addr1 d = addr1 hdr" "addr2 d = addr2 hdr" "24 \<le> length hdr"
    using h by (simp_all add: frame_control_cong seq_ctrl_append addrs_append)
  show "\<not> ieee80211_is_ctl (frame_control hdr)" "\<not> ieee80211_is_ext (frame_control hdr)"
    using dat by (auto simp: ieee80211_is_ctl_def ieee80211_is_data_def ieee80211_is_ext_def)
  show "\<not> (\<not> ieee80211_has_morefrags (frame_control hdr) \<and> n = 0)"
    using assms(1) by (auto simp: opened_frag_def data_frag_header_def ieee80211_is_frag_def unat_eq_0)
  show "requires_sequential_pn rx (frame_control hdr)"
    using assms(1) by (simp add: opened_frag_def requires_sequential_pn_def data_frag_header_def)
  show "drop_bit 4 (seq_ctrl hdr AND IEEE80211_SCTL_SEQ) = ieee80211_get_sn hdr" by (simp add: ieee80211_get_sn_def)
  show "\<not> skb_linearize_fails (rx_skb rx)" using assms(1) by (simp add: opened_frag_def skb_linearize_fails_def)
  show "unat (word_of_nat sq :: u8) = sq" using assms(1) by (simp add: opened_frag_def unat_of_nat take_bit_nat_eq_self)
qed

lemma first_fragment_collected:
  assumes "opened_frag x q sq hdr 0 p pn k rx" "length (entries c) = IEEE80211_FRAGMENT_MAX" "next_entry c < IEEE80211_FRAGMENT_MAX"
  shows "\<exists>c'. ieee80211_rx_h_defragment x hz t rx c = Some (RX_QUEUED, rx, c') \<and>
    collecting c' (next_entry c) t sq (color k) hdr 0 (be_nat pn) p"
proof -
  note h = opened_frag_header[OF assms(1)]
  have o: "rx_key rx = Some k" "kc_cipher (conf k) = WLAN_CIPHER_SUITE_CCMP" "aead_rx_pn (u_ccmp k) ! q = pn" "length pn = 6"
    "security_idx rx = q" "seqno_idx rx = sq" "\<not> is_multicast_ether_addr (addr1 hdr)" "unat (seq_ctrl hdr AND IEEE80211_SCTL_FRAG) = 0"
    "skb_data (rx_skb rx) = hdr @ p" "\<And>a. \<not> skb_oom (rx_skb rx) a"
    using assms(1) by (simp_all add: opened_frag_def data_frag_header_def)
  have mf: "ieee80211_has_morefrags (frame_control hdr)" using h(8) by simp
  obtain i c1 where add: "ieee80211_reassemble_add t 0 (ieee80211_get_sn hdr) sq (rx_skb rx) c = (i, c1)" by (metis surj_pair)
  then have c1: "i = next_entry c" "length (entries c1) = IEEE80211_FRAGMENT_MAX"
      "next_entry c1 = (if i + 1 \<ge> IEEE80211_FRAGMENT_MAX then 0 else i + 1)"
      "entries c1 ! i = (entries c ! i)\<lparr>skb_list := [rx_skb rx], first_frag_time := t, frag_seq := ieee80211_get_sn hdr, rx_queue := of_nat sq,
         last_frag := 0, check_sequential_pn := False, extra_len := 0\<rparr>"
    using assms(2,3) by (auto simp: ieee80211_reassemble_add_def Let_def put_entry_def)
  have "ieee80211_rx_h_defragment x hz t rx c = Some (RX_QUEUED, rx, put_entry i (frag_protection rx (entries c1 ! i)) c1)"
    using h o mf add by (simp add: ieee80211_rx_h_defragment_def Let_def)
  moreover have "collecting (put_entry i (frag_protection rx (entries c1 ! i)) c1) i t sq (color k) hdr 0 (be_nat pn) p"
    using h o c1 assms(2,3) by (auto simp: collecting_def put_entry_def frag_protection_def Let_def key_rx_pn_def)
  ultimately show ?thesis using c1(1) by blast
qed

lemma collecting_found:
  assumes "collecting c i t0 sq col hdr0 n pn acc" "\<not> time_after t (t0 + 2 * hz)"
    and "opened_frag x q sq hdr (Suc n) p pn' k rx"
    and "ieee80211_get_sn hdr = ieee80211_get_sn hdr0" "addr1 hdr = addr1 hdr0" "addr2 hdr = addr2 hdr0"
      "frame_control hdr AND IEEE80211_FCTL_FTYPE = frame_control hdr0 AND IEEE80211_FCTL_FTYPE" "24 \<le> length hdr0"
  shows "ieee80211_reassemble_find IEEE80211_FRAGMENT_MAX (next_entry c) hz t (Suc n) (ieee80211_get_sn hdr) sq
    (skb_data (rx_skb rx)) c = (Some i, c)"
proof -
  note h = opened_frag_header[OF assms(3)]
  have "(frame_control hdr XOR frame_control hdr0) AND IEEE80211_FCTL_FTYPE = 0"
  proof -
    have "(a XOR b) AND m = (a AND m) XOR (b AND m)" for a b m :: u16 by (auto simp: bit_eq_iff bit_simps)
    then show ?thesis using assms(7) by simp
  qed
  then have "frag_matches (Suc n) (ieee80211_get_sn hdr) sq (skb_data (rx_skb rx)) (entries c ! i)"
    using assms(1,4-6,8) h by (auto simp: frag_matches_def collecting_def Let_def same_source_def frame_control_cong addrs_append)
  moreover have "(if next_entry c = 0 then IEEE80211_FRAGMENT_MAX - 1 else next_entry c - 1) = i"
    using assms(1) by (auto simp: collecting_def split: if_splits)
  moreover have "first_frag_time (entries c ! i) = t0" using assms(1) by (simp add: collecting_def Let_def)
  ultimately show ?thesis using assms(2)
    by (simp add: eval_nat_numeral(2,3) Let_def)
qed


text \<open>A further fragment with the packet number that follows passes the checks.\<close>

lemma next_fragment_accepted:
  assumes "opened_frag x q sq hdr n p pn k rx" "check_sequential_pn e" "key_color e = color k" "length (last_pn e) = 6"
    and "be_nat pn = Suc (be_nat (last_pn e))"
  shows "frag_check rx e = Inr (e\<lparr>last_pn := pn\<rparr>)"
proof -
  have o: "length pn = 6" "ccm_gcm_pn rx = pn" "rx_key rx = Some k" using assms(1) by (simp_all add: opened_frag_def)
  have "be_nat pn < 2 ^ 48" using be_nat_lt[of pn] o(1) by simp
  then have "be_nat (next_pn (last_pn e)) = be_nat pn" "length (next_pn (last_pn e)) = length pn"
    using next_pn_value[of "last_pn e"] assms(4,5) o(1) by simp_all
  then have "next_pn (last_pn e) = pn" using be_nat_inject by blast
  then show ?thesis
    using assms(2,3) o opened_frag_header(1,9)[OF assms(1)] by (simp add: frag_check_def Let_def memcmp_zero_iff)
qed

lemma next_fragment:
  assumes c: "collecting c i t0 sq (color k) hdr0 n pn0 acc" and t: "\<not> time_after t (t0 + 2 * hz)"
    and o: "opened_frag x q sq hdr (Suc n) p pn k rx"
    and h: "ieee80211_get_sn hdr = ieee80211_get_sn hdr0" "addr1 hdr = addr1 hdr0" "addr2 hdr = addr2 hdr0"
      "frame_control hdr AND IEEE80211_FCTL_FTYPE = frame_control hdr0 AND IEEE80211_FCTL_FTYPE" "24 \<le> length hdr0"
    and pn: "be_nat pn = Suc pn0" and len: "length acc + length p < 65536"
  shows "if ieee80211_has_morefrags (frame_control hdr)
    then \<exists>c'. ieee80211_rx_h_defragment x hz t rx c = Some (RX_QUEUED, rx, c') \<and>
      collecting c' i t0 sq (color k) hdr0 (Suc n) (be_nat pn) (acc @ p)
    else \<exists>rx' c'. ieee80211_rx_h_defragment x hz t rx c = Some (RX_CONTINUE, rx', c') \<and>
      skb_data (rx_skb rx') = hdr0 @ acc @ p"
proof -
  let ?e = "entries c ! i" and ?skb = "skb_pull (length hdr) (rx_skb rx)"
  define e where "e = ?e\<lparr>last_pn := pn, skb_list := skb_list ?e @ [?skb], last_frag := of_nat (Suc n),
    extra_len := extra_len ?e + of_nat (skb_len ?skb)\<rparr>"
  note hd = opened_frag_header[OF o]
  have o': "skb_data (rx_skb rx) = hdr @ p" "seqno_idx rx = sq" "\<not> is_multicast_ether_addr (addr1 hdr)" "length pn = 6"
      "unat (seq_ctrl hdr AND IEEE80211_SCTL_FRAG) = Suc n" "x_hdrlen x (frame_control hdr) = length hdr"
    using o by (simp_all add: opened_frag_def data_frag_header_def)
  obtain s0 rest p0 where l: "skb_list ?e = s0 # rest" "skb_data s0 = hdr0 @ p0" "\<And>a. \<not> skb_oom s0 a"
      "p0 @ concat (map skb_data rest) = acc" "unat (extra_len ?e) = length (concat (map skb_data rest))"
    using c by (auto simp: collecting_def Let_def)
  have e: "i < IEEE80211_FRAGMENT_MAX" "length (entries c) = IEEE80211_FRAGMENT_MAX" "check_sequential_pn ?e" "key_color ?e = color k"
      "length (last_pn ?e) = 6" "be_nat (last_pn ?e) = pn0" "first_frag_time ?e = t0" "frag_seq ?e = ieee80211_get_sn hdr0"
      "unat (rx_queue ?e) = sq" "next_entry c = (if i + 1 \<ge> IEEE80211_FRAGMENT_MAX then 0 else i + 1)"
    using c by (simp_all add: collecting_def Let_def)
  have chk: "frag_check rx ?e = Inr (?e\<lparr>last_pn := pn\<rparr>)"
    using next_fragment_accepted[OF o e(3,4,5)] e(6) pn by simp
  have d: "skb_data ?skb = p" using o'(1) by (simp add: skb_pull_def)
  have step: "ieee80211_rx_h_defragment x hz t rx c =
      (if ieee80211_has_morefrags (frame_control hdr) then Some (RX_QUEUED, rx, put_entry i e c) else defrag_finish i e rx c)"
    using collecting_found[OF c t o h] chk hd o' by (simp add: ieee80211_rx_h_defragment_def Let_def e_def)
  have "length (concat (map skb_data rest)) + length p < 65536" using l(4) len by auto
  then have ex: "unat (extra_len e) = length (concat (map skb_data (rest @ [?skb])))"
    using l(5) d by (simp add: e_def unat_word_ariths unat_of_nat take_bit_nat_eq_self)
  have n: "unat (of_nat (Suc n) :: u16) = Suc n"
  proof -
    have "seq_ctrl hdr AND IEEE80211_SCTL_FRAG \<le> 0x000F" by (rule word_and_le1)
    then have "Suc n \<le> 15" using o'(5) by (simp add: word_le_nat_alt)
    then show ?thesis by (simp add: unat_of_nat take_bit_nat_eq_self del: of_nat_Suc)
  qed
  show ?thesis
  proof (cases "ieee80211_has_morefrags (frame_control hdr)")
    case True
    have "skb_list e = s0 # (rest @ [?skb])" by (simp add: e_def l(1))
    moreover have "p0 @ concat (map skb_data (rest @ [?skb])) = acc @ p" using l(4) d by simp
    ultimately have "collecting (put_entry i e c) i t0 sq (color k) hdr0 (Suc n) (be_nat pn) (acc @ p)"
      unfolding collecting_def Let_def using e o'(4) l(2,3) ex n by (simp add: put_entry_def) (simp add: e_def)
    then show ?thesis using step True by auto
  next
    case False
    have el: "hd (skb_list e) = s0" "tl (skb_list e) = rest @ [?skb]" by (simp_all add: e_def l(1))
    define b where "b = (if skb_tailroom s0 < unat (extra_len e) then expand_tail (unat (extra_len e)) s0 else s0)"
    have "sum_list (map (length \<circ> skb_data) (rest @ [?skb])) = unat (extra_len e)"
      unfolding ex by (simp add: length_concat comp_def)
    then have "sum_list (map (length \<circ> skb_data) (rest @ [?skb])) \<le> skb_tailroom b"
      by (auto simp: b_def expand_tail_def skb_tailroom_def)
    from put_fragments_room[OF this] obtain b' where b': "put_fragments (rest @ [?skb]) b = Some b'" by auto
    have "skb_data b = hdr0 @ p0" using l(2) by (simp add: b_def expand_tail_def)
    then have "skb_data b' = hdr0 @ acc @ p" using put_fragments_data[OF b'] l(4) d by simp
    moreover have "defrag_finish i e rx c = Some (RX_CONTINUE, rx\<lparr>rx_skb := b'\<rparr>, put_entry i (e\<lparr>skb_list := []\<rparr>) c)"
      using b' l(3) unfolding defrag_finish_def Let_def el b_def by auto
    ultimately show ?thesis using step False by simp
  qed
qed


subsection \<open>All fragments\<close>

text \<open>
  A received frame is decrypted and given to reassembly, in the order of \<^verbatim>\<open>ieee80211_rx_handlers\<close>; a frame that a
  handler does not pass on goes no further.
\<close>

definition rx_fragment :: "extern \<Rightarrow> u64 \<Rightarrow> u64 \<times> ieee80211_rx_data \<Rightarrow> rx_keys \<times> ieee80211_fragment_cache \<Rightarrow>
    ((rx_result \<times> ieee80211_rx_data) \<times> rx_keys \<times> ieee80211_fragment_cache) option" where
  "rx_fragment x hz f st =
     (case ieee80211_rx_h_decrypt x (fst st) (snd f) of
        (r, rx, ks) \<Rightarrow>
          if r \<noteq> RX_CONTINUE then Some ((r, rx), ks, snd st)
          else map_option (\<lambda>(r, rx, c). ((r, rx), ks, c)) (ieee80211_rx_h_defragment x hz (fst f) rx (snd st)))"

fun rx_fragments :: "extern \<Rightarrow> u64 \<Rightarrow> (u64 \<times> ieee80211_rx_data) list \<Rightarrow> rx_keys \<times> ieee80211_fragment_cache \<Rightarrow>
    ((rx_result \<times> ieee80211_rx_data) list \<times> rx_keys \<times> ieee80211_fragment_cache) option" where
  "rx_fragments x hz [] st = Some ([], st)"
| "rx_fragments x hz (f # fs) st =
     Option.bind (rx_fragment x hz f st) (\<lambda>(o1, st). map_option (\<lambda>(os, st). (o1 # os, st)) (rx_fragments x hz fs st))"

text \<open>A header whose frame is sent in fragments.\<close>

definition unnumbered :: "extern \<Rightarrow> u8 list \<Rightarrow> bool" where
  "unnumbered x hdr \<longleftrightarrow> hdr_complete hdr \<and> ieee80211_is_data (frame_control hdr) \<and> \<not> is_multicast_ether_addr (addr1 hdr) \<and>
     seq_ctrl hdr AND IEEE80211_SCTL_FRAG = 0 \<and> (\<forall>n l. x_hdrlen x (frame_control (sent_header hdr n l)) = length hdr)"

lemma unnumbered_fragment:
  assumes "unnumbered x hdr" "n < 16" "l \<Longrightarrow> n \<noteq> 0"
  shows "data_frag_header x (sent_header hdr n l)"
proof -
  have h: "24 \<le> length hdr" "hdr_complete hdr" using assms(1) hdr_complete_24 by (auto simp: unnumbered_def)
  have "ieee80211_is_frag (sent_header hdr n l)"
    using sent_header_types(5)[OF h(1), of n l] sent_header_seq(1)[OF h(1) _ assms(2), of l] assms(1,3)
    by (auto simp: ieee80211_is_frag_def unnumbered_def)
  then show ?thesis
    using assms(1) h sent_header_types(1,4)[OF h(1)] sent_header_fields(3)[OF h(1)] sent_header_complete
    by (simp add: data_frag_header_def unnumbered_def)
qed

text \<open>The state of the receiver between two fragments of a frame under a key.\<close>

definition receiving :: "extern \<Rightarrow> tfm \<Rightarrow> bool \<Rightarrow> nat \<Rightarrow> u32 \<Rightarrow> rx_keys \<Rightarrow> nat \<Rightarrow> bool" where
  "receiving x t spp q col ks pn \<longleftrightarrow>
     (\<exists>k. only_ptk ks k \<and> ccmp_receiver x t spp q k \<and> color k = col \<and> stored_pn q (u_ccmp k) \<le> pn)"

lemma fragment_opened:
  assumes "ccmp_link x 8 t" "fresh_rx q sq rx" "sealed x t spp idx pn (sent_header hdr n l) p (skb_data (rx_skb rx))" "p \<noteq> []"
    and hdr: "unnumbered x hdr" "n < 16" "l \<Longrightarrow> n \<noteq> 0" and "sq \<le> 16" and pn: "length pn = 6" "be_nat pn = Suc pn0"
    and key: "receiving x t spp q col ks pn0"
  shows "\<exists>rx' ks' k'. ieee80211_rx_h_decrypt x ks rx = (RX_CONTINUE, rx', ks') \<and> color k' = col \<and>
    opened_frag x q sq (sent_header hdr n l) n p pn k' rx' \<and> receiving x t spp q col ks' (Suc pn0)"
proof -
  obtain k where k: "only_ptk ks k" "ccmp_receiver x t spp q k" "color k = col" "stored_pn q (u_ccmp k) < be_nat pn"
    using key pn(2) by (auto simp: receiving_def)
  have dh: "data_frag_header x (sent_header hdr n l)" using hdr by (rule unnumbered_fragment)
  obtain rx' ks' where r: "ieee80211_rx_h_decrypt x ks rx = (RX_CONTINUE, rx', ks')" "skb_data (rx_skb rx') = sent_header hdr n l @ p"
      "rx_key rx' = Some (key_at_pn q pn k)" "ccm_gcm_pn rx' = pn" "security_idx rx' = q" "seqno_idx rx' = sq"
      "\<forall>a. \<not> skb_oom (rx_skb rx') a" "only_ptk ks' (key_at_pn q pn k)"
    using decrypt_sealed[OF assms(1-3) pn(1) dh assms(4) k(1,2,4)] by blast
  have q: "q < length (aead_rx_pn (u_ccmp k))" using k(2) by (simp add: ccmp_receiver_def rx_pn_ok_def)
  have at: "aead_rx_pn (u_ccmp (key_at_pn q pn k)) ! q = pn" "conf (key_at_pn q pn k) = conf k" "color (key_at_pn q pn k) = col"
    using q k(3) by (simp_all add: key_at_pn_def)
  have "24 \<le> length hdr" "seq_ctrl hdr AND IEEE80211_SCTL_FRAG = 0" using hdr(1) hdr_complete_24 by (auto simp: unnumbered_def)
  then have "opened_frag x q sq (sent_header hdr n l) n p pn (key_at_pn q pn k) rx'"
    using r pn(1) at dh k(2) assms(8) hdr(2) sent_header_seq(1) by (simp add: opened_frag_def ccmp_receiver_def)
  moreover have "receiving x t spp q col ks' (Suc pn0)"
    using r(8) key_at_pn_receiver[OF k(2) pn(1)] at pn(2) unfolding receiving_def
    by (intro exI[of _ "key_at_pn q pn k"]) (simp add: stored_pn_def)
  ultimately show ?thesis using r(1) at(3) by blast
qed

text \<open>The frames \<open>fs\<close> carry the fragments from number \<open>j\<close> on with the payloads \<open>ps\<close>.\<close>

fun sent_train :: "extern \<Rightarrow> tfm \<Rightarrow> bool \<Rightarrow> int \<Rightarrow> (nat \<Rightarrow> u8 list) \<Rightarrow> u8 list \<Rightarrow> nat \<Rightarrow> u8 list list \<Rightarrow> (u64 \<times> ieee80211_rx_data) list \<Rightarrow> bool"
where
  "sent_train x t spp idx pn hdr j [] [] = True"
| "sent_train x t spp idx pn hdr j (p # ps) (f # fs) =
     (sealed x t spp idx (pn j) (sent_header hdr j (ps = [])) p (skb_data (rx_skb (snd f))) \<and> p \<noteq> [] \<and>
      sent_train x t spp idx pn hdr (Suc j) ps fs)"
| "sent_train x t spp idx pn hdr j _ _ = False"

lemma sent_train_nth:
  assumes "length fs = length ps" "[] \<notin> set ps"
    "\<forall>i<length ps. sealed x t spp idx (pn (j + i)) (sent_header hdr (j + i) (Suc i = length ps)) (ps ! i) (skb_data (rx_skb (snd (fs ! i))))"
  shows "sent_train x t spp idx pn hdr j ps fs"
  using assms
proof (induction ps fs arbitrary: j rule: list_induct2')
  case (4 p ps f fs)
  have "sealed x t spp idx (pn (Suc j + i)) (sent_header hdr (Suc j + i) (Suc i = length ps)) (ps ! i) (skb_data (rx_skb (snd (fs ! i))))"
    if "i < length ps" for i using 4(4)[rule_format, of "Suc i"] that by simp
  moreover have "sealed x t spp idx (pn j) (sent_header hdr j (ps = [])) p (skb_data (rx_skb (snd f)))"
    using 4(4)[rule_format, of 0] by simp
  ultimately show ?case using 4(1)[of "Suc j"] 4(2,3) by auto
qed auto

lemma rest_arrives:
  assumes link: "ccmp_link x 8 t" and hdr: "unnumbered x hdr" and sq: "sq \<le> 16"
    and pn: "\<And>i. i < 16 \<Longrightarrow> length (pn i) = 6 \<and> be_nat (pn i) = pn0 + i"
  shows "sent_train x t spp idx pn hdr (Suc j) ps fs \<Longrightarrow> ps \<noteq> [] \<Longrightarrow> j + length ps < 16 \<Longrightarrow>
    collecting c i t0 sq col (sent_header hdr 0 False) j (pn0 + j) acc \<Longrightarrow> length acc + length (concat ps) < 65536 \<Longrightarrow>
    receiving x t spp q col ks (pn0 + j) \<Longrightarrow>
    \<forall>f\<in>set fs. fresh_rx q sq (snd f) \<and> \<not> time_after (fst f) (t0 + 2 * hz) \<Longrightarrow>
    \<exists>os st. rx_fragments x hz fs (ks, c) = Some (os, st) \<and> map fst os = replicate (length ps - 1) RX_QUEUED @ [RX_CONTINUE] \<and>
      skb_data (rx_skb (snd (last os))) = sent_header hdr 0 False @ acc @ concat ps"
proof (induction ps arbitrary: j fs c acc ks)
  case (Cons p ps)
  let ?l = "ps = []" and ?first = "sent_header hdr 0 False"
  let ?h = "sent_header hdr (Suc j) ?l"
  obtain f fs' where f: "fs = f # fs'" "sealed x t spp idx (pn (Suc j)) ?h p (skb_data (rx_skb (snd f)))" "p \<noteq> []"
      "sent_train x t spp idx pn hdr (Suc (Suc j)) ps fs'"
    using Cons.prems(1) by (cases fs) auto
  have j: "Suc j < 16" using Cons.prems(3) by simp
  have fr: "fresh_rx q sq (snd f)" "\<not> time_after (fst f) (t0 + 2 * hz)" using Cons.prems(7) f(1) by simp_all
  have pj: "length (pn (Suc j)) = 6" "be_nat (pn (Suc j)) = Suc (pn0 + j)" using pn[OF j] by simp_all
  obtain rx' ks' k' where d: "ieee80211_rx_h_decrypt x ks (snd f) = (RX_CONTINUE, rx', ks')" "color k' = col"
      "opened_frag x q sq ?h (Suc j) p (pn (Suc j)) k' rx'" "receiving x t spp q col ks' (Suc (pn0 + j))"
    using fragment_opened[OF link fr(1) f(2,3) hdr j _ sq pj Cons.prems(6)] by blast
  have h24: "24 \<le> length hdr" "seq_ctrl hdr AND IEEE80211_SCTL_FRAG = 0" using hdr hdr_complete_24 by (auto simp: unnumbered_def)
  have same: "ieee80211_get_sn ?h = ieee80211_get_sn ?first" "addr1 ?h = addr1 ?first" "addr2 ?h = addr2 ?first"
      "frame_control ?h AND IEEE80211_FCTL_FTYPE = frame_control ?first AND IEEE80211_FCTL_FTYPE" "24 \<le> length ?first"
    using sent_header_seq(2)[OF h24] sent_header_fields(3,4)[OF h24(1)] sent_header_masked[OF h24(1), of IEEE80211_FCTL_FTYPE] j h24(1)
    by simp_all
  have mf: "ieee80211_has_morefrags (frame_control ?h) \<longleftrightarrow> ps \<noteq> []" using sent_header_types(5)[OF h24(1)] by simp
  have len: "length acc + length p < 65536" using Cons.prems(5) by simp
  note nx = next_fragment[OF Cons.prems(4)[folded d(2)] fr(2) d(3) same pj(2) len, unfolded mf]
  show ?case
  proof (cases "ps = []")
    case True
    then obtain rx2 c2 where "ieee80211_rx_h_defragment x hz (fst f) rx' c = Some (RX_CONTINUE, rx2, c2)"
        "skb_data (rx_skb rx2) = ?first @ acc @ p"
      using nx by auto
    then show ?thesis using True f(1,4) d(1) by (cases fs') (simp_all add: rx_fragment_def)
  next
    case False
    then obtain c2 where c2: "ieee80211_rx_h_defragment x hz (fst f) rx' c = Some (RX_QUEUED, rx', c2)"
        "collecting c2 i t0 sq col ?first (Suc j) (pn0 + Suc j) (acc @ p)"
      using nx d(2) pj(2) by auto
    obtain os st where r: "rx_fragments x hz fs' (ks', c2) = Some (os, st)"
        "map fst os = replicate (length ps - 1) RX_QUEUED @ [RX_CONTINUE]" "skb_data (rx_skb (snd (last os))) = ?first @ (acc @ p) @ concat ps"
      using Cons.IH[OF f(4) False _ c2(2), of ks'] Cons.prems(3,5,7) d(4) f(1) by auto
    have ne: "os \<noteq> []" using r(2) by auto
    have "length ps = Suc (length ps - 1)" using False by simp
    then have "RX_QUEUED # replicate (length ps - 1) RX_QUEUED = replicate (length ps) RX_QUEUED" by (metis replicate_Suc)
    then show ?thesis using r ne f(1) d(1) c2(1) by (simp add: rx_fragment_def)
  qed
qed simp


lemma train_arrives:
  assumes link: "ccmp_link x 8 t" and hdr: "unnumbered x hdr" and sq: "sq \<le> 16"
    and pn: "\<And>i. i < 16 \<Longrightarrow> length (pn i) = 6 \<and> be_nat (pn i) = Suc pn0 + i"
    and tr: "sent_train x t spp idx pn hdr 0 ps fs" "2 \<le> length ps" "length ps \<le> 16" "length (concat ps) < 65536"
    and rk: "receiving x t spp q col ks pn0" and c: "length (entries c) = IEEE80211_FRAGMENT_MAX" "next_entry c < IEEE80211_FRAGMENT_MAX"
    and fr: "\<forall>f\<in>set fs. fresh_rx q sq (snd f) \<and> \<not> time_after (fst f) (fst (hd fs) + 2 * hz)"
  shows "\<exists>os st. rx_fragments x hz fs (ks, c) = Some (os, st) \<and> map fst os = replicate (length ps - 1) RX_QUEUED @ [RX_CONTINUE] \<and>
    skb_data (rx_skb (snd (last os))) = sent_header hdr 0 False @ concat ps"
proof -
  obtain p ps' where ps: "ps = p # ps'" "ps' \<noteq> []" using tr(2) by (cases ps; cases "tl ps") auto
  obtain f fs' where fs: "fs = f # fs'" using tr(1) ps by (cases fs) auto
  have f: "fresh_rx q sq (snd f)" "sealed x t spp idx (pn 0) (sent_header hdr 0 False) p (skb_data (rx_skb (snd f)))"
      "p \<noteq> []" "sent_train x t spp idx pn hdr (Suc 0) ps' fs'"
    using fr tr(1) ps fs by simp_all
  have p0: "length (pn 0) = 6" "be_nat (pn 0) = Suc pn0" using pn[of 0] by simp_all
  obtain rx' ks' k' where d: "ieee80211_rx_h_decrypt x ks (snd f) = (RX_CONTINUE, rx', ks')" "color k' = col"
      "opened_frag x q sq (sent_header hdr 0 False) 0 p (pn 0) k' rx'" "receiving x t spp q col ks' (Suc pn0)"
    using fragment_opened[OF link f(1,2,3) hdr _ _ sq p0 rk] by auto
  obtain c' where c': "ieee80211_rx_h_defragment x hz (fst f) rx' c = Some (RX_QUEUED, rx', c')"
      "collecting c' (next_entry c) (fst f) sq col (sent_header hdr 0 False) 0 (Suc pn0) p"
    using first_fragment_collected[OF d(3) c, of hz "fst f"] d(2) p0(2) by auto
  have small: "0 + length ps' < 16" "length p + length (concat ps') < 65536"
    using tr(3,4) ps(1) by simp_all
  have rest: "\<forall>f'\<in>set fs'. fresh_rx q sq (snd f') \<and> \<not> time_after (fst f') (fst f + 2 * hz)" using fr fs by simp
  obtain os st where o: "rx_fragments x hz fs' (ks', c') = Some (os, st)" "map fst os = replicate (length ps' - 1) RX_QUEUED @ [RX_CONTINUE]"
      "skb_data (rx_skb (snd (last os))) = sent_header hdr 0 False @ p @ concat ps'"
    using rest_arrives[OF link hdr sq pn f(4) ps(2) small(1) _ small(2) _ rest, of c' "next_entry c" col ks'] c'(2) d(4) by auto
  have "length ps' = Suc (length ps' - 1)" using ps(2) by simp
  then have "RX_QUEUED # replicate (length ps' - 1) RX_QUEUED = replicate (length ps') RX_QUEUED" by (metis replicate_Suc)
  moreover have "os \<noteq> []" using o(2) by auto
  ultimately show ?thesis using o d(1) c'(1) ps(1) fs by (simp add: rx_fragment_def)
qed

subsection \<open>From the frame to the frame\<close>

text \<open>A frame, and buffers for its fragments, with room for the CCMP header and the message integrity code.\<close>

definition room_to_encrypt :: "tx_env \<Rightarrow> sk_buff \<Rightarrow> bool" where
  "room_to_encrypt env skb \<longleftrightarrow> hw_key (skb_tx skb) = None \<and> 8 \<le> skb_headroom skb \<and> 8 \<le> skb_tailroom skb \<and>
     \<not> skb_oom skb Alloc_Request \<and> \<not> frag_oom env Alloc_Request"

lemma fragments_sealed:
  fixes skb :: sk_buff and x :: extern and env :: tx_env and kt :: ieee80211_key
  defines "d \<equiv> skb_data skb"
  defines "h \<equiv> x_hdrlen x (frame_control d)"
  defines "ps \<equiv> pieces (frag_threshold env - h - FCS_LEN) (drop h d)"
  assumes link: "ccmp_link x 8 t" and hdr: "unnumbered x (take h d)" and skb: "to_fragment x local env skb" "room_to_encrypt env skb"
    and key: "kc_cipher (conf kt) = WLAN_CIPHER_SUITE_CCMP" "aead_tfm (u_ccmp kt) = t"
    and tx: "ieee80211_tx_h_fragment x local env skb = Some (res, frags)" "ieee80211_tx_h_encrypt x local (Some kt) frags = (r, local', key', sent)"
  shows "r = TX_CONTINUE \<and> length frags = length ps \<and> length sent = length ps \<and> (\<forall>i<length ps.
    sealed x t (has_flag (kc_flags (conf kt)) IEEE80211_KEY_FLAG_SPP_AMSDU) (kc_keyidx (conf kt)) (pn_octets (kc_tx_pn (conf kt) + 1 + word_of_nat i))
      (sent_header (take h d) i (Suc i = length ps)) (ps ! i) (skb_data (sent ! i)))"
proof -
  let ?spp = "has_flag (kc_flags (conf kt)) IEEE80211_KEY_FLAG_SPP_AMSDU"
  have f: "length frags = length ps" "\<And>i. i < length ps \<Longrightarrow> skb_data (frags ! i) = frag_header (take h d) i (Suc i = length ps) @ ps ! i"
      "\<And>i. i < length ps \<Longrightarrow> hw_key (skb_tx (frags ! i)) = hw_key (skb_tx skb)"
      "\<And>i. i < length ps \<Longrightarrow> 8 \<le> skb_headroom (frags ! i) \<and> 8 \<le> skb_tailroom (frags ! i) \<and> \<not> skb_oom (frags ! i) Alloc_Request"
    using fragment_result[OF skb(1), folded d_def, folded h_def, folded ps_def] skb(2) tx(1)
    by (auto simp: room_to_encrypt_def skb_headroom_def split: if_splits)
  have h: "24 \<le> length (take h d)" "length (take h d) = h" "hdr_complete (take h d)"
      "\<And>n l. x_hdrlen x (frame_control (sent_header (take h d) n l)) = h"
    using hdr hdr_complete_24[of "take h d"] skb(1) by (auto simp: unnumbered_def to_fragment_def d_def h_def min_def)
  have data: "skb_data (set_protected (frags ! i)) = sent_header (take h d) i (Suc i = length ps) @ ps ! i" if "i < length ps" for i
    using f(2)[OF that] h(1) by (simp add: set_protected_def sent_header_def or_frame_control_append)
  have parts: "x_hdrlen x (frame_control (skb_data (set_protected (frags ! i)))) = h"
      "take h (skb_data (set_protected (frags ! i))) = sent_header (take h d) i (Suc i = length ps)"
      "drop h (skb_data (set_protected (frags ! i))) = ps ! i" if "i < length ps" for i
    using data[OF that] h by (simp_all add: frame_control_cong)
  have "can_seal x 8 s" if s: "s \<in> set frags" for s
  proof -
    obtain i where i: "i < length ps" "s = frags ! i" using s f(1) by (auto simp: in_set_conv_nth)
    show ?thesis
      using parts[OF i(1)] data[OF i(1)] f(3,4)[OF i(1)] skb(2) h(1,2) sent_header_complete[OF h(3)]
      by (simp add: can_seal_def Let_def i(2) room_to_encrypt_def)
  qed
  then obtain k' skbs where w: "walk_skbs (ccmp_encrypt_skb x 8) kt (map set_protected frags) = (True, k', skbs)" "length skbs = length frags"
      "\<forall>i<length frags. let d = skb_data (set_protected (frags ! i)); h = x_hdrlen x (frame_control d) in
         sealed x t ?spp (kc_keyidx (conf kt)) (pn_octets (kc_tx_pn (conf kt) + 1 + word_of_nat i)) (take h d) (drop h d) (skb_data (skbs ! i))"
    using ccmp_walk[OF link, of frags kt] key(2) by blast
  have "r = TX_CONTINUE" "sent = skbs"
    using tx(2) key(1) w(1) by (simp_all add: ieee80211_tx_h_encrypt_def Let_def ieee80211_crypto_ccmp_encrypt_def ieee80211_tx_set_protected_def)
  then show ?thesis using w(2,3) f(1) parts by (simp add: Let_def)
qed


text \<open>C37: A unicast data frame that is cut into at most sixteen fragments and encrypted in software with a CCMP key
  arrives: a receiver whose only pairwise key is this one, with a packet number not beyond the sender's, decrypts
  every fragment and collects all but the last, and with the last it has the header of the first fragment and the
  whole payload of the frame.  (The fragments arrive in order within two seconds, are decrypted by the software,
  and there is memory and room for their headers and codes; whatever the fragment cache held before.)\<close>

theorem fragmented_frame_arrives:
  assumes link: "ccmp_link x 8 t" and skb: "to_fragment x local env skb" "room_to_encrypt env skb" "skb_len skb < 65536"
    and h: "h = x_hdrlen x (frame_control (skb_data skb))" "unnumbered x (take h (skb_data skb))"
    and key: "kc_cipher (conf kt) = WLAN_CIPHER_SUITE_CCMP" "aead_tfm (u_ccmp kt) = t" "unat (kc_tx_pn (conf kt)) + 16 < 2 ^ 48"
    and tx: "ieee80211_tx_h_fragment x local env skb = Some (res, frags)" "ieee80211_tx_h_encrypt x local (Some kt) frags = (r, local', key', sent)"
    and n: "length frags \<le> 16"
    and rk: "receiving x t (has_flag (kc_flags (conf kt)) IEEE80211_KEY_FLAG_SPP_AMSDU) q col rk (unat (kc_tx_pn (conf kt)))"
    and c: "length (entries c) = IEEE80211_FRAGMENT_MAX" "next_entry c < IEEE80211_FRAGMENT_MAX"
    and rx: "map (skb_data \<circ> rx_skb \<circ> snd) fs = map skb_data sent" "sq \<le> 16"
      "\<forall>f\<in>set fs. fresh_rx q sq (snd f) \<and> \<not> time_after (fst f) (fst (hd fs) + 2 * hz)"
  shows "r = TX_CONTINUE \<and> (\<exists>os st. rx_fragments x hz fs (rk, c) = Some (os, st) \<and>
    map fst os = replicate (length frags - 1) RX_QUEUED @ [RX_CONTINUE] \<and>
    skb_data (rx_skb (snd (last os))) = sent_header (take h (skb_data skb)) 0 False @ drop h (skb_data skb))"
proof -
  let ?d = "skb_data skb" and ?per = "frag_threshold env - h - FCS_LEN" and ?spp = "has_flag (kc_flags (conf kt)) IEEE80211_KEY_FLAG_SPP_AMSDU"
  define ps where "ps = pieces ?per (drop h ?d)"
  define pn where "pn = (\<lambda>i. pn_octets (kc_tx_pn (conf kt) + 1 + word_of_nat i))"
  define pn0 where "pn0 = unat (kc_tx_pn (conf kt))"
  have r: "r = TX_CONTINUE" "length frags = length ps" "length sent = length ps"
      "\<forall>i<length ps. sealed x t ?spp (kc_keyidx (conf kt)) (pn i) (sent_header (take h ?d) i (Suc i = length ps)) (ps ! i) (skb_data (sent ! i))"
    using fragments_sealed[OF link h(2)[unfolded h(1)] skb(1,2) key(1,2) tx] by (simp_all add: ps_def pn_def h(1))
  have per: "0 < ?per" "?per < length (drop h ?d)" using skb(1) h(1) by (auto simp: to_fragment_def)
  have two: "2 \<le> length ps" unfolding ps_def using per by (rule two_pieces)
  have cat: "concat ps = drop h ?d" unfolding ps_def using per(1) by (rule concat_pieces)
  have len: "length fs = length ps" using arg_cong[OF rx(1), of length] r(3) by simp
  have "skb_data (rx_skb (snd (fs ! i))) = skb_data (sent ! i)" if "i < length ps" for i
    using arg_cong[OF rx(1), of "\<lambda>l. l ! i"] that len r(3) by simp
  moreover have "[] \<notin> set ps" using pieces_length[of "[]" ?per "drop h ?d"] by (auto simp: ps_def)
  ultimately have train: "sent_train x t ?spp (kc_keyidx (conf kt)) pn (take h ?d) 0 ps fs"
    using r(4) len by (intro sent_train_nth) simp_all
  have pns: "length (pn i) = 6 \<and> be_nat (pn i) = Suc pn0 + i" if "i < 16" for i
  proof -
    have "kc_tx_pn (conf kt) + 1 + word_of_nat i = word_of_nat (Suc pn0 + i)" by (simp add: pn0_def)
    moreover have "unat (word_of_nat (Suc pn0 + i) :: u64) = Suc pn0 + i"
      using key(3) that by (simp only: unat_of_nat take_bit_nat_eq_self_iff) (simp add: pn0_def)
    ultimately have "unat (kc_tx_pn (conf kt) + 1 + word_of_nat i) = Suc pn0 + i" by (simp only:)
    moreover have "Suc pn0 + i < 2 ^ 48" using key(3) that by (simp add: pn0_def)
    ultimately show ?thesis by (simp only: pn_def be_nat_pn_octets length_pn mod_less simp_thms)
  qed
  have "length (concat ps) < 65536" unfolding cat using skb(3) by simp
  from train_arrives[OF link h(2) rx(2) pns train two _ this rk[folded pn0_def] c rx(3)] show ?thesis
    using r(1,2) n cat by simp
qed

subsection \<open>Concrete fragments\<close>

definition ex_tx_frags :: "sk_buff list" where
  "ex_tx_frags = snd (the (ieee80211_tx_h_fragment ex_extern ex_local ex_tx_env ex_tx_skb))"

definition ex_tx_out :: "tx_result \<times> ieee80211_local \<times> ieee80211_key option \<times> sk_buff list" where
  "ex_tx_out = ieee80211_tx_h_encrypt ex_extern ex_local (Some (ex_key WLAN_CIPHER_SUITE_CCMP 16)) ex_tx_frags"

definition ex_arrivals :: "(u64 \<times> ieee80211_rx_data) list" where
  "ex_arrivals = map2 (\<lambda>t s. (t, (ex_clear (skb_data s))\<lparr>seqno_idx := 16\<rparr>)) [0, 10, 20] (snd (snd (snd ex_tx_out)))"

lemma ex_tx_skb_parts:
  "take 24 (skb_data ex_tx_skb) = ex_hdr" "drop 24 (skb_data ex_tx_skb) = [1, 2, 3, 4, 5, 6, 7, 8, 9, 10]" "skb_len ex_tx_skb = 34"
  by (simp_all add: ex_tx_skb_def ex_skb_def ex_hdr_def)

lemma ex_key_parts:
  "kc_cipher (conf (ex_key c n)) = c" "aead_tfm (u_ccmp (ex_key c n)) = 8" "kc_tx_pn (conf (ex_key c n)) = 7"
  "has_flag (kc_flags (conf (ex_key c n))) IEEE80211_KEY_FLAG_SPP_AMSDU = False"
  by (simp_all add: ex_key_def ex_conf_def ex_aead_def)

lemma ex_unnumbered: "unnumbered ex_extern (take 24 (skb_data ex_tx_skb))"
proof -
  have h: "take 24 (skb_data ex_tx_skb) = ex_hdr" by (simp add: ex_tx_skb_def ex_skb_def ex_hdr_def)
  have "hdr_complete ex_hdr" "ieee80211_is_data (frame_control ex_hdr)" "\<not> is_multicast_ether_addr (addr1 ex_hdr)"
    "seq_ctrl ex_hdr AND IEEE80211_SCTL_FRAG = 0" "length ex_hdr = 24" by code_simp+
  then show ?thesis by (simp add: unnumbered_def h)
qed

lemma ex_receiving: "receiving ex_extern 8 False 0 1 ex_keys 7"
proof -
  have k: "ptk ex_keys = (\<lambda>i. if i = 0 then Some (ex_key WLAN_CIPHER_SUITE_CCMP 16) else None)" "ptk_idx ex_keys = 0"
    by (simp_all add: ex_keys_def)
  have "be_nat (replicate n 0) = 0" for n by (induction n) simp_all
  then have "ccmp_receiver ex_extern 8 False 0 (ex_key WLAN_CIPHER_SUITE_CCMP 16)" "stored_pn 0 (u_ccmp (ex_key WLAN_CIPHER_SUITE_CCMP 16)) \<le> 7"
    "color (ex_key WLAN_CIPHER_SUITE_CCMP 16) = 1"
    by (simp_all add: ccmp_receiver_def rx_pn_ok_def stored_pn_def ex_key_def ex_aead_def ex_conf_def)
  then show ?thesis unfolding receiving_def only_ptk_def k by auto
qed

lemma ex_ccmp_link: "ccmp_link ex_extern 8 8"
  by (simp add: ccmp_link_def) (simp add: ex_extern_def)

lemma ex_room: "room_to_encrypt ex_tx_env ex_tx_skb"
  by (simp add: room_to_encrypt_def ex_tx_skb_def ex_tx_env_def ex_skb_def skb_headroom_def skb_tailroom_def)

lemma ex_tx_facts:
  "ieee80211_tx_h_fragment ex_extern ex_local ex_tx_env ex_tx_skb = Some (TX_CONTINUE, ex_tx_frags)"
  "length ex_tx_frags = 3" "length (snd (snd (snd ex_tx_out))) = 3"
proof -
  let ?ps = "pieces (frag_threshold ex_tx_env - x_hdrlen ex_extern (frame_control (skb_data ex_tx_skb)) - FCS_LEN)
    (drop (x_hdrlen ex_extern (frame_control (skb_data ex_tx_skb))) (skb_data ex_tx_skb))"
  have "?ps = pieces 4 [1, 2, 3, 4, 5, 6, 7, 8, 9, 10]" by (simp add: ex_tx_skb_parts) (simp add: ex_tx_env_def)
  then have ps: "length ?ps = 3" by (simp add: pieces.simps)
  obtain skbs where f: "ieee80211_tx_h_fragment ex_extern ex_local ex_tx_env ex_tx_skb = Some (TX_CONTINUE, skbs)" "length skbs = length ?ps"
    using fragment_result[OF ex_to_fragment] by blast
  then show 1: "ieee80211_tx_h_fragment ex_extern ex_local ex_tx_env ex_tx_skb = Some (TX_CONTINUE, ex_tx_frags)" "length ex_tx_frags = 3"
    unfolding ps by (simp_all add: ex_tx_frags_def)
  obtain r l k sent where o: "ex_tx_out = (r, l, k, sent)" by (metis surj_pair)
  have u: "unnumbered ex_extern (take (x_hdrlen ex_extern (frame_control (skb_data ex_tx_skb))) (skb_data ex_tx_skb))"
    using ex_unnumbered by simp
  have "length sent = length ?ps"
    using fragments_sealed[OF ex_ccmp_link u ex_to_fragment ex_room ex_key_parts(1,2) 1(1) o[unfolded ex_tx_out_def]] by blast
  then show "length (snd (snd (snd ex_tx_out))) = 3" unfolding ps o by simp
qed

lemma ex_arrivals_fresh:
  "map (skb_data \<circ> rx_skb \<circ> snd) ex_arrivals = map skb_data (snd (snd (snd ex_tx_out)))"
  "\<forall>f\<in>set ex_arrivals. fresh_rx 0 16 (snd f) \<and> \<not> time_after (fst f) (fst (hd ex_arrivals) + 2 * 250)"
proof -
  obtain a b c where l: "snd (snd (snd ex_tx_out)) = [a, b, c]"
    using ex_tx_facts(3) by (auto simp: numeral_3_eq_3 length_Suc_conv)
  have "fresh_rx 0 16 ((ex_clear d)\<lparr>seqno_idx := 16\<rparr>)" for d
    by (simp add: fresh_rx_def ex_clear_def ex_rx_def ex_skb_def)
  moreover have "\<not> time_after 0 (0 + 2 * 250)" "\<not> time_after 10 (0 + 2 * 250)" "\<not> time_after 20 (0 + 2 * 250)"
    by code_simp+
  ultimately show "\<forall>f\<in>set ex_arrivals. fresh_rx 0 16 (snd f) \<and> \<not> time_after (fst f) (fst (hd ex_arrivals) + 2 * 250)"
    by (simp add: ex_arrivals_def l)
  show "map (skb_data \<circ> rx_skb \<circ> snd) ex_arrivals = map skb_data (snd (snd (snd ex_tx_out)))"
    by (simp add: ex_arrivals_def l ex_clear_def ex_rx_def ex_skb_def)
qed

theorem fragmented_frame_arrives_witness:
  "fst ex_tx_out = TX_CONTINUE \<and> (\<exists>os st. rx_fragments ex_extern 250 ex_arrivals (ex_keys, ex_cache) = Some (os, st) \<and>
    map fst os = [RX_QUEUED, RX_QUEUED, RX_CONTINUE] \<and>
    skb_data (rx_skb (snd (last os))) = sent_header ex_hdr 0 False @ [1, 2, 3, 4, 5, 6, 7, 8, 9, 10])"
proof -
  let ?k = "ex_key WLAN_CIPHER_SUITE_CCMP 16"
  obtain r l k sent where o: "ieee80211_tx_h_encrypt ex_extern ex_local (Some ?k) ex_tx_frags = (r, l, k, sent)" by (metis surj_pair)
  have c: "length (entries ex_cache) = IEEE80211_FRAGMENT_MAX" "next_entry ex_cache < IEEE80211_FRAGMENT_MAX"
    using ex_cache_empty by (simp_all add: empty_cache_def)
  have n: "replicate (length ex_tx_frags - 1) RX_QUEUED @ [RX_CONTINUE] = [RX_QUEUED, RX_QUEUED, RX_CONTINUE]"
    by (simp add: ex_tx_facts(2) numeral_2_eq_2)
  have "r = TX_CONTINUE \<and> (\<exists>os st. rx_fragments ex_extern 250 ex_arrivals (ex_keys, ex_cache) = Some (os, st) \<and>
    map fst os = replicate (length ex_tx_frags - 1) RX_QUEUED @ [RX_CONTINUE] \<and>
    skb_data (rx_skb (snd (last os))) = sent_header (take 24 (skb_data ex_tx_skb)) 0 False @ drop 24 (skb_data ex_tx_skb))"
    by (rule fragmented_frame_arrives[OF ex_ccmp_link ex_to_fragment ex_room _ _ ex_unnumbered ex_key_parts(1,2) _ ex_tx_facts(1) o _ _ c,
          where sq = 16 and q = 0 and col = 1])
      (use ex_tx_facts(2) ex_receiving ex_arrivals_fresh in \<open>simp_all add: ex_tx_out_def o ex_tx_skb_parts ex_key_parts\<close>)
  then show ?thesis unfolding n ex_tx_skb_parts ex_tx_out_def o by simp
qed

end
