(* ===== verification/Spec2Isabelle.thy ===== *)
theory Spec2Isabelle
  imports Wpa_Tkip Wpa_Aead Wpa_Bip Airtime Agg_Parse Mvm_Order Parse_Crc Mlo_Runs Tx_Protect Tx_Rx
begin

text \<open>
  Verification of the data path, frame security, element parsing and multi-link state of the Linux
  \<^verbatim>\<open>mac80211\<close> stack with the Intel \<^verbatim>\<open>iwlwifi\<close> drivers.

  The program.  \<^verbatim>\<open>mac80211\<close> is the software MAC layer between the kernel's wireless
  configuration interface and the drivers of \<^verbatim>\<open>iwlwifi\<close>.  A frame to be sent passes the
  transmit handlers of \<^verbatim>\<open>tx.c\<close>, which select its key, add the Michael code and the sequence number,
  cut it into fragments and call the encryption handlers of \<^verbatim>\<open>wpa.c\<close> and \<^verbatim>\<open>wep.c\<close>; a received frame is matched to a station, checked for duplicates, put in
  order by the reorder buffer of its block-ack session, decrypted with the key that is selected for
  it and checked for replay by the handlers of \<^verbatim>\<open>wpa.c\<close> and \<^verbatim>\<open>wep.c\<close>, put together with its other
  fragments, its Michael code verified, and dropped if it should have been encrypted, EAPOL frames
  apart (\<^verbatim>\<open>rx.c\<close>).  Reorder buffers belong to block-ack
  sessions, which two stations set up with ADDBA requests and responses and end with DELBA frames
  (\<^verbatim>\<open>agg-rx.c\<close>, \<^verbatim>\<open>agg-tx.c\<close>, \<^verbatim>\<open>ht.c\<close>); each direction is a state machine driven by management
  frames, timers, calls of the driver and a work item.  \<^verbatim>\<open>wme.c\<close> selects the queue of a frame to be
  sent and fills in its QoS header.  \<^verbatim>\<open>airtime.c\<close> estimates how long a frame occupies the medium
  for the scheduler of the transmit queues.  Below it, the \<^verbatim>\<open>mvm\<close> driver of \<^verbatim>\<open>iwlwifi\<close> receives frames
  that its device has decrypted, split and spread over several queues: it evaluates the decryption
  status, finds duplicates, builds the frame, puts the frames of a block-ack session in order per
  queue and checks their packet numbers (\<^verbatim>\<open>mvm/rxmq.c\<close>, \<^verbatim>\<open>mvm/sta.c\<close>).  What management frames
  say beyond their fixed fields is in their elements, which one parser reads for all users: it
  checks sizes, limits itself to what the mode of the connection knows, follows the profiles of
  other BSSs and links, and computes a checksum that recognises an unchanged beacon (\<^verbatim>\<open>parse.c\<close>).
  A station may be connected over several links at once.  Which of them are valid, disabled or
  suspended by a mapping of traffic to links, and active, is kept in four bitmaps that management
  frames of the access point, requests of user space, timers and the driver change
  (\<^verbatim>\<open>mlme.c\<close>, \<^verbatim>\<open>link.c\<close>); the mappings themselves are elements the parser finds.
  This development models these handlers as functions
  from frames, keys and session state to results, and proves what they promise.

  Conventions.  Machine integers are words of their width, so additions wrap as in C.  Buffers
  are lists of octets; a \<^verbatim>\<open>struct\<close> is a record with the fields the code reads; a \<^verbatim>\<open>goto\<close> or early
  return is a branch.  A handler that changes a frame, a key or a session returns the changed
  value.  What the kernel provides and the repository only calls (RC4, CRC-32, the AEAD and
  digest transforms, header lengths, memory allocation) is a field of the record \<open>extern\<close> or of
  the frame, and theorems name the laws they rely on (\<open>aead_inverse\<close>, \<open>aead_lengths\<close>,
  \<open>arc4_inverse\<close>, \<open>arc4_lengths\<close>); an instance of all of them is in \<^verbatim>\<open>Mac80211\<close>.

  Theories.
  \<^item> \<^verbatim>\<open>Prelude\<close>: words, octet buffers, byte orders, their simplification rules.
  \<^item> \<^verbatim>\<open>Ieee80211\<close>: \<^verbatim>\<open>hdrs/linux/ieee80211.h\<close>, the frame header predicates and fields, and the
    twelve bit sequence numbers.
  \<^item> \<^verbatim>\<open>Mac80211\<close>: \<^verbatim>\<open>sk_buff\<close>, key, receive and transmit state (\<^verbatim>\<open>key.h\<close>, \<^verbatim>\<open>hdrs/net/mac80211.h\<close>),
    the external functions and their laws.
  \<^item> \<^verbatim>\<open>Michael\<close> (\<^verbatim>\<open>michael.c\<close>), \<^verbatim>\<open>Wep\<close> (\<^verbatim>\<open>wep.c\<close>), \<^verbatim>\<open>Tkip\<close> (\<^verbatim>\<open>tkip.c\<close>), \<^verbatim>\<open>Wpa_Tkip\<close> (the TKIP and
    Michael handlers of \<^verbatim>\<open>wpa.c\<close>).
  \<^item> \<^verbatim>\<open>Replay\<close>: two locales, the receive window of a packet number and its transmit source, with
    what follows for any sequence of frames.
  \<^item> \<^verbatim>\<open>Ccm_Gcm\<close>, \<^verbatim>\<open>Ccmp_Gcmp\<close>: the CCMP and GCMP handlers of \<^verbatim>\<open>wpa.c\<close> with \<^verbatim>\<open>aead_api.c\<close>,
    \<^verbatim>\<open>aes_ccm.h\<close> and \<^verbatim>\<open>aes_gcm.h\<close>; \<^verbatim>\<open>Aead_Suite\<close>: the shape both share, as a locale;
    \<^verbatim>\<open>Wpa_Aead\<close>: its interpretations and their properties.
  \<^item> \<^verbatim>\<open>Bip\<close> (\<^verbatim>\<open>aes_cmac.c\<close>, \<^verbatim>\<open>aes_gmac.c\<close> and the BIP handlers of \<^verbatim>\<open>wpa.c\<close>), \<^verbatim>\<open>Bip_Suite\<close> (their
    common shape, a locale), \<^verbatim>\<open>Wpa_Bip\<close> (interpretations and properties).
  \<^item> \<^verbatim>\<open>Reorder\<close>: the reorder buffer of \<^verbatim>\<open>rx.c\<close>; \<^verbatim>\<open>Reorder_Window\<close>: its invariant, the ring seen
    from the head, and that every operation keeps it; \<^verbatim>\<open>Reorder_Spec\<close>: order, conservation and
    progress over runs, and what goes wrong outside the invariant.
  \<^item> \<^verbatim>\<open>Defrag\<close>: classification of received frames and the fragment cache of \<^verbatim>\<open>rx.c\<close>; that what is put
    together are the fragments of one frame, and for which sizes no buffer overflows.
  \<^item> \<^verbatim>\<open>Rx_Keys\<close>: the duplicate check, key selection and the decryption handler of \<^verbatim>\<open>rx.c\<close>, and its checks
    for unencrypted frames, with the facts about slots and stored packet numbers; \<^verbatim>\<open>Rx_Protection\<close>:
    which key decrypts which frame, freshness of the whole handler (an instance of \<open>replay_window\<close>
    over all keys and queues), data and management frames that have to be protected, duplicates;
    \<^verbatim>\<open>Rx_Fragments\<close>: decryption and reassembly composed.
  \<^item> \<^verbatim>\<open>Tx_Handlers\<close>: the transmit handlers of \<^verbatim>\<open>tx.c\<close> that number, protect and fragment a frame, and
    their order; \<^verbatim>\<open>Tx_Spec\<close>: fragments and sequence numbers; \<^verbatim>\<open>Tx_Protect\<close>: no data in plain text to a
    station that uses encryption; \<^verbatim>\<open>Tx_Rx\<close>: a fragmented, encrypted frame is decrypted and put together
    again by the receive handlers.
  \<^item> \<^verbatim>\<open>Wme\<close>: queue selection and the QoS header of \<^verbatim>\<open>wme.c\<close>.
  \<^item> \<^verbatim>\<open>Agg\<close>: what both directions of block-ack sessions share: action frames, capabilities, the
    driver's callback; \<^verbatim>\<open>Agg_Rx\<close>: receive sessions (\<^verbatim>\<open>agg-rx.c\<close>), their invariant, and that a session
    set up by a request meets the invariant of \<^verbatim>\<open>Reorder_Window\<close>; \<^verbatim>\<open>Agg_Tx\<close>: transmit sessions
    (\<^verbatim>\<open>agg-tx.c\<close>, \<^verbatim>\<open>ieee80211_tx_prep_agg\<close>); \<^verbatim>\<open>Agg_Tx_Inv\<close>: their invariant and the conservation of
    waiting frames; \<^verbatim>\<open>Agg_Sessions\<close>: the work, DELBA frames and teardown of \<^verbatim>\<open>ht.c\<close>, the steps of
    a station, and the handshake of two stations; \<^verbatim>\<open>Agg_Txq\<close>: the transmit queues of the sessions, and what holds
    in every reachable state; \<^verbatim>\<open>Agg_Parse\<close>: that the parser of \<^verbatim>\<open>Parse\<close> finds the extension element, as
    the sessions assume.
  \<^item> \<^verbatim>\<open>Mvm_Rxq\<close>: the receive queues of \<^verbatim>\<open>mvm/rxmq.c\<close> and the receive sessions of \<^verbatim>\<open>mvm/sta.c\<close>;
    \<^verbatim>\<open>Mvm_Reorder\<close>: no frame is lost from the descriptor to \<^verbatim>\<open>mac80211\<close>, nor when a session ends;
    \<^verbatim>\<open>Mvm_Order\<close>: the order of the frames of a queue under what the firmware promises (\<open>fw_ok\<close>), what
    happens without it, and packet numbers, as an instance of \<open>replay_window\<close>.
  \<^item> \<^verbatim>\<open>Element\<close>: elements and the loops over them; \<^verbatim>\<open>Elem_Sizes\<close>: the size checks and accessors of
    HE, EHT, UHR and power envelope elements (\<^verbatim>\<open>hdrs/linux/ieee80211*.h\<close>); \<^verbatim>\<open>Parse_State\<close>, \<^verbatim>\<open>Parse\<close>: the
    parser of \<^verbatim>\<open>parse.c\<close>; \<^verbatim>\<open>Parse_Wf\<close>: its results are well formed, by the writes each element may
    cause (\<open>elem_write\<close>); \<^verbatim>\<open>Parse_Spec\<close>: which element each field is taken from; \<^verbatim>\<open>Parse_Errors\<close>: the
    error flags and the modes; \<^verbatim>\<open>Parse_Crc\<close>: what the checksum depends on.
  \<^item> \<^verbatim>\<open>Ttlm\<close>: reading and building TID-to-link mapping elements (\<^verbatim>\<open>mlme.c\<close>); \<^verbatim>\<open>Ttlm_Spec\<close>: that the
    readers stay within the element, and that what is built is read back through the element parser;
    \<^verbatim>\<open>Mlo_Links\<close>: the sets of links (record \<open>mlo\<close>) and every handler that changes them, negotiated and
    advertised mappings, removal of links, activation, association and disassociation (\<^verbatim>\<open>mlme.c\<close>, \<^verbatim>\<open>link.c\<close>,
    \<^verbatim>\<open>iface.c\<close>, \<^verbatim>\<open>status.c\<close>); \<^verbatim>\<open>Mlo_Inv\<close>: the invariant \<open>links_ok\<close>, which each of them keeps; \<^verbatim>\<open>Mlo_Steps\<close>: the
    reachable states of a station, what mappings do to the usable links, and where the code leaves
    its description; \<^verbatim>\<open>Mlo_Runs\<close>: the links in every reachable state, with and without the associations
    whose mapping disables a link they need.
  \<^item> \<^verbatim>\<open>Airtime_Table\<close>, \<^verbatim>\<open>Airtime\<close>: the duration table and the estimates of \<^verbatim>\<open>airtime.c\<close>.

  Loops and bounds.  Loops are recursive functions that terminate by a measure or by structure.
  The in-order release of the reorder buffer has a counter, the buffer size, which is enough
  because every release empties a queue.  The search for the next stored frame may run for ever
  in the code, and is a partial function; within the invariant it is shown to return.

  Conditions.  The order and conservation of the reorder buffer hold for sessions whose size divides 4096
  and frames of whole MSDUs; each field the parser is shown to fill with the first element is one of
  \<open>single_fields\<close>; mapping requests are read as they were meant when their maps have no gaps; active
  links are usable unless an association was made on a link its mapping disables.  Theorems show
  what the code does without the first, the third and the last of these (\<open>reorder_window_collision\<close>, \<open>reorder_stale_amsdu\<close>,
  \<open>ttlm_gap_misread\<close>, \<open>assoc_link_disabled\<close>); the other cases of this kind are
  \<open>reorder_filtered_hangs\<close>, \<open>start_given_up_stays_stopped\<close>, \<open>mvm_baid_unchecked\<close>, \<open>ttlm_gap_overread\<close>,
  \<open>stale_protection_drops\<close> and those they stand beside.

  Not modelled.  Locks, RCU and the timer wheel (a timer is the time it is set to);
  \<^verbatim>\<open>skb_set_network_header\<close>, statistics and debugging output; the clearing of RC4 state after
  use; the last two octets of a CCM counter block, which the transform overwrites.  A bit
  outside the 64 of the filter bitmap is ignored; the code warns of sessions larger than that.
  Of the element parser, \<^verbatim>\<open>cfg80211\<close> (inheritance, profiles, defragmentation) and CRC-32 are
  parameters (\<open>cfg80211_ops\<close>), with the law \<open>scratch_laws\<close> that what they write fits the space they
  are given; a pointer into the frame is the list of the octets that follow it up to the end of its
  element.  Of multi-link operation, the structures of a link, its keys, station and channel, which the same
  functions of \<^verbatim>\<open>link.c\<close> move, are left out; the callbacks of the driver, allocations and addresses of links
  are the record \<open>mlo_env\<close>, which may be another one in every step.  In the block-ack handshake the parser is a field of the peer, of which it is assumed that
  it finds the extension element it is given (\<open>addba_ext_parses\<close>, shown of the modelled parser in
  \<^verbatim>\<open>Agg_Parse\<close>); the driver's \<^verbatim>\<open>ampdu_action\<close> and failing allocations
  are arguments of the session operations, and its table of stations one station or none.
  Of the transmit handlers those for power save, the state of the association, rates, statistics and
  durations are left out, and fragmentation is that of a device with rate control of its own.
  The rest of the receive and transmit paths (aggregation of MSDUs, conversion to Ethernet frames, mesh, fast paths), the remaining connection state machines of \<^verbatim>\<open>mlme.c\<close>, configuration, scanning, station tables and
  the rest of the drivers under \<^verbatim>\<open>iwlwifi\<close> (firmware commands, DMA rings, rates and statistics of received frames) are left out: they consist mostly
  of calls into the kernel, the hardware and cfg80211, which are outside the repository.
\<close>

end
